(* ===== verification/Prelude.thy ===== *)
theory Prelude
  imports Main "HOL-Library.List_Lexorder" "HOL-Library.Char_ord"
begin

text \<open>
  Shared vocabulary of the development: JavaScript truthiness and nullish defaulting on
  optional fields, ASCII white space and trimming, and the insertion-ordered \<open>Map\<close> and
  \<open>Set\<close> constructors the synchronisation code builds from arrays.

  Strings are the UTF-8 bytes of the JavaScript strings. An optional property is an
  \<open>option\<close>: \<open>None\<close> is the absent (or \<open>undefined\<close>) property.
\<close>

named_theorems js_simps \<open>rewrite rules for the JavaScript operators\<close>
named_theorems ids \<open>identifier preservation lemmas\<close>

subsection \<open>Truthiness and defaulting\<close>

text \<open>A string-valued optional property is truthy when it is present and not empty.\<close>

definition truthy :: "string option \<Rightarrow> bool" where
  "truthy v = (case v of None \<Rightarrow> False | Some s \<Rightarrow> s \<noteq> [])"

lemma truthy_simps [simp, js_simps]:
  "truthy None = False"
  "truthy (Some s) = (s \<noteq> [])"
  by (simp_all add: truthy_def)

text \<open>The operators \<open>a || b\<close> and \<open>a ?? b\<close>.\<close>

definition js_or :: "string option \<Rightarrow> string option \<Rightarrow> string option" where
  "js_or a b = (if truthy a then a else b)"

definition js_nullish :: "'a option \<Rightarrow> 'a option \<Rightarrow> 'a option" where
  "js_nullish a b = (case a of None \<Rightarrow> b | Some x \<Rightarrow> Some x)"

lemma js_nullish_simps [simp, js_simps]:
  "js_nullish None b = b"
  "js_nullish (Some x) b = Some x"
  by (simp_all add: js_nullish_def)

text \<open>\<open>v ?? d\<close> with a default of the field's own type.\<close>

definition or_else :: "'a option \<Rightarrow> 'a \<Rightarrow> 'a" where
  "or_else v d = (case v of None \<Rightarrow> d | Some x \<Rightarrow> x)"

lemma or_else_simps [simp, js_simps]:
  "or_else None d = d"
  "or_else (Some x) d = x"
  by (simp_all add: or_else_def)

subsection \<open>Trimming\<close>

definition is_ws :: "char \<Rightarrow> bool" where
  "is_ws c = (c = CHR 0x20 \<or> c = CHR 0x09 \<or> c = CHR 0x0A \<or> c = CHR 0x0B \<or> c = CHR 0x0C
     \<or> c = CHR 0x0D)"

definition js_trim :: "string \<Rightarrow> string" where
  "js_trim s = rev (dropWhile is_ws (rev (dropWhile is_ws s)))"

lemma dropWhile_hd: "dropWhile P xs = [] \<or> \<not> P (hd (dropWhile P xs))"
  by (induction xs) auto

lemma js_trim_Nil [simp]: "js_trim [] = []"
  by (simp add: js_trim_def)

lemma dropWhile_snoc_stop: "\<not> P x \<Longrightarrow> dropWhile P (xs @ [x]) = dropWhile P xs @ [x]"
  by (induction xs) auto

lemma dropWhile_rev_keep_hd:
  assumes "xs = [] \<or> \<not> P (hd xs)"
  shows "dropWhile P (rev (dropWhile P (rev xs))) = rev (dropWhile P (rev xs))"
proof (cases xs)
  case Nil
  then show ?thesis by simp
next
  case (Cons x ys)
  with assms have "\<not> P x" by simp
  then have "rev (dropWhile P (rev xs)) = x # rev (dropWhile P (rev ys))"
    using Cons by (simp add: dropWhile_snoc_stop)
  with \<open>\<not> P x\<close> show ?thesis by simp
qed

lemma js_trim_idem [simp]: "js_trim (js_trim s) = js_trim s"
proof -
  let ?t = "dropWhile is_ws s"
  have "?t = [] \<or> \<not> is_ws (hd ?t)" by (rule dropWhile_hd)
  then have "dropWhile is_ws (rev (dropWhile is_ws (rev ?t))) = rev (dropWhile is_ws (rev ?t))"
    by (rule dropWhile_rev_keep_hd)
  then show ?thesis by (simp add: js_trim_def)
qed

text \<open>A string with content after trimming; the code's \<open>isNonEmptyString\<close> on a string.\<close>

definition nonblank :: "string \<Rightarrow> bool" where
  "nonblank s = (js_trim s \<noteq> [])"

lemma nonblank_nonempty: "nonblank s \<Longrightarrow> s \<noteq> []"
  by (auto simp: nonblank_def)

definition starts_with :: "string \<Rightarrow> string \<Rightarrow> bool" where
  "starts_with p s = (take (length p) s = p)"

definition js_lower_char :: "char \<Rightarrow> char" where
  "js_lower_char c = (let n = (of_char c :: nat) in
     if 65 \<le> n \<and> n \<le> 90 then char_of (n + 32) else c)"

definition js_lower :: "string \<Rightarrow> string" where
  "js_lower s = map js_lower_char s"

definition js_upper_char :: "char \<Rightarrow> char" where
  "js_upper_char c = (let n = (of_char c :: nat) in
     if 97 \<le> n \<and> n \<le> 122 then char_of (n - 32) else c)"

definition js_upper :: "string \<Rightarrow> string" where
  "js_upper s = map js_upper_char s"

subsection \<open>Sets and maps in insertion order\<close>

text \<open>\<open>new Set(xs)\<close> iterates each element once, at its first position.\<close>

definition uniq :: "'a list \<Rightarrow> 'a list" where
  "uniq xs = rev (remdups (rev xs))"

lemma set_uniq [simp]: "set (uniq xs) = set xs"
  by (simp add: uniq_def)

lemma distinct_uniq [simp]: "distinct (uniq xs)"
  by (simp add: uniq_def)

lemma uniq_id: "distinct xs \<Longrightarrow> uniq xs = xs"
  by (simp add: uniq_def distinct_remdups_id)

lemma remdups_append_subset: "set xs \<subseteq> set ys \<Longrightarrow> remdups (xs @ ys) = remdups ys"
  by (induction xs) auto

lemma uniq_append_self: "distinct xs \<Longrightarrow> uniq (xs @ xs) = xs"
  by (simp add: uniq_def remdups_append_subset distinct_remdups_id)

lemma uniq_Nil [simp]: "uniq [] = []"
  by (simp add: uniq_def)

text \<open>\<open>new Map(xs.map((x) => [key(x), x]))\<close>: a later element replaces an earlier one.\<close>

definition js_map_of :: "('a \<Rightarrow> 'k) \<Rightarrow> 'a list \<Rightarrow> 'k \<Rightarrow> 'a option" where
  "js_map_of key xs k = find (\<lambda>x. key x = k) (rev xs)"

lemma js_map_of_Nil [simp]: "js_map_of key [] k = None"
  by (simp add: js_map_of_def)

lemma js_map_SomeD: "js_map_of key xs k = Some x \<Longrightarrow> x \<in> set xs \<and> key x = k"
proof -
  assume "js_map_of key xs k = Some x"
  then obtain i where "i < length (rev xs)" "key (rev xs ! i) = k" "x = rev xs ! i"
    by (auto simp: js_map_of_def find_Some_iff)
  then show ?thesis
    using nth_mem[of i "rev xs"] by simp
qed

lemma js_map_None_iff: "js_map_of key xs k = None \<longleftrightarrow> k \<notin> key ` set xs"
  by (auto simp: js_map_of_def find_None_iff)

lemma js_map_of_distinct:
  assumes "distinct (map key xs)" and "x \<in> set xs"
  shows "js_map_of key xs (key x) = Some x"
proof (cases "js_map_of key xs (key x)")
  case None
  with assms(2) show ?thesis by (auto simp: js_map_None_iff)
next
  case (Some y)
  then have "y \<in> set xs" "key y = key x" by (auto dest: js_map_SomeD)
  with assms have "y = x" by (auto simp: distinct_map inj_on_def)
  with Some show ?thesis by simp
qed

lemma js_map_of_in_image:
  "k \<in> key ` set xs \<Longrightarrow> \<exists>x. js_map_of key xs k = Some x"
  by (cases "js_map_of key xs k") (auto simp: js_map_None_iff)

subsection \<open>Lists\<close>

lemma sum_list_map_le:
  fixes f :: "'a \<Rightarrow> nat"
  shows "x \<in> set xs \<Longrightarrow> f x \<le> sum_list (map f xs)"
  by (induction xs) auto

lemma map_option_id_iff [simp]: "map_option (\<lambda>x. x) v = v"
  by (cases v) auto

lemma fst_foldl_indep:
  "(\<And>s x. f (g s x) = h (f s) x) \<Longrightarrow> f (foldl g s xs) = foldl h (f s) xs"
  by (induction xs arbitrary: s) auto

end
