(* ===== verification/JsDate.thy ===== *)
theory JsDate
  imports Prelude
begin

text \<open>
  The part of the ECMAScript \<open>Date\<close> object the synchronisation code uses:
  \<open>Date.parse\<close> (and \<open>new Date(s).getTime()\<close>) on the date-time string format of the
  standard, and \<open>Date.prototype.toISOString\<close>. Time values are integers, milliseconds
  since 1970-01-01T00:00:00Z; \<open>None\<close> is \<open>NaN\<close>. A date-time without an offset is read in the
  host's zone, which is taken to be UTC; the free-form strings some engines also accept are
  \<open>NaN\<close>, as the standard permits. The dates the program writes all come from
  \<open>toISOString\<close>, and \<open>date_parse_to_iso\<close> shows that reading them back is exact.
\<close>

subsection \<open>Decimal digits\<close>

definition digit_of :: "char \<Rightarrow> int option" where
  "digit_of c = (let n = int (of_char c) in if 48 \<le> n \<and> n \<le> 57 then Some (n - 48) else None)"

definition char_of_digit :: "int \<Rightarrow> char" where
  "char_of_digit d = char_of (nat (48 + d))"

lemma digit_of_char_of_digit [simp]:
  "0 \<le> d \<Longrightarrow> d \<le> 9 \<Longrightarrow> digit_of (char_of_digit d) = Some d"
  by (simp add: digit_of_def char_of_digit_def of_char_of Let_def)

fun show_digits :: "nat \<Rightarrow> int \<Rightarrow> string" where
  "show_digits 0 k = []"
| "show_digits (Suc n) k = show_digits n (k div 10) @ [char_of_digit (k mod 10)]"

fun read_digits :: "nat \<Rightarrow> int \<Rightarrow> string \<Rightarrow> (int \<times> string) option" where
  "read_digits 0 acc s = Some (acc, s)"
| "read_digits (Suc n) acc [] = None"
| "read_digits (Suc n) acc (c # cs) =
     (case digit_of c of None \<Rightarrow> None | Some d \<Rightarrow> read_digits n (10 * acc + d) cs)"

lemma read_digits_append:
  "read_digits (n + m) a s =
     (case read_digits n a s of None \<Rightarrow> None | Some (v, t) \<Rightarrow> read_digits m v t)"
  by (induction n a s rule: read_digits.induct) (auto split: option.splits)

lemma length_show_digits [simp]: "length (show_digits n k) = n"
  by (induction n arbitrary: k) auto

lemma read_show_digits:
  "0 \<le> k \<Longrightarrow> k < 10 ^ n \<Longrightarrow> read_digits n a (show_digits n k @ r) = Some (a * 10 ^ n + k, r)"
proof (induction n arbitrary: k r)
  case 0
  then show ?case by simp
next
  case (Suc n)
  have "k div 10 < 10 ^ n" using Suc.prems by (simp add: div_less_iff_less_mult mult.commute)
  moreover have "0 \<le> k div 10" using Suc.prems by simp
  ultimately have
    "read_digits n a (show_digits n (k div 10) @ (char_of_digit (k mod 10) # r)) =
       Some (a * 10 ^ n + k div 10, char_of_digit (k mod 10) # r)"
    using Suc.IH by blast
  moreover have "0 \<le> k mod 10" "k mod 10 \<le> 9" by simp_all
  ultimately show ?case
    using read_digits_append[of n 1 a "show_digits (Suc n) k @ r"]
    by (simp add: algebra_simps)
qed

text \<open>As many digits as there are, for a fraction of a second.\<close>

fun span_digits :: "string \<Rightarrow> string \<times> string" where
  "span_digits [] = ([], [])"
| "span_digits (c # cs) =
     (if digit_of c = None then ([], c # cs) else (case span_digits cs of (d, r) \<Rightarrow> (c # d, r)))"

subsection \<open>Days, months and years\<close>

definition is_leap :: "int \<Rightarrow> bool" where
  "is_leap y = (y mod 4 = 0 \<and> (y mod 100 \<noteq> 0 \<or> y mod 400 = 0))"

definition day_from_year :: "int \<Rightarrow> int" where
  "day_from_year y =
     365 * (y - 1970) + (y - 1969) div 4 - (y - 1901) div 100 + (y - 1601) div 400"

definition days_before_month :: "bool \<Rightarrow> int \<Rightarrow> int" where
  "days_before_month leap m =
     (if m \<le> 1 then 0 else if m = 2 then 31 else (if leap then 1 else 0) +
       (if m = 3 then 59 else if m = 4 then 90 else if m = 5 then 120 else if m = 6 then 151
        else if m = 7 then 181 else if m = 8 then 212 else if m = 9 then 243
        else if m = 10 then 273 else if m = 11 then 304 else 334))"

definition make_day :: "int \<Rightarrow> int \<Rightarrow> int \<Rightarrow> int" where
  "make_day y m d = day_from_year y + days_before_month (is_leap y) m + d - 1"

text \<open>The year of a day: an estimate from the mean year of 365.2425 days, off by at most one.\<close>

definition year_of_day :: "int \<Rightarrow> int" where
  "year_of_day d =
     (let y = 1970 + (400 * d) div 146097
      in if d < day_from_year y then y - 1 else if day_from_year (y + 1) \<le> d then y + 1 else y)"

definition month_of_doy :: "bool \<Rightarrow> int \<Rightarrow> int" where
  "month_of_doy leap k =
     (let l = (if leap then 1 else 0) in
      if k < 31 then 1 else if k < 59 + l then 2 else if k < 90 + l then 3
      else if k < 120 + l then 4 else if k < 151 + l then 5 else if k < 181 + l then 6
      else if k < 212 + l then 7 else if k < 243 + l then 8 else if k < 273 + l then 9
      else if k < 304 + l then 10 else if k < 334 + l then 11 else 12)"

lemma div_bounds:
  fixes x k :: int
  assumes "0 < k"
  shows "k * (x div k) \<le> x \<and> x < k * (x div k) + k"
proof -
  have "k * (x div k) + x mod k = x" by simp
  moreover have "0 \<le> x mod k" "x mod k < k" using assms by simp_all
  ultimately show ?thesis by linarith
qed

lemma div_plus1:
  fixes x k :: int
  assumes "1 < k"
  shows "(x + 1) div k = x div k + (if (x + 1) mod k = 0 then 1 else 0)"
proof (cases "x mod k = k - 1")
  case True
  have e: "x + 1 = k * (x div k + 1) + 0"
    using True mult_div_mod_eq[of k x] by (simp only: distrib_left mult_1_right)
  have "(x + 1) div k = x div k + 1" using int_div_pos_eq[OF e] assms by simp
  moreover have "(x + 1) mod k = 0" using int_mod_pos_eq[OF e] assms by simp
  ultimately show ?thesis by simp
next
  case False
  moreover have "x mod k < k" "0 \<le> x mod k" using assms by simp_all
  ultimately have r: "0 \<le> x mod k + 1" "x mod k + 1 < k" by linarith+
  have e: "x + 1 = k * (x div k) + (x mod k + 1)" by simp
  have "(x + 1) div k = x div k" using int_div_pos_eq[OF e r] .
  moreover have "(x + 1) mod k \<noteq> 0" using int_mod_pos_eq[OF e r] \<open>0 \<le> x mod k\<close> by simp
  ultimately show ?thesis by simp
qed

lemma mod_shift:
  fixes y k c :: int
  shows "(y - k * c) mod k = y mod k"
  using mod_mult_self2[of y k "- c"] by simp

lemma year_estimate:
  fixes a b c y :: int
  assumes "4 * a \<le> y - 1969" "y - 1969 < 4 * a + 4" "100 * b \<le> y - 1901"
    "y - 1901 < 100 * b + 100" "400 * c \<le> y - 1601" "y - 1601 < 400 * c + 400"
  shows "400 * (365 * (y - 1970) + a - b + c) \<le> 146097 * (y - 1970) + 600"
    "146097 * (y - 1970) - 600 \<le> 400 * (365 * (y - 1970) + a - b + c)"
  using assms by simp_all

lemma day_from_year_bounds:
  "400 * day_from_year y \<le> 146097 * (y - 1970) + 600"
  "146097 * (y - 1970) - 600 \<le> 400 * day_from_year y"
  unfolding day_from_year_def
  by (rule year_estimate; rule div_bounds[THEN conjunct1] div_bounds[THEN conjunct2]; rule zero_less_numeral)+

lemma div_next_year:
  fixes y k q s :: int
  assumes "1 < k" "s - 1 = k * q"
  shows "(y + 1 - s) div k = (y - s) div k + (if y mod k = 0 then 1 else 0)"
proof -
  have e: "(y - s) + 1 = y - k * q" and f: "y + 1 - s = (y - s) + 1" using assms(2) by linarith+
  show ?thesis
    unfolding f div_plus1[OF assms(1)] unfolding e mod_shift by (rule refl)
qed

lemma leap_days:
  fixes a b c y :: int
  shows "(R \<Longrightarrow> Q) \<Longrightarrow> (Q \<Longrightarrow> P) \<Longrightarrow>
    365 * (y + 1 - 1970) + (a + (if P then 1 else 0)) - (b + (if Q then 1 else 0)) +
      (c + (if R then 1 else 0)) =
    365 * (y - 1970) + a - b + c + (if P \<and> (\<not> Q \<or> R) then 366 else 365)"
  by (cases P; cases Q; cases R) simp_all

lemma mod_zero_trans: "y mod (k * j) = 0 \<Longrightarrow> y mod j = (0::int)"
  by (metis dvd_eq_mod_eq_0 dvd_mult_right)

lemma day_from_year_Suc:
  "day_from_year (y + 1) = day_from_year y + (if is_leap y then 366 else 365)"
proof -
  have d: "(y + 1 - 1969) div 4 = (y - 1969) div 4 + (if y mod 4 = 0 then 1 else 0)"
    "(y + 1 - 1901) div 100 = (y - 1901) div 100 + (if y mod 100 = 0 then 1 else 0)"
    "(y + 1 - 1601) div 400 = (y - 1601) div 400 + (if y mod 400 = 0 then 1 else 0)"
    by (rule div_next_year[where q = 492] div_next_year[where q = 19] div_next_year[where q = 4];
        simp; fail)+
  have m: "y mod 400 = 0 \<Longrightarrow> y mod 100 = 0" "y mod 100 = 0 \<Longrightarrow> y mod 4 = 0"
    using mod_zero_trans[of y 4 100] mod_zero_trans[of y 25 4] by simp_all
  show ?thesis
    unfolding day_from_year_def is_leap_def d by (rule leap_days) (fact m)+
qed

lemma year_of_day_bounds:
  "day_from_year (year_of_day d) \<le> d \<and> d < day_from_year (year_of_day d + 1)"
proof -
  define y where "y = 1970 + (400 * d) div 146097"
  define q where "q = (400 * d) div 146097"
  have "146097 * q \<le> 400 * d" "400 * d < 146097 * q + 146097"
    unfolding q_def using div_bounds[of 146097 "400 * d"] by simp_all
  then have e: "146097 * (y - 1970) \<le> 400 * d" "400 * d < 146097 * (y - 1970) + 146097"
    by (simp_all add: y_def q_def)
  have lo: "day_from_year (y - 1) \<le> d"
    using day_from_year_bounds[of "y - 1"] e by simp
  have hi: "d < day_from_year (y + 2)"
    using day_from_year_bounds[of "y + 2"] e by simp
  show ?thesis
    using lo hi by (simp add: year_of_day_def Let_def y_def[symmetric] add.commute)
qed

lemma month_of_doy_ranges:
  assumes "0 \<le> k" "k < 365 + l" "0 \<le> l" "l \<le> 1" "l = (if leap then 1 else 0)"
  obtains "k < 31" "month_of_doy leap k = 1"
  | "31 \<le> k" "k < 59 + l" "month_of_doy leap k = 2"
  | "59 + l \<le> k" "k < 90 + l" "month_of_doy leap k = 3"
  | "90 + l \<le> k" "k < 120 + l" "month_of_doy leap k = 4"
  | "120 + l \<le> k" "k < 151 + l" "month_of_doy leap k = 5"
  | "151 + l \<le> k" "k < 181 + l" "month_of_doy leap k = 6"
  | "181 + l \<le> k" "k < 212 + l" "month_of_doy leap k = 7"
  | "212 + l \<le> k" "k < 243 + l" "month_of_doy leap k = 8"
  | "243 + l \<le> k" "k < 273 + l" "month_of_doy leap k = 9"
  | "273 + l \<le> k" "k < 304 + l" "month_of_doy leap k = 10"
  | "304 + l \<le> k" "k < 334 + l" "month_of_doy leap k = 11"
  | "334 + l \<le> k" "month_of_doy leap k = 12"
  using assms(3,4) unfolding month_of_doy_def assms(5)[symmetric] Let_def
  by (smt (verit))

lemma month_of_doy_bounds:
  assumes "0 \<le> k" "k < (if leap then 366 else 365)"
  shows "1 \<le> month_of_doy leap k \<and> month_of_doy leap k \<le> 12 \<and>
    days_before_month leap (month_of_doy leap k) \<le> k \<and>
    k < days_before_month leap (month_of_doy leap k) + 31"
proof -
  define l :: int where "l = (if leap then 1 else 0)"
  have l: "0 \<le> l" "l \<le> 1" "k < 365 + l" using assms(2) by (auto simp: l_def)
  show ?thesis
    by (rule month_of_doy_ranges[OF assms(1) l(3,1,2) l_def])
      (use assms(1) l in \<open>simp_all add: days_before_month_def l_def[symmetric]\<close>)
qed

text \<open>Civil date of a day number.\<close>

definition civil_of_day :: "int \<Rightarrow> int \<times> int \<times> int" where
  "civil_of_day n =
     (let y = year_of_day n; k = n - day_from_year y; m = month_of_doy (is_leap y) k
      in (y, m, k - days_before_month (is_leap y) m + 1))"

lemma make_day_civil:
  assumes "civil_of_day n = (y, m, d)"
  shows "make_day y m d = n \<and> 1 \<le> m \<and> m \<le> 12 \<and> 1 \<le> d \<and> d \<le> 31"
proof -
  have y: "y = year_of_day n" and m: "m = month_of_doy (is_leap y) (n - day_from_year y)"
    and d: "d = n - day_from_year y - days_before_month (is_leap y) m + 1"
    using assms by (auto simp: civil_of_day_def Let_def)
  have "day_from_year y \<le> n" "n < day_from_year y + (if is_leap y then 366 else 365)"
    using year_of_day_bounds[of n] by (simp_all add: y day_from_year_Suc)
  then have "1 \<le> m \<and> m \<le> 12 \<and> days_before_month (is_leap y) m \<le> n - day_from_year y \<and>
      n - day_from_year y < days_before_month (is_leap y) m + 31"
    unfolding m by (intro month_of_doy_bounds) auto
  then show ?thesis by (auto simp: make_day_def d)
qed

subsection \<open>Printing\<close>

definition ms_per_day :: int where "ms_per_day = 86400000"

definition max_time :: int where "max_time = 8640000000000000"

text \<open>\<open>toISOString\<close>: \<open>None\<close> is the \<open>RangeError\<close> outside the representable times.\<close>

definition show_year :: "int \<Rightarrow> string" where
  "show_year y =
     (if 0 \<le> y \<and> y \<le> 9999 then show_digits 4 y
      else if y < 0 then ''-'' @ show_digits 6 (- y) else ''+'' @ show_digits 6 y)"

definition show_clock :: "int \<Rightarrow> string" where
  "show_clock t =
     show_digits 2 (t div 3600000) @ '':'' @ show_digits 2 (t div 60000 mod 60) @ '':'' @
     show_digits 2 (t div 1000 mod 60) @ ''.'' @ show_digits 3 (t mod 1000) @ ''Z''"

definition to_iso :: "int \<Rightarrow> string" where
  "to_iso ms =
     (case civil_of_day (ms div ms_per_day) of (y, m, d) \<Rightarrow>
        show_year y @ ''-'' @ show_digits 2 m @ ''-'' @ show_digits 2 d @ ''T'' @
        show_clock (ms mod ms_per_day))"

definition to_iso_string :: "int \<Rightarrow> string option" where
  "to_iso_string ms = (if \<bar>ms\<bar> \<le> max_time then Some (to_iso ms) else None)"

subsection \<open>Parsing\<close>

definition eat :: "char \<Rightarrow> string \<Rightarrow> string option" where
  "eat c s = (case s of [] \<Rightarrow> None | x # r \<Rightarrow> if x = c then Some r else None)"

definition parse_year :: "string \<Rightarrow> (int \<times> string) option" where
  "parse_year s =
     (case s of [] \<Rightarrow> None
      | c # r \<Rightarrow>
          if c = CHR ''+'' then read_digits 6 0 r
          else if c = CHR ''-'' then
            (case read_digits 6 0 r of None \<Rightarrow> None
             | Some (v, t) \<Rightarrow> if v = 0 then None else Some (- v, t))
          else read_digits 4 0 s)"

definition in_range :: "int \<Rightarrow> int \<Rightarrow> (int \<times> string) option \<Rightarrow> (int \<times> string) option" where
  "in_range lo hi v = Option.bind v (\<lambda>(n, r). if lo \<le> n \<and> n \<le> hi then Some (n, r) else None)"

definition parse_month_day :: "string \<Rightarrow> (int \<times> int \<times> string) option" where
  "parse_month_day s =
     (case eat (CHR ''-'') s of None \<Rightarrow> Some (1, 1, s)
      | Some r \<Rightarrow> Option.bind (in_range 1 12 (read_digits 2 0 r)) (\<lambda>(m, r1).
          case eat (CHR ''-'') r1 of None \<Rightarrow> Some (m, 1, r1)
          | Some r2 \<Rightarrow> Option.bind (in_range 1 31 (read_digits 2 0 r2)) (\<lambda>(d, r3).
              Some (m, d, r3))))"

text \<open>The first three digits of a fraction are its milliseconds.\<close>

definition parse_fraction :: "string \<Rightarrow> (int \<times> string) option" where
  "parse_fraction s =
     (case eat (CHR ''.'') s of None \<Rightarrow> Some (0, s)
      | Some r \<Rightarrow>
          (case span_digits r of (d, rest) \<Rightarrow>
             if d = [] then None
             else map_option (\<lambda>(v, _). (v, rest)) (read_digits 3 0 (take 3 (d @ ''00'')))))"

definition parse_seconds :: "string \<Rightarrow> (int \<times> string) option" where
  "parse_seconds s =
     (case eat (CHR '':'') s of None \<Rightarrow> Some (0, s)
      | Some r \<Rightarrow> Option.bind (in_range 0 59 (read_digits 2 0 r)) (\<lambda>(sec, r1).
          Option.bind (parse_fraction r1) (\<lambda>(f, r2). Some (1000 * sec + f, r2))))"

definition parse_clock :: "string \<Rightarrow> (int \<times> string) option" where
  "parse_clock s =
     Option.bind (in_range 0 24 (read_digits 2 0 s)) (\<lambda>(h, r1).
     Option.bind (eat (CHR '':'') r1) (\<lambda>r2.
     Option.bind (in_range 0 59 (read_digits 2 0 r2)) (\<lambda>(mi, r3).
     Option.bind (parse_seconds r3) (\<lambda>(sm, r4).
       if h = 24 \<and> (mi \<noteq> 0 \<or> sm \<noteq> 0) then None
       else Some (3600000 * h + 60000 * mi + sm, r4)))))"

text \<open>The offset in milliseconds east of UTC; no offset is the host's zone.\<close>

definition parse_zone :: "string \<Rightarrow> int option" where
  "parse_zone s =
     (case s of [] \<Rightarrow> Some 0
      | c # r \<Rightarrow>
          if c = CHR ''Z'' then (if r = [] then Some 0 else None)
          else if c = CHR ''+'' \<or> c = CHR ''-'' then
            Option.bind (in_range 0 23 (read_digits 2 0 r)) (\<lambda>(h, r1).
            Option.bind (eat (CHR '':'') r1) (\<lambda>r2.
            Option.bind (in_range 0 59 (read_digits 2 0 r2)) (\<lambda>(mi, r3).
              if r3 = [] then Some ((if c = CHR ''-'' then - 1 else 1) * (3600000 * h + 60000 * mi))
              else None)))
          else None)"

definition time_clip :: "int \<Rightarrow> int option" where
  "time_clip t = (if \<bar>t\<bar> \<le> max_time then Some t else None)"

definition date_parse :: "string \<Rightarrow> int option" where
  "date_parse s =
     Option.bind (parse_year s) (\<lambda>(y, r1).
     Option.bind (parse_month_day r1) (\<lambda>(m, d, r2).
       (let day = make_day y m d * ms_per_day in
        if r2 = [] then time_clip day
        else Option.bind (eat (CHR ''T'') r2) (\<lambda>r3.
             Option.bind (parse_clock r3) (\<lambda>(t, r4).
             Option.bind (parse_zone r4) (\<lambda>off. time_clip (day + t - off)))))))"

subsection \<open>Reading back a printed time\<close>

lemmas read_show2 = read_show_digits [where n = 2 and a = 0, simplified]
lemmas read_show3 = read_show_digits [where n = 3 and a = 0, simplified]
lemmas read_show4 = read_show_digits [where n = 4 and a = 0, simplified]
lemmas read_show6 = read_show_digits [where n = 6 and a = 0, simplified]

lemma char_of_digit_signs [simp]:
  "0 \<le> d \<Longrightarrow> d \<le> 9 \<Longrightarrow> char_of_digit d \<noteq> CHR ''+'' \<and> char_of_digit d \<noteq> CHR ''-''"
proof -
  assume d: "0 \<le> d" "d \<le> 9"
  then have "digit_of (char_of_digit d) = Some d" by simp
  moreover have "digit_of (CHR ''+'') = None" "digit_of (CHR ''-'') = None"
    by (simp_all add: digit_of_def Let_def)
  ultimately show ?thesis by (metis option.distinct(1))
qed

lemma parse_show_year:
  assumes "\<bar>y\<bar> \<le> 999999"
  shows "parse_year (show_year y @ r) = Some (y, r)"
proof (cases "0 \<le> y \<and> y \<le> 9999")
  case True
  obtain c cs where cs: "show_digits 4 y = c # cs" by (cases "show_digits 4 y") (auto dest: arg_cong[where f = length])
  have "c = char_of_digit (y div 1000 mod 10)"
    using cs by (simp add: numeral_eq_Suc zdiv_zmult2_eq[symmetric])
  then have "c \<noteq> CHR ''+''" "c \<noteq> CHR ''-''" by simp_all
  moreover have "read_digits 4 0 (show_digits 4 y @ r) = Some (y, r)"
    using read_show4[of y r] True by simp
  ultimately show ?thesis using True cs by (simp add: parse_year_def show_year_def)
next
  case False
  then show ?thesis
    using read_show6[of y r] read_show6[of "- y" r] assms
    by (auto simp: parse_year_def show_year_def)
qed

lemma eat_Cons [simp]: "eat c (c # r) = Some r"
  by (simp add: eat_def)

lemma span_digits_show:
  "span_digits (show_digits n k @ CHR ''Z'' # r) = (show_digits n k, CHR ''Z'' # r)"
proof -
  have "\<forall>c \<in> set (show_digits n k). digit_of c \<noteq> None"
    by (induction n arbitrary: k) auto
  moreover have "digit_of (CHR ''Z'') = None" by (simp add: digit_of_def Let_def)
  moreover have "(\<forall>c \<in> set ds. digit_of c \<noteq> None) \<Longrightarrow> digit_of (CHR ''Z'') = None \<Longrightarrow>
      span_digits (ds @ CHR ''Z'' # r) = (ds, CHR ''Z'' # r)" for ds
    by (induction ds) auto
  ultimately show ?thesis by blast
qed

lemma in_range_Some [simp]: "in_range lo hi (Some (n, r)) = (if lo \<le> n \<and> n \<le> hi then Some (n, r) else None)"
  by (simp add: in_range_def)

lemma parse_clock_digits:
  assumes "0 \<le> h" "h < 24" "0 \<le> mi" "mi < 60" "0 \<le> sec" "sec < 60" "0 \<le> f" "f < 1000"
  shows "parse_clock (show_digits 2 h @ '':'' @ show_digits 2 mi @ '':'' @ show_digits 2 sec @
      ''.'' @ show_digits 3 f @ ''Z'') = Some (3600000 * h + 60000 * mi + (1000 * sec + f), ''Z'')"
proof -
  have r: "read_digits 2 0 (show_digits 2 h @ r) = Some (h, r)"
    "read_digits 2 0 (show_digits 2 mi @ r) = Some (mi, r)"
    "read_digits 2 0 (show_digits 2 sec @ r) = Some (sec, r)" for r
    using assms read_show2 by simp_all
  have t3: "take 3 (show_digits 3 f @ xs) = show_digits 3 f" for xs by simp
  have "show_digits 3 f \<noteq> []" by (auto dest: arg_cong[where f = length])
  then have frac: "parse_fraction (CHR ''.'' # show_digits 3 f @ ''Z'') = Some (f, ''Z'')"
    using read_show3[of f "[]"] assms(7,8)
    by (simp add: parse_fraction_def span_digits_show t3 del: show_digits.simps read_digits.simps take_append)
  show ?thesis
    using assms(2,4,6)
    by (simp add: parse_clock_def parse_seconds_def r frac assms(1,3,5)
        del: show_digits.simps read_digits.simps)
qed

lemma parse_show_clock:
  assumes "0 \<le> t" "t < ms_per_day"
  shows "parse_clock (show_clock t) = Some (t, ''Z'')"
proof -
  have b: "0 \<le> t div 3600000" "t div 3600000 < 24"
    using assms by (auto simp: ms_per_day_def)
  have m: "0 \<le> t div 60000 mod 60" "t div 60000 mod 60 < 60" "0 \<le> t div 1000 mod 60"
    "t div 1000 mod 60 < 60" "0 \<le> t mod 1000" "t mod 1000 < 1000"
    by simp_all
  have "t div 3600000 = t div 60000 div 60" "t div 60000 = t div 1000 div 60"
    using zdiv_zmult2_eq[of 60 t 60000] zdiv_zmult2_eq[of 60 t 1000] by simp_all
  then have eq: "3600000 * (t div 3600000) + 60000 * (t div 60000 mod 60) +
      (1000 * (t div 1000 mod 60) + t mod 1000) = t"
    using mult_div_mod_eq[of 60 "t div 60000"] mult_div_mod_eq[of 60 "t div 1000"]
      mult_div_mod_eq[of 1000 t] by linarith
  show ?thesis
    unfolding show_clock_def
    by (subst parse_clock_digits) (simp_all only: eq b m)
qed

lemma civil_year_small:
  assumes "\<bar>n\<bar> \<le> 100000000" "civil_of_day n = (y, m, d)"
  shows "\<bar>y\<bar> \<le> 999999"
proof -
  have "y = year_of_day n" using assms(2) by (auto simp: civil_of_day_def Let_def)
  then have "day_from_year y \<le> n" "n < day_from_year (y + 1)"
    using year_of_day_bounds[of n] by auto
  then show ?thesis
    using day_from_year_bounds[of y] day_from_year_bounds[of "y + 1"] assms(1)
    by simp
qed

lemma date_parse_to_iso:
  assumes "\<bar>ms\<bar> \<le> max_time"
  shows "date_parse (to_iso ms) = Some ms"
proof -
  obtain y m d where c: "civil_of_day (ms div ms_per_day) = (y, m, d)"
    by (cases "civil_of_day (ms div ms_per_day)")
  note md = make_day_civil[OF c]
  have "\<bar>ms div ms_per_day\<bar> \<le> 100000000"
    using assms by (auto simp: ms_per_day_def max_time_def abs_le_iff)
  then have y: "\<bar>y\<bar> \<le> 999999" using c by (rule civil_year_small)
  have t: "0 \<le> ms mod ms_per_day" "ms mod ms_per_day < ms_per_day"
    by (simp_all add: ms_per_day_def)
  have day: "ms div ms_per_day * ms_per_day + ms mod ms_per_day = ms" by simp
  have zone: "parse_zone ''Z'' = Some 0" by (simp add: parse_zone_def)
  have month: "parse_month_day (CHR ''-'' # show_digits 2 m @ CHR ''-'' # show_digits 2 d @ r) =
      Some (m, d, r)" for r
    using md read_show2[of m] read_show2[of d] by (simp add: parse_month_day_def)
  show ?thesis
    using md y t parse_show_clock[OF t] zone assms day
    by (simp add: date_parse_def to_iso_def c parse_show_year month time_clip_def)
qed

text \<open>The stored form of the 32-bit epoch, as a check of the conventions.\<close>

lemma date_parse_example:
  "date_parse ''2024-02-29T12:30:00.500Z'' = Some 1709209800500"
  "date_parse ''2024-02-29T12:30:00+02:00'' = Some 1709202600000"
  "date_parse ''2024-02-29'' = Some 1709164800000"
  "date_parse ''not a date'' = None"
  by code_simp+

end
