(* ===== verification/JsJson.thy ===== *)
theory JsJson
  imports JsDate "HOL-Library.Word"
begin

text \<open>
  JavaScript values of type \<open>unknown\<close>, as the comparison and validation code sees them:
  objects are association lists in insertion order. \<open>JNum\<close> is a number with an integral
  value; every other number (a fraction, an infinity, \<open>NaN\<close>) is \<open>JNonInt t\<close> with the text
  \<open>t\<close> that \<open>JSON.stringify\<close> prints for it (\<open>null\<close> for the last two).
\<close>

datatype json =
    JUndef
  | JNull
  | JBool bool
  | JNum int
  | JNonInt string
  | JStr string
  | JArr "json list"
  | JObj "(string \<times> json) list"

text \<open>Reading an optional property as a value.\<close>

definition j_opt :: "('a \<Rightarrow> json) \<Rightarrow> 'a option \<Rightarrow> json" where
  "j_opt f v = (case v of None \<Rightarrow> JUndef | Some x \<Rightarrow> f x)"

definition j_str :: "string option \<Rightarrow> json" where "j_str = j_opt JStr"
definition j_num :: "int option \<Rightarrow> json" where "j_num = j_opt JNum"
definition j_bool :: "bool option \<Rightarrow> json" where "j_bool = j_opt JBool"

definition is_nullish :: "json \<Rightarrow> bool" where
  "is_nullish v = (v = JUndef \<or> v = JNull)"

lemma is_nullish_simps [simp]:
  "is_nullish JUndef" "is_nullish JNull" "\<not> is_nullish (JBool b)" "\<not> is_nullish (JNum n)"
  "\<not> is_nullish (JNonInt t)" "\<not> is_nullish (JStr s)" "\<not> is_nullish (JArr vs)"
  "\<not> is_nullish (JObj kvs)"
  by (simp_all add: is_nullish_def)

text \<open>Property access and the object spread \<open>{...o, k: v}\<close>.\<close>

definition obj_get :: "string \<Rightarrow> (string \<times> json) list \<Rightarrow> json" where
  "obj_get k o1 = (case map_of o1 k of None \<Rightarrow> JUndef | Some v \<Rightarrow> v)"

fun obj_set :: "string \<Rightarrow> json \<Rightarrow> (string \<times> json) list \<Rightarrow> (string \<times> json) list" where
  "obj_set k v [] = [(k, v)]"
| "obj_set k v ((k', v') # r) = (if k = k' then (k, v) # r else (k', v') # obj_set k v r)"

lemma map_of_obj_set: "map_of (obj_set k v o1) = (map_of o1)(k \<mapsto> v)"
  by (induction o1) (auto simp: fun_eq_iff)

subsection \<open>JSON.stringify\<close>

function show_nat :: "nat \<Rightarrow> string" where
  "show_nat n = (if n < 10 then [char_of (48 + n)] else show_nat (n div 10) @ [char_of (48 + n mod 10)])"
  by pat_completeness auto
termination
  by (relation "measure id") auto

declare show_nat.simps [simp del]

definition show_int :: "int \<Rightarrow> string" where
  "show_int n = (if n < 0 then ''-'' @ show_nat (nat (- n)) else show_nat (nat n))"

definition hex_char :: "nat \<Rightarrow> char" where
  "hex_char d = (if d < 10 then char_of (48 + d) else char_of (87 + d))"

definition escape_char :: "char \<Rightarrow> string" where
  "escape_char c = (let n = (of_char c :: nat) in
     if n = 34 then [CHR 0x5C, CHR 0x22]
     else if n = 92 then [CHR 0x5C, CHR 0x5C]
     else if n = 8 then [CHR 0x5C, CHR ''b'']
     else if n = 12 then [CHR 0x5C, CHR ''f'']
     else if n = 10 then [CHR 0x5C, CHR ''n'']
     else if n = 13 then [CHR 0x5C, CHR ''r'']
     else if n = 9 then [CHR 0x5C, CHR ''t'']
     else if n < 32 then [CHR 0x5C, CHR ''u'', CHR ''0'', CHR ''0'', hex_char (n div 16), hex_char (n mod 16)]
     else [c])"

definition quote_str :: "string \<Rightarrow> string" where
  "quote_str s = [CHR 0x22] @ concat (map escape_char s) @ [CHR 0x22]"

fun comma_sep :: "string list \<Rightarrow> string" where
  "comma_sep [] = []"
| "comma_sep [s] = s"
| "comma_sep (s # t # r) = s @ '','' @ comma_sep (t # r)"

fun print_fields :: "(string \<times> string option) list \<Rightarrow> string list" where
  "print_fields [] = []"
| "print_fields ((k, None) # r) = print_fields r"
| "print_fields ((k, Some s) # r) = (quote_str k @ '':'' @ s) # print_fields r"

text \<open>
  \<open>None\<close> is the result \<open>undefined\<close> of stringifying \<open>undefined\<close>; in an array that value
  prints as \<open>null\<close>, in an object the property is left out.
\<close>

fun stringify :: "json \<Rightarrow> string option" where
  "stringify JUndef = None"
| "stringify JNull = Some ''null''"
| "stringify (JBool b) = Some (if b then ''true'' else ''false'')"
| "stringify (JNum n) = Some (show_int n)"
| "stringify (JNonInt t) = Some t"
| "stringify (JStr s) = Some (quote_str s)"
| "stringify (JArr vs) =
     Some (''['' @ comma_sep (map (\<lambda>v. case stringify v of None \<Rightarrow> ''null'' | Some s \<Rightarrow> s) vs) @ '']'')"
| "stringify (JObj kvs) =
     Some ([CHR 0x7B] @ comma_sep (print_fields (map (\<lambda>(k, v). (k, stringify v)) kvs)) @ [CHR 0x7D])"

text \<open>The operator \<open>>\<close> on strings that may be \<open>undefined\<close>: by code unit, false on \<open>undefined\<close>.\<close>

definition js_gt :: "string option \<Rightarrow> string option \<Rightarrow> bool" where
  "js_gt a b = (case a of None \<Rightarrow> False | Some x \<Rightarrow> (case b of None \<Rightarrow> False | Some y \<Rightarrow> y < x))"

lemma js_gt_Some [simp]: "js_gt (Some a) (Some b) = (b < a)"
  by (simp add: js_gt_def)

lemma js_gt_irrefl [simp]: "\<not> js_gt a a"
  by (simp add: js_gt_def split: option.splits)

lemma js_gt_asym: "js_gt a b \<Longrightarrow> \<not> js_gt b a"
  by (auto simp: js_gt_def split: option.splits)

lemma js_gt_total: "a \<noteq> None \<Longrightarrow> b \<noteq> None \<Longrightarrow> a \<noteq> b \<Longrightarrow> js_gt a b \<or> js_gt b a"
  by (auto simp: js_gt_def split: option.splits)

lemma stringify_None [simp]: "stringify v = None \<longleftrightarrow> v = JUndef"
  by (cases v) auto

end
