(* ===== verification/Revision.thy ===== *)
theory Revision
  imports JsJson
begin

text \<open>
  \<open>sync-revision.ts\<close>: the capped revision counter every synced entity carries. The
  functions read a value of type \<open>unknown\<close>; the warnings they log are left out.
\<close>

definition MAX_SYNC_REVISION :: int where
  "MAX_SYNC_REVISION = 2147483647"

definition SYNC_REVISION_WARNING_THRESHOLD :: int where
  "SYNC_REVISION_WARNING_THRESHOLD = (MAX_SYNC_REVISION * 9) div 10"

definition SYNC_BACKUP_RESTORE_REV_BY :: string where
  "SYNC_BACKUP_RESTORE_REV_BY = ''backup-restore''"

text \<open>The reserved author of deterministic repairs (\<open>sync-types.ts\<close>).\<close>

definition SYNC_REPAIR_REV_BY :: string where
  "SYNC_REPAIR_REV_BY = ''sync-repair''"

record revision_coercion =
  rc_revision :: int
  rc_clamped :: bool

definition coerceRevision :: "json \<Rightarrow> revision_coercion" where
  "coerceRevision value =
     (case value of
        JNum n \<Rightarrow>
          if n < 0 then \<lparr>rc_revision = 0, rc_clamped = False\<rparr>
          else if n > MAX_SYNC_REVISION
            then \<lparr>rc_revision = MAX_SYNC_REVISION, rc_clamped = True\<rparr>
          else \<lparr>rc_revision = n, rc_clamped = False\<rparr>
      | _ \<Rightarrow> \<lparr>rc_revision = 0, rc_clamped = False\<rparr>)"

definition isValidRevision :: "json \<Rightarrow> bool" where
  "isValidRevision value = (case value of JNum n \<Rightarrow> 0 \<le> n | _ \<Rightarrow> False)"

definition normalizeRevision :: "json \<Rightarrow> int" where
  "normalizeRevision value = rc_revision (coerceRevision value)"

definition nextRevision :: "json \<Rightarrow> int" where
  "nextRevision value =
     (let c = coerceRevision value in
      if rc_clamped c \<or> rc_revision c \<ge> MAX_SYNC_REVISION then MAX_SYNC_REVISION
      else rc_revision c + 1)"

text \<open>The call sites pass an optional \<open>rev\<close> property.\<close>

definition nextRev :: "int option \<Rightarrow> int" where
  "nextRev r = nextRevision (j_num r)"

lemma normalizeRevision_bounds:
  "0 \<le> normalizeRevision v \<and> normalizeRevision v \<le> MAX_SYNC_REVISION"
  by (auto simp: normalizeRevision_def coerceRevision_def MAX_SYNC_REVISION_def split: json.splits)

lemma normalizeRevision_id:
  "0 \<le> n \<Longrightarrow> n \<le> MAX_SYNC_REVISION \<Longrightarrow> normalizeRevision (JNum n) = n"
  by (simp add: normalizeRevision_def coerceRevision_def)

lemma normalizeRevision_idem [simp]:
  "normalizeRevision (JNum (normalizeRevision v)) = normalizeRevision v"
  using normalizeRevision_bounds[of v] by (intro normalizeRevision_id) auto

lemma nextRevision_eq: "nextRevision v = min (normalizeRevision v + 1) MAX_SYNC_REVISION"
  by (auto simp: nextRevision_def normalizeRevision_def coerceRevision_def Let_def
      MAX_SYNC_REVISION_def split: json.splits)

lemma nextRevision_bounds: "0 < nextRevision v \<and> nextRevision v \<le> MAX_SYNC_REVISION"
  using normalizeRevision_bounds[of v] by (auto simp: nextRevision_eq MAX_SYNC_REVISION_def)

lemma nextRev_bounds: "0 < nextRev r \<and> nextRev r \<le> MAX_SYNC_REVISION"
  by (simp add: nextRev_def nextRevision_bounds)

end
