(* ===== verification/DataModel.thy ===== *)
theory DataModel
  imports Revision
begin

text \<open>
  \<open>types.ts\<close> and \<open>sync-types.ts\<close>: the synced entities as records. Every entity extends
  \<open>mergeable\<close>, the code's \<open>MergeableEntity\<close>, so the merge engine is written once over
  \<open>'a mergeable_scheme\<close> as the source writes it over \<open>T extends MergeableEntity\<close>.
  An optional property is an \<open>option\<close>; where the code tells \<open>null\<close> from an absent
  property the type is \<open>string option option\<close> with \<open>Some None\<close> for \<open>null\<close>.
  \<open>viewSectionIds\<close> is \<open>None\<close> when the property is not an own property of the object.
  The \<open>_json\<close> functions are the JavaScript object a record stands for.
\<close>

subsection \<open>Enumerations\<close>

datatype task_status = Inbox | Next | Waiting | Someday | Reference | Done | Archived

fun task_status_str :: "task_status \<Rightarrow> string" where
  "task_status_str Inbox = ''inbox''"
| "task_status_str Next = ''next''"
| "task_status_str Waiting = ''waiting''"
| "task_status_str Someday = ''someday''"
| "task_status_str Reference = ''reference''"
| "task_status_str Done = ''done''"
| "task_status_str Archived = ''archived''"

datatype project_status = PActive | PSomeday | PWaiting | PArchived

fun project_status_str :: "project_status \<Rightarrow> string" where
  "project_status_str PActive = ''active''"
| "project_status_str PSomeday = ''someday''"
| "project_status_str PWaiting = ''waiting''"
| "project_status_str PArchived = ''archived''"

datatype attachment_kind = FileKind | LinkKind

fun attachment_kind_str :: "attachment_kind \<Rightarrow> string" where
  "attachment_kind_str FileKind = ''file''"
| "attachment_kind_str LinkKind = ''link''"

datatype local_status = Available | Missing | Uploading | Downloading

fun local_status_str :: "local_status \<Rightarrow> string" where
  "local_status_str Available = ''available''"
| "local_status_str Missing = ''missing''"
| "local_status_str Uploading = ''uploading''"
| "local_status_str Downloading = ''downloading''"

subsection \<open>Entities\<close>

record mergeable =
  eid :: string
  createdAt :: string
  updatedAt :: string
  deletedAt :: "string option"
  rev :: "int option"
  revBy :: "string option"

definition mergeable_json :: "'a mergeable_scheme \<Rightarrow> (string \<times> json) list" where
  "mergeable_json m =
     [(''id'', JStr (eid m)), (''createdAt'', JStr (createdAt m)),
      (''updatedAt'', JStr (updatedAt m)), (''deletedAt'', j_str (deletedAt m)),
      (''rev'', j_num (rev m)), (''revBy'', j_str (revBy m))]"

record attachment = mergeable +
  at_kind :: attachment_kind
  at_title :: string
  at_uri :: string
  at_mimeType :: "string option"
  at_size :: "int option"
  at_cloudKey :: "string option"
  at_fileHash :: "string option"
  at_contentRev :: "int option"
  at_contentMtimeMs :: "int option"
  at_contentSize :: "int option"
  at_pendingContentUpload :: "bool option"
  at_localStatus :: "local_status option"

definition attachment_json :: "attachment \<Rightarrow> json" where
  "attachment_json a = JObj (mergeable_json a @
     [(''kind'', JStr (attachment_kind_str (at_kind a))), (''title'', JStr (at_title a)),
      (''uri'', JStr (at_uri a)), (''mimeType'', j_str (at_mimeType a)),
      (''size'', j_num (at_size a)), (''cloudKey'', j_str (at_cloudKey a)),
      (''fileHash'', j_str (at_fileHash a)), (''contentRev'', j_num (at_contentRev a)),
      (''contentMtimeMs'', j_num (at_contentMtimeMs a)),
      (''contentSize'', j_num (at_contentSize a)),
      (''pendingContentUpload'', j_bool (at_pendingContentUpload a)),
      (''localStatus'', j_opt (\<lambda>s. JStr (local_status_str s)) (at_localStatus a))])"

record checklist_item =
  ci_id :: string
  ci_title :: string
  ci_isCompleted :: bool

definition checklist_item_json :: "checklist_item \<Rightarrow> json" where
  "checklist_item_json c = JObj [(''id'', JStr (ci_id c)), (''title'', JStr (ci_title c)),
     (''isCompleted'', JBool (ci_isCompleted c))]"

record relative_start_offset =
  rso_amount :: int
  rso_unit :: string

definition relative_start_offset_json :: "relative_start_offset \<Rightarrow> json" where
  "relative_start_offset_json r =
     JObj [(''amount'', JNum (rso_amount r)), (''unit'', JStr (rso_unit r))]"

text \<open>A recurrence is an object, or the legacy string form.\<close>

record recurrence =
  rec_rule :: string
  rec_seriesId :: "string option"
  rec_strategy :: "string option"
  rec_byDay :: "string list option"
  rec_byMonthDay :: "int list option"
  rec_weekStart :: "string option"
  rec_count :: "int option"
  rec_until :: "string option"
  rec_completedOccurrences :: "int option"
  rec_anchorDay :: "int option"
  rec_startAnchorDay :: "int option"
  rec_dueAnchorDay :: "int option"
  rec_reviewAnchorDay :: "int option"
  rec_rrule :: "string option"

datatype task_recurrence = RecStr string | RecObj recurrence

definition recurrence_fields :: "recurrence \<Rightarrow> (string \<times> json) list" where
  "recurrence_fields r =
     [(''rule'', JStr (rec_rule r)), (''seriesId'', j_str (rec_seriesId r)),
      (''strategy'', j_str (rec_strategy r)),
      (''byDay'', j_opt (\<lambda>ds. JArr (map JStr ds)) (rec_byDay r)),
      (''byMonthDay'', j_opt (\<lambda>ds. JArr (map JNum ds)) (rec_byMonthDay r)),
      (''weekStart'', j_str (rec_weekStart r)), (''count'', j_num (rec_count r)),
      (''until'', j_str (rec_until r)),
      (''completedOccurrences'', j_num (rec_completedOccurrences r)),
      (''anchorDay'', j_num (rec_anchorDay r)),
      (''startAnchorDay'', j_num (rec_startAnchorDay r)),
      (''dueAnchorDay'', j_num (rec_dueAnchorDay r)),
      (''reviewAnchorDay'', j_num (rec_reviewAnchorDay r)), (''rrule'', j_str (rec_rrule r))]"

fun task_recurrence_json :: "task_recurrence \<Rightarrow> json" where
  "task_recurrence_json (RecStr s) = JStr s"
| "task_recurrence_json (RecObj r) = JObj (recurrence_fields r)"

definition str_map_json :: "(string \<times> string) list \<Rightarrow> json" where
  "str_map_json m = JObj (map (\<lambda>(k, v). (k, JStr v)) m)"

record task = mergeable +
  t_title :: string
  t_status :: task_status
  t_priority :: "string option"
  t_energyLevel :: "string option"
  t_assignedTo :: "string option"
  t_taskMode :: "string option"
  t_startTime :: "string option"
  t_relativeStartOffset :: "relative_start_offset option"
  t_dueDate :: "string option"
  t_recurrence :: "task_recurrence option"
  t_showFutureRecurrence :: "bool option"
  t_pushCount :: "int option"
  t_tags :: "string list"
  t_contexts :: "string list"
  t_checklist :: "checklist_item list option"
  t_description :: "string option"
  t_textDirection :: "string option"
  t_attachments :: "attachment list option"
  t_location :: "string option"
  t_projectId :: "string option"
  t_sectionId :: "string option"
  t_viewSectionIds :: "(string \<times> string) list option"
  t_areaId :: "string option"
  t_isFocusedToday :: "bool option"
  t_timeEstimate :: "string option"
  t_timeSpentMinutes :: "int option"
  t_suppressMindwtrReminders :: "bool option"
  t_repeatReminderMinutes :: "int option"
  t_reviewAt :: "string option"
  t_completedAt :: "string option"
  t_cancelledAt :: "string option"
  t_archivedAt :: "string option"
  t_statusBeforeProjectArchive :: "task_status option"
  t_completedAtBeforeProjectArchive :: "string option option"
  t_isFocusedTodayBeforeProjectArchive :: "bool option option"
  t_projectArchivedAt :: "string option"
  t_purgedAt :: "string option"
  t_order :: "int option"
  t_orderNum :: "int option"
  t_boardOrder :: "int option"
  t_focusOrder :: "int option"

definition j_nullable :: "('a \<Rightarrow> json) \<Rightarrow> 'a option option \<Rightarrow> json" where
  "j_nullable f v = (case v of None \<Rightarrow> JUndef | Some None \<Rightarrow> JNull | Some (Some x) \<Rightarrow> f x)"

definition attachments_json :: "attachment list option \<Rightarrow> json" where
  "attachments_json = j_opt (\<lambda>xs. JArr (map attachment_json xs))"

definition task_fields :: "task \<Rightarrow> (string \<times> json) list" where
  "task_fields t = mergeable_json t @
     [(''title'', JStr (t_title t)), (''status'', JStr (task_status_str (t_status t))),
      (''priority'', j_str (t_priority t)), (''energyLevel'', j_str (t_energyLevel t)),
      (''assignedTo'', j_str (t_assignedTo t)), (''taskMode'', j_str (t_taskMode t)),
      (''startTime'', j_str (t_startTime t)),
      (''relativeStartOffset'', j_opt relative_start_offset_json (t_relativeStartOffset t)),
      (''dueDate'', j_str (t_dueDate t)),
      (''recurrence'', j_opt task_recurrence_json (t_recurrence t)),
      (''showFutureRecurrence'', j_bool (t_showFutureRecurrence t)),
      (''pushCount'', j_num (t_pushCount t)),
      (''tags'', JArr (map JStr (t_tags t))), (''contexts'', JArr (map JStr (t_contexts t))),
      (''checklist'', j_opt (\<lambda>xs. JArr (map checklist_item_json xs)) (t_checklist t)),
      (''description'', j_str (t_description t)),
      (''textDirection'', j_str (t_textDirection t)),
      (''attachments'', attachments_json (t_attachments t)),
      (''location'', j_str (t_location t)), (''projectId'', j_str (t_projectId t)),
      (''sectionId'', j_str (t_sectionId t)),
      (''viewSectionIds'', j_opt str_map_json (t_viewSectionIds t)),
      (''areaId'', j_str (t_areaId t)), (''isFocusedToday'', j_bool (t_isFocusedToday t)),
      (''timeEstimate'', j_str (t_timeEstimate t)),
      (''timeSpentMinutes'', j_num (t_timeSpentMinutes t)),
      (''suppressMindwtrReminders'', j_bool (t_suppressMindwtrReminders t)),
      (''repeatReminderMinutes'', j_num (t_repeatReminderMinutes t)),
      (''reviewAt'', j_str (t_reviewAt t)), (''completedAt'', j_str (t_completedAt t)),
      (''cancelledAt'', j_str (t_cancelledAt t)), (''archivedAt'', j_str (t_archivedAt t)),
      (''statusBeforeProjectArchive'',
        j_opt (\<lambda>s. JStr (task_status_str s)) (t_statusBeforeProjectArchive t)),
      (''completedAtBeforeProjectArchive'', j_nullable JStr (t_completedAtBeforeProjectArchive t)),
      (''isFocusedTodayBeforeProjectArchive'',
        j_nullable JBool (t_isFocusedTodayBeforeProjectArchive t)),
      (''projectArchivedAt'', j_str (t_projectArchivedAt t)),
      (''purgedAt'', j_str (t_purgedAt t)), (''order'', j_num (t_order t)),
      (''orderNum'', j_num (t_orderNum t)), (''boardOrder'', j_num (t_boardOrder t)),
      (''focusOrder'', j_num (t_focusOrder t))]"

definition task_json :: "task \<Rightarrow> json" where "task_json t = JObj (task_fields t)"

record project = mergeable +
  p_title :: string
  p_status :: project_status
  p_color :: string
  p_order :: int
  p_tagIds :: "string list"
  p_isSequential :: "bool option"
  p_sequentialScope :: "string option"
  p_taskSortBy :: "string option"
  p_isFocused :: "bool option"
  p_supportNotes :: "string option"
  p_attachments :: "attachment list option"
  p_startDate :: "string option"
  p_dueDate :: "string option"
  p_reviewAt :: "string option"
  p_cancelledAt :: "string option"
  p_archivedAt :: "string option"
  p_areaId :: "string option"
  p_areaTitle :: "string option"
  p_viewSectionIds :: "(string \<times> string) list option"
  p_purgedAt :: "string option"

definition project_fields :: "project \<Rightarrow> (string \<times> json) list" where
  "project_fields p = mergeable_json p @
     [(''title'', JStr (p_title p)), (''status'', JStr (project_status_str (p_status p))),
      (''color'', JStr (p_color p)), (''order'', JNum (p_order p)),
      (''tagIds'', JArr (map JStr (p_tagIds p))), (''isSequential'', j_bool (p_isSequential p)),
      (''sequentialScope'', j_str (p_sequentialScope p)),
      (''taskSortBy'', j_str (p_taskSortBy p)), (''isFocused'', j_bool (p_isFocused p)),
      (''supportNotes'', j_str (p_supportNotes p)),
      (''attachments'', attachments_json (p_attachments p)),
      (''startDate'', j_str (p_startDate p)), (''dueDate'', j_str (p_dueDate p)),
      (''reviewAt'', j_str (p_reviewAt p)), (''cancelledAt'', j_str (p_cancelledAt p)),
      (''archivedAt'', j_str (p_archivedAt p)), (''areaId'', j_str (p_areaId p)),
      (''areaTitle'', j_str (p_areaTitle p)),
      (''viewSectionIds'', j_opt str_map_json (p_viewSectionIds p)),
      (''purgedAt'', j_str (p_purgedAt p))]"

definition project_json :: "project \<Rightarrow> json" where "project_json p = JObj (project_fields p)"

record section1 = mergeable +
  s_projectId :: string
  s_title :: string
  s_description :: "string option"
  s_order :: int
  s_isCollapsed :: "bool option"
  s_deletedAtBeforeProjectArchive :: "string option option"
  s_projectArchivedAt :: "string option"

definition section_fields :: "section1 \<Rightarrow> (string \<times> json) list" where
  "section_fields s = mergeable_json s @
     [(''projectId'', JStr (s_projectId s)), (''title'', JStr (s_title s)),
      (''description'', j_str (s_description s)), (''order'', JNum (s_order s)),
      (''isCollapsed'', j_bool (s_isCollapsed s)),
      (''deletedAtBeforeProjectArchive'', j_nullable JStr (s_deletedAtBeforeProjectArchive s)),
      (''projectArchivedAt'', j_str (s_projectArchivedAt s))]"

definition section_json :: "section1 \<Rightarrow> json" where "section_json s = JObj (section_fields s)"

record area = mergeable +
  a_name :: string
  a_color :: "string option"
  a_icon :: "string option"
  a_order :: "int option"

definition area_fields :: "area \<Rightarrow> (string \<times> json) list" where
  "area_fields a = mergeable_json a @
     [(''name'', JStr (a_name a)), (''color'', j_str (a_color a)), (''icon'', j_str (a_icon a)),
      (''order'', j_num (a_order a))]"

definition area_json :: "area \<Rightarrow> json" where "area_json a = JObj (area_fields a)"

record person = mergeable +
  pe_name :: string
  pe_note :: "string option"
  pe_referenceLink :: "string option"

definition person_fields :: "person \<Rightarrow> (string \<times> json) list" where
  "person_fields p = mergeable_json p @
     [(''name'', JStr (pe_name p)), (''note'', j_str (pe_note p)),
      (''referenceLink'', j_str (pe_referenceLink p))]"

definition person_json :: "person \<Rightarrow> json" where "person_json p = JObj (person_fields p)"

text \<open>A deleted entity carries a non-empty \<open>deletedAt\<close>.\<close>

definition is_deleted :: "'a mergeable_scheme \<Rightarrow> bool" where
  "is_deleted m = truthy (deletedAt m)"


subsection \<open>Sample records\<close>

text \<open>Records with the required fields only, on which the witnesses evaluate the theorems.\<close>

definition sample_task :: "string \<Rightarrow> task" where
  "sample_task id1 =
     \<lparr>eid = id1, createdAt = ''2024-01-01T00:00:00.000Z'', updatedAt = ''2024-01-02T00:00:00.000Z'',
      deletedAt = None, rev = Some 1, revBy = None, t_title = ''Task'', t_status = Next,
      t_priority = None, t_energyLevel = None, t_assignedTo = None, t_taskMode = None,
      t_startTime = None, t_relativeStartOffset = None, t_dueDate = None, t_recurrence = None,
      t_showFutureRecurrence = None, t_pushCount = None, t_tags = [], t_contexts = [],
      t_checklist = None, t_description = None, t_textDirection = None, t_attachments = None,
      t_location = None, t_projectId = None, t_sectionId = None, t_viewSectionIds = None,
      t_areaId = None, t_isFocusedToday = None, t_timeEstimate = None, t_timeSpentMinutes = None,
      t_suppressMindwtrReminders = None, t_repeatReminderMinutes = None, t_reviewAt = None,
      t_completedAt = None, t_cancelledAt = None, t_archivedAt = None,
      t_statusBeforeProjectArchive = None, t_completedAtBeforeProjectArchive = None,
      t_isFocusedTodayBeforeProjectArchive = None, t_projectArchivedAt = None,
      t_purgedAt = None, t_order = None, t_orderNum = None, t_boardOrder = None,
      t_focusOrder = None\<rparr>"

definition sample_project :: "string \<Rightarrow> project" where
  "sample_project id1 =
     \<lparr>eid = id1, createdAt = ''2024-01-01T00:00:00.000Z'', updatedAt = ''2024-01-02T00:00:00.000Z'',
      deletedAt = None, rev = Some 1, revBy = None, p_title = ''Project'', p_status = PActive,
      p_color = ''#6B7280'', p_order = 0, p_tagIds = [], p_isSequential = None,
      p_sequentialScope = None, p_taskSortBy = None, p_isFocused = None, p_supportNotes = None,
      p_attachments = None, p_startDate = None, p_dueDate = None, p_reviewAt = None,
      p_cancelledAt = None, p_archivedAt = None, p_areaId = None, p_areaTitle = None,
      p_viewSectionIds = None, p_purgedAt = None\<rparr>"

definition sample_section :: "string \<Rightarrow> string \<Rightarrow> section1" where
  "sample_section id1 projectId =
     \<lparr>eid = id1, createdAt = ''2024-01-01T00:00:00.000Z'', updatedAt = ''2024-01-02T00:00:00.000Z'',
      deletedAt = None, rev = Some 1, revBy = None, s_projectId = projectId, s_title = ''Section'',
      s_description = None, s_order = 0, s_isCollapsed = None,
      s_deletedAtBeforeProjectArchive = None, s_projectArchivedAt = None\<rparr>"

definition sample_area :: "string \<Rightarrow> string \<Rightarrow> area" where
  "sample_area id1 name =
     \<lparr>eid = id1, createdAt = ''2024-01-01T00:00:00.000Z'', updatedAt = ''2024-01-02T00:00:00.000Z'',
      deletedAt = None, rev = Some 1, revBy = None, a_name = name, a_color = None, a_icon = None,
      a_order = Some 0\<rparr>"

definition sample_file :: "string \<Rightarrow> string \<Rightarrow> attachment" where
  "sample_file id1 uri =
     \<lparr>eid = id1, createdAt = ''2024-01-01T00:00:00.000Z'', updatedAt = ''2024-01-02T00:00:00.000Z'',
      deletedAt = None, rev = None, revBy = None, at_kind = FileKind, at_title = ''File'',
      at_uri = uri, at_mimeType = None, at_size = None, at_cloudKey = None, at_fileHash = None,
      at_contentRev = None, at_contentMtimeMs = None, at_contentSize = None,
      at_pendingContentUpload = None, at_localStatus = None\<rparr>"

end
