(* ===== verification/DateUtil.thy ===== *)
theory DateUtil
  imports DataModel
begin

text \<open>
  What the program takes from its host and from third-party packages, as one record of
  functions, and the date reader of \<open>date.ts\<close> built on it.
  \<open>localeCompare\<close> is \<open>String.prototype.localeCompare\<close> in the host's locale,
  \<open>urlPathname\<close> is \<open>new URL(s).pathname\<close> (\<open>None\<close> when the constructor throws) and \<open>parseISO\<close>
  is the date-fns function of that name (\<open>None\<close> for an invalid date). \<open>formatDay\<close>,
  \<open>formatMinutes\<close>, \<open>formatSeconds\<close> and \<open>formatMillis\<close> are its \<open>format\<close> with the patterns
  \<open>yyyy-MM-dd\<close>, \<open>yyyy-MM-dd'T'HH:mm\<close>, \<open>yyyy-MM-dd'T'HH:mm:ss\<close> and
  \<open>yyyy-MM-dd'T'HH:mm:ss.SSS\<close>; \<open>addDays\<close>, \<open>addWeeks\<close>, \<open>addMonths\<close> and
  \<open>differenceInCalendarDays\<close> are the date-fns functions of those names on time values.
  The host zone is UTC.
\<close>

record host =
  localeCompare :: "string \<Rightarrow> string \<Rightarrow> int"
  urlPathname :: "string \<Rightarrow> string option"
  parseISO :: "string \<Rightarrow> int option"
  formatSeconds :: "int \<Rightarrow> string"
  formatDay :: "int \<Rightarrow> string"
  formatMinutes :: "int \<Rightarrow> string"
  formatMillis :: "int \<Rightarrow> string"
  addDays :: "int \<Rightarrow> int \<Rightarrow> int"
  addWeeks :: "int \<Rightarrow> int \<Rightarrow> int"
  addMonths :: "int \<Rightarrow> int \<Rightarrow> int"
  differenceInCalendarDays :: "int \<Rightarrow> int \<Rightarrow> int"

subsection \<open>Pattern matching on strings\<close>

definition at_end :: "('a \<times> string) option \<Rightarrow> 'a option" where
  "at_end v = Option.bind v (\<lambda>(x, r). if r = [] then Some x else None)"

text \<open>An optional group: absent when it does not match here.\<close>

definition opt_group :: "(string \<Rightarrow> ('a \<times> string) option) \<Rightarrow> string \<Rightarrow> 'a option \<times> string" where
  "opt_group p s = (case p s of None \<Rightarrow> (None, s) | Some (x, r) \<Rightarrow> (Some x, r))"

definition eat_digits2 :: "char \<Rightarrow> string \<Rightarrow> (int \<times> string) option" where
  "eat_digits2 c s = Option.bind (eat c s) (read_digits 2 0)"

definition match_ymd :: "string \<Rightarrow> ((int \<times> int \<times> int) \<times> string) option" where
  "match_ymd s =
     Option.bind (read_digits 4 0 s) (\<lambda>(y, r1).
     Option.bind (eat_digits2 (CHR ''-'') r1) (\<lambda>(m, r2).
     Option.bind (eat_digits2 (CHR ''-'') r2) (\<lambda>(d, r3). Some ((y, m, d), r3))))"

fun ex_suffix :: "(string \<Rightarrow> bool) \<Rightarrow> string \<Rightarrow> bool" where
  "ex_suffix P [] = P []"
| "ex_suffix P (c # cs) = (P (c # cs) \<or> ex_suffix P cs)"

subsection \<open>safeParseDate\<close>

definition isValidCalendarDate :: "int \<Rightarrow> int \<Rightarrow> int \<Rightarrow> bool" where
  "isValidCalendarDate year month day =
     (if month < 1 \<or> month > 12 then False
      else let max1 = (if month = 2 \<and> is_leap year then 29
               else [31, 28, 31, 30, 31, 30, 31, 31, 30, 31, 30, 31] ! nat (month - 1))
           in 1 \<le> day \<and> day \<le> max1)"

definition zone_suffix :: "string \<Rightarrow> bool" where
  "zone_suffix s =
     (s = ''Z'' \<or>
      (case s of [] \<Rightarrow> False
       | c # r \<Rightarrow> (c = CHR ''+'' \<or> c = CHR ''-'') \<and>
           (case read_digits 2 0 r of None \<Rightarrow> False
            | Some (_, r1) \<Rightarrow>
                at_end (read_digits 2 0 r1) \<noteq> None \<or> at_end (eat_digits2 (CHR '':'') r1) \<noteq> None)))"

definition hasTimezoneSuffix :: "string \<Rightarrow> bool" where
  "hasTimezoneSuffix s = ex_suffix zone_suffix s"

text \<open>\<open>ISO_INSTANT_PATTERN\<close>: the captured date of a full instant.\<close>

definition fraction13 :: "string \<Rightarrow> (string \<times> string) option" where
  "fraction13 s = Option.bind (eat (CHR ''.'') s) (\<lambda>r.
     case span_digits r of (d, rest) \<Rightarrow>
       if d = [] \<or> length d > 3 then None else Some (d, rest))"

definition match_instant :: "string \<Rightarrow> (int \<times> int \<times> int) option" where
  "match_instant s =
     Option.bind (match_ymd s) (\<lambda>(ymd, r).
     Option.bind (eat_digits2 (CHR ''T'') r) (\<lambda>(_, r1).
     Option.bind (eat_digits2 (CHR '':'') r1) (\<lambda>(_, r2).
       (case opt_group (eat_digits2 (CHR '':'')) r2 of (sec, r3) \<Rightarrow>
        case (if sec = None then (None, r3) else opt_group fraction13 r3) of (_, r4) \<Rightarrow>
          if r4 = ''Z'' \<or> (zone_suffix r4 \<and> length r4 = 6) then Some ymd else None))))"

type_synonym local_time = "(int \<times> int \<times> int) \<times> int \<times> int \<times> int \<times> int"

definition ms_of_fraction :: "string \<Rightarrow> int" where
  "ms_of_fraction d = (case read_digits 3 0 (take 3 (d @ ''00'')) of None \<Rightarrow> 0 | Some (v, _) \<Rightarrow> v)"

text \<open>The pattern of a local date with an optional clock, its missing parts read as zero.\<close>

definition match_local :: "string \<Rightarrow> local_time option" where
  "match_local s =
     Option.bind (match_ymd s) (\<lambda>(ymd, r).
       if r = [] then Some (ymd, 0, 0, 0, 0)
       else Option.bind (if hd r = CHR ''T'' \<or> is_ws (hd r) then read_digits 2 0 (tl r) else None)
         (\<lambda>(h, r1).
           case opt_group (eat_digits2 (CHR '':'')) r1 of (mi, r2) \<Rightarrow>
           case (if mi = None then (None, r2) else opt_group (eat_digits2 (CHR '':'')) r2) of (sec, r3) \<Rightarrow>
           case (if sec = None then (None, r3) else opt_group fraction13 r3) of (f, r4) \<Rightarrow>
             if r4 = [] then Some (ymd, h, or_else mi 0, or_else sec 0,
               (case f of None \<Rightarrow> 0 | Some d \<Rightarrow> ms_of_fraction d))
             else None))"

definition clock_ms :: "int \<Rightarrow> int \<Rightarrow> int \<Rightarrow> int \<Rightarrow> int" where
  "clock_ms h mi sec f = 3600000 * h + 60000 * mi + 1000 * sec + f"

text \<open>
  \<open>new Date(year, month, ...)\<close> reads the years 0 to 99 as 1900 to 1999, so the code builds
  those in the year 2000 and sets the year afterwards.
\<close>

definition local_date :: "local_time \<Rightarrow> int option" where
  "local_date lt =
     (case lt of ((y, m, d), h, mi, sec, f) \<Rightarrow>
        if 0 \<le> y \<and> y \<le> 99 then
          (let t = make_day 2000 m d * ms_per_day + clock_ms h mi sec f in
           case civil_of_day (t div ms_per_day) of (_, m', d') \<Rightarrow>
             time_clip (make_day y m' d' * ms_per_day + t mod ms_per_day))
        else time_clip (make_day y m d * ms_per_day + clock_ms h mi sec f))"

definition parse_general :: "host \<Rightarrow> string \<Rightarrow> int option" where
  "parse_general h s =
     (case (if hasTimezoneSuffix s then None else match_local s) of
        Some lt \<Rightarrow>
          (case lt of ((y, m, d), _) \<Rightarrow>
             if isValidCalendarDate y m d then local_date lt else None)
      | None \<Rightarrow> parseISO h s)"

definition safeParseDate :: "host \<Rightarrow> string option \<Rightarrow> int option" where
  "safeParseDate h v =
     (case v of None \<Rightarrow> None
      | Some s \<Rightarrow>
          if s = [] then None
          else (case match_instant s of
              Some (y, m, d) \<Rightarrow>
                (case (if isValidCalendarDate y m d then date_parse s else None) of
                   Some t \<Rightarrow> Some t
                 | None \<Rightarrow> parse_general h s)
            | None \<Rightarrow> parse_general h s))"

definition time_component_here :: "string \<Rightarrow> bool" where
  "time_component_here s =
     (case s of [] \<Rightarrow> False
      | c # r \<Rightarrow> (c = CHR ''T'' \<or> is_ws c) \<and>
          (case read_digits 2 0 r of None \<Rightarrow> False
           | Some (_, r1) \<Rightarrow> eat_digits2 (CHR '':'') r1 \<noteq> None))"

definition hasTimeComponent :: "string option \<Rightarrow> bool" where
  "hasTimeComponent v = (case v of None \<Rightarrow> False | Some s \<Rightarrow> ex_suffix time_component_here s)"

text \<open>A due date without a clock is due at the end of its day.\<close>

definition end_of_day :: "int \<Rightarrow> int" where
  "end_of_day t = t div ms_per_day * ms_per_day + 86399999"

definition safeParseDueDate :: "host \<Rightarrow> string option \<Rightarrow> int option" where
  "safeParseDueDate h v =
     (case safeParseDate h v of None \<Rightarrow> None
      | Some t \<Rightarrow> Some (if hasTimeComponent v then t else end_of_day t))"

definition isDueForReview :: "host \<Rightarrow> string option \<Rightarrow> int \<Rightarrow> bool" where
  "isDueForReview h reviewAt now =
     (case safeParseDate h reviewAt of None \<Rightarrow> False | Some t \<Rightarrow> t \<le> now)"

lemma end_of_day_ge: "t \<le> end_of_day t"
proof -
  have "t = t div ms_per_day * ms_per_day + t mod ms_per_day" by simp
  moreover have "t mod ms_per_day < ms_per_day" by (simp add: ms_per_day_def)
  ultimately show ?thesis unfolding end_of_day_def by (simp add: ms_per_day_def)
qed

lemma end_of_day_same_day: "end_of_day t div ms_per_day = t div ms_per_day"
  by (simp add: end_of_day_def ms_per_day_def)

lemma safeParseDate_examples:
  "safeParseDate h (Some ''2024-02-29'') = Some 1709164800000"
  "safeParseDate h (Some ''2023-02-29'') = None"
  "safeParseDate h (Some ''2024-02-29T12:30'') = Some 1709209800000"
  "safeParseDate h (Some ''2024-02-29T12:30:00.000Z'') = Some 1709209800000"
  by code_simp+


text \<open>A concrete host for the witnesses: code-point order, no URL parser, no local dates.\<close>

definition sample_host :: host where
  "sample_host = \<lparr>localeCompare = (\<lambda>a b. if a = b then 0 else if a < b then -1 else 1),
     urlPathname = (\<lambda>_. None), parseISO = (\<lambda>_. None), formatSeconds = (\<lambda>_. []),
     formatDay = (\<lambda>_. []), formatMinutes = (\<lambda>_. []), formatMillis = (\<lambda>_. []),
     addDays = (\<lambda>t _. t), addWeeks = (\<lambda>t _. t), addMonths = (\<lambda>t _. t),
     differenceInCalendarDays = (\<lambda>_ _. 0)\<rparr>"

end
