(* ===== verification/JsUri.thy ===== *)
theory JsUri
  imports JsJson
begin

text \<open>
  \<open>encodeURIComponent\<close> and \<open>decodeURIComponent\<close> on the UTF-8 bytes of a string, splitting and
  joining, \<open>Array.prototype.sort\<close> with a comparator, and \<open>Number\<close> on decimal integer
  literals (the other numeric literal forms read as \<open>NaN\<close>).
\<close>

subsection \<open>Percent encoding\<close>

definition byte :: "char \<Rightarrow> nat" where "byte c = of_char c"

definition uri_unreserved :: "char \<Rightarrow> bool" where
  "uri_unreserved c = (let n = byte c in
     (65 \<le> n \<and> n \<le> 90) \<or> (97 \<le> n \<and> n \<le> 122) \<or> (48 \<le> n \<and> n \<le> 57) \<or>
     c \<in> set ''-_.!~*()'' \<or> n = 39)"

definition upper_hex :: "nat \<Rightarrow> char" where
  "upper_hex d = (if d < 10 then char_of (48 + d) else char_of (55 + d))"

definition percent_byte :: "char \<Rightarrow> string" where
  "percent_byte c = [CHR ''%'', upper_hex (byte c div 16), upper_hex (byte c mod 16)]"

definition encodeURIComponent :: "string \<Rightarrow> string" where
  "encodeURIComponent s = concat (map (\<lambda>c. if uri_unreserved c then [c] else percent_byte c) s)"

definition hex_value :: "char \<Rightarrow> nat option" where
  "hex_value c = (let n = byte c in
     if 48 \<le> n \<and> n \<le> 57 then Some (n - 48)
     else if 65 \<le> n \<and> n \<le> 70 then Some (n - 55)
     else if 97 \<le> n \<and> n \<le> 102 then Some (n - 87) else None)"

definition read_percent :: "string \<Rightarrow> (nat \<times> string) option" where
  "read_percent s =
     (case s of p # a # b # r \<Rightarrow>
        if p = CHR ''%'' then
          (case hex_value a of None \<Rightarrow> None
           | Some x \<Rightarrow> (case hex_value b of None \<Rightarrow> None | Some y \<Rightarrow> Some (16 * x + y, r)))
        else None
      | _ \<Rightarrow> None)"

fun read_continuation :: "nat \<Rightarrow> string \<Rightarrow> (nat list \<times> string) option" where
  "read_continuation 0 s = Some ([], s)"
| "read_continuation (Suc n) s =
     (case read_percent s of None \<Rightarrow> None
      | Some (v, r) \<Rightarrow>
          if 128 \<le> v \<and> v < 192 then
            (case read_continuation n r of None \<Rightarrow> None | Some (vs, r') \<Rightarrow> Some (v # vs, r'))
          else None)"

text \<open>The continuation bytes after a leading byte, and the sequences UTF-8 rules out.\<close>

definition continuation_count :: "nat \<Rightarrow> nat option" where
  "continuation_count v =
     (if 194 \<le> v \<and> v < 224 then Some 1 else if 224 \<le> v \<and> v < 240 then Some 2
      else if 240 \<le> v \<and> v < 245 then Some 3 else None)"

definition utf8_ok :: "nat \<Rightarrow> nat list \<Rightarrow> bool" where
  "utf8_ok v vs =
     (case vs of [] \<Rightarrow> True
      | w # _ \<Rightarrow> (v = 224 \<longrightarrow> 160 \<le> w) \<and> (v = 237 \<longrightarrow> w < 160) \<and>
          (v = 240 \<longrightarrow> 144 \<le> w) \<and> (v = 244 \<longrightarrow> w < 144))"

lemma read_percent_length: "read_percent s = Some (v, r) \<Longrightarrow> length r < length s"
  by (auto simp: read_percent_def split: list.splits if_splits option.splits)

lemma read_continuation_length: "read_continuation n s = Some (vs, r) \<Longrightarrow> length r \<le> length s"
  by (induction n arbitrary: s vs)
    (auto split: option.splits if_splits dest!: read_percent_length, fastforce)

function decodeURIComponent :: "string \<Rightarrow> string option" where
  "decodeURIComponent s =
     (case s of [] \<Rightarrow> Some []
      | c # cs \<Rightarrow>
          if c \<noteq> CHR ''%'' then map_option (\<lambda>t. c # t) (decodeURIComponent cs)
          else (case read_percent s of None \<Rightarrow> None
            | Some (v, r) \<Rightarrow>
                if v < 128 then map_option (\<lambda>t. char_of v # t) (decodeURIComponent r)
                else (case continuation_count v of None \<Rightarrow> None
                  | Some n \<Rightarrow>
                      (case read_continuation n r of None \<Rightarrow> None
                       | Some (vs, r') \<Rightarrow>
                           if utf8_ok v vs
                           then map_option (\<lambda>t. char_of v # map char_of vs @ t) (decodeURIComponent r')
                           else None))))"
  by pat_completeness auto
termination
  by (relation "measure length")
    (auto dest!: read_percent_length read_continuation_length split: if_splits)

declare decodeURIComponent.simps [simp del]

lemma decode_Nil [simp]: "decodeURIComponent [] = Some []"
  by (simp add: decodeURIComponent.simps)

definition ascii :: "string \<Rightarrow> bool" where
  "ascii s = (\<forall>c \<in> set s. byte c < 128)"

lemma byte_less: "byte c < 256"
  by (simp add: byte_def)

lemma char_of_byte [simp]: "char_of (byte c) = c"
  by (simp add: byte_def)

lemma hex_value_upper_hex [simp]: "d < 16 \<Longrightarrow> hex_value (upper_hex d) = Some d"
  by (auto simp: hex_value_def upper_hex_def byte_def of_char_of Let_def)

lemma read_percent_byte: "read_percent (percent_byte c @ r) = Some (byte c, r)"
proof -
  have "byte c div 16 < 16" using byte_less[of c] by (simp add: less_mult_imp_div_less)
  then show ?thesis by (simp add: read_percent_def percent_byte_def)
qed

lemma uri_unreserved_percent: "uri_unreserved c \<Longrightarrow> c \<noteq> CHR ''%''"
  by (auto simp: uri_unreserved_def byte_def Let_def)

lemma decode_unreserved:
  "c \<noteq> CHR ''%'' \<Longrightarrow> decodeURIComponent (c # s) = map_option (\<lambda>t. c # t) (decodeURIComponent s)"
  by (subst decodeURIComponent.simps) simp

lemma decode_percent:
  assumes "byte c < 128"
  shows "decodeURIComponent (percent_byte c @ s) = map_option (\<lambda>t. c # t) (decodeURIComponent s)"
proof -
  obtain a b where "percent_byte c @ s = CHR ''%'' # a # b # s" by (simp add: percent_byte_def)
  then show ?thesis
    using assms read_percent_byte[of c s] by (subst decodeURIComponent.simps) simp
qed

lemma decode_encode: "ascii s \<Longrightarrow> decodeURIComponent (encodeURIComponent s) = Some s"
proof (induction s)
  case Nil
  then show ?case by (simp add: encodeURIComponent_def)
next
  case (Cons c s)
  then have IH: "decodeURIComponent (encodeURIComponent s) = Some s" and c: "byte c < 128"
    by (auto simp: ascii_def)
  have "encodeURIComponent (c # s) =
      (if uri_unreserved c then [c] else percent_byte c) @ encodeURIComponent s"
    by (simp add: encodeURIComponent_def)
  then show ?case
    using IH decode_percent[OF c] decode_unreserved[OF uri_unreserved_percent] by auto
qed

subsection \<open>Splitting, joining, sorting\<close>

fun split_on :: "char \<Rightarrow> string \<Rightarrow> string list" where
  "split_on c [] = [[]]"
| "split_on c (x # xs) =
     (if x = c then [] # split_on c xs
      else (case split_on c xs of [] \<Rightarrow> [[x]] | w # ws \<Rightarrow> (x # w) # ws))"

fun join_with :: "char \<Rightarrow> string list \<Rightarrow> string" where
  "join_with c [] = []"
| "join_with c [w] = w"
| "join_with c (w # v # ws) = w @ [c] @ join_with c (v # ws)"

lemma split_on_neq [simp]: "split_on c s \<noteq> []"
  by (induction s) (auto split: list.splits)

lemma split_on_no_sep: "c \<notin> set s \<Longrightarrow> split_on c s = [s]"
  by (induction s) auto

lemma split_on_append:
  "c \<notin> set w \<Longrightarrow> split_on c (w @ c # s) = w # split_on c s"
  by (induction w) auto

lemma set_split_on: "w \<in> set (split_on c s) \<Longrightarrow> c \<notin> set w"
  by (induction s arbitrary: w) (auto split: if_splits list.splits)

lemma split_join:
  "ws \<noteq> [] \<Longrightarrow> (\<And>w. w \<in> set ws \<Longrightarrow> c \<notin> set w) \<Longrightarrow> split_on c (join_with c ws) = ws"
  by (induction c ws rule: join_with.induct) (auto simp: split_on_no_sep split_on_append)

lemma join_split: "join_with c (split_on c s) = s"
proof (induction s)
  case Nil
  then show ?case by simp
next
  case (Cons x s)
  obtain w ws where sp: "split_on c s = w # ws" by (cases "split_on c s") auto
  then show ?case using Cons by (cases ws) auto
qed

fun ins_by :: "('a \<Rightarrow> 'a \<Rightarrow> int) \<Rightarrow> 'a \<Rightarrow> 'a list \<Rightarrow> 'a list" where
  "ins_by cmp x [] = [x]"
| "ins_by cmp x (y # ys) = (if cmp x y \<le> 0 then x # y # ys else y # ins_by cmp x ys)"

definition js_sort :: "('a \<Rightarrow> 'a \<Rightarrow> int) \<Rightarrow> 'a list \<Rightarrow> 'a list" where
  "js_sort cmp xs = foldr (ins_by cmp) xs []"

lemma set_ins_by [simp]: "set (ins_by cmp x ys) = insert x (set ys)"
  by (induction ys) auto

lemma length_ins_by [simp]: "length (ins_by cmp x ys) = Suc (length ys)"
  by (induction ys) auto

lemma set_js_sort [simp]: "set (js_sort cmp xs) = set xs"
  by (induction xs) (auto simp: js_sort_def)

lemma length_js_sort [simp]: "length (js_sort cmp xs) = length xs"
  by (induction xs) (auto simp: js_sort_def)

subsection \<open>Numbers\<close>

fun read_int :: "int \<Rightarrow> string \<Rightarrow> int option" where
  "read_int acc [] = Some acc"
| "read_int acc (c # cs) =
     (case digit_of c of None \<Rightarrow> None | Some d \<Rightarrow> read_int (10 * acc + d) cs)"

definition js_Number :: "string \<Rightarrow> int option" where
  "js_Number s =
     (case js_trim s of [] \<Rightarrow> Some 0
      | c # cs \<Rightarrow>
          if c = CHR ''-'' then (if cs = [] then None else map_option uminus (read_int 0 cs))
          else if c = CHR ''+'' then (if cs = [] then None else read_int 0 cs)
          else read_int 0 (c # cs))"

text \<open>\<open>String(n).padStart(w, '0')\<close>.\<close>

definition pad_num :: "nat \<Rightarrow> int \<Rightarrow> string" where
  "pad_num w n = replicate (w - length (show_int n)) (CHR ''0'') @ show_int n"

end
