(* ===== verification/Recurrence.thy ===== *)
theory Recurrence
  imports DateUtil JsUri
begin

text \<open>
  The load-time normalisation of \<open>recurrence.ts\<close>: RRULE tokens, the series identifier
  carried in the RRULE, and the canonical form of a stored recurrence. The generation of
  occurrences is in the theories RecurrenceFields to RecurrenceBuild.
\<close>

definition RECURRENCE_RULES :: "string list" where
  "RECURRENCE_RULES = [''daily'', ''weekly'', ''monthly'', ''yearly'']"

definition RRULE_SERIES_ID_KEY :: string where
  "RRULE_SERIES_ID_KEY = ''X-MINDWTR-SERIES-ID''"

definition WEEKDAY_ORDER :: "string list" where
  "WEEKDAY_ORDER = [''SU'', ''MO'', ''TU'', ''WE'', ''TH'', ''FR'', ''SA'']"

definition isRecurrenceRule :: "string option \<Rightarrow> bool" where
  "isRecurrenceRule value =
     (case value of None \<Rightarrow> False | Some s \<Rightarrow> s \<noteq> [] \<and> s \<in> set RECURRENCE_RULES)"

definition RRULE_FREQ_MAP :: "string \<Rightarrow> string option" where
  "RRULE_FREQ_MAP k = map_of
     [(''DAILY'', ''daily''), (''WEEKLY'', ''weekly''), (''MONTHLY'', ''monthly''),
      (''YEARLY'', ''yearly'')] k"

record parsed_rrule =
  pr_rule :: "string option"
  pr_byDay :: "string list option"
  pr_byMonthDay :: "int list option"
  pr_bySetPos :: "int option"
  pr_interval :: "int option"
  pr_weekStart :: "string option"
  pr_count :: "int option"
  pr_until :: "string option"

definition empty_parsed :: parsed_rrule where
  "empty_parsed = \<lparr>pr_rule = None, pr_byDay = None, pr_byMonthDay = None, pr_bySetPos = None,
     pr_interval = None, pr_weekStart = None, pr_count = None, pr_until = None\<rparr>"

subsection \<open>The series identifier\<close>

text \<open>
  \<open>part.slice(0, part.indexOf('='))\<close> and \<open>part.slice(part.indexOf('=') + 1)\<close>; without an
  equals sign the index is \<open>-1\<close>, so the first drops the last character and the second keeps all.
\<close>

definition before_eq :: "string \<Rightarrow> string" where
  "before_eq p = (if CHR ''='' \<in> set p then takeWhile (\<lambda>c. c \<noteq> CHR ''='') p else butlast p)"

definition after_eq :: "string \<Rightarrow> string" where
  "after_eq p = (if CHR ''='' \<in> set p then tl (dropWhile (\<lambda>c. c \<noteq> CHR ''='') p) else p)"

definition is_series_part :: "string \<Rightarrow> bool" where
  "is_series_part p = (js_upper (js_trim (before_eq p)) = RRULE_SERIES_ID_KEY)"

definition getSeriesIdFromRRule :: "string option \<Rightarrow> string option" where
  "getSeriesIdFromRRule rrule =
     (case rrule of None \<Rightarrow> None
      | Some r \<Rightarrow>
          if r = [] then None
          else (case find is_series_part (split_on (CHR '';'') r) of None \<Rightarrow> None
            | Some token \<Rightarrow>
                (let raw = js_trim (after_eq token) in
                 if raw = [] then None
                 else (case decodeURIComponent raw of
                     None \<Rightarrow> Some raw
                   | Some d \<Rightarrow> (let t = js_trim d in if t = [] then None else Some t)))))"

definition withSeriesIdInRRule :: "string \<Rightarrow> string \<Rightarrow> string" where
  "withSeriesIdInRRule rrule seriesId =
     join_with (CHR '';'')
       (filter (\<lambda>p. \<not> is_series_part p) (split_on (CHR '';'') rrule) @
        [RRULE_SERIES_ID_KEY @ ''='' @ encodeURIComponent seriesId])"

subsection \<open>Selectors\<close>

text \<open>The pattern \<open>^(-1|1|2|3|4)?(SU|MO|TU|WE|TH|FR|SA)$\<close> on the trimmed upper-case token.\<close>

definition by_day_tokens :: "string list" where
  "by_day_tokens = WEEKDAY_ORDER @
     concat (map (\<lambda>o1. map (\<lambda>d. o1 @ d) WEEKDAY_ORDER) [''-1'', ''1'', ''2'', ''3'', ''4''])"

definition parseByDayToken :: "string \<Rightarrow> string option" where
  "parseByDayToken token =
     (let t = js_trim (js_upper token) in if t \<in> set by_day_tokens then Some t else None)"

definition non_empty_opt :: "'a list \<Rightarrow> 'a list option" where
  "non_empty_opt xs = (if xs = [] then None else Some xs)"

definition normalizeWeekdays :: "string list option \<Rightarrow> string list option" where
  "normalizeWeekdays days =
     (case days of None \<Rightarrow> None
      | Some ds \<Rightarrow> non_empty_opt (uniq (List.map_filter parseByDayToken ds)))"

definition normalizeWeekStart :: "string option \<Rightarrow> string option" where
  "normalizeWeekStart value =
     (case parseByDayToken (or_else value []) of None \<Rightarrow> None
      | Some p \<Rightarrow> if p \<in> set WEEKDAY_ORDER then Some p else None)"

definition normalizeMonthDays :: "string list option \<Rightarrow> int list option" where
  "normalizeMonthDays days =
     (case days of None \<Rightarrow> None
      | Some ds \<Rightarrow>
          non_empty_opt (sort (uniq (filter (\<lambda>d. (1 \<le> d \<and> d \<le> 31) \<or> d = - 1)
            (List.map_filter js_Number ds)))))"

definition normalizeAnchorDay :: "int option \<Rightarrow> int option" where
  "normalizeAnchorDay value =
     (case value of None \<Rightarrow> None | Some d \<Rightarrow> if 1 \<le> d \<and> d \<le> 31 then Some d else None)"

definition take_digits2 :: "string \<Rightarrow> (string \<times> string) option" where
  "take_digits2 s =
     (case read_digits 2 0 s of None \<Rightarrow> None | Some (_, r) \<Rightarrow> Some (take 2 s, r))"

text \<open>\<open>^(\d{4})(\d{2})(\d{2})T(\d{2})(\d{2})(\d{2})?(Z)?$\<close> without regard to case.\<close>

definition match_until :: "string \<Rightarrow> ((string \<times> string \<times> string) \<times> (string \<times> string \<times> string option \<times> bool) option) option" where
  "match_until s =
     (case read_digits 4 0 s of None \<Rightarrow> None
      | Some (_, r0) \<Rightarrow>
        Option.bind (take_digits2 r0) (\<lambda>(m, r1). Option.bind (take_digits2 r1) (\<lambda>(d, r2).
          if r2 = [] then Some ((take 4 s, m, d), None)
          else if hd r2 = CHR ''T'' \<or> hd r2 = CHR ''t'' then
            Option.bind (take_digits2 (tl r2)) (\<lambda>(h, r3). Option.bind (take_digits2 r3) (\<lambda>(mi, r4).
              case opt_group take_digits2 r4 of (sec, r5) \<Rightarrow>
                if r5 = [] then Some ((take 4 s, m, d), Some (h, mi, sec, False))
                else if js_upper r5 = ''Z'' then Some ((take 4 s, m, d), Some (h, mi, sec, True))
                else None))
          else None)))"

definition parseUntilToken :: "host \<Rightarrow> string option \<Rightarrow> string option" where
  "parseUntilToken hst value =
     (case match_until (js_trim (or_else value [])) of
        None \<Rightarrow> None
      | Some ((y, m, d), None) \<Rightarrow> Some (y @ ''-'' @ m @ ''-'' @ d)
      | Some ((y, m, d), Some (h, mi, sec, isUtc)) \<Rightarrow>
          (let iso = y @ ''-'' @ m @ ''-'' @ d @ ''T'' @ h @ '':'' @ mi @ '':'' @ or_else sec ''00'' @
               (if isUtc then ''Z'' else [])
           in case safeParseDate hst (Some iso) of None \<Rightarrow> None
              | Some t \<Rightarrow> if isUtc then Some (to_iso t) else Some (formatSeconds hst t)))"

definition is_date_only :: "string \<Rightarrow> bool" where
  "is_date_only s = (at_end (match_ymd s) \<noteq> None)"

definition formatUntilToken :: "host \<Rightarrow> string option \<Rightarrow> string option" where
  "formatUntilToken hst until =
     (let trimmed = js_trim (or_else until []) in
      if trimmed = [] then None
      else if is_date_only trimmed then Some (filter (\<lambda>c. c \<noteq> CHR ''-'') trimmed)
      else (case safeParseDate hst (Some trimmed) of None \<Rightarrow> None
        | Some t \<Rightarrow>
            (case civil_of_day (t div ms_per_day) of (y, m, d) \<Rightarrow>
               (let k = t mod ms_per_day in
                Some (pad_num 4 y @ pad_num 2 m @ pad_num 2 d @ ''T'' @ pad_num 2 (k div 3600000) @
                  pad_num 2 (k div 60000 mod 60) @ pad_num 2 (k div 1000 mod 60) @ ''Z'')))))"

definition rruleTokens :: "string \<Rightarrow> string \<Rightarrow> string option" where
  "rruleTokens rrule key =
     map_option snd (js_map_of fst
       (List.map_filter (\<lambda>part. case split_on (CHR ''='') part of
            k # v # _ \<Rightarrow> if k \<noteq> [] \<and> v \<noteq> [] then Some (js_upper k, v) else None
          | _ \<Rightarrow> None) (split_on (CHR '';'') rrule)) key)"

definition parseRRuleSelectors :: "string \<Rightarrow> parsed_rrule" where
  "parseRRuleSelectors rrule =
     (if rrule = [] then empty_parsed
      else (let tokens = rruleTokens rrule;
          rawSetPos = Option.bind (tokens ''BYSETPOS'') js_Number;
          interval = Option.bind (tokens ''INTERVAL'') js_Number;
          count = Option.bind (tokens ''COUNT'') js_Number
        in \<lparr>pr_rule = Option.bind (tokens ''FREQ'') (\<lambda>f. RRULE_FREQ_MAP (js_upper f)),
            pr_byDay = normalizeWeekdays (map_option (split_on (CHR '','')) (tokens ''BYDAY'')),
            pr_byMonthDay = normalizeMonthDays (map_option (split_on (CHR '','')) (tokens ''BYMONTHDAY'')),
            pr_bySetPos = (case rawSetPos of None \<Rightarrow> None
              | Some n \<Rightarrow> if n \<noteq> 0 \<and> \<bar>n\<bar> \<le> 366 then Some n else None),
            pr_interval = (case interval of None \<Rightarrow> None | Some n \<Rightarrow> if n > 0 then Some n else None),
            pr_weekStart = normalizeWeekStart (tokens ''WKST''),
            pr_count = (case count of None \<Rightarrow> None | Some n \<Rightarrow> if n > 0 then Some n else None),
            pr_until = None\<rparr>))"

definition parseRRuleString :: "host \<Rightarrow> string \<Rightarrow> parsed_rrule" where
  "parseRRuleString hst rrule =
     (if rrule = [] then empty_parsed
      else (parseRRuleSelectors rrule)\<lparr>pr_until := parseUntilToken hst (rruleTokens rrule ''UNTIL'')\<rparr>)"

subsection \<open>Writing an RRULE\<close>

definition normalizeWeeklyByDay :: "string list option \<Rightarrow> string list option" where
  "normalizeWeeklyByDay days =
     (case normalizeWeekdays days of None \<Rightarrow> None
      | Some ds \<Rightarrow> non_empty_opt (uniq (filter (\<lambda>d. d \<in> set WEEKDAY_ORDER) ds)))"

definition rrule_day_parts :: "host \<Rightarrow> string \<Rightarrow> string list option \<Rightarrow> int list option \<Rightarrow> string list" where
  "rrule_day_parts hst rule normalizedDays byMonthDay =
     (case normalizedDays of
        Some ds \<Rightarrow>
          if rule = ''weekly'' then
            (case normalizeWeeklyByDay (Some ds) of None \<Rightarrow> []
             | Some weekly \<Rightarrow>
                 [''BYDAY='' @ join_with (CHR '','') (filter (\<lambda>d. d \<in> set weekly) WEEKDAY_ORDER)])
          else if rule = ''monthly'' then
            [''BYDAY='' @ join_with (CHR '','') (js_sort (localeCompare hst) ds)]
          else []
      | None \<Rightarrow>
          if rule = ''monthly'' then
            (case normalizeMonthDays (Some (map show_int (or_else byMonthDay []))) of None \<Rightarrow> []
             | Some ms \<Rightarrow> [''BYMONTHDAY='' @ join_with (CHR '','') (map show_int ms)])
          else [])"

definition buildRRuleString :: "host \<Rightarrow> string \<Rightarrow> string list option \<Rightarrow> int option \<Rightarrow>
    int list option \<Rightarrow> int option \<Rightarrow> string option \<Rightarrow> int option \<Rightarrow> string option \<Rightarrow> string" where
  "buildRRuleString hst rule byDay interval byMonthDay bySetPos weekStart count until =
     (let normalizedDays = normalizeWeekdays byDay in
      join_with (CHR '';'')
        ([''FREQ='' @ js_upper rule] @
         (case interval of None \<Rightarrow> []
          | Some n \<Rightarrow> if n > 1 then [''INTERVAL='' @ show_int n] else []) @
         rrule_day_parts hst rule normalizedDays byMonthDay @
         (case bySetPos of None \<Rightarrow> []
          | Some n \<Rightarrow>
              if rule = ''monthly'' \<and> (normalizedDays \<noteq> None \<or> or_else byMonthDay [] \<noteq> []) \<and>
                 n \<noteq> 0 \<and> \<bar>n\<bar> \<le> 366
              then [''BYSETPOS='' @ show_int n] else []) @
         (case count of None \<Rightarrow> [] | Some n \<Rightarrow> if n > 0 then [''COUNT='' @ show_int n] else []) @
         (case normalizeWeekStart weekStart of None \<Rightarrow> []
          | Some w \<Rightarrow> if rule = ''weekly'' then [''WKST='' @ w] else []) @
         (case formatUntilToken hst until of None \<Rightarrow> [] | Some u \<Rightarrow> [''UNTIL='' @ u])))"

subsection \<open>normalizeRecurrenceForLoad\<close>

definition trimmed_opt :: "string option \<Rightarrow> string option" where
  "trimmed_opt v = (case v of None \<Rightarrow> None | Some s \<Rightarrow> if nonblank s then Some (js_trim s) else None)"

definition nonzero :: "int option \<Rightarrow> int option" where
  "nonzero v = (if v = Some 0 then None else v)"

definition recurrence_of_rule :: "string \<Rightarrow> recurrence" where
  "recurrence_of_rule r = \<lparr>rec_rule = r, rec_seriesId = None, rec_strategy = None,
     rec_byDay = None, rec_byMonthDay = None, rec_weekStart = None, rec_count = None,
     rec_until = None, rec_completedOccurrences = None, rec_anchorDay = None,
     rec_startAnchorDay = None, rec_dueAnchorDay = None, rec_reviewAnchorDay = None,
     rec_rrule = None\<rparr>"

definition normalizeRecurrenceString :: "host \<Rightarrow> string \<Rightarrow> recurrence option" where
  "normalizeRecurrenceString hst value =
     (let trimmed = js_trim value in
      if trimmed = [] then None
      else if isRecurrenceRule (Some trimmed) then Some (recurrence_of_rule trimmed)
      else (let parsed = parseRRuleString hst trimmed in
        case pr_rule parsed of None \<Rightarrow> None
        | Some r \<Rightarrow> Some ((recurrence_of_rule r)\<lparr>
            rec_byDay := pr_byDay parsed, rec_byMonthDay := pr_byMonthDay parsed,
            rec_weekStart := pr_weekStart parsed, rec_count := pr_count parsed,
            rec_until := pr_until parsed, rec_rrule := Some trimmed\<rparr>)))"

definition normalizeRecurrenceObject :: "host \<Rightarrow> recurrence \<Rightarrow> recurrence option" where
  "normalizeRecurrenceObject hst r =
     (let rrule = trimmed_opt (rec_rrule r);
          parsed = (case rrule of None \<Rightarrow> empty_parsed | Some s \<Rightarrow> parseRRuleString hst s);
          rule = (if isRecurrenceRule (Some (rec_rule r)) then Some (rec_rule r) else pr_rule parsed)
      in case rule of None \<Rightarrow> None
         | Some rl \<Rightarrow>
             (let seriesId = js_nullish (trimmed_opt (rec_seriesId r)) (getSeriesIdFromRRule rrule);
                strategy = (if rec_strategy r = Some ''fluid'' \<or> rec_strategy r = Some ''strict''
                  then rec_strategy r else None);
                byDay = js_nullish (normalizeWeekdays (rec_byDay r)) (pr_byDay parsed);
                byMonthDay = js_nullish
                  (normalizeMonthDays (map_option (map show_int) (rec_byMonthDay r)))
                  (pr_byMonthDay parsed);
                weekStart = js_nullish (normalizeWeekStart (rec_weekStart r)) (pr_weekStart parsed);
                count = (case rec_count r of Some n \<Rightarrow> if n > 0 then Some n else pr_count parsed
                  | None \<Rightarrow> pr_count parsed);
                until = (case rec_until r of Some u \<Rightarrow> if nonblank u then Some u else pr_until parsed
                  | None \<Rightarrow> pr_until parsed);
                completed = (case rec_completedOccurrences r of None \<Rightarrow> None
                  | Some n \<Rightarrow> if 0 \<le> n then Some n else None);
                compatible = (case seriesId of
                    Some sid \<Rightarrow> Some (withSeriesIdInRRule
                      (case rrule of Some s \<Rightarrow> s
                       | None \<Rightarrow> buildRRuleString hst rl byDay (pr_interval parsed) byMonthDay
                           (pr_bySetPos parsed) weekStart count until) sid)
                  | None \<Rightarrow> rrule)
              in Some \<lparr>rec_rule = rl, rec_seriesId = seriesId, rec_strategy = strategy,
                   rec_byDay = byDay, rec_byMonthDay = byMonthDay, rec_weekStart = weekStart,
                   rec_count = count, rec_until = until, rec_completedOccurrences = completed,
                   rec_anchorDay = normalizeAnchorDay (rec_anchorDay r),
                   rec_startAnchorDay = normalizeAnchorDay (rec_startAnchorDay r),
                   rec_dueAnchorDay = normalizeAnchorDay (rec_dueAnchorDay r),
                   rec_reviewAnchorDay = normalizeAnchorDay (rec_reviewAnchorDay r),
                   rec_rrule = compatible\<rparr>))"

definition normalizeRecurrenceForLoad :: "host \<Rightarrow> task_recurrence option \<Rightarrow> recurrence option" where
  "normalizeRecurrenceForLoad hst value =
     (case value of None \<Rightarrow> None
      | Some (RecStr s) \<Rightarrow> normalizeRecurrenceString hst s
      | Some (RecObj r) \<Rightarrow> normalizeRecurrenceObject hst r)"

end
