(* ===== verification/TaskStatus.thy ===== *)
theory TaskStatus
  imports Recurrence
begin

text \<open>
  \<open>task-status.ts\<close> and \<open>project-status.ts\<close>: the cancellation timestamp, the predicates on
  a task's status, and the canonical lifecycle shape every loader and writer applies, with
  the field normalisers of \<open>time-spent.ts\<close>, \<open>schedule-utils.ts\<close> and
  \<open>task-relative-start.ts\<close> they call. A function of the code that hands back its argument
  when nothing changed returns an equal record here: object identity is not modelled.
\<close>

subsection \<open>Cancellation timestamps\<close>

text \<open>The captured fields of \<open>ISO_DATETIME_WITH_TIMEZONE\<close>; the offset is zero under \<open>Z\<close>.\<close>

definition fraction_any :: "string \<Rightarrow> (unit \<times> string) option" where
  "fraction_any s = Option.bind (eat (CHR ''.'') s) (\<lambda>r.
     case span_digits r of (d, rest) \<Rightarrow> if d = [] then None else Some ((), rest))"

definition match_zone :: "string \<Rightarrow> (int \<times> int) option" where
  "match_zone s =
     (if s = ''Z'' then Some (0, 0)
      else case s of [] \<Rightarrow> None
        | c # r \<Rightarrow> if c = CHR ''+'' \<or> c = CHR ''-'' then
            Option.bind (read_digits 2 0 r) (\<lambda>(oh, r1).
            Option.bind (eat_digits2 (CHR '':'') r1) (\<lambda>(om, r2).
              if r2 = [] then Some (oh, om) else None))
          else None)"

definition match_iso_with_zone ::
  "string \<Rightarrow> ((int \<times> int \<times> int) \<times> (int \<times> int \<times> int) \<times> (int \<times> int)) option" where
  "match_iso_with_zone s =
     Option.bind (match_ymd s) (\<lambda>(ymd, r).
     Option.bind (eat_digits2 (CHR ''T'') r) (\<lambda>(h, r1).
     Option.bind (eat_digits2 (CHR '':'') r1) (\<lambda>(mi, r2).
     Option.bind (eat_digits2 (CHR '':'') r2) (\<lambda>(sec, r3).
       case opt_group fraction_any r3 of (_, r4) \<Rightarrow>
         Option.bind (match_zone r4) (\<lambda>z. Some (ymd, (h, mi, sec), z))))))"

definition days_in_month :: "int \<Rightarrow> int \<Rightarrow> int" where
  "days_in_month year month =
     (if 1 \<le> month \<and> month \<le> 12
      then [31, if is_leap year then 29 else 28, 31, 30, 31, 30, 31, 31, 30, 31, 30, 31]
             ! nat (month - 1)
      else 0)"

definition normalizeCancellationTimestamp :: "json \<Rightarrow> string option" where
  "normalizeCancellationTimestamp value =
     (case value of
        JStr s \<Rightarrow>
          (case match_iso_with_zone s of None \<Rightarrow> None
           | Some ((year, month, day), (hour, minute, second), (oh, om)) \<Rightarrow>
               if month < 1 \<or> month > 12 \<or> day < 1 \<or> day > days_in_month year month
                  \<or> hour > 23 \<or> minute > 59 \<or> second > 59 \<or> oh > 23 \<or> om > 59 then None
               else if date_parse s \<noteq> None then Some s else None)
      | _ \<Rightarrow> None)"

abbreviation cancellation :: "string option \<Rightarrow> string option" where
  "cancellation v \<equiv> normalizeCancellationTimestamp (j_str v)"

lemma cancellation_SomeD: "cancellation v = Some s \<Longrightarrow> v = Some s \<and> date_parse s \<noteq> None"
  by (auto simp: normalizeCancellationTimestamp_def j_str_def j_opt_def
      split: option.splits if_splits)

lemma cancellation_None [simp]: "cancellation None = None"
  by (simp add: normalizeCancellationTimestamp_def j_str_def j_opt_def)

lemma cancellation_idem [simp]: "cancellation (cancellation v) = cancellation v"
  by (cases "cancellation v") (auto dest: cancellation_SomeD)

lemma cancellation_truthy: "cancellation v = Some s \<Longrightarrow> s \<noteq> []"
proof
  assume "cancellation v = Some s" and "s = []"
  then have "v = Some []" by (auto dest: cancellation_SomeD)
  moreover have "cancellation (Some []) = None" by code_simp
  ultimately show False using \<open>cancellation v = Some s\<close> by simp
qed

subsection \<open>Status predicates\<close>

definition isTaskFinished :: "task_status option \<Rightarrow> bool" where
  "isTaskFinished status = (status = Some Done \<or> status = Some Archived)"

definition isTaskCancelled :: "task option \<Rightarrow> bool" where
  "isTaskCancelled v = (case v of None \<Rightarrow> False
     | Some t \<Rightarrow> t_status t = Archived \<and> cancellation (t_cancelledAt t) \<noteq> None)"

definition isTaskCompleted :: "task option \<Rightarrow> bool" where
  "isTaskCompleted v = (case v of None \<Rightarrow> False
     | Some t \<Rightarrow> (t_status t = Done \<or> t_status t = Archived) \<and> \<not> isTaskCancelled (Some t))"

definition isTaskActionable :: "task_status option \<Rightarrow> bool" where
  "isTaskActionable status =
     (status \<noteq> Some Done \<and> status \<noteq> Some Archived \<and> status \<noteq> Some Reference)"

definition isProjectCancelled :: "project option \<Rightarrow> bool" where
  "isProjectCancelled v = (case v of None \<Rightarrow> False
     | Some p \<Rightarrow> p_status p = PArchived \<and> cancellation (p_cancelledAt p) \<noteq> None)"

text \<open>A finished task is either completed or cancelled, never both.\<close>

lemma finished_partition:
  "isTaskFinished (Some (t_status t)) \<longleftrightarrow> isTaskCompleted (Some t) \<or> isTaskCancelled (Some t)"
  "\<not> (isTaskCompleted (Some t) \<and> isTaskCancelled (Some t))"
  by (auto simp: isTaskFinished_def isTaskCompleted_def isTaskCancelled_def)

subsection \<open>Reading a status\<close>

text \<open>
  \<open>LEGACY_STATUS_MAP\<close> is an object literal, so in the code the two inherited names
  \<open>constructor\<close> and \<open>__proto__\<close> also find a (non-string) value; the map here has the
  literal's own entries only.
\<close>

definition TASK_STATUS_VALUES :: "task_status list" where
  "TASK_STATUS_VALUES = [Inbox, Next, Waiting, Someday, Reference, Done, Archived]"

definition status_of_str :: "string \<Rightarrow> task_status option" where
  "status_of_str s = find (\<lambda>st. task_status_str st = s) TASK_STATUS_VALUES"

definition LEGACY_STATUS_MAP :: "string \<Rightarrow> task_status option" where
  "LEGACY_STATUS_MAP s =
     map_of [(''planned'', Next), (''pending'', Next), (''in-progress'', Next), (''doing'', Next)] s"

definition normalizeTaskStatus :: "json \<Rightarrow> task_status" where
  "normalizeTaskStatus value =
     (case value of
        JStr s \<Rightarrow>
          (case status_of_str s of
             Some st \<Rightarrow> st
           | None \<Rightarrow> (let lowered = js_trim (js_lower s) in
               case status_of_str lowered of
                 Some st \<Rightarrow> st
               | None \<Rightarrow> (case LEGACY_STATUS_MAP lowered of Some st \<Rightarrow> st | None \<Rightarrow> Inbox)))
      | _ \<Rightarrow> Inbox)"

lemma status_of_str_str [simp]: "status_of_str (task_status_str st) = Some st"
  by (cases st) (simp_all add: status_of_str_def TASK_STATUS_VALUES_def)

lemma normalizeTaskStatus_str [simp]: "normalizeTaskStatus (JStr (task_status_str st)) = st"
  by (simp add: normalizeTaskStatus_def)

subsection \<open>Field normalisers\<close>

definition TIME_SPENT_MAX_MINUTES :: int where
  "TIME_SPENT_MAX_MINUTES = 100000"

text \<open>The model's minutes are whole, so rounding is the identity.\<close>

definition normalizeTimeSpentMinutes :: "int option \<Rightarrow> int option" where
  "normalizeTimeSpentMinutes value =
     (case value of None \<Rightarrow> None
      | Some n \<Rightarrow> if n \<le> 0 then None else Some (min n TIME_SPENT_MAX_MINUTES))"

definition REPEAT_REMINDER_INTERVAL_OPTIONS :: "int list" where
  "REPEAT_REMINDER_INTERVAL_OPTIONS = [5, 10, 15, 30, 60]"

definition normalizeRepeatReminderMinutes :: "int option \<Rightarrow> int option" where
  "normalizeRepeatReminderMinutes value =
     (case value of None \<Rightarrow> None
      | Some n \<Rightarrow> if n \<in> set REPEAT_REMINDER_INTERVAL_OPTIONS then Some n else None)"

definition normalizeRelativeStartOffset :: "relative_start_offset option \<Rightarrow> relative_start_offset option" where
  "normalizeRelativeStartOffset value =
     (case value of None \<Rightarrow> None
      | Some r \<Rightarrow>
          if rso_unit r \<notin> set [''minute'', ''hour'', ''day'', ''week''] then None
          else if rso_amount r < - 10000 \<or> rso_amount r > 0 then None
          else Some \<lparr>rso_amount = rso_amount r, rso_unit = rso_unit r\<rparr>)"

lemma normalizeTimeSpentMinutes_idem [simp]:
  "normalizeTimeSpentMinutes (normalizeTimeSpentMinutes v) = normalizeTimeSpentMinutes v"
  by (auto simp: normalizeTimeSpentMinutes_def TIME_SPENT_MAX_MINUTES_def split: option.splits)

lemma normalizeRepeatReminderMinutes_idem [simp]:
  "normalizeRepeatReminderMinutes (normalizeRepeatReminderMinutes v) = normalizeRepeatReminderMinutes v"
  by (auto simp: normalizeRepeatReminderMinutes_def split: option.splits)

lemma normalizeRelativeStartOffset_idem [simp]:
  "normalizeRelativeStartOffset (normalizeRelativeStartOffset v) = normalizeRelativeStartOffset v"
  by (auto simp: normalizeRelativeStartOffset_def split: option.splits)

subsection \<open>Lifecycle fields\<close>

definition normalizeTaskLifecycleFields :: "task \<Rightarrow> task" where
  "normalizeTaskLifecycleFields t =
     (let cancelledAt = (if t_status t = Archived then cancellation (t_cancelledAt t) else None);
          isTerminal = isTaskFinished (Some (t_status t));
          completedAt = (if truthy cancelledAt then None
            else if isTerminal
              then js_or (js_or (t_completedAt t) (Some (updatedAt t))) (Some (createdAt t))
            else None);
          n = t\<lparr>t_cancelledAt := cancelledAt, t_completedAt := completedAt\<rparr>
      in if isTerminal then n\<lparr>t_isFocusedToday := Some False, t_focusOrder := None\<rparr> else n)"

lemma js_or_idem:
  "js_or (js_or (js_or (js_or a b) c) b) c = js_or (js_or a b) c"
  by (simp add: js_or_def)

lemma lifecycle_status [simp]:
  "t_status (normalizeTaskLifecycleFields t) = t_status t"
  "eid (normalizeTaskLifecycleFields t) = eid t"
  "updatedAt (normalizeTaskLifecycleFields t) = updatedAt t"
  "createdAt (normalizeTaskLifecycleFields t) = createdAt t"
  by (simp_all add: normalizeTaskLifecycleFields_def Let_def)

lemma lifecycle_unfinished:
  "\<not> isTaskFinished (Some (t_status t)) \<Longrightarrow>
   normalizeTaskLifecycleFields t = t\<lparr>t_cancelledAt := None, t_completedAt := None\<rparr>"
  by (auto simp: normalizeTaskLifecycleFields_def isTaskFinished_def Let_def)

lemma lifecycle_cancelled:
  assumes "t_status t = Archived" and "cancellation (t_cancelledAt t) = Some c"
  shows "normalizeTaskLifecycleFields t = t\<lparr>t_cancelledAt := Some c, t_completedAt := None,
           t_isFocusedToday := Some False, t_focusOrder := None\<rparr>"
  using assms cancellation_truthy[OF assms(2)]
  by (simp add: normalizeTaskLifecycleFields_def isTaskFinished_def Let_def)

lemma lifecycle_completed:
  assumes "isTaskFinished (Some (t_status t))"
    and "t_status t = Archived \<longrightarrow> cancellation (t_cancelledAt t) = None"
  shows "normalizeTaskLifecycleFields t = t\<lparr>t_cancelledAt := None,
           t_completedAt := js_or (js_or (t_completedAt t) (Some (updatedAt t))) (Some (createdAt t)),
           t_isFocusedToday := Some False, t_focusOrder := None\<rparr>"
  using assms by (auto simp: normalizeTaskLifecycleFields_def isTaskFinished_def Let_def)

lemma lifecycle_idem:
  "normalizeTaskLifecycleFields (normalizeTaskLifecycleFields t) = normalizeTaskLifecycleFields t"
proof (cases "isTaskFinished (Some (t_status t))")
  case False
  then show ?thesis by (simp add: lifecycle_unfinished)
next
  case True
  show ?thesis
  proof (cases "t_status t = Archived \<and> cancellation (t_cancelledAt t) \<noteq> None")
    case True
    then obtain c where c: "cancellation (t_cancelledAt t) = Some c" by auto
    moreover from c have "cancellation (Some c) = Some c" using cancellation_idem[of "t_cancelledAt t"] by simp
    ultimately show ?thesis using True by (simp add: lifecycle_cancelled)
  next
    case False
    then show ?thesis using \<open>isTaskFinished (Some (t_status t))\<close>
      by (simp add: lifecycle_completed js_or_idem)
  qed
qed

definition normalizeProjectLifecycleFields :: "project \<Rightarrow> project" where
  "normalizeProjectLifecycleFields p =
     (let cancelledAt = (if p_status p = PArchived then cancellation (p_cancelledAt p) else None);
          cancellationChanged = (cancelledAt \<noteq> p_cancelledAt p);
          focusChanged = (p_status p = PArchived \<and> p_isFocused p \<noteq> Some False)
      in if \<not> cancellationChanged \<and> \<not> focusChanged then p
         else (let n = (if cancellationChanged then p\<lparr>p_cancelledAt := cancelledAt\<rparr> else p)
               in if focusChanged then n\<lparr>p_isFocused := Some False\<rparr> else n))"

lemma project_lifecycle_eq:
  "normalizeProjectLifecycleFields p = p\<lparr>
     p_cancelledAt := (if p_status p = PArchived then cancellation (p_cancelledAt p) else None),
     p_isFocused := (if p_status p = PArchived then Some False else p_isFocused p)\<rparr>"
  by (cases "p_status p = PArchived"; cases "p_isFocused p = Some False")
     (auto simp: normalizeProjectLifecycleFields_def Let_def)

lemma project_lifecycle_idem [simp]:
  "normalizeProjectLifecycleFields (normalizeProjectLifecycleFields p) =
   normalizeProjectLifecycleFields p"
  by (simp add: project_lifecycle_eq)

text \<open>
  The fields of a project patch the cancellation rules read; \<open>None\<close> is a field the patch does
  not own, \<open>Some v\<close> one it sets to \<open>v\<close>. The rest of the patch is the record's extension.
\<close>

record project_patch =
  up_status :: "project_status option"
  up_cancelledAt :: "json option"
  up_archivedAt :: "string option option"
  up_isFocused :: "bool option option"

definition normalizeProjectUpdate ::
  "project \<Rightarrow> 'a project_patch_scheme \<Rightarrow> 'a project_patch_scheme" where
  "normalizeProjectUpdate p updates =
     (let a0 = updates\<lparr>up_archivedAt := None\<rparr>;
          a1 = (case up_cancelledAt updates of None \<Rightarrow> a0
            | Some v \<Rightarrow>
                (let c = normalizeCancellationTimestamp v; a = a0\<lparr>up_cancelledAt := Some (j_str c)\<rparr>
                 in if truthy c \<and> up_status updates = None
                    then a\<lparr>up_status := Some PArchived\<rparr> else a));
          resolved = or_else (up_status a1) (p_status p);
          a2 = (if resolved \<noteq> PArchived then a1\<lparr>up_cancelledAt := Some JUndef\<rparr> else a1);
          entered = (up_status a2 \<noteq> None \<and> resolved \<noteq> p_status p \<and> resolved \<noteq> PActive)
      in if resolved = PArchived \<or> entered then a2\<lparr>up_isFocused := Some (Some False)\<rparr> else a2)"

subsection \<open>Loading a task\<close>

definition isFutureStart :: "host \<Rightarrow> task \<Rightarrow> int \<Rightarrow> bool" where
  "isFutureStart h t now =
     (case safeParseDate h (t_startTime t) of None \<Rightarrow> False | Some st \<Rightarrow> st > end_of_day now)"

definition nonblank_opt :: "string option \<Rightarrow> string option" where
  "nonblank_opt v = (case v of None \<Rightarrow> None | Some s \<Rightarrow> if nonblank s then Some s else None)"

definition load_timestamps :: "string \<Rightarrow> string \<Rightarrow> string \<Rightarrow> string \<times> string" where
  "load_timestamps created updated nowIso =
     (let c = (if date_parse created = None then nowIso else created);
          u = (case date_parse updated of None \<Rightarrow> c
               | Some um \<Rightarrow> (case date_parse c of None \<Rightarrow> updated
                   | Some cm \<Rightarrow> if um < cm then c else updated))
      in (c, u))"

definition load_rev :: "int option \<Rightarrow> int" where
  "load_rev r = (case r of None \<Rightarrow> 0 | Some n \<Rightarrow> if 0 \<le> n then n else 0)"

lemma load_rev_idem [simp]: "load_rev (Some (load_rev r)) = load_rev r"
  by (simp add: load_rev_def split: option.splits)

definition load_fields :: "host \<Rightarrow> string \<Rightarrow> task \<Rightarrow> task" where
  "load_fields h nowIso t =
     (let stamps = load_timestamps (createdAt t) (updatedAt t) nowIso;
          projectId = nonblank_opt (t_projectId t);
          order = js_nullish (t_order t) (t_orderNum t)
      in t\<lparr>createdAt := fst stamps, updatedAt := snd stamps,
           t_status := normalizeTaskStatus (JStr (task_status_str (t_status t))),
           t_projectId := projectId,
           t_areaId := (if projectId \<noteq> None then None else nonblank_opt (t_areaId t)),
           t_order := order, t_orderNum := order,
           t_recurrence := map_option RecObj (normalizeRecurrenceForLoad h (t_recurrence t)),
           t_repeatReminderMinutes := normalizeRepeatReminderMinutes (t_repeatReminderMinutes t),
           t_timeSpentMinutes := normalizeTimeSpentMinutes (t_timeSpentMinutes t),
           t_relativeStartOffset := (if truthy (t_dueDate t)
             then normalizeRelativeStartOffset (t_relativeStartOffset t) else None),
           rev := Some (load_rev (rev t)),
           revBy := map_option js_trim (nonblank_opt (revBy t)),
           t_pushCount := (if t_pushCount t \<noteq> None \<or> truthy (t_purgedAt t)
             then t_pushCount t else Some 0)\<rparr>)"

text \<open>A queued star is kept only on a Next action, and orders nothing before its start.\<close>

definition unfocus_future :: "host \<Rightarrow> string \<Rightarrow> task \<Rightarrow> task" where
  "unfocus_future h nowIso t =
     (case date_parse nowIso of
        None \<Rightarrow> t
      | Some now \<Rightarrow>
          if t_isFocusedToday t = Some True \<and> isFutureStart h t now then
            (let u = (if t_status t \<noteq> Next then t\<lparr>t_isFocusedToday := Some False\<rparr> else t)
             in u\<lparr>t_focusOrder := None\<rparr>)
          else t)"

definition normalizeTaskForLoad :: "host \<Rightarrow> string \<Rightarrow> task \<Rightarrow> task" where
  "normalizeTaskForLoad h nowIso t =
     unfocus_future h nowIso (normalizeTaskLifecycleFields (load_fields h nowIso t))"

subsection \<open>Loading is idempotent\<close>

lemma nonblank_opt_idem [simp]: "nonblank_opt (nonblank_opt v) = nonblank_opt v"
  by (auto simp: nonblank_opt_def split: option.splits)

lemma load_timestamps_idem:
  "load_timestamps c u now = (c', u') \<Longrightarrow> load_timestamps c' u' now = (c', u')"
  by (auto simp: load_timestamps_def Let_def split: option.splits if_splits)

lemma trimmed_revBy_idem:
  "map_option js_trim (nonblank_opt (map_option js_trim (nonblank_opt v))) = map_option js_trim (nonblank_opt v)"
  by (auto simp: nonblank_opt_def nonblank_def split: option.splits)

lemma js_nullish_self [simp]: "js_nullish v v = v"
  by (cases v) simp_all

definition recurrence_stable :: "host \<Rightarrow> task_recurrence option \<Rightarrow> bool" where
  "recurrence_stable h r =
     (normalizeRecurrenceForLoad h (map_option RecObj (normalizeRecurrenceForLoad h r)) =
      normalizeRecurrenceForLoad h r)"

lemma load_fields_idem:
  assumes "recurrence_stable h (t_recurrence t)"
  shows "load_fields h now (load_fields h now t) = load_fields h now t"
proof -
  have "load_timestamps (fst s) (snd s) now = s" if "s = load_timestamps (createdAt t) (updatedAt t) now" for s
    using that load_timestamps_idem[of "createdAt t" "updatedAt t" now "fst s" "snd s"] by simp
  then show ?thesis
    using assms by (simp add: load_fields_def Let_def trimmed_revBy_idem recurrence_stable_def)
qed

lemma load_fields_update:
  "load_fields h now (t\<lparr>t_cancelledAt := a, t_completedAt := b\<rparr>) =
   (load_fields h now t)\<lparr>t_cancelledAt := a, t_completedAt := b\<rparr>"
  "load_fields h now (t\<lparr>t_isFocusedToday := f\<rparr>) = (load_fields h now t)\<lparr>t_isFocusedToday := f\<rparr>"
  "load_fields h now (t\<lparr>t_focusOrder := n\<rparr>) = (load_fields h now t)\<lparr>t_focusOrder := n\<rparr>"
  by (simp_all add: load_fields_def Let_def)

definition life_cancelled :: "task \<Rightarrow> string option" where
  "life_cancelled t = (if t_status t = Archived then cancellation (t_cancelledAt t) else None)"

definition life_completed :: "task \<Rightarrow> string option" where
  "life_completed t =
     (if truthy (life_cancelled t) then None
      else if isTaskFinished (Some (t_status t))
      then js_or (js_or (t_completedAt t) (Some (updatedAt t))) (Some (createdAt t)) else None)"

lemma lifecycle_shape:
  "normalizeTaskLifecycleFields t =
     (if isTaskFinished (Some (t_status t))
      then t\<lparr>t_cancelledAt := life_cancelled t, t_completedAt := life_completed t\<rparr>
             \<lparr>t_isFocusedToday := Some False\<rparr>\<lparr>t_focusOrder := None\<rparr>
      else t\<lparr>t_cancelledAt := life_cancelled t, t_completedAt := life_completed t\<rparr>)"
  unfolding normalizeTaskLifecycleFields_def Let_def life_completed_def life_cancelled_def
  by (cases "isTaskFinished (Some (t_status t))") simp_all

lemma load_fields_lifecycle:
  "load_fields h now u = u \<Longrightarrow>
   load_fields h now (normalizeTaskLifecycleFields u) = normalizeTaskLifecycleFields u"
  by (subst (1 2) lifecycle_shape) (simp only: if_distrib[of "load_fields h now"] load_fields_update)

lemma load_fields_unfocus:
  "load_fields h now u = u \<Longrightarrow> load_fields h now (unfocus_future h now u) = unfocus_future h now u"
  by (simp add: unfocus_future_def Let_def load_fields_update split: option.splits)

lemma isFutureStart_update [simp]:
  "isFutureStart h (t\<lparr>t_isFocusedToday := f\<rparr>) now = isFutureStart h t now"
  "isFutureStart h (t\<lparr>t_focusOrder := n\<rparr>) now = isFutureStart h t now"
  by (simp_all add: isFutureStart_def)

lemma unfocus_idem: "unfocus_future h now (unfocus_future h now u) = unfocus_future h now u"
proof (cases "date_parse now")
  case None
  then show ?thesis by (simp add: unfocus_future_def)
next
  case (Some n)
  show ?thesis
  proof (cases "t_isFocusedToday u = Some True \<and> isFutureStart h u n")
    case False
    with Some have "unfocus_future h now u = u" by (simp only: unfocus_future_def option.case if_False)
    then show ?thesis by simp
  next
    case True
    with Some show ?thesis
      by (cases "t_status u = Next") (simp_all add: unfocus_future_def Let_def)
  qed
qed

lemma lifecycle_unfocus:
  assumes "normalizeTaskLifecycleFields u = u"
  shows "normalizeTaskLifecycleFields (unfocus_future h now u) = unfocus_future h now u"
proof (cases "isTaskFinished (Some (t_status u))")
  case True
  then have "t_isFocusedToday (normalizeTaskLifecycleFields u) = Some False"
    by (simp add: lifecycle_shape)
  with assms have "t_isFocusedToday u = Some False" by simp
  then show ?thesis using assms by (simp add: unfocus_future_def split: option.splits)
next
  case False
  then have "t_cancelledAt (normalizeTaskLifecycleFields u) = None"
    "t_completedAt (normalizeTaskLifecycleFields u) = None"
    by (simp_all add: lifecycle_unfinished)
  with assms have n: "t_cancelledAt u = None" "t_completedAt u = None" by simp_all
  have "t_status (unfocus_future h now u) = t_status u"
    "t_cancelledAt (unfocus_future h now u) = None" "t_completedAt (unfocus_future h now u) = None"
    using n by (simp_all add: unfocus_future_def Let_def split: option.splits)
  then show ?thesis
    using False by (simp add: lifecycle_unfinished)
qed

text \<open>
  A task that was normalised once is not changed by being normalised again at the same moment,
  whatever its status, timestamps, container and focus, when its recurrence is one that loading twice
  reads as loading once. Not every recurrence is: a rule text with FREQ after an unusual first part
  gives up its selectors to the second load only.
\<close>

theorem normalizeTaskForLoad_idem:
  assumes "recurrence_stable h (t_recurrence t)"
  shows "normalizeTaskForLoad h now (normalizeTaskForLoad h now t) = normalizeTaskForLoad h now t"
proof -
  define u where "u = normalizeTaskLifecycleFields (load_fields h now t)"
  define v where "v = unfocus_future h now u"
  have "load_fields h now u = u"
    unfolding u_def by (rule load_fields_lifecycle[OF load_fields_idem[OF assms]])
  then have load: "load_fields h now v = v" unfolding v_def by (rule load_fields_unfocus)
  have "normalizeTaskLifecycleFields u = u" unfolding u_def by (rule lifecycle_idem)
  then have life: "normalizeTaskLifecycleFields v = v" unfolding v_def by (rule lifecycle_unfocus)
  have "unfocus_future h now v = v" unfolding v_def by (rule unfocus_idem)
  with load life have "normalizeTaskForLoad h now v = v" by (simp add: normalizeTaskForLoad_def)
  then show ?thesis by (simp add: normalizeTaskForLoad_def v_def u_def)
qed

lemma recurrence_stable_None: "recurrence_stable h None"
  by (simp add: recurrence_stable_def normalizeRecurrenceForLoad_def)

lemma recurrence_stable_daily: "recurrence_stable sample_host (Some (RecStr ''daily''))"
  by code_simp

theorem normalizeTaskForLoad_idem_witness:
  "normalizeTaskForLoad sample_host ''2024-05-01T00:00:00.000Z'' (normalizeTaskForLoad sample_host
     ''2024-05-01T00:00:00.000Z'' ((sample_task ''t1'')\<lparr>t_recurrence := Some (RecStr ''daily'')\<rparr>)) =
   normalizeTaskForLoad sample_host ''2024-05-01T00:00:00.000Z''
     ((sample_task ''t1'')\<lparr>t_recurrence := Some (RecStr ''daily'')\<rparr>)"
  by (rule normalizeTaskForLoad_idem) (simp add: recurrence_stable_daily)

end
