(* ===== verification/Signatures.thy ===== *)
theory Signatures
  imports TaskStatus JsUri "HOL-Library.Product_Lexorder" "HOL-Library.Multiset"
begin

text \<open>
  \<open>sync-signatures.ts\<close>: the content comparison of the merge. An entity is turned into a
  comparable object (\<open>normalize*ForContentComparison\<close>), reduced to a canonical value with
  sorted keys and no empty parts (\<open>toComparableValue\<close>) and printed. Signatures decide
  whether two copies differ, which copy wins a tie, and which fields a diagnostic names.
  Property names are not array indexes, so JavaScript keeps them in insertion order.
\<close>

subsection \<open>Comparable objects of the entities\<close>

definition CONTENT_DIFF_IGNORED_KEYS :: "string list" where
  "CONTENT_DIFF_IGNORED_KEYS = [''rev'', ''revBy'', ''updatedAt'', ''createdAt'', ''localStatus'',
     ''purgedAt'', ''order'', ''orderNum'', ''boardOrder'', ''focusOrder'']"

definition SIGNATURE_OPAQUE_KEYS :: "string list" where
  "SIGNATURE_OPAQUE_KEYS = [''statusBeforeProjectArchive'', ''completedAtBeforeProjectArchive'',
     ''isFocusedTodayBeforeProjectArchive'', ''deletedAtBeforeProjectArchive'',
     ''projectArchivedAt'']"

definition normalizeOptionalArrayForComparison :: "json list \<Rightarrow> json" where
  "normalizeOptionalArrayForComparison xs = (if xs = [] then JUndef else JArr xs)"

definition canonicalizeStringMapForComparison :: "json \<Rightarrow> (string \<times> string) list option" where
  "canonicalizeStringMapForComparison value =
     (case value of
        JObj kvs \<Rightarrow>
          (let entries = sort_key fst (concat (map (\<lambda>(k, v).
                 case v of JStr s \<Rightarrow> if s \<noteq> [] then [(k, s)] else [] | _ \<Rightarrow> []) kvs))
           in if entries = [] then None else Some entries)
      | _ \<Rightarrow> None)"

definition normalizeAttachmentForContentComparison :: "attachment \<Rightarrow> json" where
  "normalizeAttachmentForContentComparison a =
     (if at_kind a = LinkKind
      then JObj [(''id'', JStr (eid a)), (''kind'', JStr (attachment_kind_str (at_kind a))),
             (''title'', JStr (at_title a)), (''uri'', JStr (at_uri a)),
             (''deletedAt'', j_str (deletedAt a))]
      else JObj [(''id'', JStr (eid a)), (''kind'', JStr (attachment_kind_str (at_kind a))),
             (''title'', JStr (at_title a)), (''deletedAt'', j_str (deletedAt a))])"

definition normalizeAttachmentsForContentComparison :: "host \<Rightarrow> attachment list option \<Rightarrow> json" where
  "normalizeAttachmentsForContentComparison h attachments =
     (case attachments of None \<Rightarrow> JUndef
      | Some xs \<Rightarrow> if xs = [] then JUndef
          else JArr (map normalizeAttachmentForContentComparison
                 (js_sort (\<lambda>l r. localeCompare h (eid l) (eid r)) xs)))"

text \<open>\<open>x ? true : undefined\<close> and \<open>n ? n : undefined\<close>.\<close>

definition true_or_undef :: "bool option \<Rightarrow> json" where
  "true_or_undef b = (if b = Some True then JBool True else JUndef)"

definition nonzero_or_undef :: "int option \<Rightarrow> json" where
  "nonzero_or_undef n = (if n = Some 0 then JUndef else j_num n)"

definition canonical_view_sections :: "(string \<times> string) list option \<Rightarrow> json" where
  "canonical_view_sections v =
     j_opt str_map_json (canonicalizeStringMapForComparison (j_opt str_map_json v))"

definition normalizeTaskForContentComparison :: "host \<Rightarrow> task \<Rightarrow> json" where
  "normalizeTaskForContentComparison h t = JObj
     [(''id'', JStr (eid t)), (''title'', JStr (t_title t)),
      (''status'', if t_status t = Inbox then JUndef else JStr (task_status_str (t_status t))),
      (''priority'', j_str (t_priority t)), (''energyLevel'', j_str (t_energyLevel t)),
      (''assignedTo'', j_str (t_assignedTo t)), (''taskMode'', j_str (t_taskMode t)),
      (''startTime'', j_str (t_startTime t)),
      (''relativeStartOffset'', j_opt relative_start_offset_json (t_relativeStartOffset t)),
      (''dueDate'', j_str (t_dueDate t)),
      (''recurrence'', j_opt task_recurrence_json (t_recurrence t)),
      (''tags'', normalizeOptionalArrayForComparison (map JStr (t_tags t))),
      (''contexts'', normalizeOptionalArrayForComparison (map JStr (t_contexts t))),
      (''checklist'', normalizeOptionalArrayForComparison
         (map checklist_item_json (or_else (t_checklist t) []))),
      (''description'', j_str (t_description t)), (''textDirection'', j_str (t_textDirection t)),
      (''attachments'', if is_deleted t then JUndef
         else normalizeAttachmentsForContentComparison h (t_attachments t)),
      (''location'', j_str (t_location t)), (''projectId'', j_str (t_projectId t)),
      (''sectionId'', j_str (t_sectionId t)),
      (''viewSectionIds'', canonical_view_sections (t_viewSectionIds t)),
      (''areaId'', j_str (t_areaId t)), (''isFocusedToday'', true_or_undef (t_isFocusedToday t)),
      (''timeEstimate'', j_str (t_timeEstimate t)),
      (''timeSpentMinutes'', nonzero_or_undef (t_timeSpentMinutes t)),
      (''showFutureRecurrence'', if t_recurrence t = None then JUndef
         else true_or_undef (t_showFutureRecurrence t)),
      (''suppressMindwtrReminders'', true_or_undef (t_suppressMindwtrReminders t)),
      (''pushCount'', nonzero_or_undef (t_pushCount t)),
      (''repeatReminderMinutes'', nonzero_or_undef (t_repeatReminderMinutes t)),
      (''reviewAt'', j_str (t_reviewAt t)), (''completedAt'', j_str (t_completedAt t)),
      (''cancelledAt'', j_str (t_cancelledAt t)), (''archivedAt'', j_str (t_archivedAt t)),
      (''deletedAt'', j_str (deletedAt t))]"

definition normalizeProjectSequentialScope :: "string option \<Rightarrow> string option" where
  "normalizeProjectSequentialScope v =
     (if v = Some ''section'' \<or> v = Some ''project'' then v else None)"

definition TASK_SORT_BY_VALUES :: "string list" where
  "TASK_SORT_BY_VALUES = [''default'', ''due'', ''start'', ''review'', ''title'', ''timeEstimate'',
     ''created'', ''created-desc'', ''completed'']"

definition normalizeProjectTaskSortBy :: "string option \<Rightarrow> string option" where
  "normalizeProjectTaskSortBy v =
     (case v of None \<Rightarrow> None
      | Some s \<Rightarrow> if s \<in> set TASK_SORT_BY_VALUES \<and> s \<noteq> ''default'' then Some s else None)"

text \<open>\<open>{...o, k1: v1, ...}\<close> and \<open>delete o.k\<close>.\<close>

definition obj_spread :: "(string \<times> json) list \<Rightarrow> (string \<times> json) list \<Rightarrow> (string \<times> json) list" where
  "obj_spread o1 upd = foldl (\<lambda>acc (k, v). obj_set k v acc) o1 upd"

definition obj_delete :: "string \<Rightarrow> (string \<times> json) list \<Rightarrow> (string \<times> json) list" where
  "obj_delete k o1 = filter (\<lambda>kv. fst kv \<noteq> k) o1"

definition normalizeProjectForContentComparison :: "host \<Rightarrow> project \<Rightarrow> json" where
  "normalizeProjectForContentComparison h p =
     (let c = obj_spread (project_fields p)
            [(''tagIds'', normalizeOptionalArrayForComparison (map JStr (p_tagIds p))),
             (''attachments'', if is_deleted p then JUndef
                else normalizeAttachmentsForContentComparison h (p_attachments p)),
             (''isSequential'', true_or_undef (p_isSequential p)),
             (''sequentialScope'',
                if p_isSequential p = Some True
                   \<and> normalizeProjectSequentialScope (p_sequentialScope p) = Some ''section''
                then JStr ''section'' else JUndef),
             (''taskSortBy'', j_str (normalizeProjectTaskSortBy (p_taskSortBy p))),
             (''isFocused'', true_or_undef (p_isFocused p)),
             (''viewSectionIds'', canonical_view_sections (p_viewSectionIds p))];
          c = (if p_status p = PActive then obj_delete ''status'' c else c);
          c = (if p_color p = ''#6B7280'' then obj_delete ''color'' c else c)
      in JObj c)"

definition normalizeSectionForContentComparison :: "section1 \<Rightarrow> json" where
  "normalizeSectionForContentComparison s =
     JObj (obj_spread (section_fields s) [(''isCollapsed'', true_or_undef (s_isCollapsed s))])"

definition normalizeAreaForContentComparison :: "area \<Rightarrow> json" where
  "normalizeAreaForContentComparison a =
     JObj (obj_spread (area_fields a)
       [(''color'', if a_color a = Some ''#6B7280'' then JUndef else j_str (a_color a)),
        (''order'', JUndef)])"

text \<open>\<open>v?.trim() || undefined\<close>.\<close>

definition trim_or_undef :: "string option \<Rightarrow> json" where
  "trim_or_undef v = (case v of None \<Rightarrow> JUndef
     | Some s \<Rightarrow> if js_trim s = [] then JUndef else JStr (js_trim s))"

definition normalizePersonForContentComparison :: "person \<Rightarrow> json" where
  "normalizePersonForContentComparison p =
     JObj (obj_spread (person_fields p)
       [(''note'', trim_or_undef (pe_note p)),
        (''referenceLink'', trim_or_undef (pe_referenceLink p))])"

subsection \<open>Canonical values\<close>

definition kept_key :: "bool \<Rightarrow> (string \<times> json) list \<Rightarrow> string \<Rightarrow> bool" where
  "kept_key includeIgnoredKeys record1 key =
     (\<not> is_nullish (obj_get key record1) \<and> key \<notin> set SIGNATURE_OPAQUE_KEYS
      \<and> (includeIgnoredKeys \<or> key \<notin> set CONTENT_DIFF_IGNORED_KEYS)
      \<and> (includeIgnoredKeys \<or> key \<noteq> ''uri'' \<or> obj_get ''kind'' record1 \<noteq> JStr ''file''))"

text \<open>
  The code sorts the kept names and then visits their values; the values are visited first
  here and the pairs sorted by name, which builds the same object.
\<close>

fun toComparableValue :: "bool \<Rightarrow> json \<Rightarrow> json" where
  "toComparableValue inc (JArr vs) =
     (let ys = filter (\<lambda>v. \<not> is_nullish v) (map (toComparableValue inc) vs)
      in if ys = [] then JUndef else JArr ys)"
| "toComparableValue inc (JObj kvs) =
     (let ys = sort_key fst (filter (\<lambda>(k, v). kept_key inc kvs k \<and> \<not> is_nullish v)
                 (map (\<lambda>(k, v). (k, toComparableValue inc v)) kvs))
      in if ys = [] then JUndef else JObj ys)"
| "toComparableValue inc (JStr s) = (let t = js_trim s in if t = [] then JUndef else JStr t)"
| "toComparableValue inc JUndef = JUndef"
| "toComparableValue inc JNull = JNull"
| "toComparableValue inc (JBool b) = JBool b"
| "toComparableValue inc (JNum n) = JNum n"
| "toComparableValue inc (JNonInt t) = JNonInt t"

definition computeSignature :: "bool \<Rightarrow> json \<Rightarrow> string option" where
  "computeSignature inc v = stringify (toComparableValue inc v)"

definition toComparableSignature :: "json \<Rightarrow> string option" where
  "toComparableSignature v = computeSignature False v"

definition toDeterministicSignature :: "json \<Rightarrow> string option" where
  "toDeterministicSignature v = computeSignature True v"

text \<open>
  The signature caches: \<open>memoizedSignature\<close> keyed by object identity. \<open>Inl ()\<close> is the
  error a diverging hit throws when hits are validated; a value that is not an object has no
  identity and is computed.
\<close>

definition memoizedSignature ::
  "bool \<Rightarrow> ('r \<rightharpoonup> string option) \<Rightarrow> 'r option \<Rightarrow> string option
   \<Rightarrow> (unit + string option) \<times> ('r \<rightharpoonup> string option)" where
  "memoizedSignature validateCacheHits cache ref computed =
     (case ref of None \<Rightarrow> (Inr computed, cache)
      | Some r \<Rightarrow>
          (case cache r of
             Some (Some cached) \<Rightarrow>
               if validateCacheHits \<and> computed \<noteq> Some cached then (Inl (), cache)
               else (Inr (Some cached), cache)
           | _ \<Rightarrow> (Inr computed, cache(r \<mapsto> computed))))"

definition cache_coherent :: "('r \<Rightarrow> json) \<Rightarrow> (json \<Rightarrow> string option) \<Rightarrow> ('r \<rightharpoonup> string option) \<Rightarrow> bool" where
  "cache_coherent heap sig cache = (\<forall>r s. cache r = Some s \<longrightarrow> s = sig (heap r))"

lemma memo_coherent:
  assumes "cache_coherent heap sig cache"
  shows "\<exists>cache'. memoizedSignature v cache (Some r) (sig (heap r)) = (Inr (sig (heap r)), cache')
     \<and> cache_coherent heap sig cache'"
proof (cases "cache r")
  case None
  with assms show ?thesis
    by (auto simp: memoizedSignature_def cache_coherent_def)
next
  case (Some s)
  with assms have hit: "cache r = Some (sig (heap r))" by (simp add: cache_coherent_def)
  then have "cache(r \<mapsto> sig (heap r)) = cache" by auto
  then have "memoizedSignature v cache (Some r) (sig (heap r)) = (Inr (sig (heap r)), cache)"
    using hit by (cases "sig (heap r)") (simp_all add: memoizedSignature_def)
  with assms show ?thesis by simp
qed

subsection \<open>The deterministic winner\<close>

text \<open>Which of the two arguments is returned; the callers compare the result by identity.\<close>

datatype side = LocalSide | IncomingSide

definition deterministic_side :: "('a \<Rightarrow> json) \<Rightarrow> 'a \<Rightarrow> 'a \<Rightarrow> side" where
  "deterministic_side view localItem incomingItem =
     (let localSignature = toComparableSignature (view localItem);
          incomingSignature = toComparableSignature (view incomingItem)
      in if localSignature = incomingSignature then
           (let localFull = toDeterministicSignature (view localItem);
                incomingFull = toDeterministicSignature (view incomingItem)
            in if localFull = incomingFull then IncomingSide
               else if js_gt incomingFull localFull then IncomingSide else LocalSide)
         else if js_gt incomingSignature localSignature then IncomingSide else LocalSide)"

definition pick_side :: "side \<Rightarrow> 'a \<Rightarrow> 'a \<Rightarrow> 'a" where
  "pick_side s l i = (case s of LocalSide \<Rightarrow> l | IncomingSide \<Rightarrow> i)"

lemma pick_side_simps [simp]: "pick_side LocalSide l i = l" "pick_side IncomingSide l i = i"
  by (simp_all add: pick_side_def)

lemma pick_side_cases: "pick_side s l i = l \<or> pick_side s l i = i"
  by (cases s) simp_all

definition chooseDeterministicWinner :: "('a \<Rightarrow> json) \<Rightarrow> 'a \<Rightarrow> 'a \<Rightarrow> 'a" where
  "chooseDeterministicWinner view localItem incomingItem =
     pick_side (deterministic_side view localItem incomingItem) localItem incomingItem"

text \<open>An object with a printable \<open>id\<close> has both signatures.\<close>

definition signed :: "json \<Rightarrow> bool" where
  "signed v = (toComparableSignature v \<noteq> None \<and> toDeterministicSignature v \<noteq> None)"

lemma comparable_id_kept:
  assumes "map_of kvs ''id'' = Some (JStr s)" and "nonblank s"
  shows "toComparableValue inc (JObj kvs) \<noteq> JUndef"
proof -
  have mem: "(''id'', JStr s) \<in> set kvs" using assms(1) by (rule map_of_SomeD)
  have "kept_key inc kvs ''id''"
    using assms(1) by (simp add: kept_key_def obj_get_def SIGNATURE_OPAQUE_KEYS_def CONTENT_DIFF_IGNORED_KEYS_def)
  moreover have "\<not> is_nullish (toComparableValue inc (JStr s))"
    using assms(2) by (simp add: nonblank_def)
  ultimately have "(''id'', toComparableValue inc (JStr s))
      \<in> set (filter (\<lambda>(k, v). kept_key inc kvs k \<and> \<not> is_nullish v)
                 (map (\<lambda>(k, v). (k, toComparableValue inc v)) kvs))"
    using mem by force
  then have "filter (\<lambda>(k, v). kept_key inc kvs k \<and> \<not> is_nullish v)
                 (map (\<lambda>(k, v). (k, toComparableValue inc v)) kvs) \<noteq> []"
    by (metis list.set_intros(1) empty_iff empty_set)
  then have "sort_key fst (filter (\<lambda>(k, v). kept_key inc kvs k \<and> \<not> is_nullish v)
                 (map (\<lambda>(k, v). (k, toComparableValue inc v)) kvs)) \<noteq> []"
    by (metis set_sort set_empty)
  then show ?thesis by (simp add: Let_def del: map_map)
qed

lemma signed_id:
  "map_of kvs ''id'' = Some (JStr s) \<Longrightarrow> nonblank s \<Longrightarrow> signed (JObj kvs)"
  using comparable_id_kept
  unfolding signed_def toComparableSignature_def toDeterministicSignature_def computeSignature_def
  by (metis stringify_None)

definition signature_key :: "json \<Rightarrow> string \<times> string" where
  "signature_key v = (or_else (toComparableSignature v) [], or_else (toDeterministicSignature v) [])"

lemma choose_cases: "chooseDeterministicWinner view a b = a \<or> chooseDeterministicWinner view a b = b"
  by (simp add: chooseDeterministicWinner_def pick_side_cases)

lemma choose_max:
  assumes "signed (view a)" and "signed (view b)"
  shows "signature_key (view (chooseDeterministicWinner view a b)) =
         max (signature_key (view a)) (signature_key (view b))"
proof -
  obtain sa fa where a: "toComparableSignature (view a) = Some sa" "toDeterministicSignature (view a) = Some fa"
    using assms(1) by (auto simp: signed_def)
  obtain sb fb where b: "toComparableSignature (view b) = Some sb" "toDeterministicSignature (view b) = Some fb"
    using assms(2) by (auto simp: signed_def)
  show ?thesis
    by (auto simp: chooseDeterministicWinner_def deterministic_side_def Let_def signature_key_def a b max_def less_eq_prod_def)
qed

text \<open>
  The interface a conflict resolver offers: it returns one of its arguments, and the one of
  the greater key. Then any number of replicas combined in any order agree on the key.
\<close>

locale max_resolver =
  fixes pick :: "'a \<Rightarrow> 'a \<Rightarrow> 'a"
    and good :: "'a \<Rightarrow> bool"
    and key :: "'a \<Rightarrow> 'k::linorder"
  assumes choose_mem: "pick a b = a \<or> pick a b = b"
    and choose_key: "good a \<Longrightarrow> good b \<Longrightarrow> key (pick a b) = max (key a) (key b)"
begin

lemma good_choose: "good a \<Longrightarrow> good b \<Longrightarrow> good (pick a b)"
  using choose_mem[of a b] by auto

lemma key_commute: "good a \<Longrightarrow> good b \<Longrightarrow> key (pick a b) = key (pick b a)"
  by (simp add: choose_key max.commute)

lemma fold_key:
  "good a \<Longrightarrow> (\<forall>x\<in>set xs. good x) \<Longrightarrow>
   good (foldl pick a xs) \<and> key (foldl pick a xs) = Max (insert (key a) (key ` set xs))"
proof (induction xs arbitrary: a)
  case Nil
  then show ?case by simp
next
  case (Cons x xs)
  then have "key (foldl pick (pick a x) xs) = Max (insert (key (pick a x)) (key ` set xs))"
    using good_choose[of a x] by simp
  also have "\<dots> = max (max (key a) (key x)) (Max (insert (key a) (key ` set xs)))"
    using Cons.prems by (cases "xs = []") (simp_all add: choose_key max.assoc max.left_commute max.commute)
  also have "\<dots> = Max (insert (key a) (key ` set (x # xs)))"
    by (cases "xs = []") (simp_all add: max.assoc max.left_commute max.commute)
  finally show ?case using Cons good_choose[of a x] by simp
qed

lemma fold_perm:
  "(\<forall>x\<in>set (a # xs). good x) \<Longrightarrow> mset (a # xs) = mset (b # ys) \<Longrightarrow>
   key (foldl pick a xs) = key (foldl pick b ys)"
proof -
  assume g: "\<forall>x\<in>set (a # xs). good x" and m: "mset (a # xs) = mset (b # ys)"
  from m have s: "set (a # xs) = set (b # ys)" by (rule mset_eq_setD)
  with g have "\<forall>x\<in>set (b # ys). good x" by metis
  with g have "key (foldl pick a xs) = Max (key ` set (a # xs))"
    and "key (foldl pick b ys) = Max (key ` set (b # ys))"
    by (simp_all add: fold_key)
  with s show ?thesis by simp
qed

end

interpretation dw: max_resolver "chooseDeterministicWinner view" "\<lambda>x. signed (view x)"
    "\<lambda>x. signature_key (view x)" for view :: "'a \<Rightarrow> json"
  by unfold_locales (auto simp: choose_cases choose_max)

text \<open>
  C15: replicas of one entity that tie in every other respect are resolved to the same content
  however many there are and in whatever order they are merged.
\<close>

theorem deterministic_winner_order_free:
  assumes "\<forall>x\<in>set (a # xs). signed (view x)" and "mset (a # xs) = mset (b # ys)"
  shows "signature_key (view (foldl (chooseDeterministicWinner view) a xs)) =
         signature_key (view (foldl (chooseDeterministicWinner view) b ys))"
  using assms by (rule dw.fold_perm)

definition sample_person :: "string \<Rightarrow> string \<Rightarrow> person" where
  "sample_person i n = \<lparr>eid = i, createdAt = ''2024-01-01T00:00:00.000Z'',
     updatedAt = ''2024-01-01T00:00:00.000Z'', deletedAt = None, rev = None, revBy = None,
     pe_name = n, pe_note = None, pe_referenceLink = None\<rparr>"

lemma person_signed: "nonblank (eid p) \<Longrightarrow> signed (person_json p)"
  by (simp add: person_json_def person_fields_def mergeable_json_def signed_id)

lemma sample_person_signed: "signed (person_json (sample_person ''p1'' n))"
  by (rule person_signed) (simp add: sample_person_def, code_simp)

theorem deterministic_winner_order_free_witness:
  "signature_key (person_json (foldl (chooseDeterministicWinner person_json)
       (sample_person ''p1'' ''Ann'') [sample_person ''p1'' ''Bob'', sample_person ''p1'' ''Cy''])) =
   signature_key (person_json (foldl (chooseDeterministicWinner person_json)
       (sample_person ''p1'' ''Cy'') [sample_person ''p1'' ''Ann'', sample_person ''p1'' ''Bob'']))"
  by (rule deterministic_winner_order_free) (simp_all add: sample_person_signed)

end
