(* ===== verification/DiffKeys.thy ===== *)
theory DiffKeys
  imports Signatures
begin

text \<open>
  The diagnostic part of \<open>sync-signatures.ts\<close>: the FNV hash of a signature and the list of
  differing paths of two comparable values, with the proof that on canonical values the
  list is empty exactly when the values are equal.
\<close>

subsection \<open>The hash\<close>

unbundle bit_operations_syntax

definition hash_step :: "32 word \<Rightarrow> char \<Rightarrow> 32 word" where
  "hash_step hash c = (hash XOR of_nat (of_char c)) * 0x01000193"

fun hex_digits :: "nat \<Rightarrow> nat \<Rightarrow> string" where
  "hex_digits 0 n = []"
| "hex_digits (Suc k) n = hex_digits k (n div 16) @ [hex_char (n mod 16)]"

text \<open>\<open>(hash >>> 0).toString(16).padStart(8, '0')\<close>: a 32-bit value has at most eight digits.\<close>

definition hashComparableSignature :: "string \<Rightarrow> string" where
  "hashComparableSignature signature =
     hex_digits 8 (unat (foldl hash_step 0x811c9dc5 signature))"

lemma length_hex_digits [simp]: "length (hex_digits k n) = k"
  by (induction k arbitrary: n) simp_all

subsection \<open>Differing paths\<close>

definition at_path :: "string \<Rightarrow> string" where
  "at_path path = (if path = [] then ''(root)'' else path)"

definition child_path :: "string \<Rightarrow> string \<Rightarrow> string" where
  "child_path path key = (if path = [] then key else path @ ''.'' @ key)"

lemma size_map_of: "map_of kvs k = Some v \<Longrightarrow> size v < size (JObj kvs)"
proof -
  assume "map_of kvs k = Some v"
  then have "(k, v) \<in> set kvs" by (rule map_of_SomeD)
  then have "size_prod (\<lambda>_. 0) size (k, v) \<le> size_list (size_prod (\<lambda>_. 0) size) kvs"
    by (rule size_list_estimation') simp
  then show ?thesis by simp
qed

text \<open>
  \<open>visit\<close> appends to a shared array and stops at the limit; the array is the last argument.
  \<open>Object.is\<close> on two objects is identity, and visiting equal objects appends nothing, so
  equality of values is tested instead.
\<close>

function (sequential)
  diff_visit :: "nat \<Rightarrow> json \<Rightarrow> json \<Rightarrow> string \<Rightarrow> string list \<Rightarrow> string list" and
  diff_elems :: "nat \<Rightarrow> json list \<Rightarrow> json list \<Rightarrow> string \<Rightarrow> nat \<Rightarrow> string list \<Rightarrow> string list" and
  diff_keys :: "nat \<Rightarrow> (string \<times> json) list \<Rightarrow> (string \<times> json) list \<Rightarrow> string list \<Rightarrow> string
    \<Rightarrow> string list \<Rightarrow> string list"
where
  "diff_visit limit left right path acc =
     (if limit \<le> length acc then acc
      else if left = right then acc
      else (case (left, right) of
          (JArr xs, JArr ys) \<Rightarrow>
            if length xs \<noteq> length ys then acc @ [at_path path]
            else diff_elems limit xs ys path 0 acc
        | (JObj xs, JObj ys) \<Rightarrow>
            diff_keys limit xs ys (sort (remdups (map fst xs @ map fst ys))) path acc
        | _ \<Rightarrow> acc @ [at_path path]))"
| "diff_elems limit (x # xs) (y # ys) path i acc =
     (let acc' = diff_visit limit x y (path @ ''['' @ show_nat i @ '']'') acc
      in if limit \<le> length acc' then acc' else diff_elems limit xs ys path (Suc i) acc')"
| "diff_elems limit _ _ path i acc = acc"
| "diff_keys limit xs ys [] path acc = acc"
| "diff_keys limit xs ys (k # ks) path acc =
     (case map_of xs k of
        None \<Rightarrow> (let acc' = acc @ [child_path path k]
                 in if limit \<le> length acc' then acc' else diff_keys limit xs ys ks path acc')
      | Some u \<Rightarrow>
          (case map_of ys k of
             None \<Rightarrow> (let acc' = acc @ [child_path path k]
                 in if limit \<le> length acc' then acc' else diff_keys limit xs ys ks path acc')
           | Some v \<Rightarrow> (let acc' = diff_visit limit u v (child_path path k) acc
                 in if limit \<le> length acc' then acc' else diff_keys limit xs ys ks path acc')))"
  by pat_completeness auto

termination
  by (relation "inv_image (less_than <*lex*> less_than) (\<lambda>x. case x of
        Inl (_, left, _) \<Rightarrow> (Suc (2 * size left), 0)
      | Inr (Inl (_, xs, _)) \<Rightarrow> (2 * size (JArr xs), 0)
      | Inr (Inr (_, xs, _, ks, _)) \<Rightarrow> (2 * size (JObj xs), length ks))")
     (auto dest: size_map_of)

definition collectComparableDiffKeys :: "json \<Rightarrow> json \<Rightarrow> nat \<Rightarrow> string list" where
  "collectComparableDiffKeys localValue incomingValue limit =
     diff_visit limit localValue incomingValue [] []"

declare diff_visit.simps [simp del]

subsection \<open>Canonical values\<close>

text \<open>Objects with strictly ascending names, at every depth.\<close>

fun canonical :: "json \<Rightarrow> bool" where
  "canonical (JArr vs) = (\<forall>v\<in>set vs. canonical v)"
| "canonical (JObj kvs) = (sorted_wrt (<) (map fst kvs) \<and> (\<forall>kv\<in>set kvs. canonical (snd kv)))"
| "canonical _ = True"

fun distinct_names :: "json \<Rightarrow> bool" where
  "distinct_names (JArr vs) = (\<forall>v\<in>set vs. distinct_names v)"
| "distinct_names (JObj kvs) = (distinct (map fst kvs) \<and> (\<forall>kv\<in>set kvs. distinct_names (snd kv)))"
| "distinct_names _ = True"

lemma canonical_if: "canonical (JObj ys) \<Longrightarrow> canonical (if ys = [] then JUndef else JObj ys)"
  by simp

lemma toComparableValue_canonical:
  "distinct_names v \<Longrightarrow> canonical (toComparableValue inc v)"
proof (induction inc v rule: toComparableValue.induct)
  case (1 inc vs)
  then show ?case by (auto simp: Let_def)
next
  case (2 inc kvs)
  let ?m = "map (\<lambda>(k, v). (k, toComparableValue inc v)) kvs"
  let ?P = "\<lambda>(k, v). kept_key inc kvs k \<and> \<not> is_nullish v"
  let ?ys = "sort_key fst (filter ?P ?m)"
  have fm: "map fst ?m = map fst kvs" by (simp add: case_prod_beta comp_def)
  have "distinct (map fst ?m)" unfolding fm using 2 by simp
  then have "distinct (map fst (filter ?P ?m))" by (simp only: distinct_map_filter)
  then have "inj_on fst (set (filter ?P ?m))" and "distinct (filter ?P ?m)"
    by (simp_all only: distinct_map)
  then have "distinct (map fst ?ys)" by (simp only: distinct_map set_sort distinct_sort)
  moreover have "sorted (map fst ?ys)" by (rule sorted_sort_key)
  moreover have "\<forall>kv\<in>set ?ys. canonical (snd kv)" using 2 by force
  ultimately have "canonical (JObj ?ys)" by (simp only: canonical.simps strict_sorted_iff simp_thms)
  then show ?case unfolding toComparableValue.simps Let_def by (rule canonical_if)
qed (simp_all add: Let_def)

lemma sorted_fields_eq:
  assumes "sorted_wrt (<) (map fst xs)" and "sorted_wrt (<) (map fst (ys :: (string \<times> json) list))"
    and "\<forall>k\<in>set (map fst xs @ map fst ys). map_of xs k = map_of ys k"
  shows "xs = ys"
proof -
  have d: "distinct (map fst xs)" "distinct (map fst ys)" "sorted (map fst xs)" "sorted (map fst ys)"
    using assms(1,2) by (simp_all only: strict_sorted_iff)
  have "map_of xs k = map_of ys k" for k
    using assms(3) by (cases "k \<in> set (map fst xs @ map fst ys)") (force, simp add: map_of_eq_None_iff[THEN iffD2])
  then have "map_of xs = map_of ys" by (rule ext)
  then have set: "set xs = set ys" using d(1,2) by (simp only: map_of_inject_set)
  have "inj_on fst (set xs \<union> set ys)" using d(1) set by (simp add: distinct_map)
  then show ?thesis using d set by (intro map_sorted_distinct_set_unique)
qed

subsection \<open>The diff is sound and complete\<close>

lemma diff_extends:
  "\<exists>zs. diff_visit n l r p acc = acc @ zs"
  "\<exists>zs. diff_elems n xs ys p i acc = acc @ zs"
  "\<exists>zs. diff_keys n fs gs ks p acc = acc @ zs"
proof (induction n l r p acc and n xs ys p i acc and n fs gs ks p acc
    rule: diff_visit_diff_elems_diff_keys.induct)
  case (1 limit left right path acc)
  then show ?case by (subst diff_visit.simps) (auto split: json.splits)
next
  case (2 limit x xs y ys path i acc)
  then show ?case by (force simp: Let_def)
next
  case (5 limit xs ys k ks path acc)
  then show ?case by (force simp: Let_def split: option.splits)
qed auto

lemma diff_bounded:
  "length acc \<le> n \<Longrightarrow> length (diff_visit n l r p acc) \<le> n"
  "length acc \<le> n \<Longrightarrow> length (diff_elems n xs ys p i acc) \<le> n"
  "length acc < n \<Longrightarrow> length (diff_keys n fs gs ks p acc) \<le> n"
proof (induction n l r p acc and n xs ys p i acc and n fs gs ks p acc
    rule: diff_visit_diff_elems_diff_keys.induct)
  case (1 limit left right path acc)
  then show ?case by (subst diff_visit.simps) (auto split: json.splits)
next
  case (2 limit x xs y ys path i acc)
  then show ?case by (auto simp: Let_def)
next
  case (5 limit xs ys k ks path acc)
  then show ?case by (auto simp: Let_def split: option.splits)
qed auto

lemma visit_same [simp]: "diff_visit n v v p acc = acc"
  by (simp add: diff_visit.simps)

lemma visit_shape:
  assumes "length acc < n" and "l \<noteq> r"
  shows "diff_visit n l r p acc =
     (case (l, r) of
        (JArr xs, JArr ys) \<Rightarrow> if length xs \<noteq> length ys then acc @ [at_path p]
          else diff_elems n xs ys p 0 acc
      | (JObj xs, JObj ys) \<Rightarrow>
          diff_keys n xs ys (sort (remdups (map fst xs @ map fst ys))) p acc
      | _ \<Rightarrow> acc @ [at_path p])"
  using assms by (subst diff_visit.simps) simp

lemma extend_absorb:
  assumes "\<exists>zs. g a = a @ (zs :: 'a list)" and "\<exists>zs. a = acc @ zs" and "g a = acc"
  shows "a = acc"
  using assms by auto

lemma diff_complete:
  "length acc < n \<Longrightarrow> canonical l \<Longrightarrow> canonical r \<Longrightarrow>
     diff_visit n l r p acc = acc \<Longrightarrow> l = r"
  "length acc < n \<Longrightarrow> \<forall>v\<in>set xs. canonical v \<Longrightarrow> \<forall>v\<in>set ys. canonical v \<Longrightarrow>
     length xs = length ys \<Longrightarrow> diff_elems n xs ys p i acc = acc \<Longrightarrow> xs = ys"
  "length acc < n \<Longrightarrow> \<forall>kv\<in>set fs. canonical (snd kv) \<Longrightarrow> \<forall>kv\<in>set gs. canonical (snd kv) \<Longrightarrow>
     diff_keys n fs gs ks p acc = acc \<Longrightarrow> \<forall>k\<in>set ks. map_of fs k = map_of gs k"
proof (induction n l r p acc and n xs ys p i acc and n fs gs ks p acc
    rule: diff_visit_diff_elems_diff_keys.induct)
  case (1 n l r p acc)
  show ?case
  proof (rule ccontr)
    assume ne: "l \<noteq> r"
    note shape = visit_shape[OF 1(3) ne, of p]
    show False
    proof (cases "(\<exists>xs ys. l = JArr xs \<and> r = JArr ys) \<or> (\<exists>xs ys. l = JObj xs \<and> r = JObj ys)")
      case False
      with shape 1(6) show False by (auto split: json.splits)
    next
      case True
      then consider xs ys where "l = JArr xs" "r = JArr ys" | xs ys where "l = JObj xs" "r = JObj ys"
        by blast
      then show False
      proof cases
        case 1: 1
        with shape "1.prems" have "length xs = length ys" "diff_elems n xs ys p 0 acc = acc"
          by (auto split: if_splits)
        with 1 "1.IH"(1)[OF _ ne refl] "1.prems" ne show False by simp
      next
        case 2
        let ?ks = "sort (remdups (map fst xs @ map fst ys))"
        from 2 shape "1.prems" have "diff_keys n xs ys ?ks p acc = acc" by simp
        with 2 "1.IH"(2)[OF _ ne refl] "1.prems" have "\<forall>k\<in>set ?ks. map_of xs k = map_of ys k" by simp
        with 2 "1.prems" have "xs = ys" by (intro sorted_fields_eq) simp_all
        with 2 ne show False by simp
      qed
    qed
  qed
next
  case (2 n x xs y ys path i acc)
  let ?a = "diff_visit n x y (path @ ''['' @ show_nat i @ '']'') acc"
  have ext: "\<exists>zs. ?a = acc @ zs" by (rule diff_extends)
  have "?a = acc"
  proof (cases "n \<le> length ?a")
    case True with 2 show ?thesis by (simp add: Let_def)
  next
    case False
    with 2 have "diff_elems n xs ys path (Suc i) ?a = acc" by (simp add: Let_def)
    with ext show ?thesis by (rule extend_absorb[OF diff_extends(2)])
  qed
  with 2 show ?case by (simp add: Let_def)
next
  case (5 n xs ys k ks path acc)
  have push: "\<not> (n \<le> length (acc @ [q])) \<and> diff_keys n xs ys ks path (acc @ [q]) = acc \<or> acc @ [q] = acc \<Longrightarrow> False"
    for q using diff_extends(3)[of n xs ys ks path "acc @ [q]"] by auto
  show ?case
  proof (cases "map_of xs k")
    case None
    with "5.prems" push[of "child_path path k"] show ?thesis by (auto simp: Let_def split: if_splits)
  next
    case (Some u)
    show ?thesis
    proof (cases "map_of ys k")
      case None
      with Some "5.prems" push[of "child_path path k"] show ?thesis
        by (auto simp: Let_def split: if_splits)
    next
      case v: (Some v)
      let ?a = "diff_visit n u v (child_path path k) acc"
      have step: "diff_keys n xs ys (k # ks) path acc =
          (if n \<le> length ?a then ?a else diff_keys n xs ys ks path ?a)"
        using Some v by (simp add: Let_def)
      have ext: "\<exists>zs. ?a = acc @ zs" by (rule diff_extends)
      have a: "?a = acc"
      proof (cases "n \<le> length ?a")
        case True with "5.prems" step show ?thesis by simp
      next
        case False
        with "5.prems" step have "diff_keys n xs ys ks path ?a = acc" by simp
        with ext show ?thesis by (rule extend_absorb[OF diff_extends(3)])
      qed
      have cu: "canonical u" using "5.prems"(2) map_of_SomeD[OF Some] by force
      have cv: "canonical v" using "5.prems"(3) map_of_SomeD[OF v] by force
      have "u = v" by (rule "5.IH"(3)[OF Some v "5.prems"(1) cu cv a])
      moreover have "\<forall>k\<in>set ks. map_of xs k = map_of ys k"
        using "5.IH"(4)[OF Some v refl] "5.prems" a step by simp
      ultimately show ?thesis using Some v by simp
    qed
  qed
qed auto

text \<open>
  Two canonical values have an empty diagnostic diff exactly when they are equal, so a
  conflict is never reported without a differing field; the list never exceeds its limit.
\<close>

theorem collectComparableDiffKeys_iff:
  assumes "distinct_names v" and "distinct_names w" and "0 < limit"
  shows "collectComparableDiffKeys (toComparableValue inc v) (toComparableValue inc w) limit = []
           \<longleftrightarrow> toComparableValue inc v = toComparableValue inc w"
  using assms diff_complete(1)[of "[]" limit "toComparableValue inc v" "toComparableValue inc w" "[]"]
  by (auto simp: collectComparableDiffKeys_def toComparableValue_canonical)

theorem collectComparableDiffKeys_iff_witness:
  "collectComparableDiffKeys (toComparableValue False (person_json (sample_person ''p1'' ''Ann'')))
      (toComparableValue False (person_json (sample_person ''p1'' ''Bob''))) 8 = []
   \<longleftrightarrow> toComparableValue False (person_json (sample_person ''p1'' ''Ann''))
      = toComparableValue False (person_json (sample_person ''p1'' ''Bob''))"
  by (rule collectComparableDiffKeys_iff) code_simp+

end
