(* ===== verification/MergeEngine.thy ===== *)
theory MergeEngine
  imports DiffKeys
begin

text \<open>
  \<open>sync.ts\<close>, first part: the merge of two copies of one collection
  (\<open>mergeEntitiesWithStats\<close>). Every pair of copies of an entity is compared by revision,
  operation time and content; one copy wins. The loop's counters are the record
  \<open>entity_stats\<close>, threaded through the steps; log output and its counters are left out.
  \<open>mo_view\<close> is the entity as a JavaScript object, \<open>mo_compare\<close> the argument
  \<open>normalizeForComparison\<close>, \<open>mo_conflict\<close> the argument \<open>mergeConflict\<close>
  (given the side of the winner, since the callbacks compare the winner by identity), and \<open>mo_clock\<close>
  reads and writes the archive clock of a task or a project (\<open>None\<close> for other entities).
\<close>

subsection \<open>Constants and statistics\<close>

definition CLOCK_SKEW_THRESHOLD_MS :: int where "CLOCK_SKEW_THRESHOLD_MS = 5 * 60 * 1000"

definition DELETE_VS_LIVE_AMBIGUOUS_WINDOW_MS :: int where
  "DELETE_VS_LIVE_AMBIGUOUS_WINDOW_MS = 30 * 1000"

definition CONFLICT_SAMPLE_LIMIT :: nat where "CONFLICT_SAMPLE_LIMIT = 5"
definition CONFLICT_DIFF_KEY_LIMIT :: nat where "CONFLICT_DIFF_KEY_LIMIT = 8"

datatype conflict_reason = Revision | DeleteState | Content

datatype skew_direction = LocalAhead | RemoteAhead

record conflict_sample =
  cs_id :: string
  cs_winner :: side
  cs_reasons :: "conflict_reason list"
  cs_hasRevision :: bool
  cs_timeDiffMs :: int
  cs_localUpdatedAt :: string
  cs_incomingUpdatedAt :: string
  cs_localDeletedAt :: "string option"
  cs_incomingDeletedAt :: "string option"
  cs_localRev :: int
  cs_incomingRev :: int
  cs_localRevBy :: "string option"
  cs_incomingRevBy :: "string option"
  cs_localComparableHash :: string
  cs_incomingComparableHash :: string
  cs_diffKeys :: "string list"

record entity_stats =
  es_localTotal :: nat
  es_incomingTotal :: nat
  es_mergedTotal :: nat
  es_localOnly :: nat
  es_incomingOnly :: nat
  es_conflicts :: nat
  es_resolvedUsingLocal :: nat
  es_resolvedUsingIncoming :: nat
  es_deletionsWon :: nat
  es_conflictIds :: "string list"
  es_maxClockSkewMs :: int
  es_maxClockSkewDirection :: "skew_direction option"
  es_invalidTimestamps :: nat
  es_timestampAdjustments :: nat
  es_timestampAdjustmentIds :: "string list"
  es_futureTimestampClamps :: nat
  es_futureTimestampClampIds :: "string list"
  es_conflictReasonCounts :: "conflict_reason \<Rightarrow> nat"
  es_conflictSamples :: "conflict_sample list"

definition createEmptyEntityStats :: "nat \<Rightarrow> nat \<Rightarrow> entity_stats" where
  "createEmptyEntityStats localTotal incomingTotal =
     \<lparr>es_localTotal = localTotal, es_incomingTotal = incomingTotal, es_mergedTotal = 0,
      es_localOnly = 0, es_incomingOnly = 0, es_conflicts = 0, es_resolvedUsingLocal = 0,
      es_resolvedUsingIncoming = 0, es_deletionsWon = 0, es_conflictIds = [],
      es_maxClockSkewMs = 0, es_maxClockSkewDirection = None, es_invalidTimestamps = 0,
      es_timestampAdjustments = 0, es_timestampAdjustmentIds = [], es_futureTimestampClamps = 0,
      es_futureTimestampClampIds = [], es_conflictReasonCounts = (\<lambda>_. 0),
      es_conflictSamples = []\<rparr>"

text \<open>An append to a list of at most 20 identifiers.\<close>

definition push20 :: "string \<Rightarrow> string list \<Rightarrow> string list" where
  "push20 id1 ids = (if length ids < 20 then ids @ [id1] else ids)"

subsection \<open>Timestamps\<close>

record ts_info =
  ts_raw :: int
  ts_safe :: int
  ts_clamped :: bool

definition parseMergeTimestamp :: "string \<Rightarrow> int \<Rightarrow> ts_info" where
  "parseMergeTimestamp value maxAllowedMs =
     (case date_parse value of
        None \<Rightarrow> \<lparr>ts_raw = - 1, ts_safe = - 1, ts_clamped = False\<rparr>
      | Some parsed \<Rightarrow>
          if parsed > maxAllowedMs + CLOCK_SKEW_THRESHOLD_MS
          then \<lparr>ts_raw = parsed, ts_safe = maxAllowedMs, ts_clamped = True\<rparr>
          else \<lparr>ts_raw = parsed, ts_safe = parsed, ts_clamped = False\<rparr>)"

definition getMergeTimestampComparison :: "ts_info \<Rightarrow> ts_info \<Rightarrow> int" where
  "getMergeTimestampComparison localTime incomingTime =
     (let safeDiff = ts_safe incomingTime - ts_safe localTime
      in if safeDiff \<noteq> 0 then safeDiff
         else if ts_clamped localTime \<and> ts_clamped incomingTime
                 \<and> ts_raw incomingTime \<noteq> ts_raw localTime
           then ts_raw incomingTime - ts_raw localTime
         else 0)"

lemma timestamp_comparison_flip:
  "getMergeTimestampComparison b a = - getMergeTimestampComparison a b"
  by (auto simp: getMergeTimestampComparison_def Let_def)

definition recoverCreatedAtFromCounterpart ::
  "'a mergeable_scheme \<Rightarrow> 'a mergeable_scheme option \<Rightarrow> string option" where
  "recoverCreatedAtFromCounterpart item counterpart =
     (case counterpart of None \<Rightarrow> None
      | Some c \<Rightarrow>
          if createdAt c = [] then None
          else (case (date_parse (updatedAt item), date_parse (createdAt c)) of
              (Some u, Some cc) \<Rightarrow> if cc > u then None else Some (createdAt c)
            | _ \<Rightarrow> None))"

definition needs_adjustment :: "'a mergeable_scheme \<Rightarrow> bool" where
  "needs_adjustment item =
     (createdAt item \<noteq> [] \<and>
      (case (date_parse (createdAt item), date_parse (updatedAt item)) of
         (Some c, Some u) \<Rightarrow> u < c
       | _ \<Rightarrow> False))"

definition adjusted :: "'a mergeable_scheme \<Rightarrow> 'a mergeable_scheme option \<Rightarrow> 'a mergeable_scheme" where
  "adjusted item counterpart =
     (if needs_adjustment item
      then item\<lparr>createdAt := or_else (recoverCreatedAtFromCounterpart item counterpart) (updatedAt item)\<rparr>
      else item)"

definition normalizeTimestamps ::
  "'a mergeable_scheme \<Rightarrow> 'a mergeable_scheme option \<Rightarrow> entity_stats
   \<Rightarrow> 'a mergeable_scheme \<times> entity_stats" where
  "normalizeTimestamps item counterpart st =
     (adjusted item counterpart,
      if needs_adjustment item
      then st\<lparr>es_timestampAdjustments := es_timestampAdjustments st + 1,
              es_timestampAdjustmentIds :=
                (if eid item \<noteq> [] then push20 (eid item) (es_timestampAdjustmentIds st)
                 else es_timestampAdjustmentIds st)\<rparr>
      else st)"

lemma adjusted_done: "\<not> needs_adjustment (adjusted item c)"
proof (cases "needs_adjustment item")
  case False
  then show ?thesis by (simp add: adjusted_def)
next
  case True
  then obtain u where u: "date_parse (updatedAt item) = Some u"
    by (auto simp: needs_adjustment_def split: option.splits)
  show ?thesis
  proof (cases "recoverCreatedAtFromCounterpart item c")
    case None
    with True u show ?thesis by (simp add: adjusted_def needs_adjustment_def)
  next
    case (Some s)
    then obtain cc where "date_parse s = Some cc" "cc \<le> u"
      using u by (auto simp: recoverCreatedAtFromCounterpart_def split: option.splits if_splits)
    with True Some u show ?thesis by (auto simp: adjusted_def needs_adjustment_def)
  qed
qed

lemma adjusted_adjusted [simp]: "adjusted (adjusted item c) d = adjusted item c"
  using adjusted_done[of item c] by (simp add: adjusted_def[of "adjusted item c"])

lemma adjusted_keeps [simp]:
  "eid (adjusted m c) = eid m" "updatedAt (adjusted m c) = updatedAt m"
  "deletedAt (adjusted m c) = deletedAt m" "rev (adjusted m c) = rev m"
  "revBy (adjusted m c) = revBy m" "mergeable.more (adjusted m c) = mergeable.more m"
  by (simp_all add: adjusted_def)

subsection \<open>Comparing a pair\<close>

record 'a clock_ops =
  ck_archivedAt :: "'a \<Rightarrow> string option"
  ck_set_archivedAt :: "'a \<Rightarrow> string option \<Rightarrow> 'a"
  ck_status :: "'a \<Rightarrow> string"
  ck_purgedAt :: "'a \<Rightarrow> string option"

record 'a merge_ops =
  mo_view :: "'a \<Rightarrow> json"
  mo_compare :: "('a \<Rightarrow> json) option"
  mo_conflict :: "('a \<Rightarrow> 'a \<Rightarrow> side \<Rightarrow> 'a) option"
  mo_clock :: "'a clock_ops option"

definition comparison_view :: "'a merge_ops \<Rightarrow> 'a \<Rightarrow> json" where
  "comparison_view ops item = (case mo_compare ops of None \<Rightarrow> mo_view ops item | Some f \<Rightarrow> f item)"

definition getMergeComparableSignature :: "'a merge_ops \<Rightarrow> 'a \<Rightarrow> string option" where
  "getMergeComparableSignature ops item = computeSignature False (comparison_view ops item)"

record pair_info =
  pi_localTime :: ts_info
  pi_incomingTime :: ts_info
  pi_localRev :: int
  pi_incomingRev :: int
  pi_localRevBy :: string
  pi_incomingRevBy :: string
  pi_localDeleted :: bool
  pi_incomingDeleted :: bool
  pi_hasRevision :: bool
  pi_contentDiff :: bool
  pi_unresolvedDelete :: bool
  pi_differs :: bool

definition compare_pair ::
  "'a mergeable_scheme merge_ops \<Rightarrow> int \<Rightarrow> 'a mergeable_scheme \<Rightarrow> 'a mergeable_scheme \<Rightarrow> pair_info" where
  "compare_pair ops maxMs l i =
     (let localRev = or_else (rev l) 0; incomingRev = or_else (rev i) 0;
          localRevBy = or_else (revBy l) []; incomingRevBy = or_else (revBy i) [];
          hasRevision = (localRev > 0 \<or> incomingRev > 0 \<or> localRevBy \<noteq> [] \<or> incomingRevBy \<noteq> []);
          localDeleted = is_deleted l; incomingDeleted = is_deleted i;
          sameRev = (localRev - incomingRev = 0);
          shouldCheck = (if hasRevision then sameRev \<and> localDeleted = incomingDeleted
            else localDeleted = incomingDeleted);
          contentDiff = (shouldCheck \<and>
            getMergeComparableSignature ops l \<noteq> getMergeComparableSignature ops i);
          unresolved = (localDeleted \<noteq> incomingDeleted \<and> (\<not> hasRevision \<or> sameRev))
      in \<lparr>pi_localTime = parseMergeTimestamp (updatedAt l) maxMs,
          pi_incomingTime = parseMergeTimestamp (updatedAt i) maxMs,
          pi_localRev = localRev, pi_incomingRev = incomingRev,
          pi_localRevBy = localRevBy, pi_incomingRevBy = incomingRevBy,
          pi_localDeleted = localDeleted, pi_incomingDeleted = incomingDeleted,
          pi_hasRevision = hasRevision, pi_contentDiff = contentDiff,
          pi_unresolvedDelete = unresolved,
          pi_differs = (if hasRevision then unresolved \<or> contentDiff
            else localDeleted \<noteq> incomingDeleted \<or> contentDiff)\<rparr>)"

definition pi_revDiff :: "pair_info \<Rightarrow> int" where
  "pi_revDiff pi = pi_localRev pi - pi_incomingRev pi"

definition pi_updatedDiff :: "pair_info \<Rightarrow> int" where
  "pi_updatedDiff pi = getMergeTimestampComparison (pi_localTime pi) (pi_incomingTime pi)"

definition pi_safeTimeDiff :: "pair_info \<Rightarrow> int" where
  "pi_safeTimeDiff pi = ts_safe (pi_incomingTime pi) - ts_safe (pi_localTime pi)"

definition pi_reasons :: "pair_info \<Rightarrow> conflict_reason list" where
  "pi_reasons pi = (if pi_unresolvedDelete pi then [DeleteState] else []) @
     (if pi_contentDiff pi then [Content] else [])"

subsection \<open>The winner of a pair\<close>

text \<open>The operation time, and whether an unreadable \<open>deletedAt\<close> was counted.\<close>

definition resolveOperationTime :: "int \<Rightarrow> 'a mergeable_scheme \<Rightarrow> ts_info \<Rightarrow> int \<times> nat" where
  "resolveOperationTime maxMs item updatedTime =
     (let safeUpdatedTime = ts_safe updatedTime
      in if \<not> is_deleted item then (safeUpdatedTime, 0)
         else (case Option.bind (deletedAt item) date_parse of
             None \<Rightarrow> (safeUpdatedTime, 1)
           | Some raw \<Rightarrow>
               (let safeDeletedTime = (if raw > maxMs + CLOCK_SKEW_THRESHOLD_MS then maxMs else raw)
                in (max safeUpdatedTime safeDeletedTime, 0))))"

definition preferDeletedCandidate ::
  "('a mergeable_scheme \<Rightarrow> json) \<Rightarrow> 'a mergeable_scheme \<Rightarrow> 'a mergeable_scheme \<Rightarrow> side" where
  "preferDeletedCandidate view left right =
     (if is_deleted left \<and> \<not> is_deleted right then LocalSide
      else if is_deleted right \<and> \<not> is_deleted left then IncomingSide
      else deterministic_side view left right)"

definition preferLiveCandidate ::
  "('a mergeable_scheme \<Rightarrow> json) \<Rightarrow> 'a mergeable_scheme \<Rightarrow> 'a mergeable_scheme \<Rightarrow> side" where
  "preferLiveCandidate view left right =
     (if is_deleted left \<and> \<not> is_deleted right then IncomingSide
      else if is_deleted right \<and> \<not> is_deleted left then LocalSide
      else deterministic_side view left right)"

definition isBackupRestoreLiveCandidate :: "'a mergeable_scheme \<Rightarrow> bool" where
  "isBackupRestoreLiveCandidate item =
     (\<not> is_deleted item \<and> revBy item = Some SYNC_BACKUP_RESTORE_REV_BY)"

definition resolveDeleteVsLiveWinner ::
  "('a mergeable_scheme \<Rightarrow> json) \<Rightarrow> int \<Rightarrow> pair_info \<Rightarrow> 'a mergeable_scheme \<Rightarrow> 'a mergeable_scheme
   \<Rightarrow> side \<times> nat" where
  "resolveDeleteVsLiveWinner view maxMs pi l i =
     (case (resolveOperationTime maxMs l (pi_localTime pi),
            resolveOperationTime maxMs i (pi_incomingTime pi)) of
        ((localOp, n1), (incomingOp, n2)) \<Rightarrow>
        let operationDiff = incomingOp - localOp;
            restore = (if isBackupRestoreLiveCandidate l then Some LocalSide
              else if isBackupRestoreLiveCandidate i then Some IncomingSide else None);
            restored = (case restore of None \<Rightarrow> False
              | Some LocalSide \<Rightarrow> localOp \<ge> incomingOp
              | Some IncomingSide \<Rightarrow> incomingOp \<ge> localOp)
        in (if restored then or_else restore LocalSide
            else if \<bar>operationDiff\<bar> \<le> DELETE_VS_LIVE_AMBIGUOUS_WINDOW_MS then
              (if pi_hasRevision pi \<and> pi_revDiff pi \<noteq> 0
               then (if pi_revDiff pi > 0 then LocalSide else IncomingSide)
               else if pi_hasRevision pi then preferLiveCandidate view l i
               else preferDeletedCandidate view l i)
            else if operationDiff > 0 then IncomingSide
            else if operationDiff < 0 then LocalSide
            else preferDeletedCandidate view l i,
            n1 + n2))"

definition by_updated :: "pair_info \<Rightarrow> side" where
  "by_updated pi = (if pi_updatedDiff pi > 0 then IncomingSide else LocalSide)"

definition resolve_same_state ::
  "('a mergeable_scheme \<Rightarrow> json) \<Rightarrow> pair_info \<Rightarrow> 'a mergeable_scheme \<Rightarrow> 'a mergeable_scheme \<Rightarrow> side" where
  "resolve_same_state view pi l i =
     (if pi_hasRevision pi then
        (if pi_revDiff pi \<noteq> 0 then (if pi_revDiff pi > 0 then LocalSide else IncomingSide)
         else if pi_updatedDiff pi \<noteq> 0 then by_updated pi
         else if pi_localRevBy pi \<noteq> pi_incomingRevBy pi \<and> pi_localRevBy pi \<noteq> []
                 \<and> pi_incomingRevBy pi \<noteq> []
           then (if pi_incomingRevBy pi > pi_localRevBy pi then IncomingSide else LocalSide)
         else deterministic_side view l i)
      else
        (let hasInvalidTimestamp = (ts_raw (pi_localTime pi) < 0 \<or> ts_raw (pi_incomingTime pi) < 0);
             strict = (pi_updatedDiff pi \<noteq> 0 \<and> (hasInvalidTimestamp
               \<or> ts_clamped (pi_localTime pi) \<or> ts_clamped (pi_incomingTime pi)))
         in if strict then by_updated pi
            else if \<bar>pi_safeTimeDiff pi\<bar> \<le> CLOCK_SKEW_THRESHOLD_MS then deterministic_side view l i
            else if pi_updatedDiff pi \<noteq> 0 then by_updated pi
            else deterministic_side view l i))"

definition resolve_winner ::
  "('a mergeable_scheme \<Rightarrow> json) \<Rightarrow> int \<Rightarrow> pair_info \<Rightarrow> 'a mergeable_scheme \<Rightarrow> 'a mergeable_scheme
   \<Rightarrow> side \<times> nat" where
  "resolve_winner view maxMs pi l i =
     (if pi_localDeleted pi \<noteq> pi_incomingDeleted pi then resolveDeleteVsLiveWinner view maxMs pi l i
      else (resolve_same_state view pi l i, 0))"

subsection \<open>The winner does not depend on which copy is local\<close>

definition swap_pair :: "pair_info \<Rightarrow> pair_info" where
  "swap_pair pi = pi\<lparr>pi_localTime := pi_incomingTime pi, pi_incomingTime := pi_localTime pi,
     pi_localRev := pi_incomingRev pi, pi_incomingRev := pi_localRev pi,
     pi_localRevBy := pi_incomingRevBy pi, pi_incomingRevBy := pi_localRevBy pi,
     pi_localDeleted := pi_incomingDeleted pi, pi_incomingDeleted := pi_localDeleted pi\<rparr>"

lemma compare_pair_swap: "compare_pair ops m i l = swap_pair (compare_pair ops m l i)"
proof -
  have comm: "(or_else (rev i) 0 = or_else (rev l) (0::int)) = (or_else (rev l) 0 = or_else (rev i) 0)"
    "(is_deleted i = is_deleted l) = (is_deleted l = is_deleted i)"
    "(is_deleted i = (\<not> is_deleted l)) = (is_deleted l = (\<not> is_deleted i))"
    "(getMergeComparableSignature ops i = getMergeComparableSignature ops l) =
     (getMergeComparableSignature ops l = getMergeComparableSignature ops i)"
    by auto
  show ?thesis by (simp add: compare_pair_def swap_pair_def Let_def comm)
qed

lemma swap_pair_simps [simp]:
  "pi_localTime (swap_pair pi) = pi_incomingTime pi"
  "pi_incomingTime (swap_pair pi) = pi_localTime pi"
  "pi_localDeleted (swap_pair pi) = pi_incomingDeleted pi"
  "pi_incomingDeleted (swap_pair pi) = pi_localDeleted pi"
  "pi_localRevBy (swap_pair pi) = pi_incomingRevBy pi"
  "pi_incomingRevBy (swap_pair pi) = pi_localRevBy pi"
  "pi_hasRevision (swap_pair pi) = pi_hasRevision pi"
  "pi_contentDiff (swap_pair pi) = pi_contentDiff pi"
  "pi_unresolvedDelete (swap_pair pi) = pi_unresolvedDelete pi"
  "pi_differs (swap_pair pi) = pi_differs pi"
  "pi_revDiff (swap_pair pi) = - pi_revDiff pi"
  "pi_updatedDiff (swap_pair pi) = - pi_updatedDiff pi"
  "pi_safeTimeDiff (swap_pair pi) = - pi_safeTimeDiff pi"
  by (simp_all add: swap_pair_def pi_revDiff_def pi_updatedDiff_def pi_safeTimeDiff_def
      timestamp_comparison_flip[of "pi_incomingTime pi"])

definition agree :: "('a \<Rightarrow> json) \<Rightarrow> 'a \<Rightarrow> 'a \<Rightarrow> side \<Rightarrow> side \<Rightarrow> bool" where
  "agree view l i s1 s2 =
     (signature_key (view (pick_side s1 l i)) = signature_key (view (pick_side s2 i l)))"

lemma agree_flip [simp]: "agree view l i LocalSide IncomingSide" "agree view l i IncomingSide LocalSide"
  by (simp_all add: agree_def)

lemma agree_deterministic:
  "signed (view l) \<Longrightarrow> signed (view i) \<Longrightarrow>
   agree view l i (deterministic_side view l i) (deterministic_side view i l)"
  using dw.key_commute[of view l i] by (simp add: agree_def chooseDeterministicWinner_def)

lemma same_state_agree:
  assumes "signed (view l)" and "signed (view i)"
  shows "agree view l i (resolve_same_state view pi l i) (resolve_same_state view (swap_pair pi) i l)"
proof -
  note det = agree_deterministic[of view, OF assms]
  have upd: "pi_updatedDiff pi \<noteq> 0 \<Longrightarrow> agree view l i (by_updated pi) (by_updated (swap_pair pi))"
    by (simp add: by_updated_def)
  show ?thesis
  proof (cases "pi_hasRevision pi")
    case True
    show ?thesis
    proof (cases "pi_revDiff pi = 0 \<and> pi_updatedDiff pi = 0")
      case True
      with \<open>pi_hasRevision pi\<close> det show ?thesis
        by (cases "pi_localRevBy pi < pi_incomingRevBy pi")
           (auto simp: resolve_same_state_def not_less_iff_gr_or_eq)
    next
      case False
      with \<open>pi_hasRevision pi\<close> upd show ?thesis
        by (auto simp: resolve_same_state_def)
    qed
  next
    case False
    with det upd show ?thesis
      by (auto simp: resolve_same_state_def Let_def)
  qed
qed

lemma restore_exclusive:
  "is_deleted l \<noteq> is_deleted i \<Longrightarrow>
   \<not> (isBackupRestoreLiveCandidate l \<and> isBackupRestoreLiveCandidate i)"
  by (auto simp: isBackupRestoreLiveCandidate_def)

lemma delete_vs_live_agree:
  assumes "is_deleted l \<noteq> is_deleted i"
  shows "agree view l i (fst (resolveDeleteVsLiveWinner view m pi l i))
           (fst (resolveDeleteVsLiveWinner view m (swap_pair pi) i l))"
proof -
  obtain lo n1 where l: "resolveOperationTime m l (pi_localTime pi) = (lo, n1)" by force
  obtain io n2 where i: "resolveOperationTime m i (pi_incomingTime pi) = (io, n2)" by force
  have live: "agree view l i (preferLiveCandidate view l i) (preferLiveCandidate view i l)"
    and dead: "agree view l i (preferDeletedCandidate view l i) (preferDeletedCandidate view i l)"
    using assms by (auto simp: preferLiveCandidate_def preferDeletedCandidate_def)
  have abs: "\<bar>lo - io\<bar> = \<bar>io - lo\<bar>" by simp
  consider "isBackupRestoreLiveCandidate l" "\<not> isBackupRestoreLiveCandidate i"
    | "isBackupRestoreLiveCandidate i" "\<not> isBackupRestoreLiveCandidate l"
    | "\<not> isBackupRestoreLiveCandidate i" "\<not> isBackupRestoreLiveCandidate l"
    using restore_exclusive[OF assms] by blast
  then show ?thesis
    by cases (use live dead in \<open>simp_all add: resolveDeleteVsLiveWinner_def l i Let_def abs\<close>)
qed

lemma winner_agree:
  assumes "signed (view l)" and "signed (view i)"
  shows "agree view l i (fst (resolve_winner view m (compare_pair ops m l i) l i))
           (fst (resolve_winner view m (compare_pair ops m i l) i l))"
proof -
  let ?pi = "compare_pair ops m l i"
  have del: "pi_localDeleted ?pi = is_deleted l" "pi_incomingDeleted ?pi = is_deleted i"
    by (simp_all add: compare_pair_def Let_def)
  show ?thesis
    using same_state_agree[of view, OF assms, of ?pi] delete_vs_live_agree[of l i view m ?pi]
    by (simp add: resolve_winner_def compare_pair_swap[of ops m i l] del)
qed

end
