(* ===== verification/MergeLoop.thy ===== *)
theory MergeLoop
  imports MergeEngine
begin

text \<open>
  \<open>sync.ts\<close>: the body and the loop of \<open>mergeEntitiesWithStats\<close> over the winner of
  \<open>MergeEngine\<close>, the area and entity instances of it, and the summary the history keeps. The
  theorems say which identifiers the result has, that it does not depend on the side a copy
  comes from, and that merging a collection with itself changes nothing.
\<close>

subsection \<open>The archive clock\<close>

definition archiveTime :: "string option \<Rightarrow> int option" where
  "archiveTime value = Option.bind (cancellation value) date_parse"

definition hasValidArchiveClock :: "string option \<Rightarrow> bool" where
  "hasValidArchiveClock value = (archiveTime value \<noteq> None)"

definition carry_archive_clock ::
  "'a mergeable_scheme merge_ops \<Rightarrow> 'a mergeable_scheme \<Rightarrow> 'a mergeable_scheme \<Rightarrow> side
   \<Rightarrow> 'a mergeable_scheme \<Rightarrow> 'a mergeable_scheme" where
  "carry_archive_clock ops l i winnerSide item =
     (case mo_clock ops of None \<Rightarrow> item
      | Some ck \<Rightarrow>
          if hasValidArchiveClock (ck_archivedAt ck item) then item
          else (let other = pick_side winnerSide i l;
                    without = (\<lambda>x. toComparableSignature (mo_view ops (ck_set_archivedAt ck x None)))
                in if hasValidArchiveClock (ck_archivedAt ck other)
                      \<and> rev other = rev item \<and> revBy other = revBy item
                      \<and> updatedAt other = updatedAt item \<and> ck_status ck other = ck_status ck item
                      \<and> deletedAt other = deletedAt item \<and> ck_purgedAt ck other = ck_purgedAt ck item
                      \<and> without l = without i
                   then ck_set_archivedAt ck item (ck_archivedAt ck other)
                   else item))"

subsection \<open>Counters\<close>

definition count_clamps :: "string \<Rightarrow> pair_info \<Rightarrow> entity_stats \<Rightarrow> entity_stats" where
  "count_clamps id1 pi st =
     (let l = ts_clamped (pi_localTime pi); i = ts_clamped (pi_incomingTime pi)
      in if l \<or> i then
           st\<lparr>es_futureTimestampClamps := es_futureTimestampClamps st + of_bool l + of_bool i,
              es_futureTimestampClampIds := push20 id1 (es_futureTimestampClampIds st)\<rparr>
         else st)"

definition count_conflict :: "string \<Rightarrow> pair_info \<Rightarrow> entity_stats \<Rightarrow> entity_stats" where
  "count_conflict id1 pi st =
     (if pi_differs pi then
        st\<lparr>es_conflicts := es_conflicts st + 1,
           es_conflictIds := push20 id1 (es_conflictIds st),
           es_conflictReasonCounts := foldl (\<lambda>c r. c(r := c r + 1)) (es_conflictReasonCounts st)
             (pi_reasons pi)\<rparr>
      else st)"

definition count_skew :: "pair_info \<Rightarrow> entity_stats \<Rightarrow> entity_stats" where
  "count_skew pi st =
     (if pi_differs pi \<and> \<bar>pi_safeTimeDiff pi\<bar> > es_maxClockSkewMs st then
        st\<lparr>es_maxClockSkewMs := \<bar>pi_safeTimeDiff pi\<bar>,
           es_maxClockSkewDirection :=
             Some (if pi_safeTimeDiff pi \<ge> 0 then RemoteAhead else LocalAhead)\<rparr>
      else st)"

definition count_winner :: "side \<Rightarrow> entity_stats \<Rightarrow> entity_stats" where
  "count_winner s st = (case s of
       IncomingSide \<Rightarrow> st\<lparr>es_resolvedUsingIncoming := es_resolvedUsingIncoming st + 1\<rparr>
     | LocalSide \<Rightarrow> st\<lparr>es_resolvedUsingLocal := es_resolvedUsingLocal st + 1\<rparr>)"

definition count_deletion :: "bool \<Rightarrow> pair_info \<Rightarrow> entity_stats \<Rightarrow> entity_stats" where
  "count_deletion winnerDeleted pi st =
     (if winnerDeleted \<and> (\<not> pi_localDeleted pi \<or> \<not> pi_incomingDeleted pi \<or> pi_differs pi)
      then st\<lparr>es_deletionsWon := es_deletionsWon st + 1\<rparr> else st)"

text \<open>\<open>v || undefined\<close>.\<close>

definition str_or_undef :: "string \<Rightarrow> string option" where
  "str_or_undef s = (if s = [] then None else Some s)"

definition diff_keys_of :: "'a mergeable_scheme merge_ops \<Rightarrow> pair_info \<Rightarrow> 'a mergeable_scheme \<Rightarrow> 'a mergeable_scheme \<Rightarrow> string list" where
  "diff_keys_of ops pi l i =
     (if pi_contentDiff pi then
        (let cl = toComparableValue False (comparison_view ops l);
             ci = toComparableValue False (comparison_view ops i)
         in if cl \<noteq> JUndef \<and> ci \<noteq> JUndef
            then collectComparableDiffKeys cl ci CONFLICT_DIFF_KEY_LIMIT else [])
      else [])"

definition make_sample ::
  "'a mergeable_scheme merge_ops \<Rightarrow> string \<Rightarrow> pair_info \<Rightarrow> side \<Rightarrow> 'a mergeable_scheme
   \<Rightarrow> 'a mergeable_scheme \<Rightarrow> conflict_sample" where
  "make_sample ops id1 pi s l i =
     \<lparr>cs_id = id1, cs_winner = s, cs_reasons = pi_reasons pi, cs_hasRevision = pi_hasRevision pi,
      cs_timeDiffMs = pi_safeTimeDiff pi, cs_localUpdatedAt = updatedAt l,
      cs_incomingUpdatedAt = updatedAt i, cs_localDeletedAt = deletedAt l,
      cs_incomingDeletedAt = deletedAt i, cs_localRev = pi_localRev pi,
      cs_incomingRev = pi_incomingRev pi, cs_localRevBy = str_or_undef (pi_localRevBy pi),
      cs_incomingRevBy = str_or_undef (pi_incomingRevBy pi),
      cs_localComparableHash = hashComparableSignature (or_else (getMergeComparableSignature ops l) []),
      cs_incomingComparableHash = hashComparableSignature (or_else (getMergeComparableSignature ops i) []),
      cs_diffKeys = diff_keys_of ops pi l i\<rparr>"

definition count_sample ::
  "'a mergeable_scheme merge_ops \<Rightarrow> string \<Rightarrow> pair_info \<Rightarrow> side \<Rightarrow> 'a mergeable_scheme
   \<Rightarrow> 'a mergeable_scheme \<Rightarrow> entity_stats \<Rightarrow> entity_stats" where
  "count_sample ops id1 pi s l i st =
     (if pi_differs pi \<and> length (es_conflictSamples st) < CONFLICT_SAMPLE_LIMIT
      then st\<lparr>es_conflictSamples := es_conflictSamples st @ [make_sample ops id1 pi s l i]\<rparr>
      else st)"

subsection \<open>One identifier\<close>

definition resolved_item ::
  "'a mergeable_scheme merge_ops \<Rightarrow> 'a mergeable_scheme \<Rightarrow> 'a mergeable_scheme \<Rightarrow> side
   \<Rightarrow> 'a mergeable_scheme" where
  "resolved_item ops l i s =
     carry_archive_clock ops l i s
       (case mo_conflict ops of None \<Rightarrow> pick_side s l i | Some f \<Rightarrow> f l i s)"

definition merge_pair ::
  "'a mergeable_scheme merge_ops \<Rightarrow> int \<Rightarrow> string \<Rightarrow> 'a mergeable_scheme \<Rightarrow> 'a mergeable_scheme
   \<Rightarrow> entity_stats \<Rightarrow> 'a mergeable_scheme \<times> entity_stats" where
  "merge_pair ops maxMs id1 localItem incomingItem st =
     (case normalizeTimestamps localItem (Some incomingItem) st of (l, st1) \<Rightarrow>
      case normalizeTimestamps incomingItem (Some localItem) st1 of (i, st2) \<Rightarrow>
      let pi = compare_pair ops maxMs l i in
      case resolve_winner (mo_view ops) maxMs pi l i of (s, invalid) \<Rightarrow>
      let st3 = count_skew pi (count_conflict id1 pi (count_clamps id1 pi st2));
          st4 = st3\<lparr>es_invalidTimestamps := es_invalidTimestamps st3 + invalid\<rparr>;
          st5 = count_deletion (is_deleted (pick_side s l i)) pi (count_winner s st4);
          st6 = count_sample ops id1 pi s l i st5
      in normalizeTimestamps (resolved_item ops l i s) None st6)"

definition merge_id ::
  "'a mergeable_scheme merge_ops \<Rightarrow> int \<Rightarrow> 'a mergeable_scheme list \<Rightarrow> 'a mergeable_scheme list
   \<Rightarrow> 'a mergeable_scheme list \<times> entity_stats \<Rightarrow> string \<Rightarrow> 'a mergeable_scheme list \<times> entity_stats" where
  "merge_id ops maxMs local incoming acc id1 =
     (case acc of (merged, st) \<Rightarrow>
      case (js_map_of eid local id1, js_map_of eid incoming id1) of
        (None, None) \<Rightarrow> (merged, st)
      | (Some l, None) \<Rightarrow>
          (case normalizeTimestamps l None (st\<lparr>es_localOnly := es_localOnly st + 1,
              es_resolvedUsingLocal := es_resolvedUsingLocal st + 1\<rparr>) of
             (m, st') \<Rightarrow> (merged @ [m], st'))
      | (None, Some i) \<Rightarrow>
          (case normalizeTimestamps i None (st\<lparr>es_incomingOnly := es_incomingOnly st + 1,
              es_resolvedUsingIncoming := es_resolvedUsingIncoming st + 1\<rparr>) of
             (m, st') \<Rightarrow> (merged @ [m], st'))
      | (Some l, Some i) \<Rightarrow>
          (case merge_pair ops maxMs id1 l i st of (m, st') \<Rightarrow> (merged @ [m], st')))"

definition all_ids :: "'a mergeable_scheme list \<Rightarrow> 'a mergeable_scheme list \<Rightarrow> string list" where
  "all_ids local incoming = uniq (map eid local @ map eid incoming)"

text \<open>\<open>clock\<close> is \<open>Date.now()\<close>, read when \<open>nowIso\<close> is absent or unreadable.\<close>

definition mergeEntitiesWithStats ::
  "'a mergeable_scheme merge_ops \<Rightarrow> int \<Rightarrow> string option \<Rightarrow> 'a mergeable_scheme list
   \<Rightarrow> 'a mergeable_scheme list \<Rightarrow> 'a mergeable_scheme list \<times> entity_stats" where
  "mergeEntitiesWithStats ops clock nowIso local incoming =
     (let maxMs = or_else (Option.bind (js_or nowIso None) date_parse) clock in
      case foldl (merge_id ops maxMs local incoming)
             ([], createEmptyEntityStats (length local) (length incoming)) (all_ids local incoming) of
        (merged, st) \<Rightarrow> (merged, st\<lparr>es_mergedTotal := length merged\<rparr>))"

subsection \<open>The merged items\<close>

text \<open>The loop's items without its counters.\<close>

definition pair_result ::
  "'a mergeable_scheme merge_ops \<Rightarrow> int \<Rightarrow> 'a mergeable_scheme \<Rightarrow> 'a mergeable_scheme \<Rightarrow> 'a mergeable_scheme" where
  "pair_result ops maxMs localItem incomingItem =
     (let l = adjusted localItem (Some incomingItem); i = adjusted incomingItem (Some localItem)
      in adjusted (resolved_item ops l i
           (fst (resolve_winner (mo_view ops) maxMs (compare_pair ops maxMs l i) l i))) None)"

definition id_result ::
  "'a mergeable_scheme merge_ops \<Rightarrow> int \<Rightarrow> 'a mergeable_scheme list \<Rightarrow> 'a mergeable_scheme list
   \<Rightarrow> string \<Rightarrow> 'a mergeable_scheme list" where
  "id_result ops maxMs local incoming id1 =
     (case (js_map_of eid local id1, js_map_of eid incoming id1) of
        (None, None) \<Rightarrow> []
      | (Some l, None) \<Rightarrow> [adjusted l None]
      | (None, Some i) \<Rightarrow> [adjusted i None]
      | (Some l, Some i) \<Rightarrow> [pair_result ops maxMs l i])"

definition merge_clock :: "string option \<Rightarrow> int \<Rightarrow> int" where
  "merge_clock nowIso clock = or_else (Option.bind (js_or nowIso None) date_parse) clock"

lemma fst_merge_pair: "fst (merge_pair ops m id1 l i st) = pair_result ops m l i"
  by (simp add: merge_pair_def pair_result_def normalizeTimestamps_def Let_def split: prod.splits)

lemma fst_merge_id:
  "fst (merge_id ops m local incoming (ms, st) id1) = ms @ id_result ops m local incoming id1"
  using fst_merge_pair[of ops m id1 "the (js_map_of eid local id1)" "the (js_map_of eid incoming id1)" st]
  by (auto simp: merge_id_def id_result_def normalizeTimestamps_def split: option.splits prod.splits)

lemma fst_merge_fold:
  "fst (foldl (merge_id ops m local incoming) (ms, st) ids) =
   ms @ concat (map (id_result ops m local incoming) ids)"
proof (induction ids arbitrary: ms st)
  case Nil
  then show ?case by simp
next
  case (Cons x ids)
  obtain ms' st' where step: "merge_id ops m local incoming (ms, st) x = (ms', st')" by force
  then have "ms' = ms @ id_result ops m local incoming x" by (metis fst_conv fst_merge_id)
  with Cons[of ms' st'] step show ?case by simp
qed

lemma merged_items:
  "fst (mergeEntitiesWithStats ops clock nowIso local incoming) =
   concat (map (id_result ops (merge_clock nowIso clock) local incoming) (all_ids local incoming))"
  by (simp add: mergeEntitiesWithStats_def merge_clock_def Let_def fst_merge_fold split_beta)

text \<open>The laws the callers' arguments keep: neither changes the identifier.\<close>

definition keeps_ids :: "'a mergeable_scheme merge_ops \<Rightarrow> bool" where
  "keeps_ids ops =
     ((\<forall>f l i s. mo_conflict ops = Some f \<longrightarrow> eid l = eid i \<longrightarrow> eid (f l i s) = eid i) \<and>
      (\<forall>ck x v. mo_clock ops = Some ck \<longrightarrow> eid (ck_set_archivedAt ck x v) = eid x))"

lemma carry_archive_clock_eid:
  "keeps_ids ops \<Longrightarrow> eid (carry_archive_clock ops l i s x) = eid x"
  by (auto simp: carry_archive_clock_def keeps_ids_def Let_def split: option.splits)

lemma pair_result_eid [ids]:
  assumes "keeps_ids ops" and "eid l = id1" and "eid i = id1"
  shows "eid (pair_result ops m l i) = id1"
proof -
  have pick: "eid (pick_side s (adjusted l c) (adjusted i d)) = id1" for s c d
    using assms by (cases s) simp_all
  show ?thesis
  proof (cases "mo_conflict ops")
    case None
    then show ?thesis
      using pick assms(1) by (simp add: pair_result_def Let_def resolved_item_def carry_archive_clock_eid)
  next
    case (Some f)
    then have "eid (f (adjusted l c) (adjusted i d) s) = id1" for s c d
      using assms by (simp add: keeps_ids_def)
    with Some show ?thesis
      using assms(1) by (simp add: pair_result_def Let_def resolved_item_def carry_archive_clock_eid)
  qed
qed

lemma id_result_eid:
  assumes "keeps_ids ops" and "id1 \<in> eid ` set local \<union> eid ` set incoming"
  shows "map eid (id_result ops m local incoming id1) = [id1]"
proof -
  consider l i where "js_map_of eid local id1 = Some l" "js_map_of eid incoming id1 = Some i"
    | l where "js_map_of eid local id1 = Some l" "js_map_of eid incoming id1 = None"
    | i where "js_map_of eid local id1 = None" "js_map_of eid incoming id1 = Some i"
    using assms(2) by (metis Un_iff js_map_None_iff option.exhaust)
  then show ?thesis
    by cases (use assms(1) in \<open>auto simp: id_result_def pair_result_eid dest!: js_map_SomeD\<close>)
qed

lemma concat_map_single: "(\<forall>x\<in>set xs. f x = [x]) \<Longrightarrow> concat (map f xs) = xs"
  by (induction xs) auto

lemma merged_ids:
  assumes "keeps_ids ops"
  shows "map eid (fst (mergeEntitiesWithStats ops clock nowIso local incoming)) = all_ids local incoming"
  using id_result_eid[OF assms, of _ local incoming]
  by (simp add: merged_items map_concat comp_def) (intro concat_map_single, simp add: all_ids_def)

subsection \<open>The interface of a merged collection\<close>

text \<open>
  What the document merge relies on in each collection: the result has every identifier of
  either side once, in the order of first appearance.
\<close>

locale keyed_merge =
  fixes key :: "'e \<Rightarrow> string"
    and merge :: "'e list \<Rightarrow> 'e list \<Rightarrow> 'e list"
  assumes merge_keys: "map key (merge xs ys) = uniq (map key xs @ map key ys)"
begin

lemma keys_distinct: "distinct (map key (merge xs ys))"
  by (simp add: merge_keys)

lemma keys_union: "key ` set (merge xs ys) = key ` set xs \<union> key ` set ys"
proof -
  have "set (map key (merge xs ys)) = set (map key xs @ map key ys)" unfolding merge_keys by simp
  then show ?thesis by simp
qed

lemma lookup_defined: "k \<in> key ` set xs \<union> key ` set ys \<longleftrightarrow> js_map_of key (merge xs ys) k \<noteq> None"
  by (simp add: js_map_None_iff keys_union)

lemma merge_nil: "distinct (map key xs) \<Longrightarrow> map key (merge xs []) = map key xs"
  by (simp add: merge_keys uniq_id)

lemma keys_commute: "key ` set (merge xs ys) = key ` set (merge ys xs)"
  by (auto simp: keys_union)

end

text \<open>The merge of a collection whose items carry no further merge (sections, people).\<close>

definition plain_ops :: "('a mergeable_scheme \<Rightarrow> json) \<Rightarrow> ('a mergeable_scheme \<Rightarrow> json) option
  \<Rightarrow> 'a mergeable_scheme merge_ops" where
  "plain_ops view cmp = \<lparr>mo_view = view, mo_compare = cmp, mo_conflict = None, mo_clock = None\<rparr>"

lemma plain_ops_keeps_ids [simp]: "keeps_ids (plain_ops view cmp)"
  by (simp add: keeps_ids_def plain_ops_def)

interpretation pm: keyed_merge eid
    "\<lambda>xs ys. fst (mergeEntitiesWithStats (plain_ops view cmp) clock nowIso xs ys)"
  for view :: "'a mergeable_scheme \<Rightarrow> json" and cmp clock nowIso
  by unfold_locales (simp add: merged_ids all_ids_def)

subsection \<open>The two directions of a sync agree\<close>

definition entity_key :: "('a mergeable_scheme \<Rightarrow> json) \<Rightarrow> 'a mergeable_scheme \<Rightarrow> string \<times> string" where
  "entity_key view x = signature_key (view x)"

lemma pair_result_plain:
  "pair_result (plain_ops view cmp) m l i =
   (let l' = adjusted l (Some i); i' = adjusted i (Some l)
    in pick_side (fst (resolve_winner view m (compare_pair (plain_ops view cmp) m l' i') l' i')) l' i')"
proof -
  have "adjusted (pick_side s (adjusted l c) (adjusted i d)) None = pick_side s (adjusted l c) (adjusted i d)"
    for s c d by (cases s) simp_all
  then show ?thesis
    by (simp add: pair_result_def resolved_item_def carry_archive_clock_def plain_ops_def Let_def)
qed

lemma pair_result_agree:
  assumes "signed (view (adjusted l (Some i)))" and "signed (view (adjusted i (Some l)))"
  shows "entity_key view (pair_result (plain_ops view cmp) m l i) =
         entity_key view (pair_result (plain_ops view cmp) m i l)"
  using winner_agree[OF assms, of m "plain_ops view cmp"]
  by (simp add: pair_result_plain Let_def agree_def entity_key_def)

lemma pick_side_same [simp]: "pick_side s x x = x"
  by (cases s) simp_all

lemma resolved_item_self:
  assumes "\<And>f s. mo_conflict ops = Some f \<Longrightarrow> f x x s = x"
  shows "resolved_item ops x x s = x"
proof -
  have "(case mo_conflict ops of None \<Rightarrow> pick_side s x x | Some f \<Rightarrow> f x x s) = x"
    using assms by (simp split: option.splits)
  then show ?thesis
    by (simp add: resolved_item_def carry_archive_clock_def Let_def split: option.splits)
qed

lemma pair_result_self:
  assumes "\<not> needs_adjustment x"
    and "\<And>f s. mo_conflict ops = Some f \<Longrightarrow> f x x s = x"
  shows "pair_result ops m x x = x"
proof -
  have a [simp]: "adjusted x c = x" for c using assms(1) by (simp add: adjusted_def)
  have "resolved_item ops x x s = x" for s
    by (rule resolved_item_self) (rule assms(2))
  then show ?thesis by (simp add: pair_result_def Let_def)
qed

lemma lookup_merged:
  assumes "keeps_ids ops"
  shows "js_map_of eid (fst (mergeEntitiesWithStats ops clock nowIso local incoming)) k =
    (case id_result ops (merge_clock nowIso clock) local incoming k of [] \<Rightarrow> None | x # _ \<Rightarrow> Some x)"
proof -
  let ?ms = "fst (mergeEntitiesWithStats ops clock nowIso local incoming)"
  let ?r = "id_result ops (merge_clock nowIso clock) local incoming"
  have ids: "map eid ?ms = all_ids local incoming" by (rule merged_ids[OF assms])
  show ?thesis
  proof (cases "k \<in> set (all_ids local incoming)")
    case False
    then have "js_map_of eid local k = None" "js_map_of eid incoming k = None"
      by (simp_all add: all_ids_def js_map_None_iff)
    moreover have "js_map_of eid ?ms k = None"
      using False by (simp add: js_map_None_iff flip: ids)
    ultimately show ?thesis by (simp add: id_result_def)
  next
    case True
    then have "map eid (?r k) = [k]" by (intro id_result_eid[OF assms]) (simp add: all_ids_def)
    then obtain x where x: "?r k = [x]" "eid x = k" by (auto simp: map_eq_Cons_conv)
    then have "x \<in> set ?ms" using True by (auto simp: merged_items intro!: bexI[of _ k])
    moreover have "distinct (map eid ?ms)" unfolding ids by (simp add: all_ids_def)
    ultimately show ?thesis using x js_map_of_distinct[of eid ?ms x] by simp
  qed
qed

text \<open>
  Two devices that exchange their copies of a collection merged without callbacks (sections, areas,
  people) end with the same content: for every identifier the two results carry an entity of the
  same signatures, whichever device merges. Entities with a printable identifier have signatures.
\<close>

theorem merge_converges:
  assumes "\<And>x. nonblank (eid x) \<Longrightarrow> signed (view x)"
    and "\<And>x. x \<in> set local \<union> set incoming \<Longrightarrow> nonblank (eid x)"
  shows "map_option (entity_key view) (js_map_of eid
           (fst (mergeEntitiesWithStats (plain_ops view cmp) clock nowIso local incoming)) k)
       = map_option (entity_key view) (js_map_of eid
           (fst (mergeEntitiesWithStats (plain_ops view cmp) clock nowIso incoming local)) k)"
proof -
  have "nonblank (eid l) \<and> nonblank (eid i)"
    if "js_map_of eid local k = Some l" "js_map_of eid incoming k = Some i" for l i
    using that assms(2) by (auto dest!: js_map_SomeD)
  then show ?thesis
    by (auto simp: lookup_merged id_result_def intro!: pair_result_agree assms(1) split: option.splits)
qed

text \<open>
  A merged collection has exactly the identifiers of the two sides, each once: no entity
  is lost or duplicated by a merge.
\<close>

theorem merge_keeps_every_id:
  assumes "keeps_ids ops"
  shows "distinct (map eid (fst (mergeEntitiesWithStats ops clock nowIso local incoming)))
       \<and> eid ` set (fst (mergeEntitiesWithStats ops clock nowIso local incoming))
         = eid ` set local \<union> eid ` set incoming"
proof
  let ?ms = "fst (mergeEntitiesWithStats ops clock nowIso local incoming)"
  show "distinct (map eid ?ms)" unfolding merged_ids[OF assms] by (simp add: all_ids_def)
  have "set (map eid ?ms) = eid ` set local \<union> eid ` set incoming"
    unfolding merged_ids[OF assms] by (simp add: all_ids_def)
  then show "eid ` set ?ms = eid ` set local \<union> eid ` set incoming" by (simp only: set_map)
qed

subsection \<open>Merging a collection with itself\<close>

lemma no_diff_self: "\<not> pi_differs (compare_pair ops m x x)"
  by (simp add: compare_pair_def Let_def)

definition conflict_free :: "entity_stats \<Rightarrow> bool" where
  "conflict_free st = (es_conflicts st = 0 \<and> es_conflictIds st = [] \<and> es_conflictSamples st = []
     \<and> es_timestampAdjustments st = 0 \<and> es_maxClockSkewMs st = 0)"

lemma merge_pair_self_stats:
  assumes "\<not> needs_adjustment x" and "\<And>f s. mo_conflict ops = Some f \<Longrightarrow> f x x s = x"
    and "conflict_free st"
  shows "conflict_free (snd (merge_pair ops m k x x st))"
proof -
  have a [simp]: "adjusted x c = x" for c using assms(1) by (simp add: adjusted_def)
  have r: "resolved_item ops x x s = x" for s
    by (rule resolved_item_self) (rule assms(2))
  show ?thesis
    using assms(1,3)
    by (auto simp: merge_pair_def normalizeTimestamps_def Let_def r no_diff_self conflict_free_def
        count_skew_def count_conflict_def count_clamps_def count_deletion_def count_winner_def
        count_sample_def split: prod.splits side.splits)
qed

lemma merge_self_items:
  assumes "distinct (map eid xs)" and "\<And>x. x \<in> set xs \<Longrightarrow> \<not> needs_adjustment x"
    and "\<And>f x s. mo_conflict ops = Some f \<Longrightarrow> x \<in> set xs \<Longrightarrow> f x x s = x"
  shows "fst (mergeEntitiesWithStats ops clock nowIso xs xs) = xs"
proof -
  have ids: "all_ids xs xs = map eid xs"
    using assms(1) by (simp add: all_ids_def uniq_append_self)
  have "id_result ops m xs xs (eid x) = [x]" if "x \<in> set xs" for x m
    using that js_map_of_distinct[OF assms(1) that] pair_result_self[of x ops m] assms
    by (simp add: id_result_def)
  then have "concat (map (\<lambda>x. id_result ops m xs xs (eid x)) xs) = xs" for m
    by (intro concat_map_single) simp
  then show ?thesis by (simp add: merged_items ids comp_def)
qed

lemma merge_self_stats:
  assumes "distinct (map eid xs)" and "\<And>x. x \<in> set xs \<Longrightarrow> \<not> needs_adjustment x"
    and "\<And>f x s. mo_conflict ops = Some f \<Longrightarrow> x \<in> set xs \<Longrightarrow> f x x s = x"
    and "set is \<subseteq> eid ` set xs" and "conflict_free (snd acc)"
  shows "conflict_free (snd (foldl (merge_id ops m xs xs) acc is))"
  using assms(4-5)
proof (induction "is" arbitrary: acc)
  case Nil
  then show ?case by simp
next
  case (Cons k ks)
  then obtain x where x: "x \<in> set xs" "eid x = k" by auto
  then have "js_map_of eid xs k = Some x" using js_map_of_distinct[OF assms(1)] by blast
  then have "conflict_free (snd (merge_id ops m xs xs acc k))"
    using merge_pair_self_stats[of x ops "snd acc" m k] assms(2,3) x Cons.prems(2)
    by (cases acc) (simp add: merge_id_def split_beta)
  then show ?case using Cons by simp
qed

text \<open>
  Merging a collection with an identical copy returns it unchanged and reports no conflict, no clock
  skew and no timestamp repair, when the conflict callback, if any, leaves equal copies alone.
\<close>

theorem merge_self_is_stable:
  assumes "distinct (map eid xs)" and "\<And>x. x \<in> set xs \<Longrightarrow> \<not> needs_adjustment x"
    and "\<And>f x s. mo_conflict ops = Some f \<Longrightarrow> x \<in> set xs \<Longrightarrow> f x x s = x"
  shows "fst (mergeEntitiesWithStats ops clock nowIso xs xs) = xs
       \<and> conflict_free (snd (mergeEntitiesWithStats ops clock nowIso xs xs))"
proof
  show "fst (mergeEntitiesWithStats ops clock nowIso xs xs) = xs"
    by (rule merge_self_items) (use assms in auto)
  have "conflict_free (snd (foldl (merge_id ops m xs xs)
      ([], createEmptyEntityStats (length xs) (length xs)) (all_ids xs xs)))" for m
    by (rule merge_self_stats)
       (use assms in \<open>simp_all add: all_ids_def conflict_free_def createEmptyEntityStats_def\<close>)
  then show "conflict_free (snd (mergeEntitiesWithStats ops clock nowIso xs xs))"
    by (auto simp: mergeEntitiesWithStats_def Let_def conflict_free_def split: prod.splits)
       (metis snd_conv)+
qed

text \<open>The three properties on one person edited on both sides.\<close>

lemma some_person_blank: "nonblank (eid (sample_person ''p1'' n))"
  by (simp add: sample_person_def) code_simp

theorem merge_converges_witness:
  "map_option (entity_key person_json) (js_map_of eid
      (fst (mergeEntitiesWithStats (plain_ops person_json None) 0 None
         [sample_person ''p1'' ''Ann''] [sample_person ''p1'' ''Bob''])) ''p1'')
   = map_option (entity_key person_json) (js_map_of eid
      (fst (mergeEntitiesWithStats (plain_ops person_json None) 0 None
         [sample_person ''p1'' ''Bob''] [sample_person ''p1'' ''Ann''])) ''p1'')"
  by (rule merge_converges) (auto simp: person_signed some_person_blank)

theorem merge_keeps_every_id_witness:
  "distinct (map eid (fst (mergeEntitiesWithStats (plain_ops person_json None) 0 None
      [sample_person ''p1'' ''Ann''] [sample_person ''p2'' ''Bob''])))
   \<and> eid ` set (fst (mergeEntitiesWithStats (plain_ops person_json None) 0 None
      [sample_person ''p1'' ''Ann''] [sample_person ''p2'' ''Bob'']))
     = eid ` set [sample_person ''p1'' ''Ann''] \<union> eid ` set [sample_person ''p2'' ''Bob'']"
  by (rule merge_keeps_every_id) simp

theorem merge_self_is_stable_witness:
  "fst (mergeEntitiesWithStats (plain_ops person_json None) 0 None
      [sample_person ''p1'' ''Ann''] [sample_person ''p1'' ''Ann'']) = [sample_person ''p1'' ''Ann'']
   \<and> conflict_free (snd (mergeEntitiesWithStats (plain_ops person_json None) 0 None
      [sample_person ''p1'' ''Ann''] [sample_person ''p1'' ''Ann'']))"
proof (rule merge_self_is_stable)
  show "\<not> needs_adjustment x" if "x \<in> set [sample_person ''p1'' ''Ann'']" for x
    using that by (simp add: sample_person_def) code_simp
qed (simp_all add: plain_ops_def)

end
