(* ===== verification/Compaction.thy ===== *)
theory Compaction
  imports Signatures
begin

text \<open>
  \<open>tombstone-compaction.ts\<close>: a purged task or project is stored as a tombstone that keeps its
  conflict metadata and the neutral value of every other field. The theorems show that a
  compacted tombstone is a fixed point, so a sync cycle never stamps it twice.
  Objects of one type list their properties in the order of the \<open>_fields\<close> functions.
\<close>

subsection \<open>Values outside a tombstone\<close>

definition SQLITE_NEUTRAL_FALSE_FIELDS :: "string list" where
  "SQLITE_NEUTRAL_FALSE_FIELDS = [''showFutureRecurrence'', ''isFocusedToday'',
     ''suppressMindwtrReminders'', ''isSequential'', ''isFocused'', ''isCollapsed'']"

definition NEUTRAL_ZERO_FIELDS :: "string list" where
  "NEUTRAL_ZERO_FIELDS = [''pushCount'']"

definition hasValuesOutsideCompactedTombstone ::
  "(string \<times> json) list \<Rightarrow> (string \<times> json) list \<Rightarrow> bool" where
  "hasValuesOutsideCompactedTombstone value compacted =
     list_ex (\<lambda>(key, item).
       let c = obj_get key compacted in
       item \<noteq> JUndef
       \<and> \<not> (item = JNull \<and> c = JUndef)
       \<and> \<not> (item = JBool False \<and> c = JUndef \<and> key \<in> set SQLITE_NEUTRAL_FALSE_FIELDS)
       \<and> \<not> (item = JNum 0 \<and> c = JUndef \<and> key \<in> set NEUTRAL_ZERO_FIELDS)
       \<and> stringify item \<noteq> stringify c) value"

lemma no_values_outside_self:
  "distinct (map fst kvs) \<Longrightarrow> \<not> hasValuesOutsideCompactedTombstone kvs kvs"
  by (auto simp: hasValuesOutsideCompactedTombstone_def list_ex_iff Let_def obj_get_def)

subsection \<open>Tombstones\<close>

text \<open>A task with the required fields only; the optional ones are absent.\<close>

definition bare_task :: "string \<Rightarrow> string \<Rightarrow> string \<Rightarrow> string option \<Rightarrow> int option \<Rightarrow> string option
  \<Rightarrow> string option \<Rightarrow> task" where
  "bare_task id1 created updated deleted rv rvBy purged =
     \<lparr>eid = id1, createdAt = created, updatedAt = updated, deletedAt = deleted, rev = rv,
      revBy = rvBy, t_title = ''(deleted)'', t_status = Inbox, t_priority = None,
      t_energyLevel = None, t_assignedTo = None, t_taskMode = None, t_startTime = None,
      t_relativeStartOffset = None, t_dueDate = None, t_recurrence = None,
      t_showFutureRecurrence = None, t_pushCount = None, t_tags = [], t_contexts = [],
      t_checklist = None, t_description = None, t_textDirection = None, t_attachments = None,
      t_location = None, t_projectId = None, t_sectionId = None, t_viewSectionIds = None,
      t_areaId = None, t_isFocusedToday = None, t_timeEstimate = None, t_timeSpentMinutes = None,
      t_suppressMindwtrReminders = None, t_repeatReminderMinutes = None, t_reviewAt = None,
      t_completedAt = None, t_cancelledAt = None, t_archivedAt = None,
      t_statusBeforeProjectArchive = None, t_completedAtBeforeProjectArchive = None,
      t_isFocusedTodayBeforeProjectArchive = None, t_projectArchivedAt = None,
      t_purgedAt = purged, t_order = None, t_orderNum = None, t_boardOrder = None,
      t_focusOrder = None\<rparr>"

definition compactPurgedTaskTombstone :: "task \<Rightarrow> task" where
  "compactPurgedTaskTombstone t =
     (if \<not> truthy (t_purgedAt t) then t
      else bare_task (eid t) (updatedAt t) (updatedAt t) (t_purgedAt t) (rev t) (revBy t) (t_purgedAt t))"

definition bare_project :: "string \<Rightarrow> string \<Rightarrow> string option \<Rightarrow> int option \<Rightarrow> string option
  \<Rightarrow> string option \<Rightarrow> project" where
  "bare_project id1 stamp deleted rv rvBy purged =
     \<lparr>eid = id1, createdAt = stamp, updatedAt = stamp, deletedAt = deleted, rev = rv,
      revBy = rvBy, p_title = ''(deleted)'', p_status = PActive, p_color = ''#6B7280'',
      p_order = 0, p_tagIds = [], p_isSequential = None, p_sequentialScope = None,
      p_taskSortBy = None, p_isFocused = None, p_supportNotes = None, p_attachments = None,
      p_startDate = None, p_dueDate = None, p_reviewAt = None, p_cancelledAt = None,
      p_archivedAt = None, p_areaId = None, p_areaTitle = None, p_viewSectionIds = None,
      p_purgedAt = purged\<rparr>"

definition compactPurgedProjectTombstone :: "project \<Rightarrow> project" where
  "compactPurgedProjectTombstone p =
     (if \<not> truthy (p_purgedAt p) then p
      else bare_project (eid p) (updatedAt p) (p_purgedAt p) (rev p) (revBy p) (p_purgedAt p))"

definition compactPurgedProjectSectionTombstone :: "section1 \<Rightarrow> string \<Rightarrow> section1" where
  "compactPurgedProjectSectionTombstone s purgedAt =
     \<lparr>eid = eid s, createdAt = purgedAt, updatedAt = purgedAt, deletedAt = Some purgedAt,
      rev = rev s, revBy = revBy s, s_projectId = s_projectId s, s_title = [],
      s_description = None, s_order = 0, s_isCollapsed = None,
      s_deletedAtBeforeProjectArchive = None, s_projectArchivedAt = None\<rparr>"

definition purged_projects :: "project list \<Rightarrow> string \<Rightarrow> string option" where
  "purged_projects projects k =
     Option.bind (js_map_of eid (filter (\<lambda>p. truthy (p_purgedAt p)) projects) k) p_purgedAt"

definition compact_section :: "project list \<Rightarrow> bool \<Rightarrow> section1 \<Rightarrow> section1" where
  "compact_section projects stamp s =
     (case purged_projects projects (s_projectId s) of
        None \<Rightarrow> s
      | Some purgedAt \<Rightarrow>
          (let compacted = compactPurgedProjectSectionTombstone s purgedAt
           in if \<not> stamp \<or> \<not> hasValuesOutsideCompactedTombstone (section_fields s) (section_fields compacted)
              then compacted
              else compacted\<lparr>rev := Some (nextRev (rev s)), revBy := Some SYNC_REPAIR_REV_BY\<rparr>))"

definition compactSectionsForPurgedProjects :: "section1 list \<Rightarrow> project list \<Rightarrow> bool \<Rightarrow> section1 list" where
  "compactSectionsForPurgedProjects sections projects stamp =
     map (compact_section projects stamp) sections"

subsection \<open>Cleanup metadata kept locally\<close>

definition cleanup_attachment :: "attachment \<Rightarrow> attachment" where
  "cleanup_attachment a =
     \<lparr>eid = eid a, createdAt = createdAt a, updatedAt = updatedAt a, deletedAt = None,
      rev = None, revBy = None, at_kind = at_kind a, at_title = [], at_uri = at_uri a,
      at_mimeType = None, at_size = None, at_cloudKey = None, at_fileHash = None,
      at_contentRev = None, at_contentMtimeMs = None, at_contentSize = None,
      at_pendingContentUpload = None, at_localStatus = None\<rparr>"

definition compactAttachmentCleanupMetadata :: "attachment list option \<Rightarrow> attachment list option" where
  "compactAttachmentCleanupMetadata attachments =
     (let files = map cleanup_attachment
            (filter (\<lambda>a. at_kind a = FileKind \<and> at_uri a \<noteq> []) (or_else attachments []))
      in if files = [] then None else Some files)"

definition compactPurgedTaskForLocalStorage :: "task \<Rightarrow> task" where
  "compactPurgedTaskForLocalStorage t =
     (if truthy (t_purgedAt t)
      then (compactPurgedTaskTombstone t)\<lparr>t_attachments := compactAttachmentCleanupMetadata (t_attachments t)\<rparr>
      else t)"

definition compactPurgedProjectForLocalStorage :: "project \<Rightarrow> project" where
  "compactPurgedProjectForLocalStorage p =
     (if truthy (p_purgedAt p)
      then (compactPurgedProjectTombstone p)\<lparr>p_attachments := compactAttachmentCleanupMetadata (p_attachments p)\<rparr>
      else p)"

definition hasUncompactedPurgedTaskTombstone :: "task \<Rightarrow> bool \<Rightarrow> bool" where
  "hasUncompactedPurgedTaskTombstone t preserveLocalCleanupMetadata =
     (if \<not> truthy (t_purgedAt t) then False
      else (let localCompacted = compactPurgedTaskForLocalStorage t;
                compacted = (if preserveLocalCleanupMetadata
                    \<or> stringify (attachments_json (t_attachments t))
                      = stringify (attachments_json (t_attachments localCompacted))
                  then localCompacted else compactPurgedTaskTombstone t)
            in hasValuesOutsideCompactedTombstone (task_fields t) (task_fields compacted)))"

definition hasUncompactedPurgedProjectTombstone :: "project \<Rightarrow> bool \<Rightarrow> bool" where
  "hasUncompactedPurgedProjectTombstone p preserveLocalCleanupMetadata =
     (if \<not> truthy (p_purgedAt p) then False
      else (let localCompacted = compactPurgedProjectForLocalStorage p;
                compacted = (if preserveLocalCleanupMetadata
                    \<or> stringify (attachments_json (p_attachments p))
                      = stringify (attachments_json (p_attachments localCompacted))
                  then localCompacted else compactPurgedProjectTombstone p)
            in hasValuesOutsideCompactedTombstone (project_fields p) (project_fields compacted)))"

definition hasUncompactedPurgedTombstones :: "task list \<Rightarrow> project list \<Rightarrow> section1 list \<Rightarrow> bool" where
  "hasUncompactedPurgedTombstones tasks projects sections =
     (list_ex (\<lambda>t. hasUncompactedPurgedTaskTombstone t False) tasks
      \<or> list_ex (\<lambda>p. hasUncompactedPurgedProjectTombstone p False) projects
      \<or> list_ex (\<lambda>(s, c). hasValuesOutsideCompactedTombstone (section_fields s) (section_fields c))
          (zip sections (compactSectionsForPurgedProjects sections projects False)))"

subsection \<open>Compaction is a fixed point\<close>

lemma distinct_fields:
  "distinct (map fst (task_fields t))"
  "distinct (map fst (project_fields p))"
  "distinct (map fst (section_fields s))"
  by (simp_all add: task_fields_def project_fields_def section_fields_def mergeable_json_def)

lemmas compact_defs = compactPurgedTaskTombstone_def compactPurgedProjectTombstone_def
  compactPurgedTaskForLocalStorage_def compactPurgedProjectForLocalStorage_def
  bare_task_def bare_project_def

lemma cleanup_attachment_idem [simp]: "cleanup_attachment (cleanup_attachment a) = cleanup_attachment a"
  by (simp add: cleanup_attachment_def)

lemma cleanup_metadata_idem [simp]:
  "compactAttachmentCleanupMetadata (compactAttachmentCleanupMetadata xs) = compactAttachmentCleanupMetadata xs"
proof -
  let ?keep = "\<lambda>a. at_kind a = FileKind \<and> at_uri a \<noteq> []"
  let ?fs = "map cleanup_attachment (filter ?keep (or_else xs []))"
  have "filter ?keep ?fs = ?fs" by (auto simp: filter_id_conv cleanup_attachment_def)
  moreover have "map cleanup_attachment ?fs = ?fs" by simp
  ultimately show ?thesis
    by (cases "?fs = []") (simp_all only: compactAttachmentCleanupMetadata_def Let_def or_else_simps if_True if_False list.map)
qed

lemma compact_task_idem [simp]:
  "compactPurgedTaskTombstone (compactPurgedTaskTombstone t) = compactPurgedTaskTombstone t"
  "compactPurgedTaskForLocalStorage (compactPurgedTaskForLocalStorage t) = compactPurgedTaskForLocalStorage t"
  by (simp_all add: compact_defs)

lemma compact_project_idem [simp]:
  "compactPurgedProjectTombstone (compactPurgedProjectTombstone p) = compactPurgedProjectTombstone p"
  "compactPurgedProjectForLocalStorage (compactPurgedProjectForLocalStorage p) = compactPurgedProjectForLocalStorage p"
  by (simp_all add: compact_defs)

lemma compacted_local_task: "\<not> hasUncompactedPurgedTaskTombstone (compactPurgedTaskForLocalStorage t) b"
  using no_values_outside_self[OF distinct_fields(1)]
  by (simp add: hasUncompactedPurgedTaskTombstone_def Let_def)

lemma compacted_local_project:
  "\<not> hasUncompactedPurgedProjectTombstone (compactPurgedProjectForLocalStorage p) b"
  using no_values_outside_self[OF distinct_fields(2)]
  by (simp add: hasUncompactedPurgedProjectTombstone_def Let_def)

lemma compact_section_idem:
  "compact_section projects b (compact_section projects c s) = compact_section projects c s"
proof (cases "purged_projects projects (s_projectId s)")
  case None
  then show ?thesis by (simp add: compact_section_def)
next
  case (Some purged)
  let ?c = "compactPurgedProjectSectionTombstone s purged"
  have stable: "compact_section projects b x = x"
    if "x = ?c \<or> x = ?c\<lparr>rev := r, revBy := rb\<rparr>" for x r rb
  proof -
    have x: "compactPurgedProjectSectionTombstone x purged = x" "s_projectId x = s_projectId s"
      using that by (auto simp: compactPurgedProjectSectionTombstone_def)
    then show ?thesis
      using Some no_values_outside_self[OF distinct_fields(3)[of x]]
      by (simp add: compact_section_def Let_def)
  qed
  have "compact_section projects c s = ?c \<or>
      compact_section projects c s = ?c\<lparr>rev := Some (nextRev (rev s)), revBy := Some SYNC_REPAIR_REV_BY\<rparr>"
    using Some by (simp add: compact_section_def Let_def)
  then show ?thesis by (rule stable)
qed

text \<open>
  Tombstone compaction settles after one pass: the locally stored form of a purged task
  or project is not reported as uncompacted again, and a second pass over the sections of
  purged projects changes nothing, in particular it takes no further revision bump.
\<close>

theorem compaction_settles:
  "\<not> hasUncompactedPurgedTaskTombstone (compactPurgedTaskForLocalStorage t) preserve
   \<and> \<not> hasUncompactedPurgedProjectTombstone (compactPurgedProjectForLocalStorage p) preserve
   \<and> compactSectionsForPurgedProjects (compactSectionsForPurgedProjects sections projects c) projects b
     = compactSectionsForPurgedProjects sections projects c"
  by (simp add: compacted_local_task compacted_local_project compactSectionsForPurgedProjects_def
      compact_section_idem)

end
