(* ===== verification/JsObject.thy ===== *)
theory JsObject
  imports Signatures
begin

text \<open>
  Operations of the language on values of unknown shape: own enumerable properties, optional
  chaining, truthiness, \<open>===\<close> between values that share no object, and the deep comparison
  \<open>isDeepJsonEqual\<close> of \<open>sync-helpers.ts\<close>. No property is called like one of the prototype's.
\<close>

type_synonym js_object = "(string \<times> json) list"

definition isRecord :: "json \<Rightarrow> bool" where
  "isRecord v = (case v of JObj kvs \<Rightarrow> True | _ \<Rightarrow> False)"

text \<open>\<open>v?.k\<close>, which is \<open>undefined\<close> on everything but an object.\<close>

definition member :: "json \<Rightarrow> string \<Rightarrow> json" where
  "member v k = (case v of JObj kvs \<Rightarrow> obj_get k kvs | _ \<Rightarrow> JUndef)"

text \<open>\<open>Object.entries\<close> and the source of a spread: arrays and strings have their indices.\<close>

definition indexed :: "json list \<Rightarrow> js_object" where
  "indexed vs = zip (map show_nat [0..<length vs]) vs"

definition own_entries :: "json \<Rightarrow> js_object" where
  "own_entries v = (case v of
      JObj kvs \<Rightarrow> kvs
    | JArr vs \<Rightarrow> indexed vs
    | JStr s \<Rightarrow> indexed (map (\<lambda>c. JStr [c]) s)
    | _ \<Rightarrow> [])"

definition js_truthy :: "json \<Rightarrow> bool" where
  "js_truthy v = (case v of
      JUndef \<Rightarrow> False | JNull \<Rightarrow> False | JBool b \<Rightarrow> b | JNum n \<Rightarrow> n \<noteq> 0
    | JNonInt t \<Rightarrow> t \<noteq> ''null'' | JStr s \<Rightarrow> s \<noteq> [] | JArr vs \<Rightarrow> True | JObj kvs \<Rightarrow> True)"

definition nullish_or :: "json \<Rightarrow> json \<Rightarrow> json" where
  "nullish_or v d = (if is_nullish v then d else v)"

text \<open>\<open>===\<close> between a value and one that is no alias of it.\<close>

definition strict_eq :: "json \<Rightarrow> json \<Rightarrow> bool" where
  "strict_eq a b = (a = b \<and> (case a of JArr vs \<Rightarrow> False | JObj kvs \<Rightarrow> False | _ \<Rightarrow> True))"

definition is_bool :: "json \<Rightarrow> bool" where
  "is_bool v = (case v of JBool b \<Rightarrow> True | _ \<Rightarrow> False)"

definition is_number :: "json \<Rightarrow> bool" where
  "is_number v = (case v of JNum n \<Rightarrow> True | JNonInt t \<Rightarrow> True | _ \<Rightarrow> False)"

definition is_string :: "json \<Rightarrow> bool" where
  "is_string v = (case v of JStr s \<Rightarrow> True | _ \<Rightarrow> False)"

definition is_array :: "json \<Rightarrow> bool" where
  "is_array v = (case v of JArr vs \<Rightarrow> True | _ \<Rightarrow> False)"

definition str_of :: "json \<Rightarrow> string option" where
  "str_of v = (case v of JStr s \<Rightarrow> Some s | _ \<Rightarrow> None)"

definition isNonEmptyString :: "json \<Rightarrow> bool" where
  "isNonEmptyString v = (case v of JStr s \<Rightarrow> js_trim s \<noteq> [] | _ \<Rightarrow> False)"

definition isValidTimestamp :: "json \<Rightarrow> bool" where
  "isValidTimestamp v = (case v of JStr s \<Rightarrow> date_parse s \<noteq> None | _ \<Rightarrow> False)"

text \<open>The text of a value converted by \<open>String(v)\<close>.\<close>

fun to_text :: "json \<Rightarrow> string" where
  "to_text JUndef = ''undefined''"
| "to_text JNull = ''null''"
| "to_text (JBool b) = (if b then ''true'' else ''false'')"
| "to_text (JNum n) = show_int n"
| "to_text (JNonInt t) = t"
| "to_text (JStr s) = s"
| "to_text (JArr vs) = comma_sep (map (\<lambda>v. if is_nullish v then [] else to_text v) vs)"
| "to_text (JObj kvs) = ''[object Object]''"

subsection \<open>Numbers that are not whole\<close>

text \<open>
  A finite fraction is read from its printed form: \<open>\<lfloor>\<bar>x\<bar>\<rfloor>\<close> is the number before the point,
  and zero when the form has an exponent, which is then negative.
\<close>

definition is_finite_number :: "json \<Rightarrow> bool" where
  "is_finite_number v = (case v of JNum n \<Rightarrow> True | JNonInt t \<Rightarrow> t \<noteq> ''null'' | _ \<Rightarrow> False)"

fun whole_part :: "int \<Rightarrow> string \<Rightarrow> int" where
  "whole_part n [] = n"
| "whole_part n (c # cs) = (case digit_of c of None \<Rightarrow> n | Some d \<Rightarrow> whole_part (10 * n + d) cs)"

definition abs_text :: "string \<Rightarrow> string" where
  "abs_text t = (if starts_with ''-'' t then tl t else t)"

definition magnitude :: "string \<Rightarrow> int" where
  "magnitude t = (if CHR ''e'' \<in> set t then 0 else whole_part 0 (abs_text t))"

definition js_floor :: "json \<Rightarrow> int" where
  "js_floor v = (case v of
      JNum n \<Rightarrow> n
    | JNonInt t \<Rightarrow> if starts_with ''-'' t then - magnitude t - 1 else magnitude t
    | _ \<Rightarrow> 0)"

fun first_decimal :: "string \<Rightarrow> int" where
  "first_decimal (c # d # cs) = (if c = CHR ''.'' then or_else (digit_of d) 0 else first_decimal (d # cs))"
| "first_decimal _ = 0"

text \<open>The fraction is exactly one half when its only decimal is a five.\<close>

definition js_round :: "json \<Rightarrow> int" where
  "js_round v = (case v of
      JNum n \<Rightarrow> n
    | JNonInt t \<Rightarrow>
        (let up = (CHR ''e'' \<notin> set t \<and> 5 \<le> first_decimal t);
             half = (drop (length t - 2) t = ''.5'')
         in if starts_with ''-'' t then - (magnitude t + (if up \<and> \<not> half then 1 else 0))
            else magnitude t + (if up then 1 else 0))
    | _ \<Rightarrow> 0)"

definition is_whole_number :: "json \<Rightarrow> bool" where
  "is_whole_number v = (case v of JNum n \<Rightarrow> True | _ \<Rightarrow> False)"

subsection \<open>Deep equality\<close>

definition defined_fields :: "js_object \<Rightarrow> nat" where
  "defined_fields kvs = length (filter (\<lambda>kv. snd kv \<noteq> JUndef) kvs)"

function isDeepJsonEqual :: "json \<Rightarrow> json \<Rightarrow> bool" where
  "isDeepJsonEqual (JArr xs) r =
     (case r of JArr ys \<Rightarrow> length xs = length ys \<and> (\<forall>xy\<in>set (zip xs ys). isDeepJsonEqual (fst xy) (snd xy)) | _ \<Rightarrow> False)"
| "isDeepJsonEqual (JObj ls) r =
     (case r of
        JObj rs \<Rightarrow> (\<forall>kv\<in>set ls.
            if snd kv = JUndef then obj_get (fst kv) rs = JUndef
            else isDeepJsonEqual (snd kv) (obj_get (fst kv) rs))
          \<and> defined_fields ls = defined_fields rs
      | _ \<Rightarrow> False)"
| "isDeepJsonEqual JUndef r = (r = JUndef)"
| "isDeepJsonEqual JNull r = (r = JNull)"
| "isDeepJsonEqual (JBool b) r = (r = JBool b)"
| "isDeepJsonEqual (JNum n) r = (r = JNum n)"
| "isDeepJsonEqual (JNonInt t) r = (r = JNonInt t)"
| "isDeepJsonEqual (JStr s) r = (r = JStr s)"
  by pat_completeness auto
termination
proof (relation "measure (size \<circ> fst)", goal_cases)
  case (2 xs r ys xy)
  then have "fst xy \<in> set xs" by (cases xy) (auto dest: set_zip_leftD)
  then have "size (fst xy) \<le> size_list size xs" by (rule size_list_estimation') simp
  then show ?case by simp
next
  case (3 ls r rs kv)
  then have "size_prod (\<lambda>_. 0) size kv \<le> size_list (size_prod (\<lambda>_. 0) size) ls"
    by (intro size_list_estimation') auto
  then show ?case by (cases kv) simp
qed simp

subsection \<open>Rules\<close>

lemma obj_get_set: "obj_get k (obj_set k' v o1) = (if k = k' then v else obj_get k o1)"
  by (simp add: obj_get_def map_of_obj_set)

lemma obj_get_delete: "obj_get k (obj_delete k' o1) = (if k = k' then JUndef else obj_get k o1)"
  by (induction o1) (auto simp: obj_get_def obj_delete_def)

lemma obj_get_Cons: "obj_get k ((k', v) # o1) = (if k = k' then v else obj_get k o1)"
  by (simp add: obj_get_def)

lemma obj_get_Nil [simp]: "obj_get k [] = JUndef"
  by (simp add: obj_get_def)

lemma member_JObj [simp]: "member (JObj kvs) k = obj_get k kvs"
  by (simp add: member_def)

lemma member_absent [simp]: "member JUndef k = JUndef" "member JNull k = JUndef"
  by (simp_all add: member_def)

lemma obj_get_spread_last:
  "obj_get k (obj_spread o1 (upd @ [(k', v)])) = (if k = k' then v else obj_get k (obj_spread o1 upd))"
  by (simp add: obj_spread_def obj_get_set)

lemma obj_get_spread_Nil [simp]: "obj_spread o1 [] = o1"
  by (simp add: obj_spread_def)

lemma obj_spread_Cons: "obj_spread o1 ((k, v) # upd) = obj_spread (obj_set k v o1) upd"
  by (simp add: obj_spread_def)

lemma obj_get_spread_other:
  "k \<notin> fst ` set upd \<Longrightarrow> obj_get k (obj_spread o1 upd) = obj_get k o1"
  by (induction upd arbitrary: o1) (auto simp: obj_spread_Cons obj_get_set)

lemmas obj_simps = obj_get_set obj_get_delete obj_get_Cons obj_spread_Cons

end
