(* ===== verification/AppData.thy ===== *)
theory AppData
  imports MergeLoop Compaction JsObject
begin

text \<open>
  The document (\<open>AppData\<close> of \<open>types.ts\<close>). The settings keep their stored object in \<open>st_object\<close>, but
  for the device's own bookkeeping of synchronisation, which no settings merge touches and which has
  typed fields: \<open>st_pendingRemoteDeletes\<close> is \<open>attachments.pendingRemoteDeletes\<close>. The merge
  statistics (\<open>MergeStats\<close>) and the sync history entry are here because the settings hold them.
\<close>

record pending_delete =
  pd_cloudKey :: string
  pd_title :: "string option"
  pd_attempts :: "int option"
  pd_lastErrorAt :: "string option"

record merge_stats =
  ms_tasks :: entity_stats
  ms_projects :: entity_stats
  ms_sections :: entity_stats
  ms_areas :: entity_stats
  ms_people :: "entity_stats option"
  ms_tombstoneRepairs :: nat

datatype sync_status = Idle | Syncing | Success | SyncError | Conflict

record history_entry =
  he_at :: string
  he_status :: sync_status
  he_backend :: "string option"
  he_type :: string
  he_conflicts :: nat
  he_conflictIds :: "string list"
  he_maxClockSkewMs :: int
  he_timestampAdjustments :: nat
  he_details :: "string option"

record settings =
  st_pendingRemoteDeletes :: "pending_delete list option"
  st_lastSyncAt :: "string option"
  st_lastSyncStatus :: "sync_status option"
  st_lastSyncError :: "string option"
  st_pendingRemoteWriteAt :: "string option"
  st_pendingRemoteWriteRetryAt :: "string option"
  st_pendingRemoteWriteAttempts :: "int option"
  st_lastSyncStats :: "merge_stats option"
  st_lastSyncHistory :: "history_entry list option"
  st_object :: js_object

record app_data =
  ad_tasks :: "task list"
  ad_projects :: "project list"
  ad_sections :: "section1 list"
  ad_areas :: "area list"
  ad_people :: "person list option"
  ad_settings :: settings

definition empty_settings :: settings where
  "empty_settings = \<lparr>st_pendingRemoteDeletes = None, st_lastSyncAt = None,
     st_lastSyncStatus = None, st_lastSyncError = None, st_pendingRemoteWriteAt = None,
     st_pendingRemoteWriteRetryAt = None, st_pendingRemoteWriteAttempts = None,
     st_lastSyncStats = None, st_lastSyncHistory = None, st_object = []\<rparr>"

text \<open>\<open>settings.gtd?.k\<close>, \<open>settings.syncPreferencesUpdatedAt?.gtd\<close>, and writing both.\<close>

definition gtd_setting :: "settings \<Rightarrow> string \<Rightarrow> json" where
  "gtd_setting st k = member (obj_get ''gtd'' (st_object st)) k"

definition gtd_updated_at :: "settings \<Rightarrow> string option" where
  "gtd_updated_at st = str_of (member (obj_get ''syncPreferencesUpdatedAt'' (st_object st)) ''gtd'')"

definition with_gtd_setting :: "string \<Rightarrow> json \<Rightarrow> string \<Rightarrow> settings \<Rightarrow> settings" where
  "with_gtd_setting k v stamp st =
     st\<lparr>st_object := obj_spread (st_object st)
        [(''gtd'', JObj (obj_set k v (own_entries (obj_get ''gtd'' (st_object st))))),
         (''syncPreferencesUpdatedAt'',
            JObj (obj_set ''gtd'' (JStr stamp) (own_entries (obj_get ''syncPreferencesUpdatedAt'' (st_object st)))))]\<rparr>"

definition empty_data :: app_data where
  "empty_data = \<lparr>ad_tasks = [], ad_projects = [], ad_sections = [], ad_areas = [],
     ad_people = None, ad_settings = empty_settings\<rparr>"

end
