(* ===== verification/SyncNormalize.thy ===== *)
theory SyncNormalize
  imports AppData
begin

text \<open>
  The per-entity normalisers of \<open>sync-normalization.ts\<close> that run on both sides before a merge,
  with the attachment sanitisers (also the copy in \<open>sync.ts\<close> with its larger limit), the
  name normalisers of \<open>people.ts\<close> and the digest test of \<open>attachment-hash.ts\<close>. A typed
  document holds booleans, numbers and strings of the declared types; the readings of
  other shapes the code tolerates (a boxed boolean, a non-array) do not arise.
\<close>

subsection \<open>Traversal segments\<close>

text \<open>
  The pattern asks for \<open>..\<close> between separators or string ends: a segment equal to \<open>..\<close>.
\<close>

definition has_dotdot :: "string \<Rightarrow> bool" where
  "has_dotdot s = (''..'' \<in> set (split_on (CHR ''/'') (map (\<lambda>c. if c = CHR 0x5C then CHR ''/'' else c) s)))"

definition enqueue :: "string list \<Rightarrow> string \<Rightarrow> string list" where
  "enqueue queue candidate =
     (if candidate = [] \<or> candidate \<in> set queue then queue else queue @ [candidate])"

definition enqueue_opt :: "string list \<Rightarrow> string option \<Rightarrow> string list" where
  "enqueue_opt queue v = (case v of None \<Rightarrow> queue | Some c \<Rightarrow> enqueue queue c)"

definition is_letter :: "char \<Rightarrow> bool" where
  "is_letter c = (let n = byte c in (65 \<le> n \<and> n \<le> 90) \<or> (97 \<le> n \<and> n \<le> 122))"

definition is_digit_char :: "char \<Rightarrow> bool" where
  "is_digit_char c = (48 \<le> byte c \<and> byte c \<le> 57)"

text \<open>\<open>/^[A-Za-z][A-Za-z0-9+.-]*:/\<close>.\<close>

definition has_scheme :: "string \<Rightarrow> bool" where
  "has_scheme s =
     (case s of [] \<Rightarrow> False
      | c # r \<Rightarrow> is_letter c \<and>
          (case dropWhile (\<lambda>d. is_letter d \<or> is_digit_char d \<or> d \<in> set ''+.-'') r of
             [] \<Rightarrow> False | d # _ \<Rightarrow> d = CHR '':''))"

definition enqueue_decoded :: "string list \<Rightarrow> string \<Rightarrow> string list" where
  "enqueue_decoded queue current =
     (case decodeURIComponent current of None \<Rightarrow> queue
      | Some d \<Rightarrow> if d \<noteq> current then enqueue queue d else queue)"

definition expand_candidate :: "host \<Rightarrow> string list \<Rightarrow> string \<Rightarrow> string list" where
  "expand_candidate h queue current =
     (let q1 = enqueue_decoded queue current; trimmed = js_trim current
      in if starts_with ''//'' trimmed then enqueue_opt q1 (urlPathname h (''file:'' @ trimmed))
         else if has_scheme trimmed then enqueue_opt q1 (urlPathname h trimmed)
         else q1)"

text \<open>The loop from \<open>index\<close>, with \<open>n\<close> rounds left below the limit.\<close>

fun scan_candidates :: "host \<Rightarrow> nat \<Rightarrow> nat \<Rightarrow> string list \<Rightarrow> string list" where
  "scan_candidates h 0 index queue = queue"
| "scan_candidates h (Suc n) index queue =
     (if index < length queue
      then scan_candidates h n (Suc index) (expand_candidate h queue (queue ! index))
      else queue)"

definition containsAttachmentTraversalSegment :: "host \<Rightarrow> nat \<Rightarrow> string \<Rightarrow> bool" where
  "containsAttachmentTraversalSegment h limit value =
     list_ex has_dotdot (scan_candidates h limit 0 [value])"

definition NORMALIZE_DECODE_LIMIT :: nat where "NORMALIZE_DECODE_LIMIT = 4"
definition MERGE_DECODE_LIMIT :: nat where "MERGE_DECODE_LIMIT = 32"

definition sanitize_uri :: "host \<Rightarrow> nat \<Rightarrow> string option \<Rightarrow> string option" where
  "sanitize_uri h limit value =
     (case value of None \<Rightarrow> None
      | Some s \<Rightarrow>
          (let trimmed = js_trim s
           in if trimmed = [] \<or> CHR 0x00 \<in> set trimmed then None
              else if containsAttachmentTraversalSegment h limit trimmed then None
              else Some trimmed))"

definition sanitizeAttachmentUriForSyncMerge :: "host \<Rightarrow> string option \<Rightarrow> string option" where
  "sanitizeAttachmentUriForSyncMerge h value = sanitize_uri h NORMALIZE_DECODE_LIMIT value"

definition sanitizeMergedAttachmentUri :: "host \<Rightarrow> string option \<Rightarrow> string option" where
  "sanitizeMergedAttachmentUri h value = sanitize_uri h MERGE_DECODE_LIMIT value"

text \<open>\<open>ATTACHMENT_CLOUD_KEY_PATTERN\<close>.\<close>

definition is_alnum :: "char \<Rightarrow> bool" where "is_alnum c = (is_letter c \<or> is_digit_char c)"

definition key_name :: "string \<Rightarrow> bool" where
  "key_name s = (s \<noteq> [] \<and> is_alnum (hd s) \<and> list_all (\<lambda>c. is_alnum c \<or> c \<in> set ''_-'') (tl s))"

definition key_extension :: "string \<Rightarrow> bool" where
  "key_extension s = (s \<noteq> [] \<and> is_alnum (hd s) \<and> length (tl s) \<le> 127
     \<and> list_all (\<lambda>c. is_alnum c \<or> c \<in> set ''._-'') (tl s))"

definition is_cloud_key :: "string \<Rightarrow> bool" where
  "is_cloud_key s =
     ((starts_with ''attachments/'' s \<and>
        (let r = drop 12 s; name = takeWhile (\<lambda>c. c \<noteq> CHR ''.'') r; rest = dropWhile (\<lambda>c. c \<noteq> CHR ''.'') r
         in key_name name \<and> (rest = [] \<or> key_extension (tl rest))))
      \<or> (starts_with ''cloudkit:'' s \<and> key_name (drop 9 s)))"

definition sanitizeAttachmentCloudKeyForSyncMerge :: "host \<Rightarrow> string option \<Rightarrow> string option" where
  "sanitizeAttachmentCloudKeyForSyncMerge h value =
     (case sanitize_uri h NORMALIZE_DECODE_LIMIT value of None \<Rightarrow> None
      | Some trimmed \<Rightarrow> if is_cloud_key trimmed then Some trimmed else None)"

definition isSha256Hex :: "string option \<Rightarrow> bool" where
  "isSha256Hex value = (case value of None \<Rightarrow> False
     | Some s \<Rightarrow> length s = 64 \<and> list_all (\<lambda>c. hex_value c \<noteq> None) s)"

definition sanitizeAttachmentFileHashForSyncMerge :: "string option \<Rightarrow> string option" where
  "sanitizeAttachmentFileHashForSyncMerge value = (if isSha256Hex value then value else None)"

definition sanitize_attachment :: "host \<Rightarrow> attachment \<Rightarrow> attachment" where
  "sanitize_attachment h a =
     (if at_kind a \<noteq> FileKind then a
      else a\<lparr>at_uri := or_else (sanitizeAttachmentUriForSyncMerge h (Some (at_uri a))) [],
             at_cloudKey := sanitizeAttachmentCloudKeyForSyncMerge h (at_cloudKey a),
             at_fileHash := sanitizeAttachmentFileHashForSyncMerge (at_fileHash a)\<rparr>)"

definition normalizeAttachmentsForSyncMerge :: "host \<Rightarrow> attachment list option \<Rightarrow> attachment list option" where
  "normalizeAttachmentsForSyncMerge h attachments = map_option (map (sanitize_attachment h)) attachments"

subsection \<open>Revision metadata\<close>

definition normalizeRevisionMetadata :: "'a mergeable_scheme \<Rightarrow> 'a mergeable_scheme" where
  "normalizeRevisionMetadata item =
     item\<lparr>rev := (if isValidRevision (j_num (rev item)) then Some (normalizeRevision (j_num (rev item))) else None),
          revBy := (case revBy item of None \<Rightarrow> None
            | Some s \<Rightarrow> (let trimmed = js_trim s in if trimmed \<noteq> [] then Some trimmed else None))\<rparr>"

lemma revision_metadata_idem [simp]:
  "normalizeRevisionMetadata (normalizeRevisionMetadata x) = normalizeRevisionMetadata x"
proof -
  have "normalizeRevision (j_num (Some (normalizeRevision v))) = normalizeRevision v"
    "isValidRevision (j_num (Some (normalizeRevision v)))" for v
    using normalizeRevision_bounds[of v] by (simp_all add: j_num_def j_opt_def isValidRevision_def)
  moreover have "\<not> isValidRevision (j_num None)" by (simp add: j_num_def j_opt_def isValidRevision_def)
  ultimately show ?thesis
    by (auto simp: normalizeRevisionMetadata_def Let_def split: option.splits)
qed

subsection \<open>Entities\<close>

definition normalizeSectionForSyncMerge :: "section1 \<Rightarrow> section1" where
  "normalizeSectionForSyncMerge s =
     (if s_deletedAtBeforeProjectArchive s = Some None
      then s\<lparr>s_deletedAtBeforeProjectArchive := None\<rparr> else s)"

text \<open>\<open>v ?? undefined\<close> on a field that may be \<open>null\<close>.\<close>

definition absent_if_null :: "'a option option \<Rightarrow> 'a option option" where
  "absent_if_null v = (if v = Some None then None else v)"

definition normalizeSyncedBoolean :: "bool option \<Rightarrow> bool" where
  "normalizeSyncedBoolean v = (v = Some True)"

definition normalizeTaskForSyncMerge :: "host \<Rightarrow> string \<Rightarrow> bool \<Rightarrow> task \<Rightarrow> task" where
  "normalizeTaskForSyncMerge h nowIso preserveLocalCleanupMetadata t =
     (if truthy (t_purgedAt t) then
        (let compacted = (if preserveLocalCleanupMetadata then compactPurgedTaskForLocalStorage t
               else compactPurgedTaskTombstone t)
         in if hasUncompactedPurgedTaskTombstone t preserveLocalCleanupMetadata
            then compacted\<lparr>rev := Some (nextRev (rev t)), revBy := Some SYNC_REPAIR_REV_BY\<rparr>
            else compacted)
      else
        (let n = normalizeTaskForLoad h nowIso t
         in n\<lparr>t_attachments := normalizeAttachmentsForSyncMerge h (t_attachments n),
              t_sectionId := nonblank_opt (t_sectionId n),
              t_isFocusedToday := Some (normalizeSyncedBoolean (t_isFocusedToday n)),
              t_showFutureRecurrence :=
                (if t_recurrence n \<noteq> None \<and> normalizeSyncedBoolean (t_showFutureRecurrence n)
                 then Some True else None),
              t_suppressMindwtrReminders := Some (normalizeSyncedBoolean (t_suppressMindwtrReminders n)),
              t_archivedAt := nonblank_opt (t_archivedAt n),
              t_completedAtBeforeProjectArchive := absent_if_null (t_completedAtBeforeProjectArchive n),
              t_isFocusedTodayBeforeProjectArchive :=
                absent_if_null (t_isFocusedTodayBeforeProjectArchive n)\<rparr>))"

definition normalizeProjectForSyncMerge :: "host \<Rightarrow> bool \<Rightarrow> project \<Rightarrow> project" where
  "normalizeProjectForSyncMerge h preserveLocalCleanupMetadata p =
     (if truthy (p_purgedAt p) then
        (let compacted = (if preserveLocalCleanupMetadata then compactPurgedProjectForLocalStorage p
               else compactPurgedProjectTombstone p)
         in if hasUncompactedPurgedProjectTombstone p preserveLocalCleanupMetadata
            then compacted\<lparr>rev := Some (nextRev (rev p)), revBy := Some SYNC_REPAIR_REV_BY\<rparr>
            else compacted)
      else normalizeProjectLifecycleFields
        (p\<lparr>p_color := or_else (nonblank_opt (Some (p_color p))) ''#6B7280'',
           p_isSequential := Some (normalizeSyncedBoolean (p_isSequential p)),
           p_sequentialScope := normalizeProjectSequentialScope (p_sequentialScope p),
           p_taskSortBy := normalizeProjectTaskSortBy (p_taskSortBy p),
           p_isFocused := Some (normalizeSyncedBoolean (p_isFocused p)),
           p_attachments := normalizeAttachmentsForSyncMerge h (p_attachments p),
           p_dueDate := nonblank_opt (p_dueDate p), p_startDate := nonblank_opt (p_startDate p),
           p_reviewAt := nonblank_opt (p_reviewAt p), p_cancelledAt := nonblank_opt (p_cancelledAt p),
           p_archivedAt := nonblank_opt (p_archivedAt p), p_areaId := nonblank_opt (p_areaId p),
           p_areaTitle := nonblank_opt (p_areaTitle p)\<rparr>))"

definition stamp_or :: "string \<Rightarrow> string \<Rightarrow> string \<Rightarrow> string" where
  "stamp_or first second nowIso =
     or_else (js_nullish (nonblank_opt (Some first)) (nonblank_opt (Some second))) nowIso"

definition normalizeAreaForSyncMerge :: "string \<Rightarrow> area \<Rightarrow> area" where
  "normalizeAreaForSyncMerge nowIso a =
     a\<lparr>a_color := nonblank_opt (a_color a), a_icon := nonblank_opt (a_icon a),
       createdAt := stamp_or (createdAt a) (updatedAt a) nowIso,
       updatedAt := stamp_or (updatedAt a) (createdAt a) nowIso\<rparr>"

text \<open>\<open>value.trim().replace(/\s+/g, ' ')\<close>.\<close>

function collapse_ws :: "string \<Rightarrow> string" where
  "collapse_ws [] = []"
| "collapse_ws (c # r) =
     (if is_ws c then CHR '' '' # collapse_ws (dropWhile is_ws r) else c # collapse_ws r)"
  by pat_completeness auto
termination
  by (relation "measure length") (auto simp: less_Suc_eq_le length_dropWhile_le)

definition normalizePersonName :: "string \<Rightarrow> string" where
  "normalizePersonName value = collapse_ws (js_trim value)"

definition normalizeOptionalString :: "string option \<Rightarrow> string option" where
  "normalizeOptionalString value =
     (case value of None \<Rightarrow> None
      | Some s \<Rightarrow> (let trimmed = js_trim s in if trimmed = [] then None else Some trimmed))"

definition normalizePersonNote :: "string option \<Rightarrow> string option" where
  "normalizePersonNote value = normalizeOptionalString value"

definition normalizePersonReferenceLink :: "string option \<Rightarrow> string option" where
  "normalizePersonReferenceLink value =
     (case normalizeOptionalString value of None \<Rightarrow> None
      | Some s \<Rightarrow> if CHR 0x00 \<in> set s then None else Some s)"

definition normalizePersonForSyncMerge :: "string \<Rightarrow> person \<Rightarrow> person" where
  "normalizePersonForSyncMerge nowIso p =
     p\<lparr>pe_name := normalizePersonName (pe_name p), pe_note := normalizePersonNote (pe_note p),
       pe_referenceLink := normalizePersonReferenceLink (pe_referenceLink p),
       createdAt := stamp_or (createdAt p) (updatedAt p) nowIso,
       updatedAt := stamp_or (updatedAt p) (createdAt p) nowIso\<rparr>"

subsection \<open>Sanitised attachment URIs\<close>

text \<open>Each round appends to the queue.\<close>

lemma enqueue_appends: "\<exists>zs. enqueue queue c = queue @ zs"
  by (simp add: enqueue_def)

lemma decoded_appends: "\<exists>zs. enqueue_decoded queue c = queue @ zs"
  using enqueue_appends by (simp add: enqueue_decoded_def split: option.split)

lemma expand_appends: "\<exists>zs. expand_candidate h queue c = enqueue_decoded queue c @ zs"
  using enqueue_appends by (simp add: expand_candidate_def enqueue_opt_def Let_def split: option.split)

lemma expand_keeps: "set queue \<subseteq> set (expand_candidate h queue c)"
proof -
  obtain ys zs where "expand_candidate h queue c = queue @ ys @ zs"
    using expand_appends[of h queue c] decoded_appends[of queue c] by auto
  then show ?thesis by simp
qed

lemma expand_decoded:
  assumes "decodeURIComponent c = Some d"
  shows "d = [] \<or> d = c \<or> d \<in> set (expand_candidate h queue c)"
proof -
  have "d = [] \<or> d = c \<or> d \<in> set (enqueue_decoded queue c)"
    by (simp add: assms enqueue_decoded_def enqueue_def)
  then show ?thesis using expand_appends[of h queue c] by auto
qed

lemma scan_keeps: "set queue \<subseteq> set (scan_candidates h n i queue)"
proof (induction n arbitrary: i queue)
  case 0
  then show ?case by simp
next
  case (Suc n)
  then show ?case using expand_keeps[of queue h "queue ! i"] by (auto dest: subsetD)
qed

lemma scan_first:
  "scan_candidates h (Suc n) 0 [v] = scan_candidates h n 1 (expand_candidate h [v] v)"
  by simp

text \<open>The candidate decoded first is the second in the queue, so it is decoded too.\<close>

lemma expand_single:
  "decodeURIComponent v = Some d \<Longrightarrow> d \<noteq> [] \<Longrightarrow> d \<noteq> v \<Longrightarrow>
   1 < length (expand_candidate h [v] v) \<and> expand_candidate h [v] v ! 1 = d"
  using expand_appends[of h "[v]" v] by (auto simp: enqueue_decoded_def enqueue_def)

lemma has_dotdot_Nil: "\<not> has_dotdot []"
  by (simp add: has_dotdot_def)

lemma sanitized_no_candidate:
  "sanitize_uri h n v = Some u \<Longrightarrow> c \<in> set (scan_candidates h n 0 [u]) \<Longrightarrow> \<not> has_dotdot c"
  by (auto simp: sanitize_uri_def containsAttachmentTraversalSegment_def list_ex_iff Let_def
      split: option.splits if_splits)

lemma sanitized_decoded:
  assumes "sanitize_uri h (Suc (Suc n)) v = Some u"
  shows "\<not> has_dotdot u"
    and "decodeURIComponent u = Some d \<Longrightarrow> \<not> has_dotdot d"
    and "decodeURIComponent u = Some d \<Longrightarrow> decodeURIComponent d = Some e \<Longrightarrow> \<not> has_dotdot e"
proof -
  let ?q = "expand_candidate h [u] u"
  have scan: "set ?q \<subseteq> set (scan_candidates h (Suc (Suc n)) 0 [u])"
    unfolding scan_first by (rule scan_keeps)
  then have in_q: "c \<in> set ?q \<Longrightarrow> \<not> has_dotdot c" for c
    using sanitized_no_candidate[OF assms] by blast
  show u: "\<not> has_dotdot u" using in_q expand_keeps[of "[u]" h u] by auto
  show d: "\<not> has_dotdot d" if "decodeURIComponent u = Some d"
    using expand_decoded[OF that, of h "[u]"] in_q u has_dotdot_Nil by auto
  show "\<not> has_dotdot e" if "decodeURIComponent u = Some d" "decodeURIComponent d = Some e"
  proof (cases "d = [] \<or> d = u")
    case True
    have nil: "decodeURIComponent [] = Some []" by simp
    from True that d nil has_dotdot_Nil show ?thesis by auto
  next
    case False
    then have one: "1 < length ?q" "?q ! 1 = d" using expand_single[OF that(1)] by auto
    then have "scan_candidates h (Suc (Suc n)) 0 [u] = scan_candidates h n 2 (expand_candidate h ?q d)"
      unfolding scan_first by (simp add: numeral_2_eq_2)
    then have "c \<in> set (expand_candidate h ?q d) \<Longrightarrow> \<not> has_dotdot c" for c
      using scan_keeps[of "expand_candidate h ?q d" h n 2] sanitized_no_candidate[OF assms] by auto
    then show ?thesis using expand_decoded[OF that(2), of h ?q] d[OF that(1)] has_dotdot_Nil by auto
  qed
qed

lemma normalize_limit: "NORMALIZE_DECODE_LIMIT = Suc (Suc 2)"
  by (simp add: NORMALIZE_DECODE_LIMIT_def)

lemma merge_limit: "MERGE_DECODE_LIMIT = Suc (Suc 30)"
  by (simp add: MERGE_DECODE_LIMIT_def)

lemma sanitize_uri_idem:
  "sanitize_uri h n (sanitize_uri h n v) = sanitize_uri h n v"
  by (auto simp: sanitize_uri_def Let_def split: option.splits)

text \<open>
  C19: an attachment URI or cloud key that survives sanitising, before a merge or inside it, has
  no parent-directory segment, and neither has what one or two percent-decodings of it give.
\<close>

theorem sanitized_uri_has_no_traversal:
  assumes "sanitizeAttachmentUriForSyncMerge h v = Some u \<or> sanitizeMergedAttachmentUri h v = Some u
      \<or> sanitizeAttachmentCloudKeyForSyncMerge h v = Some u"
  shows "\<not> has_dotdot u
       \<and> (\<forall>d. decodeURIComponent u = Some d \<longrightarrow> \<not> has_dotdot d
            \<and> (\<forall>e. decodeURIComponent d = Some e \<longrightarrow> \<not> has_dotdot e))"
proof -
  have "sanitize_uri h NORMALIZE_DECODE_LIMIT v = Some u \<or> sanitize_uri h MERGE_DECODE_LIMIT v = Some u"
    using assms by (auto simp: sanitizeAttachmentUriForSyncMerge_def sanitizeMergedAttachmentUri_def
        sanitizeAttachmentCloudKeyForSyncMerge_def split: option.splits if_splits)
  then show ?thesis
  proof
    assume *: "sanitize_uri h NORMALIZE_DECODE_LIMIT v = Some u"
    show ?thesis using sanitized_decoded[OF *[unfolded normalize_limit]] by blast
  next
    assume *: "sanitize_uri h MERGE_DECODE_LIMIT v = Some u"
    show ?thesis using sanitized_decoded[OF *[unfolded merge_limit]] by blast
  qed
qed

theorem sanitized_uri_has_no_traversal_witness:
  "\<not> has_dotdot ''files/a%20b'' \<and> decodeURIComponent ''files/a%20b'' = Some ''files/a b''
   \<and> \<not> has_dotdot ''files/a b''
   \<and> sanitizeAttachmentUriForSyncMerge sample_host (Some ''files/%2e%2e/x'') = None"
proof -
  have "sanitizeAttachmentUriForSyncMerge sample_host (Some '' files/a%20b '') = Some ''files/a%20b''"
    by code_simp
  moreover have "sanitizeAttachmentUriForSyncMerge sample_host (Some ''files/%2e%2e/x'') = None"
    by code_simp
  moreover have "decodeURIComponent ''files/a%20b'' = Some ''files/a b''" by code_simp
  ultimately show ?thesis
    using sanitized_uri_has_no_traversal[of sample_host "Some '' files/a%20b ''" "''files/a%20b''"] by blast
qed

end
