(* ===== verification/AttachmentMerge.thy ===== *)
theory AttachmentMerge
  imports SyncNormalize
begin

text \<open>
  \<open>mergeAttachments\<close> of \<open>mergeAppDataWithStats\<close> in \<open>sync.ts\<close>: the attachment lists of two copies of a
  task or project are merged by the same loop as every collection, and the winner of each pair
  is completed field by field: its location, its cloud key and the identity of its bytes. The
  two copies handed to the callback are distinct objects, so comparing one of them with the
  winner by identity is comparing sides.
\<close>

subsection \<open>Location and cloud key\<close>

definition normalizeMissingFileStatus :: "local_status option \<Rightarrow> string option \<Rightarrow> local_status option" where
  "normalizeMissingFileStatus status deletedAt1 =
     (if truthy deletedAt1 then status
      else if status = Some Uploading \<or> status = Some Downloading then status
      else Some Missing)"

definition hasAvailableUri :: "host \<Rightarrow> attachment \<Rightarrow> bool" where
  "hasAvailableUri h a =
     (at_kind a = FileKind \<and> at_localStatus a \<noteq> Some Missing
      \<and> truthy (sanitizeMergedAttachmentUri h (Some (at_uri a))))"

text \<open>\<open>preferIn\<close> is the option \<open>preferIncomingAttachmentCloudKeys\<close>.\<close>

definition resolveCloudKey ::
  "bool \<Rightarrow> attachment \<Rightarrow> attachment option \<Rightarrow> attachment option \<Rightarrow> string option" where
  "resolveCloudKey preferIn m l i =
     (let known = js_or (js_or (at_cloudKey m) (Option.bind l at_cloudKey)) (Option.bind i at_cloudKey)
      in if truthy (deletedAt m) then at_cloudKey m
         else case i of
           None \<Rightarrow> known
         | Some inc \<Rightarrow> if preferIn \<and> \<not> truthy (deletedAt inc) then at_cloudKey inc else known)"

definition merged_location :: "host \<Rightarrow> attachment \<Rightarrow> attachment \<Rightarrow> attachment \<Rightarrow> string \<times> local_status option" where
  "merged_location h w l i =
     (let safe = (\<lambda>a. sanitizeMergedAttachmentUri h (Some (at_uri a)));
          here = (\<lambda>a. (if truthy (safe a) then the (safe a) else at_uri a,
                       js_nullish (at_localStatus a) (Some Available)))
      in if hasAvailableUri h w then here w
         else if hasAvailableUri h l then here l
         else if hasAvailableUri h i then here i
         else (or_else (js_or (js_or (safe w) (safe l)) (safe i)) [],
               normalizeMissingFileStatus (at_localStatus w) (deletedAt w)))"

definition settled_status :: "host \<Rightarrow> string \<Rightarrow> local_status option \<Rightarrow> local_status option" where
  "settled_status h uri status =
     (if status = None \<and> truthy (sanitizeMergedAttachmentUri h (Some uri)) then Some Available else status)"

subsection \<open>The identity of the bytes\<close>

record content_identity =
  ci_fileHash :: "string option"
  ci_contentRev :: "int option"
  ci_contentMtimeMs :: "int option"
  ci_contentSize :: "int option"
  ci_pending :: "bool option"

definition content_side :: "side \<Rightarrow> attachment \<Rightarrow> attachment \<Rightarrow> side" where
  "content_side s l i =
     (let lr = or_else (at_contentRev l) 0; ir = or_else (at_contentRev i) 0
      in if lr = ir then s else if lr > ir then LocalSide else IncomingSide)"

definition normalized_hash :: "string option \<Rightarrow> string option" where
  "normalized_hash v = map_option (\<lambda>s. js_lower (js_trim s)) v"

text \<open>\<open>s\<close> is the side of the winner.\<close>

definition resolveContentIdentity :: "side \<Rightarrow> attachment \<Rightarrow> attachment \<Rightarrow> content_identity" where
  "resolveContentIdentity s l i =
     (let w = pick_side s l i in
      if truthy (deletedAt w) then
        \<lparr>ci_fileHash = at_fileHash w, ci_contentRev = at_contentRev w,
         ci_contentMtimeMs = at_contentMtimeMs w, ci_contentSize = at_contentSize w, ci_pending = None\<rparr>
      else
        (let source = pick_side (content_side s l i) l i;
             localPendingCandidateWon = (at_pendingContentUpload l = Some True \<and> content_side s l i = LocalSide);
             fileHash = (if localPendingCandidateWon then at_fileHash l
               else js_or (js_or (at_fileHash source) (at_fileHash l)) (at_fileHash i));
             localHash = normalized_hash (at_fileHash l);
             resolvedHash = normalized_hash fileHash;
             localIdentitySurvived = (or_else (at_contentRev source) 0 = or_else (at_contentRev l) 0
               \<and> ((truthy localHash \<and> resolvedHash = localHash)
                  \<or> (localPendingCandidateWon \<and> \<not> truthy localHash \<and> \<not> truthy resolvedHash)));
             statSource = (if localIdentitySurvived then l else source)
         in \<lparr>ci_fileHash = fileHash, ci_contentRev = at_contentRev source,
             ci_contentMtimeMs = at_contentMtimeMs statSource, ci_contentSize = at_contentSize statSource,
             ci_pending = (if at_pendingContentUpload l = Some True \<and> localIdentitySurvived
                           then Some True else None)\<rparr>))"

subsection \<open>The merge of two lists\<close>

definition merge_attachment :: "host \<Rightarrow> bool \<Rightarrow> attachment \<Rightarrow> attachment \<Rightarrow> side \<Rightarrow> attachment" where
  "merge_attachment h preferIn l i s =
     (let w = pick_side s l i in
      if at_kind w \<noteq> FileKind \<or> at_kind l \<noteq> FileKind \<or> at_kind i \<noteq> FileKind then w
      else
        (let (uri, status) = merged_location h w l i; c = resolveContentIdentity s l i
         in w\<lparr>at_cloudKey := resolveCloudKey preferIn w (Some l) (Some i),
              at_fileHash := ci_fileHash c, at_contentRev := ci_contentRev c,
              at_contentMtimeMs := ci_contentMtimeMs c, at_contentSize := ci_contentSize c,
              at_pendingContentUpload := ci_pending c,
              at_uri := uri, at_localStatus := settled_status h uri status\<rparr>))"

definition attachment_ops :: "host \<Rightarrow> bool \<Rightarrow> attachment merge_ops" where
  "attachment_ops h preferIn =
     \<lparr>mo_view = attachment_json, mo_compare = None,
      mo_conflict = Some (merge_attachment h preferIn), mo_clock = None\<rparr>"

definition file_copy :: "attachment option \<Rightarrow> attachment option" where
  "file_copy v = (case v of Some a \<Rightarrow> if at_kind a = FileKind then Some a else None | None \<Rightarrow> None)"

definition finish_attachment ::
  "host \<Rightarrow> bool \<Rightarrow> attachment list \<Rightarrow> attachment list \<Rightarrow> attachment \<Rightarrow> attachment" where
  "finish_attachment h preferIn local incoming a =
     (if at_kind a \<noteq> FileKind then a
      else
        (let l = file_copy (js_map_of eid local (eid a)); i = file_copy (js_map_of eid incoming (eid a));
             safeUri = sanitizeMergedAttachmentUri h (Some (at_uri a));
             uriAvailable = (truthy safeUri \<and> hasAvailableUri h a)
         in a\<lparr>at_uri := or_else safeUri [],
              at_cloudKey := resolveCloudKey preferIn a l i,
              at_fileHash := (if truthy (deletedAt a) \<or> at_pendingContentUpload a = Some True then at_fileHash a
                else js_or (js_or (at_fileHash a) (Option.bind l at_fileHash)) (Option.bind i at_fileHash)),
              at_localStatus := (if truthy (deletedAt a) then at_localStatus a
                else if uriAvailable then js_nullish (at_localStatus a) (Some Available)
                else normalizeMissingFileStatus (at_localStatus a) (deletedAt a))\<rparr>))"

definition mergeAttachments ::
  "host \<Rightarrow> bool \<Rightarrow> int \<Rightarrow> string \<Rightarrow> attachment list option \<Rightarrow> attachment list option
   \<Rightarrow> attachment list option" where
  "mergeAttachments h preferIn clock nowIso localAttachments incomingAttachments =
     (let hadExplicit = (localAttachments \<noteq> None \<or> incomingAttachments \<noteq> None);
          local = or_else localAttachments []; incoming = or_else incomingAttachments []
      in if local = [] \<and> incoming = [] then (if hadExplicit then Some [] else None)
         else
           (let normalized = map (finish_attachment h preferIn local incoming)
                  (fst (mergeEntitiesWithStats (attachment_ops h preferIn) clock (Some nowIso) local incoming))
            in if normalized \<noteq> [] then Some normalized else if hadExplicit then Some [] else None))"

subsection \<open>No attachment is lost\<close>

lemma merge_attachment_eid: "eid l = eid i \<Longrightarrow> eid (merge_attachment h preferIn l i s) = eid i"
  by (cases s) (simp_all add: merge_attachment_def Let_def split: prod.splits)

lemma attachment_ops_keeps_ids [simp]: "keeps_ids (attachment_ops h preferIn)"
  by (simp add: keeps_ids_def attachment_ops_def merge_attachment_eid)

interpretation att: keyed_merge eid
    "\<lambda>xs ys. fst (mergeEntitiesWithStats (attachment_ops h preferIn) clock nowIso xs ys)"
  for h preferIn clock nowIso
  by unfold_locales (simp add: merged_ids all_ids_def)

lemma finish_attachment_eid [simp]: "eid (finish_attachment h preferIn local incoming a) = eid a"
  by (simp add: finish_attachment_def Let_def)

lemma mergeAttachments_None:
  "mergeAttachments h preferIn clock nowIso l i = None \<longleftrightarrow> l = None \<and> i = None"
  by (cases l; cases i) (simp_all add: mergeAttachments_def Let_def)

lemma mergeAttachments_list:
  "or_else (mergeAttachments h preferIn clock nowIso l i) [] =
   map (finish_attachment h preferIn (or_else l []) (or_else i []))
     (fst (mergeEntitiesWithStats (attachment_ops h preferIn) clock (Some nowIso) (or_else l []) (or_else i [])))"
proof -
  have "fst (mergeEntitiesWithStats (attachment_ops h preferIn) clock (Some nowIso) [] []) = []"
    by (simp add: merged_items all_ids_def)
  then show ?thesis by (simp add: mergeAttachments_def Let_def)
qed

text \<open>
  C20: merging the attachment lists of two copies keeps every attachment of either side, once,
  and yields no list only when neither side has one.
\<close>

theorem merged_attachments_complete:
  "eid ` set (or_else (mergeAttachments h preferIn clock nowIso l i) [])
     = eid ` set (or_else l []) \<union> eid ` set (or_else i [])
   \<and> distinct (map eid (or_else (mergeAttachments h preferIn clock nowIso l i) []))
   \<and> (mergeAttachments h preferIn clock nowIso l i = None \<longleftrightarrow> l = None \<and> i = None)"
  unfolding mergeAttachments_None mergeAttachments_list
  using att.keys_distinct[of h preferIn clock "Some nowIso" "or_else l []" "or_else i []"]
    att.keys_union[of h preferIn clock "Some nowIso" "or_else l []" "or_else i []"]
  by (simp add: image_image comp_def)

subsection \<open>Merged locations are safe\<close>

definition location_ok :: "host \<Rightarrow> attachment \<Rightarrow> bool" where
  "location_ok h a =
     ((at_uri a = [] \<or> sanitizeMergedAttachmentUri h (Some (at_uri a)) = Some (at_uri a))
      \<and> (\<not> truthy (deletedAt a) \<longrightarrow> at_localStatus a \<noteq> None \<and> (at_localStatus a = Some Available \<longrightarrow> at_uri a \<noteq> [])))"

lemma sanitized_again:
  "sanitizeMergedAttachmentUri h v = Some u \<Longrightarrow> sanitizeMergedAttachmentUri h (Some u) = Some u"
  using sanitize_uri_idem[of h MERGE_DECODE_LIMIT v] by (simp add: sanitizeMergedAttachmentUri_def)

lemma sanitized_nonempty: "sanitizeMergedAttachmentUri h v = Some u \<Longrightarrow> u \<noteq> []"
  by (auto simp: sanitizeMergedAttachmentUri_def sanitize_uri_def Let_def split: option.splits if_splits)

lemma finish_attachment_ok:
  assumes "at_kind (finish_attachment h preferIn local incoming a) = FileKind"
  shows "location_ok h (finish_attachment h preferIn local incoming a)"
proof (cases "at_kind a = FileKind")
  case True
  define v where "v = sanitizeMergedAttachmentUri h (Some (at_uri a))"
  show ?thesis
  proof (cases v)
    case None
    with True show ?thesis
      by (simp add: finish_attachment_def location_ok_def Let_def v_def normalizeMissingFileStatus_def)
  next
    case (Some u)
    then have "sanitizeMergedAttachmentUri h (Some u) = Some u" "u \<noteq> []"
      using sanitized_again[of h "Some (at_uri a)" u] sanitized_nonempty[of h "Some (at_uri a)" u]
      by (simp_all add: v_def)
    with True Some show ?thesis
      by (cases "at_localStatus a") (simp_all add: finish_attachment_def location_ok_def Let_def v_def normalizeMissingFileStatus_def)
  qed
next
  case False
  with assms show ?thesis by (simp add: finish_attachment_def)
qed

text \<open>
  C21: every file attachment of a merged list has an empty location or one the sanitiser accepts
  unchanged; a live one has a status, and is never called available without a location.
\<close>

theorem merged_attachments_safe:
  "\<forall>a\<in>set (or_else (mergeAttachments h preferIn clock nowIso l i) []).
     at_kind a = FileKind \<longrightarrow> location_ok h a"
  unfolding mergeAttachments_list using finish_attachment_ok by auto

subsection \<open>A pending local upload\<close>

text \<open>
  The identity of the bytes follows the higher content revision whichever side won the
  record: a live winner takes the revision of the newer side, and this device's pending-upload
  marker survives only where the merge kept the local bytes' revision and digest.
\<close>

theorem content_identity_follows_revision:
  assumes "\<not> truthy (deletedAt (pick_side s l i))"
  shows "or_else (ci_contentRev (resolveContentIdentity s l i)) 0
           = max (or_else (at_contentRev l) 0) (or_else (at_contentRev i) 0)
       \<and> (or_else (at_contentRev i) 0 < or_else (at_contentRev l) 0 \<and> truthy (at_fileHash l)
            \<longrightarrow> ci_fileHash (resolveContentIdentity s l i) = at_fileHash l)
       \<and> (or_else (at_contentRev l) 0 < or_else (at_contentRev i) 0 \<and> truthy (at_fileHash i)
            \<longrightarrow> ci_fileHash (resolveContentIdentity s l i) = at_fileHash i)
       \<and> (ci_pending (resolveContentIdentity s l i) = Some True
            \<longrightarrow> at_pendingContentUpload l = Some True
              \<and> or_else (at_contentRev i) 0 \<le> or_else (at_contentRev l) 0
              \<and> normalized_hash (ci_fileHash (resolveContentIdentity s l i)) = normalized_hash (at_fileHash l))"
proof (cases "or_else (at_contentRev l) 0 = or_else (at_contentRev i) 0")
  case True
  then show ?thesis using assms
    by (cases s) (auto simp: resolveContentIdentity_def content_side_def Let_def js_or_def)
next
  case False
  then show ?thesis using assms
    by (cases s) (auto simp: resolveContentIdentity_def content_side_def Let_def js_or_def)
qed

theorem content_identity_follows_revision_witness:
  "or_else (ci_contentRev (resolveContentIdentity IncomingSide
       ((sample_file ''f1'' ''a.txt'')\<lparr>at_contentRev := Some 2, at_fileHash := Some ''aa''\<rparr>)
       ((sample_file ''f1'' ''b.txt'')\<lparr>at_contentRev := Some 1, at_fileHash := Some ''bb''\<rparr>))) 0 = 2
   \<and> ci_fileHash (resolveContentIdentity IncomingSide
       ((sample_file ''f1'' ''a.txt'')\<lparr>at_contentRev := Some 2, at_fileHash := Some ''aa''\<rparr>)
       ((sample_file ''f1'' ''b.txt'')\<lparr>at_contentRev := Some 1, at_fileHash := Some ''bb''\<rparr>)) = Some ''aa''"
  using content_identity_follows_revision[of IncomingSide
      "(sample_file ''f1'' ''a.txt'')\<lparr>at_contentRev := Some 2, at_fileHash := Some ''aa''\<rparr>"
      "(sample_file ''f1'' ''b.txt'')\<lparr>at_contentRev := Some 1, at_fileHash := Some ''bb''\<rparr>"]
  by (simp add: sample_file_def)

text \<open>A traversing location is emptied and its attachment marked missing.\<close>

definition merged_sample :: "attachment list option" where
  "merged_sample = mergeAttachments sample_host False 0 ''2024-05-01T00:00:00.000Z''
     (Some [sample_file ''f1'' ''/x/%2e%2e/y'']) None"

theorem merged_attachments_safe_witness:
  "list_all (location_ok sample_host) (or_else merged_sample [])
   \<and> map at_uri (or_else merged_sample []) = [[]]
   \<and> map at_localStatus (or_else merged_sample []) = [Some Missing]"
proof -
  have eval: "map at_uri (or_else merged_sample []) = [[]]"
    "map at_localStatus (or_else merged_sample []) = [Some Missing]"
    "list_all (\<lambda>a. at_kind a = FileKind) (or_else merged_sample [])"
    by code_simp+
  then show ?thesis
    using merged_attachments_safe[of sample_host False 0 "''2024-05-01T00:00:00.000Z''"
        "Some [sample_file ''f1'' ''/x/%2e%2e/y'']" None]
    unfolding merged_sample_def by (simp add: list_all_iff)
qed

end
