(* ===== verification/Containers.thy ===== *)
theory Containers
  imports AppData
begin

text \<open>
  \<open>task-container-rules.ts\<close> and the area deduplication of \<open>area-utils.ts\<close>: where a task may
  live. A task is in a project (and perhaps one of its sections) or in an area, never both.
  A result \<open>{ok: false, error}\<close> is \<open>Inl error\<close>.
\<close>

subsection \<open>Container identifiers\<close>

definition normalizeOptionalContainerId :: "string option \<Rightarrow> string option" where
  "normalizeOptionalContainerId value =
     (case value of None \<Rightarrow> None | Some s \<Rightarrow> if nonblank s then Some (js_trim s) else None)"

lemma container_id_nonempty: "normalizeOptionalContainerId v = Some s \<Longrightarrow> s \<noteq> []"
  by (auto simp: normalizeOptionalContainerId_def nonblank_def split: option.splits if_splits)

definition live_with_id :: "string \<Rightarrow> 'a mergeable_scheme list \<Rightarrow> bool" where
  "live_with_id k xs = list_ex (\<lambda>x. eid x = k \<and> \<not> is_deleted x) xs"

definition validateExistingTaskProjectId :: "string option \<Rightarrow> project list \<Rightarrow> string + string option" where
  "validateExistingTaskProjectId projectId allProjects =
     (case normalizeOptionalContainerId projectId of
        None \<Rightarrow> Inr None
      | Some p \<Rightarrow> if live_with_id p allProjects then Inr (Some p) else Inl ''Project not found'')"

definition validateExistingTaskAreaId :: "string option \<Rightarrow> area list \<Rightarrow> string + string option" where
  "validateExistingTaskAreaId areaId allAreas =
     (case normalizeOptionalContainerId areaId of
        None \<Rightarrow> Inr None
      | Some a \<Rightarrow> if live_with_id a allAreas then Inr (Some a) else Inl ''Area not found'')"

subsection \<open>The hierarchy\<close>

record container_assignment =
  ca_projectId :: "string option"
  ca_sectionId :: "string option"
  ca_areaId :: "string option"

definition resolveTaskContainerHierarchy ::
  "string option \<Rightarrow> string option \<Rightarrow> string option \<Rightarrow> string option \<Rightarrow> container_assignment" where
  "resolveTaskContainerHierarchy projectId sectionId areaId sectionProjectId =
     (let (p, s, a) =
        (if truthy sectionId then
           (if \<not> truthy sectionProjectId then (projectId, None, areaId)
            else if \<not> truthy projectId then (sectionProjectId, sectionId, None)
            else if sectionProjectId \<noteq> projectId then (projectId, None, areaId)
            else (projectId, sectionId, areaId))
         else (projectId, sectionId, areaId));
        a' = (if truthy a \<and> truthy p then None else a)
      in \<lparr>ca_projectId = p, ca_sectionId = s, ca_areaId = a'\<rparr>)"

lemma hierarchy_exclusive:
  "\<not> (truthy (ca_projectId (resolveTaskContainerHierarchy p s a sp)) \<and>
      truthy (ca_areaId (resolveTaskContainerHierarchy p s a sp)))"
  by (simp add: resolveTaskContainerHierarchy_def)

lemma hierarchy_section:
  "truthy (ca_sectionId (resolveTaskContainerHierarchy p s a sp)) \<Longrightarrow>
   truthy sp \<and> ca_projectId (resolveTaskContainerHierarchy p s a sp) = sp
   \<and> ca_sectionId (resolveTaskContainerHierarchy p s a sp) = s"
  by (auto simp: resolveTaskContainerHierarchy_def split: if_splits)

lemma hierarchy_project:
  "truthy p \<Longrightarrow> ca_projectId (resolveTaskContainerHierarchy p s a sp) = p"
  by (auto simp: resolveTaskContainerHierarchy_def)

lemma hierarchy_area:
  "truthy (ca_areaId (resolveTaskContainerHierarchy p s a sp)) \<Longrightarrow>
   ca_areaId (resolveTaskContainerHierarchy p s a sp) = a"
  by (auto simp: resolveTaskContainerHierarchy_def split: if_splits)

text \<open>Resolving again with the section's owner of the first result changes nothing.\<close>

lemma hierarchy_idem:
  "resolveTaskContainerHierarchy p s a sp = r \<Longrightarrow>
   resolveTaskContainerHierarchy (ca_projectId r) (ca_sectionId r) (ca_areaId r) sp = r"
  by (auto simp: resolveTaskContainerHierarchy_def split: if_splits)

datatype move_destination = NoContainer | ToProject string | ToArea string

definition buildTaskMovePatch ::
  "move_destination \<Rightarrow> (string option \<times> string option) option \<Rightarrow> container_assignment" where
  "buildTaskMovePatch destination section1 =
     (case destination of
        ToProject p \<Rightarrow> \<lparr>ca_projectId = Some p,
          ca_sectionId = (case section1 of None \<Rightarrow> None
            | Some (owner, s) \<Rightarrow> if owner = Some p then s else None),
          ca_areaId = None\<rparr>
      | ToArea a \<Rightarrow> \<lparr>ca_projectId = None, ca_sectionId = None, ca_areaId = Some a\<rparr>
      | NoContainer \<Rightarrow> \<lparr>ca_projectId = None, ca_sectionId = None, ca_areaId = None\<rparr>)"

subsection \<open>Assigning a container\<close>

definition resolveTaskContainerAssignment ::
  "string option \<Rightarrow> string option \<Rightarrow> string option \<Rightarrow> project list \<Rightarrow> section1 list \<Rightarrow> area list
   \<Rightarrow> (section1 \<Rightarrow> bool) option \<Rightarrow> string + container_assignment" where
  "resolveTaskContainerAssignment projectId sectionId areaId allProjects allSections allAreas reactivating =
     (case validateExistingTaskProjectId projectId allProjects of
        Inl e \<Rightarrow> Inl e
      | Inr resolvedProjectId \<Rightarrow>
          (case normalizeOptionalContainerId sectionId of
             Some sid \<Rightarrow>
               (case find (\<lambda>s. eid s = sid \<and> (\<not> is_deleted s \<or>
                       (case reactivating of None \<Rightarrow> False | Some f \<Rightarrow> f s))) allSections of
                  None \<Rightarrow> Inl ''Section not found''
                | Some s \<Rightarrow>
                    if \<not> live_with_id (s_projectId s) allProjects then Inl ''Section not found''
                    else if resolvedProjectId \<noteq> None \<and> Some (s_projectId s) \<noteq> resolvedProjectId
                      then Inl ''Section does not belong to project''
                    else Inr (resolveTaskContainerHierarchy resolvedProjectId (Some sid)
                           (normalizeOptionalContainerId areaId) (Some (s_projectId s))))
           | None \<Rightarrow>
               if resolvedProjectId \<noteq> None
               then Inr (resolveTaskContainerHierarchy resolvedProjectId None
                      (normalizeOptionalContainerId areaId) None)
               else (case validateExistingTaskAreaId areaId allAreas of
                   Inl e \<Rightarrow> Inl e
                 | Inr a \<Rightarrow> Inr (resolveTaskContainerHierarchy None None a None))))"

text \<open>
  A patch of the container fields: \<open>None\<close> is a field the patch does not own.
\<close>

record move_patch =
  mp_projectId :: "string option option"
  mp_sectionId :: "string option option"
  mp_areaId :: "string option option"
  mp_order :: "int option option"
  mp_orderNum :: "int option option"

definition reserveTaskContainerProjectOrder ::
  "string option \<Rightarrow> move_patch \<Rightarrow> (string option \<Rightarrow> int option) \<Rightarrow> move_patch" where
  "reserveTaskContainerProjectOrder taskProjectId updates reserver =
     (case mp_projectId updates of None \<Rightarrow> updates
      | Some pid \<Rightarrow>
          if mp_order updates \<noteq> None \<or> mp_orderNum updates \<noteq> None then updates
          else (let next = normalizeOptionalContainerId pid in
            if next = None \<or> taskProjectId = next then updates
            else (case reserver next of None \<Rightarrow> updates
              | Some n \<Rightarrow> updates\<lparr>mp_order := Some (Some n), mp_orderNum := Some (Some n)\<rparr>)))"

definition buildTaskContainerMovePatch ::
  "container_assignment \<Rightarrow> move_patch \<Rightarrow> project list \<Rightarrow> section1 list \<Rightarrow> area list
   \<Rightarrow> (section1 \<Rightarrow> bool) option \<Rightarrow> bool \<Rightarrow> (string option \<Rightarrow> int option) option
   \<Rightarrow> string + move_patch" where
  "buildTaskContainerMovePatch t updates allProjects allSections allAreas reactivating reserve reserver =
     (let nextProjectId = (case mp_projectId updates of
            Some v \<Rightarrow> normalizeOptionalContainerId v | None \<Rightarrow> ca_projectId t);
          hasProjectUpdate = (mp_projectId updates \<noteq> None);
          projectChanged = (ca_projectId t \<noteq> nextProjectId);
          candidateSectionId = (case mp_sectionId updates of Some v \<Rightarrow> v
            | None \<Rightarrow> if hasProjectUpdate \<and> projectChanged then None else ca_sectionId t);
          candidateAreaId = (case mp_areaId updates of Some v \<Rightarrow> v
            | None \<Rightarrow> if hasProjectUpdate \<and> projectChanged \<and> truthy nextProjectId then None
                else ca_areaId t)
      in case resolveTaskContainerAssignment nextProjectId candidateSectionId candidateAreaId
                allProjects allSections allAreas reactivating of
           Inl e \<Rightarrow> Inl e
         | Inr r \<Rightarrow>
             (let patch = \<lparr>mp_projectId = Some (ca_projectId r), mp_sectionId = Some (ca_sectionId r),
                    mp_areaId = Some (ca_areaId r), mp_order = None, mp_orderNum = None\<rparr>;
                  resolvedChanged = (ca_projectId t \<noteq> ca_projectId r)
              in Inr (if resolvedChanged \<and> \<not> truthy (ca_projectId r)
                   then patch\<lparr>mp_order := Some None, mp_orderNum := Some None, mp_sectionId := Some None\<rparr>
                   else (case reserver of
                       Some f \<Rightarrow> if resolvedChanged \<and> reserve \<and> mp_order updates = None
                             \<and> mp_orderNum updates = None
                           then reserveTaskContainerProjectOrder (ca_projectId t) patch f else patch
                     | None \<Rightarrow> patch))))"

lemma live_with_id_iff: "live_with_id k xs \<longleftrightarrow> (\<exists>x\<in>set xs. eid x = k \<and> \<not> is_deleted x)"
  by (auto simp: live_with_id_def list_ex_iff)

lemma valid_project:
  "validateExistingTaskProjectId v ps = Inr (Some p) \<Longrightarrow> p \<noteq> [] \<and> live_with_id p ps"
  by (auto simp: validateExistingTaskProjectId_def dest: container_id_nonempty split: option.splits if_splits)

lemma valid_area:
  "validateExistingTaskAreaId v as = Inr (Some a) \<Longrightarrow> a \<noteq> [] \<and> live_with_id a as"
  by (auto simp: validateExistingTaskAreaId_def dest: container_id_nonempty split: option.splits if_splits)

definition assignment_ok :: "project list \<Rightarrow> section1 list \<Rightarrow> area list \<Rightarrow> container_assignment \<Rightarrow> bool" where
  "assignment_ok projects sections areas r =
     (\<not> (truthy (ca_projectId r) \<and> truthy (ca_areaId r))
      \<and> (truthy (ca_projectId r) \<longrightarrow> live_with_id (the (ca_projectId r)) projects)
      \<and> (truthy (ca_areaId r) \<longrightarrow> live_with_id (the (ca_areaId r)) areas)
      \<and> (truthy (ca_sectionId r) \<longrightarrow>
           (\<exists>s\<in>set sections. Some (eid s) = ca_sectionId r \<and> Some (s_projectId s) = ca_projectId r)))"

text \<open>
  C17: an accepted container assignment is consistent: a task is never in a project and an area
  at once, the project and the area it names are live, and the section it names belongs to the
  project it names.
\<close>

theorem container_assignment_ok:
  assumes "\<And>p. p \<in> set projects \<Longrightarrow> eid p \<noteq> []"
    and "resolveTaskContainerAssignment projectId sectionId areaId projects sections areas reactivating = Inr r"
  shows "assignment_ok projects sections areas r"
proof -
  obtain rp where rp: "validateExistingTaskProjectId projectId projects = Inr rp"
    using assms(2) by (auto simp: resolveTaskContainerAssignment_def split: sum.splits)
  show ?thesis
  proof (cases "normalizeOptionalContainerId sectionId")
    case (Some sid)
    let ?P = "\<lambda>s. eid s = sid \<and> (\<not> is_deleted s \<or> (case reactivating of None \<Rightarrow> False | Some f \<Rightarrow> f s))"
    from Some assms(2) rp obtain s where s: "find ?P sections = Some s"
      and live: "live_with_id (s_projectId s) projects"
      and own: "rp = None \<or> rp = Some (s_projectId s)"
      and r: "r = resolveTaskContainerHierarchy rp (Some sid) (normalizeOptionalContainerId areaId) (Some (s_projectId s))"
      by (auto simp: resolveTaskContainerAssignment_def split: option.splits if_splits)
    from s have "s \<in> set sections" "eid s = sid" by (auto simp: find_Some_iff)
    moreover have "s_projectId s \<noteq> []" using live assms(1) by (auto simp: live_with_id_iff)
    ultimately show ?thesis
      using own live r container_id_nonempty[OF Some]
      by (auto simp: assignment_ok_def resolveTaskContainerHierarchy_def)
  next
    case None
    show ?thesis
    proof (cases rp)
      case (Some p)
      with None rp assms(2) have "r = resolveTaskContainerHierarchy (Some p) None (normalizeOptionalContainerId areaId) None"
        by (auto simp: resolveTaskContainerAssignment_def)
      then show ?thesis
        using valid_project[of projectId projects p] rp Some
        by (auto simp: assignment_ok_def resolveTaskContainerHierarchy_def)
    next
      case n: None
      with None rp assms(2) obtain a where "validateExistingTaskAreaId areaId areas = Inr a"
        and "r = resolveTaskContainerHierarchy None None a None"
        by (auto simp: resolveTaskContainerAssignment_def split: sum.splits)
      then show ?thesis
        using valid_area[of areaId areas]
        by (auto simp: assignment_ok_def resolveTaskContainerHierarchy_def truthy_def split: option.splits)
    qed
  qed
qed

theorem container_assignment_ok_witness:
  "assignment_ok [sample_project ''p1''] [sample_section ''s1'' ''p1''] []
     \<lparr>ca_projectId = Some ''p1'', ca_sectionId = Some ''s1'', ca_areaId = None\<rparr>"
proof (rule container_assignment_ok)
  show "resolveTaskContainerAssignment None (Some ''s1'') (Some ''a1'') [sample_project ''p1'']
      [sample_section ''s1'' ''p1''] [] None
    = Inr \<lparr>ca_projectId = Some ''p1'', ca_sectionId = Some ''s1'', ca_areaId = None\<rparr>"
    by code_simp
qed (simp add: sample_project_def)

end
