(* ===== verification/Repair.thy ===== *)
theory Repair
  imports Containers
begin

text \<open>
  \<open>area-utils.ts\<close> (\<open>dedupeLiveAreasByName\<close>) and the reference repair of
  \<open>sync-normalization.ts\<close> (\<open>repairMergedSyncReferences\<close>): after the five collections are
  merged one by one, references between them may dangle; the repair restores them in the
  order areas, projects, sections, tasks, and stamps what it changes with the reserved
  author, so two devices repairing the same document agree.
\<close>

subsection \<open>Area names\<close>

definition normalizeAreaNameKey :: "string \<Rightarrow> string" where
  "normalizeAreaNameKey name = js_lower (js_trim name)"

definition compareAreaDedupeWinner :: "host \<Rightarrow> area \<Rightarrow> area \<Rightarrow> int" where
  "compareAreaDedupeWinner h left right =
     (let createdAtCompare = localeCompare h (createdAt left) (createdAt right)
      in if createdAtCompare \<noteq> 0 then createdAtCompare
         else localeCompare h (eid left) (eid right))"

definition note_area :: "host \<Rightarrow> (string \<rightharpoonup> area) \<Rightarrow> area \<Rightarrow> string \<rightharpoonup> area" where
  "note_area h m a =
     (if is_deleted a then m
      else (let key = normalizeAreaNameKey (a_name a) in
        if key = [] then m
        else (case m key of
            None \<Rightarrow> m(key \<mapsto> a)
          | Some existing \<Rightarrow> if compareAreaDedupeWinner h a existing < 0 then m(key \<mapsto> a) else m)))"

definition area_by_name :: "host \<Rightarrow> area list \<Rightarrow> string \<rightharpoonup> area" where
  "area_by_name h areas = foldl (note_area h) Map.empty areas"

text \<open>The identifier of the area this one is merged into, if it is a duplicate.\<close>

definition duplicate_of :: "(string \<rightharpoonup> area) \<Rightarrow> area \<Rightarrow> string option" where
  "duplicate_of m a =
     (if is_deleted a then None
      else (let key = normalizeAreaNameKey (a_name a) in
        if key = [] then None
        else (case m key of None \<Rightarrow> None
          | Some winner \<Rightarrow> if eid winner = eid a then None else Some (eid winner))))"

definition retire_area :: "(string \<rightharpoonup> area) \<Rightarrow> string \<Rightarrow> string option \<Rightarrow> area \<Rightarrow> area" where
  "retire_area m nowIso by1 a =
     (case duplicate_of m a of None \<Rightarrow> a
      | Some _ \<Rightarrow> a\<lparr>deletedAt := Some nowIso, updatedAt := nowIso, rev := Some (nextRev (rev a)),
                     revBy := (if truthy by1 then by1 else revBy a)\<rparr>)"

definition area_id_remap :: "(string \<rightharpoonup> area) \<Rightarrow> area list \<Rightarrow> string \<Rightarrow> string option" where
  "area_id_remap m areas k =
     Option.bind (js_map_of eid (filter (\<lambda>a. duplicate_of m a \<noteq> None) areas) k) (duplicate_of m)"

definition dedupeLiveAreasByName ::
  "host \<Rightarrow> area list \<Rightarrow> string \<Rightarrow> string option \<Rightarrow> area list \<times> (string \<Rightarrow> string option) \<times> bool" where
  "dedupeLiveAreasByName h areas nowIso by1 =
     (let m = area_by_name h areas
      in (map (retire_area m nowIso by1) areas, area_id_remap m areas,
          list_ex (\<lambda>a. duplicate_of m a \<noteq> None) areas))"

subsection \<open>Repairing references\<close>

definition withRepairRevision :: "'a mergeable_scheme \<Rightarrow> 'a mergeable_scheme" where
  "withRepairRevision item =
     item\<lparr>rev := Some (if revBy item = Some SYNC_REPAIR_REV_BY
             then normalizeRevision (j_num (rev item)) else nextRev (rev item)),
          revBy := Some SYNC_REPAIR_REV_BY\<rparr>"

definition isTaskSectionProjectArchiveReference ::
  "task \<Rightarrow> section1 option \<Rightarrow> project option \<Rightarrow> bool" where
  "isTaskSectionProjectArchiveReference t section1 project1 =
     (case (section1, project1) of
        (Some s, Some p) \<Rightarrow>
          \<not> (is_deleted p \<or> truthy (p_purgedAt p) \<or> p_status p \<noteq> PArchived)
          \<and> truthy (s_projectArchivedAt s) \<and> deletedAt s = s_projectArchivedAt s
          \<and> t_projectId t = Some (eid p) \<and> s_projectId s = eid p
          \<and> (isTaskFinished (Some (t_status t)) \<or> t_status t = Reference)
      | _ \<Rightarrow> False)"

definition repair_project :: "(string \<Rightarrow> string option) \<Rightarrow> area list \<Rightarrow> string \<Rightarrow> project \<Rightarrow> project" where
  "repair_project remap areas nowIso p =
     (let originalAreaId = nonblank_opt (p_areaId p);
          areaId = js_nullish (Option.bind originalAreaId remap) originalAreaId
      in if \<not> truthy areaId then p\<lparr>p_areaId := areaId, p_areaTitle := nonblank_opt (p_areaTitle p)\<rparr>
         else (case js_map_of eid (filter (\<lambda>a. \<not> is_deleted a) areas) (the areaId) of
                Some liveArea \<Rightarrow>
                  (let areaTitle = nonblank_opt (Some (a_name liveArea))
                   in if areaId = p_areaId p \<and> p_areaTitle p = areaTitle then p
                      else (withRepairRevision p)\<lparr>p_areaId := areaId, p_areaTitle := areaTitle,
                             updatedAt := nowIso\<rparr>)
              | None \<Rightarrow> (withRepairRevision p)\<lparr>p_areaId := None, p_areaTitle := None,
                          updatedAt := nowIso\<rparr>))"

definition live_list :: "'a mergeable_scheme list \<Rightarrow> 'a mergeable_scheme list" where
  "live_list xs = filter (\<lambda>x. \<not> is_deleted x) xs"

definition dead_list :: "'a mergeable_scheme list \<Rightarrow> 'a mergeable_scheme list" where
  "dead_list xs = filter is_deleted xs"

definition repair_section :: "project list \<Rightarrow> string \<Rightarrow> section1 \<Rightarrow> section1" where
  "repair_section projects nowIso s =
     (if s_projectId s \<in> eid ` set (live_list projects) \<or> s_projectId s \<notin> eid ` set (dead_list projects)
      then s
      else if is_deleted s then
        (case js_map_of eid (filter (\<lambda>p. truthy (p_purgedAt p)) projects) (s_projectId s) of
           None \<Rightarrow> s
         | Some p \<Rightarrow> compact_section [p] True s)
      else (withRepairRevision s)\<lparr>deletedAt := Some nowIso, updatedAt := nowIso\<rparr>)"

definition archived_live :: "project list \<Rightarrow> project list" where
  "archived_live projects = filter (\<lambda>p. \<not> is_deleted p \<and> p_status p = PArchived) projects"

text \<open>The owner of the section a task may keep, given the project it will be in.\<close>

definition kept_section_owner ::
  "project list \<Rightarrow> section1 list \<Rightarrow> task \<Rightarrow> string option \<Rightarrow> string option \<Rightarrow> string option" where
  "kept_section_owner projects sections t nextProjectId nextSectionId =
     (case nextSectionId of None \<Rightarrow> None
      | Some sid \<Rightarrow>
          (case js_map_of eid (filter (\<lambda>s. \<not> is_deleted s \<and> s_projectId s \<in> eid ` set (live_list projects)) sections) sid of
             Some s \<Rightarrow> Some (s_projectId s)
           | None \<Rightarrow>
               (case js_map_of eid (filter (\<lambda>s. is_deleted s \<and> s_projectId s \<in> eid ` set (archived_live projects)) sections) sid of
                  None \<Rightarrow> None
                | Some s \<Rightarrow>
                    if isTaskSectionProjectArchiveReference t (Some s)
                         (Option.bind nextProjectId (js_map_of eid (archived_live projects)))
                    then Some (s_projectId s) else None)))"

definition repair_task ::
  "(string \<Rightarrow> string option) \<Rightarrow> area list \<Rightarrow> project list \<Rightarrow> section1 list \<Rightarrow> string \<Rightarrow> task \<Rightarrow> task" where
  "repair_task remap areas projects sections nowIso t =
     (let originalProjectId = nonblank_opt (t_projectId t);
          originalSectionId = nonblank_opt (t_sectionId t);
          originalAreaId = nonblank_opt (t_areaId t);
          a0 = (case originalAreaId of None \<Rightarrow> None | Some k \<Rightarrow> js_nullish (remap k) (Some k));
          (p1, s1, c1) =
            (if originalProjectId \<noteq> None \<and> the originalProjectId \<in> eid ` set (dead_list projects)
             then (None, None, True)
             else if originalProjectId \<noteq> None \<and> the originalProjectId \<notin> eid ` set (live_list projects)
             then (None, originalSectionId, True)
             else (originalProjectId, originalSectionId, False));
          areaGone = (truthy a0 \<and> (the a0 \<in> eid ` set (dead_list areas)
            \<or> the a0 \<notin> eid ` set (live_list areas)));
          a1 = (if areaGone then None else a0);
          r = resolveTaskContainerHierarchy p1 s1 a1 (kept_section_owner projects sections t p1 s1);
          changed = (a0 \<noteq> originalAreaId \<or> c1 \<or> areaGone \<or> ca_projectId r \<noteq> p1
            \<or> ca_sectionId r \<noteq> s1 \<or> ca_areaId r \<noteq> a1)
      in if \<not> changed then t
         else (let u = (withRepairRevision t)\<lparr>t_projectId := ca_projectId r,
                    t_sectionId := ca_sectionId r, t_areaId := ca_areaId r, updatedAt := nowIso\<rparr>
               in if originalProjectId \<noteq> None \<and> \<not> truthy (ca_projectId r)
                  then u\<lparr>t_order := None, t_orderNum := None\<rparr> else u))"

definition repair_settings :: "(string \<Rightarrow> string option) \<Rightarrow> string \<Rightarrow> settings \<Rightarrow> settings" where
  "repair_settings remap nowIso st =
     (let configured = str_of (gtd_setting st ''defaultAreaId''); remapped = Option.bind configured remap
      in if truthy remapped \<and> remapped \<noteq> configured
         then with_gtd_setting ''defaultAreaId'' (JStr (the remapped)) nowIso st
         else st)"

definition repairMergedSyncReferences :: "host \<Rightarrow> app_data \<Rightarrow> string \<Rightarrow> app_data" where
  "repairMergedSyncReferences h d nowIso =
     (case dedupeLiveAreasByName h (ad_areas d) nowIso (Some SYNC_REPAIR_REV_BY) of
        (areas, remap, _) \<Rightarrow>
        let projects = map (repair_project remap areas nowIso) (ad_projects d);
            sections = map (repair_section projects nowIso) (ad_sections d);
            tasks = map (repair_task remap areas projects sections nowIso) (ad_tasks d)
        in d\<lparr>ad_areas := areas, ad_tasks := tasks, ad_projects := projects, ad_sections := sections,
             ad_settings := repair_settings remap nowIso (ad_settings d)\<rparr>)"

subsection \<open>Area names are unique after deduplication\<close>

definition name_key :: "area \<Rightarrow> string" where "name_key a = normalizeAreaNameKey (a_name a)"

definition names_ok :: "area list \<Rightarrow> (string \<rightharpoonup> area) \<Rightarrow> bool" where
  "names_ok seen m =
     ((\<forall>a\<in>set seen. \<not> is_deleted a \<and> name_key a \<noteq> [] \<longrightarrow> m (name_key a) \<noteq> None)
      \<and> (\<forall>k w. m k = Some w \<longrightarrow> w \<in> set seen \<and> \<not> is_deleted w \<and> name_key w = k \<and> k \<noteq> []))"

lemma note_area_ok: "names_ok seen m \<Longrightarrow> names_ok (seen @ [a]) (note_area h m a)"
  unfolding names_ok_def note_area_def Let_def name_key_def
  by (cases "m (normalizeAreaNameKey (a_name a))") auto

lemma names_fold: "names_ok seen m \<Longrightarrow> names_ok (seen @ areas) (foldl (note_area h) m areas)"
proof (induction areas arbitrary: seen m)
  case Nil
  then show ?case by simp
next
  case (Cons a areas)
  from Cons.IH[OF note_area_ok[OF Cons.prems]] show ?case by simp
qed

lemma area_by_name_ok: "names_ok areas (area_by_name h areas)"
  using names_fold[of "[]" Map.empty areas h] by (simp add: area_by_name_def names_ok_def)

lemma kept_is_canonical:
  assumes "names_ok areas m" and "a \<in> set areas" and "\<not> is_deleted a" and "name_key a \<noteq> []"
    and "duplicate_of m a = None"
  shows "\<exists>w. m (name_key a) = Some w \<and> eid w = eid a"
  using assms by (cases "m (name_key a)") (auto simp: names_ok_def duplicate_of_def name_key_def Let_def split: if_splits)

text \<open>
  C18: after the deduplication no two live areas share a name (compared without case and outer
  space), and every identifier it remaps leads to a live area of the same name that was kept.
\<close>

theorem dedupe_names_unique:
  assumes "dedupeLiveAreasByName h areas nowIso by1 = (areas', remap, changed)" and "nowIso \<noteq> []"
  shows "(\<forall>a\<in>set areas'. \<forall>b\<in>set areas'. \<not> is_deleted a \<and> \<not> is_deleted b \<and> name_key a = name_key b
            \<and> name_key a \<noteq> [] \<longrightarrow> eid a = eid b)
       \<and> (\<forall>k j. remap k = Some j \<longrightarrow> (\<exists>a\<in>set areas. \<exists>w\<in>set areas'. eid a = k \<and> eid w = j
            \<and> \<not> is_deleted w \<and> name_key a = name_key w \<and> k \<noteq> j))"
proof
  define m where "m = area_by_name h areas"
  have ok: "names_ok areas m" by (simp add: m_def area_by_name_ok)
  have parts: "areas' = map (retire_area m nowIso by1) areas" "remap = area_id_remap m areas"
    using assms(1) by (simp_all add: dedupeLiveAreasByName_def m_def Let_def)
  have kept: "a \<in> set areas \<and> duplicate_of m a = None" if "a \<in> set areas'" "\<not> is_deleted a" for a
    using that assms(2) by (auto simp: parts retire_area_def is_deleted_def split: option.splits)
  show "\<forall>a\<in>set areas'. \<forall>b\<in>set areas'. \<not> is_deleted a \<and> \<not> is_deleted b \<and> name_key a = name_key b
            \<and> name_key a \<noteq> [] \<longrightarrow> eid a = eid b"
    using kept kept_is_canonical[OF ok] by (metis option.inject)
  show "\<forall>k j. remap k = Some j \<longrightarrow> (\<exists>a\<in>set areas. \<exists>w\<in>set areas'. eid a = k \<and> eid w = j
            \<and> \<not> is_deleted w \<and> name_key a = name_key w \<and> k \<noteq> j)"
  proof (intro allI impI)
    fix k j assume "remap k = Some j"
    then obtain a where a: "a \<in> set areas" "eid a = k" "duplicate_of m a = Some j"
      by (auto simp: parts area_id_remap_def bind_eq_Some_conv dest!: js_map_SomeD)
    then obtain w where "m (name_key a) = Some w" "eid w = j" "eid w \<noteq> eid a"
      by (auto simp: duplicate_of_def name_key_def Let_def split: if_splits option.splits)
    moreover from this ok have "w \<in> set areas'"
      by (force simp: parts retire_area_def duplicate_of_def name_key_def names_ok_def Let_def)
    ultimately show "\<exists>a\<in>set areas. \<exists>w\<in>set areas'. eid a = k \<and> eid w = j
            \<and> \<not> is_deleted w \<and> name_key a = name_key w \<and> k \<noteq> j"
      using a ok unfolding names_ok_def by (metis (no_types))
  qed
qed

text \<open>Two live areas of one name: the second is retired.\<close>

definition twin_areas :: "area list" where
  "twin_areas = [sample_area ''a1'' ''Home'', sample_area ''a2'' '' home '']"

theorem dedupe_names_unique_witness:
  "(case dedupeLiveAreasByName sample_host twin_areas ''2024-05-01T00:00:00.000Z'' None of (areas', remap, changed) \<Rightarrow>
     remap ''a2'' = Some ''a1'' \<and> changed \<and> (\<exists>w\<in>set areas'. eid w = ''a1'' \<and> \<not> is_deleted w))"
proof -
  obtain areas' remap changed where
    r: "dedupeLiveAreasByName sample_host twin_areas ''2024-05-01T00:00:00.000Z'' None = (areas', remap, changed)"
    by (metis prod_cases3)
  have "fst (snd (dedupeLiveAreasByName sample_host twin_areas ''2024-05-01T00:00:00.000Z'' None)) ''a2'' = Some ''a1''"
    "snd (snd (dedupeLiveAreasByName sample_host twin_areas ''2024-05-01T00:00:00.000Z'' None))"
    by code_simp+
  then have "remap ''a2'' = Some ''a1''" "changed" by (simp_all add: r)
  then show ?thesis unfolding r prod.case using dedupe_names_unique[OF r] by blast
qed

end
