(* ===== verification/Validate.thy ===== *)
theory Validate
  imports Repair
begin

text \<open>
  \<open>validateMergedSyncData\<close> of \<open>sync-normalization.ts\<close>, the check every merged document
  passes before it is written anywhere. On the typed document the tests for arrays and
  objects always pass and are left out. The theorem of this theory is the contract between
  the repair and the check: a repaired document has no reference error.
\<close>

subsection \<open>Shape errors\<close>

definition at_index :: "string \<Rightarrow> nat \<Rightarrow> string \<Rightarrow> string" where
  "at_index label i msg = label @ ''['' @ show_nat i @ '']'' @ msg"

definition validateRevisionFields :: "string \<Rightarrow> nat \<Rightarrow> 'a mergeable_scheme \<Rightarrow> string list" where
  "validateRevisionFields label i x =
     (case rev x of None \<Rightarrow> []
      | Some r \<Rightarrow> if r < 0 then [at_index label i ''.rev must be a non-negative integer when present''] else []) @
     (case revBy x of None \<Rightarrow> []
      | Some s \<Rightarrow> if \<not> nonblank s then [at_index label i ''.revBy must be a non-empty string when present''] else [])"

definition order_errors :: "string \<Rightarrow> nat \<Rightarrow> 'a mergeable_scheme \<Rightarrow> string list" where
  "order_errors label i x =
     (case (date_parse (createdAt x), date_parse (updatedAt x)) of
        (Some c, Some u) \<Rightarrow>
          if u < c then [at_index label i ''.updatedAt must be greater than or equal to createdAt''] else []
      | _ \<Rightarrow> [])"

definition validate_entity :: "string \<Rightarrow> nat \<Rightarrow> 'a mergeable_scheme \<Rightarrow> string list" where
  "validate_entity label i x =
     (if \<not> nonblank (eid x) then [at_index label i ''.id must be a non-empty string''] else []) @
     (if \<not> nonblank (createdAt x)
      then [at_index label i ''.createdAt must be a non-empty string when present'']
      else if date_parse (createdAt x) = None
      then [at_index label i ''.createdAt must be a valid ISO timestamp when present''] else []) @
     (if \<not> nonblank (updatedAt x) then [at_index label i ''.updatedAt must be a non-empty string'']
      else if date_parse (updatedAt x) = None
      then [at_index label i ''.updatedAt must be a valid ISO timestamp''] else []) @
     order_errors label i x @ validateRevisionFields label i x"

text \<open>Over a list with its indexes.\<close>

definition each :: "(nat \<Rightarrow> 'a \<Rightarrow> string list) \<Rightarrow> 'a list \<Rightarrow> string list" where
  "each f xs = concat (map (\<lambda>(i, x). f i x) (enumerate 0 xs))"

lemma each_Nil: "(\<And>i x. x \<in> set xs \<Longrightarrow> f i x = []) \<Longrightarrow> each f xs = []"
  by (auto simp: each_def in_set_enumerate_eq)

definition validateEntityShape :: "string \<Rightarrow> 'a mergeable_scheme list \<Rightarrow> string list" where
  "validateEntityShape label items = each (validate_entity label) items"

text \<open>Areas and people also carry a name.\<close>

definition validate_named :: "string \<Rightarrow> ('a mergeable_scheme \<Rightarrow> string) \<Rightarrow> nat \<Rightarrow> 'a mergeable_scheme \<Rightarrow> string list" where
  "validate_named label name i x =
     (if \<not> nonblank (eid x) then [at_index label i ''.id must be a non-empty string''] else []) @
     (if \<not> nonblank (name x) then [at_index label i ''.name must be a non-empty string''] else []) @
     (if \<not> nonblank (createdAt x) then [at_index label i ''.createdAt must be a non-empty string'']
      else if date_parse (createdAt x) = None
      then [at_index label i ''.createdAt must be a valid ISO timestamp''] else []) @
     (if \<not> nonblank (updatedAt x) then [at_index label i ''.updatedAt must be a non-empty string'']
      else if date_parse (updatedAt x) = None
      then [at_index label i ''.updatedAt must be a valid ISO timestamp''] else []) @
     order_errors label i x @ validateRevisionFields label i x"

subsection \<open>Reference errors\<close>

definition present :: "string option \<Rightarrow> bool" where
  "present v = (case v of None \<Rightarrow> False | Some s \<Rightarrow> nonblank s)"

definition ids_where :: "('a mergeable_scheme \<Rightarrow> bool) \<Rightarrow> 'a mergeable_scheme list \<Rightarrow> string list" where
  "ids_where P xs = map eid (filter (\<lambda>x. nonblank (eid x) \<and> P x) xs)"

definition project_ref_errors :: "area list \<Rightarrow> nat \<Rightarrow> project \<Rightarrow> string list" where
  "project_ref_errors areas i p =
     (if present (p_areaId p) \<and> the (p_areaId p) \<notin> set (ids_where (\<lambda>_. True) areas)
      then [at_index ''projects'' i ''.areaId must reference an existing area'']
      else if present (deletedAt p) then []
      else if present (p_areaId p) \<and> the (p_areaId p) \<notin> set (ids_where (\<lambda>a. \<not> present (deletedAt a)) areas)
      then [at_index ''projects'' i ''.areaId must not reference a deleted area'']
      else [])"

definition section_ref_errors :: "project list \<Rightarrow> nat \<Rightarrow> section1 \<Rightarrow> string list" where
  "section_ref_errors projects i s =
     (if nonblank (s_projectId s) \<and> s_projectId s \<notin> set (ids_where (\<lambda>_. True) projects)
      then [at_index ''sections'' i ''.projectId must reference an existing project'']
      else if present (deletedAt s) then []
      else if s_projectId s \<in> eid ` set (filter (\<lambda>p. present (deletedAt p)) projects)
      then [at_index ''sections'' i ''.projectId must not reference a deleted project'']
      else [])"

definition archived_projects :: "project list \<Rightarrow> project list" where
  "archived_projects projects =
     filter (\<lambda>p. nonblank (eid p) \<and> \<not> present (deletedAt p) \<and> p_status p = PArchived) projects"

definition task_section_errors :: "project list \<Rightarrow> section1 list \<Rightarrow> nat \<Rightarrow> task \<Rightarrow> string list" where
  "task_section_errors projects sections i t =
     (if \<not> present (t_sectionId t) then []
      else (let sid = the (t_sectionId t) in
        case js_map_of eid (filter (\<lambda>s. present (deletedAt s)) sections) sid of
          Some s \<Rightarrow>
            if isTaskSectionProjectArchiveReference t (Some s)
                 (if present (t_projectId t)
                  then js_map_of eid (archived_projects projects) (the (t_projectId t)) else None)
            then []
            else [at_index ''tasks'' i ''.sectionId must not reference a deleted section'']
        | None \<Rightarrow>
            (case js_map_of eid (filter (\<lambda>s. \<not> present (deletedAt s)) sections) sid of
               None \<Rightarrow> []
             | Some s \<Rightarrow>
                 if \<not> present (t_projectId t)
                 then [at_index ''tasks'' i ''.projectId is required when sectionId is present'']
                 else if Some (s_projectId s) \<noteq> t_projectId t
                 then [at_index ''tasks'' i ''.sectionId must belong to the same projectId'']
                 else [])))"

definition task_ref_errors ::
  "area list \<Rightarrow> project list \<Rightarrow> section1 list \<Rightarrow> nat \<Rightarrow> task \<Rightarrow> string list" where
  "task_ref_errors areas projects sections i t =
     (let p = present (t_projectId t); a = present (t_areaId t); s = present (t_sectionId t);
          pExists = (p \<longrightarrow> the (t_projectId t) \<in> set (ids_where (\<lambda>_. True) projects));
          aExists = (a \<longrightarrow> the (t_areaId t) \<in> set (ids_where (\<lambda>_. True) areas))
      in (if p \<and> \<not> pExists then [at_index ''tasks'' i ''.projectId must reference an existing project''] else []) @
         (if a \<and> \<not> aExists then [at_index ''tasks'' i ''.areaId must reference an existing area''] else []) @
         (if s \<and> the (t_sectionId t) \<notin> set (ids_where (\<lambda>_. True) sections)
          then [at_index ''tasks'' i ''.sectionId must reference an existing section'']
          else if present (deletedAt t) then []
          else (if p \<and> pExists \<and> the (t_projectId t) \<notin> set (ids_where (\<lambda>x. \<not> present (deletedAt x)) projects)
                then [at_index ''tasks'' i ''.projectId must not reference a deleted project''] else []) @
               (if a \<and> aExists \<and> the (t_areaId t) \<notin> set (ids_where (\<lambda>x. \<not> present (deletedAt x)) areas)
                then [at_index ''tasks'' i ''.areaId must not reference a deleted area''] else []) @
               task_section_errors projects sections i t))"

definition validate_references :: "app_data \<Rightarrow> string list" where
  "validate_references d =
     each (project_ref_errors (ad_areas d)) (ad_projects d) @
     each (section_ref_errors (ad_projects d)) (ad_sections d) @
     each (task_ref_errors (ad_areas d) (ad_projects d) (ad_sections d)) (ad_tasks d)"

definition validateMergedSyncData :: "app_data \<Rightarrow> string list" where
  "validateMergedSyncData d =
     validateEntityShape ''tasks'' (ad_tasks d) @ validateEntityShape ''projects'' (ad_projects d) @
     validateEntityShape ''sections'' (ad_sections d) @
     each (validate_named ''areas'' a_name) (ad_areas d) @
     each (validate_named ''people'' pe_name) (or_else (ad_people d) []) @
     validate_references d"

subsection \<open>What the repair leaves\<close>

text \<open>
  The documents the repair is given: the merge makes identifiers distinct, the payload check
  makes them printable. A section may name a project that does not exist.
\<close>

definition marks_ok :: "'a mergeable_scheme list \<Rightarrow> bool" where
  "marks_ok xs = (distinct (map eid xs) \<and>
     (\<forall>x\<in>set xs. nonblank (eid x) \<and> (is_deleted x \<longrightarrow> nonblank (the (deletedAt x)))))"

definition repairable :: "app_data \<Rightarrow> bool" where
  "repairable d =
     (marks_ok (ad_areas d) \<and> marks_ok (ad_projects d) \<and> marks_ok (ad_sections d)
      \<and> (\<forall>p\<in>set (ad_projects d). truthy (p_purgedAt p) \<longrightarrow> nonblank (the (p_purgedAt p))))"

lemma present_Some [simp]: "present (Some s) = nonblank s" "\<not> present None"
  by (simp_all add: present_def)

lemma present_iff: "present v \<longleftrightarrow> nonblank_opt v \<noteq> None"
  by (simp add: present_def nonblank_opt_def split: option.splits)

lemma nonblank_opt_Some: "nonblank_opt v = Some s \<longleftrightarrow> v = Some s \<and> nonblank s"
  by (auto simp: nonblank_opt_def split: option.splits if_splits)

lemma present_truthy: "present v \<Longrightarrow> truthy v"
  by (cases v) (auto dest: nonblank_nonempty)

lemma deleted_present: "(is_deleted x \<longrightarrow> nonblank (the (deletedAt x))) \<Longrightarrow> present (deletedAt x) = is_deleted x"
  using present_truthy[of "deletedAt x"] by (cases "deletedAt x") (auto simp: is_deleted_def)

lemma marks_filters:
  assumes "marks_ok xs"
  shows "filter (\<lambda>x. present (deletedAt x)) xs = dead_list xs"
    and "filter (\<lambda>x. \<not> present (deletedAt x)) xs = live_list xs"
    and "ids_where (\<lambda>_. True) xs = map eid xs"
    and "ids_where (\<lambda>x. \<not> present (deletedAt x)) xs = map eid (live_list xs)"
  using assms unfolding marks_ok_def dead_list_def live_list_def ids_where_def
  by (auto simp: deleted_present intro!: filter_cong arg_cong[where f = "map eid"])

lemma marks_lookup:
  assumes "distinct (map eid xs)" and "x \<in> set xs"
  shows "js_map_of eid (filter P xs) (eid x) = (if P x then Some x else None)"
proof (cases "P x")
  case True
  then show ?thesis
    using assms js_map_of_distinct[of eid "filter P xs" x] by (simp add: distinct_map_filter)
next
  case False
  have "eid x \<notin> eid ` set (filter P xs)"
    using assms False by (auto simp: distinct_map inj_on_def)
  with False show ?thesis by (simp add: js_map_None_iff)
qed

lemma live_dead_disjoint:
  "distinct (map eid xs) \<Longrightarrow> k \<in> eid ` set (live_list xs) \<Longrightarrow> k \<notin> eid ` set (dead_list xs)"
  by (auto simp: live_list_def dead_list_def distinct_map inj_on_def)

lemma live_or_dead: "k \<in> eid ` set xs \<Longrightarrow> k \<in> eid ` set (live_list xs) \<or> k \<in> eid ` set (dead_list xs)"
  by (auto simp: live_list_def dead_list_def)

lemma repair_project_keeps [simp]:
  "eid (repair_project remap areas now p) = eid p"
  "deletedAt (repair_project remap areas now p) = deletedAt p"
  "p_status (repair_project remap areas now p) = p_status p"
  "p_purgedAt (repair_project remap areas now p) = p_purgedAt p"
  by (simp_all add: repair_project_def withRepairRevision_def Let_def split: option.splits)

lemma repair_project_area:
  assumes "truthy (p_areaId (repair_project remap areas now p))"
  shows "the (p_areaId (repair_project remap areas now p)) \<in> eid ` set (live_list areas)"
proof -
  let ?a = "js_nullish (Option.bind (nonblank_opt (p_areaId p)) remap) (nonblank_opt (p_areaId p))"
  show ?thesis
  proof (cases "truthy ?a")
    case False
    with assms show ?thesis by (simp add: repair_project_def Let_def)
  next
    case True
    show ?thesis
    proof (cases "js_map_of eid (filter (\<lambda>a. \<not> is_deleted a) areas) (the ?a)")
      case None
      with True assms show ?thesis by (simp add: repair_project_def withRepairRevision_def Let_def)
    next
      case (Some live)
      then have "the ?a \<in> eid ` set (live_list areas)"
        by (auto simp: live_list_def image_iff dest!: js_map_SomeD)
      with True Some show ?thesis
        by (auto simp: repair_project_def withRepairRevision_def Let_def)
    qed
  qed
qed

lemma compact_section_keeps [simp]:
  "eid (compact_section ps b s) = eid s" "s_projectId (compact_section ps b s) = s_projectId s"
  by (simp_all add: compact_section_def compactPurgedProjectSectionTombstone_def Let_def split: option.splits)

lemma repair_section_keeps [simp]:
  "eid (repair_section projects now s) = eid s"
  "s_projectId (repair_section projects now s) = s_projectId s"
  by (auto simp: repair_section_def withRepairRevision_def split: option.splits)

lemma repair_section_live:
  assumes "\<not> is_deleted (repair_section projects now s)" and "truthy (Some now)"
  shows "s_projectId s \<in> eid ` set (live_list projects) \<or> s_projectId s \<notin> eid ` set (dead_list projects)"
proof (rule ccontr)
  assume dead: "\<not> ?thesis"
  have "is_deleted (compact_section [p] True s)" if "truthy (p_purgedAt p)" "is_deleted s" for p
    using that by (auto simp: compact_section_def purged_projects_def js_map_of_def truthy_def
        compactPurgedProjectSectionTombstone_def is_deleted_def Let_def split: option.splits)
  then have "is_deleted (repair_section projects now s)"
    using dead assms(2)
    by (auto simp: repair_section_def is_deleted_def withRepairRevision_def dest!: js_map_SomeD split: option.splits)
  with assms(1) show False by simp
qed

lemma retire_keeps [simp]: "eid (retire_area m now b a) = eid a"
  by (simp add: retire_area_def split: option.splits)

lemma retire_mark:
  "nonblank now \<Longrightarrow> (is_deleted a \<longrightarrow> nonblank (the (deletedAt a))) \<Longrightarrow>
   is_deleted (retire_area m now b a) \<longrightarrow> nonblank (the (deletedAt (retire_area m now b a)))"
  by (simp add: retire_area_def is_deleted_def split: option.splits)

lemma marks_retired:
  assumes "marks_ok areas" and "nonblank now"
  shows "marks_ok (map (retire_area m now b) areas)"
  using assms retire_mark[OF assms(2)] by (auto simp: marks_ok_def comp_def)

lemma marks_projects:
  assumes "marks_ok projects"
  shows "marks_ok (map (repair_project remap areas now) projects)"
  using assms by (auto simp: marks_ok_def comp_def is_deleted_def)

lemma repair_section_mark:
  assumes "nonblank now" and "\<forall>p\<in>set projects. truthy (p_purgedAt p) \<longrightarrow> nonblank (the (p_purgedAt p))"
    and "is_deleted s \<longrightarrow> nonblank (the (deletedAt s))"
  shows "is_deleted (repair_section projects now s) \<longrightarrow> nonblank (the (deletedAt (repair_section projects now s)))"
proof -
  have "nonblank (the (deletedAt (compact_section [p] True s)))"
    if "p \<in> set projects" "truthy (p_purgedAt p)" "eid p = s_projectId s" for p
    using that assms(2)
    by (auto simp: compact_section_def purged_projects_def js_map_of_def truthy_def
        compactPurgedProjectSectionTombstone_def Let_def split: option.splits)
  then show ?thesis
    using assms by (auto simp: repair_section_def withRepairRevision_def is_deleted_def
        dest!: js_map_SomeD split: option.splits)
qed

lemma marks_sections:
  assumes "marks_ok sections" and "nonblank now"
    and "\<forall>p\<in>set projects. truthy (p_purgedAt p) \<longrightarrow> nonblank (the (p_purgedAt p))"
  shows "marks_ok (map (repair_section projects now) sections)"
  using assms repair_section_mark[OF assms(2,3)] by (auto simp: marks_ok_def comp_def)

text \<open>The container of a repaired task, as far as the check reads it.\<close>

lemma repair_task_plan:
  obtains p1 s1 a1 r where
    "r = resolveTaskContainerHierarchy p1 s1 a1 (kept_section_owner projects sections t p1 s1)"
    and "truthy p1 \<longrightarrow> the p1 \<in> eid ` set (live_list projects)"
    and "truthy a1 \<longrightarrow> the a1 \<in> eid ` set (live_list areas)"
    and "present (t_projectId (repair_task remap areas projects sections now t)) \<longrightarrow>
         t_projectId (repair_task remap areas projects sections now t) = ca_projectId r"
    and "present (t_sectionId (repair_task remap areas projects sections now t)) \<longrightarrow>
         t_sectionId (repair_task remap areas projects sections now t) = ca_sectionId r"
    and "present (t_areaId (repair_task remap areas projects sections now t)) \<longrightarrow>
         t_areaId (repair_task remap areas projects sections now t) = ca_areaId r"
    and "truthy (ca_projectId r) \<longrightarrow>
         t_projectId (repair_task remap areas projects sections now t) = ca_projectId r"
proof -
  let ?p0 = "nonblank_opt (t_projectId t)" and ?s0 = "nonblank_opt (t_sectionId t)"
  let ?a0 = "case nonblank_opt (t_areaId t) of None \<Rightarrow> None | Some k \<Rightarrow> js_nullish (remap k) (Some k)"
  let ?dead = "?p0 \<noteq> None \<and> the ?p0 \<in> eid ` set (dead_list projects)"
  let ?gone = "?p0 \<noteq> None \<and> the ?p0 \<notin> eid ` set (live_list projects)"
  define p1 where "p1 = (if ?dead \<or> ?gone then None else ?p0)"
  define s1 where "s1 = (if ?dead then None else ?s0)"
  define c1 where "c1 = (?dead \<or> ?gone)"
  define areaGone where "areaGone = (truthy ?a0 \<and> (the ?a0 \<in> eid ` set (dead_list areas)
      \<or> the ?a0 \<notin> eid ` set (live_list areas)))"
  define a1 where "a1 = (if areaGone then None else ?a0)"
  define r where "r = resolveTaskContainerHierarchy p1 s1 a1 (kept_section_owner projects sections t p1 s1)"
  define changed where "changed = (?a0 \<noteq> nonblank_opt (t_areaId t) \<or> c1 \<or> areaGone \<or> ca_projectId r \<noteq> p1
            \<or> ca_sectionId r \<noteq> s1 \<or> ca_areaId r \<noteq> a1)"
  define u where "u = (withRepairRevision t)\<lparr>t_projectId := ca_projectId r,
      t_sectionId := ca_sectionId r, t_areaId := ca_areaId r, updatedAt := now\<rparr>"
  have triple: "(if ?dead then (None, None, True) else if ?gone then (None, ?s0, True)
      else (?p0, ?s0, False)) = (p1, s1, c1)"
    by (simp add: p1_def s1_def c1_def)
  have eq: "repair_task remap areas projects sections now t =
     (if \<not> changed then t
      else if ?p0 \<noteq> None \<and> \<not> truthy (ca_projectId r) then u\<lparr>t_order := None, t_orderNum := None\<rparr> else u)"
    unfolding repair_task_def Let_def triple prod.case
    by (simp only: areaGone_def[symmetric] a1_def[symmetric] r_def[symmetric] changed_def[symmetric] u_def[symmetric])
  have p1: "truthy p1 \<longrightarrow> the p1 \<in> eid ` set (live_list projects)"
    by (cases ?p0) (auto simp: p1_def)
  have a1: "truthy a1 \<longrightarrow> the a1 \<in> eid ` set (live_list areas)"
    by (simp add: a1_def areaGone_def)
  have same: "\<not> changed \<Longrightarrow> ca_projectId r = ?p0 \<and> ca_sectionId r = ?s0 \<and> ca_areaId r = nonblank_opt (t_areaId t)"
    by (auto simp: changed_def c1_def p1_def s1_def a1_def)
  have nb: "present v \<Longrightarrow> v = nonblank_opt v" for v
    by (cases v) (auto simp: nonblank_opt_def)
  have nb': "truthy (nonblank_opt v) \<Longrightarrow> v = nonblank_opt v" for v
    by (auto simp: nonblank_opt_def split: option.splits if_splits)
  show ?thesis
    by (rule that[of r p1 s1 a1])
       (use p1 a1 same nb nb' in \<open>auto simp: eq r_def[symmetric] u_def\<close>)
qed

lemma repair_task_keeps [simp]:
  "t_status (repair_task remap areas projects sections now t) = t_status t"
  "deletedAt (repair_task remap areas projects sections now t) = deletedAt t"
  "eid (repair_task remap areas projects sections now t) = eid t"
  by (simp_all add: repair_task_def withRepairRevision_def Let_def split_beta)

subsection \<open>The repaired document passes the check\<close>

lemma project_refs_repaired:
  assumes "marks_ok areas"
  shows "project_ref_errors areas i (repair_project remap areas now p) = []"
proof -
  have "present (p_areaId (repair_project remap areas now p)) \<Longrightarrow>
      the (p_areaId (repair_project remap areas now p)) \<in> eid ` set (live_list areas)"
    by (rule repair_project_area[OF present_truthy])
  then show ?thesis
    by (auto simp: project_ref_errors_def marks_filters[OF assms] live_list_def)
qed

definition orphan_errors :: "project list \<Rightarrow> nat \<Rightarrow> section1 \<Rightarrow> string list" where
  "orphan_errors projects i s =
     (if nonblank (s_projectId s) \<and> s_projectId s \<notin> eid ` set projects
      then [at_index ''sections'' i ''.projectId must reference an existing project''] else [])"

lemma section_refs_repaired:
  assumes "marks_ok projects" and "nonblank now"
    and "\<forall>p\<in>set projects. truthy (p_purgedAt p) \<longrightarrow> nonblank (the (p_purgedAt p))"
    and "is_deleted s \<longrightarrow> nonblank (the (deletedAt s))"
  shows "section_ref_errors projects i (repair_section projects now s) = orphan_errors projects i s"
proof -
  let ?s = "repair_section projects now s"
  have dead: "eid ` set (filter (\<lambda>p. present (deletedAt p)) projects) = eid ` set (dead_list projects)"
    by (simp only: marks_filters(1)[OF assms(1)])
  have known: "s_projectId s \<in> eid ` set projects" if "s_projectId s \<in> eid ` set (dead_list projects)"
    using that by (auto simp: dead_list_def)
  have "present (deletedAt ?s) \<or> s_projectId s \<notin> eid ` set (dead_list projects)"
  proof (cases "is_deleted ?s")
    case False
    then show ?thesis
      using repair_section_live[of projects now s] assms nonblank_nonempty[OF assms(2)]
        live_dead_disjoint[of projects "s_projectId s"]
      by (auto simp: marks_ok_def)
  next
    case True
    then show ?thesis using deleted_present[OF repair_section_mark[OF assms(2,3,4)]] by simp
  qed
  then show ?thesis
    using known unfolding section_ref_errors_def orphan_errors_def dead marks_filters(3)[OF assms(1)] by auto
qed

lemma archived_projects_eq: "marks_ok ps \<Longrightarrow> archived_projects ps = archived_live ps"
  by (auto simp: marks_ok_def archived_projects_def archived_live_def deleted_present intro!: filter_cong)

lemma filter_live_owner:
  "js_map_of eid (filter (\<lambda>s. P s \<and> Q s) xs) k = Some s \<Longrightarrow> s \<in> set xs \<and> P s \<and> Q s \<and> eid s = k"
  by (auto dest: js_map_SomeD)

lemma task_section_repaired:
  assumes ps: "marks_ok projects" and ss: "marks_ok sections"
    and r: "r = resolveTaskContainerHierarchy p1 s1 a1 (kept_section_owner projects sections t p1 s1)"
    and sec: "present (t_sectionId u) \<longrightarrow> t_sectionId u = ca_sectionId r"
    and proj: "truthy (ca_projectId r) \<longrightarrow> t_projectId u = ca_projectId r"
    and st: "t_status u = t_status t"
  shows "task_section_errors projects sections i u = []
       \<and> (present (t_sectionId u) \<longrightarrow> the (t_sectionId u) \<in> eid ` set sections)"
proof (cases "present (t_sectionId u)")
  case False
  then show ?thesis by (simp add: task_section_errors_def)
next
  case True
  then have tr: "truthy (ca_sectionId r)" using sec present_truthy by metis
  from hierarchy_section[of p1 s1 a1 "kept_section_owner projects sections t p1 s1"] tr r
  have own: "truthy (kept_section_owner projects sections t p1 s1)"
    "ca_projectId r = kept_section_owner projects sections t p1 s1" "ca_sectionId r = s1" by simp_all
  obtain sid where sid: "s1 = Some sid" using tr own(3) by (cases s1) auto
  obtain q where q: "kept_section_owner projects sections t p1 s1 = Some q" "q \<noteq> []"
    using own(1) by (cases "kept_section_owner projects sections t p1 s1") auto
  have u: "t_sectionId u = Some sid" "t_projectId u = Some q"
    using sec True own sid q proj by simp_all
  have d: "distinct (map eid sections)" using ss by (simp add: marks_ok_def)
  have dead: "filter (\<lambda>s. present (deletedAt s)) sections = filter is_deleted sections"
    and live: "filter (\<lambda>s. \<not> present (deletedAt s)) sections = filter (\<lambda>s. \<not> is_deleted s) sections"
    using marks_filters(1,2)[OF ss] by (simp_all add: dead_list_def live_list_def)
  show ?thesis
  proof (cases "js_map_of eid (filter (\<lambda>s. \<not> is_deleted s \<and> s_projectId s \<in> eid ` set (live_list projects)) sections) sid")
    case (Some s)
    then have s: "s \<in> set sections" "\<not> is_deleted s" "eid s = sid" "s_projectId s \<in> eid ` set (live_list projects)"
      by (auto dest!: filter_live_owner)
    have qs: "q = s_projectId s" using q Some sid by (simp add: kept_section_owner_def)
    then have "nonblank q" using s(4) ps by (auto simp: marks_ok_def live_list_def)
    then show ?thesis
      using True u s qs marks_lookup[OF d s(1)]
      by (auto simp: task_section_errors_def dead live Let_def)
  next
    case None
    then obtain s where s: "s \<in> set sections" "is_deleted s" "eid s = sid"
      and ref: "isTaskSectionProjectArchiveReference t (Some s) (Option.bind p1 (js_map_of eid (archived_live projects)))"
      and qs: "q = s_projectId s"
      using q sid by (auto simp: kept_section_owner_def dest!: filter_live_owner split: option.splits if_splits)
    obtain k pp where k: "p1 = Some k" "js_map_of eid (archived_live projects) k = Some pp"
      using ref by (cases p1; cases "Option.bind p1 (js_map_of eid (archived_live projects))")
         (auto simp: isTaskSectionProjectArchiveReference_def)
    then have pp: "pp \<in> set projects" "eid pp = k" by (auto simp: archived_live_def dest!: js_map_SomeD)
    have "nonblank k" using pp ps by (auto simp: marks_ok_def)
    then have "truthy p1" using k nonblank_nonempty by simp
    then have "t_projectId u = Some k" using hierarchy_project[of p1] r own(2) q u k by simp
    then have "isTaskSectionProjectArchiveReference u (Some s) (js_map_of eid (archived_projects projects) k)"
      using ref k pp st by (simp add: isTaskSectionProjectArchiveReference_def archived_projects_eq[OF ps])
    then show ?thesis
      using True u s \<open>nonblank k\<close> \<open>t_projectId u = Some k\<close> marks_lookup[OF d s(1)]
      by (auto simp: task_section_errors_def dead Let_def)
  qed
qed

lemma task_refs_repaired:
  assumes ps: "marks_ok projects" and ss: "marks_ok sections" and as: "marks_ok areas"
  shows "task_ref_errors areas projects sections i (repair_task remap areas projects sections now t) = []"
proof -
  define u where "u = repair_task remap areas projects sections now t"
  obtain p1 s1 a1 r where plan:
    "r = resolveTaskContainerHierarchy p1 s1 a1 (kept_section_owner projects sections t p1 s1)"
    "truthy p1 \<longrightarrow> the p1 \<in> eid ` set (live_list projects)"
    "truthy a1 \<longrightarrow> the a1 \<in> eid ` set (live_list areas)"
    "present (t_projectId u) \<longrightarrow> t_projectId u = ca_projectId r"
    "present (t_sectionId u) \<longrightarrow> t_sectionId u = ca_sectionId r"
    "present (t_areaId u) \<longrightarrow> t_areaId u = ca_areaId r"
    "truthy (ca_projectId r) \<longrightarrow> t_projectId u = ca_projectId r"
    unfolding u_def by (rule repair_task_plan)
  have st: "t_status u = t_status t" by (simp add: u_def)
  note sec = task_section_repaired[OF ps ss plan(1,5,7) st, of i]
  have area: "the (t_areaId u) \<in> eid ` set (live_list areas)" if "present (t_areaId u)"
    using that plan(1,3,6) hierarchy_area present_truthy by metis
  have owner: "the v \<in> eid ` set (live_list projects)"
    if "kept_section_owner projects sections t p1 s1 = v" "truthy v" for v
  proof -
    have "archived_live projects = filter (\<lambda>p. p_status p = PArchived) (live_list projects)"
      by (auto simp: archived_live_def live_list_def conj_commute)
    then show ?thesis
      using that by (auto simp: kept_section_owner_def dest!: filter_live_owner split: option.splits if_splits)
  qed
  have proj: "the (t_projectId u) \<in> eid ` set (live_list projects)" if "present (t_projectId u)"
  proof (cases "truthy p1")
    case True
    then show ?thesis using that plan(1,2,4) hierarchy_project by metis
  next
    case False
    have "truthy (ca_projectId r)" using that plan(4) present_truthy by metis
    with False have "ca_projectId r = kept_section_owner projects sections t p1 s1"
      unfolding plan(1) by (auto simp: resolveTaskContainerHierarchy_def split: if_splits)
    with that plan(4) \<open>truthy (ca_projectId r)\<close> owner show ?thesis by metis
  qed
  have sub: "eid ` set (live_list xs) \<subseteq> eid ` set xs" for xs :: "'a mergeable_scheme list"
    by (auto simp: live_list_def)
  have "task_ref_errors areas projects sections i u = []"
    unfolding task_ref_errors_def Let_def marks_filters(3,4)[OF ps] marks_filters(3,4)[OF as]
      marks_filters(3)[OF ss]
    using sec area proj by (auto simp: live_list_def)
  then show ?thesis by (simp add: u_def)
qed

lemma each_map: "each f (map g xs) = each (\<lambda>i x. f i (g x)) xs"
  by (simp add: each_def enumerate_eq_zip zip_map2 comp_def case_prod_unfold)

lemma each_cong: "(\<And>i x. x \<in> set xs \<Longrightarrow> f i x = g i x) \<Longrightarrow> each f xs = each g xs"
  unfolding each_def by (intro arg_cong[where f = concat] map_cong) (auto simp: in_set_enumerate_eq)

text \<open>
  C3: after the references of a merged document are repaired, the reference check reports exactly
  the sections whose project does not exist, which the repair leaves alone: no task, no project and
  no other section keeps a dangling reference, and without such a section the check passes.
\<close>

theorem repair_passes_reference_check:
  assumes "repairable d" and "nonblank nowIso"
  shows "validate_references (repairMergedSyncReferences h d nowIso) =
    each (orphan_errors (ad_projects d)) (ad_sections d)"
proof -
  define m where "m = area_by_name h (ad_areas d)"
  define remap where "remap = area_id_remap m (ad_areas d)"
  define as where "as = map (retire_area m nowIso (Some SYNC_REPAIR_REV_BY)) (ad_areas d)"
  define ps where "ps = map (repair_project remap as nowIso) (ad_projects d)"
  define ss where "ss = map (repair_section ps nowIso) (ad_sections d)"
  define ts where "ts = map (repair_task remap as ps ss nowIso) (ad_tasks d)"
  have parts: "ad_areas (repairMergedSyncReferences h d nowIso) = as"
    "ad_projects (repairMergedSyncReferences h d nowIso) = ps"
    "ad_sections (repairMergedSyncReferences h d nowIso) = ss"
    "ad_tasks (repairMergedSyncReferences h d nowIso) = ts"
    by (simp_all add: repairMergedSyncReferences_def dedupeLiveAreasByName_def Let_def
        m_def remap_def as_def ps_def ss_def ts_def)
  have as: "marks_ok as" using assms by (simp add: as_def repairable_def marks_retired)
  have ps: "marks_ok ps" using assms by (simp add: ps_def repairable_def marks_projects)
  have purged: "\<forall>p\<in>set ps. truthy (p_purgedAt p) \<longrightarrow> nonblank (the (p_purgedAt p))"
    using assms(1) by (simp add: ps_def repairable_def)
  have ss: "marks_ok ss"
    using assms purged by (simp add: ss_def repairable_def marks_sections)
  have ids: "eid ` set ps = eid ` set (ad_projects d)" by (simp add: ps_def image_image)
  have "project_ref_errors as i p = []" if "p \<in> set ps" for i p
    using that project_refs_repaired[OF as] by (auto simp: ps_def)
  moreover have "each (section_ref_errors ps) ss = each (orphan_errors (ad_projects d)) (ad_sections d)"
    unfolding ss_def each_map
  proof (rule each_cong)
    fix i s assume "s \<in> set (ad_sections d)"
    then have "is_deleted s \<longrightarrow> nonblank (the (deletedAt s))"
      using assms(1) by (simp add: repairable_def marks_ok_def)
    from section_refs_repaired[OF ps assms(2) purged this]
    show "section_ref_errors ps i (repair_section ps nowIso s) = orphan_errors (ad_projects d) i s"
      by (simp add: orphan_errors_def ids)
  qed
  moreover have "task_ref_errors as ps ss i t = []" if "t \<in> set ts" for i t
    using that task_refs_repaired[OF ps ss as] by (auto simp: ts_def)
  ultimately show ?thesis by (simp add: validate_references_def parts each_Nil)
qed

text \<open>A live section and a task below a deleted project, beside a section of no project.\<close>

definition dangling_data :: app_data where
  "dangling_data = empty_data\<lparr>
     ad_tasks := [(sample_task ''t1'')\<lparr>t_projectId := Some ''p1'', t_sectionId := Some ''s1'', t_areaId := Some ''a9''\<rparr>],
     ad_projects := [(sample_project ''p1'')\<lparr>deletedAt := Some ''2024-01-03T00:00:00.000Z''\<rparr>],
     ad_sections := [sample_section ''s1'' ''p1'', sample_section ''s2'' ''p9'']\<rparr>"

theorem repair_passes_reference_check_witness:
  "length (validate_references dangling_data) = 4
   \<and> validate_references (repairMergedSyncReferences sample_host dangling_data ''2024-05-01T00:00:00.000Z'') =
      [''sections[1].projectId must reference an existing project'']"
proof
  show "length (validate_references dangling_data) = 4" by code_simp
  have "repairable dangling_data" "nonblank ''2024-05-01T00:00:00.000Z''" by code_simp+
  note r = repair_passes_reference_check[OF this]
  have "each (orphan_errors (ad_projects dangling_data)) (ad_sections dangling_data) =
      [''sections[1].projectId must reference an existing project'']" by code_simp
  then show "validate_references (repairMergedSyncReferences sample_host dangling_data ''2024-05-01T00:00:00.000Z'') =
      [''sections[1].projectId must reference an existing project'']" using r by simp
qed

end
