(* ===== verification/SavedFilters.thy ===== *)
theory SavedFilters
  imports "HOL-Library.AList" JsObject
begin

text \<open>
  \<open>saved-filters.ts\<close>: the saved filters as stored and synced (\<open>keepSavedFilters\<close>), as this build reads
  them (\<open>normalizeSavedFilter\<close>, \<open>normalizeFilterCriteria\<close>), and the deletion of one. A filter is the
  JavaScript object that was stored, its fields in order, with whatever a newer build added.
\<close>


subsection \<open>Values of the criteria\<close>

definition FILTER_TASK_STATUS_VALUES :: "string list" where
  "FILTER_TASK_STATUS_VALUES = [''inbox'', ''next'', ''waiting'', ''someday'', ''reference'', ''done'', ''archived'']"

definition FILTER_PRIORITY_VALUES :: "string list" where
  "FILTER_PRIORITY_VALUES = [''none'', ''low'', ''medium'', ''high'', ''urgent'']"

definition TASK_ENERGY_VALUES :: "string list" where
  "TASK_ENERGY_VALUES = [''low'', ''medium'', ''high'']"

definition TIME_ESTIMATE_OPTIONS :: "string list" where
  "TIME_ESTIMATE_OPTIONS = [''5min'', ''10min'', ''15min'', ''30min'', ''1hr'', ''2hr'', ''3hr'', ''4hr'', ''4hr+'']"

definition MULTI_VALUE_FILTER_MATCH_MODE_VALUES :: "string list" where
  "MULTI_VALUE_FILTER_MATCH_MODE_VALUES = [''any'', ''all'']"

definition SAVED_FILTER_VIEW_VALUES :: "string list" where
  "SAVED_FILTER_VIEW_VALUES = [''focus'', ''next'', ''waiting'', ''someday'', ''contexts'', ''all'']"

definition FOCUS_GROUP_BY_VALUES :: "string list" where
  "FOCUS_GROUP_BY_VALUES = [''none'', ''context'', ''project'', ''area'', ''energy'', ''priority'', ''person'', ''tag'']"

definition SORT_FIELD_VALUES :: "string list" where
  "SORT_FIELD_VALUES = [''default'', ''due'', ''start'', ''review'', ''title'', ''created'', ''created-desc'',
     ''priority'', ''energy'', ''timeEstimate'', ''project'', ''updated'']"

definition DATE_PRESET_VALUES :: "string list" where
  "DATE_PRESET_VALUES = [''today'', ''this_week'', ''this_month'', ''overdue'', ''no_date'']"

text \<open>A value as a string, and as one of the given strings.\<close>

definition one_of :: "string list \<Rightarrow> json \<Rightarrow> string option" where
  "one_of allowed v = (case v of JStr s \<Rightarrow> if s \<in> set allowed then Some s else None | _ \<Rightarrow> None)"

definition isSavedFilterSortField :: "json \<Rightarrow> bool" where
  "isSavedFilterSortField v = (one_of SORT_FIELD_VALUES v \<noteq> None)"

definition normalizePrefixedToken :: "string \<Rightarrow> string \<Rightarrow> string" where
  "normalizePrefixedToken value prefix = (if starts_with prefix value then value else prefix @ value)"

definition nonempty_list :: "'a list \<Rightarrow> 'a list option" where
  "nonempty_list xs = (if xs = [] then None else Some xs)"

text \<open>The trimmed strings of an array, the first of each spelling up to case.\<close>

fun distinct_by_case :: "string list \<Rightarrow> string list \<Rightarrow> string list" where
  "distinct_by_case seen [] = []"
| "distinct_by_case seen (x # xs) =
     (if js_lower x \<in> set seen then distinct_by_case seen xs
      else x # distinct_by_case (js_lower x # seen) xs)"

definition trimmed_strings :: "json list \<Rightarrow> string list" where
  "trimmed_strings vs = filter (\<lambda>s. s \<noteq> []) (map js_trim (concat (map (\<lambda>v. case v of JStr s \<Rightarrow> [s] | _ \<Rightarrow> []) vs)))"

definition normalizeStringArray :: "string option \<Rightarrow> json \<Rightarrow> string list option" where
  "normalizeStringArray prefix value =
     (case value of
        JArr vs \<Rightarrow> nonempty_list (distinct_by_case []
          (map (\<lambda>s. case prefix of None \<Rightarrow> s | Some p \<Rightarrow> normalizePrefixedToken s p) (trimmed_strings vs)))
      | _ \<Rightarrow> None)"

definition subtractTokens :: "string list option \<Rightarrow> string list option \<Rightarrow> string list option" where
  "subtractTokens tokens remove =
     (case tokens of
        None \<Rightarrow> None
      | Some ts \<Rightarrow>
          (case remove of
             None \<Rightarrow> Some ts
           | Some rs \<Rightarrow> if rs = [] then Some ts
               else nonempty_list (filter (\<lambda>t. js_lower t \<notin> js_lower ` set rs) ts)))"

definition normalizeEnumArray :: "string list \<Rightarrow> json \<Rightarrow> string list option" where
  "normalizeEnumArray allowed value =
     (case value of
        JArr vs \<Rightarrow> nonempty_list (uniq (concat (map (\<lambda>v. case one_of allowed v of Some s \<Rightarrow> [s] | None \<Rightarrow> []) vs)))
      | _ \<Rightarrow> None)"

definition trimmed_text :: "json \<Rightarrow> string option" where
  "trimmed_text v = (case v of JStr s \<Rightarrow> if js_trim s \<noteq> [] then Some (js_trim s) else None | _ \<Rightarrow> None)"

definition normalizeDateRange :: "json \<Rightarrow> json option" where
  "normalizeDateRange value =
     (if \<not> isRecord value then None
      else (case one_of DATE_PRESET_VALUES (member value ''preset'') of
          Some preset \<Rightarrow> Some (JObj [(''preset'', JStr preset)])
        | None \<Rightarrow>
            (let from1 = trimmed_text (member value ''from''); to1 = trimmed_text (member value ''to'')
             in if from1 = None \<and> to1 = None then None
                else Some (JObj [(''from'', j_str from1), (''to'', j_str to1)]))))"

text \<open>\<open>Math.max(0, Math.floor(v))\<close> of a finite number.\<close>

definition minutes_bound :: "json \<Rightarrow> int option" where
  "minutes_bound v = (if is_finite_number v then Some (max 0 (js_floor v)) else None)"

definition opt_field :: "string \<Rightarrow> json option \<Rightarrow> js_object" where
  "opt_field k v = (case v of None \<Rightarrow> [] | Some x \<Rightarrow> [(k, x)])"

definition str_list :: "string list option \<Rightarrow> json option" where
  "str_list v = map_option (\<lambda>xs. JArr (map JStr xs)) v"

definition normalizeFilterCriteria :: "json \<Rightarrow> js_object" where
  "normalizeFilterCriteria value =
     (if \<not> isRecord value then []
      else
        (let contexts = normalizeStringArray (Some ''@'') (member value ''contexts'');
             tags = normalizeStringArray (Some ''#'') (member value ''tags'');
             excludedContexts = subtractTokens (normalizeStringArray (Some ''@'') (member value ''excludedContexts'')) contexts;
             excludedTags = subtractTokens (normalizeStringArray (Some ''#'') (member value ''excludedTags'')) tags;
             range = member value ''timeEstimateRange'';
             lo = minutes_bound (member range ''min''); hi = minutes_bound (member range ''max'')
         in opt_field ''contexts'' (str_list contexts)
          @ (if contexts = None then [] else opt_field ''contextMatchMode''
               (map_option JStr (one_of MULTI_VALUE_FILTER_MATCH_MODE_VALUES (member value ''contextMatchMode''))))
          @ opt_field ''excludedContexts'' (str_list excludedContexts)
          @ opt_field ''areas'' (str_list (normalizeStringArray None (member value ''areas'')))
          @ opt_field ''projects'' (str_list (normalizeStringArray None (member value ''projects'')))
          @ opt_field ''tags'' (str_list tags)
          @ (if tags = None then [] else opt_field ''tagMatchMode''
               (map_option JStr (one_of MULTI_VALUE_FILTER_MATCH_MODE_VALUES (member value ''tagMatchMode''))))
          @ opt_field ''excludedTags'' (str_list excludedTags)
          @ opt_field ''energy'' (str_list (normalizeEnumArray TASK_ENERGY_VALUES (member value ''energy'')))
          @ opt_field ''priority'' (str_list (normalizeEnumArray FILTER_PRIORITY_VALUES (member value ''priority'')))
          @ opt_field ''statuses'' (str_list (normalizeEnumArray FILTER_TASK_STATUS_VALUES (member value ''statuses'')))
          @ opt_field ''assignedTo'' (str_list (normalizeStringArray None (member value ''assignedTo'')))
          @ opt_field ''locations'' (str_list (normalizeStringArray None (member value ''locations'')))
          @ opt_field ''timeEstimates'' (str_list (normalizeEnumArray TIME_ESTIMATE_OPTIONS (member value ''timeEstimates'')))
          @ opt_field ''dueDateRange'' (normalizeDateRange (member value ''dueDateRange''))
          @ opt_field ''startDateRange'' (normalizeDateRange (member value ''startDateRange''))
          @ (if isRecord range \<and> (lo \<noteq> None \<or> hi \<noteq> None)
             then [(''timeEstimateRange'', JObj [(''min'', j_num lo), (''max'', j_num hi)])] else [])
          @ (case member value ''hasDescription'' of JBool b \<Rightarrow> [(''hasDescription'', JBool b)] | _ \<Rightarrow> [])
          @ (case member value ''isStarred'' of JBool b \<Rightarrow> [(''isStarred'', JBool b)] | _ \<Rightarrow> [])))"

definition has_items :: "json \<Rightarrow> bool" where
  "has_items v = (case v of JArr vs \<Rightarrow> vs \<noteq> [] | _ \<Rightarrow> False)"

definition hasActiveFilterCriteria :: "json \<Rightarrow> bool" where
  "hasActiveFilterCriteria criteria =
     (let n = normalizeFilterCriteria criteria in
        has_items (obj_get ''contexts'' n) \<or> has_items (obj_get ''excludedContexts'' n)
      \<or> has_items (obj_get ''areas'' n) \<or> has_items (obj_get ''projects'' n)
      \<or> has_items (obj_get ''tags'' n) \<or> has_items (obj_get ''excludedTags'' n)
      \<or> has_items (obj_get ''energy'' n) \<or> has_items (obj_get ''priority'' n)
      \<or> js_truthy (obj_get ''dueDateRange'' n) \<or> js_truthy (obj_get ''startDateRange'' n)
      \<or> has_items (obj_get ''statuses'' n) \<or> has_items (obj_get ''assignedTo'' n)
      \<or> has_items (obj_get ''locations'' n) \<or> js_truthy (obj_get ''timeEstimateRange'' n)
      \<or> has_items (obj_get ''timeEstimates'' n)
      \<or> obj_get ''hasDescription'' n \<noteq> JUndef \<or> obj_get ''isStarred'' n \<noteq> JUndef)"

subsection \<open>Saved filters\<close>

definition filter_id :: "js_object \<Rightarrow> string" where
  "filter_id f = or_else (str_of (obj_get ''id'' f)) []"

definition stored_filter :: "json \<Rightarrow> bool" where
  "stored_filter v = (isRecord v \<and> (case member v ''id'' of JStr s \<Rightarrow> js_trim s \<noteq> [] | _ \<Rightarrow> False))"

definition filter_fields :: "json \<Rightarrow> js_object" where
  "filter_fields v = (case v of JObj kvs \<Rightarrow> kvs | _ \<Rightarrow> [])"

definition keepSavedFilters :: "json \<Rightarrow> js_object list" where
  "keepSavedFilters value =
     (case value of
        JArr vs \<Rightarrow> map snd (foldl (\<lambda>m f. AList.update (filter_id f) f m) []
          (map filter_fields (filter stored_filter vs)))
      | _ \<Rightarrow> [])"

definition normalizeSavedFilter :: "json \<Rightarrow> js_object option" where
  "normalizeSavedFilter value =
     (if \<not> stored_filter value then None
      else case (trimmed_text (member value ''name''), one_of SAVED_FILTER_VIEW_VALUES (member value ''view'')) of
        (Some name, Some view) \<Rightarrow>
          (let createdAt = or_else (str_of (member value ''createdAt'')) [];
               updatedAt = (case member value ''updatedAt'' of JStr s \<Rightarrow> if js_trim s \<noteq> [] then s else createdAt | _ \<Rightarrow> createdAt)
           in Some ([(''id'', member value ''id''), (''name'', JStr name)]
              @ opt_field ''icon'' (map_option JStr (trimmed_text (member value ''icon'')))
              @ [(''view'', JStr view), (''criteria'', JObj (normalizeFilterCriteria (member value ''criteria'')))]
              @ opt_field ''sortBy'' (map_option JStr (one_of SORT_FIELD_VALUES (member value ''sortBy'')))
              @ opt_field ''sortOrder'' (map_option JStr (one_of [''asc'', ''desc''] (member value ''sortOrder'')))
              @ opt_field ''groupBy'' (map_option JStr (one_of FOCUS_GROUP_BY_VALUES (member value ''groupBy'')))
              @ [(''createdAt'', JStr createdAt), (''updatedAt'', JStr updatedAt)]
              @ opt_field ''deletedAt'' (map_option JStr (trimmed_text (member value ''deletedAt'')))))
      | _ \<Rightarrow> None)"

definition normalizeSavedFilters :: "json \<Rightarrow> js_object list" where
  "normalizeSavedFilters value =
     concat (map (\<lambda>f. case normalizeSavedFilter (JObj f) of Some g \<Rightarrow> [g] | None \<Rightarrow> []) (keepSavedFilters value))"

definition markSavedFilterDeleted :: "js_object list \<Rightarrow> string \<Rightarrow> string \<Rightarrow> js_object list" where
  "markSavedFilterDeleted filters filterId now =
     map (\<lambda>f. if obj_get ''id'' f = JStr filterId
        then obj_spread f [(''updatedAt'', JStr now), (''deletedAt'', JStr now)] else f) filters"

subsection \<open>Stored filters\<close>

definition indexed_ok :: "(string \<times> js_object) list \<Rightarrow> bool" where
  "indexed_ok m = (distinct (map fst m) \<and> (\<forall>kf\<in>set m. filter_id (snd kf) = fst kf))"

lemma set_update_subset: "set (AList.update k v m) \<subseteq> insert (k, v) (set m)"
  by (induction m) auto

lemma indexed_ok_fold:
  "indexed_ok m \<Longrightarrow> indexed_ok (foldl (\<lambda>m f. AList.update (filter_id f) f m) m fs)"
proof (induction fs arbitrary: m)
  case (Cons f fs)
  have "indexed_ok (AList.update (filter_id f) f m)"
    using Cons.prems set_update_subset[of "filter_id f" f m]
    by (auto simp: indexed_ok_def distinct_update)
  then show ?case using Cons.IH by simp
qed simp

lemma fold_update_subset:
  "snd ` set (foldl (\<lambda>m f. AList.update (filter_id f) f m) m fs) \<subseteq> snd ` set m \<union> set fs"
proof (induction fs arbitrary: m)
  case (Cons f fs)
  have "snd ` set (AList.update (filter_id f) f m) \<subseteq> insert f (snd ` set m)"
    using set_update_subset[of "filter_id f" f m] by force
  then show ?case
    by simp (rule subset_trans[OF Cons.IH], blast)
qed simp

lemma fold_update_append:
  "distinct (map fst m @ map filter_id fs) \<Longrightarrow>
   foldl (\<lambda>m f. AList.update (filter_id f) f m) m fs = m @ map (\<lambda>f. (filter_id f, f)) fs"
proof (induction fs arbitrary: m)
  case (Cons f fs)
  then have "AList.update (filter_id f) f m = m @ [(filter_id f, f)]"
    by (induction m) auto
  then show ?case using Cons by simp
qed simp

lemma kept_of_array:
  "set (keepSavedFilters (JArr vs)) \<subseteq> filter_fields ` set (filter stored_filter vs)"
  using fold_update_subset[of "[]" "map filter_fields (filter stored_filter vs)"]
  by (simp add: keepSavedFilters_def)

lemma stored_filter_fields: "stored_filter x \<Longrightarrow> JObj (filter_fields x) = x"
  by (cases x) (simp_all add: stored_filter_def isRecord_def filter_fields_def)

lemma kept_stored: "f \<in> set (keepSavedFilters v) \<Longrightarrow> stored_filter (JObj f)"
proof (cases v)
  case (JArr vs)
  assume "f \<in> set (keepSavedFilters v)"
  then obtain x where "stored_filter x" "f = filter_fields x"
    using kept_of_array[of vs] JArr by auto
  then show ?thesis by (simp add: stored_filter_fields)
qed (simp_all add: keepSavedFilters_def)

lemma kept_distinct: "distinct (map filter_id (keepSavedFilters v))"
proof (cases v)
  case (JArr vs)
  have "indexed_ok (foldl (\<lambda>m f. AList.update (filter_id f) f m) [] (map filter_fields (filter stored_filter vs)))"
    by (rule indexed_ok_fold) (simp add: indexed_ok_def)
  then show ?thesis
    by (simp add: JArr keepSavedFilters_def indexed_ok_def comp_def cong: map_cong)
qed (simp_all add: keepSavedFilters_def)

lemma keep_of_kept:
  assumes "distinct (map filter_id fs)" "\<forall>f\<in>set fs. stored_filter (JObj f)"
  shows "keepSavedFilters (JArr (map JObj fs)) = fs"
proof -
  have "map filter_fields (filter stored_filter (map JObj fs)) = fs"
    using assms(2) by (induction fs) (auto simp: filter_fields_def)
  then show ?thesis
    using fold_update_append[of "[]" fs] assms(1) by (simp add: keepSavedFilters_def comp_def)
qed

lemma keepSavedFilters_idem: "keepSavedFilters (JArr (map JObj (keepSavedFilters v))) = keepSavedFilters v"
  by (rule keep_of_kept) (auto simp: kept_distinct dest: kept_stored)

end
