(* ===== verification/SettingsOptions.thy ===== *)
theory SettingsOptions
  imports SavedFilters
begin

text \<open>
  The allowed values of the settings (\<open>settings-options.ts\<close>) and the part of the settings that the
  \<open>gtd\<close> group synchronises (\<open>getGtdSyncSnapshot\<close>). Settings are the stored object itself.
\<close>

definition SETTINGS_THEME_VALUES :: "string list" where
  "SETTINGS_THEME_VALUES = [''light'', ''dark'', ''system'', ''system-oled'', ''eink'', ''nord'', ''sepia'',
     ''material3-light'', ''material3-dark'', ''oled'', ''catppuccin-macchiato'', ''dracula'']"

definition LOCALE_KEYS :: "string list" where
  "LOCALE_KEYS = [''vi'', ''zh'', ''zh-Hant'', ''es'', ''hu'', ''uk'', ''hi'', ''ar'', ''de'', ''ru'', ''ja'', ''fr'',
     ''pt'', ''pl'', ''cs'', ''ko'', ''it'', ''tr'', ''nl'', ''fa'', ''sv'', ''da'']"

definition SETTINGS_LANGUAGE_VALUES :: "string list" where
  "SETTINGS_LANGUAGE_VALUES = [''en''] @ LOCALE_KEYS @ [''system'']"

definition SETTINGS_WEEK_START_VALUES :: "string list" where
  "SETTINGS_WEEK_START_VALUES = [''system'', ''monday'', ''saturday'', ''sunday'']"

definition SETTINGS_TIME_FORMAT_VALUES :: "string list" where
  "SETTINGS_TIME_FORMAT_VALUES = [''system'', ''12h'', ''24h'']"

definition SETTINGS_KEYBINDING_STYLE_VALUES :: "string list" where
  "SETTINGS_KEYBINDING_STYLE_VALUES = [''vim'', ''emacs'', ''standard'']"

definition SETTINGS_DENSITY_VALUES :: "string list" where
  "SETTINGS_DENSITY_VALUES = [''comfortable'', ''compact'', ''condensed'']"

definition SETTINGS_TEXT_SIZE_VALUES :: "string list" where
  "SETTINGS_TEXT_SIZE_VALUES = [''small'', ''default'', ''large'', ''extra-large'']"

definition SETTINGS_MOBILE_QUICK_ACCESS_VIEW_VALUES :: "string list" where
  "SETTINGS_MOBILE_QUICK_ACCESS_VIEW_VALUES = [''review'', ''projects'', ''calendar'', ''contexts'']"

definition SETTINGS_DEFAULT_PROJECT_FLOW_MODE_VALUES :: "string list" where
  "SETTINGS_DEFAULT_PROJECT_FLOW_MODE_VALUES = [''parallel'', ''sequential'']"

definition SETTINGS_DEFAULT_TASK_AREA_MODE_VALUES :: "string list" where
  "SETTINGS_DEFAULT_TASK_AREA_MODE_VALUES = [''none'', ''fixed'', ''active'']"

definition AI_PROVIDER_VALUES :: "string list" where
  "AI_PROVIDER_VALUES = [''gemini'', ''openai'', ''anthropic'']"

definition AI_REASONING_EFFORT_VALUES :: "string list" where
  "AI_REASONING_EFFORT_VALUES = [''minimal'', ''low'', ''medium'', ''high'']"

definition STT_PROVIDER_VALUES :: "string list" where
  "STT_PROVIDER_VALUES = [''openai'', ''gemini'', ''whisper'', ''parakeet'']"

definition STT_MODE_VALUES :: "string list" where
  "STT_MODE_VALUES = [''smart_parse'', ''transcribe_only'']"

definition STT_FIELD_STRATEGY_VALUES :: "string list" where
  "STT_FIELD_STRATEGY_VALUES = [''smart'', ''title_only'', ''description_only'']"

definition AI_REQUEST_TIMEOUT_OPTIONS :: "int list" where
  "AI_REQUEST_TIMEOUT_OPTIONS = [30, 60, 120, 300]"

definition EXTERNAL_CALENDAR_COLORS :: "string list" where
  "EXTERNAL_CALENDAR_COLORS = [''#2563EB'', ''#7C3AED'', ''#DB2777'', ''#EA580C'', ''#059669'', ''#0891B2'',
     ''#4F46E5'', ''#65A30D'']"

definition normalizeExternalCalendarColor :: "json \<Rightarrow> string option" where
  "normalizeExternalCalendarColor v =
     (case v of JStr s \<Rightarrow> if js_upper (js_trim s) \<in> set EXTERNAL_CALENDAR_COLORS
        then Some (js_upper (js_trim s)) else None
      | _ \<Rightarrow> None)"

definition DEFAULT_TASK_EDITOR_ORDER :: "string list" where
  "DEFAULT_TASK_EDITOR_ORDER = [''status'', ''project'', ''area'', ''contexts'', ''dueDate'', ''section'', ''startTime'',
     ''reviewAt'', ''recurrence'', ''tags'', ''description'', ''attachments'', ''checklist'', ''priority'',
     ''energyLevel'', ''timeEstimate'', ''assignedTo'', ''location'']"

definition DEFAULT_TASK_EDITOR_VISIBLE :: "string list" where
  "DEFAULT_TASK_EDITOR_VISIBLE = [''status'', ''project'', ''area'', ''contexts'', ''dueDate'', ''recurrence'',
     ''startTime'', ''reviewAt'', ''tags'', ''description'', ''attachments'', ''checklist'']"

definition DEFAULT_TASK_EDITOR_HIDDEN :: "string list" where
  "DEFAULT_TASK_EDITOR_HIDDEN = filter (\<lambda>f. f \<notin> set DEFAULT_TASK_EDITOR_VISIBLE) DEFAULT_TASK_EDITOR_ORDER"

definition MIN_FOCUS_TASK_LIMIT :: int where "MIN_FOCUS_TASK_LIMIT = 1"
definition MAX_FOCUS_TASK_LIMIT :: int where "MAX_FOCUS_TASK_LIMIT = 10"

text \<open>\<open>normalizeFocusTaskLimit\<close> of a finite number.\<close>

definition normalizeFocusTaskLimit :: "json \<Rightarrow> int" where
  "normalizeFocusTaskLimit v = min MAX_FOCUS_TASK_LIMIT (max MIN_FOCUS_TASK_LIMIT (js_floor v))"

subsection \<open>The synchronised part of the GTD settings\<close>

definition GTD_SYNCED_FIELD_KEYS :: "string list" where
  "GTD_SYNCED_FIELD_KEYS = [''timeEstimatePresets'', ''taskEditor'', ''autoArchiveDays'', ''archiveRetentionDays'',
     ''defaultCaptureMethod'', ''defaultScheduleTime'', ''defaultAreaMode'', ''defaultAreaId'', ''focusTaskLimit'',
     ''focusIncludeStartDates'', ''focusGroupBy'', ''defaultProjectFlowMode'', ''naturalLanguageDates'',
     ''viewSections'', ''saveAudioAttachments'', ''weeklyReview'', ''dailyReview'', ''pomodoro'']"

definition GTD_SYNCED_INBOX_PROCESSING_FIELD_KEYS :: "string list" where
  "GTD_SYNCED_INBOX_PROCESSING_FIELD_KEYS = [''twoMinuteEnabled'', ''twoMinuteFirst'', ''projectFirst'',
     ''contextStepEnabled'', ''scheduleEnabled'', ''referenceEnabled'']"

definition GTD_SYNCED_APP_SETTINGS_FIELD_KEYS :: "string list" where
  "GTD_SYNCED_APP_SETTINGS_FIELD_KEYS = [''quickAddAutoClean'', ''markdownEditorAssist'']"

definition GTD_SYNCED_FEATURE_FIELD_KEYS :: "string list" where
  "GTD_SYNCED_FEATURE_FIELD_KEYS = [''priorities'', ''timeEstimates'', ''pomodoro'', ''timeline'']"

definition isSettingsSyncGroupEnabled :: "json \<Rightarrow> string \<Rightarrow> json" where
  "isSettingsSyncGroupEnabled preferences grp = nullish_or (member preferences grp) (JBool (grp = ''gtd''))"

definition pick_defined :: "string list \<Rightarrow> json \<Rightarrow> js_object" where
  "pick_defined ks v = filter (\<lambda>kv. snd kv \<noteq> JUndef) (map (\<lambda>k. (k, member v k)) ks)"

definition nonempty_field :: "string \<Rightarrow> js_object \<Rightarrow> js_object" where
  "nonempty_field k kvs = (if kvs = [] then [] else [(k, JObj kvs)])"

definition getGtdSyncSnapshot :: "js_object \<Rightarrow> js_object" where
  "getGtdSyncSnapshot settings1 =
     (let gtd = obj_get ''gtd'' settings1;
          inbox = pick_defined GTD_SYNCED_INBOX_PROCESSING_FIELD_KEYS (member gtd ''inboxProcessing'');
          picked = pick_defined GTD_SYNCED_FIELD_KEYS gtd @ nonempty_field ''inboxProcessing'' inbox
      in nonempty_field ''gtd'' picked
       @ pick_defined GTD_SYNCED_APP_SETTINGS_FIELD_KEYS (JObj settings1)
       @ nonempty_field ''features'' (pick_defined GTD_SYNCED_FEATURE_FIELD_KEYS (obj_get ''features'' settings1)))"

end
