(* ===== verification/SettingsSanitize.thy ===== *)
theory SettingsSanitize
  imports SettingsOptions
begin

text \<open>
  The sanitizers of \<open>sync-merge-settings.ts\<close>: \<open>sanitizeAiForSync\<close>, which keeps this device's endpoint
  and strips the key, the sanitizers of the groups, \<open>sanitizeMergedSettingsForSync\<close>, and
  \<open>restoreDeviceLocalAiSettings\<close>. \<open>cloneSettingValue\<close> copies a value and is the identity here.
\<close>

definition setContainsValue :: "string list \<Rightarrow> json \<Rightarrow> bool" where
  "setContainsValue allowed v = (one_of allowed v \<noteq> None)"

definition local_or_undefined :: "json \<Rightarrow> json" where
  "local_or_undefined v = (if js_truthy v then v else JUndef)"

text \<open>\<open>if (next.k !== undefined \<and> !ok(next.k)) next.k = fallback?.k\<close>.\<close>

definition replace_unless :: "(json \<Rightarrow> bool) \<Rightarrow> string \<Rightarrow> json \<Rightarrow> js_object \<Rightarrow> js_object" where
  "replace_unless ok k fallback next1 =
     (if obj_get k next1 \<noteq> JUndef \<and> \<not> ok (obj_get k next1) then obj_set k (member fallback k) next1 else next1)"

text \<open>The same, deleting the key when the fallback has no value.\<close>

definition set_or_delete :: "string \<Rightarrow> json \<Rightarrow> js_object \<Rightarrow> js_object" where
  "set_or_delete k v next1 = (if v = JUndef then obj_delete k next1 else obj_set k v next1)"

definition restore_unless :: "(json \<Rightarrow> bool) \<Rightarrow> string \<Rightarrow> json \<Rightarrow> js_object \<Rightarrow> js_object" where
  "restore_unless ok k fallback next1 =
     (if obj_get k next1 \<noteq> JUndef \<and> \<not> ok (obj_get k next1)
      then set_or_delete k (member fallback k) next1 else next1)"

definition boolean_or_undefined :: "json \<Rightarrow> json" where
  "boolean_or_undefined v = (if is_bool v then v else JUndef)"

subsection \<open>The AI settings\<close>

definition sanitize_speech :: "json \<Rightarrow> json \<Rightarrow> js_object" where
  "sanitize_speech incoming localSpeech =
     (let keepPath = (js_truthy (member localSpeech ''offlineModelPath'')
            \<and> strict_eq (member incoming ''provider'') (member localSpeech ''provider'')
            \<and> strict_eq (member incoming ''model'') (member localSpeech ''model''))
      in obj_spread (own_entries incoming)
           [(''offlineModelPath'', if keepPath then member localSpeech ''offlineModelPath'' else JUndef),
            (''baseUrl'', member localSpeech ''baseUrl'')])"

definition sanitizeAiForSync :: "json \<Rightarrow> json \<Rightarrow> json" where
  "sanitizeAiForSync ai localAi =
     (if \<not> js_truthy ai then ai
      else
        (let sanitized = obj_spread (own_entries ai)
               [(''apiKey'', JUndef), (''baseUrl'', member localAi ''baseUrl''),
                (''openAIExtraBodyParams'', local_or_undefined (member localAi ''openAIExtraBodyParams''))];
             speech = obj_get ''speechToText'' sanitized; localSpeech = member localAi ''speechToText''
         in JObj (if js_truthy speech \<or> js_truthy (member localSpeech ''baseUrl'')
              then obj_set ''speechToText'' (JObj (sanitize_speech (nullish_or speech (JObj [])) localSpeech)) sanitized
              else sanitized)))"

definition restoreDeviceLocalAiSettings :: "js_object \<Rightarrow> js_object \<Rightarrow> js_object" where
  "restoreDeviceLocalAiSettings mergedSettings deviceLocal =
     (let source = obj_get ''ai'' deviceLocal; mergedAi = obj_get ''ai'' mergedSettings;
          mergedSpeech = member mergedAi ''speechToText''; sourceSpeech = member source ''speechToText'';
          extra = ''openAIExtraBodyParams''
      in if \<not> js_truthy source \<or> \<not> js_truthy mergedAi then mergedSettings
         else if strict_eq (member mergedAi ''baseUrl'') (member source ''baseUrl'')
             \<and> stringify (nullish_or (member mergedAi extra) JNull) = stringify (nullish_or (member source extra) JNull)
             \<and> strict_eq (member mergedSpeech ''baseUrl'') (member sourceSpeech ''baseUrl'')
             \<and> strict_eq (member mergedSpeech ''offlineModelPath'') (member sourceSpeech ''offlineModelPath'')
         then mergedSettings
         else (let ai = obj_spread (own_entries mergedAi)
                     [(''baseUrl'', member source ''baseUrl''), (extra, local_or_undefined (member source extra))]
               in obj_set ''ai'' (JObj (if js_truthy mergedSpeech \<or> js_truthy (member sourceSpeech ''baseUrl'')
                       \<or> js_truthy (member sourceSpeech ''offlineModelPath'')
                     then obj_set ''speechToText'' (JObj (obj_spread (own_entries mergedSpeech)
                       [(''baseUrl'', member sourceSpeech ''baseUrl''),
                        (''offlineModelPath'', member sourceSpeech ''offlineModelPath'')])) ai
                     else ai)) mergedSettings))"

definition isSupportedRequestTimeout :: "json \<Rightarrow> bool" where
  "isSupportedRequestTimeout v = (case v of JNum n \<Rightarrow> n \<in> set AI_REQUEST_TIMEOUT_OPTIONS | _ \<Rightarrow> False)"

definition not_negative :: "json \<Rightarrow> bool" where
  "not_negative v = (is_finite_number v \<and> 0 \<le> js_floor v)"

definition fix_request_timeout :: "json \<Rightarrow> js_object \<Rightarrow> js_object" where
  "fix_request_timeout fallback next1 =
     (let k = ''requestTimeoutSeconds''; v = obj_get k next1;
          fb = (if isSupportedRequestTimeout (member fallback k) then member fallback k else JUndef)
      in if v = JUndef then (if fb \<noteq> JUndef then obj_set k fb next1 else next1)
         else if \<not> isSupportedRequestTimeout v then set_or_delete k fb next1
         else next1)"

definition sanitize_speech_settings :: "json \<Rightarrow> js_object \<Rightarrow> js_object" where
  "sanitize_speech_settings fallback speech =
     replace_unless (setContainsValue STT_FIELD_STRATEGY_VALUES) ''fieldStrategy'' fallback
    (replace_unless (setContainsValue STT_MODE_VALUES) ''mode'' fallback
    (replace_unless isNonEmptyString ''language'' fallback
    (replace_unless isNonEmptyString ''model'' fallback
    (replace_unless (setContainsValue STT_PROVIDER_VALUES) ''provider'' fallback
    (replace_unless is_bool ''enabled'' fallback speech)))))"

definition sanitizeAiSettings :: "json \<Rightarrow> json \<Rightarrow> json" where
  "sanitizeAiSettings value fallback =
     (if \<not> isRecord value then (if js_truthy fallback then sanitizeAiForSync fallback fallback else JUndef)
      else
        (let next1 = fix_request_timeout fallback
               (replace_unless isNonEmptyString ''copilotModel'' fallback
               (replace_unless not_negative ''thinkingBudget'' fallback
               (replace_unless (setContainsValue AI_REASONING_EFFORT_VALUES) ''reasoningEffort'' fallback
               (replace_unless isRecord ''openAIExtraBodyParams'' fallback
               (replace_unless isNonEmptyString ''model'' fallback
               (replace_unless isNonEmptyString ''baseUrl'' fallback
               (replace_unless (setContainsValue AI_PROVIDER_VALUES) ''provider'' fallback
               (replace_unless is_bool ''enabled'' fallback (own_entries value)))))))));
             speech = obj_get ''speechToText'' next1; localSpeech = member fallback ''speechToText''
         in sanitizeAiForSync (JObj
              (if speech = JUndef then next1
               else if \<not> isRecord speech then obj_set ''speechToText'' (local_or_undefined localSpeech) next1
               else obj_set ''speechToText'' (JObj (sanitize_speech_settings localSpeech (own_entries speech))) next1))
            fallback))"

subsection \<open>Preferences and calendars\<close>

definition SETTINGS_SYNC_GROUP_KEYS :: "string list" where
  "SETTINGS_SYNC_GROUP_KEYS = [''appearance'', ''language'', ''gtd'', ''externalCalendars'', ''ai'', ''savedFilters'']"

definition SETTINGS_SYNC_UPDATED_AT_KEYS :: "string list" where
  "SETTINGS_SYNC_UPDATED_AT_KEYS = ''preferences'' # SETTINGS_SYNC_GROUP_KEYS"

definition keep_entries :: "(json \<Rightarrow> bool) \<Rightarrow> string list \<Rightarrow> json \<Rightarrow> json \<Rightarrow> json" where
  "keep_entries ok ks value fallback =
     (let next1 = filter (\<lambda>kv. ok (snd kv)) (map (\<lambda>k. (k, member value k)) ks)
      in if isRecord value \<and> next1 \<noteq> [] then JObj next1 else local_or_undefined fallback)"

definition sanitizeSyncPreferences :: "json \<Rightarrow> json \<Rightarrow> json" where
  "sanitizeSyncPreferences = keep_entries is_bool SETTINGS_SYNC_GROUP_KEYS"

definition sanitizeSyncPreferencesUpdatedAt :: "json \<Rightarrow> json \<Rightarrow> json" where
  "sanitizeSyncPreferencesUpdatedAt = keep_entries isValidTimestamp SETTINGS_SYNC_UPDATED_AT_KEYS"

definition text_at :: "json \<Rightarrow> string \<Rightarrow> string" where
  "text_at v k = or_else (str_of (member v k)) []"

definition isValidCalendar :: "json \<Rightarrow> bool" where
  "isValidCalendar item = (isRecord item \<and> isNonEmptyString (member item ''id'') \<and> isNonEmptyString (member item ''name'')
     \<and> isNonEmptyString (member item ''url'') \<and> is_bool (member item ''enabled''))"

definition isLocalCalendarSource :: "json \<Rightarrow> bool" where
  "isLocalCalendarSource item =
     (let url = js_lower (js_trim (text_at item ''url''))
      in starts_with ''file://'' url \<or> starts_with ''content://'' url)"

definition sanitize_area_ids :: "json list \<Rightarrow> string list" where
  "sanitize_area_ids vs = uniq (filter (\<lambda>s. 0 < length s \<and> length s \<le> 200)
     (concat (map (\<lambda>v. case v of JStr s \<Rightarrow> [s] | _ \<Rightarrow> []) (take 200 vs))))"

definition sanitizeCalendar :: "json \<Rightarrow> js_object" where
  "sanitizeCalendar item =
     [(''id'', JStr (js_trim (text_at item ''id''))), (''name'', JStr (js_trim (text_at item ''name''))),
      (''url'', JStr (js_trim (text_at item ''url''))), (''enabled'', member item ''enabled'')]
     @ opt_field ''color'' (map_option JStr (normalizeExternalCalendarColor (member item ''color'')))
     @ (case member item ''areaIds'' of
          JArr vs \<Rightarrow> [(''areaIds'', JArr (map JStr (sanitize_area_ids vs)))] | _ \<Rightarrow> [])"

definition array_items :: "json \<Rightarrow> json list" where
  "array_items v = (case v of JArr vs \<Rightarrow> vs | _ \<Rightarrow> [])"

definition sanitizeExternalCalendars :: "json \<Rightarrow> json \<Rightarrow> json" where
  "sanitizeExternalCalendars value fallback =
     (if \<not> is_array value then local_or_undefined fallback
      else
        (let next1 = map sanitizeCalendar (filter (\<lambda>c. isValidCalendar c \<and> \<not> isLocalCalendarSource c) (array_items value));
             deduped = foldl (\<lambda>m c. AList.update (filter_id c) c m) [] next1;
             localSources = map sanitizeCalendar (filter (\<lambda>c. isValidCalendar c \<and> isLocalCalendarSource c) (array_items fallback));
             all1 = foldl (\<lambda>m c. if map_of m (filter_id c) = None then AList.update (filter_id c) c m else m) deduped localSources
         in if array_items value \<noteq> [] \<and> all1 = [] \<and> js_truthy fallback then fallback
            else JArr (map (\<lambda>m. JObj (snd m)) all1)))"

subsection \<open>Appearance\<close>

text \<open>
  One field of the appearance: a value that is not allowed is replaced by this device's, the other
  fields of this device filling what the merged appearance lacks. The flag is \<open>didSanitizeAppearance\<close>.
\<close>

definition sanitize_appearance_field ::
  "(json \<Rightarrow> bool) \<Rightarrow> bool \<Rightarrow> string \<Rightarrow> json \<Rightarrow> js_object \<times> bool \<Rightarrow> js_object \<times> bool" where
  "sanitize_appearance_field ok dropUndefined k localAppearance st =
     (let ap = fst st in
      if obj_get k ap \<noteq> JUndef \<and> \<not> ok (obj_get k ap) then
        (let v = member localAppearance k;
             next1 = obj_set k v (obj_spread (own_entries localAppearance) ap)
         in (if dropUndefined \<and> v = JUndef then obj_delete k next1 else next1, True))
      else st)"

definition font_family_ok :: "json \<Rightarrow> bool" where
  "font_family_ok v = (case v of JStr s \<Rightarrow> length s \<le> 120 | _ \<Rightarrow> False)"

definition sanitize_appearance :: "json \<Rightarrow> json \<Rightarrow> json" where
  "sanitize_appearance value localAppearance =
     (if value = JUndef then JUndef
      else if \<not> isRecord value then local_or_undefined localAppearance
      else
        (case sanitize_appearance_field (setContainsValue SETTINGS_MOBILE_QUICK_ACCESS_VIEW_VALUES) True
                ''mobileQuickAccessView'' localAppearance
             (sanitize_appearance_field is_bool True ''showFutureStarts'' localAppearance
             (sanitize_appearance_field font_family_ok False ''fontFamily'' localAppearance
             (sanitize_appearance_field (setContainsValue SETTINGS_TEXT_SIZE_VALUES) False ''textSize'' localAppearance
             (sanitize_appearance_field (setContainsValue SETTINGS_DENSITY_VALUES) False ''density'' localAppearance
               (own_entries value, False))))) of
           (ap, didSanitize) \<Rightarrow>
             if didSanitize \<and> list_all (\<lambda>kv. snd kv = JUndef) ap \<and> own_entries localAppearance = []
             then JUndef else JObj ap))"

subsection \<open>GTD settings\<close>

definition sanitizeBooleanRecord :: "json \<Rightarrow> json \<Rightarrow> string list \<Rightarrow> json" where
  "sanitizeBooleanRecord value fallback booleanKeys =
     (if value = JUndef then JUndef
      else if \<not> isRecord value then (if isRecord fallback then fallback else JUndef)
      else JObj (foldl (\<lambda>next1 k.
          if k \<notin> fst ` set next1 \<or> is_bool (obj_get k next1) then next1
          else set_or_delete k (boolean_or_undefined (member fallback k)) next1) (own_entries value) booleanKeys))"

definition sanitize_presets :: "json \<Rightarrow> js_object \<Rightarrow> js_object" where
  "sanitize_presets localGtd g =
     (let k = ''timeEstimatePresets''; raw = obj_get k g;
          strings = filter (\<lambda>v. is_string v \<and> v \<noteq> JStr []) (array_items raw)
      in if raw = JUndef then g
         else if \<not> is_array raw \<or> strings = [] \<and> array_items raw \<noteq> []
           then set_or_delete k (member localGtd k) g
         else obj_set k (JArr strings) g)"

definition retention_days_ok :: "json \<Rightarrow> bool" where
  "retention_days_ok v = (case v of JNum n \<Rightarrow> 0 \<le> n \<and> n \<le> 36500 | _ \<Rightarrow> False)"

definition review_record :: "string \<Rightarrow> string list \<Rightarrow> json \<Rightarrow> js_object \<Rightarrow> js_object" where
  "review_record k booleanKeys localGtd g =
     (if obj_get k g = JUndef then g
      else (case sanitizeBooleanRecord (obj_get k g) (member localGtd k) booleanKeys of
          JObj r \<Rightarrow> obj_set k (JObj r) g
        | _ \<Rightarrow> set_or_delete k (member localGtd k) g))"

definition fix_default_mode :: "json \<Rightarrow> js_object \<Rightarrow> js_object" where
  "fix_default_mode localInbox r =
     (let k = ''defaultMode'' in
      if obj_get k r \<in> {JUndef, JStr ''guided'', JStr ''quick''} then r
      else set_or_delete k (local_or_undefined (member localInbox k)) r)"

definition sanitize_inbox :: "json \<Rightarrow> js_object \<Rightarrow> js_object" where
  "sanitize_inbox localGtd g =
     (let k = ''inboxProcessing'' in
      if obj_get k g = JUndef then g
      else (case sanitizeBooleanRecord (obj_get k g) (member localGtd k) GTD_SYNCED_INBOX_PROCESSING_FIELD_KEYS of
          JObj r \<Rightarrow> obj_set k (JObj (fix_default_mode (member localGtd k) r)) g
        | _ \<Rightarrow> set_or_delete k (member localGtd k) g))"

definition clamp_duration :: "json \<Rightarrow> js_object \<Rightarrow> string \<Rightarrow> js_object" where
  "clamp_duration fallback d k =
     (if is_finite_number (obj_get k d) then obj_set k (JNum (max 1 (min 180 (js_round (obj_get k d))))) d
      else set_or_delete k (member fallback k) d)"

definition fix_durations :: "json \<Rightarrow> js_object \<Rightarrow> js_object" where
  "fix_durations localPomodoro r =
     (let k = ''customDurations''; raw = obj_get k r; fallback = member localPomodoro k
      in if raw = JUndef then r
         else if \<not> isRecord raw then set_or_delete k (local_or_undefined fallback) r
         else obj_set k (JObj (foldl (clamp_duration fallback) (own_entries raw) [''focusMinutes'', ''breakMinutes''])) r)"

definition sanitize_pomodoro :: "json \<Rightarrow> js_object \<Rightarrow> js_object" where
  "sanitize_pomodoro localGtd g =
     (let k = ''pomodoro'' in
      if obj_get k g = JUndef then g
      else (case sanitizeBooleanRecord (obj_get k g) (member localGtd k)
               [''linkTask'', ''autoStartBreaks'', ''autoStartFocus'', ''completionAlert''] of
          JObj r \<Rightarrow> obj_set k (JObj (fix_durations (member localGtd k) r)) g
        | _ \<Rightarrow> set_or_delete k (member localGtd k) g))"

definition limit_in_range :: "json \<Rightarrow> bool" where
  "limit_in_range v =
     (is_finite_number v \<and> MIN_FOCUS_TASK_LIMIT \<le> js_floor v
      \<and> (if is_whole_number v then js_floor v \<le> MAX_FOCUS_TASK_LIMIT else js_floor v < MAX_FOCUS_TASK_LIMIT))"

definition sanitize_focus_limit :: "json \<Rightarrow> js_object \<Rightarrow> js_object" where
  "sanitize_focus_limit localGtd g =
     (let k = ''focusTaskLimit''; raw = obj_get k g in
      if raw = JUndef then g
      else if limit_in_range raw then obj_set k (JNum (normalizeFocusTaskLimit raw)) g
      else set_or_delete k (member localGtd k) g)"

definition drop_unless :: "(json \<Rightarrow> bool) \<Rightarrow> string \<Rightarrow> js_object \<Rightarrow> js_object" where
  "drop_unless ok k o1 = (if ok (obj_get k o1) then o1 else obj_delete k o1)"

definition sanitize_task_editor :: "json \<Rightarrow> js_object \<Rightarrow> js_object" where
  "sanitize_task_editor localGtd g =
     (let k = ''taskEditor''; raw = obj_get k g in
      if raw = JUndef then g
      else if \<not> isRecord raw then set_or_delete k (member localGtd k) g
      else obj_set k (JObj (drop_unless is_number ''defaultsVersion'' (drop_unless is_string ''presentation''
             (drop_unless isRecord ''sectionOpen'' (drop_unless isRecord ''sections''
             (drop_unless is_array ''hidden'' (drop_unless is_array ''order'' (own_entries raw)))))))) g)"

definition area_id_ok :: "json \<Rightarrow> bool" where
  "area_id_ok v = (v = JNull \<or> isNonEmptyString v)"

definition sanitize_gtd :: "json \<Rightarrow> json \<Rightarrow> json" where
  "sanitize_gtd value localGtd =
     (if value = JUndef then JUndef
      else if \<not> isRecord value then local_or_undefined localGtd
      else JObj
        (restore_unless (setContainsValue SETTINGS_DEFAULT_PROJECT_FLOW_MODE_VALUES) ''defaultProjectFlowMode'' localGtd
        (sanitize_task_editor localGtd
        (restore_unless area_id_ok ''defaultAreaId'' localGtd
        (restore_unless (setContainsValue SETTINGS_DEFAULT_TASK_AREA_MODE_VALUES) ''defaultAreaMode'' localGtd
        (restore_unless (setContainsValue FOCUS_GROUP_BY_VALUES) ''focusGroupBy'' localGtd
        (sanitize_focus_limit localGtd
        (sanitize_pomodoro localGtd
        (review_record ''dailyReview'' [''includeFocusStep''] localGtd
        (review_record ''weeklyReview'' [''includeContextStep''] localGtd
        (sanitize_inbox localGtd
        (restore_unless is_bool ''focusIncludeStartDates'' localGtd
        (restore_unless is_bool ''naturalLanguageDates'' localGtd
        (restore_unless is_bool ''saveAudioAttachments'' localGtd
        (restore_unless (setContainsValue [''text'', ''audio'']) ''defaultCaptureMethod'' localGtd
        (restore_unless retention_days_ok ''archiveRetentionDays'' localGtd
        (restore_unless not_negative ''autoArchiveDays'' localGtd
        (sanitize_presets localGtd (own_entries value)))))))))))))))))))"

subsection \<open>The whole settings\<close>

text \<open>A synchronised switch that is no boolean takes this device's boolean, or goes.\<close>

definition boolean_fields :: "string list \<Rightarrow> json \<Rightarrow> js_object \<Rightarrow> js_object" where
  "boolean_fields ks fallback o1 =
     foldl (\<lambda>next1 k. if obj_get k next1 = JUndef \<or> is_bool (obj_get k next1) then next1
        else set_or_delete k (boolean_or_undefined (member fallback k)) next1) o1 ks"

definition sanitize_features :: "json \<Rightarrow> json \<Rightarrow> json" where
  "sanitize_features value localFeatures =
     (if value = JUndef then JUndef
      else if \<not> isRecord value then local_or_undefined localFeatures
      else JObj (boolean_fields GTD_SYNCED_FEATURE_FIELD_KEYS localFeatures (own_entries value)))"

text \<open>\<open>next.k = f(next.k, localSettings.k)\<close>, with no key made where there was none.\<close>

definition update_field :: "string \<Rightarrow> (json \<Rightarrow> json) \<Rightarrow> js_object \<Rightarrow> js_object" where
  "update_field k f o1 = (if obj_get k o1 = JUndef then o1 else obj_set k (f (obj_get k o1)) o1)"

definition assign_field :: "string \<Rightarrow> (json \<Rightarrow> json) \<Rightarrow> js_object \<Rightarrow> js_object" where
  "assign_field k f o1 = obj_set k (f (obj_get k o1)) o1"

definition kept_filters :: "json \<Rightarrow> json" where
  "kept_filters v = JArr (map JObj (keepSavedFilters v))"

definition sanitize_scalars :: "js_object \<Rightarrow> js_object \<Rightarrow> js_object" where
  "sanitize_scalars localSettings merged =
     (let fb = JObj localSettings in
      replace_unless is_string ''dateFormat'' fb
     (replace_unless (setContainsValue SETTINGS_KEYBINDING_STYLE_VALUES) ''keybindingStyle'' fb
     (replace_unless (setContainsValue SETTINGS_TIME_FORMAT_VALUES) ''timeFormat'' fb
     (replace_unless (setContainsValue SETTINGS_WEEK_START_VALUES) ''weekStart'' fb
     (replace_unless (setContainsValue SETTINGS_LANGUAGE_VALUES) ''language'' fb
     (replace_unless (setContainsValue SETTINGS_THEME_VALUES) ''theme'' fb merged))))))"

definition sanitizeMergedSettingsForSync :: "js_object \<Rightarrow> js_object \<Rightarrow> js_object" where
  "sanitizeMergedSettingsForSync merged localSettings =
     (let loc = (\<lambda>k. obj_get k localSettings) in
      update_field ''savedFilters'' kept_filters
     (assign_field ''ai'' (\<lambda>v. sanitizeAiSettings v (loc ''ai''))
     (assign_field ''externalCalendars'' (\<lambda>v. sanitizeExternalCalendars v (loc ''externalCalendars''))
     (assign_field ''syncPreferencesUpdatedAt'' (\<lambda>v. sanitizeSyncPreferencesUpdatedAt v (loc ''syncPreferencesUpdatedAt''))
     (assign_field ''syncPreferences'' (\<lambda>v. sanitizeSyncPreferences v (loc ''syncPreferences''))
     (update_field ''features'' (\<lambda>v. sanitize_features v (loc ''features''))
     (boolean_fields GTD_SYNCED_APP_SETTINGS_FIELD_KEYS (JObj localSettings)
     (update_field ''gtd'' (\<lambda>v. sanitize_gtd v (loc ''gtd''))
     (update_field ''appearance'' (\<lambda>v. sanitize_appearance v (loc ''appearance''))
       (sanitize_scalars localSettings merged))))))))))"

subsection \<open>Rules\<close>

lemma get_other:
  assumes "k \<noteq> k'"
  shows "obj_get k (replace_unless ok k' fb o1) = obj_get k o1"
    and "obj_get k (set_or_delete k' v o1) = obj_get k o1"
    and "obj_get k (update_field k' f o1) = obj_get k o1"
    and "obj_get k (assign_field k' f o1) = obj_get k o1"
  using assms
  by (simp_all add: replace_unless_def set_or_delete_def update_field_def assign_field_def obj_get_set obj_get_delete)

lemma get_same:
  "obj_get k (replace_unless ok k fb o1) =
     (let v = obj_get k o1 in if v \<noteq> JUndef \<and> \<not> ok v then member fb k else v)"
  "obj_get k (set_or_delete k v o1) = v"
  "obj_get k (update_field k f o1) = (let v = obj_get k o1 in if v = JUndef then v else f v)"
  "obj_get k (assign_field k f o1) = f (obj_get k o1)"
  by (simp_all add: replace_unless_def set_or_delete_def update_field_def assign_field_def obj_get_set obj_get_delete)

lemma get_boolean_fields: "k \<notin> set ks \<Longrightarrow> obj_get k (boolean_fields ks fb o1) = obj_get k o1"
  unfolding boolean_fields_def by (induction ks arbitrary: o1) (auto simp: get_other)

lemmas field_simps1 = get_other get_same get_boolean_fields GTD_SYNCED_APP_SETTINGS_FIELD_KEYS_def

definition SCALAR_KEYS :: "string list" where
  "SCALAR_KEYS = [''theme'', ''keybindingStyle'', ''language'', ''weekStart'', ''dateFormat'', ''timeFormat'']"

definition scalar_ok :: "string \<Rightarrow> json \<Rightarrow> bool" where
  "scalar_ok k v =
     (if k = ''theme'' then setContainsValue SETTINGS_THEME_VALUES v
      else if k = ''keybindingStyle'' then setContainsValue SETTINGS_KEYBINDING_STYLE_VALUES v
      else if k = ''language'' then setContainsValue SETTINGS_LANGUAGE_VALUES v
      else if k = ''weekStart'' then setContainsValue SETTINGS_WEEK_START_VALUES v
      else if k = ''timeFormat'' then setContainsValue SETTINGS_TIME_FORMAT_VALUES v
      else is_string v)"

lemma list_set_cases:
  "x \<in> set (a # xs) \<Longrightarrow> (x = a \<Longrightarrow> P) \<Longrightarrow> (x \<in> set xs \<Longrightarrow> P) \<Longrightarrow> P"
  "x \<in> set [] \<Longrightarrow> P"
  by auto

lemma get_sanitized_scalar:
  "k \<in> set SCALAR_KEYS \<Longrightarrow>
   obj_get k (sanitizeMergedSettingsForSync m loc) =
   (let v = obj_get k m in if v \<noteq> JUndef \<and> \<not> scalar_ok k v then obj_get k loc else v)"
  unfolding SCALAR_KEYS_def sanitizeMergedSettingsForSync_def sanitize_scalars_def Let_def
  by (elim list_set_cases) (simp_all add: field_simps1 scalar_ok_def Let_def)

lemma get_sanitized_filters:
  "obj_get ''savedFilters'' (sanitizeMergedSettingsForSync m loc) =
   (if obj_get ''savedFilters'' m = JUndef then JUndef else kept_filters (obj_get ''savedFilters'' m))"
  by (simp add: sanitizeMergedSettingsForSync_def sanitize_scalars_def Let_def field_simps1)

lemma get_sanitized_calendars:
  "obj_get ''externalCalendars'' (sanitizeMergedSettingsForSync m loc) =
   sanitizeExternalCalendars (obj_get ''externalCalendars'' m) (obj_get ''externalCalendars'' loc)"
  by (simp add: sanitizeMergedSettingsForSync_def sanitize_scalars_def Let_def field_simps1)

lemma get_sanitized_ai:
  "obj_get ''ai'' (sanitizeMergedSettingsForSync m loc) = sanitizeAiSettings (obj_get ''ai'' m) (obj_get ''ai'' loc)"
  by (simp add: sanitizeMergedSettingsForSync_def sanitize_scalars_def Let_def field_simps1)

lemma local_or_undefined_cases: "local_or_undefined v \<in> {JUndef, v}"
  by (simp add: local_or_undefined_def)

text \<open>What leaves \<open>sanitizeAiForSync\<close> carries this device's endpoint and no key.\<close>

definition ai_kept_local :: "json \<Rightarrow> json \<Rightarrow> bool" where
  "ai_kept_local ai localAi =
     (isRecord ai
      \<and> member ai ''apiKey'' = JUndef
      \<and> member ai ''baseUrl'' = member localAi ''baseUrl''
      \<and> member ai ''openAIExtraBodyParams'' = local_or_undefined (member localAi ''openAIExtraBodyParams'')
      \<and> local_or_undefined (member (member ai ''speechToText'') ''baseUrl'') =
          local_or_undefined (member (member localAi ''speechToText'') ''baseUrl'')
      \<and> member (member ai ''speechToText'') ''offlineModelPath''
          \<in> {JUndef, member (member localAi ''speechToText'') ''offlineModelPath''})"

lemma member_falsy: "\<not> js_truthy v \<Longrightarrow> member v k = JUndef"
  by (cases v) (simp_all add: js_truthy_def member_def)

lemma sanitize_speech_fields:
  "obj_get ''baseUrl'' (sanitize_speech v l) = member l ''baseUrl''"
  "obj_get ''offlineModelPath'' (sanitize_speech v l) \<in> {JUndef, member l ''offlineModelPath''}"
  by (simp_all add: sanitize_speech_def Let_def obj_simps)

lemma sanitizeAiForSync_local:
  assumes "js_truthy ai"
  shows "ai_kept_local (sanitizeAiForSync ai localAi) localAi"
  using assms sanitize_speech_fields[where l = "member localAi ''speechToText''"]
  by (simp add: ai_kept_local_def sanitizeAiForSync_def Let_def obj_simps isRecord_def member_falsy
      local_or_undefined_def)

lemma sanitizeAiSettings_local:
  "sanitizeAiSettings v fallback = JUndef \<or> ai_kept_local (sanitizeAiSettings v fallback) fallback"
  by (simp add: sanitizeAiSettings_def Let_def sanitizeAiForSync_local js_truthy_def)

end
