(* ===== verification/SettingsMerge.thy ===== *)
theory SettingsMerge
  imports SettingsSanitize MergeLoop
begin

text \<open>
  \<open>mergeSettingsForSync\<close> of \<open>sync-merge-settings.ts\<close>: the settings are merged group by group, each
  group by the newer of the two times the devices recorded for it, the saved filters one by one.
\<close>

subsection \<open>Times\<close>

definition parseSyncTimestamp :: "json \<Rightarrow> int option" where
  "parseSyncTimestamp v = (if js_truthy v then date_parse (to_text v) else None)"

definition isIncomingNewer :: "json \<Rightarrow> json \<Rightarrow> bool" where
  "isIncomingNewer localAt incomingAt =
     (case parseSyncTimestamp incomingAt of
        None \<Rightarrow> False
      | Some incomingTime \<Rightarrow>
          (case parseSyncTimestamp localAt of None \<Rightarrow> True | Some localTime \<Rightarrow> localTime < incomingTime))"

lemma newer_asym: "isIncomingNewer a b \<Longrightarrow> \<not> isIncomingNewer b a"
  by (auto simp: isIncomingNewer_def split: option.splits)

subsection \<open>Saved filters\<close>

definition getSavedFilterOperationTime :: "js_object \<Rightarrow> int option" where
  "getSavedFilterOperationTime f =
     (case parseSyncTimestamp (obj_get ''deletedAt'' f) of
        None \<Rightarrow> parseSyncTimestamp (obj_get ''updatedAt'' f)
      | Some d \<Rightarrow>
          (case parseSyncTimestamp (obj_get ''updatedAt'' f) of None \<Rightarrow> Some d | Some u \<Rightarrow> Some (max u d)))"

definition filter_deleted :: "js_object \<Rightarrow> bool" where
  "filter_deleted f = js_truthy (obj_get ''deletedAt'' f)"

definition choose_filter :: "js_object \<Rightarrow> js_object \<Rightarrow> js_object" where
  "choose_filter = chooseDeterministicWinner JObj"

definition chooseDeletedSavedFilter :: "js_object \<Rightarrow> js_object \<Rightarrow> js_object" where
  "chooseDeletedSavedFilter localFilter incomingFilter =
     (if filter_deleted localFilter \<and> \<not> filter_deleted incomingFilter then localFilter
      else if filter_deleted incomingFilter \<and> \<not> filter_deleted localFilter then incomingFilter
      else choose_filter localFilter incomingFilter)"

definition legacySavedFilterProjection :: "js_object \<Rightarrow> json \<Rightarrow> js_object option" where
  "legacySavedFilterProjection f inventedAt =
     (let legacy = obj_spread f
            [(''id'', case obj_get ''id'' f of JStr s \<Rightarrow> JStr (js_trim s) | v \<Rightarrow> v),
             (''createdAt'', case obj_get ''createdAt'' f of
                JStr s \<Rightarrow> if js_trim s \<noteq> [] then JStr s else inventedAt | _ \<Rightarrow> inventedAt)]
      in js_nullish (normalizeSavedFilter (JObj legacy))
           (normalizeSavedFilter (JObj (obj_set ''view'' (JStr ''focus'') legacy))))"

text \<open>\<open>incomingFilter\<close> is the rewriting of \<open>localFilter\<close> by version 1.3.2.\<close>

definition is_legacy_copy :: "js_object \<Rightarrow> js_object \<Rightarrow> bool" where
  "is_legacy_copy f copy =
     (case legacySavedFilterProjection f (obj_get ''createdAt'' copy) of
        None \<Rightarrow> False
      | Some g \<Rightarrow> isDeepJsonEqual (JObj g) (JObj copy))"

definition chooseTiedSavedFilter :: "js_object \<Rightarrow> js_object \<Rightarrow> js_object" where
  "chooseTiedSavedFilter localFilter incomingFilter =
     (let incomingIsLegacy = is_legacy_copy localFilter incomingFilter;
          localIsLegacy = is_legacy_copy incomingFilter localFilter
      in if incomingIsLegacy \<noteq> localIsLegacy then (if incomingIsLegacy then localFilter else incomingFilter)
         else choose_filter localFilter incomingFilter)"

definition chooseSavedFilter :: "js_object \<Rightarrow> js_object \<Rightarrow> bool \<Rightarrow> bool \<Rightarrow> js_object" where
  "chooseSavedFilter localFilter incomingFilter incomingWins localNewer =
     (if filter_deleted localFilter \<noteq> filter_deleted incomingFilter then
        (case (getSavedFilterOperationTime localFilter, getSavedFilterOperationTime incomingFilter) of
           (Some lt, Some it) \<Rightarrow>
             if \<bar>it - lt\<bar> \<le> DELETE_VS_LIVE_AMBIGUOUS_WINDOW_MS
             then chooseDeletedSavedFilter localFilter incomingFilter
             else if 0 < it - lt then incomingFilter else localFilter
         | _ \<Rightarrow> chooseDeletedSavedFilter localFilter incomingFilter)
      else
        (case (parseSyncTimestamp (obj_get ''updatedAt'' localFilter),
               parseSyncTimestamp (obj_get ''updatedAt'' incomingFilter)) of
           (None, Some _) \<Rightarrow> incomingFilter
         | (Some _, None) \<Rightarrow> localFilter
         | (Some lt, Some it) \<Rightarrow>
             if 0 < it - lt then incomingFilter
             else if it - lt < 0 then localFilter
             else chooseTiedSavedFilter localFilter incomingFilter
         | (None, None) \<Rightarrow>
             if incomingWins then incomingFilter
             else if localNewer then localFilter
             else chooseTiedSavedFilter localFilter incomingFilter))"

definition find_filter :: "string \<Rightarrow> js_object list \<Rightarrow> js_object option" where
  "find_filter i fs = js_map_of filter_id fs i"

definition merged_filter :: "js_object list \<Rightarrow> js_object list \<Rightarrow> bool \<Rightarrow> bool \<Rightarrow> string \<Rightarrow> js_object option" where
  "merged_filter localFilters incomingFilters incomingWins localNewer i =
     (case (find_filter i localFilters, find_filter i incomingFilters) of
        (Some l, Some r) \<Rightarrow> Some (chooseSavedFilter l r incomingWins localNewer)
      | (Some l, None) \<Rightarrow> Some l
      | (None, r) \<Rightarrow> r)"

definition merge_filter_lists ::
  "js_object list \<Rightarrow> js_object list \<Rightarrow> bool \<Rightarrow> bool \<Rightarrow> js_object list" where
  "merge_filter_lists localFilters incomingFilters incomingWins localNewer =
     map (\<lambda>i. or_else (merged_filter localFilters incomingFilters incomingWins localNewer i) [])
       (uniq (map filter_id (if localNewer then localFilters @ incomingFilters else incomingFilters @ localFilters)))"

definition mergeSavedFiltersById :: "json \<Rightarrow> json \<Rightarrow> bool \<Rightarrow> bool \<Rightarrow> json" where
  "mergeSavedFiltersById localValue incomingValue incomingWins localNewer =
     JArr (map JObj (merge_filter_lists (keepSavedFilters localValue) (keepSavedFilters incomingValue)
       incomingWins localNewer))"

lemma choose_filter_cases: "choose_filter a b = a \<or> choose_filter a b = b"
  by (simp add: choose_filter_def choose_cases)

lemma chooseDeletedSavedFilter_cases: "chooseDeletedSavedFilter l r \<in> {l, r}"
  using choose_filter_cases[of l r] by (auto simp: chooseDeletedSavedFilter_def)

lemma chooseTiedSavedFilter_cases: "chooseTiedSavedFilter l r \<in> {l, r}"
  using choose_filter_cases[of l r] by (auto simp: chooseTiedSavedFilter_def Let_def)

lemma chooseSavedFilter_cases: "chooseSavedFilter l r w n \<in> {l, r}"
  unfolding chooseSavedFilter_def
  using chooseDeletedSavedFilter_cases[of l r] chooseTiedSavedFilter_cases[of l r]
  by (simp split: option.split)

lemma merged_filter_id: "merged_filter ls rs w n i = Some f \<Longrightarrow> filter_id f = i"
  using chooseSavedFilter_cases[of "the (find_filter i ls)" "the (find_filter i rs)" w n]
    js_map_SomeD[of filter_id ls i] js_map_SomeD[of filter_id rs i]
  by (cases "find_filter i ls"; cases "find_filter i rs") (auto simp: merged_filter_def find_filter_def)

lemma merged_filter_None: "merged_filter ls rs w n i = None \<longleftrightarrow> i \<notin> filter_id ` set ls \<union> filter_id ` set rs"
  using js_map_None_iff[of filter_id ls i] js_map_None_iff[of filter_id rs i]
  by (cases "find_filter i ls"; cases "find_filter i rs") (simp_all add: merged_filter_def find_filter_def)

lemma merge_filter_lists_ids:
  "map filter_id (merge_filter_lists ls rs w n) =
   uniq (if n then map filter_id ls @ map filter_id rs else map filter_id rs @ map filter_id ls)"
proof -
  have "filter_id (or_else (merged_filter ls rs w n i) []) = i"
    if "i \<in> filter_id ` set ls \<union> filter_id ` set rs" for i
    using that merged_filter_None[of ls rs w n i] merged_filter_id[of ls rs w n i]
    by (cases "merged_filter ls rs w n i") (auto simp: or_else_def)
  then show ?thesis
    by (auto simp: merge_filter_lists_def o_def intro!: map_idI)
qed

text \<open>Saved filters are a merged collection, read from the side whose order the merge keeps.\<close>

interpretation sf: keyed_merge filter_id "\<lambda>ls rs. merge_filter_lists ls rs w True" for w
  by unfold_locales (simp add: merge_filter_lists_ids)

interpretation sr: keyed_merge filter_id "\<lambda>rs ls. merge_filter_lists ls rs w False" for w
  by unfold_locales (simp add: merge_filter_lists_ids)

lemma merge_filter_lists_id_set:
  "filter_id ` set (merge_filter_lists ls rs w n) = filter_id ` set ls \<union> filter_id ` set rs"
proof -
  have "set (map filter_id (merge_filter_lists ls rs w n)) = filter_id ` set ls \<union> filter_id ` set rs"
    unfolding merge_filter_lists_ids by auto
  then show ?thesis by simp
qed

lemma find_merged_filter: "find_filter i (merge_filter_lists ls rs w n) = merged_filter ls rs w n i"
proof (cases "merged_filter ls rs w n i")
  case None
  then have "js_map_of filter_id (merge_filter_lists ls rs w n) i = None"
    unfolding js_map_None_iff merge_filter_lists_id_set by (rule merged_filter_None[THEN iffD1])
  with None show ?thesis by (simp only: find_filter_def)
next
  case (Some f)
  then have "i \<in> filter_id ` set ls \<union> filter_id ` set rs"
    by (metis merged_filter_None option.distinct(1))
  then have "i \<in> set (uniq (map filter_id (if n then ls @ rs else rs @ ls)))" by auto
  then have "or_else (merged_filter ls rs w n i) [] \<in> set (merge_filter_lists ls rs w n)"
    unfolding merge_filter_lists_def set_map by (rule imageI)
  moreover have "distinct (map filter_id (merge_filter_lists ls rs w n))" by (simp add: merge_filter_lists_ids)
  ultimately show ?thesis
    using js_map_of_distinct[of filter_id _ f] merged_filter_id[OF Some] Some by (simp add: find_filter_def)
qed

text \<open>The two devices pick copies of the same content.\<close>

definition filter_key :: "js_object \<Rightarrow> string \<times> string" where
  "filter_key f = signature_key (JObj f)"

definition stored_fields :: "js_object \<Rightarrow> bool" where
  "stored_fields f = stored_filter (JObj f)"

lemma stored_signed: "stored_fields f \<Longrightarrow> signed (JObj f)"
  by (auto simp: stored_fields_def stored_filter_def isRecord_def obj_get_def nonblank_def
      intro!: signed_id split: json.splits option.splits)

lemma choose_filter_key:
  "stored_fields l \<Longrightarrow> stored_fields r \<Longrightarrow> filter_key (choose_filter l r) = filter_key (choose_filter r l)"
  unfolding filter_key_def choose_filter_def by (rule dw.key_commute) (simp_all add: stored_signed)

lemma chooseTied_key:
  "stored_fields l \<Longrightarrow> stored_fields r \<Longrightarrow>
   filter_key (chooseTiedSavedFilter l r) = filter_key (chooseTiedSavedFilter r l)"
  using choose_filter_key[of l r] by (auto simp: chooseTiedSavedFilter_def Let_def)

lemma chooseDeleted_key:
  "stored_fields l \<Longrightarrow> stored_fields r \<Longrightarrow>
   filter_key (chooseDeletedSavedFilter l r) = filter_key (chooseDeletedSavedFilter r l)"
  using choose_filter_key[of l r] by (simp add: chooseDeletedSavedFilter_def)

lemma chooseSavedFilter_key:
  assumes "stored_fields l" "stored_fields r" "\<not> (w \<and> n)"
  shows "filter_key (chooseSavedFilter l r w n) = filter_key (chooseSavedFilter r l n w)"
proof (cases "filter_deleted l = filter_deleted r")
  case True
  then show ?thesis
    using chooseTied_key[OF assms(1,2)] assms(3)
    by (cases "parseSyncTimestamp (obj_get ''updatedAt'' l)"; cases "parseSyncTimestamp (obj_get ''updatedAt'' r)")
       (auto simp: chooseSavedFilter_def)
next
  case False
  then show ?thesis
    using chooseDeleted_key[OF assms(1,2)]
    by (cases "getSavedFilterOperationTime l"; cases "getSavedFilterOperationTime r")
       (auto simp: chooseSavedFilter_def DELETE_VS_LIVE_AMBIGUOUS_WINDOW_MS_def)
qed

lemma merged_filter_key:
  assumes "\<forall>f\<in>set ls \<union> set rs. stored_fields f" "\<not> (w \<and> n)"
  shows "map_option filter_key (merged_filter ls rs w n i) = map_option filter_key (merged_filter rs ls n w i)"
proof -
  have "stored_fields f" if "find_filter i ls = Some f \<or> find_filter i rs = Some f" for f
    using that assms(1) js_map_SomeD[of filter_id _ i f] by (auto simp: find_filter_def)
  then show ?thesis
    using chooseSavedFilter_key[OF _ _ assms(2)]
    by (cases "find_filter i ls"; cases "find_filter i rs") (simp_all add: merged_filter_def)
qed

subsection \<open>Fields of a group\<close>

definition isSameValue :: "json \<Rightarrow> json \<Rightarrow> bool" where
  "isSameValue a b = (stringify a = stringify b)"

definition chooseGroupFieldValue :: "json \<Rightarrow> json \<Rightarrow> bool \<Rightarrow> json" where
  "chooseGroupFieldValue localValue incomingValue incomingWins =
     (if incomingValue = JUndef then localValue
      else if localValue = JUndef then incomingValue
      else if isSameValue localValue incomingValue then localValue
      else if incomingWins then incomingValue else localValue)"

definition mergeRecordFields :: "json \<Rightarrow> json \<Rightarrow> bool \<Rightarrow> js_object" where
  "mergeRecordFields localValue incomingValue incomingWins =
     (let ls = own_entries localValue; rs = own_entries incomingValue
      in map (\<lambda>k. (k, chooseGroupFieldValue (obj_get k ls) (obj_get k rs) incomingWins))
           (uniq (map fst ls @ map fst rs)))"

definition isMigrationTaskEditorDefault :: "js_object \<Rightarrow> bool" where
  "isMigrationTaskEditorDefault value =
     (let hidden = obj_get ''hidden'' value; version = obj_get ''defaultsVersion'' value
      in (case version of JNum n \<Rightarrow> 0 < n | JNonInt t \<Rightarrow> t \<noteq> ''null'' \<and> \<not> starts_with ''-'' t | _ \<Rightarrow> False)
       \<and> list_all (\<lambda>kv. fst kv \<in> {''hidden'', ''defaultsVersion''}) value
       \<and> is_array hidden
       \<and> length (array_items hidden) = length DEFAULT_TASK_EDITOR_HIDDEN
       \<and> list_all (\<lambda>f. JStr f \<in> set (array_items hidden)) DEFAULT_TASK_EDITOR_HIDDEN)"

text \<open>The layout of the task editor is kept whole, on one side.\<close>

definition merge_layout ::
  "bool \<Rightarrow> json \<Rightarrow> json \<Rightarrow> json \<Rightarrow> json \<Rightarrow> js_object \<Rightarrow> js_object" where
  "merge_layout gtdSynced localAt incomingAt localLayout incomingLayout mergedGtd =
     (if gtdSynced \<and> isRecord localLayout \<and> isRecord incomingLayout \<and> \<not> isSameValue localLayout incomingLayout then
        (let localDefault = isMigrationTaskEditorDefault (own_entries localLayout);
             incomingDefault = isMigrationTaskEditorDefault (own_entries incomingLayout)
         in obj_set ''taskEditor''
              (if localDefault \<noteq> incomingDefault then (if localDefault then incomingLayout else localLayout)
               else if \<not> isIncomingNewer localAt incomingAt \<and> \<not> isIncomingNewer incomingAt localAt
                 then chooseDeterministicWinner (\<lambda>v. v) localLayout incomingLayout
               else obj_get ''taskEditor'' mergedGtd) mergedGtd)
      else mergedGtd)"

definition mergeGtdSyncGroupValue ::
  "bool \<Rightarrow> json \<Rightarrow> json \<Rightarrow> js_object \<Rightarrow> js_object \<Rightarrow> bool \<Rightarrow> js_object" where
  "mergeGtdSyncGroupValue gtdSynced localAt incomingAt localValue incomingValue incomingWins =
     (let lg = obj_get ''gtd'' localValue; rg = obj_get ''gtd'' incomingValue;
          gtd = merge_layout gtdSynced localAt incomingAt (member lg ''taskEditor'') (member rg ''taskEditor'')
                  (mergeRecordFields (nullish_or lg (JObj [])) (nullish_or rg (JObj [])) incomingWins);
          inbox = mergeRecordFields (nullish_or (member lg ''inboxProcessing'') (JObj []))
                    (nullish_or (member rg ''inboxProcessing'') (JObj [])) incomingWins;
          mergedGtd = (if inbox \<noteq> [] then obj_set ''inboxProcessing'' (JObj inbox) gtd
                       else obj_delete ''inboxProcessing'' gtd);
          features = mergeRecordFields (nullish_or (obj_get ''features'' localValue) (JObj []))
                       (nullish_or (obj_get ''features'' incomingValue) (JObj [])) incomingWins
      in map (\<lambda>k. (k, chooseGroupFieldValue (obj_get k localValue) (obj_get k incomingValue) incomingWins))
           GTD_SYNCED_APP_SETTINGS_FIELD_KEYS
         @ nonempty_field ''gtd'' mergedGtd @ nonempty_field ''features'' features)"

definition mergeAppearanceGroupValue :: "js_object \<Rightarrow> js_object \<Rightarrow> bool \<Rightarrow> js_object" where
  "mergeAppearanceGroupValue localValue incomingValue incomingWins =
     (let appearance = mergeRecordFields (nullish_or (obj_get ''appearance'' localValue) (JObj []))
            (nullish_or (obj_get ''appearance'' incomingValue) (JObj [])) incomingWins
      in obj_set ''appearance'' (if appearance \<noteq> [] then JObj appearance else JUndef)
           (mergeRecordFields (JObj localValue) (JObj incomingValue) incomingWins))"

subsection \<open>Support prompt\<close>

definition latestTimestamp :: "json \<Rightarrow> json \<Rightarrow> json" where
  "latestTimestamp left right =
     (let leftValid = (isNonEmptyString left \<and> isValidTimestamp left);
          rightValid = (isNonEmptyString right \<and> isValidTimestamp right)
      in if leftValid \<and> rightValid then (if isIncomingNewer left right then right else left)
         else if leftValid then left else if rightValid then right else JUndef)"

definition mergeSupportPromptSettings :: "json \<Rightarrow> json \<Rightarrow> json" where
  "mergeSupportPromptSettings loc incoming =
     (let shownAt = (\<lambda>v. if is_string (member v ''lastShownAt'') then member v ''lastShownAt'' else JUndef);
          lastShownAt = latestTimestamp (shownAt loc) (shownAt incoming)
      in if js_truthy lastShownAt then JObj [(''lastShownAt'', lastShownAt)] else JUndef)"

subsection \<open>The groups\<close>

text \<open>The settings built so far, and the times recorded for the groups (\<open>nextSyncUpdatedAt\<close>).\<close>

type_synonym merge_state = "js_object \<times> js_object"

definition group_time :: "js_object \<Rightarrow> string \<Rightarrow> json" where
  "group_time settings1 k = member (obj_get ''syncPreferencesUpdatedAt'' settings1) k"

definition opted_out :: "js_object \<Rightarrow> string \<Rightarrow> bool" where
  "opted_out settings1 k = (member (obj_get ''syncPreferences'' settings1) k = JBool False)"

definition mergeGroup ::
  "js_object \<Rightarrow> js_object \<Rightarrow> string \<Rightarrow> json \<Rightarrow> json \<Rightarrow> (json \<Rightarrow> js_object \<Rightarrow> js_object)
   \<Rightarrow> (json \<Rightarrow> json \<Rightarrow> bool \<Rightarrow> bool \<Rightarrow> json) \<Rightarrow> merge_state \<Rightarrow> merge_state" where
  "mergeGroup localSettings incomingSettings k localValue incomingValue apply1 mergeValues st =
     (let localAt = group_time localSettings k; incomingAt = group_time incomingSettings k;
          incomingWins = (\<not> opted_out localSettings k \<and> isIncomingNewer localAt incomingAt);
          effectiveIncoming = (if opted_out localSettings k then localValue else incomingValue);
          resolved = mergeValues localValue effectiveIncoming incomingWins (isIncomingNewer incomingAt localAt);
          winnerAt = (if incomingWins then incomingAt else localAt)
      in (apply1 resolved (fst st), if js_truthy winnerAt then obj_set k winnerAt (snd st) else snd st))"

definition select_fields :: "string list \<Rightarrow> js_object \<Rightarrow> json" where
  "select_fields ks settings1 = JObj (map (\<lambda>k. (k, obj_get k settings1)) ks)"

definition assign_fields :: "string list \<Rightarrow> json \<Rightarrow> js_object \<Rightarrow> js_object" where
  "assign_fields ks v merged = obj_spread merged (map (\<lambda>k. (k, member v k)) ks)"

definition APPEARANCE_KEYS :: "string list" where
  "APPEARANCE_KEYS = [''theme'', ''appearance'', ''keybindingStyle'']"

definition LANGUAGE_KEYS :: "string list" where
  "LANGUAGE_KEYS = [''language'', ''weekStart'', ''dateFormat'', ''timeFormat'']"

definition set_or_delete_all :: "string list \<Rightarrow> json \<Rightarrow> js_object \<Rightarrow> js_object" where
  "set_or_delete_all ks v o1 = foldl (\<lambda>acc k. set_or_delete k (member v k) acc) o1 ks"

definition apply_gtd :: "json \<Rightarrow> js_object \<Rightarrow> js_object" where
  "apply_gtd v merged =
     (let gtd = set_or_delete_all GTD_SYNCED_FIELD_KEYS (member v ''gtd'') (own_entries (nullish_or (obj_get ''gtd'' merged) (JObj [])));
          inbox = set_or_delete_all GTD_SYNCED_INBOX_PROCESSING_FIELD_KEYS (member (member v ''gtd'') ''inboxProcessing'')
                    (case obj_get ''inboxProcessing'' gtd of JObj kvs \<Rightarrow> kvs | _ \<Rightarrow> []);
          nextGtd = (if inbox \<noteq> [] then obj_set ''inboxProcessing'' (JObj inbox) gtd
                     else obj_delete ''inboxProcessing'' gtd);
          merged1 = (if nextGtd = [] then (if js_truthy (obj_get ''gtd'' merged) then obj_delete ''gtd'' merged else merged)
                     else obj_set ''gtd'' (JObj nextGtd) merged);
          merged2 = set_or_delete_all GTD_SYNCED_APP_SETTINGS_FIELD_KEYS v merged1;
          features = set_or_delete_all GTD_SYNCED_FEATURE_FIELD_KEYS (member v ''features'')
                       (case obj_get ''features'' merged2 of JObj kvs \<Rightarrow> kvs | _ \<Rightarrow> [])
      in if features \<noteq> [] then obj_set ''features'' (JObj features) merged2
         else if js_truthy (obj_get ''features'' merged2) then obj_delete ''features'' merged2
         else merged2)"

definition merge_appearance_group :: "js_object \<Rightarrow> js_object \<Rightarrow> merge_state \<Rightarrow> merge_state" where
  "merge_appearance_group loc inc =
     mergeGroup loc inc ''appearance'' (select_fields APPEARANCE_KEYS loc) (select_fields APPEARANCE_KEYS inc)
       (assign_fields APPEARANCE_KEYS)
       (\<lambda>l r wins newer. JObj (mergeAppearanceGroupValue (own_entries l) (own_entries r) wins))"

definition merge_language_group :: "js_object \<Rightarrow> js_object \<Rightarrow> merge_state \<Rightarrow> merge_state" where
  "merge_language_group loc inc =
     mergeGroup loc inc ''language'' (select_fields LANGUAGE_KEYS loc) (select_fields LANGUAGE_KEYS inc)
       (assign_fields LANGUAGE_KEYS) (\<lambda>l r wins newer. JObj (mergeRecordFields l r wins))"

definition merge_gtd_group :: "js_object \<Rightarrow> js_object \<Rightarrow> merge_state \<Rightarrow> merge_state" where
  "merge_gtd_group loc inc =
     mergeGroup loc inc ''gtd'' (JObj (getGtdSyncSnapshot loc)) (JObj (getGtdSyncSnapshot inc)) apply_gtd
       (\<lambda>l r wins newer. JObj (mergeGtdSyncGroupValue (\<not> opted_out loc ''gtd'') (group_time loc ''gtd'')
          (group_time inc ''gtd'') (own_entries l) (own_entries r) wins))"

definition merge_calendars_group :: "js_object \<Rightarrow> js_object \<Rightarrow> merge_state \<Rightarrow> merge_state" where
  "merge_calendars_group loc inc =
     mergeGroup loc inc ''externalCalendars'' (obj_get ''externalCalendars'' loc) (obj_get ''externalCalendars'' inc)
       (obj_set ''externalCalendars'') (\<lambda>l r wins newer. if wins then r else l)"

definition merge_filters_group :: "js_object \<Rightarrow> js_object \<Rightarrow> merge_state \<Rightarrow> merge_state" where
  "merge_filters_group loc inc =
     mergeGroup loc inc ''savedFilters'' (obj_get ''savedFilters'' loc) (obj_get ''savedFilters'' inc)
       (\<lambda>v. obj_set ''savedFilters'' (kept_filters v)) mergeSavedFiltersById"

definition merge_ai_group :: "js_object \<Rightarrow> js_object \<Rightarrow> merge_state \<Rightarrow> merge_state" where
  "merge_ai_group loc inc =
     mergeGroup loc inc ''ai'' (obj_get ''ai'' loc) (obj_get ''ai'' inc)
       (\<lambda>v. obj_set ''ai'' (sanitizeAiForSync v (obj_get ''ai'' loc)))
       (\<lambda>l r wins newer. chooseGroupFieldValue l r wins)"

definition merge_preferences :: "js_object \<Rightarrow> js_object \<Rightarrow> merge_state" where
  "merge_preferences loc inc =
     (let profile = obj_get ''analyticsProfileId'' inc;
          prompt = mergeSupportPromptSettings (obj_get ''supportPrompt'' loc) (obj_get ''supportPrompt'' inc);
          localAt = group_time loc ''preferences''; incomingAt = group_time inc ''preferences'';
          incomingWins = isIncomingNewer localAt incomingAt;
          merged1 = (if isNonEmptyString profile then obj_set ''analyticsProfileId'' profile loc else loc);
          merged2 = (if js_truthy prompt then obj_set ''supportPrompt'' prompt merged1 else merged1);
          prefs = nullish_or (obj_get ''syncPreferences'' (if incomingWins then inc else loc)) (JObj []);
          winnerAt = (if incomingWins then incomingAt else localAt)
      in (obj_set ''syncPreferences'' prefs merged2,
          if js_truthy winnerAt then [(''preferences'', winnerAt)] else []))"

definition merge_groups :: "js_object \<Rightarrow> js_object \<Rightarrow> merge_state" where
  "merge_groups loc inc =
     merge_ai_group loc inc (merge_filters_group loc inc (merge_calendars_group loc inc
       (merge_gtd_group loc inc (merge_language_group loc inc (merge_appearance_group loc inc
         (merge_preferences loc inc))))))"

definition mergeSettingsForSync :: "js_object \<Rightarrow> js_object \<Rightarrow> js_object" where
  "mergeSettingsForSync localSettings incomingSettings =
     (case merge_groups localSettings incomingSettings of (merged, updatedAt1) \<Rightarrow>
        sanitizeMergedSettingsForSync
          (obj_set ''syncPreferencesUpdatedAt''
             (if updatedAt1 \<noteq> [] then JObj updatedAt1 else obj_get ''syncPreferencesUpdatedAt'' merged) merged)
          localSettings)"

subsection \<open>Properties\<close>

lemma kept_fields_stored: "\<forall>f\<in>set (keepSavedFilters a) \<union> set (keepSavedFilters b). stored_fields f"
  by (auto simp: stored_fields_def dest: kept_stored)

lemma merge_filter_lists_stored:
  assumes "\<forall>f\<in>set ls \<union> set rs. stored_fields f"
  shows "\<forall>f\<in>set (merge_filter_lists ls rs w n). stored_fields f"
proof
  fix f assume f: "f \<in> set (merge_filter_lists ls rs w n)"
  have "find_filter (filter_id f) (merge_filter_lists ls rs w n) = Some f"
    using f by (simp add: find_filter_def js_map_of_distinct merge_filter_lists_ids)
  then have "merged_filter ls rs w n (filter_id f) = Some f" by (simp only: find_merged_filter)
  moreover have "find_filter i ls = Some g \<Longrightarrow> stored_fields g" "find_filter i rs = Some g \<Longrightarrow> stored_fields g" for i g
    using assms js_map_SomeD[of filter_id _ i g] by (auto simp: find_filter_def)
  ultimately show "stored_fields f"
    using chooseSavedFilter_cases[of "the (find_filter (filter_id f) ls)" "the (find_filter (filter_id f) rs)" w n]
    by (cases "find_filter (filter_id f) ls"; cases "find_filter (filter_id f) rs")
       (auto simp only: merged_filter_def option.case prod.case option.sel option.inject insert_iff empty_iff)
qed

lemma keep_merged:
  "keepSavedFilters (mergeSavedFiltersById a b w n) =
   merge_filter_lists (keepSavedFilters a) (keepSavedFilters b) w n"
  unfolding mergeSavedFiltersById_def
  using merge_filter_lists_stored[OF kept_fields_stored]
  by (intro keep_of_kept) (auto simp: merge_filter_lists_ids stored_fields_def)

lemma get_set_or_delete_all: "k \<notin> set ks \<Longrightarrow> obj_get k (set_or_delete_all ks v o1) = obj_get k o1"
  unfolding set_or_delete_all_def by (induction ks arbitrary: o1) (auto simp: get_other)

lemma get_assign_fields:
  "obj_get k (assign_fields ks v o1) = (if k \<in> set ks then member v k else obj_get k o1)"
  unfolding assign_fields_def
  by (induction ks arbitrary: o1) (auto simp: obj_spread_Cons obj_get_set)

lemma get_apply_gtd:
  "k \<notin> {''gtd'', ''features'', ''quickAddAutoClean'', ''markdownEditorAssist''} \<Longrightarrow>
   obj_get k (apply_gtd v o1) = obj_get k o1"
  by (simp add: apply_gtd_def Let_def obj_get_set obj_get_delete get_set_or_delete_all
      GTD_SYNCED_APP_SETTINGS_FIELD_KEYS_def)

lemma fst_mergeGroup:
  "fst (mergeGroup loc inc k l r apply1 mv st) =
   apply1 (mv l (if opted_out loc k then l else r)
     (\<not> opted_out loc k \<and> isIncomingNewer (group_time loc k) (group_time inc k))
     (isIncomingNewer (group_time inc k) (group_time loc k))) (fst st)"
  by (simp add: mergeGroup_def Let_def)

lemma obj_get_map_keys:
  "obj_get k (map (\<lambda>k. (k, f k)) ks) = (if k \<in> set ks then f k else JUndef)"
  by (induction ks) (auto simp: obj_get_Cons)

lemma obj_get_absent: "k \<notin> fst ` set o1 \<Longrightarrow> obj_get k o1 = JUndef"
  by (induction o1) (auto simp: obj_get_Cons)

lemma obj_get_mergeRecordFields:
  "obj_get k (mergeRecordFields l r w) =
   chooseGroupFieldValue (obj_get k (own_entries l)) (obj_get k (own_entries r)) w"
  by (simp add: mergeRecordFields_def Let_def obj_get_map_keys obj_get_absent chooseGroupFieldValue_def)

lemma own_entries_JObj [simp]: "own_entries (JObj kvs) = kvs"
  by (simp add: own_entries_def)

lemma choose_self [simp]: "chooseGroupFieldValue v v w = v"
  by (simp add: chooseGroupFieldValue_def)

text \<open>A field of the appearance or language group after the groups are merged.\<close>

definition scalar_group :: "string \<Rightarrow> string" where
  "scalar_group k = (if k \<in> {''theme'', ''keybindingStyle''} then ''appearance'' else ''language'')"

definition merged_scalar :: "js_object \<Rightarrow> js_object \<Rightarrow> string \<Rightarrow> json" where
  "merged_scalar loc inc k =
     (let g = scalar_group k in
      if opted_out loc g then obj_get k loc
      else chooseGroupFieldValue (obj_get k loc) (obj_get k inc)
             (isIncomingNewer (group_time loc g) (group_time inc g)))"

lemmas group_defs = merge_groups_def merge_ai_group_def merge_filters_group_def merge_calendars_group_def
  merge_gtd_group_def merge_language_group_def merge_appearance_group_def fst_mergeGroup

lemma get_merged_scalar:
  "k \<in> set SCALAR_KEYS \<Longrightarrow> obj_get k (fst (merge_groups loc inc)) = merged_scalar loc inc k"
  unfolding SCALAR_KEYS_def group_defs
  by (elim list_set_cases)
     (simp_all add: obj_get_set get_apply_gtd get_assign_fields LANGUAGE_KEYS_def APPEARANCE_KEYS_def
       obj_get_mergeRecordFields select_fields_def obj_get_map_keys mergeAppearanceGroupValue_def Let_def
       obj_get_Cons merged_scalar_def scalar_group_def)

lemma get_merged_filters:
  "obj_get ''savedFilters'' (fst (merge_groups loc inc)) =
   (let o1 = opted_out loc ''savedFilters''; lt = group_time loc ''savedFilters''; it = group_time inc ''savedFilters'';
        l = obj_get ''savedFilters'' loc
    in kept_filters (mergeSavedFiltersById l (if o1 then l else obj_get ''savedFilters'' inc)
         (\<not> o1 \<and> isIncomingNewer lt it) (isIncomingNewer it lt)))"
  unfolding group_defs by (simp add: obj_get_set Let_def)

lemma get_merged_calendars:
  "obj_get ''externalCalendars'' (fst (merge_groups loc inc)) =
   (if \<not> opted_out loc ''externalCalendars''
       \<and> isIncomingNewer (group_time loc ''externalCalendars'') (group_time inc ''externalCalendars'')
    then obj_get ''externalCalendars'' inc else obj_get ''externalCalendars'' loc)"
  unfolding group_defs by (simp add: obj_get_set)

lemma mergeSettings_sanitized:
  "\<exists>m. mergeSettingsForSync loc inc = sanitizeMergedSettingsForSync m loc
     \<and> (\<forall>k. k \<noteq> ''syncPreferencesUpdatedAt'' \<longrightarrow> obj_get k m = obj_get k (fst (merge_groups loc inc)))"
  by (cases "merge_groups loc inc")
     (auto simp: mergeSettingsForSync_def obj_get_set)

lemma merge_filter_lists_self:
  assumes "distinct (map filter_id ls)"
  shows "merge_filter_lists ls ls w n = ls"
proof -
  have "or_else (merged_filter ls ls w n (filter_id f)) [] = f" if "f \<in> set ls" for f
    using js_map_of_distinct[OF assms that] chooseSavedFilter_cases[of f f w n]
    by (simp add: merged_filter_def find_filter_def)
  then show ?thesis
    using assms by (simp add: merge_filter_lists_def uniq_append_self comp_def cong: map_cong)
qed

text \<open>
  C37: two devices that merge each other's saved filters, each with its own copy as the local one,
  end with the same filters, and for every filter with a copy of the same content; when one of the
  recorded group times is newer, also in the same order, and otherwise in the order of the remote copy.
\<close>

theorem saved_filters_converge:
  "let onA = keepSavedFilters (mergeSavedFiltersById a b (isIncomingNewer atA atB) (isIncomingNewer atB atA));
       onB = keepSavedFilters (mergeSavedFiltersById b a (isIncomingNewer atB atA) (isIncomingNewer atA atB))
   in distinct (map filter_id onA)
    \<and> map_option filter_key (find_filter i onA) = map_option filter_key (find_filter i onB)
    \<and> map filter_id onB =
        (if isIncomingNewer atA atB \<or> isIncomingNewer atB atA then map filter_id onA
         else uniq (map filter_id (keepSavedFilters a) @ map filter_id (keepSavedFilters b)))"
proof -
  have n: "\<not> (isIncomingNewer atA atB \<and> isIncomingNewer atB atA)" using newer_asym by blast
  have k: "map_option filter_key (merged_filter (keepSavedFilters a) (keepSavedFilters b)
       (isIncomingNewer atA atB) (isIncomingNewer atB atA) i) =
     map_option filter_key (merged_filter (keepSavedFilters b) (keepSavedFilters a)
       (isIncomingNewer atB atA) (isIncomingNewer atA atB) i)"
    by (rule merged_filter_key[OF kept_fields_stored n])
  show ?thesis
    unfolding keep_merged Let_def find_merged_filter merge_filter_lists_ids using k n by simp
qed


lemma merged_ai_local:
  "let ai = obj_get ''ai'' (mergeSettingsForSync loc inc); localAi = obj_get ''ai'' loc
   in ai = JUndef \<or> ai_kept_local ai localAi"
proof -
  obtain m where "mergeSettingsForSync loc inc = sanitizeMergedSettingsForSync m loc"
    using mergeSettings_sanitized by blast
  then show ?thesis using sanitizeAiSettings_local by (simp add: get_sanitized_ai)
qed

text \<open>
  A device that opted out of synchronising a group keeps its own values of that group.
\<close>

theorem opted_out_group_kept:
  "let m = mergeSettingsForSync loc inc in
     list_all (\<lambda>k. opted_out loc (scalar_group k) \<longrightarrow> obj_get k m = obj_get k loc) SCALAR_KEYS
   \<and> (opted_out loc ''savedFilters'' \<longrightarrow>
        keepSavedFilters (obj_get ''savedFilters'' m) = keepSavedFilters (obj_get ''savedFilters'' loc))
   \<and> (opted_out loc ''externalCalendars'' \<longrightarrow>
        obj_get ''externalCalendars'' m =
          sanitizeExternalCalendars (obj_get ''externalCalendars'' loc) (obj_get ''externalCalendars'' loc))"
proof -
  define m where "m = mergeSettingsForSync loc inc"
  obtain m0 where m: "m = sanitizeMergedSettingsForSync m0 loc"
    and g: "\<And>k. k \<noteq> ''syncPreferencesUpdatedAt'' \<Longrightarrow> obj_get k m0 = obj_get k (fst (merge_groups loc inc))"
    unfolding m_def using mergeSettings_sanitized[of loc inc] by blast
  have s: "obj_get k m = obj_get k loc" if "k \<in> set SCALAR_KEYS" "opted_out loc (scalar_group k)" for k
  proof -
    have "k \<noteq> ''syncPreferencesUpdatedAt''" using that by (auto simp: SCALAR_KEYS_def)
    then have "obj_get k m0 = obj_get k loc"
      using that by (simp add: g get_merged_scalar merged_scalar_def)
    then show ?thesis unfolding m get_sanitized_scalar[OF that(1)] by (simp add: Let_def)
  qed
  have f: "keepSavedFilters (obj_get ''savedFilters'' m) = keepSavedFilters (obj_get ''savedFilters'' loc)"
    if "opted_out loc ''savedFilters''"
  proof -
    have "obj_get ''savedFilters'' m0 = kept_filters (obj_get ''savedFilters'' loc)"
      using that by (simp add: g get_merged_filters Let_def kept_filters_def keep_merged
        merge_filter_lists_self kept_distinct)
    then show ?thesis unfolding m get_sanitized_filters by (simp add: kept_filters_def keepSavedFilters_idem)
  qed
  have "obj_get ''externalCalendars'' m =
      sanitizeExternalCalendars (obj_get ''externalCalendars'' loc) (obj_get ''externalCalendars'' loc)"
    if "opted_out loc ''externalCalendars''"
    unfolding m get_sanitized_calendars using that by (simp add: g get_merged_calendars)
  with s f show ?thesis by (simp add: list_all_iff m_def Let_def)
qed

definition sample_device :: js_object where
  "sample_device = [(''theme'', JStr ''nord''), (''language'', JStr ''en''),
     (''savedFilters'', JArr [JObj [(''id'', JStr ''f1''), (''name'', JStr ''Calls''), (''view'', JStr ''focus'')]]),
     (''syncPreferences'', JObj [(''appearance'', JBool False), (''savedFilters'', JBool False)])]"

definition sample_remote :: js_object where
  "sample_remote = [(''theme'', JStr ''dark''), (''language'', JStr ''de''), (''savedFilters'', JArr []),
     (''syncPreferencesUpdatedAt'', JObj [(''appearance'', JStr ''2025-01-01T00:00:00.000Z''),
        (''language'', JStr ''2025-01-01T00:00:00.000Z'')])]"

theorem opted_out_group_kept_witness:
  "obj_get ''theme'' (mergeSettingsForSync sample_device sample_remote) = JStr ''nord''
   \<and> map filter_id (keepSavedFilters (obj_get ''savedFilters'' (mergeSettingsForSync sample_device sample_remote))) = [''f1'']"
proof -
  have o: "opted_out sample_device (scalar_group ''theme'')" "opted_out sample_device ''savedFilters''" by code_simp+
  have t: "''theme'' \<in> set SCALAR_KEYS" by code_simp
  have v: "obj_get ''theme'' sample_device = JStr ''nord''"
    "map filter_id (keepSavedFilters (obj_get ''savedFilters'' sample_device)) = [''f1'']" by code_simp+
  show ?thesis
    using opted_out_group_kept[of sample_device sample_remote] o t v by (simp add: Let_def list_all_iff)
qed

end
