(* ===== verification/MergeApp.thy ===== *)
theory MergeApp
  imports AttachmentMerge Repair Validate SettingsMerge
begin

text \<open>
  The document merge of \<open>sync.ts\<close>: \<open>mergeAppDataWithStats\<close> with the callbacks it gives to the
  collection merge (view sections, attachments, cancellation markers, recurrence series), \<open>mergeAreas\<close>,
  the clock skew warning and the merge statistics. The settings are merged by \<open>mergeSettingsForSync\<close>.
\<close>

subsection \<open>Recurrence series\<close>

definition getRecurrenceSeriesShape :: "host \<Rightarrow> recurrence option \<Rightarrow> string option" where
  "getRecurrenceSeriesShape h value =
     (case normalizeRecurrenceForLoad h (map_option RecObj value) of
        None \<Rightarrow> None
      | Some r \<Rightarrow>
          (let parsed = (if truthy (rec_rrule r) then parseRRuleString h (the (rec_rrule r)) else empty_parsed)
           in stringify (JObj (obj_delete ''seriesId'' (obj_delete ''rrule'' (recurrence_fields r)) @
                [(''interval'', j_num (pr_interval parsed)), (''bySetPos'', j_num (pr_bySetPos parsed))]))))"

definition series_of :: "host \<Rightarrow> task \<Rightarrow> string option" where
  "series_of h t = Option.bind (normalizeRecurrenceForLoad h (t_recurrence t)) rec_seriesId"

definition repairTaskRecurrenceSeriesIdentity :: "host \<Rightarrow> task \<Rightarrow> task \<Rightarrow> task \<Rightarrow> task" where
  "repairTaskRecurrenceSeriesIdentity h l i w =
     (let ls = series_of h l; is = series_of h i;
          sameSeriesShape =
            (getRecurrenceSeriesShape h (normalizeRecurrenceForLoad h (t_recurrence l)) =
             getRecurrenceSeriesShape h (normalizeRecurrenceForLoad h (t_recurrence i)));
          identified = (if truthy ls then l else i);
          legacy = (if truthy ls then i else l)
      in if truthy ls = truthy is then w
         else if \<not> sameSeriesShape
              \<and> (or_else (rev legacy) 0 \<noteq> or_else (rev identified) 0 + 1 \<or> truthy (series_of h w)) then w
         else
           (case (normalizeRecurrenceForLoad h (t_recurrence w), js_nullish ls is) of
              (Some r, Some seriesId) \<Rightarrow>
                if seriesId = [] then w
                else w\<lparr>t_recurrence := map_option RecObj
                         (normalizeRecurrenceForLoad h (Some (RecObj (r\<lparr>rec_seriesId := Some seriesId\<rparr>)))),
                       rev := Some (nextRev (Some (max (or_else (rev l) 0) (or_else (rev i) 0)))),
                       revBy := Some SYNC_REPAIR_REV_BY\<rparr>
            | _ \<Rightarrow> w))"

subsection \<open>Cancellation markers\<close>

definition hasSamePersistedOperationIdentity :: "'a mergeable_scheme \<Rightarrow> 'a mergeable_scheme \<Rightarrow> bool" where
  "hasSamePersistedOperationIdentity l r =
     (or_else (rev l) 0 = or_else (rev r) 0 \<and> or_else (revBy l) [] = or_else (revBy r) []
      \<and> updatedAt l = updatedAt r)"

definition preserveTaskCancellationFromStrippedPeer :: "task \<Rightarrow> task \<Rightarrow> task \<Rightarrow> task" where
  "preserveTaskCancellationFromStrippedPeer l i w =
     (if t_status l \<noteq> Archived \<or> t_status i \<noteq> Archived \<or> \<not> hasSamePersistedOperationIdentity l i then w
      else
        (let c = js_or (t_cancelledAt l) (t_cancelledAt i)
         in if \<not> truthy c \<or> (truthy (t_cancelledAt l) \<and> truthy (t_cancelledAt i)) then w
            else if t_cancelledAt w = c \<and> t_completedAt w = None then w
            else w\<lparr>t_cancelledAt := c, t_completedAt := None\<rparr>))"

definition preserveProjectCancellationFromStrippedPeer :: "project \<Rightarrow> project \<Rightarrow> project \<Rightarrow> project" where
  "preserveProjectCancellationFromStrippedPeer l i w =
     (if p_status l \<noteq> PArchived \<or> p_status i \<noteq> PArchived \<or> \<not> hasSamePersistedOperationIdentity l i then w
      else
        (let c = js_or (p_cancelledAt l) (p_cancelledAt i)
         in if \<not> truthy c \<or> (truthy (p_cancelledAt l) \<and> truthy (p_cancelledAt i)) then w
            else if p_cancelledAt w = c then w else w\<lparr>p_cancelledAt := c\<rparr>))"

subsection \<open>The callbacks of tasks and projects\<close>

record merge_env =
  me_host :: host
  me_preferIncomingKeys :: bool
  me_clock :: int
  me_nowIso :: string

definition keep_view_sections :: "(string \<times> string) list option \<Rightarrow> (string \<times> string) list option
  \<Rightarrow> (string \<times> string) list option" where
  "keep_view_sections winner other = (case winner of None \<Rightarrow> other | Some v \<Rightarrow> Some v)"

definition merged_attachments ::
  "merge_env \<Rightarrow> bool \<Rightarrow> string option \<Rightarrow> string option \<Rightarrow> attachment list option \<Rightarrow> attachment list option
   \<Rightarrow> attachment list option" where
  "merged_attachments e winnerPurged lPurged iPurged l i =
     (if winnerPurged then compactAttachmentCleanupMetadata l
      else mergeAttachments (me_host e) (me_preferIncomingKeys e) (me_clock e) (me_nowIso e)
             (if truthy lPurged then None else l) (if truthy iPurged then None else i))"

definition merge_task :: "merge_env \<Rightarrow> task \<Rightarrow> task \<Rightarrow> side \<Rightarrow> task" where
  "merge_task e l i s =
     (let w = pick_side s l i; other = pick_side s i l;
          attachments = merged_attachments e (truthy (t_purgedAt w)) (t_purgedAt l) (t_purgedAt i)
            (t_attachments l) (t_attachments i)
      in repairTaskRecurrenceSeriesIdentity (me_host e) l i
           (preserveTaskCancellationFromStrippedPeer l i
              (w\<lparr>t_viewSectionIds := keep_view_sections (t_viewSectionIds w) (t_viewSectionIds other),
                 t_attachments := attachments\<rparr>)))"

definition merge_project :: "merge_env \<Rightarrow> project \<Rightarrow> project \<Rightarrow> side \<Rightarrow> project" where
  "merge_project e l i s =
     (let w = pick_side s l i; other = pick_side s i l;
          attachments = merged_attachments e (truthy (p_purgedAt w)) (p_purgedAt l) (p_purgedAt i)
            (p_attachments l) (p_attachments i)
      in preserveProjectCancellationFromStrippedPeer l i
           (w\<lparr>p_viewSectionIds := keep_view_sections (p_viewSectionIds w) (p_viewSectionIds other),
              p_attachments := attachments\<rparr>))"

definition task_clock :: "task clock_ops" where
  "task_clock = \<lparr>ck_archivedAt = t_archivedAt, ck_set_archivedAt = (\<lambda>t v. t\<lparr>t_archivedAt := v\<rparr>),
     ck_status = (\<lambda>t. task_status_str (t_status t)), ck_purgedAt = t_purgedAt\<rparr>"

definition project_clock :: "project clock_ops" where
  "project_clock = \<lparr>ck_archivedAt = p_archivedAt, ck_set_archivedAt = (\<lambda>p v. p\<lparr>p_archivedAt := v\<rparr>),
     ck_status = (\<lambda>p. project_status_str (p_status p)), ck_purgedAt = p_purgedAt\<rparr>"

definition task_ops :: "merge_env \<Rightarrow> task merge_ops" where
  "task_ops e = \<lparr>mo_view = task_json, mo_compare = Some (normalizeTaskForContentComparison (me_host e)),
     mo_conflict = Some (merge_task e), mo_clock = Some task_clock\<rparr>"

definition project_ops :: "merge_env \<Rightarrow> project merge_ops" where
  "project_ops e = \<lparr>mo_view = project_json, mo_compare = Some (normalizeProjectForContentComparison (me_host e)),
     mo_conflict = Some (merge_project e), mo_clock = Some project_clock\<rparr>"

abbreviation section_ops :: "section1 merge_ops" where
  "section_ops \<equiv> plain_ops section_json (Some normalizeSectionForContentComparison)"
abbreviation area_ops :: "area merge_ops" where
  "area_ops \<equiv> plain_ops area_json (Some normalizeAreaForContentComparison)"
abbreviation person_ops :: "person merge_ops" where
  "person_ops \<equiv> plain_ops person_json (Some normalizePersonForContentComparison)"

subsection \<open>Areas\<close>

text \<open>Areas without an order are put after the others and stamped as repaired.\<close>

fun assign_orders :: "int \<Rightarrow> area list \<Rightarrow> area list" where
  "assign_orders fallback [] = []"
| "assign_orders fallback (a # as) =
     (case a_order a of
        Some n \<Rightarrow> a # assign_orders fallback as
      | None \<Rightarrow> a\<lparr>a_order := Some fallback, rev := Some (nextRev (rev a)), revBy := Some SYNC_REPAIR_REV_BY\<rparr>
                # assign_orders (fallback + 1) as)"

definition max_order :: "area list \<Rightarrow> int" where
  "max_order as = foldl (\<lambda>m a. max m (or_else (a_order a) (-1))) (-1) as"

definition mergeAreas :: "int \<Rightarrow> string \<Rightarrow> area list \<Rightarrow> area list \<Rightarrow> area list \<times> entity_stats" where
  "mergeAreas clock nowIso local incoming =
     (case mergeEntitiesWithStats area_ops clock (Some nowIso) local incoming of
        (merged, st) \<Rightarrow> (assign_orders (max_order merged + 1) merged, st))"

subsection \<open>Statistics\<close>

record clock_skew_warning =
  sw_skewMs :: int
  sw_direction :: skew_direction

definition all_stats :: "merge_stats \<Rightarrow> entity_stats list" where
  "all_stats s = [ms_tasks s, ms_projects s, ms_sections s, ms_areas s] @
     (case ms_people s of None \<Rightarrow> [] | Some p \<Rightarrow> [p])"

definition getClockSkewWarning :: "merge_stats \<Rightarrow> clock_skew_warning option" where
  "getClockSkewWarning s =
     (let candidates = js_sort (\<lambda>l r. es_maxClockSkewMs r - es_maxClockSkewMs l)
            (filter (\<lambda>x. es_maxClockSkewMs x > CLOCK_SKEW_THRESHOLD_MS
                          \<and> es_maxClockSkewDirection x \<noteq> None) (all_stats s))
      in case candidates of
           [] \<Rightarrow> None
         | w # _ \<Rightarrow> (case es_maxClockSkewDirection w of None \<Rightarrow> None
                     | Some d \<Rightarrow> Some \<lparr>sw_skewMs = es_maxClockSkewMs w, sw_direction = d\<rparr>))"

record merge_summary =
  sm_conflicts :: nat
  sm_conflictIds :: "string list"
  sm_maxClockSkewMs :: int
  sm_timestampAdjustments :: nat
  sm_deleteVsLiveConflicts :: nat
  sm_futureTimestampClamps :: nat

definition add_to_summary :: "merge_summary \<Rightarrow> entity_stats \<Rightarrow> merge_summary" where
  "add_to_summary s e =
     \<lparr>sm_conflicts = sm_conflicts s + es_conflicts e,
      sm_conflictIds = sm_conflictIds s @ es_conflictIds e,
      sm_maxClockSkewMs = max (sm_maxClockSkewMs s) (es_maxClockSkewMs e),
      sm_timestampAdjustments = sm_timestampAdjustments s + es_timestampAdjustments e,
      sm_deleteVsLiveConflicts = sm_deleteVsLiveConflicts s + es_conflictReasonCounts e DeleteState,
      sm_futureTimestampClamps = sm_futureTimestampClamps s + es_futureTimestampClamps e\<rparr>"

definition summarizeMergeStats :: "merge_stats \<Rightarrow> merge_summary" where
  "summarizeMergeStats s = foldl add_to_summary
     \<lparr>sm_conflicts = 0, sm_conflictIds = [], sm_maxClockSkewMs = 0, sm_timestampAdjustments = 0,
      sm_deleteVsLiveConflicts = 0, sm_futureTimestampClamps = 0\<rparr> (all_stats s)"

definition local_only_stats :: "nat \<Rightarrow> entity_stats" where
  "local_only_stats n = (createEmptyEntityStats n 0)\<lparr>es_mergedTotal := n, es_localOnly := n, es_resolvedUsingLocal := n\<rparr>"

definition createLocalOnlyMergeStats :: "app_data \<Rightarrow> merge_stats" where
  "createLocalOnlyMergeStats d =
     \<lparr>ms_tasks = local_only_stats (length (ad_tasks d)), ms_projects = local_only_stats (length (ad_projects d)),
      ms_sections = local_only_stats (length (ad_sections d)), ms_areas = local_only_stats (length (ad_areas d)),
      ms_people = Some (local_only_stats (length (or_else (ad_people d) []))), ms_tombstoneRepairs = 0\<rparr>"

subsection \<open>The document merge\<close>

record merge_options =
  mg_nowIso :: "string option"
  mg_preferIncomingKeys :: bool

record merge_result =
  mr_data :: app_data
  mr_stats :: merge_stats
  mr_warning :: "clock_skew_warning option"

text \<open>\<open>clock\<close> is \<open>Date.now()\<close>, read when the option \<open>nowIso\<close> is no timestamp.\<close>

definition merge_now :: "int \<Rightarrow> merge_options \<Rightarrow> string" where
  "merge_now clock opts =
     (case mg_nowIso opts of
        Some s \<Rightarrow> if date_parse s \<noteq> None then s else to_iso clock
      | None \<Rightarrow> to_iso clock)"

text \<open>The two sides before the merge; only the local one keeps cleanup metadata.\<close>

definition norm_task :: "merge_env \<Rightarrow> bool \<Rightarrow> task \<Rightarrow> task" where
  "norm_task e keep t = normalizeRevisionMetadata (normalizeTaskForSyncMerge (me_host e) (me_nowIso e) keep t)"

definition norm_project :: "merge_env \<Rightarrow> bool \<Rightarrow> project \<Rightarrow> project" where
  "norm_project e keep p = normalizeRevisionMetadata (normalizeProjectForSyncMerge (me_host e) keep p)"

definition norm_sections :: "app_data \<Rightarrow> section1 list" where
  "norm_sections d =
     map (\<lambda>s. normalizeRevisionMetadata (normalizeSectionForSyncMerge s))
       (compactSectionsForPurgedProjects (ad_sections d) (ad_projects d) True)"

definition norm_areas :: "merge_env \<Rightarrow> app_data \<Rightarrow> area list" where
  "norm_areas e d = map (\<lambda>a. normalizeRevisionMetadata (normalizeAreaForSyncMerge (me_nowIso e) a)) (ad_areas d)"

definition norm_people :: "merge_env \<Rightarrow> app_data \<Rightarrow> person list" where
  "norm_people e d =
     map (\<lambda>p. normalizeRevisionMetadata (normalizePersonForSyncMerge (me_nowIso e) p)) (or_else (ad_people d) [])"

text \<open>The purged rows one side stamps with a new revision.\<close>

definition count_repairs :: "merge_env \<Rightarrow> bool \<Rightarrow> app_data \<Rightarrow> nat" where
  "count_repairs e keep d =
     length (filter (\<lambda>t. truthy (t_purgedAt t) \<and> rev (normalizeTaskForSyncMerge (me_host e) (me_nowIso e) keep t) \<noteq> rev t) (ad_tasks d))
   + length (filter (\<lambda>p. truthy (p_purgedAt p) \<and> rev (normalizeProjectForSyncMerge (me_host e) keep p) \<noteq> rev p) (ad_projects d))
   + length (filter (\<lambda>s. rev (compact_section (ad_projects d) True s) \<noteq> rev s) (ad_sections d))"

text \<open>The settings merge starts from the local settings, so the fields it does not touch are the local ones.\<close>

definition merge_settings :: "settings \<Rightarrow> settings \<Rightarrow> settings" where
  "merge_settings loc inc = loc\<lparr>st_object := mergeSettingsForSync (st_object loc) (st_object inc)\<rparr>"

definition mergeAppDataWithStats ::
  "host \<Rightarrow> int \<Rightarrow> merge_options \<Rightarrow> app_data \<Rightarrow> app_data \<Rightarrow> merge_result" where
  "mergeAppDataWithStats h clock opts local incoming =
     (let now = merge_now clock opts;
          e = \<lparr>me_host = h, me_preferIncomingKeys = mg_preferIncomingKeys opts, me_clock = clock, me_nowIso = now\<rparr>;
          (tasks, taskStats) = mergeEntitiesWithStats (task_ops e) clock (Some now)
            (map (norm_task e True) (ad_tasks local)) (map (norm_task e False) (ad_tasks incoming));
          (projects, projectStats) = mergeEntitiesWithStats (project_ops e) clock (Some now)
            (map (norm_project e True) (ad_projects local)) (map (norm_project e False) (ad_projects incoming));
          (sections, sectionStats) = mergeEntitiesWithStats section_ops clock (Some now)
            (norm_sections local) (norm_sections incoming);
          (areas, areaStats) = mergeAreas clock now (norm_areas e local) (norm_areas e incoming);
          (people, peopleStats) = mergeEntitiesWithStats person_ops clock (Some now)
            (norm_people e local) (norm_people e incoming);
          stats = \<lparr>ms_tasks = taskStats, ms_projects = projectStats, ms_sections = sectionStats,
                   ms_areas = areaStats, ms_people = Some peopleStats,
                   ms_tombstoneRepairs = count_repairs e True local + count_repairs e False incoming\<rparr>;
          repaired = repairMergedSyncReferences h
            \<lparr>ad_tasks = tasks, ad_projects = projects, ad_sections = sections, ad_areas = areas,
             ad_people = Some people, ad_settings = merge_settings (ad_settings local) (ad_settings incoming)\<rparr> now;
          data = repaired\<lparr>ad_sections := compactSectionsForPurgedProjects (ad_sections repaired) (ad_projects repaired) False\<rparr>
      in \<lparr>mr_data = data, mr_stats = stats, mr_warning = getClockSkewWarning stats\<rparr>)"

subsection \<open>Identifiers through the merge\<close>

lemma normalizeRevisionMetadata_keeps [ids]:
  "eid (normalizeRevisionMetadata x) = eid x" "deletedAt (normalizeRevisionMetadata x) = deletedAt x"
  by (simp_all add: normalizeRevisionMetadata_def)

lemma compacted_task_eid [ids]:
  "eid (compactPurgedTaskTombstone t) = eid t" "eid (compactPurgedTaskForLocalStorage t) = eid t"
  by (simp_all add: compactPurgedTaskTombstone_def compactPurgedTaskForLocalStorage_def bare_task_def)

lemma compacted_project_eid [ids]:
  "eid (compactPurgedProjectTombstone p) = eid p" "eid (compactPurgedProjectForLocalStorage p) = eid p"
  by (simp_all add: compactPurgedProjectTombstone_def compactPurgedProjectForLocalStorage_def bare_project_def)

lemma load_task_eid [ids]: "eid (normalizeTaskForLoad h now t) = eid t"
proof -
  have "eid (load_fields h now t) = eid t" by (simp add: load_fields_def Let_def)
  moreover have "eid (unfocus_future h now u) = eid u" for u
    by (simp add: unfocus_future_def Let_def split: option.splits)
  moreover have "eid (normalizeTaskLifecycleFields u) = eid u" for u
    by (simp add: normalizeTaskLifecycleFields_def Let_def)
  ultimately show ?thesis by (simp add: normalizeTaskForLoad_def)
qed

lemma norm_task_eid [simp, ids]: "eid (norm_task e k t) = eid t"
  by (simp add: norm_task_def normalizeTaskForSyncMerge_def Let_def ids)

lemma norm_project_eid [simp, ids]: "eid (norm_project e k p) = eid p"
proof -
  have "eid (normalizeProjectLifecycleFields q) = eid q" for q
    by (simp add: project_lifecycle_eq)
  then show ?thesis by (simp add: norm_project_def normalizeProjectForSyncMerge_def Let_def ids)
qed

lemma norm_sections_eid: "map eid (norm_sections d) = map eid (ad_sections d)"
  by (simp add: norm_sections_def compactSectionsForPurgedProjects_def normalizeSectionForSyncMerge_def ids comp_def)

lemma norm_areas_eid: "map eid (norm_areas e d) = map eid (ad_areas d)"
  by (simp add: norm_areas_def normalizeAreaForSyncMerge_def ids comp_def)

lemma norm_people_eid: "map eid (norm_people e d) = map eid (or_else (ad_people d) [])"
  by (simp add: norm_people_def normalizePersonForSyncMerge_def ids comp_def)

lemma series_repair_eid [ids]: "eid (repairTaskRecurrenceSeriesIdentity h l i w) = eid w"
  by (simp add: repairTaskRecurrenceSeriesIdentity_def Let_def split: option.splits)

lemma task_cancellation_eid [ids]: "eid (preserveTaskCancellationFromStrippedPeer l i w) = eid w"
  by (simp add: preserveTaskCancellationFromStrippedPeer_def Let_def)

lemma project_cancellation_eid [ids]: "eid (preserveProjectCancellationFromStrippedPeer l i w) = eid w"
  by (simp add: preserveProjectCancellationFromStrippedPeer_def Let_def)

lemma task_ops_keeps_ids [simp]: "keeps_ids (task_ops e)"
proof -
  have "eid (merge_task e l i s) = eid i" if "eid l = eid i" for l i s
    using that by (cases s) (simp_all add: merge_task_def Let_def ids)
  then show ?thesis by (simp add: keeps_ids_def task_ops_def task_clock_def)
qed

lemma project_ops_keeps_ids [simp]: "keeps_ids (project_ops e)"
proof -
  have "eid (merge_project e l i s) = eid i" if "eid l = eid i" for l i s
    using that by (cases s) (simp_all add: merge_project_def Let_def ids)
  then show ?thesis by (simp add: keeps_ids_def project_ops_def project_clock_def)
qed

lemma assign_orders_eid [simp]: "map eid (assign_orders n as) = map eid as"
  by (induction n as rule: assign_orders.induct) (simp_all split: option.splits)

lemma mergeAreas_keys:
  "map eid (fst (mergeAreas clock now local incoming)) = uniq (map eid local @ map eid incoming)"
proof -
  obtain ms st where r: "mergeEntitiesWithStats area_ops clock (Some now) local incoming = (ms, st)" by force
  then have "map eid ms = uniq (map eid local @ map eid incoming)"
    using merged_ids[OF plain_ops_keeps_ids, of area_json "Some normalizeAreaForContentComparison"
        clock "Some now" local incoming] by (simp add: all_ids_def)
  then show ?thesis by (simp add: mergeAreas_def r)
qed

interpretation tm: keyed_merge eid "\<lambda>xs ys. fst (mergeEntitiesWithStats (task_ops e) clock now xs ys)"
  for e clock now
  by unfold_locales (simp add: merged_ids all_ids_def)

interpretation jm: keyed_merge eid "\<lambda>xs ys. fst (mergeEntitiesWithStats (project_ops e) clock now xs ys)"
  for e clock now
  by unfold_locales (simp add: merged_ids all_ids_def)

interpretation am: keyed_merge eid "\<lambda>xs ys. fst (mergeAreas clock now xs ys)"
  for clock now
  by unfold_locales (rule mergeAreas_keys)


lemma merged_parts:
  fixes local incoming :: app_data and h :: host and opts :: merge_options and clock :: int
  defines "now \<equiv> merge_now clock opts"
  defines "e \<equiv> \<lparr>me_host = h, me_preferIncomingKeys = mg_preferIncomingKeys opts, me_clock = clock, me_nowIso = now\<rparr>"
  defines "d \<equiv> mr_data (mergeAppDataWithStats h clock opts local incoming)"
  shows "map eid (ad_tasks d) = map eid (fst (mergeEntitiesWithStats (task_ops e) clock (Some now)
            (map (norm_task e True) (ad_tasks local)) (map (norm_task e False) (ad_tasks incoming))))"
    and "map eid (ad_projects d) = map eid (fst (mergeEntitiesWithStats (project_ops e) clock (Some now)
            (map (norm_project e True) (ad_projects local)) (map (norm_project e False) (ad_projects incoming))))"
    and "map eid (ad_sections d) = map eid (fst (mergeEntitiesWithStats section_ops clock (Some now)
            (norm_sections local) (norm_sections incoming)))"
    and "map eid (ad_areas d) = map eid (fst (mergeAreas clock now (norm_areas e local) (norm_areas e incoming)))"
    and "ad_people d = Some (fst (mergeEntitiesWithStats person_ops clock (Some now)
            (norm_people e local) (norm_people e incoming)))"
  by (simp_all add: d_def e_def now_def mergeAppDataWithStats_def repairMergedSyncReferences_def
      dedupeLiveAreasByName_def compactSectionsForPurgedProjects_def Let_def comp_def split_beta)

text \<open>
  C2: the merge of two documents has, in each of its five collections, exactly the identifiers of
  the two sides, each once: normalising, merging, repairing and compacting lose no entity,
  duplicate none and invent none.
\<close>

theorem document_merge_keeps_every_id:
  fixes local incoming :: app_data and h :: host and opts :: merge_options and clock :: int
  defines "d \<equiv> mr_data (mergeAppDataWithStats h clock opts local incoming)"
  shows "map eid (ad_tasks d) = uniq (map eid (ad_tasks local) @ map eid (ad_tasks incoming))
       \<and> map eid (ad_projects d) = uniq (map eid (ad_projects local) @ map eid (ad_projects incoming))
       \<and> map eid (ad_sections d) = uniq (map eid (ad_sections local) @ map eid (ad_sections incoming))
       \<and> map eid (ad_areas d) = uniq (map eid (ad_areas local) @ map eid (ad_areas incoming))
       \<and> map_option (map eid) (ad_people d)
         = Some (uniq (map eid (or_else (ad_people local) []) @ map eid (or_else (ad_people incoming) [])))"
  unfolding d_def merged_parts
  by (simp add: tm.merge_keys jm.merge_keys am.merge_keys pm.merge_keys norm_sections_eid
      norm_areas_eid norm_people_eid comp_def)

lemma gtd_setting_keeps_ai:
  "obj_get ''ai'' (st_object (with_gtd_setting k v w st)) = obj_get ''ai'' (st_object st)"
  by (simp add: with_gtd_setting_def obj_spread_Cons obj_get_set)

lemma repair_keeps_ai:
  "obj_get ''ai'' (st_object (ad_settings (repairMergedSyncReferences h d now))) = obj_get ''ai'' (st_object (ad_settings d))"
  by (simp add: repairMergedSyncReferences_def repair_settings_def gtd_setting_keeps_ai Let_def split: prod.split)

text \<open>
  C38: whatever the remote document holds, the merged document's AI settings send this device's key to
  this device's own endpoint: they carry no key, and the endpoint, the extra request body, the speech
  endpoint and the offline model path are the local ones or absent.
\<close>

theorem ai_endpoint_stays_local:
  "let ai = obj_get ''ai'' (st_object (ad_settings (mr_data (mergeAppDataWithStats h clock opts local incoming))));
       localAi = obj_get ''ai'' (st_object (ad_settings local))
   in ai = JUndef \<or> ai_kept_local ai localAi"
  using merged_ai_local[of "st_object (ad_settings local)" "st_object (ad_settings incoming)"]
  by (simp add: mergeAppDataWithStats_def repair_keeps_ai merge_settings_def Let_def split_beta)

subsection \<open>What the callbacks keep\<close>

lemma series_repair_keeps [simp]:
  "t_cancelledAt (repairTaskRecurrenceSeriesIdentity h l i w) = t_cancelledAt w"
  "t_completedAt (repairTaskRecurrenceSeriesIdentity h l i w) = t_completedAt w"
  by (simp_all add: repairTaskRecurrenceSeriesIdentity_def Let_def split: option.splits)

lemma stripped_peer_cancellation:
  assumes "t_status l = Archived" and "t_status i = Archived"
    and "hasSamePersistedOperationIdentity l i"
    and "truthy (t_cancelledAt l) \<noteq> truthy (t_cancelledAt i)"
  shows "t_cancelledAt (preserveTaskCancellationFromStrippedPeer l i w)
           = (if truthy (t_cancelledAt l) then t_cancelledAt l else t_cancelledAt i)
       \<and> t_completedAt (preserveTaskCancellationFromStrippedPeer l i w) = None"
proof -
  have "preserveTaskCancellationFromStrippedPeer l i w =
      (let c = js_or (t_cancelledAt l) (t_cancelledAt i)
       in if t_cancelledAt w = c \<and> t_completedAt w = None then w
          else w\<lparr>t_cancelledAt := c, t_completedAt := None\<rparr>)"
    using assms by (simp add: preserveTaskCancellationFromStrippedPeer_def js_or_def Let_def)
  then show ?thesis by (simp add: js_or_def Let_def)
qed

text \<open>
  When two archived copies of a task record the same operation and only one carries the
  cancellation marker, the merged task carries it and is not completed, whichever copy won.
\<close>

theorem cancellation_survives_stripped_peer:
  assumes "t_status l = Archived" and "t_status i = Archived"
    and "hasSamePersistedOperationIdentity l i"
    and "truthy (t_cancelledAt l) \<noteq> truthy (t_cancelledAt i)"
  shows "t_cancelledAt (merge_task e l i s) = (if truthy (t_cancelledAt l) then t_cancelledAt l else t_cancelledAt i)
       \<and> t_completedAt (merge_task e l i s) = None"
  using stripped_peer_cancellation[OF assms] by (simp add: merge_task_def Let_def)

lemma cancellation_keeps_recurrence [simp]:
  "t_recurrence (preserveTaskCancellationFromStrippedPeer l i w) = t_recurrence w"
  by (simp add: preserveTaskCancellationFromStrippedPeer_def Let_def)

subsection \<open>The recurrence series\<close>

lemma trimmed_opt_settled: "trimmed_opt v = Some s \<Longrightarrow> js_trim s = s \<and> s \<noteq> []"
  by (auto simp: trimmed_opt_def nonblank_def split: option.splits if_splits)

lemma rrule_series_settled: "getSeriesIdFromRRule v = Some s \<Longrightarrow> js_trim s = s \<and> s \<noteq> []"
  by (auto simp: getSeriesIdFromRRule_def Let_def split: option.splits if_splits)

lemma object_series:
  assumes "normalizeRecurrenceObject h r = Some n"
  shows "rec_seriesId n = js_nullish (trimmed_opt (rec_seriesId r)) (getSeriesIdFromRRule (trimmed_opt (rec_rrule r)))"
  using assms by (simp add: normalizeRecurrenceObject_def Let_def split: option.splits) (metis recurrence.select_convs(2))+

lemma normalized_series_settled:
  assumes "normalizeRecurrenceForLoad h v = Some n" and "rec_seriesId n = Some s"
  shows "js_trim s = s \<and> s \<noteq> []"
proof (cases v)
  case (Some w)
  show ?thesis
  proof (cases w)
    case (RecStr x)
    with Some assms show ?thesis
      by (auto simp: normalizeRecurrenceForLoad_def normalizeRecurrenceString_def recurrence_of_rule_def Let_def
          split: option.splits if_splits)
  next
    case (RecObj r)
    with Some assms have "js_nullish (trimmed_opt (rec_seriesId r)) (getSeriesIdFromRRule (trimmed_opt (rec_rrule r))) = Some s"
      using object_series[of h r n] by (simp add: normalizeRecurrenceForLoad_def)
    then show ?thesis
      by (auto simp: js_nullish_def split: option.splits dest: trimmed_opt_settled rrule_series_settled)
  qed
qed (use assms in \<open>simp add: normalizeRecurrenceForLoad_def\<close>)

lemma freq_is_rule: "RRULE_FREQ_MAP k = Some r \<Longrightarrow> isRecurrenceRule (Some r)"
  by (auto simp: RRULE_FREQ_MAP_def isRecurrenceRule_def RECURRENCE_RULES_def split: if_splits)

lemma parsed_is_rule: "pr_rule (parseRRuleString h s) = Some r \<Longrightarrow> isRecurrenceRule (Some r)"
  by (auto simp: parseRRuleString_def parseRRuleSelectors_def empty_parsed_def Let_def bind_eq_Some_conv
      split: if_splits dest: freq_is_rule)

lemma object_valid:
  "isRecurrenceRule (Some (rec_rule r)) \<Longrightarrow> normalizeRecurrenceObject h r \<noteq> None"
  by (simp add: normalizeRecurrenceObject_def Let_def)

lemma object_rule: "normalizeRecurrenceObject h r = Some n \<Longrightarrow> isRecurrenceRule (Some (rec_rule n))"
proof -
  assume n: "normalizeRecurrenceObject h r = Some n"
  let ?rule = "if isRecurrenceRule (Some (rec_rule r)) then Some (rec_rule r)
    else pr_rule (case trimmed_opt (rec_rrule r) of None \<Rightarrow> empty_parsed | Some s \<Rightarrow> parseRRuleString h s)"
  obtain rl where rl: "?rule = Some rl"
    using n by (cases ?rule) (simp_all only: normalizeRecurrenceObject_def Let_def option.case option.distinct)
  then have "rec_rule n = rl"
    using n by (simp only: normalizeRecurrenceObject_def Let_def rl option.case option.inject) force
  moreover have "isRecurrenceRule (Some rl)"
    using rl by (auto simp: empty_parsed_def split: if_splits option.splits dest: parsed_is_rule)
  ultimately show ?thesis by simp
qed

lemma string_rule: "normalizeRecurrenceString h x = Some n \<Longrightarrow> isRecurrenceRule (Some (rec_rule n))"
  by (auto simp: normalizeRecurrenceString_def recurrence_of_rule_def Let_def
      split: option.splits if_splits dest: parsed_is_rule)

lemma normalized_rule:
  "normalizeRecurrenceForLoad h v = Some n \<Longrightarrow> isRecurrenceRule (Some (rec_rule n))"
  by (auto simp: normalizeRecurrenceForLoad_def split: option.splits task_recurrence.splits
      dest: object_rule string_rule)

lemma load_object [simp]: "normalizeRecurrenceForLoad h (Some (RecObj r)) = normalizeRecurrenceObject h r"
  by (simp add: normalizeRecurrenceForLoad_def)

lemma load_absent [simp]: "normalizeRecurrenceForLoad h None = None"
  by (simp add: normalizeRecurrenceForLoad_def)

lemma shape_None: "getRecurrenceSeriesShape h (normalizeRecurrenceForLoad h v) = None
    \<longleftrightarrow> normalizeRecurrenceForLoad h v = None"
proof (cases "normalizeRecurrenceForLoad h v")
  case None
  then show ?thesis by (simp add: getRecurrenceSeriesShape_def)
next
  case (Some n)
  then obtain m where "normalizeRecurrenceObject h n = Some m"
    using object_valid[OF normalized_rule[OF Some], of h] by auto
  then show ?thesis
    by (simp add: Some getRecurrenceSeriesShape_def Let_def)
qed

lemma series_stamped:
  assumes "normalizeRecurrenceForLoad h (t_recurrence w) = Some r" and "js_trim sid = sid" and "sid \<noteq> []"
  shows "series_of h (w\<lparr>t_recurrence := map_option RecObj
           (normalizeRecurrenceForLoad h (Some (RecObj (r\<lparr>rec_seriesId := Some sid\<rparr>)))),
           rev := a, revBy := b\<rparr>) = Some sid"
proof -
  have kept: "js_nullish (trimmed_opt (Some sid)) x = Some sid" for x
    using assms(2,3) by (simp add: trimmed_opt_def nonblank_def)
  have valid: "isRecurrenceRule (Some (rec_rule r))" by (rule normalized_rule[OF assms(1)])
  then obtain n where n: "normalizeRecurrenceObject h (r\<lparr>rec_seriesId := Some sid\<rparr>) = Some n"
    using object_valid[of "r\<lparr>rec_seriesId := Some sid\<rparr>" h] by auto
  then have sid: "rec_seriesId n = Some sid" using object_series[OF n] kept by simp
  obtain m where m: "normalizeRecurrenceObject h n = Some m"
    using object_valid[OF object_rule[OF n], of h] by auto
  then have "rec_seriesId m = Some sid" using object_series[OF m] kept sid by simp
  with n m show ?thesis by (simp add: series_of_def)
qed

lemma same_shape_defined:
  assumes "truthy (series_of h l) \<noteq> truthy (series_of h i)"
    and "getRecurrenceSeriesShape h (normalizeRecurrenceForLoad h (t_recurrence l)) =
         getRecurrenceSeriesShape h (normalizeRecurrenceForLoad h (t_recurrence i))"
  shows "normalizeRecurrenceForLoad h (t_recurrence (pick_side s l i)) \<noteq> None"
proof -
  have "normalizeRecurrenceForLoad h (t_recurrence t) \<noteq> None" if "truthy (series_of h t)" for t
    using that by (cases "normalizeRecurrenceForLoad h (t_recurrence t)") (simp_all add: series_of_def)
  then have "normalizeRecurrenceForLoad h (t_recurrence l) \<noteq> None"
    "normalizeRecurrenceForLoad h (t_recurrence i) \<noteq> None"
    using assms shape_None by metis+
  then show ?thesis by (cases s) simp_all
qed

lemma known_series:
  assumes "truthy (series_of h l) \<noteq> truthy (series_of h i)"
  obtains sid where "js_nullish (series_of h l) (series_of h i) = Some sid" "js_trim sid = sid" "sid \<noteq> []"
    "(if truthy (series_of h l) then series_of h l else series_of h i) = Some sid"
proof -
  have settled: "js_trim x = x \<and> x \<noteq> []" if "series_of h t = Some x" for t x
    using that normalized_series_settled by (auto simp: series_of_def bind_eq_Some_conv)
  have "series_of h t = None" if "\<not> truthy (series_of h t)" for t
    using that settled[of t] by (cases "series_of h t") auto
  then show thesis using assms settled that
    by (cases "series_of h l"; cases "series_of h i") auto
qed

lemma series_repair_stamps:
  assumes "truthy (series_of h l) \<noteq> truthy (series_of h i)"
    and "getRecurrenceSeriesShape h (normalizeRecurrenceForLoad h (t_recurrence l)) =
         getRecurrenceSeriesShape h (normalizeRecurrenceForLoad h (t_recurrence i))"
    and "normalizeRecurrenceForLoad h (t_recurrence w) = Some r"
    and "js_nullish (series_of h l) (series_of h i) = Some sid" and "sid \<noteq> []"
  shows "repairTaskRecurrenceSeriesIdentity h l i w = w\<lparr>t_recurrence := map_option RecObj
           (normalizeRecurrenceForLoad h (Some (RecObj (r\<lparr>rec_seriesId := Some sid\<rparr>)))),
           rev := Some (nextRev (Some (max (or_else (rev l) 0) (or_else (rev i) 0)))),
           revBy := Some SYNC_REPAIR_REV_BY\<rparr>"
  using assms by (simp add: repairTaskRecurrenceSeriesIdentity_def Let_def)

text \<open>
  When only one copy of a recurring task knows its series and both describe the same series
  shape, the merged task carries the known series identifier whichever copy won, is stamped as a
  repair and takes a revision above both copies (or the highest one).
\<close>

theorem series_identity_restored:
  assumes "truthy (series_of h l) \<noteq> truthy (series_of h i)"
    and "getRecurrenceSeriesShape h (normalizeRecurrenceForLoad h (t_recurrence l)) =
         getRecurrenceSeriesShape h (normalizeRecurrenceForLoad h (t_recurrence i))"
    and "me_host e = h"
  shows "series_of h (merge_task e l i s) = (if truthy (series_of h l) then series_of h l else series_of h i)
       \<and> revBy (merge_task e l i s) = Some SYNC_REPAIR_REV_BY
       \<and> rev (merge_task e l i s) = Some (nextRev (Some (max (or_else (rev l) 0) (or_else (rev i) 0))))"
proof -
  obtain sid where sid: "js_nullish (series_of h l) (series_of h i) = Some sid" "js_trim sid = sid" "sid \<noteq> []"
    and known: "(if truthy (series_of h l) then series_of h l else series_of h i) = Some sid"
    using known_series[OF assms(1)] by blast
  obtain r where r: "normalizeRecurrenceForLoad h (t_recurrence (pick_side s l i)) = Some r"
    using same_shape_defined[OF assms(1,2)] by auto
  define w where "w = preserveTaskCancellationFromStrippedPeer l i
      ((pick_side s l i)\<lparr>t_viewSectionIds := keep_view_sections (t_viewSectionIds (pick_side s l i)) (t_viewSectionIds (pick_side s i l)),
         t_attachments := merged_attachments e (truthy (t_purgedAt (pick_side s l i))) (t_purgedAt l) (t_purgedAt i)
            (t_attachments l) (t_attachments i)\<rparr>)"
  have m: "merge_task e l i s = repairTaskRecurrenceSeriesIdentity h l i w"
    by (simp add: merge_task_def Let_def w_def assms(3))
  have w: "normalizeRecurrenceForLoad h (t_recurrence w) = Some r" by (simp add: w_def r)
  show ?thesis
    unfolding m known series_repair_stamps[OF assms(1,2) w sid(1,3)] series_stamped[OF w sid(2,3)] by simp
qed

subsection \<open>Area orders\<close>

lemma max_order_ge:
  "foldl (\<lambda>m a. max m (or_else (a_order a) (-1))) b as \<ge> b
   \<and> (\<forall>a\<in>set as. or_else (a_order a) (-1) \<le> foldl (\<lambda>m a. max m (or_else (a_order a) (-1))) b as)"
proof (induction as arbitrary: b)
  case (Cons a as)
  show ?case using Cons.IH[of "max b (or_else (a_order a) (-1))"] by (simp add: max_def split: if_splits)
qed simp

lemma assign_orders_none:
  "a_order a = None \<Longrightarrow> assign_orders n (a # as) =
     a\<lparr>a_order := Some n, rev := Some (nextRev (rev a)), revBy := Some SYNC_REPAIR_REV_BY\<rparr> # assign_orders (n + 1) as"
  by simp

lemma assign_orders_some: "a_order a = Some k \<Longrightarrow> assign_orders n (a # as) = a # assign_orders n as"
  by simp

lemma assign_orders_sound:
  "list_all2 (\<lambda>a b. a_order b \<noteq> None \<and> (a_order a \<noteq> None \<longrightarrow> b = a)
      \<and> (a_order a = None \<longrightarrow> n \<le> the (a_order b) \<and> revBy b = Some SYNC_REPAIR_REV_BY)) as (assign_orders n as)"
proof (induction as arbitrary: n)
  case (Cons a as)
  show ?case
  proof (cases "a_order a")
    case None
    have "list_all2 (\<lambda>a b. a_order b \<noteq> None \<and> (a_order a \<noteq> None \<longrightarrow> b = a)
      \<and> (a_order a = None \<longrightarrow> n \<le> the (a_order b) \<and> revBy b = Some SYNC_REPAIR_REV_BY)) as (assign_orders (n + 1) as)"
      by (rule list_all2_mono[OF Cons[of "n + 1"]]) auto
    then show ?thesis unfolding assign_orders_none[OF None] using None by simp
  next
    case (Some k)
    then show ?thesis using Cons[of n] by (simp add: assign_orders_some)
  qed
qed simp

text \<open>
  After the area merge every area has an order; an area that had one keeps every field, and
  one that had none is put after all that had one and stamped as a repair.
\<close>

theorem merged_areas_ordered:
  "list_all2 (\<lambda>a b. a_order b \<noteq> None \<and> (a_order a \<noteq> None \<longrightarrow> b = a)
      \<and> (a_order a = None \<longrightarrow> revBy b = Some SYNC_REPAIR_REV_BY
           \<and> (\<forall>c\<in>set (fst (mergeEntitiesWithStats area_ops clock (Some now) local incoming)).
                a_order c \<noteq> None \<longrightarrow> the (a_order c) < the (a_order b))))
     (fst (mergeEntitiesWithStats area_ops clock (Some now) local incoming))
     (fst (mergeAreas clock now local incoming))"
proof -
  obtain ms st where r: "mergeEntitiesWithStats area_ops clock (Some now) local incoming = (ms, st)" by force
  have "the (a_order c) \<le> max_order ms" if "c \<in> set ms" "a_order c \<noteq> None" for c
    using max_order_ge[of "-1" ms] that by (auto simp: max_order_def)
  then show ?thesis
    by (simp add: mergeAreas_def r) (rule list_all2_mono[OF assign_orders_sound], force)
qed

subsection \<open>Concrete merges\<close>

definition sample_env :: merge_env where
  "sample_env = \<lparr>me_host = sample_host, me_preferIncomingKeys = False, me_clock = 0,
     me_nowIso = ''2024-05-01T00:00:00.000Z''\<rparr>"

definition archived_task :: "string option \<Rightarrow> task" where
  "archived_task c = (sample_task ''t1'')\<lparr>t_status := Archived, t_cancelledAt := c\<rparr>"

theorem cancellation_survives_stripped_peer_witness:
  "t_cancelledAt (merge_task sample_env (archived_task (Some ''2024-03-01T00:00:00Z'')) (archived_task None) IncomingSide)
   = Some ''2024-03-01T00:00:00Z''"
  using cancellation_survives_stripped_peer[of "archived_task (Some ''2024-03-01T00:00:00Z'')" "archived_task None"
      sample_env IncomingSide]
  by (simp add: archived_task_def sample_task_def hasSamePersistedOperationIdentity_def)

definition daily_task :: "string option \<Rightarrow> task" where
  "daily_task sid = (sample_task ''t1'')\<lparr>t_recurrence :=
     Some (RecObj ((recurrence_of_rule ''daily'')\<lparr>rec_seriesId := sid\<rparr>))\<rparr>"

theorem series_identity_restored_witness:
  "series_of sample_host (merge_task sample_env (daily_task (Some ''s1'')) (daily_task None) IncomingSide) = Some ''s1''"
proof -
  have l: "series_of sample_host (daily_task (Some ''s1'')) = Some ''s1''" by code_simp
  have i: "series_of sample_host (daily_task None) = None" by code_simp
  have "getRecurrenceSeriesShape sample_host (normalizeRecurrenceForLoad sample_host (t_recurrence (daily_task (Some ''s1'')))) =
      getRecurrenceSeriesShape sample_host (normalizeRecurrenceForLoad sample_host (t_recurrence (daily_task None)))"
    by code_simp
  then show ?thesis
    using series_identity_restored[of sample_host "daily_task (Some ''s1'')" "daily_task None" sample_env IncomingSide]
    by (simp add: l i sample_env_def)
qed

definition merged_pair :: "area list" where
  "merged_pair = fst (mergeAreas 0 ''2024-05-01T00:00:00.000Z'' [sample_area ''a1'' ''Home'']
     [(sample_area ''a2'' ''Work'')\<lparr>a_order := None\<rparr>])"

theorem merged_areas_ordered_witness:
  "map a_order merged_pair = [Some 0, Some 1] \<and> list_all (\<lambda>a. a_order a \<noteq> None) merged_pair"
proof
  show "map a_order merged_pair = [Some 0, Some 1]" by code_simp
  show "list_all (\<lambda>a. a_order a \<noteq> None) merged_pair"
    using merged_areas_ordered[of 0 "''2024-05-01T00:00:00.000Z''" "[sample_area ''a1'' ''Home'']"
        "[(sample_area ''a2'' ''Work'')\<lparr>a_order := None\<rparr>]"]
    unfolding merged_pair_def by (auto simp: list_all2_conv_all_nth list_all_length)
qed

end
