(* ===== verification/TombstonePurge.thy ===== *)
theory TombstonePurge
  imports AppData
begin

text \<open>
  \<open>sync-tombstones.ts\<close>: the purge of expired tombstones at the start and the end of a sync
  cycle, with the retention test of queued remote deletes (\<open>attachment-cleanup.ts\<close>).
  Children are purged before parents. The theorems show that the purge removes tombstones
  only, never a live entity, and never a parent a remaining child points at.
\<close>

subsection \<open>Retention\<close>

definition DEFAULT_TOMBSTONE_RETENTION_DAYS :: int where "DEFAULT_TOMBSTONE_RETENTION_DAYS = 90"
definition MIN_TOMBSTONE_RETENTION_DAYS :: int where "MIN_TOMBSTONE_RETENTION_DAYS = 1"
definition MAX_TOMBSTONE_RETENTION_DAYS :: int where "MAX_TOMBSTONE_RETENTION_DAYS = 3650"

definition resolveTombstoneRetentionDays :: "int option \<Rightarrow> int" where
  "resolveTombstoneRetentionDays value =
     (case value of None \<Rightarrow> DEFAULT_TOMBSTONE_RETENTION_DAYS
      | Some n \<Rightarrow> min MAX_TOMBSTONE_RETENTION_DAYS (max MIN_TOMBSTONE_RETENTION_DAYS n))"

text \<open>\<open>None\<close> is the code's positive infinity.\<close>

definition parseTimestampOrInfinity :: "string option \<Rightarrow> int option" where
  "parseTimestampOrInfinity value = (if truthy value then Option.bind value date_parse else None)"

definition at_most :: "int option \<Rightarrow> int \<Rightarrow> bool" where
  "at_most t cutoffMs = (case t of None \<Rightarrow> False | Some ms \<Rightarrow> ms \<le> cutoffMs)"

datatype tombstone_kind = TaskKind | ProjectKind | SectionKind | AreaKind | PersonKind

definition isEntityTombstoneExpired ::
  "tombstone_kind \<Rightarrow> string option \<Rightarrow> string option \<Rightarrow> int \<Rightarrow> bool" where
  "isEntityTombstoneExpired kind deleted purged cutoffMs =
     (if \<not> truthy deleted then False
      else (let deletedMs = parseTimestampOrInfinity deleted in
        if kind = TaskKind \<or> kind = ProjectKind
        then (let purgedMs = parseTimestampOrInfinity purged
              in at_most (if purgedMs \<noteq> None then purgedMs else deletedMs) cutoffMs)
        else at_most deletedMs cutoffMs))"

abbreviation task_expired :: "int \<Rightarrow> task \<Rightarrow> bool" where
  "task_expired cutoff t \<equiv> isEntityTombstoneExpired TaskKind (deletedAt t) (t_purgedAt t) cutoff"

abbreviation project_expired :: "int \<Rightarrow> project \<Rightarrow> bool" where
  "project_expired cutoff p \<equiv> isEntityTombstoneExpired ProjectKind (deletedAt p) (p_purgedAt p) cutoff"

abbreviation section_expired :: "int \<Rightarrow> section1 \<Rightarrow> bool" where
  "section_expired cutoff s \<equiv> isEntityTombstoneExpired SectionKind (deletedAt s) None cutoff"

abbreviation area_expired :: "int \<Rightarrow> area \<Rightarrow> bool" where
  "area_expired cutoff a \<equiv> isEntityTombstoneExpired AreaKind (deletedAt a) None cutoff"

abbreviation person_expired :: "int \<Rightarrow> person \<Rightarrow> bool" where
  "person_expired cutoff p \<equiv> isEntityTombstoneExpired PersonKind (deletedAt p) None cutoff"

lemma live_not_expired: "\<not> truthy d \<Longrightarrow> \<not> isEntityTombstoneExpired k d p c"
  by (simp add: isEntityTombstoneExpired_def)

subsection \<open>Attachments, filters and queued deletes\<close>

definition expired_at :: "int \<Rightarrow> string option \<Rightarrow> bool" where
  "expired_at cutoffMs deleted = (truthy deleted \<and> at_most (parseTimestampOrInfinity deleted) cutoffMs)"

definition pruneAttachmentTombstones ::
  "attachment list option \<Rightarrow> int \<Rightarrow> attachment list option \<times> nat" where
  "pruneAttachmentTombstones attachments cutoffMs =
     (case attachments of None \<Rightarrow> (None, 0)
      | Some xs \<Rightarrow>
          if xs = [] then (Some xs, 0)
          else (let kept = filter (\<lambda>a. \<not> expired_at cutoffMs (deletedAt a)) xs
                in (if kept = [] then None else Some kept, length xs - length kept)))"

text \<open>The saved filters, an array where they are present, stay as stored but for the expired tombstones.\<close>

definition pruneSavedFilterTombstones :: "json \<Rightarrow> int \<Rightarrow> json \<times> nat" where
  "pruneSavedFilterTombstones filters cutoffMs =
     (case filters of
        JArr xs \<Rightarrow>
          (let kept = filter (\<lambda>f. \<not> expired_at cutoffMs (str_of (member f ''deletedAt''))) xs
           in (JArr kept, length xs - length kept))
      | _ \<Rightarrow> (filters, 0))"

definition PENDING_REMOTE_ATTACHMENT_DELETE_MAX_ATTEMPTS :: int where
  "PENDING_REMOTE_ATTACHMENT_DELETE_MAX_ATTEMPTS = 12"

definition PENDING_REMOTE_ATTACHMENT_DELETE_MAX_AGE_MS :: int where
  "PENDING_REMOTE_ATTACHMENT_DELETE_MAX_AGE_MS = 30 * 24 * 60 * 60 * 1000"

definition parseTimestampMs :: "string option \<Rightarrow> int option" where
  "parseTimestampMs value =
     (case value of None \<Rightarrow> None | Some s \<Rightarrow> if nonblank s then date_parse s else None)"

definition shouldRetainPendingRemoteAttachmentDelete :: "pending_delete \<Rightarrow> string \<Rightarrow> bool" where
  "shouldRetainPendingRemoteAttachmentDelete entry nowIso =
     (if max 0 (or_else (pd_attempts entry) 0) \<ge> PENDING_REMOTE_ATTACHMENT_DELETE_MAX_ATTEMPTS then False
      else (case parseTimestampMs (pd_lastErrorAt entry) of None \<Rightarrow> True
        | Some lastErrorMs \<Rightarrow>
            (case parseTimestampMs (Some nowIso) of None \<Rightarrow> True
             | Some nowMs \<Rightarrow> nowMs - lastErrorMs \<le> PENDING_REMOTE_ATTACHMENT_DELETE_MAX_AGE_MS)))"

definition prunePendingRemoteAttachmentDeletes ::
  "pending_delete list option \<Rightarrow> string \<Rightarrow> pending_delete list" where
  "prunePendingRemoteAttachmentDeletes pending nowIso =
     filter (\<lambda>e. shouldRetainPendingRemoteAttachmentDelete e nowIso) (or_else pending [])"

subsection \<open>References between collections\<close>

definition isRestorableProjectArchiveSection :: "section1 \<Rightarrow> bool" where
  "isRestorableProjectArchiveSection s =
     (truthy (s_projectArchivedAt s) \<and> Some (updatedAt s) = s_projectArchivedAt s
      \<and> deletedAt s = s_projectArchivedAt s
      \<and> (s_deletedAtBeforeProjectArchive s = None \<or> s_deletedAtBeforeProjectArchive s = Some None))"

text \<open>\<open>ENTITY_FOREIGN_KEY_CHILDREN\<close>: the ids each collection is referenced by.\<close>

definition present_ids :: "string option list \<Rightarrow> string list" where
  "present_ids vs = concat (map (\<lambda>v. if truthy v then [the v] else []) vs)"

lemma set_present_ids: "set (present_ids vs) = {s. Some s \<in> set vs \<and> s \<noteq> []}"
proof -
  have "s \<in> set (present_ids vs) \<longleftrightarrow> Some s \<in> set vs \<and> s \<noteq> []" for s
    by (induction vs) (auto simp: present_ids_def truthy_def split: option.splits)
  then show ?thesis by auto
qed

definition collectReferencedSectionIds :: "task list \<Rightarrow> string list" where
  "collectReferencedSectionIds tasks = present_ids (map t_sectionId tasks)"

definition collectReferencedProjectIds :: "task list \<Rightarrow> section1 list \<Rightarrow> string list" where
  "collectReferencedProjectIds tasks sections =
     present_ids (map t_projectId tasks @ map (\<lambda>s. Some (s_projectId s)) sections)"

definition collectReferencedAreaIds :: "task list \<Rightarrow> project list \<Rightarrow> string list" where
  "collectReferencedAreaIds tasks projects =
     present_ids (map t_areaId tasks @ map p_areaId projects)"

subsection \<open>The purge\<close>

record purge_counts =
  pc_tasks :: nat
  pc_projects :: nat
  pc_sections :: nat
  pc_areas :: nat
  pc_people :: nat
  pc_attachments :: nat
  pc_savedFilters :: nat
  pc_pendingRemoteDeletes :: nat

definition no_purge :: purge_counts where
  "no_purge = \<lparr>pc_tasks = 0, pc_projects = 0, pc_sections = 0, pc_areas = 0, pc_people = 0,
     pc_attachments = 0, pc_savedFilters = 0, pc_pendingRemoteDeletes = 0\<rparr>"

definition prune_task :: "int \<Rightarrow> task \<Rightarrow> task" where
  "prune_task cutoff t =
     (case pruneAttachmentTombstones (t_attachments t) cutoff of
        (kept, removed) \<Rightarrow> if removed > 0 then t\<lparr>t_attachments := kept\<rparr> else t)"

definition prune_project :: "int \<Rightarrow> project \<Rightarrow> project" where
  "prune_project cutoff p =
     (case pruneAttachmentTombstones (p_attachments p) cutoff of
        (kept, removed) \<Rightarrow> if removed > 0 then p\<lparr>p_attachments := kept\<rparr> else p)"

definition restorable_projects :: "int \<Rightarrow> project list \<Rightarrow> string list" where
  "restorable_projects cutoff projects =
     map eid (filter (\<lambda>p. p_status p = PArchived \<and> \<not> truthy (p_purgedAt p)
       \<and> \<not> project_expired cutoff p) projects)"

definition keep_section :: "int \<Rightarrow> string list \<Rightarrow> string list \<Rightarrow> string list \<Rightarrow> section1 \<Rightarrow> bool" where
  "keep_section cutoff restorable referenced peerPurged s =
     (\<not> section_expired cutoff s
      \<or> (s_projectId s \<in> set restorable \<and> isRestorableProjectArchiveSection s
         \<and> eid s \<notin> set peerPurged)
      \<or> eid s \<in> set referenced)"

definition removed_in :: "int \<Rightarrow> attachment list option \<Rightarrow> nat" where
  "removed_in cutoff xs = snd (pruneAttachmentTombstones xs cutoff)"

definition purge_settings :: "int \<Rightarrow> string \<Rightarrow> settings \<Rightarrow> settings \<times> nat \<times> nat" where
  "purge_settings cutoff nowIso st =
     (case pruneSavedFilterTombstones (obj_get ''savedFilters'' (st_object st)) cutoff of (filters, removedFilters) \<Rightarrow>
      let st1 = (if removedFilters > 0 then st\<lparr>st_object := obj_set ''savedFilters'' filters (st_object st)\<rparr> else st);
          pending = st_pendingRemoteDeletes st;
          kept = prunePendingRemoteAttachmentDeletes pending nowIso;
          removedPending = length (or_else pending []) - length kept
      in (if removedPending > 0
          then st1\<lparr>st_pendingRemoteDeletes := (if kept = [] then None else Some kept)\<rparr> else st1,
          removedFilters, removedPending))"

definition purge_cutoff :: "int \<Rightarrow> int option \<Rightarrow> int" where
  "purge_cutoff nowMs retentionDays = nowMs - resolveTombstoneRetentionDays retentionDays * 24 * 60 * 60 * 1000"

definition purgeExpiredTombstones ::
  "app_data \<Rightarrow> string \<Rightarrow> int option \<Rightarrow> string list \<Rightarrow> app_data \<times> purge_counts" where
  "purgeExpiredTombstones d nowIso retentionDays peerPurgedSectionIds =
     (case date_parse nowIso of None \<Rightarrow> (d, no_purge)
      | Some nowMs \<Rightarrow>
        let cutoff = purge_cutoff nowMs retentionDays;
            keptTasks = filter (\<lambda>t. \<not> task_expired cutoff t) (ad_tasks d);
            nextTasks = map (prune_task cutoff) keptTasks;
            nextSections = filter (keep_section cutoff (restorable_projects cutoff (ad_projects d))
                (collectReferencedSectionIds nextTasks) peerPurgedSectionIds) (ad_sections d);
            referencedProjectIds = collectReferencedProjectIds nextTasks nextSections;
            keptProjects = filter (\<lambda>p. \<not> (project_expired cutoff p
                \<and> eid p \<notin> set referencedProjectIds)) (ad_projects d);
            nextProjects = map (prune_project cutoff) keptProjects;
            referencedAreaIds = collectReferencedAreaIds nextTasks nextProjects;
            nextAreas = filter (\<lambda>a. \<not> (area_expired cutoff a
                \<and> eid a \<notin> set referencedAreaIds)) (ad_areas d);
            people = or_else (ad_people d) [];
            nextPeople = filter (\<lambda>p. \<not> person_expired cutoff p) people
        in case purge_settings cutoff nowIso (ad_settings d) of (st, removedFilters, removedPending) \<Rightarrow>
          (d\<lparr>ad_tasks := nextTasks, ad_projects := nextProjects, ad_sections := nextSections,
             ad_areas := nextAreas, ad_people := Some nextPeople, ad_settings := st\<rparr>,
           \<lparr>pc_tasks = length (ad_tasks d) - length keptTasks,
            pc_projects = length (ad_projects d) - length keptProjects,
            pc_sections = length (ad_sections d) - length nextSections,
            pc_areas = length (ad_areas d) - length nextAreas,
            pc_people = length people - length nextPeople,
            pc_attachments = sum_list (map (\<lambda>t. removed_in cutoff (t_attachments t)) keptTasks)
              + sum_list (map (\<lambda>p. removed_in cutoff (p_attachments p)) keptProjects),
            pc_savedFilters = removedFilters, pc_pendingRemoteDeletes = removedPending\<rparr>))"

subsection \<open>Pruned entities keep everything but expired attachments\<close>

lemma prune_task_simps [simp]:
  "eid (prune_task c t) = eid t" "deletedAt (prune_task c t) = deletedAt t"
  "t_purgedAt (prune_task c t) = t_purgedAt t" "t_sectionId (prune_task c t) = t_sectionId t"
  "t_projectId (prune_task c t) = t_projectId t" "t_areaId (prune_task c t) = t_areaId t"
  by (simp_all add: prune_task_def split: prod.splits)

lemma prune_project_simps [simp]:
  "eid (prune_project c p) = eid p" "deletedAt (prune_project c p) = deletedAt p"
  "p_purgedAt (prune_project c p) = p_purgedAt p" "p_areaId (prune_project c p) = p_areaId p"
  "p_status (prune_project c p) = p_status p"
  by (simp_all add: prune_project_def split: prod.splits)

lemma prune_attachments_twice:
  assumes "pruneAttachmentTombstones xs c = (ys, n)" and "n > 0"
  shows "pruneAttachmentTombstones ys c = (ys, 0)"
  using assms by (auto simp: pruneAttachmentTombstones_def Let_def split: option.splits if_splits)

lemma prune_task_idem [simp]: "prune_task c (prune_task c t) = prune_task c t"
proof (cases "pruneAttachmentTombstones (t_attachments t) c")
  case (Pair ys n)
  then show ?thesis
    using prune_attachments_twice[OF Pair] by (cases "n > 0") (simp_all add: prune_task_def)
qed

lemma prune_project_idem [simp]: "prune_project c (prune_project c p) = prune_project c p"
proof (cases "pruneAttachmentTombstones (p_attachments p) c")
  case (Pair ys n)
  then show ?thesis
    using prune_attachments_twice[OF Pair] by (cases "n > 0") (simp_all add: prune_project_def)
qed

subsection \<open>The collections after a purge\<close>

definition next_tasks :: "app_data \<Rightarrow> int \<Rightarrow> task list" where
  "next_tasks d c = map (prune_task c) (filter (\<lambda>t. \<not> task_expired c t) (ad_tasks d))"

definition next_sections :: "app_data \<Rightarrow> int \<Rightarrow> string list \<Rightarrow> section1 list" where
  "next_sections d c peer = filter (keep_section c (restorable_projects c (ad_projects d))
     (collectReferencedSectionIds (next_tasks d c)) peer) (ad_sections d)"

definition next_projects :: "app_data \<Rightarrow> int \<Rightarrow> string list \<Rightarrow> project list" where
  "next_projects d c peer = map (prune_project c) (filter (\<lambda>p. \<not> (project_expired c p \<and>
     eid p \<notin> set (collectReferencedProjectIds (next_tasks d c) (next_sections d c peer)))) (ad_projects d))"

definition next_areas :: "app_data \<Rightarrow> int \<Rightarrow> string list \<Rightarrow> area list" where
  "next_areas d c peer = filter (\<lambda>a. \<not> (area_expired c a \<and>
     eid a \<notin> set (collectReferencedAreaIds (next_tasks d c) (next_projects d c peer)))) (ad_areas d)"

definition next_people :: "app_data \<Rightarrow> int \<Rightarrow> person list" where
  "next_people d c = filter (\<lambda>p. \<not> person_expired c p) (or_else (ad_people d) [])"

lemma purge_data:
  assumes "date_parse nowIso = Some nowMs" and "c = purge_cutoff nowMs days"
  shows "fst (purgeExpiredTombstones d nowIso days peer) =
    d\<lparr>ad_tasks := next_tasks d c, ad_projects := next_projects d c peer,
      ad_sections := next_sections d c peer, ad_areas := next_areas d c peer,
      ad_people := Some (next_people d c),
      ad_settings := fst (purge_settings c nowIso (ad_settings d))\<rparr>"
  unfolding purgeExpiredTombstones_def assms(1) option.case Let_def split_beta fst_conv
    assms(2)[symmetric] next_areas_def next_projects_def next_sections_def next_tasks_def
    next_people_def
  by (rule refl)

lemma purge_no_clock:
  "date_parse nowIso = None \<Longrightarrow> purgeExpiredTombstones d nowIso days peer = (d, no_purge)"
  by (simp add: purgeExpiredTombstones_def)

subsection \<open>References stay resolved\<close>

definition refers :: "string option \<Rightarrow> 'a mergeable_scheme list \<Rightarrow> bool" where
  "refers v xs = (truthy v \<longrightarrow> the v \<in> eid ` set xs)"

definition refs_closed :: "app_data \<Rightarrow> bool" where
  "refs_closed d =
     ((\<forall>t\<in>set (ad_tasks d). refers (t_sectionId t) (ad_sections d) \<and> refers (t_projectId t) (ad_projects d)
        \<and> refers (t_areaId t) (ad_areas d)) \<and>
      (\<forall>s\<in>set (ad_sections d). refers (Some (s_projectId s)) (ad_projects d)) \<and>
      (\<forall>p\<in>set (ad_projects d). refers (p_areaId p) (ad_areas d)))"

lemma refers_filter:
  assumes "refers v xs" and "\<And>x. x \<in> set xs \<Longrightarrow> truthy v \<Longrightarrow> eid x = the v \<Longrightarrow> P x"
  shows "refers v (filter P xs)"
  using assms by (auto simp: refers_def image_iff)

lemma refers_map: "(\<And>x. eid (f x) = eid x) \<Longrightarrow> refers v (map f xs) = refers v xs"
  by (auto simp: refers_def image_iff)

lemma next_tasksD:
  "t \<in> set (next_tasks d c) \<Longrightarrow> \<exists>u\<in>set (ad_tasks d). t = prune_task c u"
  by (auto simp: next_tasks_def)

lemma next_projectsD:
  "p \<in> set (next_projects d c peer) \<Longrightarrow> \<exists>q\<in>set (ad_projects d). p = prune_project c q"
  by (auto simp: next_projects_def)

lemma truthy_the: "truthy v \<Longrightarrow> v = Some (the v) \<and> the v \<noteq> []"
  by (cases v) auto

lemma task_section_refers:
  assumes "refs_closed d" and "t \<in> set (next_tasks d c)"
  shows "refers (t_sectionId t) (next_sections d c peer)"
proof -
  from assms have "refers (t_sectionId t) (ad_sections d)"
    by (auto simp: refs_closed_def dest!: next_tasksD)
  then show ?thesis unfolding next_sections_def
  proof (rule refers_filter)
    fix s :: section1 assume "truthy (t_sectionId t)" "eid s = the (t_sectionId t)"
    then have "t_sectionId t = Some (eid s) \<and> eid s \<noteq> []" by (metis truthy_the)
    with assms(2) have "eid s \<in> set (collectReferencedSectionIds (next_tasks d c))"
      by (auto simp: collectReferencedSectionIds_def set_present_ids intro!: rev_image_eqI)
    then show "keep_section c (restorable_projects c (ad_projects d))
        (collectReferencedSectionIds (next_tasks d c)) peer s" by (simp add: keep_section_def)
  qed
qed

lemma project_refers:
  assumes "refers v (ad_projects d)"
    and "v \<in> t_projectId ` set (next_tasks d c) \<union> (\<lambda>s. Some (s_projectId s)) ` set (next_sections d c peer)"
  shows "refers v (next_projects d c peer)"
proof -
  have "refers v (filter (\<lambda>p. \<not> (project_expired c p \<and>
     eid p \<notin> set (collectReferencedProjectIds (next_tasks d c) (next_sections d c peer)))) (ad_projects d))"
    using assms(1)
  proof (rule refers_filter)
    fix p :: project assume "truthy v" "eid p = the v"
    then have "v = Some (eid p) \<and> eid p \<noteq> []" by (metis truthy_the)
    with assms(2) have "eid p \<in> set (collectReferencedProjectIds (next_tasks d c) (next_sections d c peer))"
      by (auto simp: collectReferencedProjectIds_def set_present_ids intro!: rev_image_eqI)
    then show "\<not> (project_expired c p \<and>
        eid p \<notin> set (collectReferencedProjectIds (next_tasks d c) (next_sections d c peer)))" by simp
  qed
  then show ?thesis by (simp add: next_projects_def refers_map)
qed

lemma area_refers:
  assumes "refers v (ad_areas d)"
    and "v \<in> t_areaId ` set (next_tasks d c) \<union> p_areaId ` set (next_projects d c peer)"
  shows "refers v (next_areas d c peer)"
  unfolding next_areas_def using assms(1)
proof (rule refers_filter)
  fix a :: area assume "truthy v" "eid a = the v"
  then have "v = Some (eid a) \<and> eid a \<noteq> []" by (metis truthy_the)
  with assms(2) have "eid a \<in> set (collectReferencedAreaIds (next_tasks d c) (next_projects d c peer))"
    by (auto simp: collectReferencedAreaIds_def set_present_ids intro!: rev_image_eqI)
  then show "\<not> (area_expired c a \<and>
      eid a \<notin> set (collectReferencedAreaIds (next_tasks d c) (next_projects d c peer)))" by simp
qed

text \<open>
  C14: the purge of expired tombstones never leaves a dangling reference: in a document where
  every section, project and area a task, section or project names is present, it still is
  after the purge, whatever the retention and the sections a peer dropped.
\<close>

theorem purge_keeps_references:
  assumes "refs_closed d"
  shows "refs_closed (fst (purgeExpiredTombstones d nowIso days peer))"
proof (cases "date_parse nowIso")
  case None
  then show ?thesis using assms by (simp add: purge_no_clock)
next
  case (Some nowMs)
  define c where "c = purge_cutoff nowMs days"
  have t: "refers (t_projectId t) (ad_projects d) \<and> refers (t_areaId t) (ad_areas d)"
    if "t \<in> set (next_tasks d c)" for t
    using next_tasksD[OF that] assms by (auto simp: refs_closed_def)
  have s: "refers (Some (s_projectId s)) (ad_projects d)" if "s \<in> set (next_sections d c peer)" for s
    using that assms by (auto simp: refs_closed_def next_sections_def)
  have p: "refers (p_areaId p) (ad_areas d)" if "p \<in> set (next_projects d c peer)" for p
    using next_projectsD[OF that] assms by (auto simp: refs_closed_def)
  show ?thesis
    unfolding purge_data[OF Some c_def] refs_closed_def
    by (auto simp: task_section_refers[OF assms] intro!: project_refers area_refers dest: t s p)
qed

subsection \<open>Live entities stay\<close>

definition live_ids :: "'a mergeable_scheme list \<Rightarrow> string list" where
  "live_ids xs = map eid (filter (\<lambda>x. \<not> is_deleted x) xs)"

lemma live_ids_filter: "(\<And>x. \<not> is_deleted x \<Longrightarrow> P x) \<Longrightarrow> live_ids (filter P xs) = live_ids xs"
  by (induction xs) (auto simp: live_ids_def)

lemma live_ids_map:
  "(\<And>x. eid (f x) = eid x) \<Longrightarrow> (\<And>x. deletedAt (f x) = deletedAt x) \<Longrightarrow> live_ids (map f xs) = live_ids xs"
  by (simp add: live_ids_def filter_map comp_def is_deleted_def)

text \<open>
  The purge removes tombstones only: every collection has the same live entities, in the
  same order, before and after it.
\<close>

theorem purge_keeps_live:
  "live_ids (ad_tasks (fst (purgeExpiredTombstones d nowIso days peer))) = live_ids (ad_tasks d)
   \<and> live_ids (ad_projects (fst (purgeExpiredTombstones d nowIso days peer))) = live_ids (ad_projects d)
   \<and> live_ids (ad_sections (fst (purgeExpiredTombstones d nowIso days peer))) = live_ids (ad_sections d)
   \<and> live_ids (ad_areas (fst (purgeExpiredTombstones d nowIso days peer))) = live_ids (ad_areas d)
   \<and> live_ids (or_else (ad_people (fst (purgeExpiredTombstones d nowIso days peer))) [])
     = live_ids (or_else (ad_people d) [])"
proof (cases "date_parse nowIso")
  case None
  then show ?thesis by (simp add: purge_no_clock)
next
  case (Some nowMs)
  have "live_ids (next_tasks d c) = live_ids (ad_tasks d)" for c
    unfolding next_tasks_def
    by (subst live_ids_map, simp, simp, rule live_ids_filter) (simp add: live_not_expired is_deleted_def)
  moreover have "live_ids (next_projects d c peer) = live_ids (ad_projects d)" for c
    unfolding next_projects_def
    by (subst live_ids_map, simp, simp, rule live_ids_filter) (simp add: live_not_expired is_deleted_def)
  moreover have "live_ids (next_sections d c peer) = live_ids (ad_sections d)" for c
    unfolding next_sections_def
    by (rule live_ids_filter) (simp add: keep_section_def live_not_expired is_deleted_def)
  moreover have "live_ids (next_areas d c peer) = live_ids (ad_areas d)" for c
    unfolding next_areas_def
    by (rule live_ids_filter) (simp add: live_not_expired is_deleted_def)
  moreover have "live_ids (next_people d c) = live_ids (or_else (ad_people d) [])" for c
    unfolding next_people_def
    by (rule live_ids_filter) (simp add: live_not_expired is_deleted_def)
  ultimately show ?thesis unfolding purge_data[OF Some refl] by simp
qed

subsection \<open>A second purge finds nothing\<close>

lemma filter_map_idem:
  "(\<And>x. P (f x) = P x) \<Longrightarrow> (\<And>x. f (f x) = f x) \<Longrightarrow> map f (filter P (map f (filter P xs))) = map f (filter P xs)"
  by (simp add: filter_map comp_def)

lemma restorable_again:
  "set (restorable_projects c (next_projects d c peer)) = set (restorable_projects c (ad_projects d))"
proof -
  have "restorable_projects c (map (prune_project c) ps) = restorable_projects c ps" for ps
    by (simp add: restorable_projects_def filter_map comp_def)
  then show ?thesis by (auto simp: next_projects_def restorable_projects_def)
qed

lemma keep_section_again:
  "keep_section c (restorable_projects c (next_projects d c peer))
   = keep_section c (restorable_projects c (ad_projects d))"
  by (rule ext)+ (simp add: keep_section_def restorable_again)

lemma purge_settings_again:
  "fst (purge_settings c nowIso (fst (purge_settings c nowIso st))) = fst (purge_settings c nowIso st)"
proof -
  have filters: "pruneSavedFilterTombstones ys c = (ys, 0)"
    if "pruneSavedFilterTombstones xs c = (ys, n)" for xs ys n
    using that by (auto simp: pruneSavedFilterTombstones_def Let_def split: json.splits)
  have kept: "prunePendingRemoteAttachmentDeletes (Some (prunePendingRemoteAttachmentDeletes v nowIso)) nowIso
      = prunePendingRemoteAttachmentDeletes v nowIso" for v
    by (simp add: prunePendingRemoteAttachmentDeletes_def)
  have none: "prunePendingRemoteAttachmentDeletes None nowIso = []"
    by (simp add: prunePendingRemoteAttachmentDeletes_def)
  obtain ys n where f: "pruneSavedFilterTombstones (obj_get ''savedFilters'' (st_object st)) c = (ys, n)" by force
  show ?thesis
    using filters[OF f]
    by (auto simp: purge_settings_def f Let_def kept none obj_get_set)
qed

text \<open>
  The purge is idempotent: purging the purged document again, at the same moment and with
  the same options, returns it unchanged, so a kept parent is not removed by the next load.
\<close>

theorem purge_idempotent:
  "fst (purgeExpiredTombstones (fst (purgeExpiredTombstones d nowIso days peer)) nowIso days peer)
   = fst (purgeExpiredTombstones d nowIso days peer)"
proof (cases "date_parse nowIso")
  case None
  then show ?thesis by (simp add: purge_no_clock)
next
  case (Some nowMs)
  define c where "c = purge_cutoff nowMs days"
  define e where "e = fst (purgeExpiredTombstones d nowIso days peer)"
  note data = purge_data[OF Some c_def]
  have e: "ad_tasks e = next_tasks d c" "ad_sections e = next_sections d c peer"
    "ad_projects e = next_projects d c peer" "ad_areas e = next_areas d c peer"
    "ad_people e = Some (next_people d c)"
    "ad_settings e = fst (purge_settings c nowIso (ad_settings d))"
    by (simp_all add: e_def data)
  have t: "next_tasks e c = next_tasks d c"
    by (simp add: next_tasks_def[of e] e) (simp add: next_tasks_def filter_map_idem)
  note keep = keep_section_again
  have s: "next_sections e c peer = next_sections d c peer"
    by (simp add: next_sections_def[of e] e t keep) (simp add: next_sections_def)
  have p: "next_projects e c peer = next_projects d c peer"
    by (simp add: next_projects_def[of e] e t s) (simp add: next_projects_def filter_map_idem)
  have a: "next_areas e c peer = next_areas d c peer"
    by (simp add: next_areas_def[of e] e t p) (simp add: next_areas_def)
  have pe: "next_people e c = next_people d c" 
    by (simp add: next_people_def[of e] e) (simp add: next_people_def)
  have "fst (purgeExpiredTombstones e nowIso days peer) = e"
    unfolding data t s p a pe
    by (rule app_data.equality) (simp_all add: e purge_settings_again)
  then show ?thesis by (simp add: e_def)
qed

text \<open>An expired area that a task still names.\<close>

definition referenced_tombstone :: app_data where
  "referenced_tombstone = empty_data\<lparr>
     ad_tasks := [(sample_task ''t1'')\<lparr>t_areaId := Some ''a1''\<rparr>],
     ad_areas := [(sample_area ''a1'' ''Home'')\<lparr>deletedAt := Some ''2024-01-03T00:00:00.000Z''\<rparr>]\<rparr>"

theorem purge_keeps_references_witness:
  "refs_closed (fst (purgeExpiredTombstones referenced_tombstone ''2026-01-01T00:00:00.000Z'' None []))
   \<and> map eid (ad_areas (fst (purgeExpiredTombstones referenced_tombstone ''2026-01-01T00:00:00.000Z'' None []))) = [''a1'']"
proof
  have "refs_closed referenced_tombstone"
    by (simp add: refs_closed_def refers_def referenced_tombstone_def empty_data_def sample_task_def sample_area_def)
  then show "refs_closed (fst (purgeExpiredTombstones referenced_tombstone ''2026-01-01T00:00:00.000Z'' None []))"
    by (rule purge_keeps_references)
  show "map eid (ad_areas (fst (purgeExpiredTombstones referenced_tombstone ''2026-01-01T00:00:00.000Z'' None []))) = [''a1'']"
    by code_simp
qed

end
