(* ===== verification/SyncCycle.thy ===== *)
theory SyncCycle
  imports MergeApp TombstonePurge
begin

text \<open>
  \<open>performSyncCycleUnlocked\<close> of \<open>sync.ts\<close>: one synchronisation cycle. The ports it is given (\<open>SyncCycleIO\<close>)
  are the environment: a cycle is a tree of calls, each waiting for the answer of a port, which is
  an exception or a value. Optional ports are flags. The document-reading ports answer the errors
  of the payload check or a typed document. Progress callbacks, yields and logs are left out.
\<close>

subsection \<open>Errors\<close>

datatype thrown = ErrorObject string string | ThrownText string | ThrownOther

definition plain_error :: "string \<Rightarrow> thrown" where
  "plain_error msg = ErrorObject ''Error'' msg"

fun isLocalSyncAbortError :: "thrown \<Rightarrow> bool" where
  "isLocalSyncAbortError (ErrorObject name msg) = (name = ''LocalSyncAbort'')"
| "isLocalSyncAbortError _ = False"

fun getSyncErrorMessage :: "thrown \<Rightarrow> string option" where
  "getSyncErrorMessage (ErrorObject name msg) = (if js_trim msg \<noteq> [] then Some (js_trim msg) else None)"
| "getSyncErrorMessage (ThrownText s) = (if js_trim s \<noteq> [] then Some (js_trim s) else None)"
| "getSyncErrorMessage ThrownOther = None"

subsection \<open>The pending remote write\<close>

definition PENDING_REMOTE_WRITE_RETRY_BASE_MS :: int where "PENDING_REMOTE_WRITE_RETRY_BASE_MS = 5 * 1000"
definition PENDING_REMOTE_WRITE_RETRY_MAX_MS :: int where "PENDING_REMOTE_WRITE_RETRY_MAX_MS = 5 * 60 * 1000"
definition PENDING_REMOTE_WRITE_MAX_ATTEMPTS :: int where "PENDING_REMOTE_WRITE_MAX_ATTEMPTS = 12"

definition with_settings :: "app_data \<Rightarrow> settings \<Rightarrow> app_data" where
  "with_settings d st = d\<lparr>ad_settings := st\<rparr>"

definition withPendingRemoteWriteFlag :: "app_data \<Rightarrow> string \<Rightarrow> int option \<Rightarrow> app_data" where
  "withPendingRemoteWriteFlag d pendingAt attempts =
     with_settings d ((ad_settings d)\<lparr>st_pendingRemoteWriteAt := Some pendingAt,
       st_pendingRemoteWriteRetryAt := None,
       st_pendingRemoteWriteAttempts := (case attempts of None \<Rightarrow> None
         | Some n \<Rightarrow> if n > 0 then Some n else None)\<rparr>)"

definition clearPendingRemoteWriteFlag :: "app_data \<Rightarrow> app_data" where
  "clearPendingRemoteWriteFlag d =
     with_settings d ((ad_settings d)\<lparr>st_pendingRemoteWriteAt :=
         (if \<not> truthy (st_pendingRemoteWriteAt (ad_settings d))
             \<and> st_pendingRemoteWriteRetryAt (ad_settings d) = None
             \<and> st_pendingRemoteWriteAttempts (ad_settings d) = None
          then st_pendingRemoteWriteAt (ad_settings d) else None),
       st_pendingRemoteWriteRetryAt := None, st_pendingRemoteWriteAttempts := None\<rparr>)"

definition valid_stamp :: "string option \<Rightarrow> bool" where
  "valid_stamp v = (case v of None \<Rightarrow> False | Some s \<Rightarrow> date_parse s \<noteq> None)"

definition hasPendingRemoteWriteFlag :: "app_data \<Rightarrow> bool" where
  "hasPendingRemoteWriteFlag d = valid_stamp (st_pendingRemoteWriteAt (ad_settings d))"

definition getPendingRemoteWriteAttemptCount :: "app_data \<Rightarrow> int" where
  "getPendingRemoteWriteAttemptCount d =
     (case st_pendingRemoteWriteAttempts (ad_settings d) of None \<Rightarrow> 0 | Some n \<Rightarrow> if n < 0 then 0 else n)"

definition getPendingRemoteWriteBlockedMs :: "app_data \<Rightarrow> string \<Rightarrow> int" where
  "getPendingRemoteWriteBlockedMs d nowIso =
     (let retryAt = st_pendingRemoteWriteRetryAt (ad_settings d) in
      if \<not> valid_stamp retryAt then 0
      else (case (date_parse (the retryAt), date_parse nowIso) of
              (Some r, Some n) \<Rightarrow> max 0 (r - n)
            | _ \<Rightarrow> 0))"

definition retry_backoff_ms :: "int \<Rightarrow> int" where
  "retry_backoff_ms attempts =
     min PENDING_REMOTE_WRITE_RETRY_MAX_MS
         (PENDING_REMOTE_WRITE_RETRY_BASE_MS * 2 ^ nat (max 0 (attempts - 1)))"

text \<open>\<open>clock\<close> is \<open>Date.now()\<close>.\<close>

definition withPendingRemoteWriteRetry :: "int \<Rightarrow> app_data \<Rightarrow> string \<Rightarrow> thrown \<Rightarrow> app_data" where
  "withPendingRemoteWriteRetry clock d nowIso err =
     (let rawNextAttempts = getPendingRemoteWriteAttemptCount d + 1;
          nextAttempts = min rawNextAttempts PENDING_REMOTE_WRITE_MAX_ATTEMPTS;
          reachedAttemptCeiling = (rawNextAttempts \<ge> PENDING_REMOTE_WRITE_MAX_ATTEMPTS);
          backoffMs = retry_backoff_ms nextAttempts;
          retryAt = to_iso (or_else (date_parse nowIso) clock + backoffMs)
      in with_settings d ((ad_settings d)\<lparr>st_lastSyncStatus := Some SyncError,
           st_lastSyncError := Some (if reachedAttemptCeiling
             then ''Remote write failed after '' @ show_int PENDING_REMOTE_WRITE_MAX_ATTEMPTS @
                  '' attempts. Check your sync backend, then sync again.''
             else or_else (getSyncErrorMessage err) ''Remote write failed. Retrying in the background.''),
           st_pendingRemoteWriteRetryAt := Some retryAt,
           st_pendingRemoteWriteAttempts := Some nextAttempts\<rparr>))"

subsection \<open>History\<close>

definition appendSyncHistory :: "settings \<Rightarrow> history_entry \<Rightarrow> nat \<Rightarrow> history_entry list" where
  "appendSyncHistory st entry limit = take (max 1 limit) (entry # or_else (st_lastSyncHistory st) [])"

definition buildSyncHistoryDetails :: "merge_stats \<Rightarrow> string option" where
  "buildSyncHistoryDetails s =
     (let m = summarizeMergeStats s; dl = sm_deleteVsLiveConflicts m; fc = sm_futureTimestampClamps m;
          a = (if dl > 0 then [''Delete-vs-live conflict on '' @ show_nat dl @ '' '' @
                 (if dl = 1 then ''item'' else ''items'') @
                 ''; live edits can be preserved when delete and edit times are ambiguous.''] else []);
          b = (if fc > 0 then [''Future sync timestamp clamp on '' @ show_nat fc @ '' '' @
                 (if fc = 1 then ''timestamp'' else ''timestamps'') @
                 ''; check device clocks if this repeats.''] else [])
      in if a @ b = [] then None else Some (join_with (CHR '' '') (a @ b)))"

text \<open>The first three errors, joined by \<open>"; "\<close>.\<close>

fun join_errors :: "string list \<Rightarrow> string" where
  "join_errors [] = []"
| "join_errors [e] = e"
| "join_errors (e # f # es) = e @ ''; '' @ join_errors (f # es)"

definition sample_errors :: "string list \<Rightarrow> string" where
  "sample_errors es = join_errors (take 3 es)"

subsection \<open>The cycle as a tree of calls\<close>

datatype cycle_status = Skipped | Written sync_status

record cycle_result =
  cr_data :: app_data
  cr_status :: cycle_status
  cr_stats :: "merge_stats option"
  cr_warning :: "clock_skew_warning option"
  cr_retryInMs :: "int option"
  cr_message :: "string option"
  cr_localWriteSkipped :: bool

datatype read_port = ReadLocal | ReadRemote

datatype write_port =
    FlushPendingLocal
  | PrepareRemoteWrite app_data
  | WriteLocal app_data
  | WriteRemote app_data
  | PersistSyncStatusOnly app_data
  | ClearPendingAfterLocalAbort string

text \<open>A read answers the errors of the document it found or the document; a write may answer a document.\<close>

type_synonym read_answer = "thrown + (string list + app_data)"
type_synonym write_answer = "thrown + app_data option"

datatype cycle =
    Finish cycle_result
  | Throw thrown
  | Read read_port "read_answer \<Rightarrow> cycle"
  | Perform write_port "write_answer \<Rightarrow> cycle"

text \<open>
  The ports' presence, the options and the environment of one cycle. \<open>ci_unchanged\<close> is the port
  \<open>isLocalPersistUnchanged\<close>, absent also when \<open>persistSyncStatusOnly\<close> is.
\<close>

record cycle_io =
  ci_host :: host
  ci_clock :: int
  ci_now :: string
  ci_retentionDays :: "int option"
  ci_hasFlush :: bool
  ci_hasPrepare :: bool
  ci_hasClearPending :: bool
  ci_unchanged :: "(app_data \<Rightarrow> bool) option"
  ci_skipEmptyRemoteMerge :: bool
  ci_preferIncomingKeys :: bool
  ci_backend :: "string option"
  ci_type :: "string option"
  ci_details :: "string option"

record pending_meta =
  pm_pendingAt :: string
  pm_attempts :: int

definition normalizeAppData :: "app_data \<Rightarrow> app_data" where
  "normalizeAppData d = d\<lparr>ad_people := Some (or_else (ad_people d) [])\<rparr>"

definition purge_now :: "cycle_io \<Rightarrow> string list \<Rightarrow> app_data \<Rightarrow> app_data" where
  "purge_now io peerPurged d = fst (purgeExpiredTombstones d (ci_now io) (ci_retentionDays io) peerPurged)"

definition read_local :: "cycle_io \<Rightarrow> (app_data \<Rightarrow> cycle) \<Rightarrow> cycle" where
  "read_local io k = Read ReadLocal (\<lambda>a. case a of
       Inl e \<Rightarrow> Throw e
     | Inr (Inl errs) \<Rightarrow> Throw (plain_error (''Invalid local sync payload: '' @ sample_errors errs))
     | Inr (Inr d) \<Rightarrow> k (purge_now io [] (normalizeAppData d)))"

text \<open>\<open>stripRemoteAttachmentDeviceState\<close> of \<open>sync-document.ts\<close>, the last step of reading a remote document.\<close>

definition strip_device_state :: "attachment \<Rightarrow> attachment" where
  "strip_device_state a =
     (if at_kind a \<noteq> FileKind then a
      else a\<lparr>at_uri := [], at_localStatus := None, at_contentMtimeMs := None,
             at_contentSize := None, at_pendingContentUpload := None\<rparr>)"

definition stripRemoteAttachmentDeviceState :: "app_data \<Rightarrow> app_data" where
  "stripRemoteAttachmentDeviceState d =
     d\<lparr>ad_tasks := map (\<lambda>t. t\<lparr>t_attachments := map_option (map strip_device_state) (t_attachments t)\<rparr>) (ad_tasks d),
       ad_projects := map (\<lambda>p. p\<lparr>p_attachments := map_option (map strip_device_state) (p_attachments p)\<rparr>) (ad_projects d)\<rparr>"

definition read_remote :: "cycle_io \<Rightarrow> (app_data \<Rightarrow> cycle) \<Rightarrow> cycle" where
  "read_remote io k = Read ReadRemote (\<lambda>a. case a of
       Inl e \<Rightarrow> Throw e
     | Inr (Inl errs) \<Rightarrow> Throw (plain_error (''Invalid remote sync payload: '' @ sample_errors errs))
     | Inr (Inr d) \<Rightarrow> k (purge_now io [] (stripRemoteAttachmentDeviceState (normalizeAppData d))))"

definition no_settings :: "settings \<Rightarrow> bool" where
  "no_settings st =
     (Option.is_none (st_pendingRemoteDeletes st)
      \<and> st_lastSyncAt st = None \<and> st_lastSyncStatus st = None \<and> st_lastSyncError st = None
      \<and> st_pendingRemoteWriteAt st = None \<and> st_pendingRemoteWriteRetryAt st = None
      \<and> st_pendingRemoteWriteAttempts st = None \<and> Option.is_none (st_lastSyncStats st)
      \<and> Option.is_none (st_lastSyncHistory st) \<and> st_object st = [])"

definition remoteIsEmpty :: "app_data \<Rightarrow> bool" where
  "remoteIsEmpty d = (ad_tasks d = [] \<and> ad_projects d = [] \<and> ad_sections d = [] \<and> ad_areas d = []
     \<and> or_else (ad_people d) [] = [] \<and> no_settings (ad_settings d))"

subsection \<open>The merge step\<close>

record merged =
  mg_data :: app_data
  mg_stats :: merge_stats
  mg_status :: sync_status
  mg_warning :: "clock_skew_warning option"

definition merge_documents :: "cycle_io \<Rightarrow> app_data \<Rightarrow> app_data \<Rightarrow> merge_result" where
  "merge_documents io local remote =
     (if ci_skipEmptyRemoteMerge io \<and> remoteIsEmpty remote
      then \<lparr>mr_data = local, mr_stats = createLocalOnlyMergeStats local, mr_warning = None\<rparr>
      else mergeAppDataWithStats (ci_host io) (ci_clock io)
             \<lparr>mg_nowIso = Some (ci_now io), mg_preferIncomingKeys = ci_preferIncomingKeys io\<rparr> local remote)"

definition stamp_result :: "cycle_io \<Rightarrow> merge_result \<Rightarrow> app_data" where
  "stamp_result io r =
     (let s = summarizeMergeStats (mr_stats r); st = ad_settings (mr_data r);
          status = (if sm_conflicts s > 0 then Conflict else Success);
          entry = \<lparr>he_at = ci_now io, he_status = status, he_backend = ci_backend io,
            he_type = or_else (ci_type io) ''merge'', he_conflicts = sm_conflicts s,
            he_conflictIds = take 10 (sm_conflictIds s), he_maxClockSkewMs = sm_maxClockSkewMs s,
            he_timestampAdjustments = sm_timestampAdjustments s,
            he_details = js_nullish (ci_details io) (buildSyncHistoryDetails (mr_stats r))\<rparr>
      in with_settings (mr_data r) (st\<lparr>st_lastSyncAt := Some (ci_now io), st_lastSyncStatus := Some status,
           st_lastSyncError := None, st_lastSyncStats := Some (mr_stats r),
           st_lastSyncHistory := Some (appendSyncHistory st entry 50)\<rparr>))"

text \<open>Sections the remote dropped while it still holds their project and no merged task uses them.\<close>

definition peer_purged_sections :: "app_data \<Rightarrow> app_data \<Rightarrow> string list" where
  "peer_purged_sections d remote =
     map eid (filter (\<lambda>s. eid s \<notin> eid ` set (ad_sections remote)
        \<and> eid s \<notin> set (present_ids (map t_sectionId (ad_tasks d)))
        \<and> s_projectId s \<in> eid ` set (ad_projects remote)) (ad_sections d))"

definition merge_step :: "cycle_io \<Rightarrow> app_data \<Rightarrow> app_data \<Rightarrow> merged" where
  "merge_step io local remote =
     (let r = merge_documents io local remote; d = stamp_result io r
      in \<lparr>mg_data = purge_now io (peer_purged_sections d remote) d, mg_stats = mr_stats r,
          mg_status = (if sm_conflicts (summarizeMergeStats (mr_stats r)) > 0 then Conflict else Success),
          mg_warning = mr_warning r\<rparr>)"

definition validation_error :: "string list \<Rightarrow> thrown" where
  "validation_error errs = plain_error (''Sync validation failed: '' @ sample_errors errs)"

subsection \<open>The writes\<close>

definition write_result :: "merged \<Rightarrow> app_data \<Rightarrow> bool \<Rightarrow> cycle_result" where
  "write_result m d skippedWrite =
     \<lparr>cr_data = d, cr_status = Written (mg_status m), cr_stats = Some (mg_stats m),
      cr_warning = mg_warning m, cr_retryInMs = None, cr_message = None,
      cr_localWriteSkipped = skippedWrite\<rparr>"

text \<open>Nothing durable changed locally: write the remote, then the bookkeeping, whose failure is swallowed.\<close>

definition write_unchanged :: "cycle_io \<Rightarrow> merged \<Rightarrow> app_data \<Rightarrow> cycle" where
  "write_unchanged io m d =
     Perform (WriteRemote d) (\<lambda>a. case a of
       Inl e \<Rightarrow>
         if isLocalSyncAbortError e then Throw e
         else Perform (WriteLocal (withPendingRemoteWriteRetry (ci_clock io) d (ci_now io) e))
                (\<lambda>b. case b of Inl f \<Rightarrow> Throw f | Inr _ \<Rightarrow> Throw e)
     | Inr _ \<Rightarrow> Perform (PersistSyncStatusOnly d) (\<lambda>_. Finish (write_result m d True)))"

definition clear_after_abort :: "cycle_io \<Rightarrow> string \<Rightarrow> thrown \<Rightarrow> cycle" where
  "clear_after_abort io pendingAt e =
     (if ci_hasClearPending io
      then Perform (ClearPendingAfterLocalAbort pendingAt) (\<lambda>b. case b of Inl f \<Rightarrow> Throw f | Inr _ \<Rightarrow> Throw e)
      else Throw e)"

definition write_final :: "cycle_io \<Rightarrow> merged \<Rightarrow> string \<Rightarrow> app_data \<Rightarrow> cycle" where
  "write_final io m pendingAt d =
     Perform (WriteLocal d) (\<lambda>a. case a of
       Inl e \<Rightarrow> if isLocalSyncAbortError e then clear_after_abort io pendingAt e else Throw e
     | Inr v \<Rightarrow> Finish (write_result m (or_else v d) False))"

definition write_remote :: "cycle_io \<Rightarrow> merged \<Rightarrow> string \<Rightarrow> app_data \<Rightarrow> cycle" where
  "write_remote io m pendingAt canonicalPending =
     (let d = clearPendingRemoteWriteFlag canonicalPending
      in Perform (WriteRemote d) (\<lambda>a. case a of
           Inl e \<Rightarrow>
             if isLocalSyncAbortError e then clear_after_abort io pendingAt e
             else Perform (WriteLocal (withPendingRemoteWriteRetry (ci_clock io) canonicalPending (ci_now io) e))
                    (\<lambda>b. case b of Inl f \<Rightarrow> Throw f | Inr _ \<Rightarrow> Throw e)
         | Inr _ \<Rightarrow> write_final io m pendingAt d))"

definition write_marked :: "cycle_io \<Rightarrow> merged \<Rightarrow> pending_meta option \<Rightarrow> app_data \<Rightarrow> cycle" where
  "write_marked io m meta d =
     (let pendingAt = (case meta of None \<Rightarrow> ci_now io | Some p \<Rightarrow> pm_pendingAt p);
          marked = withPendingRemoteWriteFlag d pendingAt (map_option pm_attempts meta)
      in Perform (WriteLocal marked) (\<lambda>a. case a of
           Inl e \<Rightarrow> Throw e
         | Inr v \<Rightarrow> write_remote io m pendingAt (or_else v marked)))"

definition write_phase :: "cycle_io \<Rightarrow> pending_meta option \<Rightarrow> merged \<Rightarrow> app_data \<Rightarrow> cycle" where
  "write_phase io meta m d =
     (if meta = None \<and> (case ci_unchanged io of None \<Rightarrow> False | Some f \<Rightarrow> f d)
      then write_unchanged io m d else write_marked io m meta d)"

definition prepare_phase :: "cycle_io \<Rightarrow> pending_meta option \<Rightarrow> merged \<Rightarrow> cycle" where
  "prepare_phase io meta m =
     (if validateMergedSyncData (mg_data m) \<noteq> [] then Throw (validation_error (validateMergedSyncData (mg_data m)))
      else if \<not> ci_hasPrepare io then write_phase io meta m (mg_data m)
      else Perform (PrepareRemoteWrite (mg_data m)) (\<lambda>a. case a of
          Inl e \<Rightarrow> Throw e
        | Inr v \<Rightarrow>
            (let d = or_else v (mg_data m)
             in if validateMergedSyncData d \<noteq> [] then Throw (validation_error (validateMergedSyncData d))
                else write_phase io meta m d)))"

subsection \<open>The whole cycle\<close>

definition skipped_result :: "app_data \<Rightarrow> int \<Rightarrow> cycle_result" where
  "skipped_result d blockedMs =
     \<lparr>cr_data = d, cr_status = Skipped, cr_stats = None, cr_warning = None, cr_retryInMs = Some blockedMs,
      cr_message = Some (''Sync paused briefly after remote write failure. Retry in about '' @
        show_int (max 1 (- ((- blockedMs) div 1000))) @ ''s.''), cr_localWriteSkipped = False\<rparr>"

definition sync_with :: "cycle_io \<Rightarrow> pending_meta option \<Rightarrow> app_data \<Rightarrow> cycle" where
  "sync_with io meta local = read_remote io (\<lambda>remote. prepare_phase io meta (merge_step io local remote))"

definition flush_local :: "cycle_io \<Rightarrow> cycle \<Rightarrow> cycle" where
  "flush_local io k =
     (if ci_hasFlush io then Perform FlushPendingLocal (\<lambda>a. case a of Inl e \<Rightarrow> Throw e | Inr _ \<Rightarrow> k) else k)"

definition performSyncCycle :: "cycle_io \<Rightarrow> cycle" where
  "performSyncCycle io = read_local io (\<lambda>local.
     if \<not> hasPendingRemoteWriteFlag local then sync_with io None local
     else
       (let blockedMs = getPendingRemoteWriteBlockedMs local (ci_now io)
        in if blockedMs > 0 then Finish (skipped_result local blockedMs)
           else flush_local io (read_local io (\<lambda>again.
             sync_with io (Some \<lparr>pm_pendingAt = the (st_pendingRemoteWriteAt (ad_settings local)),
                 pm_attempts = getPendingRemoteWriteAttemptCount local\<rparr>)
               (clearPendingRemoteWriteFlag again)))))"

end
