(* ===== verification/CycleRuns.thy ===== *)
theory CycleRuns
  imports SyncCycle
begin

text \<open>
  Executions of a synchronisation cycle: a step relation over the calls a cycle makes and the
  answers its ports give, the runs it generates, and what holds of every run: every cycle ends,
  the local document is marked before anything is published, a failed publication leaves a
  retry schedule the next cycle honours, and only validated documents are written.
\<close>

subsection \<open>Events, steps and runs\<close>

datatype event = DidRead read_port read_answer | DidWrite write_port write_answer

inductive step :: "cycle \<Rightarrow> event \<Rightarrow> cycle \<Rightarrow> bool" where
  step_read: "step (Read p k) (DidRead p a) (k a)"
| step_write: "step (Perform w k) (DidWrite w b) (k b)"

inductive_cases step_FinishE [elim!]: "step (Finish r) e c"
inductive_cases step_ThrowE [elim!]: "step (Throw t) e c"
inductive_simps step_Read [simp]: "step (Read p k) e c"
inductive_simps step_Perform [simp]: "step (Perform w k) e c"

lemma step_Finish [simp]: "\<not> step (Finish r) e c"
  by (auto elim: step.cases)

lemma step_Throw [simp]: "\<not> step (Throw t) e c"
  by (auto elim: step.cases)

text \<open>\<open>ran c es d\<close>: after the events \<open>es\<close> the cycle \<open>c\<close> is at \<open>d\<close>.\<close>

inductive ran :: "cycle \<Rightarrow> event list \<Rightarrow> cycle \<Rightarrow> bool" where
  ran_Nil: "ran c [] c"
| ran_Cons: "step c e d \<Longrightarrow> ran d es f \<Longrightarrow> ran c (e # es) f"

declare ran.intros [intro]

inductive_simps ran_Nil_simp [simp]: "ran c [] d"
inductive_simps ran_Cons_simp: "ran c (e # es) d"

lemma ran_Finish [simp]: "ran (Finish r) es d \<longleftrightarrow> es = [] \<and> d = Finish r"
  by (cases es) (auto simp: ran_Cons_simp)

lemma ran_Throw [simp]: "ran (Throw t) es d \<longleftrightarrow> es = [] \<and> d = Throw t"
  by (cases es) (auto simp: ran_Cons_simp)

lemma ran_Read: "ran (Read p k) es d \<longleftrightarrow>
    (es = [] \<and> d = Read p k) \<or> (\<exists>a fs. es = DidRead p a # fs \<and> ran (k a) fs d)"
  by (cases es) (auto simp: ran_Cons_simp)

lemma ran_Perform: "ran (Perform w k) es d \<longleftrightarrow>
    (es = [] \<and> d = Perform w k) \<or> (\<exists>a fs. es = DidWrite w a # fs \<and> ran (k a) fs d)"
  by (cases es) (auto simp: ran_Cons_simp)

text \<open>The same with an executable environment: what each port answers.\<close>

record ports =
  po_read :: "read_port \<Rightarrow> read_answer"
  po_write :: "write_port \<Rightarrow> write_answer"

primrec play :: "ports \<Rightarrow> cycle \<Rightarrow> event list \<times> (thrown + cycle_result)" where
  "play env (Finish r) = ([], Inr r)"
| "play env (Throw t) = ([], Inl t)"
| "play env (Read p k) = (let a = po_read env p; r = play env (k a) in (DidRead p a # fst r, snd r))"
| "play env (Perform w k) = (let a = po_write env w; r = play env (k a) in (DidWrite w a # fst r, snd r))"

definition ended :: "thrown + cycle_result \<Rightarrow> cycle" where
  "ended r = (case r of Inl t \<Rightarrow> Throw t | Inr x \<Rightarrow> Finish x)"

lemma play_ran: "ran c (fst (play env c)) (ended (snd (play env c)))"
  by (induction c) (auto simp: ended_def Let_def ran_Cons_simp)

subsection \<open>Invariants of all runs\<close>

text \<open>\<open>always P es c\<close>: whatever the ports answer from \<open>c\<close> on, every run from it, read after the
  events \<open>es\<close>, satisfies \<open>P\<close>.\<close>

definition always :: "(event list \<Rightarrow> cycle \<Rightarrow> bool) \<Rightarrow> event list \<Rightarrow> cycle \<Rightarrow> bool" where
  "always P es c = (\<forall>fs d. ran c fs d \<longrightarrow> P (es @ fs) d)"

lemma always_Finish [simp]: "always P es (Finish r) \<longleftrightarrow> P es (Finish r)"
  by (simp add: always_def)

lemma always_Throw [simp]: "always P es (Throw t) \<longleftrightarrow> P es (Throw t)"
  by (simp add: always_def)

lemma always_Read:
  "always P es (Read p k) \<longleftrightarrow> P es (Read p k) \<and> (\<forall>a. always P (es @ [DidRead p a]) (k a))"
  by (auto simp: always_def ran_Read)

lemma always_Perform:
  "always P es (Perform w k) \<longleftrightarrow> P es (Perform w k) \<and> (\<forall>a. always P (es @ [DidWrite w a]) (k a))"
  by (auto simp: always_def ran_Perform)

lemmas always_simps = always_Finish always_Throw always_Read always_Perform

lemma alwaysD: "always P [] c \<Longrightarrow> ran c fs d \<Longrightarrow> P fs d"
  by (simp add: always_def)

lemma always_if: "always P es (if b then c else d) = ((b \<longrightarrow> always P es c) \<and> (\<not> b \<longrightarrow> always P es d))"
  by simp

lemma all_answers: "(\<forall>a. P a) \<longleftrightarrow> (\<forall>e. P (Inl e)) \<and> (\<forall>v. P (Inr v))"
  by (metis sumE)

lemmas cycle_defs = read_local_def read_remote_def flush_local_def sync_with_def prepare_phase_def
  write_phase_def write_unchanged_def write_marked_def write_remote_def write_final_def
  clear_after_abort_def

text \<open>The stages, each from what the later ones keep.\<close>

lemma always_read_local:
  assumes "P es (read_local io k)"
    and "\<And>t e. P (es @ [DidRead ReadLocal e]) (Throw t)"
    and "\<And>d. always P (es @ [DidRead ReadLocal (Inr (Inr d))]) (k (purge_now io [] (normalizeAppData d)))"
  shows "always P es (read_local io k)"
  using assms unfolding read_local_def always_Read by (auto split: sum.split)

lemma always_read_remote:
  assumes "P es (read_remote io k)"
    and "\<And>t e. P (es @ [DidRead ReadRemote e]) (Throw t)"
    and "\<And>d. always P (es @ [DidRead ReadRemote (Inr (Inr d))])
                (k (purge_now io [] (stripRemoteAttachmentDeviceState (normalizeAppData d))))"
  shows "always P es (read_remote io k)"
  using assms unfolding read_remote_def always_Read by (auto split: sum.split)

lemma always_flush:
  assumes "P es (flush_local io k)" and "\<And>t e. P (es @ [DidWrite FlushPendingLocal e]) (Throw t)"
    and "\<And>v. ci_hasFlush io \<Longrightarrow> always P (es @ [DidWrite FlushPendingLocal (Inr v)]) k"
    and "\<not> ci_hasFlush io \<Longrightarrow> always P es k"
  shows "always P es (flush_local io k)"
  using assms unfolding flush_local_def by (auto simp: always_Perform split: sum.split)

lemma always_prepare:
  assumes "P es (prepare_phase io meta m)" and "\<And>t. P es (Throw t)"
    and "\<And>t e. P (es @ [DidWrite (PrepareRemoteWrite (mg_data m)) e]) (Throw t)"
    and "\<not> ci_hasPrepare io \<Longrightarrow> validateMergedSyncData (mg_data m) = [] \<Longrightarrow> always P es (write_phase io meta m (mg_data m))"
    and "\<And>v. ci_hasPrepare io \<Longrightarrow> validateMergedSyncData (or_else v (mg_data m)) = [] \<Longrightarrow>
          always P (es @ [DidWrite (PrepareRemoteWrite (mg_data m)) (Inr v)]) (write_phase io meta m (or_else v (mg_data m)))"
  shows "always P es (prepare_phase io meta m)"
  using assms unfolding prepare_phase_def by (auto simp: always_Perform Let_def split: sum.split)

text \<open>
  C26: every cycle ends after at most nine calls of its ports, whatever they answer; an environment
  that answers every call drives it to a result or an error.
\<close>

theorem cycle_terminates:
  "(\<forall>es c. ran (performSyncCycle io) es c \<longrightarrow> length es \<le> 9)
   \<and> (\<exists>es r. ran (performSyncCycle io) es (ended r) \<and> play env (performSyncCycle io) = (es, r))"
proof -
  let ?P = "\<lambda>es c. length es \<le> 9"
  have writes: "always ?P es (write_phase io meta m d)" if "length es \<le> 5" for es meta m d
    using that unfolding write_phase_def write_unchanged_def write_marked_def write_remote_def
      write_final_def clear_after_abort_def Let_def
    by (auto simp: always_simps split: sum.split)
  have sync: "always ?P es (sync_with io meta d)" if "length es \<le> 3" for es meta d
    unfolding sync_with_def
    by (rule always_read_remote; (rule always_prepare)?) (use that writes in auto)
  have "always ?P [] (performSyncCycle io)"
    unfolding performSyncCycle_def Let_def
    by (rule always_read_local, simp, simp)
       (auto intro!: sync always_flush always_read_local)
  then have "\<forall>es c. ran (performSyncCycle io) es c \<longrightarrow> length es \<le> 9" by (auto dest: alwaysD)
  moreover have "\<exists>es r. ran (performSyncCycle io) es (ended r) \<and> play env (performSyncCycle io) = (es, r)"
    using play_ran[of "performSyncCycle io" env] by (metis prod.collapse)
  ultimately show ?thesis by blast
qed

subsection \<open>Nothing unpublished is left unmarked\<close>

text \<open>
  The document of the cycle in the local store, and whether the run has published. After a local
  abort the store puts its own snapshot, with the edits that caused the abort, in its place.
\<close>

definition stored_after :: "app_data option \<Rightarrow> event \<Rightarrow> app_data option" where
  "stored_after s e =
     (case e of DidWrite (WriteLocal d) (Inr v) \<Rightarrow> Some (or_else v d)
      | DidWrite (ClearPendingAfterLocalAbort p) (Inr v) \<Rightarrow> None | _ \<Rightarrow> s)"

definition stored :: "event list \<Rightarrow> app_data option" where
  "stored es = foldl stored_after None es"

fun is_published :: "event \<Rightarrow> bool" where
  "is_published (DidWrite (WriteRemote d) (Inr v)) = True"
| "is_published _ = False"

definition published :: "event list \<Rightarrow> bool" where
  "published es = list_ex is_published es"


lemma stored_simps [simp]:
  "stored [] = None" "stored (e # fs) = foldl stored_after (stored_after None e) fs" "stored (es @ fs) = foldl stored_after (stored es) fs"
  by (simp_all add: stored_def)

lemma published_simps [simp]:
  "\<not> published []" "published (e # fs) \<longleftrightarrow> is_published e \<or> list_ex is_published fs" "published (es @ fs) \<longleftrightarrow> published es \<or> list_ex is_published fs"
  by (simp_all add: published_def)




lemma flag_marks [simp]:
  "hasPendingRemoteWriteFlag (withPendingRemoteWriteFlag d at n) = valid_stamp (Some at)"
  by (simp add: hasPendingRemoteWriteFlag_def withPendingRemoteWriteFlag_def with_settings_def)

lemma retry_keeps_mark [simp]:
  "hasPendingRemoteWriteFlag (withPendingRemoteWriteRetry clock d now e) = hasPendingRemoteWriteFlag d"
  by (simp add: hasPendingRemoteWriteFlag_def withPendingRemoteWriteRetry_def with_settings_def Let_def)







subsection \<open>The retry schedule\<close>

lemma purge_settings_keeps:
  "st_pendingRemoteWriteAt (fst (purge_settings c now st)) = st_pendingRemoteWriteAt st"
  "st_pendingRemoteWriteRetryAt (fst (purge_settings c now st)) = st_pendingRemoteWriteRetryAt st"
  "st_pendingRemoteWriteAttempts (fst (purge_settings c now st)) = st_pendingRemoteWriteAttempts st"
  by (simp_all add: purge_settings_def Let_def split: prod.splits)

lemma purge_now_settings:
  "st_pendingRemoteWriteAt (ad_settings (purge_now io peer d)) = st_pendingRemoteWriteAt (ad_settings d)
   \<and> st_pendingRemoteWriteRetryAt (ad_settings (purge_now io peer d)) = st_pendingRemoteWriteRetryAt (ad_settings d)
   \<and> st_pendingRemoteWriteAttempts (ad_settings (purge_now io peer d)) = st_pendingRemoteWriteAttempts (ad_settings d)"
proof (cases "date_parse (ci_now io)")
  case None
  then show ?thesis by (simp add: purge_now_def purge_no_clock)
next
  case (Some n)
  show ?thesis
    unfolding purge_now_def purge_data[OF Some refl] by (simp add: purge_settings_keeps)
qed

lemma normalizeAppData_settings [simp]: "ad_settings (normalizeAppData d) = ad_settings d"
  by (simp add: normalizeAppData_def)

lemma purge_now_pending:
  "hasPendingRemoteWriteFlag (purge_now io peer (normalizeAppData d)) = hasPendingRemoteWriteFlag d"
  "getPendingRemoteWriteBlockedMs (purge_now io peer (normalizeAppData d)) t = getPendingRemoteWriteBlockedMs d t"
  using purge_now_settings[of io peer "normalizeAppData d"]
  by (simp_all add: hasPendingRemoteWriteFlag_def getPendingRemoteWriteBlockedMs_def)

text \<open>
  A cycle that starts before the retry time of a marked local document calls no port but the
  local read: it ends at once as skipped, with the time left.
\<close>

theorem backoff_skips_cycle:
  assumes "hasPendingRemoteWriteFlag d" and "getPendingRemoteWriteBlockedMs d (ci_now io) > 0"
    and "ran (performSyncCycle io) (DidRead ReadLocal (Inr (Inr d)) # es) c"
  shows "es = [] \<and> c = Finish (skipped_result (purge_now io [] (normalizeAppData d))
           (getPendingRemoteWriteBlockedMs d (ci_now io)))"
  using assms unfolding performSyncCycle_def read_local_def
  by (simp add: ran_Read purge_now_pending Let_def)

lemma backoff_ms_bounds: "1 \<le> n \<Longrightarrow> 5000 \<le> retry_backoff_ms n \<and> retry_backoff_ms n \<le> 300000"
  by (simp add: retry_backoff_ms_def PENDING_REMOTE_WRITE_RETRY_MAX_MS_def PENDING_REMOTE_WRITE_RETRY_BASE_MS_def)

lemma backoff_ms_mono: "n \<le> m \<Longrightarrow> retry_backoff_ms n \<le> retry_backoff_ms m"
  unfolding retry_backoff_ms_def PENDING_REMOTE_WRITE_RETRY_BASE_MS_def
  by (intro min.mono mult_left_mono power_increasing) auto

lemma attempts_nonneg: "0 \<le> getPendingRemoteWriteAttemptCount d"
  by (simp add: getPendingRemoteWriteAttemptCount_def split: option.split)

lemma retry_attempts [simp]:
  "getPendingRemoteWriteAttemptCount (withPendingRemoteWriteRetry clock d now e) =
     min (getPendingRemoteWriteAttemptCount d + 1) 12"
  using attempts_nonneg[of d]
  by (simp add: withPendingRemoteWriteRetry_def with_settings_def Let_def PENDING_REMOTE_WRITE_MAX_ATTEMPTS_def
      getPendingRemoteWriteAttemptCount_def)

lemma retry_at:
  "st_pendingRemoteWriteRetryAt (ad_settings (withPendingRemoteWriteRetry clock d now e)) =
     Some (to_iso (or_else (date_parse now) clock + retry_backoff_ms (min (getPendingRemoteWriteAttemptCount d + 1) 12)))"
  by (simp add: withPendingRemoteWriteRetry_def with_settings_def Let_def PENDING_REMOTE_WRITE_MAX_ATTEMPTS_def)

lemma retry_wait:
  assumes "date_parse now = Some n" and "\<bar>n\<bar> \<le> max_time - 300000"
  shows "getPendingRemoteWriteBlockedMs (withPendingRemoteWriteRetry clock x now e) now =
      retry_backoff_ms (min (getPendingRemoteWriteAttemptCount x + 1) 12)"
proof -
  let ?b = "retry_backoff_ms (min (getPendingRemoteWriteAttemptCount x + 1) 12)"
  have b: "5000 \<le> ?b" "?b \<le> 300000" using backoff_ms_bounds attempts_nonneg[of x] by auto
  then have "date_parse (to_iso (n + ?b)) = Some (n + ?b)"
    using assms(2) by (intro date_parse_to_iso) auto
  then show ?thesis
    using b by (simp add: getPendingRemoteWriteBlockedMs_def retry_at assms(1) valid_stamp_def)
qed

lemma retry_wait_bounds:
  assumes "date_parse now = Some n" and "\<bar>n\<bar> \<le> max_time - 300000"
  shows "5000 \<le> getPendingRemoteWriteBlockedMs (withPendingRemoteWriteRetry clock x now e) now
    \<and> getPendingRemoteWriteBlockedMs (withPendingRemoteWriteRetry clock x now e) now \<le> 300000"
  using backoff_ms_bounds[of "min (getPendingRemoteWriteAttemptCount x + 1) 12"] attempts_nonneg[of x]
  by (simp add: retry_wait[OF assms])

text \<open>
  C27: the wait a failed remote write schedules is between five seconds and five minutes, is never
  shorter after more failures, and counts at most twelve attempts, whatever attempt count the
  document carries.
\<close>

theorem retry_backoff_bounds:
  assumes "date_parse now = Some n" and "\<bar>n\<bar> \<le> max_time - 300000"
  shows "5000 \<le> getPendingRemoteWriteBlockedMs (withPendingRemoteWriteRetry clock d now e) now
       \<and> getPendingRemoteWriteBlockedMs (withPendingRemoteWriteRetry clock d now e) now \<le> 300000
       \<and> 1 \<le> getPendingRemoteWriteAttemptCount (withPendingRemoteWriteRetry clock d now e)
       \<and> getPendingRemoteWriteAttemptCount (withPendingRemoteWriteRetry clock d now e) \<le> 12
       \<and> (getPendingRemoteWriteAttemptCount d \<le> getPendingRemoteWriteAttemptCount d2 \<longrightarrow>
            getPendingRemoteWriteBlockedMs (withPendingRemoteWriteRetry clock d now e) now
            \<le> getPendingRemoteWriteBlockedMs (withPendingRemoteWriteRetry clock d2 now e) now)"
  using retry_wait_bounds[OF assms, of clock d e] attempts_nonneg[of d]
    backoff_ms_mono[of "min (getPendingRemoteWriteAttemptCount d + 1) 12" "min (getPendingRemoteWriteAttemptCount d2 + 1) 12"]
  by (simp add: retry_wait[OF assms])

subsection \<open>How a cycle ends\<close>


definition retry_scheduled :: "app_data \<Rightarrow> bool" where
  "retry_scheduled d = (st_pendingRemoteWriteRetryAt (ad_settings d) \<noteq> None
     \<and> st_lastSyncStatus (ad_settings d) = Some SyncError)"


lemma retry_is_scheduled [simp]: "retry_scheduled (withPendingRemoteWriteRetry clock d now e)"
  by (simp add: retry_scheduled_def retry_at)
     (simp add: withPendingRemoteWriteRetry_def with_settings_def Let_def)




text \<open>How a run ends that returns a result of a merge.\<close>

definition result_kept :: "event list \<Rightarrow> cycle \<Rightarrow> bool" where
  "result_kept es c = (\<forall>r. c = Finish r \<longrightarrow> cr_status r \<noteq> Skipped \<longrightarrow>
     (\<exists>d w. list_ex (\<lambda>e. case e of DidWrite (WriteRemote x) (Inr v) \<Rightarrow> x = d | _ \<Rightarrow> False) es
        \<and> (if cr_localWriteSkipped r then last es = DidWrite (PersistSyncStatusOnly d) w \<and> cr_data r = d
           else (\<exists>u. w = Inr u \<and> last es = DidWrite (WriteLocal d) w \<and> cr_data r = or_else u d
                 \<and> \<not> hasPendingRemoteWriteFlag d))))"

lemma date_parse_Nil [simp]: "date_parse [] = None"
  by code_simp

lemma clear_unmarks [simp]: "\<not> hasPendingRemoteWriteFlag (clearPendingRemoteWriteFlag d)"
  by (cases "st_pendingRemoteWriteAt (ad_settings d)")
     (auto simp: hasPendingRemoteWriteFlag_def clearPendingRemoteWriteFlag_def with_settings_def valid_stamp_def truthy_def)

lemma result_unfinished: "(\<And>r. c \<noteq> Finish r) \<Longrightarrow> result_kept es c"
  by (simp add: result_kept_def)

lemma stage_unfinished [simp]:
  "read_local io k \<noteq> Finish r" "read_remote io k' \<noteq> Finish r" "write_phase io meta m d \<noteq> Finish r"
  "prepare_phase io meta m \<noteq> Finish r" "sync_with io meta d \<noteq> Finish r" "flush_local io (read_local io k) \<noteq> Finish r"
  by (simp_all add: cycle_defs Let_def)

lemma result_writes: "always result_kept es (write_phase io meta m d)"
  unfolding write_phase_def write_unchanged_def write_marked_def write_remote_def write_final_def clear_after_abort_def Let_def
  by (auto simp: always_simps result_unfinished split: sum.split)
     (auto simp: result_kept_def write_result_def)

text \<open>
  C25: a cycle that reports success or a conflict has published exactly the document it leaves
  behind: the remote write of that document succeeded and the last call stores it locally,
  without a pending marker, or, where the local store held it already, only the status.
\<close>

theorem result_is_published:
  assumes "ran (performSyncCycle io) es (Finish r)" and "cr_status r \<noteq> Skipped"
  shows "\<exists>d w. list_ex (\<lambda>e. case e of DidWrite (WriteRemote x) (Inr v) \<Rightarrow> x = d | _ \<Rightarrow> False) es
        \<and> (if cr_localWriteSkipped r then last es = DidWrite (PersistSyncStatusOnly d) w \<and> cr_data r = d
           else (\<exists>u. w = Inr u \<and> last es = DidWrite (WriteLocal d) w \<and> cr_data r = or_else u d
                 \<and> \<not> hasPendingRemoteWriteFlag d))"
proof -
  have sync: "always result_kept es (sync_with io meta d)" for es meta d
    unfolding sync_with_def
    by (rule always_read_remote; (rule always_prepare)?)
       (auto simp: result_writes result_unfinished)
  have "always result_kept [] (performSyncCycle io)"
    unfolding performSyncCycle_def Let_def
    by (rule always_read_local)
       (auto simp: result_unfinished skipped_result_def result_kept_def intro!: sync always_flush always_read_local)
  then have "result_kept es (Finish r)" using assms(1) by (auto dest: alwaysD)
  then show ?thesis using assms(2) by (simp add: result_kept_def)
qed

subsection \<open>Only validated documents are written\<close>

text \<open>The check does not look at the settings, in which the written documents differ.\<close>

lemma validate_settings [simp]: "validateMergedSyncData (with_settings d st) = validateMergedSyncData d"
  by (simp add: validateMergedSyncData_def validate_references_def with_settings_def)

lemma validate_marks [simp]:
  "validateMergedSyncData (withPendingRemoteWriteFlag d at n) = validateMergedSyncData d"
  "validateMergedSyncData (clearPendingRemoteWriteFlag d) = validateMergedSyncData d"
  "validateMergedSyncData (withPendingRemoteWriteRetry clock d now e) = validateMergedSyncData d"
  by (simp_all add: withPendingRemoteWriteFlag_def clearPendingRemoteWriteFlag_def withPendingRemoteWriteRetry_def Let_def)

text \<open>
  The canonical document the local store answers is not validated again: \<open>answered es x\<close> tells that
  \<open>x\<close> is, but for the settings, the answer to a valid document the run stored.
\<close>

definition answered :: "event list \<Rightarrow> app_data \<Rightarrow> bool" where
  "answered es x = (\<exists>d c st. DidWrite (WriteLocal d) (Inr (Some c)) \<in> set es \<and>
     validateMergedSyncData d = [] \<and> x = with_settings c st)"

fun written :: "event \<Rightarrow> app_data option" where
  "written (DidWrite (WriteRemote d) a) = Some d"
| "written (DidWrite (WriteLocal d) a) = Some d"
| "written _ = None"

definition vouched :: "event list \<Rightarrow> bool" where
  "vouched es = (\<forall>e\<in>set es. \<forall>x. written e = Some x \<longrightarrow> validateMergedSyncData x = [] \<or> answered es x)"

lemma answered_more: "answered es x \<Longrightarrow> answered (es @ fs) x"
  unfolding answered_def by (metis Un_iff set_append)

lemma vouched_more:
  "vouched es \<Longrightarrow> (\<And>x. written e = Some x \<Longrightarrow> validateMergedSyncData x = [] \<or> answered (es @ [e]) x) \<Longrightarrow> vouched (es @ [e])"
  using answered_more unfolding vouched_def by fastforce

lemma vouched_quiet: "vouched es \<Longrightarrow> (\<And>e. e \<in> set fs \<Longrightarrow> written e = None) \<Longrightarrow> vouched (es @ fs)"
  unfolding vouched_def using answered_more by fastforce

lemma vouched_Nil: "vouched []"
  by (simp add: vouched_def)

lemma marks_of_settings:
  "\<exists>st. clearPendingRemoteWriteFlag c = with_settings c st"
  "\<exists>st. withPendingRemoteWriteRetry clock c now e = with_settings c st"
  "\<exists>st. withPendingRemoteWriteFlag c at n = with_settings c st"
  by (auto simp: clearPendingRemoteWriteFlag_def withPendingRemoteWriteRetry_def withPendingRemoteWriteFlag_def Let_def
      with_settings_def intro: exI[of _ "ad_settings c"])

text \<open>What may be written once the marked document is stored: its own content, or the answer's.\<close>

definition from_store :: "event list \<Rightarrow> app_data \<Rightarrow> bool" where
  "from_store es c = (\<forall>st. validateMergedSyncData (with_settings c st) = [] \<or> answered es (with_settings c st))"

lemma from_store_more: "from_store es c \<Longrightarrow> from_store (es @ fs) c"
  using answered_more unfolding from_store_def by blast

lemma from_store_marks:
  assumes "from_store es c"
  shows "validateMergedSyncData (clearPendingRemoteWriteFlag c) = [] \<or> answered es (clearPendingRemoteWriteFlag c)"
    and "validateMergedSyncData (withPendingRemoteWriteRetry clock c now e) = [] \<or> answered es (withPendingRemoteWriteRetry clock c now e)"
  using assms marks_of_settings unfolding from_store_def by metis+

lemma stored_answer:
  "validateMergedSyncData d = [] \<Longrightarrow> from_store (es @ [DidWrite (WriteLocal d) (Inr v)]) (or_else v d)"
  by (cases v) (auto simp: from_store_def answered_def)

lemma vouched_remote:
  assumes "vouched es" and "from_store es c"
  shows "always (\<lambda>es c. vouched es) es (write_remote io m at c)"
proof -
  note more = from_store_more[OF assms(2)]
  have w: "vouched (es @ [DidWrite (WriteRemote (clearPendingRemoteWriteFlag c)) a])" for a
    by (rule vouched_more[OF assms(1)]) (use from_store_marks(1)[OF more] in auto)
  have l: "vouched ((es @ [DidWrite (WriteRemote (clearPendingRemoteWriteFlag c)) a]) @ [DidWrite (WriteLocal x) b])"
    if "x = clearPendingRemoteWriteFlag c \<or> (\<exists>clock now e. x = withPendingRemoteWriteRetry clock c now e)" for a b x
  proof (rule vouched_more[OF w])
    let ?fs = "[DidWrite (WriteRemote (clearPendingRemoteWriteFlag c)) a, DidWrite (WriteLocal x) b]"
    have "validateMergedSyncData x = [] \<or> answered (es @ ?fs) x"
      using that from_store_marks[OF more[of ?fs]] by blast
    then show "validateMergedSyncData y = [] \<or>
        answered ((es @ [DidWrite (WriteRemote (clearPendingRemoteWriteFlag c)) a]) @ [DidWrite (WriteLocal x) b]) y"
      if "written (DidWrite (WriteLocal x) b) = Some y" for y using that by simp
  qed
  have k: "vouched (fs @ [DidWrite (ClearPendingAfterLocalAbort p) b])" if "vouched fs" for fs p b
    by (rule vouched_more[OF that]) simp
  let ?A = "DidWrite (WriteRemote (clearPendingRemoteWriteFlag c))" and ?F = "\<lambda>x. DidWrite (WriteLocal x)"
  let ?K = "DidWrite (ClearPendingAfterLocalAbort at)" and ?c = "clearPendingRemoteWriteFlag c"
  have l': "vouched (es @ [?A a, ?F ?c b])" "vouched (es @ [?A a, ?F (withPendingRemoteWriteRetry clock c now e) b])"
    for a b clock now e
    using l[of ?c a b] l[of "withPendingRemoteWriteRetry clock c now e" a b] by auto
  have k': "vouched (es @ [?A a, ?K b])" "vouched (es @ [?A a, ?F ?c b, ?K f])" for a b f
    using k[OF w[of a]] k[OF l'(1)[of a b]] by simp_all
  show ?thesis
    unfolding write_remote_def write_final_def clear_after_abort_def Let_def always_Perform
    by (intro conjI allI assms(1)) (simp add: always_simps assms(1) w l' k' split: sum.split)
qed

lemma vouched_writes:
  assumes "vouched es" and "validateMergedSyncData d = []"
  shows "always (\<lambda>es c. vouched es) es (write_phase io meta m d)"
proof -
  have p: "vouched (fs @ [DidWrite (PersistSyncStatusOnly x) b])" if "vouched fs" for fs x b
    by (rule vouched_more[OF that]) simp
  have v: "vouched (fs @ [DidWrite w b])" if "vouched fs" "written (DidWrite w b) = Some x" "validateMergedSyncData x = []" for fs w b x
    by (rule vouched_more[OF that(1)]) (use that in simp)
  have marked: "always (\<lambda>es c. vouched es) es (write_marked io m meta d)"
    using assms unfolding write_marked_def Let_def
    by (auto simp: always_simps split: sum.split intro!: vouched_remote v[OF assms(1)] stored_answer)
  have "always (\<lambda>es c. vouched es) es (write_unchanged io m d)"
  proof -
    have r: "vouched (es @ [DidWrite (WriteRemote d) a])" for a by (rule v[OF assms(1)]) (use assms in simp_all)
    have "vouched (es @ [DidWrite (WriteRemote d) a, DidWrite (WriteLocal (withPendingRemoteWriteRetry clock d now e)) b])" for a b clock now e
      using v[OF r[of a], of "WriteLocal (withPendingRemoteWriteRetry clock d now e)" b] assms(2) by simp
    moreover have "vouched (es @ [DidWrite (WriteRemote d) a, DidWrite (PersistSyncStatusOnly x) b])" for a b x
      using p[OF r[of a]] by simp
    ultimately show ?thesis
      using assms(1) r unfolding write_unchanged_def by (auto simp: always_simps split: sum.split)
  qed
  with marked show ?thesis by (simp add: write_phase_def)
qed

text \<open>
  A cycle writes, to the remote and to the local store, only documents that passed the merge
  validation or that the local store itself answered when it was given such a document, whose
  settings alone the cycle has changed since; whatever the ports answer, rewritten documents of the
  preparation port included.
\<close>

theorem only_valid_documents_written:
  assumes "ran (performSyncCycle io) es c" and "e \<in> set es" and "written e = Some x"
  shows "validateMergedSyncData x = [] \<or> (\<exists>d c st. DidWrite (WriteLocal d) (Inr (Some c)) \<in> set es \<and>
    validateMergedSyncData d = [] \<and> x = with_settings c st)"
proof -
  let ?P = "\<lambda>es c. vouched es"
  have sync: "always ?P es (sync_with io meta d)" if "vouched es" for es meta d
    unfolding sync_with_def
    by (rule always_read_remote; (rule always_prepare)?) (use that in \<open>auto intro!: vouched_writes vouched_quiet\<close>)
  have "always ?P [] (performSyncCycle io)"
    unfolding performSyncCycle_def Let_def
    by (rule always_read_local)
      (auto intro!: sync always_flush always_read_local vouched_quiet[OF vouched_Nil, simplified] vouched_Nil)
  then have "vouched es" using assms(1) by (auto dest: alwaysD)
  then show ?thesis using assms(2,3) by (auto simp: vouched_def answered_def)
qed

subsection \<open>The unchanged-document path\<close>

text \<open>
  C28: on the path that leaves the local document alone, a failed remote write stores a retry time
  but no pending marker, and only a marked document is held back: the next cycle, though at least
  five seconds early, goes on to read the remote.
\<close>

theorem unchanged_failure_not_held_back:
  assumes "date_parse (ci_now io) = Some n" and "\<bar>n\<bar> \<le> max_time - 300000"
    and "\<not> hasPendingRemoteWriteFlag d" and "\<not> isLocalSyncAbortError e"
    and "x = withPendingRemoteWriteRetry (ci_clock io) d (ci_now io) e"
  shows "ran (write_unchanged io m d) [DidWrite (WriteRemote d) (Inl e), DidWrite (WriteLocal x) (Inr v)] (Throw e)
       \<and> 5000 \<le> getPendingRemoteWriteBlockedMs x (ci_now io)
       \<and> (\<exists>k. ran (performSyncCycle io) [DidRead ReadLocal (Inr (Inr x))] (Read ReadRemote k))"
proof (intro conjI)
  show "ran (write_unchanged io m d) [DidWrite (WriteRemote d) (Inl e), DidWrite (WriteLocal x) (Inr v)] (Throw e)"
    using assms(4,5) by (simp add: write_unchanged_def ran_Perform)
  show "5000 \<le> getPendingRemoteWriteBlockedMs x (ci_now io)"
    unfolding assms(5) by (rule retry_wait_bounds[OF assms(1,2), THEN conjunct1])
  have "\<not> hasPendingRemoteWriteFlag (purge_now io [] (normalizeAppData x))"
    by (simp add: purge_now_pending assms)
  then show "\<exists>k. ran (performSyncCycle io) [DidRead ReadLocal (Inr (Inr x))] (Read ReadRemote k)"
    by (auto simp: performSyncCycle_def read_local_def sync_with_def read_remote_def ran_Cons_simp)
qed

subsection \<open>Sample cycles\<close>

text \<open>A cycle over two empty documents: with a healthy remote, and with one that refuses the write.\<close>

definition sample_io :: cycle_io where
  "sample_io = \<lparr>ci_host = sample_host, ci_clock = 0,
     ci_now = ''2026-01-02T00:00:00.000Z'', ci_retentionDays = None, ci_hasFlush = True,
     ci_hasPrepare = False, ci_hasClearPending = True, ci_unchanged = None,
     ci_skipEmptyRemoteMerge = True, ci_preferIncomingKeys = False, ci_backend = None,
     ci_type = None, ci_details = None\<rparr>"

definition sample_ports :: "write_answer \<Rightarrow> ports" where
  "sample_ports answer = \<lparr>po_read = (\<lambda>_. Inr (Inr empty_data)),
     po_write = (\<lambda>w. case w of WriteRemote d \<Rightarrow> answer | _ \<Rightarrow> Inr None)\<rparr>"

definition sample_run :: "write_answer \<Rightarrow> event list" where
  "sample_run answer = fst (play (sample_ports answer) (performSyncCycle sample_io))"

definition sample_doc :: app_data where "sample_doc = normalizeAppData empty_data"

definition sample_merged :: merged where "sample_merged = merge_step sample_io sample_doc sample_doc"

definition offline :: thrown where "offline = plain_error ''offline''"

lemma sample_now: "date_parse (ci_now sample_io) = Some 1767312000000"
  by code_simp

lemma sample_purge: "purge_now sample_io [] sample_doc = sample_doc"
  unfolding purge_now_def purge_data[OF sample_now refl]
  by (simp add: sample_doc_def normalizeAppData_def empty_data_def empty_settings_def next_tasks_def next_projects_def
      next_sections_def next_areas_def next_people_def purge_settings_def pruneSavedFilterTombstones_def Let_def)

lemma sample_valid: "validateMergedSyncData (mg_data sample_merged) = []"
  by code_simp

lemma sample_strip: "stripRemoteAttachmentDeviceState sample_doc = sample_doc"
  by (simp add: stripRemoteAttachmentDeviceState_def sample_doc_def normalizeAppData_def empty_data_def)

lemma sample_unmarked: "\<not> hasPendingRemoteWriteFlag sample_doc"
  by (simp add: hasPendingRemoteWriteFlag_def sample_doc_def normalizeAppData_def empty_data_def empty_settings_def valid_stamp_def)

lemma sample_play:
  "play (sample_ports a) (performSyncCycle sample_io) =
     (let w = play (sample_ports a) (write_marked sample_io sample_merged None (mg_data sample_merged))
      in (DidRead ReadLocal (Inr (Inr empty_data)) # DidRead ReadRemote (Inr (Inr empty_data)) # fst w, snd w))"
  using sample_valid
  by (simp add: performSyncCycle_def read_local_def read_remote_def sync_with_def prepare_phase_def write_phase_def
      sample_ports_def sample_purge sample_strip sample_unmarked Let_def
      flip: sample_doc_def sample_merged_def)
     (simp add: sample_io_def)

lemma sample_writes:
  "play (sample_ports (Inl e)) (write_marked sample_io m None d) =
     (let marked = withPendingRemoteWriteFlag d (ci_now sample_io) None; clear = clearPendingRemoteWriteFlag marked
      in if isLocalSyncAbortError e
         then ([DidWrite (WriteLocal marked) (Inr None), DidWrite (WriteRemote clear) (Inl e),
                DidWrite (ClearPendingAfterLocalAbort (ci_now sample_io)) (Inr None)], Inl e)
         else ([DidWrite (WriteLocal marked) (Inr None), DidWrite (WriteRemote clear) (Inl e),
                DidWrite (WriteLocal (withPendingRemoteWriteRetry 0 marked (ci_now sample_io) e)) (Inr None)], Inl e))"
  "play (sample_ports (Inr None)) (write_marked sample_io m None d) =
     (let marked = withPendingRemoteWriteFlag d (ci_now sample_io) None; clear = clearPendingRemoteWriteFlag marked
      in ([DidWrite (WriteLocal marked) (Inr None), DidWrite (WriteRemote clear) (Inr None),
           DidWrite (WriteLocal clear) (Inr None)], Inr (write_result m clear False)))"
  by (simp_all add: write_marked_def write_remote_def write_final_def clear_after_abort_def sample_ports_def Let_def)
     (simp_all add: sample_io_def)

lemma offline_not_abort [simp]: "\<not> isLocalSyncAbortError offline"
  by (simp add: offline_def plain_error_def)

definition sample_marked :: app_data where
  "sample_marked = withPendingRemoteWriteFlag (mg_data sample_merged) (ci_now sample_io) None"

definition sample_clear :: app_data where "sample_clear = clearPendingRemoteWriteFlag sample_marked"

definition sample_retry :: app_data where
  "sample_retry = withPendingRemoteWriteRetry 0 sample_marked (ci_now sample_io) offline"

lemma offline_ran: "ran (performSyncCycle sample_io)
   [DidRead ReadLocal (Inr (Inr empty_data)), DidRead ReadRemote (Inr (Inr empty_data)),
    DidWrite (WriteLocal sample_marked) (Inr None), DidWrite (WriteRemote sample_clear) (Inl offline),
    DidWrite (WriteLocal sample_retry) (Inr None)] (Throw offline)"
  using play_ran[of "performSyncCycle sample_io" "sample_ports (Inl offline)"]
  by (simp add: sample_play sample_writes Let_def ended_def flip: sample_marked_def)
     (simp add: sample_clear_def sample_retry_def)

lemma healthy_ran: "ran (performSyncCycle sample_io)
   [DidRead ReadLocal (Inr (Inr empty_data)), DidRead ReadRemote (Inr (Inr empty_data)),
    DidWrite (WriteLocal sample_marked) (Inr None), DidWrite (WriteRemote sample_clear) (Inr None),
    DidWrite (WriteLocal sample_clear) (Inr None)] (Finish (write_result sample_merged sample_clear False))"
  using play_ran[of "performSyncCycle sample_io" "sample_ports (Inr None)"]
  by (simp add: sample_play sample_writes Let_def ended_def flip: sample_marked_def)
     (simp add: sample_clear_def)

lemma sample_stamp: "valid_stamp (Some (ci_now sample_io))"
  by (simp add: valid_stamp_def sample_now)


theorem cycle_terminates_witness:
  "length [DidRead ReadLocal (Inr (Inr empty_data)), DidRead ReadRemote (Inr (Inr empty_data)),
    DidWrite (WriteLocal sample_marked) (Inr None), DidWrite (WriteRemote sample_clear) (Inl offline),
    DidWrite (WriteLocal sample_retry) (Inr None)] \<le> 9"
  using cycle_terminates[of sample_io "sample_ports (Inr None)"] offline_ran by blast


theorem backoff_skips_cycle_witness:
  "\<exists>x. ran (performSyncCycle sample_io) [DidRead ReadLocal (Inr (Inr sample_retry))] (Finish (skipped_result x 5000))"
proof -
  have p: "hasPendingRemoteWriteFlag sample_retry"
    by (simp add: sample_retry_def sample_marked_def sample_stamp)
  have n: "getPendingRemoteWriteAttemptCount sample_marked = 0"
    by (simp add: sample_marked_def getPendingRemoteWriteAttemptCount_def withPendingRemoteWriteFlag_def with_settings_def)
  have b: "getPendingRemoteWriteBlockedMs sample_retry (ci_now sample_io) = 5000"
    using sample_now n unfolding sample_retry_def
    by (subst retry_wait[OF sample_now])
       (simp_all add: max_time_def retry_backoff_ms_def PENDING_REMOTE_WRITE_RETRY_MAX_MS_def PENDING_REMOTE_WRITE_RETRY_BASE_MS_def)
  obtain c where c: "ran (performSyncCycle sample_io) [DidRead ReadLocal (Inr (Inr sample_retry))] c"
    unfolding performSyncCycle_def read_local_def by (auto simp: ran_Read)
  show ?thesis using backoff_skips_cycle[OF p _ c] b c by auto
qed

theorem retry_backoff_bounds_witness:
  "5000 \<le> getPendingRemoteWriteBlockedMs sample_retry (ci_now sample_io)
   \<and> getPendingRemoteWriteBlockedMs sample_retry (ci_now sample_io) \<le> 300000"
  using retry_backoff_bounds[OF sample_now, of 0 sample_marked offline empty_data]
  by (simp add: max_time_def sample_retry_def)


theorem result_is_published_witness: "\<not> hasPendingRemoteWriteFlag sample_clear"
  using result_is_published[OF healthy_ran] by (auto simp: write_result_def)

theorem only_valid_documents_written_witness: "validateMergedSyncData sample_clear = []"
  using only_valid_documents_written[OF healthy_ran, of "DidWrite (WriteRemote sample_clear) (Inr None)" sample_clear]
  by simp

theorem unchanged_failure_not_held_back_witness:
  "\<exists>x k. 5000 \<le> getPendingRemoteWriteBlockedMs x (ci_now sample_io)
     \<and> ran (performSyncCycle sample_io) [DidRead ReadLocal (Inr (Inr x))] (Read ReadRemote k)"
  using unchanged_failure_not_held_back[OF sample_now _ sample_unmarked offline_not_abort refl]
  by (simp add: max_time_def) blast

end
