(* ===== verification/SyncExecutor.thy ===== *)
theory SyncExecutor
  imports Prelude
begin

text \<open>
  \<open>createSyncCycleExecutor\<close> of \<open>sync-cycle.ts\<close>: cycles run one at a time, in the order of their
  calls. Promises are numbers, the settled ones are a list; a call holds the promise it awaits
  and the one it releases, and the executor holds the promise of the last call. The events are the
  moments JavaScript runs code of the executor: a call, the resumption after the awaited promise,
  and the \<open>finally\<close> block, which a rejected operation reaches as a fulfilled one does.
\<close>

datatype phase = Waiting | Running | Settled

record executor_call =
  xc_previous :: nat
  xc_current :: nat
  xc_phase :: phase

record executor =
  ex_mutex :: nat
  ex_resolved :: "nat list"
  ex_next :: nat
  ex_calls :: "executor_call list"

datatype executor_event = Enter | Resume nat | Leave nat

definition createSyncCycleExecutor :: executor where
  "createSyncCycleExecutor = \<lparr>ex_mutex = 0, ex_resolved = [0], ex_next = 1, ex_calls = []\<rparr>"

definition set_phase :: "nat \<Rightarrow> phase \<Rightarrow> executor \<Rightarrow> executor" where
  "set_phase i ph x = x\<lparr>ex_calls := (ex_calls x)[i := (ex_calls x ! i)\<lparr>xc_phase := ph\<rparr>]\<rparr>"

definition in_phase :: "executor \<Rightarrow> phase \<Rightarrow> nat \<Rightarrow> bool" where
  "in_phase x ph i = (i < length (ex_calls x) \<and> xc_phase (ex_calls x ! i) = ph)"

definition enter_call :: "executor \<Rightarrow> executor" where
  "enter_call x = x\<lparr>ex_mutex := ex_next x, ex_next := ex_next x + 1,
     ex_calls := ex_calls x @ [\<lparr>xc_previous = ex_mutex x, xc_current = ex_next x, xc_phase = Waiting\<rparr>]\<rparr>"

definition release_call :: "nat \<Rightarrow> executor \<Rightarrow> executor" where
  "release_call i x =
     (let current = xc_current (ex_calls x ! i);
          y = (set_phase i Settled x)\<lparr>ex_resolved := current # ex_resolved x\<rparr>
      in if ex_mutex x = current
         then y\<lparr>ex_mutex := ex_next x, ex_resolved := ex_next x # ex_resolved y, ex_next := ex_next x + 1\<rparr>
         else y)"

fun executor_step :: "executor \<Rightarrow> executor_event \<Rightarrow> executor option" where
  "executor_step x Enter = Some (enter_call x)"
| "executor_step x (Resume i) =
     (if in_phase x Waiting i \<and> xc_previous (ex_calls x ! i) \<in> set (ex_resolved x)
      then Some (set_phase i Running x) else None)"
| "executor_step x (Leave i) = (if in_phase x Running i then Some (release_call i x) else None)"

inductive executor_reachable :: "executor \<Rightarrow> bool" where
  executor_init: "executor_reachable createSyncCycleExecutor"
| executor_next: "executor_reachable x \<Longrightarrow> executor_step x e = Some y \<Longrightarrow> executor_reachable y"

text \<open>The calls not settled yet, in the order they were made.\<close>

definition pending_calls :: "executor \<Rightarrow> nat list" where
  "pending_calls x = filter (\<lambda>i. \<not> in_phase x Settled i) [0..<length (ex_calls x)]"

subsection \<open>The invariant\<close>

definition call_at :: "executor \<Rightarrow> nat \<Rightarrow> executor_call" where "call_at x i = ex_calls x ! i"

definition chained :: "executor \<Rightarrow> nat \<Rightarrow> bool" where
  "chained x k = ((k > 0 \<and> xc_previous (call_at x k) = xc_current (call_at x (k - 1)))
     \<or> (xc_previous (call_at x k) \<in> set (ex_resolved x) \<and> (\<forall>j<k. xc_phase (call_at x j) = Settled)))"

definition executor_inv :: "executor \<Rightarrow> bool" where
  "executor_inv x =
     ((\<forall>k<length (ex_calls x). xc_current (call_at x k) < ex_next x
          \<and> (xc_current (call_at x k) \<in> set (ex_resolved x)) = (xc_phase (call_at x k) = Settled)
          \<and> (xc_phase (call_at x k) \<noteq> Waiting \<longrightarrow> xc_previous (call_at x k) \<in> set (ex_resolved x))
          \<and> chained x k)
      \<and> (\<forall>j<length (ex_calls x). \<forall>k<j. xc_current (call_at x k) \<noteq> xc_current (call_at x j))
      \<and> (\<forall>r\<in>set (ex_resolved x). r < ex_next x)
      \<and> (if \<forall>k<length (ex_calls x). xc_phase (call_at x k) = Settled
         then ex_mutex x \<in> set (ex_resolved x)
         else ex_mutex x = xc_current (call_at x (length (ex_calls x) - 1))
              \<and> xc_phase (call_at x (length (ex_calls x) - 1)) \<noteq> Settled))"

lemma started_in_order:
  assumes "executor_inv x" and "k < length (ex_calls x)" and "xc_phase (call_at x k) \<noteq> Waiting" and "j < k"
  shows "xc_phase (call_at x j) = Settled"
  using assms(2,3,4)
proof (induction k)
  case (Suc k)
  have k: "k < length (ex_calls x)" using Suc.prems by simp
  have p: "xc_previous (call_at x (Suc k)) \<in> set (ex_resolved x)" and c: "chained x (Suc k)"
    using assms(1) Suc.prems unfolding executor_inv_def by blast+
  show ?case
  proof (cases "xc_previous (call_at x (Suc k)) = xc_current (call_at x k)")
    case True
    then have "xc_phase (call_at x k) = Settled"
      using p k assms(1) unfolding executor_inv_def by auto
    then show ?thesis using Suc.IH[OF k] Suc.prems(3) by (cases "j = k") auto
  next
    case False
    then show ?thesis using c Suc.prems(3) by (auto simp: chained_def)
  qed
qed simp


lemma call_at_set_phase [simp]:
  "i < length (ex_calls x) \<Longrightarrow> call_at (set_phase i ph x) k = (if k = i then (call_at x i)\<lparr>xc_phase := ph\<rparr> else call_at x k)"
  by (simp add: call_at_def set_phase_def nth_list_update)

lemma set_phase_simps [simp]:
  "length (ex_calls (set_phase i ph x)) = length (ex_calls x)" "ex_mutex (set_phase i ph x) = ex_mutex x"
  "ex_resolved (set_phase i ph x) = ex_resolved x" "ex_next (set_phase i ph x) = ex_next x"
  by (simp_all add: set_phase_def)

lemma call_at_enter:
  "call_at (enter_call x) k = (if k < length (ex_calls x) then call_at x k
     else \<lparr>xc_previous = ex_mutex x, xc_current = ex_next x, xc_phase = Waiting\<rparr>)"
  if "k \<le> length (ex_calls x)"
  using that by (simp add: call_at_def enter_call_def nth_append)

lemma inv_enter:
  assumes "executor_inv x"
  shows "executor_inv (enter_call x)"
proof -
  let ?n = "length (ex_calls x)"
  have len: "length (ex_calls (enter_call x)) = Suc ?n" by (simp add: enter_call_def)
  have flds: "ex_resolved (enter_call x) = ex_resolved x" "ex_next (enter_call x) = Suc (ex_next x)"
    "ex_mutex (enter_call x) = ex_next x" by (simp_all add: enter_call_def)
  have new: "chained (enter_call x) ?n"
    using assms unfolding executor_inv_def chained_def
    by (cases "\<forall>k<?n. xc_phase (call_at x k) = Settled") (auto simp: call_at_enter flds)
  have old: "chained (enter_call x) k" if "k < ?n" for k
    using assms that unfolding executor_inv_def chained_def by (auto simp: call_at_enter flds)
  have fresh: "ex_next x \<notin> set (ex_resolved x)" using assms unfolding executor_inv_def by auto
  show ?thesis
    unfolding executor_inv_def len flds
    using assms new old fresh unfolding executor_inv_def
    by (auto simp: call_at_enter less_Suc_eq split: if_splits)
qed

lemma chained_resume:
  assumes "chained x k" and "i < length (ex_calls x)" and "xc_phase (call_at x i) = Waiting"
  shows "chained (set_phase i Running x) k"
proof -
  have "xc_previous (call_at (set_phase i Running x) j) = xc_previous (call_at x j)
      \<and> xc_current (call_at (set_phase i Running x) j) = xc_current (call_at x j)
      \<and> (xc_phase (call_at x j) = Settled \<longrightarrow> xc_phase (call_at (set_phase i Running x) j) = Settled)" for j
    using assms(2,3) by simp
  then show ?thesis using assms(1) unfolding chained_def by simp blast
qed

lemma inv_resume:
  assumes "executor_inv x" and "in_phase x Waiting i" and "xc_previous (ex_calls x ! i) \<in> set (ex_resolved x)"
  shows "executor_inv (set_phase i Running x)"
proof -
  have i: "i < length (ex_calls x)" "xc_phase (call_at x i) = Waiting" "xc_previous (call_at x i) \<in> set (ex_resolved x)"
    using assms(2,3) by (simp_all add: in_phase_def call_at_def)
  have ph: "(xc_phase (call_at (set_phase i Running x) k) = Settled) = (xc_phase (call_at x k) = Settled)"
    "xc_current (call_at (set_phase i Running x) k) = xc_current (call_at x k)"
    "xc_phase (call_at (set_phase i Running x) k) \<noteq> Waiting \<longleftrightarrow> k = i \<or> xc_phase (call_at x k) \<noteq> Waiting"
    "xc_previous (call_at (set_phase i Running x) k) = xc_previous (call_at x k)" for k
    using i by simp_all
  have ch: "chained (set_phase i Running x) k" if "k < length (ex_calls x)" for k
    using assms(1) that i chained_resume unfolding executor_inv_def by blast
  show ?thesis
    using assms(1) i(3) ch unfolding executor_inv_def ph set_phase_simps by (elim conjE, intro conjI) blast+
qed

lemma call_at_release [simp]:
  assumes "i < length (ex_calls x)"
  shows "call_at (release_call i x) k = (if k = i then (call_at x i)\<lparr>xc_phase := Settled\<rparr> else call_at x k)"
    and "length (ex_calls (release_call i x)) = length (ex_calls x)"
  using assms by (simp_all add: release_call_def Let_def set_phase_def call_at_def nth_list_update)

lemma resolved_release:
  "set (ex_resolved (release_call i x)) = insert (xc_current (call_at x i)) (set (ex_resolved x)) \<union>
     (if ex_mutex x = xc_current (call_at x i) then {ex_next x} else {})"
  "ex_next (release_call i x) = ex_next x + (if ex_mutex x = xc_current (call_at x i) then 1 else 0)"
  "ex_mutex (release_call i x) = (if ex_mutex x = xc_current (call_at x i) then ex_next x else ex_mutex x)"
  by (auto simp: release_call_def Let_def call_at_def)

lemma inv_leave:
  assumes inv: "executor_inv x" and "in_phase x Running i"
  shows "executor_inv (release_call i x)"
proof -
  let ?n = "length (ex_calls x)" and ?y = "release_call i x"
  have i: "i < ?n" "xc_phase (call_at x i) = Running"
    using assms(2) by (simp_all add: in_phase_def call_at_def)
  have before: "xc_phase (call_at x j) = Settled" if "j < i" for j
    using started_in_order[OF inv i(1) _ that] i by simp
  have ph: "(xc_phase (call_at ?y k) = Settled) = (k = i \<or> xc_phase (call_at x k) = Settled)"
    "xc_current (call_at ?y k) = xc_current (call_at x k)"
    "(xc_phase (call_at ?y k) \<noteq> Waiting) = (xc_phase (call_at x k) \<noteq> Waiting)"
    "xc_previous (call_at ?y k) = xc_previous (call_at x k)" for k
    using i by simp_all
  have cur: "xc_current (call_at x k) < ex_next x" "(xc_current (call_at x k) = xc_current (call_at x i)) = (k = i)" if "k < ?n" for k
    using inv i(1) that unfolding executor_inv_def by (blast, metis linorder_cases)
  have sub: "set (ex_resolved x) \<subseteq> set (ex_resolved ?y)" by (auto simp: resolved_release)
  have ch: "chained ?y k" if "k < ?n" for k
  proof -
    have "chained x k" using inv that unfolding executor_inv_def by blast
    then show ?thesis using sub unfolding chained_def ph by blast
  qed
  have mutex: "ex_mutex x = xc_current (call_at x (?n - 1))" "xc_phase (call_at x (?n - 1)) \<noteq> Settled"
    using inv i unfolding executor_inv_def by (auto split: if_splits)
  have last: "ex_mutex x = xc_current (call_at x i) \<longleftrightarrow> i = ?n - 1"
    using cur(2)[of "?n - 1"] i(1) mutex(1) by auto
  have all: "(\<forall>k<?n. xc_phase (call_at ?y k) = Settled) \<longleftrightarrow> i = ?n - 1"
    unfolding ph using before i(1) mutex(2) by (metis One_nat_def Suc_pred less_Suc_eq gr_implies_not0 neq0_conv)
  show ?thesis
    unfolding executor_inv_def call_at_release(2)[OF i(1)]
  proof (intro conjI allI impI)
    fix k assume k: "k < ?n"
    show "xc_current (call_at ?y k) < ex_next ?y" using cur(1)[OF k] unfolding ph resolved_release by simp
    show "(xc_current (call_at ?y k) \<in> set (ex_resolved ?y)) = (xc_phase (call_at ?y k) = Settled)"
      using inv k cur[OF k] unfolding ph resolved_release executor_inv_def by auto
    show "chained ?y k" by (rule ch[OF k])
    assume "xc_phase (call_at ?y k) \<noteq> Waiting"
    then show "xc_previous (call_at ?y k) \<in> set (ex_resolved ?y)"
      using inv k sub unfolding ph executor_inv_def by blast
  next
    fix j k assume "j < ?n" "k < j"
    then show "xc_current (call_at ?y k) \<noteq> xc_current (call_at ?y j)" using inv unfolding ph executor_inv_def by blast
  next
    show "\<forall>r\<in>set (ex_resolved ?y). r < ex_next ?y"
      using inv cur(1)[OF i(1)] unfolding resolved_release executor_inv_def by (auto simp: less_Suc_eq)
  next
    show "if \<forall>k<?n. xc_phase (call_at ?y k) = Settled then ex_mutex ?y \<in> set (ex_resolved ?y)
      else ex_mutex ?y = xc_current (call_at ?y (?n - 1)) \<and> xc_phase (call_at ?y (?n - 1)) \<noteq> Settled"
      unfolding all ph(2) using mutex last by (auto simp: resolved_release ph(1))
  qed
qed

lemma reachable_inv: "executor_reachable x \<Longrightarrow> executor_inv x"
proof (induction rule: executor_reachable.induct)
  case executor_init
  then show ?case by (simp add: executor_inv_def createSyncCycleExecutor_def)
next
  case (executor_next x e y)
  then show ?case
    by (cases e) (auto simp: inv_enter inv_resume inv_leave split: if_splits)
qed

subsection \<open>One cycle at a time, in order\<close>

lemma started_settles_before:
  assumes "executor_reachable x" and "in_phase x ph k" and "ph \<noteq> Waiting" and "j < k"
  shows "in_phase x Settled j"
  using started_in_order[OF reachable_inv[OF assms(1)], of k j] assms(2-4)
  by (auto simp: in_phase_def call_at_def)

lemma first_pending:
  assumes "k < length (ex_calls x)" and "\<not> in_phase x Settled k" and "\<forall>j<k. in_phase x Settled j"
  shows "\<exists>rest. pending_calls x = k # rest"
proof -
  have "[0..<length (ex_calls x)] = [0..<k] @ k # [Suc k..<length (ex_calls x)]"
    using assms(1) by (metis upt_add_eq_append upt_conv_Cons le_add_diff_inverse less_imp_le zero_le)
  moreover have "filter (\<lambda>i. \<not> in_phase x Settled i) [0..<k] = []" using assms(3) by (simp add: filter_empty_conv)
  ultimately show ?thesis using assms(2) by (simp add: pending_calls_def)
qed

lemma settled_before_head:
  assumes "pending_calls x \<noteq> []" and "j < hd (pending_calls x)"
  shows "in_phase x Settled j"
proof (rule ccontr)
  assume "\<not> in_phase x Settled j"
  moreover have "hd (pending_calls x) < length (ex_calls x)"
    using hd_in_set[OF assms(1)] by (auto simp: pending_calls_def)
  ultimately have "j \<in> set (pending_calls x)" using assms(2) by (simp add: pending_calls_def)
  moreover have "sorted (pending_calls x)" unfolding pending_calls_def by (rule sorted_wrt_filter) simp
  ultimately have "hd (pending_calls x) \<le> j" by (cases "pending_calls x") auto
  then show False using assms(2) by simp
qed

text \<open>The promise a call awaits is settled exactly when every earlier call is.\<close>

lemma awaited_settled:
  assumes inv: "executor_inv x" and k: "k < length (ex_calls x)"
  shows "xc_previous (call_at x k) \<in> set (ex_resolved x) \<longleftrightarrow> (\<forall>j<k. in_phase x Settled j)"
proof
  assume all: "\<forall>j<k. in_phase x Settled j"
  have "chained x k" using inv k unfolding executor_inv_def by blast
  moreover have "xc_current (call_at x (k - 1)) \<in> set (ex_resolved x)" if "k > 0"
    using all[rule_format, of "k - 1"] that k inv unfolding executor_inv_def in_phase_def call_at_def by auto
  ultimately show "xc_previous (call_at x k) \<in> set (ex_resolved x)" by (auto simp: chained_def)
next
  assume prev: "xc_previous (call_at x k) \<in> set (ex_resolved x)"
  have "xc_phase (call_at x j) = Settled" if "j < k" for j
  proof (cases "xc_previous (call_at x k) = xc_current (call_at x (k - 1)) \<and> k > 0")
    case True
    then have "xc_phase (call_at x (k - 1)) = Settled" using prev inv k unfolding executor_inv_def by auto
    then show ?thesis using started_in_order[OF inv, of "k - 1" j] that k True by (cases "j = k - 1") auto
  next
    case False
    then show ?thesis using inv k that unfolding executor_inv_def chained_def by blast
  qed
  then show "\<forall>j<k. in_phase x Settled j" using k by (auto simp: in_phase_def call_at_def)
qed

lemma executor_head:
  "executor_reachable x \<Longrightarrow> in_phase x Running k \<Longrightarrow> \<exists>rest. pending_calls x = k # rest"
  using first_pending[of k x] started_settles_before[of x Running k] by (auto simp: in_phase_def)

text \<open>
  C29: at most one operation runs at any time, operations start in the order of their calls and
  only after every earlier one has settled, and the executor never blocks: while a call is
  pending, the first pending one is running or can start.
\<close>

theorem executor_runs_one_in_order:
  assumes "executor_reachable x"
  shows "(in_phase x Running i \<longrightarrow> in_phase x Running j \<longrightarrow> i = j)
     \<and> (in_phase x Running i \<longrightarrow> (\<exists>rest. pending_calls x = i # rest))
     \<and> (\<forall>y. executor_step x (Resume i) = Some y \<longrightarrow> (\<exists>rest. pending_calls x = i # rest))
     \<and> (pending_calls x \<noteq> [] \<longrightarrow>
          in_phase x Running (hd (pending_calls x)) \<or> executor_step x (Resume (hd (pending_calls x))) \<noteq> None)"
proof -
  note awaited = awaited_settled[OF reachable_inv[OF assms]]
  have run: "\<exists>rest. pending_calls x = k # rest" if "in_phase x Running k" for k
    by (rule executor_head[OF assms that])
  have resume: "\<exists>rest. pending_calls x = k # rest" if "executor_step x (Resume k) = Some y" for k y
    using first_pending[of k] awaited[of k] that by (auto simp: in_phase_def call_at_def split: if_splits)
  have progress: "in_phase x Running (hd (pending_calls x)) \<or> executor_step x (Resume (hd (pending_calls x))) \<noteq> None"
    if ne: "pending_calls x \<noteq> []"
  proof -
    have h: "hd (pending_calls x) < length (ex_calls x)" "\<not> in_phase x Settled (hd (pending_calls x))"
      using hd_in_set[OF ne] by (auto simp: pending_calls_def)
    then have "xc_previous (call_at x (hd (pending_calls x))) \<in> set (ex_resolved x)"
      using awaited settled_before_head[OF ne] by blast
    then show ?thesis
      using h by (cases "xc_phase (call_at x (hd (pending_calls x)))") (auto simp: in_phase_def call_at_def)
  qed
  show ?thesis using run resume progress by (metis list.inject)
qed

text \<open>
  C30: the executor implements a first-in first-out queue: a call joins its end, starting an
  operation leaves it alone, and an operation that ends, whether it succeeded or failed, leaves
  from its front.
\<close>

theorem executor_refines_queue:
  assumes "executor_reachable x" and "executor_step x e = Some y"
  shows "case e of Enter \<Rightarrow> pending_calls y = pending_calls x @ [length (ex_calls x)]
       | Resume i \<Rightarrow> pending_calls y = pending_calls x
       | Leave i \<Rightarrow> pending_calls x = i # pending_calls y"
proof (cases e)
  case Enter
  then have "y = enter_call x" using assms(2) by simp
  moreover have "in_phase (enter_call x) Settled k = in_phase x Settled k" if "k < length (ex_calls x)" for k
    using that by (simp add: in_phase_def enter_call_def nth_append)
  then have "filter (\<lambda>k. \<not> in_phase (enter_call x) Settled k) [0..<length (ex_calls x)] = pending_calls x"
    unfolding pending_calls_def by (intro filter_cong) auto
  ultimately show ?thesis using Enter
    by (simp add: pending_calls_def[of "enter_call x"]) (simp add: enter_call_def in_phase_def)
next
  case (Resume i)
  then have "y = set_phase i Running x" "in_phase x Waiting i" using assms(2) by (simp_all split: if_splits)
  then show ?thesis using Resume
    by (auto simp: pending_calls_def in_phase_def set_phase_def nth_list_update intro!: filter_cong)
next
  case (Leave i)
  then have y: "y = release_call i x" and run: "in_phase x Running i" using assms(2) by (simp_all split: if_splits)
  have i: "i < length (ex_calls x)" using run by (simp add: in_phase_def)
  obtain rest where rest: "pending_calls x = i # rest"
    using executor_head[OF assms(1) run] by blast
  have "in_phase y Settled k = (k = i \<or> in_phase x Settled k)" if "k < length (ex_calls x)" for k
    using that i call_at_release[OF i] unfolding y in_phase_def by (simp add: call_at_def)
  then have "pending_calls y = filter (\<lambda>k. k \<noteq> i) (pending_calls x)"
    unfolding pending_calls_def filter_filter using call_at_release(2)[OF i] y by (intro filter_cong) auto
  moreover have "distinct (pending_calls x)" by (simp add: pending_calls_def)
  ultimately have "pending_calls y = rest" unfolding rest by (auto intro: filter_True)
  then show ?thesis using Leave rest by simp
qed

definition sample_executor :: "executor option" where
  "sample_executor = Option.bind (executor_step createSyncCycleExecutor Enter) (\<lambda>x.
     Option.bind (executor_step x Enter) (\<lambda>y. executor_step y (Resume 0)))"

theorem executor_runs_one_in_order_witness:
  "case sample_executor of None \<Rightarrow> False
   | Some x \<Rightarrow> in_phase x Running 0 \<and> (\<exists>rest. pending_calls x = 0 # rest) \<and> executor_step x (Resume 1) = None"
proof -
  obtain x where x: "sample_executor = Some x" "in_phase x Running 0" "executor_step x (Resume 1) = None"
    by (simp add: sample_executor_def createSyncCycleExecutor_def enter_call_def in_phase_def set_phase_def)
  then have "executor_reachable x"
    unfolding sample_executor_def bind_eq_Some_conv by (meson executor_init executor_next)
  then show ?thesis unfolding x(1) option.case using executor_runs_one_in_order[of x 0 0] x(2,3) by blast
qed

theorem executor_refines_queue_witness:
  "case sample_executor of None \<Rightarrow> False
   | Some x \<Rightarrow> (case executor_step x (Leave 0) of None \<Rightarrow> False
       | Some y \<Rightarrow> pending_calls x = 0 # pending_calls y \<and> executor_step y (Resume 1) \<noteq> None)"
proof -
  obtain x y where x: "sample_executor = Some x" "executor_step x (Leave 0) = Some y" "executor_step y (Resume 1) \<noteq> None"
    by (simp add: sample_executor_def createSyncCycleExecutor_def enter_call_def in_phase_def set_phase_def
        release_call_def Let_def)
  then have "executor_reachable x"
    unfolding sample_executor_def bind_eq_Some_conv by (meson executor_init executor_next)
  then show ?thesis unfolding x(1,2) option.case using executor_refines_queue[OF _ x(2)] x(3) by simp
qed

end
