(* ===== verification/SyncOrchestrator.thy ===== *)
theory SyncOrchestrator
  imports Prelude
begin

text \<open>
  \<open>createSyncOrchestrator\<close> of \<open>sync-orchestrator.ts\<close>: one cycle in flight, requests made meanwhile
  coalesced into one follow-up that runs when the cycle has settled, at once or after a delay.
  The closure's variables are a record; promises and timers are numbers. A function of the model
  runs the code of one call or callback and records, in order, what it does to the outside: cycles
  started, timers armed and cancelled, observers called. \<open>None\<close> is an \<open>undefined\<close> argument.
\<close>

record 'a running_cycle =
  rc_id :: nat
  rc_arg :: "'a option"
  rc_startedAt :: int

datatype 'a effect =
    StartCycle "'a running_cycle"
  | ArmTimer nat int
  | CancelTimer nat
  | QueueStateChange bool
  | Drained

record 'a orchestrator =
  so_inFlight :: "nat option"
  so_queued :: bool
  so_queuedArg :: "'a option"
  so_timer :: "(nat \<times> 'a option) option"
  so_minDelay :: int
  so_next :: nat
  so_effects :: "'a effect list"

definition createSyncOrchestrator :: "'a orchestrator" where
  "createSyncOrchestrator = \<lparr>so_inFlight = None, so_queued = False, so_queuedArg = None, so_timer = None,
     so_minDelay = 0, so_next = 0, so_effects = []\<rparr>"

definition emit :: "'a effect \<Rightarrow> 'a orchestrator \<Rightarrow> 'a orchestrator" where
  "emit e s = s\<lparr>so_effects := so_effects s @ [e]\<rparr>"

definition cancel_follow_up_timer :: "'a orchestrator \<Rightarrow> 'a orchestrator" where
  "cancel_follow_up_timer s =
     (case so_timer s of None \<Rightarrow> s | Some (i, _) \<Rightarrow> emit (CancelTimer i) (s\<lparr>so_timer := None\<rparr>))"

definition set_queued :: "bool \<Rightarrow> 'a orchestrator \<Rightarrow> 'a orchestrator" where
  "set_queued nx s = (if so_queued s = nx then s else emit (QueueStateChange nx) (s\<lparr>so_queued := nx\<rparr>))"

definition note_arg :: "'a option \<Rightarrow> 'a orchestrator \<Rightarrow> 'a orchestrator" where
  "note_arg nextArg s = (if nextArg = None then s else s\<lparr>so_queuedArg := nextArg\<rparr>)"

definition request_follow_up :: "'a option \<Rightarrow> 'a orchestrator \<Rightarrow> 'a orchestrator" where
  "request_follow_up nextArg s = set_queued True (note_arg nextArg s)"

definition request_follow_up_after :: "int \<Rightarrow> 'a option \<Rightarrow> 'a orchestrator \<Rightarrow> 'a orchestrator" where
  "request_follow_up_after delayMs nextArg s =
     (let s1 = note_arg nextArg s
      in set_queued True (s1\<lparr>so_minDelay := max (so_minDelay s1) (max 0 delayMs)\<rparr>))"

definition clear_follow_up :: "'a orchestrator \<Rightarrow> 'a orchestrator" where
  "clear_follow_up s = set_queued False ((cancel_follow_up_timer s)\<lparr>so_queuedArg := None, so_minDelay := 0\<rparr>)"

definition reset_orchestrator :: "'a orchestrator \<Rightarrow> 'a orchestrator" where
  "reset_orchestrator s =
     set_queued False ((cancel_follow_up_timer s)\<lparr>so_inFlight := None, so_queuedArg := None, so_minDelay := 0\<rparr>)"

definition run_cycle :: "int \<Rightarrow> 'a option \<Rightarrow> 'a orchestrator \<Rightarrow> 'a orchestrator" where
  "run_cycle now arg s =
     (if so_inFlight s \<noteq> None then request_follow_up arg s
      else (let s1 = set_queued False (cancel_follow_up_timer s);
                c = \<lparr>rc_id = so_next s1, rc_arg = arg, rc_startedAt = now\<rparr>
            in emit (StartCycle c)
                 (s1\<lparr>so_queuedArg := None, so_inFlight := Some (so_next s1), so_next := so_next s1 + 1\<rparr>)))"

text \<open>The controls a cycle is given fall back to its own argument.\<close>

definition control_follow_up :: "'a running_cycle \<Rightarrow> 'a option \<Rightarrow> 'a orchestrator \<Rightarrow> 'a orchestrator" where
  "control_follow_up c nextArg s = request_follow_up (js_nullish nextArg (rc_arg c)) s"

definition control_follow_up_after :: "'a running_cycle \<Rightarrow> int \<Rightarrow> 'a option \<Rightarrow> 'a orchestrator \<Rightarrow> 'a orchestrator" where
  "control_follow_up_after c delayMs nextArg s = request_follow_up_after delayMs (js_nullish nextArg (rc_arg c)) s"

definition start_queued_run :: "int \<Rightarrow> 'a option \<Rightarrow> 'a orchestrator \<Rightarrow> 'a orchestrator" where
  "start_queued_run now cycleArg s =
     (let s1 = s\<lparr>so_timer := None\<rparr>
      in if so_inFlight s1 \<noteq> None \<or> \<not> so_queued s1 then s1
         else run_cycle now (js_nullish (so_queuedArg s1) cycleArg) ((set_queued False s1)\<lparr>so_queuedArg := None\<rparr>))"

text \<open>The \<open>finally\<close> handler: the cycle \<open>c\<close> has settled. \<open>followDelay\<close> is the option \<open>getFollowUpDelayMs\<close>.\<close>

definition follow_up_delay :: "(int \<Rightarrow> int \<Rightarrow> int) option \<Rightarrow> int \<Rightarrow> int \<Rightarrow> int" where
  "follow_up_delay followDelay duration minDelay =
     max (case followDelay of None \<Rightarrow> 0 | Some f \<Rightarrow> f duration minDelay) minDelay"

definition cycle_settled ::
  "(int \<Rightarrow> int \<Rightarrow> int) option \<Rightarrow> int \<Rightarrow> 'a running_cycle \<Rightarrow> 'a orchestrator \<Rightarrow> 'a orchestrator" where
  "cycle_settled followDelay now c s =
     (if so_inFlight s \<noteq> Some (rc_id c) then s
      else (let s1 = s\<lparr>so_inFlight := None\<rparr>
            in if \<not> so_queued s1 then emit Drained s1
               else (let delay = follow_up_delay followDelay (now - rc_startedAt c) (so_minDelay s1);
                         s2 = s1\<lparr>so_minDelay := 0\<rparr>
                     in if delay > 0
                        then emit (ArmTimer (so_next s2) delay)
                               (s2\<lparr>so_timer := Some (so_next s2, rc_arg c), so_next := so_next s2 + 1\<rparr>)
                        else start_queued_run now (rc_arg c) s2)))"

definition timer_fires :: "int \<Rightarrow> nat \<Rightarrow> 'a orchestrator \<Rightarrow> 'a orchestrator" where
  "timer_fires now i s =
     (case so_timer s of Some (j, cycleArg) \<Rightarrow> if i = j then start_queued_run now cycleArg s else s | None \<Rightarrow> s)"

subsection \<open>Executions\<close>

fun cycles_in :: "'a effect list \<Rightarrow> 'a running_cycle list" where
  "cycles_in [] = []"
| "cycles_in (StartCycle c # es) = c # cycles_in es"
| "cycles_in (_ # es) = cycles_in es"

definition live_cycles :: "'a orchestrator \<Rightarrow> 'a running_cycle set \<Rightarrow> 'a running_cycle set" where
  "live_cycles s over = set (cycles_in (so_effects s)) - over"

text \<open>
  What can happen after creation: anyone calls an operation of the interface, a cycle that was
  started uses its controls (even once it is over), it settles, a timer fires. \<open>over\<close> collects the
  cycles that have settled or that a \<open>reset\<close> abandoned; \<open>idle\<close> tells that a follow-up was requested
  with no cycle in flight and no timer armed, and nothing has consumed it since.
\<close>

definition at_rest :: "'a orchestrator \<Rightarrow> bool" where
  "at_rest s = (so_inFlight s = None \<and> so_timer s = None)"

inductive orchestrated ::
  "(int \<Rightarrow> int \<Rightarrow> int) option \<Rightarrow> 'a orchestrator \<Rightarrow> 'a running_cycle set \<Rightarrow> bool \<Rightarrow> bool" for fd where
  or_create: "orchestrated fd createSyncOrchestrator {} False"
| or_run: "orchestrated fd s over idle \<Longrightarrow> orchestrated fd (run_cycle now arg s) over False"
| or_request: "orchestrated fd s over idle \<Longrightarrow>
    orchestrated fd (request_follow_up nextArg s) over (idle \<or> at_rest s)"
| or_request_after: "orchestrated fd s over idle \<Longrightarrow>
    orchestrated fd (request_follow_up_after delayMs nextArg s) over (idle \<or> at_rest s)"
| or_control: "orchestrated fd s over idle \<Longrightarrow> c \<in> set (cycles_in (so_effects s)) \<Longrightarrow>
    orchestrated fd (control_follow_up c nextArg s) over (idle \<or> at_rest s)"
| or_control_after: "orchestrated fd s over idle \<Longrightarrow> c \<in> set (cycles_in (so_effects s)) \<Longrightarrow>
    orchestrated fd (control_follow_up_after c delayMs nextArg s) over (idle \<or> at_rest s)"
| or_clear: "orchestrated fd s over idle \<Longrightarrow> orchestrated fd (clear_follow_up s) over False"
| or_reset: "orchestrated fd s over idle \<Longrightarrow>
    orchestrated fd (reset_orchestrator s) (over \<union> live_cycles s over) False"
| or_settle: "orchestrated fd s over idle \<Longrightarrow> c \<in> set (cycles_in (so_effects s)) \<Longrightarrow>
    orchestrated fd (cycle_settled fd now c s) (insert c over) idle"
| or_timer: "orchestrated fd s over idle \<Longrightarrow> orchestrated fd (timer_fires now i s) over idle"

lemma cycles_in_append [simp]: "cycles_in (xs @ ys) = cycles_in xs @ cycles_in ys"
  by (induction xs rule: cycles_in.induct) simp_all

lemmas orchestrator_defs = emit_def cancel_follow_up_timer_def set_queued_def note_arg_def request_follow_up_def
  request_follow_up_after_def clear_follow_up_def reset_orchestrator_def run_cycle_def control_follow_up_def
  control_follow_up_after_def start_queued_run_def cycle_settled_def timer_fires_def Let_def

definition flight_inv :: "'a orchestrator \<Rightarrow> 'a running_cycle set \<Rightarrow> bool \<Rightarrow> bool" where
  "flight_inv s over idle =
     ((case so_inFlight s of None \<Rightarrow> live_cycles s over = {}
       | Some i \<Rightarrow> \<exists>c. rc_id c = i \<and> live_cycles s over = {c})
      \<and> (\<forall>c\<in>set (cycles_in (so_effects s)) \<union> over. rc_id c < so_next s)
      \<and> inj_on rc_id (set (cycles_in (so_effects s)))
      \<and> (so_timer s \<noteq> None \<longrightarrow> so_inFlight s = None \<and> so_queued s)
      \<and> (so_queued s \<and> \<not> idle \<longrightarrow> \<not> at_rest s)
      \<and> (idle \<longrightarrow> at_rest s))"

text \<open>Operations that start no cycle and keep the flight keep the invariant; starting one does too.\<close>

lemma flight_quiet:
  assumes "flight_inv s over idle" and "so_inFlight t = so_inFlight s" and "so_next t = so_next s"
    and "cycles_in (so_effects t) = cycles_in (so_effects s)"
    and "so_timer t \<noteq> None \<longrightarrow> so_inFlight t = None \<and> so_queued t"
    and "so_queued t \<and> \<not> idle' \<longrightarrow> \<not> at_rest t" and "idle' \<longrightarrow> at_rest t"
  shows "flight_inv t over idle'"
proof -
  have "live_cycles t over = live_cycles s over" using assms(4) by (simp add: live_cycles_def)
  then show ?thesis using assms unfolding flight_inv_def by (cases "so_inFlight s") auto
qed

lemma flight_request:
  assumes "flight_inv s over idle" and "so_inFlight t = so_inFlight s" and "so_next t = so_next s"
    and "cycles_in (so_effects t) = cycles_in (so_effects s)" and "so_timer t = so_timer s" and "so_queued t"
  shows "flight_inv t over (idle \<or> at_rest s)"
  by (rule flight_quiet[OF assms(1-4)]) (use assms in \<open>auto simp: flight_inv_def at_rest_def\<close>)

lemma flight_start:
  assumes "live_cycles s over = {}" and "so_inFlight s = None"
    and "\<forall>c\<in>set (cycles_in (so_effects s)) \<union> over. rc_id c < so_next s"
    and "inj_on rc_id (set (cycles_in (so_effects s)))"
  shows "flight_inv (run_cycle now arg s) over False"
proof -
  let ?c = "\<lparr>rc_id = so_next s, rc_arg = arg, rc_startedAt = now\<rparr>"
  let ?t = "run_cycle now arg s"
  have t: "so_inFlight ?t = Some (so_next s)" "so_next ?t = so_next s + 1" "so_timer ?t = None" "\<not> so_queued ?t"
    "cycles_in (so_effects ?t) = cycles_in (so_effects s) @ [?c]"
    using assms(2) by (simp_all add: orchestrator_defs split: option.split)
  have "?c \<notin> over" using assms(3) by force
  then have "live_cycles ?t over = {?c}"
    using assms(1) unfolding live_cycles_def t by auto
  moreover have "rc_id ?c \<notin> rc_id ` set (cycles_in (so_effects s))" using assms(3) by force
  then have "inj_on rc_id (set (cycles_in (so_effects ?t)))"
    using assms(4) unfolding t(5) by (simp add: image_iff)
  moreover have "\<forall>c\<in>set (cycles_in (so_effects ?t)) \<union> over. rc_id c < so_next ?t"
    using assms(3) unfolding t(2,5) by (auto simp: less_SucI)
  ultimately show ?thesis unfolding flight_inv_def at_rest_def by (simp only: t(1-4)) simp
qed

lemma flight_run:
  assumes "flight_inv s over idle"
  shows "flight_inv (run_cycle now arg s) over False"
proof (cases "so_inFlight s")
  case None
  then show ?thesis using assms by (intro flight_start) (simp_all add: flight_inv_def)
next
  case (Some i)
  show ?thesis
    using assms Some by (intro flight_quiet[OF assms]) (auto simp: orchestrator_defs flight_inv_def at_rest_def)
qed

lemma flight_queued_run:
  assumes "live_cycles s over = {}" and "so_inFlight s = None" and "so_queued s"
    and "\<forall>c\<in>set (cycles_in (so_effects s)) \<union> over. rc_id c < so_next s"
    and "inj_on rc_id (set (cycles_in (so_effects s)))"
  shows "flight_inv (start_queued_run now arg s) over False"
proof -
  have *: "start_queued_run now arg s = run_cycle now (js_nullish (so_queuedArg s) arg)
      ((set_queued False (s\<lparr>so_timer := None\<rparr>))\<lparr>so_queuedArg := None\<rparr>)"
    using assms(2,3) by (simp add: start_queued_run_def Let_def)
  show ?thesis unfolding *
    by (rule flight_start) (use assms in \<open>simp_all add: set_queued_def emit_def live_cycles_def\<close>)
qed

lemma flight_settled:
  assumes "flight_inv s over idle" and "c \<in> set (cycles_in (so_effects s))"
  shows "flight_inv (cycle_settled fd now c s) (insert c over) idle"
proof (cases "so_inFlight s = Some (rc_id c)")
  case True
  then obtain d where d: "rc_id d = rc_id c" "live_cycles s over = {d}"
    using assms(1) by (auto simp: flight_inv_def)
  then have "d = c" using assms by (auto simp: flight_inv_def live_cycles_def inj_on_def)
  then have c: "live_cycles s over = {c}" using d(2) by simp
  have busy: "\<not> idle" "so_timer s = None"
    using assms(1) True unfolding flight_inv_def at_rest_def by (auto intro: ccontr)
  have ids: "\<forall>d\<in>set (cycles_in (so_effects s)) \<union> insert c over. rc_id d < so_next s"
    "inj_on rc_id (set (cycles_in (so_effects s)))"
    using assms by (auto simp: flight_inv_def)
  have none: "live_cycles s (insert c over) = {}" using c by (auto simp: live_cycles_def)
  show ?thesis
  proof (cases "so_queued s \<and> follow_up_delay fd (now - rc_startedAt c) (so_minDelay s) \<le> 0")
    case now: True
    then show ?thesis using True ids none busy
      by (simp add: cycle_settled_def Let_def live_cycles_def flight_queued_run)
  next
    case False
    then show ?thesis using True busy ids none
      by (auto simp: cycle_settled_def Let_def emit_def flight_inv_def live_cycles_def less_SucI at_rest_def)
  qed
next
  case False
  then have s: "cycle_settled fd now c s = s" by (simp add: cycle_settled_def)
  have "live_cycles s (insert c over) = live_cycles s over"
  proof (rule ccontr)
    assume "live_cycles s (insert c over) \<noteq> live_cycles s over"
    then have "c \<in> live_cycles s over" by (auto simp: live_cycles_def)
    then show False using assms(1) False by (auto simp: flight_inv_def split: option.splits)
  qed
  then show ?thesis using assms unfolding s flight_inv_def by (cases "so_inFlight s") auto
qed

lemma flight_reset:
  assumes "flight_inv s over idle"
  shows "flight_inv (reset_orchestrator s) (over \<union> live_cycles s over) False"
proof -
  let ?t = "reset_orchestrator s"
  have t: "so_inFlight ?t = None" "so_timer ?t = None" "\<not> so_queued ?t" "so_next ?t = so_next s"
    "cycles_in (so_effects ?t) = cycles_in (so_effects s)"
    by (auto simp: orchestrator_defs split: option.splits)
  show ?thesis using assms unfolding flight_inv_def t live_cycles_def by (auto simp: t)
qed

lemma orchestrated_inv: "orchestrated fd s over idle \<Longrightarrow> flight_inv s over idle"
proof (induction rule: orchestrated.induct)
  case or_create
  then show ?case by (simp add: flight_inv_def createSyncOrchestrator_def live_cycles_def at_rest_def)
next
  case (or_run s over idle now arg)
  then show ?case by (intro flight_run)
next
  case (or_request s over idle nextArg)
  show ?case by (rule flight_request[OF or_request.IH]) (auto simp: orchestrator_defs)
next
  case (or_request_after s over idle delayMs nextArg)
  show ?case by (rule flight_request[OF or_request_after.IH]) (auto simp: orchestrator_defs)
next
  case (or_control s over idle c nextArg)
  show ?case by (rule flight_request[OF or_control.IH]) (auto simp: orchestrator_defs)
next
  case (or_control_after s over idle c delayMs nextArg)
  show ?case by (rule flight_request[OF or_control_after.IH]) (auto simp: orchestrator_defs)
next
  case (or_clear s over idle)
  then show ?case
    by (intro flight_quiet[OF or_clear.IH]) (auto simp: orchestrator_defs at_rest_def split: option.splits)
next
  case (or_reset s over idle)
  then show ?case by (intro flight_reset)
next
  case (or_settle s over idle c now)
  then show ?case by (intro flight_settled)
next
  case (or_timer s over idle now i)
  show ?case
  proof (cases "\<exists>arg. so_timer s = Some (i, arg)")
    case True
    then have "live_cycles s over = {}" "so_inFlight s = None" "so_queued s" "\<not> idle"
      "\<forall>c\<in>set (cycles_in (so_effects s)) \<union> over. rc_id c < so_next s"
      "inj_on rc_id (set (cycles_in (so_effects s)))"
      using or_timer.IH by (auto simp: flight_inv_def at_rest_def)
    then show ?thesis using True by (auto simp: timer_fires_def flight_queued_run)
  next
    case False
    then have "timer_fires now i s = s" by (auto simp: timer_fires_def split: option.split prod.split)
    then show ?thesis using or_timer.IH by simp
  qed
qed

subsection \<open>Single flight, and no follow-up is lost\<close>

text \<open>
  C31: whatever is called, at most one cycle is under way that no reset abandoned, and it is the one
  the orchestrator holds in flight; an armed timer has a queued follow-up to start and no cycle in
  flight; a queued follow-up waits for the cycle in flight or for the timer, unless it was requested
  while neither was there, and only then.
\<close>

theorem orchestrator_single_flight:
  assumes "orchestrated fd s over idle"
  shows "(\<forall>c d. c \<in> live_cycles s over \<longrightarrow> d \<in> live_cycles s over \<longrightarrow> c = d)
     \<and> so_inFlight s = (if live_cycles s over = {} then None else Some (rc_id (the_elem (live_cycles s over))))
     \<and> (so_timer s \<noteq> None \<longrightarrow> so_inFlight s = None \<and> so_queued s)
     \<and> (so_queued s \<and> \<not> idle \<longrightarrow> so_inFlight s \<noteq> None \<or> so_timer s \<noteq> None)
     \<and> (idle \<longrightarrow> so_inFlight s = None \<and> so_timer s = None)"
proof -
  have inv: "flight_inv s over idle" by (rule orchestrated_inv[OF assms])
  show ?thesis
    using inv unfolding flight_inv_def at_rest_def by (cases "so_inFlight s") auto
qed

text \<open>A follow-up requested at rest is not run: the next \<open>run\<close> is taken for the newer intent.\<close>

lemma idle_request_yields:
  "at_rest s \<Longrightarrow> \<not> so_queued (run_cycle now arg (request_follow_up nextArg s)) \<and>
    so_queuedArg (run_cycle now arg (request_follow_up nextArg s)) = None"
  by (auto simp: orchestrator_defs at_rest_def split: option.splits)

text \<open>\<open>runs_now s a\<close>: the last thing that happened is that a cycle with the argument \<open>a\<close> started.\<close>

definition runs_now :: "'a orchestrator \<Rightarrow> 'a option \<Rightarrow> bool" where
  "runs_now s a = (case last (so_effects s) of
     StartCycle c \<Rightarrow> rc_arg c = a \<and> so_inFlight s = Some (rc_id c) | _ \<Rightarrow> False)"

lemma queued_run_runs:
  "so_inFlight s = None \<Longrightarrow> so_queued s \<Longrightarrow> runs_now (start_queued_run now a s) (js_nullish (so_queuedArg s) a)"
  by (simp add: start_queued_run_def run_cycle_def set_queued_def cancel_follow_up_timer_def emit_def runs_now_def Let_def)

text \<open>The ways to ask for a follow-up while the cycle \<open>c\<close> is in flight, and what each asks for.\<close>

datatype 'a request =
    ByRun "'a option"
  | Ask "'a option"
  | AskAfter int "'a option"
  | ByControl "'a option"
  | ByControlAfter int "'a option"

fun make_request :: "int \<Rightarrow> 'a running_cycle \<Rightarrow> 'a orchestrator \<Rightarrow> 'a request \<Rightarrow> 'a orchestrator" where
  "make_request now c s (ByRun a) = run_cycle now a s"
| "make_request now c s (Ask a) = request_follow_up a s"
| "make_request now c s (AskAfter d a) = request_follow_up_after d a s"
| "make_request now c s (ByControl a) = control_follow_up c a s"
| "make_request now c s (ByControlAfter d a) = control_follow_up_after c d a s"

fun asked_arg :: "'a running_cycle \<Rightarrow> 'a request \<Rightarrow> 'a option" where
  "asked_arg c (ByRun a) = a"
| "asked_arg c (Ask a) = a"
| "asked_arg c (AskAfter d a) = a"
| "asked_arg c (ByControl a) = js_nullish a (rc_arg c)"
| "asked_arg c (ByControlAfter d a) = js_nullish a (rc_arg c)"

fun asked_delay :: "'a request \<Rightarrow> int" where
  "asked_delay (AskAfter d a) = d"
| "asked_delay (ByControlAfter d a) = d"
| "asked_delay _ = 0"

text \<open>The argument of the latest request that gave one, the first in the reversed list.\<close>

fun latest_arg :: "'a running_cycle \<Rightarrow> 'a request list \<Rightarrow> 'a option" where
  "latest_arg c [] = rc_arg c"
| "latest_arg c (r # earlier) = (case asked_arg c r of None \<Rightarrow> latest_arg c earlier | Some a \<Rightarrow> Some a)"

lemma made_requests:
  assumes "so_inFlight s = Some (rc_id c)" and "so_queuedArg s = None"
  shows "let t = foldl (make_request now c) s rs in so_inFlight t = Some (rc_id c) \<and>
    (rs \<noteq> [] \<longrightarrow> so_queued t) \<and> js_nullish (so_queuedArg t) (rc_arg c) = latest_arg c (rev rs) \<and>
    (\<forall>r\<in>set rs. asked_delay r \<le> 0 \<or> asked_delay r \<le> so_minDelay t) \<and> so_minDelay s \<le> so_minDelay t"
proof (induction rs rule: rev_induct)
  case Nil
  then show ?case using assms by (simp add: js_nullish_def)
next
  case (snoc r rs)
  let ?t = "foldl (make_request now c) s rs"
  have "so_inFlight ?t = Some (rc_id c)" using snoc by (simp add: Let_def)
  then have r: "let u = make_request now c ?t r in so_inFlight u = so_inFlight ?t \<and> so_queued u \<and>
      so_queuedArg u = (case asked_arg c r of None \<Rightarrow> so_queuedArg ?t | Some a \<Rightarrow> Some a) \<and>
      so_minDelay ?t \<le> so_minDelay u \<and> (asked_delay r \<le> 0 \<or> asked_delay r \<le> so_minDelay u)"
    by (cases r) (auto simp: orchestrator_defs js_nullish_def split: option.splits)
  show ?case using snoc r
    by (cases "asked_arg c r") (auto simp: Let_def js_nullish_def)
qed

text \<open>
  C32: follow-ups requested while a cycle is in flight are served by one run: when the cycle settles,
  however it ends, that run starts with the argument of the latest request that gave one (the
  cycle's own where none did), at once when no delay was asked for, and otherwise when a timer
  fires that waits at least as long as every delay asked for.
\<close>

theorem follow_up_is_served:
  assumes "orchestrated fd s over idle" and "c \<in> live_cycles s over" and "so_queuedArg s = None"
    and "requests \<noteq> []" and "t = cycle_settled fd settledAt c (foldl (make_request now c) s requests)"
  shows "runs_now t (latest_arg c (rev requests)) \<and> (\<forall>r\<in>set requests. asked_delay r \<le> 0)
     \<or> (\<exists>i delay. last (so_effects t) = ArmTimer i delay \<and> 0 < delay
          \<and> (\<forall>r\<in>set requests. asked_delay r \<le> delay) \<and> so_timer t = Some (i, rc_arg c)
          \<and> runs_now (timer_fires later i t) (latest_arg c (rev requests)))"
proof -
  have c: "so_inFlight s = Some (rc_id c)"
    using orchestrated_inv[OF assms(1)] assms(2) by (auto simp: flight_inv_def split: option.splits)
  let ?s = "foldl (make_request now c) s requests"
  have r: "so_inFlight ?s = Some (rc_id c)" "so_queued ?s"
    "js_nullish (so_queuedArg ?s) (rc_arg c) = latest_arg c (rev requests)"
    "\<forall>r\<in>set requests. asked_delay r \<le> 0 \<or> asked_delay r \<le> so_minDelay ?s"
    using made_requests[OF c assms(3), of now requests] assms(4) by (auto simp: Let_def)
  let ?d = "follow_up_delay fd (settledAt - rc_startedAt c) (so_minDelay ?s)"
  have long: "so_minDelay ?s \<le> ?d" by (simp add: follow_up_delay_def)
  show ?thesis
  proof (cases "?d > 0")
    case True
    then have t: "t = emit (ArmTimer (so_next ?s) ?d) (?s\<lparr>so_inFlight := None, so_minDelay := 0,
        so_timer := Some (so_next ?s, rc_arg c), so_next := so_next ?s + 1\<rparr>)"
      using r(1,2) assms(5) by (simp add: cycle_settled_def Let_def)
    have "runs_now (timer_fires later (so_next ?s) t) (js_nullish (so_queuedArg t) (rc_arg c))"
      using queued_run_runs[of t later "rc_arg c"] r(2) by (simp add: t timer_fires_def emit_def)
    moreover have "\<forall>r\<in>set requests. asked_delay r \<le> ?d" using r(4) long True by fastforce
    ultimately show ?thesis using True r(3) by (auto simp: t emit_def)
  next
    case False
    then have "t = start_queued_run settledAt (rc_arg c) (?s\<lparr>so_inFlight := None, so_minDelay := 0\<rparr>)"
      using r(1,2) assms(5) by (simp add: cycle_settled_def Let_def)
    moreover have "\<forall>r\<in>set requests. asked_delay r \<le> 0" using r(4) long False by fastforce
    ultimately show ?thesis
      using queued_run_runs[of "?s\<lparr>so_inFlight := None, so_minDelay := 0\<rparr>" settledAt "rc_arg c"] r(2,3)
      by simp
  qed
qed

text \<open>A cycle during which two more runs are requested.\<close>

definition sample_orchestrator :: "nat orchestrator" where
  "sample_orchestrator = run_cycle 0 (Some 1) createSyncOrchestrator"

definition sample_cycle :: "nat running_cycle" where
  "sample_cycle = \<lparr>rc_id = 0, rc_arg = Some 1, rc_startedAt = 0\<rparr>"

lemma sample_orchestrated: "orchestrated None sample_orchestrator {} False"
  unfolding sample_orchestrator_def by (rule or_run[OF or_create])

lemma sample_live: "sample_cycle \<in> live_cycles sample_orchestrator {}" "so_queuedArg sample_orchestrator = None"
  by (simp_all add: sample_orchestrator_def sample_cycle_def createSyncOrchestrator_def orchestrator_defs live_cycles_def)

theorem orchestrator_single_flight_witness: "so_inFlight sample_orchestrator \<noteq> None"
  using orchestrator_single_flight[OF sample_orchestrated] sample_live(1) by auto

definition sample_requests :: "nat request list" where
  "sample_requests = [ByRun (Some 2), AskAfter 500 (Some 3), ByControl None, Ask None]"

theorem follow_up_is_served_witness:
  "\<exists>i delay. so_timer (cycle_settled None 20 sample_cycle
       (foldl (make_request 10 sample_cycle) sample_orchestrator sample_requests)) = Some (i, Some 1) \<and> (500::int) \<le> delay \<and>
     runs_now (timer_fires 600 i (cycle_settled None 20 sample_cycle
       (foldl (make_request 10 sample_cycle) sample_orchestrator sample_requests))) (Some (1::nat))"
proof -
  have n: "sample_requests \<noteq> []" "latest_arg sample_cycle (rev sample_requests) = Some 1"
    "AskAfter 500 (Some 3) \<in> set sample_requests" "rc_arg sample_cycle = Some 1"
    by (simp_all add: sample_requests_def sample_cycle_def js_nullish_def)
  show ?thesis
    using follow_up_is_served[OF sample_orchestrated sample_live n(1) refl, of 20 10 600] n(2-4) by fastforce
qed

end
