(* ===== verification/SyncRuntime.thy ===== *)
theory SyncRuntime
  imports JsUri "HOL-Library.AList"
begin

text \<open>
  \<open>sync-runtime-utils.ts\<close>: how long to hold off after a failed sync, the recognition of rate
  limits, and the download backoff of WebDAV attachments. Error values are their message texts.
\<close>

subsection \<open>The delay a server asks for\<close>

definition MAX_HONOURED_RETRY_AFTER_MS :: int where "MAX_HONOURED_RETRY_AFTER_MS = 60 * 60 * 1000"

text \<open>\<open>CLOUDKIT_RETRY_AFTER_PATTERN\<close> at the start of a text, and its first match anywhere.\<close>

definition retry_pattern :: "string \<Rightarrow> string option" where
  "retry_pattern s =
     (if js_lower (take 12 s) \<noteq> ''[retryafter='' then None
      else (case span_digits (drop 12 s) of
          (ds, r) \<Rightarrow>
            if ds = [] then None
            else if r \<noteq> [] \<and> hd r = CHR '']'' then Some ds
            else if r \<noteq> [] \<and> hd r = CHR ''.'' then
              (case span_digits (tl r) of (fs, q) \<Rightarrow>
                 if fs \<noteq> [] \<and> q \<noteq> [] \<and> hd q = CHR '']'' then Some (ds @ CHR ''.'' # fs) else None)
            else None))"

fun find_retry :: "string \<Rightarrow> string option" where
  "find_retry [] = None"
| "find_retry (c # s) = (case retry_pattern (c # s) of Some m \<Rightarrow> Some m | None \<Rightarrow> find_retry s)"

text \<open>
  \<open>Math.ceil(Number(text) * 1000)\<close>, \<open>None\<close> for a number that is not finite or not positive. Whole
  seconds are computed; a decimal or a very long text is left to \<open>float_ms\<close>, the binary
  floating-point product.
\<close>

definition retry_ms :: "(string \<Rightarrow> int option) \<Rightarrow> string \<Rightarrow> int option" where
  "retry_ms float_ms s =
     (case read_digits (length s) 0 s of
        Some (n, []) \<Rightarrow> if length s > 12 then float_ms s else if n > 0 then Some (n * 1000) else None
      | _ \<Rightarrow> float_ms s)"

definition parseCloudKitRetryAfterMs :: "(string \<Rightarrow> int option) \<Rightarrow> string option \<Rightarrow> int option" where
  "parseCloudKitRetryAfterMs float_ms err =
     (case find_retry (or_else err []) of None \<Rightarrow> None
      | Some s \<Rightarrow> map_option (min MAX_HONOURED_RETRY_AFTER_MS) (retry_ms float_ms s))"

definition resolveSyncFailureCooldownMs ::
  "(string \<Rightarrow> int option) \<Rightarrow> string option \<Rightarrow> int \<Rightarrow> int \<Rightarrow> int \<Rightarrow> int" where
  "resolveSyncFailureCooldownMs float_ms err consecutiveFailures baseMs maxMs =
     (let attempt = max 1 consecutiveFailures
      in case parseCloudKitRetryAfterMs float_ms err of
           None \<Rightarrow> min maxMs (max baseMs (baseMs * 2 ^ nat (attempt - 1)))
         | Some requestedMs \<Rightarrow> min (max maxMs requestedMs) (requestedMs * 2 ^ nat (attempt - 1)))"

text \<open>
  The wait after a failed sync never exceeds the ceiling, or the server's own delay where
  that is longer; it is never shorter than what the server asked for, nor, where it asked for
  nothing, than the base delay within the ceiling; and it does not shrink as failures add up.
\<close>

theorem cooldown_bounds:
  assumes "0 \<le> baseMs" and "parseCloudKitRetryAfterMs float_ms err \<noteq> None \<longrightarrow> 0 \<le> the (parseCloudKitRetryAfterMs float_ms err)"
    and "w = resolveSyncFailureCooldownMs float_ms err n baseMs maxMs"
  shows "(case parseCloudKitRetryAfterMs float_ms err of
       None \<Rightarrow> min maxMs baseMs \<le> w \<and> w \<le> maxMs
     | Some r \<Rightarrow> r \<le> w \<and> w \<le> max maxMs r)
   \<and> (n \<le> m \<longrightarrow> w \<le> resolveSyncFailureCooldownMs float_ms err m baseMs maxMs)"
proof (cases "parseCloudKitRetryAfterMs float_ms err")
  case None
  let ?w = "\<lambda>k. min maxMs (max baseMs (baseMs * 2 ^ nat (max 1 k - 1)))"
  have mono: "?w n \<le> ?w m" if "n \<le> m"
    using that assms(1) by (intro min.mono max.mono mult_left_mono power_increasing order_refl) auto
  have base: "min maxMs baseMs \<le> ?w n" by (intro min.mono order_refl max.cobounded1)
  have w: "resolveSyncFailureCooldownMs float_ms err k baseMs maxMs = ?w k" for k
    unfolding resolveSyncFailureCooldownMs_def Let_def None option.case ..
  show ?thesis unfolding assms(3) w None option.case using base mono min.cobounded1 by blast
next
  case (Some r)
  let ?w = "\<lambda>k. min (max maxMs r) (r * 2 ^ nat (max 1 k - 1))"
  have r: "0 \<le> r" using Some assms(2) by simp
  have mono: "?w n \<le> ?w m" if "n \<le> m"
    using that r by (intro min.mono mult_left_mono power_increasing order_refl) auto
  have "r * 1 \<le> r * 2 ^ nat (max 1 n - 1)" using r by (intro mult_left_mono) auto
  then have base: "r \<le> ?w n" using max.cobounded2[of r maxMs] by (intro min.boundedI) auto
  have w: "resolveSyncFailureCooldownMs float_ms err k baseMs maxMs = ?w k" for k
    unfolding resolveSyncFailureCooldownMs_def Let_def Some option.case ..
  show ?thesis unfolding assms(3) w Some option.case using base mono min.cobounded1 by blast
qed

subsection \<open>Rate limits and the download backoff\<close>

fun text_includes :: "string \<Rightarrow> string \<Rightarrow> bool" where
  "text_includes p [] = (p = [])"
| "text_includes p (c # s) = (starts_with p (c # s) \<or> text_includes p s)"

definition isWebdavRateLimitedError :: "int option \<Rightarrow> string \<Rightarrow> bool" where
  "isWebdavRateLimitedError status message =
     (if status = Some 429 \<or> status = Some 503 then True
      else (let normalized = js_lower message
            in text_includes ''blockedtemporarily'' normalized \<or> text_includes ''too many requests'' normalized
               \<or> text_includes ''rate limit'' normalized \<or> text_includes ''rate limited'' normalized))"

type_synonym download_backoff = "(string \<times> int) list"

record backoff_options =
  bo_missingMs :: int
  bo_errorMs :: int

definition backoff_blocked_until :: "int \<Rightarrow> string \<Rightarrow> download_backoff \<Rightarrow> int option \<times> download_backoff" where
  "backoff_blocked_until now attachmentId m =
     (case map_of m attachmentId of None \<Rightarrow> (None, m)
      | Some u \<Rightarrow> if u = 0 then (None, m)
                  else if now \<ge> u then (None, AList.delete attachmentId m) else (Some u, m))"

definition backoff_set_from_error ::
  "backoff_options \<Rightarrow> int \<Rightarrow> string \<Rightarrow> int option \<Rightarrow> download_backoff \<Rightarrow> download_backoff" where
  "backoff_set_from_error opts now attachmentId status m =
     AList.update attachmentId (now + (if status = Some 404 then bo_missingMs opts else bo_errorMs opts)) m"

definition backoff_prune :: "int \<Rightarrow> download_backoff \<Rightarrow> download_backoff" where
  "backoff_prune now m = filter (\<lambda>e. \<not> snd e \<le> now) m"

definition backoff_delete :: "string \<Rightarrow> download_backoff \<Rightarrow> download_backoff" where
  "backoff_delete attachmentId m = AList.delete attachmentId m"

lemma backoff_holds:
  assumes "u = now0 + (if status = Some 404 then bo_missingMs opts else bo_errorMs opts)" and "u \<noteq> 0"
  shows "fst (backoff_blocked_until now a (backoff_set_from_error opts now0 a status m)) = (if now < u then Some u else None)"
  using assms by (simp add: backoff_blocked_until_def backoff_set_from_error_def update_conv)


definition throttled_error :: "string option" where "throttled_error = Some ''[retryAfter=23]''"

theorem cooldown_bounds_witness:
  "resolveSyncFailureCooldownMs (\<lambda>_. None) throttled_error 1 60000 600000 = 23000
   \<and> 23000 \<le> resolveSyncFailureCooldownMs (\<lambda>_. None) throttled_error 5 60000 600000"
proof -
  have p: "parseCloudKitRetryAfterMs (\<lambda>_. None) throttled_error = Some 23000" by code_simp
  have r: "resolveSyncFailureCooldownMs (\<lambda>_. None) throttled_error 1 60000 600000 = 23000"
    by (simp add: resolveSyncFailureCooldownMs_def p)
  show ?thesis using cooldown_bounds[of 60000 "\<lambda>_. None" throttled_error _ 1 600000 5, OF _ _ refl] p r by simp
qed

end
