(* ===== verification/AutoSync.thy ===== *)
theory AutoSync
  imports SyncOrchestrator SyncRuntime
begin

text \<open>
  \<open>createAutoSyncController\<close> of \<open>auto-sync-controller.ts\<close>: when automatic synchronisation runs. The
  closure's variables are a record; a function of the model is one handler, timer callback or
  stretch of \<open>runCycle\<close> between two of its awaited ports. What the platform answers at that moment
  (clock, runtime active, editor lock, suspended, cadence) is \<open>auto_env\<close>. Log lines and error
  reports are left out, timers carry the time they are due.
\<close>

subsection \<open>Options\<close>

record auto_cadence =
  ac_minIntervalMs :: int
  ac_debounceFirstChangeMs :: int
  ac_debounceContinuousChangeMs :: int

record auto_options =
  ao_minIntervalMs :: "int option"
  ao_focusMinIntervalMs :: "int option"
  ao_debounceFirstChangeMs :: "int option"
  ao_debounceContinuousChangeMs :: "int option"
  ao_autoFailureCooldownMs :: "int option"
  ao_maxFailureCooldownMs :: "int option"
  ao_initialSyncDelayMs :: "int option"
  ao_periodicSyncIntervalMs :: "int option option"
  ao_adaptivePacing :: "(int \<times> int) option"
  ao_hasCanSync :: bool
  ao_hasRefreshCadence :: bool
  ao_continuousDebounceUntilSuspend :: bool
  ao_skipRetryWhileCycleRunning :: bool
  ao_isIgnorableFailure :: "string option \<Rightarrow> bool"
  ao_float_ms :: "string \<Rightarrow> int option"

text \<open>\<open>ao_adaptivePacing\<close> holds \<open>durationMultiplier\<close> and \<open>maxIntervalMs\<close>.\<close>

definition DEFAULT_MIN_INTERVAL_MS :: int where "DEFAULT_MIN_INTERVAL_MS = 5000"
definition DEFAULT_FOCUS_MIN_INTERVAL_MS :: int where "DEFAULT_FOCUS_MIN_INTERVAL_MS = 30000"
definition DEFAULT_DEBOUNCE_FIRST_CHANGE_MS :: int where "DEFAULT_DEBOUNCE_FIRST_CHANGE_MS = 2000"
definition DEFAULT_DEBOUNCE_CONTINUOUS_CHANGE_MS :: int where "DEFAULT_DEBOUNCE_CONTINUOUS_CHANGE_MS = 5000"
definition DEFAULT_AUTO_FAILURE_COOLDOWN_MS :: int where "DEFAULT_AUTO_FAILURE_COOLDOWN_MS = 60000"
definition DEFAULT_MAX_FAILURE_COOLDOWN_MS :: int where "DEFAULT_MAX_FAILURE_COOLDOWN_MS = 10 * 60000"
definition DEFAULT_INITIAL_SYNC_DELAY_MS :: int where "DEFAULT_INITIAL_SYNC_DELAY_MS = 1500"
definition DEFAULT_PERIODIC_SYNC_INTERVAL_MS :: int where "DEFAULT_PERIODIC_SYNC_INTERVAL_MS = 15 * 60 * 1000"
definition FOCUS_TRIGGER_DEDUPE_MS :: int where "FOCUS_TRIGGER_DEDUPE_MS = 1000"

record auto_env =
  ae_now :: int
  ae_active :: bool
  ae_paused :: bool
  ae_pendingChanges :: bool
  ae_suspended :: bool
  ae_shouldSyncChange :: bool
  ae_cadence :: "auto_cadence option"

definition static_cadence :: "auto_options \<Rightarrow> auto_cadence" where
  "static_cadence op = \<lparr>ac_minIntervalMs = or_else (ao_minIntervalMs op) DEFAULT_MIN_INTERVAL_MS,
     ac_debounceFirstChangeMs = or_else (ao_debounceFirstChangeMs op) DEFAULT_DEBOUNCE_FIRST_CHANGE_MS,
     ac_debounceContinuousChangeMs = or_else (ao_debounceContinuousChangeMs op) DEFAULT_DEBOUNCE_CONTINUOUS_CHANGE_MS\<rparr>"

definition cadence_of :: "auto_options \<Rightarrow> auto_env \<Rightarrow> auto_cadence" where
  "cadence_of op env = or_else (ae_cadence env) (static_cadence op)"

definition periodic_interval :: "auto_options \<Rightarrow> int option" where
  "periodic_interval op =
     (case (case ao_periodicSyncIntervalMs op of None \<Rightarrow> Some DEFAULT_PERIODIC_SYNC_INTERVAL_MS | Some v \<Rightarrow> v) of
        None \<Rightarrow> None | Some n \<Rightarrow> if n > 0 then Some n else None)"

subsection \<open>State\<close>

record auto_request =
  ar_minIntervalMs :: "int option"
  ar_source :: string
  ar_bypassFailureCooldown :: bool

datatype timer_kind = FailureRetry | ThrottleEnd | Debounce | Initial | Periodic

record auto_timer =
  tm_id :: nat
  tm_due :: int
  tm_kind :: timer_kind

text \<open>
  Where a cycle under way waits: with the time it started at and whether it started suspended.
  \<open>CycleOver\<close> has returned or thrown, its promise is about to settle. With \<open>continuousDebounceUntilSuspend\<close> the variable of the debounce
  timer outlives its firing, which \<open>as_debounceFired\<close> remembers.
\<close>

record cycle_start =
  cs_request :: auto_request
  cs_now :: int
  cs_suspended :: bool

datatype auto_stage =
    AskSuspension cycle_start
  | AskCanSync cycle_start
  | FlushingSave cycle_start
  | Syncing cycle_start
  | CycleOver

type_synonym auto_cycle = "auto_request running_cycle"

record auto_state =
  as_lastAutoSyncAt :: int
  as_lastCycleDurationMs :: int
  as_debounceTimer :: "auto_timer option"
  as_debounceFired :: bool
  as_throttleTimer :: "auto_timer option"
  as_initialTimer :: "auto_timer option"
  as_periodicTimer :: "auto_timer option"
  as_retryAfter :: int
  as_failures :: int
  as_lastFocusTriggerAt :: int
  as_requestedWhileSuspended :: bool
  as_disposed :: bool
  as_orchestrator :: "auto_request orchestrator"
  as_running :: "(auto_cycle \<times> auto_stage) list"
  as_nextTimer :: nat
  as_reported :: "string list"

definition new_timer :: "auto_env \<Rightarrow> int \<Rightarrow> timer_kind \<Rightarrow> auto_state \<Rightarrow> auto_timer \<times> auto_state" where
  "new_timer env wait k st =
     (\<lparr>tm_id = as_nextTimer st, tm_due = ae_now env + max 0 wait, tm_kind = k\<rparr>, st\<lparr>as_nextTimer := as_nextTimer st + 1\<rparr>)"

definition arm_throttle :: "auto_env \<Rightarrow> int \<Rightarrow> timer_kind \<Rightarrow> auto_state \<Rightarrow> auto_state" where
  "arm_throttle env wait k st = (case new_timer env wait k st of (t, st1) \<Rightarrow> st1\<lparr>as_throttleTimer := Some t\<rparr>)"

definition schedulePeriodicSync :: "auto_options \<Rightarrow> auto_env \<Rightarrow> auto_state \<Rightarrow> auto_state" where
  "schedulePeriodicSync op env st =
     (let st1 = st\<lparr>as_periodicTimer := None\<rparr>
      in case periodic_interval op of
           None \<Rightarrow> st1
         | Some n \<Rightarrow> if as_disposed st1 then st1
                     else (case new_timer env n Periodic st1 of (t, st2) \<Rightarrow> st2\<lparr>as_periodicTimer := Some t\<rparr>))"

definition createAutoSyncController :: "auto_options \<Rightarrow> auto_env \<Rightarrow> auto_state" where
  "createAutoSyncController op env = schedulePeriodicSync op env
     \<lparr>as_lastAutoSyncAt = 0, as_lastCycleDurationMs = 0, as_debounceTimer = None, as_debounceFired = False, as_throttleTimer = None,
      as_initialTimer = None, as_periodicTimer = None, as_retryAfter = 0, as_failures = 0,
      as_lastFocusTriggerAt = 0, as_requestedWhileSuspended = False, as_disposed = False,
      as_orchestrator = createSyncOrchestrator, as_running = [], as_nextTimer = 0, as_reported = []\<rparr>"

subsection \<open>Gates\<close>

definition scheduleAutoRetryAfterCooldown :: "auto_env \<Rightarrow> bool \<Rightarrow> auto_state \<Rightarrow> auto_state" where
  "scheduleAutoRetryAfterCooldown env replaceExisting st =
     (let waitMs = max 0 (as_retryAfter st - ae_now env)
      in if replaceExisting then arm_throttle env waitMs FailureRetry (st\<lparr>as_throttleTimer := None\<rparr>)
         else if as_throttleTimer st \<noteq> None then st
         else arm_throttle env waitMs FailureRetry st)"

definition shouldRunAutoSyncNow :: "auto_env \<Rightarrow> auto_state \<Rightarrow> bool \<times> auto_state" where
  "shouldRunAutoSyncNow env st =
     (if ae_now env \<ge> as_retryAfter st then (True, st)
      else (False, scheduleAutoRetryAfterCooldown env False st))"

definition canRunWindowSync :: "auto_env \<Rightarrow> bool" where
  "canRunWindowSync env = (ae_active env \<and> \<not> ae_paused env)"

definition shouldRunBlurSync :: "auto_env \<Rightarrow> bool" where
  "shouldRunBlurSync env = (canRunWindowSync env \<and> ae_pendingChanges env)"

definition resolveEffectiveMinIntervalMs :: "auto_options \<Rightarrow> auto_env \<Rightarrow> auto_state \<Rightarrow> int option \<Rightarrow> int" where
  "resolveEffectiveMinIntervalMs op env st requestedMin =
     (let requested = or_else requestedMin (ac_minIntervalMs (cadence_of op env))
      in case ao_adaptivePacing op of
           None \<Rightarrow> requested
         | Some (multiplier, maxInterval) \<Rightarrow>
             if requested \<le> 0 then requested
             else max requested (min (as_lastCycleDurationMs st * multiplier) maxInterval))"

subsection \<open>A cycle\<close>

text \<open>\<open>runCycle\<close> up to its first await.\<close>

definition begin_sync :: "cycle_start \<Rightarrow> auto_state \<Rightarrow> auto_stage \<times> auto_state" where
  "begin_sync cs st = (FlushingSave cs, st\<lparr>as_lastAutoSyncAt := cs_now cs\<rparr>)"

definition after_suspension_check :: "auto_options \<Rightarrow> cycle_start \<Rightarrow> auto_state \<Rightarrow> auto_stage \<times> auto_state" where
  "after_suspension_check op cs st = (if ao_hasCanSync op then (AskCanSync cs, st) else begin_sync cs st)"

definition begin_cycle :: "auto_options \<Rightarrow> auto_env \<Rightarrow> auto_request \<Rightarrow> auto_state \<Rightarrow> auto_stage \<times> auto_state" where
  "begin_cycle op env req st =
     (if \<not> ae_active env then (CycleOver, st)
      else (case (if ar_bypassFailureCooldown req then (True, st) else shouldRunAutoSyncNow env st) of
        (go, st1) \<Rightarrow>
          if \<not> go then (CycleOver, st1)
          else
            (let effective = resolveEffectiveMinIntervalMs op env st1 (ar_minIntervalMs req);
                 elapsed = ae_now env - as_lastAutoSyncAt st1
             in if elapsed < effective
                then (CycleOver, if as_throttleTimer st1 \<noteq> None then st1
                                 else arm_throttle env (effective - elapsed) ThrottleEnd st1)
                else (let cs = \<lparr>cs_request = req, cs_now = ae_now env, cs_suspended = ae_suspended env\<rparr>
                      in if ar_source req = ''manual'' then after_suspension_check op cs st1
                         else (AskSuspension cs, st1)))))"

text \<open>A started cycle is entered at once; its argument is always given.\<close>

definition enter_cycle :: "auto_options \<Rightarrow> auto_env \<Rightarrow> auto_cycle \<Rightarrow> auto_state \<Rightarrow> auto_state" where
  "enter_cycle op env c st =
     (case rc_arg c of
        None \<Rightarrow> st\<lparr>as_running := as_running st @ [(c, CycleOver)]\<rparr>
      | Some req \<Rightarrow> (case begin_cycle op env req st of
          (g, st1) \<Rightarrow> st1\<lparr>as_running := as_running st1 @ [(c, g)]\<rparr>))"

definition fresh_cycle :: "'a orchestrator \<Rightarrow> 'a orchestrator \<Rightarrow> 'a running_cycle option" where
  "fresh_cycle old new =
     (case cycles_in (drop (length (so_effects old)) (so_effects new)) of [] \<Rightarrow> None | c # _ \<Rightarrow> Some c)"

definition on_orchestrator ::
  "auto_options \<Rightarrow> auto_env \<Rightarrow> (auto_request orchestrator \<Rightarrow> auto_request orchestrator) \<Rightarrow> auto_state \<Rightarrow> auto_state" where
  "on_orchestrator op env f st =
     (let new = f (as_orchestrator st); st1 = st\<lparr>as_orchestrator := new\<rparr>
      in case fresh_cycle (as_orchestrator st) new of None \<Rightarrow> st1 | Some c \<Rightarrow> enter_cycle op env c st1)"

definition run_request :: "auto_options \<Rightarrow> auto_env \<Rightarrow> auto_request \<Rightarrow> auto_state \<Rightarrow> auto_state" where
  "run_request op env req = on_orchestrator op env (run_cycle (ae_now env) (Some req))"

definition orchestrator_busy :: "auto_state \<Rightarrow> bool" where
  "orchestrator_busy st = (so_inFlight (as_orchestrator st) \<noteq> None)"

definition set_stage :: "auto_cycle \<Rightarrow> auto_stage \<Rightarrow> auto_state \<Rightarrow> auto_state" where
  "set_stage c g st = st\<lparr>as_running := map (\<lambda>r. if fst r = c then (c, g) else r) (as_running st)\<rparr>"

text \<open>The rest of \<open>runCycle\<close>, once \<open>performSync\<close> answered: success and error.\<close>

definition note_result ::
  "auto_options \<Rightarrow> auto_env \<Rightarrow> bool \<Rightarrow> string option \<Rightarrow> auto_state \<Rightarrow> auto_state" where
  "note_result op env success err st =
     (if success then st\<lparr>as_retryAfter := 0, as_failures := 0, as_throttleTimer := None\<rparr>
      else if ao_isIgnorableFailure op err then st
      else
        (let failures = as_failures st + 1;
             cooldownMs = resolveSyncFailureCooldownMs (ao_float_ms op) err failures
               (or_else (ao_autoFailureCooldownMs op) DEFAULT_AUTO_FAILURE_COOLDOWN_MS)
               (or_else (ao_maxFailureCooldownMs op) DEFAULT_MAX_FAILURE_COOLDOWN_MS);
             st1 = scheduleAutoRetryAfterCooldown env True
               (st\<lparr>as_failures := failures, as_retryAfter := max (as_retryAfter st) (ae_now env + cooldownMs)\<rparr>)
         in if truthy err then st1\<lparr>as_reported := as_reported st1 @ [the err]\<rparr> else st1))"

definition follow_up_request :: "auto_options \<Rightarrow> auto_env \<Rightarrow> auto_request" where
  "follow_up_request op env = \<lparr>ar_minIntervalMs = Some (ac_minIntervalMs (cadence_of op env)),
     ar_source = ''follow-up'', ar_bypassFailureCooldown = False\<rparr>"

definition note_cycle_end :: "auto_options \<Rightarrow> auto_env \<Rightarrow> auto_cycle \<Rightarrow> cycle_start \<Rightarrow> auto_state \<Rightarrow> auto_state" where
  "note_cycle_end op env c cs st =
     (if ao_adaptivePacing op = None then st
      else
        (let st1 = st\<lparr>as_lastCycleDurationMs := ae_now env - cs_now cs, as_lastAutoSyncAt := ae_now env\<rparr>
         in if cs_suspended cs \<and> as_requestedWhileSuspended st1
            then st1\<lparr>as_requestedWhileSuspended := False, as_orchestrator := clear_follow_up (as_orchestrator st1)\<rparr>
            else if so_queued (as_orchestrator st1)
            then st1\<lparr>as_orchestrator := control_follow_up c (Some (follow_up_request op env)) (as_orchestrator st1)\<rparr>
            else st1))"

text \<open>
  The answers a waiting cycle gets. \<open>Suspended\<close> is the encryption state that holds automatic
  runs off; \<open>PortThrew\<close> a rejected port, which ends the cycle.
\<close>

datatype auto_answer =
    Suspended bool
  | MaySync bool
  | SaveFlushed
  | SyncResult bool "string option"
  | PortThrew

definition resume_cycle ::
  "auto_options \<Rightarrow> auto_env \<Rightarrow> auto_cycle \<Rightarrow> auto_stage \<Rightarrow> auto_answer \<Rightarrow> auto_state \<Rightarrow> (auto_stage \<times> auto_state) option" where
  "resume_cycle op env c g a st =
     (case (g, a) of
        (AskSuspension cs, Suspended b) \<Rightarrow>
          Some (if b then (CycleOver, st) else after_suspension_check op cs st)
      | (AskSuspension cs, PortThrew) \<Rightarrow> Some (CycleOver, st)
      | (AskCanSync cs, MaySync b) \<Rightarrow> Some (if b then begin_sync cs st else (CycleOver, st))
      | (AskCanSync cs, PortThrew) \<Rightarrow> Some (CycleOver, st)
      | (FlushingSave cs, SaveFlushed) \<Rightarrow> Some (Syncing cs, st)
      | (FlushingSave cs, PortThrew) \<Rightarrow> Some (Syncing cs, st)
      | (Syncing cs, SyncResult success err) \<Rightarrow>
          Some (CycleOver, note_cycle_end op env c cs (note_result op env success err st))
      | (Syncing cs, PortThrew) \<Rightarrow> Some (CycleOver, st)
      | _ \<Rightarrow> None)"

definition answer_cycle :: "auto_options \<Rightarrow> auto_env \<Rightarrow> auto_cycle \<Rightarrow> auto_answer \<Rightarrow> auto_state \<Rightarrow> auto_state option" where
  "answer_cycle op env c a st =
     (case map_of (as_running st) c of
        None \<Rightarrow> None
      | Some g \<Rightarrow> (case resume_cycle op env c g a st of
          None \<Rightarrow> None
        | Some (g1, st1) \<Rightarrow> Some (set_stage c g1 st1)))"

definition settle_cycle :: "auto_options \<Rightarrow> auto_env \<Rightarrow> auto_cycle \<Rightarrow> auto_state \<Rightarrow> auto_state option" where
  "settle_cycle op env c st =
     (if map_of (as_running st) c \<noteq> Some CycleOver then None
      else Some (on_orchestrator op env (cycle_settled None (ae_now env) c)
             (st\<lparr>as_running := filter (\<lambda>r. fst r \<noteq> c) (as_running st)\<rparr>)))"

subsection \<open>Requests, triggers and timers\<close>

definition auto_request_of :: "int option \<Rightarrow> string \<Rightarrow> bool \<Rightarrow> auto_request" where
  "auto_request_of i source bypass = \<lparr>ar_minIntervalMs = i, ar_source = source, ar_bypassFailureCooldown = bypass\<rparr>"

definition requestSync :: "auto_options \<Rightarrow> auto_env \<Rightarrow> int option \<Rightarrow> auto_state \<Rightarrow> auto_state" where
  "requestSync op env i st =
     (if \<not> ae_active env then st else run_request op env (auto_request_of i ''manual'' True) st)"

definition requestAutoSync ::
  "auto_options \<Rightarrow> auto_env \<Rightarrow> int option \<Rightarrow> string \<Rightarrow> bool \<Rightarrow> auto_state \<Rightarrow> auto_state" where
  "requestAutoSync op env i source internalRetry st =
     (if \<not> ae_active env then st
      else
        (let st1 = (if ae_suspended env \<and> orchestrator_busy st then st\<lparr>as_requestedWhileSuspended := True\<rparr> else st)
         in if internalRetry \<and> ao_skipRetryWhileCycleRunning op \<and> orchestrator_busy st1 then st1
            else (case shouldRunAutoSyncNow env st1 of
                (False, st2) \<Rightarrow> st2
              | (True, st2) \<Rightarrow> run_request op env (auto_request_of i source False) st2)))"

definition handleFocus :: "auto_options \<Rightarrow> auto_env \<Rightarrow> auto_state \<Rightarrow> auto_state" where
  "handleFocus op env st =
     (if \<not> canRunWindowSync env then st
      else if ae_now env - as_lastFocusTriggerAt st < FOCUS_TRIGGER_DEDUPE_MS then st
      else if ae_now env - as_lastAutoSyncAt st > or_else (ao_focusMinIntervalMs op) DEFAULT_FOCUS_MIN_INTERVAL_MS
      then requestAutoSync op env None ''focus'' False (st\<lparr>as_lastFocusTriggerAt := ae_now env\<rparr>)
      else st)"

definition handleBlur :: "auto_options \<Rightarrow> auto_env \<Rightarrow> auto_state \<Rightarrow> auto_state" where
  "handleBlur op env st =
     (if \<not> shouldRunBlurSync env then st else requestAutoSync op env None ''blur'' False st)"

definition handleDataChange :: "auto_options \<Rightarrow> auto_env \<Rightarrow> auto_state \<Rightarrow> auto_state" where
  "handleDataChange op env st =
     (if \<not> ae_active env then st
      else
        (let hadTimer = (as_debounceTimer st \<noteq> None);
             debounceMs = (if hadTimer then ac_debounceContinuousChangeMs (cadence_of op env)
                           else ac_debounceFirstChangeMs (cadence_of op env))
         in case new_timer env debounceMs Debounce (st\<lparr>as_debounceTimer := None\<rparr>) of
              (t, st1) \<Rightarrow> st1\<lparr>as_debounceTimer := Some t, as_debounceFired := False\<rparr>))"

text \<open>The debounced change fires; with \<open>refreshCadence\<close> the request waits for it.\<close>

definition change_request :: "auto_options \<Rightarrow> auto_env \<Rightarrow> auto_state \<Rightarrow> auto_state" where
  "change_request op env st = requestAutoSync op env None ''data-change'' False st"

definition debounce_fires :: "auto_options \<Rightarrow> auto_env \<Rightarrow> auto_state \<Rightarrow> auto_state" where
  "debounce_fires op env st =
     (let st1 = (if ao_continuousDebounceUntilSuspend op then st\<lparr>as_debounceFired := True\<rparr>
                 else st\<lparr>as_debounceTimer := None, as_debounceFired := True\<rparr>)
      in if \<not> ae_active env \<or> \<not> ae_shouldSyncChange env \<or> ao_hasRefreshCadence op then st1
         else change_request op env st1)"

definition scheduleInitialSync :: "auto_options \<Rightarrow> auto_env \<Rightarrow> auto_state \<Rightarrow> auto_state" where
  "scheduleInitialSync op env st =
     (case new_timer env (or_else (ao_initialSyncDelayMs op) DEFAULT_INITIAL_SYNC_DELAY_MS) Initial
         (st\<lparr>as_initialTimer := None\<rparr>) of
        (t, st1) \<Rightarrow> st1\<lparr>as_initialTimer := Some t\<rparr>)"

definition initial_fires :: "auto_options \<Rightarrow> auto_env \<Rightarrow> auto_state \<Rightarrow> auto_state" where
  "initial_fires op env st =
     (let st1 = st\<lparr>as_initialTimer := None\<rparr>
      in if \<not> ae_active env then st1 else requestAutoSync op env None ''initial'' False st1)"

definition periodic_fires :: "auto_options \<Rightarrow> auto_env \<Rightarrow> auto_state \<Rightarrow> auto_state" where
  "periodic_fires op env st =
     (let st1 = st\<lparr>as_periodicTimer := None\<rparr>
      in if as_disposed st1 then st1
         else schedulePeriodicSync op env
           (if ae_active env \<and> \<not> ae_paused env then requestAutoSync op env None ''periodic'' False st1 else st1))"

definition throttle_fires :: "auto_options \<Rightarrow> auto_env \<Rightarrow> timer_kind \<Rightarrow> auto_state \<Rightarrow> auto_state" where
  "throttle_fires op env k st =
     (let st1 = st\<lparr>as_throttleTimer := None\<rparr>
      in if k = FailureRetry
         then (if as_disposed st1 then st1 else requestAutoSync op env (Some 0) ''failure-cooldown'' True st1)
         else requestAutoSync op env (Some 0) ''throttle'' True st1)"

definition handleSuspend :: "auto_state \<Rightarrow> auto_state" where
  "handleSuspend st =
     (let st1 = st\<lparr>as_debounceTimer := None\<rparr>
      in if as_retryAfter st1 = 0 then st1\<lparr>as_throttleTimer := None\<rparr> else st1)"

definition notifyExternalSyncSuccess :: "auto_state \<Rightarrow> auto_state" where
  "notifyExternalSyncSuccess st = st\<lparr>as_retryAfter := 0, as_failures := 0, as_throttleTimer := None\<rparr>"

definition takePendingSuspendedRequest :: "auto_state \<Rightarrow> bool \<times> auto_state" where
  "takePendingSuspendedRequest st = (as_requestedWhileSuspended st, st\<lparr>as_requestedWhileSuspended := False\<rparr>)"

definition dispose_controller :: "auto_state \<Rightarrow> auto_state" where
  "dispose_controller st = st\<lparr>as_disposed := True, as_debounceTimer := None, as_throttleTimer := None,
     as_initialTimer := None, as_periodicTimer := None,
     as_orchestrator := reset_orchestrator (as_orchestrator st)\<rparr>"

subsection \<open>The controller as an event system\<close>

datatype auto_event =
    ManualRequest "int option"
  | AutoRequest "int option" string
  | Focus | Blur | DataChange | ChangeReady | ScheduleInitial | Suspend | ExternalSuccess | TakePending
  | TimerFires auto_timer
  | CycleAnswer auto_cycle auto_answer
  | CycleSettles auto_cycle
  | DisposeCall

definition fire_timer :: "auto_options \<Rightarrow> auto_env \<Rightarrow> auto_timer \<Rightarrow> auto_state \<Rightarrow> auto_state option" where
  "fire_timer op env t st =
     (if ae_now env < tm_due t then None
      else if as_throttleTimer st = Some t then Some (throttle_fires op env (tm_kind t) st)
      else if as_debounceTimer st = Some t \<and> \<not> as_debounceFired st then Some (debounce_fires op env st)
      else if as_initialTimer st = Some t then Some (initial_fires op env st)
      else if as_periodicTimer st = Some t then Some (periodic_fires op env st)
      else None)"

fun auto_step :: "auto_options \<Rightarrow> auto_env \<Rightarrow> auto_event \<Rightarrow> auto_state \<Rightarrow> auto_state option" where
  "auto_step op env (ManualRequest i) st = Some (requestSync op env i st)"
| "auto_step op env (AutoRequest i source) st = Some (requestAutoSync op env i source False st)"
| "auto_step op env Focus st = Some (handleFocus op env st)"
| "auto_step op env Blur st = Some (handleBlur op env st)"
| "auto_step op env DataChange st = Some (handleDataChange op env st)"
| "auto_step op env ChangeReady st = (if ao_hasRefreshCadence op then Some (change_request op env st) else None)"
| "auto_step op env ScheduleInitial st = Some (scheduleInitialSync op env st)"
| "auto_step op env Suspend st = Some (handleSuspend st)"
| "auto_step op env ExternalSuccess st = Some (notifyExternalSyncSuccess st)"
| "auto_step op env TakePending st = Some (snd (takePendingSuspendedRequest st))"
| "auto_step op env (TimerFires t) st = fire_timer op env t st"
| "auto_step op env (CycleAnswer c a) st = answer_cycle op env c a st"
| "auto_step op env (CycleSettles c) st = settle_cycle op env c st"
| "auto_step op env DisposeCall st = Some (dispose_controller st)"

text \<open>Reachable states with a clock that does not go back; \<open>t\<close> is the time of the last event.\<close>

inductive auto_reachable :: "auto_options \<Rightarrow> int \<Rightarrow> auto_state \<Rightarrow> bool" for op where
  auto_init: "0 \<le> ae_now env \<Longrightarrow> auto_reachable op (ae_now env) (createAutoSyncController op env)"
| auto_next: "auto_reachable op t st \<Longrightarrow> t \<le> ae_now env \<Longrightarrow> auto_step op env e st = Some st' \<Longrightarrow>
    e \<noteq> DisposeCall \<Longrightarrow> auto_reachable op (ae_now env) st'"

subsection \<open>One cycle at a time\<close>

definition flight_of :: "auto_request orchestrator \<Rightarrow> (auto_cycle \<times> auto_stage) list \<Rightarrow> bool" where
  "flight_of orch running =
     ((case so_inFlight orch of
         None \<Rightarrow> running = []
       | Some i \<Rightarrow> \<exists>c g. running = [(c, g)] \<and> rc_id c = i \<and> rc_arg c \<noteq> None)
      \<and> so_minDelay orch = 0)"

lemma fresh_run:
  "fresh_cycle s (run_cycle now a s) = (if so_inFlight s = None
     then Some \<lparr>rc_id = so_next s, rc_arg = a, rc_startedAt = now\<rparr> else None)"
  by (simp add: fresh_cycle_def orchestrator_defs split: option.split)

lemma run_fields:
  "so_minDelay (run_cycle now a s) = so_minDelay s"
  "so_inFlight (run_cycle now a s) = Some (if so_inFlight s = None then so_next s else the (so_inFlight s))"
  by (auto simp: orchestrator_defs split: option.splits)

lemma settled_run:
  assumes "so_inFlight s = Some (rc_id c)" and "so_minDelay s = 0"
  shows "cycle_settled None now c s = (if so_queued s
     then run_cycle now (js_nullish (so_queuedArg s) (rc_arg c))
            ((set_queued False (s\<lparr>so_inFlight := None, so_minDelay := 0, so_timer := None\<rparr>))\<lparr>so_queuedArg := None\<rparr>)
     else emit Drained (s\<lparr>so_inFlight := None\<rparr>))"
  using assms by (simp add: cycle_settled_def follow_up_delay_def start_queued_run_def Let_def)

lemma fresh_settled:
  assumes "so_inFlight s = Some (rc_id c)" and "so_minDelay s = 0"
  shows "fresh_cycle s (cycle_settled None now c s) = (if so_queued s
     then Some \<lparr>rc_id = so_next s, rc_arg = js_nullish (so_queuedArg s) (rc_arg c), rc_startedAt = now\<rparr> else None)"
  unfolding settled_run[OF assms] using assms by (simp add: fresh_cycle_def orchestrator_defs)

lemma settled_fields:
  assumes "so_inFlight s = Some (rc_id c)" and "so_minDelay s = 0"
  shows "so_inFlight (cycle_settled None now c s) = (if so_queued s then Some (so_next s) else None)"
    and "so_minDelay (cycle_settled None now c s) = 0"
  unfolding settled_run[OF assms] using assms by (auto simp: orchestrator_defs)

lemma control_fields [simp]:
  "so_inFlight (control_follow_up c a s) = so_inFlight s" "so_minDelay (control_follow_up c a s) = so_minDelay s"
  "so_inFlight (clear_follow_up s) = so_inFlight s" "so_minDelay (clear_follow_up s) = 0"
  by (auto simp: orchestrator_defs split: option.split)

text \<open>What the pieces of a cycle leave alone.\<close>

lemma arm_fields [simp]:
  "as_orchestrator (arm_throttle env w k st) = as_orchestrator st" "as_running (arm_throttle env w k st) = as_running st"
  "as_retryAfter (arm_throttle env w k st) = as_retryAfter st"
  "as_throttleTimer (arm_throttle env w k st) =
     Some \<lparr>tm_id = as_nextTimer st, tm_due = ae_now env + max 0 w, tm_kind = k\<rparr>"
  by (simp_all add: arm_throttle_def new_timer_def)

lemma schedule_fields [simp]:
  "as_orchestrator (scheduleAutoRetryAfterCooldown env b st) = as_orchestrator st"
  "as_running (scheduleAutoRetryAfterCooldown env b st) = as_running st"
  "as_retryAfter (scheduleAutoRetryAfterCooldown env b st) = as_retryAfter st"
  "as_throttleTimer (scheduleAutoRetryAfterCooldown env b st) \<noteq> None"
  by (auto simp: scheduleAutoRetryAfterCooldown_def Let_def)

lemma gate_fields [simp]:
  "as_orchestrator (snd (shouldRunAutoSyncNow env st)) = as_orchestrator st"
  "as_running (snd (shouldRunAutoSyncNow env st)) = as_running st"
  "as_retryAfter (snd (shouldRunAutoSyncNow env st)) = as_retryAfter st"
  "fst (shouldRunAutoSyncNow env st) = (as_retryAfter st \<le> ae_now env)"
  by (simp_all add: shouldRunAutoSyncNow_def)

lemma begin_sync_fields [simp]:
  "as_orchestrator (snd (begin_sync cs st)) = as_orchestrator st" "as_running (snd (begin_sync cs st)) = as_running st"
  "as_retryAfter (snd (begin_sync cs st)) = as_retryAfter st" "as_throttleTimer (snd (begin_sync cs st)) = as_throttleTimer st"
  by (simp_all add: begin_sync_def)

lemma after_suspension_fields [simp]:
  "as_orchestrator (snd (after_suspension_check op cs st)) = as_orchestrator st"
  "as_running (snd (after_suspension_check op cs st)) = as_running st"
  "as_retryAfter (snd (after_suspension_check op cs st)) = as_retryAfter st"
  "as_throttleTimer (snd (after_suspension_check op cs st)) = as_throttleTimer st"
  by (simp_all add: after_suspension_check_def)

lemma begin_fields [simp]:
  "as_orchestrator (snd (begin_cycle op env req st)) = as_orchestrator st"
  "as_running (snd (begin_cycle op env req st)) = as_running st"
  "as_retryAfter (snd (begin_cycle op env req st)) = as_retryAfter st"
  by (simp_all add: begin_cycle_def Let_def split_beta)

lemma note_result_fields [simp]:
  "as_orchestrator (note_result op env b e st) = as_orchestrator st" "as_running (note_result op env b e st) = as_running st"
  by (simp_all add: note_result_def Let_def)

lemma note_end_fields [simp]:
  "as_running (note_cycle_end op env c cs st) = as_running st" "as_retryAfter (note_cycle_end op env c cs st) = as_retryAfter st"
  "as_throttleTimer (note_cycle_end op env c cs st) = as_throttleTimer st"
  "so_inFlight (as_orchestrator (note_cycle_end op env c cs st)) = so_inFlight (as_orchestrator st)"
  by (simp_all add: note_cycle_end_def Let_def)

lemma enter_fields:
  assumes "rc_arg c = Some req"
  shows "enter_cycle op env c st = (snd (begin_cycle op env req st))\<lparr>as_running := as_running st @ [(c, fst (begin_cycle op env req st))]\<rparr>"
  using assms by (simp add: enter_cycle_def split_beta)

subsection \<open>The invariant\<close>

fun stage_start :: "auto_stage \<Rightarrow> cycle_start option" where
  "stage_start (AskSuspension cs) = Some cs"
| "stage_start (AskCanSync cs) = Some cs"
| "stage_start (FlushingSave cs) = Some cs"
| "stage_start (Syncing cs) = Some cs"
| "stage_start CycleOver = None"

text \<open>While a cooldown lasts a retry timer is armed for its end.\<close>

definition retry_armed :: "int \<Rightarrow> int \<Rightarrow> auto_timer option \<Rightarrow> bool" where
  "retry_armed now retryAfter timer =
     (now < retryAfter \<longrightarrow> (case timer of None \<Rightarrow> False | Some tm \<Rightarrow> tm_due tm = retryAfter))"

definition start_ok :: "int \<Rightarrow> int \<Rightarrow> auto_stage \<Rightarrow> bool" where
  "start_ok now retryAfter g = (case stage_start g of None \<Rightarrow> True
     | Some cs \<Rightarrow> cs_now cs \<le> now \<and> (ar_bypassFailureCooldown (cs_request cs) \<or> retryAfter \<le> max 0 (cs_now cs)))"

definition auto_inv :: "int \<Rightarrow> auto_state \<Rightarrow> bool" where
  "auto_inv now st = (flight_of (as_orchestrator st) (as_running st)
     \<and> retry_armed now (as_retryAfter st) (as_throttleTimer st)
     \<and> list_all (\<lambda>r. start_ok now (as_retryAfter st) (snd r)) (as_running st))"

lemma inv_cong:
  assumes "auto_inv now st" and "as_orchestrator st' = as_orchestrator st" and "as_running st' = as_running st"
    and "as_retryAfter st' = as_retryAfter st" and "as_throttleTimer st' = as_throttleTimer st"
  shows "auto_inv now st'"
  using assms by (simp add: auto_inv_def)

lemma inv_later: "auto_inv t st \<Longrightarrow> t \<le> now \<Longrightarrow> auto_inv now st"
  by (auto simp: auto_inv_def retry_armed_def start_ok_def list_all_iff split: option.splits)

lemma gate_armed:
  "retry_armed (ae_now env) (as_retryAfter st) (as_throttleTimer st) \<Longrightarrow>
   retry_armed (ae_now env) (as_retryAfter st) (as_throttleTimer (snd (shouldRunAutoSyncNow env st)))"
  by (auto simp: retry_armed_def shouldRunAutoSyncNow_def scheduleAutoRetryAfterCooldown_def Let_def split: option.splits)

lemma gate_inv: "auto_inv (ae_now env) st \<Longrightarrow> auto_inv (ae_now env) (snd (shouldRunAutoSyncNow env st))"
  by (simp add: auto_inv_def gate_armed)

lemma armed_free [simp]:
  "retry_armed n r None \<longleftrightarrow> r \<le> n" "r \<le> n \<Longrightarrow> retry_armed n r t"
  by (auto simp: retry_armed_def)

lemma gate_open: "as_retryAfter st \<le> ae_now env \<Longrightarrow> shouldRunAutoSyncNow env st = (True, st)"
  by (simp add: shouldRunAutoSyncNow_def)

lemma begin_armed:
  assumes "retry_armed (ae_now env) (as_retryAfter st) (as_throttleTimer st)"
  shows "retry_armed (ae_now env) (as_retryAfter st) (as_throttleTimer (snd (begin_cycle op env req st)))"
proof (cases "as_retryAfter st \<le> ae_now env")
  case False
  then obtain tm where "as_throttleTimer st = Some tm" using assms by (cases "as_throttleTimer st") auto
  then show ?thesis
    using assms gate_armed[OF assms] False by (auto simp: begin_cycle_def Let_def split_beta)
qed simp

lemma begin_start_ok: "start_ok (ae_now env) (as_retryAfter st) (fst (begin_cycle op env req st))"
  by (auto simp: begin_cycle_def Let_def split_beta start_ok_def after_suspension_check_def begin_sync_def split: option.splits if_splits)

lemma enter_inv:
  assumes "retry_armed (ae_now env) (as_retryAfter st) (as_throttleTimer st)" and "as_running st = []"
    and "so_inFlight (as_orchestrator st) = Some (rc_id c)" and "so_minDelay (as_orchestrator st) = 0" and "rc_arg c \<noteq> None"
  shows "auto_inv (ae_now env) (enter_cycle op env c st)"
proof -
  obtain req where req: "rc_arg c = Some req" using assms(5) by blast
  show ?thesis
    using assms begin_armed[OF assms(1)] begin_start_ok[of env st op req]
    by (simp add: enter_fields[OF req] auto_inv_def flight_of_def)
qed

lemma run_request_inv:
  assumes "auto_inv (ae_now env) st"
  shows "auto_inv (ae_now env) (run_request op env req st)"
proof (cases "so_inFlight (as_orchestrator st)")
  case None
  then have "as_running st = []" "so_minDelay (as_orchestrator st) = 0"
    "retry_armed (ae_now env) (as_retryAfter st) (as_throttleTimer st)"
    using assms by (simp_all add: auto_inv_def flight_of_def)
  then show ?thesis using None
    by (simp add: run_request_def on_orchestrator_def fresh_run Let_def)
       (rule enter_inv; simp add: run_fields)
next
  case (Some i)
  then show ?thesis using assms
    by (simp add: run_request_def on_orchestrator_def fresh_run Let_def auto_inv_def flight_of_def run_fields)
qed

lemma requestAutoSync_inv:
  assumes "auto_inv (ae_now env) st"
  shows "auto_inv (ae_now env) (requestAutoSync op env i source b st)"
proof -
  define st1 where "st1 = (if ae_suspended env \<and> orchestrator_busy st then st\<lparr>as_requestedWhileSuspended := True\<rparr> else st)"
  have 1: "auto_inv (ae_now env) st1" unfolding st1_def by (rule inv_cong[OF assms]) simp_all
  obtain go st2 where gate: "shouldRunAutoSyncNow env st1 = (go, st2)" by (cases "shouldRunAutoSyncNow env st1")
  have 2: "auto_inv (ae_now env) st2" using gate_inv[OF 1] gate by simp
  show ?thesis
    unfolding requestAutoSync_def Let_def st1_def[symmetric] gate
    using assms 1 2 run_request_inv[OF 2] by (cases go) simp_all
qed

lemma set_stage_fields [simp]:
  "as_orchestrator (set_stage c g st) = as_orchestrator st" "as_retryAfter (set_stage c g st) = as_retryAfter st"
  "as_throttleTimer (set_stage c g st) = as_throttleTimer st"
  "as_running (set_stage c g st) = map (\<lambda>r. if fst r = c then (c, g) else r) (as_running st)"
  by (simp_all add: set_stage_def)

lemma flight_single:
  assumes "flight_of orch running" and "map_of running c = Some g"
  shows "running = [(c, g)]" and "so_inFlight orch = Some (rc_id c)" and "rc_arg c \<noteq> None" and "so_minDelay orch = 0"
  using assms by (auto simp: flight_of_def split: option.splits if_splits)

lemma note_result_armed:
  assumes "retry_armed (ae_now env) (as_retryAfter st) (as_throttleTimer st)" and "0 \<le> ae_now env"
  shows "retry_armed (ae_now env) (as_retryAfter (note_result op env b e st)) (as_throttleTimer (note_result op env b e st))"
  using assms by (auto simp: note_result_def Let_def scheduleAutoRetryAfterCooldown_def retry_armed_def)

lemma answer_inv:
  assumes inv: "auto_inv (ae_now env) st" and now: "0 \<le> ae_now env" and step: "answer_cycle op env c a st = Some st'"
  shows "auto_inv (ae_now env) st'"
proof -
  obtain g g1 st1 where g: "map_of (as_running st) c = Some g" and r: "resume_cycle op env c g a st = Some (g1, st1)"
    and st': "st' = set_stage c g1 st1"
    using step by (auto simp: answer_cycle_def split: option.splits)
  have flight: "flight_of (as_orchestrator st) (as_running st)" using inv by (simp add: auto_inv_def)
  note single = flight_single[OF flight g]
  have old: "start_ok (ae_now env) (as_retryAfter st) g"
    using inv single(1) by (simp add: auto_inv_def)
  have armed: "retry_armed (ae_now env) (as_retryAfter st) (as_throttleTimer st)" using inv by (simp add: auto_inv_def)
  have "as_running st1 = [(c, g)] \<and> so_inFlight (as_orchestrator st1) = Some (rc_id c) \<and> so_minDelay (as_orchestrator st1) = 0
      \<and> retry_armed (ae_now env) (as_retryAfter st1) (as_throttleTimer st1) \<and> start_ok (ae_now env) (as_retryAfter st1) g1"
  proof (cases "\<exists>cs b e. g = Syncing cs \<and> a = SyncResult b e")
    case True
    then obtain cs b e where "g = Syncing cs" "a = SyncResult b e" by blast
    then have eq: "g1 = CycleOver" "st1 = note_cycle_end op env c cs (note_result op env b e st)"
      using r by (simp_all add: resume_cycle_def)
    have "so_minDelay (as_orchestrator (note_cycle_end op env c cs (note_result op env b e st))) = 0"
      using single(4) by (simp add: note_cycle_end_def Let_def)
    then show ?thesis using eq single note_result_armed[OF armed now] by (simp add: start_ok_def)
  next
    case False
    then have "as_orchestrator st1 = as_orchestrator st" "as_running st1 = as_running st" "as_retryAfter st1 = as_retryAfter st"
        "as_throttleTimer st1 = as_throttleTimer st" "stage_start g1 = None \<or> stage_start g1 = stage_start g"
      using r by (auto simp: resume_cycle_def after_suspension_check_def begin_sync_def split: auto_stage.splits auto_answer.splits if_splits)
    then show ?thesis using single armed old by (auto simp: start_ok_def)
  qed
  then show ?thesis using single(3) by (simp add: st' auto_inv_def flight_of_def)
qed

lemma settle_inv:
  assumes inv: "auto_inv (ae_now env) st" and step: "settle_cycle op env c st = Some st'"
  shows "auto_inv (ae_now env) st'"
proof -
  have g: "map_of (as_running st) c = Some CycleOver"
    and st': "st' = on_orchestrator op env (cycle_settled None (ae_now env) c)
       (st\<lparr>as_running := filter (\<lambda>r. fst r \<noteq> c) (as_running st)\<rparr>)"
    using step by (auto simp: settle_cycle_def split: if_splits)
  have flight: "flight_of (as_orchestrator st) (as_running st)" using inv by (simp add: auto_inv_def)
  note single = flight_single[OF flight g]
  have armed: "retry_armed (ae_now env) (as_retryAfter st) (as_throttleTimer st)" using inv by (simp add: auto_inv_def)
  show ?thesis
  proof (cases "so_queued (as_orchestrator st)")
    case True
    have "rc_arg c \<noteq> None" by (rule single(3))
    then have arg: "js_nullish (so_queuedArg (as_orchestrator st)) (rc_arg c) \<noteq> None"
      by (auto simp: js_nullish_def split: option.split)
    show ?thesis
      unfolding st' on_orchestrator_def Let_def
      using True single armed arg
      by (simp add: fresh_settled del: not_None_eq) (rule enter_inv; simp add: settled_fields)
  next
    case False
    then show ?thesis
      using single armed
      by (simp add: st' on_orchestrator_def Let_def fresh_settled auto_inv_def flight_of_def settled_fields)
  qed
qed

lemma periodic_inv: "auto_inv now st \<Longrightarrow> auto_inv now (schedulePeriodicSync op env st)"
  by (rule inv_cong, assumption)
     (simp_all add: schedulePeriodicSync_def new_timer_def Let_def split: option.split)

lemma throttle_over:
  assumes "auto_inv (ae_now env) st" and "as_throttleTimer st = Some tm" and "tm_due tm \<le> ae_now env"
  shows "auto_inv (ae_now env) (st\<lparr>as_throttleTimer := None\<rparr>)"
  using assms by (auto simp: auto_inv_def retry_armed_def split: option.splits)

lemma fire_inv:
  assumes inv: "auto_inv (ae_now env) st" and step: "fire_timer op env tm st = Some st'"
  shows "auto_inv (ae_now env) st'"
proof -
  have due: "tm_due tm \<le> ae_now env" using step by (auto simp: fire_timer_def split: if_splits)
  consider "as_throttleTimer st = Some tm" "st' = throttle_fires op env (tm_kind tm) st"
    | "st' = debounce_fires op env st" | "st' = initial_fires op env st" | "st' = periodic_fires op env st"
    using step by (auto simp: fire_timer_def split: if_splits)
  then show ?thesis
  proof cases
    case 1
    then show ?thesis
      using throttle_over[OF inv 1(1) due] by (simp add: throttle_fires_def Let_def requestAutoSync_inv)
  next
    case 2
    have "auto_inv (ae_now env) (if ao_continuousDebounceUntilSuspend op then st\<lparr>as_debounceFired := True\<rparr>
        else st\<lparr>as_debounceTimer := None, as_debounceFired := True\<rparr>)"
      by (rule inv_cong[OF inv]) simp_all
    then show ?thesis
      unfolding 2 debounce_fires_def Let_def change_request_def by (simp add: requestAutoSync_inv)
  next
    case 3
    have "auto_inv (ae_now env) (st\<lparr>as_initialTimer := None\<rparr>)" by (rule inv_cong[OF inv]) simp_all
    then show ?thesis unfolding 3 initial_fires_def Let_def by (simp add: requestAutoSync_inv)
  next
    case 4
    have "auto_inv (ae_now env) (st\<lparr>as_periodicTimer := None\<rparr>)" by (rule inv_cong[OF inv]) simp_all
    then show ?thesis unfolding 4 periodic_fires_def Let_def by (simp add: requestAutoSync_inv periodic_inv)
  qed
qed

lemma cleared_inv:
  assumes "auto_inv now st" and "0 \<le> now"
  shows "auto_inv now (notifyExternalSyncSuccess st)"
  using assms by (auto simp: notifyExternalSyncSuccess_def auto_inv_def start_ok_def list_all_iff flight_of_def split: option.splits)

lemma step_inv:
  assumes inv: "auto_inv (ae_now env) st" and now: "0 \<le> ae_now env" and step: "auto_step op env e st = Some st'" and alive: "e \<noteq> DisposeCall"
  shows "auto_inv (ae_now env) st'"
proof (cases e)
  case (ManualRequest i)
  then show ?thesis using inv step by (auto simp: requestSync_def run_request_inv)
next
  case (AutoRequest i source)
  then show ?thesis using inv step by (auto simp: requestAutoSync_inv)
next
  case Focus
  have "auto_inv (ae_now env) (st\<lparr>as_lastFocusTriggerAt := ae_now env\<rparr>)" by (rule inv_cong[OF inv]) simp_all
  then show ?thesis using Focus inv step by (auto simp: handleFocus_def requestAutoSync_inv)
next
  case Blur
  then show ?thesis using inv step by (auto simp: handleBlur_def requestAutoSync_inv)
next
  case DataChange
  have "auto_inv (ae_now env) (handleDataChange op env st)"
    by (rule inv_cong[OF inv]) (simp_all add: handleDataChange_def new_timer_def Let_def)
  then show ?thesis using DataChange step by simp
next
  case ChangeReady
  then show ?thesis using inv step by (auto simp: change_request_def requestAutoSync_inv split: if_splits)
next
  case ScheduleInitial
  have "auto_inv (ae_now env) (scheduleInitialSync op env st)"
    by (rule inv_cong[OF inv]) (simp_all add: scheduleInitialSync_def new_timer_def)
  then show ?thesis using ScheduleInitial step by simp
next
  case Suspend
  have "auto_inv (ae_now env) (handleSuspend st)"
    using inv now by (auto simp: handleSuspend_def Let_def auto_inv_def)
  then show ?thesis using Suspend step by simp
next
  case ExternalSuccess
  then show ?thesis using cleared_inv[OF inv now] step by simp
next
  case TakePending
  have "auto_inv (ae_now env) (snd (takePendingSuspendedRequest st))"
    by (rule inv_cong[OF inv]) (simp_all add: takePendingSuspendedRequest_def)
  then show ?thesis using TakePending step by simp
next
  case (TimerFires tm)
  then show ?thesis using fire_inv[OF inv] step by simp
next
  case (CycleAnswer c a)
  then show ?thesis using answer_inv[OF inv now] step by simp
next
  case (CycleSettles c)
  then show ?thesis using settle_inv[OF inv] step by simp
qed (use alive in simp)

lemma reachable_auto_inv: "auto_reachable op t st \<Longrightarrow> auto_inv t st \<and> 0 \<le> t"
proof (induction rule: auto_reachable.induct)
  case (auto_init env)
  have "auto_inv (ae_now env) (createAutoSyncController op env)"
    unfolding createAutoSyncController_def
    by (rule periodic_inv) (simp add: auto_inv_def flight_of_def createSyncOrchestrator_def auto_init)
  then show ?case using auto_init by simp
next
  case (auto_next t st env e st')
  then show ?case using step_inv[OF inv_later, of t st env op e st'] by auto
qed

subsection \<open>The controller's guarantees\<close>

text \<open>
  C33: at most one cycle is under way, and an automatic one (not a user's request, which
  overrides the wait) never started inside a failure cooldown.
\<close>

theorem automatic_sync_respects_cooldown:
  assumes "auto_reachable op t st" and "(c, g) \<in> set (as_running st)" and "stage_start g = Some cs"
  shows "as_running st = [(c, g)] \<and> 0 \<le> t \<and> cs_now cs \<le> t
     \<and> (\<not> ar_bypassFailureCooldown (cs_request cs) \<longrightarrow> as_retryAfter st \<le> max 0 (cs_now cs))"
proof -
  have inv: "auto_inv t st" "0 \<le> t" using reachable_auto_inv[OF assms(1)] by simp_all
  then have run: "as_running st = [(c, g)]"
    using assms(2) by (auto simp: auto_inv_def flight_of_def split: option.splits)
  then show ?thesis using inv assms(3) by (auto simp: auto_inv_def start_ok_def)
qed

text \<open>
  C34: a failed sync is retried without any further trigger: as long as a failure cooldown lasts,
  a timer is armed for exactly its end, whatever requests, focus changes, suspensions and other
  cycles happened since; and when that timer fires in an active runtime with no cycle under way,
  the retry cycle starts.
\<close>

theorem failure_retry_armed:
  assumes "auto_reachable op t st" and "t < as_retryAfter st"
  shows "\<exists>tm. as_throttleTimer st = Some tm \<and> tm_due tm = as_retryAfter st
     \<and> (\<forall>env. as_retryAfter st \<le> ae_now env \<longrightarrow> ae_active env \<longrightarrow> as_running st = [] \<longrightarrow> \<not> as_disposed st \<longrightarrow>
          (\<exists>st' c g. auto_step op env (TimerFires tm) st = Some st' \<and> as_running st' = [(c, g)]))"
proof -
  have inv: "auto_inv t st" using reachable_auto_inv[OF assms(1)] by simp
  then obtain tm where tm: "as_throttleTimer st = Some tm" "tm_due tm = as_retryAfter st"
    using assms(2) by (auto simp: auto_inv_def retry_armed_def split: option.splits)
  have "\<exists>st' c g. auto_step op env (TimerFires tm) st = Some st' \<and> as_running st' = [(c, g)]"
    if env: "as_retryAfter st \<le> ae_now env" "ae_active env" "as_running st = []" "\<not> as_disposed st" for env
  proof -
    have idle: "so_inFlight (as_orchestrator st) = None"
      using inv env(3) by (auto simp: auto_inv_def flight_of_def split: option.splits)
    have start: "\<exists>c g. as_running (requestAutoSync op env (Some 0) source True (st\<lparr>as_throttleTimer := None\<rparr>)) = [(c, g)]" for source
      using env idle
      by (simp add: requestAutoSync_def orchestrator_busy_def gate_open run_request_def on_orchestrator_def fresh_run Let_def
          enter_fields)
    show ?thesis
      using start tm env by (auto simp: fire_timer_def throttle_fires_def Let_def)
  qed
  then show ?thesis using tm by blast
qed

lemma begin_waits:
  assumes "ae_active env" and "as_retryAfter x \<le> ae_now env"
  shows "as_throttleTimer (snd (begin_cycle op env req x)) \<noteq> None \<or> fst (begin_cycle op env req x) \<noteq> CycleOver"
  using assms by (auto simp: begin_cycle_def gate_open Let_def after_suspension_check_def begin_sync_def)

lemma run_started:
  assumes "so_inFlight (as_orchestrator st) = None" and "as_running st = []" and "ae_active env" and "as_retryAfter st \<le> ae_now env"
    and "st' = run_request op env req st"
  shows "as_throttleTimer st' \<noteq> None \<or> (\<exists>c g. as_running st' = [(c, g)] \<and> g \<noteq> CycleOver)"
proof -
  define x where "x = st\<lparr>as_orchestrator := run_cycle (ae_now env) (Some req) (as_orchestrator st)\<rparr>"
  have "as_running st' = [(\<lparr>rc_id = so_next (as_orchestrator st), rc_arg = Some req, rc_startedAt = ae_now env\<rparr>,
        fst (begin_cycle op env req x))] \<and> as_throttleTimer st' = as_throttleTimer (snd (begin_cycle op env req x))"
    using assms(1,2) by (simp add: assms(5) run_request_def on_orchestrator_def fresh_run Let_def enter_fields x_def)
  moreover have "as_throttleTimer (snd (begin_cycle op env req x)) \<noteq> None \<or> fst (begin_cycle op env req x) \<noteq> CycleOver"
    using begin_waits[OF assms(3), of x] assms(4) by (simp add: x_def)
  ultimately show ?thesis by auto
qed

lemma run_queued:
  "so_inFlight (as_orchestrator st) \<noteq> None \<Longrightarrow> so_queued (as_orchestrator (run_request op env req st))"
  by (simp add: run_request_def on_orchestrator_def fresh_run Let_def)
     (auto simp: run_cycle_def request_follow_up_def set_queued_def emit_def)

text \<open>
  No automatic request is silently dropped: in an active runtime it ends with a cycle under
  way, a queued follow-up or a timer armed for a later attempt.
\<close>

theorem request_is_served:
  assumes "auto_reachable op t st" and "ae_active env" and "t \<le> ae_now env"
    and "st' = requestAutoSync op env i source False st"
  shows "as_throttleTimer st' \<noteq> None \<or> so_queued (as_orchestrator st')
     \<or> (\<exists>c g. as_running st' = [(c, g)] \<and> g \<noteq> CycleOver)"
proof -
  define st1 where "st1 = (if ae_suspended env \<and> orchestrator_busy st then st\<lparr>as_requestedWhileSuspended := True\<rparr> else st)"
  have same: "as_orchestrator st1 = as_orchestrator st" "as_running st1 = as_running st" "as_retryAfter st1 = as_retryAfter st"
    by (simp_all add: st1_def)
  have st': "st' = (case shouldRunAutoSyncNow env st1 of (False, st2) \<Rightarrow> st2
      | (True, st2) \<Rightarrow> run_request op env (auto_request_of i source False) st2)"
    using assms(2,4) by (simp add: requestAutoSync_def Let_def flip: st1_def)
  show ?thesis
  proof (cases "as_retryAfter st \<le> ae_now env")
    case False
    then have "st' = scheduleAutoRetryAfterCooldown env False st1"
      using st' same by (simp add: shouldRunAutoSyncNow_def)
    then show ?thesis by simp
  next
    case True
    then have run: "st' = run_request op env (auto_request_of i source False) st1"
      using st' same by (simp add: gate_open)
    show ?thesis
    proof (cases "so_inFlight (as_orchestrator st)")
      case (Some k)
      then show ?thesis using run_queued[of st1] same by (simp add: run)
    next
      case None
      then have "as_running st = []"
        using reachable_auto_inv[OF assms(1)] by (auto simp: auto_inv_def flight_of_def)
      then show ?thesis using run_started[OF _ _ assms(2) _ run] None True same by auto
    qed
  qed
qed

subsection \<open>A sample run\<close>

fun auto_run :: "auto_options \<Rightarrow> (auto_env \<times> auto_event) list \<Rightarrow> int \<times> auto_state \<Rightarrow> (int \<times> auto_state) option" where
  "auto_run op [] s = Some s"
| "auto_run op ((env, e) # es) (t, st) =
     (if t \<le> ae_now env \<and> e \<noteq> DisposeCall
      then (case auto_step op env e st of None \<Rightarrow> None | Some st' \<Rightarrow> auto_run op es (ae_now env, st'))
      else None)"

lemma auto_run_reachable:
  "auto_run op es (t, st) = Some (t', st') \<Longrightarrow> auto_reachable op t st \<Longrightarrow> auto_reachable op t' st'"
proof (induction op es "(t, st)" arbitrary: t st rule: auto_run.induct)
  case (2 op env e es t st)
  then obtain x where "auto_step op env e st = Some x" "t \<le> ae_now env" "e \<noteq> DisposeCall"
    "auto_run op es (ae_now env, x) = Some (t', st')"
    by (auto split: if_splits option.splits)
  then show ?case using 2 by (auto intro: auto_next)
qed simp

definition sample_options :: auto_options where
  "sample_options = \<lparr>ao_minIntervalMs = None, ao_focusMinIntervalMs = None, ao_debounceFirstChangeMs = None,
     ao_debounceContinuousChangeMs = None, ao_autoFailureCooldownMs = None, ao_maxFailureCooldownMs = None,
     ao_initialSyncDelayMs = None, ao_periodicSyncIntervalMs = Some None, ao_adaptivePacing = None,
     ao_hasCanSync = False, ao_hasRefreshCadence = False, ao_continuousDebounceUntilSuspend = False,
     ao_skipRetryWhileCycleRunning = False, ao_isIgnorableFailure = (\<lambda>_. False), ao_float_ms = (\<lambda>_. None)\<rparr>"

definition at_time :: "int \<Rightarrow> auto_env" where
  "at_time n = \<lparr>ae_now = n, ae_active = True, ae_paused = False, ae_pendingChanges = True, ae_suspended = False,
     ae_shouldSyncChange = True, ae_cadence = None\<rparr>"

definition first_cycle :: auto_cycle where
  "first_cycle = \<lparr>rc_id = 0, rc_arg = Some (auto_request_of None ''blur'' False), rc_startedAt = 100000\<rparr>"

definition started_run :: "(auto_env \<times> auto_event) list" where
  "started_run = [(at_time 100000, Blur)]"

definition failed_run :: "(auto_env \<times> auto_event) list" where
  "failed_run = started_run @ [(at_time 100001, CycleAnswer first_cycle (Suspended False)),
     (at_time 100002, CycleAnswer first_cycle SaveFlushed),
     (at_time 101000, CycleAnswer first_cycle (SyncResult False (Some ''x''))),
     (at_time 101001, CycleSettles first_cycle)]"

definition sample_state :: "(auto_env \<times> auto_event) list \<Rightarrow> (int \<times> auto_state) option" where
  "sample_state es = auto_run sample_options es (0, createAutoSyncController sample_options (at_time 0))"

lemma sample_reachable: "sample_state es = Some (t, st) \<Longrightarrow> auto_reachable sample_options t st"
  unfolding sample_state_def
  using auto_run_reachable auto_init[of "at_time 0" sample_options] by (simp add: at_time_def)


lemma started_state: "case sample_state started_run of None \<Rightarrow> False | Some (t, st) \<Rightarrow>
    t = 100000 \<and> map fst (as_running st) = [first_cycle] \<and> list_all (\<lambda>r. stage_start (snd r) \<noteq> None) (as_running st)"
  by code_simp

lemma failed_state: "case sample_state failed_run of None \<Rightarrow> False | Some (t, st) \<Rightarrow>
    t = 101001 \<and> as_retryAfter st = 161000 \<and> as_running st = [] \<and> \<not> as_disposed st"
  by code_simp

theorem automatic_sync_respects_cooldown_witness:
  "case sample_state started_run of None \<Rightarrow> False | Some (t, st) \<Rightarrow>
     (case as_running st of [(c, g)] \<Rightarrow>
        (case stage_start g of None \<Rightarrow> False | Some cs \<Rightarrow> c = first_cycle \<and> as_retryAfter st \<le> max 0 (cs_now cs) \<and> cs_now cs \<le> t)
      | _ \<Rightarrow> False)"
proof -
  obtain t st where s: "sample_state started_run = Some (t, st)"
    and r: "map fst (as_running st) = [first_cycle]" "list_all (\<lambda>r. stage_start (snd r) \<noteq> None) (as_running st)"
    using started_state by (auto split: option.splits)
  obtain g cs where g: "as_running st = [(first_cycle, g)]" "stage_start g = Some cs"
    using r by (cases "as_running st") auto
  have "ar_bypassFailureCooldown (cs_request cs) = False"
  proof -
    have "case sample_state started_run of None \<Rightarrow> False | Some (t, st) \<Rightarrow>
        list_all (\<lambda>r. map_option (\<lambda>cs. ar_bypassFailureCooldown (cs_request cs)) (stage_start (snd r)) = Some False) (as_running st)"
      by code_simp
    then show ?thesis using s g by simp
  qed
  then show ?thesis
    unfolding s using automatic_sync_respects_cooldown[OF sample_reachable[OF s], of first_cycle g cs] g by simp
qed

theorem failure_retry_armed_witness:
  "case sample_state failed_run of None \<Rightarrow> False | Some (t, st) \<Rightarrow>
     (case as_throttleTimer st of None \<Rightarrow> False | Some tm \<Rightarrow> tm_due tm = 161000
        \<and> (case auto_step sample_options (at_time 161000) (TimerFires tm) st of None \<Rightarrow> False | Some st' \<Rightarrow> as_running st' \<noteq> []))"
proof -
  obtain t st where s: "sample_state failed_run = Some (t, st)"
    and r: "t = 101001" "as_retryAfter st = 161000" "as_running st = []" "\<not> as_disposed st"
    using failed_state by (auto split: option.splits)
  obtain tm where tm: "as_throttleTimer st = Some tm" "tm_due tm = 161000"
      "\<forall>env. 161000 \<le> ae_now env \<longrightarrow> ae_active env \<longrightarrow>
         (\<exists>st' c g. auto_step sample_options env (TimerFires tm) st = Some st' \<and> as_running st' = [(c, g)])"
    using failure_retry_armed[OF sample_reachable[OF s]] r by auto
  have "ae_now (at_time 161000) = 161000" "ae_active (at_time 161000)" by (simp_all add: at_time_def)
  then obtain st' c g where st': "auto_step sample_options (at_time 161000) (TimerFires tm) st = Some st'" "as_running st' = [(c, g)]"
    using tm(3)[rule_format, of "at_time 161000"] by auto
  show ?thesis
    unfolding s option.case prod.case tm(1) st'(1) using tm(2) st'(2) by simp
qed

theorem request_is_served_witness:
  "case sample_state failed_run of None \<Rightarrow> False | Some (t, st) \<Rightarrow>
     as_throttleTimer (requestAutoSync sample_options (at_time 102000) None ''focus'' False st) \<noteq> None"
proof -
  have quiet: "case sample_state failed_run of None \<Rightarrow> False | Some (t, st) \<Rightarrow>
      (let st' = requestAutoSync sample_options (at_time 102000) None ''focus'' False st
       in \<not> so_queued (as_orchestrator st') \<and> as_running st' = [])"
    by code_simp
  obtain t st where s: "sample_state failed_run = Some (t, st)" "t = 101001"
    using failed_state by (auto split: option.splits)
  then show ?thesis
    using quiet request_is_served[OF sample_reachable[OF s(1)], of "at_time 102000" _ None "''focus''", OF _ _ refl]
    by (simp add: at_time_def Let_def)
qed

end
