(* ===== verification/MergeConverge.thy ===== *)
theory MergeConverge
  imports MergeApp
begin

text \<open>
  The two directions of a sync. Copies whose signatures tell them apart have one winner, whichever
  device merges, and what the callbacks of tasks and projects make of the winner does not depend on
  the direction either, but for the attachments: they are merged list by list (\<open>AttachmentMerge\<close>), with
  the clock and the preferred cloud key of the device.
\<close>

subsection \<open>One winner\<close>







subsection \<open>Sections, areas and people\<close>


lemma plain_view [simp]: "mo_view (plain_ops view cmp) = view"
  by (simp add: plain_ops_def)






subsection \<open>Projects\<close>

definition bare_project :: "project \<Rightarrow> project" where
  "bare_project p = p\<lparr>p_attachments := None\<rparr>"







lemma bare_project_updated [simp]: "bare_project (x\<lparr>p_attachments := a\<rparr>) = bare_project x"
  by (simp add: bare_project_def)









subsection \<open>Tasks\<close>





















subsection \<open>The collections of a document\<close>












end
