(* ===== verification/TaskFilter.thy ===== *)
theory TaskFilter
  imports SavedFilters DateUtil
begin

text \<open>
  Matching tasks against filter criteria: \<open>taskMatchesFilterCriteria\<close> and \<open>applyFilter\<close> of
  \<open>saved-filters.ts\<close>, with the tokens of \<open>hierarchy-utils.ts\<close> and \<open>bulk-task-tokens.ts\<close> and the time
  estimates of \<open>calendar-scheduling.ts\<close>. The calendar functions of the \<open>date-fns\<close> package are arguments.
\<close>

record date_fns =
  startOfDay :: "int \<Rightarrow> int"
  endOfDay :: "int \<Rightarrow> int"
  startOfWeek :: "nat \<Rightarrow> int \<Rightarrow> int"
  endOfWeek :: "nat \<Rightarrow> int \<Rightarrow> int"
  startOfMonth :: "int \<Rightarrow> int"
  endOfMonth :: "int \<Rightarrow> int"
  isAfter :: "int \<Rightarrow> int \<Rightarrow> bool"
  isBefore :: "int \<Rightarrow> int \<Rightarrow> bool"
  isEqual :: "int \<Rightarrow> int \<Rightarrow> bool"

subsection \<open>Tokens\<close>

definition matchesHierarchicalToken :: "string \<Rightarrow> string \<Rightarrow> bool" where
  "matchesHierarchicalToken filter1 token =
     (let normalized = List.rev (dropWhile (\<lambda>c. c = CHR ''/'') (List.rev filter1))
      in token = normalized \<or> starts_with (normalized @ ''/'') token)"

datatype token_field = ContextTokens | TagTokens

definition token_prefix :: "token_field \<Rightarrow> string" where
  "token_prefix f = (case f of ContextTokens \<Rightarrow> ''@'' | TagTokens \<Rightarrow> ''#'')"

definition normalizeBulkTaskTokenInput :: "string \<Rightarrow> token_field \<Rightarrow> string" where
  "normalizeBulkTaskTokenInput value f =
     (let trimmed = js_trim value;
          withoutPrefix = js_trim (dropWhile (\<lambda>c. c = CHR ''@'' \<or> c = CHR ''#'') trimmed)
      in if trimmed = [] \<or> withoutPrefix = [] then [] else token_prefix f @ withoutPrefix)"

datatype match_mode = AnyToken | AllTokens

definition match_mode_of :: "json \<Rightarrow> match_mode option" where
  "match_mode_of v = (if v = JStr ''all'' then Some AllTokens else if v = JStr ''any'' then Some AnyToken else None)"

definition matchesAnyToken :: "string list \<Rightarrow> string list \<Rightarrow> token_field \<Rightarrow> bool" where
  "matchesAnyToken selected actual f =
     (selected = [] \<or>
      (let actualValues = map (\<lambda>t. normalizeBulkTaskTokenInput t f) actual
       in list_ex (\<lambda>s. list_ex (matchesHierarchicalToken s) actualValues) selected))"

definition matchesAllTokens :: "string list \<Rightarrow> string list \<Rightarrow> token_field \<Rightarrow> bool" where
  "matchesAllTokens selected actual f =
     (selected = [] \<or>
      (let actualValues = map (\<lambda>t. normalizeBulkTaskTokenInput t f) actual
       in list_all (\<lambda>s. list_ex (matchesHierarchicalToken s) actualValues) selected))"

definition matchesTokens :: "string list \<Rightarrow> string list \<Rightarrow> token_field \<Rightarrow> match_mode \<Rightarrow> bool" where
  "matchesTokens selected actual f mode =
     (case mode of AllTokens \<Rightarrow> matchesAllTokens selected actual f | AnyToken \<Rightarrow> matchesAnyToken selected actual f)"

subsection \<open>Time estimates\<close>

definition CALENDAR_TIME_ESTIMATE_OPTIONS :: "(string \<times> int) list" where
  "CALENDAR_TIME_ESTIMATE_OPTIONS = [(''5min'', 5), (''10min'', 10), (''15min'', 15), (''30min'', 30),
     (''1hr'', 60), (''2hr'', 120), (''3hr'', 180), (''4hr'', 240)]"

text \<open>\<open>Number(s)\<close> on decimal notation; other notations are not numbers here.\<close>

definition digits_only :: "string \<Rightarrow> bool" where
  "digits_only s = list_all (\<lambda>c. digit_of c \<noteq> None) s"

definition decimal_number :: "string \<Rightarrow> json" where
  "decimal_number s =
     (case span_digits s of (d, r) \<Rightarrow>
        if d \<noteq> [] \<and> r = [] then JNum (whole_part 0 d)
        else if d \<noteq> [] \<and> hd r = CHR ''.'' \<and> digits_only (tl r)
          then (if list_all (\<lambda>c. c = CHR ''0'') (tl r) then JNum (whole_part 0 d) else JNonInt s)
        else JNonInt ''null'')"

definition normalizeExactTimeEstimateMinutes :: "json \<Rightarrow> int" where
  "normalizeExactTimeEstimateMinutes minutes = max 1 (js_round minutes)"

definition customTimeEstimateToMinutes :: "string option \<Rightarrow> int option" where
  "customTimeEstimateToMinutes estimate =
     (case estimate of
        None \<Rightarrow> None
      | Some s \<Rightarrow>
          if \<not> starts_with ''custom:'' s then None
          else (let minutes = decimal_number (js_trim (drop 7 s))
                in if \<not> is_finite_number minutes \<or> js_floor minutes < 1 then None
                   else Some (normalizeExactTimeEstimateMinutes minutes)))"

definition timeEstimateToMinutes :: "string option \<Rightarrow> int" where
  "timeEstimateToMinutes estimate =
     (case customTimeEstimateToMinutes estimate of
        Some m \<Rightarrow> m
      | None \<Rightarrow>
          (case estimate of
             None \<Rightarrow> 30
           | Some s \<Rightarrow> if s = ''4hr+'' then 240 else or_else (map_of CALENDAR_TIME_ESTIMATE_OPTIONS s) 30))"

definition minutesToTimeEstimateBucket :: "int \<Rightarrow> string" where
  "minutesToTimeEstimateBucket minutes =
     (let normalized = max 1 minutes in
      case find (\<lambda>o1. snd o1 = normalized) CALENDAR_TIME_ESTIMATE_OPTIONS of
        Some o1 \<Rightarrow> fst o1
      | None \<Rightarrow>
          (case find (\<lambda>o1. normalized \<le> snd o1) CALENDAR_TIME_ESTIMATE_OPTIONS of
             Some o1 \<Rightarrow> fst o1 | None \<Rightarrow> ''4hr+''))"

definition timeEstimateToFilterBucket :: "string option \<Rightarrow> string option" where
  "timeEstimateToFilterBucket estimate =
     (if truthy estimate then Some (minutesToTimeEstimateBucket (timeEstimateToMinutes estimate)) else None)"

subsection \<open>Single criteria\<close>

definition in_span :: "date_fns \<Rightarrow> int \<Rightarrow> int \<Rightarrow> int \<Rightarrow> bool" where
  "in_span d date from1 to1 =
     ((isAfter d date from1 \<or> isEqual d date from1) \<and> (isBefore d date to1 \<or> isEqual d date to1))"

definition matches_preset :: "date_fns \<Rightarrow> json \<Rightarrow> int \<Rightarrow> int \<Rightarrow> nat \<Rightarrow> bool" where
  "matches_preset d preset date now weekStartsOn =
     (if preset = JStr ''today'' then in_span d date (startOfDay d now) (endOfDay d now)
      else if preset = JStr ''this_week'' then in_span d date (startOfWeek d weekStartsOn now) (endOfWeek d weekStartsOn now)
      else if preset = JStr ''this_month'' then in_span d date (startOfMonth d now) (endOfMonth d now)
      else if preset = JStr ''overdue'' then isBefore d date (startOfDay d now)
      else if preset = JStr ''no_date'' then False
      else True)"

definition range_end :: "host \<Rightarrow> js_object \<Rightarrow> string \<Rightarrow> int option" where
  "range_end h rng k = (if js_truthy (obj_get k rng) then safeParseDate h (str_of (obj_get k rng)) else None)"

definition matchesDateRange ::
  "host \<Rightarrow> date_fns \<Rightarrow> string option \<Rightarrow> json \<Rightarrow> (string option \<Rightarrow> int option) \<Rightarrow> int \<Rightarrow> nat \<Rightarrow> bool" where
  "matchesDateRange h d value rng parser now weekStartsOn =
     (if \<not> js_truthy rng then True
      else
        (let r = filter_fields rng; has_preset = (''preset'' \<in> fst ` set r) in
         if has_preset \<and> obj_get ''preset'' r = JStr ''no_date'' then \<not> truthy value
         else if \<not> truthy value then False
         else (case parser value of
             None \<Rightarrow> False
           | Some date \<Rightarrow>
               if has_preset then matches_preset d (obj_get ''preset'' r) date now weekStartsOn
               else (case range_end h r ''from'' of
                      Some f \<Rightarrow> \<not> (isBefore d date (startOfDay d f) \<and> \<not> isEqual d date (startOfDay d f))
                    | None \<Rightarrow> True)
                  \<and> (case range_end h r ''to'' of
                      Some t \<Rightarrow> \<not> (isAfter d date (endOfDay d t) \<and> \<not> isEqual d date (endOfDay d t))
                    | None \<Rightarrow> True))))"

definition folded :: "string option \<Rightarrow> string" where
  "folded v = js_lower (js_trim (or_else v []))"

definition matchesAssignedTo :: "string list \<Rightarrow> string option \<Rightarrow> bool" where
  "matchesAssignedTo selected assignedTo =
     (selected = [] \<or> folded assignedTo \<noteq> [] \<and> list_ex (\<lambda>s. folded (Some s) = folded assignedTo) selected)"

definition matchesLocation :: "string list \<Rightarrow> string option \<Rightarrow> bool" where
  "matchesLocation selected location =
     (selected = [] \<or> folded location \<noteq> []
        \<and> list_ex (\<lambda>s. ex_suffix (starts_with (folded (Some s))) (folded location)) selected)"

definition matchesPriority :: "string list \<Rightarrow> string option \<Rightarrow> bool" where
  "matchesPriority selected priority =
     (selected = [] \<or> list_ex (\<lambda>s. if s = ''none'' then \<not> truthy priority else priority = Some s) selected)"

definition matchesTimeEstimateRange :: "json \<Rightarrow> string option \<Rightarrow> bool" where
  "matchesTimeEstimateRange rng estimate =
     (if \<not> js_truthy rng then True
      else truthy estimate
        \<and> (case member rng ''min'' of JNum n \<Rightarrow> \<not> timeEstimateToMinutes estimate < n | _ \<Rightarrow> True)
        \<and> (case member rng ''max'' of JNum n \<Rightarrow> \<not> timeEstimateToMinutes estimate > n | _ \<Rightarrow> True))"

subsection \<open>A task and the criteria\<close>

record filter_options =
  fo_now :: int
  fo_projects :: "project list option"
  fo_tokenMatchMode :: "match_mode option"
  fo_weekStartsOn :: "nat option"

record filter_context =
  fc_normalized :: js_object
  fc_projectById :: "string \<Rightarrow> project option"
  fc_now :: int
  fc_contextMatchMode :: match_mode
  fc_tagMatchMode :: match_mode
  fc_weekStartsOn :: nat

definition prepareFilterContext :: "json \<Rightarrow> filter_options \<Rightarrow> filter_context" where
  "prepareFilterContext criteria options1 =
     (let n = normalizeFilterCriteria criteria; mode = or_else (fo_tokenMatchMode options1) AnyToken
      in \<lparr>fc_normalized = n,
          fc_projectById = (case fo_projects options1 of None \<Rightarrow> (\<lambda>_. None) | Some ps \<Rightarrow> js_map_of eid ps),
          fc_now = fo_now options1,
          fc_contextMatchMode = or_else (match_mode_of (obj_get ''contextMatchMode'' n)) mode,
          fc_tagMatchMode = or_else (match_mode_of (obj_get ''tagMatchMode'' n)) mode,
          fc_weekStartsOn = or_else (fo_weekStartsOn options1) 1\<rparr>)"

definition text_items :: "json \<Rightarrow> string list" where
  "text_items v = (case v of JArr vs \<Rightarrow> concat (map (\<lambda>x. case x of JStr s \<Rightarrow> [s] | _ \<Rightarrow> []) vs) | _ \<Rightarrow> [])"

definition matches_areas :: "(string \<Rightarrow> project option) \<Rightarrow> string list \<Rightarrow> task \<Rightarrow> bool" where
  "matches_areas projectById areas t =
     (areas = [] \<or>
      (let projectAreaId = (if truthy (t_projectId t)
             then Option.bind (projectById (or_else (t_projectId t) [])) p_areaId else None);
           taskAreaId = js_nullish (t_areaId t) projectAreaId
       in truthy taskAreaId \<and> or_else taskAreaId [] \<in> set areas))"

definition SAVED_FILTER_NO_PROJECT_ID :: string where
  "SAVED_FILTER_NO_PROJECT_ID = ''__no_project__''"

definition matches_projects :: "string list \<Rightarrow> task \<Rightarrow> bool" where
  "matches_projects projects t =
     (projects = [] \<or>
      list_ex (\<lambda>p. if p = SAVED_FILTER_NO_PROJECT_ID then \<not> truthy (t_projectId t) else t_projectId t = Some p) projects)"

definition one_of_selected :: "string list \<Rightarrow> string option \<Rightarrow> bool" where
  "one_of_selected selected v = (selected = [] \<or> truthy v \<and> or_else v [] \<in> set selected)"

definition taskMatchesPreparedFilterCriteria :: "host \<Rightarrow> date_fns \<Rightarrow> task \<Rightarrow> filter_context \<Rightarrow> bool" where
  "taskMatchesPreparedFilterCriteria h d t c =
     (let n = fc_normalized c; items = (\<lambda>k. text_items (obj_get k n)) in
        \<not> truthy (deletedAt t)
      \<and> (items ''statuses'' = [] \<or> task_status_str (t_status t) \<in> set (items ''statuses''))
      \<and> matchesTokens (items ''contexts'') (t_contexts t) ContextTokens (fc_contextMatchMode c)
      \<and> matchesTokens (items ''tags'') (t_tags t) TagTokens (fc_tagMatchMode c)
      \<and> \<not> (items ''excludedContexts'' \<noteq> [] \<and> matchesAnyToken (items ''excludedContexts'') (t_contexts t) ContextTokens)
      \<and> \<not> (items ''excludedTags'' \<noteq> [] \<and> matchesAnyToken (items ''excludedTags'') (t_tags t) TagTokens)
      \<and> matches_areas (fc_projectById c) (items ''areas'') t
      \<and> matches_projects (items ''projects'') t
      \<and> one_of_selected (items ''energy'') (t_energyLevel t)
      \<and> matchesPriority (items ''priority'') (t_priority t)
      \<and> matchesDateRange h d (t_dueDate t) (obj_get ''dueDateRange'' n) (safeParseDueDate h) (fc_now c) (fc_weekStartsOn c)
      \<and> matchesDateRange h d (t_startTime t) (obj_get ''startDateRange'' n) (safeParseDate h) (fc_now c) (fc_weekStartsOn c)
      \<and> matchesAssignedTo (items ''assignedTo'') (t_assignedTo t)
      \<and> matchesLocation (items ''locations'') (t_location t)
      \<and> one_of_selected (items ''timeEstimates'') (timeEstimateToFilterBucket (t_timeEstimate t))
      \<and> matchesTimeEstimateRange (obj_get ''timeEstimateRange'' n) (t_timeEstimate t)
      \<and> obj_get ''hasDescription'' n \<in> {JUndef, JBool (js_trim (or_else (t_description t) []) \<noteq> [])}
      \<and> obj_get ''isStarred'' n \<in> {JUndef, JBool (t_isFocusedToday t = Some True)})"

definition taskMatchesFilterCriteria :: "host \<Rightarrow> date_fns \<Rightarrow> task \<Rightarrow> json \<Rightarrow> filter_options \<Rightarrow> bool" where
  "taskMatchesFilterCriteria h d t criteria options1 =
     taskMatchesPreparedFilterCriteria h d t (prepareFilterContext criteria options1)"

definition hasNoCriteria :: "filter_context \<Rightarrow> bool" where
  "hasNoCriteria c = (fc_normalized c = [])"

definition applyFilter :: "host \<Rightarrow> date_fns \<Rightarrow> task list \<Rightarrow> json \<Rightarrow> filter_options \<Rightarrow> task list" where
  "applyFilter h d tasks criteria options1 =
     (let c = prepareFilterContext criteria options1 in
      if hasNoCriteria c then filter (\<lambda>t. \<not> truthy (deletedAt t)) tasks
      else filter (\<lambda>t. taskMatchesPreparedFilterCriteria h d t c) tasks)"

subsection \<open>Properties\<close>

lemma no_criteria_matches:
  "fc_normalized c = [] \<Longrightarrow> taskMatchesPreparedFilterCriteria h d t c = (\<not> truthy (deletedAt t))"
  by (simp add: taskMatchesPreparedFilterCriteria_def Let_def text_items_def matchesTokens_def
      matchesAnyToken_def matchesAllTokens_def matches_areas_def matches_projects_def one_of_selected_def
      matchesPriority_def matchesDateRange_def js_truthy_def matchesAssignedTo_def matchesLocation_def
      matchesTimeEstimateRange_def split: match_mode.split)

text \<open>Every criterion that was written asks for something.\<close>

definition ARRAY_CRITERIA :: "string list" where
  "ARRAY_CRITERIA = [''contexts'', ''excludedContexts'', ''areas'', ''projects'', ''tags'', ''excludedTags'', ''energy'',
     ''priority'', ''statuses'', ''assignedTo'', ''locations'', ''timeEstimates'']"

definition OTHER_CRITERIA :: "string list" where
  "OTHER_CRITERIA = [''dueDateRange'', ''startDateRange'', ''timeEstimateRange'', ''hasDescription'', ''isStarred'']"

definition good_entry :: "string \<times> json \<Rightarrow> bool" where
  "good_entry kv =
     (if fst kv \<in> set ARRAY_CRITERIA then has_items (snd kv)
      else if fst kv \<in> {''dueDateRange'', ''startDateRange'', ''timeEstimateRange''} then js_truthy (snd kv)
      else if fst kv \<in> {''hasDescription'', ''isStarred''} then snd kv \<noteq> JUndef
      else fst kv \<in> {''contextMatchMode'', ''tagMatchMode''})"

lemma list_all_opt_field: "list_all P (opt_field k v) = (\<forall>x. v = Some x \<longrightarrow> P (k, x))"
  by (cases v) (simp_all add: opt_field_def)

definition filled :: "string list option \<Rightarrow> bool" where
  "filled v = (v \<noteq> Some [])"

lemma filled_nonempty_list: "filled (nonempty_list xs)"
  by (simp add: filled_def nonempty_list_def)

lemma filled_arrays:
  "filled (normalizeStringArray p v)" "filled (normalizeEnumArray al v)"
  by (auto simp: normalizeStringArray_def normalizeEnumArray_def filled_nonempty_list filled_def[of None]
      split: json.split)

lemma filled_subtract: "filled ts \<Longrightarrow> filled (subtractTokens ts rs)"
  by (auto simp: subtractTokens_def filled_nonempty_list filled_def[of None] split: option.split)

lemma not_array_key:
  "''dueDateRange'' \<notin> set ARRAY_CRITERIA" "''startDateRange'' \<notin> set ARRAY_CRITERIA"
  "''timeEstimateRange'' \<notin> set ARRAY_CRITERIA" "''hasDescription'' \<notin> set ARRAY_CRITERIA"
  "''isStarred'' \<notin> set ARRAY_CRITERIA" "''contextMatchMode'' \<notin> set ARRAY_CRITERIA"
  "''tagMatchMode'' \<notin> set ARRAY_CRITERIA"
  by code_simp+

lemma good_entry_simps:
  "k \<in> set ARRAY_CRITERIA \<Longrightarrow> good_entry (k, v) = has_items v"
  "good_entry (''dueDateRange'', v) = js_truthy v"
  "good_entry (''startDateRange'', v) = js_truthy v"
  "good_entry (''timeEstimateRange'', v) = js_truthy v"
  "good_entry (''hasDescription'', v) = (v \<noteq> JUndef)"
  "good_entry (''isStarred'', v) = (v \<noteq> JUndef)"
  "good_entry (''contextMatchMode'', v)"
  "good_entry (''tagMatchMode'', v)"
  by (simp_all add: good_entry_def not_array_key)

lemma good_array:
  "k \<in> set ARRAY_CRITERIA \<Longrightarrow> filled v \<Longrightarrow> list_all good_entry (opt_field k (str_list v))"
  by (auto simp: list_all_opt_field good_entry_simps str_list_def has_items_def filled_def)

lemma normalizeDateRange_truthy: "normalizeDateRange v = Some r \<Longrightarrow> js_truthy r"
  by (auto simp: normalizeDateRange_def Let_def js_truthy_def split: option.splits if_splits)

lemma good_range:
  "list_all good_entry (opt_field ''dueDateRange'' (normalizeDateRange v))"
  "list_all good_entry (opt_field ''startDateRange'' (normalizeDateRange v))"
  by (simp_all add: list_all_opt_field good_entry_simps normalizeDateRange_truthy)

lemma good_mode:
  "list_all good_entry (if b then [] else opt_field ''contextMatchMode'' m)"
  "list_all good_entry (if b then [] else opt_field ''tagMatchMode'' m)"
  by (simp_all add: list_all_opt_field good_entry_simps)

lemma good_estimate: "list_all good_entry (if b then [(''timeEstimateRange'', JObj r)] else [])"
  by (simp add: good_entry_simps js_truthy_def)

lemma good_flag:
  "list_all good_entry (case x of JBool b \<Rightarrow> [(''hasDescription'', JBool b)] | _ \<Rightarrow> [])"
  "list_all good_entry (case x of JBool b \<Rightarrow> [(''isStarred'', JBool b)] | _ \<Rightarrow> [])"
  by (cases x; simp add: good_entry_simps)+

lemma array_keys:
  "''contexts'' \<in> set ARRAY_CRITERIA"
  "''excludedContexts'' \<in> set ARRAY_CRITERIA"
  "''areas'' \<in> set ARRAY_CRITERIA"
  "''projects'' \<in> set ARRAY_CRITERIA"
  "''tags'' \<in> set ARRAY_CRITERIA"
  "''excludedTags'' \<in> set ARRAY_CRITERIA"
  "''energy'' \<in> set ARRAY_CRITERIA"
  "''priority'' \<in> set ARRAY_CRITERIA"
  "''statuses'' \<in> set ARRAY_CRITERIA"
  "''assignedTo'' \<in> set ARRAY_CRITERIA"
  "''locations'' \<in> set ARRAY_CRITERIA"
  "''timeEstimates'' \<in> set ARRAY_CRITERIA"
  by code_simp+

lemma good_entries: "list_all good_entry (normalizeFilterCriteria v)"
proof (cases "isRecord v")
  case True
  show ?thesis
    by (simp only: normalizeFilterCriteria_def Let_def True not_True_eq_False if_False list_all_append)
       (intro conjI good_array good_range good_mode good_estimate good_flag filled_subtract filled_arrays
        array_keys)
next
  case False
  then show ?thesis by (simp add: normalizeFilterCriteria_def)
qed


lemma no_key:
  "k \<noteq> k' \<Longrightarrow> list_all (\<lambda>kv. fst kv \<noteq> k) (opt_field k' v)"
  "k \<noteq> k' \<Longrightarrow> list_all (\<lambda>kv. fst kv \<noteq> k) (if b then [] else opt_field k' v)"
  "k \<noteq> k' \<Longrightarrow> list_all (\<lambda>kv. fst kv \<noteq> k) (if b then [(k', j)] else [])"
  "k \<noteq> k' \<Longrightarrow> list_all (\<lambda>kv. fst kv \<noteq> k) (case x of JBool b \<Rightarrow> [(k', JBool b)] | _ \<Rightarrow> [])"
  "list_all (\<lambda>kv. fst kv \<noteq> k) (if None = None then [] else w)"
  by (simp_all add: list_all_opt_field split: json.split)

lemma context_mode_rides_along:
  assumes "''contextMatchMode'' \<in> fst ` set (normalizeFilterCriteria v)"
  shows "''contexts'' \<in> fst ` set (normalizeFilterCriteria v)"
proof (cases "isRecord v")
  case True
  show ?thesis
  proof (cases "normalizeStringArray (Some ''@'') (member v ''contexts'')")
    case None
    have "list_all (\<lambda>kv. fst kv \<noteq> ''contextMatchMode'') (normalizeFilterCriteria v)"
      by (simp only: normalizeFilterCriteria_def Let_def True None not_True_eq_False if_False list_all_append)
         (intro conjI no_key; simp)
    with assms show ?thesis by (auto simp: list_all_iff)
  next
    case (Some xs)
    then show ?thesis
      by (simp add: normalizeFilterCriteria_def Let_def True str_list_def opt_field_def)
  qed
next
  case False
  with assms show ?thesis by (simp add: normalizeFilterCriteria_def)
qed

lemma tag_mode_rides_along:
  assumes "''tagMatchMode'' \<in> fst ` set (normalizeFilterCriteria v)"
  shows "''tags'' \<in> fst ` set (normalizeFilterCriteria v)"
proof (cases "isRecord v")
  case True
  show ?thesis
  proof (cases "normalizeStringArray (Some ''#'') (member v ''tags'')")
    case None
    have "list_all (\<lambda>kv. fst kv \<noteq> ''tagMatchMode'') (normalizeFilterCriteria v)"
      by (simp only: normalizeFilterCriteria_def Let_def True None not_True_eq_False if_False list_all_append)
         (intro conjI no_key; simp)
    with assms show ?thesis by (auto simp: list_all_iff)
  next
    case (Some xs)
    then show ?thesis
      by (simp only: normalizeFilterCriteria_def Let_def True not_True_eq_False if_False set_append image_Un
          str_list_def opt_field_def option.map option.case) simp
  qed
next
  case False
  with assms show ?thesis by (simp add: normalizeFilterCriteria_def)
qed

lemma good_lookup:
  assumes "list_all good_entry o1" and "k \<in> fst ` set o1"
  shows "good_entry (k, obj_get k o1)"
proof -
  obtain v where v: "map_of o1 k = Some v" using assms(2) by (metis map_of_eq_None_iff not_None_eq)
  then have "(k, v) \<in> set o1" by (rule map_of_SomeD)
  with assms(1) v show ?thesis by (simp add: obj_get_def list_all_iff)
qed

lemma good_key:
  "good_entry (k, v) \<Longrightarrow>
   k \<in> set ARRAY_CRITERIA \<union> set OTHER_CRITERIA \<or> k = ''contextMatchMode'' \<or> k = ''tagMatchMode''"
  by (auto simp: good_entry_def OTHER_CRITERIA_def split: if_splits)

text \<open>
  The criteria ask for something exactly when any key was written, so the shortcut of
  \<open>applyFilter\<close> is the full filter.
\<close>

lemma hasActive_iff: "hasActiveFilterCriteria criteria \<longleftrightarrow> normalizeFilterCriteria criteria \<noteq> []"
proof
  assume "hasActiveFilterCriteria criteria"
  then show "normalizeFilterCriteria criteria \<noteq> []"
    by (auto simp: hasActiveFilterCriteria_def Let_def has_items_def js_truthy_def)
next
  let ?n = "normalizeFilterCriteria criteria"
  assume "?n \<noteq> []"
  then obtain k where k: "k \<in> fst ` set ?n" by (metis imageI list.set_sel(1))
  have "\<exists>k\<in>fst ` set ?n. k \<in> set ARRAY_CRITERIA \<union> set OTHER_CRITERIA"
    using good_key[OF good_lookup[OF good_entries k]] k
      context_mode_rides_along[of criteria] tag_mode_rides_along[of criteria] array_keys(1,5)
    by blast
  then obtain k where "k \<in> fst ` set ?n" "k \<in> set ARRAY_CRITERIA \<union> set OTHER_CRITERIA" by blast
  then have "good_entry (k, obj_get k ?n)" "k \<in> set ARRAY_CRITERIA \<union> set OTHER_CRITERIA"
    using good_lookup[OF good_entries] by blast+
  then show "hasActiveFilterCriteria criteria"
    unfolding hasActiveFilterCriteria_def Let_def
    by (auto simp: good_entry_simps ARRAY_CRITERIA_def OTHER_CRITERIA_def)
qed

text \<open>
  Filtering is matching every task against the criteria, the shortcut for empty criteria
  included, and the criteria count as active exactly when the shortcut is not taken.
\<close>

theorem applyFilter_is_matching:
  "applyFilter h d tasks criteria options1 =
     filter (\<lambda>t. taskMatchesFilterCriteria h d t criteria options1) tasks
   \<and> hasActiveFilterCriteria criteria = (\<not> hasNoCriteria (prepareFilterContext criteria options1))"
proof -
  have n: "fc_normalized (prepareFilterContext criteria options1) = normalizeFilterCriteria criteria"
    by (simp add: prepareFilterContext_def Let_def)
  show ?thesis
    by (simp add: applyFilter_def Let_def hasNoCriteria_def taskMatchesFilterCriteria_def no_criteria_matches
        hasActive_iff n)
qed

text \<open>
  The two sides of a token comparison are not normalised alike: the criteria keep a doubled or a
  foreign prefix and the task's tokens lose it, so such a token does not match itself.
\<close>

lemma foreign_prefix_does_not_match_itself:
  "normalizeStringArray (Some ''@'') (JArr [JStr ''#home'']) = Some [''@#home'']"
  "\<not> matchesAnyToken [''@#home''] [''#home''] ContextTokens"
  by code_simp+

end
