(* ===== verification/JsCalendar.thy ===== *)
theory JsCalendar
  imports DateUtil
begin

text \<open>
  The calendar half of the ECMAScript \<open>Date\<close> object (the getters, the setters and the
  constructor over parts, in the host zone UTC), and the contract of the date-fns functions
  the recurrence code calls, as a locale over the host record. Months are counted from zero
  as in the language. Time values are not clipped here: the dates stay in the representable
  range as long as the years do.
\<close>

subsection \<open>Getters, setters and the constructor\<close>

definition getFullYear :: "int \<Rightarrow> int" where
  "getFullYear t = (case civil_of_day (t div ms_per_day) of (y, _, _) \<Rightarrow> y)"

definition getMonth :: "int \<Rightarrow> int" where
  "getMonth t = (case civil_of_day (t div ms_per_day) of (_, m, _) \<Rightarrow> m - 1)"

definition getDate :: "int \<Rightarrow> int" where
  "getDate t = (case civil_of_day (t div ms_per_day) of (_, _, d) \<Rightarrow> d)"

definition getDay :: "int \<Rightarrow> int" where
  "getDay t = (t div ms_per_day + 4) mod 7"

definition getHours :: "int \<Rightarrow> int" where
  "getHours t = t mod ms_per_day div 3600000"

definition getMinutes :: "int \<Rightarrow> int" where
  "getMinutes t = t mod ms_per_day div 60000 mod 60"

definition getSeconds :: "int \<Rightarrow> int" where
  "getSeconds t = t mod ms_per_day div 1000 mod 60"

definition getMilliseconds :: "int \<Rightarrow> int" where
  "getMilliseconds t = t mod ms_per_day mod 1000"

text \<open>\<open>MakeDay\<close>: a month outside the year carries into it, a day outside the month carries on.\<close>

definition make_day_carry :: "int \<Rightarrow> int \<Rightarrow> int \<Rightarrow> int" where
  "make_day_carry y m d = make_day (y + m div 12) (m mod 12 + 1) d"

text \<open>The constructor reads the years 0 to 99 as 1900 to 1999.\<close>

definition js_year :: "int \<Rightarrow> int" where
  "js_year y = (if 0 \<le> y \<and> y \<le> 99 then 1900 + y else y)"

definition new_date :: "int \<Rightarrow> int \<Rightarrow> int \<Rightarrow> int \<Rightarrow> int \<Rightarrow> int \<Rightarrow> int \<Rightarrow> int" where
  "new_date y m d h mi sec ms =
     make_day_carry (js_year y) m d * ms_per_day + clock_ms h mi sec ms"

definition setDate :: "int \<Rightarrow> int \<Rightarrow> int" where
  "setDate t d = make_day_carry (getFullYear t) (getMonth t) d * ms_per_day + t mod ms_per_day"

definition setHours :: "int \<Rightarrow> int \<Rightarrow> int \<Rightarrow> int \<Rightarrow> int \<Rightarrow> int" where
  "setHours t h mi sec ms = t div ms_per_day * ms_per_day + clock_ms h mi sec ms"

subsection \<open>Months on one line\<close>

text \<open>
  Months are numbered through: month \<open>k\<close> is the month \<open>k mod 12\<close> of the year \<open>k div 12\<close>.
  \<open>month_start k\<close> is the number of its first day and \<open>month_len k\<close> its length.
\<close>

definition month_start :: "int \<Rightarrow> int" where
  "month_start k = make_day (k div 12) (k mod 12 + 1) 1"

definition month_len :: "int \<Rightarrow> int" where
  "month_len k = month_start (k + 1) - month_start k"

definition month_index :: "int \<Rightarrow> int" where
  "month_index t = getFullYear t * 12 + getMonth t"

lemma ms_per_day_pos [simp]: "0 < ms_per_day"
  by (simp add: ms_per_day_def)

lemma clock_of_time:
  "clock_ms (getHours t) (getMinutes t) (getSeconds t) (getMilliseconds t) = t mod ms_per_day"
proof -
  define k where "k = t mod ms_per_day"
  have "k div 3600000 = k div 60000 div 60" "k div 60000 = k div 1000 div 60"
    using zdiv_zmult2_eq[of 60 k 60000] zdiv_zmult2_eq[of 60 k 1000] by simp_all
  then show ?thesis
    using mult_div_mod_eq[of 60 "k div 60000"] mult_div_mod_eq[of 60 "k div 1000"]
      mult_div_mod_eq[of 1000 k]
    unfolding clock_ms_def getHours_def getMinutes_def getSeconds_def getMilliseconds_def
      k_def[symmetric] by linarith
qed

lemma day_clock:
  assumes "0 \<le> c" "c < ms_per_day"
  shows "(n * ms_per_day + c) div ms_per_day = n" "(n * ms_per_day + c) mod ms_per_day = c"
  using assms by (simp_all add: add.commute)

lemma day_split: "t = t div ms_per_day * ms_per_day + t mod ms_per_day"
  by simp

lemma clock_bounds [simp]: "0 \<le> t mod ms_per_day" "t mod ms_per_day < ms_per_day"
  by simp_all

lemma make_day_add: "make_day y m (d + k) = make_day y m d + k"
  by (simp add: make_day_def)

lemma make_day_first: "make_day y m d = make_day y m 1 + (d - 1)"
  by (simp add: make_day_def)

lemma day_from_year_less: "y < z \<Longrightarrow> day_from_year y < day_from_year z"
proof (induction "nat (z - y)" arbitrary: z)
  case 0
  then show ?case by simp
next
  case (Suc n)
  have step: "day_from_year (z - 1) < day_from_year z"
    using day_from_year_Suc[of "z - 1"] by simp
  show ?case
  proof (cases "y = z - 1")
    case True
    then show ?thesis using step by simp
  next
    case False
    then have "day_from_year y < day_from_year (z - 1)"
      using Suc by (intro Suc.hyps(1)) linarith+
    then show ?thesis using step by simp
  qed
qed

lemma year_of_day_unique:
  assumes "day_from_year y \<le> n" "n < day_from_year (y + 1)"
  shows "year_of_day n = y"
proof -
  let ?z = "year_of_day n"
  have b: "day_from_year ?z \<le> n" "n < day_from_year (?z + 1)"
    using year_of_day_bounds[of n] by auto
  have "\<not> ?z < y"
  proof
    assume "?z < y"
    then have "?z + 1 = y \<or> ?z + 1 < y" by linarith
    then have "day_from_year (?z + 1) \<le> day_from_year y"
      using day_from_year_less[of "?z + 1" y] by auto
    then show False using b assms by simp
  qed
  moreover have "\<not> y < ?z"
  proof
    assume "y < ?z"
    then have "y + 1 = ?z \<or> y + 1 < ?z" by linarith
    then have "day_from_year (y + 1) \<le> day_from_year ?z"
      using day_from_year_less[of "y + 1" ?z] by auto
    then show False using b assms by simp
  qed
  ultimately show ?thesis by simp
qed

lemma twelve_months:
  fixes m :: int
  assumes "1 \<le> m" "m \<le> 12"
  shows "m = 1 \<or> m = 2 \<or> m = 3 \<or> m = 4 \<or> m = 5 \<or> m = 6 \<or> m = 7 \<or> m = 8 \<or> m = 9 \<or>
    m = 10 \<or> m = 11 \<or> m = 12"
  using assms by presburger

definition days_in_month :: "bool \<Rightarrow> int \<Rightarrow> int" where
  "days_in_month leap m =
     (if m = 12 then 31 else days_before_month leap (m + 1) - days_before_month leap m)"

lemma days_in_month_bounds: "1 \<le> m \<Longrightarrow> m \<le> 12 \<Longrightarrow> 28 \<le> days_in_month leap m \<and> days_in_month leap m \<le> 31"
  by (drule (1) twelve_months) (elim disjE; simp add: days_in_month_def days_before_month_def)

lemma month_of_doy_unique:
  assumes "1 \<le> m" "m \<le> 12" "days_before_month leap m \<le> k"
    "k < days_before_month leap m + days_in_month leap m"
  shows "month_of_doy leap k = m"
proof -
  have "m = 1 \<or> m = 2 \<or> m = 3 \<or> m = 4 \<or> m = 5 \<or> m = 6 \<or> m = 7 \<or> m = 8 \<or> m = 9 \<or>
      m = 10 \<or> m = 11 \<or> m = 12"
    by (rule twelve_months[OF assms(1,2)])
  then show ?thesis
    using assms(3,4)
    by (cases leap; elim disjE; simp add: days_in_month_def days_before_month_def month_of_doy_def Let_def)
qed

lemma year_end:
  "1 \<le> m \<Longrightarrow> m \<le> 12 \<Longrightarrow>
    days_before_month leap m + days_in_month leap m \<le> (if leap then 366 else 365)"
  by (drule (1) twelve_months) (elim disjE; simp add: days_in_month_def days_before_month_def)

lemma days_before_month_nonneg: "0 \<le> days_before_month leap m"
  by (simp add: days_before_month_def)

text \<open>The civil date of a valid date is that date.\<close>

lemma civil_make_day:
  assumes "1 \<le> m" "m \<le> 12" "1 \<le> d" "d \<le> days_in_month (is_leap y) m"
  shows "civil_of_day (make_day y m d) = (y, m, d)"
proof -
  let ?n = "make_day y m d"
  have k: "?n - day_from_year y = days_before_month (is_leap y) m + d - 1"
    by (simp add: make_day_def)
  have "day_from_year y \<le> ?n" "?n < day_from_year (y + 1)"
    using assms year_end[OF assms(1,2), of "is_leap y"] days_before_month_nonneg[of "is_leap y" m]
    by (simp_all add: make_day_def day_from_year_Suc split: if_splits)
  then have y: "year_of_day ?n = y" by (rule year_of_day_unique)
  have "month_of_doy (is_leap y) (?n - day_from_year y) = m"
    using assms by (intro month_of_doy_unique) (simp_all add: k)
  then show ?thesis by (simp add: civil_of_day_def y k Let_def)
qed

lemma month_start_year_month:
  assumes "0 \<le> m" "m < 12"
  shows "month_start (y * 12 + m) = make_day y (m + 1) 1"
proof -
  have "(y * 12 + m) div 12 = y" "(y * 12 + m) mod 12 = m" using assms by simp_all
  then show ?thesis by (simp add: month_start_def)
qed

lemma month_len_days:
  assumes "0 \<le> m" "m < 12"
  shows "month_len (y * 12 + m) = days_in_month (is_leap y) (m + 1)"
proof (cases "m = 11")
  case True
  have e: "y * 12 + m + 1 = (y + 1) * 12 + 0" using True by simp
  show ?thesis
    unfolding month_len_def e using True month_start_year_month[of 0 "y + 1"] month_start_year_month[of 11 y]
    by (simp add: make_day_def days_in_month_def days_before_month_def day_from_year_Suc)
next
  case False
  have e: "y * 12 + m + 1 = y * 12 + (m + 1)" by simp
  show ?thesis
    unfolding month_len_def e
    using False assms month_start_year_month[of "m + 1" y] month_start_year_month[of m y]
    by (simp add: make_day_def days_in_month_def add.assoc)
qed

lemma month_len_bounds: "28 \<le> month_len k" "month_len k \<le> 31"
proof -
  have "month_len (k div 12 * 12 + k mod 12) = days_in_month (is_leap (k div 12)) (k mod 12 + 1)"
    by (rule month_len_days) simp_all
  then have e: "month_len k = days_in_month (is_leap (k div 12)) (k mod 12 + 1)" by simp
  have "0 \<le> k mod 12" "k mod 12 < 12" by simp_all
  then have m: "1 \<le> k mod 12 + 1" "k mod 12 + 1 \<le> 12" by linarith+
  show "28 \<le> month_len k" "month_len k \<le> 31" unfolding e using days_in_month_bounds[OF m] by auto
qed

lemma month_start_Suc: "month_start (k + 1) = month_start k + month_len k"
  by (simp add: month_len_def)

lemma month_start_less: "j < k \<Longrightarrow> month_start j + month_len j \<le> month_start k"
proof (induction "nat (k - j)" arbitrary: k)
  case 0
  then show ?case by simp
next
  case (Suc n)
  have step: "month_start k = month_start (k - 1) + month_len (k - 1)"
    using month_start_Suc[of "k - 1"] by simp
  show ?case
  proof (cases "j = k - 1")
    case True
    then show ?thesis using step by simp
  next
    case False
    then have "month_start j + month_len j \<le> month_start (k - 1)"
      using Suc by (intro Suc.hyps(1)) linarith+
    then show ?thesis using step month_len_bounds[of "k - 1"] by simp
  qed
qed


text \<open>Every day lies in the month its civil date names.\<close>

lemma month_of_doy_upper:
  assumes "0 \<le> k" "k < (if leap then 366 else 365)"
  shows "k < days_before_month leap (month_of_doy leap k) + days_in_month leap (month_of_doy leap k)"
proof -
  define l :: int where "l = (if leap then 1 else 0)"
  have l: "0 \<le> l" "l \<le> 1" "k < 365 + l" using assms(2) by (auto simp: l_def)
  show ?thesis
    by (rule month_of_doy_ranges[OF assms(1) l(3,1,2) l_def])
      (use assms(1) l in \<open>simp_all add: days_in_month_def days_before_month_def l_def[symmetric]\<close>)
qed

lemma civil_of_day_valid:
  assumes "civil_of_day n = (y, m, d)"
  shows "make_day y m d = n" "1 \<le> m" "m \<le> 12" "1 \<le> d" "d \<le> days_in_month (is_leap y) m"
proof -
  show "make_day y m d = n" "1 \<le> m" "m \<le> 12" "1 \<le> d" using make_day_civil[OF assms] by auto
  have y: "y = year_of_day n" and m: "m = month_of_doy (is_leap y) (n - day_from_year y)"
    and d: "d = n - day_from_year y - days_before_month (is_leap y) m + 1"
    using assms by (auto simp: civil_of_day_def Let_def)
  have "day_from_year y \<le> n" "n < day_from_year y + (if is_leap y then 366 else 365)"
    using year_of_day_bounds[of n] by (simp_all add: y day_from_year_Suc)
  then have "n - day_from_year y < days_before_month (is_leap y) m + days_in_month (is_leap y) m"
    unfolding m by (intro month_of_doy_upper) auto
  then show "d \<le> days_in_month (is_leap y) m" by (simp add: d)
qed

lemma civil_getters: "civil_of_day (t div ms_per_day) = (getFullYear t, getMonth t + 1, getDate t)"
  by (simp add: getFullYear_def getMonth_def getDate_def split: prod.splits)

lemma getMonth_bounds [simp]: "0 \<le> getMonth t" "getMonth t < 12"
  using civil_of_day_valid[OF civil_getters, of t] by simp_all

lemma month_index_year [simp]: "month_index t div 12 = getFullYear t"
  and month_index_month [simp]: "month_index t mod 12 = getMonth t"
  by (simp_all add: month_index_def)

lemma getDate_bounds: "1 \<le> getDate t" "getDate t \<le> month_len (month_index t)"
proof -
  note v = civil_of_day_valid[OF civil_getters, of t]
  show "1 \<le> getDate t" using v by simp
  have "month_len (getFullYear t * 12 + getMonth t) = days_in_month (is_leap (getFullYear t)) (getMonth t + 1)"
    by (rule month_len_days) simp_all
  then show "getDate t \<le> month_len (month_index t)" using v by (simp add: month_index_def)
qed

lemma day_of_month: "t div ms_per_day = month_start (month_index t) + getDate t - 1"
  using civil_of_day_valid(1)[OF civil_getters, of t] make_day_first[of _ _ "getDate t"]
  by (simp add: month_start_def)

lemma time_of_parts:
  "t = (month_start (month_index t) + getDate t - 1) * ms_per_day + t mod ms_per_day"
  using day_split[of t] unfolding day_of_month by simp

text \<open>A time given by its month, its day of the month and its clock, and its getters.\<close>

definition time_at :: "int \<Rightarrow> int \<Rightarrow> int \<Rightarrow> int" where
  "time_at k d c = (month_start k + d - 1) * ms_per_day + c"

lemma time_at_parts: "time_at (month_index t) (getDate t) (t mod ms_per_day) = t"
  using time_of_parts[of t] by (simp add: time_at_def)

lemma civil_month_start:
  assumes "1 \<le> d" "d \<le> month_len k"
  shows "civil_of_day (month_start k + d - 1) = (k div 12, k mod 12 + 1, d)"
proof -
  have e: "month_start k + d - 1 = make_day (k div 12) (k mod 12 + 1) d"
    using make_day_first[of "k div 12" "k mod 12 + 1" d] by (simp add: month_start_def)
  have b: "0 \<le> k mod 12" "k mod 12 < 12" by simp_all
  have "month_len (k div 12 * 12 + k mod 12) = days_in_month (is_leap (k div 12)) (k mod 12 + 1)"
    by (rule month_len_days) simp_all
  then show ?thesis
    unfolding e using assms b by (intro civil_make_day) simp_all
qed

lemma time_at_getters:
  assumes "1 \<le> d" "d \<le> month_len k" "0 \<le> c" "c < ms_per_day"
  shows "time_at k d c div ms_per_day = month_start k + d - 1" "time_at k d c mod ms_per_day = c"
    "getFullYear (time_at k d c) = k div 12" "getMonth (time_at k d c) = k mod 12"
    "getDate (time_at k d c) = d" "month_index (time_at k d c) = k"
proof -
  show q: "time_at k d c div ms_per_day = month_start k + d - 1" "time_at k d c mod ms_per_day = c"
    using day_clock[OF assms(3,4)] by (simp_all add: time_at_def)
  have "(getFullYear (time_at k d c), getMonth (time_at k d c) + 1, getDate (time_at k d c)) =
      (k div 12, k mod 12 + 1, d)"
    using civil_getters[of "time_at k d c"] unfolding q civil_month_start[OF assms(1,2)] by simp
  then show "getFullYear (time_at k d c) = k div 12" "getMonth (time_at k d c) = k mod 12"
    "getDate (time_at k d c) = d" by simp_all
  then show "month_index (time_at k d c) = k" by (simp add: month_index_def)
qed

text \<open>Times compare by month, then by day of the month, then by clock.\<close>

lemma day_less_time: "a div ms_per_day < b div ms_per_day \<Longrightarrow> a < b"
  using zdiv_mono1[of b a ms_per_day] by (meson linorder_not_le ms_per_day_pos)

lemma month_less_time: "month_index a < month_index b \<Longrightarrow> a < b"
proof (rule day_less_time)
  assume "month_index a < month_index b"
  then have "month_start (month_index a) + month_len (month_index a) \<le> month_start (month_index b)"
    by (rule month_start_less)
  then show "a div ms_per_day < b div ms_per_day"
    unfolding day_of_month using getDate_bounds[of a] getDate_bounds[of b] by linarith
qed

lemma month_mono: "a \<le> b \<Longrightarrow> month_index a \<le> month_index b"
  using month_less_time[of b a] by linarith

text \<open>The constructor, on a month and a day of that month.\<close>

lemma new_date_time_at:
  assumes "\<not> (0 \<le> y \<and> y \<le> 99)"
  shows "new_date y m d (getHours b) (getMinutes b) (getSeconds b) (getMilliseconds b) =
    time_at (y * 12 + m) d (b mod ms_per_day)"
proof -
  have "(y * 12 + m) div 12 = y + m div 12" "(y * 12 + m) mod 12 = m mod 12" by simp_all
  moreover have "js_year y = y" using assms by (auto simp: js_year_def)
  ultimately show ?thesis
    using make_day_first[of "y + m div 12" "m mod 12 + 1" d]
    unfolding new_date_def clock_of_time make_day_carry_def time_at_def month_start_def by simp
qed

lemma setDate_shift: "setDate t d = t + (d - getDate t) * ms_per_day"
proof -
  have e: "make_day_carry (getFullYear t) (getMonth t) d = t div ms_per_day + (d - getDate t)"
    using make_day_first[of "getFullYear t" "getMonth t + 1" d]
    by (simp add: make_day_carry_def month_start_def day_of_month)
  have "setDate t d = t div ms_per_day * ms_per_day + t mod ms_per_day + (d - getDate t) * ms_per_day"
    unfolding setDate_def e by (simp only: distrib_right add_ac)
  then show ?thesis by simp
qed

lemma setHours_clock:
  "setHours t (getHours b) (getMinutes b) (getSeconds b) (getMilliseconds b) =
    t div ms_per_day * ms_per_day + b mod ms_per_day"
  unfolding setHours_def clock_of_time by (rule refl)

text \<open>The last day of a month, as the code asks for it: day zero of the month after it.\<close>

lemma getDate_day_zero:
  assumes "\<not> (0 \<le> y \<and> y \<le> 99)"
  shows "getDate (new_date y (m + 1) 0 0 0 0 0) = month_len (y * 12 + m)"
proof -
  let ?k = "y * 12 + m"
  have "new_date y (m + 1) 0 0 0 0 0 = time_at (?k + 1) 0 0"
    using new_date_time_at[OF assms, of "m + 1" 0 0]
    by (simp add: getHours_def getMinutes_def getSeconds_def getMilliseconds_def add.assoc)
  also have "\<dots> = time_at ?k (month_len ?k) 0"
    by (simp add: time_at_def month_start_Suc)
  finally show ?thesis
    using month_len_bounds[of ?k] by (simp add: time_at_getters(5))
qed

subsection \<open>Printing\<close>

text \<open>The date and the clock the \<open>format\<close> patterns print, for the years 1 to 9999.\<close>

definition day_string :: "int \<Rightarrow> string" where
  "day_string t = show_digits 4 (getFullYear t) @ ''-'' @ show_digits 2 (getMonth t + 1) @ ''-'' @
     show_digits 2 (getDate t)"

definition minute_string :: "int \<Rightarrow> string" where
  "minute_string t = day_string t @ ''T'' @ show_digits 2 (getHours t) @ '':'' @
     show_digits 2 (getMinutes t)"

definition second_string :: "int \<Rightarrow> string" where
  "second_string t = minute_string t @ '':'' @ show_digits 2 (getSeconds t)"

definition milli_string :: "int \<Rightarrow> string" where
  "milli_string t = second_string t @ ''.'' @ show_digits 3 (getMilliseconds t)"

definition printable_year :: "int \<Rightarrow> bool" where
  "printable_year t = (100 \<le> getFullYear t \<and> getFullYear t \<le> 9999)"

text \<open>The month arithmetic of date-fns: the day is clamped to the length of the month.\<close>

definition clamped_months :: "int \<Rightarrow> int \<Rightarrow> int" where
  "clamped_months t n =
     (let k = month_index t + n in time_at k (min (getDate t) (month_len k)) (t mod ms_per_day))"

subsection \<open>The contract of date-fns\<close>

locale date_fns =
  fixes h :: host
  assumes addDays_spec: "addDays h t n = t + n * ms_per_day"
    and addWeeks_spec: "addWeeks h t n = t + n * 7 * ms_per_day"
    and addMonths_spec: "addMonths h t n = clamped_months t n"
    and differenceInCalendarDays_spec:
      "differenceInCalendarDays h a b = a div ms_per_day - b div ms_per_day"
    and formatDay_spec: "printable_year t \<Longrightarrow> formatDay h t = day_string t"
    and formatMinutes_spec: "printable_year t \<Longrightarrow> formatMinutes h t = minute_string t"
    and formatSeconds_spec: "printable_year t \<Longrightarrow> formatSeconds h t = second_string t"
    and formatMillis_spec: "printable_year t \<Longrightarrow> formatMillis h t = milli_string t"
    and format_not_empty: "formatDay h t \<noteq> []" "formatMinutes h t \<noteq> []"
begin

lemma addMonths_getters:
  "month_index (addMonths h t n) = month_index t + n"
  "getDate (addMonths h t n) = min (getDate t) (month_len (month_index t + n))"
  "addMonths h t n mod ms_per_day = t mod ms_per_day"
proof -
  let ?k = "month_index t + n"
  have "1 \<le> min (getDate t) (month_len ?k)" "min (getDate t) (month_len ?k) \<le> month_len ?k"
    using getDate_bounds[of t] month_len_bounds[of ?k] by auto
  note g = time_at_getters[OF this clock_bounds[of t]]
  show "month_index (addMonths h t n) = month_index t + n"
    "getDate (addMonths h t n) = min (getDate t) (month_len (month_index t + n))"
    "addMonths h t n mod ms_per_day = t mod ms_per_day"
    unfolding addMonths_spec clamped_months_def Let_def using g by simp_all
qed

end

text \<open>A host with the calendar functions of date-fns, for the witnesses.\<close>

definition calendar_host :: host where
  "calendar_host = sample_host\<lparr>formatDay := day_string, formatMinutes := minute_string,
     formatSeconds := second_string, formatMillis := milli_string,
     addDays := (\<lambda>t n. t + n * ms_per_day), addWeeks := (\<lambda>t n. t + n * 7 * ms_per_day),
     addMonths := clamped_months,
     differenceInCalendarDays := (\<lambda>a b. a div ms_per_day - b div ms_per_day)\<rparr>"

interpretation calendar: date_fns calendar_host
  by unfold_locales
    (simp_all add: calendar_host_def minute_string_def day_string_def)

end
