(* ===== verification/DateText.thy ===== *)
theory DateText
  imports JsCalendar Recurrence
begin

text \<open>
  Printing a time with the patterns the recurrence code uses and reading it back with
  \<open>safeParseDate\<close>: a day, a minute and an instant each read back as the time they print,
  cut to their precision, for the years 100 to 9999.
\<close>

lemma char_of_digit_mod [simp]: "digit_of (char_of_digit (k mod 10)) = Some (k mod 10)"
  by (rule digit_of_char_of_digit) simp_all

lemma digit_of_marks [simp]:
  "digit_of (CHR ''-'') = None" "digit_of (CHR '':'') = None" "digit_of (CHR ''T'') = None"
  "digit_of (CHR ''.'') = None" "digit_of (CHR ''Z'') = None" "digit_of (CHR ''+'') = None"
  by (simp_all add: digit_of_def Let_def)

lemma not_digit_char: "digit_of c = None \<Longrightarrow> char_of_digit (k mod 10) \<noteq> c"
  by (metis char_of_digit_mod option.distinct(1))

lemma digit_chars [simp]:
  "char_of_digit (k mod 10) \<noteq> CHR ''-''" "char_of_digit (k mod 10) \<noteq> CHR '':''"
  "char_of_digit (k mod 10) \<noteq> CHR ''T''" "char_of_digit (k mod 10) \<noteq> CHR ''.''"
  "char_of_digit (k mod 10) \<noteq> CHR ''Z''" "char_of_digit (k mod 10) \<noteq> CHR ''+''"
  by (rule not_digit_char, simp)+

lemma ws_no_digit: "is_ws c \<Longrightarrow> digit_of c = None"
  by (auto simp: is_ws_def digit_of_def Let_def)

lemma digit_not_ws [simp]: "\<not> is_ws (char_of_digit (k mod 10))"
  using ws_no_digit[of "char_of_digit (k mod 10)"] by auto

lemma show2: "show_digits 2 k = [char_of_digit (k div 10 mod 10), char_of_digit (k mod 10)]"
  by (simp add: numeral_eq_Suc)

lemma show3: "show_digits 3 k = [char_of_digit (k div 10 div 10 mod 10), char_of_digit (k div 10 mod 10),
    char_of_digit (k mod 10)]"
  by (simp add: numeral_eq_Suc)

lemma show4: "show_digits 4 k = [char_of_digit (k div 10 div 10 div 10 mod 10),
    char_of_digit (k div 10 div 10 mod 10), char_of_digit (k div 10 mod 10), char_of_digit (k mod 10)]"
  by (simp add: numeral_eq_Suc)

lemma read2: "read_digits 2 a s =
    (case s of [] \<Rightarrow> None | c # cs \<Rightarrow> (case digit_of c of None \<Rightarrow> None | Some d \<Rightarrow>
      (case cs of [] \<Rightarrow> None | c2 # cs2 \<Rightarrow> (case digit_of c2 of None \<Rightarrow> None
        | Some d2 \<Rightarrow> Some (10 * (10 * a + d) + d2, cs2)))))"
  by (auto simp: numeral_eq_Suc split: list.splits option.splits)

lemma day_string_no_zone: "\<not> hasTimezoneSuffix (day_string t)"
  by (simp add: day_string_def show2 show4 hasTimezoneSuffix_def zone_suffix_def read2 at_end_def eat_digits2_def eat_def)

lemma minute_string_no_zone: "\<not> hasTimezoneSuffix (minute_string t)"
  by (simp add: minute_string_def day_string_def show2 show4 hasTimezoneSuffix_def zone_suffix_def read2
     at_end_def eat_digits2_def eat_def)


subsection \<open>Parts of a printed time\<close>

definition ymd_of :: "int \<Rightarrow> int \<times> int \<times> int" where
  "ymd_of t = (getFullYear t, getMonth t + 1, getDate t)"

lemma date_ranges:
  "0 \<le> getMonth t + 1" "getMonth t + 1 < 100" "0 \<le> getDate t" "getDate t < 100"
  using getDate_bounds[of t] month_len_bounds[of "month_index t"] getMonth_bounds[of t] by linarith+

lemma clock_ranges:
  "0 \<le> getHours t" "getHours t < 24" "0 \<le> getMinutes t" "getMinutes t < 60"
  "0 \<le> getSeconds t" "getSeconds t < 60" "0 \<le> getMilliseconds t" "getMilliseconds t < 1000"
proof -
  have "t mod ms_per_day < 86400000" "0 \<le> t mod ms_per_day" using clock_bounds[of t] by (simp_all add: ms_per_day_def)
  then show "0 \<le> getHours t" "getHours t < 24"
    by (simp_all add: getHours_def div_less_iff_less_mult pos_imp_zdiv_nonneg_iff del: clock_bounds)
  show "0 \<le> getMinutes t" "getMinutes t < 60" "0 \<le> getSeconds t" "getSeconds t < 60"
    "0 \<le> getMilliseconds t" "getMilliseconds t < 1000"
    by (simp_all add: getMinutes_def getSeconds_def getMilliseconds_def)
qed

lemma read_parts:
  assumes "printable_year t"
  shows "read_digits 4 0 (show_digits 4 (getFullYear t) @ r) = Some (getFullYear t, r)"
    "read_digits 2 0 (show_digits 2 (getMonth t + 1) @ r) = Some (getMonth t + 1, r)"
    "read_digits 2 0 (show_digits 2 (getDate t) @ r) = Some (getDate t, r)"
    "read_digits 2 0 (show_digits 2 (getHours t) @ r) = Some (getHours t, r)"
    "read_digits 2 0 (show_digits 2 (getMinutes t) @ r) = Some (getMinutes t, r)"
    "read_digits 2 0 (show_digits 2 (getSeconds t) @ r) = Some (getSeconds t, r)"
    "read_digits 3 0 (show_digits 3 (getMilliseconds t) @ r) = Some (getMilliseconds t, r)"
proof -
  have y: "0 \<le> getFullYear t" "getFullYear t < 10000" using assms by (simp_all add: printable_year_def)
  show "read_digits 4 0 (show_digits 4 (getFullYear t) @ r) = Some (getFullYear t, r)"
    by (rule read_show4[OF y])
  show "read_digits 2 0 (show_digits 2 (getMonth t + 1) @ r) = Some (getMonth t + 1, r)"
    "read_digits 2 0 (show_digits 2 (getDate t) @ r) = Some (getDate t, r)"
    "read_digits 2 0 (show_digits 2 (getHours t) @ r) = Some (getHours t, r)"
    "read_digits 2 0 (show_digits 2 (getMinutes t) @ r) = Some (getMinutes t, r)"
    "read_digits 2 0 (show_digits 2 (getSeconds t) @ r) = Some (getSeconds t, r)"
    by (rule read_show2; use date_ranges[of t] clock_ranges[of t] in linarith)+
  show "read_digits 3 0 (show_digits 3 (getMilliseconds t) @ r) = Some (getMilliseconds t, r)"
    by (rule read_show3; use clock_ranges[of t] in linarith)
qed

lemma eat_digits2_Cons [simp]: "eat_digits2 c (c # s) = read_digits 2 0 s"
  by (simp add: eat_digits2_def)

lemma match_ymd_day_string:
  "printable_year t \<Longrightarrow> match_ymd (day_string t @ r) = Some (ymd_of t, r)"
  by (simp add: match_ymd_def day_string_def read_parts ymd_of_def del: read_digits.simps show_digits.simps)

lemma calendar_day_valid:
  "isValidCalendarDate (getFullYear t) (getMonth t + 1) (getDate t)"
proof -
  note v = civil_of_day_valid[OF civil_getters, of t]
  have "getMonth t = 0 \<or> getMonth t = 1 \<or> getMonth t = 2 \<or> getMonth t = 3 \<or> getMonth t = 4 \<or>
      getMonth t = 5 \<or> getMonth t = 6 \<or> getMonth t = 7 \<or> getMonth t = 8 \<or> getMonth t = 9 \<or>
      getMonth t = 10 \<or> getMonth t = 11"
    using getMonth_bounds[of t] by presburger
  then show ?thesis
    using v(4,5)
    by (cases "is_leap (getFullYear t)"; elim disjE;
        simp add: isValidCalendarDate_def days_in_month_def days_before_month_def)
qed

lemma match_instant_day_string: "printable_year t \<Longrightarrow> match_instant (day_string t) = None"
  using match_ymd_day_string[of t "[]"] by (simp add: match_instant_def eat_digits2_def eat_def)


lemma match_instant_minute_string: "printable_year t \<Longrightarrow> match_instant (minute_string t) = None"
  using match_ymd_day_string[of t "CHR ''T'' # show_digits 2 (getHours t) @ CHR '':'' # show_digits 2 (getMinutes t)"]
    read_parts(4)[of t "CHR '':'' # show_digits 2 (getMinutes t)"] read_parts(5)[of t "[]"]
  by (simp add: match_instant_def minute_string_def opt_group_def eat_digits2_def eat_def zone_suffix_def
      del: read_digits.simps show_digits.simps)

lemma printable_time:
  assumes "printable_year t"
  shows "\<bar>t\<bar> \<le> max_time - ms_per_day"
proof -
  have y: "year_of_day (t div ms_per_day) = getFullYear t"
    by (simp add: getFullYear_def civil_of_day_def Let_def)
  have d: "day_from_year (getFullYear t) \<le> t div ms_per_day"
    "t div ms_per_day < day_from_year (getFullYear t + 1)"
    using year_of_day_bounds[of "t div ms_per_day"] by (simp_all add: y)
  have "- 90000000 \<le> t div ms_per_day" "t div ms_per_day \<le> 90000000"
    using d day_from_year_bounds[of "getFullYear t"] day_from_year_bounds[of "getFullYear t + 1"] assms
    by (simp_all add: printable_year_def)
  moreover have "t = t div ms_per_day * 86400000 + t mod ms_per_day"
    using day_split[of t] by (simp add: ms_per_day_def)
  moreover have "0 \<le> t mod ms_per_day" "t mod ms_per_day < 86400000"
    using clock_bounds[of t] by (simp_all add: ms_per_day_def)
  ultimately show ?thesis unfolding max_time_def abs_le_iff ms_per_day_def by linarith
qed

lemma local_date_parts:
  assumes "printable_year t" "0 \<le> clock_ms hh mi sec f" "clock_ms hh mi sec f < ms_per_day"
  shows "local_date (ymd_of t, hh, mi, sec, f) =
    Some (t div ms_per_day * ms_per_day + clock_ms hh mi sec f)"
proof -
  have "make_day (getFullYear t) (getMonth t + 1) (getDate t) = t div ms_per_day"
    using civil_of_day_valid(1)[OF civil_getters, of t] .
  moreover have "\<bar>t div ms_per_day * ms_per_day + clock_ms hh mi sec f\<bar> \<le> max_time"
    using printable_time[OF assms(1)] day_split[of t] clock_bounds[of t] assms(2,3)
    by (simp only: abs_le_iff) linarith
  ultimately show ?thesis
    using assms(1) by (simp add: local_date_def ymd_of_def printable_year_def time_clip_def)
qed

lemma match_local_day_string:
  "printable_year t \<Longrightarrow> match_local (day_string t) = Some (ymd_of t, 0, 0, 0, 0)"
  using match_ymd_day_string[of t "[]"] by (simp add: match_local_def)

lemma match_local_minute_string:
  "printable_year t \<Longrightarrow>
    match_local (minute_string t) = Some (ymd_of t, getHours t, getMinutes t, 0, 0)"
  using match_ymd_day_string[of t "CHR ''T'' # show_digits 2 (getHours t) @ CHR '':'' # show_digits 2 (getMinutes t)"]
    read_parts(4)[of t "CHR '':'' # show_digits 2 (getMinutes t)"] read_parts(5)[of t "[]"]
  by (simp add: match_local_def minute_string_def opt_group_def eat_digits2_def eat_def
      del: read_digits.simps show_digits.simps)

text \<open>What \<open>safeParseDate\<close> reads back from a printed day, minute or instant.\<close>

lemma parse_day_string:
  assumes "printable_year t"
  shows "safeParseDate h (Some (day_string t)) = Some (t div ms_per_day * ms_per_day)"
proof -
  have "day_string t \<noteq> []" by (simp add: day_string_def)
  then show ?thesis
    using assms local_date_parts[of t 0 0 0 0] calendar_day_valid[of t]
    by (simp add: safeParseDate_def match_instant_day_string parse_general_def day_string_no_zone
        match_local_day_string clock_ms_def) (simp add: ymd_of_def)
qed

definition minute_floor :: "int \<Rightarrow> int" where
  "minute_floor t = t div ms_per_day * ms_per_day + clock_ms (getHours t) (getMinutes t) 0 0"

lemma minute_floor_bounds: "minute_floor t \<le> t" "t < minute_floor t + 60000"
proof -
  have "t = t div ms_per_day * ms_per_day + clock_ms (getHours t) (getMinutes t) (getSeconds t) (getMilliseconds t)"
    unfolding clock_of_time by (rule day_split)
  then show "minute_floor t \<le> t" "t < minute_floor t + 60000"
    using clock_ranges[of t] unfolding minute_floor_def clock_ms_def by linarith+
qed

lemma parse_minute_string:
  assumes "printable_year t"
  shows "safeParseDate h (Some (minute_string t)) = Some (minute_floor t)"
proof -
  have "minute_string t \<noteq> []" by (simp add: minute_string_def)
  moreover have "0 \<le> clock_ms (getHours t) (getMinutes t) 0 0"
    "clock_ms (getHours t) (getMinutes t) 0 0 < ms_per_day"
    using clock_ranges[of t] by (simp_all add: clock_ms_def ms_per_day_def)
  ultimately show ?thesis
    using assms local_date_parts[of t "getHours t" "getMinutes t" 0 0] calendar_day_valid[of t]
    by (simp add: safeParseDate_def match_instant_minute_string parse_general_def minute_string_no_zone
        match_local_minute_string minute_floor_def) (simp add: ymd_of_def)
qed

lemma to_iso_parts:
  assumes "printable_year t"
  shows "to_iso t = day_string t @ CHR ''T'' # show_digits 2 (getHours t) @ CHR '':'' #
    show_digits 2 (getMinutes t) @ CHR '':'' # show_digits 2 (getSeconds t) @ CHR ''.'' #
    show_digits 3 (getMilliseconds t) @ ''Z''"
proof -
  have "show_year (getFullYear t) = show_digits 4 (getFullYear t)"
    using assms by (simp add: show_year_def printable_year_def)
  then show ?thesis
    unfolding to_iso_def civil_getters day_string_def show_clock_def getHours_def getMinutes_def
      getSeconds_def getMilliseconds_def by simp
qed

lemma show_digits_not_Nil: "show_digits 3 k \<noteq> []"
  by (simp add: show3)

lemma match_instant_to_iso: "printable_year t \<Longrightarrow> match_instant (to_iso t) = Some (ymd_of t)"
  by (simp add: match_instant_def to_iso_parts match_ymd_day_string read_parts opt_group_def
      fraction13_def span_digits_show show_digits_not_Nil
      del: read_digits.simps show_digits.simps)

lemma parse_to_iso:
  assumes "printable_year t"
  shows "safeParseDate h (Some (to_iso t)) = Some t"
proof -
  have "to_iso t \<noteq> []" using assms by (simp add: to_iso_parts)
  moreover have "\<bar>t\<bar> \<le> max_time" using printable_time[OF assms] ms_per_day_pos by linarith
  ultimately show ?thesis
    using assms calendar_day_valid[of t]
    by (simp add: safeParseDate_def match_instant_to_iso ymd_of_def date_parse_to_iso)
qed


text \<open>Which of the three forms a printed time has.\<close>

lemma marks_not_ws [simp]: "\<not> is_ws (CHR ''-'')" "\<not> is_ws (CHR '':'')" "\<not> is_ws (CHR ''.'')"
  by (simp_all add: is_ws_def)

lemma day_string_date_only [simp]: "printable_year t \<Longrightarrow> is_date_only (day_string t)"
  using match_ymd_day_string[of t "[]"] by (simp add: is_date_only_def at_end_def)

lemma day_string_no_time [simp]: "\<not> hasTimeComponent (Some (day_string t))"
  by (simp add: hasTimeComponent_def day_string_def show2 show4 time_component_here_def)

lemma minute_string_not_day [simp]: "printable_year t \<Longrightarrow> \<not> is_date_only (minute_string t)"
  using match_ymd_day_string[of t "CHR ''T'' # show_digits 2 (getHours t) @ CHR '':'' # show_digits 2 (getMinutes t)"]
  by (simp add: is_date_only_def at_end_def minute_string_def)

lemma minute_string_time [simp]: "hasTimeComponent (Some (minute_string t))"
  by (simp add: hasTimeComponent_def minute_string_def day_string_def show2 show4 time_component_here_def
      read2 eat_digits2_def eat_def)

declare day_string_no_zone [simp] minute_string_no_zone [simp]

lemma ex_suffix_append: "P s \<Longrightarrow> ex_suffix P (r @ s)"
  by (induction r) (auto, cases s, auto)

lemma to_iso_forms [simp]:
  "printable_year t \<Longrightarrow> \<not> is_date_only (to_iso t)"
  "printable_year t \<Longrightarrow> hasTimezoneSuffix (to_iso t)"
proof -
  assume p: "printable_year t"
  obtain r where r: "to_iso t = day_string t @ CHR ''T'' # r"
    using to_iso_parts[OF p] by blast
  show "\<not> is_date_only (to_iso t)"
    using match_ymd_day_string[OF p, of "CHR ''T'' # r"] by (simp add: is_date_only_def at_end_def r)
  obtain q where q: "to_iso t = q @ ''Z''"
    using to_iso_parts[OF p] by (metis append.assoc append_Cons)
  show "hasTimezoneSuffix (to_iso t)"
    unfolding hasTimezoneSuffix_def q by (rule ex_suffix_append) (simp add: zone_suffix_def)
qed

end
