(* ===== verification/RecurrenceFields.thy ===== *)
theory RecurrenceFields
  imports DateText TaskStatus
begin

text \<open>
  The readers of a stored recurrence in \<open>recurrence.ts\<close>: the rule, the selectors, the limits
  and the anchor days the generation of occurrences starts from, and the editing of an RRULE.
  A stored recurrence may be the plain rule name, an object with explicit fields or an object
  that carries its selectors in the RRULE text only.
\<close>

definition RECURRENCE_INTERVAL_MAX :: int where
  "RECURRENCE_INTERVAL_MAX = 999"

definition MONTHLY_WEEKDAYS :: "string list" where
  "MONTHLY_WEEKDAYS = [''MO'', ''TU'', ''WE'', ''TH'', ''FR'']"

definition isMonthlyWeekdaySet :: "string list option \<Rightarrow> bool" where
  "isMonthlyWeekdaySet days =
     (case days of None \<Rightarrow> False
      | Some ds \<Rightarrow> length ds = length MONTHLY_WEEKDAYS \<and> list_all (\<lambda>d. d \<in> set ds) MONTHLY_WEEKDAYS)"

subsection \<open>Readers\<close>

definition getRecurrenceRule :: "task_recurrence option \<Rightarrow> string option" where
  "getRecurrenceRule value =
     (case value of None \<Rightarrow> None
      | Some (RecStr s) \<Rightarrow> if isRecurrenceRule (Some s) then Some s else None
      | Some (RecObj r) \<Rightarrow>
          if isRecurrenceRule (Some (rec_rule r)) then Some (rec_rule r)
          else if truthy (rec_rrule r) then pr_rule (parseRRuleSelectors (or_else (rec_rrule r) []))
          else None)"

definition getRecurrenceStrategy :: "task_recurrence option \<Rightarrow> string" where
  "getRecurrenceStrategy value =
     (case value of Some (RecObj r) \<Rightarrow> if rec_strategy r = Some ''fluid'' then ''fluid'' else ''strict''
      | _ \<Rightarrow> ''strict'')"

text \<open>The selectors of the RRULE text, when the recurrence carries one.\<close>

definition selectors_of :: "recurrence \<Rightarrow> parsed_rrule" where
  "selectors_of r = (if truthy (rec_rrule r) then parseRRuleSelectors (or_else (rec_rrule r) [])
     else empty_parsed)"

definition getRecurrenceByDay :: "task_recurrence option \<Rightarrow> string list option" where
  "getRecurrenceByDay value =
     (case value of Some (RecObj r) \<Rightarrow>
        (case normalizeWeekdays (rec_byDay r) of Some ds \<Rightarrow> Some ds
         | None \<Rightarrow> pr_byDay (selectors_of r))
      | _ \<Rightarrow> None)"

definition getRecurrenceByMonthDay :: "task_recurrence option \<Rightarrow> int list option" where
  "getRecurrenceByMonthDay value =
     (case value of Some (RecObj r) \<Rightarrow>
        (case normalizeMonthDays (map_option (map show_int) (rec_byMonthDay r)) of Some ds \<Rightarrow> Some ds
         | None \<Rightarrow> pr_byMonthDay (selectors_of r))
      | _ \<Rightarrow> None)"

definition getRecurrenceBySetPos :: "task_recurrence option \<Rightarrow> int option" where
  "getRecurrenceBySetPos value =
     (case value of Some (RecObj r) \<Rightarrow> pr_bySetPos (selectors_of r) | _ \<Rightarrow> None)"

definition getRecurrenceInterval :: "task_recurrence option \<Rightarrow> int" where
  "getRecurrenceInterval value =
     (case value of Some (RecObj r) \<Rightarrow>
        (case pr_interval (selectors_of r) of Some n \<Rightarrow> if n > 0 then n else 1 | None \<Rightarrow> 1)
      | _ \<Rightarrow> 1)"

definition getRecurrenceWeekStart :: "task_recurrence option \<Rightarrow> string option" where
  "getRecurrenceWeekStart value =
     (case value of Some (RecObj r) \<Rightarrow>
        (case normalizeWeekStart (rec_weekStart r) of Some w \<Rightarrow> Some w
         | None \<Rightarrow> pr_weekStart (selectors_of r))
      | _ \<Rightarrow> None)"

definition positive :: "int option \<Rightarrow> int option" where
  "positive v = (case v of None \<Rightarrow> None | Some n \<Rightarrow> if n > 0 then Some n else None)"

definition getRecurrenceCountValue :: "task_recurrence option \<Rightarrow> int option" where
  "getRecurrenceCountValue value =
     (case value of Some (RecObj r) \<Rightarrow>
        (case positive (rec_count r) of Some n \<Rightarrow> Some n
         | None \<Rightarrow> positive (pr_count (selectors_of r)))
      | _ \<Rightarrow> None)"

definition getRecurrenceUntilValue :: "host \<Rightarrow> task_recurrence option \<Rightarrow> string option" where
  "getRecurrenceUntilValue hst value =
     (case value of Some (RecObj r) \<Rightarrow>
        if truthy (rec_until r) then rec_until r
        else if truthy (rec_rrule r) then pr_until (parseRRuleString hst (or_else (rec_rrule r) []))
        else None
      | _ \<Rightarrow> None)"

definition getRecurrenceCompletedOccurrencesValue :: "task_recurrence option \<Rightarrow> int option" where
  "getRecurrenceCompletedOccurrencesValue value =
     (case value of Some (RecObj r) \<Rightarrow>
        (case rec_completedOccurrences r of Some n \<Rightarrow> if n < 0 then None else Some n | None \<Rightarrow> None)
      | _ \<Rightarrow> None)"

definition hasRecurrenceRule :: "task_recurrence option \<Rightarrow> bool" where
  "hasRecurrenceRule value = (getRecurrenceRule value \<noteq> None)"

subsection \<open>Schedule fields and their anchor days\<close>

datatype schedule_field = StartTime | DueDate | ReviewAt

record schedule_dates =
  sd_startTime :: "string option"
  sd_dueDate :: "string option"
  sd_reviewAt :: "string option"

fun sd_get :: "schedule_dates \<Rightarrow> schedule_field \<Rightarrow> string option" where
  "sd_get d StartTime = sd_startTime d"
| "sd_get d DueDate = sd_dueDate d"
| "sd_get d ReviewAt = sd_reviewAt d"

definition task_dates :: "task \<Rightarrow> schedule_dates" where
  "task_dates t = \<lparr>sd_startTime = t_startTime t, sd_dueDate = t_dueDate t, sd_reviewAt = t_reviewAt t\<rparr>"

definition getRecurrenceScheduleAnchorField :: "schedule_dates \<Rightarrow> schedule_field option" where
  "getRecurrenceScheduleAnchorField dates =
     find (\<lambda>field. truthy (sd_get dates field)) [DueDate, StartTime, ReviewAt]"

definition getRecurrenceFieldAnchorDay :: "task_recurrence option \<Rightarrow> schedule_field \<Rightarrow> int option" where
  "getRecurrenceFieldAnchorDay value field =
     (case value of Some (RecObj r) \<Rightarrow>
        normalizeAnchorDay (case field of StartTime \<Rightarrow> rec_startAnchorDay r
          | DueDate \<Rightarrow> rec_dueAnchorDay r | ReviewAt \<Rightarrow> rec_reviewAnchorDay r)
      | _ \<Rightarrow> None)"

definition getDateDay :: "host \<Rightarrow> string option \<Rightarrow> int option" where
  "getDateDay hst value = map_option getDate (safeParseDate hst value)"

record anchor_days =
  ad_startTime :: "int option"
  ad_dueDate :: "int option"
  ad_reviewAt :: "int option"

fun ad_get :: "anchor_days \<Rightarrow> schedule_field \<Rightarrow> int option" where
  "ad_get a StartTime = ad_startTime a"
| "ad_get a DueDate = ad_dueDate a"
| "ad_get a ReviewAt = ad_reviewAt a"

definition global_anchor :: "task_recurrence option \<Rightarrow> int option" where
  "global_anchor value =
     normalizeAnchorDay (case value of Some (RecObj r) \<Rightarrow> rec_anchorDay r | _ \<Rightarrow> None)"

text \<open>The single \<open>anchorDay\<close> belongs to the field it was derived from.\<close>

definition resolve_anchor :: "host \<Rightarrow> task_recurrence option \<Rightarrow> schedule_dates \<Rightarrow> schedule_field \<Rightarrow> int option" where
  "resolve_anchor hst recurrence dates field =
     (let ownerField = (if truthy (sd_dueDate dates) then Some DueDate
        else if truthy (sd_startTime dates) then Some StartTime
        else if truthy (sd_reviewAt dates) then Some ReviewAt else None)
      in js_nullish (getRecurrenceFieldAnchorDay recurrence field)
           (js_nullish (if Some field = ownerField then global_anchor recurrence else None)
             (getDateDay hst (sd_get dates field))))"

definition resolveRecurrenceFieldAnchorDays ::
    "host \<Rightarrow> task_recurrence option \<Rightarrow> schedule_dates \<Rightarrow> anchor_days" where
  "resolveRecurrenceFieldAnchorDays hst recurrence dates =
     \<lparr>ad_startTime = resolve_anchor hst recurrence dates StartTime,
      ad_dueDate = resolve_anchor hst recurrence dates DueDate,
      ad_reviewAt = resolve_anchor hst recurrence dates ReviewAt\<rparr>"

text \<open>
  The anchor days written into the next recurrence; an absent one keeps what the spread
  recurrence has. Weekly and daily rules write none.
\<close>

definition getNextRecurrenceAnchorDays ::
    "task_recurrence option \<Rightarrow> string \<Rightarrow> anchor_days \<Rightarrow> int option \<times> anchor_days" where
  "getNextRecurrenceAnchorDays recurrence rule sourceAnchorDays =
     (if rule \<noteq> ''monthly'' \<and> rule \<noteq> ''yearly''
      then (None, \<lparr>ad_startTime = None, ad_dueDate = None, ad_reviewAt = None\<rparr>)
      else (let s = ad_startTime sourceAnchorDays; d = ad_dueDate sourceAnchorDays;
                r = ad_reviewAt sourceAnchorDays
            in (nonzero (js_nullish (global_anchor recurrence) (js_nullish d (js_nullish s r))),
                \<lparr>ad_startTime = nonzero s, ad_dueDate = nonzero d, ad_reviewAt = nonzero r\<rparr>)))"

definition canSkipRecurringTaskOccurrence :: "host \<Rightarrow> task \<Rightarrow> bool" where
  "canSkipRecurringTaskOccurrence hst t =
     (\<not> truthy (deletedAt t) \<and> \<not> truthy (t_purgedAt t) \<and> isTaskActionable (Some (t_status t)) \<and>
      getRecurrenceRule (t_recurrence t) \<noteq> None \<and>
      getRecurrenceStrategy (t_recurrence t) = ''strict'' \<and>
      (case getRecurrenceScheduleAnchorField (task_dates t) of None \<Rightarrow> False
       | Some field \<Rightarrow> safeParseDate hst (sd_get (task_dates t) field) \<noteq> None))"

subsection \<open>Editing an RRULE\<close>

definition EDITABLE_RRULE_TOKEN_KEYS :: "string list" where
  "EDITABLE_RRULE_TOKEN_KEYS = [''FREQ'', ''INTERVAL'', ''BYDAY'', ''BYMONTHDAY'', ''BYSETPOS'',
     ''COUNT'', ''WKST'', ''UNTIL'']"

text \<open>An override is \<open>None\<close> when the object has no own property of that name.\<close>

record rrule_overrides =
  ro_byDay :: "string list option option"
  ro_interval :: "int option option"
  ro_byMonthDay :: "int list option option"
  ro_bySetPos :: "int option option"
  ro_count :: "int option option"
  ro_weekStart :: "string option option"
  ro_until :: "string option option"

definition hasRRuleEditOverride :: "'a option \<Rightarrow> bool" where
  "hasRRuleEditOverride v = (v \<noteq> None)"

definition override :: "'a option option \<Rightarrow> 'a option \<Rightarrow> 'a option" where
  "override v old = (case v of None \<Rightarrow> old | Some x \<Rightarrow> x)"

definition is_opaque_token :: "string \<Rightarrow> bool" where
  "is_opaque_token part =
     (CHR ''='' \<in> set part \<and> hd part \<noteq> CHR ''='' \<and> after_eq part \<noteq> [] \<and>
      js_upper (js_trim (before_eq part)) \<notin> set EDITABLE_RRULE_TOKEN_KEYS)"

definition opaque_tokens :: "string \<Rightarrow> string list" where
  "opaque_tokens existing = filter is_opaque_token (map js_trim (split_on (CHR '';'') existing))"

definition editRRuleString :: "host \<Rightarrow> string \<Rightarrow> string \<Rightarrow> rrule_overrides \<Rightarrow> string" where
  "editRRuleString hst existing rule ov =
     (let parsed = parseRRuleString hst existing;
          bySetPos = (if hasRRuleEditOverride (ro_bySetPos ov) then override (ro_bySetPos ov) None
            else if hasRRuleEditOverride (ro_byDay ov) \<or> hasRRuleEditOverride (ro_byMonthDay ov)
            then None else pr_bySetPos parsed);
          edited = buildRRuleString hst rule (override (ro_byDay ov) (pr_byDay parsed))
            (override (ro_interval ov) (pr_interval parsed))
            (override (ro_byMonthDay ov) (pr_byMonthDay parsed)) bySetPos
            (override (ro_weekStart ov) (pr_weekStart parsed))
            (override (ro_count ov) (pr_count parsed)) (override (ro_until ov) (pr_until parsed));
          opaque = opaque_tokens existing
      in if opaque \<noteq> [] then edited @ '';'' @ join_with (CHR '';'') opaque else edited)"

definition getRecurrenceRRuleValue :: "host \<Rightarrow> task_recurrence option \<Rightarrow> string" where
  "getRecurrenceRRuleValue hst value =
     (case value of Some (RecObj r) \<Rightarrow>
        if rec_rule r = [] then []
        else if truthy (rec_rrule r) then or_else (rec_rrule r) []
        else (let count = getRecurrenceCountValue value; until = getRecurrenceUntilValue hst value in
          if or_else (rec_byDay r) [] \<noteq> [] then
            buildRRuleString hst (rec_rule r) (rec_byDay r) None None None (rec_weekStart r) count until
          else if or_else (rec_byMonthDay r) [] \<noteq> [] then
            buildRRuleString hst (rec_rule r) None None (rec_byMonthDay r) None (rec_weekStart r) count until
          else buildRRuleString hst (rec_rule r) None None None None (rec_weekStart r) count until)
      | _ \<Rightarrow> [])"

lemma getRecurrenceInterval_pos: "1 \<le> getRecurrenceInterval value"
  by (auto simp: getRecurrenceInterval_def split: option.splits task_recurrence.splits)

lemma getRecurrenceRule_cases:
  "getRecurrenceRule value = Some rule \<Longrightarrow>
    rule = ''daily'' \<or> rule = ''weekly'' \<or> rule = ''monthly'' \<or> rule = ''yearly''"
proof -
  have sel: "pr_rule (parseRRuleSelectors s) = Some rule \<Longrightarrow>
      rule = ''daily'' \<or> rule = ''weekly'' \<or> rule = ''monthly'' \<or> rule = ''yearly''" for s
    by (auto simp: parseRRuleSelectors_def empty_parsed_def Let_def RRULE_FREQ_MAP_def
        bind_eq_Some_conv split: if_splits)
  show "getRecurrenceRule value = Some rule \<Longrightarrow>
    rule = ''daily'' \<or> rule = ''weekly'' \<or> rule = ''monthly'' \<or> rule = ''yearly''"
    by (auto simp: getRecurrenceRule_def isRecurrenceRule_def RECURRENCE_RULES_def
        split: option.splits task_recurrence.splits if_splits dest: sel)
qed

lemma anchor_day_range:
  "normalizeAnchorDay v = Some d \<Longrightarrow> 1 \<le> d \<and> d \<le> 31"
  by (auto simp: normalizeAnchorDay_def split: option.splits if_splits)

lemma resolve_anchor_range:
  assumes "resolve_anchor hst recurrence dates field = Some d"
  shows "1 \<le> d \<and> d \<le> 31"
proof -
  have day: "getDateDay hst v = Some d \<Longrightarrow> 1 \<le> d \<and> d \<le> 31" for v
  proof -
    assume "getDateDay hst v = Some d"
    then obtain t where "d = getDate t" by (auto simp: getDateDay_def)
    then show ?thesis
      using getDate_bounds[of t] month_len_bounds[of "month_index t"] by simp
  qed
  consider "getRecurrenceFieldAnchorDay recurrence field = Some d"
    | "global_anchor recurrence = Some d" | "getDateDay hst (sd_get dates field) = Some d"
    using assms by (auto simp: resolve_anchor_def js_nullish_def Let_def split: option.splits if_splits)
  then show ?thesis
    by cases (auto simp: getRecurrenceFieldAnchorDay_def global_anchor_def dest: anchor_day_range day
        split: option.splits task_recurrence.splits)
qed

end
