(* ===== verification/RecurrenceNext.thy ===== *)
theory RecurrenceNext
  imports RecurrenceFields
begin

text \<open>
  The next date of a recurrence rule in \<open>recurrence.ts\<close>: stepping by an interval with the
  day clamped to the month, the weekday and month-day selectors with their positions, and
  \<open>nextIsoFrom\<close>, which applies them to a stored date and writes the result in the form the
  stored date had.
\<close>

subsection \<open>Stepping by an interval\<close>

definition weekdayIndex :: "string \<Rightarrow> int" where
  "weekdayIndex w =
     (if w \<in> set WEEKDAY_ORDER then int (length (takeWhile (\<lambda>d. d \<noteq> w) WEEKDAY_ORDER)) else - 1)"

definition getLastDayOfMonth :: "int \<Rightarrow> int \<Rightarrow> int" where
  "getLastDayOfMonth year month = getDate (new_date year (month + 1) 0 0 0 0 0)"

definition buildDateWithTime :: "int \<Rightarrow> int \<Rightarrow> int \<Rightarrow> int \<Rightarrow> int" where
  "buildDateWithTime year month day base =
     new_date year month day (getHours base) (getMinutes base) (getSeconds base) (getMilliseconds base)"

definition addMonthsClamped :: "int \<Rightarrow> int \<Rightarrow> int option \<Rightarrow> int" where
  "addMonthsClamped base interval anchorDay =
     (let seed = buildDateWithTime (getFullYear base) (getMonth base + interval) 1 base;
          year = getFullYear seed; month = getMonth seed;
          lastDay = getLastDayOfMonth year month;
          day = min (or_else anchorDay (getDate base)) lastDay
      in buildDateWithTime year month day base)"

definition addYearsClamped :: "int \<Rightarrow> int \<Rightarrow> int option \<Rightarrow> int" where
  "addYearsClamped base interval anchorDay =
     (let year = getFullYear base + interval; month = getMonth base;
          lastDay = getLastDayOfMonth year month;
          day = min (or_else anchorDay (getDate base)) lastDay
      in buildDateWithTime year month day base)"

definition addInterval :: "host \<Rightarrow> int \<Rightarrow> string \<Rightarrow> int \<Rightarrow> int option \<Rightarrow> int" where
  "addInterval h base rule interval anchorDay =
     (if rule = ''daily'' then addDays h base interval
      else if rule = ''weekly'' then addWeeks h base interval
      else if rule = ''monthly'' then addMonthsClamped base interval anchorDay
      else addYearsClamped base interval anchorDay)"

subsection \<open>Weekdays of a week\<close>

definition orderWeekdaysByWeekStart :: "string \<Rightarrow> string list" where
  "orderWeekdaysByWeekStart weekStart =
     (let startIndex = weekdayIndex weekStart in
      if startIndex < 0 then WEEKDAY_ORDER
      else drop (nat startIndex) WEEKDAY_ORDER @ take (nat startIndex) WEEKDAY_ORDER)"

text \<open>The first result of a loop body that returns from the loop.\<close>

fun find_map :: "('a \<Rightarrow> 'b option) \<Rightarrow> 'a list \<Rightarrow> 'b option" where
  "find_map f [] = None"
| "find_map f (x # xs) = (case f x of None \<Rightarrow> find_map f xs | Some y \<Rightarrow> Some y)"

text \<open>\<open>for (let offset = 0; offset <= step * n; offset += step)\<close> for a positive step.\<close>

definition loop_offsets :: "int \<Rightarrow> nat \<Rightarrow> int list" where
  "loop_offsets step n = map (\<lambda>i. step * int i) [0..<Suc n]"

definition safe_interval :: "int \<Rightarrow> int" where
  "safe_interval interval = (if interval > 0 then interval else 1)"

definition anchor_week_start :: "int \<Rightarrow> int \<Rightarrow> int" where
  "anchor_week_start base weekStartIndex =
     setDate base (getDate base - (getDay base - weekStartIndex + 7) mod 7)"

definition week_candidate :: "host \<Rightarrow> int \<Rightarrow> int \<Rightarrow> int \<Rightarrow> string \<Rightarrow> int option" where
  "week_candidate h base weekStartIndex weekOffset weekday =
     (let candidate = addDays h (addWeeks h (anchor_week_start base weekStartIndex) weekOffset)
            ((weekdayIndex weekday - weekStartIndex + 7) mod 7)
      in if weekOffset = 0 \<and> candidate \<le> base then None else Some candidate)"

definition week_start_of :: "string option \<Rightarrow> string" where
  "week_start_of weekStart = or_else (normalizeWeekStart (Some (or_else weekStart ''MO''))) ''MO''"

definition nextWeeklyByDay :: "host \<Rightarrow> int \<Rightarrow> string list \<Rightarrow> int \<Rightarrow> string option \<Rightarrow> int" where
  "nextWeeklyByDay h base byDay interval weekStart =
     (case normalizeWeeklyByDay (Some byDay) of
        None \<Rightarrow> addWeeks h base interval
      | Some normalizedDays \<Rightarrow>
          (let safeInterval = safe_interval interval;
               normalizedWeekStart = week_start_of weekStart;
               orderedDays = filter (\<lambda>day. day \<in> set normalizedDays)
                 (orderWeekdaysByWeekStart normalizedWeekStart);
               weekStartIndex = weekdayIndex normalizedWeekStart
           in case find_map (\<lambda>weekOffset.
                  find_map (week_candidate h base weekStartIndex weekOffset) orderedDays)
                (loop_offsets safeInterval 52) of
                Some candidate \<Rightarrow> candidate
              | None \<Rightarrow> addWeeks h base safeInterval))"

subsection \<open>Weekdays of a month\<close>

definition getNthWeekdayOfMonth :: "int \<Rightarrow> int \<Rightarrow> string \<Rightarrow> int \<Rightarrow> int option" where
  "getNthWeekdayOfMonth year month weekday ordinal =
     (if ordinal = 0 then None
      else if ordinal > 0 then
        (let firstOfMonth = new_date year month 1 0 0 0 0;
             offset = (weekdayIndex weekday - getDay firstOfMonth + 7) mod 7;
             day = 1 + offset + (ordinal - 1) * 7;
             candidate = new_date year month day 0 0 0 0
         in if getMonth candidate = month then Some candidate else None)
      else
        (let lastOfMonth = new_date year (month + 1) 0 0 0 0 0;
             offset = (getDay lastOfMonth - weekdayIndex weekday + 7) mod 7;
             day = getDate lastOfMonth - offset;
             candidate = new_date year month day 0 0 0 0
         in if getMonth candidate = month then Some candidate else None))"

text \<open>The pattern \<open>^(-?\d)?(SU|MO|TU|WE|TH|FR|SA)$\<close>.\<close>

definition parseOrdinalByDay :: "string \<Rightarrow> (string \<times> int option) option" where
  "parseOrdinalByDay token =
     (let weekday = drop (length token - 2) token in
      if weekday \<notin> set WEEKDAY_ORDER then None
      else (case take (length token - 2) token of
          [] \<Rightarrow> Some (weekday, None)
        | [c] \<Rightarrow> map_option (\<lambda>n. (weekday, Some n)) (digit_of c)
        | [m, c] \<Rightarrow> if m = CHR ''-'' then map_option (\<lambda>n. (weekday, Some (- n))) (digit_of c) else None
        | _ \<Rightarrow> None))"

definition by_time :: "int list \<Rightarrow> int list" where
  "by_time = js_sort (\<lambda>a b. a - b)"

text \<open>\<open>BYSETPOS\<close>: one position of the ordered candidates, counted from the end when negative.\<close>

definition at_set_pos :: "int option \<Rightarrow> int list \<Rightarrow> int list" where
  "at_set_pos bySetPos ordered =
     (case nonzero bySetPos of None \<Rightarrow> ordered
      | Some p \<Rightarrow>
          (let i = (if p > 0 then p - 1 else int (length ordered) + p) in
           if 0 \<le> i \<and> i < int (length ordered) then [ordered ! nat i] else []))"

text \<open>The earliest positioned candidate; in the month of the base only those after it count.\<close>

definition first_after :: "int \<Rightarrow> int \<Rightarrow> int option \<Rightarrow> int list \<Rightarrow> int option" where
  "first_after base offset bySetPos ordered =
     (case by_time (filter (\<lambda>d. offset = 0 \<longrightarrow> base < d) (at_set_pos bySetPos ordered)) of
        [] \<Rightarrow> None | d # _ \<Rightarrow> Some d)"

definition month_days_of :: "int \<Rightarrow> int \<Rightarrow> int list" where
  "month_days_of year month = map (\<lambda>i. int i + 1) [0..<nat (getLastDayOfMonth year month)]"

definition by_day_candidates :: "int \<Rightarrow> int \<Rightarrow> int \<Rightarrow> string \<times> int option \<Rightarrow> int list" where
  "by_day_candidates base year month candidate =
     (case candidate of
        (weekday, Some ordinal) \<Rightarrow>
          (case getNthWeekdayOfMonth year month weekday ordinal of None \<Rightarrow> []
           | Some result \<Rightarrow>
               [buildDateWithTime (getFullYear result) (getMonth result) (getDate result) base])
      | (weekday, None) \<Rightarrow>
          filter (\<lambda>result. getDay result = weekdayIndex weekday)
            (map (\<lambda>day. buildDateWithTime year month day base) (month_days_of year month)))"

definition nextMonthlyByDay :: "host \<Rightarrow> int \<Rightarrow> string list \<Rightarrow> int \<Rightarrow> int option \<Rightarrow> int" where
  "nextMonthlyByDay h base byDay interval bySetPos =
     (case normalizeWeekdays (Some byDay) of
        None \<Rightarrow> addMonths h base interval
      | Some normalized \<Rightarrow>
          (let candidates = List.map_filter parseOrdinalByDay normalized;
               safeInterval = safe_interval interval
           in case find_map (\<lambda>offset.
                  (let monthDate = addMonths h base offset;
                       ordered = remdups_adj (by_time (concat
                         (map (by_day_candidates base (getFullYear monthDate) (getMonth monthDate))
                           candidates)))
                   in first_after base offset bySetPos ordered))
                (loop_offsets safeInterval 12) of
                Some d \<Rightarrow> d
              | None \<Rightarrow> addMonths h base safeInterval))"

definition month_day_date :: "int \<Rightarrow> int \<Rightarrow> int \<Rightarrow> int \<Rightarrow> int" where
  "month_day_date base year month day =
     buildDateWithTime year (if day = - 1 then month + 1 else month) (if day = - 1 then 0 else day) base"

definition nextMonthlyByMonthDay :: "host \<Rightarrow> int \<Rightarrow> int list \<Rightarrow> int \<Rightarrow> int option \<Rightarrow> int" where
  "nextMonthlyByMonthDay h base byMonthDay interval bySetPos =
     (case normalizeMonthDays (Some (map show_int byMonthDay)) of
        None \<Rightarrow> addMonths h base interval
      | Some normalized \<Rightarrow>
          (let safeInterval = safe_interval interval in
           case find_map (\<lambda>offset.
                  (let monthDate = addMonths h base offset;
                       year = getFullYear monthDate; month = getMonth monthDate;
                       ordered = by_time (filter (\<lambda>d. getMonth d = month)
                         (map (month_day_date base year month) normalized))
                   in first_after base offset bySetPos ordered))
                (loop_offsets safeInterval 12) of
                Some d \<Rightarrow> d
              | None \<Rightarrow> addMonths h base safeInterval))"

subsection \<open>The next stored date\<close>

definition next_date :: "host \<Rightarrow> int \<Rightarrow> string \<Rightarrow> string list option \<Rightarrow> int \<Rightarrow> int list option \<Rightarrow>
    string option \<Rightarrow> int option \<Rightarrow> int option \<Rightarrow> int" where
  "next_date h base rule byDay interval byMonthDay weekStart anchorDay bySetPos =
     (if rule = ''weekly'' \<and> or_else byDay [] \<noteq> [] then
        nextWeeklyByDay h base (or_else byDay []) interval weekStart
      else if rule = ''monthly'' \<and> or_else byDay [] \<noteq> [] then
        nextMonthlyByDay h base (or_else byDay []) interval bySetPos
      else if rule = ''monthly'' \<and> or_else byMonthDay [] \<noteq> [] then
        nextMonthlyByMonthDay h base (or_else byMonthDay []) interval bySetPos
      else addInterval h base rule interval anchorDay)"

text \<open>The form the base has decides the form of the result.\<close>

definition format_like :: "host \<Rightarrow> string option \<Rightarrow> int \<Rightarrow> int \<Rightarrow> string" where
  "format_like h baseIso formatBase nextDate =
     (case baseIso of
        None \<Rightarrow> formatMinutes h nextDate
      | Some s \<Rightarrow>
          if is_date_only s then formatDay h nextDate
          else (let hasTimezone = hasTimezoneSuffix s;
                  moved = (if \<not> hasTimezone \<and> hasTimeComponent (Some s)
                    then buildDateWithTime (getFullYear nextDate) (getMonth nextDate)
                      (getDate nextDate) formatBase
                    else nextDate)
                in if hasTimezone then to_iso moved else formatMinutes h moved))"

definition nextIsoFrom :: "host \<Rightarrow> string option \<Rightarrow> string \<Rightarrow> int \<Rightarrow> string list option \<Rightarrow> int \<Rightarrow>
    int list option \<Rightarrow> string option \<Rightarrow> int option \<Rightarrow> int option \<Rightarrow> int option \<Rightarrow> string option" where
  "nextIsoFrom h baseIso rule fallbackBase byDay interval byMonthDay weekStart searchBase anchorDay bySetPos =
     (let formatBase = or_else (safeParseDate h baseIso) fallbackBase;
          base = or_else searchBase formatBase;
          nextDate = next_date h base rule byDay interval byMonthDay weekStart
            (Some (or_else anchorDay (getDate formatBase))) bySetPos
      in Some (format_like h baseIso formatBase nextDate))"

definition nextFluidIsoFrom :: "host \<Rightarrow> string option \<Rightarrow> string \<Rightarrow> int \<Rightarrow> string list option \<Rightarrow> int \<Rightarrow>
    int list option \<Rightarrow> string option \<Rightarrow> int option \<Rightarrow> string option" where
  "nextFluidIsoFrom h baseIso rule fallbackBase byDay interval byMonthDay weekStart bySetPos =
     (let hasByDay = (or_else byDay [] \<noteq> []); hasByMonthDay = (or_else byMonthDay [] \<noteq> []);
          dayAligned = (rule = ''weekly'' \<and> hasByDay \<or>
            rule = ''monthly'' \<and> (hasByDay \<or> hasByMonthDay))
      in if \<not> dayAligned \<or> interval \<le> 1 then
           nextIsoFrom h baseIso rule fallbackBase byDay interval byMonthDay weekStart None None bySetPos
         else (let base = or_else (safeParseDate h baseIso) fallbackBase;
                 shiftedBase = (if rule = ''weekly'' then addWeeks h base (interval - 1)
                   else addMonths h base (interval - 1))
               in nextIsoFrom h baseIso rule fallbackBase byDay 1 byMonthDay weekStart
                    (Some shiftedBase) None bySetPos))"

end
