(* ===== verification/RecurrenceShift.thy ===== *)
theory RecurrenceShift
  imports RecurrenceNext
begin

text \<open>
  Moving the other schedule fields of a task along with its anchor, in \<open>recurrence.ts\<close>, and
  the start time kept at an offset from the due date, in \<open>task-relative-start.ts\<close>.
\<close>

subsection \<open>Rebuilding the schedule around the new anchor\<close>

definition preserveDateOnlyFormat :: "host \<Rightarrow> string option \<Rightarrow> string option \<Rightarrow> string option" where
  "preserveDateOnlyFormat h nextIso sourceIso =
     (if \<not> truthy nextIso \<or> \<not> truthy sourceIso \<or> \<not> is_date_only (or_else sourceIso []) then nextIso
      else (case safeParseDate h nextIso of None \<Rightarrow> nextIso | Some t \<Rightarrow> Some (formatDay h t)))"

definition shiftScheduleFieldFromAnchor :: "host \<Rightarrow> string \<Rightarrow> string \<Rightarrow> string \<Rightarrow> string" where
  "shiftScheduleFieldFromAnchor h sourceIso sourceAnchorIso nextAnchorIso =
     (case (safeParseDate h (Some sourceIso), safeParseDate h (Some sourceAnchorIso),
            safeParseDate h (Some nextAnchorIso)) of
        (Some source, Some sourceAnchor, Some nextAnchor) \<Rightarrow>
          (let moved = addDays h nextAnchor (differenceInCalendarDays h source sourceAnchor);
               shifted = setHours moved (getHours source) (getMinutes source) (getSeconds source)
                 (getMilliseconds source)
           in if is_date_only sourceIso then formatDay h shifted
              else if hasTimezoneSuffix sourceIso then to_iso shifted
              else formatMinutes h shifted)
      | _ \<Rightarrow> sourceIso)"

definition rebuild_field :: "host \<Rightarrow> schedule_dates \<Rightarrow> schedule_field \<Rightarrow> string \<Rightarrow> string \<Rightarrow>
    schedule_field \<Rightarrow> string option" where
  "rebuild_field h sourceDates anchorField sourceAnchorIso nextAnchorIso field =
     (case sd_get sourceDates field of
        None \<Rightarrow> None
      | Some sourceIso \<Rightarrow>
          if sourceIso = [] then None
          else if field = anchorField then preserveDateOnlyFormat h (Some nextAnchorIso) (Some sourceIso)
          else Some (shiftScheduleFieldFromAnchor h sourceIso sourceAnchorIso nextAnchorIso))"

definition no_dates :: schedule_dates where
  "no_dates = \<lparr>sd_startTime = None, sd_dueDate = None, sd_reviewAt = None\<rparr>"

definition rebuildScheduleFieldsFromAnchor ::
    "host \<Rightarrow> schedule_dates \<Rightarrow> schedule_field \<Rightarrow> string \<Rightarrow> schedule_dates" where
  "rebuildScheduleFieldsFromAnchor h sourceDates anchorField nextAnchorIso =
     (if \<not> truthy (sd_get sourceDates anchorField) then no_dates
      else (let rebuild = rebuild_field h sourceDates anchorField
                  (or_else (sd_get sourceDates anchorField) []) nextAnchorIso
            in \<lparr>sd_startTime = rebuild StartTime, sd_dueDate = rebuild DueDate,
                sd_reviewAt = rebuild ReviewAt\<rparr>))"

text \<open>Fresh identifiers come from a supply: the state of \<open>createId\<close> and the identifier it makes.\<close>

type_synonym 's id_supply = "'s \<Rightarrow> string \<times> 's"

fun fresh_ids :: "'s id_supply \<Rightarrow> (string \<Rightarrow> 'a \<Rightarrow> 'b) \<Rightarrow> 'a list \<Rightarrow> 's \<Rightarrow> 'b list \<times> 's" where
  "fresh_ids createId f [] s = ([], s)"
| "fresh_ids createId f (x # xs) s =
     (case createId s of (i, s1) \<Rightarrow>
        (case fresh_ids createId f xs s1 of (ys, s2) \<Rightarrow> (f i x # ys, s2)))"

definition resetChecklist :: "'s id_supply \<Rightarrow> checklist_item list option \<Rightarrow> 's \<Rightarrow>
    checklist_item list option \<times> 's" where
  "resetChecklist createId checklist s =
     (case checklist of
        None \<Rightarrow> (None, s)
      | Some items \<Rightarrow>
          if items = [] then (None, s)
          else (case fresh_ids createId
                  (\<lambda>i item. item\<lparr>ci_id := i, ci_isCompleted := False\<rparr>) items s of
                (items', s') \<Rightarrow> (Some items', s')))"

definition shouldStopAtUntil :: "host \<Rightarrow> string option \<Rightarrow> string option \<Rightarrow> bool" where
  "shouldStopAtUntil h nextIso until =
     (if \<not> truthy nextIso \<or> \<not> truthy until then False
      else (case safeParseDate h nextIso of
          None \<Rightarrow> False
        | Some nextDate \<Rightarrow>
            if is_date_only (or_else until []) then or_else until [] < formatDay h nextDate
            else (case safeParseDate h until of None \<Rightarrow> False
              | Some untilDate \<Rightarrow> untilDate < nextDate)))"

subsection \<open>A start at an offset from the due date\<close>

definition formatLocalDate :: "int \<Rightarrow> string" where
  "formatLocalDate t = show_int (getFullYear t) @ ''-'' @ pad_num 2 (getMonth t + 1) @ ''-'' @
     pad_num 2 (getDate t)"

definition formatLocalDateTime :: "int \<Rightarrow> string" where
  "formatLocalDateTime t = formatLocalDate t @ ''T'' @ pad_num 2 (getHours t) @ '':'' @
     pad_num 2 (getMinutes t)"

definition isSubDayOffset :: "relative_start_offset \<Rightarrow> bool" where
  "isSubDayOffset offset = (rso_unit offset = ''minute'' \<or> rso_unit offset = ''hour'')"

definition addOffset :: "int \<Rightarrow> relative_start_offset \<Rightarrow> int" where
  "addOffset date offset =
     (if rso_unit offset = ''minute'' then
        setHours date (getHours date) (getMinutes date + rso_amount offset) (getSeconds date)
          (getMilliseconds date)
      else if rso_unit offset = ''hour'' then
        setHours date (getHours date + rso_amount offset) (getMinutes date) (getSeconds date)
          (getMilliseconds date)
      else if rso_unit offset = ''day'' then setDate date (getDate date + rso_amount offset)
      else setDate date (getDate date + rso_amount offset * 7))"

definition computeRelativeStartTime ::
    "host \<Rightarrow> string option \<Rightarrow> relative_start_offset option \<Rightarrow> string option" where
  "computeRelativeStartTime h dueDate offset =
     (case offset of
        None \<Rightarrow> None
      | Some off \<Rightarrow>
          if \<not> truthy dueDate then None
          else (case safeParseDate h dueDate of
              None \<Rightarrow> None
            | Some due \<Rightarrow>
                if \<not> hasTimeComponent dueDate \<and> isSubDayOffset off then None
                else (let computed = addOffset due off in
                  if hasTimezoneSuffix (or_else dueDate []) then Some (to_iso computed)
                  else if \<not> hasTimeComponent dueDate
                    \<and> (rso_unit off = ''day'' \<or> rso_unit off = ''week'')
                  then Some (formatLocalDate computed)
                  else Some (formatLocalDateTime computed))))"

text \<open>
  An update of the schedule fields: each is \<open>None\<close> when the update does not carry the field
  and \<open>Some None\<close> when it clears it.
\<close>

record start_updates =
  su_dueDate :: "string option option"
  su_startTime :: "string option option"
  su_relativeStartOffset :: "relative_start_offset option option"

definition resolveRelativeStartUpdates ::
    "host \<Rightarrow> task \<Rightarrow> start_updates \<Rightarrow> start_updates" where
  "resolveRelativeStartUpdates h oldTask updates =
     (let hasDueDateUpdate = (su_dueDate updates \<noteq> None);
          hasStartTimeUpdate = (su_startTime updates \<noteq> None);
          hasOffsetUpdate = (su_relativeStartOffset updates \<noteq> None);
          nextDueDate = or_else (su_dueDate updates) (t_dueDate oldTask);
          meaningfulStartEdit = (hasStartTimeUpdate \<and>
            or_else (su_startTime updates) None \<noteq> t_startTime oldTask)
      in if \<not> hasDueDateUpdate \<and> \<not> hasStartTimeUpdate \<and> \<not> hasOffsetUpdate then updates
         else if hasOffsetUpdate then
           (let offset = normalizeRelativeStartOffset (or_else (su_relativeStartOffset updates) None)
            in if offset = None \<or> \<not> truthy nextDueDate
               then updates\<lparr>su_relativeStartOffset := Some None\<rparr>
               else (let startTime = computeRelativeStartTime h nextDueDate offset in
                 if truthy startTime
                 then updates\<lparr>su_relativeStartOffset := Some offset, su_startTime := Some startTime\<rparr>
                 else updates\<lparr>su_relativeStartOffset := Some None\<rparr>))
         else if meaningfulStartEdit then updates\<lparr>su_relativeStartOffset := Some None\<rparr>
         else (let existingOffset = normalizeRelativeStartOffset (t_relativeStartOffset oldTask) in
           if hasDueDateUpdate \<and> existingOffset \<noteq> None then
             (if \<not> truthy nextDueDate then updates\<lparr>su_relativeStartOffset := Some None\<rparr>
              else (let startTime = computeRelativeStartTime h nextDueDate existingOffset in
                if truthy startTime
                then updates\<lparr>su_startTime := Some startTime, su_relativeStartOffset := Some existingOffset\<rparr>
                else updates\<lparr>su_relativeStartOffset := Some None\<rparr>))
           else updates))"

subsection \<open>Laws\<close>

lemma addOffset_shift:
  "addOffset t off = t + rso_amount off *
    (if rso_unit off = ''minute'' then 60000 else if rso_unit off = ''hour'' then 3600000
     else if rso_unit off = ''day'' then ms_per_day else 7 * ms_per_day)"
proof -
  have c: "t div ms_per_day * ms_per_day + clock_ms (getHours t) (getMinutes t) (getSeconds t) (getMilliseconds t) = t"
    unfolding clock_of_time by simp
  show ?thesis
    using c unfolding addOffset_def setHours_def setDate_shift
    by (simp add: clock_ms_def algebra_simps)
qed

end
