(* ===== verification/RecurrenceProject.thy ===== *)
theory RecurrenceProject
  imports RecurrenceShift
begin

text \<open>
  The read-only projections of \<open>recurrence.ts\<close>: the catch-up of a series to a boundary, by a
  jump and then step by step, the preview of the next occurrence, and the occurrences of a
  calendar range. \<open>now\<close> stands for \<open>new Date()\<close>.
\<close>

record projected_iso =
  pi_iso :: "string option"
  pi_steps :: int

definition emptyProjectedIsoResult :: projected_iso where
  "emptyProjectedIsoResult = \<lparr>pi_iso = None, pi_steps = 0\<rparr>"

definition getProjectionBaseDate :: "host \<Rightarrow> int \<Rightarrow> string \<Rightarrow> int" where
  "getProjectionBaseDate h now projectedAtIso =
     or_else (safeParseDate h (Some projectedAtIso)) (or_else (date_parse projectedAtIso) now)"

definition hasMonthlyRuleDateAnchor :: "string list option \<Rightarrow> int list option \<Rightarrow> bool" where
  "hasMonthlyRuleDateAnchor byDay byMonthDay = (or_else byMonthDay [] \<noteq> [] \<or> or_else byDay [] \<noteq> [])"

subsection \<open>Catching up a strict series\<close>

definition calendarDayNumber :: "int \<Rightarrow> int" where
  "calendarDayNumber date = make_day_carry (js_year (getFullYear date)) (getMonth date) (getDate date)"

definition estimated_steps :: "string \<Rightarrow> int \<Rightarrow> int \<Rightarrow> int \<Rightarrow> int" where
  "estimated_steps rule safeInterval parsedBase projectionBase =
     (let calendarDayDelta = max 0 (calendarDayNumber projectionBase - calendarDayNumber parsedBase);
          calendarMonthDelta = max 0 ((getFullYear projectionBase - getFullYear parsedBase) * 12 +
            getMonth projectionBase - getMonth parsedBase);
          calendarYearDelta = max 0 (getFullYear projectionBase - getFullYear parsedBase)
      in if rule = ''daily'' then calendarDayDelta div safeInterval
         else if rule = ''weekly'' then calendarDayDelta div (safeInterval * 7)
         else if rule = ''monthly'' then calendarMonthDelta div safeInterval
         else calendarYearDelta div safeInterval)"

text \<open>The catch-up loop and its 1000 rounds; it ends early when a step does not move.\<close>

fun strict_loop :: "nat \<Rightarrow> host \<Rightarrow> (string \<Rightarrow> string option) \<Rightarrow> int \<Rightarrow> string \<Rightarrow> int \<Rightarrow> string \<times> int" where
  "strict_loop 0 h step boundary nextIso steps = (nextIso, steps)"
| "strict_loop (Suc guard) h step boundary nextIso steps =
     (case safeParseDate h (Some nextIso) of
        None \<Rightarrow> (nextIso, steps)
      | Some parsedNext \<Rightarrow>
          if boundary < parsedNext then (nextIso, steps)
          else (case step nextIso of
              None \<Rightarrow> (nextIso, steps)
            | Some followingIso \<Rightarrow>
                if followingIso = [] \<or> followingIso = nextIso then (nextIso, steps)
                else strict_loop guard h step boundary followingIso (steps + 1)))"

definition projectStrictIsoFrom :: "host \<Rightarrow> string option \<Rightarrow> string \<Rightarrow> int \<Rightarrow> string list option \<Rightarrow> int \<Rightarrow>
    int list option \<Rightarrow> string option \<Rightarrow> int option \<Rightarrow> int option \<Rightarrow> projected_iso" where
  "projectStrictIsoFrom h baseIso rule projectionBase byDay interval byMonthDay weekStart anchorDay bySetPos =
     (let safeInterval = safe_interval interval;
          complex1 = (or_else byDay [] \<noteq> [] \<or> or_else byMonthDay [] \<noteq> []);
          skippedSteps = (case safeParseDate h baseIso of
              None \<Rightarrow> 0
            | Some parsedBase \<Rightarrow>
                if parsedBase < projectionBase \<and> \<not> complex1
                then max 0 (estimated_steps rule safeInterval parsedBase projectionBase - 1) else 0);
          fastForwardedBaseIso = (if skippedSteps > 0
            then nextIsoFrom h baseIso rule projectionBase None (safeInterval * skippedSteps) None
              weekStart None anchorDay None
            else baseIso);
          nextIso = nextIsoFrom h fastForwardedBaseIso rule projectionBase byDay safeInterval byMonthDay
            weekStart None anchorDay bySetPos
      in if \<not> truthy nextIso then emptyProjectedIsoResult
         else (case strict_loop 1000 h
                 (\<lambda>v. nextIsoFrom h (Some v) rule projectionBase byDay interval byMonthDay weekStart
                   None anchorDay bySetPos)
                 projectionBase (or_else nextIso []) (skippedSteps + 1) of
               (res, steps) \<Rightarrow> \<lparr>pi_iso = Some res, pi_steps = steps\<rparr>))"

subsection \<open>Catching up a repeat-after-completion series\<close>

fun fluid_loop :: "nat \<Rightarrow> host \<Rightarrow> (string \<Rightarrow> int \<Rightarrow> string option) \<Rightarrow> int \<Rightarrow> string \<Rightarrow> int option \<Rightarrow> int \<Rightarrow>
    string \<times> int" where
  "fluid_loop 0 h step boundary nextIso parsedNext steps = (nextIso, steps)"
| "fluid_loop (Suc guard) h step boundary nextIso parsedNext steps =
     (case parsedNext of
        None \<Rightarrow> (nextIso, steps)
      | Some p \<Rightarrow>
          if boundary < p then (nextIso, steps)
          else (case step nextIso p of
              None \<Rightarrow> (nextIso, steps)
            | Some followingIso \<Rightarrow>
                if followingIso = [] \<or> followingIso = nextIso then (nextIso, steps)
                else fluid_loop guard h step boundary followingIso
                  (safeParseDate h (Some followingIso)) (steps + 1)))"

definition projectFluidIsoFrom :: "host \<Rightarrow> string \<Rightarrow> string \<Rightarrow> string \<Rightarrow> int \<Rightarrow> int option \<Rightarrow>
    string list option \<Rightarrow> int \<Rightarrow> int list option \<Rightarrow> string option \<Rightarrow> int option \<Rightarrow> projected_iso" where
  "projectFluidIsoFrom h baseIso rule projectedAtIso projectionBase catchUpBase byDay interval
      byMonthDay weekStart bySetPos =
     (let fieldBaseDate = safeParseDate h (Some baseIso);
          fieldIsFuture = (case fieldBaseDate of None \<Rightarrow> False | Some t \<Rightarrow> projectionBase < t);
          fluidBaseIso = (if fieldIsFuture then baseIso else projectedAtIso);
          fluidFallbackBase = (if fieldIsFuture then or_else fieldBaseDate projectionBase else projectionBase);
          nextIso = preserveDateOnlyFormat h (nextFluidIsoFrom h (Some fluidBaseIso) rule fluidFallbackBase
            byDay interval byMonthDay weekStart bySetPos) (Some baseIso)
      in if \<not> truthy nextIso then emptyProjectedIsoResult
         else (case (catchUpBase, safeParseDate h nextIso) of
             (Some boundary, Some p) \<Rightarrow>
               if boundary < p then \<lparr>pi_iso = nextIso, pi_steps = 1\<rparr>
               else (let safeInterval = safe_interval interval;
                     recurrenceDays = safeInterval * (if rule = ''weekly'' then 7 else 1);
                     skippedSteps =
                       (if (rule = ''daily'' \<or> rule = ''weekly'') \<and> or_else byDay [] = [] \<and>
                           or_else byMonthDay [] = []
                        then max 0 (max 0 (calendarDayNumber boundary - calendarDayNumber p)
                               div recurrenceDays - 1)
                        else 0);
                     jumpedIso = (if skippedSteps > 0
                       then preserveDateOnlyFormat h (nextIsoFrom h nextIso rule boundary None
                              (safeInterval * skippedSteps) None weekStart None None None) (Some baseIso)
                       else nextIso)
                   in case fluid_loop 1000 h
                        (\<lambda>v parsed. preserveDateOnlyFormat h (nextFluidIsoFrom h (Some v) rule parsed
                           byDay safeInterval byMonthDay weekStart bySetPos) (Some baseIso))
                        boundary (or_else jumpedIso [])
                        (if skippedSteps > 0 then safeParseDate h jumpedIso else Some p)
                        (1 + skippedSteps) of
                        (res, steps) \<Rightarrow> \<lparr>pi_iso = Some res, pi_steps = steps\<rparr>)
           | _ \<Rightarrow> \<lparr>pi_iso = nextIso, pi_steps = 1\<rparr>))"

subsection \<open>Tasks without a schedule\<close>

definition projectUnscheduledStart :: "host \<Rightarrow> string \<Rightarrow> int \<Rightarrow> string list option \<Rightarrow> int \<Rightarrow>
    int list option \<Rightarrow> string option \<Rightarrow> int option \<Rightarrow> projected_iso" where
  "projectUnscheduledStart h rule projectionBase byDay interval byMonthDay weekStart bySetPos =
     (let seedIso = formatDay h projectionBase;
          result = (\<lambda>v. if truthy v then \<lparr>pi_iso = v, pi_steps = 1\<rparr> else emptyProjectedIsoResult)
      in if rule = ''daily'' then \<lparr>pi_iso = Some seedIso, pi_steps = 1\<rparr>
         else if rule = ''weekly'' \<and> normalizeWeeklyByDay byDay \<noteq> None then
           result (nextIsoFrom h (Some seedIso) rule projectionBase byDay 1 None weekStart
             (Some (addDays h projectionBase (- 1))) None None)
         else if rule \<noteq> ''monthly'' \<or> \<not> hasMonthlyRuleDateAnchor byDay byMonthDay then
           emptyProjectedIsoResult
         else result (nextIsoFrom h (Some seedIso) rule projectionBase byDay interval byMonthDay weekStart
             None None bySetPos))"

subsection \<open>One step of the whole schedule\<close>

record projected_fields =
  pf_dates :: schedule_dates
  pf_steps :: int

definition projectNextRecurringOccurrenceFields :: "host \<Rightarrow> task \<Rightarrow> task \<Rightarrow> string \<Rightarrow> string \<Rightarrow> int \<Rightarrow>
    anchor_days \<Rightarrow> int option \<Rightarrow> projected_fields option" where
  "projectNextRecurringOccurrenceFields h t baseTask rule projectedAtIso projectionBase anchors fluidCatchUpBase =
     (let recurrence = t_recurrence t; dates = task_dates baseTask;
          byDay = getRecurrenceByDay recurrence; byMonthDay = getRecurrenceByMonthDay recurrence;
          bySetPos = getRecurrenceBySetPos recurrence; interval = getRecurrenceInterval recurrence;
          weekStart = getRecurrenceWeekStart recurrence
      in case getRecurrenceScheduleAnchorField dates of
           None \<Rightarrow>
             (let nextStart = projectUnscheduledStart h rule projectionBase byDay interval byMonthDay
                    weekStart bySetPos
              in if truthy (pi_iso nextStart)
                 then Some \<lparr>pf_dates = no_dates\<lparr>sd_startTime := pi_iso nextStart\<rparr>,
                            pf_steps = pi_steps nextStart\<rparr>
                 else None)
         | Some field \<Rightarrow>
             (let baseIso = or_else (sd_get dates field) [];
                  projection = (if getRecurrenceStrategy recurrence = ''fluid''
                    then projectFluidIsoFrom h baseIso rule projectedAtIso projectionBase fluidCatchUpBase
                      byDay interval byMonthDay weekStart bySetPos
                    else projectStrictIsoFrom h (Some baseIso) rule projectionBase byDay interval byMonthDay
                      weekStart (ad_get anchors field) bySetPos)
              in if \<not> truthy (pi_iso projection) \<or> pi_steps projection \<le> 0 then None
                 else (let rebuilt = rebuildScheduleFieldsFromAnchor h dates field
                             (or_else (pi_iso projection) []);
                         nextStart = (if t_relativeStartOffset t \<noteq> None \<and> truthy (sd_dueDate rebuilt)
                           then js_nullish (computeRelativeStartTime h (sd_dueDate rebuilt)
                             (t_relativeStartOffset t)) (sd_startTime rebuilt)
                           else sd_startTime rebuilt)
                       in if \<not> truthy nextStart \<and> \<not> truthy (sd_dueDate rebuilt) then None
                          else Some \<lparr>pf_dates = rebuilt\<lparr>sd_startTime := nextStart\<rparr>,
                                     pf_steps = pi_steps projection\<rparr>)))"

subsection \<open>Previews of one occurrence\<close>

text \<open>A task as the calendar sees it: with the two properties of a projected task.\<close>

record calendar_task =
  ct_task :: task
  ct_isProjectedRecurringTask :: bool
  ct_sourceTaskId :: "string option"

definition plain :: "task \<Rightarrow> calendar_task" where
  "plain t = \<lparr>ct_task = t, ct_isProjectedRecurringTask = False, ct_sourceTaskId = None\<rparr>"

definition PROJECTED_RECURRENCE_ID_SUFFIX :: string where
  "PROJECTED_RECURRENCE_ID_SUFFIX = '':projected-recurrence''"

definition getProjectedRecurringTaskId :: "string \<Rightarrow> string" where
  "getProjectedRecurringTaskId taskId = taskId @ PROJECTED_RECURRENCE_ID_SUFFIX"

definition getRangeProjectedRecurringTaskId :: "string \<Rightarrow> string \<Rightarrow> string" where
  "getRangeProjectedRecurringTaskId taskId occurrenceIso =
     taskId @ PROJECTED_RECURRENCE_ID_SUFFIX @ '':'' @ occurrenceIso"

definition isProjectedRecurringTaskId :: "string option \<Rightarrow> bool" where
  "isProjectedRecurringTaskId taskId =
     (case taskId of None \<Rightarrow> False
      | Some s \<Rightarrow> ex_suffix (starts_with PROJECTED_RECURRENCE_ID_SUFFIX) s)"

definition isProjectedRecurringTask :: "calendar_task \<Rightarrow> bool" where
  "isProjectedRecurringTask c = (ct_isProjectedRecurringTask c \<and> ct_sourceTaskId c \<noteq> None)"

definition getTaskCalendarOccurrenceDate :: "task \<Rightarrow> string option" where
  "getTaskCalendarOccurrenceDate t = js_nullish (t_startTime t) (t_dueDate t)"

text \<open>An active recurring task that shows its future occurrences.\<close>

definition projects_future :: "calendar_task \<Rightarrow> bool" where
  "projects_future c =
     (t_showFutureRecurrence (ct_task c) = Some True \<and> \<not> isProjectedRecurringTask c \<and>
      \<not> truthy (deletedAt (ct_task c)) \<and> isTaskActionable (Some (t_status (ct_task c))))"

text \<open>\<open>COUNT\<close> is used up after \<open>steps\<close> further occurrences.\<close>

definition completed_occurrences :: "task_recurrence option \<Rightarrow> int" where
  "completed_occurrences recurrence = or_else (getRecurrenceCompletedOccurrencesValue recurrence) 0"

definition count_reached :: "task_recurrence option \<Rightarrow> int \<Rightarrow> bool" where
  "count_reached recurrence steps =
     (case getRecurrenceCountValue recurrence of None \<Rightarrow> False
      | Some count \<Rightarrow> completed_occurrences recurrence + steps \<ge> count)"

definition createCurrentRecurringCalendarTask :: "host \<Rightarrow> int \<Rightarrow> calendar_task \<Rightarrow> string \<Rightarrow> calendar_task option" where
  "createCurrentRecurringCalendarTask h now c projectedAtIso =
     (let t = ct_task c; recurrence = t_recurrence t in
      if \<not> projects_future c then None
      else if truthy (t_startTime t) \<or> truthy (t_dueDate t) \<or> truthy (t_reviewAt t) then None
      else (case getRecurrenceRule recurrence of
          None \<Rightarrow> None
        | Some rule \<Rightarrow>
            if count_reached recurrence 0 then None
            else (let currentStart = projectUnscheduledStart h rule
                    (getProjectionBaseDate h now projectedAtIso) (getRecurrenceByDay recurrence)
                    (getRecurrenceInterval recurrence) (getRecurrenceByMonthDay recurrence)
                    (getRecurrenceWeekStart recurrence) (getRecurrenceBySetPos recurrence)
                  in if \<not> truthy (pi_iso currentStart) then None
                     else if shouldStopAtUntil h (pi_iso currentStart) (getRecurrenceUntilValue h recurrence)
                     then None
                     else Some (c\<lparr>ct_task := t\<lparr>t_startTime := pi_iso currentStart\<rparr>\<rparr>))))"

definition occurrence_anchor :: "schedule_dates \<Rightarrow> string option" where
  "occurrence_anchor d = js_nullish (sd_dueDate d) (js_nullish (sd_startTime d) (sd_reviewAt d))"

definition projected_occurrence :: "task \<Rightarrow> string \<Rightarrow> schedule_dates \<Rightarrow> string \<Rightarrow> calendar_task" where
  "projected_occurrence t id1 dates projectedAtIso =
     \<lparr>ct_task = t\<lparr>eid := id1, t_startTime := sd_startTime dates, t_dueDate := sd_dueDate dates,
        t_reviewAt := sd_reviewAt dates, t_attachments := None, t_completedAt := None,
        t_archivedAt := None, deletedAt := None, t_purgedAt := None, t_isFocusedToday := Some False,
        updatedAt := projectedAtIso\<rparr>,
      ct_isProjectedRecurringTask = True, ct_sourceTaskId = Some (eid t)\<rparr>"

definition createProjectedRecurringTask :: "host \<Rightarrow> int \<Rightarrow> calendar_task \<Rightarrow> string \<Rightarrow> calendar_task option" where
  "createProjectedRecurringTask h now c projectedAtIso =
     (let t = ct_task c; recurrence = t_recurrence t in
      if \<not> projects_future c then None
      else (case getRecurrenceRule recurrence of
          None \<Rightarrow> None
        | Some rule \<Rightarrow>
            (let projectionBase = getProjectionBaseDate h now projectedAtIso;
                 baseTask = ct_task (or_else (createCurrentRecurringCalendarTask h now c projectedAtIso) c);
                 anchors = resolveRecurrenceFieldAnchorDays h recurrence (task_dates baseTask)
             in case projectNextRecurringOccurrenceFields h t baseTask rule projectedAtIso projectionBase
                  anchors None of
                  None \<Rightarrow> None
                | Some occ \<Rightarrow>
                    if count_reached recurrence (pf_steps occ) then None
                    else if shouldStopAtUntil h (occurrence_anchor (pf_dates occ))
                      (getRecurrenceUntilValue h recurrence) then None
                    else Some (projected_occurrence t (getProjectedRecurringTaskId (eid t))
                      (pf_dates occ) projectedAtIso))))"

definition getProjectedRecurringTaskCalendarDate :: "host \<Rightarrow> int \<Rightarrow> calendar_task \<Rightarrow> string \<Rightarrow> string option" where
  "getProjectedRecurringTaskCalendarDate h now c projectedAtIso =
     Option.bind (createProjectedRecurringTask h now c projectedAtIso)
       (\<lambda>p. getTaskCalendarOccurrenceDate (ct_task p))"

definition getRecurringTaskPreviewDate :: "host \<Rightarrow> int \<Rightarrow> calendar_task \<Rightarrow> string \<Rightarrow> string option" where
  "getRecurringTaskPreviewDate h now c projectedAtIso =
     (let previewSource = (if t_showFutureRecurrence (ct_task c) = Some True then c
            else c\<lparr>ct_task := (ct_task c)\<lparr>t_showFutureRecurrence := Some True\<rparr>\<rparr>);
          current = createCurrentRecurringCalendarTask h now previewSource projectedAtIso
      in case current of
           Some cur \<Rightarrow>
             if truthy (t_startTime (ct_task cur)) then t_startTime (ct_task cur)
             else getProjectedRecurringTaskCalendarDate h now previewSource projectedAtIso
         | None \<Rightarrow> getProjectedRecurringTaskCalendarDate h now previewSource projectedAtIso)"

definition expandCalendarRecurringTasks :: "host \<Rightarrow> int \<Rightarrow> calendar_task \<Rightarrow> string \<Rightarrow> calendar_task list" where
  "expandCalendarRecurringTasks h now c projectedAtIso =
     (let currentTask = or_else (createCurrentRecurringCalendarTask h now c projectedAtIso) c in
      case createProjectedRecurringTask h now c projectedAtIso of
        Some projectedTask \<Rightarrow> [currentTask, projectedTask]
      | None \<Rightarrow> [currentTask])"

subsection \<open>The occurrences of a calendar range\<close>

definition CALENDAR_RANGE_PROJECTION_PER_TASK_CAP :: int where
  "CALENDAR_RANGE_PROJECTION_PER_TASK_CAP = 62"

definition CALENDAR_RANGE_PROJECTION_TOTAL_CAP :: int where
  "CALENDAR_RANGE_PROJECTION_TOTAL_CAP = 500"

definition MAX_RANGE_PROJECTION_ITERATIONS :: nat where
  "MAX_RANGE_PROJECTION_ITERATIONS = 800"

record calendar_range =
  cr_startIso :: string
  cr_endIso :: string

text \<open>
  One walk along the series: \<open>step\<close> is the next schedule from the last one, \<open>start\<close> is
  \<open>None\<close> for an unreadable range start, which bounds nothing.
\<close>

fun range_walk :: "nat \<Rightarrow> host \<Rightarrow> (task \<Rightarrow> projected_fields option) \<Rightarrow> task \<Rightarrow> string \<Rightarrow> int option \<Rightarrow> int \<Rightarrow>
    int \<Rightarrow> task \<Rightarrow> int \<Rightarrow> int \<Rightarrow> calendar_task list" where
  "range_walk 0 h step t projectedAtIso start rangeEnd cap baseTask stepsSoFar pushedCount = []"
| "range_walk (Suc n) h step t projectedAtIso start rangeEnd cap baseTask stepsSoFar pushedCount =
     (if pushedCount \<ge> cap then []
      else (case step baseTask of
          None \<Rightarrow> []
        | Some occ \<Rightarrow>
            (let steps = stepsSoFar + pf_steps occ;
                 anchorIso = occurrence_anchor (pf_dates occ)
             in if count_reached (t_recurrence t) steps then []
                else if shouldStopAtUntil h anchorIso (getRecurrenceUntilValue h (t_recurrence t)) then []
                else (case safeParseDate h anchorIso of
                    None \<Rightarrow> []
                  | Some anchorDate \<Rightarrow>
                      if rangeEnd < anchorDate then []
                      else (let occurrence = projected_occurrence t
                                (getRangeProjectedRecurringTaskId (eid t) (or_else anchorIso []))
                                (pf_dates occ) projectedAtIso;
                              inside = (case start of None \<Rightarrow> True | Some s \<Rightarrow> s \<le> anchorDate)
                            in if inside
                               then occurrence # range_walk n h step t projectedAtIso start rangeEnd cap
                                 (ct_task occurrence) steps (pushedCount + 1)
                               else range_walk n h step t projectedAtIso start rangeEnd cap
                                 (ct_task occurrence) steps pushedCount)))))"

definition expandCalendarRecurringTasksInRange :: "host \<Rightarrow> int \<Rightarrow> calendar_task \<Rightarrow> calendar_range \<Rightarrow> string \<Rightarrow>
    int \<Rightarrow> calendar_task list" where
  "expandCalendarRecurringTasksInRange h now c range1 projectedAtIso maxOccurrences =
     (let t = ct_task c; recurrence = t_recurrence t;
          currentTask = or_else (createCurrentRecurringCalendarTask h now c projectedAtIso) c
      in if \<not> projects_future c then [currentTask]
         else (case getRecurrenceRule recurrence of
             None \<Rightarrow> [currentTask]
           | Some rule \<Rightarrow>
               (case safeParseDate h (Some (cr_endIso range1)) of
                  None \<Rightarrow> [currentTask]
                | Some rangeEnd \<Rightarrow>
                    (let start = safeParseDate h (Some (cr_startIso range1));
                         projectionBase = getProjectionBaseDate h now projectedAtIso;
                         catchUpBase = (case start of None \<Rightarrow> None
                           | Some s \<Rightarrow> if projectionBase < s then Some (s - 1) else None);
                         strict = (getRecurrenceStrategy recurrence = ''strict'');
                         rangeProjectionBase = (if strict then or_else catchUpBase projectionBase
                           else projectionBase);
                         anchors = resolveRecurrenceFieldAnchorDays h recurrence (task_dates (ct_task currentTask));
                         cap = max 0 (min CALENDAR_RANGE_PROJECTION_PER_TASK_CAP maxOccurrences)
                     in currentTask # range_walk MAX_RANGE_PROJECTION_ITERATIONS h
                          (\<lambda>baseTask. projectNextRecurringOccurrenceFields h t baseTask rule projectedAtIso
                             rangeProjectionBase anchors (if strict then None else catchUpBase))
                          t projectedAtIso start rangeEnd cap (ct_task currentTask) 0 0))))"

end
