(* ===== verification/RecurrenceRange.thy ===== *)
theory RecurrenceRange
  imports RecurrenceProject
begin

text \<open>
  The calendar's expansion of a whole task set in \<open>recurrence.ts\<close>: the walk of one series
  stays inside its range and its cap, and the budget shared among the series by raising the
  lowest allocations first is never exceeded. The raising loop is a partial function whose
  termination is proved.
\<close>

subsection \<open>Sharing the projection budget\<close>

record water =
  wa_allocation :: "string \<Rightarrow> int option"
  wa_expansion :: "string \<Rightarrow> calendar_task list option"
  wa_active :: "string list"

definition ct_id :: "calendar_task \<Rightarrow> string" where
  "ct_id c = eid (ct_task c)"

definition projection_candidate :: "calendar_task \<Rightarrow> bool" where
  "projection_candidate c = (projects_future c \<and> getRecurrenceRule (t_recurrence (ct_task c)) \<noteq> None)"

definition allocation_of :: "water \<Rightarrow> calendar_task \<Rightarrow> int" where
  "allocation_of w c = or_else (wa_allocation w (ct_id c)) 0"

text \<open>The first tranche: an equal share for each series, the remainder one by one.\<close>

fun first_allocation :: "int \<Rightarrow> int \<Rightarrow> calendar_task list \<Rightarrow> int \<Rightarrow> (string \<Rightarrow> int option) \<Rightarrow>
    (string \<Rightarrow> int option)" where
  "first_allocation baseShare perTaskCap [] remainder m = m"
| "first_allocation baseShare perTaskCap (c # cs) remainder m =
     (let extra = (if baseShare < perTaskCap \<and> remainder > 0 then 1 else 0)
      in first_allocation baseShare perTaskCap cs (remainder - extra) (m(ct_id c \<mapsto> baseShare + extra)))"

definition expand_one :: "(calendar_task \<Rightarrow> int \<Rightarrow> calendar_task list) \<Rightarrow> int \<Rightarrow> calendar_task \<Rightarrow> water \<Rightarrow> water" where
  "expand_one expand perTaskCap c w =
     (let allocation = allocation_of w c in
      if allocation = 0 then w\<lparr>wa_expansion := (wa_expansion w)(ct_id c \<mapsto> [c])\<rparr>
      else (let expansion = expand c allocation; emitted = max 0 (int (length expansion) - 1)
            in w\<lparr>wa_expansion := (wa_expansion w)(ct_id c \<mapsto> expansion),
                 wa_active := (if emitted < allocation \<or> perTaskCap \<le> allocation
                   then removeAll (ct_id c) (wa_active w) else wa_active w)\<rparr>))"

definition expandAllocatedTasks :: "(calendar_task \<Rightarrow> int \<Rightarrow> calendar_task list) \<Rightarrow> int \<Rightarrow>
    calendar_task list \<Rightarrow> water \<Rightarrow> water" where
  "expandAllocatedTasks expand perTaskCap cs w = fold (expand_one expand perTaskCap) cs w"

definition emitted_by :: "water \<Rightarrow> string \<Rightarrow> int" where
  "emitted_by w i = (case wa_expansion w i of None \<Rightarrow> 0 | Some e \<Rightarrow> max 0 (int (length e) - 1))"

text \<open>The expansions are keyed by identifier.\<close>

definition projectedCount :: "calendar_task list \<Rightarrow> water \<Rightarrow> int" where
  "projectedCount candidates w = sum_list (map (emitted_by w) (uniq (map ct_id candidates)))"

definition candidate_order :: "calendar_task list \<Rightarrow> calendar_task \<Rightarrow> int" where
  "candidate_order candidates c =
     (case js_map_of (\<lambda>(i, x). ct_id x) (enumerate 0 candidates) (ct_id c) of
        None \<Rightarrow> 0 | Some (i, _) \<Rightarrow> int i)"

definition active_tasks :: "calendar_task list \<Rightarrow> water \<Rightarrow> calendar_task list" where
  "active_tasks candidates w =
     js_sort (\<lambda>l r. if allocation_of w l \<noteq> allocation_of w r then allocation_of w l - allocation_of w r
         else candidate_order candidates l - candidate_order candidates r)
       (filter (\<lambda>c. ct_id c \<in> set (wa_active w)) candidates)"

text \<open>The tasks of the lowest level that get more, and their new allocation.\<close>

definition raise_lowest :: "int \<Rightarrow> calendar_task list \<Rightarrow> water \<Rightarrow> int \<Rightarrow> calendar_task list \<times> int" where
  "raise_lowest perTaskCap active w remainder =
     (let minimumAllocation = allocation_of w (hd active);
          lowest = filter (\<lambda>c. allocation_of w c = minimumAllocation) active;
          nextLevel = min perTaskCap
            (case find (\<lambda>c. allocation_of w c > minimumAllocation) active of
               None \<Rightarrow> perTaskCap | Some c \<Rightarrow> allocation_of w c);
          fullLevelIncrease = min (nextLevel - minimumAllocation) (remainder div int (length lowest))
      in if fullLevelIncrease > 0 then (lowest, minimumAllocation + fullLevelIncrease)
         else (take (nat remainder) lowest, minimumAllocation + 1))"

definition allocate :: "calendar_task list \<Rightarrow> int \<Rightarrow> water \<Rightarrow> water" where
  "allocate changed level w =
     w\<lparr>wa_allocation := fold (\<lambda>c m. m(ct_id c \<mapsto> level)) changed (wa_allocation w)\<rparr>"

partial_function (option) water_fill :: "(calendar_task \<Rightarrow> int \<Rightarrow> calendar_task list) \<Rightarrow> int \<Rightarrow> int \<Rightarrow>
    calendar_task list \<Rightarrow> water \<Rightarrow> water option" where
  "water_fill expand totalCap perTaskCap candidates w =
     (let remainder = totalCap - projectedCount candidates w in
      if remainder > 0 \<and> wa_active w \<noteq> [] then
        (case raise_lowest perTaskCap (active_tasks candidates w) w remainder of
           (changed, level) \<Rightarrow>
             if changed = [] then Some w
             else water_fill expand totalCap perTaskCap candidates
               (expandAllocatedTasks expand perTaskCap changed (allocate changed level w)))
      else Some w)"

definition first_water :: "(calendar_task \<Rightarrow> int \<Rightarrow> calendar_task list) \<Rightarrow> int \<Rightarrow> int \<Rightarrow>
    calendar_task list \<Rightarrow> water" where
  "first_water expand totalCap perTaskCap candidates =
     (let count = int (length candidates);
          baseShare = min perTaskCap (totalCap div count);
          remainder = totalCap - baseShare * count
      in expandAllocatedTasks expand perTaskCap candidates
           \<lparr>wa_allocation = first_allocation baseShare perTaskCap candidates remainder (\<lambda>_. None),
            wa_expansion = (\<lambda>_. None), wa_active = uniq (map ct_id candidates)\<rparr>)"

definition expandCalendarRecurringTaskSetInRange :: "host \<Rightarrow> int \<Rightarrow> calendar_task list \<Rightarrow> calendar_range \<Rightarrow>
    string \<Rightarrow> int \<Rightarrow> calendar_task list option" where
  "expandCalendarRecurringTaskSetInRange h now tasks range1 projectedAtIso totalProjectionCap =
     (let candidates = filter projection_candidate tasks in
      if candidates = [] then Some tasks
      else (let boundedTotalCap = max 0 totalProjectionCap;
                perTaskCap = min CALENDAR_RANGE_PROJECTION_PER_TASK_CAP boundedTotalCap;
                expand = (\<lambda>c allocation.
                  expandCalendarRecurringTasksInRange h now c range1 projectedAtIso allocation)
            in map_option (\<lambda>w. concat (map (\<lambda>c. or_else (wa_expansion w (ct_id c)) [c]) tasks))
                 (water_fill expand boundedTotalCap perTaskCap candidates
                   (first_water expand boundedTotalCap perTaskCap candidates))))"

subsection \<open>The walk of one series\<close>

lemma range_walk_length:
  "int (length (range_walk n h step t at1 start e cap base steps pushed)) \<le> max 0 (cap - pushed)"
  by (induction n arbitrary: base steps pushed)
    (auto simp: Let_def split: option.splits, (smt (verit))+)

lemma expand_length:
  "1 \<le> length (expandCalendarRecurringTasksInRange h now c r at1 n)"
  "int (length (expandCalendarRecurringTasksInRange h now c r at1 n)) \<le> 1 + max 0 (min 62 n)"
  unfolding expandCalendarRecurringTasksInRange_def Let_def CALENDAR_RANGE_PROJECTION_PER_TASK_CAP_def
  by (auto split: option.splits intro: order_trans[OF range_walk_length])

subsection \<open>The budget is kept and the raising ends\<close>

definition alloc :: "water \<Rightarrow> string \<Rightarrow> int" where
  "alloc w i = or_else (wa_allocation w i) 0"

lemma allocation_of_alloc: "allocation_of w c = alloc w (ct_id c)"
  by (simp add: allocation_of_def alloc_def)

definition expand_bounded :: "(calendar_task \<Rightarrow> int \<Rightarrow> calendar_task list) \<Rightarrow> bool" where
  "expand_bounded expand \<longleftrightarrow> (\<forall>c n. 0 \<le> n \<longrightarrow> int (length (expand c n)) \<le> 1 + n)"

text \<open>What one series looks like after it was expanded with its allocation.\<close>

definition settled :: "int \<Rightarrow> water \<Rightarrow> string \<Rightarrow> bool" where
  "settled cap w i \<longleftrightarrow> emitted_by w i \<le> alloc w i \<and>
     (i \<in> set (wa_active w) \<longrightarrow> emitted_by w i = alloc w i \<and> (alloc w i = 0 \<or> alloc w i < cap))"

lemma expand_one_other:
  "i \<noteq> ct_id c \<Longrightarrow> emitted_by (expand_one expand cap c w) i = emitted_by w i"
  "i \<noteq> ct_id c \<Longrightarrow> i \<in> set (wa_active (expand_one expand cap c w)) \<longleftrightarrow> i \<in> set (wa_active w)"
  "wa_allocation (expand_one expand cap c w) = wa_allocation w"
  "set (wa_active (expand_one expand cap c w)) \<subseteq> set (wa_active w)"
  by (auto simp: expand_one_def emitted_by_def Let_def)

lemma expand_one_alloc [simp]: "alloc (expand_one expand cap c w) = alloc w"
  by (simp add: alloc_def expand_one_other(3) fun_eq_iff)

lemma expand_one_settled:
  assumes "expand_bounded expand" "0 \<le> alloc w (ct_id c)"
  shows "settled cap (expand_one expand cap c w) (ct_id c)"
proof (cases "alloc w (ct_id c) = 0")
  case True
  then have "emitted_by (expand_one expand cap c w) (ct_id c) = 0"
    by (simp add: expand_one_def emitted_by_def allocation_of_alloc)
  then show ?thesis using True by (simp add: settled_def)
next
  case False
  let ?a = "alloc w (ct_id c)" and ?w = "expand_one expand cap c w"
  have e: "emitted_by ?w (ct_id c) = max 0 (int (length (expand c ?a)) - 1)"
    using False by (simp add: expand_one_def emitted_by_def allocation_of_alloc Let_def)
  have "int (length (expand c ?a)) \<le> 1 + ?a" using assms by (simp add: expand_bounded_def)
  then have le: "emitted_by ?w (ct_id c) \<le> ?a" using assms(2) by (simp add: e)
  have "ct_id c \<in> set (wa_active ?w) \<Longrightarrow> \<not> (max 0 (int (length (expand c ?a)) - 1) < ?a \<or> cap \<le> ?a)"
    using False by (auto simp: expand_one_def allocation_of_alloc Let_def split: if_splits)
  then show ?thesis using le by (auto simp: settled_def e)
qed

lemma expand_one_keeps:
  "i \<noteq> ct_id c \<Longrightarrow> settled cap w i \<Longrightarrow> settled cap (expand_one expand cap c w) i"
  by (simp add: settled_def expand_one_other)

lemma expandAllocated_props:
  assumes "expand_bounded expand" "\<And>c. c \<in> set cs \<Longrightarrow> 0 \<le> alloc w (ct_id c)"
  shows "wa_allocation (expandAllocatedTasks expand cap cs w) = wa_allocation w"
    "set (wa_active (expandAllocatedTasks expand cap cs w)) \<subseteq> set (wa_active w)"
    "i \<notin> ct_id ` set cs \<Longrightarrow> emitted_by (expandAllocatedTasks expand cap cs w) i = emitted_by w i"
    "i \<in> ct_id ` set cs \<or> settled cap w i \<Longrightarrow> settled cap (expandAllocatedTasks expand cap cs w) i"
proof -
  show "wa_allocation (expandAllocatedTasks expand cap cs w) = wa_allocation w"
    unfolding expandAllocatedTasks_def
    by (induction cs arbitrary: w) (simp_all add: expand_one_other(3))
  show "set (wa_active (expandAllocatedTasks expand cap cs w)) \<subseteq> set (wa_active w)"
    unfolding expandAllocatedTasks_def
  proof (induction cs arbitrary: w)
    case (Cons c cs)
    then show ?case using expand_one_other(4)[of expand cap c w] by (metis dual_order.trans fold_simps(2))
  qed simp
  show "i \<notin> ct_id ` set cs \<Longrightarrow> emitted_by (expandAllocatedTasks expand cap cs w) i = emitted_by w i"
    unfolding expandAllocatedTasks_def
    by (induction cs arbitrary: w) (auto simp: expand_one_other(1))
  show "i \<in> ct_id ` set cs \<or> settled cap w i \<Longrightarrow> settled cap (expandAllocatedTasks expand cap cs w) i"
    using assms(2) unfolding expandAllocatedTasks_def
  proof (induction cs arbitrary: w)
    case Nil
    then show ?case by simp
  next
    case (Cons c cs)
    have "i \<in> ct_id ` set cs \<or> settled cap (expand_one expand cap c w) i"
    proof (cases "i = ct_id c")
      case True
      then show ?thesis using expand_one_settled[OF assms(1), of w c cap] Cons.prems(2)[of c] by simp
    next
      case False
      then show ?thesis using Cons.prems(1) expand_one_keeps[of i c cap w expand] by auto
    qed
    then show ?case using Cons.prems(2) by (simp add: Cons.IH)
  qed
qed

lemma expansion_keys:
  "wa_expansion (expandAllocatedTasks expand cap cs w) i = Some e \<Longrightarrow>
    i \<in> ct_id ` set cs \<or> wa_expansion w i \<noteq> None"
  unfolding expandAllocatedTasks_def
proof (induction cs arbitrary: w)
  case (Cons c cs)
  have "wa_expansion (expand_one expand cap c w) i \<noteq> None \<Longrightarrow> i = ct_id c \<or> wa_expansion w i \<noteq> None"
    by (auto simp: expand_one_def Let_def split: if_splits)
  then show ?case using Cons.IH[of "expand_one expand cap c w"] Cons.prems by auto
qed simp

text \<open>The state between two rounds.\<close>

definition water_inv :: "int \<Rightarrow> int \<Rightarrow> calendar_task list \<Rightarrow> water \<Rightarrow> bool" where
  "water_inv budget cap candidates w \<longleftrightarrow>
     (\<forall>i. 0 \<le> alloc w i \<and> alloc w i \<le> cap) \<and>
     set (wa_active w) \<subseteq> ct_id ` set candidates \<and>
     (\<forall>i. wa_expansion w i \<noteq> None \<longrightarrow> i \<in> ct_id ` set candidates) \<and>
     (\<forall>i \<in> ct_id ` set candidates. settled cap w i) \<and>
     projectedCount candidates w \<le> budget"

lemma projectedCount_sum:
  "projectedCount candidates w = sum (emitted_by w) (ct_id ` set candidates)"
  unfolding projectedCount_def by (subst sum_list_distinct_conv_sum_set) simp_all

lemma emitted_nonneg: "0 \<le> emitted_by w i"
  by (simp add: emitted_by_def split: option.splits)

lemma set_active_tasks: "set (active_tasks candidates w) = {c \<in> set candidates. ct_id c \<in> set (wa_active w)}"
  by (auto simp: active_tasks_def)

lemma alloc_allocate:
  "alloc (allocate changed level w) i = (if i \<in> ct_id ` set changed then level else alloc w i)"
proof -
  have "fold (\<lambda>c m. m(ct_id c \<mapsto> level)) changed m i = (if i \<in> ct_id ` set changed then Some level else m i)" for m
    by (induction changed arbitrary: m) auto
  then show ?thesis by (simp add: alloc_def allocate_def)
qed

lemma raise_lowest_props:
  assumes "raise_lowest cap active w remainder = (changed, level)" "active \<noteq> []" "0 < remainder"
    "\<And>c. c \<in> set active \<Longrightarrow> allocation_of w c < cap"
  defines "m \<equiv> allocation_of w (hd active)"
  shows "changed \<noteq> []" "set changed \<subseteq> set active" "\<And>c. c \<in> set changed \<Longrightarrow> allocation_of w c = m"
    "m < level" "level \<le> cap" "int (length changed) * (level - m) \<le> remainder"
proof -
  define lowest where "lowest = filter (\<lambda>c. allocation_of w c = m) active"
  define nextLevel where "nextLevel = min cap
    (case find (\<lambda>c. allocation_of w c > m) active of None \<Rightarrow> cap | Some c \<Rightarrow> allocation_of w c)"
  define inc where "inc = min (nextLevel - m) (remainder div int (length lowest))"
  have r: "(changed, level) = (if inc > 0 then (lowest, m + inc) else (take (nat remainder) lowest, m + 1))"
    using assms(1)[symmetric] unfolding raise_lowest_def Let_def lowest_def nextLevel_def inc_def m_def .
  have hd: "hd active \<in> set active" using assms(2) by simp
  then have "hd active \<in> set lowest" by (simp add: lowest_def m_def)
  then have ne: "lowest \<noteq> []" by auto
  have mcap: "m < cap" using assms(4)[OF hd] by (simp add: m_def)
  have next1: "m < nextLevel"
    using mcap by (auto simp: nextLevel_def find_Some_iff split: option.splits)
  show "changed \<noteq> []" "set changed \<subseteq> set active" "\<And>c. c \<in> set changed \<Longrightarrow> allocation_of w c = m"
    using r ne assms(3) set_take_subset[of "nat remainder" lowest]
    by (auto simp: lowest_def split: if_splits dest: in_set_takeD)
  show "m < level" using r by (auto split: if_splits)
  have "nextLevel \<le> cap" by (simp add: nextLevel_def)
  then show "level \<le> cap" using r mcap by (auto simp: inc_def split: if_splits)
  show "int (length changed) * (level - m) \<le> remainder"
  proof (cases "inc > 0")
    case True
    have "inc \<le> remainder div int (length lowest)" by (simp add: inc_def)
    then have "int (length lowest) * inc \<le> int (length lowest) * (remainder div int (length lowest))"
      by (intro mult_left_mono) simp_all
    also have "\<dots> \<le> remainder" using div_bounds[of "int (length lowest)" remainder] ne by simp
    finally show ?thesis using r True by simp
  next
    case False
    then show ?thesis using r assms(3) by simp
  qed
qed

lemma settled_allocate:
  "i \<notin> ct_id ` set changed \<Longrightarrow> settled cap (allocate changed level w) i \<longleftrightarrow> settled cap w i"
  by (simp add: settled_def alloc_allocate emitted_by_def) (simp add: allocate_def)

text \<open>One round keeps the invariant and raises some allocation.\<close>

lemma water_round:
  assumes ex: "expand_bounded expand" and inv: "water_inv budget cap cs w"
    and rem: "0 < budget - projectedCount cs w" and act: "wa_active w \<noteq> []"
    and r: "raise_lowest cap (active_tasks cs w) w (budget - projectedCount cs w) = (changed, level)"
    and cap: "0 < budget \<Longrightarrow> 0 < cap"
  defines "w' \<equiv> expandAllocatedTasks expand cap changed (allocate changed level w)"
  shows "changed \<noteq> []" "water_inv budget cap cs w'"
    "(\<Sum>i \<in> ct_id ` set cs. nat (cap - alloc w' i)) < (\<Sum>i \<in> ct_id ` set cs. nat (cap - alloc w i))"
proof -
  have iv: "\<And>i. 0 \<le> alloc w i \<and> alloc w i \<le> cap" "set (wa_active w) \<subseteq> ct_id ` set cs"
    "\<And>i. i \<in> ct_id ` set cs \<Longrightarrow> settled cap w i" "projectedCount cs w \<le> budget"
    "\<And>i. wa_expansion w i \<noteq> None \<Longrightarrow> i \<in> ct_id ` set cs"
    using inv by (auto simp: water_inv_def)
  have "0 \<le> projectedCount cs w" unfolding projectedCount_sum by (intro sum_nonneg emitted_nonneg)
  then have cap0: "0 < cap" using rem cap by simp
  have low: "alloc w i < cap \<and> emitted_by w i = alloc w i" if "i \<in> set (wa_active w)" for i
  proof -
    have "i \<in> ct_id ` set cs" using iv(2) that by blast
    then show ?thesis using iv(3)[of i] that cap0 by (auto simp: settled_def)
  qed
  have "active_tasks cs w \<noteq> []"
  proof -
    obtain i where i: "i \<in> set (wa_active w)" using act by (cases "wa_active w") auto
    then obtain c where "c \<in> set cs" "ct_id c = i" using iv(2) by auto
    then have "c \<in> set (active_tasks cs w)" using i by (simp add: set_active_tasks)
    then show ?thesis by auto
  qed
  moreover have "allocation_of w c < cap" if "c \<in> set (active_tasks cs w)" for c
    using low that by (auto simp: set_active_tasks allocation_of_alloc)
  ultimately have rp: "changed \<noteq> []" "set changed \<subseteq> set (active_tasks cs w)"
    "\<And>c. c \<in> set changed \<Longrightarrow> allocation_of w c = allocation_of w (hd (active_tasks cs w))"
    "allocation_of w (hd (active_tasks cs w)) < level" "level \<le> cap"
    "int (length changed) * (level - allocation_of w (hd (active_tasks cs w))) \<le> budget - projectedCount cs w"
    using raise_lowest_props[OF r _ rem] by blast+
  show "changed \<noteq> []" by (rule rp)
  define m where "m = allocation_of w (hd (active_tasks cs w))"
  define C where "C = ct_id ` set changed"
  have Cm: "alloc w i = m \<and> emitted_by w i = m \<and> i \<in> ct_id ` set cs" if "i \<in> C" for i
  proof -
    obtain c where c: "c \<in> set changed" "i = ct_id c" using \<open>i \<in> C\<close> unfolding C_def by auto
    then have "c \<in> set cs" "i \<in> set (wa_active w)" using rp(2) by (auto simp: set_active_tasks)
    then show ?thesis
      using c low[of i] rp(3)[OF c(1)] by (auto simp: m_def allocation_of_alloc)
  qed
  have m: "m < level" "level \<le> cap" using rp(4,5) by (simp_all add: m_def)
  have m0: "0 \<le> m" using iv(1) by (simp add: m_def allocation_of_alloc)
  let ?w1 = "allocate changed level w"
  have al: "alloc ?w1 i = (if i \<in> C then level else alloc w i)" for i
    by (simp add: alloc_allocate C_def)
  have pos: "0 \<le> alloc ?w1 (ct_id c)" if "c \<in> set changed" for c
    using m m0 that iv(1) by (simp add: al)
  note ep = expandAllocated_props[where cs = changed and w = ?w1 and cap = cap, OF ex pos, folded w'_def]
  have al': "alloc w' i = (if i \<in> C then level else alloc w i)" for i
    using ep(1) al[of i] unfolding alloc_def by simp
  have active': "set (wa_active w') \<subseteq> set (wa_active w)" using ep(2) by (simp add: allocate_def)
  have settled': "settled cap w' i" if "i \<in> ct_id ` set cs" for i
    using ep(4)[of i] iv(3)[OF that] settled_allocate[of i changed cap level w] by blast
  have em: "emitted_by w' i \<le> emitted_by w i + (if i \<in> C then level - m else 0)" if "i \<in> ct_id ` set cs" for i
  proof (cases "i \<in> C")
    case True
    then show ?thesis using settled'[OF that] al'[of i] Cm[OF True] by (simp add: settled_def)
  next
    case False
    then have "emitted_by w' i = emitted_by ?w1 i" using ep(3) by (simp add: C_def)
    then show ?thesis using False by (simp add: emitted_by_def allocate_def)
  qed
  have sub: "C \<subseteq> ct_id ` set cs" using Cm by auto
  have "projectedCount cs w' \<le> (\<Sum>i \<in> ct_id ` set cs. emitted_by w i + (if i \<in> C then level - m else 0))"
    unfolding projectedCount_sum by (intro sum_mono em)
  also have "\<dots> = projectedCount cs w + (\<Sum>i \<in> C. level - m)"
    using sub by (simp add: projectedCount_sum sum.distrib sum.If_cases Int_absorb1)
  also have "(\<Sum>i \<in> C. level - m) = int (card C) * (level - m)" by simp
  also have "\<dots> \<le> int (length changed) * (level - m)"
    using m card_image_le[of "set changed" ct_id] card_length[of changed]
    by (intro mult_right_mono) (simp_all add: C_def)
  finally have total: "projectedCount cs w' \<le> budget" using rp(6) by (simp add: m_def)
  have range: "0 \<le> alloc w' i \<and> alloc w' i \<le> cap" for i
    using iv(1)[of i] m m0 by (simp add: al')
  have keys: "i \<in> ct_id ` set cs" if nn: "wa_expansion w' i \<noteq> None" for i
  proof -
    obtain x where "wa_expansion w' i = Some x" using nn by auto
    then have "i \<in> ct_id ` set changed \<or> wa_expansion ?w1 i \<noteq> None"
      unfolding w'_def by (rule expansion_keys)
    then show ?thesis using sub iv(5)[of i] by (auto simp: C_def allocate_def)
  qed
  show "water_inv budget cap cs w'"
    unfolding water_inv_def using range active' iv(2) settled' total keys by blast
  obtain i where i: "i \<in> C" using rp(1) by (cases changed) (auto simp: C_def)
  show "(\<Sum>i \<in> ct_id ` set cs. nat (cap - alloc w' i)) < (\<Sum>i \<in> ct_id ` set cs. nat (cap - alloc w i))"
  proof (rule sum_strict_mono_ex1)
    show "\<forall>i \<in> ct_id ` set cs. nat (cap - alloc w' i) \<le> nat (cap - alloc w i)"
      using Cm m by (auto simp: al')
    show "\<exists>i \<in> ct_id ` set cs. nat (cap - alloc w' i) < nat (cap - alloc w i)"
      using i Cm[OF i] m by (intro bexI[of _ i]) (auto simp: al')
  qed simp
qed

lemma water_fill_returns:
  assumes ex: "expand_bounded expand" and cap: "0 < budget \<Longrightarrow> 0 < cap"
  shows "water_inv budget cap cs w \<Longrightarrow>
    \<exists>w'. water_fill expand budget cap cs w = Some w' \<and> water_inv budget cap cs w'"
proof (induction "\<Sum>i \<in> ct_id ` set cs. nat (cap - alloc w i)" arbitrary: w rule: less_induct)
  case less
  show ?case
  proof (cases "0 < budget - projectedCount cs w \<and> wa_active w \<noteq> []")
    case False
    have "water_fill expand budget cap cs w = Some w"
      by (subst water_fill.simps) (simp only: Let_def if_not_P[OF False])
    then show ?thesis using less.prems by simp
  next
    case True
    obtain changed level where r: "raise_lowest cap (active_tasks cs w) w (budget - projectedCount cs w) = (changed, level)"
      by fastforce
    note wr = water_round[OF ex less.prems conjunct1[OF True] conjunct2[OF True] r cap]
    have "water_fill expand budget cap cs w = water_fill expand budget cap cs
        (expandAllocatedTasks expand cap changed (allocate changed level w))"
      using True wr(1) by (subst water_fill.simps) (simp add: Let_def r)
    then show ?thesis using less.hyps[OF wr(3) wr(2)] by simp
  qed
qed

subsection \<open>The first tranche\<close>

lemma first_allocation_other:
  "i \<notin> ct_id ` set cs \<Longrightarrow> first_allocation b cap cs remainder m i = m i"
  by (induction cs arbitrary: remainder m) (simp_all add: Let_def)

lemma first_allocation_props:
  fixes b cap remainder :: int
  assumes "0 \<le> b" "0 \<le> remainder" "b \<le> cap"
  shows "i \<in> ct_id ` set cs \<Longrightarrow>
      \<exists>v. first_allocation b cap cs remainder m i = Some v \<and> 0 \<le> v \<and> v \<le> cap"
    "(\<Sum>i \<in> ct_id ` set cs. or_else (first_allocation b cap cs remainder m i) 0) \<le>
      b * int (length cs) + remainder"
  using assms(2)
proof (induction cs arbitrary: remainder m)
  case Nil
  { case 1 then show ?case by simp next case 2 then show ?case by simp }
next
  case (Cons c cs)
  define e where "e = (\<lambda>r::int. if b < cap \<and> 0 < r then 1 else 0 :: int)"
  have r: "0 \<le> n \<Longrightarrow> 0 \<le> n - e n" and e0: "0 \<le> e n" for n by (simp_all add: e_def)
  have eb: "b + e n \<le> cap" for n using assms(3) by (simp add: e_def)
  have step: "first_allocation b cap (c # cs) n m =
      first_allocation b cap cs (n - e n) (m(ct_id c \<mapsto> b + e n))" for n m
    by (simp only: first_allocation.simps Let_def e_def)
  { case 1
    show ?case
    proof (cases "i \<in> ct_id ` set cs")
      case True
      then show ?thesis using Cons.IH(1)[OF True r[OF 1(2)]] unfolding step by blast
    next
      case False
      then have "i = ct_id c" using 1 by auto
      then show ?thesis
        using assms(1) e0 eb unfolding step first_allocation_other[OF False] by simp
    qed
  next
    case 2
    let ?f = "first_allocation b cap cs (remainder - e remainder) (m(ct_id c \<mapsto> b + e remainder))"
    have IH: "(\<Sum>i \<in> ct_id ` set cs. or_else (?f i) 0) \<le> b * int (length cs) + (remainder - e remainder)"
      using Cons.IH(2)[OF r[OF 2]] .
    have len: "b * int (length (c # cs)) = b * int (length cs) + b" by (simp add: algebra_simps)
    show ?case
    proof (cases "ct_id c \<in> ct_id ` set cs")
      case True
      then have same: "ct_id ` set (c # cs) = ct_id ` set cs" by auto
      show ?thesis using IH assms(1) len e0[of remainder] unfolding step same by linarith
    next
      case False
      have "?f (ct_id c) = Some (b + e remainder)" using first_allocation_other[OF False] by simp
      moreover have "(\<Sum>i \<in> ct_id ` set (c # cs). or_else (?f i) 0) =
          or_else (?f (ct_id c)) 0 + (\<Sum>i \<in> ct_id ` set cs. or_else (?f i) 0)"
        using False by simp
      ultimately show ?thesis using IH len unfolding step by simp
    qed }
qed

lemma expand_in_range_bounded:
  "expand_bounded (\<lambda>c allocation. expandCalendarRecurringTasksInRange h now c r at1 allocation)"
proof -
  have "int (length (expandCalendarRecurringTasksInRange h now c r at1 n)) \<le> 1 + n" if "0 \<le> n" for c n
    using expand_length(2)[of h now c r at1 n] that by simp
  then show ?thesis by (simp add: expand_bounded_def)
qed

lemma first_water_inv:
  assumes ex: "expand_bounded expand" and ne: "cs \<noteq> []" and b: "0 \<le> budget" "0 \<le> cap" "0 < budget \<Longrightarrow> 0 < cap"
  shows "water_inv budget cap cs (first_water expand budget cap cs)"
proof -
  let ?n = "int (length cs)"
  define share where "share = min cap (budget div ?n)"
  define rest where "rest = budget - share * ?n"
  let ?start = "\<lparr>wa_allocation = first_allocation share cap cs rest (\<lambda>_. None),
    wa_expansion = (\<lambda>_. None), wa_active = uniq (map ct_id cs)\<rparr>"
  have n: "0 < ?n" using ne by simp
  have s0: "0 \<le> share" "share \<le> cap" using b n by (simp_all add: share_def pos_imp_zdiv_nonneg_iff)
  have "share * ?n \<le> budget div ?n * ?n" using n by (intro mult_right_mono) (simp_all add: share_def)
  also have "\<dots> \<le> budget" using div_bounds[OF n, of budget] by (simp add: mult.commute)
  finally have r0: "0 \<le> rest" by (simp add: rest_def)
  note fp = first_allocation_props[where cs = cs and m = "\<lambda>_. None", OF s0(1) r0 s0(2)]
  have al: "0 \<le> alloc ?start i \<and> alloc ?start i \<le> cap" for i
    using fp(1)[of i] first_allocation_other[of i cs share cap rest "\<lambda>_. None"] b(2) by (cases "i \<in> ct_id ` set cs") (auto simp: alloc_def)
  let ?w = "expandAllocatedTasks expand cap cs ?start"
  have w: "first_water expand budget cap cs = ?w"
    by (simp add: first_water_def Let_def share_def rest_def)
  note ep = expandAllocated_props[where cs = cs and w = ?start and cap = cap, OF ex]
  have al': "alloc ?w i = alloc ?start i" for i using ep(1) al unfolding alloc_def by simp
  have st: "settled cap ?w i" if "i \<in> ct_id ` set cs" for i using ep(4)[of i] al that by blast
  have "projectedCount cs ?w \<le> (\<Sum>i \<in> ct_id ` set cs. alloc ?start i)"
    unfolding projectedCount_sum using st al' by (intro sum_mono) (simp add: settled_def)
  also have "\<dots> \<le> share * ?n + rest" using fp(2) by (simp add: alloc_def)
  finally have "projectedCount cs ?w \<le> budget" by (simp add: rest_def)
  moreover have "set (wa_active ?w) \<subseteq> ct_id ` set cs" using ep(2) al by simp
  moreover have "i \<in> ct_id ` set cs" if "wa_expansion ?w i \<noteq> None" for i
    using expansion_keys[of expand cap cs ?start i] that by auto
  ultimately show ?thesis unfolding w water_inv_def using al al' st by simp
qed

lemma expansion_length:
  assumes "distinct (map ct_id tasks)" "\<And>i e. wa_expansion w i = Some e \<Longrightarrow> i \<in> ids" "finite ids"
  shows "int (length (concat (map (\<lambda>c. or_else (wa_expansion w (ct_id c)) [c]) tasks))) \<le>
    int (length tasks) + (\<Sum>i \<in> ids. emitted_by w i)"
proof -
  have one: "int (length (or_else (wa_expansion w (ct_id c)) [c])) \<le> 1 + emitted_by w (ct_id c)" for c
    by (auto simp: emitted_by_def split: option.splits)
  have "int (length (concat (map (\<lambda>c. or_else (wa_expansion w (ct_id c)) [c]) tasks))) \<le>
      int (length tasks) + sum_list (map (\<lambda>c. emitted_by w (ct_id c)) tasks)"
    using one by (induction tasks) (auto intro: add_mono simp: algebra_simps, smt (verit))
  also have "sum_list (map (\<lambda>c. emitted_by w (ct_id c)) tasks) = (\<Sum>i \<in> ct_id ` set tasks. emitted_by w i)"
    using sum_list_distinct_conv_sum_set[OF assms(1), of "emitted_by w"] by (simp add: comp_def)
  also have "\<dots> = (\<Sum>i \<in> ct_id ` set tasks \<inter> ids. emitted_by w i)"
    using assms(2) by (intro sum.mono_neutral_right) (auto simp: emitted_by_def split: option.splits)
  also have "\<dots> \<le> (\<Sum>i \<in> ids. emitted_by w i)"
    using assms(3) by (intro sum_mono2) (auto simp: emitted_nonneg)
  finally show ?thesis by simp
qed


subsection \<open>The whole expansion\<close>

text \<open>
  C12: the shared expansion of a task set always returns, and adds at most the total cap of
  projected occurrences to the tasks, whatever the order of the tasks.
\<close>

theorem set_expansion_bounded:
  assumes "distinct (map ct_id tasks)" "0 \<le> totalCap"
  shows "\<exists>out. expandCalendarRecurringTaskSetInRange h now tasks r at1 totalCap = Some out \<and>
    int (length out) \<le> int (length tasks) + totalCap"
proof (cases "filter projection_candidate tasks = []")
  case True
  then show ?thesis using assms(2) by (simp add: expandCalendarRecurringTaskSetInRange_def)
next
  case False
  let ?cs = "filter projection_candidate tasks" and ?cap = "min CALENDAR_RANGE_PROJECTION_PER_TASK_CAP totalCap"
  let ?ex = "\<lambda>c allocation. expandCalendarRecurringTasksInRange h now c r at1 allocation"
  have cap: "0 \<le> ?cap" "0 < totalCap \<Longrightarrow> 0 < ?cap"
    using assms(2) by (simp_all add: CALENDAR_RANGE_PROJECTION_PER_TASK_CAP_def)
  have "water_inv totalCap ?cap ?cs (first_water ?ex totalCap ?cap ?cs)"
    by (rule first_water_inv[OF expand_in_range_bounded False assms(2) cap])
  then obtain w where w: "water_fill ?ex totalCap ?cap ?cs (first_water ?ex totalCap ?cap ?cs) = Some w"
    "water_inv totalCap ?cap ?cs w"
    using water_fill_returns[OF expand_in_range_bounded cap(2)] by blast
  have "int (length (concat (map (\<lambda>c. or_else (wa_expansion w (ct_id c)) [c]) tasks))) \<le>
      int (length tasks) + (\<Sum>i \<in> ct_id ` set ?cs. emitted_by w i)"
  proof (rule expansion_length[OF assms(1)])
    show "wa_expansion w i = Some e \<Longrightarrow> i \<in> ct_id ` set ?cs" for i e
      using w(2) by (simp add: water_inv_def)
  qed simp
  moreover have "(\<Sum>i \<in> ct_id ` set ?cs. emitted_by w i) \<le> totalCap"
    using w(2) by (simp add: water_inv_def projectedCount_sum)
  ultimately show ?thesis
    using False w(1) assms(2) by (simp add: expandCalendarRecurringTaskSetInRange_def max_def)
qed

lemma set_expansion_bounded_witness:
  "\<exists>out. expandCalendarRecurringTaskSetInRange calendar_host 0 [plain (sample_task ''t1'')] 
      \<lparr>cr_startIso = ''2026-01-01'', cr_endIso = ''2026-02-01''\<rparr> ''2026-01-01'' 10 = Some out \<and>
    int (length out) \<le> int (length [plain (sample_task ''t1'')]) + 10"
  by (rule set_expansion_bounded) simp_all


text \<open>What the walk may show: a projection of its task inside the range and before UNTIL.\<close>

definition shown_inside :: "host \<Rightarrow> task \<Rightarrow> calendar_range \<Rightarrow> calendar_task \<Rightarrow> bool" where
  "shown_inside h t r c =
     (isProjectedRecurringTask c \<and> ct_sourceTaskId c = Some (eid t) \<and>
      (case safeParseDate h (occurrence_anchor (task_dates (ct_task c))) of
         None \<Rightarrow> False
       | Some d \<Rightarrow>
           (case safeParseDate h (Some (cr_startIso r)) of None \<Rightarrow> True | Some s \<Rightarrow> s \<le> d) \<and>
           (case safeParseDate h (Some (cr_endIso r)) of None \<Rightarrow> False | Some e \<Rightarrow> d \<le> e)) \<and>
      \<not> shouldStopAtUntil h (occurrence_anchor (task_dates (ct_task c)))
          (getRecurrenceUntilValue h (t_recurrence t)))"

lemma projected_occurrence_dates:
  "task_dates (ct_task (projected_occurrence t i d at1)) = d"
  by (simp add: projected_occurrence_def task_dates_def)

lemma range_walk_inside:
  assumes "start = safeParseDate h (Some (cr_startIso r))" "safeParseDate h (Some (cr_endIso r)) = Some e"
  shows "c \<in> set (range_walk n h step t at1 start e cap base steps pushed) \<Longrightarrow> shown_inside h t r c"
proof (induction n arbitrary: base steps pushed)
  case 0
  then show ?case by simp
next
  case (Suc n)
  have new: "shown_inside h t r (projected_occurrence t i (pf_dates occ) at1)"
    if "safeParseDate h (occurrence_anchor (pf_dates occ)) = Some d" "\<not> e < d"
      "case start of None \<Rightarrow> True | Some s \<Rightarrow> s \<le> d"
      "\<not> shouldStopAtUntil h (occurrence_anchor (pf_dates occ)) (getRecurrenceUntilValue h (t_recurrence t))"
    for i occ d
    using that assms
    by (simp add: shown_inside_def projected_occurrence_dates)
      (simp add: projected_occurrence_def isProjectedRecurringTask_def split: option.splits)
  show ?case
    using Suc.prems
    by (auto simp: Let_def intro: new Suc.IH split: option.splits if_splits)
qed

lemma projection_steps:
  "projectNextRecurringOccurrenceFields h t base rule at1 b anchors catchUp = Some occ \<Longrightarrow> 1 \<le> pf_steps occ"
  by (auto simp: projectNextRecurringOccurrenceFields_def projectUnscheduledStart_def
      emptyProjectedIsoResult_def Let_def split: option.splits if_splits)

lemma range_walk_count:
  assumes "getRecurrenceCountValue (t_recurrence t) = Some count" "\<And>b occ. step b = Some occ \<Longrightarrow> 1 \<le> pf_steps occ"
  shows "int (length (range_walk n h step t at1 start e cap base steps pushed)) \<le>
    max 0 (count - completed_occurrences (t_recurrence t) - steps - 1)"
proof (induction n arbitrary: base steps pushed)
  case 0
  then show ?case by simp
next
  case (Suc n)
  show ?case
  proof (cases "step base")
    case None
    then show ?thesis by simp
  next
    case (Some occ)
    let ?s = "steps + pf_steps occ"
    have s1: "1 \<le> pf_steps occ" by (rule assms(2)[OF Some])
    have IH: "int (length (range_walk n h step t at1 start e cap b ?s p)) \<le>
        max 0 (count - completed_occurrences (t_recurrence t) - ?s - 1)" for b p
      by (rule Suc.IH)
    show ?thesis
    proof (cases "count_reached (t_recurrence t) ?s")
      case True
      then show ?thesis by (simp add: Some)
    next
      case False
      then have lt: "completed_occurrences (t_recurrence t) + ?s < count"
        using assms(1) by (simp add: count_reached_def)
      have b: "1 + int (length (range_walk n h step t at1 start e cap b ?s p)) \<le>
          max 0 (count - completed_occurrences (t_recurrence t) - steps - 1)" for b p
        using IH[of b p] lt s1 by linarith
      have b': "int (length (range_walk n h step t at1 start e cap b ?s p)) \<le>
          max 0 (count - completed_occurrences (t_recurrence t) - steps - 1)" for b p
        using b[of b p] by linarith
      have m: "(0::int) \<le> max 0 (count - completed_occurrences (t_recurrence t) - steps - 1)" by simp
      show ?thesis
        using b b' m by (simp add: Some False Let_def split: option.split del: max.bounded_iff)
    qed
  qed
qed

lemma expansion_walk:
  "tl (expandCalendarRecurringTasksInRange h now src r at1 n) = [] \<or>
   (\<exists>e rule b anchors catchUp cap base.
      safeParseDate h (Some (cr_endIso r)) = Some e \<and>
      tl (expandCalendarRecurringTasksInRange h now src r at1 n) =
        range_walk MAX_RANGE_PROJECTION_ITERATIONS h
          (\<lambda>base. projectNextRecurringOccurrenceFields h (ct_task src) base rule at1 b anchors catchUp)
          (ct_task src) at1 (safeParseDate h (Some (cr_startIso r))) e cap base 0 0)"
  unfolding expandCalendarRecurringTasksInRange_def Let_def
  by (simp split: option.split) blast

text \<open>
  C13: the calendar of a range shows, after the task itself, only projections of that task
  that lie inside the range and before UNTIL, at most 62 of them and at most as many as COUNT
  leaves after the occurrences already completed and the current one.
\<close>

theorem range_occurrences_inside:
  "list_all (shown_inside h (ct_task src) r) (tl (expandCalendarRecurringTasksInRange h now src r at1 n)) \<and>
   int (length (tl (expandCalendarRecurringTasksInRange h now src r at1 n))) \<le> 62 \<and>
   (case getRecurrenceCountValue (t_recurrence (ct_task src)) of None \<Rightarrow> True
    | Some count \<Rightarrow> int (length (tl (expandCalendarRecurringTasksInRange h now src r at1 n))) \<le>
        max 0 (count - completed_occurrences (t_recurrence (ct_task src)) - 1))"
proof -
  let ?xs = "tl (expandCalendarRecurringTasksInRange h now src r at1 n)"
  have "int (length ?xs) \<le> 62" using expand_length[of h now src r at1 n] by simp
  moreover have "list_all (shown_inside h (ct_task src) r) ?xs"
    using expansion_walk[of h now src r at1 n] range_walk_inside[OF refl]
    unfolding list_all_iff by (metis empty_iff empty_set)
  moreover have "int (length ?xs) \<le> max 0 (count - completed_occurrences (t_recurrence (ct_task src)) - 1)"
    if "getRecurrenceCountValue (t_recurrence (ct_task src)) = Some count" for count
  proof (cases "?xs = []")
    case False
    then obtain e rule b anchors catchUp cap base where w: "?xs =
        range_walk MAX_RANGE_PROJECTION_ITERATIONS h
          (\<lambda>base. projectNextRecurringOccurrenceFields h (ct_task src) base rule at1 b anchors catchUp)
          (ct_task src) at1 (safeParseDate h (Some (cr_startIso r))) e cap base 0 0"
      using expansion_walk[of h now src r at1 n] by blast
    show ?thesis
      unfolding w using range_walk_count[OF that projection_steps, where steps = 0] by simp
  qed simp
  ultimately show ?thesis by (simp split: option.split)
qed

end
