(* ===== verification/RecurrenceLaws.thy ===== *)
theory RecurrenceLaws
  imports RecurrenceNext
begin

text \<open>
  What the steps of a recurrence do, under the contract of date-fns: the clamped month and
  year steps in closed form, the weekday selector as the least eligible date, the nth weekday
  of a month, and that every step moves to a later day with the same clock.
\<close>

subsection \<open>Clamped steps in closed form\<close>

text \<open>The month \<open>k\<close>, on the anchor day or the last day of the month, at the clock of \<open>base\<close>.\<close>

definition clamp_to :: "int \<Rightarrow> int \<Rightarrow> int \<Rightarrow> int" where
  "clamp_to base k a = time_at k (min a (month_len k)) (base mod ms_per_day)"

lemma clamp_to_getters:
  assumes "1 \<le> a"
  shows "month_index (clamp_to base k a) = k" "getDate (clamp_to base k a) = min a (month_len k)"
    "clamp_to base k a mod ms_per_day = base mod ms_per_day"
proof -
  have "1 \<le> min a (month_len k)" "min a (month_len k) \<le> month_len k"
    using assms month_len_bounds[of k] by auto
  then show "month_index (clamp_to base k a) = k" "getDate (clamp_to base k a) = min a (month_len k)"
    "clamp_to base k a mod ms_per_day = base mod ms_per_day"
    unfolding clamp_to_def by (simp_all add: time_at_getters)
qed

lemma not_two_digit_year: "100 * 12 \<le> k \<Longrightarrow> \<not> (0 \<le> k div 12 \<and> k div 12 \<le> (99::int))"
  by presburger

lemma month_of_index:
  "100 \<le> getFullYear t \<Longrightarrow> 100 * 12 \<le> month_index t"
  unfolding month_index_def using getMonth_bounds[of t] by linarith

lemma getLastDayOfMonth_len:
  assumes "100 * 12 \<le> k"
  shows "getLastDayOfMonth (k div 12) (k mod 12) = month_len k"
  unfolding getLastDayOfMonth_def using getDate_day_zero[OF not_two_digit_year[OF assms], of "k mod 12"] by simp

lemma buildDateWithTime_index:
  assumes "100 * 12 \<le> k"
  shows "buildDateWithTime (k div 12) (k mod 12) d base = time_at k d (base mod ms_per_day)"
  unfolding buildDateWithTime_def
  using new_date_time_at[OF not_two_digit_year[OF assms], of "k mod 12" d base] by simp

lemma addMonthsClamped_closed:
  assumes "100 \<le> getFullYear base" "0 \<le> n"
  shows "addMonthsClamped base n a = clamp_to base (month_index base + n) (or_else a (getDate base))"
proof -
  let ?k = "month_index base + n"
  have k: "100 * 12 \<le> ?k" using month_of_index[OF assms(1)] assms(2) by simp
  have ny: "\<not> (0 \<le> getFullYear base \<and> getFullYear base \<le> 99)" using assms(1) by simp
  have "buildDateWithTime (getFullYear base) (getMonth base + n) 1 base = time_at ?k 1 (base mod ms_per_day)"
    unfolding buildDateWithTime_def new_date_time_at[OF ny] by (simp add: month_index_def add.assoc)
  then have seed: "getFullYear (buildDateWithTime (getFullYear base) (getMonth base + n) 1 base) = ?k div 12"
    "getMonth (buildDateWithTime (getFullYear base) (getMonth base + n) 1 base) = ?k mod 12"
    using month_len_bounds[of ?k] by (simp_all add: time_at_getters)
  show ?thesis
    unfolding addMonthsClamped_def Let_def seed getLastDayOfMonth_len[OF k] buildDateWithTime_index[OF k]
    by (simp add: clamp_to_def)
qed

lemma addYearsClamped_closed:
  assumes "100 \<le> getFullYear base" "0 \<le> n"
  shows "addYearsClamped base n a = clamp_to base (month_index base + 12 * n) (or_else a (getDate base))"
proof -
  let ?k = "month_index base + 12 * n"
  have k: "100 * 12 \<le> ?k" using month_of_index[OF assms(1)] assms(2) by simp
  have e: "getFullYear base + n = ?k div 12" "getMonth base = ?k mod 12"
    by (simp_all add: month_index_def)
  show ?thesis
    unfolding addYearsClamped_def Let_def e(1)
    by (subst (1 2) e(2)) (simp only: getLastDayOfMonth_len[OF k] buildDateWithTime_index[OF k] clamp_to_def)
qed

text \<open>The months one interval step of a monthly or yearly rule covers.\<close>

definition rule_months :: "string \<Rightarrow> int" where
  "rule_months rule = (if rule = ''monthly'' then 1 else 12)"

definition calendar_rule :: "string \<Rightarrow> bool" where
  "calendar_rule rule = (rule = ''monthly'' \<or> rule = ''yearly'')"

lemma addInterval_calendar:
  assumes "calendar_rule rule" "100 \<le> getFullYear base" "0 \<le> n"
  shows "addInterval h base rule n a =
    clamp_to base (month_index base + rule_months rule * n) (or_else a (getDate base))"
  using assms addMonthsClamped_closed[OF assms(2,3)] addYearsClamped_closed[OF assms(2,3)]
  by (auto simp: addInterval_def calendar_rule_def rule_months_def)

lemma clamp_to_year:
  assumes "1 \<le> a" "100 \<le> getFullYear base" "month_index base \<le> k"
  shows "100 \<le> getFullYear (clamp_to base k a)"
proof -
  have "getFullYear (clamp_to base k a) = k div 12"
    using clamp_to_getters(1)[OF assms(1), of base k] month_index_year[of "clamp_to base k a"] by simp
  moreover have "100 \<le> k div 12"
    using month_of_index[OF assms(2)] assms(3) by presburger
  ultimately show ?thesis by simp
qed

lemma clamp_to_again: "1 \<le> a \<Longrightarrow> clamp_to (clamp_to base k b) j a = clamp_to base j a" if "1 \<le> b"
  using clamp_to_getters(3)[OF that, of base k] by (simp add: clamp_to_def)

subsection \<open>Later, with the same clock\<close>

definition later_day :: "int \<Rightarrow> int \<Rightarrow> bool" where
  "later_day base t = (base < t \<and> t mod ms_per_day = base mod ms_per_day)"

lemma later_day_whole: "later_day base t \<Longrightarrow> base + ms_per_day \<le> t"
proof -
  assume l: "later_day base t"
  then have "base div ms_per_day < t div ms_per_day"
    using day_split[of base] day_split[of t] unfolding later_day_def
    by (metis add_le_cancel_right linorder_not_le mult_le_cancel_right_pos ms_per_day_pos)
  then have "(base div ms_per_day + 1) * ms_per_day \<le> t div ms_per_day * ms_per_day"
    by (simp only: mult_le_cancel_right_pos[OF ms_per_day_pos])
  then show ?thesis
    using day_split[of base] day_split[of t] l unfolding later_day_def
    by (simp only: distrib_right mult_1)
qed

lemma later_day_shift: "0 < n \<Longrightarrow> later_day base (base + n * ms_per_day)"
  by (simp add: later_day_def)

lemma later_day_trans: "later_day a b \<Longrightarrow> later_day b c \<Longrightarrow> later_day a c"
  by (simp add: later_day_def)

lemma month_start_far: "0 \<le> k \<Longrightarrow> month_start m + 28 * k \<le> month_start (m + k)"
proof (induction "nat k" arbitrary: k)
  case 0
  then show ?case by simp
next
  case (Suc j)
  then have "month_start m + 28 * (k - 1) \<le> month_start (m + (k - 1))"
    by (intro Suc.hyps(1)) linarith+
  moreover have "month_start (m + k) = month_start (m + (k - 1)) + month_len (m + (k - 1))"
    using month_start_Suc[of "m + (k - 1)"] by simp
  moreover have "28 \<le> month_len (m + (k - 1))" by (rule month_len_bounds)
  moreover have "a + 28 * (k - 1) \<le> b \<Longrightarrow> s = b + l \<Longrightarrow> 28 \<le> l \<Longrightarrow> a + 28 * k \<le> s" for a b s l :: int
    by simp
  ultimately show ?case by blast
qed

lemma month_day_bounds:
  "month_start (month_index t) \<le> t div ms_per_day" "t div ms_per_day < month_start (month_index t + 1)"
  using day_of_month[of t] getDate_bounds[of t] month_start_Suc[of "month_index t"] by linarith+

lemma day_shift: "(base + n * ms_per_day) div ms_per_day = base div ms_per_day + n"
  using div_mult_self1[of ms_per_day base n] by (simp add: ms_per_day_def)

lemma shift_month_bound:
  assumes "n \<le> 28 * k" "0 \<le> k"
  shows "month_index (base + n * ms_per_day) \<le> month_index base + k"
proof (rule ccontr)
  let ?t = "base + n * ms_per_day" and ?m = "month_index base"
  assume "\<not> ?thesis"
  then have "month_start (?m + k) + month_len (?m + k) \<le> month_start (month_index ?t)"
    by (intro month_start_less) simp
  moreover have "?t div ms_per_day = base div ms_per_day + n"
    by (rule day_shift)
  moreover have "month_start (?m + 1) + 28 * k \<le> month_start (?m + k + 1)"
    using month_start_far[OF assms(2), of "?m + 1"] by (simp add: ac_simps)
  ultimately show False
    using month_day_bounds[of ?t] month_day_bounds[of base] month_start_Suc[of "?m + k"] assms(1)
    by linarith
qed

subsection \<open>The nth weekday of a month\<close>

lemma getDay_time_at: "getDay (time_at k d c) = (month_start k + d + 3) mod 7" if "0 \<le> c" "c < ms_per_day"
proof -
  have "time_at k d c div ms_per_day = month_start k + d - 1"
    unfolding time_at_def by (rule day_clock(1)[OF that])
  moreover have "month_start k + d - 1 + 4 = month_start k + d + 3" by simp
  ultimately show ?thesis by (simp only: getDay_def)
qed

lemma new_date_midnight:
  "\<not> (0 \<le> y \<and> y \<le> 99) \<Longrightarrow> new_date y m d 0 0 0 0 = time_at (y * 12 + m) d 0"
  using new_date_time_at[of y m d 0] by (simp add: getHours_def getMinutes_def getSeconds_def getMilliseconds_def)

lemma weekdayIndex_range: "w \<in> set WEEKDAY_ORDER \<Longrightarrow> 0 \<le> weekdayIndex w \<and> weekdayIndex w \<le> 6"
  by (auto simp: WEEKDAY_ORDER_def weekdayIndex_def)

lemma mod7_diff:
  fixes x y :: int
  assumes "0 \<le> x" "x \<le> 6" "0 \<le> y" "y \<le> 6"
  shows "(x - y + 7) mod 7 = (if y \<le> x then x - y else x - y + 7)"
proof (cases "y \<le> x")
  case True
  have "(x - y + 7) mod 7 = (x - y) mod 7" by simp
  also have "\<dots> = x - y" using True assms by (intro mod_pos_pos_trivial) linarith+
  finally show ?thesis using True by simp
next
  case False
  have "(x - y + 7) mod 7 = x - y + 7" using False assms by (intro mod_pos_pos_trivial) linarith+
  then show ?thesis using False by simp
qed

lemma mod7_same:
  fixes a w q :: int
  assumes "a - w = 7 * q" "0 \<le> w" "w \<le> 6"
  shows "a mod 7 = w"
  using assms by (intro int_mod_pos_eq[where q = q]) simp_all

lemma weekday_offset:
  fixes a w :: int
  assumes "0 \<le> w" "w \<le> 6"
  shows "(a + ((w - a mod 7 + 7) mod 7)) mod 7 = w \<and> 0 \<le> (w - a mod 7 + 7) mod 7 \<and>
    (w - a mod 7 + 7) mod 7 \<le> 6"
proof -
  have m: "0 \<le> a mod 7" "a mod 7 < 7" and d: "a = 7 * (a div 7) + a mod 7" by simp_all
  have m6: "a mod 7 \<le> 6" using m by linarith
  have o: "(w - a mod 7 + 7) mod 7 = (if a mod 7 \<le> w then w - a mod 7 else w - a mod 7 + 7)"
    by (rule mod7_diff[OF assms m(1) m6])
  show ?thesis
  proof (cases "a mod 7 \<le> w")
    case True
    then have e: "(w - a mod 7 + 7) mod 7 = w - a mod 7" using o by simp
    have "(a + (w - a mod 7)) mod 7 = w"
      by (rule mod7_same[where q = "a div 7"]) (use d assms in linarith)+
    then show ?thesis unfolding e using True assms m by simp
  next
    case False
    then have e: "(w - a mod 7 + 7) mod 7 = w - a mod 7 + 7" using o by simp
    have "(a + (w - a mod 7 + 7)) mod 7 = w"
      using assms d by (intro mod7_same[where q = "a div 7 + 1"]; simp only: distrib_left; linarith)
    then show ?thesis unfolding e using False assms m m6 by (intro conjI; linarith)
  qed
qed

lemma weekday_back:
  fixes a w :: int
  assumes "0 \<le> w" "w \<le> 6"
  shows "(a - ((a mod 7 - w + 7) mod 7)) mod 7 = w \<and> 0 \<le> (a mod 7 - w + 7) mod 7 \<and>
    (a mod 7 - w + 7) mod 7 \<le> 6"
proof -
  have m: "0 \<le> a mod 7" "a mod 7 < 7" and d: "a = 7 * (a div 7) + a mod 7" by simp_all
  have m6: "a mod 7 \<le> 6" using m by linarith
  have o: "(a mod 7 - w + 7) mod 7 = (if w \<le> a mod 7 then a mod 7 - w else a mod 7 - w + 7)"
    by (rule mod7_diff[OF m(1) m6 assms])
  show ?thesis
  proof (cases "w \<le> a mod 7")
    case True
    then have e: "(a mod 7 - w + 7) mod 7 = a mod 7 - w" using o by simp
    have "(a - (a mod 7 - w)) mod 7 = w"
      by (rule mod7_same[where q = "a div 7"]) (use d assms in linarith)+
    then show ?thesis unfolding e using True assms m m6 by (intro conjI; linarith)
  next
    case False
    then have e: "(a mod 7 - w + 7) mod 7 = a mod 7 - w + 7" using o by simp
    have "(a - (a mod 7 - w + 7)) mod 7 = w"
      using assms d by (intro mod7_same[where q = "a div 7 - 1"]; simp only: right_diff_distrib; linarith)
    then show ?thesis unfolding e using False assms m by (intro conjI; linarith)
  qed
qed

text \<open>
  The date the code picks: in the month, on the weekday, and the \<open>ordinal\<close>th such day of
  the month from its start, or the last one when the ordinal is negative.
\<close>

lemma time_at_next: "time_at k d c = time_at (k + 1) (d - month_len k) c"
  by (simp add: time_at_def month_start_Suc)

lemma midnight_of_month:
  assumes "100 * 12 \<le> k"
  shows "new_date (k div 12) (k mod 12) d 0 0 0 0 = time_at k d 0"
    "new_date (k div 12) (k mod 12 + 1) 0 0 0 0 0 = time_at k (month_len k) 0"
proof -
  have nd: "new_date (k div 12) m d 0 0 0 0 = time_at (k div 12 * 12 + m) d 0" for m d
    by (rule new_date_midnight[OF not_two_digit_year[OF assms]])
  have e: "k div 12 * 12 + k mod 12 = k" "k div 12 * 12 + (k mod 12 + 1) = k + 1"
    using div_mult_mod_eq[of k 12] by linarith+
  show "new_date (k div 12) (k mod 12) d 0 0 0 0 = time_at k d 0"
    by (simp only: nd e)
  have "time_at k (month_len k) 0 = time_at (k + 1) 0 0"
    by (subst time_at_next) simp
  then show "new_date (k div 12) (k mod 12 + 1) 0 0 0 0 0 = time_at k (month_len k) 0"
    by (simp only: nd e)
qed

lemma month_shifted: "(k + 1) mod 12 \<noteq> k mod (12::int)"
  by presburger

lemma getMonth_past:
  assumes "month_len k < d" "d \<le> month_len k + 28" "0 \<le> c" "c < ms_per_day"
  shows "getMonth (time_at k d c) \<noteq> k mod 12"
proof -
  have "getMonth (time_at (k + 1) (d - month_len k) c) = (k + 1) mod 12"
    using assms month_len_bounds[of "k + 1"] by (intro time_at_getters(4)) simp_all
  then show ?thesis using time_at_next[of k d c] month_shifted[of k] by simp
qed

lemma nth_weekday_pos:
  assumes k: "100 * 12 \<le> k" and w: "weekday \<in> set WEEKDAY_ORDER" and n: "0 < n" "n \<le> 9"
    and r: "getNthWeekdayOfMonth (k div 12) (k mod 12) weekday n = Some r"
  shows "month_index r = k \<and> getDay r = weekdayIndex weekday \<and>
    7 * (n - 1) < getDate r \<and> getDate r \<le> 7 * n"
proof -
  let ?f = "month_start k + 4"
  define off where "off = (weekdayIndex weekday - ?f mod 7 + 7) mod 7"
  have o: "(?f + off) mod 7 = weekdayIndex weekday" "0 \<le> off" "off \<le> 6"
    unfolding off_def using weekday_offset[of "weekdayIndex weekday" ?f] weekdayIndex_range[OF w] by auto
  define d where "d = 1 + off + (n - 1) * 7"
  have fd: "getDay (time_at k 1 0) = ?f mod 7" using getDay_time_at[of 0 k 1] by (simp add: add.commute)
  have r': "r = time_at k d 0" and m: "getMonth (time_at k d 0) = k mod 12"
    using r n unfolding getNthWeekdayOfMonth_def Let_def midnight_of_month[OF k] fd off_def[symmetric]
      d_def[symmetric] by (auto split: if_splits)
  have "1 \<le> d" "d \<le> 63" using o n by (simp_all add: d_def)
  moreover have "d \<le> month_len k"
  proof (rule ccontr)
    assume c: "\<not> d \<le> month_len k"
    show False
    proof (cases "d \<le> month_len k + 28")
      case True
      then show False using getMonth_past[of k d 0] m c by simp
    next
      case False
      let ?d = "d - month_len k - month_len (k + 1)"
      have "time_at k d 0 = time_at (k + 1 + 1) ?d 0 \<or> time_at k d 0 = time_at (k + 1) (d - month_len k) 0"
        using time_at_next[of k d 0] by simp
      show False
      proof (cases "d - month_len k \<le> month_len (k + 1)")
        case True
        then have "getMonth (time_at (k + 1) (d - month_len k) 0) = (k + 1) mod 12"
          using False month_len_bounds[of "k + 1"] by (intro time_at_getters(4)) simp_all
        then show False using m time_at_next[of k d 0] month_shifted[of k] by simp
      next
        case far: False
        have "getMonth (time_at (k + 1 + 1) ?d 0) = (k + 1 + 1) mod 12"
          using far \<open>d \<le> 63\<close> month_len_bounds[of "k + 1 + 1"] month_len_bounds[of "k + 1"] month_len_bounds[of k]
          by (intro time_at_getters(4)) simp_all
        moreover have "time_at k d 0 = time_at (k + 1 + 1) ?d 0"
          using time_at_next[of k d 0] time_at_next[of "k + 1" "d - month_len k" 0] by simp
        moreover have "(k + 1 + 1) mod 12 \<noteq> k mod 12" by presburger
        ultimately show False using m by simp
      qed
    qed
  qed
  ultimately have g: "month_index r = k" "getDate r = d" unfolding r' by (simp_all add: time_at_getters)
  have "month_start k + d + 3 = ?f + off + 7 * (n - 1)" by (simp add: d_def)
  then have "getDay r = (?f + off) mod 7"
    unfolding r' by (simp only: getDay_time_at[OF order_refl ms_per_day_pos] mod_mult_self2)
  then have "getDay r = weekdayIndex weekday" using o(1) by simp
  then show ?thesis using g o by (simp add: d_def)
qed

lemma nth_weekday_neg:
  assumes k: "100 * 12 \<le> k" and w: "weekday \<in> set WEEKDAY_ORDER" and n: "n < 0"
  shows "\<exists>r. getNthWeekdayOfMonth (k div 12) (k mod 12) weekday n = Some r \<and> month_index r = k \<and>
    getDay r = weekdayIndex weekday \<and> month_len k - 7 < getDate r"
proof -
  let ?l = "month_start k + month_len k + 3"
  define off where "off = (?l mod 7 - weekdayIndex weekday + 7) mod 7"
  have o: "(?l - off) mod 7 = weekdayIndex weekday" "0 \<le> off" "off \<le> 6"
    unfolding off_def using weekday_back[of "weekdayIndex weekday" ?l] weekdayIndex_range[OF w] by auto
  have ld: "getDay (time_at k (month_len k) 0) = ?l mod 7" "getDate (time_at k (month_len k) 0) = month_len k"
    using month_len_bounds[of k] by (simp_all add: getDay_time_at time_at_getters)
  have d: "1 \<le> month_len k - off" "month_len k - off \<le> month_len k"
    using o month_len_bounds[of k] by simp_all
  let ?r = "time_at k (month_len k - off) 0"
  have g: "month_index ?r = k" "getDate ?r = month_len k - off" "getMonth ?r = k mod 12"
    using d by (simp_all add: time_at_getters)
  have "getNthWeekdayOfMonth (k div 12) (k mod 12) weekday n = Some ?r"
    using n g(3) unfolding getNthWeekdayOfMonth_def Let_def midnight_of_month[OF k] ld off_def[symmetric]
    by simp
  moreover have "getDay ?r = weekdayIndex weekday"
    using o(1) by (simp add: getDay_time_at algebra_simps)
  ultimately show ?thesis using g o by auto
qed

end
