(* ===== verification/RecurrenceForward.thy ===== *)
theory RecurrenceForward
  imports RecurrenceLaws
begin

text \<open>
  The selectors as searches: the weekly selector finds the least eligible date, and every
  rule with every selector moves a series to a later day with the same clock, so the string
  \<open>nextIsoFrom\<close> writes is always read back later than the one it advanced.
\<close>

subsection \<open>Weeks\<close>

definition week_pos :: "int \<Rightarrow> int \<Rightarrow> int" where
  "week_pos weekStartIndex t = (t div ms_per_day + 4 - weekStartIndex) mod 7"

definition week_number :: "int \<Rightarrow> int \<Rightarrow> int" where
  "week_number weekStartIndex t = (t div ms_per_day + 4 - weekStartIndex) div 7"

text \<open>The date on position \<open>p\<close> of week \<open>w\<close>.\<close>

definition week_time :: "int \<Rightarrow> int \<Rightarrow> int \<Rightarrow> int \<Rightarrow> int" where
  "week_time weekStartIndex w p c = (7 * w + p - 4 + weekStartIndex) * ms_per_day + c"

lemma week_time_parts: "week_time s (week_number s t) (week_pos s t) (t mod ms_per_day) = t"
proof -
  have "7 * week_number s t + week_pos s t = t div ms_per_day + 4 - s"
    by (simp add: week_number_def week_pos_def)
  then have "7 * week_number s t + week_pos s t - 4 + s = t div ms_per_day" by simp
  then show ?thesis by (simp add: week_time_def)
qed

lemma week_time_less:
  assumes "w < w'" "0 \<le> p" "p \<le> 6" "0 \<le> p'" "p' \<le> 6"
  shows "week_time s w p c < week_time s w' p' c"
  using assms by (simp add: week_time_def)

lemma week_time_le: "p \<le> p' \<Longrightarrow> week_time s w p c \<le> week_time s w p' c"
  by (simp add: week_time_def)

lemma week_pos_range: "0 \<le> week_pos s t" "week_pos s t \<le> 6"
proof -
  have "week_pos s t < 7" by (simp add: week_pos_def)
  then show "0 \<le> week_pos s t" "week_pos s t \<le> 6" by (simp_all add: week_pos_def)
qed

lemma week_pos_getDay: "week_pos s t = (getDay t - s + 7) mod 7"
  by (simp add: week_pos_def getDay_def mod_diff_left_eq)

definition weekday_pos :: "int \<Rightarrow> string \<Rightarrow> int" where
  "weekday_pos weekStartIndex weekday = (weekdayIndex weekday - weekStartIndex + 7) mod 7"

lemma weekday_pos_range: "0 \<le> weekday_pos s w" "weekday_pos s w \<le> 6"
proof -
  have "weekday_pos s w < 7" by (simp add: weekday_pos_def)
  then show "0 \<le> weekday_pos s w" "weekday_pos s w \<le> 6" by (simp_all add: weekday_pos_def)
qed

lemma ordered_weekdays_all:
  "list_all (\<lambda>w. map (weekday_pos (weekdayIndex w)) (orderWeekdaysByWeekStart w) = [0, 1, 2, 3, 4, 5, 6] \<and>
     list_all (\<lambda>d. d \<in> set WEEKDAY_ORDER) (orderWeekdaysByWeekStart w) \<and>
     list_all (\<lambda>d. d \<in> set (orderWeekdaysByWeekStart w)) WEEKDAY_ORDER) WEEKDAY_ORDER"
  by code_simp

lemma ordered_weekdays:
  assumes "w \<in> set WEEKDAY_ORDER"
  shows "map (weekday_pos (weekdayIndex w)) (orderWeekdaysByWeekStart w) = [0, 1, 2, 3, 4, 5, 6]"
    "set (orderWeekdaysByWeekStart w) = set WEEKDAY_ORDER"
  using assms ordered_weekdays_all unfolding list_all_iff by blast+

lemma sorted_map_filter: "sorted (map f xs) \<Longrightarrow> sorted (map f (filter P xs))"
  by (induction xs) auto

text \<open>A search in an order finds the least of what it accepts.\<close>

lemma find_map_least:
  assumes "sorted (map off xs)" "\<And>x. x \<in> set xs \<Longrightarrow> f x = (if C x then None else Some (g x))"
    "find_map f xs = Some y"
  shows "\<exists>x \<in> set xs. \<not> C x \<and> y = g x \<and> (\<forall>x' \<in> set xs. \<not> C x' \<longrightarrow> off x \<le> off x')"
  using assms by (induction xs) (auto split: if_splits)

lemma find_map_None: "find_map f xs = None \<longleftrightarrow> (\<forall>x \<in> set xs. f x = None)"
  by (induction xs) (auto split: option.splits)

lemma find_map_SomeD: "find_map f xs = Some y \<Longrightarrow> \<exists>x \<in> set xs. f x = Some y"
  by (induction xs) (auto split: option.splits)

lemma getDay_of_pos:
  assumes "w \<in> set WEEKDAY_ORDER" "0 \<le> s" "s \<le> 6" "week_pos s t = weekday_pos s w"
  shows "getDay t = weekdayIndex w"
proof -
  have e: "(getDay t - s + 7) mod 7 = (weekdayIndex w - s + 7) mod 7"
    using assms(4) by (simp add: week_pos_getDay weekday_pos_def)
  have "0 \<le> getDay t" "getDay t \<le> 6"
    using pos_mod_bound[of 7 "t div ms_per_day + 4"] by (simp_all add: getDay_def)
  then show ?thesis
    using e weekdayIndex_range[OF assms(1)] assms(2,3)
    by (simp only: mod7_diff split: if_splits)
qed

lemma pos_of_getDay: "getDay t = weekdayIndex w \<Longrightarrow> week_pos s t = weekday_pos s w"
  by (simp add: week_pos_getDay weekday_pos_def)

lemma loop_offsets_unfold: "loop_offsets step (Suc n) = 0 # step # map (\<lambda>i. step * int i) [2..<Suc (Suc n)]"
  by (simp add: loop_offsets_def upt_conv_Cons numeral_2_eq_2 del: upt_Suc)

text \<open>
  The dates the weekly selector may choose: a selected weekday at the clock of the base,
  after the base, in a week whose distance from the week of the base is a multiple of the
  interval.
\<close>

definition weekly_eligible :: "int \<Rightarrow> int \<Rightarrow> string list \<Rightarrow> int \<Rightarrow> int \<Rightarrow> bool" where
  "weekly_eligible base weekStartIndex days interval u =
     (base < u \<and> u mod ms_per_day = base mod ms_per_day \<and>
      (\<exists>d \<in> set days. getDay u = weekdayIndex d) \<and>
      interval dvd week_number weekStartIndex u - week_number weekStartIndex base)"

lemma week_number_mono: "t \<le> u \<Longrightarrow> week_number s t \<le> week_number s u"
  unfolding week_number_def by (intro zdiv_mono1) (simp_all add: zdiv_mono1)

context date_fns
begin

lemma week_candidate_closed:
  "week_candidate h base s weekOffset weekday =
    (let c = week_time s (week_number s base + weekOffset) (weekday_pos s weekday) (base mod ms_per_day)
     in if weekOffset = 0 \<and> c \<le> base then None else Some c)"
proof -
  have "anchor_week_start base s = base - week_pos s base * ms_per_day"
    by (simp add: anchor_week_start_def setDate_shift week_pos_getDay)
  moreover have "base - week_pos s base * ms_per_day = week_time s (week_number s base) 0 (base mod ms_per_day)"
    using week_time_parts[of s base] by (simp add: week_time_def algebra_simps)
  ultimately have "addDays h (addWeeks h (anchor_week_start base s) weekOffset) (weekday_pos s weekday) =
      week_time s (week_number s base + weekOffset) (weekday_pos s weekday) (base mod ms_per_day)"
    by (simp add: addDays_spec addWeeks_spec week_time_def algebra_simps)
  then show ?thesis by (simp add: week_candidate_def weekday_pos_def Let_def)
qed


lemma candidates_of_week:
  assumes "sorted (map (weekday_pos s) L)" "L \<noteq> []"
  shows "find_map (week_candidate h base s weekOffset) L = None \<longleftrightarrow>
      weekOffset = 0 \<and> (\<forall>x \<in> set L. week_time s (week_number s base) (weekday_pos s x) (base mod ms_per_day) \<le> base)"
    "find_map (week_candidate h base s weekOffset) L = Some r \<Longrightarrow>
      \<exists>x \<in> set L. r = week_time s (week_number s base + weekOffset) (weekday_pos s x) (base mod ms_per_day) \<and>
        (weekOffset = 0 \<longrightarrow> base < r) \<and>
        (\<forall>x' \<in> set L. weekOffset = 0 \<and>
          week_time s (week_number s base) (weekday_pos s x') (base mod ms_per_day) \<le> base \<or>
          weekday_pos s x \<le> weekday_pos s x')"
proof -
  let ?g = "\<lambda>x. week_time s (week_number s base + weekOffset) (weekday_pos s x) (base mod ms_per_day)"
  show "find_map (week_candidate h base s weekOffset) L = None \<longleftrightarrow>
      weekOffset = 0 \<and> (\<forall>x \<in> set L. week_time s (week_number s base) (weekday_pos s x) (base mod ms_per_day) \<le> base)"
    using assms(2) by (cases L) (auto simp: find_map_None week_candidate_closed Let_def)
  assume r: "find_map (week_candidate h base s weekOffset) L = Some r"
  have "\<exists>x \<in> set L. \<not> (weekOffset = 0 \<and> ?g x \<le> base) \<and> r = ?g x \<and>
      (\<forall>x' \<in> set L. \<not> (weekOffset = 0 \<and> ?g x' \<le> base) \<longrightarrow> weekday_pos s x \<le> weekday_pos s x')"
    by (rule find_map_least[OF assms(1) _ r]) (simp add: week_candidate_closed Let_def)
  then show "\<exists>x \<in> set L. r = ?g x \<and> (weekOffset = 0 \<longrightarrow> base < r) \<and>
        (\<forall>x' \<in> set L. weekOffset = 0 \<and>
          week_time s (week_number s base) (weekday_pos s x') (base mod ms_per_day) \<le> base \<or>
          weekday_pos s x \<le> weekday_pos s x')"
    by (elim bexE, intro bexI) auto
qed

end

lemma week_time_getters:
  assumes "0 \<le> p" "p \<le> 6" "0 \<le> c" "c < ms_per_day"
  shows "week_time s w p c mod ms_per_day = c" "week_number s (week_time s w p c) = w"
    "week_pos s (week_time s w p c) = p"
proof -
  have d: "week_time s w p c div ms_per_day = 7 * w + p - 4 + s"
    unfolding week_time_def by (rule day_clock(1)[OF assms(3,4)])
  show "week_time s w p c mod ms_per_day = c"
    unfolding week_time_def by (rule day_clock(2)[OF assms(3,4)])
  have e: "7 * w + p - 4 + s + 4 - s = 7 * w + p" by simp
  show "week_number s (week_time s w p c) = w" "week_pos s (week_time s w p c) = p"
    unfolding week_number_def week_pos_def d e using assms(1,2) by simp_all
qed

lemma week_start_of_weekday: "week_start_of w \<in> set WEEKDAY_ORDER"
  by (auto simp: week_start_of_def or_else_def normalizeWeekStart_def WEEKDAY_ORDER_def
      split: option.splits if_splits)

lemma normalizeWeeklyByDay_weekdays:
  "normalizeWeeklyByDay v = Some ds \<Longrightarrow> ds \<noteq> [] \<and> set ds \<subseteq> set WEEKDAY_ORDER"
  by (auto simp: normalizeWeeklyByDay_def non_empty_opt_def split: option.splits if_splits)

text \<open>The selected weekdays in the order of the week.\<close>

definition ordered_days :: "string \<Rightarrow> string list \<Rightarrow> string list" where
  "ordered_days ws ds = filter (\<lambda>day. day \<in> set ds) (orderWeekdaysByWeekStart ws)"

lemma ordered_days_props:
  assumes "ws \<in> set WEEKDAY_ORDER" "ds \<noteq> []" "set ds \<subseteq> set WEEKDAY_ORDER"
  shows "sorted (map (weekday_pos (weekdayIndex ws)) (ordered_days ws ds))"
    "set (ordered_days ws ds) = set ds" "ordered_days ws ds \<noteq> []"
proof -
  show "sorted (map (weekday_pos (weekdayIndex ws)) (ordered_days ws ds))"
    unfolding ordered_days_def using ordered_weekdays(1)[OF assms(1)] by (intro sorted_map_filter) simp
  show s: "set (ordered_days ws ds) = set ds"
    using ordered_weekdays(2)[OF assms(1)] assms(3) by (auto simp: ordered_days_def)
  show "ordered_days ws ds \<noteq> []" using s assms(2) by auto
qed

context date_fns
begin

lemma nextWeeklyByDay_search:
  assumes ds: "normalizeWeeklyByDay (Some byDay) = Some ds" and i: "0 < interval"
  shows "\<exists>off \<in> {0, interval}. find_map (week_candidate h base (weekdayIndex (week_start_of weekStart)) off)
      (ordered_days (week_start_of weekStart) ds) = Some (nextWeeklyByDay h base byDay interval weekStart) \<and>
    (off = interval \<longrightarrow> find_map (week_candidate h base (weekdayIndex (week_start_of weekStart)) 0)
      (ordered_days (week_start_of weekStart) ds) = None)"
proof -
  let ?s = "weekdayIndex (week_start_of weekStart)" and ?L = "ordered_days (week_start_of weekStart) ds"
  let ?f = "\<lambda>off. find_map (week_candidate h base ?s off) ?L"
  note nd = normalizeWeeklyByDay_weekdays[OF ds]
  note L = ordered_days_props[OF week_start_of_weekday, of ds weekStart]
  have n: "nextWeeklyByDay h base byDay interval weekStart =
      (case find_map ?f (loop_offsets interval 52) of Some c \<Rightarrow> c | None \<Rightarrow> addWeeks h base interval)"
    using i by (simp add: nextWeeklyByDay_def ds Let_def safe_interval_def ordered_days_def)
  have u: "loop_offsets interval 52 = 0 # interval # map (\<lambda>k. interval * int k) [2..<53]"
    using loop_offsets_unfold[of interval 51] by simp
  obtain c where c: "?f interval = Some c"
    using candidates_of_week(1)[OF L(1,3), of base interval] nd i by (cases "?f interval") auto
  show ?thesis
  proof (cases "?f 0")
    case None
    then show ?thesis using c by (simp add: n u)
  next
    case (Some r)
    then show ?thesis using i by (simp add: n u)
  qed
qed

lemma weekly_least:
  fixes weekStart :: "string option" and base :: int
  assumes ds: "normalizeWeeklyByDay (Some byDay) = Some ds" and i: "0 < interval"
  defines "s \<equiv> weekdayIndex (week_start_of weekStart)"
  defines "r \<equiv> nextWeeklyByDay h base byDay interval weekStart"
  shows "weekly_eligible base s ds interval r"
    "weekly_eligible base s ds interval u \<Longrightarrow> r \<le> u"
    "week_number s r \<le> week_number s base + interval"
proof -
  let ?L = "ordered_days (week_start_of weekStart) ds" and ?c = "base mod ms_per_day"
  note nd = normalizeWeeklyByDay_weekdays[OF ds]
  note L = ordered_days_props[OF week_start_of_weekday, of ds weekStart, folded s_def]
  have L1: "sorted (map (weekday_pos s) ?L)" "set ?L = set ds" "?L \<noteq> []" using L nd by auto
  note cw = candidates_of_week[OF L1(1,3), of base]
  have s6: "0 \<le> s" "s \<le> 6" using weekdayIndex_range[OF week_start_of_weekday[of weekStart]] by (auto simp: s_def)
  obtain off where off: "off = 0 \<or> off = interval" and f: "find_map (week_candidate h base s off) ?L = Some r"
    and f0: "off = interval \<Longrightarrow> find_map (week_candidate h base s 0) ?L = None"
    using nextWeeklyByDay_search[OF ds i, of base weekStart] unfolding s_def r_def by blast
  obtain x where x: "x \<in> set ?L" "r = week_time s (week_number s base + off) (weekday_pos s x) ?c"
    "off = 0 \<Longrightarrow> base < r"
    and xm: "\<And>x'. x' \<in> set ?L \<Longrightarrow> off = 0 \<and> week_time s (week_number s base) (weekday_pos s x') ?c \<le> base \<or>
          weekday_pos s x \<le> weekday_pos s x'"
    using cw(2)[OF f] by blast
  note g = week_time_getters[OF weekday_pos_range[of s x] clock_bounds[of base], of s "week_number s base + off", folded x(2)]
  have later: "week_time s (week_number s base) p ?c < week_time s w p' ?c"
    if "week_number s base < w" "0 \<le> p" "p \<le> 6" "0 \<le> p'" "p' \<le> 6" for p w p'
    using that by (rule week_time_less)
  have br: "base < r"
  proof (cases "off = 0")
    case False
    then show ?thesis
      using off i later[of "week_number s base + off" "week_pos s base" "weekday_pos s x"]
        week_pos_range[of s base] weekday_pos_range[of s x] week_time_parts[of s base] x(2) by simp
  qed (use x in simp)
  have xd: "x \<in> set ds" "x \<in> set WEEKDAY_ORDER" using x(1) L1(2) nd by auto
  show "week_number s r \<le> week_number s base + interval" using g(2) off i by auto
  have "getDay r = weekdayIndex x" using getDay_of_pos[OF xd(2) s6 g(3)] .
  moreover have "interval dvd week_number s r - week_number s base" using g(2) off by auto
  ultimately show "weekly_eligible base s ds interval r"
    using br g(1) xd(1) by (auto simp: weekly_eligible_def)
  assume u: "weekly_eligible base s ds interval u"
  then obtain d where d: "d \<in> set ds" "getDay u = weekdayIndex d" and bu: "base < u"
    and uc: "u mod ms_per_day = ?c" and dv: "interval dvd week_number s u - week_number s base"
    by (auto simp: weekly_eligible_def)
  have ut: "u = week_time s (week_number s u) (weekday_pos s d) ?c"
    using week_time_parts[of s u] uc pos_of_getDay[OF d(2), of s] by simp
  have dL: "d \<in> set ?L" using d(1) L1(2) by simp
  have le: "week_number s base \<le> week_number s u" using bu by (intro week_number_mono) simp
  have "week_number s base + off \<le> week_number s u"
  proof (cases "week_number s u = week_number s base")
    case True
    have "off \<noteq> interval \<or> \<not> base < u"
      using f0 cw(1)[of 0] dL ut unfolding True by auto
    then show ?thesis using True bu off i by auto
  next
    case False
    then have "interval \<le> week_number s u - week_number s base"
      using dv le by (intro zdvd_imp_le) simp_all
    then show ?thesis using off le by auto
  qed
  then consider "week_number s base + off < week_number s u" | "week_number s u = week_number s base + off"
    by linarith
  then show "r \<le> u"
  proof cases
    case 1
    then show ?thesis
      using week_time_less[OF 1 weekday_pos_range[of s x] weekday_pos_range[of s d], of s ?c] ut x(2) by simp
  next
    case 2
    have "off = 0 \<Longrightarrow> \<not> week_time s (week_number s base) (weekday_pos s d) ?c \<le> base"
      using ut bu 2 by simp
    then have "weekday_pos s x \<le> weekday_pos s d" using xm[OF dL] by auto
    then show ?thesis using week_time_le ut x(2) 2 by metis
  qed
qed

end

subsection \<open>Months\<close>

lemma set_by_time [simp]: "set (by_time xs) = set xs"
  by (simp add: by_time_def)

lemma set_at_set_pos: "set (at_set_pos p xs) \<subseteq> set xs"
  by (auto simp: at_set_pos_def Let_def nonzero_def split: option.splits if_splits)

lemma first_afterD:
  assumes "first_after base offset p xs = Some d"
  shows "d \<in> set xs" "offset = 0 \<Longrightarrow> base < d"
proof -
  let ?ys = "filter (\<lambda>d. offset = 0 \<longrightarrow> base < d) (at_set_pos p xs)"
  have "d \<in> set (by_time ?ys)"
    using assms unfolding first_after_def by (cases "by_time ?ys") auto
  then have "d \<in> set ?ys" by (simp only: set_by_time)
  then show "d \<in> set xs" "offset = 0 \<Longrightarrow> base < d"
    using set_at_set_pos[of p xs] by auto
qed

text \<open>A date of month \<open>k\<close> at the clock of the base.\<close>

definition in_month :: "int \<Rightarrow> int \<Rightarrow> int \<Rightarrow> bool" where
  "in_month base k d = (month_index d = k \<and> d mod ms_per_day = base mod ms_per_day)"

lemma in_month_time_at:
  "1 \<le> d \<Longrightarrow> d \<le> month_len k \<Longrightarrow> in_month base k (time_at k d (base mod ms_per_day))"
  by (simp add: in_month_def time_at_getters)

lemma digit_range: "digit_of c = Some n \<Longrightarrow> 0 \<le> n \<and> n \<le> 9"
  by (auto simp: digit_of_def Let_def split: if_splits)

lemma parseOrdinalByDay_range:
  assumes "parseOrdinalByDay token = Some (w, ord)"
  shows "w \<in> set WEEKDAY_ORDER" "ord = Some n \<Longrightarrow> - 9 \<le> n \<and> n \<le> 9"
  using assms
  by (auto simp: parseOrdinalByDay_def Let_def split: if_splits list.splits dest: digit_range)

lemma by_day_candidates_month:
  assumes k: "100 * 12 \<le> k" and p: "parseOrdinalByDay token = Some c"
    and d: "d \<in> set (by_day_candidates base (k div 12) (k mod 12) c)"
  shows "in_month base k d"
proof (cases c)
  case (Pair w ord)
  note pr = parseOrdinalByDay_range[OF p[unfolded Pair]]
  show ?thesis
  proof (cases ord)
    case None
    then obtain i where "d = buildDateWithTime (k div 12) (k mod 12) (int i + 1) base" "int i < month_len k"
      using d by (auto simp: Pair by_day_candidates_def month_days_of_def getLastDayOfMonth_len[OF k])
    then show ?thesis
      by (simp only: buildDateWithTime_index[OF k]) (rule in_month_time_at; simp)
  next
    case (Some n)
    then obtain r where r: "getNthWeekdayOfMonth (k div 12) (k mod 12) w n = Some r"
      and d': "d = buildDateWithTime (getFullYear r) (getMonth r) (getDate r) base"
      using d by (cases "getNthWeekdayOfMonth (k div 12) (k mod 12) w n")
        (auto simp: Pair by_day_candidates_def)
    have "n \<noteq> 0" using r by (auto simp: getNthWeekdayOfMonth_def)
    then have "month_index r = k"
      using nth_weekday_pos[OF k pr(1) _ _ r] nth_weekday_neg[OF k pr(1), of n] pr(2)[OF Some] r
      by (cases "0 < n") auto
    moreover from this have "getFullYear r = k div 12" "getMonth r = k mod 12"
      using month_index_year[of r] month_index_month[of r] by simp_all
    ultimately show ?thesis
      using getDate_bounds[of r] unfolding d' by (simp add: buildDateWithTime_index[OF k] in_month_time_at)
  qed
qed

lemma month_day_date_month:
  assumes k: "100 * 12 \<le> k" and day: "1 \<le> day \<and> day \<le> 31 \<or> day = - 1"
    and m: "getMonth (month_day_date base (k div 12) (k mod 12) day) = k mod 12"
  shows "in_month base k (month_day_date base (k div 12) (k mod 12) day)"
proof (cases "day = - 1")
  case True
  have ny: "\<not> (0 \<le> k div 12 \<and> k div 12 \<le> 99)" by (rule not_two_digit_year[OF k])
  have e: "k div 12 * 12 + (k mod 12 + 1) = k + 1" using div_mult_mod_eq[of k 12] by linarith
  have "month_day_date base (k div 12) (k mod 12) day = time_at (k + 1) 0 (base mod ms_per_day)"
    by (simp only: month_day_date_def True simp_thms if_True buildDateWithTime_def new_date_time_at[OF ny] e)
  also have "\<dots> = time_at k (month_len k) (base mod ms_per_day)"
    by (subst (2) time_at_next) simp
  finally show ?thesis
    using month_len_bounds[of k] by (simp add: in_month_time_at)
next
  case False
  then have e: "month_day_date base (k div 12) (k mod 12) day = time_at k day (base mod ms_per_day)"
    by (simp add: month_day_date_def buildDateWithTime_index[OF k])
  have "day \<le> month_len k"
    using m getMonth_past[of k day "base mod ms_per_day"] day False month_len_bounds[of k]
    unfolding e by fastforce
  then show ?thesis using day False unfolding e by (intro in_month_time_at) auto
qed

lemma in_month_later:
  assumes "in_month base k d" "month_index base < k \<or> base < d"
  shows "later_day base d"
  using assms month_less_time[of base d] by (auto simp: in_month_def later_day_def)

lemma loop_offsets_range:
  "0 < step \<Longrightarrow> off \<in> set (loop_offsets step n) \<Longrightarrow> 0 \<le> off \<and> off \<le> step * int n"
  by (auto simp: loop_offsets_def)

lemma normalizeMonthDays_range:
  "normalizeMonthDays v = Some ds \<Longrightarrow> d \<in> set ds \<Longrightarrow> 1 \<le> d \<and> d \<le> 31 \<or> d = - 1"
  by (auto simp: normalizeMonthDays_def non_empty_opt_def split: option.splits if_splits)

text \<open>A step forward: a later day at the same clock, at most twelve months per interval ahead.\<close>

definition forward_step :: "int \<Rightarrow> int \<Rightarrow> int \<Rightarrow> bool" where
  "forward_step base interval t =
     (later_day base t \<and> month_index t \<le> month_index base + 12 * interval)"

lemma forward_months:
  assumes "in_month base (month_index base + off) d" "0 \<le> off" "off \<le> 12 * interval"
    "off = 0 \<Longrightarrow> base < d"
  shows "forward_step base interval d"
proof -
  have "later_day base d"
    using assms(2,4) by (intro in_month_later[OF assms(1)]) (cases "off = 0"; simp)
  then show ?thesis using assms(1,3) by (simp add: forward_step_def in_month_def)
qed

lemma forward_days:
  assumes "0 < n" "n \<le> 28 * (12 * interval)"
  shows "forward_step base interval (base + n * ms_per_day)"
  unfolding forward_step_def
  using later_day_shift[OF assms(1), of base] shift_month_bound[OF assms(2), of base] assms by simp

context date_fns
begin

lemma addMonths_index:
  "getFullYear (addMonths h t n) = (month_index t + n) div 12"
  "getMonth (addMonths h t n) = (month_index t + n) mod 12"
  using month_index_year[of "addMonths h t n"] month_index_month[of "addMonths h t n"]
  by (simp_all only: addMonths_getters(1))

lemma addMonths_in_month: "in_month base (month_index base + n) (addMonths h base n)"
  by (simp add: in_month_def addMonths_getters)

lemma addMonths_forward: "0 < interval \<Longrightarrow> forward_step base interval (addMonths h base interval)"
  by (rule forward_months[OF addMonths_in_month]) simp_all

lemma monthly_search_forward:
  assumes i: "0 < interval" and y: "100 \<le> getFullYear base"
    and f: "find_map (\<lambda>off. first_after base off p (L off)) (loop_offsets interval 12) = Some d"
    and L: "\<And>off d. 0 \<le> off \<Longrightarrow> d \<in> set (L off) \<Longrightarrow> in_month base (month_index base + off) d"
  shows "forward_step base interval d"
proof -
  obtain off where off: "off \<in> set (loop_offsets interval 12)" "first_after base off p (L off) = Some d"
    using find_map_SomeD[OF f] by blast
  have r: "0 \<le> off" "off \<le> 12 * interval" using loop_offsets_range[OF i off(1)] by simp_all
  show ?thesis
    using forward_months[OF L[OF r(1) first_afterD(1)[OF off(2)]] r first_afterD(2)[OF off(2)]] .
qed

lemma nextMonthlyByDay_forward:
  assumes i: "0 < interval" and y: "100 \<le> getFullYear base"
  shows "forward_step base interval (nextMonthlyByDay h base byDay interval p)"
proof (cases "normalizeWeekdays (Some byDay)")
  case None
  then show ?thesis using addMonths_forward[OF i] by (simp add: nextMonthlyByDay_def)
next
  case (Some ds)
  let ?cs = "List.map_filter parseOrdinalByDay ds"
  let ?L = "\<lambda>off. remdups_adj (by_time (concat (map (by_day_candidates base
      ((month_index base + off) div 12) ((month_index base + off) mod 12)) ?cs)))"
  have n: "nextMonthlyByDay h base byDay interval p =
      (case find_map (\<lambda>off. first_after base off p (?L off)) (loop_offsets interval 12) of
         Some d \<Rightarrow> d | None \<Rightarrow> addMonths h base interval)"
    using i by (simp add: nextMonthlyByDay_def Some Let_def safe_interval_def addMonths_index)
  have L: "in_month base (month_index base + off) d" if o: "0 \<le> off" and d: "d \<in> set (?L off)" for off d
  proof -
    have k: "100 * 12 \<le> month_index base + off" using month_of_index[OF y] o by simp
    obtain c where "c \<in> set ?cs" "d \<in> set (by_day_candidates base
        ((month_index base + off) div 12) ((month_index base + off) mod 12) c)"
      using d by auto
    moreover from this obtain token where "parseOrdinalByDay token = Some c"
      by (auto simp: List.map_filter_def)
    ultimately show ?thesis using by_day_candidates_month[OF k] by blast
  qed
  show ?thesis
  proof (cases "find_map (\<lambda>off. first_after base off p (?L off)) (loop_offsets interval 12)")
    case None
    then show ?thesis using addMonths_forward[OF i] by (simp add: n)
  next
    case s: (Some d)
    have "forward_step base interval d" by (rule monthly_search_forward[OF i y s L])
    then show ?thesis by (simp add: n s)
  qed
qed

lemma nextMonthlyByMonthDay_forward:
  assumes i: "0 < interval" and y: "100 \<le> getFullYear base"
  shows "forward_step base interval (nextMonthlyByMonthDay h base days interval p)"
proof (cases "normalizeMonthDays (Some (map show_int days))")
  case None
  then show ?thesis using addMonths_forward[OF i] by (simp add: nextMonthlyByMonthDay_def)
next
  case (Some ds)
  let ?k = "\<lambda>off. month_index base + off"
  let ?L = "\<lambda>off. by_time (filter (\<lambda>d. getMonth d = ?k off mod 12)
      (map (month_day_date base (?k off div 12) (?k off mod 12)) ds))"
  have n: "nextMonthlyByMonthDay h base days interval p =
      (case find_map (\<lambda>off. first_after base off p (?L off)) (loop_offsets interval 12) of
         Some d \<Rightarrow> d | None \<Rightarrow> addMonths h base interval)"
    using i by (simp add: nextMonthlyByMonthDay_def Some Let_def safe_interval_def addMonths_index)
  have L: "in_month base (month_index base + off) d" if o: "0 \<le> off" and d: "d \<in> set (?L off)" for off d
  proof -
    have k: "100 * 12 \<le> ?k off" using month_of_index[OF y] o by simp
    obtain day where "day \<in> set ds" "d = month_day_date base (?k off div 12) (?k off mod 12) day"
      "getMonth d = ?k off mod 12"
      using d by auto
    then show ?thesis
      using month_day_date_month[OF k normalizeMonthDays_range[OF Some]] by blast
  qed
  show ?thesis
  proof (cases "find_map (\<lambda>off. first_after base off p (?L off)) (loop_offsets interval 12)")
    case None
    then show ?thesis using addMonths_forward[OF i] by (simp add: n)
  next
    case s: (Some d)
    have "forward_step base interval d" by (rule monthly_search_forward[OF i y s L])
    then show ?thesis by (simp add: n s)
  qed
qed

lemma eligible_forward:
  assumes "weekly_eligible base s days interval u" "0 < interval"
    "week_number s u \<le> week_number s base + interval"
  shows "forward_step base interval u"
proof -
  have l: "later_day base u" using assms(1) by (simp add: weekly_eligible_def later_day_def)
  let ?n = "u div ms_per_day - base div ms_per_day"
  have u: "u = base + ?n * ms_per_day"
    using day_split[of u] day_split[of base] l unfolding later_day_def
    by (simp only: left_diff_distrib)
  have "7 * week_number s u + week_pos s u = u div ms_per_day + 4 - s"
    "7 * week_number s base + week_pos s base = base div ms_per_day + 4 - s"
    by (simp_all add: week_number_def week_pos_def)
  then have "?n \<le> 28 * (12 * interval)"
    using assms(2,3) week_pos_range[of s u] week_pos_range[of s base] by linarith
  moreover have "0 < ?n"
    using l u unfolding later_day_def
    by (metis ms_per_day_pos less_add_same_cancel1 zero_less_mult_pos2)
  ultimately show ?thesis using forward_days[of ?n interval base] u by simp
qed

lemma nextWeeklyByDay_forward:
  assumes i: "0 < interval"
  shows "forward_step base interval (nextWeeklyByDay h base byDay interval weekStart)"
proof (cases "normalizeWeeklyByDay (Some byDay)")
  case None
  then show ?thesis
    using forward_days[of "interval * 7" interval base] i by (simp add: nextWeeklyByDay_def addWeeks_spec)
next
  case (Some ds)
  show ?thesis by (rule eligible_forward[OF weekly_least(1)[OF Some i] i weekly_least(3)[OF Some i]])
qed

lemma addInterval_forward:
  assumes "rule \<in> set RECURRENCE_RULES" "0 < interval" "100 \<le> getFullYear base" "1 \<le> or_else a 1"
  shows "forward_step base interval (addInterval h base rule interval a)"
proof (cases "calendar_rule rule")
  case True
  have o: "1 \<le> or_else a (getDate base)" using assms(4) getDate_bounds[of base] by (cases a) auto
  have r: "0 < rule_months rule * interval" "rule_months rule * interval \<le> 12 * interval"
    using assms(2) by (auto simp: rule_months_def)
  then have nz: "rule_months rule * interval \<noteq> 0" "0 \<le> rule_months rule * interval" by linarith+
  have "in_month base (month_index base + rule_months rule * interval) (addInterval h base rule interval a)"
    using addInterval_calendar[OF True assms(3), of interval h a] assms(2) clamp_to_getters[OF o, of base]
    by (simp add: in_month_def)
  from forward_months[OF this nz(2) r(2)] show ?thesis using nz(1) by blast
next
  case False
  then have "rule = ''daily'' \<or> rule = ''weekly''"
    using assms(1) by (auto simp: RECURRENCE_RULES_def calendar_rule_def)
  then show ?thesis
    using forward_days[of interval interval base] forward_days[of "interval * 7" interval base] assms(2)
    by (auto simp: addInterval_def addDays_spec addWeeks_spec)
qed

lemma next_date_forward:
  assumes "rule \<in> set RECURRENCE_RULES" "0 < interval" "100 \<le> getFullYear base" "1 \<le> or_else a 1"
  shows "forward_step base interval (next_date h base rule byDay interval byMonthDay weekStart a p)"
  using nextWeeklyByDay_forward[OF assms(2)] nextMonthlyByDay_forward[OF assms(2,3)]
    nextMonthlyByMonthDay_forward[OF assms(2,3)] addInterval_forward[OF assms]
  by (simp add: next_date_def)

end

subsection \<open>Writing the result and reading it back\<close>

lemma forward_trans:
  "forward_step a i b \<Longrightarrow> forward_step b j c \<Longrightarrow> forward_step a (i + j) c"
  by (auto simp: forward_step_def intro: later_day_trans)

lemma forward_year:
  assumes "forward_step base interval t" "100 \<le> getFullYear base"
    "getFullYear base + interval \<le> 9998"
  shows "printable_year t"
proof -
  have "base < t" "month_index t \<le> month_index base + 12 * interval"
    using assms(1) by (simp_all add: forward_step_def later_day_def)
  then have "month_index base \<le> month_index t" "month_index t \<le> month_index base + 12 * interval"
    using month_mono[of base t] by simp_all
  then show ?thesis
    using assms(2,3) getMonth_bounds[of base] getMonth_bounds[of t]
    unfolding printable_year_def month_index_def by linarith
qed

context date_fns
begin

lemma format_like_later:
  assumes p: "safeParseDate h (Some s) = Some t" and l: "later_day t n" and y: "printable_year n"
  shows "\<exists>u. safeParseDate h (Some (format_like h (Some s) t n)) = Some u \<and> t < u"
proof -
  have far: "t + ms_per_day \<le> n" by (rule later_day_whole[OF l])
  have day: "n < n div ms_per_day * ms_per_day + ms_per_day"
    using day_split[of n] clock_bounds[of n] by linarith
  have min: "n < minute_floor n + 60000" by (rule minute_floor_bounds)
  have ny: "\<not> (0 \<le> getFullYear n \<and> getFullYear n \<le> 99)" using y by (simp add: printable_year_def)
  have "buildDateWithTime (getFullYear n) (getMonth n) (getDate n) t =
      time_at (month_index n) (getDate n) (t mod ms_per_day)"
    unfolding buildDateWithTime_def new_date_time_at[OF ny] by (simp add: month_index_def)
  also have "\<dots> = n" using time_at_parts[of n] l by (simp add: later_day_def)
  finally have same: "buildDateWithTime (getFullYear n) (getMonth n) (getDate n) t = n" .
  show ?thesis
  proof (cases "is_date_only s")
    case True
    then show ?thesis
      using parse_day_string[OF y] far day by (simp add: format_like_def formatDay_spec[OF y])
  next
    case False
    show ?thesis
    proof (cases "hasTimezoneSuffix s")
      case True
      then show ?thesis
        using False parse_to_iso[OF y] l by (simp add: format_like_def later_day_def)
    next
      case local: False
      have "t < minute_floor n" using far min by (simp add: ms_per_day_def)
      then show ?thesis
        using False local parse_minute_string[OF y]
        by (simp add: format_like_def Let_def same formatMinutes_spec[OF y])
    qed
  qed
qed

text \<open>Both functions write a date a forward step away, in the form the base has.\<close>

lemma nextIsoFrom_forward:
  assumes "safeParseDate h (Some s) = Some t" "rule \<in> set RECURRENCE_RULES" "0 < interval"
    "100 \<le> getFullYear t" "1 \<le> or_else a 1"
  obtains n where "forward_step t interval n"
    "nextIsoFrom h (Some s) rule fallback byDay interval byMonthDay weekStart None a p =
      Some (format_like h (Some s) t n)"
proof -
  have a: "1 \<le> or_else (Some (or_else a (getDate t))) 1"
    using assms(5) getDate_bounds[of t] by (cases a) auto
  show thesis
    by (rule that[OF next_date_forward[OF assms(2-4) a, of byDay byMonthDay weekStart p]])
      (simp add: nextIsoFrom_def Let_def assms(1))
qed

lemma nextFluidIsoFrom_forward:
  assumes "safeParseDate h (Some s) = Some t" "rule \<in> set RECURRENCE_RULES" "0 < interval"
    "100 \<le> getFullYear t"
  obtains n where "forward_step t interval n"
    "nextFluidIsoFrom h (Some s) rule fallback byDay interval byMonthDay weekStart p =
      Some (format_like h (Some s) t n)"
proof -
  define shifted where "shifted = (if rule = ''weekly'' then addWeeks h t (interval - 1)
    else addMonths h t (interval - 1))"
  have sh: "forward_step t (interval - 1) shifted" if "1 < interval"
    using that forward_days[of "(interval - 1) * 7" "interval - 1" t] addMonths_forward[of "interval - 1" t]
    by (simp add: shifted_def addWeeks_spec)
  have sy: "100 \<le> getFullYear shifted" if "1 < interval"
  proof -
    have "month_index t \<le> month_index shifted"
      using sh[OF that] by (intro month_mono) (simp add: forward_step_def later_day_def)
    then show ?thesis
      using assms(4) getMonth_bounds[of t] getMonth_bounds[of shifted] unfolding month_index_def by linarith
  qed
  let ?n = "next_date h shifted rule byDay 1 byMonthDay weekStart (Some (getDate t)) p"
  show thesis
  proof (cases "(rule = ''weekly'' \<and> or_else byDay [] \<noteq> [] \<or>
      rule = ''monthly'' \<and> (or_else byDay [] \<noteq> [] \<or> or_else byMonthDay [] \<noteq> [])) \<and> 1 < interval")
    case True
    then have i: "1 < interval" by simp
    have "1 \<le> or_else (Some (getDate t)) 1" using getDate_bounds[of t] by simp
    from forward_trans[OF sh[OF i] next_date_forward[OF assms(2) zero_less_one sy[OF i] this,
      of byDay byMonthDay weekStart p]]
    have f: "forward_step t interval ?n" by simp
    have c: "\<not> (\<not> (rule = ''weekly'' \<and> or_else byDay [] \<noteq> [] \<or>
        rule = ''monthly'' \<and> (or_else byDay [] \<noteq> [] \<or> or_else byMonthDay [] \<noteq> [])) \<or> interval \<le> 1)"
      using True by auto
    have "nextFluidIsoFrom h (Some s) rule fallback byDay interval byMonthDay weekStart p =
        Some (format_like h (Some s) t ?n)"
      unfolding nextFluidIsoFrom_def Let_def if_not_P[OF c]
      by (simp add: nextIsoFrom_def Let_def shifted_def assms(1))
    with f show ?thesis by (rule that)
  next
    case False
    then have e: "nextFluidIsoFrom h (Some s) rule fallback byDay interval byMonthDay weekStart p =
        nextIsoFrom h (Some s) rule fallback byDay interval byMonthDay weekStart None None p"
      unfolding nextFluidIsoFrom_def Let_def by (metis linorder_not_le)
    show ?thesis
      by (rule nextIsoFrom_forward[OF assms, where a = None and fallback = fallback and byDay = byDay
          and byMonthDay = byMonthDay and weekStart = weekStart and p = p]) (use that e in simp_all)
  qed
qed

lemma nextIsoFrom_later:
  assumes "safeParseDate h (Some s) = Some t" "rule \<in> set RECURRENCE_RULES" "0 < interval"
    "100 \<le> getFullYear t" "getFullYear t + interval \<le> 9998" "1 \<le> or_else a 1"
  shows "\<exists>v u. nextIsoFrom h (Some s) rule fallback byDay interval byMonthDay weekStart None a p = Some v \<and>
    safeParseDate h (Some v) = Some u \<and> t < u"
proof -
  obtain n where n: "forward_step t interval n"
    "nextIsoFrom h (Some s) rule fallback byDay interval byMonthDay weekStart None a p =
      Some (format_like h (Some s) t n)"
    by (rule nextIsoFrom_forward[OF assms(1-4,6)])
  from n(1) have "later_day t n" by (simp add: forward_step_def)
  from format_like_later[OF assms(1) this forward_year[OF n(1) assms(4,5)]] show ?thesis using n(2) by simp
qed

lemma nextFluidIsoFrom_later:
  assumes "safeParseDate h (Some s) = Some t" "rule \<in> set RECURRENCE_RULES" "0 < interval"
    "100 \<le> getFullYear t" "getFullYear t + interval \<le> 9998"
  shows "\<exists>v u. nextFluidIsoFrom h (Some s) rule fallback byDay interval byMonthDay weekStart p = Some v \<and>
    safeParseDate h (Some v) = Some u \<and> t < u"
proof -
  obtain n where n: "forward_step t interval n"
    "nextFluidIsoFrom h (Some s) rule fallback byDay interval byMonthDay weekStart p =
      Some (format_like h (Some s) t n)"
    by (rule nextFluidIsoFrom_forward[OF assms(1-4)])
  from n(1) have "later_day t n" by (simp add: forward_step_def)
  from format_like_later[OF assms(1) this forward_year[OF n(1) assms(4,5)]] show ?thesis using n(2) by simp
qed

end

subsection \<open>What the next occurrence promises\<close>

text \<open>
  C5: The next weekly occurrence is the earliest admissible one: it falls on a chosen weekday, later
  than the base and at its time of day, in a week a whole number of intervals after the base's week
  as the rule's week start counts them, and no earlier date qualifies.
\<close>

theorem weekly_occurrence_least:
  assumes "date_fns h" and "normalizeWeeklyByDay (Some byDay) = Some ds" and "0 < interval"
  shows "weekly_eligible base (weekdayIndex (week_start_of weekStart)) ds interval
      (nextWeeklyByDay h base byDay interval weekStart) \<and>
    (weekly_eligible base (weekdayIndex (week_start_of weekStart)) ds interval u \<longrightarrow>
      nextWeeklyByDay h base byDay interval weekStart \<le> u)"
  using date_fns.weekly_least[OF assms] by blast

lemma weekly_occurrence_least_witness:
  "weekly_eligible 1706659200000 1 [''MO'', ''FR''] 2
      (nextWeeklyByDay calendar_host 1706659200000 [''MO'', ''FR''] 2 (Some ''MO'')) \<and>
    nextWeeklyByDay calendar_host 1706659200000 [''MO'', ''FR''] 2 (Some ''MO'') \<le> 1707696000000"
proof -
  have "normalizeWeeklyByDay (Some [''MO'', ''FR'']) = Some [''MO'', ''FR'']"
    "weekdayIndex (week_start_of (Some ''MO'')) = 1"
    "weekly_eligible 1706659200000 1 [''MO'', ''FR''] 2 1707696000000"
    by code_simp+
  then show ?thesis
    using weekly_occurrence_least[OF calendar.date_fns_axioms, of "[''MO'', ''FR'']" "[''MO'', ''FR'']" 2
        1706659200000 "Some ''MO''" 1707696000000] by simp
qed

text \<open>
  C6: The next occurrence always lies ahead: for every rule, interval and selector the date written
  for the next occurrence reads back and is strictly later than the one it was computed from, both
  for a fixed schedule and for one that repeats after completion.
\<close>

theorem next_occurrence_later:
  assumes "date_fns h" and "safeParseDate h (Some s) = Some t" and "rule \<in> set RECURRENCE_RULES"
    and "0 < interval" and "100 \<le> getFullYear t" "getFullYear t + interval \<le> 9998" and "1 \<le> or_else a 1"
  shows "(\<exists>v u. nextIsoFrom h (Some s) rule fallback byDay interval byMonthDay weekStart None a p = Some v \<and>
      safeParseDate h (Some v) = Some u \<and> t < u) \<and>
    (\<exists>v u. nextFluidIsoFrom h (Some s) rule fallback byDay interval byMonthDay weekStart p = Some v \<and>
      safeParseDate h (Some v) = Some u \<and> t < u)"
  using date_fns.nextIsoFrom_later[OF assms] date_fns.nextFluidIsoFrom_later[OF assms(1-6)] by blast

lemma next_occurrence_later_witness:
  "(\<exists>v u. nextIsoFrom calendar_host (Some ''2024-01-31'') ''monthly'' 0 (Some [''-1FR'']) 2 None None None (Some 31) None = Some v \<and>
      safeParseDate calendar_host (Some v) = Some u \<and> 1706659200000 < u) \<and>
    (\<exists>v u. nextFluidIsoFrom calendar_host (Some ''2024-01-31'') ''monthly'' 0 (Some [''-1FR'']) 2 None None None = Some v \<and>
      safeParseDate calendar_host (Some v) = Some u \<and> 1706659200000 < u)"
proof -
  have "safeParseDate calendar_host (Some ''2024-01-31'') = Some 1706659200000" "100 \<le> getFullYear 1706659200000"
    "getFullYear 1706659200000 + 2 \<le> 9998" by code_simp+
  then show ?thesis
    using next_occurrence_later[OF calendar.date_fns_axioms, of "''2024-01-31''" 1706659200000 "''monthly''" 2
      "Some 31" 0 "Some [''-1FR'']" None None None] by (simp add: RECURRENCE_RULES_def)
qed

end
