(* ===== verification/RecurrenceBuild.thy ===== *)
theory RecurrenceBuild
  imports RecurrenceProject RecurrenceForward
begin

text \<open>
  Completing a recurring task in \<open>recurrence.ts\<close>. The calendar arithmetic is done once and
  frozen in a projection (\<open>projectNextRecurringTask\<close>); \<open>buildNextRecurringTask\<close> checks the
  projection against the task it is given and builds the follow-up from it without a
  calendar. Its exceptions are the \<open>Inl\<close> results, with the message of the source.
\<close>

subsection \<open>Frozen instants\<close>

record frozen_instant =
  fi_epochMs :: int
  fi_offsetMinutes :: int
  fi_local :: string

datatype until_comparison =
    LocalDay frozen_instant string string
  | Epoch frozen_instant frozen_instant int int

record frozen_until =
  fu_normalized :: string
  fu_comparison :: "until_comparison option"
  fu_rruleUntilToken :: "string option"

record recurrence_projection =
  rp_version :: int
  rp_sourceAnchorDays :: anchor_days
  rp_candidate :: schedule_dates
  rp_relativeStartOffset :: "relative_start_offset option"
  rp_rruleUntilSourceToken :: "string option"
  rp_until :: "frozen_until option"
  rp_rruleText :: "string option"

text \<open>The host zone is UTC: \<open>getTimezoneOffset\<close> is zero.\<close>

definition freezeRecurrenceInstant :: "host \<Rightarrow> int \<Rightarrow> frozen_instant" where
  "freezeRecurrenceInstant h date =
     \<lparr>fi_epochMs = date, fi_offsetMinutes = 0, fi_local = formatMillis h date\<rparr>"

definition eat_digits :: "nat \<Rightarrow> char \<Rightarrow> string \<Rightarrow> (int \<times> string) option" where
  "eat_digits n c s = Option.bind (eat c s) (read_digits n 0)"

text \<open>\<open>^\d{4}-\d{2}-\d{2}T\d{2}:\d{2}:\d{2}\.\d{3}$\<close>\<close>

definition is_local_instant :: "string \<Rightarrow> bool" where
  "is_local_instant s = (at_end
     (Option.bind (match_ymd s) (\<lambda>(_, r). Option.bind (eat_digits2 (CHR ''T'') r) (\<lambda>(_, r1).
      Option.bind (eat_digits2 (CHR '':'') r1) (\<lambda>(_, r2). Option.bind (eat_digits2 (CHR '':'') r2) (\<lambda>(_, r3).
      eat_digits 3 (CHR ''.'') r3))))) \<noteq> None)"

text \<open>
  \<open>^(\d{4}-\d{2}-\d{2}T\d{2}:\d{2})(?::(\d{2})(?:\.(\d{1,3}))?)?$\<close>: the seconds and the
  fraction; the first group is the first sixteen characters.
\<close>

definition match_floating :: "string \<Rightarrow> (string option \<times> string option) option" where
  "match_floating s =
     Option.bind (match_ymd s) (\<lambda>(_, r). Option.bind (eat_digits2 (CHR ''T'') r) (\<lambda>(_, r1).
     Option.bind (eat_digits2 (CHR '':'') r1) (\<lambda>(_, r2).
       (case opt_group (eat_digits2 (CHR '':'')) r2 of (sec, r3) \<Rightarrow>
        case (if sec = None then (None, r3) else opt_group fraction13 r3) of (f, r4) \<Rightarrow>
          if r4 = [] then Some (map_option (\<lambda>_. take 2 (tl r2)) sec, f) else None))))"

definition pad_end3 :: "string \<Rightarrow> string" where
  "pad_end3 s = s @ replicate (3 - length s) (CHR ''0'')"

definition frozenInstantMatches :: "string \<Rightarrow> frozen_instant \<Rightarrow> bool" where
  "frozenInstantMatches raw frozen =
     (if \<bar>fi_offsetMinutes frozen\<bar> > 840 \<or> \<not> is_local_instant (fi_local frozen) then False
      else if (case date_parse (fi_local frozen @ ''Z'') of None \<Rightarrow> True
        | Some wallUtc \<Rightarrow> wallUtc + fi_offsetMinutes frozen * 60000 \<noteq> fi_epochMs frozen) then False
      else if is_date_only raw \<and> fi_local frozen \<noteq> raw @ ''T00:00:00.000'' then False
      else if (case match_floating raw of None \<Rightarrow> False
        | Some (sec, f) \<Rightarrow> fi_local frozen \<noteq>
            take 16 raw @ '':'' @ or_else sec ''00'' @ ''.'' @ pad_end3 (or_else f [])) then False
      else if hasTimezoneSuffix (js_upper raw) \<and> date_parse raw \<noteq> Some (fi_epochMs frozen) then False
      else True)"

subsection \<open>Freezing the next occurrence\<close>

definition completed_at_date :: "host \<Rightarrow> int \<Rightarrow> string \<Rightarrow> int" where
  "completed_at_date h now completedAtIso =
     or_else (safeParseDate h (Some completedAtIso)) (or_else (date_parse completedAtIso) now)"

definition compare_until :: "host \<Rightarrow> string option \<Rightarrow> string option \<Rightarrow> until_comparison option" where
  "compare_until h candidate until =
     (case (safeParseDate h candidate, until) of
        (Some candidateDate, Some u) \<Rightarrow>
          if u = [] then None
          else if is_date_only u then
            Some (LocalDay (freezeRecurrenceInstant h candidateDate) (formatDay h candidateDate) u)
          else (case safeParseDate h (Some u) of None \<Rightarrow> None
            | Some untilDate \<Rightarrow> Some (Epoch (freezeRecurrenceInstant h candidateDate)
                (freezeRecurrenceInstant h untilDate) candidateDate untilDate))
      | _ \<Rightarrow> None)"

definition rrule_of :: "task_recurrence option \<Rightarrow> string option" where
  "rrule_of value = (case value of Some (RecObj r) \<Rightarrow> if truthy (rec_rrule r) then rec_rrule r else None
     | _ \<Rightarrow> None)"

text \<open>The selected anchor, moved by the strategy of the recurrence.\<close>

definition next_anchor_iso :: "host \<Rightarrow> task \<Rightarrow> string \<Rightarrow> string \<Rightarrow> int \<Rightarrow> schedule_field \<Rightarrow> string option" where
  "next_anchor_iso h t rule completedAtIso completedAtDate field =
     (let recurrence = t_recurrence t; sourceAnchorIso = sd_get (task_dates t) field;
          byDay = getRecurrenceByDay recurrence; byMonthDay = getRecurrenceByMonthDay recurrence;
          bySetPos = getRecurrenceBySetPos recurrence; interval = getRecurrenceInterval recurrence;
          weekStart = getRecurrenceWeekStart recurrence;
          anchors = resolveRecurrenceFieldAnchorDays h recurrence (task_dates t)
      in preserveDateOnlyFormat h
           (if getRecurrenceStrategy recurrence = ''fluid''
            then nextFluidIsoFrom h (Some completedAtIso) rule completedAtDate byDay interval byMonthDay
              weekStart bySetPos
            else nextIsoFrom h sourceAnchorIso rule completedAtDate byDay interval byMonthDay weekStart
              None (ad_get anchors field) bySetPos) sourceAnchorIso)"

text \<open>
  A late completion of a strict task whose rebuilt start is not after the completion moves the
  whole schedule to the first due date the catch-up finds.
\<close>

definition candidate_dates :: "host \<Rightarrow> task \<Rightarrow> string \<Rightarrow> string \<Rightarrow> int \<Rightarrow> bool \<Rightarrow> schedule_dates" where
  "candidate_dates h t rule completedAtIso completedAtDate advanceOne =
     (let recurrence = t_recurrence t; dates = task_dates t in
      case getRecurrenceScheduleAnchorField dates of
        None \<Rightarrow> no_dates
      | Some field \<Rightarrow>
          (let nextAnchorIso = next_anchor_iso h t rule completedAtIso completedAtDate field;
               rebuilt = (if truthy nextAnchorIso
                 then rebuildScheduleFieldsFromAnchor h dates field (or_else nextAnchorIso []) else no_dates);
               late = (getRecurrenceStrategy recurrence = ''strict'' \<and> \<not> advanceOne \<and> field = DueDate \<and>
                 truthy (t_startTime t) \<and> truthy (sd_startTime rebuilt) \<and> t_relativeStartOffset t = None \<and>
                 (case safeParseDate h (sd_startTime rebuilt) of None \<Rightarrow> False
                  | Some nextStart \<Rightarrow> nextStart \<le> completedAtDate))
           in if late then
                (let caughtUp = pi_iso (projectStrictIsoFrom h (t_dueDate t) rule completedAtDate
                       (getRecurrenceByDay recurrence) (getRecurrenceInterval recurrence)
                       (getRecurrenceByMonthDay recurrence) (getRecurrenceWeekStart recurrence)
                       (ad_dueDate (resolveRecurrenceFieldAnchorDays h recurrence dates))
                       (getRecurrenceBySetPos recurrence))
                 in if truthy caughtUp
                    then rebuildScheduleFieldsFromAnchor h dates field
                      (or_else (preserveDateOnlyFormat h caughtUp (t_dueDate t)) [])
                    else rebuilt)
              else rebuilt))"

definition with_relative_start :: "host \<Rightarrow> task \<Rightarrow> schedule_dates \<Rightarrow>
    schedule_dates \<times> relative_start_offset option" where
  "with_relative_start h t dates =
     (case t_relativeStartOffset t of
        None \<Rightarrow> (dates, None)
      | Some offset \<Rightarrow>
          if \<not> truthy (sd_dueDate dates) then (dates, None)
          else (let computedStartTime = computeRelativeStartTime h (sd_dueDate dates) (Some offset)
                in if truthy computedStartTime
                   then (dates\<lparr>sd_startTime := computedStartTime\<rparr>, Some offset)
                   else (dates, None)))"

definition fallback_start :: "host \<Rightarrow> task \<Rightarrow> string \<Rightarrow> string \<Rightarrow> int \<Rightarrow> string option" where
  "fallback_start h t rule completedAtIso completedAtDate =
     (let recurrence = t_recurrence t;
          datePart = (if match_ymd completedAtIso \<noteq> None then take 10 completedAtIso
            else formatDay h completedAtDate)
      in nextFluidIsoFrom h (Some datePart) rule completedAtDate (getRecurrenceByDay recurrence)
           (getRecurrenceInterval recurrence) (getRecurrenceByMonthDay recurrence)
           (getRecurrenceWeekStart recurrence) (getRecurrenceBySetPos recurrence))"

definition projectNextRecurringTask :: "host \<Rightarrow> int \<Rightarrow> task \<Rightarrow> string \<Rightarrow> bool \<Rightarrow> recurrence_projection option" where
  "projectNextRecurringTask h now t completedAtIso advanceOne =
     (let recurrence = t_recurrence t in
      case getRecurrenceRule recurrence of
        None \<Rightarrow> None
      | Some rule \<Rightarrow>
          (let completedAtDate = completed_at_date h now completedAtIso;
               moved = with_relative_start h t
                 (candidate_dates h t rule completedAtIso completedAtDate advanceOne);
               candidate = (if \<not> truthy (sd_startTime (fst moved)) \<and> \<not> truthy (sd_dueDate (fst moved))
                   \<and> \<not> truthy (sd_reviewAt (fst moved))
                 then (fst moved)\<lparr>sd_startTime := fallback_start h t rule completedAtIso completedAtDate\<rparr>
                 else fst moved);
               until = getRecurrenceUntilValue h recurrence
           in Some \<lparr>rp_version = 1,
                rp_sourceAnchorDays = resolveRecurrenceFieldAnchorDays h recurrence (task_dates t),
                rp_candidate = candidate, rp_relativeStartOffset = snd moved,
                rp_rruleUntilSourceToken = Option.bind (rrule_of recurrence) (\<lambda>r. rruleTokens r ''UNTIL''),
                rp_until = (if truthy until then
                  Some \<lparr>fu_normalized = or_else until [],
                    fu_comparison = compare_until h (occurrence_anchor candidate) until,
                    fu_rruleUntilToken = formatUntilToken h until\<rparr> else None),
                rp_rruleText = map_option (\<lambda>_. buildRRuleString h rule (getRecurrenceByDay recurrence)
                    (Some (getRecurrenceInterval recurrence)) (getRecurrenceByMonthDay recurrence)
                    (getRecurrenceBySetPos recurrence) (getRecurrenceWeekStart recurrence)
                    (getRecurrenceCountValue recurrence) until) (rrule_of recurrence)\<rparr>))"

subsection \<open>Checking a projection\<close>

text \<open>\<open>^\d{4}-\d{2}-\d{2}(?:T\d{2}:\d{2}(?::\d{2}(?:\.\d{1,3})?)?)?$\<close>\<close>

definition is_floating_date :: "string \<Rightarrow> bool" where
  "is_floating_date s = (is_date_only s \<or> match_floating s \<noteq> None)"

text \<open>The same with an optional zone, \<open>(?:Z|[+-]\d{2}:?\d{2})?\<close>, after a clock.\<close>

definition is_structured :: "string \<Rightarrow> bool" where
  "is_structured s =
     (is_floating_date s \<or>
      (case Option.bind (match_ymd s) (\<lambda>(_, r). Option.bind (eat_digits2 (CHR ''T'') r) (\<lambda>(_, r1).
          eat_digits2 (CHR '':'') r1)) of
         None \<Rightarrow> False
       | Some (_, r2) \<Rightarrow>
           (case opt_group (eat_digits2 (CHR '':'')) r2 of (sec, r3) \<Rightarrow>
            case (if sec = None then (None, r3) else opt_group fraction13 r3) of (_, r4) \<Rightarrow>
              zone_suffix r4)))"

definition anchor_day_matches :: "host \<Rightarrow> task \<Rightarrow> anchor_days \<Rightarrow> schedule_field \<Rightarrow> bool" where
  "anchor_day_matches h t days field =
     (let owner = getRecurrenceScheduleAnchorField (task_dates t);
          anchor = ad_get days field; value = sd_get (task_dates t) field;
          explicit = js_nullish (getRecurrenceFieldAnchorDay (t_recurrence t) field)
            (if Some field = owner then global_anchor (t_recurrence t) else None)
      in if \<not> truthy value then anchor = explicit
         else if anchor = None \<and> explicit = None \<and> safeParseDate h value = None then True
         else (case anchor of None \<Rightarrow> False
           | Some a \<Rightarrow>
               if a < 1 \<or> a > 31 then False
               else if explicit \<noteq> None \<and> anchor \<noteq> explicit then False
               else if explicit = None \<and> is_floating_date (or_else value []) \<and>
                 js_Number (take 2 (drop 8 (or_else value []))) \<noteq> Some a then False
               else True))"

definition sourceAnchorDaysMatch :: "host \<Rightarrow> task \<Rightarrow> anchor_days \<Rightarrow> bool" where
  "sourceAnchorDaysMatch h t days =
     list_all (anchor_day_matches h t days) [StartTime, DueDate, ReviewAt]"

type_synonym 'a checked = "string + 'a"

definition stopAtFrozenUntil :: "schedule_dates \<Rightarrow> frozen_until option \<Rightarrow> bool checked" where
  "stopAtFrozenUntil candidate until =
     (case until of
        None \<Rightarrow> Inr False
      | Some u \<Rightarrow>
          (let anchor = occurrence_anchor candidate in
           if \<not> truthy anchor \<or> fu_comparison u = None then
             (if fu_comparison u \<noteq> None \<or>
                (truthy anchor \<and> is_structured (or_else anchor []) \<and> is_structured (fu_normalized u))
              then Inl ''Missing recurrence UNTIL comparison'' else Inr False)
           else (case fu_comparison u of
               Some (LocalDay witness candidateDay untilDay) \<Rightarrow>
                 if \<not> frozenInstantMatches (or_else anchor []) witness
                 then Inl ''Invalid recurrence candidate witness''
                 else if \<not> is_date_only (fu_normalized u) \<or> candidateDay \<noteq> take 10 (fi_local witness)
                   \<or> untilDay \<noteq> fu_normalized u
                 then Inl ''Invalid recurrence day comparison''
                 else Inr (untilDay < candidateDay)
             | Some (Epoch witness untilInstant candidateMs untilMs) \<Rightarrow>
                 if \<not> frozenInstantMatches (or_else anchor []) witness
                 then Inl ''Invalid recurrence candidate witness''
                 else if is_date_only (fu_normalized u)
                   \<or> \<not> frozenInstantMatches (fu_normalized u) untilInstant
                   \<or> candidateMs \<noteq> fi_epochMs witness \<or> untilMs \<noteq> fi_epochMs untilInstant
                 then Inl ''Invalid recurrence instant comparison''
                 else Inr (untilMs < candidateMs))))"

text \<open>\<open>toISOString().replace(/[-:]/g, '').replace(/\.\d{3}Z$/, 'Z')\<close>\<close>

definition compact_iso :: "int \<Rightarrow> string" where
  "compact_iso t = (let s = filter (\<lambda>c. c \<noteq> CHR ''-'' \<and> c \<noteq> CHR '':'') (to_iso t)
     in take (length s - 5) s @ ''Z'')"

definition is_utc_token :: "string \<Rightarrow> bool" where
  "is_utc_token s =
     (case match_until s of None \<Rightarrow> False
      | Some (_, None) \<Rightarrow> True
      | Some (_, Some (_, _, _, isUtc)) \<Rightarrow> isUtc)"

text \<open>The checks of the recurrence against the projection, in the order of the source.\<close>

definition check_recurrence :: "host \<Rightarrow> task \<Rightarrow> string \<Rightarrow> recurrence_projection \<Rightarrow> string option" where
  "check_recurrence h t rule p =
     (let recurrence = t_recurrence t; rrule = rrule_of recurrence;
          explicitUntil = (case recurrence of Some (RecObj r) \<Rightarrow>
            if truthy (rec_until r) then rec_until r else None | _ \<Rightarrow> None);
          until = map_option fu_normalized (rp_until p);
          token = rp_rruleUntilSourceToken p;
          base = buildRRuleString h rule (getRecurrenceByDay recurrence)
            (Some (getRecurrenceInterval recurrence)) (getRecurrenceByMonthDay recurrence)
            (getRecurrenceBySetPos recurrence) (getRecurrenceWeekStart recurrence)
            (getRecurrenceCountValue recurrence) None;
          untilToken = Option.bind (rp_until p) fu_rruleUntilToken;
          expected = (if truthy untilToken then base @ '';UNTIL='' @ or_else untilToken [] else base)
      in if explicitUntil \<noteq> None \<and> explicitUntil \<noteq> until then Some ''Invalid recurrence UNTIL source''
         else if (case rrule of None \<Rightarrow> False | Some s \<Rightarrow> rruleTokens s ''UNTIL'' \<noteq> token)
         then Some ''Invalid recurrence UNTIL token''
         else if explicitUntil = None \<and> truthy token \<and> is_utc_token (or_else token []) \<and>
           parseUntilToken h token \<noteq> until
         then Some ''Invalid recurrence UNTIL source''
         else if rrule = None \<and> token \<noteq> None then Some ''Unexpected recurrence UNTIL token''
         else if \<not> truthy until \<and> rp_until p \<noteq> None then Some ''Invalid recurrence UNTIL projection''
         else if rrule \<noteq> None \<and> rp_rruleText p \<noteq> Some expected
         then Some ''Invalid recurrence RRULE projection''
         else if rrule = None \<and> rp_rruleText p \<noteq> None
         then Some ''Unexpected recurrence RRULE projection''
         else None)"

definition offset_text :: "relative_start_offset option \<Rightarrow> string option" where
  "offset_text v = stringify (j_opt relative_start_offset_json v)"

definition had_schedule :: "task \<Rightarrow> bool" where
  "had_schedule t = (truthy (t_startTime t) \<or> truthy (t_dueDate t) \<or> truthy (t_reviewAt t))"

definition field_complete :: "task \<Rightarrow> recurrence_projection \<Rightarrow> schedule_field \<Rightarrow> bool" where
  "field_complete t p field =
     (truthy (sd_get (task_dates t) field) = truthy (sd_get (rp_candidate p) field) \<or>
      field = StartTime \<and> truthy (sd_startTime (rp_candidate p)) \<and>
        (\<not> had_schedule t \<or> rp_relativeStartOffset p \<noteq> None \<and> truthy (sd_dueDate (rp_candidate p))))"

definition check_candidate :: "task \<Rightarrow> recurrence_projection \<Rightarrow> string option" where
  "check_candidate t p =
     (if rp_relativeStartOffset p \<noteq> None \<and>
        offset_text (rp_relativeStartOffset p) \<noteq> offset_text (t_relativeStartOffset t)
      then Some ''Invalid recurrence relative start offset''
      else if \<not> list_all (field_complete t p) [StartTime, DueDate, ReviewAt]
      then Some ''Incomplete recurrence candidate''
      else if \<not> had_schedule t \<and> \<not> truthy (sd_startTime (rp_candidate p))
      then Some ''Missing recurrence fallback candidate''
      else None)"

definition check_until_token :: "recurrence_projection \<Rightarrow> string option" where
  "check_until_token p =
     (case rp_until p of None \<Rightarrow> None
      | Some u \<Rightarrow>
          if \<not> truthy (fu_rruleUntilToken u) then None
          else (let expectedToken = (case fu_comparison u of
                  Some (Epoch _ _ _ untilMs) \<Rightarrow> Some (compact_iso untilMs)
                | _ \<Rightarrow> if is_date_only (fu_normalized u)
                    then Some (filter (\<lambda>c. c \<noteq> CHR ''-'') (fu_normalized u)) else None)
                in if fu_rruleUntilToken u \<noteq> expectedToken
                   then Some ''Invalid recurrence UNTIL token projection'' else None))"

subsection \<open>The follow-up\<close>

definition next_recurrence :: "task \<Rightarrow> string \<Rightarrow> recurrence_projection \<Rightarrow> recurrence" where
  "next_recurrence t rule p =
     (let value = t_recurrence t;
          seriesId = (case value of Some (RecObj r) \<Rightarrow>
              (case rec_seriesId r of None \<Rightarrow> eid t
               | Some s \<Rightarrow> if js_trim s = [] then eid t else js_trim s)
            | _ \<Rightarrow> eid t);
          count = getRecurrenceCountValue value;
          until = map_option fu_normalized (rp_until p);
          anchors = getNextRecurrenceAnchorDays value rule (rp_sourceAnchorDays p)
      in case value of
           Some (RecObj r) \<Rightarrow>
             r\<lparr>rec_seriesId := Some seriesId,
               rec_anchorDay := js_nullish (fst anchors) (rec_anchorDay r),
               rec_startAnchorDay := js_nullish (ad_startTime (snd anchors)) (rec_startAnchorDay r),
               rec_dueAnchorDay := js_nullish (ad_dueDate (snd anchors)) (rec_dueAnchorDay r),
               rec_reviewAnchorDay := js_nullish (ad_reviewAt (snd anchors)) (rec_reviewAnchorDay r),
               rec_byMonthDay := js_nullish (getRecurrenceByMonthDay value) (rec_byMonthDay r),
               rec_count := count,
               rec_until := (if rec_until r \<noteq> None \<or> truthy until then until else rec_until r),
               rec_completedOccurrences := (if count \<noteq> None
                 then Some (or_else (getRecurrenceCompletedOccurrencesValue value) 0 + 1)
                 else rec_completedOccurrences r),
               rec_rrule := (if truthy (rec_rrule r) then rp_rruleText p else rec_rrule r)\<rparr>
         | _ \<Rightarrow>
             (recurrence_of_rule rule)\<lparr>rec_seriesId := Some seriesId, rec_anchorDay := fst anchors,
               rec_startAnchorDay := ad_startTime (snd anchors),
               rec_dueAnchorDay := ad_dueDate (snd anchors),
               rec_reviewAnchorDay := ad_reviewAt (snd anchors)\<rparr>)"

definition follow_up_task :: "task \<Rightarrow> string \<Rightarrow> task_status \<Rightarrow> recurrence_projection \<Rightarrow> string \<Rightarrow> string \<Rightarrow>
    attachment list \<Rightarrow> checklist_item list option \<Rightarrow> task" where
  "follow_up_task t completedAtIso previousStatus p rule id1 attachments checklist =
     \<lparr>eid = id1, createdAt = completedAtIso, updatedAt = completedAtIso, deletedAt = None, rev = None,
      revBy = None, t_title = t_title t,
      t_status = (if previousStatus = Done \<or> previousStatus = Archived then Next else previousStatus),
      t_priority = t_priority t, t_energyLevel = t_energyLevel t, t_assignedTo = t_assignedTo t,
      t_taskMode = t_taskMode t, t_startTime = sd_startTime (rp_candidate p),
      t_relativeStartOffset = rp_relativeStartOffset p, t_dueDate = sd_dueDate (rp_candidate p),
      t_recurrence = Some (RecObj (next_recurrence t rule p)),
      t_showFutureRecurrence = (if t_showFutureRecurrence t = Some True then Some True else None),
      t_pushCount = None, t_tags = t_tags t, t_contexts = t_contexts t, t_checklist = checklist,
      t_description = t_description t, t_textDirection = t_textDirection t,
      t_attachments = (if attachments = [] then None else Some attachments), t_location = t_location t,
      t_projectId = t_projectId t, t_sectionId = t_sectionId t, t_viewSectionIds = None,
      t_areaId = t_areaId t, t_isFocusedToday = Some False, t_timeEstimate = t_timeEstimate t,
      t_timeSpentMinutes = None,
      t_suppressMindwtrReminders = (if t_suppressMindwtrReminders t = Some True then Some True else None),
      t_repeatReminderMinutes = t_repeatReminderMinutes t, t_reviewAt = sd_reviewAt (rp_candidate p),
      t_completedAt = None, t_cancelledAt = None, t_archivedAt = None,
      t_statusBeforeProjectArchive = None, t_completedAtBeforeProjectArchive = None,
      t_isFocusedTodayBeforeProjectArchive = None, t_projectArchivedAt = None, t_purgedAt = None,
      t_order = None, t_orderNum = None, t_boardOrder = None, t_focusOrder = None\<rparr>"

definition follow_up :: "'s id_supply \<Rightarrow> task \<Rightarrow> string \<Rightarrow> task_status \<Rightarrow> recurrence_projection \<Rightarrow> string \<Rightarrow>
    's \<Rightarrow> task \<times> 's" where
  "follow_up createId t completedAtIso previousStatus p rule s =
     (case fresh_ids createId
        (\<lambda>i a. a\<lparr>eid := i, createdAt := completedAtIso, updatedAt := completedAtIso, deletedAt := None\<rparr>)
        (filter (\<lambda>a. \<not> truthy (deletedAt a)) (or_else (t_attachments t) [])) s of
        (attachments, s1) \<Rightarrow>
          (case createId s1 of (id1, s2) \<Rightarrow>
             (case resetChecklist createId (t_checklist t) s2 of (checklist, s3) \<Rightarrow>
                (follow_up_task t completedAtIso previousStatus p rule id1 attachments checklist, s3))))"

definition buildNextRecurringTask :: "host \<Rightarrow> 's id_supply \<Rightarrow> task \<Rightarrow> string \<Rightarrow> task_status \<Rightarrow>
    recurrence_projection option \<Rightarrow> 's \<Rightarrow> (task option \<times> 's) checked" where
  "buildNextRecurringTask h createId t completedAtIso previousStatus projection s =
     (case getRecurrenceRule (t_recurrence t) of
        None \<Rightarrow> if projection \<noteq> None then Inl ''Unexpected recurrence projection'' else Inr (None, s)
      | Some rule \<Rightarrow>
          (case projection of
             None \<Rightarrow> Inl ''Missing recurrence projection''
           | Some p \<Rightarrow>
               if rp_version p \<noteq> 1 then Inl ''Missing recurrence projection''
               else if \<not> sourceAnchorDaysMatch h t (rp_sourceAnchorDays p)
               then Inl ''Invalid recurrence source anchor''
               else (case check_recurrence h t rule p of
                   Some e \<Rightarrow> Inl e
                 | None \<Rightarrow>
                     (case check_candidate t p of
                        Some e \<Rightarrow> Inl e
                      | None \<Rightarrow>
                          (case stopAtFrozenUntil (rp_candidate p) (rp_until p) of
                             Inl e \<Rightarrow> Inl e
                           | Inr stopsAtUntil \<Rightarrow>
                               (case check_until_token p of
                                  Some e \<Rightarrow> Inl e
                                | None \<Rightarrow>
                                    if count_reached (t_recurrence t) 1 \<or> stopsAtUntil then Inr (None, s)
                                    else (case follow_up createId t completedAtIso previousStatus p rule s of
                                      (next1, s') \<Rightarrow> Inr (Some next1, s'))))))))"

definition createNextRecurringTask :: "host \<Rightarrow> int \<Rightarrow> 's id_supply \<Rightarrow> task \<Rightarrow> string \<Rightarrow> task_status \<Rightarrow> bool \<Rightarrow>
    's \<Rightarrow> (task option \<times> 's) checked" where
  "createNextRecurringTask h now createId t completedAtIso previousStatus advanceOne s =
     buildNextRecurringTask h createId t completedAtIso previousStatus
       (projectNextRecurringTask h now t completedAtIso advanceOne) s"

text \<open>The follow-up in the shape the synchronisation writes.\<close>

definition canonicalRecurringFollowUp :: "host \<Rightarrow> task \<Rightarrow> task" where
  "canonicalRecurringFollowUp h t =
     t\<lparr>t_recurrence := map_option RecObj (normalizeRecurrenceForLoad h (t_recurrence t)),
       t_suppressMindwtrReminders := Some (or_else (t_suppressMindwtrReminders t) False),
       t_pushCount := Some 0\<rparr>"

end
