(* ===== verification/StoredDates.thy ===== *)
theory StoredDates
  imports RecurrenceBuild
begin

text \<open>
  The strings the program stores for a time: a day, a minute, a second or an instant. A
  stored form is read back as exactly its time, matches the frozen instant of that time, and
  is what the recurrence code writes.
\<close>

subsection \<open>Times cut to a precision\<close>

lemma getters_of_clock:
  fixes n :: int
  assumes "0 \<le> hh" "hh < 24" "0 \<le> mi" "mi < 60" "0 \<le> sec" "sec < 60" "0 \<le> f" "f < 1000"
  defines "u \<equiv> n * ms_per_day + clock_ms hh mi sec f"
  shows "u div ms_per_day = n" "u mod ms_per_day = clock_ms hh mi sec f" "getHours u = hh"
    "getMinutes u = mi" "getSeconds u = sec" "getMilliseconds u = f"
proof -
  have c: "0 \<le> clock_ms hh mi sec f" "clock_ms hh mi sec f < ms_per_day"
    using assms by (simp_all add: clock_ms_def ms_per_day_def)
  show "u div ms_per_day = n" and m: "u mod ms_per_day = clock_ms hh mi sec f"
    unfolding u_def by (rule day_clock[OF c])+
  have a: "clock_ms hh mi sec f = 3600000 * hh + (60000 * mi + 1000 * sec + f)"
    "clock_ms hh mi sec f = 60000 * (60 * hh + mi) + (1000 * sec + f)"
    "clock_ms hh mi sec f = 1000 * (3600 * hh + 60 * mi + sec) + f" by (simp_all add: clock_ms_def)
  show "getHours u = hh" unfolding getHours_def m
    by (rule int_div_pos_eq[OF a(1)]) (use assms in linarith)+
  have "clock_ms hh mi sec f div 60000 = 60 * hh + mi"
    by (rule int_div_pos_eq[OF a(2)]) (use assms in linarith)+
  then show "getMinutes u = mi" using assms(3,4) unfolding getMinutes_def m by simp
  have "clock_ms hh mi sec f div 1000 = 3600 * hh + 60 * mi + sec"
    by (rule int_div_pos_eq[OF a(3)]) (use assms in linarith)+
  moreover have "3600 * hh + 60 * mi + sec = 60 * (60 * hh + mi) + sec" by simp
  ultimately show "getSeconds u = sec" using assms(5,6) unfolding getSeconds_def m
    by (simp only: mod_mult_self4 mod_pos_pos_trivial)
  show "getMilliseconds u = f" unfolding getMilliseconds_def m
    by (rule int_mod_pos_eq[OF a(3)]) (use assms in linarith)+
qed

lemma same_day_getters:
  assumes "u div ms_per_day = t div ms_per_day"
  shows "getFullYear u = getFullYear t" "getMonth u = getMonth t" "getDate u = getDate t"
    "month_index u = month_index t" "day_string u = day_string t" "printable_year u = printable_year t"
  using assms by (simp_all add: getFullYear_def getMonth_def getDate_def month_index_def
      day_string_def printable_year_def)

definition day_floor :: "int \<Rightarrow> int" where
  "day_floor t = t div ms_per_day * ms_per_day"

definition second_floor :: "int \<Rightarrow> int" where
  "second_floor t = t div ms_per_day * ms_per_day + clock_ms (getHours t) (getMinutes t) (getSeconds t) 0"

lemma day_floor_getters:
  "day_floor t div ms_per_day = t div ms_per_day" "getHours (day_floor t) = 0"
  "getMinutes (day_floor t) = 0" "getSeconds (day_floor t) = 0" "getMilliseconds (day_floor t) = 0"
  using getters_of_clock[of 0 0 0 0 "t div ms_per_day"] by (simp_all add: day_floor_def clock_ms_def)

lemma minute_floor_getters:
  "minute_floor t div ms_per_day = t div ms_per_day" "getHours (minute_floor t) = getHours t"
  "getMinutes (minute_floor t) = getMinutes t" "getSeconds (minute_floor t) = 0"
  "getMilliseconds (minute_floor t) = 0"
  unfolding minute_floor_def by (intro getters_of_clock; use clock_ranges[of t] in simp)+

lemma second_floor_getters:
  "second_floor t div ms_per_day = t div ms_per_day" "getHours (second_floor t) = getHours t"
  "getMinutes (second_floor t) = getMinutes t" "getSeconds (second_floor t) = getSeconds t"
  "getMilliseconds (second_floor t) = 0"
  unfolding second_floor_def by (intro getters_of_clock; use clock_ranges[of t] in simp)+

subsection \<open>Stored forms\<close>

definition stored_form :: "string \<Rightarrow> int \<Rightarrow> bool" where
  "stored_form s t =
     (printable_year t \<and>
      (s = day_string t \<and> day_floor t = t \<or> s = minute_string t \<and> minute_floor t = t \<or>
       s = second_string t \<and> second_floor t = t \<or> s = to_iso t))"

lemma stored_cases:
  assumes "stored_form s t"
  obtains "printable_year t" "s = day_string t" "day_floor t = t"
  | "printable_year t" "s = minute_string t" "minute_floor t = t"
  | "printable_year t" "s = second_string t" "second_floor t = t"
  | "printable_year t" "s = to_iso t"
  using assms unfolding stored_form_def by blast

lemma stored_day:
  "printable_year t \<Longrightarrow> stored_form (day_string t) (day_floor t)"
  using same_day_getters[OF day_floor_getters(1)[of t]] day_floor_getters(1)[of t]
  by (simp add: stored_form_def) (simp add: day_floor_def)

lemma minute_string_floor: "minute_string (minute_floor t) = minute_string t"
  using same_day_getters[OF minute_floor_getters(1)[of t]] minute_floor_getters[of t]
  by (simp add: minute_string_def)

lemma stored_minute:
  assumes "printable_year t"
  shows "stored_form (minute_string t) (minute_floor t)"
proof -
  have "minute_floor (minute_floor t) = minute_floor t"
    using minute_floor_getters[of t] by (simp add: minute_floor_def[of "minute_floor t"]) (simp add: minute_floor_def)
  moreover have "printable_year (minute_floor t)"
    using same_day_getters(6)[OF minute_floor_getters(1)[of t]] assms by simp
  ultimately show ?thesis by (simp add: stored_form_def minute_string_floor)
qed

lemma stored_iso: "printable_year t \<Longrightarrow> stored_form (to_iso t) t"
  by (simp add: stored_form_def)

lemma second_string_no_zone [simp]: "\<not> hasTimezoneSuffix (second_string t)"
  by (simp add: second_string_def minute_string_def day_string_def show2 show4 hasTimezoneSuffix_def zone_suffix_def read2
     at_end_def eat_digits2_def eat_def)

lemma match_second_string:
  assumes "printable_year t"
  shows "match_instant (second_string t) = None"
    "match_local (second_string t) = Some (ymd_of t, getHours t, getMinutes t, getSeconds t, 0)"
    "match_floating (second_string t) = Some (Some (show_digits 2 (getSeconds t)), None)"
    "\<not> is_date_only (second_string t)"
  using match_ymd_day_string[OF assms, of "CHR ''T'' # show_digits 2 (getHours t) @ CHR '':'' # show_digits 2 (getMinutes t) @
      CHR '':'' # show_digits 2 (getSeconds t)"]
    read_parts(4)[OF assms, of "CHR '':'' # show_digits 2 (getMinutes t) @ CHR '':'' # show_digits 2 (getSeconds t)"]
    read_parts(5)[OF assms, of "CHR '':'' # show_digits 2 (getSeconds t)"] read_parts(6)[OF assms, of "[]"]
  by (simp_all add: match_instant_def match_local_def match_floating_def is_date_only_def second_string_def minute_string_def
      opt_group_def zone_suffix_def fraction13_def at_end_def eat_def
      del: read_digits.simps show_digits.simps)

lemma parse_second_string:
  assumes "printable_year t"
  shows "safeParseDate h (Some (second_string t)) = Some (second_floor t)"
proof -
  have "second_string t \<noteq> []" by (simp add: second_string_def minute_string_def)
  moreover have "0 \<le> clock_ms (getHours t) (getMinutes t) (getSeconds t) 0"
    "clock_ms (getHours t) (getMinutes t) (getSeconds t) 0 < ms_per_day"
    using clock_ranges[of t] by (simp_all add: clock_ms_def ms_per_day_def)
  ultimately show ?thesis
    using local_date_parts[OF assms, of "getHours t" "getMinutes t" "getSeconds t" 0] calendar_day_valid[of t]
    by (simp add: safeParseDate_def match_second_string[OF assms] parse_general_def second_floor_def)
      (simp add: ymd_of_def)
qed

lemma stored_parse: "stored_form s t \<Longrightarrow> safeParseDate h (Some s) = Some t"
  by (erule stored_cases)
    (simp_all add: parse_day_string parse_minute_string parse_second_string parse_to_iso day_floor_def)

lemma stored_not_empty: "stored_form s t \<Longrightarrow> s \<noteq> []"
  by (erule stored_cases)
    (simp_all add: to_iso_parts second_string_def minute_string_def day_string_def)

lemma stored_date_only: "stored_form s t \<Longrightarrow> is_date_only s \<Longrightarrow> s = day_string t"
  by (erule stored_cases) (simp_all add: match_second_string)

subsection \<open>The frozen instant of a stored form\<close>

lemma js_upper_digit [simp]: "js_upper_char (char_of_digit (k mod 10)) = char_of_digit (k mod 10)"
proof -
  have "0 \<le> k mod 10" "k mod 10 \<le> 9" by simp_all
  then have "of_char (char_of_digit (k mod 10)) = nat (48 + k mod 10)"
    by (simp add: char_of_digit_def of_char_of)
  moreover have "nat (48 + k mod 10) < 97" using \<open>k mod 10 \<le> 9\<close> by simp
  ultimately show ?thesis by (simp add: js_upper_char_def Let_def)
qed

lemma js_upper_marks [simp]:
  "js_upper_char (CHR ''-'') = CHR ''-''" "js_upper_char (CHR '':'') = CHR '':''"
  "js_upper_char (CHR ''T'') = CHR ''T''" "js_upper_char (CHR ''.'') = CHR ''.''"
  "js_upper_char (CHR ''Z'') = CHR ''Z''"
  by (simp_all add: js_upper_char_def)

lemma js_upper_strings [simp]:
  "js_upper (day_string t) = day_string t" "js_upper (minute_string t) = minute_string t"
  "js_upper (second_string t) = second_string t"
  by (simp_all add: js_upper_def second_string_def minute_string_def day_string_def show2 show4)

lemma milli_string_iso: "printable_year t \<Longrightarrow> milli_string t @ ''Z'' = to_iso t"
  by (simp add: to_iso_parts milli_string_def second_string_def minute_string_def)

lemma milli_string_local:
  assumes "printable_year t"
  shows "is_local_instant (milli_string t)"
proof -
  let ?ms = "CHR ''.'' # show_digits 3 (getMilliseconds t)"
  show ?thesis
    using match_ymd_day_string[OF assms, of "CHR ''T'' # show_digits 2 (getHours t) @ CHR '':'' # show_digits 2 (getMinutes t) @
      CHR '':'' # show_digits 2 (getSeconds t) @ ?ms"]
    read_parts(4)[OF assms, of "CHR '':'' # show_digits 2 (getMinutes t) @ CHR '':'' # show_digits 2 (getSeconds t) @ ?ms"]
    read_parts(5)[OF assms, of "CHR '':'' # show_digits 2 (getSeconds t) @ ?ms"] read_parts(6)[OF assms, of ?ms]
    read_parts(7)[OF assms, of "[]"]
    by (simp add: is_local_instant_def milli_string_def second_string_def minute_string_def at_end_def eat_digits_def
      del: read_digits.simps show_digits.simps)
qed

lemma milli_of_floors:
  "milli_string (day_floor t) = day_string t @ ''T00:00:00.000''"
  "milli_string (minute_floor t) = minute_string t @ '':00.000''"
  "milli_string (second_floor t) = second_string t @ ''.000''"
proof -
  have z: "show_digits 2 0 = ''00''" "show_digits 3 0 = ''000''" by (code_simp)+
  note d = same_day_getters(5)[OF day_floor_getters(1)[of t]]
    same_day_getters(5)[OF minute_floor_getters(1)[of t]] same_day_getters(5)[OF second_floor_getters(1)[of t]]
  show "milli_string (day_floor t) = day_string t @ ''T00:00:00.000''"
    "milli_string (minute_floor t) = minute_string t @ '':00.000''"
    "milli_string (second_floor t) = second_string t @ ''.000''"
    by (simp_all add: milli_string_def second_string_def minute_string_def d day_floor_getters
        minute_floor_getters second_floor_getters z del: show_digits.simps)
qed

lemma length_day_string [simp]: "length (day_string t) = 10"
  by (simp add: day_string_def)

lemma length_minute_string [simp]: "length (minute_string t) = 16"
  by (simp add: minute_string_def)

lemma match_floating_others:
  assumes "printable_year t"
  shows "match_floating (day_string t) = None" "match_floating (minute_string t) = Some (None, None)"
    "match_floating (to_iso t) = None"
proof -
  show "match_floating (day_string t) = None"
    using match_ymd_day_string[OF assms, of "[]"] by (simp add: match_floating_def eat_digits2_def eat_def)
  show "match_floating (minute_string t) = Some (None, None)"
    using match_ymd_day_string[OF assms, of "CHR ''T'' # show_digits 2 (getHours t) @ CHR '':'' # show_digits 2 (getMinutes t)"]
    read_parts(4)[OF assms, of "CHR '':'' # show_digits 2 (getMinutes t)"] read_parts(5)[OF assms, of "[]"]
    by (simp add: match_floating_def minute_string_def opt_group_def eat_digits2_def eat_def
      del: read_digits.simps show_digits.simps)
  show "match_floating (to_iso t) = None"
    using assms by (simp add: match_floating_def to_iso_parts match_ymd_day_string read_parts opt_group_def
      fraction13_def span_digits_show show_digits_not_Nil del: read_digits.simps show_digits.simps)
qed

lemma js_upper_iso: "printable_year t \<Longrightarrow> hasTimezoneSuffix (js_upper (to_iso t))"
proof -
  assume p: "printable_year t"
  obtain r where "to_iso t = r @ ''Z''"
    using to_iso_parts[OF p] by (metis append.assoc append_Cons)
  then have "js_upper (to_iso t) = js_upper r @ ''Z''" by (simp add: js_upper_def)
  then show ?thesis
    unfolding hasTimezoneSuffix_def by (simp only:) (rule ex_suffix_append, simp add: zone_suffix_def)
qed

lemma printable_max_time: "printable_year t \<Longrightarrow> \<bar>t\<bar> \<le> max_time"
  using printable_time[of t] ms_per_day_pos by linarith

context date_fns
begin

lemma freeze_stored:
  "stored_form s t \<Longrightarrow> freezeRecurrenceInstant h t = \<lparr>fi_epochMs = t, fi_offsetMinutes = 0, fi_local = milli_string t\<rparr>"
  by (simp add: freezeRecurrenceInstant_def formatMillis_spec stored_form_def)

lemma stored_frozen:
  assumes "stored_form s t"
  shows "frozenInstantMatches s (freezeRecurrenceInstant h t)"
proof -
  have p: "printable_year t" using assms by (simp add: stored_form_def)
  have wall: "date_parse (milli_string t @ ''Z'') = Some t"
    by (simp only: milli_string_iso[OF p] date_parse_to_iso[OF printable_max_time[OF p]])
  have base: "frozenInstantMatches s (freezeRecurrenceInstant h t) \<longleftrightarrow>
      \<not> (is_date_only s \<and> milli_string t \<noteq> s @ ''T00:00:00.000'') \<and>
      \<not> (case match_floating s of None \<Rightarrow> False
        | Some (sec, f) \<Rightarrow> milli_string t \<noteq> take 16 s @ '':'' @ or_else sec ''00'' @ ''.'' @ pad_end3 (or_else f [])) \<and>
      \<not> (hasTimezoneSuffix (js_upper s) \<and> date_parse s \<noteq> Some t)"
    unfolding frozenInstantMatches_def freeze_stored[OF assms] frozen_instant.select_convs
    using wall milli_string_local[OF p] by simp
  have pad: "pad_end3 [] = ''000''" by code_simp
  show ?thesis
    using assms
  proof (cases rule: stored_cases)
    case 1
    have "milli_string t = day_string t @ ''T00:00:00.000''" using milli_of_floors(1)[of t] 1(3) by simp
    then show ?thesis unfolding base using 1 match_floating_others(1)[OF p] by simp
  next
    case 2
    have "milli_string t = minute_string t @ '':00.000''" using milli_of_floors(2)[of t] 2(3) by simp
    then show ?thesis unfolding base using 2 match_floating_others(2)[OF p] pad by simp
  next
    case 3
    have m: "milli_string t = second_string t @ ''.000''" using milli_of_floors(3)[of t] 3(3) by simp
    have tk: "take 16 (second_string t) @ CHR '':'' # show_digits 2 (getSeconds t) @ ''.000'' = second_string t @ ''.000''"
      by (simp add: second_string_def)
    show ?thesis unfolding base using 3 m tk match_second_string[OF p] pad by simp
  next
    case 4
    then show ?thesis unfolding base
      using match_floating_others(3)[OF p] date_parse_to_iso[OF printable_max_time[OF p]] by simp
  qed
qed

end

end
