(* ===== verification/RecurrenceCatchUp.thy ===== *)
theory RecurrenceCatchUp
  imports StoredDates
begin

text \<open>
  The catch-up of a strict series: the jump of a simple rule lands where stepping would, the
  loop after it moves at every round, and the occurrence it ends on lies after the boundary.
\<close>

subsection \<open>Units of a simple rule\<close>

text \<open>A simple rule counts days or months; one interval is so many of them.\<close>

definition rule_position :: "string \<Rightarrow> int \<Rightarrow> int" where
  "rule_position rule t = (if calendar_rule rule then month_index t else t div ms_per_day)"

definition rule_unit :: "string \<Rightarrow> int" where
  "rule_unit rule = (if rule = ''weekly'' then 7 else if rule = ''yearly'' then 12 else 1)"

lemma rule_unit_pos [simp]: "0 < rule_unit rule"
  by (simp add: rule_unit_def)

lemma rule_position_day: "u div ms_per_day = t div ms_per_day \<Longrightarrow> rule_position rule u = rule_position rule t"
  using same_day_getters(4)[of u t] by (simp add: rule_position_def)

lemma rule_position_less: "rule_position rule b < rule_position rule u \<Longrightarrow> b < u"
  using month_less_time[of b u] day_less_time[of b u] by (cases "calendar_rule rule") (simp_all add: rule_position_def)

lemma rule_position_month: "rule_position rule u \<le> rule_position rule b \<Longrightarrow> month_index u \<le> month_index b"
proof (cases "calendar_rule rule")
  case False
  assume "rule_position rule u \<le> rule_position rule b"
  then have "u div ms_per_day * ms_per_day \<le> b div ms_per_day * ms_per_day"
    using False less_imp_le[OF ms_per_day_pos] by (intro mult_right_mono) (simp_all add: rule_position_def)
  then have "day_floor u \<le> b"
    using day_split[of b] clock_bounds[of b] unfolding day_floor_def by linarith
  then have "month_index (day_floor u) \<le> month_index b" by (rule month_mono)
  then show ?thesis using same_day_getters(4)[OF day_floor_getters(1)[of u]] by simp
qed (simp add: rule_position_def)

lemma later_day_number: "later_day a b \<Longrightarrow> a div ms_per_day + 1 \<le> b div ms_per_day"
proof -
  assume "later_day a b"
  then have "a + ms_per_day \<le> b" by (rule later_day_whole)
  then have "(a + ms_per_day) div ms_per_day \<le> b div ms_per_day" by (intro zdiv_mono1) simp_all
  then show ?thesis using day_shift[of a 1] by simp
qed

lemma calendarDayNumber_day:
  assumes "100 \<le> getFullYear t"
  shows "calendarDayNumber t = t div ms_per_day"
proof -
  have "js_year (getFullYear t) = getFullYear t" using assms by (simp add: js_year_def)
  moreover have "getMonth t div 12 = 0" "getMonth t mod 12 = getMonth t" by simp_all
  ultimately show ?thesis
    using civil_of_day_valid(1)[OF civil_getters, of t] by (simp add: calendarDayNumber_def make_day_carry_def)
qed

definition skipped :: "string \<Rightarrow> int \<Rightarrow> int \<Rightarrow> int \<Rightarrow> int" where
  "skipped rule i t b = max 0 (estimated_steps rule i t b - 1)"

text \<open>The jump stays before the boundary and leaves fewer than two steps and a year.\<close>

lemma div_gap: "0 < k \<Longrightarrow> 0 \<le> (x::int) \<Longrightarrow>
    (0 < max 0 (x div k - 1) \<longrightarrow> k * max 0 (x div k - 1) + k \<le> x) \<and> x < k * (max 0 (x div k - 1) + 2)"
proof -
  assume k: "0 < k" and x: "0 \<le> x"
  have b: "k * (x div k) \<le> x" "x < k * (x div k) + k" using div_bounds[OF k, of x] by simp_all
  have "0 \<le> x div k" using k x by (simp add: pos_imp_zdiv_nonneg_iff)
  then consider "x div k = 0" | "1 \<le> x div k" by linarith
  then show ?thesis
  proof cases
    case 1
    then show ?thesis using b k by simp
  next
    case 2
    then have "max 0 (x div k - 1) = x div k - 1" by simp
    then show ?thesis using b by (simp add: right_diff_distrib distrib_left)
  qed
qed

text \<open>The same in units of \<open>u\<close>: what is left of \<open>d\<close> units is less than two intervals.\<close>

lemma skipped_units:
  assumes "0 < k" "0 \<le> d" "(s::int) = max 0 (d div k - 1)"
  shows "(0 < s \<longrightarrow> k * s \<le> d) \<and> d < k * (s + 2) + 12"
  using div_gap[of k d] assms by auto

lemma year_units:
  assumes "0 < (s::int) \<longrightarrow> p + i \<le> y" "y < q" "e - d < 12 * y + 12" "12 * y - 12 < e - d" "0 < (i::int)"
  shows "(0 < s \<longrightarrow> d + 12 * p \<le> e) \<and> e - d < 12 * q + 12"
  using assms by auto

lemma skipped_bounds:
  assumes r: "rule \<in> set RECURRENCE_RULES" and i: "0 < i" and y: "100 \<le> getFullYear t" "100 \<le> getFullYear b"
    and tb: "t < b"
  shows "0 < skipped rule i t b \<Longrightarrow>
      rule_position rule t + rule_unit rule * i * skipped rule i t b \<le> rule_position rule b"
    "rule_position rule b - rule_position rule t < rule_unit rule * i * (skipped rule i t b + 2) + 12"
proof -
  have dm: "t div ms_per_day \<le> b div ms_per_day" using tb by (intro zdiv_mono1) simp_all
  have mm: "month_index t \<le> month_index b" using tb by (intro month_mono) simp
  have ym: "getFullYear t \<le> getFullYear b"
    using mm getMonth_bounds[of t] getMonth_bounds[of b] unfolding month_index_def by linarith
  have days: "max 0 (calendarDayNumber b - calendarDayNumber t) = b div ms_per_day - t div ms_per_day"
    using dm y by (simp add: calendarDayNumber_day)
  have months: "max 0 ((getFullYear b - getFullYear t) * 12 + getMonth b - getMonth t) = month_index b - month_index t"
    "max 0 (getFullYear b * 12 - getFullYear t * 12 + getMonth b - getMonth t) = month_index b - month_index t"
    using mm by (simp_all add: month_index_def algebra_simps)
  have years: "max 0 (getFullYear b - getFullYear t) = getFullYear b - getFullYear t" using ym by simp
  consider "rule = ''daily''" | "rule = ''weekly''" | "rule = ''monthly''" | "rule = ''yearly''"
    using r by (auto simp: RECURRENCE_RULES_def)
  then have "(0 < skipped rule i t b \<longrightarrow>
      rule_position rule t + rule_unit rule * i * skipped rule i t b \<le> rule_position rule b) \<and>
    rule_position rule b - rule_position rule t < rule_unit rule * i * (skipped rule i t b + 2) + 12"
  proof cases
    case 1
    have s: "skipped rule i t b = max 0 ((b div ms_per_day - t div ms_per_day) div (i) - 1)" "rule_unit rule = 1"
      "rule_position rule t = t div ms_per_day" "rule_position rule b = b div ms_per_day"
      using 1 by (simp_all add: skipped_def estimated_steps_def Let_def days rule_unit_def
          rule_position_def calendar_rule_def mult.commute)
    show ?thesis
      using skipped_units[of "i" "b div ms_per_day - t div ms_per_day", OF _ _ s(1)] dm i unfolding s(2-4)
      by (auto simp: mult.commute mult.left_commute)
  next
    case 2
    have s: "skipped rule i t b = max 0 ((b div ms_per_day - t div ms_per_day) div (i * 7) - 1)" "rule_unit rule = 7"
      "rule_position rule t = t div ms_per_day" "rule_position rule b = b div ms_per_day"
      using 2 by (simp_all add: skipped_def estimated_steps_def Let_def days rule_unit_def
          rule_position_def calendar_rule_def mult.commute)
    show ?thesis
      using skipped_units[of "i * 7" "b div ms_per_day - t div ms_per_day", OF _ _ s(1)] dm i unfolding s(2-4)
      by (auto simp: mult.commute mult.left_commute)
  next
    case 3
    have s: "skipped rule i t b = max 0 ((month_index b - month_index t) div (i) - 1)" "rule_unit rule = 1"
      "rule_position rule t = month_index t" "rule_position rule b = month_index b"
      using 3 by (simp_all add: skipped_def estimated_steps_def Let_def months left_diff_distrib rule_unit_def
          rule_position_def calendar_rule_def)
    show ?thesis
      using skipped_units[of "i" "month_index b - month_index t", OF _ _ s(1)] mm i unfolding s(2-4)
      by (auto simp: mult.commute mult.left_commute)
  next
    case 4
    let ?s = "max 0 ((getFullYear b - getFullYear t) div i - 1)"
    have s: "skipped rule i t b = ?s" "rule_unit rule = 12" "rule_position rule t = month_index t"
      "rule_position rule b = month_index b"
      using 4 by (simp_all add: skipped_def estimated_steps_def Let_def years rule_unit_def
          rule_position_def calendar_rule_def)
    have g: "0 < ?s \<longrightarrow> i * ?s + i \<le> getFullYear b - getFullYear t" "getFullYear b - getFullYear t < i * (?s + 2)"
      using div_gap[OF i, of "getFullYear b - getFullYear t"] ym by simp_all
    have m: "month_index b - month_index t < 12 * (getFullYear b - getFullYear t) + 12"
      "12 * (getFullYear b - getFullYear t) - 12 < month_index b - month_index t"
      using getMonth_bounds[of t] getMonth_bounds[of b] by (simp_all add: month_index_def del: getMonth_bounds)
    have a: "12 * i * ?s = 12 * (i * ?s)" "12 * i * (?s + 2) = 12 * (i * (?s + 2))" by simp_all
    show ?thesis unfolding s a by (rule year_units[OF g m i])
  qed
  then show "0 < skipped rule i t b \<Longrightarrow>
      rule_position rule t + rule_unit rule * i * skipped rule i t b \<le> rule_position rule b"
    "rule_position rule b - rule_position rule t < rule_unit rule * i * (skipped rule i t b + 2) + 12"
    by blast+
qed


subsection \<open>One step of a stored date\<close>

text \<open>A step moves by at least one position, and by whole intervals when the rule is simple.\<close>

definition simple_rule :: "string list option \<Rightarrow> int list option \<Rightarrow> bool" where
  "simple_rule byDay byMonthDay \<longleftrightarrow> or_else byDay [] = [] \<and> or_else byMonthDay [] = []"

context date_fns
begin

lemma format_like_stored:
  assumes p: "safeParseDate h (Some s) = Some t" and l: "later_day t n" and y: "printable_year n"
  shows "\<exists>u. stored_form (format_like h (Some s) t n) u \<and> u div ms_per_day = n div ms_per_day"
proof -
  have ny: "\<not> (0 \<le> getFullYear n \<and> getFullYear n \<le> 99)" using y by (simp add: printable_year_def)
  have "buildDateWithTime (getFullYear n) (getMonth n) (getDate n) t =
      time_at (month_index n) (getDate n) (t mod ms_per_day)"
    unfolding buildDateWithTime_def new_date_time_at[OF ny] by (simp add: month_index_def)
  also have "\<dots> = n" using time_at_parts[of n] l by (simp add: later_day_def)
  finally have same: "buildDateWithTime (getFullYear n) (getMonth n) (getDate n) t = n" .
  show ?thesis
    using stored_day[OF y] stored_minute[OF y] stored_iso[OF y] day_floor_getters(1)[of n]
      minute_floor_getters(1)[of n]
    by (auto simp: format_like_def Let_def same formatDay_spec[OF y] formatMinutes_spec[OF y])
qed

lemma addInterval_position:
  assumes "rule \<in> set RECURRENCE_RULES" "0 \<le> n" "100 \<le> getFullYear base" "1 \<le> or_else a (getDate base)"
  shows "rule_position rule (addInterval h base rule n a) = rule_position rule base + rule_unit rule * n"
proof (cases "calendar_rule rule")
  case True
  then have "rule = ''monthly'' \<or> rule = ''yearly''" by (auto simp: calendar_rule_def)
  then show ?thesis
    using addInterval_calendar[OF True assms(3,2), of h a] clamp_to_getters(1)[OF assms(4)] True
    by (auto simp: rule_position_def rule_unit_def rule_months_def)
next
  case False
  then have "rule = ''daily'' \<or> rule = ''weekly''"
    using assms(1) by (auto simp: RECURRENCE_RULES_def calendar_rule_def)
  then show ?thesis
    using day_shift[of base n] day_shift[of base "n * 7"]
    by (auto simp: addInterval_def addDays_spec addWeeks_spec rule_position_def rule_unit_def calendar_rule_def)
qed

lemma nextIsoFrom_stored:
  assumes p: "safeParseDate h (Some s) = Some t" and r: "rule \<in> set RECURRENCE_RULES" and i: "0 < interval"
    and y: "100 \<le> getFullYear t" "getFullYear t + interval \<le> 9998" and a: "1 \<le> or_else a 1"
  shows "\<exists>v u. nextIsoFrom h (Some s) rule fallback byDay interval byMonthDay weekStart None a sp = Some v \<and>
    stored_form v u \<and> t div ms_per_day + 1 \<le> u div ms_per_day \<and>
    (simple_rule byDay byMonthDay \<longrightarrow>
      rule_position rule u = rule_position rule t + rule_unit rule * interval)"
proof -
  let ?n = "next_date h t rule byDay interval byMonthDay weekStart (Some (or_else a (getDate t))) sp"
  have a1: "1 \<le> or_else (Some (or_else a (getDate t))) 1" "1 \<le> or_else (Some (or_else a (getDate t))) (getDate t)"
    using a getDate_bounds[of t] by (cases a; simp)+
  note f = next_date_forward[OF r i y(1) a1(1), of byDay byMonthDay weekStart sp]
  have l: "later_day t ?n" using f by (simp add: forward_step_def)
  obtain u where u: "stored_form (format_like h (Some s) t ?n) u" "u div ms_per_day = ?n div ms_per_day"
    using format_like_stored[OF p l forward_year[OF f y]] by blast
  have "simple_rule byDay byMonthDay \<longrightarrow> rule_position rule u = rule_position rule t + rule_unit rule * interval"
  proof
    assume "simple_rule byDay byMonthDay"
    then have "?n = addInterval h t rule interval (Some (or_else a (getDate t)))"
      by (simp add: next_date_def simple_rule_def)
    then show "rule_position rule u = rule_position rule t + rule_unit rule * interval"
      using rule_position_day[OF u(2)] addInterval_position[OF r less_imp_le[OF i] y(1) a1(2)] by simp
  qed
  moreover have "nextIsoFrom h (Some s) rule fallback byDay interval byMonthDay weekStart None a sp =
      Some (format_like h (Some s) t ?n)"
    using p by (simp add: nextIsoFrom_def Let_def)
  moreover have "t div ms_per_day + 1 \<le> u div ms_per_day" using u(2) later_day_number[OF l] by simp
  ultimately show ?thesis using u(1) by blast
qed

text \<open>The jump: a stored date at its place, wherever that stays in printable years.\<close>

lemma jump_stored:
  assumes p: "safeParseDate h (Some s) = Some t" and r: "rule \<in> set RECURRENCE_RULES" and n: "0 < n"
    and y: "100 \<le> getFullYear t" "getFullYear b \<le> 9998" and a: "1 \<le> or_else a 1"
    and b: "rule_position rule t + rule_unit rule * n \<le> rule_position rule b"
  shows "\<exists>v u. nextIsoFrom h (Some s) rule fallback None n None weekStart None a None = Some v \<and>
    stored_form v u \<and> t div ms_per_day + 1 \<le> u div ms_per_day \<and> 
    rule_position rule u = rule_position rule t + rule_unit rule * n"
proof -
  let ?n = "addInterval h t rule n (Some (or_else a (getDate t)))"
  have a1: "1 \<le> or_else (Some (or_else a (getDate t))) 1" "1 \<le> or_else (Some (or_else a (getDate t))) (getDate t)"
    using a getDate_bounds[of t] by (cases a; simp)+
  have l: "later_day t ?n" using addInterval_forward[OF r n y(1) a1(1)] by (simp add: forward_step_def)
  have at: "rule_position rule ?n = rule_position rule t + rule_unit rule * n"
    by (rule addInterval_position[OF r less_imp_le[OF n] y(1) a1(2)])
  have "month_index t \<le> month_index ?n" using l by (intro month_mono) (simp add: later_day_def)
  moreover have "month_index ?n \<le> month_index b" using at b by (intro rule_position_month[of rule]) simp
  ultimately have "printable_year ?n"
    using y getMonth_bounds[of t] getMonth_bounds[of ?n] getMonth_bounds[of b]
    unfolding printable_year_def month_index_def by linarith
  from format_like_stored[OF p l this] obtain u
    where u: "stored_form (format_like h (Some s) t ?n) u" "u div ms_per_day = ?n div ms_per_day" by blast
  have "nextIsoFrom h (Some s) rule fallback None n None weekStart None a None = Some (format_like h (Some s) t ?n)"
    using p by (simp add: nextIsoFrom_def Let_def next_date_def)
  then show ?thesis using u at rule_position_day[OF u(2)] later_day_number[OF l] by auto
qed

end

subsection \<open>The catch-up loop\<close>

text \<open>A loop whose every step gains a position ends beyond the boundary when its rounds suffice.\<close>

lemma strict_loop_passes:
  assumes gain: "\<And>s t. safeParseDate h (Some s) = Some t \<Longrightarrow> ok s t \<Longrightarrow> t \<le> boundary \<Longrightarrow>
      \<exists>v u. step s = Some v \<and> safeParseDate h (Some v) = Some u \<and> ok v u \<and> pos t + d \<le> (pos u :: int)"
    and far: "\<And>t. pos boundary < pos t \<Longrightarrow> boundary < t"
    and d: "0 < d"
  shows "safeParseDate h (Some s) = Some t \<Longrightarrow> ok s t \<Longrightarrow> pos boundary - pos t < int guard * d \<Longrightarrow>
    \<exists>v u k. strict_loop guard h step boundary s steps = (v, k) \<and> safeParseDate h (Some v) = Some u \<and>
      ok v u \<and> boundary < u \<and> steps \<le> k \<and> pos t \<le> pos u"
proof (induction guard arbitrary: s t steps)
  case 0
  then show ?case using far[of t] by simp
next
  case (Suc guard)
  show ?case
  proof (cases "boundary < t")
    case True
    then show ?thesis using Suc.prems by simp
  next
    case False
    then obtain v u where v: "step s = Some v" "safeParseDate h (Some v) = Some u" "ok v u" "pos t + d \<le> pos u"
      using gain[OF Suc.prems(1,2)] by auto
    have "v \<noteq> []" using v(2) by (auto simp: safeParseDate_def)
    moreover have "v \<noteq> s" using v(2,4) Suc.prems(1) d by auto
    moreover have "pos boundary - pos u < int guard * d" using Suc.prems(3) v(4) by (simp add: algebra_simps)
    note Suc.IH[OF v(2,3) this, of "steps + 1"]
    ultimately show ?thesis using Suc.prems(1) False v(1,4) d by fastforce
  qed
qed

subsection \<open>Catching up\<close>

lemma year_mono: "t \<le> b \<Longrightarrow> getFullYear t \<le> getFullYear b"
proof -
  assume "t \<le> b"
  then have "month_index t \<le> month_index b" by (rule month_mono)
  then show ?thesis using getMonth_bounds[of t] getMonth_bounds[of b] unfolding month_index_def by linarith
qed

text \<open>The date the loop starts from: one step after the base or after the jump.\<close>

definition first_catch_up :: "host \<Rightarrow> string \<Rightarrow> string \<Rightarrow> int \<Rightarrow> string list option \<Rightarrow> int \<Rightarrow> int list option \<Rightarrow>
    string option \<Rightarrow> int option \<Rightarrow> int option \<Rightarrow> int \<Rightarrow> string option" where
  "first_catch_up h s rule b byDay interval byMonthDay weekStart a sp n =
     nextIsoFrom h (if 0 < n then nextIsoFrom h (Some s) rule b None (interval * n) None weekStart None a None
       else Some s) rule b byDay interval byMonthDay weekStart None a sp"

definition jump_steps :: "string \<Rightarrow> int \<Rightarrow> int \<Rightarrow> int \<Rightarrow> string list option \<Rightarrow> int list option \<Rightarrow> int" where
  "jump_steps rule interval t b byDay byMonthDay =
     (if t < b \<and> simple_rule byDay byMonthDay then skipped rule interval t b else 0)"

lemma projectStrictIsoFrom_parts:
  assumes "safeParseDate h (Some s) = Some t" "0 < interval"
    and "first_catch_up h s rule b byDay interval byMonthDay weekStart a sp
      (jump_steps rule interval t b byDay byMonthDay) = Some v" "v \<noteq> []"
    and "strict_loop 1000 h (\<lambda>v. nextIsoFrom h (Some v) rule b byDay interval byMonthDay weekStart None a sp) b v
      (jump_steps rule interval t b byDay byMonthDay + 1) = (w, k)"
  shows "projectStrictIsoFrom h (Some s) rule b byDay interval byMonthDay weekStart a sp =
    \<lparr>pi_iso = Some w, pi_steps = k\<rparr>"
proof -
  have j: "(case safeParseDate h (Some s) of None \<Rightarrow> 0
      | Some parsedBase \<Rightarrow> if parsedBase < b \<and> \<not> (or_else byDay [] \<noteq> [] \<or> or_else byMonthDay [] \<noteq> [])
          then max 0 (estimated_steps rule interval parsedBase b - 1) else 0) =
      jump_steps rule interval t b byDay byMonthDay"
    using assms(1) by (auto simp: jump_steps_def skipped_def simple_rule_def)
  have i: "safe_interval interval = interval" using assms(2) by (simp add: safe_interval_def)
  show ?thesis
    using assms(3-5) unfolding projectStrictIsoFrom_def Let_def i j first_catch_up_def by simp
qed

context date_fns
begin

lemma first_catch_up_stored:
  fixes byDay :: "string list option" and byMonthDay :: "int list option"
  assumes p: "safeParseDate h (Some s) = Some t" and r: "rule \<in> set RECURRENCE_RULES" and i: "0 < interval"
    and y: "100 \<le> getFullYear t" "getFullYear t + interval \<le> 9998" "getFullYear b + interval \<le> 9998"
    and a: "1 \<le> or_else a 1"
  defines "n \<equiv> jump_steps rule interval t b byDay byMonthDay"
  shows "\<exists>v u. first_catch_up h s rule b byDay interval byMonthDay weekStart a sp n = Some v \<and>
    stored_form v u \<and> t div ms_per_day + 1 \<le> u div ms_per_day \<and> 
    (simple_rule byDay byMonthDay \<longrightarrow>
      rule_position rule u = rule_position rule t + rule_unit rule * interval * (n + 1))"
proof (cases "0 < n")
  case False
  moreover have "0 \<le> n" unfolding n_def jump_steps_def skipped_def by simp
  then have "n = 0" using False by simp
  ultimately show ?thesis
    using nextIsoFrom_stored[OF p r i y(1,2) a] by (simp add: first_catch_up_def)
next
  case True
  then have tb: "t < b" "simple_rule byDay byMonthDay" and n: "n = skipped rule interval t b"
    unfolding n_def jump_steps_def by (simp_all split: if_split_asm)
  have yb: "100 \<le> getFullYear b" using year_mono[of t b] tb y(1) by simp
  have at: "rule_position rule t + rule_unit rule * (interval * n) \<le> rule_position rule b"
    using skipped_bounds(1)[OF r i y(1) yb tb(1)] True n by (simp add: mult.assoc)
  have pos: "0 < interval * n" using True i by simp
  have yb2: "getFullYear b \<le> 9998" using y(3) i by simp
  obtain v u where v: "nextIsoFrom h (Some s) rule b None (interval * n) None weekStart None a None = Some v"
    "stored_form v u" "t div ms_per_day + 1 \<le> u div ms_per_day"
    "rule_position rule u = rule_position rule t + rule_unit rule * (interval * n)"
    using jump_stored[OF p r pos y(1) yb2 a at] by blast
  have "t < u" by (rule day_less_time, use v(3) in simp)
  then have yu: "100 \<le> getFullYear u" using year_mono[of t u] y(1) by simp
  have "month_index u \<le> month_index b" using at v(4) by (intro rule_position_month[of rule]) simp
  then have "getFullYear u \<le> getFullYear b"
    using getMonth_bounds[of u] getMonth_bounds[of b] unfolding month_index_def by linarith
  then have yu2: "getFullYear u + interval \<le> 9998" using y(3) by simp
  obtain w x where w: "nextIsoFrom h (Some v) rule b byDay interval byMonthDay weekStart None a sp = Some w"
    "stored_form w x" "u div ms_per_day + 1 \<le> x div ms_per_day"
    "rule_position rule x = rule_position rule u + rule_unit rule * interval"
    using nextIsoFrom_stored[OF stored_parse[OF v(2)] r i yu yu2 a, of b byDay byMonthDay weekStart sp] tb(2) by blast
  have "first_catch_up h s rule b byDay interval byMonthDay weekStart a sp n = Some w"
    using v(1) w(1) True by (simp add: first_catch_up_def)
  moreover have "t div ms_per_day + 1 \<le> x div ms_per_day" using v(3) w(3) by linarith
  moreover have "rule_position rule x = rule_position rule t + rule_unit rule * interval * (n + 1)"
    unfolding w(4) v(4) by (simp add: distrib_left mult.assoc)
  ultimately show ?thesis using w(2) by blast
qed

lemma catch_up_stored:
  assumes p: "safeParseDate h (Some s) = Some t" and r: "rule \<in> set RECURRENCE_RULES" and i: "0 < interval"
    and y: "100 \<le> getFullYear t" "getFullYear t + interval \<le> 9998" "getFullYear b + interval \<le> 9998"
    and a: "1 \<le> or_else a 1"
    and c: "simple_rule byDay byMonthDay \<or> b div ms_per_day \<le> t div ms_per_day + 1000"
  shows "\<exists>v u k. projectStrictIsoFrom h (Some s) rule b byDay interval byMonthDay weekStart a sp =
      \<lparr>pi_iso = Some v, pi_steps = k\<rparr> \<and> 1 \<le> k \<and> stored_form v u \<and> t < u \<and> b < u"
proof -
  let ?n = "jump_steps rule interval t b byDay byMonthDay"
  let ?S = "simple_rule byDay byMonthDay"
  define pos where "pos x = (if ?S then rule_position rule x else x div ms_per_day)" for x
  define d where "d = (if ?S then rule_unit rule * interval else 1)"
  have d: "1 \<le> d" using i rule_unit_pos[of rule] by (simp add: d_def int_one_le_iff_zero_less)
  have far: "x < x'" if "pos x < pos x'" for x x'
    using that rule_position_less[of rule x x'] day_less_time[of x x'] by (simp add: pos_def split: if_splits)
  have n0: "0 \<le> ?n" by (simp add: jump_steps_def skipped_def)
  obtain v u where v: "first_catch_up h s rule b byDay interval byMonthDay weekStart a sp ?n = Some v"
    "stored_form v u" "t div ms_per_day + 1 \<le> u div ms_per_day"
    "?S \<longrightarrow> rule_position rule u = rule_position rule t + rule_unit rule * interval * (?n + 1)"
    using first_catch_up_stored[OF p r i y a, of byDay byMonthDay] by blast
  have more: "pos t < pos u"
  proof (cases ?S)
    case True
    have "0 < rule_unit rule * interval * (?n + 1)" using i n0 by simp
    then show ?thesis using True v(4) by (simp add: pos_def)
  qed (use v(3) in \<open>simp add: pos_def\<close>)
  have start: "pos b - pos u < int 1000 * d"
  proof (cases "t < b")
    case False
    then have "pos b \<le> pos t" using far[of t b] by linarith
    then show ?thesis using more d by linarith
  next
    case tb: True
    have yb: "100 \<le> getFullYear b" using year_mono[of t b] tb y(1) by simp
    show ?thesis
    proof (cases ?S)
      case True
      then have n: "?n = skipped rule interval t b" using tb by (simp add: jump_steps_def)
      have "pos b - pos t < d * (?n + 2) + 12" "pos u = pos t + d * (?n + 1)"
        using skipped_bounds(2)[OF r i y(1) yb tb] v(4) True unfolding n by (simp_all add: pos_def d_def)
      then show ?thesis using d by (simp add: distrib_left)
    next
      case False
      then show ?thesis using c v(3) by (simp add: pos_def d_def)
    qed
  qed
  let ?step = "\<lambda>v. nextIsoFrom h (Some v) rule b byDay interval byMonthDay weekStart None a sp"
  have gain: "\<exists>v u. ?step s = Some v \<and> safeParseDate h (Some v) = Some u \<and>
      (stored_form v u \<and> 100 \<le> getFullYear u) \<and> pos t + d \<le> pos u"
    if "safeParseDate h (Some s) = Some t" "stored_form s t \<and> 100 \<le> getFullYear t" "t \<le> b" for s t
  proof -
    have "getFullYear t + interval \<le> 9998" using year_mono[OF that(3)] y(3) by simp
    from nextIsoFrom_stored[OF that(1) r i conjunct2[OF that(2)] this a, of b byDay byMonthDay weekStart sp]
    obtain v u where w: "?step s = Some v" "stored_form v u" "t div ms_per_day + 1 \<le> u div ms_per_day"
      "?S \<longrightarrow> rule_position rule u = rule_position rule t + rule_unit rule * interval" by blast
    have "t < u" by (rule day_less_time, use w(3) in simp)
    then have "100 \<le> getFullYear u" using year_mono[of t u] that(2) by simp
    moreover have "pos t + d \<le> pos u" using w(3,4) by (simp add: pos_def d_def)
    ultimately show ?thesis using w(1,2) stored_parse[OF w(2)] by blast
  qed
  have yu: "100 \<le> getFullYear u" using year_mono[of t u] far[OF more] y(1) by simp
  have "\<exists>w x k. strict_loop 1000 h ?step b v (?n + 1) = (w, k) \<and> safeParseDate h (Some w) = Some x \<and>
      (stored_form w x \<and> 100 \<le> getFullYear x) \<and> b < x \<and> ?n + 1 \<le> k \<and> pos u \<le> pos x"
    by (rule strict_loop_passes[where ok = "\<lambda>s t. stored_form s t \<and> 100 \<le> getFullYear t" and d = d,
        OF gain far _ stored_parse[OF v(2)] _ start]) (use d v(2) yu in simp_all)
  then obtain w x k where w: "strict_loop 1000 h ?step b v (?n + 1) = (w, k)" "stored_form w x" "b < x" "?n + 1 \<le> k"
    "pos u \<le> pos x"
    by blast
  have "t < x" using far[of t x] more w(5) by linarith
  then show ?thesis
    using projectStrictIsoFrom_parts[OF p i v(1) stored_not_empty[OF v(2)] w(1)] w(2-4) n0 by auto
qed

end

subsection \<open>What the catch-up promises\<close>

lemma addInterval_day_year:
  assumes "date_fns h" "rule \<in> set RECURRENCE_RULES" "0 < interval" "100 \<le> getFullYear base" "1 \<le> a"
  shows "100 \<le> getFullYear (addInterval h base rule interval (Some a))"
proof -
  have "forward_step base interval (addInterval h base rule interval (Some a))"
    by (rule date_fns.addInterval_forward[OF assms(1-4)]) (use assms(5) in simp)
  then have "base \<le> addInterval h base rule interval (Some a)" by (simp add: forward_step_def later_day_def)
  then show ?thesis using year_mono assms(4) order_trans by blast
qed

text \<open>
  C11: Jumping ahead by whole intervals gives the date that stepping one interval at a time gives,
  for every rule and any anchor day of the month, short months included.
\<close>

theorem jump_is_iteration:
  assumes h: "date_fns h" and r: "rule \<in> set RECURRENCE_RULES" and i: "0 < interval"
    and y: "100 \<le> getFullYear base" and a: "1 \<le> a"
  shows "0 < n \<Longrightarrow> addInterval h base rule (interval * int n) (Some a) =
    ((\<lambda>d. addInterval h d rule interval (Some a)) ^^ n) base"
proof (induction n rule: nat_induct_non_zero)
  case (Suc n)
  let ?d = "addInterval h base rule (interval * int n) (Some a)"
  have n: "0 < interval * int n" using i Suc.hyps by simp
  have yd: "100 \<le> getFullYear ?d" by (rule addInterval_day_year[OF h r n y a])
  have "addInterval h base rule (interval * int (Suc n)) (Some a) = addInterval h ?d rule interval (Some a)"
  proof (cases "calendar_rule rule")
    case True
    have a': "1 \<le> or_else (Some a) x" for x using a by simp
    have "?d = clamp_to base (month_index base + rule_months rule * (interval * int n)) a"
      using addInterval_calendar[OF True y less_imp_le[OF n], of h "Some a"] by simp
    moreover have "month_index base + rule_months rule * (interval * int (Suc n)) =
        month_index base + rule_months rule * (interval * int n) + rule_months rule * interval"
      by (simp add: algebra_simps)
    ultimately show ?thesis
      using addInterval_calendar[OF True yd, of interval h "Some a"]
        addInterval_calendar[OF True y, of "interval * int (Suc n)" h "Some a"] i n clamp_to_again[OF a a]
        clamp_to_getters(1)[OF a] by (simp add: add.assoc)
  next
    case False
    then have "rule = ''daily'' \<or> rule = ''weekly''"
      using r by (auto simp: RECURRENCE_RULES_def calendar_rule_def)
    then show ?thesis
      by (auto simp: addInterval_def date_fns.addDays_spec[OF h] date_fns.addWeeks_spec[OF h] algebra_simps)
  qed
  then show ?case by (simp add: Suc.IH)
qed simp

lemma jump_is_iteration_witness:
  "addInterval calendar_host 1706659200000 ''monthly'' 3 (Some 31) =
    ((\<lambda>d. addInterval calendar_host d ''monthly'' 1 (Some 31)) ^^ 3) 1706659200000"
proof -
  have y: "100 \<le> getFullYear 1706659200000" by code_simp
  show ?thesis
    using jump_is_iteration[OF calendar.date_fns_axioms, of "''monthly''" 1 1706659200000 31 3] y
    by (simp add: RECURRENCE_RULES_def)
qed

text \<open>
  A series that was left behind catches up: the occurrence projectStrictIsoFrom answers is a
  date that reads back, later than the base and strictly later than the boundary, and counts at
  least one step; for a rule without selectors however long ago the base is, and with weekday or
  month-day selectors while the boundary is within the thousand rounds of the loop, counted in days.
\<close>

theorem strict_catch_up:
  assumes "date_fns h" and "safeParseDate h (Some s) = Some t" and "rule \<in> set RECURRENCE_RULES"
    and "0 < interval" and "100 \<le> getFullYear t" "getFullYear t + interval \<le> 9998"
    and "getFullYear b + interval \<le> 9998" and "1 \<le> or_else a 1"
    and "or_else byDay [] = [] \<and> or_else byMonthDay [] = [] \<or>
      b div ms_per_day \<le> t div ms_per_day + 1000"
  shows "\<exists>v u k. projectStrictIsoFrom h (Some s) rule b byDay interval byMonthDay weekStart a sp =
      \<lparr>pi_iso = Some v, pi_steps = k\<rparr> \<and> 1 \<le> k \<and>
      safeParseDate h (Some v) = Some u \<and> t < u \<and> b < u"
  using date_fns.catch_up_stored[OF assms(1-8), of byDay byMonthDay weekStart sp] assms(9) stored_parse
  by (auto simp: simple_rule_def)

lemma strict_catch_up_witness:
  "\<exists>v u k. projectStrictIsoFrom calendar_host (Some ''1997-01-31'') ''monthly'' 1706659200000 None 2 None None
      (Some 31) None = \<lparr>pi_iso = Some v, pi_steps = k\<rparr> \<and> 1 \<le> k \<and>
      safeParseDate calendar_host (Some v) = Some u \<and> 854668800000 < u \<and> 1706659200000 < u"
proof -
  have "safeParseDate calendar_host (Some ''1997-01-31'') = Some 854668800000"
    "100 \<le> getFullYear 854668800000" "getFullYear 854668800000 + 2 \<le> 9998" "getFullYear 1706659200000 + 2 \<le> 9998"
    by code_simp+
  then show ?thesis
    using strict_catch_up[OF calendar.date_fns_axioms, of "''1997-01-31''" 854668800000 "''monthly''" 2
        1706659200000 "Some 31" None None None None]
    by (simp add: RECURRENCE_RULES_def)
qed

end
