(* ===== verification/RRuleText.thy ===== *)
theory RRuleText
  imports Recurrence
begin

text \<open>
  The RRULE text of \<open>recurrence.ts\<close> as a list of key and value pairs: what \<open>buildRRuleString\<close>
  writes, \<open>parseRRuleSelectors\<close> reads back, selector by selector.
\<close>

subsection \<open>Numbers and their digits\<close>

lemma digit_char: "n < 10 \<Longrightarrow> digit_of (char_of (48 + n)) = Some (int n)"
  by (simp add: digit_of_def of_char_of Let_def)

lemma read_int_append: "read_int a (s @ u) = (case read_int a s of None \<Rightarrow> None | Some v \<Rightarrow> read_int v u)"
  by (induction a s rule: read_int.induct) (auto split: option.splits)

definition is_digit :: "char \<Rightarrow> bool" where
  "is_digit c \<longleftrightarrow> digit_of c \<noteq> None"

lemma show_nat_read: "read_int 0 (show_nat n) = Some (int n) \<and> show_nat n \<noteq> [] \<and> list_all is_digit (show_nat n)"
proof (induction n rule: show_nat.induct)
  case (1 n)
  show ?case
  proof (cases "n < 10")
    case True
    then show ?thesis using digit_char[OF True] by (simp add: show_nat.simps[of n] is_digit_def)
  next
    case False
    have d: "n mod 10 < 10" by simp
    have "int n = 10 * int (n div 10) + int (n mod 10)" by presburger
    then show ?thesis
      using False 1[OF False] digit_char[OF d] by (simp add: show_nat.simps[of n] read_int_append is_digit_def)
  qed
qed

lemma digit_code: "is_digit c \<Longrightarrow> 48 \<le> (of_char c :: nat) \<and> (of_char c :: nat) \<le> 57"
  by (auto simp: is_digit_def digit_of_def Let_def split: if_splits)

lemma digit_not:
  assumes "is_digit c"
  shows "c \<noteq> CHR '';''" "c \<noteq> CHR ''=''" "c \<noteq> CHR '',''" "c \<noteq> CHR ''-''" "c \<noteq> CHR ''+''" "\<not> is_ws c"
  using digit_code[OF assms] by (auto simp: is_ws_def)

definition no_marks :: "string \<Rightarrow> bool" where
  "no_marks s \<longleftrightarrow> CHR '';'' \<notin> set s \<and> CHR ''='' \<notin> set s"

lemma no_marks_append [simp]: "no_marks (s @ u) \<longleftrightarrow> no_marks s \<and> no_marks u"
  by (auto simp: no_marks_def)

lemma no_marks_Cons [simp]: "no_marks (c # u) \<longleftrightarrow> c \<noteq> CHR '';'' \<and> c \<noteq> CHR ''='' \<and> no_marks u"
  by (auto simp: no_marks_def)

lemma no_marks_Nil [simp]: "no_marks []"
  by (simp add: no_marks_def)

lemma digits_no_marks: "list_all is_digit s \<Longrightarrow> no_marks s \<and> CHR '','' \<notin> set s"
  using digit_not(1-3) by (fastforce simp: no_marks_def list_all_iff)

lemma trim_stop: "s \<noteq> [] \<Longrightarrow> \<not> is_ws (hd s) \<Longrightarrow> \<not> is_ws (last s) \<Longrightarrow> js_trim s = s"
proof -
  assume s: "s \<noteq> []" "\<not> is_ws (hd s)" "\<not> is_ws (last s)"
  have "dropWhile is_ws s = s" using s(1,2) by (cases s) simp_all
  moreover have "dropWhile is_ws (List.rev s) = List.rev s"
    using s(1,3) by (cases s rule: rev_cases) simp_all
  ultimately show ?thesis by (simp add: js_trim_def)
qed

lemma show_int_digits: "no_marks (show_int n) \<and> CHR '','' \<notin> set (show_int n) \<and> show_int n \<noteq> []"
  using show_nat_read[of "nat n"] show_nat_read[of "nat (- n)"] digits_no_marks
  by (simp add: show_int_def)

lemma js_trim_show_int: "js_trim (show_int n) = show_int n"
proof (rule trim_stop)
  have d: "list_all is_digit (show_nat k)" "show_nat k \<noteq> []" for k using show_nat_read[of k] by blast+
  then have e: "is_digit (hd (show_nat k))" "is_digit (last (show_nat k))" for k
    using hd_in_set last_in_set by (force simp: list_all_iff)+
  show "show_int n \<noteq> []" using show_int_digits by blast
  show "\<not> is_ws (hd (show_int n))" using digit_not(6)[OF e(1)] by (simp add: show_int_def is_ws_def)
  show "\<not> is_ws (last (show_int n))" using digit_not(6)[OF e(2)] d(2) by (simp add: show_int_def)
qed

lemma js_Number_show_int: "js_Number (show_int n) = Some n"
proof (cases "n < 0")
  case True
  then have "js_Number (show_int n) = map_option uminus (read_int 0 (show_nat (nat (- n))))"
    using js_trim_show_int[of n] show_nat_read[of "nat (- n)"] by (simp add: js_Number_def show_int_def)
  then show ?thesis using show_nat_read[of "nat (- n)"] True by simp
next
  case False
  obtain c cs where s: "show_nat (nat n) = c # cs" using show_nat_read[of "nat n"] by (cases "show_nat (nat n)") auto
  then have c: "is_digit c" using show_nat_read[of "nat n"] by simp
  have "js_Number (show_int n) = read_int 0 (show_nat (nat n))"
    using False js_trim_show_int[of n] s digit_not(4,5)[OF c] by (simp add: js_Number_def show_int_def)
  then show ?thesis using show_nat_read[of "nat n"] False by simp
qed

subsection \<open>Tokens\<close>

definition token_text :: "string \<times> string \<Rightarrow> string" where
  "token_text kv = fst kv @ CHR ''='' # snd kv"

definition token_ok :: "string \<times> string \<Rightarrow> bool" where
  "token_ok kv \<longleftrightarrow> fst kv \<noteq> [] \<and> snd kv \<noteq> [] \<and> no_marks (fst kv) \<and> no_marks (snd kv) \<and>
     js_upper (fst kv) = fst kv"

lemma token_parts: "token_ok kv \<Longrightarrow> split_on (CHR ''='') (token_text kv) = [fst kv, snd kv]"
  by (simp add: token_text_def token_ok_def no_marks_def split_on_append split_on_no_sep)

lemma js_map_of_tokens:
  "distinct (map fst kvs) \<Longrightarrow> map_option snd (js_map_of fst kvs key) = map_of kvs key"
proof (induction kvs rule: rev_induct)
  case (snoc kv kvs)
  have "js_map_of fst (kvs @ [kv]) key = (if fst kv = key then Some kv else js_map_of fst kvs key)"
    by (simp add: js_map_of_def)
  moreover have "map_of (kvs @ [kv]) key = (case map_of kvs key of None \<Rightarrow> map_of [kv] key | Some v \<Rightarrow> Some v)"
    by (simp add: map_add_def split: option.splits)
  moreover have "fst kv = key \<Longrightarrow> map_of kvs key = None"
    using snoc.prems by (auto simp: map_of_eq_None_iff)
  ultimately show ?case using snoc by (cases kv) (auto split: option.splits)
qed simp

lemma rruleTokens_text:
  assumes "kvs \<noteq> []" "\<And>kv. kv \<in> set kvs \<Longrightarrow> token_ok kv" "distinct (map fst kvs)"
  shows "rruleTokens (join_with (CHR '';'') (map token_text kvs)) key = map_of kvs key"
proof -
  have "split_on (CHR '';'') (join_with (CHR '';'') (map token_text kvs)) = map token_text kvs"
    using assms(1,2) by (intro split_join) (auto simp: token_text_def token_ok_def no_marks_def)
  moreover have "List.map_filter (\<lambda>part. case split_on (CHR ''='') part of
        k # v # _ \<Rightarrow> if k \<noteq> [] \<and> v \<noteq> [] then Some (js_upper k, v) else None
      | _ \<Rightarrow> None) (map token_text kvs) = kvs"
    using assms(2)
  proof (induction kvs)
    case (Cons kv kvs)
    then have "token_ok kv" by simp
    then show ?case using Cons token_parts[of kv] by (simp add: token_ok_def)
  qed simp
  ultimately show ?thesis using js_map_of_tokens[OF assms(3)] by (simp add: rruleTokens_def)
qed

subsection \<open>The pairs a rule is written as\<close>

definition opt_pair :: "string \<Rightarrow> string option \<Rightarrow> (string \<times> string) list" where
  "opt_pair k v = (case v of None \<Rightarrow> [] | Some x \<Rightarrow> [(k, x)])"

definition written_byDay :: "host \<Rightarrow> string \<Rightarrow> string list option \<Rightarrow> string list option" where
  "written_byDay hst rule byDay =
     (case normalizeWeekdays byDay of None \<Rightarrow> None
      | Some ds \<Rightarrow>
          if rule = ''weekly'' then
            map_option (\<lambda>w. filter (\<lambda>d. d \<in> set w) WEEKDAY_ORDER) (normalizeWeeklyByDay (Some ds))
          else if rule = ''monthly'' then Some (js_sort (localeCompare hst) ds) else None)"

definition written_byMonthDay :: "string \<Rightarrow> string list option \<Rightarrow> int list option \<Rightarrow> int list option" where
  "written_byMonthDay rule byDay byMonthDay =
     (if rule = ''monthly'' \<and> normalizeWeekdays byDay = None
      then normalizeMonthDays (Some (map show_int (or_else byMonthDay []))) else None)"

definition written_bySetPos :: "string \<Rightarrow> string list option \<Rightarrow> int list option \<Rightarrow> int option \<Rightarrow> int option" where
  "written_bySetPos rule byDay byMonthDay bySetPos =
     (case bySetPos of None \<Rightarrow> None
      | Some n \<Rightarrow> if rule = ''monthly'' \<and> (normalizeWeekdays byDay \<noteq> None \<or> or_else byMonthDay [] \<noteq> []) \<and>
          n \<noteq> 0 \<and> \<bar>n\<bar> \<le> 366 then Some n else None)"

definition int_over :: "int \<Rightarrow> int option \<Rightarrow> int option" where
  "int_over k v = (case v of None \<Rightarrow> None | Some n \<Rightarrow> if k < n then Some n else None)"

definition written_weekStart :: "string \<Rightarrow> string option \<Rightarrow> string option" where
  "written_weekStart rule weekStart = (if rule = ''weekly'' then normalizeWeekStart weekStart else None)"

definition rrule_pairs :: "host \<Rightarrow> string \<Rightarrow> string list option \<Rightarrow> int option \<Rightarrow> int list option \<Rightarrow> int option \<Rightarrow>
    string option \<Rightarrow> int option \<Rightarrow> string option \<Rightarrow> (string \<times> string) list" where
  "rrule_pairs hst rule byDay interval byMonthDay bySetPos weekStart count until =
     [(''FREQ'', js_upper rule)] @ opt_pair ''INTERVAL'' (map_option show_int (int_over 1 interval)) @
     opt_pair ''BYDAY'' (map_option (join_with (CHR '','')) (written_byDay hst rule byDay)) @
     opt_pair ''BYMONTHDAY'' (map_option (\<lambda>ms. join_with (CHR '','') (map show_int ms))
       (written_byMonthDay rule byDay byMonthDay)) @
     opt_pair ''BYSETPOS'' (map_option show_int (written_bySetPos rule byDay byMonthDay bySetPos)) @
     opt_pair ''COUNT'' (map_option show_int (int_over 0 count)) @
     opt_pair ''WKST'' (written_weekStart rule weekStart) @
     opt_pair ''UNTIL'' (formatUntilToken hst until)"

lemma map_token_pair: "map token_text (opt_pair k v) = (case v of None \<Rightarrow> [] | Some x \<Rightarrow> [k @ CHR ''='' # x])"
  by (simp add: opt_pair_def token_text_def split: option.splits)

lemma day_parts_pairs:
  "rrule_day_parts hst rule (normalizeWeekdays byDay) byMonthDay =
    map token_text (opt_pair ''BYDAY'' (map_option (join_with (CHR '','')) (written_byDay hst rule byDay))) @
    map token_text (opt_pair ''BYMONTHDAY'' (map_option (\<lambda>ms. join_with (CHR '','') (map show_int ms))
       (written_byMonthDay rule byDay byMonthDay)))"
  by (cases "normalizeWeekdays byDay")
    (auto simp: rrule_day_parts_def written_byDay_def written_byMonthDay_def map_token_pair split: option.splits)

lemma buildRRuleString_pairs:
  "buildRRuleString hst rule byDay interval byMonthDay bySetPos weekStart count until =
    join_with (CHR '';'') (map token_text (rrule_pairs hst rule byDay interval byMonthDay bySetPos weekStart count until))"
proof -
  have e: "map token_text [(''FREQ'', js_upper rule)] = [''FREQ='' @ js_upper rule]" by (simp add: token_text_def)
  have i: "map token_text (opt_pair ''INTERVAL'' (map_option show_int (int_over 1 interval))) =
      (case interval of None \<Rightarrow> [] | Some n \<Rightarrow> if n > 1 then [''INTERVAL='' @ show_int n] else [])"
    by (simp add: map_token_pair int_over_def split: option.splits)
  have c: "map token_text (opt_pair ''COUNT'' (map_option show_int (int_over 0 count))) =
      (case count of None \<Rightarrow> [] | Some n \<Rightarrow> if n > 0 then [''COUNT='' @ show_int n] else [])"
    by (simp add: map_token_pair int_over_def split: option.splits)
  have p: "map token_text (opt_pair ''BYSETPOS'' (map_option show_int (written_bySetPos rule byDay byMonthDay bySetPos))) =
      (case bySetPos of None \<Rightarrow> []
          | Some n \<Rightarrow>
              if rule = ''monthly'' \<and> (normalizeWeekdays byDay \<noteq> None \<or> or_else byMonthDay [] \<noteq> []) \<and>
                 n \<noteq> 0 \<and> \<bar>n\<bar> \<le> 366
              then [''BYSETPOS='' @ show_int n] else [])"
    by (auto simp: map_token_pair written_bySetPos_def split: option.splits)
  have w: "map token_text (opt_pair ''WKST'' (written_weekStart rule weekStart)) =
      (case normalizeWeekStart weekStart of None \<Rightarrow> []
          | Some w \<Rightarrow> if rule = ''weekly'' then [''WKST='' @ w] else [])"
    by (simp add: map_token_pair written_weekStart_def split: option.splits)
  have u: "map token_text (opt_pair ''UNTIL'' (formatUntilToken hst until)) =
      (case formatUntilToken hst until of None \<Rightarrow> [] | Some u \<Rightarrow> [''UNTIL='' @ u])"
    by (simp add: map_token_pair split: option.splits)
  show ?thesis
    unfolding rrule_pairs_def map_append e i c p w u buildRRuleString_def Let_def day_parts_pairs append_assoc ..
qed

subsection \<open>The values are well-formed tokens\<close>

definition day_token_ok :: "string \<Rightarrow> bool" where
  "day_token_ok d \<longleftrightarrow> no_marks d \<and> CHR '','' \<notin> set d \<and> d \<noteq> [] \<and> parseByDayToken d = Some d"

lemma by_day_tokens_ok: "d \<in> set by_day_tokens \<Longrightarrow> day_token_ok d"
proof -
  have "list_all (\<lambda>d. CHR '';'' \<notin> set d \<and> CHR ''='' \<notin> set d \<and> CHR '','' \<notin> set d \<and> d \<noteq> [] \<and>
      parseByDayToken d = Some d) by_day_tokens"
    by code_simp
  then show "d \<in> set by_day_tokens \<Longrightarrow> day_token_ok d"
    by (auto simp: list_all_iff day_token_ok_def no_marks_def)
qed

lemma parseByDayToken_ok: "parseByDayToken s = Some d \<Longrightarrow> d \<in> set by_day_tokens"
  by (auto simp: parseByDayToken_def Let_def split: if_splits)

lemma normalizeWeekdays_ok:
  assumes "normalizeWeekdays days = Some ds"
  shows "ds \<noteq> []" "distinct ds" "set ds \<subseteq> set by_day_tokens"
  using assms parseByDayToken_ok
  by (auto simp: normalizeWeekdays_def non_empty_opt_def List.map_filter_def split: option.splits if_splits)

lemma weekday_order_ok: "set WEEKDAY_ORDER \<subseteq> set by_day_tokens" "distinct WEEKDAY_ORDER"
  unfolding by_day_tokens_def by (auto simp: WEEKDAY_ORDER_def)

lemma distinct_js_sort [simp]: "distinct (js_sort cmp xs) = distinct xs"
  by (metis card_distinct distinct_card length_js_sort set_js_sort)

lemma written_byDay_ok:
  assumes "written_byDay hst rule byDay = Some ds"
  shows "ds \<noteq> []" "distinct ds" "set ds \<subseteq> set by_day_tokens"
proof -
  obtain d0 where d0: "normalizeWeekdays byDay = Some d0"
    using assms by (auto simp: written_byDay_def split: option.splits)
  note ok = normalizeWeekdays_ok[OF d0]
  consider (week) w where "rule = ''weekly''" "normalizeWeeklyByDay (Some d0) = Some w"
      "ds = filter (\<lambda>d. d \<in> set w) WEEKDAY_ORDER"
    | (month) "ds = js_sort (localeCompare hst) d0"
    using assms d0 by (auto simp: written_byDay_def split: if_splits)
  then have "ds \<noteq> [] \<and> distinct ds \<and> set ds \<subseteq> set by_day_tokens"
  proof cases
    case week
    then have "w \<noteq> []" "set w \<subseteq> set WEEKDAY_ORDER"
      by (auto simp: normalizeWeeklyByDay_def non_empty_opt_def split: option.splits if_splits)
    moreover from this obtain x where "x \<in> set WEEKDAY_ORDER" "x \<in> set w" by (cases w) auto
    ultimately show ?thesis using week(3) weekday_order_ok by (auto simp: filter_empty_conv)
  next
    case month
    then show ?thesis using ok by (metis distinct_js_sort length_0_conv length_js_sort set_js_sort)
  qed
  then show "ds \<noteq> []" "distinct ds" "set ds \<subseteq> set by_day_tokens" by blast+
qed

lemma map_filter_parse:
  "set ds \<subseteq> set by_day_tokens \<Longrightarrow> List.map_filter parseByDayToken ds = ds"
  by (induction ds) (auto dest: by_day_tokens_ok simp: day_token_ok_def)

lemma written_byDay_read:
  assumes "written_byDay hst rule byDay = Some ds"
  shows "normalizeWeekdays (Some (split_on (CHR '','') (join_with (CHR '','') ds))) = Some ds"
    "no_marks (join_with (CHR '','') ds) \<and> join_with (CHR '','') ds \<noteq> []"
proof -
  note ok = written_byDay_ok[OF assms]
  have t: "day_token_ok d" if "d \<in> set ds" for d using that ok(3) by_day_tokens_ok by blast
  have "split_on (CHR '','') (join_with (CHR '','') ds) = ds"
    using ok(1) t by (intro split_join) (auto simp: day_token_ok_def)
  then show "normalizeWeekdays (Some (split_on (CHR '','') (join_with (CHR '','') ds))) = Some ds"
    using ok(1,2) map_filter_parse[OF ok(3)] by (simp add: normalizeWeekdays_def non_empty_opt_def uniq_id)
  show "no_marks (join_with (CHR '','') ds) \<and> join_with (CHR '','') ds \<noteq> []"
    using ok(1) t by (induction "CHR '',''" ds rule: join_with.induct) (auto simp: day_token_ok_def)
qed

lemma map_filter_numbers: "List.map_filter js_Number (map show_int ms) = ms"
  by (induction ms) (simp_all add: js_Number_show_int)

lemma written_byMonthDay_read:
  assumes "written_byMonthDay rule byDay byMonthDay = Some ms"
  shows "normalizeMonthDays (Some (split_on (CHR '','') (join_with (CHR '','') (map show_int ms)))) = Some ms"
    "no_marks (join_with (CHR '','') (map show_int ms)) \<and> join_with (CHR '','') (map show_int ms) \<noteq> []"
proof -
  have "ms \<noteq> [] \<and> distinct ms \<and> sorted ms \<and> (\<forall>d\<in>set ms. 1 \<le> d \<and> d \<le> 31 \<or> d = - 1)"
    using assms by (auto simp: written_byMonthDay_def normalizeMonthDays_def non_empty_opt_def
        split: if_splits)
  then have ok: "ms \<noteq> []" "distinct ms" "sorted ms" "\<forall>d\<in>set ms. 1 \<le> d \<and> d \<le> 31 \<or> d = - 1" by blast+
  have "split_on (CHR '','') (join_with (CHR '','') (map show_int ms)) = map show_int ms"
    using ok(1) show_int_digits by (intro split_join) auto
  moreover have "filter (\<lambda>d. (1 \<le> d \<and> d \<le> 31) \<or> d = - 1) ms = ms" using ok(4) by (simp add: filter_id_conv)
  ultimately show "normalizeMonthDays (Some (split_on (CHR '','') (join_with (CHR '','') (map show_int ms)))) = Some ms"
    using ok(1-3) by (simp add: normalizeMonthDays_def non_empty_opt_def map_filter_numbers uniq_id sorted_sort_id)
  have j: "no_marks (join_with (CHR '','') ws) \<and> join_with (CHR '','') ws \<noteq> []"
    if "ws \<noteq> []" "\<And>w. w \<in> set ws \<Longrightarrow> no_marks w \<and> w \<noteq> []" for ws
    using that by (induction "CHR '',''" ws rule: join_with.induct) auto
  then show "no_marks (join_with (CHR '','') (map show_int ms)) \<and> join_with (CHR '','') (map show_int ms) \<noteq> []"
    using j[of "map show_int ms"] ok(1) show_int_digits by force
qed

subsection \<open>The UNTIL token\<close>

lemma read_digits_parts:
  "read_digits n a s = Some (v, r) \<Longrightarrow> \<exists>p. s = p @ r \<and> length p = n \<and> list_all is_digit p"
proof (induction n a s rule: read_digits.induct)
  case (3 n acc c cs)
  then obtain d where d: "digit_of c = Some d" "read_digits n (10 * acc + d) cs = Some (v, r)"
    by (auto split: option.splits)
  then obtain p where "cs = p @ r" "length p = n" "list_all is_digit p" using "3.IH" by blast
  then have "c # cs = (c # p) @ r \<and> length (c # p) = Suc n \<and> list_all is_digit (c # p)"
    using d(1) by (simp add: is_digit_def)
  then show ?case by blast
qed auto

lemma eat_digits2_parts:
  "eat_digits2 c s = Some (v, r) \<Longrightarrow> \<exists>p. s = c # p @ r \<and> length p = 2 \<and> list_all is_digit p"
  by (auto simp: eat_digits2_def eat_def bind_eq_Some_conv dest!: read_digits_parts split: list.splits if_splits)

lemma date_only_parts:
  assumes "is_date_only s"
  shows "\<exists>y m d. s = y @ CHR ''-'' # m @ CHR ''-'' # d \<and> length y = 4 \<and> length m = 2 \<and> length d = 2 \<and>
    list_all is_digit (y @ m @ d)"
proof -
  obtain y m d r1 r2 where "read_digits 4 0 s = Some (y, r1)" "eat_digits2 (CHR ''-'') r1 = Some (m, r2)"
    "eat_digits2 (CHR ''-'') r2 = Some (d, [])"
    using assms by (auto simp: is_date_only_def at_end_def match_ymd_def bind_eq_Some_conv split: option.splits if_splits)
  then show ?thesis by (fastforce dest!: read_digits_parts eat_digits2_parts)
qed

lemma filter_digits: "list_all is_digit s \<Longrightarrow> filter (\<lambda>c. c \<noteq> CHR ''-'') s = s"
  using digit_not(4) by (auto simp: filter_id_conv list_all_iff)

lemma no_marks_replicate: "no_marks (replicate n (CHR ''0''))"
  by (simp add: no_marks_def)

lemma until_token_ok: "formatUntilToken hst until = Some u \<Longrightarrow> no_marks u \<and> u \<noteq> []"
proof -
  assume u: "formatUntilToken hst until = Some u"
  let ?t = "js_trim (or_else until [])"
  show ?thesis
  proof (cases "is_date_only ?t")
    case True
    then obtain y m d where p: "?t = y @ CHR ''-'' # m @ CHR ''-'' # d" "length y = 4" "list_all is_digit (y @ m @ d)"
      using date_only_parts by blast
    then have "u = y @ m @ d" using u True filter_digits by (auto simp: formatUntilToken_def Let_def split: if_splits)
    then show ?thesis using p digits_no_marks[of "y @ m @ d"] by auto
  next
    case False
    then show ?thesis
      using u show_int_digits no_marks_replicate
      by (auto simp: formatUntilToken_def Let_def pad_num_def split: option.splits if_splits prod.splits)
  qed
qed

subsection \<open>Reading a written rule\<close>

lemma opt_pair_key: "kv \<in> set (opt_pair k v) \<longleftrightarrow> (\<exists>x. v = Some x \<and> kv = (k, x))"
  by (auto simp: opt_pair_def split: option.splits)

lemma map_of_opt_pair: "map_of (opt_pair k v) j = (if j = k then v else None)"
  by (simp add: opt_pair_def split: option.splits)

lemma keys_no_marks:
  "k \<in> {''FREQ'', ''INTERVAL'', ''BYDAY'', ''BYMONTHDAY'', ''BYSETPOS'', ''COUNT'', ''WKST'', ''UNTIL''} \<Longrightarrow>
    k \<noteq> [] \<and> no_marks k \<and> js_upper k = k"
  by (auto simp: js_upper_def js_upper_char_def)

lemma rrule_pairs_ok:
  assumes "rule \<in> set RECURRENCE_RULES"
    and "kv \<in> set (rrule_pairs hst rule byDay interval byMonthDay bySetPos weekStart count until)"
  shows "token_ok kv"
proof -
  have f: "no_marks (js_upper rule) \<and> js_upper rule \<noteq> []"
  proof -
    have "list_all (\<lambda>r. CHR '';'' \<notin> set (js_upper r) \<and> CHR ''='' \<notin> set (js_upper r) \<and> js_upper r \<noteq> [])
        RECURRENCE_RULES" by code_simp
    then show ?thesis using assms(1) by (simp add: list_all_iff no_marks_def)
  qed
  have w: "no_marks w \<and> w \<noteq> []" if "written_weekStart rule weekStart = Some w" for w
  proof -
    have "w \<in> set by_day_tokens"
      using that parseByDayToken_ok
      by (auto simp: written_weekStart_def normalizeWeekStart_def split: if_splits option.splits)
    then show ?thesis using by_day_tokens_ok by (auto simp: day_token_ok_def)
  qed
  have "fst kv \<in> {''FREQ'', ''INTERVAL'', ''BYDAY'', ''BYMONTHDAY'', ''BYSETPOS'', ''COUNT'', ''WKST'', ''UNTIL''} \<and>
      no_marks (snd kv) \<and> snd kv \<noteq> []"
    using assms(2) f w show_int_digits written_byDay_read(2) written_byMonthDay_read(2) until_token_ok
    by (auto simp: rrule_pairs_def opt_pair_key)
  then show ?thesis using keys_no_marks[of "fst kv"] by (simp add: token_ok_def)
qed

lemma distinct_opt_pair: "distinct (map fst (opt_pair k v))"
  by (simp add: opt_pair_def split: option.splits)

lemma rrule_pairs_distinct:
  "distinct (map fst (rrule_pairs hst rule byDay interval byMonthDay bySetPos weekStart count until))"
proof -
  have k: "distinct (map fst (opt_pair k v @ rest)) \<longleftrightarrow>
      distinct (map fst rest) \<and> (v = None \<or> k \<notin> fst ` set rest)"
    "fst ` set (opt_pair k v @ rest) \<subseteq> insert k (fst ` set rest)" for k v rest
    by (auto simp: opt_pair_def split: option.splits)
  have n: "j \<notin> fst ` set rest \<Longrightarrow> j \<noteq> k \<Longrightarrow> j \<notin> fst ` set (opt_pair k v @ rest)" for j k v rest
    using k(2)[of k v rest] by blast
  have u: "distinct (map fst (opt_pair k v)) \<and> (j \<noteq> k \<longrightarrow> j \<notin> fst ` set (opt_pair k v))" for j k v
    by (simp add: opt_pair_def split: option.splits)
  show ?thesis
    unfolding rrule_pairs_def
    by (simp del: map_append set_append add: k(1) n u distinct_opt_pair)
qed

lemma rule_tokens:
  assumes "rule \<in> set RECURRENCE_RULES"
  shows "rruleTokens (buildRRuleString hst rule byDay interval byMonthDay bySetPos weekStart count until) key =
    map_of (rrule_pairs hst rule byDay interval byMonthDay bySetPos weekStart count until) key"
  unfolding buildRRuleString_pairs
  by (rule rruleTokens_text) (use rrule_pairs_ok[OF assms] rrule_pairs_distinct in \<open>auto simp: rrule_pairs_def\<close>)

lemma rule_token_values:
  assumes "rule \<in> set RECURRENCE_RULES"
    and tok: "tok = rruleTokens (buildRRuleString hst rule byDay interval byMonthDay bySetPos weekStart count until)"
  shows "tok ''FREQ'' = Some (js_upper rule)"
    "tok ''INTERVAL'' = map_option show_int (int_over 1 interval)"
    "tok ''BYDAY'' = map_option (join_with (CHR '','')) (written_byDay hst rule byDay)"
    "tok ''BYMONTHDAY'' = map_option (\<lambda>ms. join_with (CHR '','') (map show_int ms))
       (written_byMonthDay rule byDay byMonthDay)"
    "tok ''BYSETPOS'' = map_option show_int (written_bySetPos rule byDay byMonthDay bySetPos)"
    "tok ''COUNT'' = map_option show_int (int_over 0 count)"
    "tok ''WKST'' = written_weekStart rule weekStart"
    "tok ''UNTIL'' = formatUntilToken hst until"
  unfolding tok rule_tokens[OF assms(1)] rrule_pairs_def
  by (simp_all add: map_add_def map_of_opt_pair split: option.splits)

lemma join_nonempty: "x \<noteq> [] \<Longrightarrow> join_with c (x # xs) \<noteq> []"
  by (cases xs) simp_all

lemma rule_freq: "rule \<in> set RECURRENCE_RULES \<Longrightarrow> RRULE_FREQ_MAP (js_upper (js_upper rule)) = Some rule"
proof -
  have "list_all (\<lambda>r. RRULE_FREQ_MAP (js_upper (js_upper r)) = Some r) RECURRENCE_RULES" by code_simp
  then show "rule \<in> set RECURRENCE_RULES \<Longrightarrow> RRULE_FREQ_MAP (js_upper (js_upper rule)) = Some rule"
    by (simp add: list_all_iff)
qed

lemma written_weekStart_read: "normalizeWeekStart (written_weekStart rule weekStart) = written_weekStart rule weekStart"
proof (cases "written_weekStart rule weekStart")
  case None
  have "normalizeWeekStart None = None" by code_simp
  then show ?thesis using None by simp
next
  case (Some w)
  then have "w \<in> set WEEKDAY_ORDER"
    by (auto simp: written_weekStart_def normalizeWeekStart_def split: if_splits option.splits)
  moreover have "list_all (\<lambda>w. normalizeWeekStart (Some w) = Some w) WEEKDAY_ORDER" by code_simp
  ultimately show ?thesis using Some by (simp add: list_all_iff)
qed

lemma rrule_read_back:
  assumes rule: "rule \<in> set RECURRENCE_RULES"
  shows "parseRRuleString hst (buildRRuleString hst rule byDay interval byMonthDay bySetPos weekStart count until) =
    \<lparr>pr_rule = Some rule, pr_byDay = written_byDay hst rule byDay,
     pr_byMonthDay = written_byMonthDay rule byDay byMonthDay,
     pr_bySetPos = written_bySetPos rule byDay byMonthDay bySetPos, pr_interval = int_over 1 interval,
     pr_weekStart = written_weekStart rule weekStart, pr_count = int_over 0 count,
     pr_until = parseUntilToken hst (formatUntilToken hst until)\<rparr>"
proof -
  let ?s = "buildRRuleString hst rule byDay interval byMonthDay bySetPos weekStart count until"
  note v = rule_token_values[OF rule refl, of hst byDay interval byMonthDay bySetPos weekStart count until]
  have ne: "?s \<noteq> []"
    unfolding buildRRuleString_pairs rrule_pairs_def by (simp add: join_nonempty token_text_def)
  have d: "normalizeWeekdays (map_option (split_on (CHR '',''))
      (map_option (join_with (CHR '','')) (written_byDay hst rule byDay))) = written_byDay hst rule byDay"
    using written_byDay_read(1) by (cases "written_byDay hst rule byDay") (auto simp: normalizeWeekdays_def)
  have m: "normalizeMonthDays (map_option (split_on (CHR '',''))
      (map_option (\<lambda>ms. join_with (CHR '','') (map show_int ms)) (written_byMonthDay rule byDay byMonthDay))) =
      written_byMonthDay rule byDay byMonthDay"
    using written_byMonthDay_read(1)
    by (cases "written_byMonthDay rule byDay byMonthDay") (auto simp: normalizeMonthDays_def)
  have n: "Option.bind (map_option show_int x) js_Number = x" for x
    by (cases x) (simp_all add: js_Number_show_int)
  have sp: "(case written_bySetPos rule byDay byMonthDay bySetPos of None \<Rightarrow> None
      | Some n \<Rightarrow> if n \<noteq> 0 \<and> \<bar>n\<bar> \<le> 366 then Some n else None) = written_bySetPos rule byDay byMonthDay bySetPos"
    by (simp add: written_bySetPos_def split: option.splits)
  have c: "(case int_over 1 x of None \<Rightarrow> None | Some n \<Rightarrow> if n > 0 then Some n else None) = int_over 1 x"
    "(case int_over 0 x of None \<Rightarrow> None | Some n \<Rightarrow> if n > 0 then Some n else None) = int_over 0 x" for x
    by (simp_all add: int_over_def split: option.splits)
  show ?thesis
    using ne unfolding parseRRuleString_def parseRRuleSelectors_def Let_def v d m n sp c bind.bind_lunit
      rule_freq[OF rule] written_weekStart_read by simp
qed

text \<open>
  C9: Every recurrence rule written as RRULE text reads back: the frequency, the interval above one,
  the weekdays in the canonical order of the rule, the month days sorted, the position within the
  month, the positive count and the week start of a weekly rule; the until date is the token written.
\<close>

theorem rrule_roundtrip:
  assumes rule: "rule \<in> set RECURRENCE_RULES"
  shows "parseRRuleString hst (buildRRuleString hst rule byDay interval byMonthDay bySetPos weekStart count until) =
    \<lparr>pr_rule = Some rule, pr_byDay = written_byDay hst rule byDay,
     pr_byMonthDay = written_byMonthDay rule byDay byMonthDay,
     pr_bySetPos = written_bySetPos rule byDay byMonthDay bySetPos, pr_interval = int_over 1 interval,
     pr_weekStart = written_weekStart rule weekStart, pr_count = int_over 0 count,
     pr_until = parseUntilToken hst (formatUntilToken hst until)\<rparr>"
  by (rule rrule_read_back[OF rule])

lemma rrule_roundtrip_witness:
  "parseRRuleString sample_host (buildRRuleString sample_host ''monthly'' (Some [''-1FR'', ''2MO'']) (Some 3) None
      (Some 2) None (Some 5) (Some ''2026-12-31'')) =
    \<lparr>pr_rule = Some ''monthly'', pr_byDay = Some [''-1FR'', ''2MO''], pr_byMonthDay = None, pr_bySetPos = Some 2,
     pr_interval = Some 3, pr_weekStart = None, pr_count = Some 5, pr_until = Some ''2026-12-31''\<rparr>"
proof -
  have "written_byDay sample_host ''monthly'' (Some [''-1FR'', ''2MO'']) = Some [''-1FR'', ''2MO'']"
    "written_byMonthDay ''monthly'' (Some [''-1FR'', ''2MO'']) None = None"
    "written_bySetPos ''monthly'' (Some [''-1FR'', ''2MO'']) None (Some 2) = Some 2"
    "int_over 1 (Some 3) = Some 3" "int_over 0 (Some 5) = Some 5" "written_weekStart ''monthly'' None = None"
    "parseUntilToken sample_host (formatUntilToken sample_host (Some ''2026-12-31'')) = Some ''2026-12-31''"
    "''monthly'' \<in> set RECURRENCE_RULES"
    by code_simp+
  then show ?thesis
    using rrule_roundtrip[of "''monthly''" sample_host "Some [''-1FR'', ''2MO'']" "Some 3" None "Some 2" None
      "Some 5" "Some ''2026-12-31''"] by simp
qed

end
