(* ===== verification/RecurrenceFollow.thy ===== *)
theory RecurrenceFollow
  imports RecurrenceCatchUp RRuleText
begin

text \<open>
  What completing a recurring task promises: the follow-up of a series with a count or an until
  date, and that the checks of \<open>buildNextRecurringTask\<close> never refuse the projection the code
  itself makes.
\<close>

subsection \<open>A completion that has a follow-up\<close>

lemma built_follow_up:
  assumes "createNextRecurringTask h now createId t completedAt previous advance s = Inr (Some t', s')"
  obtains rule p id1 attachments checklist where
    "getRecurrenceRule (t_recurrence t) = Some rule"
    "projectNextRecurringTask h now t completedAt advance = Some p"
    "\<not> count_reached (t_recurrence t) 1" "stopAtFrozenUntil (rp_candidate p) (rp_until p) = Inr False"
    "t' = follow_up_task t completedAt previous p rule id1 attachments checklist"
proof -
  obtain rule where r: "getRecurrenceRule (t_recurrence t) = Some rule"
    using assms by (auto simp: createNextRecurringTask_def buildNextRecurringTask_def split: option.splits if_splits)
  then obtain p where p: "projectNextRecurringTask h now t completedAt advance = Some p"
    using assms by (auto simp: createNextRecurringTask_def buildNextRecurringTask_def split: option.splits if_splits)
  obtain b where b: "stopAtFrozenUntil (rp_candidate p) (rp_until p) = Inr b"
    "\<not> (count_reached (t_recurrence t) 1 \<or> b)"
    "(case follow_up createId t completedAt previous p rule s of (next1, s'') \<Rightarrow> (Some next1, s'')) = (Some t', s')"
    using assms unfolding createNextRecurringTask_def buildNextRecurringTask_def r p
    by (simp split: option.splits sum.splits if_splits prod.splits)
  obtain id1 attachments checklist where
    "t' = follow_up_task t completedAt previous p rule id1 attachments checklist"
    using b(3) by (auto simp: follow_up_def split: prod.splits)
  then show thesis using that r p b(1,2) by simp
qed

lemma follow_up_recurrence:
  "t_recurrence (follow_up_task t c st p rule i atts cl) = Some (RecObj (next_recurrence t rule p))"
  by (simp add: follow_up_task_def)

subsection \<open>A series of completions\<close>

text \<open>One completion, at any time, in any status and from any state of the identifier supply.\<close>

inductive completes :: "host \<Rightarrow> 's id_supply \<Rightarrow> task \<Rightarrow> task \<Rightarrow> bool" for h createId where
  completed: "createNextRecurringTask h now createId t completedAt previous advance s = Inr (Some t', s') \<Longrightarrow>
    completes h createId t t'"

inductive_cases completes_cases: "completes h createId t t'"

definition series_of :: "task \<Rightarrow> string" where
  "series_of t = (case t_recurrence t of
       Some (RecObj r) \<Rightarrow> (case rec_seriesId r of None \<Rightarrow> eid t
         | Some s \<Rightarrow> if js_trim s = [] then eid t else js_trim s)
     | _ \<Rightarrow> eid t)"

lemma next_count:
  assumes "getRecurrenceCountValue (t_recurrence t) = Some n" "t_recurrence t' = Some (RecObj (next_recurrence t rule p))"
  shows "getRecurrenceCountValue (t_recurrence t') = Some n"
    "completed_occurrences (t_recurrence t') = completed_occurrences (t_recurrence t) + 1"
proof -
  obtain r where r: "t_recurrence t = Some (RecObj r)"
    using assms(1) by (auto simp: getRecurrenceCountValue_def split: option.splits task_recurrence.splits)
  have n: "0 < n"
    using assms(1) by (auto simp: getRecurrenceCountValue_def positive_def r split: option.splits if_splits)
  have c: "rec_count (next_recurrence t rule p) = Some n"
    "rec_completedOccurrences (next_recurrence t rule p) =
      Some (or_else (getRecurrenceCompletedOccurrencesValue (t_recurrence t)) 0 + 1)"
    using assms(1) by (simp_all add: next_recurrence_def r Let_def)
  have "0 \<le> or_else (getRecurrenceCompletedOccurrencesValue (t_recurrence t)) 0"
    by (auto simp: getRecurrenceCompletedOccurrencesValue_def r split: option.splits if_splits)
  then show "getRecurrenceCountValue (t_recurrence t') = Some n"
    "completed_occurrences (t_recurrence t') = completed_occurrences (t_recurrence t) + 1"
    using c n unfolding assms(2)
    by (simp_all add: getRecurrenceCountValue_def positive_def completed_occurrences_def
        getRecurrenceCompletedOccurrencesValue_def[of "Some (RecObj (next_recurrence t rule p))"])
qed

lemma next_series:
  "t_recurrence t' = Some (RecObj (next_recurrence t rule p)) \<Longrightarrow> js_trim (series_of t) = series_of t \<Longrightarrow>
    series_of t \<noteq> [] \<Longrightarrow> series_of t' = series_of t"
proof -
  assume a: "t_recurrence t' = Some (RecObj (next_recurrence t rule p))" "js_trim (series_of t) = series_of t"
    "series_of t \<noteq> []"
  have "rec_seriesId (next_recurrence t rule p) = Some (series_of t)"
    by (simp add: next_recurrence_def series_of_def Let_def split: option.splits task_recurrence.splits)
  then show ?thesis using a by (simp add: series_of_def[of t'])
qed

text \<open>
  C7: A recurring task with a count ends: however its occurrences are completed, a chain of
  follow-ups never exceeds the count, each counts the occurrences done so far, and all of them
  carry the series identifier and the count of the first.
\<close>

theorem counted_series_ends:
  assumes n: "getRecurrenceCountValue (t_recurrence t) = Some n"
    and sid: "js_trim (series_of t) = series_of t" "series_of t \<noteq> []"
    and room: "completed_occurrences (t_recurrence t) < n"
    and chain: "(completes h createId ^^ k) t t'"
  shows "completed_occurrences (t_recurrence t) + int k < n \<and>
    completed_occurrences (t_recurrence t') = completed_occurrences (t_recurrence t) + int k \<and>
    getRecurrenceCountValue (t_recurrence t') = Some n \<and> series_of t' = series_of t"
  using chain
proof (induction k arbitrary: t')
  case 0
  then show ?case using n room by simp
next
  case (Suc k)
  then obtain u where u: "(completes h createId ^^ k) t u" "completes h createId u t'" by auto
  note ih = Suc.IH[OF u(1)]
  from u(2) obtain now completedAt previous advance s s' where
    "createNextRecurringTask h now createId u completedAt previous advance s = Inr (Some t', s')"
    by (auto elim: completes_cases)
  from built_follow_up[OF this] obtain rule p id1 atts cl where
    f: "\<not> count_reached (t_recurrence u) 1" "t' = follow_up_task u completedAt previous p rule id1 atts cl"
    by metis
  have rec: "t_recurrence t' = Some (RecObj (next_recurrence u rule p))" unfolding f(2) by (rule follow_up_recurrence)
  have "completed_occurrences (t_recurrence u) + 1 < n" using f(1) ih by (simp add: count_reached_def)
  then show ?case
    using ih next_count[OF _ rec, of n] next_series[OF rec] sid by simp
qed

text \<open>
  C8: No follow-up lies beyond the until date of its series: the day of its due date (or of the
  first other schedule field it has) is not after a day the series ends on, its instant not after
  an instant it ends at.
\<close>

theorem follow_up_before_until:
  assumes "createNextRecurringTask h now createId t completedAt previous advance s = Inr (Some t', s')"
    and until: "getRecurrenceUntilValue h (t_recurrence t) = Some u" "u \<noteq> []"
    and anchor: "safeParseDate h (occurrence_anchor (task_dates t')) = Some d"
  shows "if is_date_only u then formatDay h d \<le> u
    else safeParseDate h (Some u) = None \<or> d \<le> the (safeParseDate h (Some u))"
proof -
  obtain rule p id1 atts cl where
    f: "getRecurrenceRule (t_recurrence t) = Some rule"
    "projectNextRecurringTask h now t completedAt advance = Some p"
    "stopAtFrozenUntil (rp_candidate p) (rp_until p) = Inr False"
    "t' = follow_up_task t completedAt previous p rule id1 atts cl"
    using built_follow_up[OF assms(1)] by metis
  have c: "task_dates t' = rp_candidate p" by (simp add: f(4) follow_up_task_def task_dates_def)
  let ?a = "occurrence_anchor (rp_candidate p)"
  have p: "rp_until p = Some \<lparr>fu_normalized = u, fu_comparison = compare_until h ?a (Some u),
      fu_rruleUntilToken = formatUntilToken h (Some u)\<rparr>"
    using f(2) until by (auto simp: projectNextRecurringTask_def f(1) Let_def)
  have a: "safeParseDate h ?a = Some d" "truthy ?a"
    using anchor by (auto simp: c safeParseDate_def truthy_def split: option.splits if_splits)
  show ?thesis
  proof (cases "is_date_only u")
    case True
    then have "compare_until h ?a (Some u) = Some (LocalDay (freezeRecurrenceInstant h d) (formatDay h d) u)"
      using a(1) until(2) by (simp add: compare_until_def)
    then have "\<not> u < formatDay h d"
      using f(3) a(2) unfolding p stopAtFrozenUntil_def by (simp add: Let_def split: if_splits)
    then show ?thesis using True by simp
  next
    case False
    show ?thesis
    proof (cases "safeParseDate h (Some u)")
      case (Some e)
      then have "compare_until h ?a (Some u) =
          Some (Epoch (freezeRecurrenceInstant h d) (freezeRecurrenceInstant h e) d e)"
        using a(1) until(2) False by (simp add: compare_until_def)
      then have "\<not> e < d"
        using f(3) a(2) unfolding p stopAtFrozenUntil_def by (simp add: Let_def split: if_splits)
      then show ?thesis using False Some by simp
    qed (use False in simp)
  qed
qed

subsection \<open>An example\<close>

text \<open>A monthly task due on the last day of January, to be done three times and before the year is out.\<close>

definition series_task :: task where
  "series_task = (sample_task ''t1'')\<lparr>t_dueDate := Some ''2026-01-31'', t_recurrence :=
     Some (RecObj ((recurrence_of_rule ''monthly'')\<lparr>rec_count := Some 3, rec_until := Some ''2026-12-31''\<rparr>))\<rparr>"

definition counting_supply :: "nat id_supply" where
  "counting_supply n = (show_nat n, Suc n)"

definition series_result :: "(task option \<times> nat) checked" where
  "series_result = createNextRecurringTask calendar_host 0 counting_supply series_task ''2026-01-30T10:00:00.000Z'' Next False 0"

definition series_next :: task where
  "series_next = (case series_result of Inr (Some t, _) \<Rightarrow> t | _ \<Rightarrow> series_task)"

lemma series_next_built: "createNextRecurringTask calendar_host 0 counting_supply series_task
    ''2026-01-30T10:00:00.000Z'' Next False 0 = Inr (Some series_next, 1)"
proof -
  have "(case series_result of Inr (Some t, n) \<Rightarrow> n = 1 | _ \<Rightarrow> False)" by code_simp
  then obtain x where x: "series_result = Inr (Some x, 1)" by (auto split: sum.splits prod.splits option.splits)
  have "series_next = x" unfolding series_next_def x by simp
  then show ?thesis using x by (simp add: series_result_def)
qed

lemma series_next_due: "t_dueDate series_next = Some ''2026-02-28''"
  by code_simp

lemma counted_series_ends_witness:
  "completed_occurrences (t_recurrence series_task) + int 1 < 3 \<and>
    completed_occurrences (t_recurrence series_next) = completed_occurrences (t_recurrence series_task) + int 1 \<and>
    getRecurrenceCountValue (t_recurrence series_next) = Some 3 \<and> series_of series_next = series_of series_task"
proof -
  have h: "getRecurrenceCountValue (t_recurrence series_task) = Some 3"
    "js_trim (series_of series_task) = series_of series_task" "series_of series_task \<noteq> []"
    "completed_occurrences (t_recurrence series_task) < 3"
    by code_simp+
  have "(completes calendar_host counting_supply ^^ 1) series_task series_next"
    using completed[OF series_next_built] by auto
  from counted_series_ends[OF h this] show ?thesis .
qed

lemma follow_up_before_until_witness:
  "formatDay calendar_host 1772236800000 \<le> ''2026-12-31''"
proof -
  have h: "getRecurrenceUntilValue calendar_host (t_recurrence series_task) = Some ''2026-12-31''"
    "''2026-12-31'' \<noteq> []" "is_date_only ''2026-12-31''" by code_simp+
  have "safeParseDate calendar_host (occurrence_anchor (task_dates series_next)) = Some 1772236800000"
    by code_simp
  from follow_up_before_until[OF series_next_built h(1,2) this] h(3) show ?thesis by simp
qed

text \<open>
  A stored clock past midnight is read as a time of the next day, which the check of the source
  anchor takes for a foreign projection.
\<close>

lemma rolled_clock_refused:
  "createNextRecurringTask calendar_host 0 counting_supply (series_task\<lparr>t_dueDate := Some ''2026-01-30T25:00''\<rparr>)
    ''2026-01-30T10:00:00.000Z'' Next False 0 = Inl ''Invalid recurrence source anchor''"
  by code_simp

end
