(* ===== verification/RecurrenceTotal.thy ===== *)
theory RecurrenceTotal
  imports RecurrenceFollow
begin

text \<open>
  The projection \<open>projectNextRecurringTask\<close> makes always passes the checks of
  \<open>buildNextRecurringTask\<close>: completing a task whose dates are in the forms the application
  stores never fails. Check by check, in the order of the code.
\<close>

subsection \<open>The rule text\<close>

lemma join_snoc: "xs \<noteq> [] \<Longrightarrow> join_with c (xs @ [y]) = join_with c xs @ c # y"
  by (induction c xs rule: join_with.induct) auto

lemma buildRRuleString_until:
  "buildRRuleString hst rule byDay interval byMonthDay bySetPos weekStart count until =
    (case formatUntilToken hst until of
       None \<Rightarrow> buildRRuleString hst rule byDay interval byMonthDay bySetPos weekStart count None
     | Some u \<Rightarrow> buildRRuleString hst rule byDay interval byMonthDay bySetPos weekStart count None @
         '';UNTIL='' @ u)"
proof -
  let ?b = "[(''FREQ'', js_upper rule)] @ opt_pair ''INTERVAL'' (map_option show_int (int_over 1 interval)) @
     opt_pair ''BYDAY'' (map_option (join_with (CHR '','')) (written_byDay hst rule byDay)) @
     opt_pair ''BYMONTHDAY'' (map_option (\<lambda>ms. join_with (CHR '','') (map show_int ms))
       (written_byMonthDay rule byDay byMonthDay)) @
     opt_pair ''BYSETPOS'' (map_option show_int (written_bySetPos rule byDay byMonthDay bySetPos)) @
     opt_pair ''COUNT'' (map_option show_int (int_over 0 count)) @
     opt_pair ''WKST'' (written_weekStart rule weekStart)"
  have p: "rrule_pairs hst rule byDay interval byMonthDay bySetPos weekStart count u =
      ?b @ opt_pair ''UNTIL'' (formatUntilToken hst u)" for u
    unfolding rrule_pairs_def append_assoc ..
  have n: "formatUntilToken hst None = None" by (simp add: formatUntilToken_def)
  have b: "map token_text ?b \<noteq> []" by simp
  show ?thesis
    unfolding buildRRuleString_pairs p n map_append
    using join_snoc[OF b[unfolded map_append], of "CHR '';''"]
    by (simp add: opt_pair_def token_text_def split: option.splits)
qed

definition until_settled :: "host \<Rightarrow> task \<Rightarrow> bool" where
  "until_settled h t =
     (case getRecurrenceUntilValue h (t_recurrence t) of None \<Rightarrow> True | Some u \<Rightarrow> \<exists>e. stored_form u e)"

lemma projected_parts:
  assumes "getRecurrenceRule (t_recurrence t) = Some rule"
    and p: "projectNextRecurringTask h now t completedAt advance = Some p"
  shows "rp_version p = 1"
    "rp_sourceAnchorDays p = resolveRecurrenceFieldAnchorDays h (t_recurrence t) (task_dates t)"
    "rp_rruleUntilSourceToken p = Option.bind (rrule_of (t_recurrence t)) (\<lambda>r. rruleTokens r ''UNTIL'')"
    "rp_until p = (let until = getRecurrenceUntilValue h (t_recurrence t) in
       if truthy until then Some \<lparr>fu_normalized = or_else until [],
           fu_comparison = compare_until h (occurrence_anchor (rp_candidate p)) until,
           fu_rruleUntilToken = formatUntilToken h until\<rparr> else None)"
    "rp_rruleText p = map_option (\<lambda>_. buildRRuleString h rule (getRecurrenceByDay (t_recurrence t))
       (Some (getRecurrenceInterval (t_recurrence t))) (getRecurrenceByMonthDay (t_recurrence t))
       (getRecurrenceBySetPos (t_recurrence t)) (getRecurrenceWeekStart (t_recurrence t))
       (getRecurrenceCountValue (t_recurrence t)) (getRecurrenceUntilValue h (t_recurrence t)))
       (rrule_of (t_recurrence t))"
  using p by (auto simp: projectNextRecurringTask_def assms(1) Let_def)

lemma recurrence_check_passes:
  assumes r: "getRecurrenceRule (t_recurrence t) = Some rule" and u: "until_settled h t"
    and p: "projectNextRecurringTask h now t completedAt advance = Some p"
  shows "check_recurrence h t rule p = None"
proof -
  let ?U = "getRecurrenceUntilValue h (t_recurrence t)"
  note pp = projected_parts[OF r p]
  have ne: "?U = Some v \<Longrightarrow> v \<noteq> []" for v
    using u by (auto simp: until_settled_def dest: stored_not_empty)
  then have un: "map_option fu_normalized (rp_until p) = ?U" "rp_until p = None \<longleftrightarrow> ?U = None"
    by (cases ?U; simp add: pp(4) Let_def)+
  have tok: "Option.bind (rp_until p) fu_rruleUntilToken = formatUntilToken h ?U"
    using ne by (cases ?U) (simp_all add: pp(4) Let_def formatUntilToken_def)
  have rtext: "rp_rruleText p = map_option (\<lambda>_. (let base = buildRRuleString h rule (getRecurrenceByDay (t_recurrence t))
            (Some (getRecurrenceInterval (t_recurrence t))) (getRecurrenceByMonthDay (t_recurrence t))
            (getRecurrenceBySetPos (t_recurrence t)) (getRecurrenceWeekStart (t_recurrence t))
            (getRecurrenceCountValue (t_recurrence t)) None;
          untilToken = Option.bind (rp_until p) fu_rruleUntilToken
        in if truthy untilToken then base @ '';UNTIL='' @ or_else untilToken [] else base)) (rrule_of (t_recurrence t))"
    unfolding pp(5) tok Let_def
    by (subst buildRRuleString_until) (auto split: option.splits dest: until_token_ok)
  have ex: "(case t_recurrence t of Some (RecObj r) \<Rightarrow> if truthy (rec_until r) then rec_until r else None | _ \<Rightarrow> None)
      \<in> {None, ?U}"
    by (auto simp: getRecurrenceUntilValue_def split: option.splits task_recurrence.splits)
  have third: "parseUntilToken h (rp_rruleUntilSourceToken p) = ?U"
    if "(case t_recurrence t of Some (RecObj r) \<Rightarrow> if truthy (rec_until r) then rec_until r else None | _ \<Rightarrow> None) = None"
      "truthy (rp_rruleUntilSourceToken p)"
    using that unfolding pp(3)
    by (auto simp: rrule_of_def getRecurrenceUntilValue_def parseRRuleString_def truthy_def
        split: option.splits task_recurrence.splits if_splits)
  show ?thesis
    using ex third un ne rtext unfolding check_recurrence_def Let_def pp(3)
    by (auto split: option.splits)
qed

subsection \<open>The anchor days\<close>

text \<open>A schedule field that is absent, or in a stored form with room for one more interval.\<close>

definition dated :: "int \<Rightarrow> string option \<Rightarrow> bool" where
  "dated interval v \<longleftrightarrow>
     (truthy v \<longrightarrow> (\<exists>d. stored_form (or_else v []) d \<and> getFullYear d + interval \<le> 9998))"

definition well_dated :: "task \<Rightarrow> bool" where
  "well_dated t \<longleftrightarrow> (\<forall>field. dated (getRecurrenceInterval (t_recurrence t)) (sd_get (task_dates t) field))"

lemma dated_some:
  assumes "dated i v" "truthy v"
  obtains s d where "v = Some s" "s \<noteq> []" "stored_form s d" "getFullYear d + i \<le> 9998" "100 \<le> getFullYear d"
  using assms by (cases v) (auto simp: dated_def stored_form_def printable_year_def)

lemma number_of_day:
  assumes "1 \<le> n" "n \<le> 31"
  shows "js_Number (show_digits 2 n) = Some n"
proof -
  let ?a = "char_of_digit (n div 10 mod 10)" and ?b = "char_of_digit (n mod 10)"
  have d: "digit_of ?a = Some (n div 10 mod 10)" "digit_of ?b = Some (n mod 10)"
    by (intro digit_of_char_of_digit; simp)+
  then have i: "is_digit ?a" "is_digit ?b" by (simp_all add: is_digit_def)
  have "js_trim [?a, ?b] = [?a, ?b]" using digit_not(6)[OF i(1)] digit_not(6)[OF i(2)] by (intro trim_stop) simp_all
  then have "js_Number [?a, ?b] = Some (10 * (n div 10 mod 10) + n mod 10)"
    using d digit_not(4,5)[OF i(1)] by (simp add: js_Number_def)
  moreover have "n div 10 mod 10 = n div 10" using assms by (intro mod_pos_pos_trivial) simp_all
  then have "10 * (n div 10 mod 10) + n mod 10 = n" by simp
  ultimately show ?thesis by (simp only: show2)
qed

lemma stored_day_text:
  assumes "stored_form s d" "is_floating_date s"
  shows "js_Number (take 2 (drop 8 s)) = Some (getDate d)"
proof -
  have n: "js_Number (show_digits 2 (getDate d)) = Some (getDate d)"
    using getDate_bounds[of d] month_len_bounds[of "month_index d"] by (intro number_of_day) simp_all
  have t: "take 2 (drop 8 (day_string d @ r)) = show_digits 2 (getDate d)" for r
  proof -
    have "day_string d = show_digits 4 (getFullYear d) @ CHR ''-'' # show_digits 2 (getMonth d + 1) @ CHR ''-'' #
        show_digits 2 (getDate d)" by (simp add: day_string_def)
    then show ?thesis by simp
  qed
  have "\<exists>r. s = day_string d @ r"
    using assms(1) by (cases rule: stored_cases)
      (auto simp: minute_string_def second_string_def to_iso_parts intro: exI[of _ "[]"])
  then show ?thesis using n t by auto
qed

lemma source_anchors_match:
  assumes "well_dated t"
  shows "sourceAnchorDaysMatch h t (resolveRecurrenceFieldAnchorDays h (t_recurrence t) (task_dates t))"
proof -
  let ?days = "resolveRecurrenceFieldAnchorDays h (t_recurrence t) (task_dates t)"
  have "anchor_day_matches h t ?days field" for field
  proof -
    let ?v = "sd_get (task_dates t) field"
    let ?owner = "if truthy (sd_dueDate (task_dates t)) then Some DueDate
        else if truthy (sd_startTime (task_dates t)) then Some StartTime
        else if truthy (sd_reviewAt (task_dates t)) then Some ReviewAt else None"
    let ?ex = "js_nullish (getRecurrenceFieldAnchorDay (t_recurrence t) field)
        (if Some field = ?owner then global_anchor (t_recurrence t) else None)"
    have owner: "getRecurrenceScheduleAnchorField (task_dates t) = ?owner"
      by (simp add: getRecurrenceScheduleAnchorField_def)
    have get: "ad_get ?days field = resolve_anchor h (t_recurrence t) (task_dates t) field"
      by (cases field) (simp_all add: resolveRecurrenceFieldAnchorDays_def)
    have res: "ad_get ?days field = js_nullish ?ex (getDateDay h ?v)"
      unfolding get resolve_anchor_def Let_def by (simp add: js_nullish_def split: option.splits)
    have range: "1 \<le> a \<and> a \<le> 31" if "ad_get ?days field = Some a" for a
      using that resolve_anchor_range unfolding get by blast
    show ?thesis
    proof (cases "truthy ?v")
      case False
      then have "getDateDay h ?v = None" by (auto simp: getDateDay_def safeParseDate_def truthy_def split: option.splits)
      then show ?thesis
        using False res unfolding anchor_day_matches_def owner Let_def by (simp add: js_nullish_def split: option.splits)
    next
      case True
      then obtain s d where s: "?v = Some s" "s \<noteq> []" "stored_form s d"
        using assms dated_some unfolding well_dated_def by metis
      have day: "getDateDay h ?v = Some (getDate d)" using s stored_parse by (simp add: getDateDay_def)
      then obtain a where a: "ad_get ?days field = Some a" "?ex \<noteq> None \<longrightarrow> ?ex = Some a" "?ex = None \<longrightarrow> a = getDate d"
        using res by (cases ?ex) (auto simp: js_nullish_def)
      then show ?thesis
        using range[OF a(1)] s stored_day_text[OF s(3)] unfolding anchor_day_matches_def owner Let_def by auto
    qed
  qed
  then show ?thesis by (simp add: sourceAnchorDaysMatch_def)
qed

subsection \<open>The candidate\<close>

lemma anchor_field_some:
  "getRecurrenceScheduleAnchorField dates = Some field \<Longrightarrow> truthy (sd_get dates field)"
  "getRecurrenceScheduleAnchorField dates = None \<longleftrightarrow>
    \<not> truthy (sd_startTime dates) \<and> \<not> truthy (sd_dueDate dates) \<and> \<not> truthy (sd_reviewAt dates)"
  by (auto simp: getRecurrenceScheduleAnchorField_def split: if_splits)

lemma anchor_of_dates:
  assumes "getRecurrenceScheduleAnchorField dates = Some field"
    "\<And>f. truthy (sd_get d f) = truthy (sd_get dates f)" "\<And>f. sd_get d f \<noteq> Some []"
  shows "occurrence_anchor d = sd_get d field"
proof -
  have n: "truthy (sd_get dates f) \<longleftrightarrow> sd_get d f \<noteq> None" for f
    using assms(2)[of f] assms(3)[of f] by (cases "sd_get d f") auto
  have "truthy (sd_dueDate dates) \<longleftrightarrow> sd_dueDate d \<noteq> None" "truthy (sd_startTime dates) \<longleftrightarrow> sd_startTime d \<noteq> None"
    "truthy (sd_reviewAt dates) \<longleftrightarrow> sd_reviewAt d \<noteq> None"
    using n[of DueDate] n[of StartTime] n[of ReviewAt] by simp_all
  then show ?thesis
    using assms(1)
    by (auto simp: occurrence_anchor_def getRecurrenceScheduleAnchorField_def js_nullish_def split: if_splits)
qed

lemma to_iso_written: "to_iso n \<noteq> []"
  by (simp add: to_iso_def split: prod.splits)

definition stored_value :: "string option \<Rightarrow> bool" where
  "stored_value v \<longleftrightarrow> (\<exists>d. v \<noteq> None \<and> stored_form (the v) d)"

lemma stored_value_truthy: "stored_value v \<Longrightarrow> truthy v"
  by (auto simp: stored_value_def dest: stored_not_empty)

context date_fns
begin

lemma preserve_stored:
  assumes "stored_value v"
  shows "stored_value (preserveDateOnlyFormat h v source)"
proof -
  obtain s d where v: "v = Some s" "stored_form s d" using assms by (auto simp: stored_value_def)
  have p: "printable_year d" using v(2) by (simp add: stored_form_def)
  show ?thesis
    using v stored_parse[OF v(2)] stored_day[OF p] stored_not_empty[OF v(2)]
    by (auto simp: preserveDateOnlyFormat_def stored_value_def formatDay_spec[OF p])
qed

lemma rebuilt_fields:
  assumes a: "truthy (sd_get dates field)" and n: "next \<noteq> []"
  shows "truthy (sd_get (rebuildScheduleFieldsFromAnchor h dates field next) f) = truthy (sd_get dates f)"
    "sd_get (rebuildScheduleFieldsFromAnchor h dates field next) f \<noteq> Some []"
    "sd_get (rebuildScheduleFieldsFromAnchor h dates field next) field =
      preserveDateOnlyFormat h (Some next) (sd_get dates field)"
proof -
  have g: "sd_get (rebuildScheduleFieldsFromAnchor h dates field next) f =
      rebuild_field h dates field (or_else (sd_get dates field) []) next f" for f
    using a by (cases f) (simp_all add: rebuildScheduleFieldsFromAnchor_def Let_def)
  have s: "shiftScheduleFieldFromAnchor h x y z \<noteq> []" if "x \<noteq> []" for x y z
    using that format_not_empty to_iso_written by (simp add: shiftScheduleFieldFromAnchor_def Let_def split: option.splits)
  have p: "preserveDateOnlyFormat h (Some next) x \<noteq> Some []" "truthy (preserveDateOnlyFormat h (Some next) x)" for x
    using n format_not_empty by (simp_all add: preserveDateOnlyFormat_def split: option.splits)
  show "truthy (sd_get (rebuildScheduleFieldsFromAnchor h dates field next) f) = truthy (sd_get dates f)"
    "sd_get (rebuildScheduleFieldsFromAnchor h dates field next) f \<noteq> Some []"
    unfolding g rebuild_field_def using s p by (auto split: option.splits)
  show "sd_get (rebuildScheduleFieldsFromAnchor h dates field next) field =
      preserveDateOnlyFormat h (Some next) (sd_get dates field)"
    unfolding g rebuild_field_def using a by (auto split: option.splits)
qed

lemma fluid_stored:
  assumes c: "stored_form s c" "getFullYear c + interval \<le> 9998" and r: "rule \<in> set RECURRENCE_RULES" "0 < interval"
  shows "stored_value (nextFluidIsoFrom h (Some s) rule fallback byDay interval byMonthDay weekStart sp)"
proof -
  have y: "100 \<le> getFullYear c" using c(1) by (simp add: stored_form_def printable_year_def)
  obtain n where n: "forward_step c interval n"
    "nextFluidIsoFrom h (Some s) rule fallback byDay interval byMonthDay weekStart sp =
      Some (format_like h (Some s) c n)"
    by (rule nextFluidIsoFrom_forward[OF stored_parse[OF c(1)] r y])
  from n(1) have "later_day c n" by (simp add: forward_step_def)
  from format_like_stored[OF stored_parse[OF c(1)] this forward_year[OF n(1) y c(2)]]
  show ?thesis using n(2) by (auto simp: stored_value_def)
qed

lemma strict_stored:
  assumes c: "stored_form s c" "getFullYear c + interval \<le> 9998" and r: "rule \<in> set RECURRENCE_RULES" "0 < interval"
    and a: "1 \<le> or_else a 1"
  shows "stored_value (nextIsoFrom h (Some s) rule fallback byDay interval byMonthDay weekStart None a sp)"
proof -
  have y: "100 \<le> getFullYear c" using c(1) by (simp add: stored_form_def printable_year_def)
  from nextIsoFrom_stored[OF stored_parse[OF c(1)] r y c(2) a] show ?thesis by (fastforce simp: stored_value_def)
qed

end

text \<open>Whatever the loop of the catch-up ends on is a stored date.\<close>

lemma strict_loop_keeps:
  assumes step: "\<And>s t. safeParseDate h (Some s) = Some t \<Longrightarrow> ok s t \<Longrightarrow> t \<le> boundary \<Longrightarrow>
      \<exists>v u. step s = Some v \<and> safeParseDate h (Some v) = Some u \<and> ok v u"
  shows "safeParseDate h (Some s) = Some t \<Longrightarrow> ok s t \<Longrightarrow>
    \<exists>u. ok (fst (strict_loop guard h step boundary s steps)) u"
proof (induction guard arbitrary: s t steps)
  case (Suc guard)
  show ?case
  proof (cases "boundary < t")
    case False
    then obtain v u where v: "step s = Some v" "safeParseDate h (Some v) = Some u" "ok v u"
      using step[OF Suc.prems] by auto
    then show ?thesis using Suc False by auto
  qed (use Suc.prems in auto)
qed auto

context date_fns
begin

lemma caught_up_stored:
  assumes c: "stored_form s c" "getFullYear c + interval \<le> 9998" and r: "rule \<in> set RECURRENCE_RULES" "0 < interval"
    and a: "1 \<le> or_else a 1" and b: "getFullYear b + interval \<le> 9998"
  shows "stored_value (pi_iso (projectStrictIsoFrom h (Some s) rule b byDay interval byMonthDay weekStart a sp))"
proof -
  have y: "100 \<le> getFullYear c" using c(1) by (simp add: stored_form_def printable_year_def)
  let ?n = "jump_steps rule interval c b byDay byMonthDay"
  let ?step = "\<lambda>v. nextIsoFrom h (Some v) rule b byDay interval byMonthDay weekStart None a sp"
  obtain v u where v: "first_catch_up h s rule b byDay interval byMonthDay weekStart a sp ?n = Some v" "stored_form v u"
    using first_catch_up_stored[OF stored_parse[OF c(1)] r y c(2) b a, of byDay byMonthDay weekStart sp] by blast
  have step: "\<exists>v u. ?step s = Some v \<and> safeParseDate h (Some v) = Some u \<and> stored_form v u"
    if "safeParseDate h (Some s) = Some t" "stored_form s t" "t \<le> b" for s t
  proof -
    have "getFullYear t + interval \<le> 9998" using year_mono[OF that(3)] b by simp
    from strict_stored[OF that(2) this r a, of b byDay byMonthDay weekStart sp]
    show ?thesis using stored_parse by (auto simp: stored_value_def)
  qed
  obtain w k where w: "strict_loop 1000 h ?step b v (?n + 1) = (w, k)" by fastforce
  have "\<exists>x. stored_form (fst (strict_loop 1000 h ?step b v (?n + 1))) x"
    by (rule strict_loop_keeps[where ok = stored_form, OF _ stored_parse[OF v(2)] v(2)]) (rule step)
  then obtain x where "stored_form w x" using w by auto
  then show ?thesis
    using projectStrictIsoFrom_parts[OF stored_parse[OF c(1)] r(2) v(1) stored_not_empty[OF v(2)] w]
    by (auto simp: stored_value_def)
qed

lemma candidate_dates_fields:
  assumes w: "well_dated t" and r: "getRecurrenceRule (t_recurrence t) = Some rule"
    and c: "stored_form completedAt c" "getFullYear c + getRecurrenceInterval (t_recurrence t) \<le> 9998"
    and f: "getRecurrenceScheduleAnchorField (task_dates t) = Some field"
  shows "truthy (sd_get (candidate_dates h t rule completedAt c advance) g) = truthy (sd_get (task_dates t) g)"
    "sd_get (candidate_dates h t rule completedAt c advance) g \<noteq> Some []"
    "stored_value (sd_get (candidate_dates h t rule completedAt c advance) field)"
proof -
  let ?i = "getRecurrenceInterval (t_recurrence t)" and ?d = "task_dates t"
  have rr: "rule \<in> set RECURRENCE_RULES" using getRecurrenceRule_cases[OF r] by (auto simp: RECURRENCE_RULES_def)
  have i: "0 < ?i" using getRecurrenceInterval_pos[of "t_recurrence t"] by simp
  note tf = anchor_field_some(1)[OF f]
  obtain s d where s: "sd_get ?d field = Some s" "stored_form s d" "getFullYear d + ?i \<le> 9998"
    using w tf dated_some unfolding well_dated_def by metis
  have anchor: "1 \<le> or_else (ad_get (resolveRecurrenceFieldAnchorDays h (t_recurrence t) ?d) x) 1" for x
  proof (cases "ad_get (resolveRecurrenceFieldAnchorDays h (t_recurrence t) ?d) x")
    case (Some a)
    then have "resolve_anchor h (t_recurrence t) ?d x = Some a"
      by (cases x) (simp_all add: resolveRecurrenceFieldAnchorDays_def)
    then show ?thesis using Some resolve_anchor_range by simp
  qed simp
  let ?n = "next_anchor_iso h t rule completedAt c field"
  have n: "stored_value ?n"
    using strict_stored[OF s(2,3) rr i anchor] fluid_stored[OF c rr i] s(1)
    by (simp add: next_anchor_iso_def Let_def preserve_stored)
  let ?rebuild = "\<lambda>x. rebuildScheduleFieldsFromAnchor h ?d field x"
  have "\<exists>x. candidate_dates h t rule completedAt c advance = ?rebuild (or_else x []) \<and> stored_value x"
  proof -
    let ?k = "pi_iso (projectStrictIsoFrom h (t_dueDate t) rule c (getRecurrenceByDay (t_recurrence t)) ?i
      (getRecurrenceByMonthDay (t_recurrence t)) (getRecurrenceWeekStart (t_recurrence t))
      (ad_dueDate (resolveRecurrenceFieldAnchorDays h (t_recurrence t) ?d)) (getRecurrenceBySetPos (t_recurrence t)))"
    have k: "stored_value (preserveDateOnlyFormat h ?k (t_dueDate t))" if "field = DueDate"
    proof -
      have "t_dueDate t = Some s" using s(1) that by (simp add: task_dates_def)
      then show ?thesis using caught_up_stored[OF s(2,3) rr i _ c(2)] anchor[of DueDate] by (simp add: preserve_stored)
    qed
    show ?thesis
      using k n stored_value_truthy[OF n] unfolding candidate_dates_def Let_def f option.case
      by (cases "field = DueDate") auto
  qed
  then obtain x where x: "candidate_dates h t rule completedAt c advance = ?rebuild (or_else x [])" "stored_value x" by blast
  have nx: "or_else x [] \<noteq> []" using x(2) by (auto simp: stored_value_def dest: stored_not_empty)
  have xs: "Some (or_else x []) = x" using x(2) by (auto simp: stored_value_def)
  show "truthy (sd_get (candidate_dates h t rule completedAt c advance) g) = truthy (sd_get (task_dates t) g)"
    "sd_get (candidate_dates h t rule completedAt c advance) g \<noteq> Some []"
    unfolding x(1) by (rule rebuilt_fields[OF tf nx])+
  show "stored_value (sd_get (candidate_dates h t rule completedAt c advance) field)"
    unfolding x(1) rebuilt_fields(3)[OF tf nx] xs by (rule preserve_stored[OF x(2)])
qed

lemma fallback_stored:
  assumes r: "getRecurrenceRule (t_recurrence t) = Some rule"
    and c: "stored_form completedAt c" "getFullYear c + getRecurrenceInterval (t_recurrence t) \<le> 9998"
  shows "stored_value (fallback_start h t rule completedAt c)"
proof -
  have rr: "rule \<in> set RECURRENCE_RULES" using getRecurrenceRule_cases[OF r] by (auto simp: RECURRENCE_RULES_def)
  have i: "0 < getRecurrenceInterval (t_recurrence t)" using getRecurrenceInterval_pos[of "t_recurrence t"] by simp
  have p: "printable_year c" using c(1) by (simp add: stored_form_def)
  obtain x where x: "completedAt = day_string c @ x"
    using c(1) by (cases rule: stored_cases) (auto simp: minute_string_def second_string_def to_iso_parts)
  have "match_ymd completedAt \<noteq> None" unfolding x match_ymd_day_string[OF p] by simp
  then have d: "(if match_ymd completedAt \<noteq> None then take 10 completedAt else formatDay h c) = day_string c"
    using x by simp
  have "getFullYear (day_floor c) = getFullYear c" by (rule same_day_getters[OF day_floor_getters(1)])
  then have "getFullYear (day_floor c) + getRecurrenceInterval (t_recurrence t) \<le> 9998" using c(2) by simp
  from fluid_stored[OF stored_day[OF p] this rr i] show ?thesis
    unfolding fallback_start_def Let_def d .
qed

lemma relative_start_fields:
  fixes dates :: schedule_dates
  assumes g: "with_relative_start h t dates = (d, off)"
  shows "sd_dueDate d = sd_dueDate dates" "sd_reviewAt d = sd_reviewAt dates"
    "sd_startTime d = sd_startTime dates \<and> off = None \<or>
      truthy (sd_startTime d) \<and> truthy (sd_dueDate dates) \<and> off = t_relativeStartOffset t \<and> off \<noteq> None"
  using g by (auto simp: with_relative_start_def Let_def split: option.splits if_splits)

lemma projected_candidate:
  assumes w: "well_dated t" and r: "getRecurrenceRule (t_recurrence t) = Some rule"
    and c: "stored_form completedAt c" "getFullYear c + getRecurrenceInterval (t_recurrence t) \<le> 9998"
    and p: "projectNextRecurringTask h now t completedAt advance = Some p"
  shows "check_candidate t p = None" "stored_value (occurrence_anchor (rp_candidate p))"
proof -
  let ?C = "candidate_dates h t rule completedAt c advance" and ?d = "task_dates t"
  obtain D off where D: "with_relative_start h t ?C = (D, off)" by fastforce
  have cd: "completed_at_date h now completedAt = c" by (simp add: completed_at_date_def stored_parse[OF c(1)])
  have parts: "rp_relativeStartOffset p = off"
    "rp_candidate p = (if \<not> truthy (sd_startTime D) \<and> \<not> truthy (sd_dueDate D) \<and> \<not> truthy (sd_reviewAt D)
      then D\<lparr>sd_startTime := fallback_start h t rule completedAt c\<rparr> else D)"
    using p by (auto simp: projectNextRecurringTask_def r Let_def cd D)
  note rel = relative_start_fields[OF D]
  have hs: "had_schedule t \<longleftrightarrow> getRecurrenceScheduleAnchorField ?d \<noteq> None"
    using anchor_field_some(2)[of ?d] by (simp add: had_schedule_def task_dates_def)
  have "check_candidate t p = None \<and> stored_value (occurrence_anchor (rp_candidate p))"
  proof (cases "getRecurrenceScheduleAnchorField ?d")
    case None
    then have C: "?C = no_dates" by (simp add: candidate_dates_def Let_def)
    have D': "D = no_dates" "off = None"
      using D unfolding C with_relative_start_def by (simp_all add: no_dates_def split: option.splits)
    have fs: "stored_value (fallback_start h t rule completedAt c)" by (rule fallback_stored[OF r c])
    note ft = stored_value_truthy[OF fs]
    have cand: "rp_candidate p = no_dates\<lparr>sd_startTime := fallback_start h t rule completedAt c\<rparr>"
      unfolding parts(2) D' by (simp add: no_dates_def)
    have nt: "\<not> truthy (sd_get ?d f)" for f using None anchor_field_some(2)[of ?d] by (cases f) simp_all
    have "field_complete t p f" for f
      using ft nt[of f] hs None unfolding field_complete_def cand by (cases f) (simp_all add: no_dates_def)
    moreover have "occurrence_anchor (rp_candidate p) = fallback_start h t rule completedAt c"
      unfolding cand by (simp add: occurrence_anchor_def no_dates_def js_nullish_def split: option.split)
    ultimately show ?thesis
      using fs ft unfolding check_candidate_def parts(1) D' by (simp add: cand)
  next
    case (Some field)
    note C = candidate_dates_fields[OF w r c Some, of advance]
    have due: "truthy (sd_dueDate ?C) = truthy (t_dueDate t)" and start: "truthy (sd_startTime ?C) = truthy (t_startTime t)"
      and review: "truthy (sd_reviewAt ?C) = truthy (t_reviewAt t)"
      using C(1)[of DueDate] C(1)[of StartTime] C(1)[of ReviewAt] by (simp_all add: task_dates_def)
    have "had_schedule t" using hs Some by simp
    then have some: "\<not> (\<not> truthy (sd_startTime D) \<and> \<not> truthy (sd_dueDate D) \<and> \<not> truthy (sd_reviewAt D))"
      using rel due start review unfolding had_schedule_def by metis
    have cand: "rp_candidate p = D" unfolding parts(2) using some by (rule if_not_P)
    have "field_complete t p f" for f
      using rel due start review unfolding field_complete_def cand parts(1)
      by (cases f) (auto simp: task_dates_def)
    moreover have "\<not> (off \<noteq> None \<and> offset_text off \<noteq> offset_text (t_relativeStartOffset t))" using rel(3) by auto
    moreover have "occurrence_anchor D = sd_get ?C field"
    proof -
      have ac: "occurrence_anchor ?C = sd_get ?C field" by (rule anchor_of_dates[OF Some C(1,2)])
      show ?thesis
      proof (cases "sd_startTime D = sd_startTime ?C")
        case True
        then have "D = ?C" using rel(1,2) by simp
        then show ?thesis using ac by simp
      next
        case False
        then have "truthy (sd_dueDate ?C)" using rel(3) by auto
        then have "sd_dueDate ?C \<noteq> None" by (cases "sd_dueDate ?C") auto
        then obtain y where y: "sd_dueDate ?C = Some y" by blast
        then have "sd_get ?C field = Some y" using ac by (simp add: occurrence_anchor_def js_nullish_def)
        then show ?thesis using y rel(1) by (simp add: occurrence_anchor_def js_nullish_def)
      qed
    qed
    ultimately show ?thesis
      using C(3) \<open>had_schedule t\<close> unfolding check_candidate_def parts(1) cand by simp
  qed
  then show "check_candidate t p = None" "stored_value (occurrence_anchor (rp_candidate p))" by blast+
qed

end

subsection \<open>The until date\<close>

lemma show_zeros: "show_digits n 0 = replicate n (CHR ''0'')"
proof -
  have "char_of_digit 0 = CHR ''0''" by code_simp
  then show ?thesis by (induction n) (simp_all add: replicate_append_same)
qed

lemma pad_show_nat:
  "k < 10 ^ n \<Longrightarrow> 0 < n \<Longrightarrow>
    replicate (n - length (show_nat k)) (CHR ''0'') @ show_nat k = show_digits n (int k) \<and> length (show_nat k) \<le> n"
proof (induction n arbitrary: k)
  case (Suc n)
  have c: "char_of_digit (int k mod 10) = char_of (48 + k mod 10)"
  proof -
    have "48 + int k mod 10 = int (48 + k mod 10)" by (simp add: zmod_int)
    then show ?thesis by (simp only: char_of_digit_def nat_int)
  qed
  show ?case
  proof (cases "k < 10")
    case True
    then have "int k div 10 = 0" by simp
    then show ?thesis using True c by (simp add: show_nat.simps[of k] show_zeros)
  next
    case False
    then have n: "0 < n" using Suc.prems by (cases n) auto
    have "k div 10 < 10 ^ n" using Suc.prems by (simp add: div_less_iff_less_mult mult.commute)
    note ih = Suc.IH[OF this n]
    have d: "int (k div 10) = int k div 10" by (simp add: zdiv_int)
    show ?thesis
      using False ih c by (simp add: show_nat.simps[of k] d[symmetric] Suc_diff_le)
  qed
qed simp

lemma pad_show:
  assumes "0 \<le> k" "k < 10 ^ n" "0 < n"
  shows "pad_num n k = show_digits n k"
proof -
  have "nat k < 10 ^ n" using assms(1,2) by (simp add: nat_less_iff)
  from pad_show_nat[OF this assms(3)] show ?thesis using assms(1) by (simp add: pad_num_def show_int_def)
qed

lemma day_string_ends: "hd (day_string t @ r) = char_of_digit (getFullYear t div 10 div 10 div 10 mod 10)"
  by (simp add: day_string_def show4)

lemma digit_char_mod: "is_digit (char_of_digit (k mod 10))"
  unfolding is_digit_def using digit_of_char_of_digit[of "k mod 10"] by simp

lemma stored_trim: "stored_form s t \<Longrightarrow> js_trim s = s"
proof -
  assume s: "stored_form s t"
  have h: "\<not> is_ws (hd s)"
  proof -
    obtain r where "s = day_string t @ r"
      using s by (cases rule: stored_cases)
        (auto simp: minute_string_def second_string_def to_iso_parts intro: that[of "[]"])
    then show ?thesis using day_string_ends digit_not(6)[OF digit_char_mod] by simp
  qed
  have "\<not> is_ws (last s)"
    using s digit_not(6)[OF digit_char_mod]
    by (cases rule: stored_cases)
      (simp_all add: day_string_def minute_string_def second_string_def to_iso_parts show2 is_ws_def)
  then show ?thesis using stored_not_empty[OF s] h by (intro trim_stop)
qed

lemma until_token_day: "stored_form u e \<Longrightarrow> is_date_only u \<Longrightarrow>
    formatUntilToken h (Some u) = Some (filter (\<lambda>c. c \<noteq> CHR ''-'') u)"
  using stored_trim stored_not_empty by (simp add: formatUntilToken_def)

lemma filter_show: "filter (\<lambda>c. c \<noteq> CHR ''-'' \<and> c \<noteq> CHR '':'') (show_digits n k) = show_digits n k"
proof -
  have "CHR '':'' \<noteq> char_of_digit (k mod 10)" for k
  proof -
    have "\<not> is_digit (CHR '':'')" by code_simp
    then show ?thesis using digit_char_mod[of k] by metis
  qed
  then have "char_of_digit (k mod 10) \<noteq> CHR '':''" "char_of_digit (k mod 10) \<noteq> CHR ''-''" for k
    using digit_not(4)[OF digit_char_mod] by metis+
  then show ?thesis by (induction n arbitrary: k) simp_all
qed

lemma until_token_instant:
  assumes "stored_form u e" "\<not> is_date_only u"
  shows "formatUntilToken h (Some u) = Some (compact_iso e)"
proof -
  have p: "printable_year e" using assms(1) by (simp add: stored_form_def)
  note c = getDate_bounds[of e] month_len_bounds[of "month_index e"] clock_ranges[of e] getMonth_bounds[of e]
  have r: "0 \<le> getFullYear e" "getFullYear e < 10 ^ 4" "getMonth e + 1 < 10 ^ 2" "0 \<le> getDate e" "getDate e < 10 ^ 2"
    "getHours e < 10 ^ 2" "getMinutes e < 10 ^ 2" "getSeconds e < 10 ^ 2" "0 \<le> getMonth e + 1"
    using c p unfolding printable_year_def power2_eq_square by (simp_all del: getMonth_bounds)
  have pads: "pad_num 4 (getFullYear e) = show_digits 4 (getFullYear e)"
    "pad_num 2 (getMonth e + 1) = show_digits 2 (getMonth e + 1)" "pad_num 2 (getDate e) = show_digits 2 (getDate e)"
    "pad_num 2 (getHours e) = show_digits 2 (getHours e)" "pad_num 2 (getMinutes e) = show_digits 2 (getMinutes e)"
    "pad_num 2 (getSeconds e) = show_digits 2 (getSeconds e)"
    by (rule pad_show[OF _ _ zero_less_numeral]; fact r c)+
  have "compact_iso e = show_digits 4 (getFullYear e) @ show_digits 2 (getMonth e + 1) @ show_digits 2 (getDate e) @
      ''T'' @ show_digits 2 (getHours e) @ show_digits 2 (getMinutes e) @ show_digits 2 (getSeconds e) @ ''Z''"
    by (simp add: compact_iso_def to_iso_parts[OF p] day_string_def filter_show Let_def del: show_digits.simps)
  moreover have "formatUntilToken h (Some u) = Some (pad_num 4 (getFullYear e) @ pad_num 2 (getMonth e + 1) @
      pad_num 2 (getDate e) @ ''T'' @ pad_num 2 (getHours e) @ pad_num 2 (getMinutes e) @ pad_num 2 (getSeconds e) @ ''Z'')"
    using assms stored_trim[OF assms(1)] stored_not_empty[OF assms(1)] stored_parse[OF assms(1)]
    by (simp add: formatUntilToken_def Let_def civil_getters getHours_def getMinutes_def getSeconds_def)
  ultimately show ?thesis unfolding pads by simp
qed

subsection \<open>Completing a task never fails\<close>

context date_fns
begin

lemma until_stop_decided:
  assumes r: "getRecurrenceRule (t_recurrence t) = Some rule" and u: "until_settled h t"
    and p: "projectNextRecurringTask h now t completedAt advance = Some p"
    and a: "stored_value (occurrence_anchor (rp_candidate p))"
  shows "\<exists>b. stopAtFrozenUntil (rp_candidate p) (rp_until p) = Inr b" "check_until_token p = None"
proof -
  let ?a = "occurrence_anchor (rp_candidate p)"
  obtain s d where s: "?a = Some s" "stored_form s d" using a by (auto simp: stored_value_def)
  note sa = stored_not_empty[OF s(2)] stored_parse[OF s(2)] stored_frozen[OF s(2)]
  have pd: "printable_year d" using s(2) by (simp add: stored_form_def)
  note parts = projected_parts[OF r p]
  have "(\<exists>b. stopAtFrozenUntil (rp_candidate p) (rp_until p) = Inr b) \<and> check_until_token p = None"
  proof (cases "getRecurrenceUntilValue h (t_recurrence t)")
    case None
    then have "rp_until p = None" by (simp add: parts(4))
    then show ?thesis by (auto simp: stopAtFrozenUntil_def check_until_token_def)
  next
    case (Some v)
    then obtain e where e: "stored_form v e" using u by (auto simp: until_settled_def)
    note sv = stored_not_empty[OF e] stored_parse[OF e] stored_frozen[OF e]
    have ru: "rp_until p = Some \<lparr>fu_normalized = v, fu_comparison = compare_until h ?a (Some v),
        fu_rruleUntilToken = formatUntilToken h (Some v)\<rparr>"
      using Some sv(1) by (simp add: parts(4) Let_def)
    show ?thesis
    proof (cases "is_date_only v")
      case True
      have "take 10 (fi_local (freezeRecurrenceInstant h d)) = formatDay h d"
        using freeze_stored[OF s(2)] pd
        by (simp add: milli_string_def second_string_def minute_string_def formatDay_spec)
      then show ?thesis
        using True s(1) sa sv(1) until_token_day[OF e True]
        by (simp add: ru compare_until_def stopAtFrozenUntil_def check_until_token_def)
    next
      case False
      then show ?thesis
        using s(1) sa sv until_token_instant[OF e False]
        by (simp add: ru compare_until_def stopAtFrozenUntil_def check_until_token_def
            freeze_stored[OF s(2)] freeze_stored[OF e])
    qed
  qed
  then show "\<exists>b. stopAtFrozenUntil (rp_candidate p) (rp_until p) = Inr b" "check_until_token p = None" by blast+
qed

lemma completion_succeeds:
  assumes w: "well_dated t" and u: "until_settled h t"
    and c: "stored_form completedAt c" "getFullYear c + getRecurrenceInterval (t_recurrence t) \<le> 9998"
  shows "\<exists>res. createNextRecurringTask h now createId t completedAt previous advance s = Inr res"
proof (cases "getRecurrenceRule (t_recurrence t)")
  case None
  then have "projectNextRecurringTask h now t completedAt advance = None"
    by (simp add: projectNextRecurringTask_def Let_def)
  then show ?thesis using None by (simp add: createNextRecurringTask_def buildNextRecurringTask_def)
next
  case (Some rule)
  then obtain p where p: "projectNextRecurringTask h now t completedAt advance = Some p"
    by (simp add: projectNextRecurringTask_def Let_def)
  note cand = projected_candidate[OF w Some c p]
  obtain b where b: "stopAtFrozenUntil (rp_candidate p) (rp_until p) = Inr b"
    using until_stop_decided(1)[OF Some u p cand(2)] by blast
  show ?thesis
    using Some p b cand(1) until_stop_decided(2)[OF Some u p cand(2)] projected_parts(1,2)[OF Some p]
      source_anchors_match[OF w, of h] recurrence_check_passes[OF Some u p]
    by (auto simp: createNextRecurringTask_def buildNextRecurringTask_def split: prod.splits)
qed

end

text \<open>
  C4: Completing a task never fails: when its schedule fields, its until date and the moment of
  completion are texts of the forms the application stores, with room for one interval before the
  year 9999, the projection projectNextRecurringTask makes passes every check of
  buildNextRecurringTask, so createNextRecurringTask answers a follow-up or the end of the
  series and throws none of its exceptions.
\<close>

theorem completion_never_fails:
  assumes "date_fns h"
    and "\<And>v. v \<in> {t_startTime t, t_dueDate t, t_reviewAt t} \<Longrightarrow> truthy v \<Longrightarrow>
      \<exists>d. stored_form (or_else v []) d \<and> getFullYear d + getRecurrenceInterval (t_recurrence t) \<le> 9998"
    and "\<And>u. getRecurrenceUntilValue h (t_recurrence t) = Some u \<Longrightarrow> \<exists>e. stored_form u e"
    and "stored_form completedAt c" "getFullYear c + getRecurrenceInterval (t_recurrence t) \<le> 9998"
  shows "\<exists>res. createNextRecurringTask h now createId t completedAt previous advance s = Inr res"
proof (rule date_fns.completion_succeeds[OF assms(1) _ _ assms(4,5)])
  have "dated (getRecurrenceInterval (t_recurrence t)) (sd_get (task_dates t) field)" for field
    using assms(2) unfolding dated_def by (cases field) (simp_all add: task_dates_def)
  then show "well_dated t" by (simp add: well_dated_def)
  show "until_settled h t" using assms(3) by (simp add: until_settled_def split: option.splits)
qed

text \<open>The sample series of the preceding theory meets every hypothesis.\<close>

lemma completion_never_fails_witness:
  "\<exists>res. createNextRecurringTask calendar_host 0 counting_supply series_task ''2026-01-30T10:00:00.000Z'' Next False 0 = Inr res"
proof -
  have p: "printable_year 1769817600000" "printable_year 1769767200000" "printable_year 1798675200000" by code_simp+
  have d: "stored_form ''2026-01-31'' 1769817600000" "getFullYear 1769817600000 + 1 \<le> 9998"
    "stored_form ''2026-12-31'' 1798675200000"
    "stored_form ''2026-01-30T10:00:00.000Z'' 1769767200000" "getFullYear 1769767200000 + 1 \<le> 9998"
    by code_simp+
  have t: "t_startTime series_task = None" "t_dueDate series_task = Some ''2026-01-31''" "t_reviewAt series_task = None"
    "getRecurrenceInterval (t_recurrence series_task) = 1"
    "getRecurrenceUntilValue calendar_host (t_recurrence series_task) = Some ''2026-12-31''"
    by code_simp+
  show ?thesis
    by (rule completion_never_fails[OF calendar.date_fns_axioms, where c = 1769767200000])
      (use d in \<open>auto simp: t\<close>)
qed

end
