(* ===== verification/RecurrenceTyped.thy ===== *)
theory RecurrenceTyped
  imports RecurrenceTotal
begin

text \<open>
  The type of a recurrence, in the sense of the values its fields may hold: loading establishes
  it whatever was stored, and every completion keeps it, with the rule, the strategy and the
  interval of the series.
\<close>

definition days_typed :: "string list \<Rightarrow> bool" where
  "days_typed ds \<longleftrightarrow> ds \<noteq> [] \<and> distinct ds \<and> set ds \<subseteq> set by_day_tokens"

definition month_days_typed :: "int list \<Rightarrow> bool" where
  "month_days_typed ds \<longleftrightarrow> ds \<noteq> [] \<and> sorted ds \<and> distinct ds \<and> (\<forall>d\<in>set ds. 1 \<le> d \<and> d \<le> 31 \<or> d = - 1)"

definition anchor_typed :: "int \<Rightarrow> bool" where
  "anchor_typed d \<longleftrightarrow> 1 \<le> d \<and> d \<le> 31"

abbreviation (input) "opt_holds P v \<equiv> (case v of None \<Rightarrow> True | Some x \<Rightarrow> P x)"

definition recurrence_typed :: "recurrence \<Rightarrow> bool" where
  "recurrence_typed r \<longleftrightarrow>
     rec_rule r \<in> set RECURRENCE_RULES \<and>
     opt_holds (\<lambda>s. s = ''fluid'' \<or> s = ''strict'') (rec_strategy r) \<and>
     opt_holds days_typed (rec_byDay r) \<and> opt_holds month_days_typed (rec_byMonthDay r) \<and>
     opt_holds (\<lambda>w. w \<in> set WEEKDAY_ORDER) (rec_weekStart r) \<and>
     opt_holds (\<lambda>n. 0 < n) (rec_count r) \<and> opt_holds (\<lambda>n. 0 \<le> n) (rec_completedOccurrences r) \<and>
     opt_holds anchor_typed (rec_anchorDay r) \<and> opt_holds anchor_typed (rec_startAnchorDay r) \<and>
     opt_holds anchor_typed (rec_dueAnchorDay r) \<and> opt_holds anchor_typed (rec_reviewAnchorDay r)"

subsection \<open>The readers are well-typed\<close>

lemma opt_nullish: "opt_holds P a \<Longrightarrow> opt_holds P b \<Longrightarrow> opt_holds P (js_nullish a b)"
  by (simp add: js_nullish_def split: option.splits)

lemma weekdays_typed: "opt_holds days_typed (normalizeWeekdays v)"
  using normalizeWeekdays_ok by (auto simp: days_typed_def split: option.splits)

lemma month_days_typed: "opt_holds month_days_typed (normalizeMonthDays v)"
  by (auto simp: normalizeMonthDays_def non_empty_opt_def month_days_typed_def split: option.splits)

lemma week_start_typed: "opt_holds (\<lambda>w. w \<in> set WEEKDAY_ORDER) (normalizeWeekStart v)"
  by (auto simp: normalizeWeekStart_def split: option.splits)

lemma anchor_day_typed: "opt_holds anchor_typed (normalizeAnchorDay v)"
  by (auto simp: normalizeAnchorDay_def anchor_typed_def split: option.splits)

lemma parsed_typed:
  "opt_holds days_typed (pr_byDay (parseRRuleSelectors s))"
  "opt_holds month_days_typed (pr_byMonthDay (parseRRuleSelectors s))"
  "opt_holds (\<lambda>w. w \<in> set WEEKDAY_ORDER) (pr_weekStart (parseRRuleSelectors s))"
  "opt_holds (\<lambda>n. 0 < n) (pr_count (parseRRuleSelectors s))"
  "opt_holds (\<lambda>r. r \<in> set RECURRENCE_RULES) (pr_rule (parseRRuleSelectors s))"
  using weekdays_typed month_days_typed week_start_typed
  by (auto simp: parseRRuleSelectors_def empty_parsed_def Let_def RRULE_FREQ_MAP_def RECURRENCE_RULES_def
      bind_eq_Some_conv split: option.splits if_splits)

lemma parsed_string_typed:
  "opt_holds days_typed (pr_byDay (parseRRuleString hst s))"
  "opt_holds month_days_typed (pr_byMonthDay (parseRRuleString hst s))"
  "opt_holds (\<lambda>w. w \<in> set WEEKDAY_ORDER) (pr_weekStart (parseRRuleString hst s))"
  "opt_holds (\<lambda>n. 0 < n) (pr_count (parseRRuleString hst s))"
  "opt_holds (\<lambda>r. r \<in> set RECURRENCE_RULES) (pr_rule (parseRRuleString hst s))"
  using parsed_typed[of s] by (auto simp: parseRRuleString_def empty_parsed_def)

lemma rule_typed: "r \<in> set RECURRENCE_RULES \<Longrightarrow> recurrence_typed (recurrence_of_rule r)"
  by (simp add: recurrence_typed_def recurrence_of_rule_def)

lemma rule_test: "isRecurrenceRule (Some s) \<Longrightarrow> s \<in> set RECURRENCE_RULES"
  by (simp add: isRecurrenceRule_def)

lemma loaded_string_typed: "normalizeRecurrenceString hst s = Some r \<Longrightarrow> recurrence_typed r"
proof -
  assume a: "normalizeRecurrenceString hst s = Some r"
  let ?p = "parseRRuleString hst (js_trim s)"
  note p = parsed_string_typed[of hst "js_trim s"]
  show ?thesis
  proof (cases "isRecurrenceRule (Some (js_trim s))")
    case True
    then have "r = recurrence_of_rule (js_trim s)"
      using a by (simp add: normalizeRecurrenceString_def Let_def split: if_splits)
    then show ?thesis using rule_typed[OF rule_test[OF True]] by simp
  next
    case False
    then obtain rl where rl: "pr_rule ?p = Some rl"
      and r: "r = (recurrence_of_rule rl)\<lparr>rec_byDay := pr_byDay ?p, rec_byMonthDay := pr_byMonthDay ?p,
        rec_weekStart := pr_weekStart ?p, rec_count := pr_count ?p, rec_until := pr_until ?p,
        rec_rrule := Some (js_trim s)\<rparr>"
      using a by (simp add: normalizeRecurrenceString_def Let_def split: if_splits option.splits)
    show ?thesis
      unfolding recurrence_typed_def r recurrence_of_rule_def using p(1-4) p(5)[unfolded rl] by simp
  qed
qed

lemma loaded_object_typed: "normalizeRecurrenceObject hst r0 = Some r \<Longrightarrow> recurrence_typed r"
proof -
  assume a: "normalizeRecurrenceObject hst r0 = Some r"
  define parsed where "parsed = (case trimmed_opt (rec_rrule r0) of None \<Rightarrow> empty_parsed | Some s \<Rightarrow> parseRRuleString hst s)"
  have p: "opt_holds days_typed (pr_byDay parsed)" "opt_holds month_days_typed (pr_byMonthDay parsed)"
    "opt_holds (\<lambda>w. w \<in> set WEEKDAY_ORDER) (pr_weekStart parsed)" "opt_holds (\<lambda>n. 0 < n) (pr_count parsed)"
    "opt_holds (\<lambda>r. r \<in> set RECURRENCE_RULES) (pr_rule parsed)"
    by (cases "trimmed_opt (rec_rrule r0)"; simp add: parsed_def empty_parsed_def parsed_string_typed)+
  let ?rule = "if isRecurrenceRule (Some (rec_rule r0)) then Some (rec_rule r0) else pr_rule parsed"
  obtain rl where rl: "?rule = Some rl"
    using a unfolding normalizeRecurrenceObject_def Let_def parsed_def[symmetric]
    by (cases ?rule) simp_all
  note e = a[unfolded normalizeRecurrenceObject_def Let_def parsed_def[symmetric] rl option.case option.inject, symmetric]
  have "rl \<in> set RECURRENCE_RULES" using rl rule_test p(5) by (auto split: if_splits)
  then have f: "rec_rule r \<in> set RECURRENCE_RULES" unfolding e by simp
  have st: "opt_holds (\<lambda>s. s = ''fluid'' \<or> s = ''strict'') (rec_strategy r)" unfolding e by auto
  have c: "opt_holds (\<lambda>n. 0 < n) (rec_count r)" "opt_holds (\<lambda>n. 0 \<le> n) (rec_completedOccurrences r)"
    using p(4) unfolding e by (simp_all split: option.splits)
  have g: "rec_byDay r = js_nullish (normalizeWeekdays (rec_byDay r0)) (pr_byDay parsed)"
    "rec_byMonthDay r = js_nullish (normalizeMonthDays (map_option (map show_int) (rec_byMonthDay r0))) (pr_byMonthDay parsed)"
    "rec_weekStart r = js_nullish (normalizeWeekStart (rec_weekStart r0)) (pr_weekStart parsed)"
    "rec_anchorDay r = normalizeAnchorDay (rec_anchorDay r0)"
    "rec_startAnchorDay r = normalizeAnchorDay (rec_startAnchorDay r0)"
    "rec_dueAnchorDay r = normalizeAnchorDay (rec_dueAnchorDay r0)"
    "rec_reviewAnchorDay r = normalizeAnchorDay (rec_reviewAnchorDay r0)"
    unfolding e by simp_all
  show ?thesis
    unfolding recurrence_typed_def g
    using f st c opt_nullish[OF weekdays_typed p(1)] opt_nullish[OF month_days_typed p(2)]
      opt_nullish[OF week_start_typed p(3)] anchor_day_typed by blast
qed

lemma loaded_typed: "normalizeRecurrenceForLoad hst v = Some r \<Longrightarrow> recurrence_typed r"
  using loaded_string_typed loaded_object_typed
  by (auto simp: normalizeRecurrenceForLoad_def split: option.splits task_recurrence.splits)

subsection \<open>A completion keeps the type\<close>

lemma month_day_reader_typed: "opt_holds month_days_typed (getRecurrenceByMonthDay v)"
proof (cases v)
  case (Some x)
  show ?thesis
  proof (cases x)
    case (RecObj r)
    have "opt_holds month_days_typed (pr_byMonthDay (selectors_of r))"
      using parsed_typed by (simp add: selectors_of_def empty_parsed_def)
    then show ?thesis
      using month_days_typed[of "map_option (map show_int) (rec_byMonthDay r)"] Some RecObj
      by (auto simp: getRecurrenceByMonthDay_def split: option.splits)
  qed (use Some in \<open>simp add: getRecurrenceByMonthDay_def\<close>)
qed (simp add: getRecurrenceByMonthDay_def)

lemma count_reader_typed: "opt_holds (\<lambda>n. 0 < n) (getRecurrenceCountValue v)"
  by (auto simp: getRecurrenceCountValue_def positive_def split: option.splits task_recurrence.splits if_splits)

lemma next_anchors_typed:
  assumes "getNextRecurrenceAnchorDays recurrence rule (resolveRecurrenceFieldAnchorDays h recurrence dates) = (a, b)"
  shows "opt_holds anchor_typed a" "opt_holds anchor_typed (ad_startTime b)"
    "opt_holds anchor_typed (ad_dueDate b)" "opt_holds anchor_typed (ad_reviewAt b)"
proof -
  have r: "opt_holds anchor_typed (resolve_anchor h recurrence dates f)" for f
    using resolve_anchor_range by (auto simp: anchor_typed_def split: option.splits)
  have g: "opt_holds anchor_typed (global_anchor recurrence)" unfolding global_anchor_def by (rule anchor_day_typed)
  have n: "opt_holds anchor_typed v \<Longrightarrow> opt_holds anchor_typed (nonzero v)" for v by (simp add: nonzero_def)
  show "opt_holds anchor_typed a" "opt_holds anchor_typed (ad_startTime b)"
    "opt_holds anchor_typed (ad_dueDate b)" "opt_holds anchor_typed (ad_reviewAt b)"
    using assms n opt_nullish[OF g opt_nullish[OF r opt_nullish[OF r r]]] n[OF r]
    by (auto simp: getNextRecurrenceAnchorDays_def resolveRecurrenceFieldAnchorDays_def Let_def split: if_splits)
qed

lemma next_typed:
  assumes r: "recurrence_typed r" "t_recurrence t = Some (RecObj r)"
    and p: "rp_sourceAnchorDays p = resolveRecurrenceFieldAnchorDays h (t_recurrence t) (task_dates t)"
  shows "recurrence_typed (next_recurrence t rule p)"
proof -
  obtain a b where ab: "getNextRecurrenceAnchorDays (t_recurrence t) rule (rp_sourceAnchorDays p) = (a, b)" by fastforce
  note n = next_anchors_typed[OF ab[unfolded p]]
  let ?n = "next_recurrence t rule p"
  have c: "0 \<le> or_else (getRecurrenceCompletedOccurrencesValue v) 0 + 1" for v
    by (auto simp: getRecurrenceCompletedOccurrencesValue_def split: option.splits task_recurrence.splits)
  have f: "rec_rule ?n = rec_rule r" "rec_strategy ?n = rec_strategy r" "rec_byDay ?n = rec_byDay r"
    "rec_byMonthDay ?n = js_nullish (getRecurrenceByMonthDay (t_recurrence t)) (rec_byMonthDay r)"
    "rec_weekStart ?n = rec_weekStart r" "rec_count ?n = getRecurrenceCountValue (t_recurrence t)"
    "rec_completedOccurrences ?n = (if getRecurrenceCountValue (t_recurrence t) \<noteq> None
        then Some (or_else (getRecurrenceCompletedOccurrencesValue (t_recurrence t)) 0 + 1)
        else rec_completedOccurrences r)"
    "rec_anchorDay ?n = js_nullish a (rec_anchorDay r)"
    "rec_startAnchorDay ?n = js_nullish (ad_startTime b) (rec_startAnchorDay r)"
    "rec_dueAnchorDay ?n = js_nullish (ad_dueDate b) (rec_dueAnchorDay r)"
    "rec_reviewAnchorDay ?n = js_nullish (ad_reviewAt b) (rec_reviewAnchorDay r)"
    using ab by (simp_all add: next_recurrence_def r(2) Let_def)
  show ?thesis
    using r(1) n month_day_reader_typed count_reader_typed c unfolding recurrence_typed_def f
    by (simp add: opt_nullish)
qed

lemma next_settings_kept:
  assumes rule: "getRecurrenceRule (t_recurrence t) = Some rule" and r: "t_recurrence t = Some (RecObj r)"
    "rec_rule r \<in> set RECURRENCE_RULES" and p: "projectNextRecurringTask h now t completedAt advance = Some p"
  defines "n \<equiv> Some (RecObj (next_recurrence t rule p))"
  shows "getRecurrenceRule n = Some rule" "getRecurrenceStrategy n = getRecurrenceStrategy (t_recurrence t)"
    "getRecurrenceInterval n = getRecurrenceInterval (t_recurrence t)"
proof -
  have rr: "rule \<in> set RECURRENCE_RULES" using getRecurrenceRule_cases[OF rule] by (auto simp: RECURRENCE_RULES_def)
  have f: "rec_rule (next_recurrence t rule p) = rec_rule r" "rec_strategy (next_recurrence t rule p) = rec_strategy r"
    "rec_rrule (next_recurrence t rule p) = (if truthy (rec_rrule r) then rp_rruleText p else rec_rrule r)"
    by (simp_all add: next_recurrence_def r(1) Let_def)
  have "isRecurrenceRule (Some (rec_rule r))" using r(2) by (auto simp: isRecurrenceRule_def RECURRENCE_RULES_def)
  then show "getRecurrenceRule n = Some rule" using rule by (simp add: getRecurrenceRule_def n_def f r(1))
  show "getRecurrenceStrategy n = getRecurrenceStrategy (t_recurrence t)"
    by (simp add: getRecurrenceStrategy_def n_def f r(1))
  let ?i = "getRecurrenceInterval (t_recurrence t)"
  have b: "pr_interval (parseRRuleSelectors (buildRRuleString h rule bd (Some ?i) md sp ws ct un)) = int_over 1 (Some ?i)"
    "buildRRuleString h rule bd (Some ?i) md sp ws ct un \<noteq> []" for bd md sp ws ct un
    using arg_cong[OF rrule_read_back[OF rr, of h bd "Some ?i" md sp ws ct un], of pr_interval]
      arg_cong[OF rrule_read_back[OF rr, of h bd "Some ?i" md sp ws ct un], of pr_rule]
    by (auto simp: parseRRuleString_def empty_parsed_def parseRRuleSelectors_def split: if_splits)
  have i: "1 \<le> ?i" by (rule getRecurrenceInterval_pos)
  have e: "getRecurrenceInterval (Some (RecObj x)) =
      (case pr_interval (selectors_of x) of Some n \<Rightarrow> if n > 0 then n else 1 | None \<Rightarrow> 1)" for x
    by (simp add: getRecurrenceInterval_def)
  show "getRecurrenceInterval n = ?i"
  proof (cases "truthy (rec_rrule r)")
    case True
    then have "rp_rruleText p = Some (buildRRuleString h rule (getRecurrenceByDay (t_recurrence t)) (Some ?i)
        (getRecurrenceByMonthDay (t_recurrence t)) (getRecurrenceBySetPos (t_recurrence t))
        (getRecurrenceWeekStart (t_recurrence t)) (getRecurrenceCountValue (t_recurrence t))
        (getRecurrenceUntilValue h (t_recurrence t)))"
      using True by (cases "rec_rrule r") (simp_all add: projected_parts(5)[OF rule p] rrule_of_def r(1))
    then have "pr_interval (selectors_of (next_recurrence t rule p)) = int_over 1 (Some ?i)"
      using True by (simp add: selectors_of_def f(3) b)
    then show ?thesis using i unfolding n_def e by (simp add: int_over_def)
  next
    case False
    then have "?i = 1" by (simp add: getRecurrenceInterval_def r(1) selectors_of_def empty_parsed_def)
    then show ?thesis
      using False unfolding n_def e by (simp add: selectors_of_def f(3) empty_parsed_def)
  qed
qed

text \<open>
  C10: A recurrence stays well-typed: the one loading makes of any stored value has a known rule and
  strategy, weekday tokens of the grammar without repetition, month days sorted and in range, a
  positive count and anchor days in a month; and after any number of completions the follow-up has
  such a recurrence, of the same rule, strategy and interval.
\<close>

theorem recurrence_stays_typed:
  assumes load: "normalizeRecurrenceForLoad h v = Some r" and t: "t_recurrence t = Some (RecObj r)"
    and chain: "(completes h createId ^^ k) t t'"
  shows "\<exists>r'. t_recurrence t' = Some (RecObj r') \<and> recurrence_typed r' \<and>
    getRecurrenceRule (t_recurrence t') = getRecurrenceRule (t_recurrence t) \<and>
    getRecurrenceStrategy (t_recurrence t') = getRecurrenceStrategy (t_recurrence t) \<and>
    getRecurrenceInterval (t_recurrence t') = getRecurrenceInterval (t_recurrence t)"
  using chain
proof (induction k arbitrary: t')
  case 0
  then show ?case using t loaded_typed[OF load] by simp
next
  case (Suc k)
  then obtain u where u: "(completes h createId ^^ k) t u" "completes h createId u t'" by auto
  obtain r' where r': "t_recurrence u = Some (RecObj r')" "recurrence_typed r'"
    "getRecurrenceRule (t_recurrence u) = getRecurrenceRule (t_recurrence t)"
    "getRecurrenceStrategy (t_recurrence u) = getRecurrenceStrategy (t_recurrence t)"
    "getRecurrenceInterval (t_recurrence u) = getRecurrenceInterval (t_recurrence t)"
    using Suc.IH[OF u(1)] by blast
  from u(2) obtain now completedAt previous advance s s' where
    "createNextRecurringTask h now createId u completedAt previous advance s = Inr (Some t', s')"
    by (auto elim: completes_cases)
  from built_follow_up[OF this] obtain rule p id1 atts cl where
    f: "getRecurrenceRule (t_recurrence u) = Some rule"
    "projectNextRecurringTask h now u completedAt advance = Some p"
    "t' = follow_up_task u completedAt previous p rule id1 atts cl"
    by metis
  have rec: "t_recurrence t' = Some (RecObj (next_recurrence u rule p))" unfolding f(3) by (rule follow_up_recurrence)
  have "rp_sourceAnchorDays p = resolveRecurrenceFieldAnchorDays h (t_recurrence u) (task_dates u)"
    by (rule projected_parts(2)[OF f(1,2)])
  from next_typed[OF r'(2,1) this] have "recurrence_typed (next_recurrence u rule p)" .
  moreover have "rec_rule r' \<in> set RECURRENCE_RULES" using r'(2) by (simp add: recurrence_typed_def)
  note next_settings_kept[OF f(1) r'(1) this f(2)]
  ultimately show ?case using rec r'(3-5) f(1) by simp
qed

lemma recurrence_stays_typed_witness:
  "\<exists>r'. t_recurrence series_next = Some (RecObj r') \<and> recurrence_typed r' \<and>
    getRecurrenceRule (t_recurrence series_next) = getRecurrenceRule (t_recurrence series_task) \<and>
    getRecurrenceStrategy (t_recurrence series_next) = getRecurrenceStrategy (t_recurrence series_task) \<and>
    getRecurrenceInterval (t_recurrence series_next) = getRecurrenceInterval (t_recurrence series_task)"
proof -
  obtain r where r: "t_recurrence series_task = Some (RecObj r)" by (simp add: series_task_def)
  have "normalizeRecurrenceForLoad calendar_host (t_recurrence series_task) =
      (case t_recurrence series_task of Some (RecObj r) \<Rightarrow> Some r | _ \<Rightarrow> None)" by code_simp
  then have l: "normalizeRecurrenceForLoad calendar_host (t_recurrence series_task) = Some r" using r by simp
  have "(completes calendar_host counting_supply ^^ 1) series_task series_next"
    using completed[OF series_next_built] by auto
  from recurrence_stays_typed[OF l r this] show ?thesis .
qed

end
