(* ===== verification/TaskPatch.thy ===== *)
theory TaskPatch
  imports RecurrenceBuild Containers
begin

text \<open>
  \<open>Partial<Task>\<close> of \<open>types.ts\<close>: the patch every writer of a task hands over. A field of the patch is
  \<open>None\<close> when it is not an own property of the object (\<open>hasOwnField\<close> is false) and \<open>Some v\<close> when
  the patch sets it to \<open>v\<close>; an optional field set to \<open>undefined\<close> is \<open>Some None\<close>. The required
  fields of a task are never set to \<open>undefined\<close>, and no patch carries the identifier or the
  creation time. \<open>apply_patch\<close> is the object spread \<open>{ ...task, ...patch }\<close>.
\<close>

subsection \<open>Patches\<close>

record task_patch =
  u_title :: "string option"
  u_status :: "task_status option"
  u_priority :: "(string option) option"
  u_energyLevel :: "(string option) option"
  u_assignedTo :: "(string option) option"
  u_taskMode :: "(string option) option"
  u_startTime :: "(string option) option"
  u_relativeStartOffset :: "(relative_start_offset option) option"
  u_dueDate :: "(string option) option"
  u_recurrence :: "(task_recurrence option) option"
  u_showFutureRecurrence :: "(bool option) option"
  u_pushCount :: "(int option) option"
  u_tags :: "(string list) option"
  u_contexts :: "(string list) option"
  u_checklist :: "(checklist_item list option) option"
  u_description :: "(string option) option"
  u_textDirection :: "(string option) option"
  u_attachments :: "(attachment list option) option"
  u_location :: "(string option) option"
  u_projectId :: "(string option) option"
  u_sectionId :: "(string option) option"
  u_viewSectionIds :: "((string \<times> string) list option) option"
  u_areaId :: "(string option) option"
  u_isFocusedToday :: "(bool option) option"
  u_timeEstimate :: "(string option) option"
  u_timeSpentMinutes :: "(int option) option"
  u_suppressMindwtrReminders :: "(bool option) option"
  u_repeatReminderMinutes :: "(int option) option"
  u_reviewAt :: "(string option) option"
  u_completedAt :: "(string option) option"
  u_cancelledAt :: "(string option) option"
  u_archivedAt :: "(string option) option"
  u_statusBeforeProjectArchive :: "(task_status option) option"
  u_completedAtBeforeProjectArchive :: "(string option option) option"
  u_isFocusedTodayBeforeProjectArchive :: "(bool option option) option"
  u_projectArchivedAt :: "(string option) option"
  u_purgedAt :: "(string option) option"
  u_order :: "(int option) option"
  u_orderNum :: "(int option) option"
  u_boardOrder :: "(int option) option"
  u_focusOrder :: "(int option) option"
  u_updatedAt :: "string option"
  u_deletedAt :: "(string option) option"
  u_rev :: "(int option) option"
  u_revBy :: "(string option) option"

definition no_patch :: task_patch where
  "no_patch = \<lparr>u_title = None, u_status = None, u_priority = None, u_energyLevel = None,
     u_assignedTo = None, u_taskMode = None, u_startTime = None, u_relativeStartOffset = None,
     u_dueDate = None, u_recurrence = None, u_showFutureRecurrence = None, u_pushCount = None,
     u_tags = None, u_contexts = None, u_checklist = None, u_description = None,
     u_textDirection = None, u_attachments = None, u_location = None, u_projectId = None,
     u_sectionId = None, u_viewSectionIds = None, u_areaId = None, u_isFocusedToday = None,
     u_timeEstimate = None, u_timeSpentMinutes = None, u_suppressMindwtrReminders = None,
     u_repeatReminderMinutes = None, u_reviewAt = None, u_completedAt = None, u_cancelledAt = None,
     u_archivedAt = None, u_statusBeforeProjectArchive = None,
     u_completedAtBeforeProjectArchive = None, u_isFocusedTodayBeforeProjectArchive = None,
     u_projectArchivedAt = None, u_purgedAt = None, u_order = None, u_orderNum = None,
     u_boardOrder = None, u_focusOrder = None, u_updatedAt = None, u_deletedAt = None, u_rev = None,
     u_revBy = None\<rparr>"

definition apply_patch :: "task \<Rightarrow> task_patch \<Rightarrow> task" where
  "apply_patch t u = t\<lparr>
     t_title := or_else (u_title u) (t_title t),
     t_status := or_else (u_status u) (t_status t),
     t_priority := or_else (u_priority u) (t_priority t),
     t_energyLevel := or_else (u_energyLevel u) (t_energyLevel t),
     t_assignedTo := or_else (u_assignedTo u) (t_assignedTo t),
     t_taskMode := or_else (u_taskMode u) (t_taskMode t),
     t_startTime := or_else (u_startTime u) (t_startTime t),
     t_relativeStartOffset := or_else (u_relativeStartOffset u) (t_relativeStartOffset t),
     t_dueDate := or_else (u_dueDate u) (t_dueDate t),
     t_recurrence := or_else (u_recurrence u) (t_recurrence t),
     t_showFutureRecurrence := or_else (u_showFutureRecurrence u) (t_showFutureRecurrence t),
     t_pushCount := or_else (u_pushCount u) (t_pushCount t),
     t_tags := or_else (u_tags u) (t_tags t),
     t_contexts := or_else (u_contexts u) (t_contexts t),
     t_checklist := or_else (u_checklist u) (t_checklist t),
     t_description := or_else (u_description u) (t_description t),
     t_textDirection := or_else (u_textDirection u) (t_textDirection t),
     t_attachments := or_else (u_attachments u) (t_attachments t),
     t_location := or_else (u_location u) (t_location t),
     t_projectId := or_else (u_projectId u) (t_projectId t),
     t_sectionId := or_else (u_sectionId u) (t_sectionId t),
     t_viewSectionIds := or_else (u_viewSectionIds u) (t_viewSectionIds t),
     t_areaId := or_else (u_areaId u) (t_areaId t),
     t_isFocusedToday := or_else (u_isFocusedToday u) (t_isFocusedToday t),
     t_timeEstimate := or_else (u_timeEstimate u) (t_timeEstimate t),
     t_timeSpentMinutes := or_else (u_timeSpentMinutes u) (t_timeSpentMinutes t),
     t_suppressMindwtrReminders := or_else (u_suppressMindwtrReminders u) (t_suppressMindwtrReminders t),
     t_repeatReminderMinutes := or_else (u_repeatReminderMinutes u) (t_repeatReminderMinutes t),
     t_reviewAt := or_else (u_reviewAt u) (t_reviewAt t),
     t_completedAt := or_else (u_completedAt u) (t_completedAt t),
     t_cancelledAt := or_else (u_cancelledAt u) (t_cancelledAt t),
     t_archivedAt := or_else (u_archivedAt u) (t_archivedAt t),
     t_statusBeforeProjectArchive := or_else (u_statusBeforeProjectArchive u) (t_statusBeforeProjectArchive t),
     t_completedAtBeforeProjectArchive := or_else (u_completedAtBeforeProjectArchive u) (t_completedAtBeforeProjectArchive t),
     t_isFocusedTodayBeforeProjectArchive := or_else (u_isFocusedTodayBeforeProjectArchive u) (t_isFocusedTodayBeforeProjectArchive t),
     t_projectArchivedAt := or_else (u_projectArchivedAt u) (t_projectArchivedAt t),
     t_purgedAt := or_else (u_purgedAt u) (t_purgedAt t),
     t_order := or_else (u_order u) (t_order t),
     t_orderNum := or_else (u_orderNum u) (t_orderNum t),
     t_boardOrder := or_else (u_boardOrder u) (t_boardOrder t),
     t_focusOrder := or_else (u_focusOrder u) (t_focusOrder t),
     updatedAt := or_else (u_updatedAt u) (updatedAt t),
     deletedAt := or_else (u_deletedAt u) (deletedAt t),
     rev := or_else (u_rev u) (rev t),
     revBy := or_else (u_revBy u) (revBy t)\<rparr>"

text \<open>Each field of the result, and the two a patch never touches.\<close>

lemma apply_patch_fields [simp]:
  "eid (apply_patch t u) = eid t"
  "createdAt (apply_patch t u) = createdAt t"
  "t_title (apply_patch t u) = or_else (u_title u) (t_title t)"
  "t_status (apply_patch t u) = or_else (u_status u) (t_status t)"
  "t_priority (apply_patch t u) = or_else (u_priority u) (t_priority t)"
  "t_energyLevel (apply_patch t u) = or_else (u_energyLevel u) (t_energyLevel t)"
  "t_assignedTo (apply_patch t u) = or_else (u_assignedTo u) (t_assignedTo t)"
  "t_taskMode (apply_patch t u) = or_else (u_taskMode u) (t_taskMode t)"
  "t_startTime (apply_patch t u) = or_else (u_startTime u) (t_startTime t)"
  "t_relativeStartOffset (apply_patch t u) = or_else (u_relativeStartOffset u) (t_relativeStartOffset t)"
  "t_dueDate (apply_patch t u) = or_else (u_dueDate u) (t_dueDate t)"
  "t_recurrence (apply_patch t u) = or_else (u_recurrence u) (t_recurrence t)"
  "t_showFutureRecurrence (apply_patch t u) = or_else (u_showFutureRecurrence u) (t_showFutureRecurrence t)"
  "t_pushCount (apply_patch t u) = or_else (u_pushCount u) (t_pushCount t)"
  "t_tags (apply_patch t u) = or_else (u_tags u) (t_tags t)"
  "t_contexts (apply_patch t u) = or_else (u_contexts u) (t_contexts t)"
  "t_checklist (apply_patch t u) = or_else (u_checklist u) (t_checklist t)"
  "t_description (apply_patch t u) = or_else (u_description u) (t_description t)"
  "t_textDirection (apply_patch t u) = or_else (u_textDirection u) (t_textDirection t)"
  "t_attachments (apply_patch t u) = or_else (u_attachments u) (t_attachments t)"
  "t_location (apply_patch t u) = or_else (u_location u) (t_location t)"
  "t_projectId (apply_patch t u) = or_else (u_projectId u) (t_projectId t)"
  "t_sectionId (apply_patch t u) = or_else (u_sectionId u) (t_sectionId t)"
  "t_viewSectionIds (apply_patch t u) = or_else (u_viewSectionIds u) (t_viewSectionIds t)"
  "t_areaId (apply_patch t u) = or_else (u_areaId u) (t_areaId t)"
  "t_isFocusedToday (apply_patch t u) = or_else (u_isFocusedToday u) (t_isFocusedToday t)"
  "t_timeEstimate (apply_patch t u) = or_else (u_timeEstimate u) (t_timeEstimate t)"
  "t_timeSpentMinutes (apply_patch t u) = or_else (u_timeSpentMinutes u) (t_timeSpentMinutes t)"
  "t_suppressMindwtrReminders (apply_patch t u) = or_else (u_suppressMindwtrReminders u) (t_suppressMindwtrReminders t)"
  "t_repeatReminderMinutes (apply_patch t u) = or_else (u_repeatReminderMinutes u) (t_repeatReminderMinutes t)"
  "t_reviewAt (apply_patch t u) = or_else (u_reviewAt u) (t_reviewAt t)"
  "t_completedAt (apply_patch t u) = or_else (u_completedAt u) (t_completedAt t)"
  "t_cancelledAt (apply_patch t u) = or_else (u_cancelledAt u) (t_cancelledAt t)"
  "t_archivedAt (apply_patch t u) = or_else (u_archivedAt u) (t_archivedAt t)"
  "t_statusBeforeProjectArchive (apply_patch t u) = or_else (u_statusBeforeProjectArchive u) (t_statusBeforeProjectArchive t)"
  "t_completedAtBeforeProjectArchive (apply_patch t u) = or_else (u_completedAtBeforeProjectArchive u) (t_completedAtBeforeProjectArchive t)"
  "t_isFocusedTodayBeforeProjectArchive (apply_patch t u) = or_else (u_isFocusedTodayBeforeProjectArchive u) (t_isFocusedTodayBeforeProjectArchive t)"
  "t_projectArchivedAt (apply_patch t u) = or_else (u_projectArchivedAt u) (t_projectArchivedAt t)"
  "t_purgedAt (apply_patch t u) = or_else (u_purgedAt u) (t_purgedAt t)"
  "t_order (apply_patch t u) = or_else (u_order u) (t_order t)"
  "t_orderNum (apply_patch t u) = or_else (u_orderNum u) (t_orderNum t)"
  "t_boardOrder (apply_patch t u) = or_else (u_boardOrder u) (t_boardOrder t)"
  "t_focusOrder (apply_patch t u) = or_else (u_focusOrder u) (t_focusOrder t)"
  "updatedAt (apply_patch t u) = or_else (u_updatedAt u) (updatedAt t)"
  "deletedAt (apply_patch t u) = or_else (u_deletedAt u) (deletedAt t)"
  "rev (apply_patch t u) = or_else (u_rev u) (rev t)"
  "revBy (apply_patch t u) = or_else (u_revBy u) (revBy t)"
  by (simp_all add: apply_patch_def)

lemma apply_no_patch [simp]: "apply_patch t no_patch = t"
  by (simp add: apply_patch_def no_patch_def)

end
