(* ===== verification/ProjectLifecycle.thy ===== *)
theory ProjectLifecycle
  imports TaskPatch
begin

text \<open>
  The project archive of \<open>store-helpers.ts\<close>: completing or cancelling a project finishes its
  actionable tasks and hides its sections, each with a marker of what it was before, and
  reactivating the project takes the marked children back. A helper that hands back its argument
  returns an equal record. A child the cascade rewrites never equals the child it was, so the
  identity test of \<open>repairSectionOnlyOwner\<close> is an equality here.
\<close>

subsection \<open>Children\<close>

definition completeTaskForProjectArchive :: "task \<Rightarrow> string \<Rightarrow> string option \<Rightarrow> task" where
  "completeTaskForProjectArchive t archivedAt deviceId = t\<lparr>
     t_status := Done,
     t_completedAt := Some archivedAt,
     t_archivedAt := Some archivedAt,
     t_cancelledAt := None,
     t_isFocusedToday := Some False,
     t_focusOrder := None,
     t_statusBeforeProjectArchive := Some (t_status t),
     t_completedAtBeforeProjectArchive := map_option Some (t_completedAt t),
     t_isFocusedTodayBeforeProjectArchive := map_option Some (t_isFocusedToday t),
     t_projectArchivedAt := Some archivedAt,
     updatedAt := archivedAt,
     rev := Some (nextRev (rev t)),
     revBy := deviceId\<rparr>"

definition cancelTaskForProjectArchive ::
    "task \<Rightarrow> string \<Rightarrow> string option \<Rightarrow> string \<Rightarrow> task" where
  "cancelTaskForProjectArchive t cancelledAt deviceId operationAt = t\<lparr>
     t_status := Archived,
     t_archivedAt := Some operationAt,
     t_completedAt := None,
     t_cancelledAt := Some cancelledAt,
     t_isFocusedToday := Some False,
     t_focusOrder := None,
     t_statusBeforeProjectArchive := Some (t_status t),
     t_completedAtBeforeProjectArchive := map_option Some (t_completedAt t),
     t_isFocusedTodayBeforeProjectArchive := map_option Some (t_isFocusedToday t),
     t_projectArchivedAt := Some operationAt,
     updatedAt := operationAt,
     rev := Some (nextRev (rev t)),
     revBy := deviceId\<rparr>"

definition restorable_task :: "task \<Rightarrow> bool" where
  "restorable_task t =
     (let previousStatus = t_statusBeforeProjectArchive t;
          archivedAt = t_projectArchivedAt t;
          wasCompletedByProject = (t_status t = Done \<and> t_cancelledAt t = None \<and>
            t_completedAt t = archivedAt);
          wasCancelledByProject = (t_status t = Archived \<and> cancellation (t_cancelledAt t) \<noteq> None \<and>
            t_completedAt t = None)
      in \<not> truthy (deletedAt t) \<and> previousStatus \<noteq> None \<and> \<not> isTaskFinished previousStatus \<and>
         truthy archivedAt \<and> Some (updatedAt t) = archivedAt \<and>
         (wasCompletedByProject \<or> wasCancelledByProject))"

definition restoreTaskFromProjectArchive :: "task \<Rightarrow> string \<Rightarrow> string option \<Rightarrow> task" where
  "restoreTaskFromProjectArchive t restoredAt deviceId =
     (if \<not> restorable_task t then t
      else t\<lparr>
        t_status := or_else (t_statusBeforeProjectArchive t) (t_status t),
        t_archivedAt := None,
        t_completedAt := or_else (t_completedAtBeforeProjectArchive t) None,
        t_cancelledAt := None,
        t_isFocusedToday := Some (or_else (or_else (t_isFocusedTodayBeforeProjectArchive t) None) False),
        t_statusBeforeProjectArchive := None,
        t_completedAtBeforeProjectArchive := None,
        t_isFocusedTodayBeforeProjectArchive := None,
        t_projectArchivedAt := None,
        updatedAt := restoredAt,
        rev := Some (nextRev (rev t)),
        revBy := deviceId\<rparr>)"

definition hasTaskProjectArchiveMetadata :: "task \<Rightarrow> bool" where
  "hasTaskProjectArchiveMetadata t =
     (t_projectArchivedAt t \<noteq> None \<or> t_statusBeforeProjectArchive t \<noteq> None \<or>
      t_completedAtBeforeProjectArchive t \<noteq> None \<or> t_isFocusedTodayBeforeProjectArchive t \<noteq> None)"

definition without_archive_marker :: "task \<Rightarrow> task" where
  "without_archive_marker t = t\<lparr>
     t_statusBeforeProjectArchive := None,
     t_completedAtBeforeProjectArchive := None,
     t_isFocusedTodayBeforeProjectArchive := None,
     t_projectArchivedAt := None\<rparr>"

definition retireTaskProjectArchiveMetadata :: "task \<Rightarrow> string \<Rightarrow> string option \<Rightarrow> task" where
  "retireTaskProjectArchiveMetadata t retiredAt deviceId =
     (if \<not> hasTaskProjectArchiveMetadata t then t
      else (without_archive_marker t)\<lparr>updatedAt := retiredAt, rev := Some (nextRev (rev t)),
        revBy := deviceId\<rparr>)"

definition clearDeletedTaskProjectArchiveMetadata :: "task \<Rightarrow> task" where
  "clearDeletedTaskProjectArchiveMetadata t =
     (if \<not> truthy (deletedAt t) \<or> \<not> hasTaskProjectArchiveMetadata t then t
      else without_archive_marker t)"

definition archiveSectionForProjectArchive :: "section1 \<Rightarrow> string \<Rightarrow> string option \<Rightarrow> section1" where
  "archiveSectionForProjectArchive s archivedAt deviceId = s\<lparr>
     deletedAt := Some archivedAt,
     s_deletedAtBeforeProjectArchive := map_option Some (deletedAt s),
     s_projectArchivedAt := Some archivedAt,
     updatedAt := archivedAt,
     rev := Some (nextRev (rev s)),
     revBy := deviceId\<rparr>"

definition isTaskSectionProjectArchiveReference ::
    "task \<Rightarrow> section1 option \<Rightarrow> project option \<Rightarrow> bool" where
  "isTaskSectionProjectArchiveReference t section1 project1 =
     (case (section1, project1) of
        (Some s, Some p) \<Rightarrow>
          \<not> truthy (deletedAt p) \<and> \<not> truthy (p_purgedAt p) \<and> p_status p = PArchived \<and>
          truthy (s_projectArchivedAt s) \<and> deletedAt s = s_projectArchivedAt s \<and>
          t_projectId t = Some (eid p) \<and> s_projectId s = eid p \<and>
          (isTaskFinished (Some (t_status t)) \<or> t_status t = Reference)
      | _ \<Rightarrow> False)"

definition isRestorableProjectArchiveSection :: "section1 \<Rightarrow> bool" where
  "isRestorableProjectArchiveSection s =
     (truthy (s_projectArchivedAt s) \<and> Some (updatedAt s) = s_projectArchivedAt s \<and>
      deletedAt s = s_projectArchivedAt s \<and> or_else (s_deletedAtBeforeProjectArchive s) None = None)"

definition restoreSectionFromProjectArchive :: "section1 \<Rightarrow> string \<Rightarrow> string option \<Rightarrow> section1" where
  "restoreSectionFromProjectArchive s restoredAt deviceId =
     (if \<not> isRestorableProjectArchiveSection s then s
      else s\<lparr>
        deletedAt := None,
        s_deletedAtBeforeProjectArchive := None,
        s_projectArchivedAt := None,
        updatedAt := restoredAt,
        rev := Some (nextRev (rev s)),
        revBy := deviceId\<rparr>)"

subsection \<open>The project patch\<close>

text \<open>The other fields of a \<open>Partial<Project>\<close>, beside those the cancellation rules read.\<close>

record project_update = project_patch +
  up_title :: "string option"
  up_color :: "string option"
  up_order :: "int option"
  up_tagIds :: "string list option"
  up_isSequential :: "bool option option"
  up_sequentialScope :: "string option option"
  up_taskSortBy :: "string option option"
  up_supportNotes :: "string option option"
  up_attachments :: "attachment list option option"
  up_startDate :: "string option option"
  up_dueDate :: "string option option"
  up_reviewAt :: "string option option"
  up_areaId :: "string option option"
  up_areaTitle :: "string option option"
  up_viewSectionIds :: "(string \<times> string) list option option"

definition no_project_update :: project_update where
  "no_project_update = \<lparr>up_status = None, up_cancelledAt = None, up_archivedAt = None,
     up_isFocused = None, up_title = None, up_color = None, up_order = None, up_tagIds = None,
     up_isSequential = None, up_sequentialScope = None, up_taskSortBy = None,
     up_supportNotes = None, up_attachments = None, up_startDate = None, up_dueDate = None,
     up_reviewAt = None, up_areaId = None, up_areaTitle = None, up_viewSectionIds = None\<rparr>"

definition apply_project_update :: "project \<Rightarrow> project_update \<Rightarrow> project" where
  "apply_project_update p u = p\<lparr>
     p_title := or_else (up_title u) (p_title p),
     p_status := or_else (up_status u) (p_status p),
     p_color := or_else (up_color u) (p_color p),
     p_order := or_else (up_order u) (p_order p),
     p_tagIds := or_else (up_tagIds u) (p_tagIds p),
     p_isSequential := or_else (up_isSequential u) (p_isSequential p),
     p_sequentialScope := or_else (up_sequentialScope u) (p_sequentialScope p),
     p_taskSortBy := or_else (up_taskSortBy u) (p_taskSortBy p),
     p_isFocused := or_else (up_isFocused u) (p_isFocused p),
     p_supportNotes := or_else (up_supportNotes u) (p_supportNotes p),
     p_attachments := or_else (up_attachments u) (p_attachments p),
     p_startDate := or_else (up_startDate u) (p_startDate p),
     p_dueDate := or_else (up_dueDate u) (p_dueDate p),
     p_reviewAt := or_else (up_reviewAt u) (p_reviewAt p),
     p_cancelledAt := (case up_cancelledAt u of None \<Rightarrow> p_cancelledAt p | Some v \<Rightarrow> str_of v),
     p_archivedAt := or_else (up_archivedAt u) (p_archivedAt p),
     p_areaId := or_else (up_areaId u) (p_areaId p),
     p_areaTitle := or_else (up_areaTitle u) (p_areaTitle p),
     p_viewSectionIds := or_else (up_viewSectionIds u) (p_viewSectionIds p)\<rparr>"

lemma apply_project_update_fields [simp]:
  "eid (apply_project_update p u) = eid p"
  "deletedAt (apply_project_update p u) = deletedAt p"
  "p_purgedAt (apply_project_update p u) = p_purgedAt p"
  "p_status (apply_project_update p u) = or_else (up_status u) (p_status p)"
  "p_isFocused (apply_project_update p u) = or_else (up_isFocused u) (p_isFocused p)"
  "p_archivedAt (apply_project_update p u) = or_else (up_archivedAt u) (p_archivedAt p)"
  "p_cancelledAt (apply_project_update p u) =
     (case up_cancelledAt u of None \<Rightarrow> p_cancelledAt p | Some v \<Rightarrow> str_of v)"
  by (simp_all add: apply_project_update_def)

subsection \<open>The transition\<close>

record lifecycle_transition =
  lt_projectUpdates :: project_update
  lt_tasks :: "task list"
  lt_sections :: "section1 list"

definition isProjectChild :: "project \<Rightarrow> section1 list \<Rightarrow> task \<Rightarrow> bool" where
  "isProjectChild p sections t =
     (t_projectId t = Some (eid p) \<or>
      \<not> truthy (t_projectId t) \<and> truthy (t_sectionId t) \<and>
        t_sectionId t \<in> set (map (\<lambda>s. Some (eid s)) (filter (\<lambda>s. s_projectId s = eid p) sections)))"

definition repairSectionOnlyOwner :: "project \<Rightarrow> string \<Rightarrow> string option \<Rightarrow> task \<Rightarrow> task \<Rightarrow> task" where
  "repairSectionOnlyOwner p now deviceId original changed =
     (if truthy (t_projectId original) then changed
      else if changed = original then changed\<lparr>t_projectId := Some (eid p), updatedAt := now,
        rev := Some (nextRev (rev changed)), revBy := deviceId\<rparr>
      else changed\<lparr>t_projectId := Some (eid p)\<rparr>)"

definition stamp_archived :: "string \<Rightarrow> string option \<Rightarrow> bool \<Rightarrow> task \<Rightarrow> task" where
  "stamp_archived now deviceId enteredArchive t =
     (if enteredArchive \<and> \<not> truthy (t_archivedAt t)
      then t\<lparr>t_archivedAt := Some now, updatedAt := now, rev := Some (nextRev (rev t)), revBy := deviceId\<rparr>
      else t)"

definition archive_child :: "project \<Rightarrow> bool \<Rightarrow> string \<Rightarrow> string option \<Rightarrow> task \<Rightarrow> task" where
  "archive_child normalizedProject enteredArchive now deviceId t =
     (if isProjectCancelled (Some normalizedProject) then
        (if isTaskActionable (Some (t_status t))
         then cancelTaskForProjectArchive t (or_else (p_cancelledAt normalizedProject) []) deviceId now
         else stamp_archived now deviceId enteredArchive t)
      else
        (if \<not> isTaskFinished (Some (t_status t)) \<and> t_status t \<noteq> Reference
         then completeTaskForProjectArchive t now deviceId
         else stamp_archived now deviceId enteredArchive t))"

definition reactivate_child :: "string \<Rightarrow> string option \<Rightarrow> task \<Rightarrow> task" where
  "reactivate_child now deviceId t =
     (if truthy (t_projectArchivedAt t) then restoreTaskFromProjectArchive t now deviceId
      else if t_status t \<noteq> Archived \<and> truthy (t_archivedAt t)
      then t\<lparr>t_archivedAt := None, updatedAt := now, rev := Some (nextRev (rev t)), revBy := deviceId\<rparr>
      else t)"

definition applyProjectLifecycleTransition :: "project \<Rightarrow> project_update \<Rightarrow> task list \<Rightarrow>
    section1 list \<Rightarrow> string \<Rightarrow> string option \<Rightarrow> lifecycle_transition" where
  "applyProjectLifecycleTransition p updates tasks sections now deviceId =
     (let u = normalizeProjectUpdate p updates;
          n = normalizeProjectLifecycleFields (apply_project_update p u);
          enteredArchive = (p_status p \<noteq> PArchived \<and> p_status n = PArchived);
          activatedCancellation = (isProjectCancelled (Some n) \<and>
            (\<not> isProjectCancelled (Some p) \<or> p_cancelledAt p \<noteq> p_cancelledAt n));
          reactivated = (p_status p = PArchived \<and> p_status n \<noteq> PArchived);
          u' = (if enteredArchive then u\<lparr>up_archivedAt := Some (Some now)\<rparr>
                else if reactivated then u\<lparr>up_archivedAt := Some None\<rparr> else u);
          child = (\<lambda>t. isProjectChild p sections t \<and> \<not> truthy (deletedAt t));
          repair = repairSectionOnlyOwner p now deviceId
      in if enteredArchive \<or> activatedCancellation then
           \<lparr>lt_projectUpdates = u',
            lt_tasks = map (\<lambda>t. if \<not> child t then t
              else repair t (archive_child n enteredArchive now deviceId t)) tasks,
            lt_sections = (if enteredArchive
              then map (\<lambda>s. if s_projectId s = eid p \<and> \<not> truthy (deletedAt s)
                then archiveSectionForProjectArchive s now deviceId else s) sections
              else sections)\<rparr>
         else if reactivated then
           \<lparr>lt_projectUpdates = u',
            lt_tasks = map (\<lambda>t. if \<not> child t then t
              else repair t (reactivate_child now deviceId t)) tasks,
            lt_sections = map (\<lambda>s. if s_projectId s = eid p \<and> truthy (s_projectArchivedAt s)
              then restoreSectionFromProjectArchive s now deviceId else s) sections\<rparr>
         else \<lparr>lt_projectUpdates = u', lt_tasks = tasks, lt_sections = sections\<rparr>)"

text \<open>The stamp of \<open>updateProject\<close> on the project itself.\<close>

definition stamp_project :: "project \<Rightarrow> project_update \<Rightarrow> string \<Rightarrow> string option \<Rightarrow> project" where
  "stamp_project p u now deviceId =
     normalizeProjectLifecycleFields ((apply_project_update p u)\<lparr>updatedAt := now,
       rev := Some (nextRev (rev p)), revBy := deviceId\<rparr>)"

subsection \<open>Reopening one task of an archived project\<close>

definition findTaskProjectReactivationTarget ::
    "task \<Rightarrow> task_patch \<Rightarrow> project list \<Rightarrow> project option" where
  "findTaskProjectReactivationTarget t updates projects =
     (case u_status updates of
        None \<Rightarrow> None
      | Some requested \<Rightarrow>
          if \<not> isTaskActionable (Some requested) then None
          else if truthy (or_else (u_deletedAt updates) (deletedAt t)) \<or>
            truthy (or_else (u_purgedAt updates) (t_purgedAt t)) then None
          else (let finalProjectId = (case u_projectId updates of
                  Some v \<Rightarrow> normalizeOptionalContainerId v | None \<Rightarrow> t_projectId t)
                in if \<not> truthy finalProjectId then None
                   else find (\<lambda>p. Some (eid p) = finalProjectId \<and> p_status p = PArchived \<and>
                     \<not> truthy (deletedAt p) \<and> \<not> truthy (p_purgedAt p)) projects))"

record project_reactivation =
  pr_tasks :: "task list"
  pr_projects :: "project list"
  pr_sections :: "section1 list"
  pr_reactivated :: "string list"

definition applyTaskProjectReactivationTransition :: "(task \<times> task_patch) list \<Rightarrow> task list \<Rightarrow>
    project list \<Rightarrow> section1 list \<Rightarrow> string \<Rightarrow> string option \<Rightarrow> project_reactivation" where
  "applyTaskProjectReactivationTransition requests tasks projects sections now deviceId =
     (let hits = filter (\<lambda>r. findTaskProjectReactivationTarget (fst r) (snd r) projects \<noteq> None) requests;
          ids = uniq (map (\<lambda>r. eid (the (findTaskProjectReactivationTarget (fst r) (snd r) projects))) hits);
          reopened = map (\<lambda>r. eid (fst r)) hits
      in if ids = [] then
           \<lparr>pr_tasks = tasks, pr_projects = projects, pr_sections = sections, pr_reactivated = []\<rparr>
         else
           \<lparr>pr_tasks = map (\<lambda>t. if truthy (t_projectId t) \<and> the (t_projectId t) \<in> set ids \<and>
                eid t \<notin> set reopened
              then retireTaskProjectArchiveMetadata t now deviceId else t) tasks,
            pr_projects = map (\<lambda>p. if eid p \<notin> set ids then p
              else stamp_project p (normalizeProjectUpdate p (no_project_update\<lparr>up_status := Some PActive\<rparr>))
                now deviceId) projects,
            pr_sections = map (\<lambda>s. if s_projectId s \<in> set ids
              then restoreSectionFromProjectArchive s now deviceId else s) sections,
            pr_reactivated = ids\<rparr>)"

end
