(* ===== verification/TaskUpdates.thy ===== *)
theory TaskUpdates
  imports ProjectLifecycle AppData
begin

text \<open>
  The write path of a task in \<open>store-helpers.ts\<close>: \<open>normalizeTaskUpdate\<close> completes a raw patch with
  what the edit implies (stars, statuses, orders, the archive marker), \<open>applyTaskUpdates\<close> applies
  it, with the completion, archive and recurrence rules, and the follow-up of a recurring task is
  looked up among the tasks before it is added. The date predicates and the reschedule rule are
  those of \<open>task-utils.ts\<close>. The several readings of the clock of one write are one argument \<open>now\<close>.
\<close>

subsection \<open>Deferred tasks\<close>

record focus_date =
  fd_parsedAt :: "int option"
  fd_dueAt :: "int option"

type_synonym focus_dates = "string \<Rightarrow> focus_date option"

definition earliestDate :: "int option \<Rightarrow> int option \<Rightarrow> int option" where
  "earliestDate a b =
     (case a of None \<Rightarrow> b | Some x \<Rightarrow> (case b of None \<Rightarrow> a | Some y \<Rightarrow> if x \<le> y then a else b))"

definition parseFrozenFocusDate :: "string option \<Rightarrow> focus_dates \<Rightarrow> bool \<Rightarrow> int option" where
  "parseFrozenFocusDate value dates endOfDay =
     (if \<not> truthy value then None
      else Option.bind (dates (or_else value []))
        (\<lambda>d. if endOfDay then fd_dueAt d else fd_parsedAt d))"

definition getTaskDeferUntil :: "host \<Rightarrow> task \<Rightarrow> focus_dates option \<Rightarrow> int option" where
  "getTaskDeferUntil h t frozenDates =
     (let parse = (\<lambda>v. case frozenDates of None \<Rightarrow> safeParseDate h v
            | Some dates \<Rightarrow> parseFrozenFocusDate v dates False);
          start = parse (t_startTime t)
      in if start \<noteq> None then start
         else if hasRecurrenceRule (t_recurrence t)
         then earliestDate (parse (t_dueDate t)) (parse (t_reviewAt t)) else None)"

definition isTaskFutureStart :: "host \<Rightarrow> task \<Rightarrow> int \<Rightarrow> bool" where
  "isTaskFutureStart h t now =
     (case getTaskDeferUntil h t None of None \<Rightarrow> False | Some d \<Rightarrow> end_of_day now < d)"

definition isTaskFutureStartBeforeBoundary ::
    "host \<Rightarrow> task \<Rightarrow> string \<Rightarrow> focus_dates option \<Rightarrow> bool" where
  "isTaskFutureStartBeforeBoundary h t endOfTodayIso frozenDates =
     (case (getTaskDeferUntil h t frozenDates, safeParseDate h (Some endOfTodayIso)) of
        (Some d, Some boundary) \<Rightarrow> boundary < d | _ \<Rightarrow> False)"

definition isTaskFutureFocusCandidateBeforeBoundary ::
    "host \<Rightarrow> task \<Rightarrow> string \<Rightarrow> focus_dates option \<Rightarrow> bool" where
  "isTaskFutureFocusCandidateBeforeBoundary h t endOfTodayIso frozenDates =
     (t_status t = Next \<and> truthy (t_startTime t) \<and>
      isTaskFutureStartBeforeBoundary h t endOfTodayIso frozenDates)"

definition isTaskFutureFocusCandidate :: "host \<Rightarrow> task \<Rightarrow> int \<Rightarrow> bool" where
  "isTaskFutureFocusCandidate h t now =
     (t_status t = Next \<and> truthy (t_startTime t) \<and> isTaskFutureStart h t now)"

definition isTaskFocusedNow :: "host \<Rightarrow> task \<Rightarrow> int \<Rightarrow> bool" where
  "isTaskFocusedNow h t now = (t_isFocusedToday t = Some True \<and> \<not> isTaskFutureStart h t now)"

definition isTaskCountedAsFocused :: "host \<Rightarrow> task \<Rightarrow> int \<Rightarrow> bool" where
  "isTaskCountedAsFocused h t now =
     (\<not> truthy (deletedAt t) \<and> isTaskFocusedNow h t now \<and>
      t_status t \<noteq> Done \<and> t_status t \<noteq> Reference \<and> t_status t \<noteq> Archived)"

definition selectFocusedCount :: "host \<Rightarrow> task list \<Rightarrow> int \<Rightarrow> nat" where
  "selectFocusedCount h tasks now = length (filter (\<lambda>t. isTaskCountedAsFocused h t now) tasks)"

subsection \<open>Rescheduling\<close>

definition shouldIncrementPushCount :: "string option \<Rightarrow> string option \<Rightarrow> bool" where
  "shouldIncrementPushCount oldDueDate newDueDate =
     (truthy oldDueDate \<and> truthy newDueDate \<and>
      (case (date_parse (or_else oldDueDate []), date_parse (or_else newDueDate [])) of
         (Some oldTime, Some newTime) \<Rightarrow> oldTime < newTime | _ \<Rightarrow> False))"

definition rescheduleTask :: "task \<Rightarrow> string option \<Rightarrow> task" where
  "rescheduleTask t newDueDate =
     (let next1 = t\<lparr>t_dueDate := newDueDate\<rparr>
      in if shouldIncrementPushCount (t_dueDate t) newDueDate
         then next1\<lparr>t_pushCount := Some (or_else (t_pushCount t) 0 + 1)\<rparr> else next1)"

subsection \<open>Automatic archiving\<close>

definition DEFAULT_AUTO_ARCHIVE_DAYS :: int where
  "DEFAULT_AUTO_ARCHIVE_DAYS = 7"

definition getAutoArchiveDays :: "settings \<Rightarrow> int" where
  "getAutoArchiveDays st =
     (case gtd_setting st ''autoArchiveDays'' of JNum n \<Rightarrow> max 0 n | _ \<Rightarrow> DEFAULT_AUTO_ARCHIVE_DAYS)"

definition shouldAutoArchiveCompletedTask :: "host \<Rightarrow> task \<Rightarrow> settings \<Rightarrow> int \<Rightarrow> bool" where
  "shouldAutoArchiveCompletedTask h t st nowMs =
     (if truthy (deletedAt t) then False
      else if t_status t \<noteq> Done then False
      else (let archiveDays = getAutoArchiveDays st in
        if archiveDays \<le> 0 then False
        else (case js_nullish (safeParseDate h (t_completedAt t)) (safeParseDate h (Some (updatedAt t))) of
            None \<Rightarrow> False
          | Some resolvedMs \<Rightarrow> 0 < resolvedMs \<and> resolvedMs < nowMs - archiveDays * 24 * 60 * 60 * 1000)))"

subsection \<open>Completing a patch\<close>

definition getTaskOrder :: "int option \<Rightarrow> int option \<Rightarrow> int option" where
  "getTaskOrder order orderNum = js_nullish order orderNum"

record update_context =
  uc_settings :: "settings option"
  uc_nowMs :: "int option"
  uc_futureBoundary :: "string option"
  uc_futureDates :: "focus_dates option"

definition no_context :: update_context where
  "no_context = \<lparr>uc_settings = None, uc_nowMs = None, uc_futureBoundary = None, uc_futureDates = None\<rparr>"

definition adjust_cancellation :: "task \<Rightarrow> task_patch \<Rightarrow> task_patch" where
  "adjust_cancellation t updates =
     (let a = (case u_cancelledAt updates of
            None \<Rightarrow> updates
          | Some v \<Rightarrow> (let u = updates\<lparr>u_cancelledAt := Some (cancellation v)\<rparr> in
              if truthy (cancellation v) \<and> u_status updates = None
              then u\<lparr>u_status := Some Archived\<rparr> else u))
      in if or_else (u_status a) (t_status t) \<noteq> Archived then a\<lparr>u_cancelledAt := Some None\<rparr> else a)"

definition stamped_recurrence :: "host \<Rightarrow> task \<Rightarrow> task_recurrence option \<Rightarrow> task_recurrence option" where
  "stamped_recurrence h t v =
     (let recurrence = normalizeRecurrenceForLoad h v;
          existing = normalizeRecurrenceForLoad h (t_recurrence t);
          existingSeriesId = or_else (Option.bind existing rec_seriesId) (eid t);
          seriesId = or_else (Option.bind recurrence rec_seriesId) existingSeriesId;
          count = Option.bind recurrence rec_count;
          completedOccurrences = js_nullish (Option.bind recurrence rec_completedOccurrences)
            (if count \<noteq> None \<and> count \<noteq> Some 0 \<and> seriesId = existingSeriesId
             then Option.bind existing rec_completedOccurrences else None)
      in case recurrence of
           None \<Rightarrow> None
         | Some r \<Rightarrow> map_option RecObj (normalizeRecurrenceForLoad h (Some (RecObj
             (r\<lparr>rec_seriesId := Some seriesId,
                rec_completedOccurrences := js_nullish completedOccurrences (rec_completedOccurrences r)\<rparr>)))))"

definition adjust_recurrence :: "host \<Rightarrow> task \<Rightarrow> task_patch \<Rightarrow> task_patch \<Rightarrow> task_patch" where
  "adjust_recurrence h t updates a =
     (case u_recurrence updates of
        None \<Rightarrow> a | Some v \<Rightarrow> a\<lparr>u_recurrence := Some (stamped_recurrence h t v)\<rparr>)"

definition adjust_order :: "task_patch \<Rightarrow> task_patch \<Rightarrow> task_patch" where
  "adjust_order updates a =
     (if u_order updates \<noteq> None \<or> u_orderNum updates \<noteq> None
      then (let normalizedOrder = getTaskOrder (or_else (u_order updates) None) (or_else (u_orderNum updates) None)
            in a\<lparr>u_order := Some normalizedOrder, u_orderNum := Some normalizedOrder\<rparr>)
      else a)"

definition edits_schedule :: "task_patch \<Rightarrow> bool" where
  "edits_schedule updates = (u_startTime updates \<noteq> None \<or> u_dueDate updates \<noteq> None \<or>
     u_reviewAt updates \<noteq> None \<or> u_recurrence updates \<noteq> None)"

definition start_promoting_inbox :: "task \<Rightarrow> task_patch \<Rightarrow> bool" where
  "start_promoting_inbox t updates =
     (u_status updates = None \<and> truthy (or_else (u_startTime updates) None) \<and>
      or_else (u_startTime updates) None \<noteq> t_startTime t \<and> t_status t = Inbox)"

definition adjust_star :: "task \<Rightarrow> task_patch \<Rightarrow> task_patch \<Rightarrow> task_patch" where
  "adjust_star t updates a =
     (let starTurningOn = (u_isFocusedToday a = Some (Some True) \<and> t_isFocusedToday t \<noteq> Some True);
          statusBecomingInbox = (u_status updates = Some Inbox \<and> t_status t \<noteq> Inbox)
      in if statusBecomingInbox \<and> \<not> starTurningOn then
           (if or_else (u_isFocusedToday a) (t_isFocusedToday t) = Some True
            then a\<lparr>u_isFocusedToday := Some (Some False)\<rparr> else a)
         else if starTurningOn \<and> or_else (u_status updates) (t_status t) = Inbox \<or>
           start_promoting_inbox t updates
         then a\<lparr>u_status := Some Next\<rparr> else a)"

definition future_start :: "host \<Rightarrow> int \<Rightarrow> update_context \<Rightarrow> task \<Rightarrow> bool" where
  "future_start h now ctx t =
     (if truthy (uc_futureBoundary ctx)
      then isTaskFutureStartBeforeBoundary h t (or_else (uc_futureBoundary ctx) []) (uc_futureDates ctx)
      else isTaskFutureStart h t now)"

definition future_focus_candidate :: "host \<Rightarrow> int \<Rightarrow> update_context \<Rightarrow> task \<Rightarrow> bool" where
  "future_focus_candidate h now ctx t =
     (if truthy (uc_futureBoundary ctx)
      then isTaskFutureFocusCandidateBeforeBoundary h t (or_else (uc_futureBoundary ctx) []) (uc_futureDates ctx)
      else isTaskFutureFocusCandidate h t now)"

definition adjust_deferred :: "host \<Rightarrow> int \<Rightarrow> update_context \<Rightarrow> task \<Rightarrow> task_patch \<Rightarrow> task_patch \<Rightarrow> task_patch" where
  "adjust_deferred h now ctx t updates a =
     (let scheduledTask = apply_patch t a
      in if (edits_schedule updates \<or> u_status updates \<noteq> None) \<and> future_start h now ctx scheduledTask \<and>
           \<not> future_focus_candidate h now ctx scheduledTask
         then a\<lparr>u_isFocusedToday := Some (Some False)\<rparr> else a)"

definition adjust_board_order :: "task \<Rightarrow> task_patch \<Rightarrow> task_patch \<Rightarrow> task_patch" where
  "adjust_board_order t updates a =
     (if u_status a \<noteq> None \<and> u_status a \<noteq> Some (t_status t) \<and> u_boardOrder updates = None
      then a\<lparr>u_boardOrder := Some None\<rparr> else a)"

definition adjust_focus_order :: "host \<Rightarrow> int \<Rightarrow> update_context \<Rightarrow> task \<Rightarrow> task_patch \<Rightarrow> task_patch \<Rightarrow> task_patch" where
  "adjust_focus_order h now ctx t updates a =
     (let resolved = or_else (u_isFocusedToday a) (t_isFocusedToday t)
      in if (t_isFocusedToday t = Some True \<and> resolved \<noteq> Some True \<or>
             resolved = Some True \<and> future_focus_candidate h now ctx (apply_patch t a)) \<and>
            u_focusOrder updates = None
         then a\<lparr>u_focusOrder := Some None\<rparr> else a)"

definition adjust_auto_archive :: "host \<Rightarrow> int \<Rightarrow> update_context \<Rightarrow> task \<Rightarrow> task_patch \<Rightarrow> task_patch \<Rightarrow> task_patch" where
  "adjust_auto_archive h now ctx t updates a =
     (let nowMs = or_else (uc_nowMs ctx) now
      in case uc_settings ctx of
           None \<Rightarrow> a
         | Some st \<Rightarrow>
             if u_completedAt updates \<noteq> None \<and>
               (u_status updates = None \<or> u_status updates = Some (t_status t)) \<and> t_status t = Done \<and>
               shouldAutoArchiveCompletedTask h ((apply_patch t a)\<lparr>updatedAt := to_iso nowMs\<rparr>) st nowMs
             then a\<lparr>u_status := Some Archived, u_isFocusedToday := Some (Some False)\<rparr> else a)"

definition adjust_finished :: "task \<Rightarrow> task_patch \<Rightarrow> task_patch \<Rightarrow> task_patch" where
  "adjust_finished t updates a =
     (if isTaskFinished (Some (or_else (u_status a) (t_status t)))
      then (let b = a\<lparr>u_isFocusedToday := Some (Some False)\<rparr> in
            if u_focusOrder updates = None then b\<lparr>u_focusOrder := Some None\<rparr> else b)
      else a)"

definition adjust_marker :: "task \<Rightarrow> task_patch \<Rightarrow> task_patch" where
  "adjust_marker t a =
     (if truthy (t_projectArchivedAt t)
      then a\<lparr>u_statusBeforeProjectArchive := Some None, u_completedAtBeforeProjectArchive := Some None,
             u_isFocusedTodayBeforeProjectArchive := Some None, u_projectArchivedAt := Some None\<rparr>
      else a)"

definition normalizeTaskUpdate :: "host \<Rightarrow> int \<Rightarrow> task \<Rightarrow> task_patch \<Rightarrow> update_context \<Rightarrow> task_patch" where
  "normalizeTaskUpdate h now t updates ctx =
     (let a1 = adjust_cancellation t updates;
          a2 = adjust_recurrence h t updates a1;
          a3 = adjust_order updates a2;
          a4 = adjust_star t updates a3;
          a5 = adjust_deferred h now ctx t updates a4;
          a6 = adjust_board_order t updates a5;
          a7 = adjust_focus_order h now ctx t updates a6;
          a8 = adjust_auto_archive h now ctx t updates a7;
          a9 = adjust_finished t updates a8
      in adjust_marker t a9)"

text \<open>The status a task is captured with.\<close>

definition resolveCaptureStatusForStart :: "task_patch \<Rightarrow> task_status \<Rightarrow> task_status" where
  "resolveCaptureStatusForStart initialProps resolvedStatus =
     (if u_status initialProps = None \<and> resolvedStatus = Inbox \<and>
        truthy (or_else (u_startTime initialProps) None)
      then Next else resolvedStatus)"

subsection \<open>Applying a patch\<close>

definition with_reference_clears :: "task_patch \<Rightarrow> task_patch" where
  "with_reference_clears u = u\<lparr>
     u_status := Some Reference,
     u_startTime := Some None,
     u_dueDate := Some None,
     u_relativeStartOffset := Some None,
     u_reviewAt := Some None,
     u_recurrence := Some None,
     u_priority := Some None,
     u_timeEstimate := Some None,
     u_suppressMindwtrReminders := Some None,
     u_repeatReminderMinutes := Some None,
     u_showFutureRecurrence := Some None,
     u_isFocusedToday := Some (Some False),
     u_focusOrder := Some None,
     u_boardOrder := Some None,
     u_pushCount := Some (Some 0)\<rparr>"

definition with_relative_start_updates :: "host \<Rightarrow> task \<Rightarrow> task_patch \<Rightarrow> task_patch" where
  "with_relative_start_updates h t u =
     (let r = resolveRelativeStartUpdates h t \<lparr>su_dueDate = u_dueDate u, su_startTime = u_startTime u,
            su_relativeStartOffset = u_relativeStartOffset u\<rparr>
      in u\<lparr>u_dueDate := su_dueDate r, u_startTime := su_startTime r,
           u_relativeStartOffset := su_relativeStartOffset r\<rparr>)"

definition with_reschedule :: "task \<Rightarrow> task_patch \<Rightarrow> task_patch" where
  "with_reschedule t u =
     (case u_dueDate u of
        None \<Rightarrow> u
      | Some newDueDate \<Rightarrow>
          (let rescheduled = rescheduleTask t newDueDate
           in u\<lparr>u_dueDate := Some (t_dueDate rescheduled),
                u_pushCount := (case u_pushCount u of Some n \<Rightarrow> Some n | None \<Rightarrow> Some (t_pushCount rescheduled))\<rparr>))"

definition accepted_updates :: "task_patch \<Rightarrow> task_patch" where
  "accepted_updates updates =
     (let u = updates\<lparr>u_archivedAt := None\<rparr>
      in if u_textDirection updates = Some None then u\<lparr>u_textDirection := None\<rparr> else u)"

definition explicit_completed_at :: "host \<Rightarrow> task_patch \<Rightarrow> string option" where
  "explicit_completed_at h updates =
     (let c = or_else (u_completedAt updates) None in if safeParseDate h c \<noteq> None then c else None)"

definition incoming_status :: "task \<Rightarrow> task_patch \<Rightarrow> task_status" where
  "incoming_status t updates = or_else (u_status updates) (t_status t)"

definition completion_time :: "host \<Rightarrow> task \<Rightarrow> task_patch \<Rightarrow> string \<Rightarrow> string" where
  "completion_time h t updates now =
     or_else (explicit_completed_at h updates)
       (if t_status t = Archived then or_else (js_or (t_completedAt t) (Some now)) now else now)"

definition unfocused :: "task \<Rightarrow> task_patch \<Rightarrow> task_patch \<Rightarrow> task_patch" where
  "unfocused t updates u =
     (let v = u\<lparr>u_isFocusedToday := Some (Some False)\<rparr>
      in if t_focusOrder t \<noteq> None \<and> u_focusOrder updates = None
         then v\<lparr>u_focusOrder := Some None\<rparr> else v)"

definition status_updates :: "host \<Rightarrow> task \<Rightarrow> task_patch \<Rightarrow> string \<Rightarrow> task_patch" where
  "status_updates h t updates now =
     (let u = accepted_updates updates;
          incoming = incoming_status t updates;
          changed = (incoming \<noteq> t_status t);
          cancelled = cancellation (or_else (u_cancelledAt updates) None);
          s = (if changed \<and> incoming = Done then
                 unfocused t updates (u\<lparr>u_status := Some incoming,
                   u_completedAt := Some (Some (completion_time h t updates now)),
                   u_cancelledAt := Some None\<rparr>)
               else if changed \<and> incoming = Archived then
                 unfocused t updates (u\<lparr>u_status := Some incoming, u_archivedAt := Some (Some now),
                   u_completedAt := Some (if truthy cancelled then None
                     else Some (or_else (explicit_completed_at h updates)
                       (or_else (js_or (t_completedAt t) (Some now)) now))),
                   u_cancelledAt := Some cancelled\<rparr>)
               else if changed \<and> isTaskFinished (Some (t_status t)) \<and> \<not> isTaskFinished (Some incoming) then
                 u\<lparr>u_status := Some incoming, u_completedAt := Some None, u_cancelledAt := Some None\<rparr>
               else u)
      in if changed \<and> t_status t = Archived \<and> incoming \<noteq> Archived
         then s\<lparr>u_archivedAt := Some None\<rparr> else s)"

definition final_updates :: "host \<Rightarrow> task \<Rightarrow> task_patch \<Rightarrow> string \<Rightarrow> task_patch" where
  "final_updates h t updates now =
     (let s = status_updates h t updates now;
          r = (if incoming_status t updates \<noteq> Reference
               then with_reschedule t (with_relative_start_updates h t s)
               else with_reference_clears s)
      in if u_suppressMindwtrReminders r = Some None
         then r\<lparr>u_suppressMindwtrReminders := Some (Some False)\<rparr> else r)"

definition updated_task :: "host \<Rightarrow> task \<Rightarrow> task_patch \<Rightarrow> string \<Rightarrow> task" where
  "updated_task h t updates now =
     normalizeTaskLifecycleFields ((apply_patch t (final_updates h t updates now))\<lparr>updatedAt := now\<rparr>)"

text \<open>
  \<open>projection\<close> is \<open>None\<close> when no frozen projection is handed in, and \<open>createId\<close> is the supply of
  identifiers; an exception of the recurrence code is \<open>Inl\<close>.
\<close>

definition next_recurring :: "host \<Rightarrow> int \<Rightarrow> 's id_supply \<Rightarrow> task \<Rightarrow> task_patch \<Rightarrow> string \<Rightarrow>
    recurrence_projection option option \<Rightarrow> 's \<Rightarrow> (task option \<times> 's) checked" where
  "next_recurring h nowMs createId t updates now projection s =
     (if incoming_status t updates \<noteq> t_status t \<and> incoming_status t updates = Done \<and> t_status t \<noteq> Archived
      then (let completedAt = completion_time h t updates now in
        case projection of
          None \<Rightarrow> createNextRecurringTask h nowMs createId t completedAt (t_status t) False s
        | Some p \<Rightarrow> buildNextRecurringTask h createId t completedAt (t_status t) p s)
      else Inr (None, s))"

definition applyTaskUpdates :: "host \<Rightarrow> int \<Rightarrow> 's id_supply \<Rightarrow> task \<Rightarrow> task_patch \<Rightarrow> string \<Rightarrow>
    recurrence_projection option option \<Rightarrow> 's \<Rightarrow> ((task \<times> task option) \<times> 's) checked" where
  "applyTaskUpdates h nowMs createId t updates now projection s =
     (case next_recurring h nowMs createId t updates now projection s of
        Inl e \<Rightarrow> Inl e
      | Inr (next1, s') \<Rightarrow> Inr ((updated_task h t updates now, next1), s'))"

end
