(* ===== verification/StorePlans.thy ===== *)
theory StorePlans
  imports TaskUpdates
begin

text \<open>
  The planners of \<open>store-tasks.ts\<close>: what one task update, a batch of updates or a skipped
  occurrence does to the tasks, the projects and the sections, with the follow-up of a recurring
  task and the order it takes in its project. A planner takes the supply of identifiers as a state
  and returns \<open>Inl\<close> where the recurrence code throws.
\<close>

subsection \<open>Orders in a project\<close>

text \<open>The highest order used in each project.\<close>

type_synonym order_index = "string \<rightharpoonup> int"

definition note_order :: "order_index \<Rightarrow> task \<Rightarrow> order_index" where
  "note_order idx t =
     (if truthy (deletedAt t) \<or> \<not> truthy (t_projectId t) then idx
      else (let order = or_else (getTaskOrder (t_order t) (t_orderNum t)) (-1);
                p = or_else (t_projectId t) [];
                previous = or_else (idx p) (-1)
            in if order > previous then idx(p \<mapsto> order) else idx))"

definition getProjectOrderIndex :: "task list \<Rightarrow> order_index" where
  "getProjectOrderIndex tasks = foldl note_order Map.empty tasks"

definition getNextProjectOrder :: "string option \<Rightarrow> task list \<Rightarrow> int option" where
  "getNextProjectOrder projectId tasks =
     (if \<not> truthy projectId then None
      else Some (or_else (getProjectOrderIndex tasks (or_else projectId [])) (-1) + 1))"

text \<open>\<open>createProjectOrderReserver\<close>: a call hands out the next order and records it.\<close>

definition reserve_order :: "order_index \<Rightarrow> string option \<Rightarrow> int option \<times> order_index" where
  "reserve_order idx projectId =
     (if \<not> truthy projectId then (None, idx)
      else (let p = or_else projectId []; nextOrder = or_else (idx p) (-1) + 1
            in (Some nextOrder, idx(p \<mapsto> nextOrder))))"

subsection \<open>The follow-up of a recurring task\<close>

definition recurrenceKeyForDuplicateCheck :: "host \<Rightarrow> task \<Rightarrow> string option" where
  "recurrenceKeyForDuplicateCheck h t =
     stringify (case normalizeRecurrenceForLoad h (t_recurrence t) of
       None \<Rightarrow> JNull | Some r \<Rightarrow> task_recurrence_json (RecObj r))"

definition isExistingRecurringFollowUp :: "host \<Rightarrow> task \<Rightarrow> task \<Rightarrow> bool" where
  "isExistingRecurringFollowUp h existing candidate =
     (eid existing \<noteq> eid candidate \<and>
      \<not> truthy (deletedAt existing) \<and>
      \<not> isTaskFinished (Some (t_status existing)) \<and>
      t_status existing = t_status candidate \<and>
      js_trim (t_title existing) = js_trim (t_title candidate) \<and>
      or_else (t_projectId existing) [] = or_else (t_projectId candidate) [] \<and>
      or_else (t_sectionId existing) [] = or_else (t_sectionId candidate) [] \<and>
      or_else (t_areaId existing) [] = or_else (t_areaId candidate) [] \<and>
      or_else (t_startTime existing) [] = or_else (t_startTime candidate) [] \<and>
      or_else (t_dueDate existing) [] = or_else (t_dueDate candidate) [] \<and>
      or_else (t_reviewAt existing) [] = or_else (t_reviewAt candidate) [] \<and>
      recurrenceKeyForDuplicateCheck h existing = recurrenceKeyForDuplicateCheck h candidate)"

definition findExistingRecurringFollowUp ::
    "host \<Rightarrow> task list \<Rightarrow> task option \<Rightarrow> string \<Rightarrow> task option" where
  "findExistingRecurringFollowUp h tasks candidate excludeId =
     (case candidate of None \<Rightarrow> None
      | Some c \<Rightarrow> find (\<lambda>t. eid t \<noteq> excludeId \<and> isExistingRecurringFollowUp h t c) tasks)"

definition stampNewRecurringFollowUp ::
    "host \<Rightarrow> task \<Rightarrow> string option \<Rightarrow> int option \<Rightarrow> task" where
  "stampNewRecurringFollowUp h t deviceId order =
     (let u = (canonicalRecurringFollowUp h t)\<lparr>rev := Some (nextRev None), revBy := deviceId\<rparr>
      in if order \<noteq> None then u\<lparr>t_order := order, t_orderNum := order\<rparr> else u)"

text \<open>The order of the follow-up: the completed instance's own, else the next of its project.\<close>

definition follow_up_order :: "task \<Rightarrow> task list \<Rightarrow> task \<Rightarrow> int option" where
  "follow_up_order t allTasks follow =
     js_nullish (getTaskOrder (t_order t) (t_orderNum t)) (getNextProjectOrder (t_projectId follow) allTasks)"

subsection \<open>Replacing entities\<close>

fun replaceEntityInArray :: "'a mergeable_scheme list \<Rightarrow> string \<Rightarrow> 'a mergeable_scheme \<Rightarrow> 'a mergeable_scheme list" where
  "replaceEntityInArray [] k next1 = []"
| "replaceEntityInArray (x # xs) k next1 =
     (if eid x = k then next1 # xs else x # replaceEntityInArray xs k next1)"

definition replaceEntitiesInArray ::
    "'a mergeable_scheme list \<Rightarrow> 'a mergeable_scheme list \<Rightarrow> 'a mergeable_scheme list" where
  "replaceEntitiesInArray items nextItems =
     map (\<lambda>x. or_else (js_map_of eid nextItems (eid x)) x) items"

subsection \<open>Preparing an update\<close>

definition container_of :: "task \<Rightarrow> container_assignment" where
  "container_of t = \<lparr>ca_projectId = t_projectId t, ca_sectionId = t_sectionId t, ca_areaId = t_areaId t\<rparr>"

definition move_patch_of :: "task_patch \<Rightarrow> move_patch" where
  "move_patch_of u = \<lparr>mp_projectId = u_projectId u, mp_sectionId = u_sectionId u, mp_areaId = u_areaId u,
     mp_order = u_order u, mp_orderNum = u_orderNum u\<rparr>"

definition with_move_patch :: "task_patch \<Rightarrow> move_patch \<Rightarrow> task_patch" where
  "with_move_patch u m = u\<lparr>
     u_projectId := js_nullish (mp_projectId m) (u_projectId u),
     u_sectionId := js_nullish (mp_sectionId m) (u_sectionId u),
     u_areaId := js_nullish (mp_areaId m) (u_areaId u),
     u_order := js_nullish (mp_order m) (u_order u),
     u_orderNum := js_nullish (mp_orderNum m) (u_orderNum u)\<rparr>"

definition prepareTaskUpdatesForStore :: "host \<Rightarrow> int \<Rightarrow> task \<Rightarrow> task_patch \<Rightarrow> project list \<Rightarrow>
    section1 list \<Rightarrow> area list \<Rightarrow> update_context \<Rightarrow> bool \<Rightarrow> (string option \<Rightarrow> int option) option \<Rightarrow>
    string + task_patch" where
  "prepareTaskUpdatesForStore h now t updates projects sections areas ctx reserve reserver =
     (let target = findTaskProjectReactivationTarget t updates projects;
          reactivating = map_option (\<lambda>p s. s_projectId s = eid p \<and> isRestorableProjectArchiveSection s) target
      in case buildTaskContainerMovePatch (container_of t) (move_patch_of updates) projects sections areas
             reactivating reserve reserver of
           Inl e \<Rightarrow> Inl e
         | Inr m \<Rightarrow> Inr (with_move_patch (normalizeTaskUpdate h now t (with_move_patch updates m) ctx) m))"

definition invalid_cancellation :: "task_patch \<Rightarrow> bool" where
  "invalid_cancellation updates =
     (or_else (u_cancelledAt updates) None \<noteq> None \<and> cancellation (or_else (u_cancelledAt updates) None) = None)"

fun duplicate_ids :: "string list \<Rightarrow> string list \<Rightarrow> string list" where
  "duplicate_ids seen [] = []"
| "duplicate_ids seen (k # ks) =
     (if k \<in> set seen then k # duplicate_ids seen ks else duplicate_ids (k # seen) ks)"

definition join_ids :: "string list \<Rightarrow> string" where
  "join_ids ks = concat (case ks of [] \<Rightarrow> [] | k # r \<Rightarrow> k # map (\<lambda>x. '', '' @ x) r)"

fun prepare_each :: "(task_patch \<Rightarrow> task \<Rightarrow> string + task_patch) \<Rightarrow> (string \<Rightarrow> task option) \<Rightarrow>
    (string \<times> task_patch) list \<Rightarrow> string + (string \<times> task_patch) list" where
  "prepare_each prep taskOf [] = Inr []"
| "prepare_each prep taskOf ((k, u) # rest) =
     (case taskOf k of
        None \<Rightarrow> prepare_each prep taskOf rest
      | Some t \<Rightarrow>
          (case prep u t of
             Inl e \<Rightarrow> Inl e
           | Inr p \<Rightarrow> (case prepare_each prep taskOf rest of Inl e \<Rightarrow> Inl e | Inr ps \<Rightarrow> Inr ((k, p) # ps))))"

text \<open>
  The batch preflight, on a store without an unsaved reactivation: the retry of a failed save is
  the store's business.
\<close>

definition prepareTaskBatchUpdatesForStore :: "host \<Rightarrow> int \<Rightarrow> (string \<times> task_patch) list \<Rightarrow> task list \<Rightarrow>
    project list \<Rightarrow> section1 list \<Rightarrow> area list \<Rightarrow> update_context \<Rightarrow> string + (string \<times> task_patch) list" where
  "prepareTaskBatchUpdatesForStore h now updatesList tasks projects sections areas ctx =
     (let ids = map fst updatesList;
          duplicates = uniq (duplicate_ids [] ids);
          missing = uniq (filter (\<lambda>k. k \<notin> set (map eid tasks)) ids)
      in if list_ex (\<lambda>(_, u). invalid_cancellation u) updatesList
         then Inl ''Cancellation timestamp must be an ISO datetime with timezone''
         else if duplicates \<noteq> [] then Inl (''Duplicate task ids in batch update: '' @ join_ids duplicates)
         else if missing \<noteq> [] then Inl (''Tasks not found: '' @ join_ids missing)
         else prepare_each (\<lambda>u t. prepareTaskUpdatesForStore h now t u projects sections areas ctx False None)
           (js_map_of eid tasks) updatesList)"

subsection \<open>One update\<close>

record update_effects =
  ue_updatedTask :: task
  ue_candidate :: "task option"
  ue_duplicate :: "task option"
  ue_followUp :: "task option"
  ue_tasks :: "task list"
  ue_projects :: "project list"
  ue_sections :: "section1 list"
  ue_reactivated :: "string list"

definition planTaskUpdateEffects :: "host \<Rightarrow> int \<Rightarrow> 's id_supply \<Rightarrow> task \<Rightarrow> task_patch \<Rightarrow> task list \<Rightarrow>
    project list \<Rightarrow> section1 list \<Rightarrow> string \<Rightarrow> string \<Rightarrow> recurrence_projection option option \<Rightarrow> 's \<Rightarrow>
    (update_effects \<times> 's) checked" where
  "planTaskUpdateEffects h nowMs createId t prepared allTasks allProjects allSections now deviceId projection s =
     (case applyTaskUpdates h nowMs createId t
         (prepared\<lparr>u_rev := Some (Some (nextRev (rev t))), u_revBy := Some (Some deviceId)\<rparr>) now projection s of
        Inl e \<Rightarrow> Inl e
      | Inr ((updatedTask, next1), s') \<Rightarrow>
          (let stamped = map_option (\<lambda>n. stampNewRecurringFollowUp h n (Some deviceId)
                 (follow_up_order t allTasks n)) next1;
               duplicate = findExistingRecurringFollowUp h allTasks stamped (eid t);
               followUp = (if duplicate \<noteq> None then None else stamped);
               base = replaceEntityInArray allTasks (eid t) updatedTask;
               updatedAll = base @ (case followUp of None \<Rightarrow> [] | Some f \<Rightarrow> [f]);
               r = applyTaskProjectReactivationTransition [(t, prepared)] updatedAll allProjects allSections
                 now (Some deviceId)
           in Inr (\<lparr>ue_updatedTask = updatedTask, ue_candidate = stamped, ue_duplicate = duplicate,
                ue_followUp = followUp, ue_tasks = pr_tasks r, ue_projects = pr_projects r,
                ue_sections = pr_sections r, ue_reactivated = pr_reactivated r\<rparr>, s')))"

subsection \<open>A batch of updates\<close>

definition reserve_container_order ::
    "order_index \<Rightarrow> task \<Rightarrow> task_patch \<Rightarrow> task_patch \<times> order_index" where
  "reserve_container_order idx t u =
     (let m = move_patch_of u;
          m' = reserveTaskContainerProjectOrder (t_projectId t) m (\<lambda>p. fst (reserve_order idx p))
      in (with_move_patch u m',
          if m' = m then idx
          else snd (reserve_order idx (normalizeOptionalContainerId (or_else (mp_projectId m) None)))))"

record batch_state =
  bs_done :: "task list"
  bs_created :: "task list"
  bs_requests :: "(task \<times> task_patch) list"
  bs_orders :: order_index

text \<open>\<open>bs_done\<close> and \<open>rest\<close> make up the array being rewritten.\<close>

fun batch_loop :: "host \<Rightarrow> int \<Rightarrow> 's id_supply \<Rightarrow> (string \<Rightarrow> task_patch option) \<Rightarrow> string \<Rightarrow> string \<Rightarrow>
    (string \<Rightarrow> recurrence_projection option option) \<Rightarrow> task list \<Rightarrow> batch_state \<Rightarrow> 's \<Rightarrow>
    (batch_state \<times> 's) checked" where
  "batch_loop h nowMs createId prepared now deviceId projections [] b s = Inr (b, s)"
| "batch_loop h nowMs createId prepared now deviceId projections (t # rest) b s =
     (case prepared (eid t) of
        None \<Rightarrow> batch_loop h nowMs createId prepared now deviceId projections rest
          (b\<lparr>bs_done := bs_done b @ [t]\<rparr>) s
      | Some p \<Rightarrow>
          (case reserve_container_order (bs_orders b) t p of (patched, idx) \<Rightarrow>
             (case applyTaskUpdates h nowMs createId t
                (patched\<lparr>u_rev := Some (Some (nextRev (rev t))), u_revBy := Some (Some deviceId)\<rparr>) now
                (projections (eid t)) s of
                Inl e \<Rightarrow> Inl e
              | Inr ((updatedTask, next1), s') \<Rightarrow>
                  (let own = getTaskOrder (t_order t) (t_orderNum t);
                       reserved = (case next1 of
                           Some n \<Rightarrow> if own = None then reserve_order idx (t_projectId n) else (own, idx)
                         | None \<Rightarrow> (own, idx));
                       stamped = map_option (\<lambda>n. stampNewRecurringFollowUp h n (Some deviceId) (fst reserved)) next1;
                       duplicate = findExistingRecurringFollowUp h (bs_done b @ t # rest @ bs_created b) stamped (eid t);
                       created = (case stamped of Some f \<Rightarrow> if duplicate = None then [f] else [] | None \<Rightarrow> [])
                   in batch_loop h nowMs createId prepared now deviceId projections rest
                        \<lparr>bs_done = bs_done b @ [updatedTask], bs_created = bs_created b @ created,
                         bs_requests = bs_requests b @ [(t, patched)], bs_orders = snd reserved\<rparr> s'))))"

record batch_effects =
  be_reactivation :: project_reactivation
  be_created :: "task list"

definition planTaskBatchUpdateEffects :: "host \<Rightarrow> int \<Rightarrow> 's id_supply \<Rightarrow> (string \<Rightarrow> task_patch option) \<Rightarrow>
    task list \<Rightarrow> project list \<Rightarrow> section1 list \<Rightarrow> string \<Rightarrow> string \<Rightarrow>
    (string \<Rightarrow> recurrence_projection option option) \<Rightarrow> 's \<Rightarrow> (batch_effects \<times> 's) checked" where
  "planTaskBatchUpdateEffects h nowMs createId prepared allTasks allProjects allSections now deviceId projections s =
     (case batch_loop h nowMs createId prepared now deviceId projections allTasks
         \<lparr>bs_done = [], bs_created = [], bs_requests = [], bs_orders = getProjectOrderIndex allTasks\<rparr> s of
        Inl e \<Rightarrow> Inl e
      | Inr (b, s') \<Rightarrow> Inr (\<lparr>be_reactivation = applyTaskProjectReactivationTransition (bs_requests b)
            (bs_done b @ bs_created b) allProjects allSections now (Some deviceId), be_created = bs_created b\<rparr>, s'))"

subsection \<open>A skipped occurrence\<close>

definition skip_patch :: "task \<Rightarrow> string \<Rightarrow> string \<Rightarrow> task_patch" where
  "skip_patch t now deviceId = no_patch\<lparr>u_status := Some Archived, u_cancelledAt := Some (Some now),
     u_rev := Some (Some (nextRev (rev t))), u_revBy := Some (Some deviceId)\<rparr>"

definition planSkippedRecurringOccurrence :: "host \<Rightarrow> int \<Rightarrow> 's id_supply \<Rightarrow> task \<Rightarrow> task list \<Rightarrow> string \<Rightarrow>
    string \<Rightarrow> recurrence_projection option option \<Rightarrow> 's \<Rightarrow> ((task \<times> task option \<times> task list) \<times> 's) checked" where
  "planSkippedRecurringOccurrence h nowMs createId t allTasks now deviceId projection s =
     (if \<not> canSkipRecurringTaskOccurrence h t then Inl ''Task cannot skip an occurrence''
      else (case applyTaskUpdates h nowMs createId t (skip_patch t now deviceId) now None s of
          Inl e \<Rightarrow> Inl e
        | Inr ((updatedTask, _), s0) \<Rightarrow>
            (case (case projection of
                None \<Rightarrow> createNextRecurringTask h nowMs createId t now (t_status t) True s0
              | Some p \<Rightarrow> buildNextRecurringTask h createId t now (t_status t) p s0) of
               Inl e \<Rightarrow> Inl e
             | Inr (next1, s') \<Rightarrow>
                 (let candidate = map_option (\<lambda>n. stampNewRecurringFollowUp h n (Some deviceId)
                        (follow_up_order t allTasks n)) next1;
                      duplicate = findExistingRecurringFollowUp h allTasks candidate (eid t);
                      followUp = (if duplicate \<noteq> None then None else candidate)
                  in Inr ((updatedTask, followUp, replaceEntityInArray allTasks (eid t) updatedTask @
                       (case followUp of None \<Rightarrow> [] | Some f \<Rightarrow> [f])), s')))))"

end
