(* ===== verification/TaskWrites.thy ===== *)
theory TaskWrites
  imports StorePlans
begin

text \<open>
  What the write path of a task promises. A task is coherent when it is completed or cancelled
  exactly if it is finished (cancelled only in the archive), never starred when finished or still in the Inbox, without a schedule
  when it is reference material, and when its archive marker, if any, leads back to such a task.
  Every accepted update keeps the tasks coherent; the archive clock, the completion time and the
  star follow their own rules whatever the patch says.
\<close>

subsection \<open>Coherent tasks\<close>

definition marker_coherent :: "task \<Rightarrow> bool" where
  "marker_coherent t =
     (or_else (t_completedAtBeforeProjectArchive t) None = None \<and>
      t_statusBeforeProjectArchive t \<noteq> Some Reference \<and>
      (t_statusBeforeProjectArchive t = Some Inbox \<longrightarrow>
        or_else (t_isFocusedTodayBeforeProjectArchive t) None \<noteq> Some True))"

definition coherent_task :: "task \<Rightarrow> bool" where
  "coherent_task t =
     ((if isTaskFinished (Some (t_status t))
       then t_isFocusedToday t = Some False \<and> (t_completedAt t = None) \<noteq> (t_cancelledAt t = None)
       else t_completedAt t = None \<and> t_cancelledAt t = None) \<and>
      (t_status t = Done \<longrightarrow> t_cancelledAt t = None) \<and>
      \<not> (t_status t = Inbox \<and> t_isFocusedToday t = Some True) \<and>
      (t_status t = Reference \<longrightarrow> t_startTime t = None \<and> t_dueDate t = None \<and> t_reviewAt t = None \<and>
        t_recurrence t = None) \<and> marker_coherent t)"

lemma coherent_inbox: "coherent_task t \<Longrightarrow> \<not> (t_status t = Inbox \<and> t_isFocusedToday t = Some True)"
  by (simp add: coherent_task_def)

lemma js_or_present [simp]: "js_or a (Some b) \<noteq> None"
  by (cases a) (auto simp: js_or_def)

lemma coherent_lifecycle:
  assumes "\<not> (t_status t = Inbox \<and> t_isFocusedToday t = Some True)"
    and "t_status t = Reference \<Longrightarrow> t_startTime t = None \<and> t_dueDate t = None \<and> t_reviewAt t = None \<and> t_recurrence t = None"
    and "marker_coherent t"
  shows "coherent_task (normalizeTaskLifecycleFields t)"
proof (cases "isTaskFinished (Some (t_status t))")
  case False
  then show ?thesis using assms by (simp add: lifecycle_unfinished coherent_task_def marker_coherent_def)
next
  case fin: True
  show ?thesis
  proof (cases "t_status t = Archived \<and> cancellation (t_cancelledAt t) \<noteq> None")
    case True
    then obtain c where c: "cancellation (t_cancelledAt t) = Some c" by auto
    then show ?thesis using True fin assms
      by (simp add: lifecycle_cancelled coherent_task_def marker_coherent_def)
  next
    case False
    then show ?thesis using fin assms
      by (simp add: lifecycle_completed coherent_task_def marker_coherent_def)
  qed
qed

subsection \<open>The final patch\<close>

lemma status_patch:
  "or_else (u_status (status_updates h t u now)) (t_status t) = incoming_status t u"
  "u_archivedAt (status_updates h t u now) =
     (if incoming_status t u = t_status t then None
      else if incoming_status t u = Archived then Some (Some now)
      else if t_status t = Archived then Some None else None)"
  "u_projectArchivedAt (status_updates h t u now) = u_projectArchivedAt u"
  "u_statusBeforeProjectArchive (status_updates h t u now) = u_statusBeforeProjectArchive u"
  "u_completedAtBeforeProjectArchive (status_updates h t u now) = u_completedAtBeforeProjectArchive u"
  "u_isFocusedTodayBeforeProjectArchive (status_updates h t u now) = u_isFocusedTodayBeforeProjectArchive u"
  "u_rev (status_updates h t u now) = u_rev u"
  "u_revBy (status_updates h t u now) = u_revBy u"
  "u_deletedAt (status_updates h t u now) = u_deletedAt u"
  "u_projectId (status_updates h t u now) = u_projectId u"
  "u_sectionId (status_updates h t u now) = u_sectionId u"
  "u_areaId (status_updates h t u now) = u_areaId u"
  by (auto simp: status_updates_def Let_def accepted_updates_def unfocused_def incoming_status_def)

lemma status_patch_focus:
  "u_isFocusedToday (status_updates h t u now) =
     (if incoming_status t u \<noteq> t_status t \<and> isTaskFinished (Some (incoming_status t u))
      then Some (Some False) else u_isFocusedToday u)"
  by (auto simp: status_updates_def Let_def accepted_updates_def unfocused_def isTaskFinished_def)

lemma status_patch_completed:
  "u_completedAt (status_updates h t u now) =
     (if incoming_status t u = t_status t then u_completedAt u
      else if incoming_status t u = Done then Some (Some (completion_time h t u now))
      else if incoming_status t u = Archived then
        Some (if truthy (cancellation (or_else (u_cancelledAt u) None)) then None
          else Some (or_else (explicit_completed_at h u) (or_else (js_or (t_completedAt t) (Some now)) now)))
      else if isTaskFinished (Some (t_status t)) then Some None else u_completedAt u)"
  by (auto simp: status_updates_def Let_def accepted_updates_def unfocused_def isTaskFinished_def)

lemmas patch_tail_defs = with_reference_clears_def with_relative_start_updates_def with_reschedule_def Let_def

lemma final_patch:
  "or_else (u_status (final_updates h t u now)) (t_status t) = incoming_status t u"
  "u_archivedAt (final_updates h t u now) = u_archivedAt (status_updates h t u now)"
  "u_projectArchivedAt (final_updates h t u now) = u_projectArchivedAt u"
  "u_statusBeforeProjectArchive (final_updates h t u now) = u_statusBeforeProjectArchive u"
  "u_completedAtBeforeProjectArchive (final_updates h t u now) = u_completedAtBeforeProjectArchive u"
  "u_isFocusedTodayBeforeProjectArchive (final_updates h t u now) = u_isFocusedTodayBeforeProjectArchive u"
  "u_rev (final_updates h t u now) = u_rev u"
  "u_revBy (final_updates h t u now) = u_revBy u"
  "u_deletedAt (final_updates h t u now) = u_deletedAt u"
  "u_projectId (final_updates h t u now) = u_projectId u"
  "u_sectionId (final_updates h t u now) = u_sectionId u"
  "u_areaId (final_updates h t u now) = u_areaId u"
  using status_patch[of h t u now]
  by (auto simp: final_updates_def patch_tail_defs incoming_status_def split: option.split)

lemma final_patch_completed: "u_completedAt (final_updates h t u now) = u_completedAt (status_updates h t u now)"
  by (auto simp: final_updates_def patch_tail_defs split: option.split)

lemma final_patch_focus:
  "u_isFocusedToday (final_updates h t u now) =
     (if incoming_status t u = Reference then Some (Some False)
      else u_isFocusedToday (status_updates h t u now))"
  by (auto simp: final_updates_def patch_tail_defs split: option.split)

lemma final_patch_reference:
  assumes "incoming_status t u = Reference"
  shows "u_startTime (final_updates h t u now) = Some None" "u_dueDate (final_updates h t u now) = Some None"
    "u_reviewAt (final_updates h t u now) = Some None" "u_recurrence (final_updates h t u now) = Some None"
  using assms by (simp_all add: final_updates_def with_reference_clears_def Let_def)

lemma updated_fields:
  "t_status (updated_task h t u now) = incoming_status t u"
  "eid (updated_task h t u now) = eid t"
  "createdAt (updated_task h t u now) = createdAt t"
  "updatedAt (updated_task h t u now) = now"
  "rev (updated_task h t u now) = or_else (u_rev u) (rev t)"
  "revBy (updated_task h t u now) = or_else (u_revBy u) (revBy t)"
  "deletedAt (updated_task h t u now) = or_else (u_deletedAt u) (deletedAt t)"
  "t_projectId (updated_task h t u now) = or_else (u_projectId u) (t_projectId t)"
  "t_sectionId (updated_task h t u now) = or_else (u_sectionId u) (t_sectionId t)"
  "t_areaId (updated_task h t u now) = or_else (u_areaId u) (t_areaId t)"
  by (simp_all add: updated_task_def normalizeTaskLifecycleFields_def Let_def final_patch)

lemma updated_archived_at:
  "t_archivedAt (updated_task h t u now) =
     (if incoming_status t u = t_status t then t_archivedAt t
      else if incoming_status t u = Archived then Some now
      else if t_status t = Archived then None else t_archivedAt t)"
  by (simp add: updated_task_def normalizeTaskLifecycleFields_def Let_def final_patch status_patch)

subsection \<open>Coherence of an updated task\<close>

definition star_allowed :: "task \<Rightarrow> task_patch \<Rightarrow> bool" where
  "star_allowed t u = (\<not> (or_else (u_status u) (t_status t) = Inbox \<and>
     or_else (u_isFocusedToday u) (t_isFocusedToday t) = Some True))"

definition marker_untouched :: "task \<Rightarrow> task_patch \<Rightarrow> bool" where
  "marker_untouched t u =
     ((u_statusBeforeProjectArchive u = None \<and> u_completedAtBeforeProjectArchive u = None \<and>
       u_isFocusedTodayBeforeProjectArchive u = None \<and> u_projectArchivedAt u = None) \<or>
      (u_statusBeforeProjectArchive u = Some None \<and> u_completedAtBeforeProjectArchive u = Some None \<and>
       u_isFocusedTodayBeforeProjectArchive u = Some None \<and> u_projectArchivedAt u = Some None))"

lemma updated_coherent:
  assumes "coherent_task t" and "star_allowed t u" and "marker_untouched t u"
  shows "coherent_task (updated_task h t u now)"
  unfolding updated_task_def
proof (rule coherent_lifecycle)
  show "marker_coherent ((apply_patch t (final_updates h t u now))\<lparr>updatedAt := now\<rparr>)"
    using assms by (auto simp: marker_coherent_def marker_untouched_def final_patch coherent_task_def)
  show "\<not> (t_status ((apply_patch t (final_updates h t u now))\<lparr>updatedAt := now\<rparr>) = Inbox \<and>
      t_isFocusedToday ((apply_patch t (final_updates h t u now))\<lparr>updatedAt := now\<rparr>) = Some True)"
    using assms(2) by (auto simp: final_patch final_patch_focus status_patch_focus star_allowed_def
        incoming_status_def isTaskFinished_def)
qed (use final_patch_reference[of t u h now] in \<open>simp add: final_patch\<close>)

subsection \<open>The prepared patch\<close>

lemma with_move_patch_keeps [simp]:
  "u_status (with_move_patch u m) = u_status u"
  "u_isFocusedToday (with_move_patch u m) = u_isFocusedToday u"
  "u_focusOrder (with_move_patch u m) = u_focusOrder u"
  "u_statusBeforeProjectArchive (with_move_patch u m) = u_statusBeforeProjectArchive u"
  "u_completedAtBeforeProjectArchive (with_move_patch u m) = u_completedAtBeforeProjectArchive u"
  "u_isFocusedTodayBeforeProjectArchive (with_move_patch u m) = u_isFocusedTodayBeforeProjectArchive u"
  "u_projectArchivedAt (with_move_patch u m) = u_projectArchivedAt u"
  "u_deletedAt (with_move_patch u m) = u_deletedAt u"
  "u_cancelledAt (with_move_patch u m) = u_cancelledAt u"
  "u_startTime (with_move_patch u m) = u_startTime u"
  by (simp_all add: with_move_patch_def)

lemmas adjust_defs = adjust_cancellation_def adjust_recurrence_def adjust_order_def adjust_star_def
  adjust_deferred_def adjust_board_order_def adjust_focus_order_def adjust_auto_archive_def
  adjust_finished_def adjust_marker_def

text \<open>The early steps change the status only to archive a cancelled task, and never the star.\<close>

lemma early_steps:
  fixes h t u
  defines "a3 \<equiv> adjust_order u (adjust_recurrence h t u (adjust_cancellation t u))"
  shows "u_isFocusedToday a3 = u_isFocusedToday u" "u_focusOrder a3 = u_focusOrder u"
    "u_status a3 = u_status u \<or> u_status u = None \<and> u_status a3 = Some Archived"
    "u_deletedAt a3 = u_deletedAt u"
  unfolding a3_def by (auto simp: adjust_cancellation_def adjust_recurrence_def adjust_order_def Let_def
      split: option.split)

lemma adjust_star_allowed:
  assumes "\<not> (t_status t = Inbox \<and> t_isFocusedToday t = Some True)"
    and "u_isFocusedToday a = u_isFocusedToday u"
    and "u_status a = u_status u \<or> u_status u = None \<and> u_status a = Some Archived"
  shows "star_allowed t (adjust_star t u a)"
  using assms
  by (cases "u_status u"; cases "u_isFocusedToday u") (auto simp: adjust_star_def star_allowed_def Let_def)

lemma late_steps_star:
  "star_allowed t a \<Longrightarrow> star_allowed t (adjust_deferred h now ctx t u a)"
  "star_allowed t a \<Longrightarrow> star_allowed t (adjust_board_order t u a)"
  "star_allowed t a \<Longrightarrow> star_allowed t (adjust_focus_order h now ctx t u a)"
  "star_allowed t a \<Longrightarrow> star_allowed t (adjust_auto_archive h now ctx t u a)"
  "star_allowed t a \<Longrightarrow> star_allowed t (adjust_finished t u a)"
  "star_allowed t a \<Longrightarrow> star_allowed t (adjust_marker t a)"
  by (auto simp: star_allowed_def adjust_deferred_def adjust_board_order_def adjust_focus_order_def
      adjust_auto_archive_def adjust_finished_def adjust_marker_def Let_def split: option.split)

lemma normalized_star:
  assumes "\<not> (t_status t = Inbox \<and> t_isFocusedToday t = Some True)"
  shows "star_allowed t (normalizeTaskUpdate h now t u ctx)"
  unfolding normalizeTaskUpdate_def Let_def
  by (intro late_steps_star adjust_star_allowed assms early_steps)

definition no_marker_fields :: "task_patch \<Rightarrow> bool" where
  "no_marker_fields u = (u_statusBeforeProjectArchive u = None \<and> u_completedAtBeforeProjectArchive u = None \<and>
     u_isFocusedTodayBeforeProjectArchive u = None \<and> u_projectArchivedAt u = None)"

lemma steps_no_marker:
  "no_marker_fields a \<Longrightarrow> no_marker_fields (adjust_cancellation t a)"
  "no_marker_fields a \<Longrightarrow> no_marker_fields (adjust_recurrence h t u a)"
  "no_marker_fields a \<Longrightarrow> no_marker_fields (adjust_order u a)"
  "no_marker_fields a \<Longrightarrow> no_marker_fields (adjust_star t u a)"
  "no_marker_fields a \<Longrightarrow> no_marker_fields (adjust_deferred h now ctx t u a)"
  "no_marker_fields a \<Longrightarrow> no_marker_fields (adjust_board_order t u a)"
  "no_marker_fields a \<Longrightarrow> no_marker_fields (adjust_focus_order h now ctx t u a)"
  "no_marker_fields a \<Longrightarrow> no_marker_fields (adjust_auto_archive h now ctx t u a)"
  "no_marker_fields a \<Longrightarrow> no_marker_fields (adjust_finished t u a)"
  by (auto simp: no_marker_fields_def adjust_defs Let_def split: option.split)

lemma normalized_marker:
  assumes "no_marker_fields u"
  shows "marker_untouched t (normalizeTaskUpdate h now t u ctx)"
    and "truthy (t_projectArchivedAt t) \<Longrightarrow> u_projectArchivedAt (normalizeTaskUpdate h now t u ctx) = Some None"
proof -
  obtain a where a: "normalizeTaskUpdate h now t u ctx = adjust_marker t a" "no_marker_fields a"
  proof (rule that)
    show "normalizeTaskUpdate h now t u ctx = adjust_marker t (adjust_finished t u (adjust_auto_archive h now ctx t u
        (adjust_focus_order h now ctx t u (adjust_board_order t u (adjust_deferred h now ctx t u
          (adjust_star t u (adjust_order u (adjust_recurrence h t u (adjust_cancellation t u)))))))))"
      by (simp add: normalizeTaskUpdate_def Let_def)
  qed (intro steps_no_marker assms)
  then show "marker_untouched t (normalizeTaskUpdate h now t u ctx)"
    by (auto simp: adjust_marker_def marker_untouched_def no_marker_fields_def)
  show "u_projectArchivedAt (normalizeTaskUpdate h now t u ctx) = Some None" if "truthy (t_projectArchivedAt t)"
    using a that by (simp add: adjust_marker_def)
qed

lemma prepared_cases:
  assumes "prepareTaskUpdatesForStore h now t u ps ss as ctx reserve reserver = Inr p"
  obtains m reactivating where
    "buildTaskContainerMovePatch (container_of t) (move_patch_of u) ps ss as reactivating reserve reserver = Inr m"
    "p = with_move_patch (normalizeTaskUpdate h now t (with_move_patch u m) ctx) m"
  using assms unfolding prepareTaskUpdatesForStore_def Let_def by (auto split: sum.splits)

lemma prepared_allowed:
  assumes "prepareTaskUpdatesForStore h now t u ps ss as ctx reserve reserver = Inr p"
    and "coherent_task t" and "no_marker_fields u"
  shows "star_allowed t p" "marker_untouched t p"
proof -
  obtain m where p: "p = with_move_patch (normalizeTaskUpdate h now t (with_move_patch u m) ctx) m"
    using prepared_cases[OF assms(1)] by blast
  have "star_allowed t (normalizeTaskUpdate h now t (with_move_patch u m) ctx)"
    by (rule normalized_star[OF coherent_inbox[OF assms(2)]])
  then show "star_allowed t p" by (simp add: p star_allowed_def)
  have "no_marker_fields (with_move_patch u m)" using assms(3) by (simp add: no_marker_fields_def)
  from normalized_marker(1)[OF this] show "marker_untouched t p" by (simp add: p marker_untouched_def)
qed

subsection \<open>A lost cancellation\<close>

text \<open>
  An Inbox task that one patch cancels and gives a start date is promoted to Next, and its cancellation
  is lost: the promotion looks only at the status of the raw patch.
\<close>

definition cancel_with_start :: task_patch where
  "cancel_with_start = no_patch\<lparr>u_cancelledAt := Some (Some ''2024-03-01T10:00:00.000Z''),
     u_startTime := Some (Some ''2024-03-02'')\<rparr>"

lemma start_undoes_cancellation:
  "t_status t = Inbox \<Longrightarrow> t_startTime t = None \<Longrightarrow> \<not> truthy (t_projectArchivedAt t) \<Longrightarrow>
    u_status (normalizeTaskUpdate h now t cancel_with_start no_context) = Some Next"
  by (simp add: normalizeTaskUpdate_def cancel_with_start_def adjust_cancellation_def adjust_recurrence_def adjust_order_def
      adjust_star_def adjust_deferred_def adjust_board_order_def adjust_focus_order_def adjust_auto_archive_def
      adjust_finished_def adjust_marker_def start_promoting_inbox_def no_patch_def no_context_def Let_def isTaskFinished_def)

end
