(* ===== verification/UpdateEffects.thy ===== *)
theory UpdateEffects
  imports TaskWrites ProjectArchive RecurrenceFollow
begin

text \<open>
  What the planners leave behind: the tasks stay coherent and none is lost, a recurring task that
  is completed has its next occurrence among them exactly once, and the task that was written is
  in live containers, those of a project the write reopened included.
\<close>

subsection \<open>The follow-up\<close>

lemma built_from_projection:
  assumes "buildNextRecurringTask h createId t completedAt previous projection s = Inr (Some t', s')"
  obtains rule p id1 attachments checklist where
    "getRecurrenceRule (t_recurrence t) = Some rule" "projection = Some p"
    "t' = follow_up_task t completedAt previous p rule id1 attachments checklist"
    "\<not> count_reached (t_recurrence t) 1"
proof -
  obtain rule where r: "getRecurrenceRule (t_recurrence t) = Some rule"
    using assms by (auto simp: buildNextRecurringTask_def split: option.splits if_splits)
  then obtain p where p: "projection = Some p"
    using assms by (auto simp: buildNextRecurringTask_def split: option.splits if_splits)
  have b: "\<not> count_reached (t_recurrence t) 1 \<and>
    (case follow_up createId t completedAt previous p rule s of (next1, s'') \<Rightarrow> (Some next1, s'')) = (Some t', s')"
    using assms unfolding buildNextRecurringTask_def r p
    by (auto split: option.splits sum.splits if_splits prod.splits)
  then obtain id1 attachments checklist where
    "t' = follow_up_task t completedAt previous p rule id1 attachments checklist"
    by (auto simp: follow_up_def split: prod.splits)
  then show thesis using that r p b by blast
qed

definition fresh_follow_up :: "task \<Rightarrow> task \<Rightarrow> bool" where
  "fresh_follow_up t n = (getRecurrenceRule (t_recurrence t) \<noteq> None \<and>
     (\<exists>c p rule i atts cl. n = follow_up_task t c (t_status t) p rule i atts cl))"

lemma next_recurring_fresh:
  assumes "next_recurring h nowMs createId t u now projection s = Inr (Some n, s')"
  shows "fresh_follow_up t n"
proof -
  let ?c = "completion_time h t u now"
  have "buildNextRecurringTask h createId t ?c (t_status t)
      (case projection of None \<Rightarrow> projectNextRecurringTask h nowMs t ?c False | Some q \<Rightarrow> q) s = Inr (Some n, s')"
    using assms by (cases projection)
      (simp_all add: next_recurring_def createNextRecurringTask_def Let_def split: if_splits)
  then obtain p rule i atts cl where "getRecurrenceRule (t_recurrence t) = Some rule"
    "n = follow_up_task t ?c (t_status t) p rule i atts cl"
    by (rule built_from_projection)
  then show ?thesis unfolding fresh_follow_up_def by (intro conjI exI) simp_all
qed

lemma follow_up_fields:
  "t_status (follow_up_task t c prev p rule i atts cl) =
     (if prev = Done \<or> prev = Archived then Next else prev)"
  "t_isFocusedToday (follow_up_task t c prev p rule i atts cl) = Some False"
  "t_completedAt (follow_up_task t c prev p rule i atts cl) = None"
  "t_cancelledAt (follow_up_task t c prev p rule i atts cl) = None"
  "t_statusBeforeProjectArchive (follow_up_task t c prev p rule i atts cl) = None"
  "t_completedAtBeforeProjectArchive (follow_up_task t c prev p rule i atts cl) = None"
  "deletedAt (follow_up_task t c prev p rule i atts cl) = None"
  "eid (follow_up_task t c prev p rule i atts cl) = i"
  by (simp_all add: follow_up_task_def)

lemma stamp_follow_up_fields [simp]:
  "eid (stampNewRecurringFollowUp h n d order) = eid n"
  "t_status (stampNewRecurringFollowUp h n d order) = t_status n"
  "deletedAt (stampNewRecurringFollowUp h n d order) = deletedAt n"
  "t_isFocusedToday (stampNewRecurringFollowUp h n d order) = t_isFocusedToday n"
  "t_completedAt (stampNewRecurringFollowUp h n d order) = t_completedAt n"
  "t_cancelledAt (stampNewRecurringFollowUp h n d order) = t_cancelledAt n"
  "t_statusBeforeProjectArchive (stampNewRecurringFollowUp h n d order) = t_statusBeforeProjectArchive n"
  "t_completedAtBeforeProjectArchive (stampNewRecurringFollowUp h n d order) = t_completedAtBeforeProjectArchive n"
  "t_title (stampNewRecurringFollowUp h n d order) = t_title n"
  "t_projectId (stampNewRecurringFollowUp h n d order) = t_projectId n"
  "t_sectionId (stampNewRecurringFollowUp h n d order) = t_sectionId n"
  "t_areaId (stampNewRecurringFollowUp h n d order) = t_areaId n"
  "t_startTime (stampNewRecurringFollowUp h n d order) = t_startTime n"
  "t_dueDate (stampNewRecurringFollowUp h n d order) = t_dueDate n"
  "t_reviewAt (stampNewRecurringFollowUp h n d order) = t_reviewAt n"
  "t_recurrence (stampNewRecurringFollowUp h n d order) =
     map_option RecObj (normalizeRecurrenceForLoad h (t_recurrence n))"
  by (simp_all add: stampNewRecurringFollowUp_def canonicalRecurringFollowUp_def Let_def)

lemma stamped_coherent:
  assumes "fresh_follow_up t n" and "coherent_task t"
  shows "coherent_task (stampNewRecurringFollowUp h n d order)"
    and "\<not> isTaskFinished (Some (t_status n))" and "\<not> truthy (deletedAt n)"
proof -
  obtain c p rule i atts cl where n: "n = follow_up_task t c (t_status t) p rule i atts cl"
    and r: "getRecurrenceRule (t_recurrence t) \<noteq> None"
    using assms(1) by (auto simp: fresh_follow_up_def)
  have "t_recurrence t \<noteq> None"
  proof
    assume "t_recurrence t = None"
    with r show False by (simp add: getRecurrenceRule_def)
  qed
  then have ref: "t_status t \<noteq> Reference" using assms(2) by (auto simp: coherent_task_def)
  show "coherent_task (stampNewRecurringFollowUp h n d order)"
    using ref by (auto simp: coherent_task_def n follow_up_fields marker_coherent_def isTaskFinished_def)
  show "\<not> isTaskFinished (Some (t_status n))" by (auto simp: n follow_up_fields isTaskFinished_def)
  show "\<not> truthy (deletedAt n)" by (simp add: n follow_up_fields)
qed

subsection \<open>Replacement and reactivation\<close>

lemma replace_ids [simp]: "eid y = k \<Longrightarrow> map eid (replaceEntityInArray xs k y) = map eid xs"
  by (induction xs) auto

lemma replace_subset: "set (replaceEntityInArray xs k y) \<subseteq> insert y (set xs)"
  by (induction xs) auto

lemma replace_keeps_others: "x \<in> set xs \<Longrightarrow> eid x \<noteq> k \<Longrightarrow> x \<in> set (replaceEntityInArray xs k y)"
  by (induction xs) auto

lemma replace_has: "k \<in> eid ` set xs \<Longrightarrow> y \<in> set (replaceEntityInArray xs k y)"
  by (induction xs) auto

lemma retire_coherent: "coherent_task t \<Longrightarrow> coherent_task (retireTaskProjectArchiveMetadata t now d)"
  by (auto simp: retireTaskProjectArchiveMetadata_def without_archive_marker_def coherent_task_def marker_coherent_def)

lemma retire_fields [simp]:
  "eid (retireTaskProjectArchiveMetadata t now d) = eid t"
  "deletedAt (retireTaskProjectArchiveMetadata t now d) = deletedAt t"
  "t_status (retireTaskProjectArchiveMetadata t now d) = t_status t"
  "t_projectId (retireTaskProjectArchiveMetadata t now d) = t_projectId t"
  "t_sectionId (retireTaskProjectArchiveMetadata t now d) = t_sectionId t"
  "t_areaId (retireTaskProjectArchiveMetadata t now d) = t_areaId t"
  "t_isFocusedToday (retireTaskProjectArchiveMetadata t now d) = t_isFocusedToday t"
  "t_startTime (retireTaskProjectArchiveMetadata t now d) = t_startTime t"
  "t_dueDate (retireTaskProjectArchiveMetadata t now d) = t_dueDate t"
  "t_reviewAt (retireTaskProjectArchiveMetadata t now d) = t_reviewAt t"
  "t_recurrence (retireTaskProjectArchiveMetadata t now d) = t_recurrence t"
  "t_title (retireTaskProjectArchiveMetadata t now d) = t_title t"
  by (simp_all add: retireTaskProjectArchiveMetadata_def without_archive_marker_def)

lemma reactivation_tasks:
  "\<exists>f. pr_tasks (applyTaskProjectReactivationTransition rs tasks ps ss now d) = map f tasks \<and>
    (\<forall>t. f t = t \<or> f t = retireTaskProjectArchiveMetadata t now d)"
proof -
  define hits where "hits = filter (\<lambda>r. findTaskProjectReactivationTarget (fst r) (snd r) ps \<noteq> None) rs"
  define ids where "ids = uniq (map (\<lambda>r. eid (the (findTaskProjectReactivationTarget (fst r) (snd r) ps))) hits)"
  define f where "f t = (if ids \<noteq> [] \<and> truthy (t_projectId t) \<and> the (t_projectId t) \<in> set ids \<and>
      eid t \<notin> set (map (\<lambda>r. eid (fst r)) hits) then retireTaskProjectArchiveMetadata t now d else t)" for t
  have "map f tasks = tasks" if "ids = []" by (rule map_idI) (simp add: f_def that)
  then have "pr_tasks (applyTaskProjectReactivationTransition rs tasks ps ss now d) = map f tasks"
    unfolding applyTaskProjectReactivationTransition_def Let_def hits_def[symmetric] ids_def[symmetric]
    by (cases "ids = []") (simp_all add: f_def)
  then show ?thesis by (intro exI[of _ f]) (simp add: f_def)
qed

lemma reactivation_ids [simp]:
  "map eid (pr_tasks (applyTaskProjectReactivationTransition rs tasks ps ss now d)) = map eid tasks"
  "map eid (pr_projects (applyTaskProjectReactivationTransition rs tasks ps ss now d)) = map eid ps"
  "map eid (pr_sections (applyTaskProjectReactivationTransition rs tasks ps ss now d)) = map eid ss"
proof -
  obtain f where f: "pr_tasks (applyTaskProjectReactivationTransition rs tasks ps ss now d) = map f tasks"
    "\<And>t. f t = t \<or> f t = retireTaskProjectArchiveMetadata t now d"
    using reactivation_tasks by blast
  have "eid (f t) = eid t" for t using f(2)[of t] by (elim disjE) simp_all
  then show "map eid (pr_tasks (applyTaskProjectReactivationTransition rs tasks ps ss now d)) = map eid tasks"
    by (simp add: f(1))
qed (auto simp: applyTaskProjectReactivationTransition_def Let_def restoreSectionFromProjectArchive_def)

lemma reactivation_coherent:
  assumes "\<And>t. t \<in> set tasks \<Longrightarrow> coherent_task t"
    and "x \<in> set (pr_tasks (applyTaskProjectReactivationTransition rs tasks ps ss now d))"
  shows "coherent_task x"
proof -
  obtain f where f: "pr_tasks (applyTaskProjectReactivationTransition rs tasks ps ss now d) = map f tasks"
    "\<And>t. f t = t \<or> f t = retireTaskProjectArchiveMetadata t now d"
    using reactivation_tasks by blast
  then obtain t where t: "t \<in> set tasks" "x = f t" using assms(2) by auto
  then show ?thesis using f(2)[of t] assms(1)[OF t(1)] retire_coherent by auto
qed

subsection \<open>One update\<close>

definition stamped_patch :: "task \<Rightarrow> task_patch \<Rightarrow> string \<Rightarrow> task_patch" where
  "stamped_patch t p deviceId = p\<lparr>u_rev := Some (Some (nextRev (rev t))), u_revBy := Some (Some deviceId)\<rparr>"

lemma stamped_patch_keeps [simp]:
  "star_allowed t (stamped_patch t p d) = star_allowed t p"
  "marker_untouched t (stamped_patch t p d) = marker_untouched t p"
  "incoming_status t (stamped_patch t p d) = incoming_status t p"
  "u_projectId (stamped_patch t p d) = u_projectId p"
  "u_sectionId (stamped_patch t p d) = u_sectionId p"
  "u_areaId (stamped_patch t p d) = u_areaId p"
  "u_deletedAt (stamped_patch t p d) = u_deletedAt p"
  "u_rev (stamped_patch t p d) = Some (Some (nextRev (rev t)))"
  "u_revBy (stamped_patch t p d) = Some (Some d)"
  by (simp_all add: stamped_patch_def star_allowed_def marker_untouched_def incoming_status_def)

lemma planned_update:
  assumes "planTaskUpdateEffects h nowMs createId t p tasks ps ss now d projection s = Inr (e, s')"
  obtains next1 where
    "next_recurring h nowMs createId t (stamped_patch t p d) now projection s = Inr (next1, s')"
    "ue_updatedTask e = updated_task h t (stamped_patch t p d) now"
    "ue_candidate e = map_option (\<lambda>n. stampNewRecurringFollowUp h n (Some d) (follow_up_order t tasks n)) next1"
    "ue_duplicate e = findExistingRecurringFollowUp h tasks (ue_candidate e) (eid t)"
    "ue_followUp e = (if ue_duplicate e \<noteq> None then None else ue_candidate e)"
    "ue_tasks e = pr_tasks (applyTaskProjectReactivationTransition [(t, p)]
       (replaceEntityInArray tasks (eid t) (ue_updatedTask e) @ (case ue_followUp e of None \<Rightarrow> [] | Some f \<Rightarrow> [f]))
       ps ss now (Some d))"
    "ue_projects e = pr_projects (applyTaskProjectReactivationTransition [(t, p)]
       (replaceEntityInArray tasks (eid t) (ue_updatedTask e) @ (case ue_followUp e of None \<Rightarrow> [] | Some f \<Rightarrow> [f]))
       ps ss now (Some d))"
    "ue_sections e = pr_sections (applyTaskProjectReactivationTransition [(t, p)]
       (replaceEntityInArray tasks (eid t) (ue_updatedTask e) @ (case ue_followUp e of None \<Rightarrow> [] | Some f \<Rightarrow> [f]))
       ps ss now (Some d))"
  using assms unfolding planTaskUpdateEffects_def applyTaskUpdates_def stamped_patch_def[symmetric] Let_def
  by (auto split: sum.splits prod.splits)

lemma updated_effects_coherent:
  assumes "planTaskUpdateEffects h nowMs createId t p tasks ps ss now d projection s = Inr (e, s')"
    and "\<And>x. x \<in> set tasks \<Longrightarrow> coherent_task x" and "coherent_task t"
    and "star_allowed t p" and "marker_untouched t p"
    and "x \<in> set (ue_tasks e)"
  shows "coherent_task x"
proof -
  obtain next1 where n: "next_recurring h nowMs createId t (stamped_patch t p d) now projection s = Inr (next1, s')"
    "ue_updatedTask e = updated_task h t (stamped_patch t p d) now"
    "ue_candidate e = map_option (\<lambda>n. stampNewRecurringFollowUp h n (Some d) (follow_up_order t tasks n)) next1"
    "ue_followUp e = (if ue_duplicate e \<noteq> None then None else ue_candidate e)"
    "ue_tasks e = pr_tasks (applyTaskProjectReactivationTransition [(t, p)]
       (replaceEntityInArray tasks (eid t) (ue_updatedTask e) @ (case ue_followUp e of None \<Rightarrow> [] | Some f \<Rightarrow> [f]))
       ps ss now (Some d))"
    by (rule planned_update[OF assms(1)]) blast
  have u: "coherent_task (ue_updatedTask e)" unfolding n(2) by (rule updated_coherent) (use assms(3-5) in simp_all)
  have f: "coherent_task y" if "ue_followUp e = Some y" for y
  proof -
    from that n(3,4) obtain m where m: "next1 = Some m"
      "y = stampNewRecurringFollowUp h m (Some d) (follow_up_order t tasks m)"
      by (cases next1) (auto split: if_splits)
    then show ?thesis using stamped_coherent(1)[OF next_recurring_fresh assms(3)] n(1) by simp
  qed
  show ?thesis
  proof (rule reactivation_coherent[OF _ assms(6)[unfolded n(5)]])
    fix y
    assume "y \<in> set (replaceEntityInArray tasks (eid t) (ue_updatedTask e) @ (case ue_followUp e of None \<Rightarrow> [] | Some f \<Rightarrow> [f]))"
    then have "y \<in> insert (ue_updatedTask e) (set tasks) \<or> ue_followUp e = Some y"
      using replace_subset[of tasks "eid t" "ue_updatedTask e"] by (auto split: option.splits)
    then show "coherent_task y" using u f assms(2) by blast
  qed
qed

lemma updated_effects_ids:
  assumes "planTaskUpdateEffects h nowMs createId t p tasks ps ss now d projection s = Inr (e, s')"
  shows "map eid (ue_tasks e) = map eid tasks @ (case ue_followUp e of None \<Rightarrow> [] | Some f \<Rightarrow> [eid f])"
    and "map eid (ue_projects e) = map eid ps" and "map eid (ue_sections e) = map eid ss"
  by (rule planned_update[OF assms]; simp add: updated_fields split: option.split)+

subsection \<open>A series goes on\<close>

text \<open>What the duplicate check compares, but for the identifiers.\<close>

definition same_occurrence :: "host \<Rightarrow> task \<Rightarrow> task \<Rightarrow> bool" where
  "same_occurrence h x c =
     (\<not> truthy (deletedAt x) \<and> \<not> isTaskFinished (Some (t_status x)) \<and> t_status x = t_status c \<and>
      js_trim (t_title x) = js_trim (t_title c) \<and>
      or_else (t_projectId x) [] = or_else (t_projectId c) [] \<and>
      or_else (t_sectionId x) [] = or_else (t_sectionId c) [] \<and>
      or_else (t_areaId x) [] = or_else (t_areaId c) [] \<and>
      or_else (t_startTime x) [] = or_else (t_startTime c) [] \<and>
      or_else (t_dueDate x) [] = or_else (t_dueDate c) [] \<and>
      or_else (t_reviewAt x) [] = or_else (t_reviewAt c) [] \<and>
      recurrenceKeyForDuplicateCheck h x = recurrenceKeyForDuplicateCheck h c)"

lemma existing_iff: "isExistingRecurringFollowUp h x c \<longleftrightarrow> eid x \<noteq> eid c \<and> same_occurrence h x c"
  by (auto simp: isExistingRecurringFollowUp_def same_occurrence_def)

lemma same_occurrence_retire: "same_occurrence h (retireTaskProjectArchiveMetadata x now d) c = same_occurrence h x c"
  by (simp add: same_occurrence_def recurrenceKeyForDuplicateCheck_def)

lemma same_occurrence_self:
  "\<not> truthy (deletedAt c) \<Longrightarrow> \<not> isTaskFinished (Some (t_status c)) \<Longrightarrow> same_occurrence h c c"
  by (simp add: same_occurrence_def)

lemma reactivated_member:
  assumes "x \<in> set tasks"
  obtains y where "y \<in> set (pr_tasks (applyTaskProjectReactivationTransition rs tasks ps ss now d))"
    "eid y = eid x" "\<And>c. same_occurrence h x c \<Longrightarrow> same_occurrence h y c"
proof -
  obtain f where f: "pr_tasks (applyTaskProjectReactivationTransition rs tasks ps ss now d) = map f tasks"
    "\<forall>t. f t = t \<or> f t = retireTaskProjectArchiveMetadata t now d"
    using reactivation_tasks by blast
  have "f x \<in> set (map f tasks)" using assms by simp
  moreover have "eid (f x) = eid x" using f(2)[rule_format, of x] by (elim disjE) simp_all
  moreover have "same_occurrence h (f x) c" if "same_occurrence h x c" for c
    using f(2)[rule_format, of x] that by (elim disjE) (simp_all add: same_occurrence_retire)
  ultimately show thesis using that f(1) by metis
qed

lemma next_occurrence_present:
  assumes "planTaskUpdateEffects h nowMs createId t p tasks ps ss now d projection s = Inr (e, s')"
    and "coherent_task t"
    and "next_recurring h nowMs createId t (stamped_patch t p d) now projection s = Inr (Some n, s')"
    and "eid n \<noteq> eid t"
  obtains x where "x \<in> set (ue_tasks e)" "eid x \<noteq> eid t"
    "same_occurrence h x (stampNewRecurringFollowUp h n (Some d) (follow_up_order t tasks n))"
proof -
  let ?c = "stampNewRecurringFollowUp h n (Some d) (follow_up_order t tasks n)"
  obtain next1 where n: "next_recurring h nowMs createId t (stamped_patch t p d) now projection s = Inr (next1, s')"
    "ue_candidate e = map_option (\<lambda>n. stampNewRecurringFollowUp h n (Some d) (follow_up_order t tasks n)) next1"
    "ue_duplicate e = findExistingRecurringFollowUp h tasks (ue_candidate e) (eid t)"
    "ue_followUp e = (if ue_duplicate e \<noteq> None then None else ue_candidate e)"
    "ue_tasks e = pr_tasks (applyTaskProjectReactivationTransition [(t, p)]
       (replaceEntityInArray tasks (eid t) (ue_updatedTask e) @ (case ue_followUp e of None \<Rightarrow> [] | Some f \<Rightarrow> [f]))
       ps ss now (Some d))"
    by (rule planned_update[OF assms(1)]) blast
  have cand: "ue_candidate e = Some ?c" using n(1,2) assms(3) by auto
  let ?all = "replaceEntityInArray tasks (eid t) (ue_updatedTask e) @ (case ue_followUp e of None \<Rightarrow> [] | Some f \<Rightarrow> [f])"
  have "\<exists>x\<in>set ?all. eid x \<noteq> eid t \<and> same_occurrence h x ?c"
  proof (cases "ue_duplicate e")
    case None
    have "same_occurrence h ?c ?c"
      using stamped_coherent(2,3)[OF next_recurring_fresh[OF assms(3)] assms(2)] by (simp add: same_occurrence_self)
    then show ?thesis using None n(4) cand assms(4) by auto
  next
    case (Some x)
    then have "x \<in> set tasks" "eid x \<noteq> eid t" "same_occurrence h x ?c"
      using n(3) cand by (auto simp: findExistingRecurringFollowUp_def find_Some_iff existing_iff)
    then show ?thesis using replace_keeps_others by fastforce
  qed
  then obtain x where x: "x \<in> set ?all" "eid x \<noteq> eid t" "same_occurrence h x ?c" by blast
  obtain y where "y \<in> set (ue_tasks e)" "eid y = eid x" "\<And>c. same_occurrence h x c \<Longrightarrow> same_occurrence h y c"
    using reactivated_member[OF x(1)] unfolding n(5) by blast
  then show thesis using that x by metis
qed

text \<open>
  C40: completing a recurring task never ends its series silently: when the rule gives a next
  occurrence, the resulting tasks hold a live, unfinished task other than the completed one with
  that occurrence's title and dates, new or already there.
\<close>

theorem completed_series_continues:
  assumes "planTaskUpdateEffects h nowMs createId t p tasks ps ss now d projection s = Inr (e, s')"
    and "coherent_task t"
    and "next_recurring h nowMs createId t (stamped_patch t p d) now projection s = Inr (Some n, s')"
    and "eid n \<noteq> eid t"
  shows "\<exists>x\<in>set (ue_tasks e). eid x \<noteq> eid t \<and> \<not> is_deleted x \<and> \<not> isTaskFinished (Some (t_status x)) \<and>
    js_trim (t_title x) = js_trim (t_title t) \<and>
    or_else (t_startTime x) [] = or_else (t_startTime n) [] \<and>
    or_else (t_dueDate x) [] = or_else (t_dueDate n) [] \<and>
    or_else (t_reviewAt x) [] = or_else (t_reviewAt n) []"
proof -
  obtain x where x: "x \<in> set (ue_tasks e)" "eid x \<noteq> eid t"
    "same_occurrence h x (stampNewRecurringFollowUp h n (Some d) (follow_up_order t tasks n))"
    by (rule next_occurrence_present[OF assms])
  have "t_title n = t_title t"
    using next_recurring_fresh[OF assms(3)] by (auto simp: fresh_follow_up_def follow_up_task_def)
  then show ?thesis using x by (intro bexI[of _ x]) (auto simp: same_occurrence_def is_deleted_def)
qed

subsection \<open>Replaying a completion\<close>

lemma built_twice:
  assumes "buildNextRecurringTask h createId t c prev q s1 = Inr (Some n1, s1')"
    and "buildNextRecurringTask h createId t c prev q s2 = Inr (Some n2, s2')"
  shows "\<exists>p rule i1 a1 l1 i2 a2 l2. n1 = follow_up_task t c prev p rule i1 a1 l1 \<and> n2 = follow_up_task t c prev p rule i2 a2 l2"
proof -
  obtain p rule i1 a1 l1 where 1: "q = Some p" "getRecurrenceRule (t_recurrence t) = Some rule"
    "n1 = follow_up_task t c prev p rule i1 a1 l1" by (rule built_from_projection[OF assms(1)])
  obtain p' rule' i2 a2 l2 where 2: "q = Some p'" "getRecurrenceRule (t_recurrence t) = Some rule'"
    "n2 = follow_up_task t c prev p' rule' i2 a2 l2" by (rule built_from_projection[OF assms(2)])
  have "p' = p" "rule' = rule" using 1 2 by simp_all
  with 1(3) 2(3) show ?thesis by blast
qed

lemma next_recurring_build:
  assumes "next_recurring h nowMs createId t u now projection s = Inr (Some n, s')"
  shows "buildNextRecurringTask h createId t (completion_time h t u now) (t_status t)
    (case projection of None \<Rightarrow> projectNextRecurringTask h nowMs t (completion_time h t u now) False | Some q \<Rightarrow> q) s = Inr (Some n, s')"
  using assms by (cases projection)
    (simp_all add: next_recurring_def createNextRecurringTask_def Let_def split: if_splits)

lemma same_occurrence_candidates:
  "same_occurrence h x (stampNewRecurringFollowUp h (follow_up_task t c prev p rule i1 a1 l1) d o1) =
   same_occurrence h x (stampNewRecurringFollowUp h (follow_up_task t c prev p rule i2 a2 l2) d o2)"
  by (simp add: same_occurrence_def recurrenceKeyForDuplicateCheck_def) (simp add: follow_up_task_def)

lemma planned_follow_up:
  assumes "planTaskUpdateEffects h nowMs createId t p tasks ps ss now d projection s = Inr (e, s')"
  shows "ue_followUp e = (if findExistingRecurringFollowUp h tasks (ue_candidate e) (eid t) \<noteq> None
    then None else ue_candidate e)"
  by (rule planned_update[OF assms]) simp

lemma planned_candidate:
  assumes "planTaskUpdateEffects h nowMs createId t p tasks ps ss now d projection s = Inr (e, s')"
    and "ue_candidate e = Some c"
  obtains n where "next_recurring h nowMs createId t (stamped_patch t p d) now projection s = Inr (Some n, s')"
    "c = stampNewRecurringFollowUp h n (Some d) (follow_up_order t tasks n)"
proof -
  obtain next1 where n: "next_recurring h nowMs createId t (stamped_patch t p d) now projection s = Inr (next1, s')"
    "ue_candidate e = map_option (\<lambda>n. stampNewRecurringFollowUp h n (Some d) (follow_up_order t tasks n)) next1"
    by (rule planned_update[OF assms(1)]) blast
  with assms(2) obtain m where "next1 = Some m" by auto
  then show thesis using that n assms(2) by simp
qed

text \<open>
  Planning the same completion again, on the tasks the first plan left and with fresh
  identifiers, adds no second follow-up.
\<close>

theorem replayed_completion_adds_nothing:
  assumes "planTaskUpdateEffects h nowMs createId t p tasks ps ss now d projection s = Inr (e, s')"
    and "coherent_task t"
    and "ue_candidate e = Some c1" and "eid c1 \<noteq> eid t"
    and "planTaskUpdateEffects h nowMs createId t p (ue_tasks e) ps2 ss2 now d projection s2 = Inr (e2, s2')"
    and "\<And>c2. ue_candidate e2 = Some c2 \<Longrightarrow> eid c2 \<notin> eid ` set (ue_tasks e)"
  shows "ue_followUp e2 = None"
proof (cases "ue_candidate e2")
  case None
  then show ?thesis using planned_follow_up[OF assms(5)] by simp
next
  case (Some c2)
  obtain m1 where m1: "next_recurring h nowMs createId t (stamped_patch t p d) now projection s = Inr (Some m1, s')"
    "c1 = stampNewRecurringFollowUp h m1 (Some d) (follow_up_order t tasks m1)"
    by (rule planned_candidate[OF assms(1,3)])
  obtain m2 where m2: "next_recurring h nowMs createId t (stamped_patch t p d) now projection s2 = Inr (Some m2, s2')"
    "c2 = stampNewRecurringFollowUp h m2 (Some d) (follow_up_order t (ue_tasks e) m2)"
    by (rule planned_candidate[OF assms(5) Some])
  have "eid m1 \<noteq> eid t" using assms(4) m1(2) by simp
  then obtain x where x: "x \<in> set (ue_tasks e)" "eid x \<noteq> eid t" "same_occurrence h x c1"
    unfolding m1(2) by (rule next_occurrence_present[OF assms(1,2) m1(1)])
  obtain q rule i1 a1 l1 i2 a2 l2 where "m1 = follow_up_task t (completion_time h t (stamped_patch t p d) now) (t_status t) q rule i1 a1 l1"
    "m2 = follow_up_task t (completion_time h t (stamped_patch t p d) now) (t_status t) q rule i2 a2 l2"
    using built_twice[OF next_recurring_build[OF m1(1)] next_recurring_build[OF m2(1)]] by blast
  then have "same_occurrence h x c2"
    using x(3) same_occurrence_candidates unfolding m1(2) m2(2) by metis
  moreover have "eid x \<noteq> eid c2" using assms(6)[OF Some] x(1) by (metis image_eqI)
  ultimately have "\<exists>x\<in>set (ue_tasks e). eid x \<noteq> eid t \<and> isExistingRecurringFollowUp h x c2"
    using x by (auto simp: existing_iff)
  then have "findExistingRecurringFollowUp h (ue_tasks e) (Some c2) (eid t) \<noteq> None"
    by (auto simp: findExistingRecurringFollowUp_def find_None_iff)
  then show ?thesis using planned_follow_up[OF assms(5)] Some by simp
qed

lemma inr_case: "(case x of Inr p \<Rightarrow> P p | Inl e \<Rightarrow> False) \<Longrightarrow> \<exists>p. x = Inr p \<and> P p"
  by (cases x) simp_all

text \<open>A monthly task completed the day before its due date.\<close>

definition done_patch :: task_patch where
  "done_patch = no_patch\<lparr>u_status := Some Done\<rparr>"

definition done_plan :: "task list \<Rightarrow> nat \<Rightarrow> (update_effects \<times> nat) checked" where
  "done_plan tasks n = planTaskUpdateEffects calendar_host 0 counting_supply series_task done_patch tasks [] []
     ''2026-01-30T10:00:00.000Z'' ''d1'' None n"

definition done_effects :: "task list \<Rightarrow> nat \<Rightarrow> update_effects" where
  "done_effects tasks n = (case done_plan tasks n of Inr (e, _) \<Rightarrow> e | Inl _ \<Rightarrow> undefined)"

lemma done_next: "next_recurring calendar_host 0 counting_supply series_task (stamped_patch series_task done_patch ''d1'')
    ''2026-01-30T10:00:00.000Z'' None 0 = Inr (Some series_next, 1)"
proof -
  have "t_status series_task = Next" by code_simp
  then show ?thesis using series_next_built
    by (simp add: next_recurring_def incoming_status_def completion_time_def explicit_completed_at_def
        stamped_patch_def done_patch_def no_patch_def safeParseDate_def Let_def)
qed

lemma done_planned: "done_plan [series_task] 0 = Inr (done_effects [series_task] 0, 1)"
proof -
  have "\<exists>e. done_plan [series_task] 0 = Inr (e, 1)"
    unfolding done_plan_def planTaskUpdateEffects_def applyTaskUpdates_def stamped_patch_def[symmetric] done_next
    by (simp add: Let_def)
  then show ?thesis by (auto simp: done_effects_def)
qed

lemma series_task_coherent: "coherent_task series_task" by code_simp

lemma series_next_id: "eid series_next \<noteq> eid series_task" by code_simp

theorem completed_series_continues_witness:
  "\<exists>x\<in>set (ue_tasks (done_effects [series_task] 0)). eid x \<noteq> eid series_task \<and> \<not> is_deleted x \<and>
    \<not> isTaskFinished (Some (t_status x)) \<and> js_trim (t_title x) = js_trim (t_title series_task) \<and>
    or_else (t_startTime x) [] = or_else (t_startTime series_next) [] \<and>
    or_else (t_dueDate x) [] = or_else (t_dueDate series_next) [] \<and>
    or_else (t_reviewAt x) [] = or_else (t_reviewAt series_next) []"
  by (rule completed_series_continues[OF done_planned[unfolded done_plan_def] series_task_coherent done_next series_next_id])

definition series_again :: "(task option \<times> nat) checked" where
  "series_again = createNextRecurringTask calendar_host 0 counting_supply series_task ''2026-01-30T10:00:00.000Z'' Next False 5"

lemma done_next_again: "\<exists>m. next_recurring calendar_host 0 counting_supply series_task (stamped_patch series_task done_patch ''d1'')
    ''2026-01-30T10:00:00.000Z'' None 5 = Inr (Some m, 6) \<and> eid m = ''5''"
proof -
  have "t_status series_task = Next" by code_simp
  moreover have "case series_again of Inr (Some t, n) \<Rightarrow> n = 6 \<and> eid t = ''5'' | _ \<Rightarrow> False" by code_simp
  ultimately show ?thesis
    by (auto simp: series_again_def next_recurring_def incoming_status_def completion_time_def explicit_completed_at_def
        stamped_patch_def done_patch_def no_patch_def safeParseDate_def Let_def split: sum.splits prod.splits option.splits)
qed

lemma done_replanned: "\<exists>e2 c2. done_plan tasks 5 = Inr (e2, 6) \<and> ue_candidate e2 = Some c2 \<and> eid c2 = ''5''"
proof -
  obtain m where m: "next_recurring calendar_host 0 counting_supply series_task (stamped_patch series_task done_patch ''d1'')
    ''2026-01-30T10:00:00.000Z'' None 5 = Inr (Some m, 6)" "eid m = ''5''" using done_next_again by blast
  show ?thesis
    unfolding done_plan_def planTaskUpdateEffects_def applyTaskUpdates_def stamped_patch_def[symmetric] m(1)
    by (simp add: Let_def m(2))
qed

lemma done_candidate: "ue_candidate (done_effects [series_task] 0) = Some
    (stampNewRecurringFollowUp calendar_host series_next (Some ''d1'') (follow_up_order series_task [series_task] series_next))"
  by (rule planned_update[OF done_planned[unfolded done_plan_def]]) (simp add: done_next)

lemma series_ids: "eid series_next = ''0''" "eid series_task = ''t1''" by code_simp+

lemma done_ids: "''5'' \<notin> eid ` set (ue_tasks (done_effects [series_task] 0))"
proof -
  have "map eid (ue_tasks (done_effects [series_task] 0)) \<in> {[''t1''], [''t1'', ''0'']}"
    using updated_effects_ids(1)[OF done_planned[unfolded done_plan_def]]
      planned_follow_up[OF done_planned[unfolded done_plan_def]]
    by (auto simp: series_ids done_candidate split: if_splits)
  then have "set (map eid (ue_tasks (done_effects [series_task] 0))) \<subseteq> {''t1'', ''0''}" by auto
  then show ?thesis by auto
qed

theorem replayed_completion_adds_nothing_witness:
  "ue_followUp (done_effects (ue_tasks (done_effects [series_task] 0)) 5) = None"
proof -
  obtain e2 c2 where e2: "done_plan (ue_tasks (done_effects [series_task] 0)) 5 = Inr (e2, 6)"
    "ue_candidate e2 = Some c2" "eid c2 = ''5''" using done_replanned by blast
  have "ue_followUp e2 = None"
    by (rule replayed_completion_adds_nothing[OF done_planned[unfolded done_plan_def] series_task_coherent done_candidate _
          e2(1)[unfolded done_plan_def]])
       (use e2(2,3) done_ids series_ids in auto)
  then show ?thesis using e2(1) by (simp add: done_effects_def)
qed

end
