(* ===== verification/UpdateContainers.thy ===== *)
theory UpdateContainers
  imports UpdateEffects
begin

text \<open>
  The containers of a written task: an accepted update leaves the task in a live project or area,
  and in a live section of that project, also when the project was archived and the update has
  just reopened it with its sections.
\<close>

subsection \<open>An accepted assignment\<close>

definition section_open :: "(section1 \<Rightarrow> bool) option \<Rightarrow> section1 \<Rightarrow> bool" where
  "section_open reactivating s = (\<not> is_deleted s \<or> (case reactivating of None \<Rightarrow> False | Some f \<Rightarrow> f s))"

lemma accepted_assignment:
  assumes "resolveTaskContainerAssignment projectId sectionId areaId ps ss as reactivating = Inr r"
    and "\<And>p. p \<in> set ps \<Longrightarrow> eid p \<noteq> []"
  shows "\<not> (truthy (ca_projectId r) \<and> truthy (ca_areaId r))"
    and "truthy (ca_projectId r) \<Longrightarrow> live_with_id (the (ca_projectId r)) ps"
    and "truthy (ca_areaId r) \<Longrightarrow> live_with_id (the (ca_areaId r)) as"
    and "truthy (ca_sectionId r) \<Longrightarrow> \<exists>s\<in>set ss. Some (eid s) = ca_sectionId r \<and>
      Some (s_projectId s) = ca_projectId r \<and> section_open reactivating s"
proof -
  obtain rp where rp: "validateExistingTaskProjectId projectId ps = Inr rp"
    using assms(1) by (auto simp: resolveTaskContainerAssignment_def split: sum.splits)
  have all: "\<not> (truthy (ca_projectId r) \<and> truthy (ca_areaId r)) \<and>
    (truthy (ca_projectId r) \<longrightarrow> live_with_id (the (ca_projectId r)) ps) \<and>
    (truthy (ca_areaId r) \<longrightarrow> live_with_id (the (ca_areaId r)) as) \<and>
    (truthy (ca_sectionId r) \<longrightarrow> (\<exists>s\<in>set ss. Some (eid s) = ca_sectionId r \<and>
      Some (s_projectId s) = ca_projectId r \<and> section_open reactivating s))"
  proof (cases "normalizeOptionalContainerId sectionId")
    case (Some sid)
    let ?P = "\<lambda>s. eid s = sid \<and> (\<not> is_deleted s \<or> (case reactivating of None \<Rightarrow> False | Some f \<Rightarrow> f s))"
    from Some assms(1) rp obtain s where s: "find ?P ss = Some s"
      and live: "live_with_id (s_projectId s) ps"
      and own: "rp = None \<or> rp = Some (s_projectId s)"
      and r: "r = resolveTaskContainerHierarchy rp (Some sid) (normalizeOptionalContainerId areaId) (Some (s_projectId s))"
      by (auto simp: resolveTaskContainerAssignment_def split: option.splits if_splits)
    from s have m: "s \<in> set ss" "eid s = sid" "section_open reactivating s"
      by (auto simp: find_Some_iff section_open_def)
    have n: "s_projectId s \<noteq> []" using live assms(2) by (auto simp: live_with_id_iff)
    have c: "ca_projectId r = Some (s_projectId s)" "ca_sectionId r = Some sid" "\<not> truthy (ca_areaId r)"
      using own n container_id_nonempty[OF Some] unfolding r by (auto simp: resolveTaskContainerHierarchy_def)
    show ?thesis using c m live n by auto
  next
    case None
    show ?thesis
    proof (cases rp)
      case (Some p)
      with None rp assms(1) have "r = resolveTaskContainerHierarchy (Some p) None (normalizeOptionalContainerId areaId) None"
        by (auto simp: resolveTaskContainerAssignment_def)
      then show ?thesis
        using valid_project[of projectId ps p] rp Some by (auto simp: resolveTaskContainerHierarchy_def)
    next
      case n: None
      with None rp assms(1) obtain a where "validateExistingTaskAreaId areaId as = Inr a"
        and "r = resolveTaskContainerHierarchy None None a None"
        by (auto simp: resolveTaskContainerAssignment_def split: sum.splits)
      then show ?thesis using valid_area[of areaId as]
        by (auto simp: resolveTaskContainerHierarchy_def truthy_def split: option.splits)
    qed
  qed
  then show "\<not> (truthy (ca_projectId r) \<and> truthy (ca_areaId r))"
    and "truthy (ca_projectId r) \<Longrightarrow> live_with_id (the (ca_projectId r)) ps"
    and "truthy (ca_areaId r) \<Longrightarrow> live_with_id (the (ca_areaId r)) as"
    and "truthy (ca_sectionId r) \<Longrightarrow> \<exists>s\<in>set ss. Some (eid s) = ca_sectionId r \<and>
      Some (s_projectId s) = ca_projectId r \<and> section_open reactivating s"
    by blast+
qed

lemma reserved_patch_containers:
  "mp_projectId (reserveTaskContainerProjectOrder k m f) = mp_projectId m"
  "mp_sectionId (reserveTaskContainerProjectOrder k m f) = mp_sectionId m"
  "mp_areaId (reserveTaskContainerProjectOrder k m f) = mp_areaId m"
  by (auto simp: reserveTaskContainerProjectOrder_def Let_def split: option.split)

lemma accepted_patch:
  assumes "buildTaskContainerMovePatch c u ps ss as reactivating reserve reserver = Inr m"
  obtains projectId sectionId areaId r where
    "resolveTaskContainerAssignment projectId sectionId areaId ps ss as reactivating = Inr r"
    "projectId = (case mp_projectId u of Some v \<Rightarrow> normalizeOptionalContainerId v | None \<Rightarrow> ca_projectId c)"
    "mp_projectId m = Some (ca_projectId r)" "mp_areaId m = Some (ca_areaId r)"
    "mp_sectionId m = Some (ca_sectionId r) \<or> mp_sectionId m = Some None"
proof -
  let ?next = "case mp_projectId u of Some v \<Rightarrow> normalizeOptionalContainerId v | None \<Rightarrow> ca_projectId c"
  obtain s a r where r: "resolveTaskContainerAssignment ?next s a ps ss as reactivating = Inr r"
    and m: "mp_projectId m = Some (ca_projectId r)" "mp_areaId m = Some (ca_areaId r)"
      "mp_sectionId m = Some (ca_sectionId r) \<or> mp_sectionId m = Some None"
    using assms unfolding buildTaskContainerMovePatch_def Let_def
    by (auto simp: reserved_patch_containers split: sum.splits if_splits option.splits)
  show thesis by (rule that[OF r refl m])
qed

subsection \<open>The reopened project\<close>

lemma adjusted_containers [simp]:
  "u_deletedAt (adjust_cancellation t u) = u_deletedAt u" "u_purgedAt (adjust_cancellation t u) = u_purgedAt u"
  "u_deletedAt (adjust_recurrence h t v u) = u_deletedAt u" "u_purgedAt (adjust_recurrence h t v u) = u_purgedAt u"
  "u_deletedAt (adjust_order v u) = u_deletedAt u" "u_purgedAt (adjust_order v u) = u_purgedAt u"
  "u_deletedAt (adjust_star t v u) = u_deletedAt u" "u_purgedAt (adjust_star t v u) = u_purgedAt u"
  "u_deletedAt (adjust_deferred h now ctx t v u) = u_deletedAt u" "u_purgedAt (adjust_deferred h now ctx t v u) = u_purgedAt u"
  "u_deletedAt (adjust_board_order t v u) = u_deletedAt u" "u_purgedAt (adjust_board_order t v u) = u_purgedAt u"
  "u_deletedAt (adjust_focus_order h now ctx t v u) = u_deletedAt u" "u_purgedAt (adjust_focus_order h now ctx t v u) = u_purgedAt u"
  "u_deletedAt (adjust_auto_archive h now ctx t v u) = u_deletedAt u" "u_purgedAt (adjust_auto_archive h now ctx t v u) = u_purgedAt u"
  "u_deletedAt (adjust_finished t v u) = u_deletedAt u" "u_purgedAt (adjust_finished t v u) = u_purgedAt u"
  "u_deletedAt (adjust_marker t u) = u_deletedAt u" "u_purgedAt (adjust_marker t u) = u_purgedAt u"
  by (simp_all add: adjust_defs Let_def split: option.split)

lemma normalized_keeps [simp]:
  "u_deletedAt (normalizeTaskUpdate h now t u ctx) = u_deletedAt u"
  "u_purgedAt (normalizeTaskUpdate h now t u ctx) = u_purgedAt u"
  by (simp_all add: normalizeTaskUpdate_def Let_def)

definition opens :: "task_patch \<Rightarrow> bool" where
  "opens u = (u_status u \<noteq> None \<and> isTaskActionable (u_status u))"

lemma steps_opens:
  "opens a \<Longrightarrow> opens (adjust_cancellation t a)"
  "opens a \<Longrightarrow> opens (adjust_recurrence h t u a)"
  "opens a \<Longrightarrow> opens (adjust_order u a)"
  "opens a \<Longrightarrow> opens (adjust_star t u a)"
  "opens a \<Longrightarrow> opens (adjust_deferred h now ctx t u a)"
  "opens a \<Longrightarrow> opens (adjust_board_order t u a)"
  "opens a \<Longrightarrow> opens (adjust_focus_order h now ctx t u a)"
  "opens u \<Longrightarrow> opens a \<Longrightarrow> opens (adjust_auto_archive h now ctx t u a)"
  "opens a \<Longrightarrow> opens (adjust_finished t u a)"
  "opens a \<Longrightarrow> opens (adjust_marker t a)"
  by (auto simp: opens_def adjust_defs Let_def isTaskActionable_def split: option.split)

lemma normalized_opens: "opens u \<Longrightarrow> opens (normalizeTaskUpdate h now t u ctx)"
  unfolding normalizeTaskUpdate_def Let_def by (intro steps_opens)

lemma stamp_project_deleted [simp]: "deletedAt (stamp_project p u now d) = deletedAt p"
  by (simp add: stamp_project_def project_lifecycle_eq)

lemma reactivation_project_live:
  assumes "live_with_id k ps"
  shows "live_with_id k (pr_projects (applyTaskProjectReactivationTransition rs tasks ps ss now d))"
proof -
  let ?r = "applyTaskProjectReactivationTransition rs tasks ps ss now d"
  define g where "g p = (if eid p \<notin> set (pr_reactivated ?r) then p
      else stamp_project p (normalizeProjectUpdate p (no_project_update\<lparr>up_status := Some PActive\<rparr>)) now d)" for p
  have m: "pr_projects ?r = map g ps"
    by (auto simp: applyTaskProjectReactivationTransition_def Let_def g_def intro: map_idI[symmetric])
  obtain p where "p \<in> set ps" "eid p = k" "\<not> is_deleted p" using assms by (auto simp: live_with_id_iff)
  then have "g p \<in> set (map g ps)" "eid (g p) = k" "\<not> is_deleted (g p)" by (auto simp: g_def is_deleted_def)
  then show ?thesis unfolding m live_with_id_iff by blast
qed

lemma restored_section:
  "eid (restoreSectionFromProjectArchive s now d) = eid s"
  "s_projectId (restoreSectionFromProjectArchive s now d) = s_projectId s"
  "\<not> is_deleted s \<Longrightarrow> \<not> is_deleted (restoreSectionFromProjectArchive s now d)"
  "isRestorableProjectArchiveSection s \<Longrightarrow> \<not> is_deleted (restoreSectionFromProjectArchive s now d)"
  by (simp_all add: restoreSectionFromProjectArchive_def is_deleted_def)

lemma reactivation_section_live:
  assumes "s \<in> set ss"
    and "\<not> is_deleted s \<or> isRestorableProjectArchiveSection s \<and>
      s_projectId s \<in> set (pr_reactivated (applyTaskProjectReactivationTransition rs tasks ps ss now d))"
  shows "\<exists>s'\<in>set (pr_sections (applyTaskProjectReactivationTransition rs tasks ps ss now d)).
    eid s' = eid s \<and> s_projectId s' = s_projectId s \<and> \<not> is_deleted s'"
proof -
  let ?r = "applyTaskProjectReactivationTransition rs tasks ps ss now d"
  define g where "g s = (if s_projectId s \<in> set (pr_reactivated ?r)
      then restoreSectionFromProjectArchive s now d else s)" for s
  have m: "pr_sections ?r = map g ss"
    by (auto simp: applyTaskProjectReactivationTransition_def Let_def g_def intro: map_idI[symmetric])
  have "g s \<in> set (map g ss)" using assms(1) by simp
  moreover have "eid (g s) = eid s" "s_projectId (g s) = s_projectId s" "\<not> is_deleted (g s)"
    using assms(2) restored_section[of s now d] by (auto simp: g_def)
  ultimately show ?thesis unfolding m by blast
qed

definition live_containers :: "project list \<Rightarrow> section1 list \<Rightarrow> area list \<Rightarrow> task \<Rightarrow> bool" where
  "live_containers ps ss as t =
     (\<not> (truthy (t_projectId t) \<and> truthy (t_areaId t)) \<and>
      (truthy (t_projectId t) \<longrightarrow> live_with_id (the (t_projectId t)) ps) \<and>
      (truthy (t_areaId t) \<longrightarrow> live_with_id (the (t_areaId t)) as) \<and>
      (truthy (t_sectionId t) \<longrightarrow> (\<exists>s\<in>set ss. Some (eid s) = t_sectionId t \<and>
        Some (s_projectId s) = t_projectId t \<and> \<not> is_deleted s)))"

lemma reopened_target:
  assumes "findTaskProjectReactivationTarget t u ps = Some q" and "opens p"
    and "u_deletedAt p = u_deletedAt u" and "u_purgedAt p = u_purgedAt u"
    and "u_projectId p = Some (Some (eid q))" and "normalizeOptionalContainerId (Some (eid q)) = Some (eid q)"
  shows "eid q \<in> set (pr_reactivated (applyTaskProjectReactivationTransition [(t, p)] tasks ps ss now d))"
proof -
  obtain st where st: "u_status u = Some st" "isTaskActionable (Some st)"
    "\<not> truthy (or_else (u_deletedAt u) (deletedAt t))" "\<not> truthy (or_else (u_purgedAt u) (t_purgedAt t))"
    using assms(1) by (auto simp: findTaskProjectReactivationTarget_def split: option.splits if_splits)
  have q: "q \<in> set ps" "p_status q = PArchived" "\<not> truthy (deletedAt q)" "\<not> truthy (p_purgedAt q)"
    using assms(1) by (auto simp: findTaskProjectReactivationTarget_def Let_def find_Some_iff split: option.splits if_splits)
  let ?P = "\<lambda>p. Some (eid p) = Some (eid q) \<and> p_status p = PArchived \<and> \<not> truthy (deletedAt p) \<and> \<not> truthy (p_purgedAt p)"
  have "find ?P ps \<noteq> None" using q by (auto simp: find_None_iff)
  then obtain q' where q': "find ?P ps = Some q'" by auto
  then have "eid q' = eid q" by (auto simp: find_Some_iff)
  moreover have "findTaskProjectReactivationTarget t p ps = Some q'"
    using assms(2-6) st q' container_id_nonempty[OF assms(6)]
    by (cases "u_status p") (simp_all add: findTaskProjectReactivationTarget_def opens_def)
  ultimately show ?thesis
    by (simp add: applyTaskProjectReactivationTransition_def Let_def uniq_def)
qed

text \<open>
  An accepted update leaves the task in live containers of the resulting document: never in a
  project and an area at once, in a live project or area, and in a live section of its project,
  also when the update reopened an archived project with its sections.
\<close>

theorem write_lands_in_live_containers:
  assumes "prepareTaskUpdatesForStore h now1 t u projects sections areas ctx reserve reserver = Inr p"
    and "planTaskUpdateEffects h nowMs createId t p tasks projects sections now d projection s = Inr (e, s')"
    and "\<And>q. q \<in> set projects \<Longrightarrow> normalizeOptionalContainerId (Some (eid q)) = Some (eid q)"
  shows "live_containers (ue_projects e) (ue_sections e) areas (ue_updatedTask e)"
proof -
  define target where "target = findTaskProjectReactivationTarget t u projects"
  define reactivating where "reactivating =
    map_option (\<lambda>q s. s_projectId s = eid q \<and> isRestorableProjectArchiveSection s) target"
  obtain m where m: "buildTaskContainerMovePatch (container_of t) (move_patch_of u) projects sections areas
      reactivating reserve reserver = Inr m"
    and p: "p = with_move_patch (normalizeTaskUpdate h now1 t (with_move_patch u m) ctx) m"
    using assms(1) unfolding prepareTaskUpdatesForStore_def Let_def target_def[symmetric] reactivating_def[symmetric]
    by (auto split: sum.splits)
  obtain a b c r where r: "resolveTaskContainerAssignment a b c projects sections areas reactivating = Inr r"
    and pr: "mp_projectId m = Some (ca_projectId r)" and ar: "mp_areaId m = Some (ca_areaId r)"
    and se: "mp_sectionId m = Some (ca_sectionId r) \<or> mp_sectionId m = Some None"
    by (rule accepted_patch[OF m])
  note acc = accepted_assignment[OF r, OF container_id_nonempty[OF assms(3)]]
  let ?R = "applyTaskProjectReactivationTransition [(t, p)] (replaceEntityInArray tasks (eid t) (ue_updatedTask e) @
      (case ue_followUp e of None \<Rightarrow> [] | Some f \<Rightarrow> [f])) projects sections now (Some d)"
  have e: "ue_updatedTask e = updated_task h t (stamped_patch t p d) now" "ue_projects e = pr_projects ?R"
    "ue_sections e = pr_sections ?R"
    by (rule planned_update[OF assms(2)]; simp)+
  have f: "t_projectId (ue_updatedTask e) = ca_projectId r" "t_areaId (ue_updatedTask e) = ca_areaId r"
    "t_sectionId (ue_updatedTask e) = ca_sectionId r \<or> t_sectionId (ue_updatedTask e) = None"
    using pr ar se by (auto simp: e(1) updated_fields p with_move_patch_def)
  have "\<exists>x\<in>set (ue_sections e). Some (eid x) = ca_sectionId r \<and> Some (s_projectId x) = ca_projectId r \<and> \<not> is_deleted x"
    if sec: "truthy (ca_sectionId r)"
  proof -
    obtain x where x: "x \<in> set sections" "Some (eid x) = ca_sectionId r" "Some (s_projectId x) = ca_projectId r"
      "section_open reactivating x" using acc(4)[OF _ sec] by blast
    have "\<not> is_deleted x \<or> isRestorableProjectArchiveSection x \<and> s_projectId x \<in> set (pr_reactivated ?R)"
    proof (cases "is_deleted x")
      case True
      then obtain q where q: "target = Some q" "s_projectId x = eid q" "isRestorableProjectArchiveSection x"
        using x(4) by (auto simp: section_open_def reactivating_def split: option.splits)
      have "q \<in> set projects" using q(1) unfolding target_def
        by (auto simp: findTaskProjectReactivationTarget_def Let_def find_Some_iff split: option.splits if_splits)
      then have n: "normalizeOptionalContainerId (Some (eid q)) = Some (eid q)" by (rule assms(3))
      have "opens u" using q(1) unfolding target_def
        by (auto simp: findTaskProjectReactivationTarget_def opens_def split: option.splits if_splits)
      then have "opens (with_move_patch u m)" by (simp add: opens_def)
      then have "opens p" using normalized_opens unfolding p by (simp add: opens_def)
      moreover have "u_projectId p = Some (Some (eid q))"
        using pr x(3) q(2) by (simp add: p with_move_patch_def)
      moreover have "u_deletedAt p = u_deletedAt u" "u_purgedAt p = u_purgedAt u"
        by (simp_all add: p with_move_patch_def)
      ultimately show ?thesis using q reopened_target[OF q(1)[unfolded target_def] _ _ _ _ n] by simp
    qed simp
    from reactivation_section_live[OF x(1) this] obtain y where
      "y \<in> set (pr_sections ?R)" "eid y = eid x" "s_projectId y = s_projectId x" "\<not> is_deleted y" by blast
    then show ?thesis using x(2,3) e(3) by (intro bexI[of _ y]) simp_all
  qed
  then show ?thesis using acc(1-3) reactivation_project_live f
    unfolding live_containers_def e(2) by auto
qed

text \<open>A finished task of an archived project, reopened.\<close>

definition closed_project :: project where
  "closed_project = (sample_project ''p1'')\<lparr>p_status := PArchived\<rparr>"

definition closed_task :: task where
  "closed_task = (sample_task ''t1'')\<lparr>t_projectId := Some ''p1'', t_sectionId := Some ''s1'', t_status := Archived,
     t_isFocusedToday := Some False, t_completedAt := Some ''2024-02-01T00:00:00.000Z''\<rparr>"

definition closed_section :: section1 where
  "closed_section = archiveSectionForProjectArchive (sample_section ''s1'' ''p1'') ''2024-03-01T00:00:00.000Z'' (Some ''d1'')"

definition reopen_prepared :: "string + task_patch" where
  "reopen_prepared = prepareTaskUpdatesForStore calendar_host 0 closed_task (no_patch\<lparr>u_status := Some Next\<rparr>) [closed_project]
     [closed_section] [] no_context False None"

definition reopen_patch :: task_patch where
  "reopen_patch = (case reopen_prepared of Inr p \<Rightarrow> p | Inl _ \<Rightarrow> no_patch)"

definition reopen_plan :: "(update_effects \<times> nat) checked" where
  "reopen_plan = planTaskUpdateEffects calendar_host 0 counting_supply closed_task reopen_patch [closed_task]
     [closed_project] [closed_section] ''2024-03-02T08:00:00.000Z'' ''d1'' None 0"

definition reopen_effects :: update_effects where
  "reopen_effects = (case reopen_plan of Inr (e, _) \<Rightarrow> e | Inl _ \<Rightarrow> undefined)"

lemma reopen_prepared: "reopen_prepared = Inr reopen_patch"
proof -
  have "case reopen_prepared of Inr p \<Rightarrow> True | Inl _ \<Rightarrow> False" by code_simp
  from inr_case[OF this] obtain p where p: "reopen_prepared = Inr p" by blast
  show ?thesis unfolding reopen_patch_def p by simp
qed

lemma reopen_planned: "reopen_plan = Inr (reopen_effects, 0)"
proof -
  have "case reopen_plan of Inr (_, n) \<Rightarrow> n = 0 | Inl _ \<Rightarrow> False" by code_simp
  from inr_case[OF this] obtain e where e: "reopen_plan = Inr (e, 0)" by (auto split: prod.splits)
  show ?thesis unfolding reopen_effects_def e by simp
qed

theorem write_lands_in_live_containers_witness:
  "live_containers (ue_projects reopen_effects) (ue_sections reopen_effects) [] (ue_updatedTask reopen_effects)"
proof -
  have "normalizeOptionalContainerId (Some (eid closed_project)) = Some (eid closed_project)" by code_simp
  then show ?thesis
    by (intro write_lands_in_live_containers[OF reopen_prepared[unfolded reopen_prepared_def]
        reopen_planned[unfolded reopen_plan_def]]) simp
qed

end
