(* ===== verification/ArchiveRetention.thy ===== *)
theory ArchiveRetention
  imports "HOL-Library.AList" MergeLoop TombstonePurge Compaction TaskStatus
begin

text \<open>
  The archive retention: \<open>archive-retention.ts\<close> (which archived records are old enough to purge,
  and the clocks older versions did not record), \<open>store-archive-retention.ts\<close> (the store actions)
  and the remote deletions queued for purged attachments, \<open>settingsWithPurgedParentAttachmentDeletes\<close>
  of \<open>attachment-cleanup.ts\<close>.
\<close>

subsection \<open>The preview\<close>

definition isArchiveRetentionDays :: "int \<Rightarrow> bool" where
  "isArchiveRetentionDays days = (0 \<le> days \<and> days \<le> 36500)"

definition DAY_MS :: int where "DAY_MS = 24 * 60 * 60 * 1000"

record retention_preview =
  rp_taskIds :: "string list"
  rp_projectIds :: "string list"
  rp_sectionIds :: "string list"
  rp_legacyTaskIds :: "string list"
  rp_legacyProjectIds :: "string list"

definition emptyPreview :: retention_preview where
  "emptyPreview = \<lparr>rp_taskIds = [], rp_projectIds = [], rp_sectionIds = [], rp_legacyTaskIds = [], rp_legacyProjectIds = []\<rparr>"

definition clock_before :: "int \<Rightarrow> string option \<Rightarrow> bool" where
  "clock_before cutoff value = (case archiveTime value of None \<Rightarrow> False | Some n \<Rightarrow> n \<le> cutoff)"

definition old_enough :: "int \<Rightarrow> string option \<Rightarrow> string \<Rightarrow> bool" where
  "old_enough cutoff archived updated = (clock_before cutoff archived \<and> clock_before cutoff (Some updated))"

definition closed_status :: "task_status \<Rightarrow> bool" where
  "closed_status s = (s \<in> {Archived, Done, Reference})"

definition section_project :: "section1 list \<Rightarrow> task \<Rightarrow> string option" where
  "section_project sections t =
     (if truthy (t_sectionId t) then map_option s_projectId (js_map_of eid sections (the (t_sectionId t))) else None)"

definition owner_ids :: "section1 list \<Rightarrow> task \<Rightarrow> string list" where
  "owner_ids sections t = uniq (present_ids [t_projectId t, section_project sections t])"

definition children_of :: "task list \<Rightarrow> section1 list \<Rightarrow> string \<Rightarrow> task list" where
  "children_of tasks sections pid =
     filter (\<lambda>t. \<not> truthy (t_purgedAt t) \<and> pid \<in> set (owner_ids sections t)) tasks"

definition standalone_tasks :: "task list \<Rightarrow> section1 list \<Rightarrow> task list" where
  "standalone_tasks tasks sections =
     filter (\<lambda>t. \<not> truthy (t_purgedAt t) \<and> owner_ids sections t = []
        \<and> \<not> truthy (t_projectId t) \<and> \<not> truthy (t_sectionId t)) tasks"

definition sections_of :: "section1 list \<Rightarrow> string \<Rightarrow> section1 list" where
  "sections_of sections pid = filter (\<lambda>s. s_projectId s = pid) sections"

definition section_blocks :: "int \<Rightarrow> section1 \<Rightarrow> bool" where
  "section_blocks cutoff s =
     (\<not> is_deleted s \<or> \<not> truthy (s_projectArchivedAt s) \<or> \<not> clock_before cutoff (Some (updatedAt s)))"

definition child_blocks :: "section1 list \<Rightarrow> int \<Rightarrow> string \<Rightarrow> task \<Rightarrow> bool" where
  "child_blocks sections cutoff pid t =
     (is_deleted t \<or> (truthy (t_projectId t) \<and> the (t_projectId t) \<noteq> pid)
      \<or> (truthy (t_sectionId t) \<and> section_project sections t \<noteq> Some pid)
      \<or> \<not> closed_status (t_status t) \<or> \<not> old_enough cutoff (t_archivedAt t) (updatedAt t))"

definition archived_project :: "project \<Rightarrow> bool" where
  "archived_project p = (p_status p = PArchived \<and> \<not> is_deleted p \<and> \<not> truthy (p_purgedAt p))"

definition project_expires :: "task list \<Rightarrow> section1 list \<Rightarrow> int \<Rightarrow> project \<Rightarrow> bool" where
  "project_expires tasks sections cutoff p =
     (archived_project p \<and> old_enough cutoff (p_archivedAt p) (updatedAt p)
      \<and> \<not> list_ex (section_blocks cutoff) (sections_of sections (eid p))
      \<and> \<not> list_ex (child_blocks sections cutoff (eid p)) (children_of tasks sections (eid p)))"

definition legacy_child :: "task \<Rightarrow> bool" where
  "legacy_child t = (\<not> is_deleted t \<and> closed_status (t_status t) \<and> \<not> hasValidArchiveClock (t_archivedAt t))"

definition getArchiveRetentionPreview ::
  "task list \<Rightarrow> project list \<Rightarrow> section1 list \<Rightarrow> int \<Rightarrow> int \<Rightarrow> retention_preview" where
  "getArchiveRetentionPreview tasks projects sections days nowMs =
     (if \<not> isArchiveRetentionDays days \<or> days = 0 then emptyPreview
      else
        (let cutoff = nowMs - days * DAY_MS;
             archived = filter archived_project projects;
             expiring = filter (project_expires tasks sections cutoff) projects
         in \<lparr>rp_taskIds = uniq (map eid (filter (\<lambda>t. t_status t = Archived \<and> \<not> is_deleted t
                  \<and> old_enough cutoff (t_archivedAt t) (updatedAt t)) (standalone_tasks tasks sections))
                @ concat (map (\<lambda>p. map eid (children_of tasks sections (eid p))) expiring)),
             rp_projectIds = map eid expiring,
             rp_sectionIds = concat (map (\<lambda>p. map eid (sections_of sections (eid p))) expiring),
             rp_legacyTaskIds = uniq (map eid (filter (\<lambda>t. \<not> is_deleted t \<and> \<not> truthy (t_purgedAt t)
                  \<and> t_status t = Archived \<and> \<not> hasValidArchiveClock (t_archivedAt t)) tasks)
                @ concat (map (\<lambda>p. map eid (filter legacy_child (children_of tasks sections (eid p)))) archived)),
             rp_legacyProjectIds = map eid (filter (\<lambda>p. \<not> hasValidArchiveClock (p_archivedAt p)) archived)\<rparr>))"

text \<open>\<open>backfillArchiveClocks\<close>: the records without a clock get the current time.\<close>

definition backfill_task :: "retention_preview \<Rightarrow> string \<Rightarrow> string \<Rightarrow> task \<Rightarrow> task" where
  "backfill_task preview now deviceId t =
     (if eid t \<in> set (rp_legacyTaskIds preview)
      then t\<lparr>t_archivedAt := Some now, updatedAt := now, rev := Some (nextRev (rev t)), revBy := Some deviceId\<rparr> else t)"

definition backfill_project :: "retention_preview \<Rightarrow> string \<Rightarrow> string \<Rightarrow> project \<Rightarrow> project" where
  "backfill_project preview now deviceId p =
     (if eid p \<in> set (rp_legacyProjectIds preview)
      then p\<lparr>p_archivedAt := Some now, updatedAt := now, rev := Some (nextRev (rev p)), revBy := Some deviceId\<rparr> else p)"

definition backfillArchiveClocks ::
  "task list \<Rightarrow> project list \<Rightarrow> retention_preview \<Rightarrow> string \<Rightarrow> string \<Rightarrow> task list \<times> project list" where
  "backfillArchiveClocks tasks projects preview now deviceId =
     (map (backfill_task preview now deviceId) tasks, map (backfill_project preview now deviceId) projects)"

subsection \<open>Remote deletions of purged attachments\<close>

text \<open>The cloud keys of file attachments whose owner is purged, respectively stays.\<close>

definition file_keys :: "attachment list option \<Rightarrow> string list" where
  "file_keys attachments =
     present_ids (map at_cloudKey (filter (\<lambda>a. at_kind a = FileKind) (or_else attachments [])))"

definition keys_of_tasks :: "(task \<Rightarrow> bool) \<Rightarrow> task list \<Rightarrow> string list" where
  "keys_of_tasks P tasks = concat (map (\<lambda>t. file_keys (t_attachments t)) (filter (\<lambda>t. \<not> truthy (t_purgedAt t) \<and> P t) tasks))"

definition keys_of_projects :: "(project \<Rightarrow> bool) \<Rightarrow> project list \<Rightarrow> string list" where
  "keys_of_projects P projects =
     concat (map (\<lambda>p. file_keys (p_attachments p)) (filter (\<lambda>p. \<not> truthy (p_purgedAt p) \<and> P p) projects))"

definition settingsWithPurgedParentAttachmentDeletes ::
  "settings \<Rightarrow> task list \<Rightarrow> project list \<Rightarrow> string list \<Rightarrow> string list \<Rightarrow> settings" where
  "settingsWithPurgedParentAttachmentDeletes st tasks projects purgedTaskIds purgedProjectIds =
     (let retained = keys_of_tasks (\<lambda>t. eid t \<notin> set purgedTaskIds) tasks
            @ keys_of_projects (\<lambda>p. eid p \<notin> set purgedProjectIds) projects;
          deleted = uniq (keys_of_tasks (\<lambda>t. eid t \<in> set purgedTaskIds) tasks
            @ keys_of_projects (\<lambda>p. eid p \<in> set purgedProjectIds) projects);
          pending = foldl (\<lambda>m e. AList.update (pd_cloudKey e) e m) [] (or_else (st_pendingRemoteDeletes st) []);
          new = filter (\<lambda>k. k \<notin> set retained \<and> map_of pending k = None) deleted
      in if new = [] then st
         else st\<lparr>st_pendingRemoteDeletes := Some (map snd pending @
                map (\<lambda>k. \<lparr>pd_cloudKey = k, pd_title = None, pd_attempts = None, pd_lastErrorAt = None\<rparr>) new)\<rparr>)"

subsection \<open>The store actions\<close>

text \<open>
  The part of the store the actions read and write; the retention period and the device are read
  from its settings.
\<close>

record retention_state =
  rs_tasks :: "task list"
  rs_projects :: "project list"
  rs_sections :: "section1 list"
  rs_settings :: settings
  rs_isLoading :: bool
  rs_persistenceFailure :: bool
  rs_editLockCount :: int
  rs_lastDataChangeAt :: int

definition rs_retentionDays :: "retention_state \<Rightarrow> int option" where
  "rs_retentionDays s = (case gtd_setting (rs_settings s) ''archiveRetentionDays'' of JNum n \<Rightarrow> Some n | _ \<Rightarrow> None)"

definition rs_deviceId :: "retention_state \<Rightarrow> string option" where
  "rs_deviceId s = str_of (obj_get ''deviceId'' (st_object (rs_settings s)))"

definition canWrite :: "retention_state \<Rightarrow> bool" where
  "canWrite s = (\<not> rs_isLoading s \<and> \<not> rs_persistenceFailure s \<and> rs_editLockCount s = 0 \<and> truthy (rs_deviceId s))"

definition saveFailure :: "string \<Rightarrow> string" where
  "saveFailure msg = ''Failed to save Archive retention: '' @ msg"

definition getNextDataChangeAt :: "int \<Rightarrow> int \<Rightarrow> int" where
  "getNextDataChangeAt previous now = max now (previous + 1)"

definition advanceLatestSyncTimestamp :: "string option list \<Rightarrow> string option" where
  "advanceLatestSyncTimestamp values =
     (let latest = foldl (\<lambda>m v. case date_parse (or_else v []) of Some n \<Rightarrow> if n > m then n else m | None \<Rightarrow> m) 0 values
      in to_iso_string (latest + 1))"

definition timestampAtLeastAfter :: "string \<Rightarrow> string option list \<Rightarrow> string" where
  "timestampAtLeastAfter floor known =
     (let beforeFloor = map_option (\<lambda>n. to_iso (n - 1)) (date_parse floor)
      in or_else (advanceLatestSyncTimestamp (beforeFloor # known)) floor)"

definition purge_task :: "retention_preview \<Rightarrow> string \<Rightarrow> string \<Rightarrow> task \<Rightarrow> task" where
  "purge_task preview now deviceId t =
     (if eid t \<in> set (rp_taskIds preview)
      then compactPurgedTaskForLocalStorage (t\<lparr>deletedAt := Some now, t_purgedAt := Some now, updatedAt := now,
             rev := Some (nextRev (rev t)), revBy := Some deviceId\<rparr>)
      else t)"

definition purge_project :: "retention_preview \<Rightarrow> string \<Rightarrow> string \<Rightarrow> project \<Rightarrow> project" where
  "purge_project preview now deviceId p =
     (if eid p \<in> set (rp_projectIds preview)
      then compactPurgedProjectForLocalStorage (p\<lparr>deletedAt := Some now, p_purgedAt := Some now, updatedAt := now,
             rev := Some (nextRev (rev p)), revBy := Some deviceId\<rparr>)
      else p)"

definition purge_section :: "retention_preview \<Rightarrow> string \<Rightarrow> string \<Rightarrow> section1 \<Rightarrow> section1" where
  "purge_section preview now deviceId s =
     (if eid s \<in> set (rp_sectionIds preview)
      then compactPurgedProjectSectionTombstone (s\<lparr>deletedAt := Some now, updatedAt := now,
             rev := Some (nextRev (rev s)), revBy := Some deviceId\<rparr>) now
      else s)"

definition nothing_to_do :: "retention_preview \<Rightarrow> bool" where
  "nothing_to_do v = (rp_taskIds v = [] \<and> rp_projectIds v = [] \<and> rp_sectionIds v = []
     \<and> rp_legacyTaskIds v = [] \<and> rp_legacyProjectIds v = [])"

text \<open>The state update of \<open>runArchiveRetention\<close>: the new state and whether it changed.\<close>

definition retention_update :: "int \<Rightarrow> retention_state \<Rightarrow> retention_state \<times> bool" where
  "retention_update nowMs s =
     (case rs_retentionDays s of
        None \<Rightarrow> (s, False)
      | Some days \<Rightarrow>
          if \<not> canWrite s \<or> \<not> isArchiveRetentionDays days \<or> days = 0 then (s, False)
          else
            (let now = to_iso nowMs; deviceId = the (rs_deviceId s);
                 v = getArchiveRetentionPreview (rs_tasks s) (rs_projects s) (rs_sections s) days nowMs
             in if nothing_to_do v then (s, False)
                else (case backfillArchiveClocks (rs_tasks s) (rs_projects s) v now deviceId of (tasks, projects) \<Rightarrow>
                  (s\<lparr>rs_tasks := map (purge_task v now deviceId) tasks,
                     rs_projects := map (purge_project v now deviceId) projects,
                     rs_sections := map (purge_section v now deviceId) (rs_sections s),
                     rs_settings := settingsWithPurgedParentAttachmentDeletes (rs_settings s)
                       (rs_tasks s) (rs_projects s) (rp_taskIds v) (rp_projectIds v),
                     rs_lastDataChangeAt := getNextDataChangeAt (rs_lastDataChangeAt s) nowMs\<rparr>, True))))"

text \<open>The actions; \<open>flush\<close> is the error of the save, where it failed.\<close>

definition runArchiveRetention :: "int \<Rightarrow> string option \<Rightarrow> retention_state \<Rightarrow> retention_state \<times> (string + unit)" where
  "runArchiveRetention nowMs flush s =
     (case retention_update nowMs s of (s', changed) \<Rightarrow>
        (s', case (changed, flush) of (True, Some msg) \<Rightarrow> Inl (saveFailure msg) | _ \<Rightarrow> Inr ()))"

definition days_update :: "int \<Rightarrow> int \<Rightarrow> retention_state \<Rightarrow> retention_state \<times> bool" where
  "days_update nowMs days s =
     (let now = to_iso nowMs;
          v = (if days > 0 then getArchiveRetentionPreview (rs_tasks s) (rs_projects s) (rs_sections s) days nowMs
               else emptyPreview);
          oldDays = or_else (rs_retentionDays s) 0
      in if oldDays = days \<and> rp_legacyTaskIds v = [] \<and> rp_legacyProjectIds v = [] then (s, False)
         else (case backfillArchiveClocks (rs_tasks s) (rs_projects s) v now (the (rs_deviceId s)) of (tasks, projects) \<Rightarrow>
           (s\<lparr>rs_tasks := tasks, rs_projects := projects,
              rs_settings := (if oldDays = days then rs_settings s
                else with_gtd_setting ''archiveRetentionDays'' (JNum days)
                  (timestampAtLeastAfter now [gtd_updated_at (rs_settings s)]) (rs_settings s)),
              rs_lastDataChangeAt := getNextDataChangeAt (rs_lastDataChangeAt s) nowMs\<rparr>, True)))"

definition setArchiveRetentionDays ::
  "int \<Rightarrow> int \<Rightarrow> string option \<Rightarrow> retention_state \<Rightarrow> retention_state \<times> (string + unit)" where
  "setArchiveRetentionDays nowMs days flush s =
     (if \<not> isArchiveRetentionDays days then (s, Inl ''Archive retention must be an integer from 0 to 36500 days'')
      else if \<not> canWrite s
        then (s, Inl ''Archive retention is unavailable while data is loading, editing, or unsaved'')
      else (case days_update nowMs days s of (s', changed) \<Rightarrow>
        (s', case (changed, flush) of (True, Some msg) \<Rightarrow> Inl (saveFailure msg) | _ \<Rightarrow> Inr ())))"

subsection \<open>What a run purges\<close>

lemma present_ids_iff: "k \<in> set (present_ids vs) \<longleftrightarrow> (\<exists>v\<in>set vs. truthy v \<and> the v = k)"
  by (auto simp: present_ids_def)

lemma owner_iff:
  "pid \<in> set (owner_ids sections t) \<longleftrightarrow>
     pid \<noteq> [] \<and> (t_projectId t = Some pid \<or> section_project sections t = Some pid)"
  unfolding owner_ids_def set_uniq present_ids_iff by (auto simp: truthy_def split: option.splits)

lemma child_fits:
  assumes "project_expires tasks sections cutoff p" and "t \<in> set (children_of tasks sections (eid p))"
  shows "\<not> is_deleted t \<and> \<not> truthy (t_purgedAt t) \<and> closed_status (t_status t) \<and> old_enough cutoff (t_archivedAt t) (updatedAt t)"
  using assms by (auto simp: project_expires_def child_blocks_def children_of_def list_ex_iff)

lemma preview_tasks:
  assumes "k \<in> set (rp_taskIds (getArchiveRetentionPreview tasks projects sections days nowMs))"
  shows "\<exists>t\<in>set tasks. eid t = k \<and> \<not> is_deleted t \<and> \<not> truthy (t_purgedAt t) \<and> closed_status (t_status t)
     \<and> old_enough (nowMs - days * DAY_MS) (t_archivedAt t) (updatedAt t)"
proof -
  have "k \<in> eid ` set (filter (\<lambda>t. t_status t = Archived \<and> \<not> is_deleted t
        \<and> old_enough (nowMs - days * DAY_MS) (t_archivedAt t) (updatedAt t)) (standalone_tasks tasks sections))
    \<or> (\<exists>p\<in>set projects. project_expires tasks sections (nowMs - days * DAY_MS) p \<and> k \<in> eid ` set (children_of tasks sections (eid p)))"
    using assms by (auto simp: getArchiveRetentionPreview_def Let_def emptyPreview_def split: if_splits)
  then show ?thesis
    by (fastforce simp: standalone_tasks_def closed_status_def children_of_def dest: child_fits)
qed

lemma preview_projects:
  assumes "v = getArchiveRetentionPreview tasks projects sections days nowMs"
  shows "k \<in> set (rp_projectIds v) \<longleftrightarrow> isArchiveRetentionDays days \<and> days \<noteq> 0
      \<and> (\<exists>p\<in>set projects. project_expires tasks sections (nowMs - days * DAY_MS) p \<and> eid p = k)"
    and "k \<in> set (rp_sectionIds v) \<longleftrightarrow> (\<exists>s\<in>set sections. eid s = k \<and> s_projectId s \<in> set (rp_projectIds v))"
  using assms by (auto simp: getArchiveRetentionPreview_def Let_def emptyPreview_def sections_of_def)

lemma preview_children:
  assumes "pid \<in> set (rp_projectIds (getArchiveRetentionPreview tasks projects sections days nowMs))"
    and "t \<in> set (children_of tasks sections pid)"
  shows "eid t \<in> set (rp_taskIds (getArchiveRetentionPreview tasks projects sections days nowMs))"
  using assms by (auto simp: getArchiveRetentionPreview_def Let_def emptyPreview_def split: if_splits)

lemma backfill_task_keeps [simp]:
  "eid (backfill_task v now dev t) = eid t" "t_projectId (backfill_task v now dev t) = t_projectId t"
  "t_sectionId (backfill_task v now dev t) = t_sectionId t" "t_purgedAt (backfill_task v now dev t) = t_purgedAt t"
  "deletedAt (backfill_task v now dev t) = deletedAt t"
  by (simp_all add: backfill_task_def)

lemma backfill_project_keeps [simp]:
  "eid (backfill_project v now dev p) = eid p" "p_purgedAt (backfill_project v now dev p) = p_purgedAt p"
  by (simp_all add: backfill_project_def)

lemma retention_changed:
  assumes "retention_update nowMs s = (s', True)" and "rs_retentionDays s = Some days"
    and "v = getArchiveRetentionPreview (rs_tasks s) (rs_projects s) (rs_sections s) days nowMs"
    and "now = to_iso nowMs" and "dev = the (rs_deviceId s)"
  shows "rs_tasks s' = map (\<lambda>t. purge_task v now dev (backfill_task v now dev t)) (rs_tasks s)
     \<and> rs_projects s' = map (\<lambda>p. purge_project v now dev (backfill_project v now dev p)) (rs_projects s)
     \<and> rs_sections s' = map (purge_section v now dev) (rs_sections s)
     \<and> rs_settings s' = settingsWithPurgedParentAttachmentDeletes (rs_settings s) (rs_tasks s) (rs_projects s)
          (rp_taskIds v) (rp_projectIds v)
     \<and> isArchiveRetentionDays days \<and> days \<noteq> 0 \<and> canWrite s"
  using assms by (auto simp: retention_update_def Let_def backfillArchiveClocks_def split: if_splits)

lemma to_iso_nonempty [simp]: "to_iso n \<noteq> []" "truthy (Some (to_iso n))"
  by (simp_all add: truthy_def to_iso_def Let_def split_beta show_clock_def)

lemma purge_task_cases:
  "eid t \<in> set (rp_taskIds v) \<Longrightarrow> truthy (Some now) \<Longrightarrow>
     is_deleted (purge_task v now dev t) \<and> eid (purge_task v now dev t) = eid t"
  "eid t \<notin> set (rp_taskIds v) \<Longrightarrow> purge_task v now dev t = t"
  by (simp_all add: purge_task_def compactPurgedTaskForLocalStorage_def compactPurgedTaskTombstone_def bare_task_def is_deleted_def)

lemma purge_project_cases:
  "eid p \<notin> set (rp_projectIds v) \<Longrightarrow> purge_project v now dev p = p"
  by (simp add: purge_project_def)

lemma queued_keys:
  assumes "st' = settingsWithPurgedParentAttachmentDeletes st tasks projects tids pids"
    and "list_ex (\<lambda>e. pd_cloudKey e = k) (or_else (st_pendingRemoteDeletes st') [])"
    and "\<not> list_ex (\<lambda>e. pd_cloudKey e = k) (or_else (st_pendingRemoteDeletes st) [])"
  shows "k \<notin> set (keys_of_tasks (\<lambda>t. eid t \<notin> set tids) tasks @ keys_of_projects (\<lambda>p. eid p \<notin> set pids) projects)"
proof -
  let ?old = "or_else (st_pendingRemoteDeletes st) []"
  have sub: "snd ` set (foldl (\<lambda>m e. AList.update (pd_cloudKey e) e m) m xs) \<subseteq> snd ` set m \<union> set xs"
    for m and xs :: "pending_delete list"
  proof (induction xs arbitrary: m)
    case (Cons x xs)
    have "snd ` set (AList.update (pd_cloudKey x) x m) \<subseteq> insert x (snd ` set m)"
      by (induction m) auto
    then show ?case using Cons[of "AList.update (pd_cloudKey x) x m"] by (simp only: foldl_Cons list.set) blast
  qed simp
  show ?thesis
    using assms sub[of "[]" ?old]
    unfolding settingsWithPurgedParentAttachmentDeletes_def Let_def
    by (auto simp: list_ex_iff split: if_splits)
qed

lemma retention_changes:
  "rs_retentionDays s = Some days \<Longrightarrow> canWrite s \<Longrightarrow> isArchiveRetentionDays days \<Longrightarrow> days \<noteq> 0 \<Longrightarrow>
   snd (retention_update nowMs s) =
     (\<not> nothing_to_do (getArchiveRetentionPreview (rs_tasks s) (rs_projects s) (rs_sections s) days nowMs))"
  by (simp add: retention_update_def Let_def backfillArchiveClocks_def)

lemma retention_eq_or_changed:
  "retention_update nowMs s = (s', c) \<Longrightarrow> (c = False \<and> s' = s) \<or> (c \<and> (\<exists>days. rs_retentionDays s = Some days))"
  by (auto simp: retention_update_def backfillArchiveClocks_def Let_def split: option.splits if_splits)

lemma listed_task_expired:
  assumes "eid t \<in> set (rp_taskIds (getArchiveRetentionPreview tasks projects sections days nowMs))"
    and "distinct (map eid tasks)" and "t \<in> set tasks"
  shows "\<not> is_deleted t \<and> closed_status (t_status t) \<and> old_enough (nowMs - days * DAY_MS) (t_archivedAt t) (updatedAt t)"
proof -
  obtain u where u: "u \<in> set tasks" "eid u = eid t" "\<not> is_deleted u" "closed_status (t_status u)"
    "old_enough (nowMs - days * DAY_MS) (t_archivedAt u) (updatedAt u)"
    using preview_tasks[OF assms(1)] by blast
  then have "u = t" using assms(2,3) by (auto simp: distinct_map inj_on_def)
  then show ?thesis using u by simp
qed

lemma kept_unlisted:
  assumes "retention_update nowMs s = (s', True)" and "rs_retentionDays s = Some days"
    and v: "v = getArchiveRetentionPreview (rs_tasks s) (rs_projects s) (rs_sections s) days nowMs"
    and "distinct (map eid (rs_tasks s))" and t: "t \<in> set (rs_tasks s)" "t \<in> set (rs_tasks s')"
  shows "eid t \<notin> set (rp_taskIds v)"
proof
  let ?now = "to_iso nowMs" and ?dev = "the (rs_deviceId s)"
  assume k: "eid t \<in> set (rp_taskIds v)"
  have live: "\<not> is_deleted t" using listed_task_expired[OF k[unfolded v] assms(4) t(1)] by simp
  obtain w where w: "t = purge_task v ?now ?dev (backfill_task v ?now ?dev w)"
    using retention_changed[OF assms(1,2) v refl refl] t(2) by auto
  have "eid w \<in> set (rp_taskIds v)" using k w purge_task_cases by (metis backfill_task_keeps(1))
  then have "is_deleted t" using w purge_task_cases(1)[of "backfill_task v ?now ?dev w" v ?now ?dev] by simp
  then show False using live by simp
qed

subsection \<open>What may go\<close>

text \<open>
  The rule in words of the records alone: both clocks readable and at least the period old, a task
  closed, a project with all its sections hidden by its archive and all its tasks closed.
\<close>

definition untouched_since :: "int \<Rightarrow> string option \<Rightarrow> string \<Rightarrow> bool" where
  "untouched_since cutoff archived updated =
     (\<exists>a u. archiveTime archived = Some a \<and> archiveTime (Some updated) = Some u \<and> a \<le> cutoff \<and> u \<le> cutoff)"

definition belongs_to :: "section1 list \<Rightarrow> task \<Rightarrow> string \<Rightarrow> bool" where
  "belongs_to sections t pid = (pid \<noteq> [] \<and> (t_projectId t = Some pid \<or>
     (\<exists>x\<in>set sections. truthy (t_sectionId t) \<and> t_sectionId t = Some (eid x) \<and> s_projectId x = pid)))"

definition task_may_go :: "int \<Rightarrow> task \<Rightarrow> bool" where
  "task_may_go cutoff t = (\<not> is_deleted t \<and> t_status t \<in> {Archived, Done, Reference} \<and>
     untouched_since cutoff (t_archivedAt t) (updatedAt t))"

definition project_may_go :: "task list \<Rightarrow> section1 list \<Rightarrow> int \<Rightarrow> project \<Rightarrow> bool" where
  "project_may_go tasks sections cutoff p =
     (p_status p = PArchived \<and> \<not> is_deleted p \<and> untouched_since cutoff (p_archivedAt p) (updatedAt p) \<and>
      (\<forall>x\<in>set sections. s_projectId x = eid p \<longrightarrow> is_deleted x \<and> truthy (s_projectArchivedAt x) \<and>
        (\<exists>u. archiveTime (Some (updatedAt x)) = Some u \<and> u \<le> cutoff)) \<and>
      (\<forall>t\<in>set tasks. belongs_to sections t (eid p) \<longrightarrow> truthy (t_purgedAt t) \<or> task_may_go cutoff t))"

lemma clock_before_iff: "clock_before cutoff v \<longleftrightarrow> (\<exists>n. archiveTime v = Some n \<and> n \<le> cutoff)"
  by (auto simp: clock_before_def split: option.split)

lemma old_enough_iff: "old_enough cutoff a u \<longleftrightarrow> untouched_since cutoff a u"
  by (auto simp: old_enough_def untouched_since_def clock_before_iff)

lemma belongs_child:
  assumes "distinct (map eid sections)" and "belongs_to sections t pid" and "t \<in> set tasks" and "\<not> truthy (t_purgedAt t)"
  shows "t \<in> set (children_of tasks sections pid)"
proof -
  have "section_project sections t = Some pid"
    if "x \<in> set sections" "truthy (t_sectionId t)" "t_sectionId t = Some (eid x)" "s_projectId x = pid" for x
    using js_map_of_distinct[OF assms(1) that(1)] that(2-4) by (simp add: section_project_def)
  then have "pid \<noteq> [] \<and> (t_projectId t = Some pid \<or> section_project sections t = Some pid)"
    using assms(2) unfolding belongs_to_def by blast
  then show ?thesis using assms(3,4) by (simp add: children_of_def owner_iff)
qed

lemma child_belongs: "t \<in> set (children_of tasks sections pid) \<Longrightarrow> belongs_to sections t pid"
  by (cases "t_sectionId t")
    (auto simp: children_of_def owner_iff belongs_to_def section_project_def dest!: js_map_SomeD split: if_splits)

lemma expires_may_go:
  assumes "project_expires tasks sections cutoff p" and "distinct (map eid sections)"
  shows "project_may_go tasks sections cutoff p"
proof -
  have "truthy (t_purgedAt t) \<or> task_may_go cutoff t" if "t \<in> set tasks" "belongs_to sections t (eid p)" for t
  proof (cases "truthy (t_purgedAt t)")
    case False
    then show ?thesis using child_fits[OF assms(1) belongs_child[OF assms(2) that(2,1) False]]
      by (simp add: task_may_go_def old_enough_iff closed_status_def)
  qed simp
  then show ?thesis using assms(1)
    by (auto simp: project_expires_def archived_project_def project_may_go_def old_enough_iff section_blocks_def
        sections_of_def list_ex_iff clock_before_iff)
qed

lemma listed_task_goes:
  assumes "k \<in> set (rp_taskIds (getArchiveRetentionPreview tasks projects sections days nowMs))"
    and "distinct (map eid sections)" and "cutoff = nowMs - days * DAY_MS"
  shows "\<exists>t\<in>set tasks. eid t = k \<and> task_may_go cutoff t \<and>
    (t_status t = Archived \<and> \<not> truthy (t_projectId t) \<and> \<not> truthy (t_sectionId t) \<or>
     (\<exists>p\<in>set projects. project_may_go tasks sections cutoff p \<and> belongs_to sections t (eid p)))"
proof -
  have "k \<in> eid ` set (filter (\<lambda>t. t_status t = Archived \<and> \<not> is_deleted t
        \<and> old_enough cutoff (t_archivedAt t) (updatedAt t)) (standalone_tasks tasks sections))
    \<or> (\<exists>p\<in>set projects. project_expires tasks sections cutoff p \<and> k \<in> eid ` set (children_of tasks sections (eid p)))"
    using assms(1,3) by (auto simp: getArchiveRetentionPreview_def Let_def emptyPreview_def split: if_splits)
  then show ?thesis
  proof (elim disjE bexE conjE imageE)
    fix t assume "k = eid t" "t \<in> set (filter (\<lambda>t. t_status t = Archived \<and> \<not> is_deleted t
        \<and> old_enough cutoff (t_archivedAt t) (updatedAt t)) (standalone_tasks tasks sections))"
    then show ?thesis
      by (intro bexI[of _ t]) (auto simp: standalone_tasks_def task_may_go_def old_enough_iff)
  next
    fix p t assume p: "p \<in> set projects" "project_expires tasks sections cutoff p" "k = eid t"
      and t: "t \<in> set (children_of tasks sections (eid p))"
    have "belongs_to sections t (eid p)"
      by (rule child_belongs[OF t])
    moreover have "task_may_go cutoff t"
      using child_fits[OF p(2) t] by (simp add: task_may_go_def old_enough_iff closed_status_def)
    moreover have "t \<in> set tasks" using t by (simp add: children_of_def)
    ultimately show ?thesis using p expires_may_go[OF p(2) assms(2)] by blast
  qed
qed

lemma purge_project_deleted:
  "eid p \<in> set (rp_projectIds v) \<Longrightarrow> truthy (Some now) \<Longrightarrow> is_deleted (purge_project v now dev p)"
  by (simp add: purge_project_def compactPurgedProjectForLocalStorage_def compactPurgedProjectTombstone_def
      bare_project_def is_deleted_def)

lemma kept_project_unlisted:
  assumes "retention_update nowMs s = (s', True)" and "rs_retentionDays s = Some days"
    and v: "v = getArchiveRetentionPreview (rs_tasks s) (rs_projects s) (rs_sections s) days nowMs"
    and "distinct (map eid (rs_projects s))" and p: "p \<in> set (rs_projects s)" "p \<in> set (rs_projects s')"
  shows "eid p \<notin> set (rp_projectIds v)"
proof
  let ?now = "to_iso nowMs" and ?dev = "the (rs_deviceId s)"
  assume k: "eid p \<in> set (rp_projectIds v)"
  then obtain q where "q \<in> set (rs_projects s)" "eid q = eid p"
    "project_expires (rs_tasks s) (rs_sections s) (nowMs - days * DAY_MS) q"
    using preview_projects(1)[OF v] by blast
  then have live: "\<not> is_deleted p"
    using assms(4) p(1) by (auto simp: distinct_map inj_on_def project_expires_def archived_project_def)
  obtain w where w: "p = purge_project v ?now ?dev (backfill_project v ?now ?dev w)"
    using retention_changed[OF assms(1,2) v refl refl] p(2) by auto
  have "eid p = eid w"
    by (simp add: w purge_project_def compactPurgedProjectForLocalStorage_def compactPurgedProjectTombstone_def bare_project_def)
  then have "is_deleted p" using w k purge_project_deleted[of "backfill_project v ?now ?dev w" v ?now ?dev] by simp
  then show False using live by simp
qed

lemma purged_task_goes:
  assumes "retention_update nowMs s = (s', True)" and "rs_retentionDays s = Some days"
    and "distinct (map eid (rs_tasks s))" and "distinct (map eid (rs_sections s))"
    and "i < length (rs_tasks s)" and "truthy (t_purgedAt (rs_tasks s' ! i))" and "\<not> truthy (t_purgedAt t)"
    and "t = rs_tasks s ! i" and "cutoff = nowMs - days * DAY_MS"
  shows "task_may_go cutoff t \<and> (t_status t = Archived \<and> \<not> truthy (t_projectId t) \<and> \<not> truthy (t_sectionId t) \<or>
    (\<exists>p\<in>set (rs_projects s). project_may_go (rs_tasks s) (rs_sections s) cutoff p \<and> belongs_to (rs_sections s) t (eid p)))"
proof -
  define v where "v = getArchiveRetentionPreview (rs_tasks s) (rs_projects s) (rs_sections s) days nowMs"
  note ch = retention_changed[OF assms(1,2) v_def refl refl]
  have "eid t \<in> set (rp_taskIds v)"
    using ch assms(5-8) purge_task_cases(2) by (metis backfill_task_keeps(1,4) nth_map)
  from listed_task_goes[OF this[unfolded v_def] assms(4,9)] obtain u where u: "u \<in> set (rs_tasks s)" "eid u = eid t"
    and g: "task_may_go cutoff u \<and> (t_status u = Archived \<and> \<not> truthy (t_projectId u) \<and> \<not> truthy (t_sectionId u) \<or>
    (\<exists>p\<in>set (rs_projects s). project_may_go (rs_tasks s) (rs_sections s) cutoff p \<and> belongs_to (rs_sections s) u (eid p)))"
    by blast
  have "u = t" using u assms(3,5,8) by (metis distinct_map inj_onD nth_mem)
  then show ?thesis using g by simp
qed

lemma purged_project_goes:
  assumes "retention_update nowMs s = (s', True)" and "rs_retentionDays s = Some days"
    and "distinct (map eid (rs_projects s))" and "distinct (map eid (rs_sections s))"
    and "i < length (rs_projects s)" and "truthy (p_purgedAt (rs_projects s' ! i))" and "\<not> truthy (p_purgedAt p)"
    and "p = rs_projects s ! i" and "cutoff = nowMs - days * DAY_MS"
  shows "project_may_go (rs_tasks s) (rs_sections s) cutoff p"
proof -
  define v where "v = getArchiveRetentionPreview (rs_tasks s) (rs_projects s) (rs_sections s) days nowMs"
  note ch = retention_changed[OF assms(1,2) v_def refl refl]
  have "eid p \<in> set (rp_projectIds v)"
    using ch assms(5-8) purge_project_cases by (metis backfill_project_keeps nth_map)
  then obtain q where q: "q \<in> set (rs_projects s)" "eid q = eid p" "project_expires (rs_tasks s) (rs_sections s) cutoff q"
    using preview_projects(1)[OF v_def] assms(9) by blast
  then have "q = p" using assms(3,5,8) by (metis distinct_map inj_onD nth_mem)
  then show ?thesis using expires_may_go[OF q(3) assms(4)] by simp
qed

lemma kept_files_stay:
  assumes "retention_update nowMs s = (s', True)" and "rs_retentionDays s = Some days"
    and "distinct (map eid (rs_tasks s))" and "distinct (map eid (rs_projects s))"
    and "list_ex (\<lambda>e. pd_cloudKey e = k) (or_else (st_pendingRemoteDeletes (rs_settings s')) [])"
    and "\<not> list_ex (\<lambda>e. pd_cloudKey e = k) (or_else (st_pendingRemoteDeletes (rs_settings s)) [])"
  shows "(\<forall>t\<in>set (rs_tasks s) \<inter> set (rs_tasks s'). \<not> truthy (t_purgedAt t) \<longrightarrow> k \<notin> set (file_keys (t_attachments t))) \<and>
    (\<forall>p\<in>set (rs_projects s) \<inter> set (rs_projects s'). \<not> truthy (p_purgedAt p) \<longrightarrow> k \<notin> set (file_keys (p_attachments p)))"
proof -
  define v where "v = getArchiveRetentionPreview (rs_tasks s) (rs_projects s) (rs_sections s) days nowMs"
  note ch = retention_changed[OF assms(1,2) v_def refl refl]
  have "k \<notin> set (keys_of_tasks (\<lambda>t. eid t \<notin> set (rp_taskIds v)) (rs_tasks s)
      @ keys_of_projects (\<lambda>p. eid p \<notin> set (rp_projectIds v)) (rs_projects s))"
    by (rule queued_keys[OF _ assms(5,6)]) (use ch in blast)
  then show ?thesis
    using kept_unlisted[OF assms(1,2) v_def assms(3)] kept_project_unlisted[OF assms(1,2) v_def assms(4)]
    by (auto simp: keys_of_tasks_def keys_of_projects_def)
qed

text \<open>
  C35: a retention run newly purges only records that may go. A purged task was live, closed and
  untouched for the whole retention period, and either archived with no project and no section or
  a task of a project that may go. A purged project was live, archived and itself untouched as
  long, with every section hidden by its archive and untouched as long, and every task of it, directly
  or in one of its sections, closed and untouched. No file of a task or a project that stays
  is queued for remote deletion.
\<close>

theorem retention_purges_only_expired:
  assumes "retention_update nowMs s = (s', c)" and "rs_retentionDays s = Some days" and "cutoff = nowMs - days * DAY_MS"
    and "distinct (map eid (rs_tasks s))" and "distinct (map eid (rs_projects s))" and "distinct (map eid (rs_sections s))"
  shows "(\<forall>i<length (rs_tasks s). truthy (t_purgedAt (rs_tasks s' ! i)) \<longrightarrow> \<not> truthy (t_purgedAt (rs_tasks s ! i)) \<longrightarrow>
          task_may_go cutoff (rs_tasks s ! i) \<and>
          (t_status (rs_tasks s ! i) = Archived \<and> \<not> truthy (t_projectId (rs_tasks s ! i)) \<and>
             \<not> truthy (t_sectionId (rs_tasks s ! i)) \<or>
           (\<exists>p\<in>set (rs_projects s). project_may_go (rs_tasks s) (rs_sections s) cutoff p \<and>
             belongs_to (rs_sections s) (rs_tasks s ! i) (eid p))))
     \<and> (\<forall>i<length (rs_projects s). truthy (p_purgedAt (rs_projects s' ! i)) \<longrightarrow> \<not> truthy (p_purgedAt (rs_projects s ! i)) \<longrightarrow>
          project_may_go (rs_tasks s) (rs_sections s) cutoff (rs_projects s ! i))
     \<and> (\<forall>k. list_ex (\<lambda>e. pd_cloudKey e = k) (or_else (st_pendingRemoteDeletes (rs_settings s')) []) \<longrightarrow>
          \<not> list_ex (\<lambda>e. pd_cloudKey e = k) (or_else (st_pendingRemoteDeletes (rs_settings s)) []) \<longrightarrow>
          (\<forall>t\<in>set (rs_tasks s) \<inter> set (rs_tasks s'). \<not> truthy (t_purgedAt t) \<longrightarrow> k \<notin> set (file_keys (t_attachments t))) \<and>
          (\<forall>p\<in>set (rs_projects s) \<inter> set (rs_projects s'). \<not> truthy (p_purgedAt p) \<longrightarrow> k \<notin> set (file_keys (p_attachments p))))"
proof (cases c)
  case False
  then have "s' = s" using retention_eq_or_changed[OF assms(1)] by simp
  then show ?thesis by auto
next
  case True
  note run = assms(1)[unfolded True[THEN eqTrueI]]
  note task = purged_task_goes[OF run assms(2,4,6) _ _ _ refl assms(3)]
    and project = purged_project_goes[OF run assms(2,5,6) _ _ _ refl assms(3)]
  show ?thesis
  proof (intro conjI allI impI, goal_cases)
    case (1 i)
    then show ?case by (rule task[THEN conjunct1])
  next
    case (2 i)
    then show ?case by (rule task[THEN conjunct2])
  next
    case (3 i)
    then show ?case by (rule project)
  next
    case (4 k)
    then show ?case by (rule kept_files_stay[OF run assms(2,4,5), THEN conjunct1])
  next
    case (5 k)
    then show ?case by (rule kept_files_stay[OF run assms(2,4,5), THEN conjunct2])
  qed
qed

text \<open>
  C36: after a retention run no live task belongs to a purged project, directly or through one of
  its sections.
\<close>

theorem retention_leaves_no_live_child:
  assumes "retention_update nowMs s = (s', c)" and "rs_retentionDays s = Some days"
    and "v = getArchiveRetentionPreview (rs_tasks s) (rs_projects s) (rs_sections s) days nowMs"
    and "distinct (map eid (rs_sections s))" and "[] \<notin> eid ` set (rs_projects s)"
    and "c" and "t \<in> set (rs_tasks s')" and "\<not> is_deleted t" and "\<not> truthy (t_purgedAt t)"
  shows "(case t_projectId t of None \<Rightarrow> True | Some k \<Rightarrow> k \<notin> set (rp_projectIds v))
     \<and> (case t_sectionId t of None \<Rightarrow> True | Some k \<Rightarrow> k = [] \<or> k \<notin> set (rp_sectionIds v))"
proof -
  let ?now = "to_iso nowMs" and ?dev = "the (rs_deviceId s)"
  have True: "retention_update nowMs s = (s', True)" using assms(1,6) by simp
  note ch = retention_changed[OF True assms(2,3) refl refl]
  obtain w where w: "w \<in> set (rs_tasks s)" "t = purge_task v ?now ?dev (backfill_task v ?now ?dev w)"
    using ch assms(7) by auto
  have kept: "eid w \<notin> set (rp_taskIds v)"
    using assms(8) w(2) purge_task_cases(1)[of "backfill_task v ?now ?dev w" v ?now ?dev] by auto
  then have t: "t_projectId t = t_projectId w" "t_sectionId t = t_sectionId w" "\<not> truthy (t_purgedAt w)"
    using w(2) assms(9) purge_task_cases(2)[of "backfill_task v ?now ?dev w" v] by auto
  have no_child: "pid \<notin> set (owner_ids (rs_sections s) w)" if "pid \<in> set (rp_projectIds v)" for pid
    using preview_children[OF that[unfolded assms(3)], of w] kept w(1) t(3) unfolding assms(3) by (auto simp: children_of_def)
  have ids: "pid \<noteq> []" if "pid \<in> set (rp_projectIds v)" for pid
    using preview_projects(1)[OF assms(3)] that assms(5) by force
  have "False" if "t_projectId w = Some k" "k \<in> set (rp_projectIds v)" for k
    using no_child[OF that(2)] ids[OF that(2)] that(1) by (simp add: owner_iff)
  moreover have "False" if k: "t_sectionId w = Some k" "k \<noteq> []" "k \<in> set (rp_sectionIds v)" for k
  proof -
    obtain x where x: "x \<in> set (rs_sections s)" "eid x = k" "s_projectId x \<in> set (rp_projectIds v)"
      using preview_projects(2)[OF assms(3)] k(3) by auto
    have "js_map_of eid (rs_sections s) k = Some x" using js_map_of_distinct[OF assms(4) x(1)] x(2) by simp
    then have "section_project (rs_sections s) w = Some (s_projectId x)"
      using k by (simp add: section_project_def truthy_def)
    then show False using no_child[OF x(3)] ids[OF x(3)] by (simp add: owner_iff)
  qed
  ultimately show ?thesis using t by (auto split: option.split)
qed

text \<open>An archived project with a section and a task, all untouched for years, and a new task beside.\<close>

definition old_stamp :: string where "old_stamp = ''2020-01-01T00:00:00.000Z''"

definition retention_sample :: retention_state where
  "retention_sample = \<lparr>
     rs_tasks = [(sample_task ''t1'')\<lparr>t_status := Done, t_projectId := Some ''p1'', t_archivedAt := Some old_stamp, updatedAt := old_stamp\<rparr>,
                 (sample_task ''t2'')\<lparr>t_status := Archived, t_archivedAt := Some old_stamp, updatedAt := old_stamp\<rparr>,
                 (sample_task ''t3'')\<lparr>t_status := Next, t_projectId := Some ''p2''\<rparr>],
     rs_projects = [(sample_project ''p1'')\<lparr>p_status := PArchived, p_archivedAt := Some old_stamp, updatedAt := old_stamp\<rparr>],
     rs_sections = [], rs_settings = empty_settings\<lparr>st_object :=
       [(''deviceId'', JStr ''d1''), (''gtd'', JObj [(''archiveRetentionDays'', JNum 365)])]\<rparr>,
     rs_isLoading = False, rs_persistenceFailure = False, rs_editLockCount = 0, rs_lastDataChangeAt = 0\<rparr>"

definition retention_now :: int where "retention_now = 1767312000000"

definition retention_after :: retention_state where
  "retention_after = fst (retention_update retention_now retention_sample)"

lemma sample_preview: "let v = getArchiveRetentionPreview (rs_tasks retention_sample) (rs_projects retention_sample)
     (rs_sections retention_sample) 365 retention_now in rp_taskIds v = [''t2'', ''t1''] \<and> rp_projectIds v = [''p1'']
     \<and> rp_legacyTaskIds v = []"
  by code_simp

definition sample_preview_data :: retention_preview where
  "sample_preview_data = getArchiveRetentionPreview (rs_tasks retention_sample) (rs_projects retention_sample)
     (rs_sections retention_sample) 365 retention_now"

lemma sample_days: "rs_retentionDays retention_sample = Some 365"
  by (simp add: retention_sample_def rs_retentionDays_def gtd_setting_def member_def obj_get_def)

lemma sample_changed: "retention_update retention_now retention_sample = (retention_after, True)"
proof -
  have "rp_taskIds sample_preview_data \<noteq> []" using sample_preview by (simp add: sample_preview_data_def Let_def)
  then have "snd (retention_update retention_now retention_sample)"
    by (subst retention_changes[OF sample_days])
       (simp_all add: nothing_to_do_def canWrite_def isArchiveRetentionDays_def truthy_def sample_days flip: sample_preview_data_def,
        simp_all add: retention_sample_def rs_deviceId_def str_of_def obj_get_def)
  then show ?thesis by (cases "retention_update retention_now retention_sample") (simp add: retention_after_def)
qed

lemma sample_device_id: "rs_deviceId retention_sample = Some ''d1''"
  by (simp add: retention_sample_def rs_deviceId_def str_of_def obj_get_def)

lemma sample_after:
  "truthy (t_purgedAt (rs_tasks retention_after ! 0)) \<and> \<not> truthy (t_purgedAt (rs_tasks retention_sample ! 0))
   \<and> length (rs_tasks retention_after) = 3 \<and> rs_tasks retention_after ! 2 = rs_tasks retention_sample ! 2"
proof -
  have v: "rp_taskIds sample_preview_data = [''t2'', ''t1'']" "rp_legacyTaskIds sample_preview_data = []"
    using sample_preview by (simp_all add: sample_preview_data_def Let_def)
  have "rs_tasks retention_after = map (\<lambda>t. purge_task sample_preview_data (to_iso retention_now) ''d1''
      (backfill_task sample_preview_data (to_iso retention_now) ''d1'' t)) (rs_tasks retention_sample)"
    using retention_changed[OF sample_changed sample_days sample_preview_data_def refl refl] by (simp add: sample_device_id)
  then show ?thesis
    by (simp add: retention_sample_def purge_task_def backfill_task_def v sample_task_def compactPurgedTaskForLocalStorage_def
        compactPurgedTaskTombstone_def bare_task_def)
qed

lemma sample_distinct: "distinct (map eid (rs_tasks retention_sample))" "distinct (map eid (rs_projects retention_sample))"
  "distinct (map eid (rs_sections retention_sample))" "[] \<notin> eid ` set (rs_projects retention_sample)"
  by (simp_all add: retention_sample_def sample_task_def sample_project_def)

theorem retention_purges_only_expired_witness:
  "truthy (t_purgedAt (rs_tasks retention_after ! 0)) \<and> task_may_go (retention_now - 365 * DAY_MS) (rs_tasks retention_sample ! 0)"
proof -
  have "0 < length (rs_tasks retention_sample)" by (simp add: retention_sample_def)
  then show ?thesis
    using retention_purges_only_expired[OF sample_changed sample_days refl sample_distinct(1-3), THEN conjunct1, rule_format, of 0]
      sample_after by simp
qed

theorem retention_leaves_no_live_child_witness:
  "case t_projectId (rs_tasks retention_after ! 2) of None \<Rightarrow> False | Some k \<Rightarrow> k \<notin> set (rp_projectIds sample_preview_data)"
proof -
  have m: "rs_tasks retention_after ! 2 \<in> set (rs_tasks retention_after)"
    using sample_after by (intro nth_mem) simp
  have t: "t_projectId (rs_tasks retention_after ! 2) = Some ''p2''"
    "\<not> is_deleted (rs_tasks retention_after ! 2)" "\<not> truthy (t_purgedAt (rs_tasks retention_after ! 2))"
    unfolding sample_after[THEN conjunct2, THEN conjunct2, THEN conjunct2]
    by (simp_all add: retention_sample_def sample_task_def is_deleted_def)
  then show ?thesis
    using retention_leaves_no_live_child[OF sample_changed sample_days sample_preview_data_def sample_distinct(3,4) TrueI m t(2,3)] t(1) by simp
qed

end
