(* ===== verification/StoreState.thy ===== *)
theory StoreState
  imports UpdateContainers ArchiveRetention
begin

text \<open>
  The state of the store and the one way its actions write: \<open>persist\<close> of \<open>store-helpers.ts\<close> builds
  the full snapshot, refusing one that would drop an existing record, hands it to the save queue,
  and the same collections become the state. The derived fields (\<open>tasks\<close>, \<open>_tasksById\<close>) are
  functions of the collections (\<open>prepareStoreStateUpdate\<close> of \<open>store.ts\<close>). An exception of a
  producer is \<open>Inl\<close> and leaves the state as it was.
\<close>

subsection \<open>The state\<close>

text \<open>
  \<open>so_saves\<close> holds the snapshots handed to the queue, the latest last; \<open>so_ids\<close> is the supply
  of identifiers, \<open>so_failed\<close> whether \<open>persistenceFailure\<close> is set.
\<close>

record 's store =
  so_tasks :: "task list"
  so_projects :: "project list"
  so_sections :: "section1 list"
  so_areas :: "area list"
  so_people :: "person list"
  so_settings :: settings
  so_lastDataChangeAt :: int
  so_error :: "string option"
  so_failed :: bool
  so_ids :: 's
  so_saves :: "app_data list"

datatype store_result = ActionOk "string option" | ActionFail string

type_synonym 's step_result = "(store_result \<times> 's store) checked"

definition task_by_id :: "'s store \<Rightarrow> string \<Rightarrow> task option" where
  "task_by_id st k = js_map_of eid (so_tasks st) k"

definition project_by_id :: "'s store \<Rightarrow> string \<Rightarrow> project option" where
  "project_by_id st k = js_map_of eid (so_projects st) k"

subsection \<open>Visible tasks\<close>

definition isTaskVisible :: "task \<Rightarrow> bool" where
  "isTaskVisible t = (\<not> truthy (deletedAt t) \<and> t_status t \<noteq> Archived)"

definition toVisibleTask :: "task \<Rightarrow> task" where
  "toVisibleTask t =
     (case t_attachments t of
        None \<Rightarrow> t
      | Some as \<Rightarrow> t\<lparr>t_attachments := Some (filter (\<lambda>a. \<not> truthy (deletedAt a)) as)\<rparr>)"

definition selectVisibleTasks :: "task list \<Rightarrow> task list" where
  "selectVisibleTasks tasks = map toVisibleTask (filter isTaskVisible tasks)"

definition getFocusedCount :: "host \<Rightarrow> int \<Rightarrow> 's store \<Rightarrow> nat" where
  "getFocusedCount h now st = selectFocusedCount h (selectVisibleTasks (so_tasks st)) now"

subsection \<open>Errors\<close>

definition isPersistentStoreError :: "string option \<Rightarrow> bool" where
  "isPersistentStoreError e = (case e of None \<Rightarrow> False | Some m \<Rightarrow> starts_with ''Save queue overflow:'' m)"

definition set_error :: "string option \<Rightarrow> 's store \<Rightarrow> 's store" where
  "set_error e st =
     (if isPersistentStoreError (so_error st) \<and> truthy e \<and> \<not> isPersistentStoreError e
      then st else st\<lparr>so_error := e\<rparr>)"

definition refuse :: "string \<Rightarrow> 's store \<Rightarrow> 's step_result" where
  "refuse message st = Inr (ActionFail message, set_error (Some message) st)"

subsection \<open>The device\<close>

definition device_of :: "settings \<Rightarrow> string option" where
  "device_of st = str_of (obj_get ''deviceId'' (st_object st))"

definition ensureDeviceId :: "'s id_supply \<Rightarrow> settings \<Rightarrow> 's \<Rightarrow> (settings \<times> string \<times> bool) \<times> 's" where
  "ensureDeviceId createId st s =
     (if truthy (device_of st) then ((st, or_else (device_of st) [], False), s)
      else (case createId s of (d, s') \<Rightarrow>
        ((st\<lparr>st_object := obj_set ''deviceId'' (JStr d) (st_object st)\<rparr>, d, True), s')))"

definition getNextDataChangeAt :: "int \<Rightarrow> int \<Rightarrow> int" where
  "getNextDataChangeAt previous now = max now (previous + 1)"

subsection \<open>Snapshots\<close>

record save_overrides =
  ov_tasks :: "task list option"
  ov_projects :: "project list option"
  ov_sections :: "section1 list option"
  ov_areas :: "area list option"
  ov_people :: "person list option"
  ov_settings :: "settings option"

definition no_overrides :: save_overrides where
  "no_overrides = \<lparr>ov_tasks = None, ov_projects = None, ov_sections = None, ov_areas = None,
     ov_people = None, ov_settings = None\<rparr>"

definition missing_ids :: "'a mergeable_scheme list \<Rightarrow> 'a mergeable_scheme list \<Rightarrow> string list" where
  "missing_ids nextItems previousItems =
     map eid (take 10 (filter (\<lambda>x. eid x \<notin> set (map eid nextItems)) previousItems))"

definition assertCollectionSnapshotIncludesExistingItems ::
    "string \<Rightarrow> 'a mergeable_scheme list option \<Rightarrow> 'a mergeable_scheme list \<Rightarrow> string option" where
  "assertCollectionSnapshotIncludesExistingItems label items previousItems =
     (case items of
        None \<Rightarrow> None
      | Some nextItems \<Rightarrow>
          (let missing = missing_ids nextItems previousItems
           in if missing = [] then None
              else Some (''Refusing to save a partial '' @ label @ '' snapshot; missing existing ids: '' @
                join_ids missing)))"

fun first_error :: "string option list \<Rightarrow> string option" where
  "first_error [] = None"
| "first_error (Some e # es) = Some e"
| "first_error (None # es) = first_error es"

definition snapshot_of :: "'s store \<Rightarrow> save_overrides \<Rightarrow> app_data" where
  "snapshot_of st ov = \<lparr>ad_tasks = or_else (ov_tasks ov) (so_tasks st),
     ad_projects = or_else (ov_projects ov) (so_projects st),
     ad_sections = or_else (ov_sections ov) (so_sections st),
     ad_areas = or_else (ov_areas ov) (so_areas st),
     ad_people = Some (or_else (ov_people ov) (so_people st)),
     ad_settings = or_else (ov_settings ov) (so_settings st)\<rparr>"

definition buildSaveSnapshot :: "'s store \<Rightarrow> save_overrides \<Rightarrow> app_data checked" where
  "buildSaveSnapshot st ov =
     (case first_error [
          assertCollectionSnapshotIncludesExistingItems ''task'' (ov_tasks ov) (so_tasks st),
          assertCollectionSnapshotIncludesExistingItems ''project'' (ov_projects ov) (so_projects st),
          assertCollectionSnapshotIncludesExistingItems ''section'' (ov_sections ov) (so_sections st),
          assertCollectionSnapshotIncludesExistingItems ''area'' (ov_areas ov) (so_areas st),
          assertCollectionSnapshotIncludesExistingItems ''person'' (ov_people ov) (so_people st)] of
        Some e \<Rightarrow> Inl e
      | None \<Rightarrow> Inr (snapshot_of st ov))"

text \<open>
  \<open>persist\<close> and the value its producer returns, which hold the same collections: the snapshot goes
  to the queue and becomes the state.
\<close>

definition write_overrides :: "int \<Rightarrow> save_overrides \<Rightarrow> 's store \<Rightarrow> 's store" where
  "write_overrides changeAt ov st = st\<lparr>
     so_tasks := or_else (ov_tasks ov) (so_tasks st),
     so_projects := or_else (ov_projects ov) (so_projects st),
     so_sections := or_else (ov_sections ov) (so_sections st),
     so_areas := or_else (ov_areas ov) (so_areas st),
     so_people := or_else (ov_people ov) (so_people st),
     so_settings := or_else (ov_settings ov) (so_settings st),
     so_lastDataChangeAt := getNextDataChangeAt (so_lastDataChangeAt st) changeAt\<rparr>"

definition commit :: "int \<Rightarrow> save_overrides \<Rightarrow> store_result \<Rightarrow> 's store \<Rightarrow> 's step_result" where
  "commit changeAt ov r st =
     (case buildSaveSnapshot st ov of
        Inl e \<Rightarrow> Inl e
      | Inr snapshot \<Rightarrow> Inr (r, (write_overrides changeAt ov st)\<lparr>so_saves := so_saves st @ [snapshot]\<rparr>))"

definition persistSnapshot :: "'s store \<Rightarrow> 's store checked" where
  "persistSnapshot st =
     (case buildSaveSnapshot st no_overrides of
        Inl e \<Rightarrow> Inl e | Inr snapshot \<Rightarrow> Inr (st\<lparr>so_saves := so_saves st @ [snapshot]\<rparr>))"

text \<open>\<open>await flushPendingSave()\<close>: \<open>flushed\<close> is the message of its exception, if it throws.\<close>

definition after_flush :: "string \<Rightarrow> string option \<Rightarrow> store_result \<times> 's store \<Rightarrow> 's step_result" where
  "after_flush what flushed rs =
     (case flushed of None \<Rightarrow> Inr rs | Some detail \<Rightarrow> refuse (what @ detail) (snd rs))"

definition save_again :: "string \<Rightarrow> string option \<Rightarrow> 's store \<Rightarrow> 's step_result" where
  "save_again what flushed st =
     (case persistSnapshot st of
        Inl e \<Rightarrow> refuse (what @ e) st
      | Inr st' \<Rightarrow> after_flush what flushed (ActionOk None, st'))"

text \<open>A producer's identifiers: with the device identifier first when it has to be made.\<close>

definition with_device :: "'s id_supply \<Rightarrow> 's store \<Rightarrow> (settings \<Rightarrow> string \<Rightarrow> bool \<Rightarrow> 's store \<Rightarrow> 's step_result) \<Rightarrow>
    's step_result" where
  "with_device createId st f =
     (case ensureDeviceId createId (so_settings st) (so_ids st) of
        ((settings1, deviceId, updated), s) \<Rightarrow> f settings1 deviceId updated (st\<lparr>so_ids := s\<rparr>))"

definition device_override :: "settings \<Rightarrow> bool \<Rightarrow> settings option" where
  "device_override settings1 updated = (if updated then Some settings1 else None)"

end
