(* ===== verification/TaskActions.thy ===== *)
theory TaskActions
  imports StoreState
begin

text \<open>
  The task actions of the store (\<open>createTaskActions\<close> of \<open>store-tasks.ts\<close>) that edit, complete,
  delete, restore and purge tasks, alone and in batches. Each is a function from the state to its
  result and the new state; \<open>now\<close> is the reading of the clock, in milliseconds.
\<close>

subsection \<open>Settings with statistics compare\<close>

text \<open>The statistics of the last sync count conflicts by reason; the reasons are finitely many.\<close>

instantiation conflict_reason :: enum
begin

definition enum_conflict_reason :: "conflict_reason list" where
  "enum_conflict_reason = [Revision, DeleteState, Content]"

definition enum_all_conflict_reason :: "(conflict_reason \<Rightarrow> bool) \<Rightarrow> bool" where
  "enum_all_conflict_reason P = (P Revision \<and> P DeleteState \<and> P Content)"

definition enum_ex_conflict_reason :: "(conflict_reason \<Rightarrow> bool) \<Rightarrow> bool" where
  "enum_ex_conflict_reason P = (P Revision \<or> P DeleteState \<or> P Content)"

instance
proof
  have all: "(UNIV :: conflict_reason set) = {Revision, DeleteState, Content}"
    by (auto intro: conflict_reason.exhaust)
  show "(UNIV :: conflict_reason set) = set enum_class.enum" by (simp add: all enum_conflict_reason_def)
  show "distinct (enum_class.enum :: conflict_reason list)" by (simp add: enum_conflict_reason_def)
  show "\<And>P. enum_class.enum_all P = Ball (UNIV :: conflict_reason set) P"
    by (simp add: all enum_all_conflict_reason_def)
  show "\<And>P. enum_class.enum_ex P = Bex (UNIV :: conflict_reason set) P"
    by (simp add: all enum_ex_conflict_reason_def)
qed

end

subsection \<open>Mutations of selected tasks\<close>

definition planTaskMutations :: "task list \<Rightarrow> (task \<Rightarrow> task_patch) \<Rightarrow> string \<Rightarrow> string \<Rightarrow> task list" where
  "planTaskMutations tasks buildUpdates now deviceId =
     map (\<lambda>t. compactPurgedTaskForLocalStorage ((apply_patch t (buildUpdates t))\<lparr>
       updatedAt := now, rev := Some (nextRev (rev t)), revBy := Some deviceId\<rparr>)) tasks"

record 's mutation =
  mu_select :: "'s store \<Rightarrow> task list"
  mu_updates :: "'s store \<Rightarrow> string \<Rightarrow> task \<Rightarrow> task_patch"
  mu_settings :: "'s store \<Rightarrow> task list \<Rightarrow> settings \<Rightarrow> settings option"
  mu_missing :: "string option"
  mu_ensureDevice :: bool

definition mutation_of :: "('s store \<Rightarrow> task list) \<Rightarrow> ('s store \<Rightarrow> string \<Rightarrow> task \<Rightarrow> task_patch) \<Rightarrow> string option \<Rightarrow> 's mutation" where
  "mutation_of select updates missing = \<lparr>mu_select = select, mu_updates = updates,
     mu_settings = (\<lambda>st ts s. None), mu_missing = missing, mu_ensureDevice = False\<rparr>"

definition mutateTasks :: "'s id_supply \<Rightarrow> int \<Rightarrow> 's mutation \<Rightarrow> 's store \<Rightarrow> 's step_result" where
  "mutateTasks createId now options st =
     (let selectedTasks = mu_select options st
      in if selectedTasks = [] \<and> \<not> mu_ensureDevice options
         then Inr (case mu_missing options of Some m \<Rightarrow> ActionFail m | None \<Rightarrow> ActionOk None, st)
         else with_device createId st (\<lambda>settings1 deviceId updated st1.
           if selectedTasks = [] \<and> \<not> updated then Inr (ActionOk None, st1)
           else (let changedTasks = planTaskMutations selectedTasks (mu_updates options st (to_iso now))
                       (to_iso now) deviceId;
                     nextAllTasks = replaceEntitiesInArray (so_tasks st) changedTasks;
                     updatedSettings = mu_settings options st selectedTasks settings1;
                     nextSettings = or_else updatedSettings settings1;
                     settingsChanged = (updatedSettings \<noteq> None \<or> updated)
                 in commit now (no_overrides\<lparr>ov_tasks := Some nextAllTasks,
                      ov_settings := if settingsChanged then Some nextSettings else None\<rparr>) (ActionOk None) st1)))"

subsection \<open>The Trash\<close>

definition deleted_patch :: "string \<Rightarrow> task_patch" where
  "deleted_patch now = no_patch\<lparr>u_deletedAt := Some (Some now)\<rparr>"

definition selected_by_id :: "string \<Rightarrow> (task \<Rightarrow> bool) \<Rightarrow> 's store \<Rightarrow> task list" where
  "selected_by_id k P st = (case task_by_id st k of Some t \<Rightarrow> if P t then [t] else [] | None \<Rightarrow> [])"

definition deleteTask :: "'s id_supply \<Rightarrow> int \<Rightarrow> string \<Rightarrow> 's store \<Rightarrow> 's step_result" where
  "deleteTask createId now k st =
     mutateTasks createId now (mutation_of (selected_by_id k (\<lambda>t. True)) (\<lambda>st now t. deleted_patch now)
       (Some ''Task not found'')) st"

definition batchDeleteTasks :: "'s id_supply \<Rightarrow> int \<Rightarrow> string list \<Rightarrow> 's store \<Rightarrow> 's step_result" where
  "batchDeleteTasks createId now ids st =
     (if ids = [] then Inr (ActionOk None, st)
      else (let existing = map eid (filter (\<lambda>t. \<not> truthy (deletedAt t)) (so_tasks st));
                missing = uniq (filter (\<lambda>k. k \<notin> set existing) ids)
            in if missing \<noteq> [] then refuse (''Tasks not found: '' @ join_ids missing) st
               else mutateTasks createId now (mutation_of (\<lambda>st. filter (\<lambda>t. eid t \<in> set ids) (so_tasks st))
                 (\<lambda>st now t. deleted_patch now) None) st))"

definition live_project_ids :: "'s store \<Rightarrow> string set" where
  "live_project_ids st = set (map eid (filter (\<lambda>p. \<not> truthy (deletedAt p) \<and> \<not> truthy (p_purgedAt p)) (so_projects st)))"

definition sanitizeRestoredTaskContainerReferences :: "task \<Rightarrow> 's store \<Rightarrow> container_assignment" where
  "sanitizeRestoredTaskContainerReferences t st =
     (let projectId = normalizeOptionalContainerId (t_projectId t);
          sectionId = normalizeOptionalContainerId (t_sectionId t);
          areaId = normalizeOptionalContainerId (t_areaId t);
          liveSection = (case sectionId of None \<Rightarrow> None
            | Some k \<Rightarrow> find (\<lambda>s. eid s = k \<and> \<not> truthy (deletedAt s)) (so_sections st));
          sectionProjectId = (case liveSection of None \<Rightarrow> None
            | Some s \<Rightarrow> if s_projectId s \<in> live_project_ids st then Some (s_projectId s) else None);
          project1 = (case projectId of None \<Rightarrow> None
            | Some p \<Rightarrow> if p \<in> live_project_ids st then Some p else None);
          section2 = (if truthy sectionProjectId then sectionId else None);
          resolved = resolveTaskContainerHierarchy project1 section2 areaId sectionProjectId
      in if truthy (ca_areaId resolved) \<and>
           \<not> list_ex (\<lambda>a. Some (eid a) = ca_areaId resolved \<and> \<not> truthy (deletedAt a)) (so_areas st)
         then resolved\<lparr>ca_areaId := None\<rparr> else resolved)"

definition restored_patch :: "'s store \<Rightarrow> task \<Rightarrow> task_patch" where
  "restored_patch st t =
     (let r = sanitizeRestoredTaskContainerReferences t st
      in no_patch\<lparr>u_deletedAt := Some None, u_projectId := Some (ca_projectId r),
           u_sectionId := Some (ca_sectionId r), u_areaId := Some (ca_areaId r)\<rparr>)"

definition restoreTask :: "'s id_supply \<Rightarrow> int \<Rightarrow> string \<Rightarrow> 's store \<Rightarrow> 's step_result" where
  "restoreTask createId now k st =
     mutateTasks createId now (mutation_of (selected_by_id k (\<lambda>t. \<not> truthy (t_purgedAt t)))
       (\<lambda>st now t. restored_patch st t) (Some ''Task not found'')) st"

definition in_trash :: "task \<Rightarrow> bool" where
  "in_trash t = (truthy (deletedAt t) \<and> \<not> truthy (t_purgedAt t))"

definition restoreTasks :: "'s id_supply \<Rightarrow> int \<Rightarrow> string list \<Rightarrow> 's store \<Rightarrow> 's step_result" where
  "restoreTasks createId now ids st =
     mutateTasks createId now (mutation_of (\<lambda>st. filter (\<lambda>t. eid t \<in> set ids \<and> in_trash t) (so_tasks st))
       (\<lambda>st now t. restored_patch st t) (Some ''Tasks not found'')) st"

subsection \<open>Permanent deletion\<close>

definition purge_settings :: "'s store \<Rightarrow> task list \<Rightarrow> settings \<Rightarrow> settings option" where
  "purge_settings st selected settings1 =
     (let next1 = settingsWithPurgedParentAttachmentDeletes settings1 (so_tasks st) (so_projects st)
            (map eid selected) []
      in if next1 = settings1 then None else Some next1)"

definition purgeTask :: "'s id_supply \<Rightarrow> int \<Rightarrow> string \<Rightarrow> 's store \<Rightarrow> 's step_result" where
  "purgeTask createId now k st =
     (case task_by_id st k of
        Some t \<Rightarrow>
          if \<not> in_trash t then Inr (ActionFail ''Task is not in Trash'', st)
          else mutateTasks createId now
            ((mutation_of (selected_by_id k in_trash)
               (\<lambda>st now t. no_patch\<lparr>u_deletedAt := Some (Some (or_else (deletedAt t) now)), u_purgedAt := Some (Some now)\<rparr>)
               (Some ''Task not found''))\<lparr>mu_settings := purge_settings\<rparr>) st
      | None \<Rightarrow> Inr (ActionFail ''Task not found'', st))"

definition purged_patch :: "string \<Rightarrow> task_patch" where
  "purged_patch now = no_patch\<lparr>u_purgedAt := Some (Some now)\<rparr>"

definition purgeTasks :: "'s id_supply \<Rightarrow> int \<Rightarrow> string list \<Rightarrow> 's store \<Rightarrow> 's step_result" where
  "purgeTasks createId now ids st =
     mutateTasks createId now
       ((mutation_of (\<lambda>st. filter (\<lambda>t. eid t \<in> set ids \<and> in_trash t) (so_tasks st)) (\<lambda>st now t. purged_patch now)
         (Some ''Tasks not found''))\<lparr>mu_settings := purge_settings\<rparr>) st"

definition purgeDeletedTasks :: "'s id_supply \<Rightarrow> int \<Rightarrow> 's store \<Rightarrow> 's step_result" where
  "purgeDeletedTasks createId now st =
     mutateTasks createId now
       ((mutation_of (\<lambda>st. filter in_trash (so_tasks st)) (\<lambda>st now t. purged_patch now) None)
         \<lparr>mu_settings := purge_settings, mu_ensureDevice := True\<rparr>) st"

subsection \<open>Focus order and checklists\<close>

fun index_of :: "nat \<Rightarrow> string list \<Rightarrow> string \<Rightarrow> nat option" where
  "index_of n [] k = None"
| "index_of n (x # xs) k = (if x = k then Some n else index_of (Suc n) xs k)"

definition focusOrderTargets :: "string list \<Rightarrow> string \<Rightarrow> int option" where
  "focusOrderTargets orderedIds k = map_option int (index_of 0 (uniq orderedIds) k)"

definition changedFocusOrder :: "task \<Rightarrow> (string \<Rightarrow> int option) \<Rightarrow> int option" where
  "changedFocusOrder t targets =
     (case targets (eid t) of
        None \<Rightarrow> None | Some n \<Rightarrow> if t_focusOrder t \<noteq> Some n then Some n else None)"

definition reorderFocusedTasks :: "'s id_supply \<Rightarrow> int \<Rightarrow> string list \<Rightarrow> 's store \<Rightarrow> 's step_result" where
  "reorderFocusedTasks createId now orderedIds st =
     (if orderedIds = [] then Inr (ActionOk None, st)
      else (let targets = focusOrderTargets orderedIds
            in mutateTasks createId now (mutation_of
                 (\<lambda>st. filter (\<lambda>t. \<not> truthy (deletedAt t) \<and> changedFocusOrder t targets \<noteq> None) (so_tasks st))
                 (\<lambda>st now t. no_patch\<lparr>u_focusOrder := Some (targets (eid t))\<rparr>) None) st))"

definition buildResetTaskChecklistUpdates :: "task \<Rightarrow> task_patch" where
  "buildResetTaskChecklistUpdates t =
     (let wasDone = (t_status t = Done)
      in no_patch\<lparr>
        u_checklist := Some (map_option (map (\<lambda>i. i\<lparr>ci_isCompleted := False\<rparr>)) (t_checklist t)),
        u_status := Some (if wasDone then Next else t_status t),
        u_completedAt := Some (if wasDone then None else t_completedAt t),
        u_isFocusedToday := Some (if wasDone then Some False else t_isFocusedToday t)\<rparr>)"

definition resetTaskChecklist :: "'s id_supply \<Rightarrow> int \<Rightarrow> string \<Rightarrow> 's store \<Rightarrow> 's step_result" where
  "resetTaskChecklist createId now k st =
     mutateTasks createId now (mutation_of
       (selected_by_id k (\<lambda>t. \<not> truthy (deletedAt t) \<and> or_else (t_checklist t) [] \<noteq> []))
       (\<lambda>st now t. buildResetTaskChecklistUpdates t) (Some ''Task not found'')) st"

end
