(* ===== verification/TaskEdits.thy ===== *)
theory TaskEdits
  imports TaskActions
begin

text \<open>
  The editing actions of \<open>store-tasks.ts\<close>: \<open>updateTask\<close> with its Focus limit, the batch update, the
  skipped occurrence and the cancellation. \<open>flushed\<close> is the message of the exception of
  \<open>flushPendingSave\<close>, when it throws. The immediate single-row save of \<open>updateTask\<close> carries the same
  snapshot as the queued one, so both are the same hand-over here.
\<close>

subsection \<open>The Focus limit\<close>

definition DEFAULT_FOCUS_TASK_LIMIT :: int where "DEFAULT_FOCUS_TASK_LIMIT = 3"
definition MIN_FOCUS_TASK_LIMIT :: int where "MIN_FOCUS_TASK_LIMIT = 1"
definition MAX_FOCUS_TASK_LIMIT :: int where "MAX_FOCUS_TASK_LIMIT = 10"

text \<open>The stored value is a number or absent, the type of the field.\<close>

definition normalizeFocusTaskLimit :: "json \<Rightarrow> int" where
  "normalizeFocusTaskLimit value =
     (if \<not> is_finite_number value then DEFAULT_FOCUS_TASK_LIMIT
      else min MAX_FOCUS_TASK_LIMIT (max MIN_FOCUS_TASK_LIMIT (js_floor value)))"

definition focus_limit :: "'s store \<Rightarrow> int" where
  "focus_limit st = normalizeFocusTaskLimit (gtd_setting (so_settings st) ''focusTaskLimit'')"

definition fills_focus_slot :: "host \<Rightarrow> int \<Rightarrow> task \<Rightarrow> task_patch \<Rightarrow> bool" where
  "fills_focus_slot h now t prepared =
     (\<not> isTaskCountedAsFocused h t now \<and> isTaskCountedAsFocused h (apply_patch t prepared) now)"

subsection \<open>Retrying a failed reactivation\<close>

text \<open>The fields are compared by value, where the code compares objects by identity.\<close>

definition taskPatchIsUnchanged :: "task \<Rightarrow> task_patch \<Rightarrow> bool" where
  "taskPatchIsUnchanged t updates = (apply_patch t updates = t)"

definition retry_project :: "'s store \<Rightarrow> task \<times> task_patch \<Rightarrow> string option" where
  "retry_project st r =
     (case r of (t, updates) \<Rightarrow>
        if truthy (deletedAt t) \<or> truthy (t_purgedAt t) \<or> \<not> isTaskActionable (u_status updates) \<or>
          u_status updates = None \<or> \<not> truthy (t_projectId t) then None
        else (case project_by_id st (or_else (t_projectId t) []) of
            Some p \<Rightarrow> if p_status p = PActive \<and> \<not> truthy (deletedAt p) \<and> \<not> truthy (p_purgedAt p)
              then Some (eid p) else None
          | None \<Rightarrow> None))"

definition collectOptimisticReactivationRetryProjectIds :: "(task \<times> task_patch) list \<Rightarrow> 's store \<Rightarrow> string list" where
  "collectOptimisticReactivationRetryProjectIds requests st =
     (if \<not> so_failed st \<or> requests = [] then []
      else if \<not> list_all (\<lambda>r. taskPatchIsUnchanged (fst r) (snd r)) requests then []
      else uniq (List.map_filter (retry_project st) requests))"

subsection \<open>One update\<close>

definition settings_context :: "'s store \<Rightarrow> update_context" where
  "settings_context st = no_context\<lparr>uc_settings := Some (so_settings st)\<rparr>"

definition prepared_for :: "host \<Rightarrow> int \<Rightarrow> task \<Rightarrow> task_patch \<Rightarrow> 's store \<Rightarrow> string + task_patch" where
  "prepared_for h now t updates st = prepareTaskUpdatesForStore h now t updates (so_projects st)
     (so_sections st) (so_areas st) (settings_context st) True None"

definition effects_overrides :: "update_effects \<Rightarrow> save_overrides" where
  "effects_overrides e = no_overrides\<lparr>ov_tasks := Some (ue_tasks e), ov_projects := Some (ue_projects e),
     ov_sections := Some (ue_sections e)\<rparr>"

definition write_update :: "host \<Rightarrow> 's id_supply \<Rightarrow> int \<Rightarrow> string option \<Rightarrow> task \<Rightarrow> task_patch \<Rightarrow> 's store \<Rightarrow>
    's step_result" where
  "write_update h createId now flushed t prepared st =
     with_device createId st (\<lambda>settings1 deviceId updated st1.
       (case planTaskUpdateEffects h now createId t prepared (so_tasks st) (so_projects st) (so_sections st)
            (to_iso now) deviceId None (so_ids st1) of
          Inl e \<Rightarrow> Inl e
        | Inr (e, s) \<Rightarrow>
            (case commit now ((effects_overrides e)\<lparr>ov_settings := device_override settings1 updated\<rparr>)
                (ActionOk None) (st1\<lparr>so_ids := s\<rparr>) of
               Inl m \<Rightarrow> Inl m
             | Inr rs \<Rightarrow>
                 if ue_reactivated e = [] then Inr rs
                 else after_flush ''Failed to save task and project reactivation: '' flushed rs)))"

definition updateTask :: "host \<Rightarrow> 's id_supply \<Rightarrow> int \<Rightarrow> string option \<Rightarrow> string \<Rightarrow> task_patch \<Rightarrow> 's store \<Rightarrow>
    's step_result" where
  "updateTask h createId now flushed k updates st =
     (case task_by_id st k of
        None \<Rightarrow> refuse ''Task not found'' st
      | Some t \<Rightarrow>
          if invalid_cancellation updates
          then refuse ''Cancellation timestamp must be an ISO datetime with timezone'' st
          else if collectOptimisticReactivationRetryProjectIds [(t, updates)] st \<noteq> []
          then save_again ''Failed to save task and project reactivation: '' flushed st
          else (case prepared_for h now t updates st of
              Inl e \<Rightarrow> refuse e st
            | Inr prepared \<Rightarrow>
                if fills_focus_slot h now t prepared \<and> focus_limit st \<le> int (getFocusedCount h now st)
                then refuse (''Focus limit of '' @ show_int (focus_limit st) @ '' reached'') st
                else write_update h createId now flushed t prepared st))"

definition moveTask :: "host \<Rightarrow> 's id_supply \<Rightarrow> int \<Rightarrow> string option \<Rightarrow> string \<Rightarrow> task_status \<Rightarrow> 's store \<Rightarrow>
    's step_result" where
  "moveTask h createId now flushed k newStatus st =
     updateTask h createId now flushed k (no_patch\<lparr>u_status := Some newStatus\<rparr>) st"

subsection \<open>Cancellation\<close>

definition cancelTask :: "host \<Rightarrow> 's id_supply \<Rightarrow> int \<Rightarrow> string option \<Rightarrow> string \<Rightarrow> 's store \<Rightarrow> 's step_result" where
  "cancelTask h createId now flushed k st =
     (let what = ''Failed to save task cancellation: ''
      in case task_by_id st k of
           None \<Rightarrow> refuse ''Task not found'' st
         | Some t \<Rightarrow>
             if truthy (deletedAt t) \<or> truthy (t_purgedAt t) then refuse ''Task not found'' st
             else if \<not> isTaskCancelled (Some t) then
               (case updateTask h createId now flushed k
                   (no_patch\<lparr>u_status := Some Archived, u_cancelledAt := Some (Some (to_iso now))\<rparr>) st of
                  Inl e \<Rightarrow> Inl e
                | Inr (ActionFail m, st') \<Rightarrow> Inr (ActionFail m, st')
                | Inr (ActionOk _, st') \<Rightarrow> after_flush what flushed (ActionOk (Some k), st'))
             else if so_failed st then
               (case persistSnapshot st of
                  Inl e \<Rightarrow> Inl e | Inr st' \<Rightarrow> after_flush what flushed (ActionOk (Some k), st'))
             else after_flush what flushed (ActionOk (Some k), st))"

subsection \<open>A skipped occurrence\<close>

definition skipRecurringTaskOccurrence :: "host \<Rightarrow> 's id_supply \<Rightarrow> int \<Rightarrow> string option \<Rightarrow> string \<Rightarrow> 's store \<Rightarrow>
    's step_result" where
  "skipRecurringTaskOccurrence h createId now flushed k st =
     (case task_by_id st k of
        None \<Rightarrow> refuse ''Only an active fixed-schedule recurring task can be skipped'' st
      | Some t \<Rightarrow>
          if \<not> canSkipRecurringTaskOccurrence h t
          then refuse ''Only an active fixed-schedule recurring task can be skipped'' st
          else with_device createId st (\<lambda>settings1 deviceId updated st1.
            (case planSkippedRecurringOccurrence h now createId t (so_tasks st) (to_iso now) deviceId None
                (so_ids st1) of
               Inl e \<Rightarrow> Inl e
             | Inr ((_, _, tasks), s) \<Rightarrow>
                 (case commit now (no_overrides\<lparr>ov_tasks := Some tasks, ov_settings := device_override settings1 updated\<rparr>)
                     (ActionOk None) (st1\<lparr>so_ids := s\<rparr>) of
                    Inl m \<Rightarrow> Inl m
                  | Inr rs \<Rightarrow> after_flush ''Failed to save skipped occurrence: '' flushed rs))))"

subsection \<open>A batch\<close>

definition batch_requests :: "(string \<times> task_patch) list \<Rightarrow> 's store \<Rightarrow> (task \<times> task_patch) list" where
  "batch_requests updatesList st =
     List.map_filter (\<lambda>(k, u). map_option (\<lambda>t. (t, u)) (task_by_id st k)) updatesList"

definition batch_refusal :: "(string \<times> task_patch) list \<Rightarrow> 's store \<Rightarrow> bool" where
  "batch_refusal updatesList st =
     (list_ex (\<lambda>(_, u). invalid_cancellation u) updatesList \<or> duplicate_ids [] (map fst updatesList) \<noteq> [] \<or>
      list_ex (\<lambda>k. task_by_id st k = None) (map fst updatesList))"

definition write_batch :: "host \<Rightarrow> 's id_supply \<Rightarrow> int \<Rightarrow> string option \<Rightarrow> (string \<times> task_patch) list \<Rightarrow> 's store \<Rightarrow>
    's step_result" where
  "write_batch h createId now flushed prepared st =
     with_device createId st (\<lambda>settings1 deviceId updated st1.
       (case planTaskBatchUpdateEffects h now createId (map_of prepared) (so_tasks st) (so_projects st)
            (so_sections st) (to_iso now) deviceId (\<lambda>_. None) (so_ids st1) of
          Inl e \<Rightarrow> Inl e
        | Inr (e, s) \<Rightarrow>
            (case commit now (no_overrides\<lparr>ov_tasks := Some (pr_tasks (be_reactivation e)),
                 ov_projects := Some (pr_projects (be_reactivation e)),
                 ov_sections := Some (pr_sections (be_reactivation e)),
                 ov_settings := device_override settings1 updated\<rparr>) (ActionOk None) (st1\<lparr>so_ids := s\<rparr>) of
               Inl m \<Rightarrow> Inl m
             | Inr rs \<Rightarrow>
                 if pr_reactivated (be_reactivation e) = [] then Inr rs
                 else after_flush ''Failed to save tasks and project reactivation: '' flushed rs)))"

text \<open>The retry is looked for once the list itself is accepted, before any patch is prepared.\<close>

definition batchUpdateTasks :: "host \<Rightarrow> 's id_supply \<Rightarrow> int \<Rightarrow> string option \<Rightarrow> (string \<times> task_patch) list \<Rightarrow>
    's store \<Rightarrow> 's step_result" where
  "batchUpdateTasks h createId now flushed updatesList st =
     (if updatesList = [] then Inr (ActionOk None, st)
      else if \<not> batch_refusal updatesList st \<and>
        collectOptimisticReactivationRetryProjectIds (batch_requests updatesList st) st \<noteq> []
      then save_again ''Failed to save tasks and project reactivation: '' flushed st
      else (case prepareTaskBatchUpdatesForStore h now updatesList (so_tasks st) (so_projects st)
                (so_sections st) (so_areas st) (settings_context st) of
           Inl e \<Rightarrow> refuse e st
         | Inr prepared \<Rightarrow> write_batch h createId now flushed prepared st))"

definition batchMoveTasks :: "host \<Rightarrow> 's id_supply \<Rightarrow> int \<Rightarrow> string option \<Rightarrow> string list \<Rightarrow> task_status \<Rightarrow>
    's store \<Rightarrow> 's step_result" where
  "batchMoveTasks h createId now flushed ids newStatus st =
     batchUpdateTasks h createId now flushed (map (\<lambda>k. (k, no_patch\<lparr>u_status := Some newStatus\<rparr>)) ids) st"

end
