(* ===== verification/ProjectActions.thy ===== *)
theory ProjectActions
  imports StoreState
begin

text \<open>
  The project actions of the store (\<open>store-projects/project-actions.ts\<close>): creating, editing (with
  the lifecycle transition of the children), deleting, restoring, purging and duplicating projects.
\<close>

subsection \<open>Entity mutations\<close>

text \<open>
  \<open>mutateEntities\<close> of \<open>shared.ts\<close> without a settings patch: \<open>change\<close> applies the patch of one entity,
  or is \<open>None\<close> where \<open>buildUpdates\<close> returns \<open>null\<close>, and \<open>overrides\<close> writes the collection.
\<close>

definition mutateEntities :: "'s id_supply \<Rightarrow> int \<Rightarrow> ('s store \<Rightarrow> 'a mergeable_scheme list) \<Rightarrow>
    ('a mergeable_scheme list \<Rightarrow> save_overrides) \<Rightarrow> ('a mergeable_scheme \<Rightarrow> bool) \<Rightarrow>
    ('a mergeable_scheme \<Rightarrow> 'a mergeable_scheme option) \<Rightarrow> string option \<Rightarrow> 's store \<Rightarrow> 's step_result" where
  "mutateEntities createId now entities overrides select change missing st =
     (let selected = filter select (entities st);
          pending = List.map_filter (\<lambda>x. map_option (\<lambda>y. (x, y)) (change x)) selected
      in if selected = [] then
           Inr (case missing of Some m \<Rightarrow> ActionFail m | None \<Rightarrow> ActionOk None, st)
         else if pending = [] then Inr (ActionOk None, st)
         else with_device createId st (\<lambda>settings1 deviceId updated st1.
           let changed = map (\<lambda>(x, y). y\<lparr>updatedAt := to_iso now, rev := Some (nextRev (rev x)),
                 revBy := Some deviceId\<rparr>) pending
           in commit now ((overrides (replaceEntitiesInArray (entities st) changed))\<lparr>
                ov_settings := device_override settings1 updated\<rparr>) (ActionOk None) st1))"

definition touch :: "string \<Rightarrow> string \<Rightarrow> 'a mergeable_scheme \<Rightarrow> 'a mergeable_scheme" where
  "touch now deviceId x = x\<lparr>updatedAt := now, rev := Some (nextRev (rev x)), revBy := Some deviceId\<rparr>"

definition content_overrides :: "task list \<Rightarrow> project list \<Rightarrow> section1 list \<Rightarrow> settings option \<Rightarrow> save_overrides" where
  "content_overrides tasks projects sections settings1 = no_overrides\<lparr>ov_tasks := Some tasks,
     ov_projects := Some projects, ov_sections := Some sections, ov_settings := settings1\<rparr>"

subsection \<open>Creation\<close>

definition isSelectableProjectForTaskAssignment :: "project \<Rightarrow> bool" where
  "isSelectableProjectForTaskAssignment p = (\<not> truthy (deletedAt p) \<and> p_status p \<noteq> PArchived)"

definition findSelectableProjectByTitleAndArea ::
    "project list \<Rightarrow> string \<Rightarrow> string option \<Rightarrow> project option" where
  "findSelectableProjectByTitleAndArea projects title areaId =
     (let normalizedTitle = js_lower (js_trim title)
      in if normalizedTitle = [] then None
         else find (\<lambda>p. isSelectableProjectForTaskAssignment p \<and>
           js_lower (js_trim (p_title p)) = normalizedTitle \<and> p_areaId p = areaId) projects)"

definition order_max :: "int list \<Rightarrow> int" where
  "order_max orders = foldl max (-1) orders"

definition projectAreaOrderMax :: "project list \<Rightarrow> string option \<Rightarrow> int" where
  "projectAreaOrderMax projects areaId = order_max (map p_order (filter (\<lambda>p. p_areaId p = areaId) projects))"

definition live_area_name :: "area list \<Rightarrow> string option \<Rightarrow> string option" where
  "live_area_name areas areaId =
     (if truthy areaId
      then (case find (\<lambda>a. Some (eid a) = areaId \<and> \<not> truthy (deletedAt a)) areas of
          Some a \<Rightarrow> js_or (Some (js_trim (a_name a))) None | None \<Rightarrow> None)
      else None)"

definition default_project :: "string \<Rightarrow> string \<Rightarrow> string \<Rightarrow> int \<Rightarrow> bool \<Rightarrow> string \<Rightarrow> string \<Rightarrow> project" where
  "default_project id1 title color order sequential deviceId now =
     \<lparr>eid = id1, createdAt = now, updatedAt = now, deletedAt = None, rev = Some 1, revBy = Some deviceId,
      p_title = title, p_status = PActive, p_color = color, p_order = order, p_tagIds = [],
      p_isSequential = Some sequential, p_sequentialScope = None, p_taskSortBy = None,
      p_isFocused = Some False, p_supportNotes = None, p_attachments = None, p_startDate = None,
      p_dueDate = None, p_reviewAt = None, p_cancelledAt = None, p_archivedAt = None,
      p_areaId = None, p_areaTitle = None, p_viewSectionIds = None, p_purgedAt = None\<rparr>"

definition buildNewProject :: "string \<Rightarrow> string \<Rightarrow> project_update \<Rightarrow> project list \<Rightarrow> area list \<Rightarrow> settings \<Rightarrow>
    string \<Rightarrow> string \<Rightarrow> string \<Rightarrow> project" where
  "buildNewProject title color initialProps existingProjects existingAreas st deviceId now id1 =
     (let maxOrder = projectAreaOrderMax existingProjects (or_else (up_areaId initialProps) None);
          baseOrder = or_else (up_order initialProps) (maxOrder + 1);
          useSequentialDefault = (up_isSequential initialProps = None \<and>
            gtd_setting st ''defaultProjectFlowMode'' = JStr ''sequential'');
          baseProject = default_project id1 (js_trim title) color baseOrder useSequentialDefault deviceId now;
          project1 = (apply_project_update baseProject initialProps)\<lparr>p_tagIds := or_else (up_tagIds initialProps) []\<rparr>;
          lifecycleProject = normalizeProjectLifecycleFields
            ((apply_project_update project1 (normalizeProjectUpdate baseProject initialProps))\<lparr>
              p_archivedAt := if p_status project1 = PArchived then Some now else None\<rparr>);
          areaTitle = live_area_name existingAreas (p_areaId lifecycleProject)
      in lifecycleProject\<lparr>p_areaTitle := areaTitle\<rparr>)"

definition invalid_project_cancellation :: "project_update \<Rightarrow> bool" where
  "invalid_project_cancellation u =
     (case up_cancelledAt u of None \<Rightarrow> False
      | Some v \<Rightarrow> \<not> is_nullish v \<and> normalizeCancellationTimestamp v = None)"

definition addProject :: "'s id_supply \<Rightarrow> int \<Rightarrow> string \<Rightarrow> string \<Rightarrow> project_update \<Rightarrow> 's store \<Rightarrow>
    (project option \<times> 's store) checked" where
  "addProject createId now title color initialProps st =
     (if js_trim title = [] then Inr (None, set_error (Some ''Project title is required'') st)
      else if invalid_project_cancellation initialProps
      then Inr (None, set_error (Some ''Cancellation timestamp must be an ISO datetime with timezone'') st)
      else (case findSelectableProjectByTitleAndArea (so_projects st) (js_trim title)
                (or_else (up_areaId initialProps) None) of
           Some p \<Rightarrow> Inr (Some p, st)
         | None \<Rightarrow>
             (case ensureDeviceId createId (so_settings st) (so_ids st) of ((settings1, deviceId, updated), s) \<Rightarrow>
                (case createId s of (id1, s') \<Rightarrow>
                   (let p = buildNewProject title color initialProps (so_projects st) (so_areas st)
                          (so_settings st) deviceId (to_iso now) id1
                    in case commit now (no_overrides\<lparr>ov_projects := Some (so_projects st @ [p]),
                           ov_settings := device_override settings1 updated\<rparr>) (ActionOk None) (st\<lparr>so_ids := s'\<rparr>) of
                         Inl e \<Rightarrow> Inl e
                       | Inr (_, st') \<Rightarrow> Inr (Some p, st'))))))"

subsection \<open>Editing\<close>

record area_selection =
  as_metadataChanged :: bool
  as_fields :: "(string option \<times> string option) option"
  as_order :: "int option"

definition projectAreaSelection :: "project \<Rightarrow> project_update \<Rightarrow> project list \<Rightarrow> area list \<Rightarrow> area_selection" where
  "projectAreaSelection p updates projects areas =
     (case up_areaId updates of
        None \<Rightarrow> \<lparr>as_metadataChanged = False, as_fields = None, as_order = up_order updates\<rparr>
      | Some areaId \<Rightarrow>
          (let changed = (areaId \<noteq> p_areaId p);
               areaTitle = live_area_name areas areaId
           in \<lparr>as_metadataChanged = (changed \<or> areaTitle \<noteq> p_areaTitle p),
               as_fields = Some (areaId, areaTitle),
               as_order = (if changed \<and> up_order updates = None
                 then Some (projectAreaOrderMax projects areaId + 1) else up_order updates)\<rparr>))"

definition final_project_updates :: "project \<Rightarrow> project_update \<Rightarrow> area_selection \<Rightarrow> project_update" where
  "final_project_updates p lifecycle area1 =
     (let incomingStatus = or_else (up_status lifecycle) (p_status p);
          statusChanged = (incomingStatus \<noteq> p_status p);
          a = (case as_fields area1 of None \<Rightarrow> lifecycle
            | Some (areaId, areaTitle) \<Rightarrow> lifecycle\<lparr>up_areaId := Some areaId, up_areaTitle := Some areaTitle\<rparr>);
          o' = (case as_order area1 of None \<Rightarrow> a | Some n \<Rightarrow> a\<lparr>up_order := Some n\<rparr>)
      in if statusChanged \<and> incomingStatus \<noteq> PActive then o'\<lparr>up_isFocused := Some (Some False)\<rparr> else o')"

definition updateProject :: "'s id_supply \<Rightarrow> int \<Rightarrow> string \<Rightarrow> project_update \<Rightarrow> 's store \<Rightarrow> 's step_result" where
  "updateProject createId now k updates st =
     (if invalid_project_cancellation updates
      then refuse ''Cancellation timestamp must be an ISO datetime with timezone'' st
      else (case find (\<lambda>p. eid p = k) (so_projects st) of
           None \<Rightarrow> refuse ''Project not found'' st
         | Some oldProject \<Rightarrow>
             with_device createId st (\<lambda>settings1 deviceId updated st1.
               let lifecycle = applyProjectLifecycleTransition oldProject updates (so_tasks st)
                     (so_sections st) (to_iso now) (Some deviceId);
                   area1 = projectAreaSelection oldProject updates (so_projects st) (so_areas st);
                   final = final_project_updates oldProject (lt_projectUpdates lifecycle) area1;
                   projects = map (\<lambda>p. if eid p = k then stamp_project p final (to_iso now) (Some deviceId) else p)
                     (so_projects st)
               in commit now (content_overrides (lt_tasks lifecycle) projects (lt_sections lifecycle)
                    (device_override settings1 updated)) (ActionOk None) st1)))"

definition cancelProject :: "'s id_supply \<Rightarrow> int \<Rightarrow> string option \<Rightarrow> string \<Rightarrow> 's store \<Rightarrow> 's step_result" where
  "cancelProject createId now flushed k st =
     (let what = ''Failed to save project cancellation: ''
      in case project_by_id st k of
           None \<Rightarrow> refuse ''Project not found'' st
         | Some p \<Rightarrow>
             if truthy (deletedAt p) \<or> truthy (p_purgedAt p) then refuse ''Project not found'' st
             else if \<not> isProjectCancelled (Some p) then
               (case updateProject createId now k (no_project_update\<lparr>up_status := Some PArchived,
                    up_cancelledAt := Some (JStr (to_iso now))\<rparr>) st of
                  Inl e \<Rightarrow> Inl e
                | Inr (ActionFail m, st') \<Rightarrow> Inr (ActionFail m, st')
                | Inr (ActionOk _, st') \<Rightarrow> after_flush what flushed (ActionOk (Some k), st'))
             else if so_failed st then
               (case persistSnapshot st of
                  Inl e \<Rightarrow> Inl e | Inr st' \<Rightarrow> after_flush what flushed (ActionOk (Some k), st'))
             else after_flush what flushed (ActionOk (Some k), st))"

definition MAX_FOCUSED_PROJECTS :: nat where "MAX_FOCUSED_PROJECTS = 5"

definition countFocusedLiveProjects :: "project list \<Rightarrow> nat" where
  "countFocusedLiveProjects projects =
     length (filter (\<lambda>p. \<not> truthy (deletedAt p) \<and> p_isFocused p = Some True) projects)"

definition projectFocusToggleUpdate :: "project \<Rightarrow> nat \<Rightarrow> bool option" where
  "projectFocusToggleUpdate p focusedProjectCount =
     (let focused = (p_isFocused p = Some True)
      in if p_status p \<noteq> PActive \<and> \<not> focused then None
         else if \<not> focused \<and> MAX_FOCUSED_PROJECTS \<le> focusedProjectCount then None
         else Some (\<not> focused))"

definition toggleProjectFocus :: "'s id_supply \<Rightarrow> int \<Rightarrow> string \<Rightarrow> 's store \<Rightarrow> 's step_result" where
  "toggleProjectFocus createId now k st =
     mutateEntities createId now so_projects (\<lambda>ps. no_overrides\<lparr>ov_projects := Some ps\<rparr>) (\<lambda>p. eid p = k)
       (\<lambda>p. map_option (\<lambda>b. p\<lparr>p_isFocused := Some b\<rparr>)
         (projectFocusToggleUpdate p (countFocusedLiveProjects (so_projects st)))) None st"

subsection \<open>Deletion and restoration\<close>

definition project_tasks :: "string \<Rightarrow> section1 list \<Rightarrow> task list \<Rightarrow> task list" where
  "project_tasks k sections tasks =
     filter (\<lambda>t. t_projectId t = Some k \<or>
       (\<exists>s\<in>set sections. s_projectId s = k \<and> t_sectionId t = Some (eid s))) tasks"

definition detached :: "string \<Rightarrow> string \<Rightarrow> task \<Rightarrow> task" where
  "detached now deviceId t = touch now deviceId (t\<lparr>t_projectId := None, t_sectionId := None\<rparr>)"

record project_effect =
  pe_project :: project
  pe_tasks :: "task list"
  pe_sections :: "section1 list"

definition projectDeleteEffect :: "project \<Rightarrow> task list \<Rightarrow> section1 list \<Rightarrow> string \<Rightarrow> string \<Rightarrow> project_effect" where
  "projectDeleteEffect p tasks sections deviceId now =
     \<lparr>pe_project = touch now deviceId (p\<lparr>deletedAt := Some now\<rparr>),
      pe_tasks = map (detached now deviceId) (filter (\<lambda>t. \<not> truthy (deletedAt t)) tasks),
      pe_sections = map (\<lambda>s. touch now deviceId (s\<lparr>deletedAt := Some now\<rparr>))
        (filter (\<lambda>s. \<not> truthy (deletedAt s)) sections)\<rparr>"

definition write_effect :: "int \<Rightarrow> project_effect \<Rightarrow> settings option \<Rightarrow> 's store \<Rightarrow> 's step_result" where
  "write_effect now e settings1 st =
     commit now (content_overrides (replaceEntitiesInArray (so_tasks st) (pe_tasks e))
       (replaceEntitiesInArray (so_projects st) [pe_project e])
       (replaceEntitiesInArray (so_sections st) (pe_sections e)) settings1) (ActionOk None) st"

definition deleteProject :: "'s id_supply \<Rightarrow> int \<Rightarrow> string \<Rightarrow> 's store \<Rightarrow> 's step_result" where
  "deleteProject createId now k st =
     (case find (\<lambda>p. eid p = k \<and> \<not> truthy (deletedAt p)) (so_projects st) of
        None \<Rightarrow> refuse ''Project not found'' st
      | Some target \<Rightarrow>
          with_device createId st (\<lambda>settings1 deviceId updated st1.
            let e = projectDeleteEffect target (project_tasks k (so_sections st) (so_tasks st))
                  (filter (\<lambda>s. s_projectId s = k) (so_sections st)) deviceId (to_iso now)
            in write_effect now e (device_override settings1 updated) st1))"

definition projectRestoreEffect :: "project \<Rightarrow> task list \<Rightarrow> section1 list \<Rightarrow> area option \<Rightarrow> string \<Rightarrow> string \<Rightarrow>
    project_effect" where
  "projectRestoreEffect target tasks sections area1 deviceId now =
     (let restoredArea = (case area1 of None \<Rightarrow> None
            | Some a \<Rightarrow> if Some (eid a) = p_areaId target \<and> \<not> truthy (deletedAt a) then Some a else None);
          restoredSectionIds = map eid (filter (\<lambda>s. \<not> truthy (deletedAt s) \<or> deletedAt s = deletedAt target) sections)
      in \<lparr>pe_project = touch now deviceId (target\<lparr>deletedAt := None,
            p_areaId := (if restoredArea = None then None else p_areaId target),
            p_areaTitle := (case restoredArea of None \<Rightarrow> None
              | Some a \<Rightarrow> if js_trim (or_else (p_areaTitle target) []) \<noteq> [] then p_areaTitle target
                  else Some (a_name a))\<rparr>),
          pe_tasks = map (\<lambda>t. touch now deviceId (t\<lparr>deletedAt := None,
              t_sectionId := (if truthy (t_sectionId t) \<and> the (t_sectionId t) \<in> set restoredSectionIds
                then t_sectionId t else None)\<rparr>))
            (filter (\<lambda>t. deletedAt t = deletedAt target \<and> \<not> truthy (t_purgedAt t)) tasks),
          pe_sections = map (\<lambda>s. touch now deviceId (s\<lparr>deletedAt := None\<rparr>))
            (filter (\<lambda>s. deletedAt s = deletedAt target) sections)\<rparr>)"

definition restoreProject :: "'s id_supply \<Rightarrow> int \<Rightarrow> string \<Rightarrow> 's store \<Rightarrow> 's step_result" where
  "restoreProject createId now k st =
     (case find (\<lambda>p. eid p = k) (so_projects st) of
        None \<Rightarrow> Inr (ActionFail ''Project not found'', st)
      | Some target \<Rightarrow>
          if truthy (p_purgedAt target) then Inr (ActionFail ''Project not found'', st)
          else if \<not> truthy (deletedAt target) then Inr (ActionOk None, st)
          else with_device createId st (\<lambda>settings1 deviceId updated st1.
            let e = projectRestoreEffect target (filter (\<lambda>t. t_projectId t = Some k) (so_tasks st))
                  (filter (\<lambda>s. s_projectId s = k) (so_sections st))
                  (find (\<lambda>a. Some (eid a) = p_areaId target) (so_areas st)) deviceId (to_iso now)
            in write_effect now e (device_override settings1 updated) st1))"

subsection \<open>Permanent deletion\<close>

text \<open>The common part of \<open>purgeProject\<close> and \<open>purgeDeletedProjects\<close>.\<close>

definition purge_projects :: "'s id_supply \<Rightarrow> int \<Rightarrow> string list \<Rightarrow> 's store \<Rightarrow> 's step_result" where
  "purge_projects createId now ids st =
     with_device createId st (\<lambda>settings1 deviceId updated st1.
       let iso1 = to_iso now;
           sectionIds = map eid (filter (\<lambda>s. s_projectId s \<in> set ids) (so_sections st));
           nextSettings = settingsWithPurgedParentAttachmentDeletes settings1 (so_tasks st) (so_projects st) [] ids;
           settingsChanged = (updated \<or> nextSettings \<noteq> settings1);
           projects = map (\<lambda>p. if eid p \<in> set ids
             then compactPurgedProjectForLocalStorage (touch iso1 deviceId
               (p\<lparr>deletedAt := Some (or_else (deletedAt p) iso1), p_purgedAt := Some iso1\<rparr>)) else p) (so_projects st);
           sections = map (\<lambda>s. if eid s \<in> set sectionIds
             then compactPurgedProjectSectionTombstone (touch iso1 deviceId (s\<lparr>deletedAt := Some iso1\<rparr>)) iso1
             else s) (so_sections st);
           tasks = map (\<lambda>t. if \<not> truthy (deletedAt t) \<and>
               (truthy (t_projectId t) \<and> the (t_projectId t) \<in> set ids \<or>
                truthy (t_sectionId t) \<and> the (t_sectionId t) \<in> set sectionIds)
             then detached iso1 deviceId t else t) (so_tasks st)
       in commit now (content_overrides tasks projects sections
            (if settingsChanged then Some nextSettings else None)) (ActionOk None) st1)"

definition project_in_trash :: "project \<Rightarrow> bool" where
  "project_in_trash p = (truthy (deletedAt p) \<and> \<not> truthy (p_purgedAt p))"

definition purgeProject :: "'s id_supply \<Rightarrow> int \<Rightarrow> string \<Rightarrow> 's store \<Rightarrow> 's step_result" where
  "purgeProject createId now k st =
     (if \<not> list_ex (\<lambda>p. eid p = k \<and> project_in_trash p) (so_projects st)
      then refuse ''Project not found'' st
      else purge_projects createId now [k] st)"

definition purgeDeletedProjects :: "'s id_supply \<Rightarrow> int \<Rightarrow> 's store \<Rightarrow> 's step_result" where
  "purgeDeletedProjects createId now st =
     (let ids = map eid (filter project_in_trash (so_projects st))
      in if ids = [] then Inr (ActionOk None, st) else purge_projects createId now ids st)"

end
