(* ===== verification/ContainerActions.thy ===== *)
theory ContainerActions
  imports TaskActions ProjectActions
begin

text \<open>
  The actions that build records from others: the sections (\<open>store-projects/section-actions.ts\<close>), the
  deletion and restoration of an area (\<open>store-projects/area-actions.ts\<close>), the copies of a task and
  of a project, and the conversion of a task to a section of its project.
\<close>

subsection \<open>Sections\<close>

text \<open>The fields of a \<open>Partial<Section>\<close> a caller sets.\<close>

record section_patch =
  sx_title :: "string option"
  sx_description :: "string option option"
  sx_order :: "int option"
  sx_isCollapsed :: "bool option option"
  sx_createdAt :: "string option"

definition projectSectionOrderMax :: "section1 list \<Rightarrow> string \<Rightarrow> int" where
  "projectSectionOrderMax sections projectId =
     order_max (map s_order (filter (\<lambda>s. s_projectId s = projectId \<and> \<not> truthy (deletedAt s)) sections))"

definition buildNewSection :: "string \<Rightarrow> string \<Rightarrow> string \<Rightarrow> section_patch \<Rightarrow> int \<Rightarrow> string \<Rightarrow> string \<Rightarrow> section1" where
  "buildNewSection id1 projectId title initialProps orderMax deviceId now =
     \<lparr>eid = id1, createdAt = or_else (sx_createdAt initialProps) now, updatedAt = now, deletedAt = None,
      rev = Some 1, revBy = Some deviceId, s_projectId = projectId, s_title = js_trim title,
      s_description = or_else (sx_description initialProps) None,
      s_order = or_else (sx_order initialProps) (orderMax + 1),
      s_isCollapsed = Some (or_else (or_else (sx_isCollapsed initialProps) None) False),
      s_deletedAtBeforeProjectArchive = None, s_projectArchivedAt = None\<rparr>"

definition addSection :: "'s id_supply \<Rightarrow> int \<Rightarrow> string \<Rightarrow> string \<Rightarrow> section_patch \<Rightarrow> 's store \<Rightarrow>
    (section1 option \<times> 's store) checked" where
  "addSection createId now projectId title initialProps st =
     (if projectId = [] \<or> js_trim title = [] then Inr (None, st)
      else if \<not> live_with_id projectId (so_projects st) then Inr (None, st)
      else (case ensureDeviceId createId (so_settings st) (so_ids st) of ((settings1, deviceId, updated), s) \<Rightarrow>
        (case createId s of (id1, s') \<Rightarrow>
          (let x = buildNewSection id1 projectId title initialProps
                 (projectSectionOrderMax (so_sections st) projectId) deviceId (to_iso now)
           in case commit now (no_overrides\<lparr>ov_sections := Some (so_sections st @ [x]),
                  ov_settings := device_override settings1 updated\<rparr>) (ActionOk None) (st\<lparr>so_ids := s'\<rparr>) of
                Inl e \<Rightarrow> Inl e
              | Inr (_, st') \<Rightarrow> Inr (Some x, st')))))"

definition edited_section :: "section_patch \<Rightarrow> section1 \<Rightarrow> section1 option" where
  "edited_section updates s =
     (let nextTitle = (case sx_title updates of Some v \<Rightarrow> js_trim v | None \<Rightarrow> s_title s)
      in if nextTitle = [] then None
         else Some (s\<lparr>s_title := nextTitle,
           s_description := or_else (sx_description updates) (s_description s),
           s_order := or_else (sx_order updates) (s_order s),
           s_isCollapsed := or_else (sx_isCollapsed updates) (s_isCollapsed s),
           createdAt := or_else (sx_createdAt updates) (createdAt s)\<rparr>))"

definition updateSection :: "'s id_supply \<Rightarrow> int \<Rightarrow> string \<Rightarrow> section_patch \<Rightarrow> 's store \<Rightarrow> 's step_result" where
  "updateSection createId now k updates st =
     (let invalidTitle = list_ex (\<lambda>s. eid s = k \<and> edited_section updates s = None) (so_sections st)
      in case mutateEntities createId now so_sections (\<lambda>ss. no_overrides\<lparr>ov_sections := Some ss\<rparr>)
             (\<lambda>s. eid s = k) (edited_section updates) (Some ''Section not found'') st of
           Inl e \<Rightarrow> Inl e
         | Inr (ActionFail m, st') \<Rightarrow> refuse m st'
         | Inr (ActionOk x, st') \<Rightarrow>
             if invalidTitle then refuse ''Section title is required'' st' else Inr (ActionOk x, st'))"

text \<open>Deleting a section keeps its tasks, in the project but in no section.\<close>

definition deleteSection :: "'s id_supply \<Rightarrow> int \<Rightarrow> string \<Rightarrow> 's store \<Rightarrow> 's step_result" where
  "deleteSection createId now k st =
     (case find (\<lambda>s. eid s = k) (so_sections st) of
        None \<Rightarrow> refuse ''Section not found'' st
      | Some s \<Rightarrow>
          if truthy (deletedAt s) then Inr (ActionOk None, st)
          else with_device createId st (\<lambda>settings1 deviceId updated st1.
            commit now (no_overrides\<lparr>
              ov_sections := Some (map (\<lambda>x. if eid x = k
                then touch (to_iso now) deviceId (x\<lparr>deletedAt := Some (to_iso now)\<rparr>) else x) (so_sections st)),
              ov_tasks := Some (map (\<lambda>t. if t_sectionId t = Some k
                then touch (to_iso now) deviceId (t\<lparr>t_sectionId := None\<rparr>) else t) (so_tasks st)),
              ov_settings := device_override settings1 updated\<rparr>) (ActionOk None) st1))"

subsection \<open>Areas\<close>

definition by_area_order :: "area \<Rightarrow> area \<Rightarrow> int" where
  "by_area_order a b = (case (a_order a, a_order b) of (Some m, Some n) \<Rightarrow> m - n | _ \<Rightarrow> 0)"

definition deleteArea :: "'s id_supply \<Rightarrow> int \<Rightarrow> string \<Rightarrow> 's store \<Rightarrow> 's step_result" where
  "deleteArea createId now k st =
     (case find (\<lambda>a. eid a = k) (so_areas st) of
        None \<Rightarrow> refuse ''Area not found'' st
      | Some a \<Rightarrow>
          if truthy (deletedAt a) then refuse ''Area not found'' st
          else with_device createId st (\<lambda>settings1 deviceId updated st1.
            commit now (no_overrides\<lparr>
              ov_areas := Some (js_sort by_area_order (map (\<lambda>x. if eid x = k
                then touch (to_iso now) deviceId (a\<lparr>deletedAt := Some (to_iso now)\<rparr>) else x) (so_areas st))),
              ov_projects := Some (map (\<lambda>p. if p_areaId p = Some k \<and> \<not> truthy (deletedAt p)
                then touch (to_iso now) deviceId (p\<lparr>p_areaId := None, p_areaTitle := None\<rparr>) else p) (so_projects st)),
              ov_tasks := Some (map (\<lambda>t. if t_areaId t = Some k
                then touch (to_iso now) deviceId (t\<lparr>t_areaId := None\<rparr>) else t) (so_tasks st)),
              ov_settings := device_override settings1 updated\<rparr>) (ActionOk None) st1))"

definition restoreArea :: "'s id_supply \<Rightarrow> int \<Rightarrow> string \<Rightarrow> 's store \<Rightarrow> 's step_result" where
  "restoreArea createId now k st =
     (case find (\<lambda>a. eid a = k) (so_areas st) of
        None \<Rightarrow> Inr (ActionFail ''Area not found'', st)
      | Some a \<Rightarrow>
          if \<not> truthy (deletedAt a) then Inr (ActionOk None, st)
          else with_device createId st (\<lambda>settings1 deviceId updated st1.
            let iso1 = to_iso now;
                areas = js_sort by_area_order (map (\<lambda>x. if eid x = k
                  then touch iso1 deviceId (x\<lparr>deletedAt := None\<rparr>) else x) (so_areas st));
                restoredName = map_option a_name (find (\<lambda>x. eid x = k) areas);
                projects = map (\<lambda>p. if p_areaId p = Some k \<and> deletedAt p = deletedAt a
                  then touch iso1 deviceId (p\<lparr>deletedAt := None, p_areaTitle :=
                    if js_trim (or_else (p_areaTitle p) []) \<noteq> [] then p_areaTitle p else restoredName\<rparr>)
                  else p) (so_projects st);
                projectIds = map eid (filter (\<lambda>p. p_areaId p = Some k \<and> \<not> truthy (deletedAt p)) projects);
                sections = map (\<lambda>s. if s_projectId s \<in> set projectIds \<and> deletedAt s = deletedAt a
                  then touch iso1 deviceId (s\<lparr>deletedAt := None\<rparr>) else s) (so_sections st);
                sectionIds = map eid (filter (\<lambda>s. s_projectId s \<in> set projectIds \<and> \<not> truthy (deletedAt s)) sections);
                tasks = map (\<lambda>t. if (t_areaId t = Some k \<or>
                    truthy (t_projectId t) \<and> the (t_projectId t) \<in> set projectIds) \<and> deletedAt t = deletedAt a
                  then touch iso1 deviceId (t\<lparr>deletedAt := None, t_purgedAt := None, t_sectionId :=
                    if truthy (t_sectionId t) \<and> the (t_sectionId t) \<in> set sectionIds then t_sectionId t else None\<rparr>)
                  else t) (so_tasks st)
            in commit now ((content_overrides tasks projects sections (device_override settings1 updated))\<lparr>
                 ov_areas := Some areas\<rparr>) (ActionOk None) st1))"

subsection \<open>The copy of a task\<close>

definition MAX_SAFE_INTEGER :: int where "MAX_SAFE_INTEGER = 9007199254740991"

definition is_safe_integer :: "int \<Rightarrow> bool" where
  "is_safe_integer n = (\<bar>n\<bar> \<le> MAX_SAFE_INTEGER)"

fun next_above :: "int \<Rightarrow> int option list \<Rightarrow> int option" where
  "next_above current [] = None"
| "next_above current (x # xs) =
     (case x of
        None \<Rightarrow> next_above current xs
      | Some n \<Rightarrow>
          if current < n
          then Some (case next_above current xs of Some m \<Rightarrow> min n m | None \<Rightarrow> n)
          else next_above current xs)"

definition boardOrderForDuplicate :: "int option \<Rightarrow> int option list \<Rightarrow> int option" where
  "boardOrderForDuplicate sourceOrder column =
     (case sourceOrder of
        None \<Rightarrow> None
      | Some current \<Rightarrow>
          if \<not> is_safe_integer current then None
          else (case next_above current column of
              None \<Rightarrow> if is_safe_integer (current + 1024) then Some (current + 1024) else None
            | Some next1 \<Rightarrow> (let candidate = (current + next1) div 2
                in if is_safe_integer candidate \<and> current < candidate \<and> candidate < next1
                   then Some candidate else None)))"

definition link_copy :: "string \<Rightarrow> string \<Rightarrow> attachment \<Rightarrow> attachment" where
  "link_copy now i a = a\<lparr>eid := i, createdAt := now, updatedAt := now, deletedAt := None, at_cloudKey := None,
     at_fileHash := None, at_localStatus := None\<rparr>"

definition renewed_series :: "host \<Rightarrow> task_recurrence option \<Rightarrow> string \<Rightarrow> task_recurrence option" where
  "renewed_series h v id1 =
     (case v of
        Some (RecObj r) \<Rightarrow> map_option RecObj (normalizeRecurrenceForLoad h (Some (RecObj (r\<lparr>rec_seriesId := Some id1\<rparr>))))
      | _ \<Rightarrow> v)"

definition duplicate_status :: "bool \<Rightarrow> task \<Rightarrow> task_status" where
  "duplicate_status asNextAction t =
     (if asNextAction then Next else if isTaskFinished (Some (t_status t)) then Inbox else t_status t)"

definition buildDuplicateTask :: "host \<Rightarrow> 's id_supply \<Rightarrow> task \<Rightarrow> bool \<Rightarrow> string option \<Rightarrow> string \<Rightarrow> string \<Rightarrow>
    int option \<Rightarrow> int option \<Rightarrow> 's \<Rightarrow> task \<times> 's" where
  "buildDuplicateTask h createId source asNextAction copyId now deviceId projectOrder boardOrder s =
     (case resetChecklist createId (t_checklist source) s of (checklist, s1) \<Rightarrow>
       (case fresh_ids createId (link_copy now) (filter (\<lambda>a. at_kind a \<noteq> FileKind)
            (or_else (t_attachments source) [])) s1 of (links, s2) \<Rightarrow>
         (case (case copyId of Some k \<Rightarrow> (k, s2) | None \<Rightarrow> createId s2) of (id1, s3) \<Rightarrow>
           (source\<lparr>eid := id1,
              t_status := duplicate_status asNextAction source,
              t_recurrence := renewed_series h (t_recurrence source) id1,
              t_checklist := checklist,
              t_attachments := (if links = [] then None else Some links),
              t_completedAt := None, t_cancelledAt := None, t_archivedAt := None,
              t_isFocusedToday := Some False, t_focusOrder := None,
              t_boardOrder := (if duplicate_status asNextAction source = t_status source then boardOrder else None),
              t_statusBeforeProjectArchive := None, t_completedAtBeforeProjectArchive := None,
              t_isFocusedTodayBeforeProjectArchive := None, t_projectArchivedAt := None,
              deletedAt := None, t_purgedAt := None, createdAt := now, updatedAt := now,
              rev := Some 1, revBy := Some deviceId, t_order := projectOrder, t_orderNum := projectOrder\<rparr>, s3))))"

definition duplicate_ignored :: "string list" where
  "duplicate_ignored = [''id'', ''status'', ''recurrence'', ''checklist'', ''attachments'', ''completedAt'',
     ''cancelledAt'', ''isFocusedToday'', ''focusOrder'', ''statusBeforeProjectArchive'',
     ''completedAtBeforeProjectArchive'', ''isFocusedTodayBeforeProjectArchive'', ''projectArchivedAt'',
     ''deletedAt'', ''purgedAt'', ''createdAt'', ''updatedAt'', ''rev'', ''revBy'', ''order'', ''orderNum'',
     ''boardOrder'']"

definition recurrence_value :: "task_recurrence option \<Rightarrow> json" where
  "recurrence_value v = j_opt task_recurrence_json v"

definition matchesDuplicateSource :: "host \<Rightarrow> task \<Rightarrow> task \<Rightarrow> bool \<Rightarrow> bool" where
  "matchesDuplicateSource h source copy asNextAction =
     (eid source \<noteq> eid copy \<and> \<not> truthy (deletedAt source) \<and> \<not> truthy (deletedAt copy) \<and> \<not> truthy (t_purgedAt copy) \<and>
      rev copy = Some 1 \<and> createdAt copy = updatedAt copy \<and> t_status copy = duplicate_status asNextAction source \<and>
      t_completedAt copy = None \<and> t_cancelledAt copy = None \<and> t_isFocusedToday copy = Some False \<and>
      t_focusOrder copy = None \<and> t_statusBeforeProjectArchive copy = None \<and>
      t_completedAtBeforeProjectArchive copy = None \<and> t_isFocusedTodayBeforeProjectArchive copy = None \<and>
      t_projectArchivedAt copy = None \<and>
      list_all (\<lambda>((k, v), (_, w)). k \<in> set duplicate_ignored \<or> stringify v = stringify w)
        (zip (task_fields source) (task_fields copy)) \<and>
      stringify (recurrence_value (renewed_series h (t_recurrence source) (eid copy))) =
        stringify (recurrence_value (t_recurrence copy)) \<and>
      stringify (JArr (map (\<lambda>i. checklist_item_json (i\<lparr>ci_id := [], ci_isCompleted := False\<rparr>)) (or_else (t_checklist source) []))) =
        stringify (JArr (map (\<lambda>i. checklist_item_json (i\<lparr>ci_id := []\<rparr>)) (or_else (t_checklist copy) []))) \<and>
      stringify (JArr (map (\<lambda>a. attachment_json (link_copy (createdAt copy) [] a))
          (filter (\<lambda>a. at_kind a \<noteq> FileKind) (or_else (t_attachments source) [])))) =
        stringify (JArr (map (\<lambda>a. attachment_json (a\<lparr>eid := []\<rparr>)) (or_else (t_attachments copy) []))))"

definition duplicateTask :: "host \<Rightarrow> 's id_supply \<Rightarrow> int \<Rightarrow> string \<Rightarrow> bool \<Rightarrow> string option \<Rightarrow> 's store \<Rightarrow> 's step_result" where
  "duplicateTask h createId now k asNextAction copyId st =
     (case task_by_id st k of
        None \<Rightarrow> Inr (ActionFail ''Task not found'', st)
      | Some source \<Rightarrow>
          if truthy (deletedAt source) then Inr (ActionFail ''Task not found'', st)
          else (case (if truthy copyId then task_by_id st (the copyId) else None) of
              Some existing \<Rightarrow>
                if matchesDuplicateSource h source existing asNextAction then Inr (ActionOk copyId, st)
                else Inr (ActionFail ''Duplicate id does not match source'', st)
            | None \<Rightarrow>
                with_device createId st (\<lambda>settings1 deviceId updated st1.
                  (case buildDuplicateTask h createId source asNextAction copyId (to_iso now) deviceId
                      (getNextProjectOrder (t_projectId source) (so_tasks st))
                      (boardOrderForDuplicate (t_boardOrder source) (map t_boardOrder
                        (filter (\<lambda>t. t_status t = t_status source \<and> \<not> truthy (deletedAt t)) (so_tasks st))))
                      (so_ids st1) of
                     (copy, s) \<Rightarrow> commit now (no_overrides\<lparr>ov_tasks := Some (so_tasks st @ [copy]),
                         ov_settings := device_override settings1 updated\<rparr>) (ActionOk (Some (eid copy)))
                       (st1\<lparr>so_ids := s\<rparr>)))))"

subsection \<open>The copy of a project\<close>

definition attachment_copy :: "string \<Rightarrow> string \<Rightarrow> attachment \<Rightarrow> attachment" where
  "attachment_copy now i a = (link_copy now i a)\<lparr>at_contentRev := None, at_contentMtimeMs := None, at_contentSize := None\<rparr>"

definition live_attachments :: "attachment list option \<Rightarrow> attachment list" where
  "live_attachments as = filter (\<lambda>a. \<not> truthy (deletedAt a)) (or_else as [])"

definition copied_attachments :: "'s id_supply \<Rightarrow> string \<Rightarrow> attachment list option \<Rightarrow> 's \<Rightarrow> attachment list option \<times> 's" where
  "copied_attachments createId now as s =
     (case fresh_ids createId (attachment_copy now) (live_attachments as) s of
        (xs, s') \<Rightarrow> (if xs = [] then None else Some xs, s'))"

definition copied_task :: "'s id_supply \<Rightarrow> string \<Rightarrow> string \<Rightarrow> string \<Rightarrow> (string \<Rightarrow> string option) \<Rightarrow> task \<Rightarrow> 's \<Rightarrow> task \<times> 's" where
  "copied_task createId now deviceId projectId sectionIdMap t s =
     (case (case t_checklist t of None \<Rightarrow> (None, s)
          | Some items \<Rightarrow> (case fresh_ids createId (\<lambda>i item. item\<lparr>ci_id := i, ci_isCompleted := False\<rparr>) items s of
              (xs, s') \<Rightarrow> (Some xs, s'))) of (checklist, s1) \<Rightarrow>
       (case copied_attachments createId now (t_attachments t) s1 of (attachments, s2) \<Rightarrow>
         (case createId s2 of (id1, s3) \<Rightarrow>
           (t\<lparr>eid := id1, t_projectId := Some projectId,
              t_sectionId := (if truthy (t_sectionId t) then sectionIdMap (the (t_sectionId t)) else None),
              t_status := (if t_status t = Reference then Reference else Next),
              t_startTime := None, t_dueDate := None, t_reviewAt := None, t_completedAt := None,
              t_cancelledAt := None, t_archivedAt := None, t_isFocusedToday := Some False,
              t_pushCount := Some 0, t_checklist := checklist, t_attachments := attachments,
              createdAt := now, updatedAt := now, deletedAt := None, t_purgedAt := None,
              rev := Some 1, revBy := Some deviceId\<rparr>, s3))))"

fun copied_tasks :: "'s id_supply \<Rightarrow> string \<Rightarrow> string \<Rightarrow> string \<Rightarrow> (string \<Rightarrow> string option) \<Rightarrow> task list \<Rightarrow> 's \<Rightarrow>
    task list \<times> 's" where
  "copied_tasks createId now deviceId projectId sectionIdMap [] s = ([], s)"
| "copied_tasks createId now deviceId projectId sectionIdMap (t # ts) s =
     (case copied_task createId now deviceId projectId sectionIdMap t s of (t', s1) \<Rightarrow>
       (case copied_tasks createId now deviceId projectId sectionIdMap ts s1 of (ts', s2) \<Rightarrow> (t' # ts', s2)))"

definition projectDuplicateEffect :: "'s id_supply \<Rightarrow> project \<Rightarrow> project list \<Rightarrow> section1 list \<Rightarrow> task list \<Rightarrow>
    string \<Rightarrow> string \<Rightarrow> 's \<Rightarrow> project_effect \<times> 's" where
  "projectDuplicateEffect createId source sameAreaProjects sections tasks deviceId now s =
     (case copied_attachments createId now (p_attachments source) s of (attachments, s1) \<Rightarrow>
       (case createId s1 of (projectId, s2) \<Rightarrow>
         (case fresh_ids createId (\<lambda>i x. (x, x\<lparr>eid := i, s_projectId := projectId, createdAt := now, updatedAt := now,
                deletedAt := None, rev := Some 1, revBy := Some deviceId\<rparr>))
              (filter (\<lambda>x. \<not> truthy (deletedAt x)) sections) s2 of (pairs, s3) \<Rightarrow>
           (case copied_tasks createId now deviceId projectId
                (\<lambda>k. map_option (\<lambda>p. eid (snd p)) (js_map_of (\<lambda>p. eid (fst p)) pairs k))
                (filter (\<lambda>t. \<not> truthy (deletedAt t)) tasks) s3 of (copies, s4) \<Rightarrow>
             (\<lparr>pe_project = source\<lparr>eid := projectId, p_title := p_title source @ '' (Copy)'',
                 p_order := order_max (map p_order sameAreaProjects) + 1, p_isFocused := Some False,
                 p_cancelledAt := None,
                 p_archivedAt := (if p_status source = PArchived then Some now else None),
                 p_attachments := attachments, createdAt := now, updatedAt := now, deletedAt := None,
                 rev := Some 1, revBy := Some deviceId\<rparr>,
               pe_tasks = copies, pe_sections = map snd pairs\<rparr>, s4)))))"

definition duplicateProject :: "'s id_supply \<Rightarrow> int \<Rightarrow> string \<Rightarrow> 's store \<Rightarrow> (project option \<times> 's store) checked" where
  "duplicateProject createId now k st =
     (case find (\<lambda>p. eid p = k \<and> \<not> truthy (deletedAt p)) (so_projects st) of
        None \<Rightarrow> Inr (None, st)
      | Some source \<Rightarrow>
          (case ensureDeviceId createId (so_settings st) (so_ids st) of ((settings1, deviceId, updated), s) \<Rightarrow>
            (case projectDuplicateEffect createId source
                (filter (\<lambda>p. \<not> truthy (deletedAt p) \<and> p_areaId p = p_areaId source) (so_projects st))
                (filter (\<lambda>x. s_projectId x = k) (so_sections st))
                (filter (\<lambda>t. t_projectId t = Some k) (so_tasks st)) deviceId (to_iso now) s of (e, s') \<Rightarrow>
              (case commit now (content_overrides (so_tasks st @ pe_tasks e) (so_projects st @ [pe_project e])
                   (so_sections st @ pe_sections e) (device_override settings1 updated)) (ActionOk None)
                   (st\<lparr>so_ids := s'\<rparr>) of
                 Inl m \<Rightarrow> Inl m
               | Inr (_, st') \<Rightarrow> Inr (Some (pe_project e), st')))))"

subsection \<open>A task becomes a section\<close>

definition checklist_task :: "string \<Rightarrow> string \<Rightarrow> bool \<Rightarrow> container_assignment \<Rightarrow> int option \<Rightarrow> string \<Rightarrow> string \<Rightarrow> task" where
  "checklist_task id1 title isCompleted c order deviceId now =
     (bare_task id1 now now None (Some 1) (Some deviceId) None)\<lparr>
       t_title := title, t_status := (if isCompleted then Done else Next), t_taskMode := Some ''task'',
       t_pushCount := Some 0, t_isFocusedToday := Some False, t_suppressMindwtrReminders := Some False,
       t_projectId := ca_projectId c, t_sectionId := ca_sectionId c, t_areaId := ca_areaId c,
       t_completedAt := (if isCompleted then Some now else None), t_order := order, t_orderNum := order\<rparr>"

fun checklist_tasks :: "'s id_supply \<Rightarrow> string \<Rightarrow> string \<Rightarrow> string + container_assignment \<Rightarrow> checklist_item list \<Rightarrow>
    order_index \<Rightarrow> 's \<Rightarrow> string + task list \<times> 's" where
  "checklist_tasks createId now deviceId container [] orders s = Inr ([], s)"
| "checklist_tasks createId now deviceId container (i # is) orders s =
     (if js_trim (ci_title i) = [] then checklist_tasks createId now deviceId container is orders s
      else (case container of
          Inl e \<Rightarrow> Inl e
        | Inr c \<Rightarrow>
            (case reserve_order orders (ca_projectId c) of (order, orders') \<Rightarrow>
              (case createId s of (id1, s1) \<Rightarrow>
                (case checklist_tasks createId now deviceId container is orders' s1 of
                   Inl e \<Rightarrow> Inl e
                 | Inr (ts, s2) \<Rightarrow> Inr (checklist_task id1 (js_trim (ci_title i)) (ci_isCompleted i) c order deviceId now # ts, s2))))))"

definition section_of_task :: "string \<Rightarrow> string \<Rightarrow> task \<Rightarrow> int \<Rightarrow> string \<Rightarrow> string \<Rightarrow> section1" where
  "section_of_task id1 projectId t order deviceId now =
     \<lparr>eid = id1, createdAt = now, updatedAt = now, deletedAt = None, rev = Some 1, revBy = Some deviceId,
      s_projectId = projectId, s_title = js_trim (t_title t),
      s_description = (if js_trim (or_else (t_description t) []) \<noteq> []
        then Some (js_trim (or_else (t_description t) [])) else None),
      s_order = order, s_isCollapsed = Some False, s_deletedAtBeforeProjectArchive = None,
      s_projectArchivedAt = None\<rparr>"

definition convertTaskToSection :: "'s id_supply \<Rightarrow> int \<Rightarrow> string \<Rightarrow> 's store \<Rightarrow> 's step_result" where
  "convertTaskToSection createId now k st =
     (case task_by_id st k of
        None \<Rightarrow> Inr (ActionFail ''Task not found'', st)
      | Some source \<Rightarrow>
          if truthy (deletedAt source) then Inr (ActionFail ''Task not found'', st)
          else (case normalizeOptionalContainerId (t_projectId source) of
              None \<Rightarrow> Inr (ActionFail ''Task is not in a project'', st)
            | Some projectId \<Rightarrow>
                if \<not> live_with_id projectId (so_projects st) \<or> js_trim (t_title source) = []
                then Inr (ActionFail ''Section could not be created'', st)
                else with_device createId st (\<lambda>settings1 deviceId updated st1.
                  (case createId (so_ids st1) of (sectionId, s) \<Rightarrow>
                    (let section2 = section_of_task sectionId projectId source
                           (projectSectionOrderMax (so_sections st) projectId + 1) deviceId (to_iso now);
                         sections = so_sections st @ [section2];
                         container = resolveTaskContainerAssignment (Some projectId) (Some sectionId) None
                           (so_projects st) sections (so_areas st) None;
                         deletedSource = touch (to_iso now) deviceId (source\<lparr>deletedAt := Some (to_iso now)\<rparr>)
                     in case checklist_tasks createId (to_iso now) deviceId container
                            (or_else (t_checklist source) []) (getProjectOrderIndex (so_tasks st)) s of
                          Inl e \<Rightarrow> Inr (ActionFail e, st)
                        | Inr (created, s') \<Rightarrow>
                            commit now (no_overrides\<lparr>
                              ov_tasks := Some (replaceEntityInArray (so_tasks st) (eid source) deletedSource @ created),
                              ov_sections := Some sections,
                              ov_settings := device_override settings1 updated\<rparr>) (ActionOk (Some sectionId))
                              (st1\<lparr>so_ids := s'\<rparr>))))))"

end
