(* ===== verification/StoreWrites.thy ===== *)
theory StoreWrites
  imports TaskEdits ContainerActions
begin

text \<open>
  What every action does to the state, whatever it is for: it either leaves the content alone or
  replaces it by one that has all the records it had, moves the change clock on, and hands the save
  queue exactly the content that is now in memory.
\<close>

named_theorems saved

subsection \<open>Writes\<close>

definition content :: "'s store \<Rightarrow> app_data" where
  "content st = snapshot_of st no_overrides"

definition same_data :: "'s store \<Rightarrow> 's store \<Rightarrow> bool" where
  "same_data st st1 = (content st1 = content st \<and> so_lastDataChangeAt st1 = so_lastDataChangeAt st \<and>
     so_saves st1 = so_saves st)"

definition keeps_records :: "'s store \<Rightarrow> 's store \<Rightarrow> bool" where
  "keeps_records st st' = (eid ` set (so_tasks st) \<subseteq> eid ` set (so_tasks st') \<and>
     eid ` set (so_projects st) \<subseteq> eid ` set (so_projects st') \<and>
     eid ` set (so_sections st) \<subseteq> eid ` set (so_sections st') \<and>
     eid ` set (so_areas st) \<subseteq> eid ` set (so_areas st') \<and>
     eid ` set (so_people st) \<subseteq> eid ` set (so_people st'))"

definition wrote :: "'s store \<Rightarrow> 's store \<Rightarrow> bool" where
  "wrote st st' = (so_lastDataChangeAt st < so_lastDataChangeAt st' \<and> so_saves st' = so_saves st @ [content st'] \<and>
     keeps_records st st')"

definition saved_step :: "'s store \<Rightarrow> 's store \<Rightarrow> bool" where
  "saved_step st st' = (wrote st st' \<or> same_data st st' \<or>
     content st' = content st \<and> so_lastDataChangeAt st' = so_lastDataChangeAt st \<and>
     so_saves st' = so_saves st @ [content st])"

lemma same_data_refl [simp]: "same_data st st"
  by (simp add: same_data_def)

lemma same_data_updates [simp]:
  "same_data st (st\<lparr>so_ids := s\<rparr>)" "same_data st (st\<lparr>so_error := e\<rparr>)"
  "same_data st1 (st2\<lparr>so_ids := s\<rparr>) = same_data st1 st2"
  "same_data st1 (st2\<lparr>so_error := e\<rparr>) = same_data st1 st2"
  by (simp_all add: same_data_def content_def snapshot_of_def no_overrides_def)

lemma same_data_set_error [simp]: "same_data st1 (set_error e st2) = same_data st1 st2"
  by (simp add: set_error_def)

lemma same_data_saved: "same_data st st' \<Longrightarrow> saved_step st st'"
  by (simp add: saved_step_def)

lemma same_saved: "same_data st st1 \<Longrightarrow> saved_step st1 st' \<Longrightarrow> saved_step st st'"
  by (auto simp: saved_step_def same_data_def wrote_def keeps_records_def content_def snapshot_of_def no_overrides_def)

lemma saved_same: "saved_step st st1 \<Longrightarrow> same_data st1 st' \<Longrightarrow> saved_step st st'"
  by (auto simp: saved_step_def same_data_def wrote_def keeps_records_def content_def snapshot_of_def no_overrides_def)

lemma missing_none: "missing_ids nexts prevs = [] \<longleftrightarrow> eid ` set prevs \<subseteq> eid ` set nexts"
  by (auto simp: missing_ids_def filter_empty_conv)

lemma assert_none:
  "assertCollectionSnapshotIncludesExistingItems label items prevs = None \<longleftrightarrow>
    eid ` set prevs \<subseteq> eid ` set (or_else items prevs)"
  by (auto simp: assertCollectionSnapshotIncludesExistingItems_def missing_none Let_def split: option.split)

lemma first_error_None: "first_error es = None \<longleftrightarrow> (\<forall>e\<in>set es. e = None)"
  by (induction es rule: first_error.induct) auto

definition includes_existing :: "'s store \<Rightarrow> save_overrides \<Rightarrow> bool" where
  "includes_existing st ov = keeps_records st (write_overrides 0 ov st)"

lemma buildSaveSnapshot_eq:
  "\<exists>e. buildSaveSnapshot st ov = (if includes_existing st ov then Inr (snapshot_of st ov) else Inl e)"
proof -
  let ?errors = "[assertCollectionSnapshotIncludesExistingItems ''task'' (ov_tasks ov) (so_tasks st),
    assertCollectionSnapshotIncludesExistingItems ''project'' (ov_projects ov) (so_projects st),
    assertCollectionSnapshotIncludesExistingItems ''section'' (ov_sections ov) (so_sections st),
    assertCollectionSnapshotIncludesExistingItems ''area'' (ov_areas ov) (so_areas st),
    assertCollectionSnapshotIncludesExistingItems ''person'' (ov_people ov) (so_people st)]"
  have "first_error ?errors = None \<longleftrightarrow> includes_existing st ov"
    by (auto simp: first_error_None assert_none includes_existing_def keeps_records_def write_overrides_def)
  then show ?thesis unfolding buildSaveSnapshot_def by (cases "first_error ?errors") simp_all
qed

lemma written_content: "content ((write_overrides now ov st)\<lparr>so_saves := s\<rparr>) = snapshot_of st ov"
  by (simp add: content_def snapshot_of_def write_overrides_def no_overrides_def)


lemma commit_wrote:
  assumes "commit now ov r st = Inr (r', st')"
  shows "wrote st st'" and "r' = r"
    and "st' = (write_overrides now ov st)\<lparr>so_saves := so_saves st @ [snapshot_of st ov]\<rparr>"
proof -
  have i: "includes_existing st ov" and st': "st' = (write_overrides now ov st)\<lparr>so_saves := so_saves st @ [snapshot_of st ov]\<rparr>"
    and r: "r' = r"
    using assms buildSaveSnapshot_eq[of st ov] by (auto simp: commit_def split: sum.splits if_splits)
  show "wrote st st'" using i
    by (simp add: wrote_def st' written_content)
      (simp add: write_overrides_def getNextDataChangeAt_def includes_existing_def keeps_records_def)
  show "r' = r" by (rule r)
  show "st' = (write_overrides now ov st)\<lparr>so_saves := so_saves st @ [snapshot_of st ov]\<rparr>" by (rule st')
qed

lemma saved_ids [simp]:
  "saved_step (st\<lparr>so_ids := s\<rparr>) st' = saved_step st st'"
  "saved_step st st"
  "saved_step st (st\<lparr>so_ids := s\<rparr>)"
  "saved_step st (set_error e st)"
  by (simp_all add: saved_step_def wrote_def same_data_def keeps_records_def content_def snapshot_of_def no_overrides_def set_error_def)

lemma commit_saved [saved]: "commit now ov r st = Inr (r', st') \<Longrightarrow> saved_step st st'"
  using commit_wrote(1) unfolding saved_step_def by blast

lemma refuse_same [saved]: "refuse m st = Inr (r, st') \<Longrightarrow> same_data st st'"
  by (auto simp: refuse_def)

lemma after_flush_same [saved]: "after_flush what flushed (r, st) = Inr (r', st') \<Longrightarrow> same_data st st'"
  by (auto simp: after_flush_def dest: refuse_same split: option.splits)

lemma persistSnapshot_saved [saved]: "persistSnapshot st = Inr st' \<Longrightarrow> saved_step st st'"
  using buildSaveSnapshot_eq[of st no_overrides]
  by (auto simp: persistSnapshot_def saved_step_def content_def snapshot_of_def no_overrides_def
      split: sum.splits if_splits)

lemma save_again_saved [saved]: "save_again what flushed st = Inr (r, st') \<Longrightarrow> saved_step st st'"
  by (auto simp: save_again_def dest!: saved intro: saved_same same_data_saved split: sum.splits)

lemmas saved_intros = saved_same same_data_saved

lemma with_deviceE:
  assumes "with_device createId st f = Inr (r, st')"
  obtains settings1 d u s where "f settings1 d u (st\<lparr>so_ids := s\<rparr>) = Inr (r, st')"
  using assms by (auto simp: with_device_def split: prod.splits)

subsection \<open>Every action\<close>

lemma mutateTasks_saved [saved]: "mutateTasks createId now options st = Inr (r, st') \<Longrightarrow> saved_step st st'"
  unfolding mutateTasks_def Let_def
  by (auto elim!: with_deviceE dest!: saved dest: saved_intros split: if_splits)

lemma task_mutations_saved [saved]:
  "deleteTask createId now k st = Inr (r, st') \<Longrightarrow> saved_step st st'"
  "batchDeleteTasks createId now ids st = Inr (r, st') \<Longrightarrow> saved_step st st'"
  "restoreTask createId now k st = Inr (r, st') \<Longrightarrow> saved_step st st'"
  "restoreTasks createId now ids st = Inr (r, st') \<Longrightarrow> saved_step st st'"
  "purgeTask createId now k st = Inr (r, st') \<Longrightarrow> saved_step st st'"
  "purgeTasks createId now ids st = Inr (r, st') \<Longrightarrow> saved_step st st'"
  "purgeDeletedTasks createId now st = Inr (r, st') \<Longrightarrow> saved_step st st'"
  "reorderFocusedTasks createId now ids st = Inr (r, st') \<Longrightarrow> saved_step st st'"
  "resetTaskChecklist createId now k st = Inr (r, st') \<Longrightarrow> saved_step st st'"
  by (auto simp: deleteTask_def batchDeleteTasks_def restoreTask_def restoreTasks_def purgeTask_def
      purgeTasks_def purgeDeletedTasks_def reorderFocusedTasks_def resetTaskChecklist_def Let_def
      dest!: saved dest: saved_intros split: if_splits option.splits)

lemma write_update_saved [saved]:
  "write_update h createId now flushed t prepared st = Inr (r, st') \<Longrightarrow> saved_step st st'"
  unfolding write_update_def
  by (auto elim!: with_deviceE dest!: saved dest: saved_intros split: if_splits sum.splits) (blast intro: saved_same)+

lemma updateTask_saved [saved]: "updateTask h createId now flushed k updates st = Inr (r, st') \<Longrightarrow> saved_step st st'"
  unfolding updateTask_def
  by (auto dest!: saved dest: saved_intros split: if_splits sum.splits option.splits)

lemma cancelTask_saved [saved]: "cancelTask h createId now flushed k st = Inr (r, st') \<Longrightarrow> saved_step st st'"
  unfolding cancelTask_def Let_def
  by (auto dest!: saved dest: saved_intros split: if_splits sum.splits option.splits prod.splits store_result.splits)

lemma skip_saved [saved]:
  "skipRecurringTaskOccurrence h createId now flushed k st = Inr (r, st') \<Longrightarrow> saved_step st st'"
  unfolding skipRecurringTaskOccurrence_def
  by (auto elim!: with_deviceE dest!: saved dest: saved_intros split: if_splits sum.splits option.splits prod.splits) (blast intro: saved_same)+

lemma batchUpdateTasks_saved [saved]:
  "batchUpdateTasks h createId now flushed us st = Inr (r, st') \<Longrightarrow> saved_step st st'"
  unfolding batchUpdateTasks_def write_batch_def
  by (auto elim!: with_deviceE dest!: saved dest: saved_intros split: if_splits sum.splits option.splits prod.splits) (blast intro: saved_same)+

lemma mutateEntities_saved [saved]:
  "mutateEntities createId now entities overrides select change missing st = Inr (r, st') \<Longrightarrow> saved_step st st'"
  unfolding mutateEntities_def Let_def
  by (auto elim!: with_deviceE dest!: saved dest: saved_intros split: if_splits)

lemma project_actions_saved [saved]:
  "updateProject createId now k pu st = Inr (r, st') \<Longrightarrow> saved_step st st'"
  "toggleProjectFocus createId now k st = Inr (r, st') \<Longrightarrow> saved_step st st'"
  "deleteProject createId now k st = Inr (r, st') \<Longrightarrow> saved_step st st'"
  "restoreProject createId now k st = Inr (r, st') \<Longrightarrow> saved_step st st'"
  "purgeProject createId now k st = Inr (r, st') \<Longrightarrow> saved_step st st'"
  "purgeDeletedProjects createId now st = Inr (r, st') \<Longrightarrow> saved_step st st'"
  by (auto simp: updateProject_def toggleProjectFocus_def deleteProject_def restoreProject_def
      purgeProject_def purgeDeletedProjects_def purge_projects_def write_effect_def Let_def
      elim!: with_deviceE dest!: saved dest: saved_intros split: if_splits option.splits)

lemma cancelProject_saved [saved]: "cancelProject createId now flushed k st = Inr (r, st') \<Longrightarrow> saved_step st st'"
  unfolding cancelProject_def Let_def
  by (auto dest!: saved dest: saved_intros split: if_splits sum.splits option.splits prod.splits store_result.splits)

lemma created_saved [saved]:
  "addProject createId now title color u st = Inr (p, st') \<Longrightarrow> saved_step st st'"
  "duplicateProject createId now k st = Inr (p, st') \<Longrightarrow> saved_step st st'"
  "addSection createId now k title sp st = Inr (x, st') \<Longrightarrow> saved_step st st'"
  by (auto simp: addProject_def duplicateProject_def addSection_def Let_def
      dest!: saved dest: saved_intros split: if_splits option.splits prod.splits sum.splits)

lemma container_actions_saved [saved]:
  "deleteSection createId now k st = Inr (r, st') \<Longrightarrow> saved_step st st'"
  "deleteArea createId now k st = Inr (r, st') \<Longrightarrow> saved_step st st'"
  "restoreArea createId now k st = Inr (r, st') \<Longrightarrow> saved_step st st'"
  "duplicateTask h createId now k nextAction copyId st = Inr (r, st') \<Longrightarrow> saved_step st st'"
  "convertTaskToSection createId now k st = Inr (r, st') \<Longrightarrow> saved_step st st'"
  by (auto simp: deleteSection_def deleteArea_def restoreArea_def duplicateTask_def convertTaskToSection_def Let_def
      elim!: with_deviceE dest!: saved dest: saved_intros split: if_splits option.splits prod.splits sum.splits)

lemma updateSection_saved [saved]: "updateSection createId now k sp st = Inr (r, st') \<Longrightarrow> saved_step st st'"
  unfolding updateSection_def Let_def
  by (auto dest!: saved dest: saved_intros split: if_splits sum.splits prod.splits store_result.splits)

end
