(* ===== verification/StoreTasks.thy ===== *)
theory StoreTasks
  imports StoreWrites
begin

text \<open>
  What the actions do to the tasks: a task that changes gets the next revision, the time of the
  write and the identifier of the device, so that the merge of another device sees the change, and a
  coherent task stays coherent. New tasks start at revision 1.
\<close>

named_theorems task_steps

subsection \<open>Stamped changes\<close>

definition stamped :: "string \<Rightarrow> string \<Rightarrow> 'a mergeable_scheme \<Rightarrow> 'a mergeable_scheme \<Rightarrow> bool" where
  "stamped now d x y = (eid y = eid x \<and> updatedAt y = now \<and> revBy y = Some d \<and>
     (rev y = Some (nextRev (rev x)) \<or> rev y = Some (nextRev (Some (nextRev (rev x))))))"

text \<open>Twice only where a batch edits a task and reopens its project with another one.\<close>

definition edited :: "string \<Rightarrow> string \<Rightarrow> task \<Rightarrow> task \<Rightarrow> bool" where
  "edited now d t t' = (t' = t \<or> eid t' = eid t \<and> updatedAt t' = now \<and> revBy t' = Some d \<and>
     rev t' = Some (nextRev (rev t)) \<and> (coherent_task t \<longrightarrow> coherent_task t'))"

definition task_change :: "string \<Rightarrow> string \<Rightarrow> task \<Rightarrow> task \<Rightarrow> bool" where
  "task_change now d t t' = (t' = t \<or> stamped now d t t' \<and> (coherent_task t \<longrightarrow> coherent_task t'))"

definition new_task :: "string \<Rightarrow> task list \<Rightarrow> task \<Rightarrow> bool" where
  "new_task d ts y = (rev y = Some 1 \<and> revBy y = Some d \<and> ((\<forall>x\<in>set ts. coherent_task x) \<longrightarrow> coherent_task y))"

definition tasks_change :: "string \<Rightarrow> string \<Rightarrow> task list \<Rightarrow> task list \<Rightarrow> bool" where
  "tasks_change now d xs ys = (\<exists>f new. ys = map f xs @ new \<and> (\<forall>x\<in>set xs. task_change now d x (f x)) \<and>
     (\<forall>y\<in>set new. new_task d xs y))"

definition tasks_changed :: "string \<Rightarrow> 's store \<Rightarrow> 's store \<Rightarrow> bool" where
  "tasks_changed now st st' = (so_tasks st' = so_tasks st \<or>
     (\<exists>d. device_of (so_settings st') = Some d \<and> tasks_change now d (so_tasks st) (so_tasks st')))"

definition unique_ids :: "'s store \<Rightarrow> bool" where
  "unique_ids st = distinct (map eid (so_tasks st))"

lemma edited_change: "edited now d t t' \<Longrightarrow> task_change now d t t'"
  by (auto simp: edited_def task_change_def stamped_def)

lemma task_change_refl [simp]: "task_change now d t t"
  by (simp add: task_change_def)

lemma tasks_change_map:
  "(\<And>x. x \<in> set xs \<Longrightarrow> task_change now d x (f x)) \<Longrightarrow> tasks_change now d xs (map f xs)"
  unfolding tasks_change_def by (intro exI[of _ f] exI[of _ "[]"]) simp

lemma tasks_change_append:
  "tasks_change now d xs ys \<Longrightarrow> (\<And>y. y \<in> set new \<Longrightarrow> new_task d xs y) \<Longrightarrow> tasks_change now d xs (ys @ new)"
proof -
  assume n: "\<And>y. y \<in> set new \<Longrightarrow> new_task d xs y" and "tasks_change now d xs ys"
  then obtain f new1 where "ys = map f xs @ new1" "\<forall>x\<in>set xs. task_change now d x (f x)"
    "\<forall>y\<in>set new1. new_task d xs y" by (auto simp: tasks_change_def)
  then show ?thesis unfolding tasks_change_def using n by (intro exI[of _ f] exI[of _ "new1 @ new"]) auto
qed

lemma tasks_change_refl [simp]: "tasks_change now d xs xs"
  using tasks_change_map[of xs now d id] by simp

lemma replace_filtered:
  assumes "distinct (map eid xs)" and "\<And>x. eid (g x) = eid x"
  shows "replaceEntitiesInArray xs (map g (filter P xs)) = map (\<lambda>x. if P x then g x else x) xs"
proof -
  have key: "js_map_of eid (map g (filter P xs)) (eid x) = (if P x then Some (g x) else None)" if x: "x \<in> set xs" for x
  proof (cases "js_map_of eid (map g (filter P xs)) (eid x)")
    case None
    then have "eid x \<notin> eid ` set (map g (filter P xs))" by (simp only: js_map_None_iff not_False_eq_True)
    then have "\<not> P x" using x assms(2) by (auto simp: image_iff)
    then show ?thesis using None by simp
  next
    case (Some y)
    then obtain z where z: "z \<in> set xs" "P z" "y = g z" "eid z = eid x"
      using assms(2) by (auto dest!: js_map_SomeD)
    then have "z = x" using assms(1) x by (auto simp: distinct_map inj_on_def)
    then show ?thesis using z Some by simp
  qed
  show ?thesis unfolding replaceEntitiesInArray_def by (rule map_cong) (simp_all add: key)
qed

lemma replace_one:
  assumes "distinct (map eid xs)" and "eid y = k"
  shows "replaceEntityInArray xs k y = map (\<lambda>x. if eid x = k then y else x) xs"
  using assms
proof (induction xs)
  case (Cons a xs)
  show ?case
  proof (cases "eid a = k")
    case True
    then have "map (\<lambda>x. if eid x = k then y else x) xs = map id xs"
      using Cons.prems(1) True by (intro map_cong) (auto simp: image_iff)
    then show ?thesis using True by simp
  qed (use Cons in simp)
qed simp

lemma filter_id: "distinct (map eid xs) \<Longrightarrow> t \<in> set xs \<Longrightarrow> filter (\<lambda>x. eid x = eid t) xs = [t]"
  by (induction xs) (auto simp: filter_empty_conv image_iff)

lemma selected_filter:
  assumes "unique_ids st"
  shows "selected_by_id k P st = filter (\<lambda>t. eid t = k \<and> P t) (so_tasks st)"
proof (cases "task_by_id st k")
  case None
  then have "k \<notin> eid ` set (so_tasks st)" by (simp add: task_by_id_def js_map_None_iff)
  then have "filter (\<lambda>t. eid t = k \<and> P t) (so_tasks st) = []" by (auto simp: filter_empty_conv)
  then show ?thesis using None by (simp add: selected_by_id_def)
next
  case (Some t)
  then have t: "t \<in> set (so_tasks st)" "eid t = k" by (auto simp: task_by_id_def dest: js_map_SomeD)
  have "filter (\<lambda>x. eid x = k \<and> P x) (so_tasks st) = filter P (filter (\<lambda>x. eid x = k) (so_tasks st))"
    by (simp add: conj_commute)
  also have "\<dots> = (if P t then [t] else [])"
    using filter_id[OF assms[unfolded unique_ids_def] t(1)] t(2) by simp
  finally show ?thesis using Some by (simp add: selected_by_id_def)
qed

subsection \<open>The device of a write\<close>

lemma with_device_deviceE:
  assumes "with_device createId st f = Inr (r, st')"
  obtains settings1 d u s where "f settings1 d u (st\<lparr>so_ids := s\<rparr>) = Inr (r, st')"
    "device_of (or_else (device_override settings1 u) (so_settings st)) = Some d" "device_of settings1 = Some d"
    "u \<or> settings1 = so_settings st"
proof -
  obtain settings1 d u s where e: "ensureDeviceId createId (so_settings st) (so_ids st) = ((settings1, d, u), s)"
    by (metis prod.exhaust)
  then have f: "f settings1 d u (st\<lparr>so_ids := s\<rparr>) = Inr (r, st')" using assms by (simp add: with_device_def)
  have "device_of settings1 = Some d \<and> (u \<or> settings1 = so_settings st)"
    using e by (cases "device_of (so_settings st)")
      (auto simp: ensureDeviceId_def device_of_def obj_get_set str_of_def split: prod.splits if_splits)
  then show thesis using that f by (cases u) (auto simp: device_override_def)
qed

subsection \<open>Mutations\<close>

lemma coherent_stamp [simp]:
  "coherent_task (t\<lparr>updatedAt := a, rev := b, revBy := c\<rparr>) = coherent_task t"
  "coherent_task (t\<lparr>t_attachments := as\<rparr>) = coherent_task t"
  by (simp_all add: coherent_task_def marker_coherent_def)

lemma coherent_compact: "coherent_task t \<Longrightarrow> coherent_task (compactPurgedTaskForLocalStorage t)"
  by (cases "truthy (t_purgedAt t)")
    (simp_all add: compactPurgedTaskForLocalStorage_def compactPurgedTaskTombstone_def,
     simp add: bare_task_def coherent_task_def marker_coherent_def isTaskFinished_def)

lemma compact_stamp [simp]:
  "eid (compactPurgedTaskForLocalStorage t) = eid t"
  "updatedAt (compactPurgedTaskForLocalStorage t) = updatedAt t"
  "rev (compactPurgedTaskForLocalStorage t) = rev t"
  "revBy (compactPurgedTaskForLocalStorage t) = revBy t"
  by (simp_all add: compactPurgedTaskForLocalStorage_def compactPurgedTaskTombstone_def bare_task_def)

text \<open>A patch that leaves the lifecycle and the schedule alone.\<close>

definition calm_patch :: "task_patch \<Rightarrow> bool" where
  "calm_patch u = (u_status u = None \<and> u_completedAt u = None \<and> u_cancelledAt u = None \<and>
     u_isFocusedToday u = None \<and> u_startTime u = None \<and> u_dueDate u = None \<and> u_reviewAt u = None \<and>
     u_recurrence u = None \<and> no_marker_fields u)"

lemma calm_coherent: "calm_patch u \<Longrightarrow> coherent_task (apply_patch t u) = coherent_task t"
  by (simp add: coherent_task_def marker_coherent_def calm_patch_def no_marker_fields_def)

lemma reset_coherent: "coherent_task t \<Longrightarrow> coherent_task (apply_patch t (buildResetTaskChecklistUpdates t))"
  by (cases "t_status t")
    (auto simp: coherent_task_def marker_coherent_def buildResetTaskChecklistUpdates_def no_patch_def isTaskFinished_def)

definition mutated :: "string \<Rightarrow> string \<Rightarrow> (task \<Rightarrow> task_patch) \<Rightarrow> task \<Rightarrow> task" where
  "mutated now d updates t = compactPurgedTaskForLocalStorage ((apply_patch t (updates t))\<lparr>
     updatedAt := now, rev := Some (nextRev (rev t)), revBy := Some d\<rparr>)"

lemma planTaskMutations_map: "planTaskMutations ts updates now d = map (mutated now d updates) ts"
  by (simp add: planTaskMutations_def mutated_def)

lemma mutated_eid [simp]: "eid (mutated now d updates t) = eid t"
  by (simp add: mutated_def)

lemma mutated_change:
  "(coherent_task t \<Longrightarrow> coherent_task (apply_patch t (updates t))) \<Longrightarrow> task_change now d t (mutated now d updates t)"
  by (auto simp: task_change_def stamped_def mutated_def intro: coherent_compact)

lemma mutateTasks_steps:
  assumes "mutateTasks createId now options st = Inr (r, st')" and "unique_ids st"
    and "mu_select options st = filter P (so_tasks st)"
    and "\<And>t. coherent_task t \<Longrightarrow> coherent_task (apply_patch t (mu_updates options st (to_iso now) t))"
    and "\<And>ts s. device_of (or_else (mu_settings options st ts s) s) = device_of s"
  shows "tasks_changed (to_iso now) st st'"
proof (cases "so_tasks st' = so_tasks st")
  case False
  let ?sel = "mu_select options st" and ?upd = "mu_updates options st (to_iso now)"
  let ?ov = "\<lambda>s1 d u. no_overrides\<lparr>ov_tasks := Some (replaceEntitiesInArray (so_tasks st)
      (planTaskMutations ?sel ?upd (to_iso now) d)),
      ov_settings := if mu_settings options st ?sel s1 \<noteq> None \<or> u
        then Some (or_else (mu_settings options st ?sel s1) s1) else None\<rparr>"
  from False assms(1)[unfolded mutateTasks_def Let_def] have w: "with_device createId st (\<lambda>s1 d u st1. if ?sel = [] \<and> \<not> u then Inr (ActionOk None, st1)
      else commit now (?ov s1 d u) (ActionOk None) st1) = Inr (r, st')"
    by (auto split: if_splits)
  then obtain s1 d u s where c: "commit now (?ov s1 d u) (ActionOk None) (st\<lparr>so_ids := s\<rparr>) = Inr (r, st')"
    and dev: "device_of s1 = Some d" "u \<or> s1 = so_settings st"
    by (rule with_device_deviceE) (use False in \<open>auto split: if_splits\<close>)
  have st': "so_tasks st' = replaceEntitiesInArray (so_tasks st) (planTaskMutations ?sel ?upd (to_iso now) d)"
    "so_settings st' = (if mu_settings options st ?sel s1 \<noteq> None \<or> u
        then or_else (mu_settings options st ?sel s1) s1 else so_settings st)"
    unfolding commit_wrote(3)[OF c] by (simp_all add: write_overrides_def no_overrides_def)
  have "device_of (so_settings st') = Some d"
    using dev assms(5)[of ?sel s1] unfolding st'(2) by (cases "mu_settings options st ?sel s1") auto
  moreover have "tasks_change (to_iso now) d (so_tasks st) (so_tasks st')"
    unfolding st'(1) assms(3) planTaskMutations_map
    by (subst replace_filtered[OF assms(2)[unfolded unique_ids_def]])
       (auto intro!: tasks_change_map mutated_change assms(4))
  ultimately show ?thesis unfolding tasks_changed_def by blast
qed (simp add: tasks_changed_def)

lemma purge_settings_device: "device_of (or_else (purge_settings st ts s) s) = device_of s"
  by (simp add: purge_settings_def settingsWithPurgedParentAttachmentDeletes_def device_of_def Let_def)

lemma mutation_of_fields [simp]:
  "mu_select (mutation_of sel u m) = sel" "mu_updates (mutation_of sel u m) = u"
  "mu_settings (mutation_of sel u m) st ts s = None"
  by (simp_all add: mutation_of_def)

lemma calm_patches:
  "calm_patch (deleted_patch now)" "calm_patch (restored_patch st t)" "calm_patch (purged_patch now)"
  "calm_patch (no_patch\<lparr>u_deletedAt := a, u_purgedAt := b\<rparr>)" "calm_patch (no_patch\<lparr>u_focusOrder := c\<rparr>)"
  by (simp_all add: deleted_patch_def restored_patch_def purged_patch_def calm_patch_def no_patch_def
      no_marker_fields_def Let_def)

lemma unchanged_tasks [simp]: "so_tasks st' = so_tasks st \<Longrightarrow> tasks_changed now st st'"
  by (simp add: tasks_changed_def)

lemma refuse_iff: "refuse m st = Inr (r, st') \<longleftrightarrow> r = ActionFail m \<and> st' = set_error (Some m) st"
  by (auto simp: refuse_def)

lemma set_error_tasks [simp]: "so_tasks (set_error e st) = so_tasks st" "so_settings (set_error e st) = so_settings st"
  by (simp_all add: set_error_def)

lemma mutation_steps:
  assumes "unique_ids st"
  shows "deleteTask createId now k st = Inr (r, st') \<Longrightarrow> tasks_changed (to_iso now) st st'"
    and "batchDeleteTasks createId now ids st = Inr (r, st') \<Longrightarrow> tasks_changed (to_iso now) st st'"
    and "restoreTask createId now k st = Inr (r, st') \<Longrightarrow> tasks_changed (to_iso now) st st'"
    and "restoreTasks createId now ids st = Inr (r, st') \<Longrightarrow> tasks_changed (to_iso now) st st'"
    and "purgeTask createId now k st = Inr (r, st') \<Longrightarrow> tasks_changed (to_iso now) st st'"
    and "purgeTasks createId now ids st = Inr (r, st') \<Longrightarrow> tasks_changed (to_iso now) st st'"
    and "purgeDeletedTasks createId now st = Inr (r, st') \<Longrightarrow> tasks_changed (to_iso now) st st'"
    and "reorderFocusedTasks createId now ids st = Inr (r, st') \<Longrightarrow> tasks_changed (to_iso now) st st'"
    and "resetTaskChecklist createId now k st = Inr (r, st') \<Longrightarrow> tasks_changed (to_iso now) st st'"
  by (auto simp: deleteTask_def batchDeleteTasks_def restoreTask_def restoreTasks_def purgeTask_def
      purgeTasks_def purgeDeletedTasks_def reorderFocusedTasks_def resetTaskChecklist_def Let_def
      purge_settings_device calm_coherent[OF calm_patches(1)] calm_coherent[OF calm_patches(2)]
      calm_coherent[OF calm_patches(3)] calm_coherent[OF calm_patches(4)] calm_coherent[OF calm_patches(5)]
      refuse_iff
      intro!: mutateTasks_steps[OF _ assms] selected_filter[OF assms] reset_coherent
      split: if_splits option.splits)

lemmas mutations [task_steps] = mutation_steps[rotated]

subsection \<open>Updates\<close>

lemma edited_retired:
  assumes "edited now d x y"
  shows "task_change now d x (retireTaskProjectArchiveMetadata y now (Some d))"
proof (cases "hasTaskProjectArchiveMetadata y")
  case True
  let ?z = "retireTaskProjectArchiveMetadata y now (Some d)"
  have "eid ?z = eid y \<and> updatedAt ?z = now \<and> revBy ?z = Some d \<and> rev ?z = Some (nextRev (rev y))"
    using True by (simp add: retireTaskProjectArchiveMetadata_def without_archive_marker_def)
  moreover have "coherent_task y \<Longrightarrow> coherent_task ?z" by (rule retire_coherent)
  ultimately show ?thesis using assms by (auto simp: edited_def task_change_def stamped_def)
qed (use assms in \<open>simp add: retireTaskProjectArchiveMetadata_def edited_change\<close>)

lemma reactivated_changes:
  assumes "\<And>x. x \<in> set tasks \<Longrightarrow> edited now d x (g x)"
    and "\<And>y. y \<in> set new \<Longrightarrow> new_task d tasks y \<and> \<not> hasTaskProjectArchiveMetadata y"
  shows "tasks_change now d tasks
    (pr_tasks (applyTaskProjectReactivationTransition rs (map g tasks @ new) ps ss now (Some d)))"
proof -
  obtain f where f: "pr_tasks (applyTaskProjectReactivationTransition rs (map g tasks @ new) ps ss now (Some d)) =
      map f (map g tasks @ new)" "\<forall>t. f t = t \<or> f t = retireTaskProjectArchiveMetadata t now (Some d)"
    using reactivation_tasks by blast
  have "f y = y" if "y \<in> set new" for y
    using f(2)[rule_format, of y] assms(2)[OF that] by (auto simp: retireTaskProjectArchiveMetadata_def)
  then have n: "map f new = new" by (simp add: map_idI)
  have "task_change now d x (f (g x))" if "x \<in> set tasks" for x
    using f(2)[rule_format, of "g x"] edited_change[OF assms(1)[OF that]] edited_retired[OF assms(1)[OF that]]
    by (elim disjE) simp_all
  then have "tasks_change now d tasks (map (f \<circ> g) tasks)" by (intro tasks_change_map) simp
  from tasks_change_append[OF this, of new] show ?thesis using assms(2) by (simp add: f(1) n)
qed

lemma update_edited:
  assumes "coherent_task t \<Longrightarrow> star_allowed t p" and "coherent_task t \<Longrightarrow> marker_untouched t p"
  shows "edited now d t (updated_task h t (stamped_patch t p d) now)"
  using assms by (auto simp: edited_def updated_fields intro!: updated_coherent)

lemma first_rev: "nextRev None = 1" by code_simp

lemma follow_up_new:
  assumes "fresh_follow_up t n" and "t \<in> set ts"
  shows "new_task d ts (stampNewRecurringFollowUp h n (Some d) order) \<and>
    \<not> hasTaskProjectArchiveMetadata (stampNewRecurringFollowUp h n (Some d) order)"
proof
  have r: "rev (stampNewRecurringFollowUp h n (Some d) order) = Some 1"
    "revBy (stampNewRecurringFollowUp h n (Some d) order) = Some d"
    by (simp_all add: stampNewRecurringFollowUp_def Let_def first_rev)
  show "new_task d ts (stampNewRecurringFollowUp h n (Some d) order)"
    using stamped_coherent(1)[OF assms(1)] assms(2) r by (simp add: new_task_def)
  show "\<not> hasTaskProjectArchiveMetadata (stampNewRecurringFollowUp h n (Some d) order)"
    using assms(1) by (auto simp: fresh_follow_up_def hasTaskProjectArchiveMetadata_def follow_up_task_def
        stampNewRecurringFollowUp_def canonicalRecurringFollowUp_def Let_def)
qed

lemma updated_tasks_change:
  assumes "planTaskUpdateEffects h nowMs createId t p tasks ps ss now d projection s = Inr (e, s')"
    and "t \<in> set tasks" and "distinct (map eid tasks)"
    and "coherent_task t \<Longrightarrow> star_allowed t p" and "coherent_task t \<Longrightarrow> marker_untouched t p"
  shows "tasks_change now d tasks (ue_tasks e)"
proof -
  obtain next1 where n: "next_recurring h nowMs createId t (stamped_patch t p d) now projection s = Inr (next1, s')"
    "ue_updatedTask e = updated_task h t (stamped_patch t p d) now"
    "ue_candidate e = map_option (\<lambda>n. stampNewRecurringFollowUp h n (Some d) (follow_up_order t tasks n)) next1"
    "ue_followUp e = (if ue_duplicate e \<noteq> None then None else ue_candidate e)"
    "ue_tasks e = pr_tasks (applyTaskProjectReactivationTransition [(t, p)]
       (replaceEntityInArray tasks (eid t) (ue_updatedTask e) @ (case ue_followUp e of None \<Rightarrow> [] | Some f \<Rightarrow> [f]))
       ps ss now (Some d))"
    by (rule planned_update[OF assms(1)]) blast
  let ?new = "case ue_followUp e of None \<Rightarrow> [] | Some f \<Rightarrow> [f]"
  have r: "replaceEntityInArray tasks (eid t) (ue_updatedTask e) = map (\<lambda>x. if eid x = eid t then ue_updatedTask e else x) tasks"
    by (rule replace_one[OF assms(3)]) (simp add: n(2) updated_fields)
  have "new_task d tasks y \<and> \<not> hasTaskProjectArchiveMetadata y" if "y \<in> set ?new" for y
  proof -
    from that n(3,4) obtain m where m: "next1 = Some m" "y = stampNewRecurringFollowUp h m (Some d) (follow_up_order t tasks m)"
      by (cases next1) (auto split: if_splits option.splits)
    then show ?thesis using follow_up_new[OF next_recurring_fresh assms(2)] n(1) by simp
  qed
  moreover have "edited now d x (if eid x = eid t then ue_updatedTask e else x)" if "x \<in> set tasks" for x
  proof (cases "eid x = eid t")
    case True
    then have "x = t" using assms(2,3) that by (auto simp: distinct_map inj_on_def)
    then show ?thesis using update_edited[OF assms(4,5)] by (simp add: n(2))
  qed (simp add: edited_def)
  ultimately show ?thesis unfolding n(5) r by (rule reactivated_changes[rotated])
qed

lemma task_by_id_member: "task_by_id st k = Some t \<Longrightarrow> t \<in> set (so_tasks st) \<and> eid t = k"
  by (auto simp: task_by_id_def dest: js_map_SomeD)

lemma commit_tasks:
  "commit now ov r st = Inr (r', st') \<Longrightarrow> so_tasks st' = or_else (ov_tasks ov) (so_tasks st) \<and>
    so_settings st' = or_else (ov_settings ov) (so_settings st)"
  by (drule commit_wrote(3)) (simp add: write_overrides_def)

lemma after_flush_tasks:
  "after_flush what flushed (r, st) = Inr (r', st') \<Longrightarrow> so_tasks st' = so_tasks st \<and> so_settings st' = so_settings st"
  by (auto simp: after_flush_def refuse_iff split: option.splits)

lemma flushed_commit_changed:
  assumes "(case commit now ov r0 st0 of Inl m \<Rightarrow> Inl m | Inr rs \<Rightarrow> if quiet then Inr rs else after_flush what flushed rs) = Inr (r, st')"
    and "tasks_change (to_iso now) d (so_tasks st) (or_else (ov_tasks ov) (so_tasks st0))"
    and "device_of (or_else (ov_settings ov) (so_settings st0)) = Some d"
  shows "tasks_changed (to_iso now) st st'"
proof -
  obtain r1 st1 where c: "commit now ov r0 st0 = Inr (r1, st1)"
    using assms(1) by (auto split: sum.splits)
  have "so_tasks st' = so_tasks st1 \<and> so_settings st' = so_settings st1"
    using assms(1) by (cases quiet) (auto simp: c dest: after_flush_tasks)
  then show ?thesis using commit_tasks[OF c] assms(2,3) unfolding tasks_changed_def by auto
qed

lemma write_update_steps:
  assumes "write_update h createId now flushed t p st = Inr (r, st')" and "unique_ids st"
    and "t \<in> set (so_tasks st)" and "coherent_task t \<Longrightarrow> star_allowed t p" and "coherent_task t \<Longrightarrow> marker_untouched t p"
  shows "tasks_changed (to_iso now) st st'"
proof -
  obtain s1 d u s where w: "(case planTaskUpdateEffects h now createId t p (so_tasks st) (so_projects st) (so_sections st)
            (to_iso now) d None (so_ids (st\<lparr>so_ids := s\<rparr>)) of
          Inl e \<Rightarrow> Inl e
        | Inr (e, s2) \<Rightarrow>
            (case commit now ((effects_overrides e)\<lparr>ov_settings := device_override s1 u\<rparr>)
                (ActionOk None) (st\<lparr>so_ids := s, so_ids := s2\<rparr>) of
               Inl m \<Rightarrow> Inl m
             | Inr rs \<Rightarrow>
                 if ue_reactivated e = [] then Inr rs
                 else after_flush ''Failed to save task and project reactivation: '' flushed rs)) = Inr (r, st')"
    and dev: "device_of (or_else (device_override s1 u) (so_settings st)) = Some d"
    using assms(1)[unfolded write_update_def] by (rule with_device_deviceE) (rule that)
  from w obtain e s2 where e: "planTaskUpdateEffects h now createId t p (so_tasks st) (so_projects st) (so_sections st)
      (to_iso now) d None (so_ids (st\<lparr>so_ids := s\<rparr>)) = Inr (e, s2)"
    by (auto split: sum.splits)
  show ?thesis
    by (rule flushed_commit_changed[OF w[unfolded e, simplified]])
       (use updated_tasks_change[OF e assms(3) assms(2)[unfolded unique_ids_def] assms(4,5)] dev
        in \<open>simp_all add: effects_overrides_def no_overrides_def\<close>)
qed

lemma save_again_tasks: "save_again what flushed st = Inr (r, st') \<Longrightarrow> so_tasks st' = so_tasks st"
  by (auto simp: save_again_def persistSnapshot_def refuse_iff dest!: after_flush_tasks split: sum.splits)

lemma updateTask_cases:
  assumes "updateTask h createId now flushed k u st = Inr (r, st')"
  shows "so_tasks st' = so_tasks st \<or> (\<exists>t p. task_by_id st k = Some t \<and> prepared_for h now t u st = Inr p \<and>
    \<not> (fills_focus_slot h now t p \<and> focus_limit st \<le> int (getFocusedCount h now st)) \<and>
    write_update h createId now flushed t p st = Inr (r, st'))"
proof (cases "task_by_id st k")
  case (Some t)
  show ?thesis
  proof (cases "invalid_cancellation u \<or> collectOptimisticReactivationRetryProjectIds [(t, u)] st \<noteq> []")
    case True
    then show ?thesis using assms Some
      by (auto simp: updateTask_def refuse_iff dest: save_again_tasks split: if_splits)
  next
    case False
    then show ?thesis using assms Some
      by (cases "prepared_for h now t u st") (auto simp: updateTask_def refuse_iff split: if_splits)
  qed
qed (use assms in \<open>simp add: updateTask_def refuse_iff\<close>)

lemma updateTask_steps [task_steps]:
  assumes "updateTask h createId now flushed k u st = Inr (r, st')" and "unique_ids st" and "no_marker_fields u"
  shows "tasks_changed (to_iso now) st st'"
  using updateTask_cases[OF assms(1)]
proof (elim disjE exE conjE)
  fix t p
  assume t: "task_by_id st k = Some t" "prepared_for h now t u st = Inr p"
    and w: "write_update h createId now flushed t p st = Inr (r, st')"
  note allowed = prepared_allowed[OF t(2)[unfolded prepared_for_def] _ assms(3)]
  show ?thesis
  proof (rule write_update_steps[OF w assms(2)])
    show "t \<in> set (so_tasks st)" using task_by_id_member[OF t(1)] by blast
  qed (use allowed in simp_all)
qed simp

lemma cancelTask_steps [task_steps]:
  assumes "cancelTask h createId now flushed k st = Inr (r, st')" and "unique_ids st"
  shows "tasks_changed (to_iso now) st st'"
proof -
  let ?u = "no_patch\<lparr>u_status := Some Archived, u_cancelledAt := Some (Some (to_iso now))\<rparr>"
  have n: "no_marker_fields ?u" by (simp add: no_patch_def no_marker_fields_def)
  have "so_tasks st' = so_tasks st \<or> (\<exists>r1 st1. updateTask h createId now flushed k ?u st = Inr (r1, st1) \<and>
      so_tasks st' = so_tasks st1 \<and> so_settings st' = so_settings st1)"
    using assms(1) unfolding cancelTask_def Let_def persistSnapshot_def
    by (auto simp: refuse_iff dest!: after_flush_tasks split: option.splits if_splits sum.splits prod.splits store_result.splits)
  then show ?thesis
    using updateTask_steps[OF _ assms(2) n] unfolding tasks_changed_def by metis
qed

lemma skip_steps [task_steps]:
  assumes "skipRecurringTaskOccurrence h createId now flushed k st = Inr (r, st')" and "unique_ids st"
  shows "tasks_changed (to_iso now) st st'"
proof (cases "so_tasks st' = so_tasks st")
  case False
  let ?what = "''Failed to save skipped occurrence: ''"
  obtain t where t: "task_by_id st k = Some t"
    and w: "with_device createId st (\<lambda>settings1 deviceId updated st1.
            (case planSkippedRecurringOccurrence h now createId t (so_tasks st) (to_iso now) deviceId None (so_ids st1) of
               Inl e \<Rightarrow> Inl e
             | Inr ((_, _, tasks), s) \<Rightarrow>
                 (case commit now (no_overrides\<lparr>ov_tasks := Some tasks, ov_settings := device_override settings1 updated\<rparr>)
                     (ActionOk None) (st1\<lparr>so_ids := s\<rparr>) of
                    Inl m \<Rightarrow> Inl m
                  | Inr rs \<Rightarrow> after_flush ?what flushed rs))) = Inr (r, st')"
    using assms(1) False unfolding skipRecurringTaskOccurrence_def
    by (auto simp: refuse_iff split: option.splits if_splits)
  obtain s1 d u s where c: "(case planSkippedRecurringOccurrence h now createId t (so_tasks st) (to_iso now) d None
        (so_ids (st\<lparr>so_ids := s\<rparr>)) of
               Inl e \<Rightarrow> Inl e
             | Inr ((_, _, tasks), s2) \<Rightarrow>
                 (case commit now (no_overrides\<lparr>ov_tasks := Some tasks, ov_settings := device_override s1 u\<rparr>)
                     (ActionOk None) (st\<lparr>so_ids := s, so_ids := s2\<rparr>) of
                    Inl m \<Rightarrow> Inl m
                  | Inr rs \<Rightarrow> after_flush ?what flushed rs)) = Inr (r, st')"
    and dev: "device_of (or_else (device_override s1 u) (so_settings st)) = Some d"
    using w by (rule with_device_deviceE) (rule that)
  from c obtain x f tasks s2 where p: "planSkippedRecurringOccurrence h now createId t (so_tasks st) (to_iso now) d None
      (so_ids (st\<lparr>so_ids := s\<rparr>)) = Inr ((x, f, tasks), s2)"
    by (auto split: sum.splits prod.splits)
  have t': "t \<in> set (so_tasks st)" using task_by_id_member[OF t] by blast
  have skip: "skip_patch t (to_iso now) d = stamped_patch t (no_patch\<lparr>u_status := Some Archived,
      u_cancelledAt := Some (Some (to_iso now))\<rparr>) d"
    by (simp add: skip_patch_def stamped_patch_def no_patch_def)
  from p have x: "x = updated_task h t (skip_patch t (to_iso now) d) (to_iso now)"
    and tasks: "tasks = replaceEntityInArray (so_tasks st) (eid t) x @ (case f of None \<Rightarrow> [] | Some y \<Rightarrow> [y])"
    and f: "\<forall>y. f = Some y \<longrightarrow> (\<exists>n. fresh_follow_up t n \<and>
      y = stampNewRecurringFollowUp h n (Some d) (follow_up_order t (so_tasks st) n))"
    unfolding planSkippedRecurringOccurrence_def applyTaskUpdates_def Let_def createNextRecurringTask_def
    by (auto split: sum.splits prod.splits if_splits option.splits elim!: built_from_projection
        simp: fresh_follow_up_def) blast+
  let ?p = "no_patch\<lparr>u_status := Some Archived, u_cancelledAt := Some (Some (to_iso now))\<rparr>"
  have ed: "edited (to_iso now) d t x"
    unfolding x skip by (rule update_edited) (simp_all add: star_allowed_def marker_untouched_def no_patch_def)
  have "replaceEntityInArray (so_tasks st) (eid t) x = map (\<lambda>y. if eid y = eid t then x else y) (so_tasks st)"
    by (rule replace_one) (use assms(2) in \<open>simp_all add: unique_ids_def x updated_fields\<close>)
  moreover have "task_change (to_iso now) d y (if eid y = eid t then x else y)" if "y \<in> set (so_tasks st)" for y
    using that t' assms(2) edited_change[OF ed] by (auto simp: unique_ids_def distinct_map inj_on_def)
  ultimately have change: "tasks_change (to_iso now) d (so_tasks st) tasks"
    unfolding tasks using f follow_up_new[OF _ t']
    by (auto intro!: tasks_change_append tasks_change_map split: option.splits)
  show ?thesis
    by (rule flushed_commit_changed[where quiet = False, unfolded if_False, OF c[unfolded p, simplified]])
       (use change dev in \<open>simp_all add: no_overrides_def\<close>)
qed simp

end
