(* ===== verification/BatchWrites.thy ===== *)
theory BatchWrites
  imports StoreTasks
begin

text \<open>
  A batch of updates changes each task of the list as one update would: the loop over the tasks
  rewrites them one after the other and collects the follow-ups at the end.
\<close>

lemma list_all2_map:
  assumes "list_all2 R xs ys" and "distinct xs"
  obtains g where "ys = map g xs" and "\<And>x. x \<in> set xs \<Longrightarrow> R x (g x)"
proof -
  have "\<exists>g. ys = map g xs \<and> (\<forall>x\<in>set xs. R x (g x))" using assms
  proof (induction xs ys rule: list_all2_induct)
    case (Cons x xs y ys)
    then obtain g where g: "ys = map g xs" "\<forall>x\<in>set xs. R x (g x)" by auto
    have "y # ys = map (g(x := y)) (x # xs)" using g Cons.prems by auto
    then show ?case using g Cons.hyps Cons.prems by (intro exI[of _ "g(x := y)"]) auto
  qed simp
  then show thesis using that by blast
qed

lemma applied_update:
  "applyTaskUpdates h nowMs createId t p now projection s = Inr ((x, n), s') \<Longrightarrow>
    x = updated_task h t p now \<and> next_recurring h nowMs createId t p now projection s = Inr (n, s')"
  by (auto simp: applyTaskUpdates_def split: sum.splits prod.splits)

definition patch_allowed :: "task \<Rightarrow> task_patch \<Rightarrow> bool" where
  "patch_allowed t p = (coherent_task t \<longrightarrow> star_allowed t p \<and> marker_untouched t p)"

lemma reserved_allowed: "patch_allowed t p \<Longrightarrow> patch_allowed t (fst (reserve_container_order idx t p))"
  by (simp add: patch_allowed_def star_allowed_def marker_untouched_def reserve_container_order_def Let_def)

lemma allowed_edited: "patch_allowed t p \<Longrightarrow> edited now d t (updated_task h t (stamped_patch t p d) now)"
  by (rule update_edited) (simp_all add: patch_allowed_def)

lemma batch_loop_edits:
  assumes "batch_loop h nowMs createId prepared now d projections rest b s = Inr (b', s')"
    and "\<And>t p. t \<in> set rest \<Longrightarrow> prepared (eid t) = Some p \<Longrightarrow> patch_allowed t p"
    and "set rest \<subseteq> set ts"
    and "\<And>y. y \<in> set (bs_created b) \<Longrightarrow> new_task d ts y \<and> \<not> hasTaskProjectArchiveMetadata y"
  shows "\<exists>ys. bs_done b' = bs_done b @ ys \<and> list_all2 (edited now d) rest ys \<and>
    (\<forall>y\<in>set (bs_created b'). new_task d ts y \<and> \<not> hasTaskProjectArchiveMetadata y)"
  using assms
proof (induction rest arbitrary: b s)
  case (Cons t rest)
  show ?case
  proof (cases "prepared (eid t)")
    case None
    then have "\<exists>ys. bs_done b' = (bs_done b @ [t]) @ ys \<and> list_all2 (edited now d) rest ys \<and>
        (\<forall>y\<in>set (bs_created b'). new_task d ts y \<and> \<not> hasTaskProjectArchiveMetadata y)"
      using Cons.prems Cons.IH[of "b\<lparr>bs_done := bs_done b @ [t]\<rparr>" s] by simp
    then obtain ys where "bs_done b' = bs_done b @ t # ys" "list_all2 (edited now d) rest ys"
      "\<forall>y\<in>set (bs_created b'). new_task d ts y \<and> \<not> hasTaskProjectArchiveMetadata y" by auto
    moreover have "edited now d t t" by (simp add: edited_def)
    ultimately show ?thesis by (intro exI[of _ "t # ys"]) simp
  next
    case (Some p)
    obtain patched idx where r: "reserve_container_order (bs_orders b) t p = (patched, idx)" by (metis prod.exhaust)
    have ok: "patch_allowed t patched"
      using reserved_allowed[of t p "bs_orders b"] Cons.prems(2)[of t p] Some r by simp
    from Cons.prems(1) Some r obtain x n s1 where
      a: "applyTaskUpdates h nowMs createId t (stamped_patch t patched d) now (projections (eid t)) s = Inr ((x, n), s1)"
      by (auto simp: stamped_patch_def split: sum.splits)
    let ?own = "getTaskOrder (t_order t) (t_orderNum t)"
    let ?reserved = "case n of Some m \<Rightarrow> if ?own = None then reserve_order idx (t_projectId m) else (?own, idx)
      | None \<Rightarrow> (?own, idx)"
    let ?stamped = "map_option (\<lambda>m. stampNewRecurringFollowUp h m (Some d) (fst ?reserved)) n"
    let ?created = "case ?stamped of Some f \<Rightarrow>
      if findExistingRecurringFollowUp h (bs_done b @ t # rest @ bs_created b) ?stamped (eid t) = None then [f] else []
      | None \<Rightarrow> []"
    have l: "batch_loop h nowMs createId prepared now d projections rest
        \<lparr>bs_done = bs_done b @ [x], bs_created = bs_created b @ ?created,
         bs_requests = bs_requests b @ [(t, patched)], bs_orders = snd ?reserved\<rparr> s1 = Inr (b', s')"
      using Cons.prems(1) Some r a by (simp add: stamped_patch_def Let_def)
    have new: "\<exists>m order. n = Some m \<and> y = stampNewRecurringFollowUp h m (Some d) order" if "y \<in> set ?created" for y
      using that by (cases n) (auto split: if_splits)
    have fresh: "new_task d ts y \<and> \<not> hasTaskProjectArchiveMetadata y" if y: "y \<in> set ?created" for y
    proof -
      obtain m order where m: "n = Some m" "y = stampNewRecurringFollowUp h m (Some d) order" using new[OF y] by blast
      have "t \<in> set ts" using Cons.prems(3) by simp
      from follow_up_new[OF next_recurring_fresh[OF applied_update[OF a, THEN conjunct2, unfolded m(1)]] this]
      show ?thesis by (simp add: m(2))
    qed
    from Cons.IH[OF l] Cons.prems(2-4) fresh obtain ys where ys: "bs_done b' = (bs_done b @ [x]) @ ys"
      "list_all2 (edited now d) rest ys"
      "\<forall>y\<in>set (bs_created b'). new_task d ts y \<and> \<not> hasTaskProjectArchiveMetadata y" by auto
    have "edited now d t x" using allowed_edited[OF ok] applied_update[OF a] by simp
    then show ?thesis using ys by (intro exI[of _ "x # ys"]) simp
  qed
qed simp

lemma batch_tasks_change:
  assumes "planTaskBatchUpdateEffects h nowMs createId prepared tasks ps ss now d projections s = Inr (e, s')"
    and "\<And>t p. t \<in> set tasks \<Longrightarrow> prepared (eid t) = Some p \<Longrightarrow> patch_allowed t p" and "distinct (map eid tasks)"
  shows "tasks_change now d tasks (pr_tasks (be_reactivation e))"
proof -
  obtain b where l: "batch_loop h nowMs createId prepared now d projections tasks
      \<lparr>bs_done = [], bs_created = [], bs_requests = [], bs_orders = getProjectOrderIndex tasks\<rparr> s = Inr (b, s')"
    and e: "pr_tasks (be_reactivation e) = pr_tasks (applyTaskProjectReactivationTransition (bs_requests b)
            (bs_done b @ bs_created b) ps ss now (Some d))"
    using assms(1) by (auto simp: planTaskBatchUpdateEffects_def split: sum.splits)
  from batch_loop_edits[OF l assms(2) order_refl] have
    b: "list_all2 (edited now d) tasks (bs_done b)"
      "\<forall>y\<in>set (bs_created b). new_task d tasks y \<and> \<not> hasTaskProjectArchiveMetadata y" by auto
  have distinct: "distinct tasks" using assms(3) by (simp add: distinct_map)
  obtain g where g: "bs_done b = map g tasks" "\<And>x. x \<in> set tasks \<Longrightarrow> edited now d x (g x)"
    using distinct by (rule list_all2_map[OF b(1)]) blast
  show ?thesis unfolding e g(1) by (rule reactivated_changes) (use g(2) b(2) in auto)
qed

lemma prepare_each_member:
  "prepare_each prep taskOf us = Inr ps \<Longrightarrow> (k, p) \<in> set ps \<Longrightarrow>
    \<exists>u t. (k, u) \<in> set us \<and> taskOf k = Some t \<and> prep u t = Inr p"
proof (induction prep taskOf us arbitrary: ps rule: prepare_each.induct)
  case (2 prep taskOf j u rest)
  then show ?case by (auto split: option.splits sum.splits) fastforce+
qed simp

lemma prepared_batch:
  assumes "prepareTaskBatchUpdatesForStore h now us tasks ps ss as ctx = Inr prepared"
    and "map_of prepared (eid t) = Some p" and "t \<in> set tasks" and "distinct (map eid tasks)"
    and "\<And>k u. (k, u) \<in> set us \<Longrightarrow> no_marker_fields u"
  shows "patch_allowed t p"
proof -
  have each: "prepare_each (\<lambda>u t. prepareTaskUpdatesForStore h now t u ps ss as ctx False None)
      (js_map_of eid tasks) us = Inr prepared"
    using assms(1) by (auto simp: prepareTaskBatchUpdatesForStore_def Let_def split: if_splits)
  from prepare_each_member[OF this map_of_SomeD[OF assms(2)]] obtain u x where
    u: "(eid t, u) \<in> set us" "js_map_of eid tasks (eid t) = Some x"
      "prepareTaskUpdatesForStore h now x u ps ss as ctx False None = Inr p" by blast
  have "x = t" using js_map_SomeD[OF u(2)] assms(3,4) by (auto simp: distinct_map inj_on_def)
  then show ?thesis
    using prepared_allowed[OF u(3) _ assms(5)[OF u(1)]] by (simp add: patch_allowed_def)
qed

lemma batchUpdateTasks_steps [task_steps]:
  assumes "batchUpdateTasks h createId now flushed us st = Inr (r, st')" and "unique_ids st"
    and "\<And>k u. (k, u) \<in> set us \<Longrightarrow> no_marker_fields u"
  shows "tasks_changed (to_iso now) st st'"
proof (cases "so_tasks st' = so_tasks st")
  case False
  let ?what = "''Failed to save tasks and project reactivation: ''"
  from False obtain prepared where
    p: "prepareTaskBatchUpdatesForStore h now us (so_tasks st) (so_projects st)
                (so_sections st) (so_areas st) (settings_context st) = Inr prepared"
    and w: "write_batch h createId now flushed prepared st = Inr (r, st')"
    using assms(1) by (auto simp: batchUpdateTasks_def refuse_iff dest: save_again_tasks split: if_splits sum.splits)
  obtain s1 d u s where c: "(case planTaskBatchUpdateEffects h now createId (map_of prepared) (so_tasks st) (so_projects st)
            (so_sections st) (to_iso now) d (\<lambda>_. None) (so_ids (st\<lparr>so_ids := s\<rparr>)) of
          Inl e \<Rightarrow> Inl e
        | Inr (e, s2) \<Rightarrow>
            (case commit now (no_overrides\<lparr>ov_tasks := Some (pr_tasks (be_reactivation e)),
                 ov_projects := Some (pr_projects (be_reactivation e)),
                 ov_sections := Some (pr_sections (be_reactivation e)),
                 ov_settings := device_override s1 u\<rparr>) (ActionOk None) (st\<lparr>so_ids := s, so_ids := s2\<rparr>) of
               Inl m \<Rightarrow> Inl m
             | Inr rs \<Rightarrow>
                 if pr_reactivated (be_reactivation e) = [] then Inr rs
                 else after_flush ?what flushed rs)) = Inr (r, st')"
    and dev: "device_of (or_else (device_override s1 u) (so_settings st)) = Some d"
    using w[unfolded write_batch_def] by (rule with_device_deviceE) (rule that)
  from c obtain e s2 where e: "planTaskBatchUpdateEffects h now createId (map_of prepared) (so_tasks st) (so_projects st)
            (so_sections st) (to_iso now) d (\<lambda>_. None) (so_ids (st\<lparr>so_ids := s\<rparr>)) = Inr (e, s2)"
    by (auto split: sum.splits)
  have "tasks_change (to_iso now) d (so_tasks st) (pr_tasks (be_reactivation e))"
    by (rule batch_tasks_change[OF e])
       (use prepared_batch[OF p _ _ assms(2)[unfolded unique_ids_def] assms(3)] assms(2) in \<open>auto simp: unique_ids_def\<close>)
  then show ?thesis
    by (intro flushed_commit_changed[OF c[unfolded e, simplified]]) (use dev in \<open>simp_all add: no_overrides_def\<close>)
qed simp

lemma batchMoveTasks_steps [task_steps]:
  "batchMoveTasks h createId now flushed ids status st = Inr (r, st') \<Longrightarrow> unique_ids st \<Longrightarrow> tasks_changed (to_iso now) st st'"
  unfolding batchMoveTasks_def
  by (erule batchUpdateTasks_steps) (auto simp: no_patch_def no_marker_fields_def)

lemma moveTask_steps [task_steps]:
  "moveTask h createId now flushed k status st = Inr (r, st') \<Longrightarrow> unique_ids st \<Longrightarrow> tasks_changed (to_iso now) st st'"
  unfolding moveTask_def by (erule updateTask_steps) (auto simp: no_patch_def no_marker_fields_def)

end
