(* ===== verification/ContainerWrites.thy ===== *)
theory ContainerWrites
  imports BatchWrites
begin

text \<open>
  What the actions on projects, sections and areas do to the tasks in them, and the tasks the
  copies and the conversion to a section create.
\<close>

subsection \<open>One write\<close>

lemma ensured_device:
  "ensureDeviceId createId settings0 s = ((settings1, d, u), s') \<Longrightarrow>
    device_of settings1 = Some d \<and> device_of (or_else (device_override settings1 u) settings0) = Some d"
  by (cases "device_of settings0")
    (auto simp: ensureDeviceId_def device_of_def device_override_def obj_get_set str_of_def split: prod.splits if_splits)

lemma commit_changed:
  assumes "commit now ov r0 st0 = Inr (r, st')"
    and "tasks_change (to_iso now) d (so_tasks st) (or_else (ov_tasks ov) (so_tasks st0))"
    and "device_of (or_else (ov_settings ov) (so_settings st0)) = Some d"
  shows "tasks_changed (to_iso now) st st'"
  using commit_tasks[OF assms(1)] assms(2,3) unfolding tasks_changed_def by auto

lemma touched:
  assumes "eid y = eid t" and "rev y = rev t" and "coherent_task t \<Longrightarrow> coherent_task y"
  shows "task_change now d t (touch now d y)"
  using assms by (simp add: task_change_def stamped_def touch_def)

lemma moved_coherent [simp]:
  "coherent_task (t\<lparr>t_projectId := a\<rparr>) = coherent_task t"
  "coherent_task (t\<lparr>t_sectionId := b\<rparr>) = coherent_task t"
  "coherent_task (t\<lparr>t_areaId := c\<rparr>) = coherent_task t"
  "coherent_task (t\<lparr>deletedAt := e\<rparr>) = coherent_task t"
  "coherent_task (t\<lparr>t_purgedAt := e\<rparr>) = coherent_task t"
  by (simp_all add: coherent_task_def marker_coherent_def)

lemma detached_change: "task_change now d t (detached now d t)"
  unfolding detached_def by (rule touched) simp_all

lemma eid_touch [simp]: "eid (touch now d x) = eid x" "eid (detached now d t) = eid t"
  by (simp_all add: touch_def detached_def)

lemma touched_if:
  assumes "eid y = eid t" and "rev y = rev t" and "coherent_task t \<Longrightarrow> coherent_task y"
  shows "task_change now d t (if P then touch now d y else t)"
  using touched[OF assms] by simp

lemma content_overrides_fields [simp]:
  "ov_tasks (content_overrides ts ps ss s) = Some ts" "ov_settings (content_overrides ts ps ss s) = s"
  by (simp_all add: content_overrides_def no_overrides_def)

subsection \<open>The project cascade\<close>

lemma edited_refl [simp]: "edited now d t t"
  by (simp add: edited_def)

lemma editedI:
  "\<lbrakk>eid y = eid t; updatedAt y = now; revBy y = Some d; rev y = Some (nextRev (rev t));
    coherent_task t \<Longrightarrow> coherent_task y\<rbrakk> \<Longrightarrow> edited now d t y"
  by (simp add: edited_def)

lemma kept_value [simp]: "or_else (map_option Some v) None = v" "or_else b False = (b = Some True)"
  by (cases v; simp) (cases b; simp)

lemma closed_child_edited:
  "isTaskActionable (Some (t_status t)) \<Longrightarrow> edited now d t (cancelTaskForProjectArchive t c (Some d) now)"
  "\<not> isTaskFinished (Some (t_status t)) \<Longrightarrow> t_status t \<noteq> Reference \<Longrightarrow>
    edited now d t (completeTaskForProjectArchive t now (Some d))"
  by (rule editedI;
      simp add: cancelTaskForProjectArchive_def completeTaskForProjectArchive_def coherent_task_def
        marker_coherent_def isTaskFinished_def isTaskActionable_def; auto)+

lemma stamp_archived_edited: "edited now d t (stamp_archived now (Some d) entered t)"
  by (cases "entered \<and> \<not> truthy (t_archivedAt t)")
    (auto intro!: editedI simp: stamp_archived_def coherent_task_def marker_coherent_def)

lemma restored_child_edited: "edited now d t (restoreTaskFromProjectArchive t now (Some d))"
proof (cases "restorable_task t")
  case True
  then show ?thesis
    by (intro editedI; simp add: restoreTaskFromProjectArchive_def restorable_task_def Let_def coherent_task_def
        marker_coherent_def isTaskFinished_def; auto)
qed (simp add: restoreTaskFromProjectArchive_def)

lemma archived_child_edited:
  "edited now d t (archive_child n entered now (Some d) t)"
  "edited now d t (reactivate_child now (Some d) t)"
proof -
  show "edited now d t (archive_child n entered now (Some d) t)"
    by (simp add: archive_child_def closed_child_edited stamp_archived_edited)
  have "edited now d t (t\<lparr>t_archivedAt := None, updatedAt := now, rev := Some (nextRev (rev t)), revBy := Some d\<rparr>)"
    by (rule editedI) (simp_all add: coherent_task_def marker_coherent_def)
  then show "edited now d t (reactivate_child now (Some d) t)"
    by (simp add: reactivate_child_def restored_child_edited)
qed

lemma repaired_edited:
  assumes "edited now d t c"
  shows "edited now d t (repairSectionOnlyOwner p now (Some d) t c)"
proof -
  have "coherent_task (repairSectionOnlyOwner p now (Some d) t c) = coherent_task c"
    by (simp add: repairSectionOnlyOwner_def coherent_task_def marker_coherent_def)
  then show ?thesis using assms by (auto simp: edited_def repairSectionOnlyOwner_def)
qed

lemma cascade_change:
  "tasks_change now d tasks (lt_tasks (applyProjectLifecycleTransition p u tasks ss now (Some d)))"
  by (auto simp: applyProjectLifecycleTransition_def Let_def
      intro!: tasks_change_map edited_change repaired_edited archived_child_edited)

lemma updateProject_steps [task_steps]:
  assumes "updateProject createId now k u st = Inr (r, st')"
  shows "tasks_changed (to_iso now) st st'"
proof (cases "so_tasks st' = so_tasks st")
  case False
  then obtain p where w: "with_device createId st (\<lambda>settings1 deviceId updated st1.
               let lifecycle = applyProjectLifecycleTransition p u (so_tasks st)
                     (so_sections st) (to_iso now) (Some deviceId);
                   area1 = projectAreaSelection p u (so_projects st) (so_areas st);
                   final = final_project_updates p (lt_projectUpdates lifecycle) area1;
                   projects = map (\<lambda>p. if eid p = k then stamp_project p final (to_iso now) (Some deviceId) else p)
                     (so_projects st)
               in commit now (content_overrides (lt_tasks lifecycle) projects (lt_sections lifecycle)
                    (device_override settings1 updated)) (ActionOk None) st1) = Inr (r, st')"
    using assms by (auto simp: updateProject_def refuse_iff split: if_splits option.splits)
  show ?thesis using w
    by (rule with_device_deviceE)
       (auto simp: Let_def content_overrides_def no_overrides_def cascade_change elim!: commit_changed)
qed simp

lemma cancelProject_steps [task_steps]:
  assumes "cancelProject createId now flushed k st = Inr (r, st')"
  shows "tasks_changed (to_iso now) st st'"
proof -
  let ?u = "no_project_update\<lparr>up_status := Some PArchived, up_cancelledAt := Some (JStr (to_iso now))\<rparr>"
  have "so_tasks st' = so_tasks st \<or> (\<exists>r1 st1. updateProject createId now k ?u st = Inr (r1, st1) \<and>
      so_tasks st' = so_tasks st1 \<and> so_settings st' = so_settings st1)"
    using assms unfolding cancelProject_def Let_def persistSnapshot_def
    by (auto simp: refuse_iff dest!: after_flush_tasks split: option.splits if_splits sum.splits prod.splits store_result.splits)
  then show ?thesis
    using updateProject_steps unfolding tasks_changed_def by metis
qed

subsection \<open>Deletion, restoration and purge\<close>

lemma replaced_change:
  assumes "distinct (map eid xs)" and "\<And>x. eid (g x) = eid x" and "\<And>x. task_change now d x (g x)"
  shows "tasks_change now d xs (replaceEntitiesInArray xs (map g (filter P xs)))"
  unfolding replace_filtered[OF assms(1,2)] by (rule tasks_change_map) (simp add: assms(3))

lemma write_effect_changed:
  assumes "write_effect now e settings1 st0 = Inr (r, st')" and "unique_ids st" and "so_tasks st0 = so_tasks st"
    and "pe_tasks e = map g (filter P (so_tasks st))" and "\<And>x. task_change (to_iso now) d x (g x)"
    and "\<And>x. eid (g x) = eid x" and "device_of (or_else settings1 (so_settings st0)) = Some d"
  shows "tasks_changed (to_iso now) st st'"
  by (rule commit_changed[OF assms(1)[unfolded write_effect_def]])
    (use assms(2-7) in \<open>simp_all add: content_overrides_def no_overrides_def unique_ids_def replaced_change\<close>)

lemma deleteProject_steps [task_steps]:
  assumes "deleteProject createId now k st = Inr (r, st')" and "unique_ids st"
  shows "tasks_changed (to_iso now) st st'"
proof (cases "so_tasks st' = so_tasks st")
  case False
  then obtain target where w: "with_device createId st (\<lambda>settings1 deviceId updated st1.
            write_effect now (projectDeleteEffect target (project_tasks k (so_sections st) (so_tasks st))
                  (filter (\<lambda>s. s_projectId s = k) (so_sections st)) deviceId (to_iso now))
              (device_override settings1 updated) st1) = Inr (r, st')"
    using assms by (auto simp: deleteProject_def Let_def refuse_iff split: option.splits)
  show ?thesis using w
  proof (rule with_device_deviceE)
    fix s1 d u s
    assume "write_effect now (projectDeleteEffect target (project_tasks k (so_sections st) (so_tasks st))
        (filter (\<lambda>s. s_projectId s = k) (so_sections st)) d (to_iso now)) (device_override s1 u) (st\<lparr>so_ids := s\<rparr>) = Inr (r, st')"
      "device_of (or_else (device_override s1 u) (so_settings st)) = Some d"
    then show ?thesis
      using assms(2) by (elim write_effect_changed[where g = "detached (to_iso now) d"])
        (auto simp: projectDeleteEffect_def project_tasks_def detached_change)
  qed
qed simp

lemma restoreProject_steps [task_steps]:
  assumes "restoreProject createId now k st = Inr (r, st')" and "unique_ids st"
  shows "tasks_changed (to_iso now) st st'"
proof (cases "so_tasks st' = so_tasks st")
  case False
  then obtain target area1 where w: "with_device createId st (\<lambda>settings1 deviceId updated st1.
            write_effect now (projectRestoreEffect target (filter (\<lambda>t. t_projectId t = Some k) (so_tasks st))
                  (filter (\<lambda>s. s_projectId s = k) (so_sections st)) area1 deviceId (to_iso now))
              (device_override settings1 updated) st1) = Inr (r, st')"
    using assms by (auto simp: restoreProject_def Let_def split: option.splits if_splits)
  show ?thesis using w
  proof (rule with_device_deviceE)
    fix s1 d u s
    assume "write_effect now (projectRestoreEffect target (filter (\<lambda>t. t_projectId t = Some k) (so_tasks st))
        (filter (\<lambda>s. s_projectId s = k) (so_sections st)) area1 d (to_iso now)) (device_override s1 u) (st\<lparr>so_ids := s\<rparr>) = Inr (r, st')"
      "device_of (or_else (device_override s1 u) (so_settings st)) = Some d"
    then show ?thesis
      using assms(2)
      by (elim write_effect_changed[where g = "\<lambda>t. touch (to_iso now) d (t\<lparr>deletedAt := None,
          t_sectionId := (if truthy (t_sectionId t) \<and> the (t_sectionId t) \<in> set (map eid (filter
            (\<lambda>s. \<not> truthy (deletedAt s) \<or> deletedAt s = deletedAt target) (filter (\<lambda>s. s_projectId s = k) (so_sections st))))
            then t_sectionId t else None)\<rparr>)"
          and P = "\<lambda>t. t_projectId t = Some k \<and> deletedAt t = deletedAt target \<and> \<not> truthy (t_purgedAt t)"])
        (simp_all add: projectRestoreEffect_def Let_def conj_commute touched)
  qed
qed simp

lemma purge_projects_steps:
  assumes "purge_projects createId now ids st = Inr (r, st')"
  shows "tasks_changed (to_iso now) st st'"
  using assms[unfolded purge_projects_def]
  by (rule with_device_deviceE)
    (auto simp: Let_def content_overrides_def no_overrides_def detached_change device_of_def
      settingsWithPurgedParentAttachmentDeletes_def intro!: tasks_change_map elim!: commit_changed)

lemma entity_steps [task_steps]:
  "purgeProject createId now k st = Inr (r, st') \<Longrightarrow> tasks_changed (to_iso now) st st'"
  "purgeDeletedProjects createId now st = Inr (r, st') \<Longrightarrow> tasks_changed (to_iso now) st st'"
  by (auto simp: purgeProject_def purgeDeletedProjects_def Let_def refuse_iff split: if_splits intro: purge_projects_steps)

lemma deleteSection_steps [task_steps]:
  "deleteSection createId now k st = Inr (r, st') \<Longrightarrow> tasks_changed (to_iso now) st st'"
  by (auto simp: deleteSection_def refuse_iff no_overrides_def split: option.splits if_splits
      elim!: with_device_deviceE commit_changed intro!: tasks_change_map touched)

lemma deleteArea_steps [task_steps]:
  "deleteArea createId now k st = Inr (r, st') \<Longrightarrow> tasks_changed (to_iso now) st st'"
  by (auto simp: deleteArea_def refuse_iff no_overrides_def split: option.splits if_splits
      elim!: with_device_deviceE commit_changed intro!: tasks_change_map touched)

lemma restoreArea_steps [task_steps]:
  assumes "restoreArea createId now k st = Inr (r, st')"
  shows "tasks_changed (to_iso now) st st'"
proof (cases "\<exists>a. find (\<lambda>a. eid a = k) (so_areas st) = Some a \<and> truthy (deletedAt a)")
  case True
  then obtain a where a: "find (\<lambda>a. eid a = k) (so_areas st) = Some a" "truthy (deletedAt a)" by blast
  note w = assms[unfolded restoreArea_def a(1) option.case if_not_P[of "\<not> truthy (deletedAt a)", unfolded not_not, OF a(2)]]
  show ?thesis
    by (rule with_device_deviceE[OF w], unfold Let_def, erule commit_changed)
      (simp_all, rule tasks_change_map, rule touched_if, simp_all)
qed (use assms in \<open>auto simp: restoreArea_def split: option.splits\<close>)

end
