(* ===== verification/CopyWrites.thy ===== *)
theory CopyWrites
  imports ContainerWrites
begin

text \<open>
  The tasks that the actions create: the copy of a task, the copies of the tasks of a project and
  the tasks made of a checklist. They are new records at revision 1, and coherent.
\<close>

lemma append_change:
  "(\<And>y. y \<in> set new \<Longrightarrow> new_task d xs y) \<Longrightarrow> tasks_change now d xs (xs @ new)"
  by (rule tasks_change_append) simp_all

lemma duplicate_new:
  assumes "buildDuplicateTask h createId source asNext copyId now d order boardOrder s = (y, s')" and "source \<in> set xs"
  shows "new_task d xs y"
proof -
  obtain i cl links where y: "y = source\<lparr>eid := i, t_status := duplicate_status asNext source,
      t_recurrence := renewed_series h (t_recurrence source) i, t_checklist := cl, t_attachments := links,
      t_completedAt := None, t_cancelledAt := None, t_archivedAt := None, t_isFocusedToday := Some False,
      t_focusOrder := None, t_boardOrder := (if duplicate_status asNext source = t_status source then boardOrder else None),
      t_statusBeforeProjectArchive := None, t_completedAtBeforeProjectArchive := None,
      t_isFocusedTodayBeforeProjectArchive := None, t_projectArchivedAt := None, deletedAt := None,
      t_purgedAt := None, createdAt := now, updatedAt := now, rev := Some 1, revBy := Some d,
      t_order := order, t_orderNum := order\<rparr>"
    using assms(1) unfolding buildDuplicateTask_def by (auto split: prod.splits option.splits)
  have "coherent_task source \<Longrightarrow> coherent_task y"
    unfolding y by (auto simp: coherent_task_def marker_coherent_def duplicate_status_def isTaskFinished_def renewed_series_def)
  then show ?thesis using assms(2) by (simp add: new_task_def) (simp add: y)
qed

lemma duplicateTask_steps [task_steps]:
  assumes "duplicateTask h createId now k asNext copyId st = Inr (r, st')"
  shows "tasks_changed (to_iso now) st st'"
proof (cases "so_tasks st' = so_tasks st")
  case False
  let ?order = "\<lambda>source. getNextProjectOrder (t_projectId source) (so_tasks st)"
  let ?board = "\<lambda>source. boardOrderForDuplicate (t_boardOrder source) (map t_boardOrder
      (filter (\<lambda>t. t_status t = t_status source \<and> \<not> truthy (deletedAt t)) (so_tasks st)))"
  obtain source where src: "task_by_id st k = Some source"
    and w: "with_device createId st (\<lambda>settings1 deviceId updated st1.
        (case buildDuplicateTask h createId source asNext copyId (to_iso now) deviceId (?order source) (?board source)
            (so_ids st1) of
           (copy, s) \<Rightarrow> commit now (no_overrides\<lparr>ov_tasks := Some (so_tasks st @ [copy]),
               ov_settings := device_override settings1 updated\<rparr>) (ActionOk (Some (eid copy))) (st1\<lparr>so_ids := s\<rparr>))) = Inr (r, st')"
  proof (cases "task_by_id st k")
    case None
    then show ?thesis using assms False by (simp add: duplicateTask_def)
  next
    case (Some source)
    have live: "\<not> truthy (deletedAt source)"
      using assms False by (rule_tac notI) (simp add: duplicateTask_def Some)
    have "(if truthy copyId then task_by_id st (the copyId) else None) = None"
    proof (rule ccontr)
      assume "\<not> ?thesis"
      then show False using assms False live unfolding duplicateTask_def Some
        by (auto simp only: option.case if_False not_None_eq sum.inject prod.inject split: if_splits)
    qed
    then show ?thesis using that[OF Some] assms live unfolding duplicateTask_def Some by (simp only: option.case if_False)
  qed
  obtain s1 d u s where c: "(case buildDuplicateTask h createId source asNext copyId (to_iso now) d (?order source)
        (?board source) (so_ids (st\<lparr>so_ids := s\<rparr>)) of
           (copy, s2) \<Rightarrow> commit now (no_overrides\<lparr>ov_tasks := Some (so_tasks st @ [copy]),
               ov_settings := device_override s1 u\<rparr>) (ActionOk (Some (eid copy))) (st\<lparr>so_ids := s, so_ids := s2\<rparr>)) = Inr (r, st')"
    and dev: "device_of (or_else (device_override s1 u) (so_settings st)) = Some d"
    using w by (rule with_device_deviceE) (rule that)
  obtain copy s2 where b: "buildDuplicateTask h createId source asNext copyId (to_iso now) d (?order source)
      (?board source) (so_ids (st\<lparr>so_ids := s\<rparr>)) = (copy, s2)" by (rule prod.exhaust)
  have "new_task d (so_tasks st) copy"
    using duplicate_new[OF b] task_by_id_member[OF src] by blast
  then show ?thesis
    by (intro commit_changed[OF c[unfolded b prod.case]]) (use dev in \<open>auto simp: no_overrides_def intro!: append_change\<close>)
qed simp

lemma copied_task_new:
  assumes "copied_task createId now d pid sm t s = (y, s')" and "t \<in> set xs"
  shows "new_task d xs y"
proof -
  obtain i cl as where y: "y = t\<lparr>eid := i, t_projectId := Some pid,
      t_sectionId := (if truthy (t_sectionId t) then sm (the (t_sectionId t)) else None),
      t_status := (if t_status t = Reference then Reference else Next), t_startTime := None, t_dueDate := None,
      t_reviewAt := None, t_completedAt := None, t_cancelledAt := None, t_archivedAt := None,
      t_isFocusedToday := Some False, t_pushCount := Some 0, t_checklist := cl, t_attachments := as,
      createdAt := now, updatedAt := now, deletedAt := None, t_purgedAt := None, rev := Some 1, revBy := Some d\<rparr>"
    using assms(1) unfolding copied_task_def by (auto split: prod.splits option.splits)
  have "coherent_task t \<Longrightarrow> coherent_task y"
    unfolding y by (auto simp: coherent_task_def marker_coherent_def isTaskFinished_def)
  then show ?thesis using assms(2) by (simp add: new_task_def) (simp add: y)
qed

lemma copied_tasks_new:
  "copied_tasks createId now d pid sm ts s = (ys, s') \<Longrightarrow> set ts \<subseteq> set xs \<Longrightarrow> y \<in> set ys \<Longrightarrow> new_task d xs y"
proof (induction createId now d pid sm ts s arbitrary: ys s' rule: copied_tasks.induct)
  case (2 createId now d pid sm t ts s)
  then show ?case by (auto split: prod.splits intro: copied_task_new)
qed simp

lemma duplicateProject_steps [task_steps]:
  assumes "duplicateProject createId now k st = Inr (r, st')"
  shows "tasks_changed (to_iso now) st st'"
proof (cases "so_tasks st' = so_tasks st")
  case False
  let ?tasks = "filter (\<lambda>t. t_projectId t = Some k) (so_tasks st)"
  from False assms obtain source s1 d u s e s2 m where
    dev: "ensureDeviceId createId (so_settings st) (so_ids st) = ((s1, d, u), s)"
    and e: "projectDuplicateEffect createId source
                (filter (\<lambda>p. \<not> truthy (deletedAt p) \<and> p_areaId p = p_areaId source) (so_projects st))
                (filter (\<lambda>x. s_projectId x = k) (so_sections st)) ?tasks d (to_iso now) s = (e, s2)"
    and c: "commit now (content_overrides (so_tasks st @ pe_tasks e) (so_projects st @ [pe_project e])
                   (so_sections st @ pe_sections e) (device_override s1 u)) (ActionOk None)
                   (st\<lparr>so_ids := s2\<rparr>) = Inr (m, st')"
    unfolding duplicateProject_def by (auto split: option.splits prod.splits sum.splits)
  obtain pid sm s3 s4 where "copied_tasks createId (to_iso now) d pid sm (filter (\<lambda>t. \<not> truthy (deletedAt t)) ?tasks) s3 =
      (pe_tasks e, s4)"
    using e unfolding projectDuplicateEffect_def by (auto split: prod.splits)
  from copied_tasks_new[OF this] have "new_task d (so_tasks st) y" if "y \<in> set (pe_tasks e)" for y
    using that by auto
  then show ?thesis
    by (intro commit_changed[OF c]) (use ensured_device[OF dev] in \<open>auto intro!: append_change\<close>)
qed simp

lemma checklist_task_new: "new_task d xs (checklist_task i title b c order d now)"
  by (auto simp: new_task_def checklist_task_def bare_task_def coherent_task_def marker_coherent_def isTaskFinished_def)

lemma checklist_tasks_new:
  "checklist_tasks createId now d container is orders s = Inr (ys, s') \<Longrightarrow> y \<in> set ys \<Longrightarrow> new_task d xs y"
proof (induction createId now d container "is" orders s arbitrary: ys s' rule: checklist_tasks.induct)
  case (2 createId now d container i "is" orders s)
  then show ?case by (auto split: if_splits sum.splits prod.splits intro: checklist_task_new)
qed simp

lemma convert_steps [task_steps]:
  assumes "convertTaskToSection createId now k st = Inr (r, st')" and "unique_ids st"
  shows "tasks_changed (to_iso now) st st'"
proof (cases "so_tasks st' = so_tasks st")
  case False
  let ?now = "to_iso now"
  let ?gone = "\<lambda>d source. touch ?now d (source\<lparr>deletedAt := Some ?now\<rparr>)"
  from False assms(1) obtain source projectId where src: "task_by_id st k = Some source"
    and w: "with_device createId st (\<lambda>settings1 deviceId updated st1.
                  (case createId (so_ids st1) of (sectionId, s) \<Rightarrow>
                    (let section2 = section_of_task sectionId projectId source
                           (projectSectionOrderMax (so_sections st) projectId + 1) deviceId ?now;
                         sections = so_sections st @ [section2];
                         container = resolveTaskContainerAssignment (Some projectId) (Some sectionId) None
                           (so_projects st) sections (so_areas st) None;
                         deletedSource = ?gone deviceId source
                     in case checklist_tasks createId ?now deviceId container
                            (or_else (t_checklist source) []) (getProjectOrderIndex (so_tasks st)) s of
                          Inl e \<Rightarrow> Inr (ActionFail e, st)
                        | Inr (created, s') \<Rightarrow>
                            commit now (no_overrides\<lparr>
                              ov_tasks := Some (replaceEntityInArray (so_tasks st) (eid source) deletedSource @ created),
                              ov_sections := Some sections,
                              ov_settings := device_override settings1 updated\<rparr>) (ActionOk (Some sectionId))
                              (st1\<lparr>so_ids := s'\<rparr>)))) = Inr (r, st')"
    unfolding convertTaskToSection_def by (auto split: option.splits if_splits)
  show ?thesis
  proof (rule with_device_deviceE[OF w])
    fix s1 d u s
    assume dev: "device_of (or_else (device_override s1 u) (so_settings st)) = Some d"
    assume "(case createId (so_ids (st\<lparr>so_ids := s\<rparr>)) of (sectionId, s2) \<Rightarrow>
                    (let section2 = section_of_task sectionId projectId source
                           (projectSectionOrderMax (so_sections st) projectId + 1) d ?now;
                         sections = so_sections st @ [section2];
                         container = resolveTaskContainerAssignment (Some projectId) (Some sectionId) None
                           (so_projects st) sections (so_areas st) None;
                         deletedSource = ?gone d source
                     in case checklist_tasks createId ?now d container
                            (or_else (t_checklist source) []) (getProjectOrderIndex (so_tasks st)) s2 of
                          Inl e \<Rightarrow> Inr (ActionFail e, st)
                        | Inr (created, s') \<Rightarrow>
                            commit now (no_overrides\<lparr>
                              ov_tasks := Some (replaceEntityInArray (so_tasks st) (eid source) deletedSource @ created),
                              ov_sections := Some sections,
                              ov_settings := device_override s1 u\<rparr>) (ActionOk (Some sectionId))
                              (st\<lparr>so_ids := s, so_ids := s'\<rparr>))) = Inr (r, st')"
    then obtain container orders created s2 s3 sections sid where
      cl: "checklist_tasks createId ?now d container (or_else (t_checklist source) []) orders s2 = Inr (created, s3)"
      and c: "commit now (no_overrides\<lparr>
          ov_tasks := Some (replaceEntityInArray (so_tasks st) (eid source) (?gone d source) @ created),
          ov_sections := Some sections, ov_settings := device_override s1 u\<rparr>) (ActionOk (Some sid))
          (st\<lparr>so_ids := s, so_ids := s3\<rparr>) = Inr (r, st')"
      using False by (auto simp: Let_def split: prod.splits sum.splits)
    have "replaceEntityInArray (so_tasks st) (eid source) (?gone d source) =
        map (\<lambda>x. if eid x = eid source then ?gone d source else x) (so_tasks st)"
      by (rule replace_one) (use assms(2) in \<open>simp_all add: unique_ids_def\<close>)
    moreover have "task_change ?now d x (if eid x = eid source then ?gone d source else x)" if "x \<in> set (so_tasks st)" for x
      using that task_by_id_member[OF src] assms(2) by (auto simp: unique_ids_def distinct_map inj_on_def intro!: touched)
    ultimately have "tasks_change ?now d (so_tasks st)
        (replaceEntityInArray (so_tasks st) (eid source) (?gone d source) @ created)"
      by (auto intro!: tasks_change_append tasks_change_map checklist_tasks_new[OF cl])
    then show ?thesis by (intro commit_changed[OF c]) (use dev in \<open>simp_all add: no_overrides_def\<close>)
  qed
qed simp

lemma mutateEntities_tasks:
  assumes "mutateEntities createId now entities overrides select change missing st = Inr (r, st')"
    and "\<And>ys. ov_tasks (overrides ys) = None"
  shows "so_tasks st' = so_tasks st"
  using assms unfolding mutateEntities_def Let_def
  by (auto split: if_splits option.splits elim!: with_device_deviceE dest!: commit_tasks)

lemma other_collections [task_steps]:
  "toggleProjectFocus createId now k st = Inr (r, st') \<Longrightarrow> tasks_changed (to_iso now) st st'"
  "addProject createId now title color pu st = Inr (p, st') \<Longrightarrow> tasks_changed (to_iso now) st st'"
  "addSection createId now k title sp st = Inr (x, st') \<Longrightarrow> tasks_changed (to_iso now) st st'"
  "updateSection createId now k sp st = Inr (r, st') \<Longrightarrow> tasks_changed (to_iso now) st st'"
  by (rule unchanged_tasks;
      auto simp: toggleProjectFocus_def addProject_def addSection_def updateSection_def Let_def no_overrides_def
        refuse_iff split: if_splits option.splits prod.splits sum.splits store_result.splits
        dest!: mutateEntities_tasks commit_tasks)+

end
