(* ===== verification/StoreRuns.thy ===== *)
theory StoreRuns
  imports CopyWrites MergeApp
begin

text \<open>
  Sequences of store actions. \<open>store_action\<close> lists the actions modelled, with the arguments of the
  functions of the store, and \<open>perform\<close> runs one. \<open>store_runs\<close> is the relation a sequence of actions
  spans, at any clock readings and whatever the flushes of the save queue report.
\<close>

datatype store_action =
    UpdateTask string task_patch
  | MoveTask string task_status
  | CancelTask string
  | SkipOccurrence string
  | BatchUpdate "(string \<times> task_patch) list"
  | BatchMove "string list" task_status
  | DeleteTask string
  | BatchDelete "string list"
  | RestoreTask string
  | RestoreTasks "string list"
  | PurgeTask string
  | PurgeTasks "string list"
  | PurgeDeletedTasks
  | ReorderFocused "string list"
  | ResetChecklist string
  | DuplicateTask string bool "string option"
  | ConvertToSection string
  | AddProject string string project_update
  | UpdateProject string project_update
  | CancelProject string
  | ToggleProjectFocus string
  | DuplicateProject string
  | DeleteProject string
  | RestoreProject string
  | PurgeProject string
  | PurgeDeletedProjects
  | AddSection string string section_patch
  | UpdateSection string section_patch
  | DeleteSection string
  | DeleteArea string
  | RestoreArea string

definition state_of :: "('r \<times> 's store) checked \<Rightarrow> 's store checked" where
  "state_of r = (case r of Inl e \<Rightarrow> Inl e | Inr (_, st) \<Rightarrow> Inr st)"

fun perform :: "host \<Rightarrow> 's id_supply \<Rightarrow> int \<Rightarrow> string option \<Rightarrow> store_action \<Rightarrow> 's store \<Rightarrow> 's store checked" where
  "perform h createId now flushed (UpdateTask k u) st = state_of (updateTask h createId now flushed k u st)"
| "perform h createId now flushed (MoveTask k s) st = state_of (moveTask h createId now flushed k s st)"
| "perform h createId now flushed (CancelTask k) st = state_of (cancelTask h createId now flushed k st)"
| "perform h createId now flushed (SkipOccurrence k) st =
     state_of (skipRecurringTaskOccurrence h createId now flushed k st)"
| "perform h createId now flushed (BatchUpdate us) st = state_of (batchUpdateTasks h createId now flushed us st)"
| "perform h createId now flushed (BatchMove ks s) st = state_of (batchMoveTasks h createId now flushed ks s st)"
| "perform h createId now flushed (DeleteTask k) st = state_of (deleteTask createId now k st)"
| "perform h createId now flushed (BatchDelete ks) st = state_of (batchDeleteTasks createId now ks st)"
| "perform h createId now flushed (RestoreTask k) st = state_of (restoreTask createId now k st)"
| "perform h createId now flushed (RestoreTasks ks) st = state_of (restoreTasks createId now ks st)"
| "perform h createId now flushed (PurgeTask k) st = state_of (purgeTask createId now k st)"
| "perform h createId now flushed (PurgeTasks ks) st = state_of (purgeTasks createId now ks st)"
| "perform h createId now flushed PurgeDeletedTasks st = state_of (purgeDeletedTasks createId now st)"
| "perform h createId now flushed (ReorderFocused ks) st = state_of (reorderFocusedTasks createId now ks st)"
| "perform h createId now flushed (ResetChecklist k) st = state_of (resetTaskChecklist createId now k st)"
| "perform h createId now flushed (DuplicateTask k b c) st = state_of (duplicateTask h createId now k b c st)"
| "perform h createId now flushed (ConvertToSection k) st = state_of (convertTaskToSection createId now k st)"
| "perform h createId now flushed (AddProject title color u) st = state_of (addProject createId now title color u st)"
| "perform h createId now flushed (UpdateProject k u) st = state_of (updateProject createId now k u st)"
| "perform h createId now flushed (CancelProject k) st = state_of (cancelProject createId now flushed k st)"
| "perform h createId now flushed (ToggleProjectFocus k) st = state_of (toggleProjectFocus createId now k st)"
| "perform h createId now flushed (DuplicateProject k) st = state_of (duplicateProject createId now k st)"
| "perform h createId now flushed (DeleteProject k) st = state_of (deleteProject createId now k st)"
| "perform h createId now flushed (RestoreProject k) st = state_of (restoreProject createId now k st)"
| "perform h createId now flushed (PurgeProject k) st = state_of (purgeProject createId now k st)"
| "perform h createId now flushed PurgeDeletedProjects st = state_of (purgeDeletedProjects createId now st)"
| "perform h createId now flushed (AddSection k title sp) st = state_of (addSection createId now k title sp st)"
| "perform h createId now flushed (UpdateSection k sp) st = state_of (updateSection createId now k sp st)"
| "perform h createId now flushed (DeleteSection k) st = state_of (deleteSection createId now k st)"
| "perform h createId now flushed (DeleteArea k) st = state_of (deleteArea createId now k st)"
| "perform h createId now flushed (RestoreArea k) st = state_of (restoreArea createId now k st)"

text \<open>The markers of a project's archive are set by the store alone, never by a caller's patch.\<close>

fun action_ok :: "store_action \<Rightarrow> bool" where
  "action_ok (UpdateTask k u) = no_marker_fields u"
| "action_ok (BatchUpdate us) = list_all (\<lambda>(_, u). no_marker_fields u) us"
| "action_ok _ = True"

lemma state_of_Inr: "state_of x = Inr st \<longleftrightarrow> (\<exists>r. x = Inr (r, st))"
  by (auto simp: state_of_def split: sum.splits)


lemma perform_tasks:
  assumes "perform h createId now flushed a st = Inr st'" and "unique_ids st" and "action_ok a"
  shows "tasks_changed (to_iso now) st st'"
  using assms
  by (cases a; simp only: perform.simps state_of_Inr action_ok.simps; elim exE)
    (erule task_steps; simp add: list_all_iff split_beta; force?)+



subsection \<open>Coherent tasks\<close>




subsection \<open>What reaches the save queue\<close>







subsection \<open>A change and the copy it changed\<close>

lemma nextRev_above:
  "0 \<le> n \<Longrightarrow> n < MAX_SYNC_REVISION \<Longrightarrow> nextRev (Some n) = n + 1"
  by (simp add: nextRev_def j_num_def j_opt_def nextRevision_eq normalizeRevision_id)

lemma changed_task:
  assumes "perform h createId now flushed a st = Inr st'" and "action_ok a" and "unique_ids st" and "unique_ids st'"
    and "x \<in> set (so_tasks st)" and "y \<in> set (so_tasks st')" and "eid y = eid x" and "y \<noteq> x"
  obtains d where "device_of (so_settings st') = Some d" "stamped (to_iso now) d x y"
proof -
  have "so_tasks st' \<noteq> so_tasks st"
    using assms(3,5-8) by (auto simp: unique_ids_def distinct_map inj_on_def)
  then obtain d f new where d: "device_of (so_settings st') = Some d"
    and f: "so_tasks st' = map f (so_tasks st) @ new" "\<forall>x\<in>set (so_tasks st). task_change (to_iso now) d x (f x)"
    using perform_tasks[OF assms(1,3,2)] by (auto simp: tasks_changed_def tasks_change_def)
  have "f x \<in> set (so_tasks st')" "eid (f x) = eid x"
    using f assms(5) by (auto simp: task_change_def stamped_def)
  then have "y = f x" using assms(4,6,7) by (auto simp: unique_ids_def distinct_map inj_on_def)
  then show thesis using that[OF d] f(2) assms(5,8) by (auto simp: task_change_def)
qed

text \<open>
  C16: A task that an action changed carries a stamp that wins over the copy it changed, on a device
  that merges the two: whatever the clocks said, unless one of them is deleted and the other not.
\<close>
theorem change_wins_over_its_copy:
  assumes "perform h createId now flushed a st = Inr st'" and "action_ok a" and "unique_ids st" and "unique_ids st'"
    and "x \<in> set (so_tasks st)" and "y \<in> set (so_tasks st')" and "eid y = eid x" and "y \<noteq> x"
    and "is_deleted y = is_deleted x" and "0 \<le> or_else (rev x) 0" and "or_else (rev x) 0 + 2 \<le> MAX_SYNC_REVISION"
  shows "fst (resolve_winner view maxMs (compare_pair ops maxMs y x) y x) = LocalSide \<and>
    fst (resolve_winner view maxMs (compare_pair ops maxMs x y) x y) = IncomingSide"
proof -
  obtain d where "stamped (to_iso now) d x y" using changed_task[OF assms(1-8)] by blast
  moreover have "nextRev (rev x) = or_else (rev x) 0 + 1"
    using assms(10,11) nextRev_above[of "or_else (rev x) 0"] first_rev by (cases "rev x") auto
  ultimately have "or_else (rev x) 0 < or_else (rev y) 0"
    using assms(10,11) nextRev_above[of "or_else (rev x) 0 + 1"] by (auto simp: stamped_def)
  then show ?thesis using assms(9,10)
    by (simp add: resolve_winner_def compare_pair_def resolve_same_state_def pi_revDiff_def Let_def)
qed

subsection \<open>A completed task\<close>

definition small_store :: "nat store" where
  "small_store = \<lparr>so_tasks = [sample_task ''t1'', (sample_task ''t2'')\<lparr>t_projectId := Some ''p1''\<rparr>],
     so_projects = [sample_project ''p1''], so_sections = [], so_areas = [], so_people = [],
     so_settings = empty_settings\<lparr>st_object := [(''deviceId'', JStr ''d1'')]\<rparr>, so_lastDataChangeAt = 0,
     so_error = None, so_failed = False, so_ids = 0, so_saves = []\<rparr>"

definition complete_action :: store_action where
  "complete_action = MoveTask ''t1'' Done"

definition completed_store :: "nat store" where
  "completed_store = (case perform calendar_host counting_supply 1709366400000 None complete_action small_store of
     Inr st \<Rightarrow> st | Inl _ \<Rightarrow> small_store)"

lemma completed_store: "perform calendar_host counting_supply 1709366400000 None complete_action small_store = Inr completed_store"
proof -
  have "case perform calendar_host counting_supply 1709366400000 None complete_action small_store of
      Inr p \<Rightarrow> True | Inl _ \<Rightarrow> False" by code_simp
  from inr_case[OF this] obtain st where p: "perform calendar_host counting_supply 1709366400000 None complete_action small_store = Inr st"
    by blast
  show ?thesis unfolding completed_store_def p by simp
qed

lemma small_unique: "unique_ids small_store" by code_simp

lemma completed_unique: "unique_ids completed_store" by code_simp



theorem change_wins_over_its_copy_witness:
  "fst (resolve_winner (mo_view (task_ops sample_env)) 0 (compare_pair (task_ops sample_env) 0 (hd (so_tasks completed_store)) (hd (so_tasks small_store)))
     (hd (so_tasks completed_store)) (hd (so_tasks small_store))) = LocalSide"
proof -
  have a: "hd (so_tasks small_store) \<in> set (so_tasks small_store)" "hd (so_tasks completed_store) \<in> set (so_tasks completed_store)"
    "eid (hd (so_tasks completed_store)) = eid (hd (so_tasks small_store))"
    "hd (so_tasks completed_store) \<noteq> hd (so_tasks small_store)"
    "is_deleted (hd (so_tasks completed_store)) = is_deleted (hd (so_tasks small_store))"
    "0 \<le> or_else (rev (hd (so_tasks small_store))) 0"
    "or_else (rev (hd (so_tasks small_store))) 0 + 2 \<le> MAX_SYNC_REVISION"
    by code_simp+
  show ?thesis
    using change_wins_over_its_copy[OF completed_store _ small_unique completed_unique a] by (simp add: complete_action_def)
qed

end
