(* ===== verification/TrashRestore.thy ===== *)
theory TrashRestore
  imports StoreRuns
begin

text \<open>
  The Trash: a deleted task comes back as it was, and a restored task is in live containers whatever
  happened to its project, section and area in between.
\<close>

subsection \<open>One task mutated\<close>

lemma js_map_unique:
  assumes "distinct (map eid xs)" and "x \<in> set xs"
  shows "js_map_of eid xs (eid x) = Some x"
proof -
  have "js_map_of eid xs (eid x) \<noteq> None" using assms(2) by (simp add: js_map_None_iff)
  then obtain z where z: "js_map_of eid xs (eid x) = Some z" by blast
  then show ?thesis using js_map_SomeD[OF z] assms by (auto simp: distinct_map inj_on_def)
qed

lemma mutate_one:
  assumes "mutateTasks createId now (mutation_of (selected_by_id k P) upd m) st = Inr (r, st')" and "unique_ids st"
    and "task_by_id st k = Some t" and "P t"
  obtains d where "task_by_id st' k = Some (mutated (to_iso now) d (upd st (to_iso now)) t)"
    and "so_projects st' = so_projects st" and "so_sections st' = so_sections st" and "so_areas st' = so_areas st"
    and "map eid (so_tasks st') = map eid (so_tasks st)"
proof -
  let ?g = "\<lambda>d. mutated (to_iso now) d (upd st (to_iso now))"
  let ?ov = "\<lambda>s1 d u. no_overrides\<lparr>ov_tasks := Some (replaceEntitiesInArray (so_tasks st) (map (?g d) [t])),
    ov_settings := if u then Some s1 else None\<rparr>"
  have sel: "selected_by_id k P st = [t]" using assms(3,4) by (simp add: selected_by_id_def)
  then obtain s1 d u s where c: "commit now (?ov s1 d u) (ActionOk None) (st\<lparr>so_ids := s\<rparr>) = Inr (r, st')"
    using assms(1) unfolding mutateTasks_def Let_def
    by (auto simp: planTaskMutations_map elim!: with_deviceE)
  have one: "[t] = filter (\<lambda>x. eid x = k \<and> P x) (so_tasks st)"
    using selected_filter[OF assms(2), of k P] sel by simp
  have ts: "so_tasks st' = map (\<lambda>x. if eid x = k \<and> P x then ?g d x else x) (so_tasks st)"
    unfolding commit_wrote(3)[OF c] using assms(2)
    by (simp add: write_overrides_def no_overrides_def unique_ids_def one replace_filtered del: list.map(2))
  note t = task_by_id_member[OF assms(3)]
  have ids: "map eid (so_tasks st') = map eid (so_tasks st)" by (simp add: ts)
  have "?g d t \<in> set (so_tasks st')" using t assms(4) unfolding ts by force
  then have "js_map_of eid (so_tasks st') (eid (?g d t)) = Some (?g d t)"
    using ids assms(2) by (intro js_map_unique) (simp add: unique_ids_def)
  then have "task_by_id st' k = Some (?g d t)" using t by (simp add: task_by_id_def)
  moreover have "so_projects st' = so_projects st" "so_sections st' = so_sections st" "so_areas st' = so_areas st"
    unfolding commit_wrote(3)[OF c] by (simp_all add: write_overrides_def no_overrides_def)
  ultimately show thesis using that ids by blast
qed

subsection \<open>Restored containers\<close>

definition restored_containers :: "'s store \<Rightarrow> task \<Rightarrow> container_assignment" where
  "restored_containers st t = sanitizeRestoredTaskContainerReferences t st"

lemma live_projects: "p \<in> live_project_ids st \<Longrightarrow> live_with_id p (so_projects st)"
  by (auto simp: live_project_ids_def live_with_id_def list_ex_iff is_deleted_def)

lemma sanitized_live:
  assumes "c = sanitizeRestoredTaskContainerReferences t st" and "ca_projectId c = t_projectId y"
    and "ca_sectionId c = t_sectionId y" and "ca_areaId c = t_areaId y"
  shows "live_containers (so_projects st) (so_sections st) (so_areas st) y"
proof -
  let ?p = "normalizeOptionalContainerId (t_projectId t)"
  let ?s = "normalizeOptionalContainerId (t_sectionId t)"
  define liveSection where "liveSection = (case ?s of None \<Rightarrow> None
      | Some k \<Rightarrow> find (\<lambda>s. eid s = k \<and> \<not> truthy (deletedAt s)) (so_sections st))"
  define sp where "sp = (case liveSection of None \<Rightarrow> None
      | Some s \<Rightarrow> if s_projectId s \<in> live_project_ids st then Some (s_projectId s) else None)"
  define p where "p = (case ?p of None \<Rightarrow> None | Some p \<Rightarrow> if p \<in> live_project_ids st then Some p else None)"
  define s where "s = (if truthy sp then ?s else None)"
  define a where "a = normalizeOptionalContainerId (t_areaId t)"
  define r where "r = resolveTaskContainerHierarchy p s a sp"
  have c: "c = (if truthy (ca_areaId r) \<and>
      \<not> list_ex (\<lambda>a. Some (eid a) = ca_areaId r \<and> \<not> truthy (deletedAt a)) (so_areas st) then r\<lparr>ca_areaId := None\<rparr> else r)"
    by (simp add: assms(1) sanitizeRestoredTaskContainerReferences_def Let_def r_def a_def s_def p_def sp_def liveSection_def)
  have live_sp: "\<exists>z\<in>set (so_sections st). Some (eid z) = ?s \<and> Some (s_projectId z) = sp \<and> \<not> is_deleted z \<and>
      live_with_id (the sp) (so_projects st)" if some: "truthy sp"
  proof -
    obtain z where z: "liveSection = Some z" "s_projectId z \<in> live_project_ids st" "sp = Some (s_projectId z)"
      using some by (auto simp: sp_def split: option.splits if_splits)
    then obtain k where "?s = Some k" "find (\<lambda>s. eid s = k \<and> \<not> truthy (deletedAt s)) (so_sections st) = Some z"
      by (auto simp: liveSection_def split: option.splits)
    then have "?s = Some (eid z) \<and> z \<in> set (so_sections st) \<and> \<not> is_deleted z"
      by (auto simp: find_Some_iff is_deleted_def)
    then show ?thesis using z(2,3) live_projects by (intro bexI[of _ z]) auto
  qed
  have live_p: "live_with_id (the p) (so_projects st)" if "truthy p"
    using that live_projects by (auto simp: p_def split: option.splits if_splits)
  have r: "\<not> (truthy (ca_projectId r) \<and> truthy (ca_areaId r)) \<and>
      (ca_projectId r = p \<or> ca_projectId r = sp \<and> truthy sp) \<and>
      (truthy (ca_sectionId r) \<longrightarrow> ca_sectionId r = ?s \<and> truthy sp \<and> ca_projectId r = sp)"
    by (auto simp: r_def resolveTaskContainerHierarchy_def s_def Let_def)
  have cr: "ca_projectId c = ca_projectId r" "ca_sectionId c = ca_sectionId r"
    "ca_areaId c = ca_areaId r \<or> ca_areaId c = None"
    "truthy (ca_areaId c) \<Longrightarrow> list_ex (\<lambda>a. Some (eid a) = ca_areaId c \<and> \<not> truthy (deletedAt a)) (so_areas st)"
    by (auto simp: c)
  have "truthy (ca_areaId c) \<longrightarrow> live_with_id (the (ca_areaId c)) (so_areas st)"
    using cr(4) by (cases "ca_areaId c") (auto simp: live_with_id_def list_ex_iff is_deleted_def)
  moreover have "truthy (ca_projectId r) \<longrightarrow> live_with_id (the (ca_projectId r)) (so_projects st)"
    using r live_p live_sp by auto
  moreover have "truthy (ca_sectionId r) \<longrightarrow> (\<exists>z\<in>set (so_sections st). Some (eid z) = ca_sectionId r \<and>
      Some (s_projectId z) = ca_projectId r \<and> \<not> is_deleted z)"
    using r live_sp by metis
  moreover have "\<not> (truthy (ca_projectId r) \<and> truthy (ca_areaId c))" using r cr(3) by auto
  ultimately show ?thesis
    unfolding live_containers_def assms(2-4)[symmetric] cr(1,2) by blast
qed

text \<open>
  A task restored from the Trash is live again and stands in live containers: its section, if it
  has one, is live and in its project, its project and its area are live, and it never has both.
\<close>
theorem restored_task_in_live_containers:
  assumes "restoreTask createId now k st = Inr (r, st')" and "unique_ids st"
    and "task_by_id st k = Some t" and "\<not> truthy (t_purgedAt t)"
  shows "\<exists>y. task_by_id st' k = Some y \<and> deletedAt y = None \<and>
    live_containers (so_projects st') (so_sections st') (so_areas st') y"
proof -
  obtain d where y: "task_by_id st' k = Some (mutated (to_iso now) d (restored_patch st) t)"
    and c: "so_projects st' = so_projects st" "so_sections st' = so_sections st" "so_areas st' = so_areas st"
    using assms by (auto simp: restoreTask_def elim!: mutate_one)
  let ?y = "mutated (to_iso now) d (restored_patch st) t"
  have f: "deletedAt ?y = None" "t_projectId ?y = ca_projectId (sanitizeRestoredTaskContainerReferences t st)"
    "t_sectionId ?y = ca_sectionId (sanitizeRestoredTaskContainerReferences t st)"
    "t_areaId ?y = ca_areaId (sanitizeRestoredTaskContainerReferences t st)"
    using assms(4) by (simp_all add: mutated_def restored_patch_def compactPurgedTaskForLocalStorage_def no_patch_def Let_def)
  show ?thesis
    using y f(1) sanitized_live[OF refl, of t st ?y] f(2-4) unfolding c by auto
qed

subsection \<open>Deleted and restored\<close>

text \<open>The identifiers a task stores are the trimmed ones the container checks compare.\<close>

definition clean_ids :: "task \<Rightarrow> bool" where
  "clean_ids t = (normalizeOptionalContainerId (t_projectId t) = t_projectId t \<and>
     normalizeOptionalContainerId (t_sectionId t) = t_sectionId t \<and>
     normalizeOptionalContainerId (t_areaId t) = t_areaId t)"

lemma clean_truthy: "clean_ids t \<Longrightarrow> (truthy (t_projectId t) \<longleftrightarrow> t_projectId t \<noteq> None) \<and>
    (truthy (t_sectionId t) \<longleftrightarrow> t_sectionId t \<noteq> None) \<and> (truthy (t_areaId t) \<longleftrightarrow> t_areaId t \<noteq> None)"
  by (cases "t_projectId t"; cases "t_sectionId t"; cases "t_areaId t")
    (auto simp: clean_ids_def dest: container_id_nonempty)

definition purged_deleted :: "'s store \<Rightarrow> bool" where
  "purged_deleted st = list_all (\<lambda>p. truthy (p_purgedAt p) \<longrightarrow> truthy (deletedAt p)) (so_projects st)"

lemma live_project_id: "live_with_id k (so_projects st) \<Longrightarrow> purged_deleted st \<Longrightarrow> k \<in> live_project_ids st"
  by (auto simp: live_project_ids_def live_with_id_def list_ex_iff is_deleted_def purged_deleted_def list_all_iff)

lemma find_live_section:
  assumes "distinct (map eid ss)" and "z \<in> set ss" and "\<not> truthy (deletedAt z)"
  shows "find (\<lambda>s. eid s = eid z \<and> \<not> truthy (deletedAt s)) ss = Some z"
proof (cases "find (\<lambda>s. eid s = eid z \<and> \<not> truthy (deletedAt s)) ss")
  case None
  then show ?thesis using assms(2,3) by (auto simp: find_None_iff)
next
  case (Some y)
  then have "y \<in> set ss" "eid y = eid z" by (auto simp: find_Some_iff)
  then show ?thesis using Some assms(1,2) by (auto simp: distinct_map inj_on_def)
qed

lemma sanitize_intact:
  assumes "live_containers (so_projects st) (so_sections st) (so_areas st) t" and "clean_ids t"
    and "distinct (map eid (so_sections st))" and "purged_deleted st"
  shows "sanitizeRestoredTaskContainerReferences t st =
    \<lparr>ca_projectId = t_projectId t, ca_sectionId = t_sectionId t, ca_areaId = t_areaId t\<rparr>"
proof -
  note n = assms(2)[unfolded clean_ids_def] and tr = clean_truthy[OF assms(2)]
  have p: "(case t_projectId t of None \<Rightarrow> None | Some p \<Rightarrow> if p \<in> live_project_ids st then Some p else None) = t_projectId t"
    using assms(1) tr live_project_id[OF _ assms(4)] by (auto simp: live_containers_def split: option.splits)
  have a: "\<not> (truthy (t_areaId t) \<and>
      \<not> list_ex (\<lambda>a. Some (eid a) = t_areaId t \<and> \<not> truthy (deletedAt a)) (so_areas st))"
    using assms(1) by (cases "t_areaId t") (auto simp: live_containers_def live_with_id_def list_ex_iff is_deleted_def)
  have pa: "\<not> (truthy (t_areaId t) \<and> truthy (t_projectId t))" using assms(1) by (auto simp: live_containers_def)
  show ?thesis
  proof (cases "t_sectionId t")
    case None
    then show ?thesis using n p a pa
      by (auto simp: sanitizeRestoredTaskContainerReferences_def resolveTaskContainerHierarchy_def Let_def)
  next
    case (Some k)
    then have ts: "truthy (t_sectionId t)" using tr by simp
    then obtain z where z: "z \<in> set (so_sections st)" "Some (eid z) = t_sectionId t" "Some (s_projectId z) = t_projectId t"
      "\<not> is_deleted z" using assms(1) by (auto simp: live_containers_def)
    have "find (\<lambda>s. eid s = k \<and> \<not> truthy (deletedAt s)) (so_sections st) = Some z"
      using find_live_section[OF assms(3) z(1)] z(2,4) Some by (simp add: is_deleted_def)
    moreover have tp: "truthy (t_projectId t)" using z(3) tr by (metis option.distinct(1))
    moreover have "s_projectId z \<in> live_project_ids st"
      using assms(1) tp live_project_id[OF _ assms(4)] z(3) unfolding live_containers_def by (metis option.sel)
    ultimately show ?thesis using n p a pa Some ts z(3)
      by (simp add: sanitizeRestoredTaskContainerReferences_def resolveTaskContainerHierarchy_def Let_def)
  qed
qed

lemma deleted_fields:
  assumes "\<not> truthy (t_purgedAt t)"
  shows "mutated now d (\<lambda>t. deleted_patch now) t =
    t\<lparr>deletedAt := Some now, updatedAt := now, rev := Some (nextRev (rev t)), revBy := Some d\<rparr>"
  using assms by (simp add: mutated_def deleted_patch_def compactPurgedTaskForLocalStorage_def no_patch_def)

text \<open>
  Deleting a task and restoring it gives the task back as it was, with two revisions more and the
  time and the device of the restoration, when its containers are the live ones it was in.
\<close>
theorem deleted_task_comes_back:
  assumes "deleteTask createId now k st = Inr (r1, st1)" and "restoreTask createId later k st1 = Inr (r2, st2)"
    and "unique_ids st" and "task_by_id st k = Some t" and "deletedAt t = None" and "\<not> truthy (t_purgedAt t)"
    and "live_containers (so_projects st) (so_sections st) (so_areas st) t" and "clean_ids t"
    and "distinct (map eid (so_sections st))" and "purged_deleted st"
  shows "\<exists>d. task_by_id st2 k = Some (t\<lparr>updatedAt := to_iso later,
    rev := Some (nextRev (Some (nextRev (rev t)))), revBy := Some d\<rparr>)"
proof -
  obtain d where t1: "task_by_id st1 k = Some (mutated (to_iso now) d (\<lambda>t. deleted_patch (to_iso now)) t)"
    and c: "so_projects st1 = so_projects st" "so_sections st1 = so_sections st" "so_areas st1 = so_areas st"
    and ids: "map eid (so_tasks st1) = map eid (so_tasks st)"
    using mutate_one[OF assms(1)[unfolded deleteTask_def] assms(3,4)] by blast
  let ?t1 = "t\<lparr>deletedAt := Some (to_iso now), updatedAt := to_iso now, rev := Some (nextRev (rev t)), revBy := Some d\<rparr>"
  have t1': "task_by_id st1 k = Some ?t1" using t1 deleted_fields[OF assms(6)] by simp
  have u: "unique_ids st1" using assms(3) ids by (simp add: unique_ids_def)
  obtain d2 where t2: "task_by_id st2 k = Some (mutated (to_iso later) d2 (restored_patch st1) ?t1)"
    using mutate_one[OF assms(2)[unfolded restoreTask_def] u t1'] assms(6) by auto
  have "sanitizeRestoredTaskContainerReferences ?t1 st1 =
      \<lparr>ca_projectId = t_projectId t, ca_sectionId = t_sectionId t, ca_areaId = t_areaId t\<rparr>"
    using sanitize_intact[of st1 ?t1] assms(7-10) unfolding c
    by (simp add: live_containers_def clean_ids_def purged_deleted_def c)
  then have "mutated (to_iso later) d2 (restored_patch st1) ?t1 = t\<lparr>updatedAt := to_iso later,
      rev := Some (nextRev (Some (nextRev (rev t)))), revBy := Some d2\<rparr>"
    using assms(5,6)
    by (simp add: mutated_def restored_patch_def compactPurgedTaskForLocalStorage_def no_patch_def Let_def)
  then have "task_by_id st2 k = Some (t\<lparr>updatedAt := to_iso later,
      rev := Some (nextRev (Some (nextRev (rev t)))), revBy := Some d2\<rparr>)" using t2 by simp
  then show ?thesis by blast
qed

subsection \<open>Witnesses\<close>

text \<open>The second task of the sample store is deleted, and restored once with its project in the store
  and once after the project is gone.\<close>

definition delete_sample :: "store_result \<times> nat store" where
  "delete_sample = (case deleteTask counting_supply 1709366400000 ''t2'' small_store of Inr r \<Rightarrow> r | Inl _ \<Rightarrow> (ActionOk None, small_store))"

definition restore_sample :: "nat store \<Rightarrow> store_result \<times> nat store" where
  "restore_sample st = (case restoreTask counting_supply 1709366500000 ''t2'' st of Inr r \<Rightarrow> r | Inl _ \<Rightarrow> (ActionOk None, st))"

definition orphaned_sample :: "nat store" where
  "orphaned_sample = (snd delete_sample)\<lparr>so_projects := []\<rparr>"

lemma inr_value: "(case r of Inl _ \<Rightarrow> False | Inr _ \<Rightarrow> True) \<Longrightarrow> v = (case r of Inr x \<Rightarrow> x | Inl _ \<Rightarrow> y) \<Longrightarrow> r = Inr (fst v, snd v)"
  by (cases r) auto

lemma delete_sample: "deleteTask counting_supply 1709366400000 ''t2'' small_store = Inr (fst delete_sample, snd delete_sample)"
proof -
  have "case deleteTask counting_supply 1709366400000 ''t2'' small_store of Inr p \<Rightarrow> True | Inl _ \<Rightarrow> False" by code_simp
  then show ?thesis using delete_sample_def by (rule inr_value)
qed

lemma restore_sample:
  assumes "st = snd delete_sample \<or> st = orphaned_sample"
  shows "restoreTask counting_supply 1709366500000 ''t2'' st = Inr (fst (restore_sample st), snd (restore_sample st))"
proof -
  have a: "case restoreTask counting_supply 1709366500000 ''t2'' (snd delete_sample) of Inr p \<Rightarrow> True | Inl _ \<Rightarrow> False" by code_simp
  have "case restoreTask counting_supply 1709366500000 ''t2'' orphaned_sample of Inr p \<Rightarrow> True | Inl _ \<Rightarrow> False" by code_simp
  then have "case restoreTask counting_supply 1709366500000 ''t2'' st of Inr p \<Rightarrow> True | Inl _ \<Rightarrow> False"
    using a assms by (elim disjE) (simp_all only:)
  then show ?thesis using restore_sample_def by (rule inr_value)
qed

theorem restored_task_in_live_containers_witness:
  "map t_projectId (so_tasks orphaned_sample) = [None, Some ''p1''] \<and>
   (\<exists>y. task_by_id (snd (restore_sample orphaned_sample)) ''t2'' = Some y \<and> deletedAt y = None \<and>
     live_containers (so_projects (snd (restore_sample orphaned_sample))) (so_sections (snd (restore_sample orphaned_sample)))
       (so_areas (snd (restore_sample orphaned_sample))) y)"
proof
  show "map t_projectId (so_tasks orphaned_sample) = [None, Some ''p1'']" by code_simp
  have u: "unique_ids orphaned_sample" by code_simp
  have t: "task_by_id orphaned_sample ''t2'' = Some (so_tasks orphaned_sample ! 1)" by code_simp
  have p: "\<not> truthy (t_purgedAt (so_tasks orphaned_sample ! 1))" by code_simp
  show "\<exists>y. task_by_id (snd (restore_sample orphaned_sample)) ''t2'' = Some y \<and> deletedAt y = None \<and>
     live_containers (so_projects (snd (restore_sample orphaned_sample))) (so_sections (snd (restore_sample orphaned_sample)))
       (so_areas (snd (restore_sample orphaned_sample))) y"
    by (rule restored_task_in_live_containers[OF restore_sample u t p]) simp
qed

theorem deleted_task_comes_back_witness:
  "\<exists>d. task_by_id (snd (restore_sample (snd delete_sample))) ''t2'' = Some ((so_tasks small_store ! 1)\<lparr>
     updatedAt := to_iso 1709366500000, rev := Some (nextRev (Some (nextRev (rev (so_tasks small_store ! 1))))), revBy := Some d\<rparr>)"
proof (rule deleted_task_comes_back[OF delete_sample restore_sample small_unique])
  show "task_by_id small_store ''t2'' = Some (so_tasks small_store ! 1)" by code_simp
  show "live_containers (so_projects small_store) (so_sections small_store) (so_areas small_store) (so_tasks small_store ! 1)"
    by code_simp
  show "deletedAt (so_tasks small_store ! 1) = None" "\<not> truthy (t_purgedAt (so_tasks small_store ! 1))"
    "clean_ids (so_tasks small_store ! 1)" "distinct (map eid (so_sections small_store))" "purged_deleted small_store"
    by code_simp+
qed simp

end
